(* ===== verification/Team_Prelude.thy ===== *)
theory Team_Prelude
  imports
    Main
    "HOL-Library.AList"
    "HOL-Library.Char_ord"
    "HOL-Library.List_Lexorder"
    "HOL-Library.Product_Lexorder"
begin

text \<open>
  Shared vocabulary of the development: the containers of the Rust standard library as the
  model sees them, loops that may panic, and the lemmas the component theories share.

  \<^item> \<open>HashMap<K, V>\<close> is an association list with distinct keys. The order of the list is
    the map's iteration order, which Rust leaves unspecified; a property proved for every
    such list holds for every iteration order.
  \<^item> \<open>BTreeMap<K, V>\<close> is an association list sorted by key, \<open>bt_insert\<close> its insertion.
  \<^item> \<open>BTreeSet<String>\<close> collected from an iterator is \<open>bt_set\<close>.
  \<^item> \<open>VecDeque\<close> and \<open>Vec\<close> are lists.
  \<^item> Rust's \<open>String\<close> is \<open>string\<close>, one \<open>char\<close> for each UTF-8 byte, with its byte-wise
    lexicographic order (HOL-Library.List_Lexorder over Char_ord).
  \<^item> a loop whose body may panic is \<open>opt_fold\<close>: \<open>None\<close> is the panic.
\<close>

type_synonym ident = string
type_synonym timestamp = int \<comment> \<open>\<open>TimestampMs = i64\<close>\<close>
type_synonym 'v hash_map = "(ident \<times> 'v) list"
type_synonym 'v btree_map = "(ident \<times> 'v) list"

named_theorems map_simps \<open>lookups in the container models after an update\<close>
named_theorems wf_intros \<open>operations keep container models well formed\<close>

subsection \<open>Hash maps\<close>

abbreviation hm_get :: "'v hash_map \<Rightarrow> ident \<Rightarrow> 'v option" where
  "hm_get m k \<equiv> map_of m k"

abbreviation hm_insert :: "ident \<Rightarrow> 'v \<Rightarrow> 'v hash_map \<Rightarrow> 'v hash_map" where
  "hm_insert k v m \<equiv> AList.update k v m"

abbreviation hm_remove :: "ident \<Rightarrow> 'v hash_map \<Rightarrow> 'v hash_map" where
  "hm_remove k m \<equiv> AList.delete k m"

abbreviation hm_modify :: "ident \<Rightarrow> ('v \<Rightarrow> 'v) \<Rightarrow> 'v hash_map \<Rightarrow> 'v hash_map" where
  "hm_modify k f m \<equiv> AList.map_entry k f m"

abbreviation hm_wf :: "'v hash_map \<Rightarrow> bool" where
  "hm_wf m \<equiv> distinct (map fst m)"

lemma map_of_hm_insert [map_simps]: "map_of (AList.update k v m) i = (if i = k then Some v else map_of m i)"
  by (simp add: update_conv')

lemma map_of_hm_remove [map_simps]: "map_of (AList.delete k m) i = (if i = k then None else map_of m i)"
  by (simp add: delete_conv')

lemma map_of_hm_modify [map_simps]:
  "map_of (AList.map_entry k f m) i = (if i = k then map_option f (map_of m k) else map_of m i)"
  by (induction m) auto

lemma keys_hm_modify [simp]: "map fst (AList.map_entry k f m) = map fst m"
  by (induction m) auto

lemma hm_wf_insert [wf_intros]: "hm_wf m \<Longrightarrow> hm_wf (AList.update k v m)"
  by (rule distinct_update)

lemma hm_wf_remove [wf_intros]: "hm_wf m \<Longrightarrow> hm_wf (AList.delete k m)"
  by (rule distinct_delete)

lemma hm_wf_modify [wf_intros]: "hm_wf m \<Longrightarrow> hm_wf (AList.map_entry k f m)"
  by simp

lemma hm_wf_entry: "hm_wf m \<Longrightarrow> (k, v) \<in> set m \<longleftrightarrow> map_of m k = Some v"
  by (simp add: map_of_eq_Some_iff)

text \<open>A property of every value of a map is a property of every lookup.\<close>

lemma hm_values_iff: "hm_wf m \<Longrightarrow> (\<exists>v \<in> set (map snd m). P v) \<longleftrightarrow> (\<exists>k v. map_of m k = Some v \<and> P v)"
  by (force simp: map_of_eq_Some_iff)

lemma map_entry_map_of: "hm_wf m \<Longrightarrow> map_of (map (\<lambda>(k, v). (k, f v)) m) i = map_option f (map_of m i)"
  by (induction m) auto

subsection \<open>B-tree maps and sets\<close>

fun bt_insert :: "ident \<Rightarrow> 'v \<Rightarrow> 'v btree_map \<Rightarrow> 'v btree_map" where
  "bt_insert k v [] = [(k, v)]"
| "bt_insert k v ((a, b) # m) =
     (if k < a then (k, v) # (a, b) # m
      else if k = a then (k, v) # m
      else (a, b) # bt_insert k v m)"

abbreviation bt_wf :: "'v btree_map \<Rightarrow> bool" where
  "bt_wf m \<equiv> sorted_wrt (<) (map fst m)"

lemma map_of_bt_insert [map_simps]: "map_of (bt_insert k v m) i = (if i = k then Some v else map_of m i)"
  by (induction k v m rule: bt_insert.induct) auto

lemma keys_bt_insert: "fst ` set (bt_insert k v m) = insert k (fst ` set m)"
  by (induction k v m rule: bt_insert.induct) auto

lemma bt_wf_insert [wf_intros]: "bt_wf m \<Longrightarrow> bt_wf (bt_insert k v m)"
proof (induction k v m rule: bt_insert.induct)
  case (2 k v a b m)
  then show ?case
    using keys_bt_insert [of k v m] by (force simp: image_iff)
qed simp

lemma bt_wf_distinct: "bt_wf m \<Longrightarrow> distinct (map fst m)"
  by (simp add: strict_sorted_iff)

definition bt_set :: "ident list \<Rightarrow> ident list" where
  "bt_set xs = sort (remdups xs)"

lemma set_bt_set [simp]: "set (bt_set xs) = set xs"
  by (simp add: bt_set_def)

lemma distinct_bt_set [simp]: "distinct (bt_set xs)"
  by (simp add: bt_set_def)

subsection \<open>Loops that may panic\<close>

fun opt_fold :: "('a \<Rightarrow> 's \<Rightarrow> 's option) \<Rightarrow> 'a list \<Rightarrow> 's \<Rightarrow> 's option" where
  "opt_fold f [] s = Some s"
| "opt_fold f (x # xs) s = (case f x s of None \<Rightarrow> None | Some s' \<Rightarrow> opt_fold f xs s')"

lemma opt_fold_append:
  "opt_fold f (xs @ ys) s = (case opt_fold f xs s of None \<Rightarrow> None | Some s' \<Rightarrow> opt_fold f ys s')"
  by (induction xs arbitrary: s) (auto split: option.splits)

text \<open>The loop rule: an invariant every iteration keeps, with no panic, holds at the end.\<close>

lemma opt_fold_inv:
  assumes "I s"
    and "\<And>x s. x \<in> set xs \<Longrightarrow> I s \<Longrightarrow> \<exists>s'. f x s = Some s' \<and> I s'"
  shows "\<exists>s'. opt_fold f xs s = Some s' \<and> I s'"
  using assms
proof (induction xs arbitrary: s)
  case (Cons x xs)
  then obtain s' where "f x s = Some s'" "I s'" by fastforce
  with Cons show ?case by simp
qed simp

subsection \<open>Machine integers\<close>

definition u64_max :: nat where "u64_max = 2 ^ 64 - 1"

text \<open>\<open>u64::saturating_add\<close> and the wrapping \<open>AtomicU64::fetch_add\<close>.\<close>

definition u64_saturating_add :: "nat \<Rightarrow> nat \<Rightarrow> nat" where
  "u64_saturating_add a b = min (a + b) u64_max"

definition u64_wrapping_add :: "nat \<Rightarrow> nat \<Rightarrow> nat" where
  "u64_wrapping_add a b = (a + b) mod 2 ^ 64"

text \<open>Code equations over \<open>int\<close>, whose numerals are binary.\<close>

lemma int_u64_max: "int u64_max = 2 ^ 64 - 1"
  by (simp add: u64_max_def of_nat_diff)

lemma u64_saturating_add_code [code]:
  "u64_saturating_add a b = nat (min (int a + int b) (2 ^ 64 - 1))"
  unfolding u64_saturating_add_def int_u64_max [symmetric] of_nat_add [symmetric] of_nat_min [symmetric] nat_int ..

lemma u64_wrapping_add_code [code]: "u64_wrapping_add a b = nat ((int a + int b) mod 2 ^ 64)"
proof -
  have "(2 :: int) ^ 64 = int (2 ^ 64)" by simp
  then show ?thesis
    unfolding u64_wrapping_add_def by (simp only: of_nat_add [symmetric] of_nat_mod [symmetric] nat_int)
qed

definition i64_min :: int where "i64_min = - (2 ^ 63)"
definition i64_max :: int where "i64_max = 2 ^ 63 - 1"

definition i64_saturating_sub :: "int \<Rightarrow> int \<Rightarrow> int" where
  "i64_saturating_sub a b = max i64_min (min i64_max (a - b))"

lemma u64_saturating_add_bound: "u64_saturating_add a b \<le> u64_max"
  by (simp add: u64_saturating_add_def)

lemma u64_saturating_add_less: "a < u64_max \<Longrightarrow> a < u64_saturating_add a 1"
  by (simp add: u64_saturating_add_def)

subsection \<open>Options and lists\<close>

abbreviation is_some :: "'a option \<Rightarrow> bool" where
  "is_some x \<equiv> x \<noteq> None"

lemma find_append: "find P (xs @ ys) = (case find P xs of None \<Rightarrow> find P ys | Some x \<Rightarrow> Some x)"
  by (induction xs) auto

lemma find_SomeD: "find P xs = Some x \<Longrightarrow> x \<in> set xs \<and> P x"
  by (induction xs) (auto split: if_splits)

lemma map_filter_Nil_iff: "List.map_filter f xs = [] \<longleftrightarrow> (\<forall>x \<in> set xs. f x = None)"
  by (induction xs) (auto simp: List.map_filter_simps split: option.splits)

lemma map_filter_cong:
  "(\<And>x. x \<in> set xs \<Longrightarrow> f x = g x) \<Longrightarrow> List.map_filter f xs = List.map_filter g xs"
  by (induction xs) (auto simp: List.map_filter_simps split: option.splits)

lemma set_map_filter: "set (List.map_filter f xs) = {y. \<exists>x \<in> set xs. f x = Some y}"
  by (induction xs) (auto simp: List.map_filter_simps split: option.splits)

end
