(* ===== verification/Team_Errors.thy ===== *)
theory Team_Errors
  imports Team_Prelude
begin

text \<open>
  The error types of the store and of the team crate: \<open>DbError\<close> (crates/store/src/error.rs)
  and \<open>TeamError\<close> (crates/team/src/error.rs), with the \<open>Display\<close> text that \<open>thiserror\<close>
  derives from the \<open>#[error(...)]\<close> attributes, and the public error codes that
  \<open>classify_public_error\<close> reads back from a message. A fallible Rust function returns
  \<open>error + 'a\<close> here, \<open>Inl\<close> the error.
\<close>

datatype db_error =
    Query string
  | Migration string
  | NotFound string
  | Conflict string
  | Init string

fun db_error_display :: "db_error \<Rightarrow> string" where
  "db_error_display (Query m) = ''Database query failed: '' @ m"
| "db_error_display (Migration m) = ''Migration failed: '' @ m"
| "db_error_display (NotFound m) = ''Record not found: '' @ m"
| "db_error_display (Conflict m) = ''Duplicate record: '' @ m"
| "db_error_display (Init m) = ''Database initialization failed: '' @ m"

text \<open>
  \<open>TeamError\<close>. The payload of \<open>Json\<close> is an opaque \<open>serde_json::Error\<close>, of which the
  team crate uses the displayed text only.
\<close>

datatype team_error =
    TeamNotFound string
  | AgentNotFound string
  | TaskNotFound string
  | InvalidRequest string
  | LeaderOnly string
  | Forbidden string
  | SessionNotFound string
  | BlockedTaskNotFound string
  | BackendNotAllowed string
  | DuplicateAgentName string
  | RuntimeNotReady ident
  | MemberRuntimeFailed ident ident ident string
  | WorkspacePathUnavailable string
  | WorkspacePathRuntimeUnavailable string
  | Database db_error
  | Json string

fun team_error_display :: "team_error \<Rightarrow> string" where
  "team_error_display (TeamNotFound m) = ''Team not found: '' @ m"
| "team_error_display (AgentNotFound m) = ''Agent not found: '' @ m"
| "team_error_display (TaskNotFound m) = ''Task not found: '' @ m"
| "team_error_display (InvalidRequest m) = ''Invalid request: '' @ m"
| "team_error_display (LeaderOnly m) = ''Leader-only action: '' @ m"
| "team_error_display (Forbidden m) = ''Forbidden: '' @ m"
| "team_error_display (SessionNotFound m) = ''Session not found: '' @ m"
| "team_error_display (BlockedTaskNotFound m) = ''Blocked task not found: '' @ m"
| "team_error_display (BackendNotAllowed m) = ''Backend not allowed: '' @ m"
| "team_error_display (DuplicateAgentName m) = ''Agent name already taken: '' @ m"
| "team_error_display (RuntimeNotReady conversation_id) =
     ''Team agent runtime is not ready for conversation: '' @ conversation_id"
| "team_error_display (MemberRuntimeFailed team_id slot_id conversation_id public_reason) =
     ''Team member runtime failed: '' @ slot_id"
| "team_error_display (WorkspacePathUnavailable m) = ''Workspace path is unavailable: '' @ m"
| "team_error_display (WorkspacePathRuntimeUnavailable m) =
     ''Workspace path is unavailable during execution: '' @ m"
| "team_error_display (Database e) = db_error_display e"
| "team_error_display (Json m) = ''JSON error: '' @ m"

end
