(* ===== verification/Work_Model.thy ===== *)
theory Work_Model
  imports Team_Errors
begin

text \<open>
  The data model of the slot work coordinator: crates/team/src/work_coordinator/model.rs
  and crates/team/src/work_source.rs, type by type, with the \<open>WorkSource\<close> methods that
  fix how a unit of work is queued. Record fields carry a two-letter prefix, since several
  structs share a field name.
\<close>

datatype run_target_role = RoleLead | RoleTeammate \<comment> \<open>\<open>api_types::TeamRunTargetRole\<close>\<close>

subsection \<open>Work sources and priorities\<close>

datatype work_priority = Foreground | Control | Background

datatype work_source =
    UserMessage
  | UserIntervention
  | McpSendMessage
  | McpShutdownRequest
  | SpawnWelcome
  | TeamMembershipChanged
  | SpawnAttachFailure
  | IdleNotification
  | InterruptedNotification
  | ShutdownRejected
  | RecoveryDrain

fun source_priority :: "work_source \<Rightarrow> work_priority" where
  "source_priority UserMessage = Foreground"
| "source_priority UserIntervention = Foreground"
| "source_priority McpShutdownRequest = Control"
| "source_priority ShutdownRejected = Control"
| "source_priority McpSendMessage = Background"
| "source_priority SpawnWelcome = Background"
| "source_priority TeamMembershipChanged = Background"
| "source_priority SpawnAttachFailure = Background"
| "source_priority IdleNotification = Background"
| "source_priority InterruptedNotification = Background"
| "source_priority RecoveryDrain = Background"

definition resumes_paused_slot :: "work_source \<Rightarrow> bool" where
  "resumes_paused_slot src \<longleftrightarrow> (case src of UserMessage \<Rightarrow> True | UserIntervention \<Rightarrow> True | _ \<Rightarrow> False)"

definition requires_mailbox_message :: "work_source \<Rightarrow> bool" where
  "requires_mailbox_message src \<longleftrightarrow> (case src of
       UserMessage \<Rightarrow> True | UserIntervention \<Rightarrow> True | McpSendMessage \<Rightarrow> True
     | McpShutdownRequest \<Rightarrow> True | SpawnWelcome \<Rightarrow> True | SpawnAttachFailure \<Rightarrow> True
     | InterruptedNotification \<Rightarrow> True | ShutdownRejected \<Rightarrow> True | RecoveryDrain \<Rightarrow> True
     | _ \<Rightarrow> False)"

fun source_display :: "work_source \<Rightarrow> string" where
  "source_display UserMessage = ''user_message''"
| "source_display UserIntervention = ''user_intervention''"
| "source_display McpSendMessage = ''mcp_send_message''"
| "source_display McpShutdownRequest = ''mcp_shutdown_request''"
| "source_display SpawnWelcome = ''spawn_welcome''"
| "source_display TeamMembershipChanged = ''team_membership_changed''"
| "source_display SpawnAttachFailure = ''spawn_attach_failure''"
| "source_display IdleNotification = ''idle_notification''"
| "source_display InterruptedNotification = ''interrupted_notification''"
| "source_display ShutdownRejected = ''shutdown_rejected''"
| "source_display RecoveryDrain = ''recovery_drain''"

text \<open>The derived \<open>Debug\<close> text, used in one error message.\<close>

fun source_debug :: "work_source \<Rightarrow> string" where
  "source_debug UserMessage = ''UserMessage''"
| "source_debug UserIntervention = ''UserIntervention''"
| "source_debug McpSendMessage = ''McpSendMessage''"
| "source_debug McpShutdownRequest = ''McpShutdownRequest''"
| "source_debug SpawnWelcome = ''SpawnWelcome''"
| "source_debug TeamMembershipChanged = ''TeamMembershipChanged''"
| "source_debug SpawnAttachFailure = ''SpawnAttachFailure''"
| "source_debug IdleNotification = ''IdleNotification''"
| "source_debug InterruptedNotification = ''InterruptedNotification''"
| "source_debug ShutdownRejected = ''ShutdownRejected''"
| "source_debug RecoveryDrain = ''RecoveryDrain''"

text \<open>
  The order in which \<open>next\<close> looks at the queues makes the priorities a linear order, the
  most urgent one least.
\<close>

fun priority_rank :: "work_priority \<Rightarrow> nat" where
  "priority_rank Foreground = 0"
| "priority_rank Control = 1"
| "priority_rank Background = 2"

lemma priority_rank_inject [simp]: "priority_rank p = priority_rank q \<longleftrightarrow> p = q"
  by (cases p; cases q) auto

instantiation work_priority :: linorder
begin

definition less_eq_work_priority :: "work_priority \<Rightarrow> work_priority \<Rightarrow> bool" where
  "p \<le> q \<longleftrightarrow> priority_rank p \<le> priority_rank q"

definition less_work_priority :: "work_priority \<Rightarrow> work_priority \<Rightarrow> bool" where
  "p < q \<longleftrightarrow> priority_rank p < priority_rank q"

instance
  by standard (auto simp: less_eq_work_priority_def less_work_priority_def)

end

subsection \<open>Intents, batches, leases\<close>

datatype runtime_constraint =
    Ready
  | Starting nat                \<comment> \<open>\<open>operation_id\<close>\<close>
  | Failed nat string           \<comment> \<open>\<open>operation_id\<close>, \<open>classification\<close>\<close>
  | Removing nat
  | SessionStopped

datatype slot_phase = PhaseIdle | PhaseQueued | PhaseStarting | PhaseRunning | PhasePaused | PhaseBlocked

datatype intent_state =
    IQueued
  | IStarting ident nat         \<comment> \<open>\<open>batch_id\<close>, \<open>operation_id\<close>\<close>
  | IRunning ident nat ident    \<comment> \<open>\<open>batch_id\<close>, \<open>operation_id\<close>, \<open>turn_id\<close>\<close>
  | ICompleted
  | IFailed string
  | ICancelled string

definition is_terminal :: "intent_state \<Rightarrow> bool" where
  "is_terminal st \<longleftrightarrow> (case st of ICompleted \<Rightarrow> True | IFailed _ \<Rightarrow> True | ICancelled _ \<Rightarrow> True | _ \<Rightarrow> False)"

lemma is_terminal_simps [simp]:
  "\<not> is_terminal IQueued" "\<not> is_terminal (IStarting b n)" "\<not> is_terminal (IRunning b n t)"
  "is_terminal ICompleted" "is_terminal (IFailed c)" "is_terminal (ICancelled c)"
  by (simp_all add: is_terminal_def)

record work_intent =
  wi_intent_id :: ident
  wi_session_generation :: ident
  wi_slot_id :: ident
  wi_role :: run_target_role
  wi_source :: work_source
  wi_priority :: work_priority
  wi_mailbox_message_id :: "ident option"
  wi_team_run_id :: "ident option"
  wi_created_at_ms :: timestamp
  wi_state :: intent_state

datatype causal_binding =
    UserVisible
  | InheritRunningBatch ident   \<comment> \<open>\<open>caller_slot_id\<close>\<close>
  | ActiveRunOrBackground
  | BackgroundBinding

record enqueue_request =
  rq_slot_id :: ident
  rq_role :: run_target_role
  rq_source :: work_source
  rq_binding :: causal_binding

record enqueue_lease =
  le_lease_id :: ident
  le_session_generation :: ident
  le_slot_id :: ident
  le_role :: run_target_role
  le_source :: work_source
  le_team_run_id :: "ident option"

record work_batch =
  wb_batch_id :: ident
  wb_session_generation :: ident
  wb_slot_id :: ident
  wb_intent_ids :: "ident list"
  wb_mailbox_message_ids :: "ident list"
  wb_highest_priority :: work_priority
  wb_team_run_ids :: "ident list"
  wb_operation_id :: nat

datatype reconcile_decision =
    Claim work_batch
  | WaitingForCompletion
  | BlockedBy runtime_constraint
  | SettleSignals "ident list"
  | Quiescent

datatype commit_result = Committed | StaleOwner | Rejected
datatype start_commit_result = StartAccepted | CancelImmediately | StartStaleOwner
datatype enqueue_disposition = DispAccepted | DispQueued | DispBlockedRuntimeStarting

subsection \<open>Snapshots and results\<close>

record slot_work_snapshot =
  sn_slot_id :: ident
  sn_role :: run_target_role
  sn_state :: slot_phase
  sn_queued_foreground_count :: nat
  sn_queued_background_count :: nat
  sn_active_batch :: "work_batch option"
  sn_active_turn_id :: "ident option"
  sn_active_turn_started_at_ms :: "timestamp option"
  sn_runtime_constraint :: runtime_constraint
  sn_team_run_id :: "ident option"

record enqueue_commit =
  ec_intent_id :: ident
  ec_team_run_id :: "ident option"
  ec_disposition :: enqueue_disposition
  ec_slot :: slot_work_snapshot

record run_work_summary =
  rs_team_run_id :: ident
  rs_queued_intent_count :: nat
  rs_starting_batch_count :: nat
  rs_running_batch_count :: nat
  rs_active_enqueue_lease_count :: nat
  rs_paused_intent_count :: nat
  rs_failed_intent_count :: nat
  rs_slots :: "slot_work_snapshot list"

record coordinator_snapshot =
  cs_session_generation :: ident
  cs_slots :: "slot_work_snapshot list"
  cs_active_run_summary :: "run_work_summary option"

record reconcile_projection =
  rp_created_recovery_intent_ids :: "ident list"
  rp_retained_intent_ids :: "ident list"
  rp_cleared_stale_intent_ids :: "ident list"

record batch_cancel_target =
  bc_batch :: work_batch
  bc_turn_id :: "ident option"

record pause_work_result =
  pr_cancel_target :: "batch_cancel_target option"
  pr_slot :: slot_work_snapshot

record remove_work_result =
  rr_cancel_target :: "batch_cancel_target option"
  rr_terminal_message_ids :: "ident list"
  rr_affected_run_summaries :: "run_work_summary list"

record cancel_run_work_result =
  cr_cancel_targets :: "batch_cancel_target list"
  cr_terminal_message_ids :: "ident list"
  cr_summary :: run_work_summary

record runtime_constraint_update =
  ru_slot :: slot_work_snapshot
  ru_terminal_message_ids :: "ident list"
  ru_affected_run_summaries :: "run_work_summary list"

record run_binding =
  rb_team_run_id :: "ident option"
  rb_created_new_run :: bool
  rb_user_intervention :: bool

text \<open>
  The trait \<open>RunCausalityPort\<close> as the table of its methods, over the state \<open>'r\<close> of the
  object behind the \<open>Arc<dyn RunCausalityPort>\<close>.
\<close>

record 'r run_port =
  bind_enqueue :: "enqueue_request \<Rightarrow> 'r \<Rightarrow> run_binding \<times> 'r"
  abort_binding :: "run_binding \<Rightarrow> 'r \<Rightarrow> 'r"
  apply_summary :: "run_work_summary \<Rightarrow> 'r \<Rightarrow> 'r"

lemma requires_mailbox_message_iff:
  "requires_mailbox_message src \<longleftrightarrow> src \<noteq> TeamMembershipChanged \<and> src \<noteq> IdleNotification"
  by (cases src) (auto simp: requires_mailbox_message_def)

end
