(* ===== verification/Work_State.thy ===== *)
theory Work_State
  imports Work_Model
begin

text \<open>
  The coordinator's state (\<open>SlotState\<close>, \<open>CoordinatorState\<close> and the fields of
  \<open>SlotWorkCoordinator\<close> in work_coordinator/coordinator.rs) and its read-only projections
  (work_coordinator/snapshot.rs): slot snapshots, run summaries and their publication to
  the run causality port. The mutex around the state is not modelled: each operation runs
  under it from its first to its last access.
\<close>

subsection \<open>Slots\<close>

record active_batch =
  ab_batch :: work_batch
  ab_turn_id :: "ident option"
  ab_started_at_ms :: "timestamp option"

record slot_state =
  ss_role :: run_target_role
  ss_foreground :: "ident list"
  ss_control :: "ident list"
  ss_background :: "ident list"
  ss_active :: "active_batch option"
  ss_paused :: bool
  ss_runtime_constraint :: runtime_constraint
  ss_known_unread :: "ident set"
  ss_removed :: bool

definition slot_state_new :: "run_target_role \<Rightarrow> slot_state" where
  "slot_state_new role =
     \<lparr>ss_role = role, ss_foreground = [], ss_control = [], ss_background = [],
      ss_active = None, ss_paused = False, ss_runtime_constraint = Starting 0,
      ss_known_unread = {}, ss_removed = False\<rparr>"

fun queue :: "work_priority \<Rightarrow> slot_state \<Rightarrow> ident list" where
  "queue Foreground sl = ss_foreground sl"
| "queue Control sl = ss_control sl"
| "queue Background sl = ss_background sl"

text \<open>\<open>queue_mut\<close>: apply a change to the queue of a priority.\<close>

fun queue_mut :: "work_priority \<Rightarrow> (ident list \<Rightarrow> ident list) \<Rightarrow> slot_state \<Rightarrow> slot_state" where
  "queue_mut Foreground f sl = sl\<lparr>ss_foreground := f (ss_foreground sl)\<rparr>"
| "queue_mut Control f sl = sl\<lparr>ss_control := f (ss_control sl)\<rparr>"
| "queue_mut Background f sl = sl\<lparr>ss_background := f (ss_background sl)\<rparr>"

definition push_back :: "work_priority \<Rightarrow> ident \<Rightarrow> slot_state \<Rightarrow> slot_state" where
  "push_back p i = queue_mut p (\<lambda>q. q @ [i])"

definition push_front :: "work_priority \<Rightarrow> ident \<Rightarrow> slot_state \<Rightarrow> slot_state" where
  "push_front p i = queue_mut p (\<lambda>q. i # q)"

definition queued_ids :: "slot_state \<Rightarrow> ident list" where
  "queued_ids sl = ss_foreground sl @ ss_control sl @ ss_background sl"

definition remove_queued :: "ident \<Rightarrow> slot_state \<Rightarrow> slot_state" where
  "remove_queued i sl =
     sl\<lparr>ss_foreground := filter (\<lambda>c. c \<noteq> i) (ss_foreground sl),
        ss_control := filter (\<lambda>c. c \<noteq> i) (ss_control sl),
        ss_background := filter (\<lambda>c. c \<noteq> i) (ss_background sl)\<rparr>"

text \<open>Clearing the three queues and the active batch, as three operations do.\<close>

definition clear_slot :: "slot_state \<Rightarrow> slot_state" where
  "clear_slot sl = sl\<lparr>ss_foreground := [], ss_control := [], ss_background := [], ss_active := None\<rparr>"

lemma queue_simps [simp]:
  "queue p (sl\<lparr>ss_role := r\<rparr>) = queue p sl"
  "queue p (sl\<lparr>ss_active := a\<rparr>) = queue p sl"
  "queue p (sl\<lparr>ss_paused := b\<rparr>) = queue p sl"
  "queue p (sl\<lparr>ss_runtime_constraint := c\<rparr>) = queue p sl"
  "queue p (sl\<lparr>ss_known_unread := u\<rparr>) = queue p sl"
  "queue p (sl\<lparr>ss_removed := b\<rparr>) = queue p sl"
  "queue p (slot_state_new r) = []"
  "queue p (clear_slot sl) = []"
  by (cases p; simp add: slot_state_new_def clear_slot_def)+

lemma queue_queue_mut [simp]: "queue q (queue_mut p f sl) = (if p = q then f (queue q sl) else queue q sl)"
  by (cases p; cases q) auto

lemma queue_push [simp]:
  "queue q (push_back p i sl) = (if p = q then queue q sl @ [i] else queue q sl)"
  "queue q (push_front p i sl) = (if p = q then i # queue q sl else queue q sl)"
  by (simp_all add: push_back_def push_front_def)

lemma queue_remove_queued [simp]: "queue p (remove_queued i sl) = filter (\<lambda>c. c \<noteq> i) (queue p sl)"
  by (cases p) (simp_all add: remove_queued_def)

lemma queue_mut_frame [simp]:
  "ss_role (queue_mut p f sl) = ss_role sl"
  "ss_active (queue_mut p f sl) = ss_active sl"
  "ss_paused (queue_mut p f sl) = ss_paused sl"
  "ss_runtime_constraint (queue_mut p f sl) = ss_runtime_constraint sl"
  "ss_removed (queue_mut p f sl) = ss_removed sl"
  by (cases p; simp)+

lemma push_frame [simp]:
  "ss_role (push_back p i sl) = ss_role sl" "ss_role (push_front p i sl) = ss_role sl"
  "ss_active (push_back p i sl) = ss_active sl" "ss_active (push_front p i sl) = ss_active sl"
  "ss_paused (push_back p i sl) = ss_paused sl" "ss_paused (push_front p i sl) = ss_paused sl"
  "ss_runtime_constraint (push_back p i sl) = ss_runtime_constraint sl"
  "ss_runtime_constraint (push_front p i sl) = ss_runtime_constraint sl"
  "ss_removed (push_back p i sl) = ss_removed sl" "ss_removed (push_front p i sl) = ss_removed sl"
  by (simp_all add: push_back_def push_front_def)

lemma remove_queued_frame [simp]:
  "ss_role (remove_queued i sl) = ss_role sl"
  "ss_active (remove_queued i sl) = ss_active sl"
  "ss_paused (remove_queued i sl) = ss_paused sl"
  "ss_runtime_constraint (remove_queued i sl) = ss_runtime_constraint sl"
  "ss_removed (remove_queued i sl) = ss_removed sl"
  by (simp_all add: remove_queued_def)

lemma clear_slot_frame [simp]:
  "ss_active (clear_slot sl) = None" "ss_paused (clear_slot sl) = ss_paused sl"
  "ss_role (clear_slot sl) = ss_role sl" "ss_removed (clear_slot sl) = ss_removed sl"
  "ss_runtime_constraint (clear_slot sl) = ss_runtime_constraint sl"
  by (simp_all add: clear_slot_def)

lemma slot_state_new_frame [simp]:
  "ss_active (slot_state_new r) = None" "ss_removed (slot_state_new r) = False"
  "ss_paused (slot_state_new r) = False" "ss_runtime_constraint (slot_state_new r) = Starting 0"
  "ss_role (slot_state_new r) = r"
  by (simp_all add: slot_state_new_def)

lemma queued_ids_queue: "queued_ids sl = queue Foreground sl @ queue Control sl @ queue Background sl"
  by (simp add: queued_ids_def)

lemma set_queued_ids: "i \<in> set (queued_ids sl) \<longleftrightarrow> (\<exists>p. i \<in> set (queue p sl))"
  by (metis (full_types) Un_iff queued_ids_queue set_append work_priority.exhaust)

text \<open>Removing several queued ids, one call after the other.\<close>

lemma queue_fold_remove [simp]:
  "queue p (fold remove_queued is sl) = filter (\<lambda>c. c \<notin> set is) (queue p sl)"
  by (induction "is" arbitrary: sl) (auto intro: filter_cong)

lemma fold_remove_frame [simp]:
  "ss_role (fold remove_queued is sl) = ss_role sl"
  "ss_active (fold remove_queued is sl) = ss_active sl"
  "ss_paused (fold remove_queued is sl) = ss_paused sl"
  "ss_runtime_constraint (fold remove_queued is sl) = ss_runtime_constraint sl"
  "ss_removed (fold remove_queued is sl) = ss_removed sl"
  by (induction "is" arbitrary: sl) auto

subsection \<open>The coordinator\<close>

record lease_record =
  lr_lease :: enqueue_lease
  lr_binding :: run_binding

record coordinator =
  co_team_id :: ident
  co_session_generation :: ident
  co_slots :: "slot_state btree_map"
  co_intents :: "work_intent hash_map"
  co_enqueue_leases :: "lease_record hash_map"
  co_next_operation_id :: nat

definition coordinator_new :: "ident \<Rightarrow> ident \<Rightarrow> coordinator" where
  "coordinator_new team_id session_generation =
     \<lparr>co_team_id = team_id, co_session_generation = session_generation, co_slots = [],
      co_intents = [], co_enqueue_leases = [], co_next_operation_id = 0\<rparr>"

text \<open>
  \<open>slots.entry(id).or_insert_with(..)\<close> followed by changes to the slot: the slot if there
  is one, else a new one, changed and stored. \<open>slots.get_mut(id)\<close> is \<open>modify_slot\<close>.
\<close>

definition slot_entry :: "ident \<Rightarrow> run_target_role \<Rightarrow> coordinator \<Rightarrow> slot_state" where
  "slot_entry slot_id role c =
     (case map_of (co_slots c) slot_id of None \<Rightarrow> slot_state_new role | Some sl \<Rightarrow> sl)"

definition put_slot :: "ident \<Rightarrow> slot_state \<Rightarrow> coordinator \<Rightarrow> coordinator" where
  "put_slot slot_id sl c = c\<lparr>co_slots := bt_insert slot_id sl (co_slots c)\<rparr>"

definition modify_slot :: "ident \<Rightarrow> (slot_state \<Rightarrow> slot_state) \<Rightarrow> coordinator \<Rightarrow> coordinator" where
  "modify_slot slot_id f c = c\<lparr>co_slots := AList.map_entry slot_id f (co_slots c)\<rparr>"

definition modify_intent :: "ident \<Rightarrow> (work_intent \<Rightarrow> work_intent) \<Rightarrow> coordinator \<Rightarrow> coordinator" where
  "modify_intent i f c = c\<lparr>co_intents := hm_modify i f (co_intents c)\<rparr>"

definition set_intent_state :: "ident \<Rightarrow> intent_state \<Rightarrow> coordinator \<Rightarrow> coordinator" where
  "set_intent_state i st = modify_intent i (\<lambda>w. w\<lparr>wi_state := st\<rparr>)"

subsection \<open>Snapshots and run summaries\<close>

definition slot_snapshot_locked :: "coordinator \<Rightarrow> ident \<Rightarrow> slot_work_snapshot option" where
  "slot_snapshot_locked c slot_id =
     (case map_of (co_slots c) slot_id of
        None \<Rightarrow> None
      | Some slot \<Rightarrow>
          let active_batch = map_option ab_batch (ss_active slot);
              active_turn_id = Option.bind (ss_active slot) ab_turn_id;
              started_at = Option.bind (ss_active slot) ab_started_at_ms;
              state_phase =
                (if ss_paused slot then PhasePaused
                 else if is_some active_turn_id then PhaseRunning
                 else if is_some active_batch then PhaseStarting
                 else if ss_runtime_constraint slot \<noteq> Ready then PhaseBlocked
                 else if queued_ids slot \<noteq> [] then PhaseQueued
                 else PhaseIdle);
              batch_run = Option.bind active_batch
                (\<lambda>b. case wb_team_run_ids b of [] \<Rightarrow> None | r # _ \<Rightarrow> Some r);
              team_run_id =
                (case batch_run of
                   Some r \<Rightarrow> Some r
                 | None \<Rightarrow>
                     (case List.map_filter
                             (\<lambda>i. Option.bind (map_of (co_intents c) i) wi_team_run_id)
                             (queued_ids slot) of
                        [] \<Rightarrow> None | r # _ \<Rightarrow> Some r))
          in Some \<lparr>sn_slot_id = slot_id, sn_role = ss_role slot, sn_state = state_phase,
                   sn_queued_foreground_count = length (ss_foreground slot),
                   sn_queued_background_count =
                     length (ss_control slot) + length (ss_background slot),
                   sn_active_batch = active_batch, sn_active_turn_id = active_turn_id,
                   sn_active_turn_started_at_ms = started_at,
                   sn_runtime_constraint = ss_runtime_constraint slot,
                   sn_team_run_id = team_run_id\<rparr>)"

definition intents_of_run :: "coordinator \<Rightarrow> ident \<Rightarrow> work_intent list" where
  "intents_of_run c run_id =
     filter (\<lambda>w. wi_team_run_id w = Some run_id) (map snd (co_intents c))"

definition leases_of_run :: "coordinator \<Rightarrow> ident \<Rightarrow> lease_record list" where
  "leases_of_run c run_id =
     filter (\<lambda>r. le_team_run_id (lr_lease r) = Some run_id) (map snd (co_enqueue_leases c))"

fun starting_batch_id :: "intent_state \<Rightarrow> ident option" where
  "starting_batch_id (IStarting b _) = Some b"
| "starting_batch_id _ = None"

fun running_batch_id :: "intent_state \<Rightarrow> ident option" where
  "running_batch_id (IRunning b _ _) = Some b"
| "running_batch_id _ = None"

fun is_failed :: "intent_state \<Rightarrow> bool" where
  "is_failed (IFailed _) = True"
| "is_failed _ = False"

definition run_summary_locked :: "coordinator \<Rightarrow> ident \<Rightarrow> run_work_summary" where
  "run_summary_locked c run_id =
     (let associated = intents_of_run c run_id;
          leases = leases_of_run c run_id;
          slot_ids = bt_set (map wi_slot_id associated @ map (\<lambda>r. le_slot_id (lr_lease r)) leases)
      in \<lparr>rs_team_run_id = run_id,
          rs_queued_intent_count = length (filter (\<lambda>w. wi_state w = IQueued) associated),
          rs_starting_batch_count =
            length (remdups (List.map_filter (\<lambda>w. starting_batch_id (wi_state w)) associated)),
          rs_running_batch_count =
            length (remdups (List.map_filter (\<lambda>w. running_batch_id (wi_state w)) associated)),
          rs_active_enqueue_lease_count = length leases,
          rs_paused_intent_count =
            length (filter (\<lambda>w. wi_state w = IQueued \<and>
              (case map_of (co_slots c) (wi_slot_id w) of None \<Rightarrow> False | Some sl \<Rightarrow> ss_paused sl))
              associated),
          rs_failed_intent_count = length (filter (\<lambda>w. is_failed (wi_state w)) associated),
          rs_slots = List.map_filter (slot_snapshot_locked c) slot_ids\<rparr>)"

definition run_summaries_locked :: "coordinator \<Rightarrow> ident list \<Rightarrow> run_work_summary list" where
  "run_summaries_locked c run_ids = map (run_summary_locked c) (bt_set run_ids)"

definition publish_run_summaries :: "'r run_port \<Rightarrow> run_work_summary list \<Rightarrow> 'r \<Rightarrow> 'r" where
  "publish_run_summaries port summaries r = fold (apply_summary port) summaries r"

definition all_run_ids :: "coordinator \<Rightarrow> ident list" where
  "all_run_ids c =
     bt_set (List.map_filter wi_team_run_id (map snd (co_intents c)) @
             List.map_filter (\<lambda>r. le_team_run_id (lr_lease r)) (map snd (co_enqueue_leases c)))"

definition opt_list :: "'a option \<Rightarrow> 'a list" where
  "opt_list x = (case x of None \<Rightarrow> [] | Some y \<Rightarrow> [y])"

lemma set_opt_list [simp]: "set (opt_list x) = set_option x"
  by (cases x) (simp_all add: opt_list_def)

subsection \<open>What a summary counts\<close>

text \<open>
  A summary shows no outstanding work exactly when every intent of the run is terminal and
  no lease of the run is open: the test on which the run manager completes a run.
\<close>

definition summary_idle :: "run_work_summary \<Rightarrow> bool" where
  "summary_idle s \<longleftrightarrow> rs_queued_intent_count s = 0 \<and> rs_starting_batch_count s = 0 \<and>
     rs_running_batch_count s = 0 \<and> rs_active_enqueue_lease_count s = 0 \<and>
     rs_paused_intent_count s = 0"

lemma not_terminal_cases:
  "\<not> is_terminal st \<longleftrightarrow> st = IQueued \<or> is_some (starting_batch_id st) \<or> is_some (running_batch_id st)"
  by (cases st) auto

lemma run_summary_idle_iff:
  "summary_idle (run_summary_locked c run_id) \<longleftrightarrow>
     (\<forall>w \<in> set (intents_of_run c run_id). is_terminal (wi_state w)) \<and> leases_of_run c run_id = []"
proof -
  have "(\<forall>w \<in> set (intents_of_run c run_id). is_terminal (wi_state w)) \<longleftrightarrow>
      (\<forall>w \<in> set (intents_of_run c run_id). wi_state w \<noteq> IQueued) \<and>
      (\<forall>w \<in> set (intents_of_run c run_id). starting_batch_id (wi_state w) = None) \<and>
      (\<forall>w \<in> set (intents_of_run c run_id). running_batch_id (wi_state w) = None)"
    using not_terminal_cases by blast
  then show ?thesis
    by (auto simp: summary_idle_def run_summary_locked_def Let_def filter_empty_conv map_filter_Nil_iff)
qed

end
