(* ===== verification/Work_Coordinator.thy ===== *)
theory Work_Coordinator
  imports Work_State
begin

text \<open>
  The operations of \<open>SlotWorkCoordinator\<close> (crates/team/src/work_coordinator/coordinator.rs),
  in the order of the source. Each takes the coordinator \<open>c\<close> and the state \<open>r\<close> of the run
  causality port and returns the result with both states after the call. What the code draws
  from its environment is an argument: the identifier \<open>generate_id()\<close> returns, the reading
  of \<open>now_ms()\<close>; where a loop draws several, the \<open>n\<close>-th one is the argument applied to \<open>n\<close>.
  An operation that could hit an \<open>expect\<close> on data from outside the operation returns an
  option, \<open>None\<close> being the panic. Log output is not modelled.

  The code computes the run summaries under its lock and publishes them after releasing it;
  here an operation publishes them at its end. A summary that another operation overtakes
  reaches the port late: Work_Reachable lets the port change at any time, and
  \<open>active_after_summary\<close> in Team_Run_Claims says what a late summary does to a run.
\<close>

subsection \<open>Enqueueing\<close>

definition validate_enqueue_constraint :: "ident \<Rightarrow> slot_state \<Rightarrow> team_error option" where
  "validate_enqueue_constraint slot_id slot =
     (if ss_removed slot then Some (InvalidRequest (''Team slot was removed: '' @ slot_id))
      else case ss_runtime_constraint slot of
        Ready \<Rightarrow> None
      | Starting _ \<Rightarrow> None
      | Failed _ classification \<Rightarrow>
          Some (InvalidRequest (''Team slot runtime failed ('' @ classification @ ''): '' @ slot_id))
      | Removing _ \<Rightarrow> Some (InvalidRequest (''Team slot is being removed: '' @ slot_id))
      | SessionStopped \<Rightarrow> Some (InvalidRequest (''Team session stopped for slot: '' @ slot_id)))"

definition acquire_enqueue ::
  "'r run_port \<Rightarrow> ident \<Rightarrow> enqueue_request \<Rightarrow> coordinator \<Rightarrow> 'r
     \<Rightarrow> (team_error + enqueue_lease) \<times> coordinator \<times> 'r" where
  "acquire_enqueue port lease_id request c r =
     (let slot = (slot_entry (rq_slot_id request) (rq_role request) c)\<lparr>ss_role := rq_role request\<rparr>;
          c1 = put_slot (rq_slot_id request) slot c
      in case validate_enqueue_constraint (rq_slot_id request) slot of
           Some e \<Rightarrow> (Inl e, c1, r)
         | None \<Rightarrow>
             let (binding, r1) =
                   (case rq_binding request of
                      BackgroundBinding \<Rightarrow>
                        (\<lparr>rb_team_run_id = None, rb_created_new_run = False,
                          rb_user_intervention = False\<rparr>, r)
                    | InheritRunningBatch caller_slot_id \<Rightarrow>
                        (\<lparr>rb_team_run_id =
                            Option.bind (map_of (co_slots c1) caller_slot_id) (\<lambda>caller.
                              Option.bind (ss_active caller) (\<lambda>active.
                                case wb_team_run_ids (ab_batch active) of
                                  [] \<Rightarrow> None | run # _ \<Rightarrow> Some run)),
                          rb_created_new_run = False, rb_user_intervention = False\<rparr>, r)
                    | UserVisible \<Rightarrow> bind_enqueue port request r
                    | ActiveRunOrBackground \<Rightarrow> bind_enqueue port request r);
                 lease = \<lparr>le_lease_id = lease_id,
                          le_session_generation = co_session_generation c1,
                          le_slot_id = rq_slot_id request, le_role = rq_role request,
                          le_source = rq_source request,
                          le_team_run_id = rb_team_run_id binding\<rparr>
             in (Inr lease,
                 c1\<lparr>co_enqueue_leases :=
                      hm_insert lease_id \<lparr>lr_lease = lease, lr_binding = binding\<rparr>
                        (co_enqueue_leases c1)\<rparr>,
                 r1))"

definition enqueue_disposition_of :: "slot_state \<Rightarrow> enqueue_disposition" where
  "enqueue_disposition_of slot =
     (case ss_runtime_constraint slot of
        Starting _ \<Rightarrow> DispBlockedRuntimeStarting
      | _ \<Rightarrow> if ss_active slot = None \<and> queued_ids slot = [] then DispAccepted else DispQueued)"

definition commit_enqueue ::
  "'r run_port \<Rightarrow> ident \<Rightarrow> timestamp \<Rightarrow> enqueue_lease \<Rightarrow> ident option \<Rightarrow> coordinator \<Rightarrow> 'r
     \<Rightarrow> (team_error + enqueue_commit option) \<times> coordinator \<times> 'r" where
  "commit_enqueue port intent_id now lease mailbox_message_id c r =
     (case hm_get (co_enqueue_leases c) (le_lease_id lease) of
        None \<Rightarrow> (Inl (InvalidRequest ''enqueue lease is no longer active''), c, r)
      | Some record \<Rightarrow>
        if lr_lease record \<noteq> lease \<or> le_session_generation lease \<noteq> co_session_generation c
        then (Inl (InvalidRequest ''stale enqueue lease owner''), c, r)
        else if requires_mailbox_message (le_source lease) \<and> mailbox_message_id = None
        then (Inl (InvalidRequest (source_debug (le_source lease) @ '' requires a mailbox message'')), c, r)
        else case map_of (co_slots c) (le_slot_id lease) of
          None \<Rightarrow> (Inl (AgentNotFound (le_slot_id lease)), c, r)
        | Some slot \<Rightarrow>
          (case validate_enqueue_constraint (le_slot_id lease) slot of
             Some e \<Rightarrow> (Inl e, c, r)
           | None \<Rightarrow>
             let disposition = enqueue_disposition_of slot;
                 c1 = c\<lparr>co_enqueue_leases := hm_remove (le_lease_id lease) (co_enqueue_leases c)\<rparr>;
                 intent = \<lparr>wi_intent_id = intent_id,
                           wi_session_generation = co_session_generation c,
                           wi_slot_id = le_slot_id lease, wi_role = le_role lease,
                           wi_source = le_source lease,
                           wi_priority = source_priority (le_source lease),
                           wi_mailbox_message_id = mailbox_message_id,
                           wi_team_run_id = le_team_run_id lease,
                           wi_created_at_ms = now, wi_state = IQueued\<rparr>;
                 c2 = c1\<lparr>co_intents := hm_insert intent_id intent (co_intents c1)\<rparr>;
                 slot1 = (if resumes_paused_slot (le_source lease) then slot\<lparr>ss_paused := False\<rparr> else slot);
                 slot2 = slot1\<lparr>ss_known_unread := ss_known_unread slot1 \<union> set_option mailbox_message_id\<rparr>;
                 slot3 = push_back (wi_priority intent) intent_id slot2;
                 c3 = put_slot (le_slot_id lease) slot3 c2;
                 snapshot = slot_snapshot_locked c3 (le_slot_id lease);
                 summaries = run_summaries_locked c3 (opt_list (le_team_run_id lease));
                 r1 = publish_run_summaries port summaries r
             in (Inr (map_option (\<lambda>sn. \<lparr>ec_intent_id = intent_id,
                        ec_team_run_id = le_team_run_id lease,
                        ec_disposition = disposition, ec_slot = sn\<rparr>) snapshot), c3, r1)))"

definition abort_enqueue ::
  "'r run_port \<Rightarrow> enqueue_lease \<Rightarrow> coordinator \<Rightarrow> 'r \<Rightarrow> commit_result \<times> coordinator \<times> 'r" where
  "abort_enqueue port lease c r =
     (case hm_get (co_enqueue_leases c) (le_lease_id lease) of
        None \<Rightarrow> (StaleOwner, c, r)
      | Some record \<Rightarrow>
        let c1 = c\<lparr>co_enqueue_leases := hm_remove (le_lease_id lease) (co_enqueue_leases c)\<rparr>
        in if lr_lease record \<noteq> lease \<or> le_session_generation lease \<noteq> co_session_generation c
           then (StaleOwner,
                 c1\<lparr>co_enqueue_leases :=
                      hm_insert (le_lease_id (lr_lease record)) record (co_enqueue_leases c1)\<rparr>, r)
           else
             let remove_empty_run =
                   (case le_team_run_id lease of
                      None \<Rightarrow> False
                    | Some run \<Rightarrow>
                        \<not> list_ex (\<lambda>w. wi_team_run_id w = Some run) (map snd (co_intents c1)) \<and>
                        \<not> list_ex (\<lambda>l. le_team_run_id (lr_lease l) = Some run)
                            (map snd (co_enqueue_leases c1)));
                 summaries = run_summaries_locked c1 (opt_list (le_team_run_id lease));
                 r1 = (if remove_empty_run then abort_binding port (lr_binding record) r else r);
                 r2 = publish_run_summaries port summaries r1
             in (Committed, c1, r2))"

subsection \<open>Reconciling with the mailbox\<close>

text \<open>
  The first loop: a queued intent whose mailbox message is no longer unread is completed
  and reported as cleared, the others are retained.
\<close>

definition reconcile_candidate ::
  "ident list \<Rightarrow> ident \<Rightarrow> coordinator \<times> ident list \<times> ident list
     \<Rightarrow> coordinator \<times> ident list \<times> ident list" where
  "reconcile_candidate unread i acc =
     (case acc of (c, retained, cleared) \<Rightarrow>
        case hm_get (co_intents c) i of
          None \<Rightarrow> (c, retained, cleared)
        | Some w \<Rightarrow>
          (case wi_mailbox_message_id w of
             None \<Rightarrow> (c, retained @ [i], cleared)
           | Some m \<Rightarrow>
             if m \<in> set unread then (c, retained @ [i], cleared)
             else (set_intent_state i ICompleted c, retained, cleared @ [i])))"

text \<open>Is there a live intent of this slot that owns the message?\<close>

definition already_owned :: "coordinator \<Rightarrow> ident \<Rightarrow> ident \<Rightarrow> bool" where
  "already_owned c slot_id m \<longleftrightarrow>
     list_ex (\<lambda>w. wi_slot_id w = slot_id \<and> wi_mailbox_message_id w = Some m \<and>
                  \<not> is_terminal (wi_state w)) (map snd (co_intents c))"

definition recover_message ::
  "(nat \<Rightarrow> ident) \<Rightarrow> (nat \<Rightarrow> timestamp) \<Rightarrow> ident \<Rightarrow> run_target_role \<Rightarrow> ident
     \<Rightarrow> coordinator \<times> ident list \<Rightarrow> coordinator \<times> ident list" where
  "recover_message ids clock slot_id role m acc =
     (case acc of (c, created) \<Rightarrow>
        if already_owned c slot_id m then (c, created)
        else
          let i = ids (length created);
              intent = \<lparr>wi_intent_id = i, wi_session_generation = co_session_generation c,
                        wi_slot_id = slot_id, wi_role = role, wi_source = RecoveryDrain,
                        wi_priority = Background, wi_mailbox_message_id = Some m,
                        wi_team_run_id = None, wi_created_at_ms = clock (length created),
                        wi_state = IQueued\<rparr>;
              c1 = c\<lparr>co_intents := hm_insert i intent (co_intents c)\<rparr>
          in (modify_slot slot_id (push_back Background i) c1, created @ [i]))"

definition reconcile_mailbox ::
  "(nat \<Rightarrow> ident) \<Rightarrow> (nat \<Rightarrow> timestamp) \<Rightarrow> ident \<Rightarrow> ident list \<Rightarrow> run_target_role
     \<Rightarrow> coordinator \<Rightarrow> reconcile_projection \<times> coordinator" where
  "reconcile_mailbox ids clock slot_id unread role c =
     (let slot = (slot_entry slot_id role c)\<lparr>ss_role := role, ss_known_unread := set unread\<rparr>;
          c1 = put_slot slot_id slot c;
          (c2, retained, cleared) =
             fold (reconcile_candidate unread) (queued_ids slot) (c1, [], []);
          c3 = modify_slot slot_id (fold remove_queued cleared) c2;
          (c4, created) = fold (recover_message ids clock slot_id role) unread (c3, [])
      in (\<lparr>rp_created_recovery_intent_ids = created, rp_retained_intent_ids = retained,
           rp_cleared_stale_intent_ids = cleared\<rparr>, c4))"

subsection \<open>Claiming a batch\<close>

definition has_message :: "coordinator \<Rightarrow> ident \<Rightarrow> bool" where
  "has_message c i \<longleftrightarrow>
     (case hm_get (co_intents c) i of None \<Rightarrow> False | Some w \<Rightarrow> is_some (wi_mailbox_message_id w))"

definition batch_message_ids :: "coordinator \<Rightarrow> ident list \<Rightarrow> ident list" where
  "batch_message_ids c is =
     List.map_filter (\<lambda>i. Option.bind (hm_get (co_intents c) i) wi_mailbox_message_id) is"

fun add_run_id :: "coordinator \<Rightarrow> ident \<Rightarrow> ident list \<Rightarrow> ident list" where
  "add_run_id c i runs =
     (case Option.bind (hm_get (co_intents c) i) wi_team_run_id of
        None \<Rightarrow> runs
      | Some run \<Rightarrow> if run \<in> set runs then runs else runs @ [run])"

definition batch_run_ids :: "coordinator \<Rightarrow> ident list \<Rightarrow> ident list" where
  "batch_run_ids c is = fold (add_run_id c) is []"

definition next_work ::
  "'r run_port \<Rightarrow> ident \<Rightarrow> ident \<Rightarrow> coordinator \<Rightarrow> 'r \<Rightarrow> reconcile_decision \<times> coordinator \<times> 'r" where
  "next_work port batch_id slot_id c r =
     (case map_of (co_slots c) slot_id of
        None \<Rightarrow> (Quiescent, c, r)
      | Some slot \<Rightarrow>
        if ss_active slot \<noteq> None then (WaitingForCompletion, c, r)
        else if ss_runtime_constraint slot \<noteq> Ready
        then (BlockedBy (ss_runtime_constraint slot), c, r)
        else if ss_paused slot then (Quiescent, c, r)
        else case find (\<lambda>p. queue p slot \<noteq> []) [Foreground, Control, Background] of
          None \<Rightarrow> (Quiescent, c, r)
        | Some priority \<Rightarrow>
          let message_intent_ids = filter (has_message c) (queue priority slot)
          in if message_intent_ids = [] then (SettleSignals (queue priority slot), c, r)
          else
            let operation_id = u64_saturating_add (co_next_operation_id c) 1;
                c1 = c\<lparr>co_next_operation_id := operation_id\<rparr>;
                c2 = fold (\<lambda>i. set_intent_state i (IStarting batch_id operation_id))
                       message_intent_ids c1;
                team_run_ids = batch_run_ids c message_intent_ids;
                batch = \<lparr>wb_batch_id = batch_id,
                         wb_session_generation = co_session_generation c,
                         wb_slot_id = slot_id, wb_intent_ids = message_intent_ids,
                         wb_mailbox_message_ids = batch_message_ids c message_intent_ids,
                         wb_highest_priority = priority, wb_team_run_ids = team_run_ids,
                         wb_operation_id = operation_id\<rparr>;
                c3 = modify_slot slot_id
                       (\<lambda>sl. (fold remove_queued message_intent_ids sl)\<lparr>ss_active :=
                          Some \<lparr>ab_batch = batch, ab_turn_id = None, ab_started_at_ms = None\<rparr>\<rparr>) c2;
                r1 = publish_run_summaries port (run_summaries_locked c3 team_run_ids) r
            in (Claim batch, c3, r1))"

subsection \<open>Owners of a batch\<close>

definition is_current_batch :: "coordinator \<Rightarrow> work_batch \<Rightarrow> bool" where
  "is_current_batch c batch \<longleftrightarrow>
     wb_session_generation batch = co_session_generation c \<and>
     (case map_of (co_slots c) (wb_slot_id batch) of
        None \<Rightarrow> False
      | Some slot \<Rightarrow>
        (case ss_active slot of
           None \<Rightarrow> False
         | Some active \<Rightarrow>
             wb_batch_id (ab_batch active) = wb_batch_id batch \<and>
             wb_operation_id (ab_batch active) = wb_operation_id batch \<and>
             wb_session_generation (ab_batch active) = wb_session_generation batch))"

definition mark_started ::
  "'r run_port \<Rightarrow> timestamp \<Rightarrow> work_batch \<Rightarrow> ident \<Rightarrow> coordinator \<Rightarrow> 'r
     \<Rightarrow> start_commit_result \<times> coordinator \<times> 'r" where
  "mark_started port now batch turn_id c r =
     (if \<not> is_current_batch c batch then
        (if list_all (\<lambda>i. case hm_get (co_intents c) i of None \<Rightarrow> False
                          | Some w \<Rightarrow> (case wi_state w of ICancelled _ \<Rightarrow> True | _ \<Rightarrow> False))
              (wb_intent_ids batch)
         then (CancelImmediately, c, r) else (StartStaleOwner, c, r))
      else
        let cancel_immediately =
              (case map_of (co_slots c) (wb_slot_id batch) of None \<Rightarrow> False
               | Some slot \<Rightarrow> ss_paused slot \<or> ss_runtime_constraint slot \<noteq> Ready);
            c1 = fold (\<lambda>i. set_intent_state i
                        (IRunning (wb_batch_id batch) (wb_operation_id batch) turn_id))
                   (wb_intent_ids batch) c;
            c2 = modify_slot (wb_slot_id batch)
                   (\<lambda>sl. sl\<lparr>ss_active := map_option
                      (\<lambda>a. a\<lparr>ab_turn_id := Some turn_id, ab_started_at_ms := Some now\<rparr>)
                      (ss_active sl)\<rparr>) c1;
            r1 = publish_run_summaries port (run_summaries_locked c2 (wb_team_run_ids batch)) r
        in (if cancel_immediately then CancelImmediately else StartAccepted, c2, r1))"

definition retry_start ::
  "'r run_port \<Rightarrow> work_batch \<Rightarrow> coordinator \<Rightarrow> 'r \<Rightarrow> commit_result \<times> coordinator \<times> 'r" where
  "retry_start port batch c r =
     (if \<not> is_current_batch c batch then (StaleOwner, c, r)
      else
        let c1 = fold (\<lambda>i. set_intent_state i IQueued) (wb_intent_ids batch) c;
            c2 = modify_slot (wb_slot_id batch)
                   (\<lambda>sl. fold (push_front (wb_highest_priority batch)) (rev (wb_intent_ids batch))
                            (sl\<lparr>ss_active := None\<rparr>)) c1;
            r1 = publish_run_summaries port (run_summaries_locked c2 (wb_team_run_ids batch)) r
        in (Committed, c2, r1))"

definition terminalize_batch ::
  "'r run_port \<Rightarrow> work_batch \<Rightarrow> intent_state \<Rightarrow> coordinator \<Rightarrow> 'r
     \<Rightarrow> commit_result \<times> coordinator \<times> 'r" where
  "terminalize_batch port batch terminal_state c r =
     (if \<not> is_current_batch c batch then (StaleOwner, c, r)
      else
        let c1 = fold (\<lambda>i. set_intent_state i terminal_state) (wb_intent_ids batch) c;
            c2 = modify_slot (wb_slot_id batch) (\<lambda>sl. sl\<lparr>ss_active := None\<rparr>) c1;
            r1 = publish_run_summaries port (run_summaries_locked c2 (wb_team_run_ids batch)) r
        in (Committed, c2, r1))"

definition complete_batch ::
  "'r run_port \<Rightarrow> work_batch \<Rightarrow> coordinator \<Rightarrow> 'r \<Rightarrow> commit_result \<times> coordinator \<times> 'r" where
  "complete_batch port batch = terminalize_batch port batch ICompleted"

definition fail_batch ::
  "'r run_port \<Rightarrow> work_batch \<Rightarrow> string \<Rightarrow> coordinator \<Rightarrow> 'r \<Rightarrow> commit_result \<times> coordinator \<times> 'r" where
  "fail_batch port batch classification = terminalize_batch port batch (IFailed classification)"

definition cancel_batch ::
  "'r run_port \<Rightarrow> work_batch \<Rightarrow> string \<Rightarrow> coordinator \<Rightarrow> 'r \<Rightarrow> commit_result \<times> coordinator \<times> 'r" where
  "cancel_batch port batch classification = terminalize_batch port batch (ICancelled classification)"

end
