(* ===== verification/Work_Control.thy ===== *)
theory Work_Control
  imports Work_Coordinator
begin

text \<open>
  The rest of crates/team/src/work_coordinator/coordinator.rs: cancelling a run, settling
  signals, pausing a slot, runtime constraints, removing a slot, stopping the session, and
  the coordinator snapshot. Where the source reads \<open>intents.get_mut(id).expect(..)\<close> for ids
  found in a queue or a batch, the loop is an \<open>opt_fold\<close> and the missing intent is \<open>None\<close>.
\<close>

subsection \<open>Cancelling a run\<close>

definition batch_touches_run :: "coordinator \<Rightarrow> ident \<Rightarrow> active_batch \<Rightarrow> bool" where
  "batch_touches_run c run_id active \<longleftrightarrow>
     list_ex (\<lambda>i. case hm_get (co_intents c) i of None \<Rightarrow> False
                  | Some w \<Rightarrow> wi_team_run_id w = Some run_id)
       (wb_intent_ids (ab_batch active))"

definition active_slots_of_run :: "coordinator \<Rightarrow> ident \<Rightarrow> (ident \<times> active_batch) list" where
  "active_slots_of_run c run_id =
     List.map_filter (\<lambda>(slot_id, slot).
       case ss_active slot of None \<Rightarrow> None
       | Some active \<Rightarrow> if batch_touches_run c run_id active then Some (slot_id, active) else None)
     (co_slots c)"

text \<open>One intent of an active batch: cancelled if it belongs to the run, else retained.\<close>

definition cancel_active_intent ::
  "ident \<Rightarrow> ident \<Rightarrow> coordinator \<times> ident list \<times> (work_priority \<times> ident) list
     \<Rightarrow> (coordinator \<times> ident list \<times> (work_priority \<times> ident) list) option" where
  "cancel_active_intent run_id i acc =
     (case acc of (c, msgs, retained) \<Rightarrow>
        case hm_get (co_intents c) i of
          None \<Rightarrow> None
        | Some w \<Rightarrow>
          if wi_team_run_id w = Some run_id
          then Some (set_intent_state i (ICancelled ''run_cancelled'') c,
                     msgs @ opt_list (wi_mailbox_message_id w), retained)
          else Some (set_intent_state i IQueued c, msgs, retained @ [(wi_priority w, i)]))"

definition cancel_active_slot ::
  "ident \<Rightarrow> ident \<times> active_batch \<Rightarrow> coordinator \<times> ident list \<Rightarrow> (coordinator \<times> ident list) option" where
  "cancel_active_slot run_id sa acc =
     (case sa of (slot_id, active) \<Rightarrow> case acc of (c, msgs) \<Rightarrow>
        case opt_fold (cancel_active_intent run_id) (wb_intent_ids (ab_batch active)) (c, msgs, []) of
          None \<Rightarrow> None
        | Some (c1, msgs1, retained) \<Rightarrow>
            Some (modify_slot slot_id
                    (\<lambda>sl. fold (\<lambda>(p, i). push_front p i) (rev retained) (sl\<lparr>ss_active := None\<rparr>)) c1,
                  msgs1))"

definition cancel_queued_intent ::
  "ident \<Rightarrow> coordinator \<times> ident list \<Rightarrow> (coordinator \<times> ident list) option" where
  "cancel_queued_intent i acc =
     (case acc of (c, msgs) \<Rightarrow>
        case hm_get (co_intents c) i of
          None \<Rightarrow> None
        | Some w \<Rightarrow>
            Some (modify_slot (wi_slot_id w) (remove_queued i)
                    (set_intent_state i (ICancelled ''run_cancelled'') c),
                  msgs @ opt_list (wi_mailbox_message_id w)))"

definition cancel_run ::
  "'r run_port \<Rightarrow> ident \<Rightarrow> coordinator \<Rightarrow> 'r \<Rightarrow> (cancel_run_work_result \<times> coordinator \<times> 'r) option" where
  "cancel_run port run_id c r =
     (let active_slots = active_slots_of_run c run_id
      in case opt_fold (cancel_active_slot run_id) active_slots (c, []) of
           None \<Rightarrow> None
         | Some (c1, msgs1) \<Rightarrow>
           let queued = map wi_intent_id (filter (\<lambda>w. wi_state w = IQueued) (intents_of_run c1 run_id))
           in case opt_fold cancel_queued_intent queued (c1, msgs1) of
                None \<Rightarrow> None
              | Some (c2, msgs2) \<Rightarrow>
                let lease_ids = map (\<lambda>l. le_lease_id (lr_lease l)) (leases_of_run c2 run_id);
                    c3 = c2\<lparr>co_enqueue_leases := fold AList.delete lease_ids (co_enqueue_leases c2)\<rparr>;
                    summary = run_summary_locked c3 run_id;
                    r1 = apply_summary port summary r
                in Some (\<lparr>cr_cancel_targets =
                            map (\<lambda>(_, a). \<lparr>bc_batch = ab_batch a, bc_turn_id = ab_turn_id a\<rparr>) active_slots,
                          cr_terminal_message_ids = msgs2, cr_summary = summary\<rparr>, c3, r1))"

subsection \<open>Signals and pausing\<close>

definition complete_signals ::
  "'r run_port \<Rightarrow> ident \<Rightarrow> ident list \<Rightarrow> coordinator \<Rightarrow> 'r \<Rightarrow> commit_result \<times> coordinator \<times> 'r" where
  "complete_signals port slot_id intent_ids c r =
     (if \<not> list_all (\<lambda>i. case hm_get (co_intents c) i of None \<Rightarrow> False
            | Some w \<Rightarrow> wi_slot_id w = slot_id \<and> wi_mailbox_message_id w = None \<and> wi_state w = IQueued)
            intent_ids
      then (Rejected, c, r)
      else
        let run_ids = List.map_filter (\<lambda>i. Option.bind (hm_get (co_intents c) i) wi_team_run_id) intent_ids;
            c1 = fold (\<lambda>i c. modify_slot slot_id (remove_queued i) (set_intent_state i ICompleted c))
                   intent_ids c;
            r1 = publish_run_summaries port (run_summaries_locked c1 run_ids) r
        in (Committed, c1, r1))"

definition cancel_target_of :: "slot_state \<Rightarrow> batch_cancel_target option" where
  "cancel_target_of slot =
     map_option (\<lambda>a. \<lparr>bc_batch = ab_batch a, bc_turn_id = ab_turn_id a\<rparr>) (ss_active slot)"

definition pause_slot :: "ident \<Rightarrow> coordinator \<Rightarrow> (pause_work_result \<times> coordinator) option" where
  "pause_slot slot_id c =
     (let slot = (slot_entry slot_id RoleTeammate c)\<lparr>ss_paused := True\<rparr>;
          c1 = put_slot slot_id slot c
      in case slot_snapshot_locked c1 slot_id of
           None \<Rightarrow> None
         | Some sn \<Rightarrow> Some (\<lparr>pr_cancel_target = cancel_target_of slot, pr_slot = sn\<rparr>, c1))"

subsection \<open>Runtime constraints\<close>

fun constraint_classification :: "runtime_constraint \<Rightarrow> string" where
  "constraint_classification (Failed _ classification) = classification"
| "constraint_classification SessionStopped = ''session_stopped''"
| "constraint_classification _ = ''''" \<comment> \<open>not reached: only called for the two above\<close>

definition ends_work :: "runtime_constraint \<Rightarrow> bool" where
  "ends_work constraint \<longleftrightarrow>
     (case constraint of Failed _ _ \<Rightarrow> True | SessionStopped \<Rightarrow> True | _ \<Rightarrow> False)"

text \<open>
  The loop over the slot's live intents: without a run and while the session lives they go
  back to the queue, otherwise they end.
\<close>

record constrain_acc =
  ca_coordinator :: coordinator
  ca_requeue :: "(work_priority \<times> ident) list"
  ca_affected_run_ids :: "ident list"
  ca_terminal_message_ids :: "ident list"

definition constrain_intent :: "runtime_constraint \<Rightarrow> ident \<Rightarrow> constrain_acc \<Rightarrow> constrain_acc option" where
  "constrain_intent constraint i acc =
     (case hm_get (co_intents (ca_coordinator acc)) i of
        None \<Rightarrow> None
      | Some w \<Rightarrow>
        if wi_team_run_id w = None \<and> constraint \<noteq> SessionStopped
        then Some (acc\<lparr>ca_coordinator := set_intent_state i IQueued (ca_coordinator acc),
                       ca_requeue := ca_requeue acc @ [(wi_priority w, i)]\<rparr>)
        else
          let st = (if constraint = SessionStopped
                    then ICancelled (constraint_classification constraint)
                    else IFailed (constraint_classification constraint))
          in Some (acc\<lparr>ca_coordinator := set_intent_state i st (ca_coordinator acc),
                       ca_affected_run_ids := ca_affected_run_ids acc @ opt_list (wi_team_run_id w),
                       ca_terminal_message_ids :=
                         ca_terminal_message_ids acc @ opt_list (wi_mailbox_message_id w)\<rparr>))"

definition live_intent_ids :: "coordinator \<Rightarrow> ident \<Rightarrow> ident list" where
  "live_intent_ids c slot_id =
     map wi_intent_id
       (filter (\<lambda>w. wi_slot_id w = slot_id \<and> \<not> is_terminal (wi_state w)) (map snd (co_intents c)))"

definition set_runtime_constraint ::
  "'r run_port \<Rightarrow> ident \<Rightarrow> runtime_constraint \<Rightarrow> coordinator \<Rightarrow> 'r
     \<Rightarrow> (runtime_constraint_update \<times> coordinator \<times> 'r) option" where
  "set_runtime_constraint port slot_id constraint c r =
     (let slot = (slot_entry slot_id RoleTeammate c)\<lparr>ss_runtime_constraint := constraint\<rparr>;
          c1 = put_slot slot_id slot c;
          start = \<lparr>ca_coordinator = c1, ca_requeue = [], ca_affected_run_ids = [],
                   ca_terminal_message_ids = []\<rparr>
      in case (if ends_work constraint
               then map_option
                 (\<lambda>acc. acc\<lparr>ca_coordinator := modify_slot slot_id
                    (\<lambda>sl. fold (\<lambda>(p, i). push_back p i) (ca_requeue acc) (clear_slot sl))
                    (ca_coordinator acc)\<rparr>)
                 (opt_fold (constrain_intent constraint) (live_intent_ids c1 slot_id) start)
               else Some start) of
           None \<Rightarrow> None
         | Some acc \<Rightarrow>
           let c2 = ca_coordinator acc;
               summaries = map (run_summary_locked c2) (bt_set (ca_affected_run_ids acc))
           in case slot_snapshot_locked c2 slot_id of
                None \<Rightarrow> None
              | Some sn \<Rightarrow>
                  Some (\<lparr>ru_slot = sn, ru_terminal_message_ids = ca_terminal_message_ids acc,
                         ru_affected_run_summaries = summaries\<rparr>,
                        c2, publish_run_summaries port summaries r))"

subsection \<open>Removing a slot, stopping the session\<close>

definition removal_order :: "coordinator \<Rightarrow> ident \<Rightarrow> ident list" where
  "removal_order c slot_id =
     (let ordered = (case map_of (co_slots c) slot_id of
                       None \<Rightarrow> []
                     | Some slot \<Rightarrow>
                         (case ss_active slot of None \<Rightarrow> []
                          | Some active \<Rightarrow> wb_intent_ids (ab_batch active)) @ queued_ids slot);
          remaining = filter (\<lambda>w. wi_slot_id w = slot_id \<and> \<not> is_terminal (wi_state w) \<and>
                                  wi_intent_id w \<notin> set ordered) (map snd (co_intents c))
      in ordered @ map wi_intent_id (sort_key (\<lambda>w. (wi_created_at_ms w, wi_intent_id w)) remaining))"

definition remove_intent ::
  "ident \<Rightarrow> coordinator \<times> ident list \<times> ident list \<Rightarrow> (coordinator \<times> ident list \<times> ident list) option" where
  "remove_intent i acc =
     (case acc of (c, msgs, runs) \<Rightarrow>
        case hm_get (co_intents c) i of
          None \<Rightarrow> None
        | Some w \<Rightarrow>
            Some (set_intent_state i (ICancelled ''slot_removed'') c,
                  msgs @ opt_list (wi_mailbox_message_id w), runs @ opt_list (wi_team_run_id w)))"

definition remove_slot ::
  "'r run_port \<Rightarrow> ident \<Rightarrow> coordinator \<Rightarrow> 'r \<Rightarrow> (remove_work_result \<times> coordinator \<times> 'r) option" where
  "remove_slot port slot_id c r =
     (let cancel_target = Option.bind (map_of (co_slots c) slot_id) cancel_target_of
      in case opt_fold remove_intent (removal_order c slot_id) (c, [], []) of
           None \<Rightarrow> None
         | Some (c1, msgs, runs) \<Rightarrow>
           let c2 = modify_slot slot_id (\<lambda>sl. (clear_slot sl)\<lparr>ss_removed := True\<rparr>) c1;
               summaries = map (run_summary_locked c2) (bt_set runs)
           in Some (\<lparr>rr_cancel_target = cancel_target, rr_terminal_message_ids = msgs,
                     rr_affected_run_summaries = summaries\<rparr>,
                    c2, publish_run_summaries port summaries r))"

definition stop :: "'r run_port \<Rightarrow> coordinator \<Rightarrow> 'r \<Rightarrow> run_work_summary list \<times> coordinator \<times> 'r" where
  "stop port c r =
     (let run_ids = all_run_ids c;
          c1 = c\<lparr>co_intents := map (\<lambda>(i, w). (i, if is_terminal (wi_state w) then w
                     else w\<lparr>wi_state := ICancelled ''session_stopped''\<rparr>)) (co_intents c),
                 co_slots := map (\<lambda>(s, sl). (s, (clear_slot sl)\<lparr>ss_runtime_constraint := SessionStopped\<rparr>))
                     (co_slots c),
                 co_enqueue_leases := []\<rparr>;
          summaries = map (run_summary_locked c1) run_ids
      in (summaries, c1, publish_run_summaries port summaries r))"

subsection \<open>Snapshots\<close>

definition snapshot :: "coordinator \<Rightarrow> coordinator_snapshot" where
  "snapshot c =
     \<lparr>cs_session_generation = co_session_generation c,
      cs_slots = List.map_filter (slot_snapshot_locked c) (map fst (co_slots c)),
      cs_active_run_summary =
        find (\<lambda>s. rs_queued_intent_count s > 0 \<or> rs_starting_batch_count s > 0 \<or>
                  rs_running_batch_count s > 0 \<or> rs_active_enqueue_lease_count s > 0 \<or>
                  rs_paused_intent_count s > 0)
          (map (run_summary_locked c) (all_run_ids c))\<rparr>"

end
