(* ===== verification/Work_Invariant.thy ===== *)
theory Work_Invariant
  imports Work_Control
begin

text \<open>
  The well-formedness invariant of the coordinator and its preservation by every operation.

  The invariant says that the intent table determines the rest: a slot's queue of priority
  \<open>p\<close> holds exactly the queued intents of the slot with that priority, its active batch
  exactly the starting or running ones, and a live intent always belongs to a slot. So no
  live intent is ever lost, none is queued twice, and none is queued while it runs.

  The invariant of a slot depends on the intent table through \<open>slot_view\<close> only, the part of
  the table that belongs to the slot: an operation on one slot leaves the others' views
  alone, and \<open>coord_inv_update\<close> reduces its preservation proof to that slot.
\<close>

subsection \<open>The invariant\<close>

definition slot_view :: "work_intent hash_map \<Rightarrow> ident \<Rightarrow> (ident \<rightharpoonup> work_intent)" where
  "slot_view m sid i =
     (case map_of m i of None \<Rightarrow> None | Some w \<Rightarrow> if wi_slot_id w = sid then Some w else None)"

definition batch_state :: "active_batch \<Rightarrow> intent_state" where
  "batch_state a =
     (case ab_turn_id a of
        None \<Rightarrow> IStarting (wb_batch_id (ab_batch a)) (wb_operation_id (ab_batch a))
      | Some t \<Rightarrow> IRunning (wb_batch_id (ab_batch a)) (wb_operation_id (ab_batch a)) t)"

abbreviation in_flight :: "intent_state \<Rightarrow> bool" where
  "in_flight st \<equiv> st \<noteq> IQueued \<and> \<not> is_terminal st"

definition queue_exact :: "(ident \<rightharpoonup> work_intent) \<Rightarrow> slot_state \<Rightarrow> bool" where
  "queue_exact v sl \<longleftrightarrow>
     (\<forall>p. distinct (queue p sl)) \<and>
     (\<forall>p i. i \<in> set (queue p sl) \<longleftrightarrow> (\<exists>w. v i = Some w \<and> wi_priority w = p \<and> wi_state w = IQueued))"

definition active_exact :: "ident \<Rightarrow> (ident \<rightharpoonup> work_intent) \<Rightarrow> ident \<Rightarrow> active_batch option \<Rightarrow> bool" where
  "active_exact gen v sid ao \<longleftrightarrow>
     (case ao of
        None \<Rightarrow> (\<forall>i w. v i = Some w \<longrightarrow> \<not> in_flight (wi_state w))
      | Some a \<Rightarrow>
          wb_slot_id (ab_batch a) = sid \<and> wb_session_generation (ab_batch a) = gen \<and>
          distinct (wb_intent_ids (ab_batch a)) \<and>
          (\<forall>i. i \<in> set (wb_intent_ids (ab_batch a)) \<longleftrightarrow> (\<exists>w. v i = Some w \<and> in_flight (wi_state w))) \<and>
          (\<forall>i w. i \<in> set (wb_intent_ids (ab_batch a)) \<longrightarrow> v i = Some w \<longrightarrow>
             wi_state w = batch_state a \<and> wi_priority w = wb_highest_priority (ab_batch a)))"

definition slot_ok :: "ident \<Rightarrow> (ident \<rightharpoonup> work_intent) \<Rightarrow> ident \<Rightarrow> slot_state option \<Rightarrow> bool" where
  "slot_ok gen v sid so \<longleftrightarrow>
     (case so of
        None \<Rightarrow> (\<forall>i w. v i = Some w \<longrightarrow> is_terminal (wi_state w))
      | Some sl \<Rightarrow> queue_exact v sl \<and> active_exact gen v sid (ss_active sl))"

definition intents_wf :: "work_intent hash_map \<Rightarrow> bool" where
  "intents_wf m \<longleftrightarrow> hm_wf m \<and> (\<forall>i w. map_of m i = Some w \<longrightarrow> wi_intent_id w = i)"

definition leases_wf :: "lease_record hash_map \<Rightarrow> bool" where
  "leases_wf m \<longleftrightarrow> hm_wf m \<and> (\<forall>i l. map_of m i = Some l \<longrightarrow> le_lease_id (lr_lease l) = i)"

definition coord_inv :: "coordinator \<Rightarrow> bool" where
  "coord_inv c \<longleftrightarrow>
     intents_wf (co_intents c) \<and> leases_wf (co_enqueue_leases c) \<and> bt_wf (co_slots c) \<and>
     (\<forall>sid. slot_ok (co_session_generation c) (slot_view (co_intents c) sid) sid
              (map_of (co_slots c) sid))"

lemma coord_invD:
  assumes "coord_inv c"
  shows "intents_wf (co_intents c)" "leases_wf (co_enqueue_leases c)" "bt_wf (co_slots c)"
    and "slot_ok (co_session_generation c) (slot_view (co_intents c) sid) sid (map_of (co_slots c) sid)"
  using assms by (auto simp: coord_inv_def)

lemma coord_inv_new: "coord_inv (coordinator_new t g)"
  by (simp add: coord_inv_def coordinator_new_def intents_wf_def leases_wf_def slot_ok_def slot_view_def)

lemma coord_inv_update:
  assumes "coord_inv c"
    and "intents_wf (co_intents c')" "leases_wf (co_enqueue_leases c')" "bt_wf (co_slots c')"
    and gen: "co_session_generation c' = co_session_generation c"
    and slots: "\<And>s. s \<noteq> sid \<Longrightarrow> map_of (co_slots c') s = map_of (co_slots c) s"
    and views: "\<And>s. s \<noteq> sid \<Longrightarrow> slot_view (co_intents c') s = slot_view (co_intents c) s"
    and here: "slot_ok (co_session_generation c) (slot_view (co_intents c') sid) sid (map_of (co_slots c') sid)"
  shows "coord_inv c'"
  unfolding coord_inv_def
proof (intro conjI allI)
  fix s
  show "slot_ok (co_session_generation c') (slot_view (co_intents c') s) s (map_of (co_slots c') s)"
    using assms(1) gen slots views here by (cases "s = sid") (auto simp: coord_inv_def)
qed (use assms in auto)

subsection \<open>Frame lemmas\<close>

lemma set_intent_state_frame [simp]:
  "co_slots (set_intent_state i st c) = co_slots c"
  "co_enqueue_leases (set_intent_state i st c) = co_enqueue_leases c"
  "co_session_generation (set_intent_state i st c) = co_session_generation c"
  "co_next_operation_id (set_intent_state i st c) = co_next_operation_id c"
  by (simp_all add: set_intent_state_def modify_intent_def)

lemma fold_set_intent_state_frame [simp]:
  "co_slots (fold (\<lambda>i. set_intent_state i st) is c) = co_slots c"
  "co_enqueue_leases (fold (\<lambda>i. set_intent_state i st) is c) = co_enqueue_leases c"
  "co_session_generation (fold (\<lambda>i. set_intent_state i st) is c) = co_session_generation c"
  "co_next_operation_id (fold (\<lambda>i. set_intent_state i st) is c) = co_next_operation_id c"
  by (induction "is" arbitrary: c) auto

lemma slot_update_frame [simp]:
  "co_intents (modify_slot s f c) = co_intents c" "co_intents (put_slot s sl c) = co_intents c"
  "co_enqueue_leases (modify_slot s f c) = co_enqueue_leases c"
  "co_enqueue_leases (put_slot s sl c) = co_enqueue_leases c"
  "co_session_generation (modify_slot s f c) = co_session_generation c"
  "co_session_generation (put_slot s sl c) = co_session_generation c"
  "co_next_operation_id (modify_slot s f c) = co_next_operation_id c"
  "co_next_operation_id (put_slot s sl c) = co_next_operation_id c"
  by (simp_all add: modify_slot_def put_slot_def)

lemma map_of_slots [simp]:
  "map_of (co_slots (modify_slot s f c)) t =
     (if t = s then map_option f (map_of (co_slots c) s) else map_of (co_slots c) t)"
  "map_of (co_slots (put_slot s sl c)) t = (if t = s then Some sl else map_of (co_slots c) t)"
  by (simp_all add: modify_slot_def put_slot_def map_simps)

lemma bt_wf_slots [simp]:
  "bt_wf (co_slots (modify_slot s f c)) = bt_wf (co_slots c)"
  "bt_wf (co_slots c) \<Longrightarrow> bt_wf (co_slots (put_slot s sl c))"
  by (simp_all add: modify_slot_def put_slot_def wf_intros)

lemma map_of_set_intent_state:
  "map_of (co_intents (set_intent_state i st c)) j =
     (if j = i then map_option (\<lambda>w. w\<lparr>wi_state := st\<rparr>) (map_of (co_intents c) i)
      else map_of (co_intents c) j)"
  by (simp add: set_intent_state_def modify_intent_def map_simps)

lemma map_of_fold_set_intent_state:
  "map_of (co_intents (fold (\<lambda>i. set_intent_state i st) is c)) j =
     (if j \<in> set is then map_option (\<lambda>w. w\<lparr>wi_state := st\<rparr>) (map_of (co_intents c) j)
      else map_of (co_intents c) j)"
  by (induction "is" arbitrary: c) (auto simp: map_of_set_intent_state option.map_comp o_def)

lemma intents_wf_set_intent_state [simp]:
  "intents_wf (co_intents c) \<Longrightarrow> intents_wf (co_intents (set_intent_state i st c))"
  by (force simp: intents_wf_def map_of_set_intent_state set_intent_state_def modify_intent_def map_simps
      split: if_splits)

lemma intents_wf_fold_set_intent_state [simp]:
  "intents_wf (co_intents c) \<Longrightarrow> intents_wf (co_intents (fold (\<lambda>i. set_intent_state i st) is c))"
  by (induction "is" arbitrary: c) auto

lemma slot_view_fold_set_intent_state:
  "slot_view (co_intents (fold (\<lambda>i. set_intent_state i st) is c)) sid j =
     (if j \<in> set is then map_option (\<lambda>w. w\<lparr>wi_state := st\<rparr>) (slot_view (co_intents c) sid j)
      else slot_view (co_intents c) sid j)"
  by (auto simp: slot_view_def map_of_fold_set_intent_state split: option.splits)

lemma slot_view_set_intent_state:
  "slot_view (co_intents (set_intent_state i st c)) sid j =
     (if j = i then map_option (\<lambda>w. w\<lparr>wi_state := st\<rparr>) (slot_view (co_intents c) sid j)
      else slot_view (co_intents c) sid j)"
  by (auto simp: slot_view_def map_of_set_intent_state split: option.splits)

lemma slot_view_SomeD: "slot_view m sid i = Some w \<Longrightarrow> map_of m i = Some w \<and> wi_slot_id w = sid"
  by (auto simp: slot_view_def split: option.splits if_splits)

lemma slot_view_iff: "slot_view m sid i = Some w \<longleftrightarrow> map_of m i = Some w \<and> wi_slot_id w = sid"
  by (auto simp: slot_view_def split: option.splits if_splits)

text \<open>Changing the state of intents of one slot leaves the other views alone.\<close>

lemma slot_view_other:
  assumes "\<And>i. i \<in> set is \<Longrightarrow> \<exists>w. slot_view (co_intents c) sid i = Some w" and "s \<noteq> sid"
  shows "slot_view (co_intents (fold (\<lambda>i. set_intent_state i st) is c)) s = slot_view (co_intents c) s"
proof
  fix j
  have "slot_view (co_intents c) s j = None" if "j \<in> set is"
    using assms(1) [OF that] \<open>s \<noteq> sid\<close> by (auto simp: slot_view_def split: option.splits if_splits)
  then show "slot_view (co_intents (fold (\<lambda>i. set_intent_state i st) is c)) s j = slot_view (co_intents c) s j"
    by (simp add: slot_view_fold_set_intent_state)
qed

subsection \<open>Reading the invariant\<close>

lemma slot_ok_queue:
  "slot_ok gen v sid (Some sl) \<Longrightarrow>
     i \<in> set (queue p sl) \<longleftrightarrow> (\<exists>w. v i = Some w \<and> wi_priority w = p \<and> wi_state w = IQueued)"
  by (simp add: slot_ok_def queue_exact_def)

lemma slot_ok_distinct: "slot_ok gen v sid (Some sl) \<Longrightarrow> distinct (queue p sl)"
  by (simp add: slot_ok_def queue_exact_def)

lemma slot_ok_active:
  assumes "slot_ok gen v sid (Some sl)" and "ss_active sl = Some a"
    and "i \<in> set (wb_intent_ids (ab_batch a))"
  shows "\<exists>w. v i = Some w \<and> wi_state w = batch_state a \<and> wi_priority w = wb_highest_priority (ab_batch a)"
proof -
  have ex: "active_exact gen v sid (Some a)"
    using assms(1,2) by (simp add: slot_ok_def)
  then obtain w where "v i = Some w"
    using assms(3) unfolding active_exact_def option.case by blast
  with ex assms(3) show ?thesis
    unfolding active_exact_def option.case by blast
qed

lemma slot_ok_active_mem:
  assumes "slot_ok gen v sid (Some sl)" and "ss_active sl = Some a" and "v i = Some w" and "in_flight (wi_state w)"
  shows "i \<in> set (wb_intent_ids (ab_batch a))"
proof -
  have "active_exact gen v sid (Some a)"
    using assms(1,2) by (simp add: slot_ok_def)
  then show ?thesis
    using assms(3,4) unfolding active_exact_def option.case by blast
qed

lemma batch_state_in_flight [simp]: "in_flight (batch_state a)"
  by (simp add: batch_state_def split: option.split)

lemma slot_ok_active_none:
  "slot_ok gen v sid (Some sl) \<Longrightarrow> ss_active sl = None \<Longrightarrow> v i = Some w \<Longrightarrow> \<not> in_flight (wi_state w)"
  by (auto simp: slot_ok_def active_exact_def)

lemma slot_ok_new: "slot_ok gen v sid None \<Longrightarrow> slot_ok gen v sid (Some (slot_state_new role))"
  by (simp add: slot_ok_def queue_exact_def active_exact_def) (metis is_terminal_simps(1))

text \<open>The active batch depends on the view's in-flight entries only, the queues on the queued ones.\<close>

lemma active_exact_cong:
  assumes ex: "active_exact gen v sid ao"
    and same: "\<And>i w. in_flight (wi_state w) \<Longrightarrow> v' i = Some w \<longleftrightarrow> v i = Some w"
  shows "active_exact gen v' sid ao"
proof (cases ao)
  case None
  with ex same show ?thesis
    unfolding active_exact_def by (simp only: option.case) blast
next
  case (Some a)
  have ids: "i \<in> set (wb_intent_ids (ab_batch a)) \<longleftrightarrow> (\<exists>w. v' i = Some w \<and> in_flight (wi_state w))" for i
    using ex same unfolding Some active_exact_def option.case by blast
  have "wi_state w = batch_state a \<and> wi_priority w = wb_highest_priority (ab_batch a)"
    if i: "i \<in> set (wb_intent_ids (ab_batch a))" and "v' i = Some w" for i w
  proof -
    have "in_flight (wi_state w)"
      using ids i \<open>v' i = Some w\<close> by auto
    then have "v i = Some w"
      using same \<open>v' i = Some w\<close> by blast
    with ex i show ?thesis
      unfolding Some active_exact_def option.case by blast
  qed
  with ids ex show ?thesis
    unfolding Some active_exact_def option.case by blast
qed

lemma queue_exact_cong:
  assumes "queue_exact v sl"
    and "\<And>i w. wi_state w = IQueued \<Longrightarrow> v' i = Some w \<longleftrightarrow> v i = Some w"
    and "\<And>p. queue p sl' = queue p sl"
  shows "queue_exact v' sl'"
  using assms unfolding queue_exact_def by (simp only:) blast

text \<open>Changing nothing but the flags of a slot keeps it.\<close>

lemma slot_ok_cong:
  assumes "slot_ok gen v sid (Some sl)" and "\<And>p. queue p sl' = queue p sl" and "ss_active sl' = ss_active sl"
  shows "slot_ok gen v sid (Some sl')"
  using assms by (simp add: slot_ok_def queue_exact_def)

lemma slot_entry_ok:
  assumes "coord_inv c"
  shows "slot_ok (co_session_generation c) (slot_view (co_intents c) sid) sid (Some (slot_entry sid role c))"
  using coord_invD(4) [OF assms, of sid]
  by (auto simp: slot_entry_def slot_ok_new split: option.splits)

lemma coord_inv_put_slot:
  assumes "coord_inv c" and "\<And>p. queue p sl = queue p (slot_entry sid role c)"
    and "ss_active sl = ss_active (slot_entry sid role c)"
  shows "coord_inv (put_slot sid sl c)"
proof (rule coord_inv_update [OF assms(1), where sid = sid])
  show "slot_ok (co_session_generation c) (slot_view (co_intents (put_slot sid sl c)) sid) sid
      (map_of (co_slots (put_slot sid sl c)) sid)"
    using slot_ok_cong [OF slot_entry_ok [OF assms(1)] assms(2,3)] by simp
qed (use coord_invD(1-3) [OF assms(1)] in auto)

lemma coord_inv_leases:
  assumes "coord_inv c" and "leases_wf ls"
  shows "coord_inv (c\<lparr>co_enqueue_leases := ls\<rparr>)"
  using assms by (simp add: coord_inv_def)

lemma coord_inv_next_op: "coord_inv c \<Longrightarrow> coord_inv (c\<lparr>co_next_operation_id := n\<rparr>)"
  by (simp add: coord_inv_def)

lemma leases_wf_insert: "leases_wf ls \<Longrightarrow> le_lease_id (lr_lease l) = i \<Longrightarrow> leases_wf (hm_insert i l ls)"
  by (simp add: leases_wf_def map_simps wf_intros)

lemma leases_wf_remove: "leases_wf ls \<Longrightarrow> leases_wf (hm_remove i ls)"
  by (simp add: leases_wf_def map_simps wf_intros)

lemma leases_wf_fold_remove: "leases_wf ls \<Longrightarrow> leases_wf (fold AList.delete is ls)"
  by (induction "is" arbitrary: ls) (auto intro: leases_wf_remove)

subsection \<open>Enqueueing\<close>

lemma acquire_enqueue_inv:
  assumes "coord_inv c" and "acquire_enqueue port lease_id request c r = (res, c', r')"
  shows "coord_inv c'"
proof -
  let ?slot = "(slot_entry (rq_slot_id request) (rq_role request) c)\<lparr>ss_role := rq_role request\<rparr>"
  have "coord_inv (put_slot (rq_slot_id request) ?slot c)"
    by (rule coord_inv_put_slot [OF assms(1)]) auto
  then show ?thesis
    using assms(2)
    by (auto simp: acquire_enqueue_def Let_def split: option.splits prod.splits
        intro!: coord_inv_leases leases_wf_insert dest: coord_invD(2))
qed

text \<open>Adding one queued intent to the table and to its queue keeps the invariant.\<close>

lemma coord_inv_add_intent:
  assumes inv: "coord_inv c" and fresh: "map_of (co_intents c) i = None"
    and w: "wi_intent_id w = i" "wi_slot_id w = sid" "wi_priority w = p" "wi_state w = IQueued"
    and sl: "slot_ok (co_session_generation c) (slot_view (co_intents c) sid) sid (Some sl)"
    and sl': "\<And>q. queue q sl' = queue q (push_back p i sl)" "ss_active sl' = ss_active sl"
  shows "coord_inv (put_slot sid sl' (c\<lparr>co_intents := hm_insert i w (co_intents c)\<rparr>))"
proof (rule coord_inv_update [OF inv, where sid = sid])
  let ?m = "hm_insert i w (co_intents c)"
  have view: "slot_view ?m s = (if s = sid then (slot_view (co_intents c) s)(i \<mapsto> w) else slot_view (co_intents c) s)" for s
    using fresh w(2) by (auto simp: slot_view_def map_simps split: option.splits)
  have noti: "slot_view (co_intents c) sid i = None"
    using fresh by (simp add: slot_view_def)
  then have ni: "i \<notin> set (queue q sl)" for q
    using slot_ok_queue [OF sl] by auto
  have q: "queue_exact ((slot_view (co_intents c) sid)(i \<mapsto> w)) sl'"
    using sl noti ni w(3,4) sl'(1) by (auto simp: slot_ok_def queue_exact_def)
  have a: "active_exact (co_session_generation c) ((slot_view (co_intents c) sid)(i \<mapsto> w)) sid (ss_active sl')"
    by (rule active_exact_cong [of _ "slot_view (co_intents c) sid"]) (use sl noti w(4) sl'(2) in \<open>auto simp: slot_ok_def\<close>)
  show "slot_ok (co_session_generation c)
     (slot_view (co_intents (put_slot sid sl' (c\<lparr>co_intents := ?m\<rparr>))) sid) sid
     (map_of (co_slots (put_slot sid sl' (c\<lparr>co_intents := ?m\<rparr>))) sid)"
    using q a by (simp add: slot_ok_def view)
  show "intents_wf (co_intents (put_slot sid sl' (c\<lparr>co_intents := ?m\<rparr>)))"
    using coord_invD(1) [OF inv] w(1) by (auto simp: intents_wf_def map_simps wf_intros)
  show "slot_view (co_intents (put_slot sid sl' (c\<lparr>co_intents := ?m\<rparr>))) s = slot_view (co_intents c) s"
    if "s \<noteq> sid" for s using that by (simp add: view)
next
  show "bt_wf (co_slots (put_slot sid sl' (c\<lparr>co_intents := hm_insert i w (co_intents c)\<rparr>)))"
    using coord_invD(3) [OF inv] by (intro bt_wf_slots(2)) simp
next
  show "leases_wf (co_enqueue_leases (put_slot sid sl' (c\<lparr>co_intents := hm_insert i w (co_intents c)\<rparr>)))"
    using coord_invD(2) [OF inv] by simp
qed (simp_all add: put_slot_def map_simps)

lemma commit_enqueue_inv:
  assumes inv: "coord_inv c" and fresh: "map_of (co_intents c) intent_id = None"
    and res: "commit_enqueue port intent_id now lease msg c r = (res, c', r')"
  shows "coord_inv c'"
proof -
  let ?c1 = "c\<lparr>co_enqueue_leases := hm_remove (le_lease_id lease) (co_enqueue_leases c)\<rparr>"
  have inv1: "coord_inv ?c1"
    by (rule coord_inv_leases [OF inv leases_wf_remove [OF coord_invD(2) [OF inv]]])
  have slot: "slot_ok (co_session_generation ?c1) (slot_view (co_intents ?c1) s) s (Some sl)"
    if "map_of (co_slots c) s = Some sl" for s sl
    using coord_invD(4) [OF inv, of s] that by simp
  consider "c' = c" | sl where "map_of (co_slots c) (le_slot_id lease) = Some sl"
    "\<exists>w sl'. c' = put_slot (le_slot_id lease) sl' (?c1\<lparr>co_intents := hm_insert intent_id w (co_intents ?c1)\<rparr>) \<and>
       wi_intent_id w = intent_id \<and> wi_slot_id w = le_slot_id lease \<and> wi_state w = IQueued \<and>
       (\<forall>q. queue q sl' = queue q (push_back (wi_priority w) intent_id sl)) \<and> ss_active sl' = ss_active sl"
    using res by (fastforce simp: commit_enqueue_def Let_def split: option.splits if_splits)
  then show ?thesis
  proof cases
    case 1
    with inv show ?thesis by simp
  next
    case 2
    then obtain w sl' where
      c': "c' = put_slot (le_slot_id lease) sl' (?c1\<lparr>co_intents := hm_insert intent_id w (co_intents ?c1)\<rparr>)"
      and w: "wi_intent_id w = intent_id" "wi_slot_id w = le_slot_id lease" "wi_state w = IQueued"
      and sl': "\<And>q. queue q sl' = queue q (push_back (wi_priority w) intent_id sl)" "ss_active sl' = ss_active sl"
      by blast
    show ?thesis
      unfolding c'
      by (rule coord_inv_add_intent [OF inv1 _ w(1,2) refl w(3) slot [OF 2(1)] sl']) (simp add: fresh)
  qed
qed

lemma abort_enqueue_inv:
  assumes "coord_inv c" and "abort_enqueue port lease c r = (res, c', r')"
  shows "coord_inv c'"
  using assms
  by (auto simp: abort_enqueue_def Let_def split: option.splits if_splits
      intro!: coord_inv_leases leases_wf_insert leases_wf_remove dest: coord_invD(2))

end
