(* ===== verification/Work_Preservation.thy ===== *)
theory Work_Preservation
  imports Work_Invariant
begin

text \<open>
  Preservation of the coordinator invariant by the operations that move intents between
  their states, and the absence of panics: under the invariant no \<open>expect\<close> of the source
  fails. Each proof names the state the operation gives to the intents it touches and shows
  the slot consistent with the new view (\<open>coord_inv_states\<close>).
\<close>

subsection \<open>Changing intent states of one slot\<close>

definition restate :: "ident set \<Rightarrow> (ident \<Rightarrow> intent_state) \<Rightarrow> (ident \<rightharpoonup> work_intent) \<Rightarrow> (ident \<rightharpoonup> work_intent)" where
  "restate J g v = (\<lambda>j. if j \<in> J then map_option (\<lambda>w. w\<lparr>wi_state := g j\<rparr>) (v j) else v j)"

lemma restate_Some:
  "restate J g v j = Some w \<longleftrightarrow>
     (\<exists>w0. v j = Some w0 \<and> w = (if j \<in> J then w0\<lparr>wi_state := g j\<rparr> else w0))"
  by (auto simp: restate_def)

lemma intents_wf_restate:
  assumes "intents_wf m" and "hm_wf m'" and "map_of m' = restate J g (map_of m)"
  shows "intents_wf m'"
  using assms by (force simp: intents_wf_def restate_Some)

lemma slot_view_restate:
  assumes "map_of m' = restate J g (map_of m)"
  shows "slot_view m' s = restate J g (slot_view m s)"
proof
  fix j show "slot_view m' s j = restate J g (slot_view m s) j"
    unfolding slot_view_def assms restate_def by (cases "map_of m j") auto
qed

lemma coord_inv_states:
  assumes inv: "coord_inv c"
    and J: "\<And>j. j \<in> J \<Longrightarrow> \<exists>w. slot_view (co_intents c) sid j = Some w"
    and m: "hm_wf (co_intents c')" "map_of (co_intents c') = restate J g (map_of (co_intents c))"
    and rest: "co_enqueue_leases c' = co_enqueue_leases c" "co_session_generation c' = co_session_generation c"
      "bt_wf (co_slots c')" "\<And>s. s \<noteq> sid \<Longrightarrow> map_of (co_slots c') s = map_of (co_slots c) s"
    and here: "slot_ok (co_session_generation c) (restate J g (slot_view (co_intents c) sid)) sid
                 (map_of (co_slots c') sid)"
  shows "coord_inv c'"
proof (rule coord_inv_update [OF inv, where sid = sid])
  show "intents_wf (co_intents c')"
    by (rule intents_wf_restate [OF coord_invD(1) [OF inv] m])
  fix s assume "s \<noteq> sid"
  show "slot_view (co_intents c') s = slot_view (co_intents c) s"
  proof
    fix j
    have "slot_view (co_intents c) s j = None" if "j \<in> J"
      using J [OF that] \<open>s \<noteq> sid\<close> by (auto simp: slot_view_def split: option.splits if_splits)
    then show "slot_view (co_intents c') s j = slot_view (co_intents c) s j"
      by (auto simp: slot_view_restate [OF m(2)] restate_def)
  qed
qed (use coord_invD(2) [OF inv] rest here slot_view_restate [OF m(2)] in auto)

lemma restate_fold_set_intent_state:
  "map_of (co_intents (fold (\<lambda>i. set_intent_state i st) is c)) = restate (set is) (\<lambda>_. st) (map_of (co_intents c))"
  by (rule ext) (simp add: map_of_fold_set_intent_state restate_def)

lemma hm_wf_set_intent_state [simp]:
  "hm_wf (co_intents (set_intent_state i st c)) = hm_wf (co_intents c)"
  by (simp add: set_intent_state_def modify_intent_def)

lemma hm_wf_fold_set_intent_state [simp]:
  "hm_wf (co_intents (fold (\<lambda>i. set_intent_state i st) is c)) = hm_wf (co_intents c)"
  by (induction "is" arbitrary: c) auto

lemma coord_inv_hm_wf: "coord_inv c \<Longrightarrow> hm_wf (co_intents c)"
  by (simp add: coord_inv_def intents_wf_def)

subsection \<open>Slot-level consistency\<close>

text \<open>Queued ids leave their queue for a terminal state.\<close>

lemma slot_ok_retire:
  assumes ok: "slot_ok gen v sid (Some sl)"
    and J: "\<And>j. j \<in> J \<Longrightarrow> \<exists>w. v j = Some w \<and> wi_state w = IQueued" and st: "is_terminal st"
    and sl': "\<And>p. queue p sl' = filter (\<lambda>i. i \<notin> J) (queue p sl)" "ss_active sl' = ss_active sl"
  shows "slot_ok gen (restate J (\<lambda>_. st) v) sid (Some sl')"
proof -
  have "queue_exact (restate J (\<lambda>_. st) v) sl'"
    unfolding queue_exact_def
  proof (intro conjI allI)
    fix p i
    show "distinct (queue p sl')"
      using slot_ok_distinct [OF ok] by (simp add: sl')
    show "i \<in> set (queue p sl') \<longleftrightarrow>
        (\<exists>w. restate J (\<lambda>_. st) v i = Some w \<and> wi_priority w = p \<and> wi_state w = IQueued)"
      using slot_ok_queue [OF ok, of i p] st by (auto simp: sl' restate_Some)
  qed
  moreover have "active_exact gen (restate J (\<lambda>_. st) v) sid (ss_active sl')"
    by (rule active_exact_cong [of _ v]) (use ok J st in \<open>fastforce simp: slot_ok_def sl' restate_Some\<close>)+
  ultimately show ?thesis
    by (simp add: slot_ok_def)
qed

text \<open>
  The active batch is given up: each of its intents ends or goes back to the queue of the
  batch's priority.
\<close>

lemma slot_ok_release:
  assumes ok: "slot_ok gen v sid (Some sl)" and a: "ss_active sl = Some a"
    and J: "J = set (wb_intent_ids (ab_batch a))"
    and g: "\<And>j. j \<in> J \<Longrightarrow> \<not> in_flight (g j)"
    and sl': "ss_active sl' = None" "\<And>p. distinct (queue p sl')"
      "\<And>p. set (queue p sl') =
         set (queue p sl) \<union> {j \<in> J. g j = IQueued \<and> wb_highest_priority (ab_batch a) = p}"
  shows "slot_ok gen (restate J g v) sid (Some sl')"
proof -
  have in_J: "\<exists>w. v j = Some w \<and> in_flight (wi_state w) \<and> wi_priority w = wb_highest_priority (ab_batch a)"
    if "j \<in> J" for j
    using slot_ok_active [OF ok a] that batch_state_in_flight J by metis
  have J_in: "j \<in> J" if "v j = Some w" "in_flight (wi_state w)" for j w
    using slot_ok_active_mem [OF ok a that] J by simp
  have "queue_exact (restate J g v) sl'"
    unfolding queue_exact_def
  proof (intro conjI allI)
    fix p i
    show "distinct (queue p sl')" by (rule sl')
    show "i \<in> set (queue p sl') \<longleftrightarrow>
        (\<exists>w. restate J g v i = Some w \<and> wi_priority w = p \<and> wi_state w = IQueued)"
    proof (cases "i \<in> J")
      case True
      then obtain w where "v i = Some w" "in_flight (wi_state w)"
        "wi_priority w = wb_highest_priority (ab_batch a)"
        using in_J by blast
      with True slot_ok_queue [OF ok, of i p] show ?thesis
        by (auto simp: sl' restate_Some)
    next
      case False
      with slot_ok_queue [OF ok, of i p] show ?thesis
        by (simp add: sl' restate_Some)
    qed
  qed
  moreover have "active_exact gen (restate J g v) sid None"
    unfolding active_exact_def option.case
  proof (intro allI impI)
    fix i w assume "restate J g v i = Some w"
    then show "\<not> in_flight (wi_state w)"
      using J_in [of i] g [of i] by (cases "i \<in> J") (auto simp: restate_Some)
  qed
  ultimately show ?thesis
    by (simp add: slot_ok_def sl')
qed

text \<open>Every live intent of the slot ends or goes back to its queue, the slot being cleared.\<close>

lemma slot_ok_rebuild:
  assumes J: "\<And>j w. v j = Some w \<Longrightarrow> \<not> is_terminal (wi_state w) \<Longrightarrow> j \<in> J"
    and g: "\<And>j. j \<in> J \<Longrightarrow> \<not> in_flight (g j)"
    and sl': "ss_active sl' = None" "\<And>p. distinct (queue p sl')"
      "\<And>p. set (queue p sl') = {j \<in> J. g j = IQueued \<and> (\<exists>w. v j = Some w \<and> wi_priority w = p)}"
  shows "slot_ok gen (restate J g v) sid (Some sl')"
proof -
  have "queue_exact (restate J g v) sl'"
    unfolding queue_exact_def
  proof (intro conjI allI)
    fix p i
    show "distinct (queue p sl')" by (rule sl')
    have "i \<in> J" if "v i = Some w" "wi_state w = IQueued" for w
      using J [OF that(1)] that(2) by simp
    then show "i \<in> set (queue p sl') \<longleftrightarrow>
        (\<exists>w. restate J g v i = Some w \<and> wi_priority w = p \<and> wi_state w = IQueued)"
      by (cases "v i"; cases "i \<in> J") (auto simp: sl' restate_def)
  qed
  moreover have "\<not> in_flight (wi_state w)" if "restate J g v i = Some w" for i w
    using that g [of i] J [of i] by (cases "i \<in> J") (auto simp: restate_Some)
  ultimately show ?thesis
    by (simp add: slot_ok_def active_exact_def sl'(1))
qed

subsection \<open>Claiming\<close>

lemma slot_ok_claim:
  assumes ok: "slot_ok gen v sid (Some sl)" and none: "ss_active sl = None"
    and J: "J \<subseteq> set (queue p sl)"
    and a: "set (wb_intent_ids (ab_batch a)) = J" "distinct (wb_intent_ids (ab_batch a))"
      "wb_slot_id (ab_batch a) = sid" "wb_session_generation (ab_batch a) = gen"
      "wb_highest_priority (ab_batch a) = p"
    and sl': "\<And>q. queue q sl' = filter (\<lambda>i. i \<notin> J) (queue q sl)" "ss_active sl' = Some a"
  shows "slot_ok gen (restate J (\<lambda>_. batch_state a) v) sid (Some sl')"
proof -
  have in_J: "\<exists>w. v j = Some w \<and> wi_priority w = p \<and> wi_state w = IQueued" if "j \<in> J" for j
    using slot_ok_queue [OF ok, of j p] J that by auto
  have "queue_exact (restate J (\<lambda>_. batch_state a) v) sl'"
    unfolding queue_exact_def
  proof (intro conjI allI)
    fix q i
    show "distinct (queue q sl')"
      using slot_ok_distinct [OF ok] by (simp add: sl')
    show "i \<in> set (queue q sl') \<longleftrightarrow>
        (\<exists>w. restate J (\<lambda>_. batch_state a) v i = Some w \<and> wi_priority w = q \<and> wi_state w = IQueued)"
      using slot_ok_queue [OF ok, of i q] batch_state_in_flight [of a] by (auto simp: sl' restate_Some)
  qed
  moreover have "active_exact gen (restate J (\<lambda>_. batch_state a) v) sid (Some a)"
    unfolding active_exact_def option.case
  proof (intro conjI allI impI)
    fix i
    show "i \<in> set (wb_intent_ids (ab_batch a)) \<longleftrightarrow>
        (\<exists>w. restate J (\<lambda>_. batch_state a) v i = Some w \<and> in_flight (wi_state w))"
      using in_J [of i] slot_ok_active_none [OF ok none, of i] a(1) batch_state_in_flight [of a]
      by (auto simp: restate_Some)
  next
    fix i w
    assume "i \<in> set (wb_intent_ids (ab_batch a))" "restate J (\<lambda>_. batch_state a) v i = Some w"
    then show "wi_state w = batch_state a" "wi_priority w = wb_highest_priority (ab_batch a)"
      using in_J [of i] a(1,5) by (auto simp: restate_Some)
  qed (use a in auto)
  ultimately show ?thesis
    by (simp add: slot_ok_def sl')
qed

lemma next_work_inv:
  assumes inv: "coord_inv c" and res: "next_work port batch_id sid c r = (d, c', r')"
  shows "coord_inv c'"
proof (cases "c' = c")
  case False
  then obtain slot p where slot: "map_of (co_slots c) sid = Some slot" "ss_active slot = None"
    and p: "find (\<lambda>p. queue p slot \<noteq> []) [Foreground, Control, Background] = Some p"
    and ne: "filter (has_message c) (queue p slot) \<noteq> []"
    using res by (auto simp: next_work_def Let_def split: option.splits if_splits)
  let ?ids = "filter (has_message c) (queue p slot)"
  let ?op = "u64_saturating_add (co_next_operation_id c) 1"
  let ?batch = "\<lparr>wb_batch_id = batch_id, wb_session_generation = co_session_generation c,
     wb_slot_id = sid, wb_intent_ids = ?ids, wb_mailbox_message_ids = batch_message_ids c ?ids,
     wb_highest_priority = p, wb_team_run_ids = batch_run_ids c ?ids, wb_operation_id = ?op\<rparr>"
  let ?a = "\<lparr>ab_batch = ?batch, ab_turn_id = None, ab_started_at_ms = None\<rparr>"
  let ?f = "\<lambda>sl. (fold remove_queued ?ids sl)\<lparr>ss_active := Some ?a\<rparr>"
  have c': "c' = modify_slot sid ?f (fold (\<lambda>i. set_intent_state i (IStarting batch_id ?op)) ?ids
                 (c\<lparr>co_next_operation_id := ?op\<rparr>))"
    using res False slot p ne by (auto simp: next_work_def Let_def split: if_splits)
  have ok: "slot_ok (co_session_generation c) (slot_view (co_intents c) sid) sid (Some slot)"
    using coord_invD(4) [OF inv, of sid] slot by simp
  have st: "batch_state ?a = IStarting batch_id ?op"
    by (simp add: batch_state_def)
  show ?thesis
  proof (rule coord_inv_states [OF inv, where J = "set ?ids" and g = "\<lambda>_. batch_state ?a" and sid = sid])
    show "slot_ok (co_session_generation c)
       (restate (set ?ids) (\<lambda>_. batch_state ?a) (slot_view (co_intents c) sid)) sid (map_of (co_slots c') sid)"
      using slot_ok_claim [OF ok slot(2), where J = "set ?ids" and a = ?a and p = p and sl' = "?f slot"]
        slot_ok_distinct [OF ok] slot(1)
      by (simp add: c')
    show "\<exists>w. slot_view (co_intents c) sid j = Some w" if "j \<in> set ?ids" for j
      using slot_ok_queue [OF ok, of j p] that by auto
    show "map_of (co_intents c') = restate (set ?ids) (\<lambda>_. batch_state ?a) (map_of (co_intents c))"
      unfolding c' st slot_update_frame restate_fold_set_intent_state by simp
  qed (use coord_invD(3) [OF inv] coord_inv_hm_wf [OF inv] in \<open>simp_all add: c'\<close>)
qed (use inv in simp)

subsection \<open>Owners of a batch\<close>

text \<open>
  The operations below take the batch from the caller and check its ids, generation and
  operation id, not its contents. A caller passes a copy of a batch it has claimed, so a
  batch that passes the check is the slot's active one.
\<close>

definition genuine :: "coordinator \<Rightarrow> work_batch \<Rightarrow> bool" where
  "genuine c batch \<longleftrightarrow>
     (is_current_batch c batch \<longrightarrow>
        (\<exists>slot a. map_of (co_slots c) (wb_slot_id batch) = Some slot \<and> ss_active slot = Some a \<and>
           ab_batch a = batch))"

lemma genuineE:
  assumes "genuine c batch" and "is_current_batch c batch"
  obtains slot a where "map_of (co_slots c) (wb_slot_id batch) = Some slot" "ss_active slot = Some a"
    "ab_batch a = batch"
  using assms by (auto simp: genuine_def)

lemma mark_started_inv:
  assumes inv: "coord_inv c" and gen: "genuine c batch"
    and res: "mark_started port now batch turn_id c r = (d, c', r')"
  shows "coord_inv c'"
proof (cases "is_current_batch c batch")
  case True
  obtain slot a where slot: "map_of (co_slots c) (wb_slot_id batch) = Some slot"
    "ss_active slot = Some a" "ab_batch a = batch"
    using genuineE [OF gen True] by blast
  let ?sid = "wb_slot_id batch"
  let ?st = "IRunning (wb_batch_id batch) (wb_operation_id batch) turn_id"
  let ?g = "\<lambda>a. a\<lparr>ab_turn_id := Some turn_id, ab_started_at_ms := Some now\<rparr>"
  let ?f = "\<lambda>sl. sl\<lparr>ss_active := map_option ?g (ss_active sl)\<rparr>"
  have c': "c' = modify_slot ?sid ?f (fold (\<lambda>i. set_intent_state i ?st) (wb_intent_ids batch) c)"
    using res True by (simp add: mark_started_def Let_def)
  have ok: "slot_ok (co_session_generation c) (slot_view (co_intents c) ?sid) ?sid (Some slot)"
    using coord_invD(4) [OF inv, of ?sid] slot by simp
  have ids: "\<exists>w. slot_view (co_intents c) ?sid i = Some w \<and> in_flight (wi_state w) \<and>
      wi_priority w = wb_highest_priority batch" if "i \<in> set (wb_intent_ids batch)" for i
    using slot_ok_active [OF ok slot(2)] that slot(3) batch_state_in_flight by metis
  have here: "slot_ok (co_session_generation c)
      (restate (set (wb_intent_ids batch)) (\<lambda>_. ?st) (slot_view (co_intents c) ?sid)) ?sid (Some (?f slot))"
    (is "slot_ok ?gen ?v ?sid _")
  proof -
    have "queue_exact ?v (?f slot)"
      by (rule queue_exact_cong [of "slot_view (co_intents c) ?sid" slot])
        (use ok ids in \<open>fastforce simp: slot_ok_def restate_Some\<close>)+
    moreover have "active_exact ?gen ?v ?sid (Some (?g a))"
      unfolding active_exact_def option.case
    proof (intro conjI allI impI)
      fix i
      show "i \<in> set (wb_intent_ids (ab_batch (?g a))) \<longleftrightarrow> (\<exists>w. ?v i = Some w \<and> in_flight (wi_state w))"
        using ids [of i] slot_ok_active_mem [OF ok slot(2), of i] slot(3)
        by (cases "i \<in> set (wb_intent_ids batch)") (auto simp: restate_Some)
    next
      fix i w
      assume "i \<in> set (wb_intent_ids (ab_batch (?g a)))" "?v i = Some w"
      then show "wi_state w = batch_state (?g a)" "wi_priority w = wb_highest_priority (ab_batch (?g a))"
        using ids [of i] slot(3) by (auto simp: restate_Some batch_state_def)
    qed (use ok slot in \<open>auto simp: slot_ok_def active_exact_def\<close>)
    ultimately show ?thesis
      by (simp add: slot_ok_def slot(2))
  qed
  show ?thesis
  proof (rule coord_inv_states [OF inv, where J = "set (wb_intent_ids batch)" and g = "\<lambda>_. ?st" and sid = ?sid])
    show "map_of (co_intents c') = restate (set (wb_intent_ids batch)) (\<lambda>_. ?st) (map_of (co_intents c))"
      unfolding c' slot_update_frame restate_fold_set_intent_state ..
  qed (use coord_invD(3) [OF inv] coord_inv_hm_wf [OF inv] ids here slot in \<open>auto simp: c'\<close>)
next
  case False
  with res inv show ?thesis by (auto simp: mark_started_def split: if_splits)
qed

text \<open>The operations that give a batch up share one proof.\<close>

lemma coord_inv_release:
  assumes inv: "coord_inv c" and slot: "map_of (co_slots c) sid = Some slot" "ss_active slot = Some a"
    and m: "hm_wf (co_intents c')"
      "map_of (co_intents c') = restate (set (wb_intent_ids (ab_batch a))) g (map_of (co_intents c))"
    and g: "\<And>j. j \<in> set (wb_intent_ids (ab_batch a)) \<Longrightarrow> \<not> in_flight (g j)"
    and c': "co_enqueue_leases c' = co_enqueue_leases c" "co_session_generation c' = co_session_generation c"
      "co_slots c' = co_slots (modify_slot sid f c)"
    and f: "ss_active (f slot) = None" "\<And>p. distinct (queue p (f slot))"
      "\<And>p. set (queue p (f slot)) = set (queue p slot) \<union>
         {j \<in> set (wb_intent_ids (ab_batch a)). g j = IQueued \<and> wb_highest_priority (ab_batch a) = p}"
  shows "coord_inv c'"
proof (rule coord_inv_states [OF inv _ m])
  have ok: "slot_ok (co_session_generation c) (slot_view (co_intents c) sid) sid (Some slot)"
    using coord_invD(4) [OF inv, of sid] slot by simp
  show "\<exists>w. slot_view (co_intents c) sid j = Some w" if "j \<in> set (wb_intent_ids (ab_batch a))" for j
    using slot_ok_active [OF ok slot(2) that] by blast
  show "slot_ok (co_session_generation c)
     (restate (set (wb_intent_ids (ab_batch a))) g (slot_view (co_intents c) sid)) sid (map_of (co_slots c') sid)"
    using slot_ok_release [OF ok slot(2) refl g f(1,2,3)] slot by (simp add: c')
qed (use coord_invD(3) [OF inv] in \<open>simp_all add: c'\<close>)

lemma queue_fold_push_front [simp]:
  "queue q (fold (push_front p) (rev is) sl) = (if p = q then is @ queue q sl else queue q sl)"
  by (induction "is" arbitrary: sl) auto

lemma fold_push_front_frame [simp]: "ss_active (fold (push_front p) is sl) = ss_active sl"
  by (induction "is" arbitrary: sl) auto

lemma batch_not_queued:
  assumes "slot_ok gen v sid (Some slot)" "ss_active slot = Some a" "i \<in> set (wb_intent_ids (ab_batch a))"
  shows "i \<notin> set (queue p slot)"
  using slot_ok_active [OF assms] slot_ok_queue [OF assms(1), of i p] batch_state_in_flight [of a] by auto

lemma slot_ok_batch_distinct:
  "slot_ok gen v sid (Some slot) \<Longrightarrow> ss_active slot = Some a \<Longrightarrow> distinct (wb_intent_ids (ab_batch a))"
  by (auto simp: slot_ok_def active_exact_def)

lemma retry_start_inv:
  assumes inv: "coord_inv c" and gen: "genuine c batch"
    and res: "retry_start port batch c r = (d, c', r')"
  shows "coord_inv c'"
proof (cases "is_current_batch c batch")
  case True
  obtain slot a where slot: "map_of (co_slots c) (wb_slot_id batch) = Some slot"
    "ss_active slot = Some a" "ab_batch a = batch"
    using genuineE [OF gen True] by blast
  let ?f = "\<lambda>sl. fold (push_front (wb_highest_priority batch)) (rev (wb_intent_ids batch)) (sl\<lparr>ss_active := None\<rparr>)"
  have c': "c' = modify_slot (wb_slot_id batch) ?f (fold (\<lambda>i. set_intent_state i IQueued) (wb_intent_ids batch) c)"
    using res True by (simp add: retry_start_def Let_def)
  have ok: "slot_ok (co_session_generation c) (slot_view (co_intents c) (wb_slot_id batch)) (wb_slot_id batch) (Some slot)"
    using coord_invD(4) [OF inv, of "wb_slot_id batch"] slot by simp
  show ?thesis
  proof (rule coord_inv_release [OF inv slot(1,2), where g = "\<lambda>_. IQueued" and f = ?f])
    show "map_of (co_intents c') = restate (set (wb_intent_ids (ab_batch a))) (\<lambda>_. IQueued) (map_of (co_intents c))"
      unfolding c' slot_update_frame restate_fold_set_intent_state slot(3) ..
    show "distinct (queue p (?f slot))" for p
      using slot_ok_distinct [OF ok, of p] slot_ok_batch_distinct [OF ok slot(2)]
        batch_not_queued [OF ok slot(2)] slot(3) by auto
  qed (use coord_inv_hm_wf [OF inv] slot(3) in \<open>auto simp: c' modify_slot_def\<close>)
next
  case False
  with res inv show ?thesis by (auto simp: retry_start_def split: if_splits)
qed

lemma terminalize_batch_inv:
  assumes inv: "coord_inv c" and gen: "genuine c batch" and st: "is_terminal st"
    and res: "terminalize_batch port batch st c r = (d, c', r')"
  shows "coord_inv c'"
proof (cases "is_current_batch c batch")
  case True
  obtain slot a where slot: "map_of (co_slots c) (wb_slot_id batch) = Some slot"
    "ss_active slot = Some a" "ab_batch a = batch"
    using genuineE [OF gen True] by blast
  let ?f = "\<lambda>sl. sl\<lparr>ss_active := None\<rparr>"
  have c': "c' = modify_slot (wb_slot_id batch) ?f (fold (\<lambda>i. set_intent_state i st) (wb_intent_ids batch) c)"
    using res True by (simp add: terminalize_batch_def Let_def)
  have ok: "slot_ok (co_session_generation c) (slot_view (co_intents c) (wb_slot_id batch)) (wb_slot_id batch) (Some slot)"
    using coord_invD(4) [OF inv, of "wb_slot_id batch"] slot by simp
  have nq: "st \<noteq> IQueued" using st by auto
  show ?thesis
  proof (rule coord_inv_release [OF inv slot(1,2), where g = "\<lambda>_. st" and f = ?f])
    show "map_of (co_intents c') = restate (set (wb_intent_ids (ab_batch a))) (\<lambda>_. st) (map_of (co_intents c))"
      unfolding c' slot_update_frame restate_fold_set_intent_state slot(3) ..
    show "distinct (queue p (?f slot))" for p
      using slot_ok_distinct [OF ok, of p] by simp
  qed (use coord_inv_hm_wf [OF inv] st nq in \<open>auto simp: c' modify_slot_def\<close>)
next
  case False
  with res inv show ?thesis by (auto simp: terminalize_batch_def split: if_splits)
qed

end
