(* ===== verification/Work_Preservation_Control.thy ===== *)
theory Work_Preservation_Control
  imports Work_Preservation
begin

text \<open>
  Preservation of the coordinator invariant, and absence of panics, for the operations of
  Work_Control and for the mailbox reconciliation.
\<close>

subsection \<open>Retiring queued intents\<close>

lemma coord_inv_retire:
  assumes inv: "coord_inv c" and slot: "map_of (co_slots c) sid = Some slot"
    and queued: "\<And>i. i \<in> set is \<Longrightarrow> \<exists>w. slot_view (co_intents c) sid i = Some w \<and> wi_state w = IQueued"
    and st: "is_terminal st"
  shows "coord_inv (modify_slot sid (fold remove_queued is) (fold (\<lambda>i. set_intent_state i st) is c))"
    (is "coord_inv ?c'")
proof (rule coord_inv_states [OF inv, where J = "set is" and g = "\<lambda>_. st" and sid = sid])
  have ok: "slot_ok (co_session_generation c) (slot_view (co_intents c) sid) sid (Some slot)"
    using coord_invD(4) [OF inv, of sid] slot by simp
  show "slot_ok (co_session_generation c) (restate (set is) (\<lambda>_. st) (slot_view (co_intents c) sid)) sid
      (map_of (co_slots ?c') sid)"
    using slot_ok_retire [OF ok queued st, where sl' = "fold remove_queued is slot"] slot by simp
  show "map_of (co_intents ?c') = restate (set is) (\<lambda>_. st) (map_of (co_intents c))"
    unfolding slot_update_frame restate_fold_set_intent_state ..
qed (use coord_invD(3) [OF inv] coord_inv_hm_wf [OF inv] queued in auto)

subsection \<open>Mailbox reconciliation\<close>

definition stale_message :: "coordinator \<Rightarrow> ident list \<Rightarrow> ident \<Rightarrow> bool" where
  "stale_message c unread i \<longleftrightarrow>
     (case Option.bind (map_of (co_intents c) i) wi_mailbox_message_id of
        None \<Rightarrow> False | Some m \<Rightarrow> m \<notin> set unread)"

definition known_intent :: "coordinator \<Rightarrow> ident \<Rightarrow> bool" where
  "known_intent c i \<longleftrightarrow> is_some (map_of (co_intents c) i)"

lemma message_unchanged [simp]:
  "Option.bind (map_of (co_intents (set_intent_state i st c)) j) wi_mailbox_message_id =
   Option.bind (map_of (co_intents c) j) wi_mailbox_message_id"
  by (cases "map_of (co_intents c) i") (auto simp: map_of_set_intent_state)

lemma stale_message_set_state [simp]: "stale_message (set_intent_state i st c) unread = stale_message c unread"
  by (rule ext) (simp add: stale_message_def)

lemma known_intent_set_state [simp]: "known_intent (set_intent_state i st c) = known_intent c"
  by (rule ext) (simp add: known_intent_def map_of_set_intent_state)

lemma fold_reconcile_candidate:
  "fold (reconcile_candidate unread) is (c, ret, cl) =
     (fold (\<lambda>i. set_intent_state i ICompleted) (filter (stale_message c unread) is) c,
      ret @ filter (\<lambda>i. known_intent c i \<and> \<not> stale_message c unread i) is,
      cl @ filter (stale_message c unread) is)"
proof (induction "is" arbitrary: c ret cl)
  case (Cons i "is")
  have "reconcile_candidate unread i (c, ret, cl) =
      (if stale_message c unread i then (set_intent_state i ICompleted c, ret, cl @ [i])
       else (c, ret @ (if known_intent c i then [i] else []), cl))"
    by (auto simp: reconcile_candidate_def stale_message_def known_intent_def split: option.splits)
  then show ?case
    by (simp add: Cons.IH)
qed simp

lemma modify_slot_put_slot:
  assumes "bt_wf (co_slots c)" and "map_of (co_slots c) sid = Some sl"
  shows "modify_slot sid f c = put_slot sid (f sl) c"
proof -
  have "AList.map_entry k g m = bt_insert k (g v) m" if "bt_wf m" "map_of m k = Some v" for k g v and m :: "slot_state btree_map"
    using that
  proof (induction m)
    case (Cons e m)
    show ?case
    proof (cases "fst e = k")
      case False
      with Cons.prems have "k \<in> fst ` set m"
        by (cases e) (auto dest: map_of_SomeD simp: image_iff intro: rev_bexI)
      with Cons.prems(1) have "fst e < k" by auto
      with Cons False show ?thesis by (cases e) auto
    qed (use Cons.prems in \<open>cases e; auto\<close>)
  qed simp
  with assms show ?thesis by (simp add: modify_slot_def put_slot_def)
qed

lemma recover_message_inv:
  assumes inv: "coord_inv c" and slot: "is_some (map_of (co_slots c) sid)"
    and fresh: "map_of (co_intents c) (ids (length created)) = None"
    and res: "recover_message ids clock sid role m (c, created) = (c', created')"
  shows "coord_inv c'" and "is_some (map_of (co_slots c') sid)"
    and "created' = created \<and> c' = c \<or>
         created' = created @ [ids (length created)] \<and>
         (\<forall>i. i \<noteq> ids (length created) \<longrightarrow> map_of (co_intents c') i = map_of (co_intents c) i)"
proof -
  obtain sl where sl: "map_of (co_slots c) sid = Some sl"
    using slot by blast
  have ok: "slot_ok (co_session_generation c) (slot_view (co_intents c) sid) sid (Some sl)"
    using coord_invD(4) [OF inv, of sid] sl by simp
  let ?i = "ids (length created)"
  let ?w = "\<lparr>wi_intent_id = ?i, wi_session_generation = co_session_generation c, wi_slot_id = sid,
     wi_role = role, wi_source = RecoveryDrain, wi_priority = Background,
     wi_mailbox_message_id = Some m, wi_team_run_id = None,
     wi_created_at_ms = clock (length created), wi_state = IQueued\<rparr>"
  let ?c1 = "c\<lparr>co_intents := hm_insert ?i ?w (co_intents c)\<rparr>"
  have put: "modify_slot sid (push_back Background ?i) ?c1 = put_slot sid (push_back Background ?i sl) ?c1"
    by (rule modify_slot_put_slot) (use coord_invD(3) [OF inv] sl in simp_all)
  show "coord_inv c'"
    using res inv coord_inv_add_intent [OF inv fresh, of ?w sid Background sl "push_back Background ?i sl"] ok put
    by (auto simp: recover_message_def Let_def split: if_splits)
  show "is_some (map_of (co_slots c') sid)"
    using res sl put by (auto simp: recover_message_def Let_def split: if_splits)
  show "created' = created \<and> c' = c \<or> created' = created @ [?i] \<and>
     (\<forall>i. i \<noteq> ?i \<longrightarrow> map_of (co_intents c') i = map_of (co_intents c) i)"
    using res by (auto simp: recover_message_def Let_def map_simps split: if_splits)
qed

lemma fold_recover_message_inv:
  assumes "coord_inv c" and "is_some (map_of (co_slots c) sid)" and "inj ids"
    and "\<And>n. length created \<le> n \<Longrightarrow> map_of (co_intents c) (ids n) = None"
    and "fold (recover_message ids clock sid role) ms (c, created) = (c', created')"
  shows "coord_inv c'"
  using assms
proof (induction ms arbitrary: c created)
  case (Cons m ms)
  obtain c1 created1 where step: "recover_message ids clock sid role m (c, created) = (c1, created1)"
    by (cases "recover_message ids clock sid role m (c, created)") auto
  have fresh: "map_of (co_intents c) (ids (length created)) = None"
    using Cons.prems(4) by simp
  note one = recover_message_inv [OF Cons.prems(1,2) fresh step]
  have "map_of (co_intents c1) (ids n) = None" if "length created1 \<le> n" for n
  proof -
    have "ids n \<noteq> ids (length created)" if "length created < n"
      using that Cons.prems(3) by (auto dest: injD)
    with one(3) that Cons.prems(4) [of n] show ?thesis by (auto simp: Suc_le_eq)
  qed
  then show ?case
    by (rule Cons.IH [OF one(1,2) Cons.prems(3)]) (use Cons.prems(5) step in simp_all)
qed simp

lemma reconcile_mailbox_inv:
  assumes inv: "coord_inv c" and ids: "inj ids" "\<And>n. map_of (co_intents c) (ids n) = None"
    and res: "reconcile_mailbox ids clock sid unread role c = (proj, c')"
  shows "coord_inv c'"
proof -
  let ?slot = "(slot_entry sid role c)\<lparr>ss_role := role, ss_known_unread := set unread\<rparr>"
  let ?c1 = "put_slot sid ?slot c"
  let ?stale = "filter (stale_message ?c1 unread) (queued_ids ?slot)"
  let ?c3 = "modify_slot sid (fold remove_queued ?stale) (fold (\<lambda>i. set_intent_state i ICompleted) ?stale ?c1)"
  have inv1: "coord_inv ?c1"
    by (rule coord_inv_put_slot [OF inv]) auto
  have slot1: "map_of (co_slots ?c1) sid = Some ?slot" by simp
  have ok1: "slot_ok (co_session_generation ?c1) (slot_view (co_intents ?c1) sid) sid (Some ?slot)"
    using coord_invD(4) [OF inv1, of sid] slot1 by simp
  have "\<exists>w. slot_view (co_intents ?c1) sid i = Some w \<and> wi_state w = IQueued" if "i \<in> set ?stale" for i
    using that slot_ok_queue [OF ok1, of i] by (auto simp: set_queued_ids)
  then have inv3: "coord_inv ?c3"
    by (rule coord_inv_retire [OF inv1 slot1]) simp_all
  have "map_of (co_intents ?c3) (ids n) = None" for n
    using ids(2) [of n] by (simp add: map_of_fold_set_intent_state)
  moreover have "is_some (map_of (co_slots ?c3) sid)" by simp
  ultimately show ?thesis
    using res fold_recover_message_inv [OF inv3 _ ids(1), of sid "[]"]
    by (auto simp: reconcile_mailbox_def Let_def fold_reconcile_candidate split: prod.splits)
qed

subsection \<open>Signals, pausing\<close>

lemma fold_complete_signal:
  "fold (\<lambda>i c. modify_slot sid (remove_queued i) (set_intent_state i st c)) is c =
   modify_slot sid (fold remove_queued is) (fold (\<lambda>i. set_intent_state i st) is c)"
proof (induction "is" arbitrary: c)
  case Nil
  have "AList.map_entry sid (\<lambda>x. x) m = m" for m :: "slot_state btree_map"
    by (induction m) auto
  then show ?case by (simp add: modify_slot_def id_def)
next
  case (Cons i "is")
  have comp: "modify_slot sid f (modify_slot sid g c) = modify_slot sid (f \<circ> g) c" for f g c
  proof -
    have "AList.map_entry sid f (AList.map_entry sid g m) = AList.map_entry sid (f \<circ> g) m" for m
      by (induction m) auto
    then show ?thesis by (simp add: modify_slot_def)
  qed
  have swap: "fold (\<lambda>i. set_intent_state i st) js (modify_slot sid f c) =
      modify_slot sid f (fold (\<lambda>i. set_intent_state i st) js c)" for js f c
  proof (induction js arbitrary: c)
    case (Cons j js)
    have "set_intent_state j st (modify_slot sid f c) = modify_slot sid f (set_intent_state j st c)"
      by (simp add: modify_slot_def set_intent_state_def modify_intent_def)
    with Cons show ?case by simp
  qed simp
  show ?case
    by (simp add: Cons.IH swap comp o_def)
qed

lemma complete_signals_inv:
  assumes inv: "coord_inv c" and res: "complete_signals port sid is c r = (d, c', r')"
  shows "coord_inv c'"
proof (cases "c' = c")
  case False
  then have all: "list_all (\<lambda>i. case map_of (co_intents c) i of None \<Rightarrow> False
      | Some w \<Rightarrow> wi_slot_id w = sid \<and> wi_mailbox_message_id w = None \<and> wi_state w = IQueued) is"
    and c': "c' = modify_slot sid (fold remove_queued is) (fold (\<lambda>i. set_intent_state i ICompleted) is c)"
    using res by (auto simp: complete_signals_def Let_def fold_complete_signal split: if_splits)
  have v: "\<exists>w. slot_view (co_intents c) sid i = Some w \<and> wi_state w = IQueued" if "i \<in> set is" for i
    using all that by (fastforce simp: list_all_iff slot_view_def split: option.splits)
  show ?thesis
  proof (cases "map_of (co_slots c) sid")
    case None
    then have "is_terminal (wi_state w)" if "slot_view (co_intents c) sid i = Some w" for i w
      using coord_invD(4) [OF inv, of sid] that by (simp add: slot_ok_def)
    with v have "i \<notin> set is" for i
      by (metis is_terminal_simps(1))
    then have "is = []" by (cases "is") auto
    then have "c' = c"
      using c' fold_complete_signal [of sid ICompleted "[]" c] by simp
    with False show ?thesis by simp
  next
    case (Some slot)
    show ?thesis unfolding c' by (rule coord_inv_retire [OF inv Some v]) simp_all
  qed
qed (use inv in simp)

lemma slot_snapshot_some: "map_of (co_slots c) sid = Some sl \<Longrightarrow> \<exists>sn. slot_snapshot_locked c sid = Some sn"
  by (simp add: slot_snapshot_locked_def Let_def)

lemma pause_slot_inv:
  assumes "coord_inv c"
  shows "\<exists>res c'. pause_slot sid c = Some (res, c') \<and> coord_inv c'"
proof -
  let ?c1 = "put_slot sid ((slot_entry sid RoleTeammate c)\<lparr>ss_paused := True\<rparr>) c"
  have "coord_inv ?c1"
    by (rule coord_inv_put_slot [OF assms]) auto
  moreover obtain sn where "slot_snapshot_locked ?c1 sid = Some sn"
    using slot_snapshot_some [of ?c1 sid] by auto
  ultimately show ?thesis
    by (simp add: pause_slot_def Let_def)
qed

subsection \<open>Runtime constraints\<close>

text \<open>
  The loop over the live intents of a slot, summed up: where every id is in the table it
  does not panic, restates each intent and leaves the rest of the coordinator alone.
\<close>

definition constrained_state :: "runtime_constraint \<Rightarrow> work_intent \<Rightarrow> intent_state" where
  "constrained_state constraint w =
     (if wi_team_run_id w = None \<and> constraint \<noteq> SessionStopped then IQueued
      else if constraint = SessionStopped then ICancelled (constraint_classification constraint)
      else IFailed (constraint_classification constraint))"

definition state_from :: "coordinator \<Rightarrow> (work_intent \<Rightarrow> intent_state) \<Rightarrow> ident \<Rightarrow> intent_state" where
  "state_from c h i = (case map_of (co_intents c) i of None \<Rightarrow> IQueued | Some w \<Rightarrow> h w)"

lemma state_from_not_in_flight: "(\<And>w. \<not> in_flight (h w)) \<Longrightarrow> \<not> in_flight (state_from c h i)"
  by (simp add: state_from_def split: option.split)

text \<open>
  One loop lemma for the three loops of this kind. \<open>C\<close> reads the coordinator off the loop
  state and \<open>R\<close> a list the loop appends to; an iteration gives the intent \<open>w\<close> the state
  \<open>h w\<close> and appends \<open>q i w\<close>, neither of which depends on the intent's old state.
\<close>

lemma opt_fold_restate:
  assumes step: "\<And>i s w. i \<in> set js \<Longrightarrow> map_of (co_intents (C s)) i = Some w \<Longrightarrow>
        \<exists>s'. f i s = Some s' \<and> C s' = set_intent_state i (h w) (C s) \<and> R s' = R s @ q i w"
    and h: "\<And>w st. h (w\<lparr>wi_state := st\<rparr>) = h w" and q: "\<And>i w st. q i (w\<lparr>wi_state := st\<rparr>) = q i w"
    and present: "\<And>i. i \<in> set js \<Longrightarrow> is_some (map_of (co_intents (C s)) i)"
  shows "\<exists>s'. opt_fold f js s = Some s' \<and>
     map_of (co_intents (C s')) = restate (set js) (state_from (C s) h) (map_of (co_intents (C s))) \<and>
     hm_wf (co_intents (C s')) = hm_wf (co_intents (C s)) \<and>
     co_slots (C s') = co_slots (C s) \<and> co_enqueue_leases (C s') = co_enqueue_leases (C s) \<and>
     co_session_generation (C s') = co_session_generation (C s) \<and>
     R s' = R s @ concat (map (\<lambda>i. case map_of (co_intents (C s)) i of None \<Rightarrow> [] | Some w \<Rightarrow> q i w) js)"
  using step present
proof (induction js arbitrary: s)
  case Nil
  then show ?case by (simp add: restate_def)
next
  case (Cons j js)
  obtain w where w: "map_of (co_intents (C s)) j = Some w"
    using Cons.prems(2) [of j] by auto
  obtain s1 where s1: "f j s = Some s1" "C s1 = set_intent_state j (h w) (C s)" "R s1 = R s @ q j w"
    using Cons.prems(1) [OF _ w] by auto
  have table: "map_of (co_intents (C s1)) i =
      (if i = j then Some (w\<lparr>wi_state := h w\<rparr>) else map_of (co_intents (C s)) i)" for i
    using w by (simp add: s1 map_of_set_intent_state)
  have pre: "is_some (map_of (co_intents (C s1)) i)" if "i \<in> set js" for i
    using that Cons.prems(2) [of i] by (auto simp: table)
  have qs: "(case map_of (co_intents (C s1)) i of None \<Rightarrow> [] | Some w \<Rightarrow> q i w) =
      (case map_of (co_intents (C s)) i of None \<Rightarrow> [] | Some w \<Rightarrow> q i w)" for i
    using w q by (simp add: table)
  have views: "restate (set js) (state_from (C s1) h) (map_of (co_intents (C s1))) =
      restate (set (j # js)) (state_from (C s) h) (map_of (co_intents (C s)))"
  proof
    fix i
    show "restate (set js) (state_from (C s1) h) (map_of (co_intents (C s1))) i =
        restate (set (j # js)) (state_from (C s) h) (map_of (co_intents (C s))) i"
      using w h by (auto simp: restate_def state_from_def table)
  qed
  obtain s' where "opt_fold f js s1 = Some s'"
     "map_of (co_intents (C s')) = restate (set js) (state_from (C s1) h) (map_of (co_intents (C s1)))"
     "hm_wf (co_intents (C s')) = hm_wf (co_intents (C s1))"
     "co_slots (C s') = co_slots (C s1)" "co_enqueue_leases (C s') = co_enqueue_leases (C s1)"
     "co_session_generation (C s') = co_session_generation (C s1)"
     "R s' = R s1 @ concat (map (\<lambda>i. case map_of (co_intents (C s1)) i of None \<Rightarrow> [] | Some w \<Rightarrow> q i w) js)"
    using Cons.IH [OF Cons.prems(1) pre] by auto
  then show ?case
    unfolding views qs by (auto simp: s1 w)
qed

lemma ids_of_values:
  assumes "intents_wf m"
  shows "map wi_intent_id (filter P (map snd m)) = map fst (filter (\<lambda>(i, w). P w) m)"
proof -
  have "map wi_intent_id (filter P (map snd xs)) = map fst (filter (\<lambda>(i, w). P w) xs)"
    if "\<forall>(i, w) \<in> set xs. wi_intent_id w = i" for xs
    using that by (induction xs) auto
  moreover have "\<forall>(i, w) \<in> set m. wi_intent_id w = i"
    using assms by (auto simp: intents_wf_def)
  ultimately show ?thesis by blast
qed

lemma distinct_ids_of_values: "intents_wf m \<Longrightarrow> distinct (map wi_intent_id (filter P (map snd m)))"
  by (simp add: ids_of_values distinct_map_filter intents_wf_def)

lemma set_ids_of_values:
  "intents_wf m \<Longrightarrow> i \<in> set (map wi_intent_id (filter P (map snd m))) \<longleftrightarrow> (\<exists>w. map_of m i = Some w \<and> P w)"
  by (force simp: ids_of_values intents_wf_def map_of_eq_Some_iff)

lemma queue_fold_push_back_pairs [simp]:
  "queue q (fold (\<lambda>(p, i). push_back p i) xs sl) = queue q sl @ map snd (filter (\<lambda>x. fst x = q) xs)"
  by (induction xs arbitrary: sl) auto

lemma queue_fold_push_front_pairs [simp]:
  "queue q (fold (\<lambda>(p, i). push_front p i) (rev xs) sl) = map snd (filter (\<lambda>x. fst x = q) xs) @ queue q sl"
  by (induction xs arbitrary: sl) auto

lemma fold_push_pairs_active [simp]:
  "ss_active (fold (\<lambda>(p, i). push_back p i) xs sl) = ss_active sl"
  "ss_active (fold (\<lambda>(p, i). push_front p i) xs sl) = ss_active sl"
  by (induction xs arbitrary: sl) auto

lemma fold_push_pairs_constraint [simp]:
  "ss_runtime_constraint (fold (\<lambda>(p, i). push_back p i) xs sl) = ss_runtime_constraint sl"
  by (induction xs arbitrary: sl) auto

text \<open>The ids a loop sets aside with their priorities, by priority.\<close>

lemma set_aside_ids:
  "map snd (filter (\<lambda>x. fst x = p) (concat (map (\<lambda>i. case m i of None \<Rightarrow> []
       | Some w \<Rightarrow> if P w then [(wi_priority w, i)] else []) js))) =
   filter (\<lambda>i. case m i of None \<Rightarrow> False | Some w \<Rightarrow> P w \<and> wi_priority w = p) js"
  by (induction js) (auto split: option.splits)

text \<open>What ending a slot's work does to an intent: only live intents of that slot change.\<close>

definition constrained_intent :: "ident \<Rightarrow> runtime_constraint \<Rightarrow> work_intent \<Rightarrow> work_intent" where
  "constrained_intent sid constraint w =
     (if wi_slot_id w = sid \<and> \<not> is_terminal (wi_state w) \<and> ends_work constraint
      then w\<lparr>wi_state := constrained_state constraint w\<rparr> else w)"

lemma restate_live_intents:
  assumes m: "map_of m' = restate J (state_from c h) (map_of (co_intents c))"
    and J: "\<And>i. i \<in> J \<longleftrightarrow> (\<exists>w. slot_view (co_intents c) sid i = Some w \<and> \<not> is_terminal (wi_state w))"
  shows "map_of m' i = map_option (\<lambda>w. if wi_slot_id w = sid \<and> \<not> is_terminal (wi_state w)
     then w\<lparr>wi_state := h w\<rparr> else w) (map_of (co_intents c) i)"
proof (cases "map_of (co_intents c) i")
  case (Some w)
  then have "i \<in> J \<longleftrightarrow> wi_slot_id w = sid \<and> \<not> is_terminal (wi_state w)"
    unfolding J slot_view_iff by auto
  with Some show ?thesis
    by (simp add: m restate_def state_from_def)
qed (simp add: m restate_def)

lemma set_runtime_constraint_effect:
  assumes inv: "coord_inv c"
  shows "\<exists>res c' r'. set_runtime_constraint port sid constraint c r = Some (res, c', r') \<and> coord_inv c' \<and>
     (\<forall>i. map_of (co_intents c') i = map_option (constrained_intent sid constraint) (map_of (co_intents c) i)) \<and>
     (\<exists>slot. map_of (co_slots c') sid = Some slot \<and> ss_runtime_constraint slot = constraint \<and>
        (ends_work constraint \<longrightarrow> ss_active slot = None)) \<and>
     (\<forall>s. s \<noteq> sid \<longrightarrow> map_of (co_slots c') s = map_of (co_slots c) s)"
proof -
  let ?slot = "(slot_entry sid RoleTeammate c)\<lparr>ss_runtime_constraint := constraint\<rparr>"
  let ?c1 = "put_slot sid ?slot c"
  let ?m = "co_intents ?c1"
  let ?start = "\<lparr>ca_coordinator = ?c1, ca_requeue = [], ca_affected_run_ids = [], ca_terminal_message_ids = []\<rparr>"
  let ?h = "constrained_state constraint"
  let ?q = "\<lambda>i w. if ?h w = IQueued then [(wi_priority w, i)] else []"
  let ?js = "live_intent_ids ?c1 sid"
  have inv1: "coord_inv ?c1"
    by (rule coord_inv_put_slot [OF inv]) auto
  note wf = coord_invD(1) [OF inv1]
  have js: "i \<in> set ?js \<longleftrightarrow> (\<exists>w. slot_view ?m sid i = Some w \<and> \<not> is_terminal (wi_state w))" for i
    unfolding live_intent_ids_def set_ids_of_values [OF wf] slot_view_iff by auto
  have "\<exists>s'. opt_fold (constrain_intent constraint) ?js ?start = Some s' \<and>
     map_of (co_intents (ca_coordinator s')) = restate (set ?js) (state_from (ca_coordinator ?start) ?h)
         (map_of (co_intents (ca_coordinator ?start))) \<and>
     hm_wf (co_intents (ca_coordinator s')) = hm_wf (co_intents (ca_coordinator ?start)) \<and>
     co_slots (ca_coordinator s') = co_slots (ca_coordinator ?start) \<and>
     co_enqueue_leases (ca_coordinator s') = co_enqueue_leases (ca_coordinator ?start) \<and>
     co_session_generation (ca_coordinator s') = co_session_generation (ca_coordinator ?start) \<and>
     ca_requeue s' = ca_requeue ?start @ concat (map (\<lambda>i. case map_of (co_intents (ca_coordinator ?start)) i of
         None \<Rightarrow> [] | Some w \<Rightarrow> ?q i w) ?js)"
  proof (rule opt_fold_restate)
    show "\<exists>s'. constrain_intent constraint i s = Some s' \<and>
        ca_coordinator s' = set_intent_state i (?h w) (ca_coordinator s) \<and> ca_requeue s' = ca_requeue s @ ?q i w"
      if "map_of (co_intents (ca_coordinator s)) i = Some w" for i s w
      using that by (auto simp: constrain_intent_def constrained_state_def Let_def)
    show "is_some (map_of (co_intents (ca_coordinator ?start)) i)" if "i \<in> set ?js" for i
      using that by (auto simp: js slot_view_iff)
  qed (simp_all add: constrained_state_def)
  then obtain acc where acc: "opt_fold (constrain_intent constraint) ?js ?start = Some acc"
    and table: "map_of (co_intents (ca_coordinator acc)) = restate (set ?js) (state_from ?c1 ?h) (map_of ?m)"
    and hm: "hm_wf (co_intents (ca_coordinator acc)) = hm_wf ?m"
    and rest: "co_slots (ca_coordinator acc) = co_slots ?c1"
      "co_enqueue_leases (ca_coordinator acc) = co_enqueue_leases ?c1"
      "co_session_generation (ca_coordinator acc) = co_session_generation ?c1"
    and rq: "ca_requeue acc = concat (map (\<lambda>i. case map_of ?m i of None \<Rightarrow> [] | Some w \<Rightarrow> ?q i w) ?js)"
    by auto
  let ?f = "\<lambda>sl. fold (\<lambda>(p, i). push_back p i) (ca_requeue acc) (clear_slot sl)"
  let ?c2 = "modify_slot sid ?f (ca_coordinator acc)"
  have inv2: "coord_inv ?c2"
  proof (rule coord_inv_states [OF inv1, where J = "set ?js" and g = "state_from ?c1 ?h" and sid = sid])
    have "slot_ok (co_session_generation ?c1) (restate (set ?js) (state_from ?c1 ?h) (slot_view ?m sid)) sid
       (Some (?f ?slot))"
    proof (rule slot_ok_rebuild)
      show "distinct (queue p (?f ?slot))" for p
      proof -
        have "distinct ?js"
          unfolding live_intent_ids_def by (rule distinct_ids_of_values [OF wf])
        then show ?thesis by (simp add: rq set_aside_ids)
      qed
      show "set (queue p (?f ?slot)) = {j \<in> set ?js. state_from ?c1 ?h j = IQueued \<and>
          (\<exists>w. slot_view ?m sid j = Some w \<and> wi_priority w = p)}" for p
      proof -
        have "queue p (?f ?slot) = filter (\<lambda>i. case map_of ?m i of None \<Rightarrow> False
            | Some w \<Rightarrow> ?h w = IQueued \<and> wi_priority w = p) ?js"
          by (simp add: rq set_aside_ids)
        then show ?thesis
          by (force simp: js slot_view_iff state_from_def)
      qed
      show "j \<in> set ?js" if "slot_view ?m sid j = Some w" "\<not> is_terminal (wi_state w)" for j w
        using that js by blast
      show "\<not> in_flight (state_from ?c1 ?h j)" for j
        by (rule state_from_not_in_flight) (simp add: constrained_state_def)
    qed simp
    then show "slot_ok (co_session_generation ?c1) (restate (set ?js) (state_from ?c1 ?h) (slot_view ?m sid)) sid
       (map_of (co_slots ?c2) sid)"
      by (simp add: rest)
    show "\<exists>w. slot_view ?m sid j = Some w" if "j \<in> set ?js" for j
      using that js by blast
  qed (use table hm rest coord_invD(3) [OF inv1] coord_inv_hm_wf [OF inv1] in simp_all)
  obtain sn1 where "slot_snapshot_locked ?c1 sid = Some sn1"
    using slot_snapshot_some [of ?c1 sid] by auto
  moreover obtain sn2 where "slot_snapshot_locked ?c2 sid = Some sn2"
    using slot_snapshot_some [of ?c2 sid] rest by auto
  ultimately have res: "\<exists>res r'. set_runtime_constraint port sid constraint c r =
      Some (res, if ends_work constraint then ?c2 else ?c1, r')"
    using acc by (simp add: set_runtime_constraint_def Let_def)
  show ?thesis
  proof (cases "ends_work constraint")
    case True
    have "map_of (co_intents ?c2) i = map_option (constrained_intent sid constraint) (map_of (co_intents c) i)" for i
    proof -
      have "map_of (co_intents ?c2) i = map_option (\<lambda>w. if wi_slot_id w = sid \<and> \<not> is_terminal (wi_state w)
         then w\<lparr>wi_state := ?h w\<rparr> else w) (map_of (co_intents ?c1) i)"
        by (rule restate_live_intents [OF _ js]) (simp add: table)
      with True show ?thesis
        by (simp add: constrained_intent_def [abs_def])
    qed
    moreover have "map_of (co_slots ?c2) sid = Some (?f ?slot) \<and> ss_runtime_constraint (?f ?slot) = constraint \<and>
        ss_active (?f ?slot) = None"
      by (simp add: rest)
    moreover have "map_of (co_slots ?c2) s = map_of (co_slots c) s" if "s \<noteq> sid" for s
      using that by (simp add: rest)
    ultimately show ?thesis
      using res inv2 True by auto
  next
    case False
    have "constrained_intent sid constraint = id"
      using False by (auto simp: constrained_intent_def)
    moreover obtain rs r' where "set_runtime_constraint port sid constraint c r = Some (rs, ?c1, r')"
      using res False by auto
    ultimately show ?thesis
      using inv1 False by (intro exI [of _ rs] exI [of _ ?c1] exI [of _ r']) (simp add: option.map_id)
  qed
qed

lemma set_runtime_constraint_inv:
  assumes inv: "coord_inv c"
  shows "\<exists>res c' r'. set_runtime_constraint port sid constraint c r = Some (res, c', r') \<and> coord_inv c'"
  using set_runtime_constraint_effect [OF assms, of port sid constraint r] by blast

subsection \<open>Cancelling a run\<close>

definition run_cancelled_state :: "ident \<Rightarrow> work_intent \<Rightarrow> intent_state" where
  "run_cancelled_state run_id w =
     (if wi_team_run_id w = Some run_id then ICancelled ''run_cancelled'' else IQueued)"

lemma run_cancelled_state_update [simp]:
  "run_cancelled_state run_id (w\<lparr>wi_state := st\<rparr>) = run_cancelled_state run_id w"
  by (simp add: run_cancelled_state_def)

lemma restate_state_from_Un:
  assumes "map_of (co_intents c1) = restate J (state_from c h) (map_of (co_intents c))"
    and h: "\<And>w st. h (w\<lparr>wi_state := st\<rparr>) = h w"
  shows "restate K (state_from c1 h) (map_of (co_intents c1)) =
    restate (J \<union> K) (state_from c h) (map_of (co_intents c))"
proof
  fix i
  show "restate K (state_from c1 h) (map_of (co_intents c1)) i =
    restate (J \<union> K) (state_from c h) (map_of (co_intents c)) i"
    unfolding state_from_def assms(1) using h by (cases "map_of (co_intents c) i") (auto simp: restate_def)
qed

lemma cancel_active_slot_inv:
  assumes inv: "coord_inv c" and slot: "map_of (co_slots c) sid = Some slot" "ss_active slot = Some a"
  shows "\<exists>c' msgs'. cancel_active_slot run_id (sid, a) (c, msgs) = Some (c', msgs') \<and> coord_inv c' \<and>
     (\<forall>s. s \<noteq> sid \<longrightarrow> map_of (co_slots c') s = map_of (co_slots c) s) \<and>
     co_enqueue_leases c' = co_enqueue_leases c \<and>
     map_of (co_intents c') = restate (set (wb_intent_ids (ab_batch a)))
       (state_from c (run_cancelled_state run_id)) (map_of (co_intents c))"
proof -
  have ok: "slot_ok (co_session_generation c) (slot_view (co_intents c) sid) sid (Some slot)"
    using coord_invD(4) [OF inv, of sid] slot by simp
  let ?js = "wb_intent_ids (ab_batch a)"
  let ?h = "run_cancelled_state run_id"
  let ?q = "\<lambda>i w. if ?h w = IQueued then [(wi_priority w, i)] else []"
  let ?C = "fst :: coordinator \<times> ident list \<times> (work_priority \<times> ident) list \<Rightarrow> coordinator"
  let ?s = "(c, msgs, [] :: (work_priority \<times> ident) list)"
  have ids: "\<exists>w. map_of (co_intents c) i = Some w \<and> slot_view (co_intents c) sid i = Some w \<and>
      wi_priority w = wb_highest_priority (ab_batch a)" if "i \<in> set ?js" for i
    using slot_ok_active [OF ok slot(2) that] by (auto simp: slot_view_iff)
  have "\<exists>s'. opt_fold (cancel_active_intent run_id) ?js ?s = Some s' \<and>
     map_of (co_intents (?C s')) = restate (set ?js) (state_from (?C ?s) ?h) (map_of (co_intents (?C ?s))) \<and>
     hm_wf (co_intents (?C s')) = hm_wf (co_intents (?C ?s)) \<and>
     co_slots (?C s') = co_slots (?C ?s) \<and> co_enqueue_leases (?C s') = co_enqueue_leases (?C ?s) \<and>
     co_session_generation (?C s') = co_session_generation (?C ?s) \<and>
     snd (snd s') = snd (snd ?s) @ concat (map (\<lambda>i. case map_of (co_intents (?C ?s)) i of
         None \<Rightarrow> [] | Some w \<Rightarrow> ?q i w) ?js)"
    by (rule opt_fold_restate)
      (use ids in \<open>auto simp: cancel_active_intent_def run_cancelled_state_def\<close>)
  then obtain c1 msgs1 retained where
    fold: "opt_fold (cancel_active_intent run_id) ?js ?s = Some (c1, msgs1, retained)"
    and table: "map_of (co_intents c1) = restate (set ?js) (state_from c ?h) (map_of (co_intents c))"
    and rest: "hm_wf (co_intents c1) = hm_wf (co_intents c)" "co_slots c1 = co_slots c"
      "co_enqueue_leases c1 = co_enqueue_leases c" "co_session_generation c1 = co_session_generation c"
    and ret: "retained = concat (map (\<lambda>i. case map_of (co_intents c) i of None \<Rightarrow> [] | Some w \<Rightarrow> ?q i w) ?js)"
    by auto
  let ?f = "\<lambda>sl. fold (\<lambda>(p, i). push_front p i) (rev retained) (sl\<lparr>ss_active := None\<rparr>)"
  have queue: "queue p (?f slot) = filter (\<lambda>i. case map_of (co_intents c) i of None \<Rightarrow> False
      | Some w \<Rightarrow> ?h w = IQueued \<and> wi_priority w = p) ?js @ queue p slot" for p
    by (simp add: ret set_aside_ids)
  have "coord_inv (modify_slot sid ?f c1)"
  proof (rule coord_inv_release [OF inv slot, where g = "state_from c ?h" and f = ?f])
    show "distinct (queue p (?f slot))" for p
      unfolding queue
      using slot_ok_distinct [OF ok, of p] slot_ok_batch_distinct [OF ok slot(2)]
        batch_not_queued [OF ok slot(2)] by auto
    show "set (queue p (?f slot)) = set (queue p slot) \<union>
        {j \<in> set ?js. state_from c ?h j = IQueued \<and> wb_highest_priority (ab_batch a) = p}" for p
      unfolding queue using ids by (fastforce simp: state_from_def)
    show "\<not> in_flight (state_from c ?h j)" for j
      by (rule state_from_not_in_flight) (simp add: run_cancelled_state_def)
  qed (use table rest coord_inv_hm_wf [OF inv] in \<open>simp_all add: modify_slot_def\<close>)
  moreover have "map_of (co_slots (modify_slot sid ?f c1)) s = map_of (co_slots c) s" if "s \<noteq> sid" for s
    using that rest by simp
  ultimately show ?thesis
    using fold table rest by (simp add: cancel_active_slot_def)
qed

lemma cancel_active_slots_inv:
  assumes "coord_inv c" and "distinct (map fst sas)"
    and "\<And>sid a. (sid, a) \<in> set sas \<Longrightarrow> \<exists>slot. map_of (co_slots c) sid = Some slot \<and> ss_active slot = Some a"
  shows "\<exists>c' msgs'. opt_fold (cancel_active_slot run_id) sas (c, msgs) = Some (c', msgs') \<and> coord_inv c' \<and>
     co_enqueue_leases c' = co_enqueue_leases c \<and>
     map_of (co_intents c') = restate (\<Union>(sid, a) \<in> set sas. set (wb_intent_ids (ab_batch a)))
       (state_from c (run_cancelled_state run_id)) (map_of (co_intents c))"
  using assms
proof (induction sas arbitrary: c msgs)
  case Nil
  then show ?case by (auto simp: restate_def)
next
  case (Cons sa sas)
  obtain sid a where sa: "sa = (sid, a)" by fastforce
  with Cons.prems(3) obtain slot where "map_of (co_slots c) sid = Some slot" "ss_active slot = Some a"
    by auto
  from cancel_active_slot_inv [OF Cons.prems(1) this, of run_id msgs] obtain c1 msgs1 where
    one: "cancel_active_slot run_id (sid, a) (c, msgs) = Some (c1, msgs1)" "coord_inv c1"
      "\<And>s. s \<noteq> sid \<Longrightarrow> map_of (co_slots c1) s = map_of (co_slots c) s"
      "co_enqueue_leases c1 = co_enqueue_leases c"
      "map_of (co_intents c1) = restate (set (wb_intent_ids (ab_batch a)))
         (state_from c (run_cancelled_state run_id)) (map_of (co_intents c))" by blast
  have "\<exists>slot. map_of (co_slots c1) s = Some slot \<and> ss_active slot = Some b" if "(s, b) \<in> set sas" for s b
  proof -
    have "s \<noteq> sid"
      using that Cons.prems(2) sa by (auto simp: image_iff)
    with one(3) Cons.prems(3) [of s b] that show ?thesis by simp
  qed
  with Cons.IH [OF one(2), of msgs1] Cons.prems(2) obtain c' msgs' where
    "opt_fold (cancel_active_slot run_id) sas (c1, msgs1) = Some (c', msgs')" "coord_inv c'"
    "co_enqueue_leases c' = co_enqueue_leases c1"
    "map_of (co_intents c') = restate (\<Union>(sid, a) \<in> set sas. set (wb_intent_ids (ab_batch a)))
       (state_from c1 (run_cancelled_state run_id)) (map_of (co_intents c1))"
    by auto
  with one(1,4) sa restate_state_from_Un [OF one(5)] show ?case
    by simp
qed

lemma active_slots_of_run_sound:
  assumes "bt_wf (co_slots c)"
  shows "distinct (map fst (active_slots_of_run c run_id))"
    and "(sid, a) \<in> set (active_slots_of_run c run_id) \<Longrightarrow>
      \<exists>slot. map_of (co_slots c) sid = Some slot \<and> ss_active slot = Some a \<and> batch_touches_run c run_id a"
proof -
  let ?F = "\<lambda>(slot_id, slot). case ss_active slot of None \<Rightarrow> None
     | Some active \<Rightarrow> if batch_touches_run c run_id active then Some (slot_id, active) else None"
  have d: "distinct (map fst (co_slots c))"
    using assms by (rule bt_wf_distinct)
  have "distinct (map fst (List.map_filter ?F xs))" if "distinct (map fst xs)" for xs
    using that
  proof (induction xs)
    case (Cons x xs)
    then show ?case
      by (cases x) (force simp: List.map_filter_simps set_map_filter image_iff split: option.splits if_splits)
  qed (simp add: List.map_filter_simps)
  with d show "distinct (map fst (active_slots_of_run c run_id))"
    by (simp add: active_slots_of_run_def)
  show "\<exists>slot. map_of (co_slots c) sid = Some slot \<and> ss_active slot = Some a \<and> batch_touches_run c run_id a"
    if "(sid, a) \<in> set (active_slots_of_run c run_id)"
    using that d
    by (fastforce simp: active_slots_of_run_def set_map_filter map_of_eq_Some_iff split: option.splits if_splits)
qed

lemma cancel_queued_intents_inv:
  assumes "coord_inv c" and "distinct js"
    and "\<And>i. i \<in> set js \<Longrightarrow> \<exists>w. map_of (co_intents c) i = Some w \<and> wi_state w = IQueued"
  shows "\<exists>c' msgs'. opt_fold cancel_queued_intent js (c, msgs) = Some (c', msgs') \<and> coord_inv c' \<and>
     co_enqueue_leases c' = co_enqueue_leases c \<and>
     map_of (co_intents c') = restate (set js) (\<lambda>_. ICancelled ''run_cancelled'') (map_of (co_intents c))"
  using assms
proof (induction js arbitrary: c msgs)
  case Nil
  then show ?case by (auto simp: restate_def)
next
  case (Cons j js)
  obtain w where w: "map_of (co_intents c) j = Some w" "wi_state w = IQueued"
    using Cons.prems(3) by auto
  then have v: "slot_view (co_intents c) (wi_slot_id w) j = Some w"
    by (simp add: slot_view_iff)
  obtain slot where slot: "map_of (co_slots c) (wi_slot_id w) = Some slot"
    using coord_invD(4) [OF Cons.prems(1), of "wi_slot_id w"] v w(2)
    by (cases "map_of (co_slots c) (wi_slot_id w)") (auto simp: slot_ok_def dest: spec [of _ j])
  let ?st = "ICancelled ''run_cancelled''"
  let ?c1 = "modify_slot (wi_slot_id w) (remove_queued j) (set_intent_state j ?st c)"
  have inv1: "coord_inv ?c1"
    using coord_inv_retire [OF Cons.prems(1) slot, of "[j]"] v w(2) by simp
  have "\<exists>w. map_of (co_intents ?c1) i = Some w \<and> wi_state w = IQueued" if "i \<in> set js" for i
    using that Cons.prems(2,3) by (auto simp: map_of_set_intent_state)
  then obtain c' msgs' where rest:
    "opt_fold cancel_queued_intent js (?c1, msgs @ opt_list (wi_mailbox_message_id w)) = Some (c', msgs')" "coord_inv c'"
    "co_enqueue_leases c' = co_enqueue_leases ?c1"
    "map_of (co_intents c') = restate (set js) (\<lambda>_. ?st) (map_of (co_intents ?c1))"
    using Cons.IH [OF inv1, of "msgs @ opt_list (wi_mailbox_message_id w)"] Cons.prems(2) by auto
  have "restate (set js) (\<lambda>_. ?st) (map_of (co_intents ?c1)) =
      restate (set (j # js)) (\<lambda>_. ?st) (map_of (co_intents c))"
    by (rule ext) (auto simp: restate_def map_of_set_intent_state option.map_comp o_def)
  with rest(3,4) have "co_enqueue_leases c' = co_enqueue_leases c"
    "map_of (co_intents c') = restate (set (j # js)) (\<lambda>_. ?st) (map_of (co_intents c))"
    by simp_all
  moreover have "opt_fold cancel_queued_intent (j # js) (c, msgs) = Some (c', msgs')"
    using w(1) rest(1) by (simp add: cancel_queued_intent_def)
  ultimately show ?case
    using rest(2) by blast
qed

text \<open>What cancelling a run does to an intent, whatever state it is in.\<close>

definition cancelled_by_run :: "coordinator \<Rightarrow> ident \<Rightarrow> work_intent \<Rightarrow> intent_state" where
  "cancelled_by_run c run_id w =
     (if is_terminal (wi_state w) then wi_state w
      else if wi_team_run_id w = Some run_id then ICancelled ''run_cancelled''
      else if wi_state w \<noteq> IQueued \<and>
        (case map_of (co_slots c) (wi_slot_id w) of None \<Rightarrow> False
         | Some slot \<Rightarrow> (case ss_active slot of None \<Rightarrow> False | Some a \<Rightarrow> batch_touches_run c run_id a))
      then IQueued else wi_state w)"

lemma active_slots_of_run_iff:
  assumes "bt_wf (co_slots c)"
  shows "(sid, a) \<in> set (active_slots_of_run c run_id) \<longleftrightarrow>
      (\<exists>slot. map_of (co_slots c) sid = Some slot \<and> ss_active slot = Some a \<and> batch_touches_run c run_id a)"
proof
  assume "\<exists>slot. map_of (co_slots c) sid = Some slot \<and> ss_active slot = Some a \<and> batch_touches_run c run_id a"
  then obtain slot where "(sid, slot) \<in> set (co_slots c)" "ss_active slot = Some a" "batch_touches_run c run_id a"
    by (auto dest: map_of_SomeD)
  then show "(sid, a) \<in> set (active_slots_of_run c run_id)"
    unfolding active_slots_of_run_def set_map_filter by (intro CollectI bexI [of _ "(sid, slot)"]) simp_all
qed (rule active_slots_of_run_sound(2) [OF assms])

text \<open>In a consistent state an in-flight intent is in the active batch of its slot.\<close>

lemma in_flight_owner:
  assumes inv: "coord_inv c" and w: "map_of (co_intents c) i = Some w" "in_flight (wi_state w)"
  shows "\<exists>slot a. map_of (co_slots c) (wi_slot_id w) = Some slot \<and> ss_active slot = Some a \<and>
     i \<in> set (wb_intent_ids (ab_batch a)) \<and> wi_state w = batch_state a"
proof -
  have v: "slot_view (co_intents c) (wi_slot_id w) i = Some w"
    using w(1) by (simp add: slot_view_iff)
  note ok = coord_invD(4) [OF inv, of "wi_slot_id w"]
  from ok v w(2) obtain slot where slot: "map_of (co_slots c) (wi_slot_id w) = Some slot"
    by (cases "map_of (co_slots c) (wi_slot_id w)") (auto simp: slot_ok_def dest: spec [of _ i])
  with ok have ok': "slot_ok (co_session_generation c) (slot_view (co_intents c) (wi_slot_id w)) (wi_slot_id w) (Some slot)"
    by simp
  obtain a where a: "ss_active slot = Some a"
    using slot_ok_active_none [OF ok' _ v] w(2) by (cases "ss_active slot") auto
  have "i \<in> set (wb_intent_ids (ab_batch a))"
    by (rule slot_ok_active_mem [OF ok' a v w(2)])
  with slot a slot_ok_active [OF ok' a this] v show ?thesis by auto
qed

lemma batch_member_in_flight:
  assumes inv: "coord_inv c" and slot: "map_of (co_slots c) sid = Some slot" "ss_active slot = Some a"
    and i: "i \<in> set (wb_intent_ids (ab_batch a))"
  shows "\<exists>w. map_of (co_intents c) i = Some w \<and> wi_slot_id w = sid \<and> wi_state w = batch_state a"
proof -
  have "slot_ok (co_session_generation c) (slot_view (co_intents c) sid) sid (Some slot)"
    using coord_invD(4) [OF inv, of sid] slot(1) by simp
  from slot_ok_active [OF this slot(2) i] show ?thesis
    by (auto simp: slot_view_iff)
qed

lemma batch_touches_runI:
  "i \<in> set (wb_intent_ids (ab_batch a)) \<Longrightarrow> map_of (co_intents c) i = Some w \<Longrightarrow> wi_team_run_id w = Some run_id
   \<Longrightarrow> batch_touches_run c run_id a"
  by (auto simp: batch_touches_run_def list_ex_iff intro!: bexI [of _ i])

lemma leases_of_run_cleared:
  assumes "leases_wf ls" and "c' = c\<lparr>co_enqueue_leases :=
    fold AList.delete (map (\<lambda>l. le_lease_id (lr_lease l)) (leases_of_run c run_id)) (co_enqueue_leases c)\<rparr>"
    and ls: "ls = co_enqueue_leases c"
  shows "leases_of_run c' run_id = []"
proof -
  have keep: "(k, l) \<in> set m \<and> k \<notin> set ks" if "(k, l) \<in> set (fold AList.delete ks m)" for k l ks and m :: "lease_record hash_map"
    using that
  proof (induction ks arbitrary: m)
    case (Cons a ks)
    then have "(k, l) \<in> set (AList.delete a m) \<and> k \<notin> set ks" by simp
    then show ?case by (auto simp: AList.delete_eq)
  qed simp
  have False if "(k, l) \<in> set (co_enqueue_leases c')" "le_team_run_id (lr_lease l) = Some run_id" for k l
  proof -
    have "co_enqueue_leases c' = fold AList.delete (map (\<lambda>l. le_lease_id (lr_lease l)) (leases_of_run c run_id))
        (co_enqueue_leases c)"
      unfolding assms(2) by simp
    from keep [OF that(1) [unfolded this]]
    have kl: "(k, l) \<in> set (co_enqueue_leases c)"
      "k \<notin> set (map (\<lambda>l. le_lease_id (lr_lease l)) (leases_of_run c run_id))"
      by blast+
    then have "le_lease_id (lr_lease l) = k"
      using assms(1) unfolding ls leases_wf_def by (auto simp: map_of_eq_Some_iff)
    with kl that(2) show False
      by (force simp: leases_of_run_def)
  qed
  then show ?thesis
    by (fastforce simp: leases_of_run_def filter_empty_conv)
qed

lemma cancel_run_effect:
  assumes inv: "coord_inv c"
  shows "\<exists>res c' r'. cancel_run port run_id c r = Some (res, c', r') \<and> coord_inv c' \<and>
     leases_of_run c' run_id = [] \<and> r' = apply_summary port (run_summary_locked c' run_id) r \<and>
     (\<forall>i. map_of (co_intents c') i = map_option (\<lambda>w. w\<lparr>wi_state := cancelled_by_run c run_id w\<rparr>)
        (map_of (co_intents c) i))"
proof -
  note wf_slots = coord_invD(3) [OF inv]
  note slots = active_slots_of_run_sound [OF wf_slots, where run_id = run_id]
  let ?J = "\<Union>(sid, a) \<in> set (active_slots_of_run c run_id). set (wb_intent_ids (ab_batch a))"
  obtain c1 msgs1 where one: "opt_fold (cancel_active_slot run_id) (active_slots_of_run c run_id) (c, []) = Some (c1, msgs1)"
    and inv1: "coord_inv c1"
    and t1: "map_of (co_intents c1) = restate ?J (state_from c (run_cancelled_state run_id)) (map_of (co_intents c))"
    using cancel_active_slots_inv [OF inv slots(1), of run_id "[]"] slots(2) by blast
  let ?queued = "map wi_intent_id (filter (\<lambda>w. wi_state w = IQueued) (intents_of_run c1 run_id))"
  have filt: "?queued = map wi_intent_id (filter (\<lambda>w. wi_state w = IQueued \<and> wi_team_run_id w = Some run_id)
      (map snd (co_intents c1)))"
    by (simp add: intents_of_run_def conj_commute)
  have "distinct ?queued"
    unfolding filt by (rule distinct_ids_of_values [OF coord_invD(1) [OF inv1]])
  moreover have Q: "i \<in> set ?queued \<longleftrightarrow>
      (\<exists>w. map_of (co_intents c1) i = Some w \<and> wi_state w = IQueued \<and> wi_team_run_id w = Some run_id)" for i
    unfolding filt set_ids_of_values [OF coord_invD(1) [OF inv1]] ..
  ultimately obtain c2 msgs2 where two: "opt_fold cancel_queued_intent ?queued (c1, msgs1) = Some (c2, msgs2)"
    and inv2: "coord_inv c2"
    and t2: "map_of (co_intents c2) = restate (set ?queued) (\<lambda>_. ICancelled ''run_cancelled'') (map_of (co_intents c1))"
    using cancel_queued_intents_inv [OF inv1, of ?queued msgs1] by blast
  let ?c3 = "c2\<lparr>co_enqueue_leases := fold AList.delete
     (map (\<lambda>l. le_lease_id (lr_lease l)) (leases_of_run c2 run_id)) (co_enqueue_leases c2)\<rparr>"
  have inv3: "coord_inv ?c3"
    by (rule coord_inv_leases [OF inv2 leases_wf_fold_remove [OF coord_invD(2) [OF inv2]]])
  have J: "i \<in> ?J \<longleftrightarrow> in_flight (wi_state w) \<and>
      (case map_of (co_slots c) (wi_slot_id w) of None \<Rightarrow> False
       | Some slot \<Rightarrow> (case ss_active slot of None \<Rightarrow> False | Some a \<Rightarrow> batch_touches_run c run_id a))"
    if w: "map_of (co_intents c) i = Some w" for i w
  proof
    assume "i \<in> ?J"
    then obtain sid a slot where "map_of (co_slots c) sid = Some slot" "ss_active slot = Some a"
      "batch_touches_run c run_id a" "i \<in> set (wb_intent_ids (ab_batch a))"
      using slots(2) by blast
    with batch_member_in_flight [OF inv this(1,2,4)] w batch_state_in_flight [of a]
    show "in_flight (wi_state w) \<and> (case map_of (co_slots c) (wi_slot_id w) of None \<Rightarrow> False
       | Some slot \<Rightarrow> (case ss_active slot of None \<Rightarrow> False | Some a \<Rightarrow> batch_touches_run c run_id a))"
      by auto
  next
    assume r: "in_flight (wi_state w) \<and> (case map_of (co_slots c) (wi_slot_id w) of None \<Rightarrow> False
       | Some slot \<Rightarrow> (case ss_active slot of None \<Rightarrow> False | Some a \<Rightarrow> batch_touches_run c run_id a))"
    then obtain slot a where "map_of (co_slots c) (wi_slot_id w) = Some slot" "ss_active slot = Some a"
      "i \<in> set (wb_intent_ids (ab_batch a))"
      using in_flight_owner [OF inv w] by auto
    moreover from this r have "batch_touches_run c run_id a" by simp
    ultimately show "i \<in> ?J"
      using active_slots_of_run_iff [OF wf_slots, of "wi_slot_id w" a run_id] by auto
  qed
  have run_J: "i \<in> ?J" if w: "map_of (co_intents c) i = Some w" "in_flight (wi_state w)"
    "wi_team_run_id w = Some run_id" for i w
    unfolding J [OF w(1)]
    using in_flight_owner [OF inv w(1,2)] w(2) batch_touches_runI [OF _ w(1,3)] by auto
  have final: "map_of (co_intents ?c3) i = map_option (\<lambda>w. w\<lparr>wi_state := cancelled_by_run c run_id w\<rparr>)
        (map_of (co_intents c) i)" for i
  proof (cases "map_of (co_intents c) i")
    case None
    then show ?thesis by (simp add: t2 t1 restate_def)
  next
    case (Some w)
    let ?w1 = "if i \<in> ?J then w\<lparr>wi_state := run_cancelled_state run_id w\<rparr> else w"
    have w1: "map_of (co_intents c1) i = Some ?w1"
      using Some by (simp add: t1 restate_def state_from_def)
    have q: "i \<in> set ?queued \<longleftrightarrow> wi_state ?w1 = IQueued \<and> wi_team_run_id w = Some run_id"
      unfolding Q w1 by auto
    have "map_of (co_intents ?c3) i = Some (if i \<in> set ?queued then ?w1\<lparr>wi_state := ICancelled ''run_cancelled''\<rparr> else ?w1)"
      using w1 by (simp add: t2 restate_def)
    also have "\<dots> = Some (w\<lparr>wi_state := cancelled_by_run c run_id w\<rparr>)"
    proof (cases "i \<in> ?J")
      case True
      then have r: "in_flight (wi_state w)" "(case map_of (co_slots c) (wi_slot_id w) of None \<Rightarrow> False
       | Some slot \<Rightarrow> (case ss_active slot of None \<Rightarrow> False | Some a \<Rightarrow> batch_touches_run c run_id a))"
        using J [OF Some] by auto
      then show ?thesis
        unfolding q if_P [OF True] by (simp add: run_cancelled_state_def cancelled_by_run_def)
    next
      case False
      have nr: "\<not> (in_flight (wi_state w) \<and> (case map_of (co_slots c) (wi_slot_id w) of None \<Rightarrow> False
       | Some slot \<Rightarrow> (case ss_active slot of None \<Rightarrow> False | Some a \<Rightarrow> batch_touches_run c run_id a)))"
        using False J [OF Some] by auto
      have "wi_team_run_id w = Some run_id \<Longrightarrow> \<not> in_flight (wi_state w)"
        using run_J [OF Some] False by blast
      with nr show ?thesis
        unfolding q if_not_P [OF False] by (auto simp: cancelled_by_run_def)
    qed
    finally show ?thesis using Some by simp
  qed
  have "cancel_run port run_id c r = Some
     (\<lparr>cr_cancel_targets = map (\<lambda>(_, a). \<lparr>bc_batch = ab_batch a, bc_turn_id = ab_turn_id a\<rparr>) (active_slots_of_run c run_id),
       cr_terminal_message_ids = msgs2, cr_summary = run_summary_locked ?c3 run_id\<rparr>, ?c3,
      apply_summary port (run_summary_locked ?c3 run_id) r)"
    using one two by (simp add: cancel_run_def Let_def)
  moreover have "leases_of_run ?c3 run_id = []"
    by (rule leases_of_run_cleared [OF coord_invD(2) [OF inv2] refl refl])
  ultimately show ?thesis
    using inv3 final by blast
qed

lemma cancel_run_inv:
  assumes inv: "coord_inv c"
  shows "\<exists>res c' r'. cancel_run port run_id c r = Some (res, c', r') \<and> coord_inv c'"
  using cancel_run_effect [OF assms, of port run_id r] by blast

subsection \<open>Removing a slot, stopping the session\<close>

lemma removal_order_sound:
  assumes inv: "coord_inv c"
  shows "i \<in> set (removal_order c sid) \<longleftrightarrow>
     (\<exists>w. slot_view (co_intents c) sid i = Some w \<and> \<not> is_terminal (wi_state w))"
proof -
  note wf = coord_invD(1) [OF inv]
  define ordered where "ordered = (case map_of (co_slots c) sid of None \<Rightarrow> []
     | Some slot \<Rightarrow> (case ss_active slot of None \<Rightarrow> [] | Some active \<Rightarrow> wb_intent_ids (ab_batch active)) @
         queued_ids slot)"
  have ord: "\<exists>w. slot_view (co_intents c) sid i = Some w \<and> \<not> is_terminal (wi_state w)" if "i \<in> set ordered" for i
  proof (cases "map_of (co_slots c) sid")
    case (Some slot)
    with coord_invD(4) [OF inv, of sid] have ok: "slot_ok (co_session_generation c) (slot_view (co_intents c) sid) sid (Some slot)"
      by simp
    from that Some consider a where "ss_active slot = Some a" "i \<in> set (wb_intent_ids (ab_batch a))"
      | "i \<in> set (queued_ids slot)"
      by (cases "ss_active slot") (auto simp: ordered_def)
    then show ?thesis
    proof cases
      case 1
      then show ?thesis
        using slot_ok_active [OF ok 1] batch_state_in_flight by metis
    next
      case 2
      then show ?thesis
        using slot_ok_queue [OF ok, of i] by (auto simp: set_queued_ids)
    qed
  qed (use that in \<open>simp add: ordered_def\<close>)
  have "removal_order c sid = ordered @ map wi_intent_id (sort_key (\<lambda>w. (wi_created_at_ms w, wi_intent_id w))
      (filter (\<lambda>w. wi_slot_id w = sid \<and> \<not> is_terminal (wi_state w) \<and> wi_intent_id w \<notin> set ordered)
        (map snd (co_intents c))))"
    by (simp add: removal_order_def ordered_def Let_def)
  then have "i \<in> set (removal_order c sid) \<longleftrightarrow> i \<in> set ordered \<or>
      i \<in> set (map wi_intent_id (filter (\<lambda>w. wi_slot_id w = sid \<and> \<not> is_terminal (wi_state w) \<and>
        wi_intent_id w \<notin> set ordered) (map snd (co_intents c))))"
    by simp
  also have "\<dots> \<longleftrightarrow> i \<in> set ordered \<or> (\<exists>w. map_of (co_intents c) i = Some w \<and> wi_slot_id w = sid \<and>
      \<not> is_terminal (wi_state w) \<and> wi_intent_id w \<notin> set ordered)"
    unfolding set_ids_of_values [OF wf] by blast
  finally show ?thesis
    using ord [of i] wf by (auto simp: slot_view_iff intents_wf_def)
qed

lemma concat_opt_list: "concat (map (\<lambda>i. case m i of None \<Rightarrow> [] | Some w \<Rightarrow> opt_list (g w)) js) =
   List.map_filter (\<lambda>i. Option.bind (m i) g) js"
  by (induction js) (auto simp: List.map_filter_simps opt_list_def split: option.splits)

lemma remove_slot_effect:
  assumes inv: "coord_inv c"
  shows "\<exists>res c' r'. remove_slot port sid c r = Some (res, c', r') \<and> coord_inv c' \<and>
     (\<forall>i. map_of (co_intents c') i = map_option (\<lambda>w. if wi_slot_id w = sid \<and> \<not> is_terminal (wi_state w)
        then w\<lparr>wi_state := ICancelled ''slot_removed''\<rparr> else w) (map_of (co_intents c) i)) \<and>
     co_slots c' = co_slots (modify_slot sid (\<lambda>sl. (clear_slot sl)\<lparr>ss_removed := True\<rparr>) c) \<and>
     rr_terminal_message_ids res = batch_message_ids c (removal_order c sid)"
proof -
  let ?js = "removal_order c sid"
  let ?st = "ICancelled ''slot_removed''"
  let ?C = "fst :: coordinator \<times> ident list \<times> ident list \<Rightarrow> coordinator"
  let ?s = "(c, [] :: ident list, [] :: ident list)"
  note js = removal_order_sound [OF inv, of _ sid]
  have "\<exists>s'. opt_fold remove_intent ?js ?s = Some s' \<and>
     map_of (co_intents (?C s')) = restate (set ?js) (state_from (?C ?s) (\<lambda>_. ?st)) (map_of (co_intents (?C ?s))) \<and>
     hm_wf (co_intents (?C s')) = hm_wf (co_intents (?C ?s)) \<and>
     co_slots (?C s') = co_slots (?C ?s) \<and> co_enqueue_leases (?C s') = co_enqueue_leases (?C ?s) \<and>
     co_session_generation (?C s') = co_session_generation (?C ?s) \<and>
     fst (snd s') = fst (snd ?s) @ concat (map (\<lambda>i. case map_of (co_intents (?C ?s)) i of
         None \<Rightarrow> [] | Some w \<Rightarrow> opt_list (wi_mailbox_message_id w)) ?js)"
    by (rule opt_fold_restate) (use js in \<open>auto simp: remove_intent_def slot_view_iff\<close>)
  then obtain c1 msgs runs where
    fold: "opt_fold remove_intent ?js ?s = Some (c1, msgs, runs)"
    and table: "map_of (co_intents c1) = restate (set ?js) (state_from c (\<lambda>_. ?st)) (map_of (co_intents c))"
    and rest: "hm_wf (co_intents c1) = hm_wf (co_intents c)" "co_slots c1 = co_slots c"
      "co_enqueue_leases c1 = co_enqueue_leases c" "co_session_generation c1 = co_session_generation c"
    and msgs: "msgs = batch_message_ids c ?js"
    by (auto simp: concat_opt_list batch_message_ids_def)
  let ?f = "\<lambda>sl. (clear_slot sl)\<lparr>ss_removed := True\<rparr>"
  have inv': "coord_inv (modify_slot sid ?f c1)"
  proof (rule coord_inv_states [OF inv, where J = "set ?js" and g = "state_from c (\<lambda>_. ?st)" and sid = sid])
    show "slot_ok (co_session_generation c) (restate (set ?js) (state_from c (\<lambda>_. ?st)) (slot_view (co_intents c) sid))
        sid (map_of (co_slots (modify_slot sid ?f c1)) sid)"
    proof (cases "map_of (co_slots c) sid")
      case None
      then have "is_terminal (wi_state w)" if "slot_view (co_intents c) sid i = Some w" for i w
        using coord_invD(4) [OF inv, of sid] that by (simp add: slot_ok_def)
      with js have "i \<notin> set ?js" for i
        by metis
      then have "set ?js = {}" by (intro equals0I) (rule notE)
      with None coord_invD(4) [OF inv, of sid] rest show ?thesis
        by (simp add: restate_def)
    next
      case (Some slot)
      have "slot_ok (co_session_generation c)
         (restate (set ?js) (state_from c (\<lambda>_. ?st)) (slot_view (co_intents c) sid)) sid (Some (?f slot))"
      proof (rule slot_ok_rebuild)
        show "j \<in> set ?js" if "slot_view (co_intents c) sid j = Some w" "\<not> is_terminal (wi_state w)" for j w
          using that js by blast
        show "set (queue p (?f slot)) = {j \<in> set ?js. state_from c (\<lambda>_. ?st) j = IQueued \<and>
            (\<exists>w. slot_view (co_intents c) sid j = Some w \<and> wi_priority w = p)}" for p
          by (auto simp: state_from_def slot_view_iff)
        show "\<not> in_flight (state_from c (\<lambda>_. ?st) j)" for j
          by (rule state_from_not_in_flight) simp
      qed simp_all
      with Some rest show ?thesis by simp
    qed
    show "\<exists>w. slot_view (co_intents c) sid j = Some w" if "j \<in> set ?js" for j
      using that js by blast
  qed (use table rest coord_invD(3) [OF inv] coord_inv_hm_wf [OF inv] in simp_all)
  have "map_of (co_intents (modify_slot sid ?f c1)) i = map_option (\<lambda>w. if wi_slot_id w = sid \<and> \<not> is_terminal (wi_state w)
        then w\<lparr>wi_state := ?st\<rparr> else w) (map_of (co_intents c) i)" for i
    by (rule restate_live_intents [OF _ js]) (simp add: table)
  moreover have "co_slots (modify_slot sid ?f c1) = co_slots (modify_slot sid ?f c)"
    by (simp add: modify_slot_def rest)
  ultimately show ?thesis
    using inv' fold msgs by (simp add: remove_slot_def Let_def)
qed

lemma remove_slot_inv:
  assumes inv: "coord_inv c"
  shows "\<exists>res c' r'. remove_slot port sid c r = Some (res, c', r') \<and> coord_inv c'"
  using remove_slot_effect [OF assms, of port sid r] by blast

lemma slot_ok_all_terminal:
  assumes "\<And>i w. v i = Some w \<Longrightarrow> is_terminal (wi_state w)"
    and "\<And>p. queue p sl = []" and "ss_active sl = None"
  shows "slot_ok gen v sid (Some sl)"
proof -
  have "wi_state w \<noteq> IQueued" if "v i = Some w" for i w
    using assms(1) [OF that] by auto
  with assms show ?thesis
    by (auto simp: slot_ok_def queue_exact_def active_exact_def)
qed

lemma stop_inv:
  assumes inv: "coord_inv c" and res: "stop port c r = (sums, c', r')"
  shows "coord_inv c'"
proof -
  let ?g = "\<lambda>w. if is_terminal (wi_state w) then w else w\<lparr>wi_state := ICancelled ''session_stopped''\<rparr>"
  let ?f = "\<lambda>sl. (clear_slot sl)\<lparr>ss_runtime_constraint := SessionStopped\<rparr>"
  have c': "co_intents c' = map (\<lambda>(i, w). (i, ?g w)) (co_intents c)"
      "co_slots c' = map (\<lambda>(s, sl). (s, ?f sl)) (co_slots c)"
      "co_enqueue_leases c' = []" "co_session_generation c' = co_session_generation c"
    using res by (auto simp: stop_def Let_def)
  have keys: "map fst (map (\<lambda>(i, w). (i, k w)) xs) = map fst xs" for k :: "'x \<Rightarrow> 'y" and xs :: "(ident \<times> 'x) list"
    by (induction xs) auto
  have lookup: "map_of (map (\<lambda>(i, w). (i, k w)) xs) j = map_option k (map_of xs j)"
    for k :: "'x \<Rightarrow> 'y" and xs :: "(ident \<times> 'x) list" and j
    by (induction xs) auto
  have view: "slot_view (co_intents c') sid j = map_option ?g (slot_view (co_intents c) sid j)" for sid j
    unfolding slot_view_def c'(1) lookup by (cases "map_of (co_intents c) j") auto
  have ended: "is_terminal (wi_state (?g w))" for w by simp
  have all_terminal: "is_terminal (wi_state w)" if v: "slot_view (co_intents c') sid i = Some w" for sid i w
  proof -
    obtain w0 where "w = ?g w0"
      using v unfolding view by blast
    then show ?thesis
      using ended by (simp only:)
  qed
  have "slot_ok (co_session_generation c') (slot_view (co_intents c') sid) sid (map_of (co_slots c') sid)" for sid
  proof (cases "map_of (co_slots c) sid")
    case None
    then show ?thesis
      unfolding slot_ok_def c'(2) lookup by (simp add: all_terminal)
  next
    case (Some slot)
    have "slot_ok (co_session_generation c') (slot_view (co_intents c') sid) sid (Some (?f slot))"
      by (rule slot_ok_all_terminal) (simp_all add: all_terminal)
    with Some show ?thesis by (simp add: c'(2) lookup)
  qed
  moreover have "intents_wf (co_intents c')"
    using coord_invD(1) [OF inv] unfolding intents_wf_def c'(1) keys lookup by auto
  moreover have "bt_wf (co_slots c')"
    using coord_invD(3) [OF inv] unfolding c'(2) keys .
  ultimately show ?thesis
    by (simp add: coord_inv_def c'(3) leases_wf_def)
qed

end
