(* ===== verification/Work_Reachable.thy ===== *)
theory Work_Reachable
  imports Work_Preservation_Control
begin

text \<open>
  The coordinator as a state machine. A state is the coordinator, the state of the run
  causality port, and the set of batches \<open>next\<close> has handed out so far: callers pass copies
  of those back. Every public operation is one step, since it holds the mutex from its first
  to its last access to the state; any interleaving of tasks is a sequence of steps. The
  publication of summaries, which follows the release of the mutex, may come later than the
  step: \<open>port_moves\<close> covers that too. The premises on generated ids say
  that \<open>generate_id\<close> does not repeat an id in use. \<open>rehash\<close> lets the hash maps change their
  iteration order between operations, \<open>port_moves\<close> lets the port change on its own.
\<close>

type_synonym 'r coord_sys = "coordinator \<times> 'r \<times> work_batch set"

definition add_claim :: "reconcile_decision \<Rightarrow> work_batch set \<Rightarrow> work_batch set" where
  "add_claim d B = (case d of Claim b \<Rightarrow> insert b B | _ \<Rightarrow> B)"

inductive coord_step :: "'r run_port \<Rightarrow> 'r coord_sys \<Rightarrow> 'r coord_sys \<Rightarrow> bool" for port where
  acquire: "acquire_enqueue port lease_id rq c r = (res, c', r') \<Longrightarrow>
     coord_step port (c, r, B) (c', r', B)"
| commit: "map_of (co_intents c) intent_id = None \<Longrightarrow>
     commit_enqueue port intent_id now lease msg c r = (res1, c', r') \<Longrightarrow>
     coord_step port (c, r, B) (c', r', B)"
| abort: "abort_enqueue port lease c r = (res2, c', r') \<Longrightarrow> coord_step port (c, r, B) (c', r', B)"
| reconcile: "inj ids \<Longrightarrow> (\<And>n. map_of (co_intents c) (ids n) = None) \<Longrightarrow>
     reconcile_mailbox ids clock sid unread role c = (proj, c') \<Longrightarrow>
     coord_step port (c, r, B) (c', r, B)"
| claim: "(\<And>b. b \<in> B \<Longrightarrow> wb_batch_id b \<noteq> batch_id) \<Longrightarrow>
     next_work port batch_id sid c r = (d, c', r') \<Longrightarrow>
     coord_step port (c, r, B) (c', r', add_claim d B)"
| started: "b \<in> B \<Longrightarrow> mark_started port now b turn_id c r = (res3, c', r') \<Longrightarrow>
     coord_step port (c, r, B) (c', r', B)"
| retry: "b \<in> B \<Longrightarrow> retry_start port b c r = (res2, c', r') \<Longrightarrow> coord_step port (c, r, B) (c', r', B)"
| complete: "b \<in> B \<Longrightarrow> complete_batch port b c r = (res2, c', r') \<Longrightarrow>
     coord_step port (c, r, B) (c', r', B)"
| fail: "b \<in> B \<Longrightarrow> fail_batch port b cl c r = (res2, c', r') \<Longrightarrow>
     coord_step port (c, r, B) (c', r', B)"
| cancel: "b \<in> B \<Longrightarrow> cancel_batch port b cl c r = (res2, c', r') \<Longrightarrow>
     coord_step port (c, r, B) (c', r', B)"
| cancel_run: "cancel_run port run_id c r = Some (res4, c', r') \<Longrightarrow>
     coord_step port (c, r, B) (c', r', B)"
| signals: "complete_signals port sid is c r = (res2, c', r') \<Longrightarrow>
     coord_step port (c, r, B) (c', r', B)"
| pause: "pause_slot sid c = Some (res5, c') \<Longrightarrow> coord_step port (c, r, B) (c', r, B)"
| constrain: "set_runtime_constraint port sid k c r = Some (res6, c', r') \<Longrightarrow>
     coord_step port (c, r, B) (c', r', B)"
| remove: "remove_slot port sid c r = Some (res7, c', r') \<Longrightarrow> coord_step port (c, r, B) (c', r', B)"
| stop: "stop port c r = (sums, c', r') \<Longrightarrow> coord_step port (c, r, B) (c', r', B)"
| rehash: "map_of m = map_of (co_intents c) \<Longrightarrow> hm_wf m \<Longrightarrow>
     map_of l = map_of (co_enqueue_leases c) \<Longrightarrow> hm_wf l \<Longrightarrow>
     coord_step port (c, r, B) (c\<lparr>co_intents := m, co_enqueue_leases := l\<rparr>, r, B)"
| port_moves: "coord_step port (c, r, B) (c, r', B)"

inductive coord_reachable :: "'r run_port \<Rightarrow> ident \<Rightarrow> ident \<Rightarrow> 'r coord_sys \<Rightarrow> bool"
  for port team_id generation where
  start: "coord_reachable port team_id generation (coordinator_new team_id generation, r, {})"
| step: "coord_reachable port team_id generation s \<Longrightarrow> coord_step port s s' \<Longrightarrow>
     coord_reachable port team_id generation s'"

subsection \<open>The batches in flight are among those handed out\<close>

definition actives :: "coordinator \<Rightarrow> work_batch set" where
  "actives c = {b. \<exists>sid slot a. map_of (co_slots c) sid = Some slot \<and> ss_active slot = Some a \<and> ab_batch a = b}"

lemma activesI: "map_of (co_slots c) sid = Some slot \<Longrightarrow> ss_active slot = Some a \<Longrightarrow> ab_batch a \<in> actives c"
  by (auto simp: actives_def)

lemma actives_slots: "co_slots c' = co_slots c \<Longrightarrow> actives c' = actives c"
  by (simp add: actives_def)

lemma actives_via: "co_slots c' = co_slots d \<Longrightarrow> actives d \<subseteq> A \<Longrightarrow> actives c' \<subseteq> A"
  by (simp add: actives_def)

lemma actives_put_slot:
  assumes "ss_active sl = None \<or> (\<exists>sl0. map_of (co_slots c) sid = Some sl0 \<and> ss_active sl = ss_active sl0)"
  shows "actives (put_slot sid sl c) \<subseteq> actives c"
proof
  fix b assume "b \<in> actives (put_slot sid sl c)"
  then obtain s slot a where sl: "map_of (co_slots (put_slot sid sl c)) s = Some slot"
    "ss_active slot = Some a" "ab_batch a = b"
    by (auto simp: actives_def)
  show "b \<in> actives c"
  proof (cases "s = sid")
    case True
    with sl assms obtain sl0 where "map_of (co_slots c) sid = Some sl0" "ss_active sl0 = Some a"
      by auto
    with sl(3) show ?thesis using activesI by blast
  next
    case False
    with sl show ?thesis using activesI [of c s slot a] by simp
  qed
qed

lemma actives_modify_slot:
  assumes "\<And>sl a. ss_active (f sl) = Some a \<Longrightarrow> \<exists>a0. ss_active sl = Some a0 \<and> ab_batch a0 = ab_batch a"
  shows "actives (modify_slot sid f c) \<subseteq> actives c"
proof
  fix b assume "b \<in> actives (modify_slot sid f c)"
  then obtain s slot a where "map_of (co_slots (modify_slot sid f c)) s = Some slot" "ss_active slot = Some a" "ab_batch a = b"
    by (auto simp: actives_def)
  then show "b \<in> actives c"
    using assms by (cases "s = sid") (auto simp: actives_def, metis)
qed

lemma slot_entry_active:
  "ss_active (slot_entry sid role c) = None \<or>
   (\<exists>sl0. map_of (co_slots c) sid = Some sl0 \<and> ss_active (slot_entry sid role c) = ss_active sl0)"
  by (auto simp: slot_entry_def split: option.splits)

lemma opt_fold_mono:
  assumes "opt_fold f xs s = Some s'" and "\<And>x s s'. f x s = Some s' \<Longrightarrow> A s' \<subseteq> A s"
  shows "A s' \<subseteq> A s"
  using assms(1)
proof (induction xs arbitrary: s)
  case (Cons x xs)
  then obtain s1 where "f x s = Some s1" "opt_fold f xs s1 = Some s'"
    by (auto split: option.splits)
  with Cons.IH assms(2) show ?case by blast
qed simp

lemma fold_mono: "(\<And>x s. A (f x s) \<subseteq> A s) \<Longrightarrow> A (fold f xs s) \<subseteq> A s"
proof (induction xs arbitrary: s)
  case (Cons x xs)
  then show ?case by (metis fold_simps(2) subset_trans)
qed simp

lemma acquire_enqueue_actives:
  assumes "acquire_enqueue port lease_id rq c r = (res, c', r')"
  shows "actives c' \<subseteq> actives c"
proof -
  let ?slot = "(slot_entry (rq_slot_id rq) (rq_role rq) c)\<lparr>ss_role := rq_role rq\<rparr>"
  have "co_slots c' = co_slots (put_slot (rq_slot_id rq) ?slot c)"
    using assms by (auto simp: acquire_enqueue_def Let_def split: option.splits prod.splits)
  then have "actives c' = actives (put_slot (rq_slot_id rq) ?slot c)"
    by (rule actives_slots)
  also have "\<dots> \<subseteq> actives c"
    by (rule actives_put_slot) (use slot_entry_active [of "rq_slot_id rq" "rq_role rq" c] in simp)
  finally show ?thesis .
qed

lemma commit_enqueue_slots:
  assumes "commit_enqueue port intent_id now lease msg c r = (res, c', r')"
  shows "c' = c \<or> (\<exists>sl sl'. map_of (co_slots c) (le_slot_id lease) = Some sl \<and>
     ss_active sl' = ss_active sl \<and> co_slots c' = co_slots (put_slot (le_slot_id lease) sl' c))"
proof (cases "c' = c")
  case False
  then obtain rec where rec: "hm_get (co_enqueue_leases c) (le_lease_id lease) = Some rec"
    using assms by (cases "hm_get (co_enqueue_leases c) (le_lease_id lease)") (auto simp: commit_enqueue_def)
  have own: "\<not> (lr_lease rec \<noteq> lease \<or> le_session_generation lease \<noteq> co_session_generation c)"
  proof
    assume "lr_lease rec \<noteq> lease \<or> le_session_generation lease \<noteq> co_session_generation c"
    with assms rec have "c' = c" by (simp add: commit_enqueue_def)
    with False show "False" by simp
  qed
  have msg: "\<not> (requires_mailbox_message (le_source lease) \<and> msg = None)"
  proof
    assume "requires_mailbox_message (le_source lease) \<and> msg = None"
    with assms rec own have "c' = c" by (simp add: commit_enqueue_def)
    with False show "False" by simp
  qed
  have "is_some (map_of (co_slots c) (le_slot_id lease))"
  proof
    assume "map_of (co_slots c) (le_slot_id lease) = None"
    with assms rec own msg have "c' = c" by (simp add: commit_enqueue_def if_not_P)
    with False show "False" by simp
  qed
  then obtain slot where slot: "map_of (co_slots c) (le_slot_id lease) = Some slot" by blast
  have valid: "validate_enqueue_constraint (le_slot_id lease) slot = None"
  proof (rule ccontr)
    assume "validate_enqueue_constraint (le_slot_id lease) slot \<noteq> None"
    then obtain e where "validate_enqueue_constraint (le_slot_id lease) slot = Some e" by blast
    with assms rec own msg slot have "c' = c" by (simp add: commit_enqueue_def if_not_P)
    with False show "False" by simp
  qed
  let ?slot1 = "if resumes_paused_slot (le_source lease) then slot\<lparr>ss_paused := False\<rparr> else slot"
  let ?slot3 = "push_back (source_priority (le_source lease)) intent_id
     (?slot1\<lparr>ss_known_unread := ss_known_unread ?slot1 \<union> set_option msg\<rparr>)"
  have "co_slots c' = co_slots (put_slot (le_slot_id lease) ?slot3 c)"
    using assms rec own msg slot valid
    unfolding commit_enqueue_def Let_def put_slot_def
    by (simp only: option.case if_False prod.inject) (elim conjE, hypsubst, simp)
  with slot show ?thesis
    by (intro disjI2 exI [of _ slot] exI [of _ ?slot3]) simp
qed simp

lemma commit_enqueue_actives:
  assumes "commit_enqueue port intent_id now lease msg c r = (res, c', r')"
  shows "actives c' \<subseteq> actives c"
  using commit_enqueue_slots [OF assms]
proof (elim disjE exE conjE)
  fix sl sl'
  assume sl: "map_of (co_slots c) (le_slot_id lease) = Some sl" "ss_active sl' = ss_active sl"
    and slots: "co_slots c' = co_slots (put_slot (le_slot_id lease) sl' c)"
  have "actives (put_slot (le_slot_id lease) sl' c) \<subseteq> actives c"
    by (rule actives_put_slot) (use sl in simp)
  then show ?thesis by (simp only: actives_slots [OF slots])
qed simp

lemma reconcile_actives:
  assumes "reconcile_mailbox ids clock sid unread role c = (proj, c')"
  shows "actives c' \<subseteq> actives c"
proof -
  let ?slot = "(slot_entry sid role c)\<lparr>ss_role := role, ss_known_unread := set unread\<rparr>"
  let ?c1 = "put_slot sid ?slot c"
  let ?stale = "filter (stale_message ?c1 unread) (queued_ids ?slot)"
  let ?c2 = "fold (\<lambda>i. set_intent_state i ICompleted) ?stale ?c1"
  let ?c3 = "modify_slot sid (fold remove_queued ?stale) ?c2"
  obtain created where c': "fold (recover_message ids clock sid role) unread (?c3, []) = (c', created)"
    using assms by (auto simp: reconcile_mailbox_def Let_def fold_reconcile_candidate split: prod.splits)
  have "actives (fst (recover_message ids clock sid role m s)) \<subseteq> actives (fst s)" for m s
  proof (cases s)
    case (Pair d created)
    let ?i = "ids (length created)"
    have "actives (modify_slot sid (push_back Background ?i) (d\<lparr>co_intents := m'\<rparr>)) \<subseteq> actives d" for m'
    proof -
      have "actives (modify_slot sid (push_back Background ?i) (d\<lparr>co_intents := m'\<rparr>)) \<subseteq> actives (d\<lparr>co_intents := m'\<rparr>)"
        by (rule actives_modify_slot) simp
      also have "\<dots> = actives d" by (rule actives_slots) simp
      finally show ?thesis .
    qed
    with Pair show ?thesis
      by (auto simp: recover_message_def Let_def)
  qed
  then have "actives c' \<subseteq> actives ?c3"
    using fold_mono [of "\<lambda>s. actives (fst s)" "recover_message ids clock sid role" unread "(?c3, [])"] c' by simp
  also have "\<dots> \<subseteq> actives ?c2"
    by (rule actives_modify_slot) auto
  also have "\<dots> = actives ?c1"
    by (rule actives_slots) simp
  also have "\<dots> \<subseteq> actives c"
    by (rule actives_put_slot) (use slot_entry_active [of sid role c] in simp)
  finally show ?thesis .
qed

lemma actives_claim:
  assumes "\<And>sl. ss_active (f sl) = Some a" and "ab_batch a = batch"
  shows "actives (modify_slot sid f c) \<subseteq> insert batch (actives c)"
proof
  fix b assume "b \<in> actives (modify_slot sid f c)"
  then obtain s slot a' where sl: "map_of (co_slots (modify_slot sid f c)) s = Some slot"
    "ss_active slot = Some a'" "ab_batch a' = b"
    by (auto simp: actives_def)
  show "b \<in> insert batch (actives c)"
  proof (cases "s = sid")
    case True
    with sl(1) obtain sl0 where "slot = f sl0" by auto
    with sl(2,3) assms show ?thesis by simp
  next
    case False
    with sl show ?thesis using activesI [of c s slot a'] by simp
  qed
qed

text \<open>What a claim does, once every guard has let it through.\<close>

lemma next_work_cases:
  assumes "next_work port batch_id sid c r = (d, c', r')"
  obtains "c' = c" "r' = r" "\<forall>b. d \<noteq> Claim b"
  | slot p batch where "map_of (co_slots c) sid = Some slot" "ss_active slot = None"
    "ss_runtime_constraint slot = Ready" "\<not> ss_paused slot"
    "find (\<lambda>p. queue p slot \<noteq> []) [Foreground, Control, Background] = Some p"
    "filter (has_message c) (queue p slot) \<noteq> []"
    "batch = \<lparr>wb_batch_id = batch_id, wb_session_generation = co_session_generation c,
       wb_slot_id = sid, wb_intent_ids = filter (has_message c) (queue p slot),
       wb_mailbox_message_ids = batch_message_ids c (filter (has_message c) (queue p slot)),
       wb_highest_priority = p, wb_team_run_ids = batch_run_ids c (filter (has_message c) (queue p slot)),
       wb_operation_id = u64_saturating_add (co_next_operation_id c) 1\<rparr>"
    "d = Claim batch"
    "c' = modify_slot sid (\<lambda>sl. (fold remove_queued (wb_intent_ids batch) sl)\<lparr>ss_active :=
       Some \<lparr>ab_batch = batch, ab_turn_id = None, ab_started_at_ms = None\<rparr>\<rparr>)
      (fold (\<lambda>i. set_intent_state i (IStarting batch_id (wb_operation_id batch))) (wb_intent_ids batch)
        (c\<lparr>co_next_operation_id := wb_operation_id batch\<rparr>))"
proof (cases "map_of (co_slots c) sid")
  case None
  with assms that(1) show ?thesis by (simp add: next_work_def)
next
  case (Some slot)
  show ?thesis
  proof (cases "ss_active slot = None \<and> ss_runtime_constraint slot = Ready \<and> \<not> ss_paused slot")
    case False
    with Some assms have "c' = c \<and> r' = r \<and> (\<forall>b. d \<noteq> Claim b)"
      by (auto simp: next_work_def split: if_splits)
    with that(1) show ?thesis by blast
  next
    case ready: True
    show ?thesis
    proof (cases "find (\<lambda>p. queue p slot \<noteq> []) [Foreground, Control, Background]")
      case None
      with Some ready assms have "c' = c \<and> r' = r \<and> (\<forall>b. d \<noteq> Claim b)"
        by (auto simp: next_work_def)
      with that(1) show ?thesis by blast
    next
      case p: (Some p)
      show ?thesis
      proof (cases "filter (has_message c) (queue p slot) = []")
        case True
        with p Some ready assms have "c' = c \<and> r' = r \<and> (\<forall>b. d \<noteq> Claim b)"
          by (auto simp: next_work_def)
        with that(1) show ?thesis by blast
      next
        case False
        with Some ready p assms show ?thesis
          by (intro that(2) [OF Some _ _ _ p False refl]) (simp_all add: next_work_def Let_def)
      qed
    qed
  qed
qed

lemma next_work_actives:
  assumes "next_work port batch_id sid c r = (d, c', r')"
  shows "actives c' \<subseteq> actives c \<union> add_claim d {} \<and> (\<forall>b. d = Claim b \<longrightarrow> wb_batch_id b = batch_id)"
  using assms
proof (cases rule: next_work_cases)
  case 1
  then show ?thesis by (auto simp: add_claim_def)
next
  case (2 slot p batch)
  have "actives c' \<subseteq> insert batch (actives (fold (\<lambda>i. set_intent_state i
      (IStarting batch_id (wb_operation_id batch))) (wb_intent_ids batch)
        (c\<lparr>co_next_operation_id := wb_operation_id batch\<rparr>)))"
    unfolding 2(9) by (rule actives_claim, simp, simp)
  also have "actives (fold (\<lambda>i. set_intent_state i
      (IStarting batch_id (wb_operation_id batch))) (wb_intent_ids batch)
        (c\<lparr>co_next_operation_id := wb_operation_id batch\<rparr>)) = actives c"
    by (rule actives_slots) simp
  finally have "actives c' \<subseteq> insert batch (actives c)" .
  moreover have "wb_batch_id batch = batch_id" unfolding 2(7) by simp
  ultimately show ?thesis
    unfolding 2(8) add_claim_def by simp
qed

lemma actives_active_none:
  assumes "\<And>sl. ss_active (f sl) = None"
  shows "actives (modify_slot sid f c) \<subseteq> actives c"
  by (rule actives_modify_slot) (simp add: assms)

lemma mark_started_actives:
  assumes "mark_started port now b turn_id c r = (res, c', r')"
  shows "actives c' \<subseteq> actives c"
proof (cases "is_current_batch c b")
  case False
  with assms have "c' = c" by (auto simp: mark_started_def split: if_splits)
  then show ?thesis by simp
next
  case True
  let ?f = "\<lambda>sl. sl\<lparr>ss_active := map_option (\<lambda>a. a\<lparr>ab_turn_id := Some turn_id, ab_started_at_ms := Some now\<rparr>) (ss_active sl)\<rparr>"
  have "co_slots c' = co_slots (modify_slot (wb_slot_id b) ?f c)"
    using assms True by (auto simp: mark_started_def Let_def modify_slot_def)
  then show ?thesis
    by (rule actives_via) (rule actives_modify_slot, auto)
qed

lemma retry_start_actives:
  assumes "retry_start port b c r = (res, c', r')" shows "actives c' \<subseteq> actives c"
proof (cases "is_current_batch c b")
  case True
  let ?f = "\<lambda>sl. fold (push_front (wb_highest_priority b)) (rev (wb_intent_ids b)) (sl\<lparr>ss_active := None\<rparr>)"
  have "co_slots c' = co_slots (modify_slot (wb_slot_id b) ?f c)"
    using assms True by (auto simp: retry_start_def Let_def modify_slot_def)
  then show ?thesis
    by (rule actives_via) (rule actives_active_none, simp)
qed (use assms in \<open>simp add: retry_start_def\<close>)

lemma terminalize_batch_actives:
  assumes "terminalize_batch port b st c r = (res, c', r')" shows "actives c' \<subseteq> actives c"
proof (cases "is_current_batch c b")
  case True
  have "co_slots c' = co_slots (modify_slot (wb_slot_id b) (\<lambda>sl. sl\<lparr>ss_active := None\<rparr>) c)"
    using assms True by (auto simp: terminalize_batch_def Let_def modify_slot_def)
  then show ?thesis
    by (rule actives_via) (rule actives_active_none, simp)
qed (use assms in \<open>simp add: terminalize_batch_def\<close>)

lemma abort_enqueue_actives:
  assumes "abort_enqueue port lease c r = (res, c', r')" shows "actives c' \<subseteq> actives c"
proof (rule actives_via)
  show "co_slots c' = co_slots c"
    using assms by (auto simp: abort_enqueue_def Let_def split: option.splits if_splits)
qed simp

lemma complete_signals_actives:
  assumes "complete_signals port sid is c r = (res, c', r')" shows "actives c' \<subseteq> actives c"
proof (cases "c' = c")
  case False
  then have "c' = modify_slot sid (fold remove_queued is) (fold (\<lambda>i. set_intent_state i ICompleted) is c)"
    using assms by (auto simp: complete_signals_def Let_def fold_complete_signal split: if_splits)
  then have "co_slots c' = co_slots (modify_slot sid (fold remove_queued is) c)"
    by (simp add: modify_slot_def)
  then show ?thesis
    by (rule actives_via) (rule actives_modify_slot, auto)
qed simp

lemma pause_slot_actives:
  assumes "pause_slot sid c = Some (res, c')" shows "actives c' \<subseteq> actives c"
proof -
  have "c' = put_slot sid ((slot_entry sid RoleTeammate c)\<lparr>ss_paused := True\<rparr>) c"
    using assms by (auto simp: pause_slot_def Let_def split: option.splits)
  moreover have "actives (put_slot sid ((slot_entry sid RoleTeammate c)\<lparr>ss_paused := True\<rparr>) c) \<subseteq> actives c"
    by (rule actives_put_slot) (use slot_entry_active [of sid RoleTeammate c] in simp)
  ultimately show ?thesis by simp
qed

lemma constrain_intent_slots:
  "constrain_intent k i acc = Some acc' \<Longrightarrow> co_slots (ca_coordinator acc') = co_slots (ca_coordinator acc)"
  by (auto simp: constrain_intent_def Let_def split: option.splits if_splits)

lemma opt_fold_slots:
  assumes "opt_fold f xs s = Some s'" and "\<And>x s s'. f x s = Some s' \<Longrightarrow> C s' = C s"
  shows "C s' = C s"
  using assms(1)
proof (induction xs arbitrary: s)
  case (Cons x xs)
  then obtain s1 where "f x s = Some s1" "opt_fold f xs s1 = Some s'"
    by (auto split: option.splits)
  with Cons.IH assms(2) show ?case by metis
qed simp

lemma set_runtime_constraint_actives:
  assumes "set_runtime_constraint port sid k c r = Some (res, c', r')" shows "actives c' \<subseteq> actives c"
proof -
  let ?c1 = "put_slot sid ((slot_entry sid RoleTeammate c)\<lparr>ss_runtime_constraint := k\<rparr>) c"
  have one: "actives ?c1 \<subseteq> actives c"
    by (rule actives_put_slot) (use slot_entry_active [of sid RoleTeammate c] in simp)
  have "actives c' \<subseteq> actives ?c1"
  proof (cases "ends_work k")
    case False
    with assms have "c' = ?c1"
      by (auto simp: set_runtime_constraint_def Let_def split: option.splits)
    then show ?thesis by simp
  next
    case True
    with assms obtain acc where
      acc: "opt_fold (constrain_intent k) (live_intent_ids ?c1 sid)
         \<lparr>ca_coordinator = ?c1, ca_requeue = [], ca_affected_run_ids = [], ca_terminal_message_ids = []\<rparr> = Some acc"
      and c': "c' = modify_slot sid (\<lambda>sl. fold (\<lambda>(p, i). push_back p i) (ca_requeue acc) (clear_slot sl)) (ca_coordinator acc)"
      by (auto simp: set_runtime_constraint_def Let_def split: option.splits)
    have "co_slots (ca_coordinator acc) = co_slots ?c1"
      using opt_fold_slots [OF acc, of "\<lambda>a. co_slots (ca_coordinator a)"] constrain_intent_slots by fastforce
    then have "actives (ca_coordinator acc) = actives ?c1"
      by (rule actives_slots)
    moreover have "actives c' \<subseteq> actives (ca_coordinator acc)"
      unfolding c' by (rule actives_active_none) simp
    ultimately show ?thesis by simp
  qed
  with one show ?thesis by simp
qed

lemma cancel_active_slot_actives:
  assumes "cancel_active_slot run_id sa (c, msgs) = Some (c', msgs')" shows "actives c' \<subseteq> actives c"
proof -
  obtain sid a where sa: "sa = (sid, a)" by fastforce
  with assms obtain c1 ret where
    loop: "opt_fold (cancel_active_intent run_id) (wb_intent_ids (ab_batch a)) (c, msgs, []) = Some (c1, msgs', ret)"
    and c': "c' = modify_slot sid (\<lambda>sl. fold (\<lambda>(p, i). push_front p i) (rev ret) (sl\<lparr>ss_active := None\<rparr>)) c1"
    by (auto simp: cancel_active_slot_def split: option.splits)
  have "co_slots (fst s') = co_slots (fst s)" if "cancel_active_intent run_id i s = Some s'" for i s s'
    using that by (auto simp: cancel_active_intent_def split: option.splits prod.splits if_splits)
  then have "co_slots c1 = co_slots c"
    using opt_fold_slots [OF loop, of "\<lambda>s. co_slots (fst s)"] by fastforce
  then have "actives c1 = actives c" by (rule actives_slots)
  moreover have "actives c' \<subseteq> actives c1"
    unfolding c' by (rule actives_active_none) simp
  ultimately show ?thesis by simp
qed

lemma cancel_queued_intent_actives:
  assumes "cancel_queued_intent i (c, msgs) = Some (c', msgs')" shows "actives c' \<subseteq> actives c"
proof -
  have "is_some (map_of (co_intents c) i)"
    using assms by (simp add: cancel_queued_intent_def split: option.splits)
  then obtain w where "map_of (co_intents c) i = Some w" by blast
  with assms have "c' = modify_slot (wi_slot_id w) (remove_queued i) (set_intent_state i (ICancelled ''run_cancelled'') c)"
    by (simp add: cancel_queued_intent_def)
  then have "co_slots c' = co_slots (modify_slot (wi_slot_id w) (remove_queued i) c)"
    by (simp add: modify_slot_def)
  then show ?thesis
    by (rule actives_via) (rule actives_modify_slot, auto)
qed

lemma cancel_run_actives:
  assumes "cancel_run port run_id c r = Some (res, c', r')" shows "actives c' \<subseteq> actives c"
proof -
  obtain c1 msgs1 c2 msgs2 js where
    one: "opt_fold (cancel_active_slot run_id) (active_slots_of_run c run_id) (c, []) = Some (c1, msgs1)"
    and two: "opt_fold cancel_queued_intent js (c1, msgs1) = Some (c2, msgs2)"
    and c': "co_slots c' = co_slots c2"
    using assms by (auto simp: cancel_run_def Let_def split: option.splits)
  have "actives c1 \<subseteq> actives c"
    using opt_fold_mono [OF one, of "\<lambda>s. actives (fst s)"] cancel_active_slot_actives by fastforce
  moreover have "actives c2 \<subseteq> actives c1"
    using opt_fold_mono [OF two, of "\<lambda>s. actives (fst s)"] cancel_queued_intent_actives by fastforce
  ultimately show ?thesis
    using actives_slots [OF c'] by simp
qed

lemma remove_slot_actives:
  assumes "remove_slot port sid c r = Some (res, c', r')" shows "actives c' \<subseteq> actives c"
proof -
  obtain c1 msgs runs where
    loop: "opt_fold remove_intent (removal_order c sid) (c, [], []) = Some (c1, msgs, runs)"
    and c': "c' = modify_slot sid (\<lambda>sl. (clear_slot sl)\<lparr>ss_removed := True\<rparr>) c1"
    using assms by (auto simp: remove_slot_def Let_def split: option.splits)
  have "co_slots (fst s') = co_slots (fst s)" if "remove_intent i s = Some s'" for i s s'
    using that by (auto simp: remove_intent_def split: option.splits prod.splits)
  then have "co_slots c1 = co_slots c"
    using opt_fold_slots [OF loop, of "\<lambda>s. co_slots (fst s)"] by fastforce
  then have "actives c1 = actives c" by (rule actives_slots)
  moreover have "actives c' \<subseteq> actives c1"
    unfolding c' by (rule actives_active_none) simp
  ultimately show ?thesis by simp
qed

lemma stop_actives:
  assumes "stop port c r = (sums, c', r')" shows "actives c' = {}"
proof -
  have "co_slots c' = map (\<lambda>(s, sl). (s, (clear_slot sl)\<lparr>ss_runtime_constraint := SessionStopped\<rparr>)) (co_slots c)"
    using assms by (auto simp: stop_def Let_def)
  then show ?thesis
    by (auto simp: actives_def dest!: map_of_SomeD)
qed

subsection \<open>The system invariant\<close>

text \<open>
  The batches in flight have been handed out, and no two batches handed out share an id. So
  a caller's batch that passes the coordinator's ownership check is the slot's active one.
\<close>

definition sys_inv :: "'r coord_sys \<Rightarrow> bool" where
  "sys_inv s \<longleftrightarrow>
     (case s of (c, r, B) \<Rightarrow> coord_inv c \<and> actives c \<subseteq> B \<and>
        (\<forall>b1 \<in> B. \<forall>b2 \<in> B. wb_batch_id b1 = wb_batch_id b2 \<longrightarrow> b1 = b2))"

lemma sys_inv_genuine:
  assumes "sys_inv (c, r, B)" and "b \<in> B"
  shows "genuine c b"
  unfolding genuine_def
proof
  assume "is_current_batch c b"
  then obtain slot a where slot: "map_of (co_slots c) (wb_slot_id b) = Some slot" "ss_active slot = Some a"
    "wb_batch_id (ab_batch a) = wb_batch_id b"
    by (auto simp: is_current_batch_def split: option.splits)
  then have "ab_batch a \<in> B"
    using assms(1) activesI by (auto simp: sys_inv_def)
  then have "ab_batch a = b"
    using assms slot(3) by (auto simp: sys_inv_def)
  with slot show "\<exists>slot a. map_of (co_slots c) (wb_slot_id b) = Some slot \<and> ss_active slot = Some a \<and> ab_batch a = b"
    by blast
qed

lemma sys_inv_step:
  assumes "sys_inv (c, r, B)" and "coord_inv c'" and "actives c' \<subseteq> actives c"
  shows "sys_inv (c', r', B)"
  using assms by (auto simp: sys_inv_def)

lemma coord_inv_rehash:
  assumes inv: "coord_inv c" and m: "map_of m = map_of (co_intents c)" "hm_wf m"
    and l: "map_of l = map_of (co_enqueue_leases c)" "hm_wf l"
  shows "coord_inv (c\<lparr>co_intents := m, co_enqueue_leases := l\<rparr>)"
proof -
  have "slot_view m sid = slot_view (co_intents c) sid" for sid
    by (rule ext) (simp add: slot_view_def m)
  with inv m l show ?thesis
    by (simp add: coord_inv_def intents_wf_def leases_wf_def)
qed

lemma terminalize_sys_inv:
  assumes inv: "sys_inv (c, r, B)" and "b \<in> B" and "is_terminal st"
    and res: "terminalize_batch port b st c r = (res, c', r')"
  shows "sys_inv (c', r', B)"
proof (rule sys_inv_step [OF inv])
  have "coord_inv c" using inv by (simp add: sys_inv_def)
  then show "coord_inv c'"
    by (rule terminalize_batch_inv [OF _ sys_inv_genuine [OF inv assms(2)] assms(3) res])
qed (rule terminalize_batch_actives [OF res])

lemma coord_step_inv:
  assumes "coord_step port s s'" and "sys_inv s"
  shows "sys_inv s'"
  using assms
proof (induction rule: coord_step.induct)
  case (claim B batch_id sid c r d c' r')
  have inv: "coord_inv c'"
    using next_work_inv [OF _ claim(2)] claim(3) by (simp add: sys_inv_def)
  note act = next_work_actives [OF claim(2)]
  show ?case
  proof (cases "\<exists>b. d = Claim b")
    case False
    then have "add_claim d X = X" for X by (cases d) (auto simp: add_claim_def)
    with claim(3) inv act show ?thesis by (auto simp: sys_inv_def)
  next
    case True
    then obtain b where d: "d = Claim b" ..
    with act have "actives c' \<subseteq> insert b (actives c)" "wb_batch_id b = batch_id"
      by (auto simp: add_claim_def)
    with claim(3) inv d show ?thesis
      using claim(1) unfolding sys_inv_def add_claim_def by simp blast
  qed
next
  case (acquire lease_id rq c r res c' r' B)
  then show ?case
    by (intro sys_inv_step [OF acquire(2)]) (auto simp: sys_inv_def dest: acquire_enqueue_inv acquire_enqueue_actives)
next
  case (commit c intent_id now lease msg r res1 c' r' B)
  have "coord_inv c" using commit(3) by (simp add: sys_inv_def)
  then show ?case
    by (intro sys_inv_step [OF commit(3)] commit_enqueue_inv [OF _ commit(1,2)] commit_enqueue_actives [OF commit(2)])
next
  case (abort lease c r res2 c' r' B)
  have "coord_inv c" using abort(2) by (simp add: sys_inv_def)
  then show ?case
    by (intro sys_inv_step [OF abort(2)] abort_enqueue_inv [OF _ abort(1)] abort_enqueue_actives [OF abort(1)])
next
  case (reconcile ids c clock sid unread role proj c' r B)
  have "coord_inv c" using reconcile(4) by (simp add: sys_inv_def)
  then show ?case
    by (intro sys_inv_step [OF reconcile(4)] reconcile_mailbox_inv [OF _ reconcile(1,2,3)] reconcile_actives [OF reconcile(3)])
next
  case (started b B now turn_id c r res3 c' r')
  have "coord_inv c" using started(3) by (simp add: sys_inv_def)
  then show ?case
    by (intro sys_inv_step [OF started(3)] mark_started_inv [OF _ sys_inv_genuine [OF started(3,1)] started(2)]
        mark_started_actives [OF started(2)])
next
  case (retry b B c r res2 c' r')
  have "coord_inv c" using retry(3) by (simp add: sys_inv_def)
  then show ?case
    by (intro sys_inv_step [OF retry(3)] retry_start_inv [OF _ sys_inv_genuine [OF retry(3,1)] retry(2)]
        retry_start_actives [OF retry(2)])
next
  case (complete b B c r res2 c' r')
  show ?case
    by (rule terminalize_sys_inv [OF complete(3,1) _ complete(2) [unfolded complete_batch_def]]) simp
next
  case (fail b B cl c r res2 c' r')
  show ?case
    by (rule terminalize_sys_inv [OF fail(3,1) _ fail(2) [unfolded fail_batch_def]]) simp
next
  case (cancel b B cl c r res2 c' r')
  show ?case
    by (rule terminalize_sys_inv [OF cancel(3,1) _ cancel(2) [unfolded cancel_batch_def]]) simp
next
  case (cancel_run run_id c r res4 c' r' B)
  have "coord_inv c'" using cancel_run_inv [of c port run_id r] cancel_run by (auto simp: sys_inv_def)
  then show ?case
    by (rule sys_inv_step [OF cancel_run(2) _ cancel_run_actives [OF cancel_run(1)]])
next
  case (signals sid "is" c r res2 c' r' B)
  have "coord_inv c" using signals(2) by (simp add: sys_inv_def)
  then show ?case
    by (intro sys_inv_step [OF signals(2)] complete_signals_inv [OF _ signals(1)] complete_signals_actives [OF signals(1)])
next
  case (pause sid c res5 c' r B)
  have "coord_inv c'" using pause_slot_inv [of c sid] pause by (auto simp: sys_inv_def)
  then show ?case
    by (rule sys_inv_step [OF pause(2) _ pause_slot_actives [OF pause(1)]])
next
  case (constrain sid k c r res6 c' r' B)
  have "coord_inv c'" using set_runtime_constraint_inv [of c port sid k r] constrain by (auto simp: sys_inv_def)
  then show ?case
    by (rule sys_inv_step [OF constrain(2) _ set_runtime_constraint_actives [OF constrain(1)]])
next
  case (remove sid c r res7 c' r' B)
  have "coord_inv c'" using remove_slot_inv [of c port sid r] remove by (auto simp: sys_inv_def)
  then show ?case
    by (rule sys_inv_step [OF remove(2) _ remove_slot_actives [OF remove(1)]])
next
  case (stop c r sums c' r' B)
  have "coord_inv c" using stop(2) by (simp add: sys_inv_def)
  then show ?case
    by (intro sys_inv_step [OF stop(2)] stop_inv [OF _ stop(1)]) (simp_all add: stop_actives [OF stop(1)])
next
  case (rehash m c l r B)
  have "coord_inv c" using rehash(5) by (simp add: sys_inv_def)
  then show ?case
    by (intro sys_inv_step [OF rehash(5)] coord_inv_rehash rehash) (simp_all add: actives_def)
next
  case (port_moves c r B r')
  then show ?case by (simp add: sys_inv_def)
qed

lemma reachable_sys_inv:
  "coord_reachable port team_id generation s \<Longrightarrow> sys_inv s"
proof (induction rule: coord_reachable.induct)
  case (start r)
  then show ?case
    using coord_inv_new by (simp add: sys_inv_def actives_def coordinator_new_def)
qed (rule coord_step_inv)

lemma reachable_coord_inv: "coord_reachable port team_id generation (c, r, B) \<Longrightarrow> coord_inv c"
  using reachable_sys_inv [of port team_id generation "(c, r, B)"] by (simp add: sys_inv_def)

lemma reachable_genuine:
  "coord_reachable port team_id generation (c, r, B) \<Longrightarrow> b \<in> B \<Longrightarrow> genuine c b"
  by (rule sys_inv_genuine [OF reachable_sys_inv])

end
