(* ===== verification/Team_Run.thy ===== *)
theory Team_Run
  imports Work_State
begin

text \<open>
  The team run manager (crates/team/src/team_run/manager.rs): the at most one run a team has
  at a time, its status, and the events published about it. It is the object behind the
  coordinator's \<open>RunCausalityPort\<close>; \<open>manager_port\<close> is that implementation. The run status
  and payload types are those of crates/api-types/src/team.rs. The event emitter is the list
  of the events broadcast so far. A clock reading and a generated id are arguments; the \<open>n\<close>-th
  slot of a payload reads the clock as \<open>clock n\<close>.
\<close>

subsection \<open>Run status and payloads\<close>

datatype team_run_status =
  RunAccepted | RunRunning | RunCancelling | RunCompleted | RunCancelled | RunFailed

datatype team_run_source = RunUserMessage

datatype blocked_reason = BlockedRuntimeStarting | BlockedRuntimeFailed | BlockedRemoving | BlockedSessionStopped

record slot_work_payload =
  sp_slot_id :: ident
  sp_role :: run_target_role
  sp_state :: slot_phase
  sp_queued_foreground_count :: nat
  sp_queued_background_count :: nat
  sp_active_turn_id :: "ident option"
  sp_active_turn_started_at_ms :: "timestamp option"
  sp_active_turn_elapsed_ms :: "nat option"
  sp_active_turn_slow :: "bool option"
  sp_active_turn_slow_threshold_ms :: "nat option"
  sp_blocked_reason :: "blocked_reason option"
  sp_team_run_id :: "ident option"

record team_run_payload =
  py_team_id :: ident
  py_team_run_id :: ident
  py_source :: team_run_source
  py_has_user_intervention :: bool
  py_target_slot_id :: ident
  py_target_role :: run_target_role
  py_status :: team_run_status
  py_queued_intent_count :: nat
  py_starting_batch_count :: nat
  py_running_batch_count :: nat
  py_active_enqueue_lease_count :: nat
  py_slot_work :: "slot_work_payload list"

datatype run_event = EvAccepted | EvStarted | EvUpdated | EvCompleted | EvCancelled | EvFailed

fun run_event_name :: "run_event \<Rightarrow> string" where
  "run_event_name EvAccepted = ''team.runAccepted''"
| "run_event_name EvStarted = ''team.runStarted''"
| "run_event_name EvUpdated = ''team.runUpdated''"
| "run_event_name EvCompleted = ''team.runCompleted''"
| "run_event_name EvCancelled = ''team.runCancelled''"
| "run_event_name EvFailed = ''team.runFailed''"

record team_run_record =
  tr_team_run_id :: ident
  tr_source :: team_run_source
  tr_has_user_intervention :: bool
  tr_target_slot_id :: ident
  tr_target_role :: run_target_role
  tr_status :: team_run_status
  tr_started_at_ms :: "timestamp option"
  tr_completed_at_ms :: "timestamp option"
  tr_cancel_reason :: "string option"
  tr_summary :: "run_work_summary option"
  tr_accepted_emitted :: bool

definition run_is_active :: "team_run_record \<Rightarrow> bool" where
  "run_is_active run \<longleftrightarrow>
     (case tr_status run of RunAccepted \<Rightarrow> True | RunRunning \<Rightarrow> True | RunCancelling \<Rightarrow> True | _ \<Rightarrow> False)"

record team_run_manager =
  tm_team_id :: ident
  tm_state :: "team_run_record option"
  tm_events :: "(run_event \<times> team_run_payload) list" \<comment> \<open>what the emitter has broadcast, oldest first\<close>

definition team_run_manager_new :: "ident \<Rightarrow> team_run_manager" where
  "team_run_manager_new team_id = \<lparr>tm_team_id = team_id, tm_state = None, tm_events = []\<rparr>"

definition broadcast_team_run :: "run_event \<Rightarrow> team_run_payload \<Rightarrow> team_run_manager \<Rightarrow> team_run_manager" where
  "broadcast_team_run ev payload m = m\<lparr>tm_events := tm_events m @ [(ev, payload)]\<rparr>"

definition ACTIVE_TURN_SLOW_THRESHOLD_MS :: nat where
  "ACTIVE_TURN_SLOW_THRESHOLD_MS = 10 * 60 * 1000"

text \<open>\<open>now_ms().saturating_sub(started_at).max(0) as u64\<close>: the cast is exact on what \<open>max\<close> leaves.\<close>

definition slot_payload :: "timestamp \<Rightarrow> slot_work_snapshot \<Rightarrow> slot_work_payload" where
  "slot_payload now slot =
     (let elapsed = map_option (\<lambda>started_at. nat (max (i64_saturating_sub now started_at) 0))
                      (sn_active_turn_started_at_ms slot)
      in \<lparr>sp_slot_id = sn_slot_id slot, sp_role = sn_role slot, sp_state = sn_state slot,
          sp_queued_foreground_count = sn_queued_foreground_count slot,
          sp_queued_background_count = sn_queued_background_count slot,
          sp_active_turn_id = sn_active_turn_id slot,
          sp_active_turn_started_at_ms = sn_active_turn_started_at_ms slot,
          sp_active_turn_elapsed_ms = elapsed,
          sp_active_turn_slow = map_option (\<lambda>e. e \<ge> ACTIVE_TURN_SLOW_THRESHOLD_MS) elapsed,
          sp_active_turn_slow_threshold_ms =
            map_option (\<lambda>_. ACTIVE_TURN_SLOW_THRESHOLD_MS) (sn_active_turn_id slot),
          sp_blocked_reason =
            (case sn_runtime_constraint slot of
               Ready \<Rightarrow> None
             | Starting _ \<Rightarrow> Some BlockedRuntimeStarting
             | Failed _ _ \<Rightarrow> Some BlockedRuntimeFailed
             | Removing _ \<Rightarrow> Some BlockedRemoving
             | SessionStopped \<Rightarrow> Some BlockedSessionStopped),
          sp_team_run_id = sn_team_run_id slot\<rparr>)"

definition payload_locked ::
  "(nat \<Rightarrow> timestamp) \<Rightarrow> team_run_manager \<Rightarrow> team_run_record \<Rightarrow> run_work_summary \<Rightarrow> team_run_payload" where
  "payload_locked clock m run summary =
     \<lparr>py_team_id = tm_team_id m, py_team_run_id = tr_team_run_id run, py_source = tr_source run,
      py_has_user_intervention = tr_has_user_intervention run,
      py_target_slot_id = tr_target_slot_id run, py_target_role = tr_target_role run,
      py_status = tr_status run, py_queued_intent_count = rs_queued_intent_count summary,
      py_starting_batch_count = rs_starting_batch_count summary,
      py_running_batch_count = rs_running_batch_count summary,
      py_active_enqueue_lease_count = rs_active_enqueue_lease_count summary,
      py_slot_work = map (\<lambda>(n, sl). slot_payload (clock n) sl) (enumerate 0 (rs_slots summary))\<rparr>"

subsection \<open>Binding, summaries, cancelling\<close>

definition bind_user_enqueue ::
  "ident \<Rightarrow> ident \<Rightarrow> run_target_role \<Rightarrow> team_run_manager \<Rightarrow> run_binding \<times> team_run_manager" where
  "bind_user_enqueue run_id target_slot_id target_role m =
     (let fresh =
            (\<lparr>rb_team_run_id = Some run_id, rb_created_new_run = True, rb_user_intervention = False\<rparr>,
             m\<lparr>tm_state := Some
                \<lparr>tr_team_run_id = run_id, tr_source = RunUserMessage, tr_has_user_intervention = False,
                 tr_target_slot_id = target_slot_id, tr_target_role = target_role,
                 tr_status = RunAccepted, tr_started_at_ms = None, tr_completed_at_ms = None,
                 tr_cancel_reason = None, tr_summary = None, tr_accepted_emitted = False\<rparr>\<rparr>)
      in case tm_state m of
           None \<Rightarrow> fresh
         | Some run \<Rightarrow>
             if run_is_active run
             then (\<lparr>rb_team_run_id = Some (tr_team_run_id run), rb_created_new_run = False,
                    rb_user_intervention = True\<rparr>,
                   m\<lparr>tm_state := Some (run\<lparr>tr_has_user_intervention := True\<rparr>)\<rparr>)
             else fresh)"

definition current_active_run_id :: "team_run_manager \<Rightarrow> ident option" where
  "current_active_run_id m =
     (case tm_state m of None \<Rightarrow> None
      | Some run \<Rightarrow> if run_is_active run then Some (tr_team_run_id run) else None)"

definition summary_event :: "team_run_status \<Rightarrow> team_run_status \<Rightarrow> run_event" where
  "summary_event previous new =
     (if new = RunFailed \<and> previous \<noteq> RunFailed then EvFailed
      else if new = RunCancelled \<and> previous \<noteq> RunCancelled then EvCancelled
      else if new = RunCompleted \<and> previous \<noteq> RunCompleted then EvCompleted
      else if new = RunRunning \<and> previous \<noteq> RunRunning then EvStarted
      else EvUpdated)"

text \<open>The status a summary gives the run, with the timestamps that go with it.\<close>

definition summary_status :: "timestamp \<Rightarrow> run_work_summary \<Rightarrow> team_run_record \<Rightarrow> team_run_record" where
  "summary_status now summary run =
     (if rs_failed_intent_count summary > 0
      then run\<lparr>tr_status := RunFailed, tr_completed_at_ms := Some now\<rparr>
      else if summary_idle summary
      then run\<lparr>tr_status := (if tr_status run = RunCancelling then RunCancelled else RunCompleted),
               tr_completed_at_ms := Some now\<rparr>
      else if rs_running_batch_count summary > 0
      then run\<lparr>tr_status := RunRunning,
               tr_started_at_ms := (case tr_started_at_ms run of None \<Rightarrow> Some now | Some t \<Rightarrow> Some t)\<rparr>
      else run)"

definition apply_work_summary ::
  "timestamp \<Rightarrow> (nat \<Rightarrow> timestamp) \<Rightarrow> run_work_summary \<Rightarrow> team_run_manager \<Rightarrow> team_run_manager" where
  "apply_work_summary now clock summary m =
     (case tm_state m of
        None \<Rightarrow> m
      | Some run \<Rightarrow>
        if tr_team_run_id run \<noteq> rs_team_run_id summary then m
        else
          let run1 = summary_status now summary (run\<lparr>tr_summary := Some summary\<rparr>);
              ev = (if \<not> tr_accepted_emitted run1 then EvAccepted
                    else summary_event (tr_status run) (tr_status run1));
              run2 = run1\<lparr>tr_accepted_emitted := True\<rparr>
          in broadcast_team_run ev (payload_locked clock m run2 summary) (m\<lparr>tm_state := Some run2\<rparr>))"

definition begin_cancel ::
  "(nat \<Rightarrow> timestamp) \<Rightarrow> ident \<Rightarrow> string option \<Rightarrow> team_run_manager
     \<Rightarrow> (team_error + unit) \<times> team_run_manager" where
  "begin_cancel clock team_run_id reason m =
     (let inactive = (Inl (InvalidRequest (''team run is not active: '' @ team_run_id)), m)
      in case tm_state m of
           None \<Rightarrow> inactive
         | Some run \<Rightarrow>
           if \<not> (tr_team_run_id run = team_run_id \<and> run_is_active run) then inactive
           else
             let run1 = run\<lparr>tr_status := RunCancelling, tr_cancel_reason := reason\<rparr>;
                 m1 = m\<lparr>tm_state := Some run1\<rparr>
             in (Inr (), case tr_summary run1 of
                   None \<Rightarrow> m1
                 | Some summary \<Rightarrow> broadcast_team_run EvUpdated (payload_locked clock m run1 summary) m1))"

definition empty_summary :: "ident \<Rightarrow> run_work_summary" where
  "empty_summary run_id =
     \<lparr>rs_team_run_id = run_id, rs_queued_intent_count = 0, rs_starting_batch_count = 0,
      rs_running_batch_count = 0, rs_active_enqueue_lease_count = 0, rs_paused_intent_count = 0,
      rs_failed_intent_count = 0, rs_slots = []\<rparr>"

definition current_payload ::
  "(nat \<Rightarrow> timestamp) \<Rightarrow> coordinator_snapshot \<Rightarrow> team_run_manager \<Rightarrow> team_run_payload option" where
  "current_payload clock sn m =
     (case tm_state m of
        None \<Rightarrow> None
      | Some run \<Rightarrow>
        let summary =
              (case tr_summary run of
                 Some s \<Rightarrow> s
               | None \<Rightarrow>
                 (case cs_active_run_summary sn of
                    Some s \<Rightarrow> if rs_team_run_id s = tr_team_run_id run then s
                              else empty_summary (tr_team_run_id run)
                  | None \<Rightarrow> empty_summary (tr_team_run_id run)))
        in Some (payload_locked clock m run summary))"

definition publish_snapshot_update ::
  "(nat \<Rightarrow> timestamp) \<Rightarrow> coordinator_snapshot \<Rightarrow> team_run_manager \<Rightarrow> team_run_manager" where
  "publish_snapshot_update clock sn m =
     (case current_payload clock sn m of
        None \<Rightarrow> m
      | Some payload \<Rightarrow>
        (case py_status payload of
           RunAccepted \<Rightarrow> broadcast_team_run EvUpdated payload m
         | RunRunning \<Rightarrow> broadcast_team_run EvUpdated payload m
         | _ \<Rightarrow> m))"

subsection \<open>The causality port\<close>

definition manager_bind_enqueue ::
  "ident \<Rightarrow> enqueue_request \<Rightarrow> team_run_manager \<Rightarrow> run_binding \<times> team_run_manager" where
  "manager_bind_enqueue run_id request m =
     (case rq_binding request of
        UserVisible \<Rightarrow> bind_user_enqueue run_id (rq_slot_id request) (rq_role request) m
      | ActiveRunOrBackground \<Rightarrow>
          (\<lparr>rb_team_run_id = current_active_run_id m, rb_created_new_run = False,
            rb_user_intervention = False\<rparr>, m)
      | InheritRunningBatch _ \<Rightarrow>
          (\<lparr>rb_team_run_id = None, rb_created_new_run = False, rb_user_intervention = False\<rparr>, m)
      | BackgroundBinding \<Rightarrow>
          (\<lparr>rb_team_run_id = None, rb_created_new_run = False, rb_user_intervention = False\<rparr>, m))"

definition manager_abort_binding :: "run_binding \<Rightarrow> team_run_manager \<Rightarrow> team_run_manager" where
  "manager_abort_binding binding m =
     (case tm_state m of
        None \<Rightarrow> m
      | Some run \<Rightarrow>
          if Some (tr_team_run_id run) = rb_team_run_id binding then m\<lparr>tm_state := None\<rparr> else m)"

text \<open>
  The manager as a port. Its state carries the number of calls made, so that each call can
  draw its own generated id \<open>gid n\<close> and its own clock readings \<open>now n\<close> and \<open>clock n\<close>.
\<close>

definition manager_port ::
  "(nat \<Rightarrow> ident) \<Rightarrow> (nat \<Rightarrow> timestamp) \<Rightarrow> (nat \<Rightarrow> nat \<Rightarrow> timestamp)
     \<Rightarrow> (nat \<times> team_run_manager) run_port" where
  "manager_port gid now clock =
     \<lparr>bind_enqueue = (\<lambda>request (n, m).
        case manager_bind_enqueue (gid n) request m of (binding, m') \<Rightarrow> (binding, (Suc n, m'))),
      abort_binding = (\<lambda>binding (n, m). (Suc n, manager_abort_binding binding m)),
      apply_summary = (\<lambda>summary (n, m). (Suc n, apply_work_summary (now n) (clock n) summary m))\<rparr>"

end
