(* ===== verification/Run_Causality.thy ===== *)
theory Run_Causality
  imports Work_Reachable Team_Run
begin

text \<open>
  The contract between the coordinator and the object behind its \<open>RunCausalityPort\<close>, as a
  locale: what \<open>TeamRunManager\<close> promises about the active run, and what the coordinator's
  operations achieve with any port that keeps the promise. The manager is its instance.
\<close>

subsection \<open>The contract\<close>

locale run_causality =
  fixes port :: "'r run_port" and active :: "'r \<Rightarrow> ident option"
  assumes bind_user_visible:
      "rq_binding rq = UserVisible \<Longrightarrow> bind_enqueue port rq r = (b, r') \<Longrightarrow>
         is_some (active r') \<and> rb_team_run_id b = active r' \<and> (is_some (active r) \<longrightarrow> active r' = active r)"
    and bind_active:
      "rq_binding rq = ActiveRunOrBackground \<Longrightarrow> bind_enqueue port rq r = (b, r') \<Longrightarrow>
         active r' = active r \<and> rb_team_run_id b = active r"
    and abort: "active (abort_binding port b r) = (if active r = rb_team_run_id b then None else active r)"
    and summary_ends: "summary_idle s \<Longrightarrow> active (apply_summary port s r) \<noteq> Some (rs_team_run_id s)"
    and summary_other: "active r = Some x \<Longrightarrow> x \<noteq> rs_team_run_id s \<Longrightarrow> active (apply_summary port s r) = Some x"
    and summary_same: "active (apply_summary port s r) \<in> {None, active r, Some (rs_team_run_id s)}"
begin

text \<open>Publishing summaries never activates a run it does not mention, and ends the idle ones.\<close>

lemma publish_not_active:
  assumes "active r \<noteq> Some x" and "\<And>s. s \<in> set ss \<Longrightarrow> rs_team_run_id s = x \<Longrightarrow> summary_idle s"
  shows "active (publish_run_summaries port ss r) \<noteq> Some x"
  using assms unfolding publish_run_summaries_def
proof (induction ss arbitrary: r)
  case (Cons s ss)
  have "active (apply_summary port s r) \<noteq> Some x"
    using summary_ends [of s r] summary_same [of s r] Cons.prems by (cases "rs_team_run_id s = x") auto
  with Cons show ?case by simp
qed simp

lemma publish_ends:
  assumes "s \<in> set ss" and "\<And>s'. s' \<in> set ss \<Longrightarrow> rs_team_run_id s' = rs_team_run_id s \<Longrightarrow> summary_idle s'"
  shows "active (publish_run_summaries port ss r) \<noteq> Some (rs_team_run_id s)"
proof -
  obtain xs ys where ss: "ss = xs @ s # ys"
    using assms(1) by (auto simp: in_set_conv_decomp)
  have "active (publish_run_summaries port ys (apply_summary port s (publish_run_summaries port xs r)))
      \<noteq> Some (rs_team_run_id s)"
    by (rule publish_not_active) (use summary_ends assms ss in auto)
  then show ?thesis
    by (simp add: ss publish_run_summaries_def)
qed

text \<open>A run whose work has come to an end is not the active one once its summary is published.\<close>

lemma publish_finished_run:
  assumes "run \<in> set runs" and "\<And>w. w \<in> set (intents_of_run c run) \<Longrightarrow> is_terminal (wi_state w)"
    and "leases_of_run c run = []"
  shows "active (publish_run_summaries port (map (run_summary_locked c) runs) r) \<noteq> Some run"
proof -
  have id: "rs_team_run_id (run_summary_locked c x) = x" for x
    by (simp add: run_summary_locked_def Let_def)
  have "active (publish_run_summaries port (map (run_summary_locked c) runs) r)
      \<noteq> Some (rs_team_run_id (run_summary_locked c run))"
    by (rule publish_ends) (use assms run_summary_idle_iff id in \<open>fastforce+\<close>)
  then show ?thesis by (simp add: id)
qed

lemma cancel_run_ends_run:
  assumes inv: "coord_inv c" and res: "cancel_run port run c r = Some (out, c', r')"
  shows "active r' \<noteq> Some run"
proof -
  obtain out2 c2 r2 where eff: "cancel_run port run c r = Some (out2, c2, r2)" "leases_of_run c2 run = []"
    "r2 = apply_summary port (run_summary_locked c2 run) r"
    "\<And>i. map_of (co_intents c2) i = map_option (\<lambda>w. w\<lparr>wi_state := cancelled_by_run c run w\<rparr>) (map_of (co_intents c) i)"
    "coord_inv c2"
    using cancel_run_effect [OF inv, of port run r] by blast
  have "is_terminal (wi_state w)" if w: "w \<in> set (intents_of_run c2 run)" for w
  proof -
    obtain i where "map_of (co_intents c2) i = Some w" "wi_team_run_id w = Some run"
      using w coord_inv_hm_wf [OF eff(5)] by (force simp: intents_of_run_def map_of_eq_Some_iff)
    then show ?thesis
      unfolding eff(4) by (auto simp: cancelled_by_run_def)
  qed
  then have "active (publish_run_summaries port (map (run_summary_locked c2) [run]) r) \<noteq> Some run"
    by (intro publish_finished_run) (use eff(2) in auto)
  then show ?thesis
    using res eff(1,3) by (auto simp: publish_run_summaries_def)
qed

lemma stop_ends_runs:
  assumes "stop port c r = (sums, c', r')" and "run \<in> set (all_run_ids c)"
  shows "active r' \<noteq> Some run"
proof -
  have c': "co_intents c' = map (\<lambda>(i, w). (i, if is_terminal (wi_state w) then w
      else w\<lparr>wi_state := ICancelled ''session_stopped''\<rparr>)) (co_intents c)" "co_enqueue_leases c' = []"
    and r': "r' = publish_run_summaries port (map (run_summary_locked c') (all_run_ids c)) r"
    using assms(1) by (auto simp: stop_def Let_def)
  show ?thesis
    unfolding r'
    by (rule publish_finished_run [OF assms(2)])
      (auto simp: intents_of_run_def leases_of_run_def c')
qed

lemma terminalize_ends_run:
  assumes "terminalize_batch port b st c r = (Committed, c', r')" and "run \<in> set (wb_team_run_ids b)"
    and "\<And>w. w \<in> set (intents_of_run c' run) \<Longrightarrow> is_terminal (wi_state w)" and "leases_of_run c' run = []"
  shows "active r' \<noteq> Some run"
proof -
  have "r' = publish_run_summaries port (map (run_summary_locked c') (bt_set (wb_team_run_ids b))) r"
    using assms(1) by (auto simp: terminalize_batch_def Let_def run_summaries_locked_def split: if_splits)
  then show ?thesis
    using publish_finished_run [of run "bt_set (wb_team_run_ids b)" c' r] assms(2-4) by simp
qed

lemma acquire_user_visible:
  assumes "acquire_enqueue port lid rq c r = (Inr lease, c', r')" and "rq_binding rq = UserVisible"
  shows "is_some (active r') \<and> le_team_run_id lease = active r' \<and> (is_some (active r) \<longrightarrow> active r' = active r)"
proof -
  obtain b r1 where b: "bind_enqueue port rq r = (b, r1)" by fastforce
  with assms have "le_team_run_id lease = rb_team_run_id b" "r' = r1"
    by (auto simp: acquire_enqueue_def Let_def split: option.splits)
  with bind_user_visible [OF assms(2) b] show ?thesis by simp
qed

lemma abort_last_ends_run:
  assumes res: "abort_enqueue port lease c r = (Committed, c', r')" and run: "le_team_run_id lease = Some run"
    and last: "intents_of_run c run = []" "\<And>l. l \<in> set (leases_of_run c run) \<Longrightarrow> lr_lease l = lease"
    and inv: "coord_inv c"
  shows "active r' \<noteq> Some run"
proof -
  obtain rec where rec: "map_of (co_enqueue_leases c) (le_lease_id lease) = Some rec"
    and own: "lr_lease rec = lease" "le_session_generation lease = co_session_generation c"
    using res by (auto simp: abort_enqueue_def Let_def split: option.splits if_splits)
  let ?c1 = "c\<lparr>co_enqueue_leases := hm_remove (le_lease_id lease) (co_enqueue_leases c)\<rparr>"
  have r': "\<exists>r1. r' = publish_run_summaries port (map (run_summary_locked ?c1) [run]) r1"
    using res rec own run
    by (auto simp: abort_enqueue_def Let_def run_summaries_locked_def opt_list_def bt_set_def)
  have "leases_of_run ?c1 run = []"
  proof -
    have "le_team_run_id (lr_lease l) \<noteq> Some run" if "(k, l) \<in> set (hm_remove (le_lease_id lease) (co_enqueue_leases c))" for k l
    proof
      assume "le_team_run_id (lr_lease l) = Some run"
      moreover have kl: "(k, l) \<in> set (co_enqueue_leases c)" "k \<noteq> le_lease_id lease"
        using that by (auto simp: AList.delete_eq)
      ultimately have "lr_lease l = lease"
        by (intro last(2)) (force simp: leases_of_run_def)
      moreover have "le_lease_id (lr_lease l) = k"
        using coord_invD(2) [OF inv] kl(1) by (auto simp: leases_wf_def map_of_eq_Some_iff)
      ultimately show False using kl(2) by simp
    qed
    then show ?thesis by (fastforce simp: leases_of_run_def filter_empty_conv)
  qed
  moreover have "intents_of_run ?c1 run = []"
    using last(1) by (simp add: intents_of_run_def)
  ultimately show ?thesis
    using r' publish_finished_run [of run "[run]" ?c1] by auto
qed

end

subsection \<open>The team run manager keeps it\<close>

lemma summary_status_id [simp]: "tr_team_run_id (summary_status now s run) = tr_team_run_id run"
  by (simp add: summary_status_def)

lemma summary_status_idle: "summary_idle s \<Longrightarrow> \<not> run_is_active (summary_status now s run)"
  by (auto simp: summary_status_def run_is_active_def)

lemma apply_work_summary_state:
  "tm_state (apply_work_summary now clock s m) =
     (case tm_state m of None \<Rightarrow> None
      | Some run \<Rightarrow> if tr_team_run_id run \<noteq> rs_team_run_id s then Some run
          else Some ((summary_status now s (run\<lparr>tr_summary := Some s\<rparr>))\<lparr>tr_accepted_emitted := True\<rparr>))"
  by (simp add: apply_work_summary_def Let_def broadcast_team_run_def split: option.split)

lemma run_is_active_accepted [simp]: "run_is_active (run\<lparr>tr_accepted_emitted := x\<rparr>) = run_is_active run"
  "run_is_active (run\<lparr>tr_has_user_intervention := x\<rparr>) = run_is_active run"
  by (simp_all add: run_is_active_def)

interpretation manager: run_causality "manager_port gid now clock" "current_active_run_id \<circ> snd"
  for gid now clock
proof
  fix rq b and r r' :: "nat \<times> team_run_manager"
  assume "rq_binding rq = UserVisible" "bind_enqueue (manager_port gid now clock) rq r = (b, r')"
  then show "is_some ((current_active_run_id \<circ> snd) r') \<and> rb_team_run_id b = (current_active_run_id \<circ> snd) r' \<and>
      (is_some ((current_active_run_id \<circ> snd) r) \<longrightarrow> (current_active_run_id \<circ> snd) r' = (current_active_run_id \<circ> snd) r)"
    by (cases r; cases r')
      (auto simp: manager_port_def manager_bind_enqueue_def bind_user_enqueue_def Let_def current_active_run_id_def
        run_is_active_def split: option.splits if_splits prod.splits)
next
  fix rq b and r r' :: "nat \<times> team_run_manager"
  assume "rq_binding rq = ActiveRunOrBackground" "bind_enqueue (manager_port gid now clock) rq r = (b, r')"
  then show "(current_active_run_id \<circ> snd) r' = (current_active_run_id \<circ> snd) r \<and>
      rb_team_run_id b = (current_active_run_id \<circ> snd) r"
    by (cases r) (auto simp: manager_port_def manager_bind_enqueue_def)
next
  fix b and r :: "nat \<times> team_run_manager"
  show "(current_active_run_id \<circ> snd) (abort_binding (manager_port gid now clock) b r) =
      (if (current_active_run_id \<circ> snd) r = rb_team_run_id b then None else (current_active_run_id \<circ> snd) r)"
    by (cases r) (auto simp: manager_port_def manager_abort_binding_def current_active_run_id_def split: option.splits)
next
  fix s :: run_work_summary and r :: "nat \<times> team_run_manager"
  assume "summary_idle s"
  then show "(current_active_run_id \<circ> snd) (apply_summary (manager_port gid now clock) s r) \<noteq> Some (rs_team_run_id s)"
    by (cases r) (auto simp: manager_port_def current_active_run_id_def apply_work_summary_state summary_status_idle
        split: option.splits)
next
  fix s :: run_work_summary and x and r :: "nat \<times> team_run_manager"
  assume "(current_active_run_id \<circ> snd) r = Some x" "x \<noteq> rs_team_run_id s"
  then show "(current_active_run_id \<circ> snd) (apply_summary (manager_port gid now clock) s r) = Some x"
    by (cases r) (auto simp: manager_port_def current_active_run_id_def apply_work_summary_state
        split: option.splits if_splits)
next
  fix s :: run_work_summary and r :: "nat \<times> team_run_manager"
  show "(current_active_run_id \<circ> snd) (apply_summary (manager_port gid now clock) s r)
      \<in> {None, (current_active_run_id \<circ> snd) r, Some (rs_team_run_id s)}"
    by (cases r) (auto simp: manager_port_def current_active_run_id_def apply_work_summary_state
        split: option.splits if_splits)
qed

end
