(* ===== verification/Owned_Commit.thy ===== *)
theory Owned_Commit
  imports Main
begin

text \<open>
  Two components hand out tokens that entitle the holder to conclude something exactly once:
  the coordinator a batch, the member runtime registry an attach or a remove lease. The
  locale states what their concluding operations \<open>commit k\<close> have in common: called by a
  holder that is not the owner (any more) they report failure and change nothing, called by
  the owner they succeed and end the ownership. What follows is proved once, here.
\<close>

locale owned_commit =
  fixes owns :: "'o \<Rightarrow> 's \<Rightarrow> bool" and commit :: "'k \<Rightarrow> 'o \<Rightarrow> 's \<Rightarrow> 'res \<times> 's" and ok :: "'res \<Rightarrow> bool"
  assumes stale: "\<not> owns w s \<Longrightarrow> commit k w s = (x, s') \<Longrightarrow> \<not> ok x \<and> s' = s"
    and ends: "owns w s \<Longrightarrow> commit k w s = (x, s') \<Longrightarrow> ok x \<and> \<not> owns w s'"
begin

primrec commits :: "'k list \<Rightarrow> 'o \<Rightarrow> 's \<Rightarrow> 'res list \<times> 's" where
  "commits [] w s = ([], s)"
| "commits (k # ks) w s =
     (case commit k w s of (x, s1) \<Rightarrow> case commits ks w s1 of (xs, s2) \<Rightarrow> (x # xs, s2))"

lemma commit_again: "commit k w s = (x, s1) \<Longrightarrow> commit k' w s1 = (y, s2) \<Longrightarrow> \<not> ok y \<and> s2 = s1"
  using stale ends by (metis (no_types))

lemma stale_commits: "\<not> owns w s \<Longrightarrow> commits ks w s = (xs, s') \<Longrightarrow> filter ok xs = [] \<and> s' = s"
proof (induction ks arbitrary: xs)
  case (Cons k ks)
  obtain x s1 where "commit k w s = (x, s1)" by fastforce
  with Cons stale show ?case by (fastforce split: prod.splits)
qed simp

lemma at_most_one_commit: "commits ks w s = (xs, s') \<Longrightarrow> length (filter ok xs) \<le> 1"
proof (cases "owns w s")
  case True
  assume res: "commits ks w s = (xs, s')"
  show ?thesis
  proof (cases ks)
    case (Cons k ks')
    obtain x s1 where x: "commit k w s = (x, s1)" by fastforce
    obtain ys s2 where ys: "commits ks' w s1 = (ys, s2)" by fastforce
    have "filter ok ys = []"
      using stale_commits [OF _ ys] ends [OF True x] by simp
    with res Cons x ys show ?thesis by auto
  qed (use res in simp)
next
  case False
  assume "commits ks w s = (xs, s')"
  with stale_commits [OF False] show ?thesis by simp
qed

lemma first_commit_counts:
  "owns w s \<Longrightarrow> commits (k # ks) w s = (xs, s') \<Longrightarrow> length (filter ok xs) = 1 \<and> ok (hd xs)"
  using ends [of w s k] at_most_one_commit [of "k # ks" w s xs s']
  by (auto simp: le_Suc_eq split: prod.splits)

end

end
