(* ===== verification/Work_Commit.thy ===== *)
theory Work_Commit
  imports Run_Causality Owned_Commit
begin

text \<open>
  Who may commit what. A caller of the coordinator holds a copy of the batch it claimed and
  gives it up in one of four ways (\<open>complete\<close>, \<open>fail\<close>, \<open>cancel\<close>, \<open>retry_start\<close>). The
  coordinator is an instance of the locale \<open>owned_commit\<close>, the contract of such calls.
  Over the step relation a batch given up stays so in every later state.
\<close>

subsection \<open>The four ways to give a batch up\<close>

datatype give_up = GiveComplete | GiveFail string | GiveCancel string | GiveRetry

definition give_up_batch ::
  "'r run_port \<Rightarrow> give_up \<Rightarrow> work_batch \<Rightarrow> coordinator \<times> 'r \<Rightarrow> commit_result \<times> coordinator \<times> 'r" where
  "give_up_batch port k b s =
     (case s of (c, r) \<Rightarrow>
        (case k of
           GiveComplete \<Rightarrow> complete_batch port b c r
         | GiveFail cl \<Rightarrow> fail_batch port b cl c r
         | GiveCancel cl \<Rightarrow> cancel_batch port b cl c r
         | GiveRetry \<Rightarrow> retry_start port b c r))"

lemma not_current_after_release:
  assumes "co_slots c' = co_slots (modify_slot (wb_slot_id b) f c)" and "\<And>sl. ss_active (f sl) = None"
  shows "\<not> is_current_batch c' b"
proof -
  have "map_of (co_slots c') (wb_slot_id b) = map_option f (map_of (co_slots c) (wb_slot_id b))"
    unfolding assms(1) by simp
  with assms(2) show ?thesis
    by (auto simp: is_current_batch_def split: option.splits)
qed

lemma give_up_stale:
  "\<not> is_current_batch c b \<Longrightarrow> give_up_batch port k b (c, r) = (StaleOwner, (c, r))"
  by (cases k) (simp_all add: give_up_batch_def complete_batch_def fail_batch_def cancel_batch_def
      terminalize_batch_def retry_start_def)

lemma terminalize_ends:
  assumes "is_current_batch c b" and "terminalize_batch port b st c r = (x, c', r')"
  shows "x = Committed \<and> \<not> is_current_batch c' b"
proof -
  have "co_slots c' = co_slots (modify_slot (wb_slot_id b) (\<lambda>sl. sl\<lparr>ss_active := None\<rparr>) c)" "x = Committed"
    using assms by (auto simp: terminalize_batch_def Let_def modify_slot_def)
  then show ?thesis
    using not_current_after_release by simp
qed

lemma retry_start_ends:
  assumes "is_current_batch c b" and "retry_start port b c r = (x, c', r')"
  shows "x = Committed \<and> \<not> is_current_batch c' b"
proof -
  let ?f = "\<lambda>sl. fold (push_front (wb_highest_priority b)) (rev (wb_intent_ids b)) (sl\<lparr>ss_active := None\<rparr>)"
  have "co_slots c' = co_slots (modify_slot (wb_slot_id b) ?f c)" "x = Committed"
    using assms by (auto simp: retry_start_def Let_def modify_slot_def)
  then show ?thesis
    using not_current_after_release [of c' b ?f c] by simp
qed

interpretation batches: owned_commit "\<lambda>b s. is_current_batch (fst s) b" "give_up_batch port" "\<lambda>x. x = Committed"
  for port :: "'r run_port"
proof
  fix b k x and s s' :: "coordinator \<times> 'r"
  assume stale: "\<not> is_current_batch (fst s) b" and res: "give_up_batch port k b s = (x, s')"
  obtain c r where s: "s = (c, r)" by fastforce
  from stale res show "x \<noteq> Committed \<and> s' = s"
    unfolding s using give_up_stale [of c b port k r] by auto
next
  fix b k x and s s' :: "coordinator \<times> 'r"
  assume cur: "is_current_batch (fst s) b" and res: "give_up_batch port k b s = (x, s')"
  obtain c r where s: "s = (c, r)" by fastforce
  obtain c' r' where s': "s' = (c', r')" by fastforce
  from cur res show "x = Committed \<and> \<not> is_current_batch (fst s') b"
    unfolding s s'
    by (cases k) (auto simp: give_up_batch_def complete_batch_def fail_batch_def cancel_batch_def
        dest: terminalize_ends retry_start_ends)
qed

subsection \<open>A batch given up stays given up\<close>

lemma actives_current:
  assumes inv: "coord_inv c" and b: "b \<in> actives c"
  shows "is_current_batch c b"
proof -
  obtain sid slot a where slot: "map_of (co_slots c) sid = Some slot" "ss_active slot = Some a" "ab_batch a = b"
    using b by (auto simp: actives_def)
  then have "wb_slot_id b = sid" "wb_session_generation b = co_session_generation c"
    using coord_invD(4) [OF inv, of sid] by (auto simp: slot_ok_def active_exact_def)
  with slot show ?thesis by (simp add: is_current_batch_def)
qed

lemma current_active:
  assumes "sys_inv (c, r, B)" and "b \<in> B" and "is_current_batch c b"
  shows "b \<in> actives c"
  using genuineE [OF sys_inv_genuine [OF assms(1,2)] assms(3)] by (metis activesI)

text \<open>A step makes a batch active only by handing it out under a fresh id.\<close>

lemma step_actives:
  assumes step: "coord_step port (c, r, B) (c', r', B')" and b: "b \<in> actives c'" "b \<in> B"
  shows "b \<in> actives c \<and> b \<in> B'"
  using step
proof (cases rule: coord_step.cases)
  case (claim batch_id sid d)
  have "actives c' \<subseteq> actives c \<union> add_claim d {}" "\<And>b'. d = Claim b' \<Longrightarrow> wb_batch_id b' = batch_id"
    using next_work_actives [OF claim(3)] by blast+
  moreover have "b \<notin> add_claim d {}"
    using calculation(2) claim(2) [OF b(2)] by (cases d) (auto simp: add_claim_def)
  ultimately show ?thesis
    using b claim(1) by (cases d) (auto simp: add_claim_def)
next
  case (rehash m l)
  then show ?thesis using b by (auto simp: actives_def)
next
  case (stop sums)
  then show ?thesis using b stop_actives by fastforce
next
  case (complete b' res)
  then show ?thesis using b terminalize_batch_actives [OF complete(3) [unfolded complete_batch_def]] by blast
next
  case (fail b' cl res)
  then show ?thesis using b terminalize_batch_actives [OF fail(3) [unfolded fail_batch_def]] by blast
next
  case (cancel b' cl res)
  then show ?thesis using b terminalize_batch_actives [OF cancel(3) [unfolded cancel_batch_def]] by blast
next
  case acquire
  then show ?thesis using b acquire_enqueue_actives [OF acquire(2)] by blast
next
  case commit
  then show ?thesis using b commit_enqueue_actives [OF commit(3)] by blast
next
  case abort
  then show ?thesis using b abort_enqueue_actives [OF abort(2)] by blast
next
  case (reconcile ids clock sid unread role proj)
  then show ?thesis using b reconcile_actives [OF reconcile(5)] by blast
next
  case started
  then show ?thesis using b mark_started_actives [OF started(3)] by blast
next
  case retry
  then show ?thesis using b retry_start_actives [OF retry(3)] by blast
next
  case cancel_run
  then show ?thesis using b cancel_run_actives [OF cancel_run(2)] by blast
next
  case signals
  then show ?thesis using b complete_signals_actives [OF signals(2)] by blast
next
  case pause
  then show ?thesis using b pause_slot_actives [OF pause(3)] by blast
next
  case constrain
  then show ?thesis using b set_runtime_constraint_actives [OF constrain(2)] by blast
next
  case remove
  then show ?thesis using b remove_slot_actives [OF remove(2)] by blast
qed (use b in blast)+

lemma step_keeps_stale:
  assumes step: "coord_step port (c, r, B) (c', r', B')" and inv: "sys_inv (c, r, B)"
    and b: "b \<in> B" "\<not> is_current_batch c b"
  shows "b \<in> B' \<and> \<not> is_current_batch c' b"
proof
  have inv': "sys_inv (c', r', B')"
    by (rule coord_step_inv [OF step inv])
  have sub: "B \<subseteq> B'"
    using step by (cases rule: coord_step.cases) (auto simp: add_claim_def split: reconcile_decision.split)
  then show "b \<in> B'" using b(1) by blast
  show "\<not> is_current_batch c' b"
  proof
    assume "is_current_batch c' b"
    then have "b \<in> actives c'"
      using current_active [OF inv'] \<open>b \<in> B'\<close> by blast
    then have "b \<in> actives c"
      using step_actives [OF step _ b(1)] by blast
    then show False
      using actives_current [of c b] inv b(2) by (simp add: sys_inv_def)
  qed
qed

lemma steps_keep_stale:
  assumes "(coord_step port)\<^sup>*\<^sup>* s s'" and "sys_inv s" and "b \<in> snd (snd s)" "\<not> is_current_batch (fst s) b"
  shows "sys_inv s' \<and> b \<in> snd (snd s') \<and> \<not> is_current_batch (fst s') b"
  using assms(1)
proof (induction rule: rtranclp_induct)
  case base
  then show ?case using assms by simp
next
  case (step s1 s2)
  obtain c r B where s1: "s1 = (c, r, B)" by (cases s1)
  obtain c' r' B' where s2: "s2 = (c', r', B')" by (cases s2)
  from step show ?case
    unfolding s1 s2 using step_keeps_stale [of port c r B c' r' B' b] coord_step_inv [of port s1 s2] s1 s2 by simp
qed

end
