(* ===== verification/Work_Claims.thy ===== *)
theory Work_Claims
  imports Work_Commit
begin

text \<open>
  The properties of the slot work coordinator: what its reachable states look like, what a
  claim takes and when there is none, who may commit a batch, and what each control
  operation leaves behind.
\<close>

subsection \<open>A worked example\<close>

text \<open>
  A small concrete session, used to show that the hypotheses of the properties can hold: a
  team with one ready slot, a user-visible message enqueued for it under a lease, and the
  batch claimed and started. The four coordinators are written out, and shown to be what
  the operations compute. The port binds every request to one run.
\<close>

definition demo_port :: "unit run_port" where
  "demo_port =
     \<lparr>bind_enqueue = (\<lambda>_ u. (\<lparr>rb_team_run_id = Some ''run'', rb_created_new_run = True,
        rb_user_intervention = False\<rparr>, u)),
      abort_binding = (\<lambda>_ u. u), apply_summary = (\<lambda>_ u. u)\<rparr>"

definition demo_request :: enqueue_request where
  "demo_request = \<lparr>rq_slot_id = ''s1'', rq_role = RoleLead, rq_source = UserMessage, rq_binding = UserVisible\<rparr>"

definition demo_lease :: enqueue_lease where
  "demo_lease = \<lparr>le_lease_id = ''l1'', le_session_generation = ''gen'', le_slot_id = ''s1'', le_role = RoleLead,
     le_source = UserMessage, le_team_run_id = Some ''run''\<rparr>"

definition demo_batch :: work_batch where
  "demo_batch = \<lparr>wb_batch_id = ''b1'', wb_session_generation = ''gen'', wb_slot_id = ''s1'',
     wb_intent_ids = [''i1''], wb_mailbox_message_ids = [''m1''], wb_highest_priority = Foreground,
     wb_team_run_ids = [''run''], wb_operation_id = 1\<rparr>"

definition demo_slot :: "ident list \<Rightarrow> active_batch option \<Rightarrow> ident set \<Rightarrow> slot_state" where
  "demo_slot fg a unread = \<lparr>ss_role = RoleLead, ss_foreground = fg, ss_control = [], ss_background = [],
     ss_active = a, ss_paused = False, ss_runtime_constraint = Ready, ss_known_unread = unread, ss_removed = False\<rparr>"

definition demo_intent :: "intent_state \<Rightarrow> work_intent" where
  "demo_intent st = \<lparr>wi_intent_id = ''i1'', wi_session_generation = ''gen'', wi_slot_id = ''s1'', wi_role = RoleLead,
     wi_source = UserMessage, wi_priority = Foreground, wi_mailbox_message_id = Some ''m1'',
     wi_team_run_id = Some ''run'', wi_created_at_ms = 5, wi_state = st\<rparr>"

definition demo_ready :: coordinator where
  "demo_ready = \<lparr>co_team_id = ''team'', co_session_generation = ''gen'',
     co_slots = [(''s1'', (demo_slot [] None {})\<lparr>ss_role := RoleTeammate\<rparr>)], co_intents = [],
     co_enqueue_leases = [], co_next_operation_id = 0\<rparr>"

definition demo_acquired :: coordinator where
  "demo_acquired = demo_ready\<lparr>co_slots := [(''s1'', demo_slot [] None {})],
     co_enqueue_leases := [(''l1'', \<lparr>lr_lease = demo_lease,
       lr_binding = \<lparr>rb_team_run_id = Some ''run'', rb_created_new_run = True, rb_user_intervention = False\<rparr>\<rparr>)]\<rparr>"

definition demo_queued :: coordinator where
  "demo_queued = demo_ready\<lparr>co_slots := [(''s1'', demo_slot [''i1''] None {''m1''})],
     co_intents := [(''i1'', demo_intent IQueued)]\<rparr>"

definition demo_claimed :: coordinator where
  "demo_claimed = demo_ready\<lparr>
     co_slots := [(''s1'', demo_slot [] (Some \<lparr>ab_batch = demo_batch, ab_turn_id = None, ab_started_at_ms = None\<rparr>) {''m1''})],
     co_intents := [(''i1'', demo_intent (IStarting ''b1'' 1))], co_next_operation_id := 1\<rparr>"

lemma demo_ready_is:
  "\<exists>u. set_runtime_constraint demo_port ''s1'' Ready (coordinator_new ''team'' ''gen'') () = Some (u, demo_ready, ())"
  by (simp add: set_runtime_constraint_def Let_def ends_work_def slot_snapshot_locked_def put_slot_def slot_entry_def
      slot_state_new_def coordinator_new_def demo_ready_def demo_slot_def
      publish_run_summaries_def bt_set_def)

lemma demo_acquired_is: "acquire_enqueue demo_port ''l1'' demo_request demo_ready () = (Inr demo_lease, demo_acquired, ())"
  by (simp add: acquire_enqueue_def Let_def demo_request_def demo_port_def demo_lease_def demo_ready_def demo_acquired_def
      slot_entry_def put_slot_def validate_enqueue_constraint_def demo_slot_def)

lemma demo_queued_is:
  "\<exists>u. commit_enqueue demo_port ''i1'' 5 demo_lease (Some ''m1'') demo_acquired () = (Inr (Some u), demo_queued, ())"
  by (simp add: commit_enqueue_def Let_def demo_port_def demo_lease_def demo_ready_def demo_acquired_def demo_queued_def
      demo_intent_def put_slot_def validate_enqueue_constraint_def demo_slot_def requires_mailbox_message_def
      resumes_paused_slot_def push_back_def slot_snapshot_locked_def)

lemma demo_claimed_is: "next_work demo_port ''b1'' ''s1'' demo_queued () = (Claim demo_batch, demo_claimed, ())"
  by (simp add: next_work_def Let_def demo_port_def demo_ready_def demo_queued_def demo_claimed_def demo_batch_def
      demo_intent_def modify_slot_def set_intent_state_def modify_intent_def demo_slot_def has_message_def
      remove_queued_def batch_message_ids_def batch_run_ids_def List.map_filter_simps u64_saturating_add_def u64_max_def)

lemma demo_reachable_queued: "coord_reachable demo_port ''team'' ''gen'' (demo_queued, (), {})"
proof -
  have "coord_reachable demo_port ''team'' ''gen'' (coordinator_new ''team'' ''gen'', (), {})"
    by (rule coord_reachable.start)
  moreover have "coord_step demo_port (coordinator_new ''team'' ''gen'', (), {}) (demo_ready, (), {})"
    using demo_ready_is by (elim exE) (rule coord_step.constrain)
  moreover have "coord_step demo_port (demo_ready, (), {}) (demo_acquired, (), {})"
    by (rule coord_step.acquire [OF demo_acquired_is])
  moreover have "coord_step demo_port (demo_acquired, (), {}) (demo_queued, (), {})"
  proof -
    obtain u where "commit_enqueue demo_port ''i1'' 5 demo_lease (Some ''m1'') demo_acquired () = (Inr (Some u), demo_queued, ())"
      using demo_queued_is by blast
    then show ?thesis
      by (rule coord_step.commit [rotated]) (simp add: demo_acquired_def demo_ready_def)
  qed
  ultimately show ?thesis
    by (meson coord_reachable.step)
qed

lemma demo_reachable_claimed: "coord_reachable demo_port ''team'' ''gen'' (demo_claimed, (), {demo_batch})"
proof (rule coord_reachable.step [OF demo_reachable_queued])
  show "coord_step demo_port (demo_queued, (), {}) (demo_claimed, (), {demo_batch})"
    using coord_step.claim [OF _ demo_claimed_is, of "{}"] by (simp add: add_claim_def)
qed

lemma demo_current: "is_current_batch demo_claimed demo_batch"
  by (simp add: is_current_batch_def demo_claimed_def demo_ready_def demo_batch_def demo_slot_def)

subsection \<open>Reachable states\<close>

text \<open>C10: In every state the coordinator can reach, over any interleaving of its operations and
  any behaviour of the run causality port, the bookkeeping is consistent: each slot's three
  queues hold exactly its queued intents, without repetition and by priority; its active
  batch exactly the intents starting or running; and only slots in the table own live work.\<close>

theorem reachable_state_consistent:
  "coord_reachable port team_id generation (c, r, B) \<Longrightarrow> coord_inv c"
  by (rule reachable_coord_inv)

lemma reachable_state_consistent_witness: "coord_inv demo_claimed"
  by (rule reachable_state_consistent [OF demo_reachable_claimed])

lemma slot_ok_of:
  "coord_inv c \<Longrightarrow> map_of (co_slots c) sid = Some slot \<Longrightarrow>
     slot_ok (co_session_generation c) (slot_view (co_intents c) sid) sid (Some slot)"
  using coord_invD(4) [of c sid] by simp

lemma queued_owner:
  assumes inv: "coord_inv c" and w: "map_of (co_intents c) i = Some w" "wi_state w = IQueued"
  shows "\<exists>slot. map_of (co_slots c) (wi_slot_id w) = Some slot \<and> i \<in> set (queue (wi_priority w) slot)"
proof -
  have v: "slot_view (co_intents c) (wi_slot_id w) i = Some w"
    using w(1) by (simp add: slot_view_iff)
  from coord_invD(4) [OF inv, of "wi_slot_id w"] v w(2)
  obtain slot where slot: "map_of (co_slots c) (wi_slot_id w) = Some slot"
    by (cases "map_of (co_slots c) (wi_slot_id w)") (auto simp: slot_ok_def dest: spec [of _ i])
  with slot_ok_queue [OF slot_ok_of [OF inv slot], of i "wi_priority w"] v w(2) show ?thesis by auto
qed

lemma queued_ids_distinct:
  assumes ok: "slot_ok gen v sid (Some slot)"
  shows "distinct (queued_ids slot)"
proof -
  have "p = q" if "i \<in> set (queue p slot)" "i \<in> set (queue q slot)" for i p q
    using that unfolding slot_ok_queue [OF ok] by auto
  then have disj: "set (queue p slot) \<inter> set (queue q slot) = {}" if "p \<noteq> q" for p q
    using that by blast
  show ?thesis
    using disj [of Foreground Control] disj [of Foreground Background] disj [of Control Background]
      slot_ok_distinct [OF ok, of Foreground] slot_ok_distinct [OF ok, of Control]
      slot_ok_distinct [OF ok, of Background]
    by (auto simp: queued_ids_queue)
qed

lemma count_list_distinct: "distinct xs \<Longrightarrow> x \<in> set xs \<Longrightarrow> count_list xs x = 1"
  by (induction xs) auto

lemma owned_only_by:
  assumes inv: "coord_inv c" and w: "map_of (co_intents c) i = Some w"
    and slot: "map_of (co_slots c) s = Some sl" and "s \<noteq> wi_slot_id w"
  shows "i \<notin> set (queued_ids sl) \<and> (\<forall>a. ss_active sl = Some a \<longrightarrow> i \<notin> set (wb_intent_ids (ab_batch a)))"
proof -
  have none: "slot_view (co_intents c) s i = None"
    using w assms(4) by (simp add: slot_view_def)
  note ok = slot_ok_of [OF inv slot]
  show ?thesis
    using slot_ok_queue [OF ok, of i] slot_ok_active [OF ok] none by (fastforce simp: set_queued_ids)
qed

text \<open>C1: No work is lost or duplicated. In every reachable state a live intent is held exactly
  once: a queued one occurs once in its slot's queues, in the queue of its priority, and in
  no active batch; a starting or running one occurs once in its slot's active batch, with the
  state of that batch, and in no queue; and no other slot holds it.\<close>

theorem live_intent_held_exactly_once:
  assumes "coord_reachable port team_id generation (c, r, B)"
    and "map_of (co_intents c) i = Some w" and "\<not> is_terminal (wi_state w)"
  shows "\<exists>slot. map_of (co_slots c) (wi_slot_id w) = Some slot \<and>
    (if wi_state w = IQueued
     then i \<in> set (queue (wi_priority w) slot) \<and> count_list (queued_ids slot) i = 1 \<and>
          (\<forall>a. ss_active slot = Some a \<longrightarrow> i \<notin> set (wb_intent_ids (ab_batch a)))
     else i \<notin> set (queued_ids slot) \<and>
          (\<exists>a. ss_active slot = Some a \<and> count_list (wb_intent_ids (ab_batch a)) i = 1 \<and> wi_state w = batch_state a)) \<and>
    (\<forall>s sl. s \<noteq> wi_slot_id w \<longrightarrow> map_of (co_slots c) s = Some sl \<longrightarrow>
       i \<notin> set (queued_ids sl) \<and> (\<forall>a. ss_active sl = Some a \<longrightarrow> i \<notin> set (wb_intent_ids (ab_batch a))))"
proof -
  have inv: "coord_inv c" by (rule reachable_coord_inv [OF assms(1)])
  have others: "\<forall>s sl. s \<noteq> wi_slot_id w \<longrightarrow> map_of (co_slots c) s = Some sl \<longrightarrow>
       i \<notin> set (queued_ids sl) \<and> (\<forall>a. ss_active sl = Some a \<longrightarrow> i \<notin> set (wb_intent_ids (ab_batch a)))"
    using owned_only_by [OF inv assms(2)] by blast
  show ?thesis
  proof (cases "wi_state w = IQueued")
    case True
    then obtain slot where slot: "map_of (co_slots c) (wi_slot_id w) = Some slot" "i \<in> set (queue (wi_priority w) slot)"
      using queued_owner [OF inv assms(2)] by blast
    note ok = slot_ok_of [OF inv slot(1)]
    have "count_list (queued_ids slot) i = 1"
      by (rule count_list_distinct [OF queued_ids_distinct [OF ok]]) (use slot(2) set_queued_ids in blast)
    moreover have "\<forall>a. ss_active slot = Some a \<longrightarrow> i \<notin> set (wb_intent_ids (ab_batch a))"
      using batch_not_queued [OF ok] slot(2) by blast
    ultimately show ?thesis
      using True slot others by auto
  next
    case False
    with assms(3) have fl: "in_flight (wi_state w)" by simp
    obtain slot a where slot: "map_of (co_slots c) (wi_slot_id w) = Some slot" "ss_active slot = Some a"
      "i \<in> set (wb_intent_ids (ab_batch a))" "wi_state w = batch_state a"
      using in_flight_owner [OF inv assms(2) fl] by blast
    note ok = slot_ok_of [OF inv slot(1)]
    have "i \<notin> set (queued_ids slot)"
      using batch_not_queued [OF ok slot(2,3)] by (auto simp: set_queued_ids)
    moreover have "count_list (wb_intent_ids (ab_batch a)) i = 1"
      by (rule count_list_distinct [OF slot_ok_batch_distinct [OF ok slot(2)] slot(3)])
    ultimately show ?thesis
      using False slot others by auto
  qed
qed

lemma live_intent_held_exactly_once_witness:
  "\<exists>slot a. map_of (co_slots demo_claimed) ''s1'' = Some slot \<and> ss_active slot = Some a \<and>
     count_list (wb_intent_ids (ab_batch a)) ''i1'' = 1"
proof -
  have "map_of (co_intents demo_claimed) ''i1'' = Some (demo_intent (IStarting ''b1'' 1))"
    by (simp add: demo_claimed_def demo_ready_def)
  from live_intent_held_exactly_once [OF demo_reachable_claimed this] show ?thesis
    by (auto simp: demo_intent_def)
qed

text \<open>The coordinator does not panic. Four operations read intents with \<open>expect\<close> or build
  a snapshot of a slot they have just stored; in every reachable state each of them returns,
  whatever the slot, run or constraint it is called with.\<close>

theorem reachable_operations_return:
  assumes "coord_reachable port team_id generation (c, r, B)"
  shows "pause_slot sid c \<noteq> None \<and> set_runtime_constraint port sid k c r \<noteq> None \<and>
    cancel_run port run c r \<noteq> None \<and> remove_slot port sid c r \<noteq> None"
proof (intro conjI)
  have inv: "coord_inv c" by (rule reachable_coord_inv [OF assms])
  show "pause_slot sid c \<noteq> None" using pause_slot_inv [OF inv, of sid] by auto
  show "set_runtime_constraint port sid k c r \<noteq> None"
    using set_runtime_constraint_inv [OF inv, of port sid k r] by auto
  show "cancel_run port run c r \<noteq> None" using cancel_run_inv [OF inv, of port run r] by auto
  show "remove_slot port sid c r \<noteq> None" using remove_slot_inv [OF inv, of port sid r] by auto
qed

lemma reachable_operations_return_witness:
  "cancel_run demo_port ''run'' demo_claimed () \<noteq> None"
  using reachable_operations_return [OF demo_reachable_claimed] by blast

subsection \<open>Claiming\<close>

lemma find_priority:
  assumes "find P [Foreground, Control, Background] = Some p"
  shows "P p \<and> (\<forall>q < p. \<not> P q)"
proof
  show "P p" using assms by (auto split: if_splits)
  show "\<forall>q < p. \<not> P q"
  proof (intro allI impI)
    fix q assume "q < p"
    with assms show "\<not> P q"
      by (cases q; cases p) (auto simp: less_work_priority_def split: if_splits)
  qed
qed

text \<open>C13: What a claim takes. The slot exists, is idle, ready and not paused; the batch comes from
  the most urgent non-empty queue and holds, in queue order, all of its intents that carry a
  mailbox message; those leave the queue and become \<open>Starting\<close> under the new batch and
  operation id, the rest of the queue and the other queues keep their order, and no other
  intent and no other slot changes.\<close>

theorem claim_takes_most_urgent_messages:
  assumes "next_work port batch_id sid c r = (Claim b, c', r')"
  shows "\<exists>slot slot'. map_of (co_slots c) sid = Some slot \<and> map_of (co_slots c') sid = Some slot' \<and>
     ss_active slot = None \<and> ss_runtime_constraint slot = Ready \<and> \<not> ss_paused slot \<and>
     queue (wb_highest_priority b) slot \<noteq> [] \<and> (\<forall>q < wb_highest_priority b. queue q slot = []) \<and>
     wb_intent_ids b = filter (has_message c) (queue (wb_highest_priority b) slot) \<and> wb_intent_ids b \<noteq> [] \<and>
     wb_batch_id b = batch_id \<and> wb_operation_id b = u64_saturating_add (co_next_operation_id c) 1 \<and>
     ss_active slot' = Some \<lparr>ab_batch = b, ab_turn_id = None, ab_started_at_ms = None\<rparr> \<and>
     (\<forall>q. queue q slot' = filter (\<lambda>i. i \<notin> set (wb_intent_ids b)) (queue q slot)) \<and>
     (\<forall>i. map_of (co_intents c') i = (if i \<in> set (wb_intent_ids b)
        then map_option (\<lambda>w. w\<lparr>wi_state := IStarting batch_id (wb_operation_id b)\<rparr>) (map_of (co_intents c) i)
        else map_of (co_intents c) i)) \<and>
     (\<forall>s. s \<noteq> sid \<longrightarrow> map_of (co_slots c') s = map_of (co_slots c) s)"
  using assms
proof (cases rule: next_work_cases)
  case (2 slot p batch)
  have b: "b = batch" using 2(8) by simp
  have pr: "queue p slot \<noteq> [] \<and> (\<forall>q<p. queue q slot = [])"
    using find_priority [OF 2(5)] by auto
  have f: "wb_highest_priority b = p" "wb_intent_ids b = filter (has_message c) (queue p slot)"
    "wb_batch_id b = batch_id" "wb_operation_id b = u64_saturating_add (co_next_operation_id c) 1"
    unfolding b 2(7) by simp_all
  let ?slot' = "(fold remove_queued (wb_intent_ids b) slot)\<lparr>ss_active :=
       Some \<lparr>ab_batch = b, ab_turn_id = None, ab_started_at_ms = None\<rparr>\<rparr>"
  have slots: "map_of (co_slots c') sid = Some ?slot'" "\<And>s. s \<noteq> sid \<Longrightarrow> map_of (co_slots c') s = map_of (co_slots c) s"
    unfolding 2(9) b [symmetric] using 2(1) by simp_all
  have ints: "map_of (co_intents c') i = (if i \<in> set (wb_intent_ids b)
        then map_option (\<lambda>w. w\<lparr>wi_state := IStarting batch_id (wb_operation_id b)\<rparr>) (map_of (co_intents c) i)
        else map_of (co_intents c) i)" for i
    unfolding 2(9) b [symmetric] slot_update_frame map_of_fold_set_intent_state by simp
  show ?thesis
    by (rule exI [of _ slot], rule exI [of _ ?slot'])
      (use 2(1-4,6) pr slots ints f in \<open>simp\<close>)
qed simp

lemma claim_takes_most_urgent_messages_witness:
  "\<exists>slot. map_of (co_slots demo_queued) ''s1'' = Some slot \<and>
     wb_intent_ids demo_batch = filter (has_message demo_queued) (queue Foreground slot)"
  using claim_takes_most_urgent_messages [OF demo_claimed_is] by (auto simp: demo_batch_def)

text \<open>When there is no claim. Any other decision of \<open>next\<close> leaves the coordinator and the
  port as they were, and names the true reason: a batch is in flight; the runtime is not
  ready; the most urgent non-empty queue holds only intents without a message, listed as
  signals to settle; or there is nothing to do (no slot, paused, or all queues empty).\<close>

theorem no_claim_reason:
  assumes "next_work port batch_id sid c r = (d, c', r')" and "\<And>b. d \<noteq> Claim b"
  shows "c' = c \<and> r' = r \<and>
    (case d of
       WaitingForCompletion \<Rightarrow> (\<exists>slot. map_of (co_slots c) sid = Some slot \<and> ss_active slot \<noteq> None)
     | BlockedBy k \<Rightarrow> (\<exists>slot. map_of (co_slots c) sid = Some slot \<and> ss_active slot = None \<and>
         ss_runtime_constraint slot = k \<and> k \<noteq> Ready)
     | SettleSignals ids \<Rightarrow> (\<exists>slot p. map_of (co_slots c) sid = Some slot \<and> ids = queue p slot \<and> ids \<noteq> [] \<and>
         (\<forall>q < p. queue q slot = []) \<and> (\<forall>i \<in> set ids. \<not> has_message c i))
     | Quiescent \<Rightarrow> (\<forall>slot. map_of (co_slots c) sid = Some slot \<longrightarrow>
         ss_active slot = None \<and> ss_runtime_constraint slot = Ready \<and> (ss_paused slot \<or> queued_ids slot = []))
     | Claim b \<Rightarrow> False)"
proof (cases "map_of (co_slots c) sid")
  case None
  with assms show ?thesis by (auto simp: next_work_def)
next
  case (Some slot)
  show ?thesis
  proof (cases "ss_active slot = None \<and> ss_runtime_constraint slot = Ready \<and> \<not> ss_paused slot")
    case False
    with Some assms show ?thesis
      by (auto simp: next_work_def split: if_splits)
  next
    case ready: True
    show ?thesis
    proof (cases "find (\<lambda>p. queue p slot \<noteq> []) [Foreground, Control, Background]")
      case None
      then have "queued_ids slot = []"
        by (auto simp: queued_ids_queue split: if_splits)
      with None Some ready assms(1) show ?thesis by (auto simp: next_work_def)
    next
      case p: (Some p)
      show ?thesis
      proof (cases "filter (has_message c) (queue p slot) = []")
        case True
        with p Some ready assms(1) have d: "d = SettleSignals (queue p slot)" "c' = c" "r' = r"
          by (auto simp: next_work_def)
        have "queue p slot \<noteq> [] \<and> (\<forall>q<p. queue q slot = [])"
          using find_priority [OF p] by auto
        moreover have "\<forall>i \<in> set (queue p slot). \<not> has_message c i"
          using True by (simp add: filter_empty_conv)
        ultimately show ?thesis using Some d by auto
      next
        case False
        with Some ready p assms(1) have "\<exists>b. d = Claim b"
          by (simp add: next_work_def Let_def) blast
        with assms(2) show ?thesis by blast
      qed
    qed
  qed
qed

lemma no_claim_reason_witness:
  "fst (next_work demo_port ''b2'' ''s1'' demo_claimed ()) = WaitingForCompletion \<and>
   (\<exists>slot. map_of (co_slots demo_claimed) ''s1'' = Some slot \<and> ss_active slot \<noteq> None)"
proof -
  have d: "next_work demo_port ''b2'' ''s1'' demo_claimed () = (WaitingForCompletion, demo_claimed, ())"
    by (simp add: next_work_def demo_claimed_def demo_ready_def demo_slot_def)
  from no_claim_reason [OF d] d show ?thesis by simp
qed

end
