(* ===== verification/Work_Claims_Queue.thy ===== *)
theory Work_Claims_Queue
  imports Work_Claims
begin

text \<open>
  Properties of the operations that move work in and out of the queues: enqueueing under a
  lease, committing or retrying a claimed batch, and reconciling with the mailbox.
\<close>

subsection \<open>Committing a batch\<close>

text \<open>C11: A batch is committed at most once. Once a claimed batch has been completed, failed,
  cancelled or returned for retry, every later attempt to give it up, after any further
  operations of the coordinator, reports a stale owner and changes nothing.\<close>

theorem batch_commits_at_most_once:
  assumes "coord_reachable port team_id generation (c, r, B)" and "b \<in> B"
    and "give_up_batch port k b (c, r) = (Committed, (c1, r1))"
    and "(coord_step port)\<^sup>*\<^sup>* (c1, r1, B) (c2, r2, B2)"
  shows "give_up_batch port k' b (c2, r2) = (StaleOwner, (c2, r2))"
proof -
  have inv: "sys_inv (c, r, B)" by (rule reachable_sys_inv [OF assms(1)])
  have cur: "is_current_batch c b"
    using give_up_stale [of c b port k r] assms(3) by auto
  have stale1: "\<not> is_current_batch c1 b"
    using batches.ends [of "(c, r)" b port k Committed "(c1, r1)"] cur assms(3) by simp
  have "coord_step port (c, r, B) (c1, r1, B)"
    using assms(3) coord_step.complete [OF assms(2)] coord_step.fail [OF assms(2)]
      coord_step.cancel [OF assms(2)] coord_step.retry [OF assms(2)]
    by (cases k) (auto simp: give_up_batch_def)
  then have "sys_inv (c1, r1, B)"
    using coord_step_inv inv by blast
  with steps_keep_stale [OF assms(4)] stale1 assms(2) have "\<not> is_current_batch c2 b" by simp
  then show ?thesis by (rule give_up_stale)
qed

lemma batch_commits_at_most_once_witness:
  "\<exists>c1. give_up_batch demo_port GiveComplete demo_batch (demo_claimed, ()) = (Committed, (c1, ())) \<and>
     give_up_batch demo_port GiveRetry demo_batch (c1, ()) = (StaleOwner, (c1, ()))"
proof -
  obtain x c1 u where x: "give_up_batch demo_port GiveComplete demo_batch (demo_claimed, ()) = (x, (c1, u))"
    by (cases "give_up_batch demo_port GiveComplete demo_batch (demo_claimed, ())") auto
  then have "x = Committed"
    using batches.ends [of "(demo_claimed, ())" demo_batch demo_port GiveComplete x "(c1, u)"] demo_current by simp
  with x batch_commits_at_most_once [OF demo_reachable_claimed, of demo_batch GiveComplete c1 u c1 u "{demo_batch}" GiveRetry]
  show ?thesis by simp
qed

text \<open>Of several commits racing for one batch exactly one wins: in any sequence of attempts by
  its current owner the first reports \<open>Committed\<close>, all others a stale owner, and the state is
  the one the first left.\<close>

theorem one_of_racing_commits_wins:
  assumes "is_current_batch c b" and "batches.commits port (k # ks) b (c, r) = (xs, s')"
  shows "hd xs = Committed \<and> length (filter (\<lambda>x. x = Committed) xs) = 1 \<and>
    s' = snd (give_up_batch port k b (c, r))"
proof -
  have "length (filter (\<lambda>x. x = Committed) xs) = 1 \<and> hd xs = Committed"
    by (rule batches.first_commit_counts [OF _ assms(2)]) (use assms(1) in simp)
  moreover have "s' = snd (give_up_batch port k b (c, r))"
  proof -
    obtain x s1 where x: "give_up_batch port k b (c, r) = (x, s1)" by (meson surj_pair)
    obtain ys s2 where ys: "batches.commits port ks b s1 = (ys, s2)" by (meson surj_pair)
    have "\<not> is_current_batch (fst s1) b"
      using batches.ends [OF _ x] assms(1) by simp
    from batches.stale_commits [OF this ys] assms(2) x ys show ?thesis by simp
  qed
  ultimately show ?thesis by blast
qed

lemma one_of_racing_commits_wins_witness:
  "hd (fst (batches.commits demo_port [GiveComplete, GiveRetry] demo_batch (demo_claimed, ()))) = Committed"
proof -
  obtain xs s' where "batches.commits demo_port [GiveComplete, GiveRetry] demo_batch (demo_claimed, ()) = (xs, s')"
    by (meson surj_pair)
  with one_of_racing_commits_wins [OF demo_current this] show ?thesis by simp
qed

text \<open>C36: Claiming a batch and returning it for retry undoes the claim: the slot is idle again,
  every intent has the state it had, the claimed intents are back in the front of their
  queue in their order, with the signals they were claimed past behind them, and the other
  queues are as they were.\<close>

theorem retry_undoes_claim:
  assumes inv: "coord_inv c" and claim: "next_work port batch_id sid c r = (Claim b, c1, r1)"
  shows "\<exists>c2 r2 slot slot2. retry_start port b c1 r1 = (Committed, c2, r2) \<and>
    map_of (co_slots c) sid = Some slot \<and> map_of (co_slots c2) sid = Some slot2 \<and> ss_active slot2 = None \<and>
    (\<forall>q. queue q slot2 = (if q = wb_highest_priority b
       then filter (has_message c) (queue q slot) @ filter (\<lambda>i. \<not> has_message c i) (queue q slot)
       else queue q slot)) \<and>
    map_of (co_intents c2) = map_of (co_intents c) \<and>
    (\<forall>s. s \<noteq> sid \<longrightarrow> map_of (co_slots c2) s = map_of (co_slots c) s)"
  using claim
proof (cases rule: next_work_cases)
  case (2 slot p batch)
  have b: "b = batch" using 2(8) by simp
  note c1 = 2(9) [folded b]
  have f: "wb_highest_priority b = p" "wb_intent_ids b = filter (has_message c) (queue p slot)"
    "wb_batch_id b = batch_id" "wb_slot_id b = sid" "wb_session_generation b = co_session_generation c"
    unfolding b 2(7) by simp_all
  let ?ids = "wb_intent_ids b"
  let ?a = "\<lparr>ab_batch = b, ab_turn_id = None, ab_started_at_ms = None\<rparr>"
  let ?slot1 = "(fold remove_queued ?ids slot)\<lparr>ss_active := Some ?a\<rparr>"
  let ?f = "\<lambda>sl. fold (push_front p) (rev ?ids) (sl\<lparr>ss_active := None\<rparr>)"
  have gen: "co_session_generation c1 = co_session_generation c"
    unfolding c1 by simp
  have slot1: "map_of (co_slots c1) sid = Some ?slot1"
    unfolding c1 using 2(1) by simp
  have cur: "is_current_batch c1 b"
    using slot1 by (simp add: is_current_batch_def f gen)
  let ?c2 = "modify_slot sid ?f (fold (\<lambda>i. set_intent_state i IQueued) ?ids c1)"
  have retry: "\<exists>r2. retry_start port b c1 r1 = (Committed, ?c2, r2)"
    using cur by (simp add: retry_start_def Let_def f)
  note ok = slot_ok_of [OF inv 2(1)]
  have queues: "queue q (?f ?slot1) = (if q = p
       then filter (has_message c) (queue q slot) @ filter (\<lambda>i. \<not> has_message c i) (queue q slot)
       else queue q slot)" for q
  proof (cases "q = p")
    case True
    have "filter (\<lambda>i. i \<notin> set ?ids) (queue p slot) = filter (\<lambda>i. \<not> has_message c i) (queue p slot)"
      by (rule filter_cong) (auto simp: f)
    with True show ?thesis by (simp add: f)
  next
    case False
    have "i \<notin> set ?ids" if "i \<in> set (queue q slot)" for i
    proof
      assume "i \<in> set ?ids"
      then have "i \<in> set (queue p slot)" by (simp add: f)
      with that False show False unfolding slot_ok_queue [OF ok] by auto
    qed
    then have "filter (\<lambda>i. i \<notin> set ?ids) (queue q slot) = queue q slot"
      by (simp add: filter_id_conv)
    with False show ?thesis by simp
  qed
  have ints: "map_of (co_intents ?c2) i = map_of (co_intents c) i" for i
  proof (cases "i \<in> set ?ids")
    case True
    then have "i \<in> set (queue p slot)" by (simp add: f)
    then obtain w where "map_of (co_intents c) i = Some w" "wi_state w = IQueued"
      unfolding slot_ok_queue [OF ok] by (auto simp: slot_view_iff)
    with True show ?thesis
      unfolding slot_update_frame map_of_fold_set_intent_state c1 by simp
  next
    case False
    then show ?thesis
      unfolding slot_update_frame map_of_fold_set_intent_state c1 by simp
  qed
  have others: "map_of (co_slots ?c2) s = map_of (co_slots c) s" if "s \<noteq> sid" for s
    unfolding c1 using that by simp
  have slot2: "map_of (co_slots ?c2) sid = Some (?f ?slot1)"
    using slot1 by simp
  have all_ints: "map_of (co_intents ?c2) = map_of (co_intents c)"
    by (rule ext) (rule ints)
  obtain r2 where r2: "retry_start port b c1 r1 = (Committed, ?c2, r2)" using retry by blast
  show ?thesis
    by (rule exI [of _ ?c2], rule exI [of _ r2], rule exI [of _ slot], rule exI [of _ "?f ?slot1"])
      (intro conjI, rule r2, rule 2(1), rule slot2, simp, use queues in \<open>simp only: f(1)\<close>, blast, rule all_ints,
        use others in blast)
qed simp

lemma retry_undoes_claim_witness:
  "\<exists>c2. retry_start demo_port demo_batch demo_claimed () = (Committed, c2, ()) \<and>
     map_of (co_intents c2) = map_of (co_intents demo_queued)"
  using retry_undoes_claim [OF reachable_coord_inv [OF demo_reachable_queued] demo_claimed_is] by fastforce

subsection \<open>Enqueueing\<close>

text \<open>The intent a committed enqueue adds, and what becomes of its slot.\<close>

definition enqueued_intent ::
  "coordinator \<Rightarrow> enqueue_lease \<Rightarrow> ident \<Rightarrow> timestamp \<Rightarrow> ident option \<Rightarrow> work_intent" where
  "enqueued_intent c lease intent_id now msg =
     \<lparr>wi_intent_id = intent_id, wi_session_generation = co_session_generation c,
       wi_slot_id = le_slot_id lease, wi_role = le_role lease, wi_source = le_source lease,
       wi_priority = source_priority (le_source lease), wi_mailbox_message_id = msg,
       wi_team_run_id = le_team_run_id lease, wi_created_at_ms = now, wi_state = IQueued\<rparr>"

definition enqueued_slot :: "enqueue_lease \<Rightarrow> ident \<Rightarrow> ident option \<Rightarrow> slot_state \<Rightarrow> slot_state" where
  "enqueued_slot lease intent_id msg slot =
     (let slot1 = if resumes_paused_slot (le_source lease) then slot\<lparr>ss_paused := False\<rparr> else slot
      in push_back (source_priority (le_source lease)) intent_id
           (slot1\<lparr>ss_known_unread := ss_known_unread slot1 \<union> set_option msg\<rparr>))"

lemma enqueued_slot_simps:
  "queue q (enqueued_slot lease i msg slot) =
     queue q slot @ (if q = source_priority (le_source lease) then [i] else [])"
  "ss_paused (enqueued_slot lease i msg slot) = (ss_paused slot \<and> \<not> resumes_paused_slot (le_source lease))"
  "ss_known_unread (enqueued_slot lease i msg slot) = ss_known_unread slot \<union> set_option msg"
  "ss_active (enqueued_slot lease i msg slot) = ss_active slot"
proof -
  have "ss_known_unread (push_back p i sl) = ss_known_unread sl" for p sl
    by (cases p; simp add: push_back_def)
  then show "ss_known_unread (enqueued_slot lease i msg slot) = ss_known_unread slot \<union> set_option msg"
    by (simp add: enqueued_slot_def Let_def)
qed (simp_all add: enqueued_slot_def Let_def)

lemma commit_enqueue_success:
  assumes "commit_enqueue port intent_id now lease msg c r = (Inr out, c', r')"
  obtains rec slot where "map_of (co_enqueue_leases c) (le_lease_id lease) = Some rec" "lr_lease rec = lease"
    "le_session_generation lease = co_session_generation c"
    "requires_mailbox_message (le_source lease) \<longrightarrow> is_some msg"
    "map_of (co_slots c) (le_slot_id lease) = Some slot"
    "validate_enqueue_constraint (le_slot_id lease) slot = None"
    "c' = put_slot (le_slot_id lease) (enqueued_slot lease intent_id msg slot)
       (c\<lparr>co_enqueue_leases := hm_remove (le_lease_id lease) (co_enqueue_leases c),
          co_intents := hm_insert intent_id (enqueued_intent c lease intent_id now msg) (co_intents c)\<rparr>)"
proof (cases "map_of (co_enqueue_leases c) (le_lease_id lease)")
  case None
  with assms show ?thesis by (simp add: commit_enqueue_def)
next
  case (Some rec)
  show ?thesis
  proof (cases "lr_lease rec \<noteq> lease \<or> le_session_generation lease \<noteq> co_session_generation c")
    case True
    with Some assms show ?thesis by (simp add: commit_enqueue_def)
  next
    case own: False
    show ?thesis
    proof (cases "requires_mailbox_message (le_source lease) \<and> msg = None")
      case True
      with Some own assms show ?thesis by (simp add: commit_enqueue_def)
    next
      case m: False
      show ?thesis
      proof (cases "map_of (co_slots c) (le_slot_id lease)")
        case None
        with Some own m assms show ?thesis by (simp add: commit_enqueue_def if_not_P)
      next
        case slot: (Some slot)
        show ?thesis
        proof (cases "validate_enqueue_constraint (le_slot_id lease) slot")
          case None
          have "c' = put_slot (le_slot_id lease) (enqueued_slot lease intent_id msg slot)
           (c\<lparr>co_enqueue_leases := hm_remove (le_lease_id lease) (co_enqueue_leases c),
              co_intents := hm_insert intent_id (enqueued_intent c lease intent_id now msg) (co_intents c)\<rparr>)"
            using assms Some own m slot None
            unfolding commit_enqueue_def enqueued_slot_def enqueued_intent_def Let_def
            by (simp only: option.case if_False prod.inject) simp
          with that Some own m slot None show ?thesis by blast
        next
          case (Some e)
          with \<open>map_of (co_enqueue_leases c) (le_lease_id lease) = Some rec\<close> own m slot assms show ?thesis
            by (simp add: commit_enqueue_def if_not_P)
        qed
      qed
    qed
  qed
qed

lemma commit_enqueue_error:
  assumes "commit_enqueue port intent_id now lease msg c r = (Inl e, c', r')"
  shows "c' = c \<and> r' = r"
proof (cases "map_of (co_enqueue_leases c) (le_lease_id lease)")
  case None
  with assms show ?thesis by (simp add: commit_enqueue_def)
next
  case (Some rec)
  show ?thesis
  proof (cases "(lr_lease rec \<noteq> lease \<or> le_session_generation lease \<noteq> co_session_generation c) \<or>
      (requires_mailbox_message (le_source lease) \<and> msg = None)")
    case True
    with Some assms show ?thesis by (auto simp: commit_enqueue_def split: if_splits)
  next
    case False
    show ?thesis
    proof (cases "map_of (co_slots c) (le_slot_id lease)")
      case None
      with Some False assms show ?thesis by (auto simp: commit_enqueue_def split: if_splits)
    next
      case (Some slot)
      with \<open>map_of (co_enqueue_leases c) (le_lease_id lease) = Some rec\<close> False assms show ?thesis
        by (cases "validate_enqueue_constraint (le_slot_id lease) slot")
          (auto simp: commit_enqueue_def Let_def split: if_splits)
    qed
  qed
qed

text \<open>C14: What a committed enqueue does. Its lease is open, unchanged and of this session, the slot
  accepts work, and a message is there if the source needs one; then the lease is consumed,
  one queued intent with the lease's slot, source, priority and run is added under the given
  id, it goes to the end of the queue of its priority, the message counts as unread, and a
  user message (and nothing else) lifts the slot's pause. The other slots are untouched.\<close>

theorem commit_enqueue_queues_intent:
  assumes "commit_enqueue port intent_id now lease msg c r = (Inr out, c', r')"
  shows "\<exists>rec slot slot'. map_of (co_enqueue_leases c) (le_lease_id lease) = Some rec \<and> lr_lease rec = lease \<and>
    le_session_generation lease = co_session_generation c \<and>
    (requires_mailbox_message (le_source lease) \<longrightarrow> is_some msg) \<and>
    map_of (co_slots c) (le_slot_id lease) = Some slot \<and> map_of (co_slots c') (le_slot_id lease) = Some slot' \<and>
    validate_enqueue_constraint (le_slot_id lease) slot = None \<and>
    map_of (co_enqueue_leases c') = (map_of (co_enqueue_leases c))(le_lease_id lease := None) \<and>
    map_of (co_intents c') = (map_of (co_intents c))(intent_id \<mapsto>
      \<lparr>wi_intent_id = intent_id, wi_session_generation = co_session_generation c,
       wi_slot_id = le_slot_id lease, wi_role = le_role lease, wi_source = le_source lease,
       wi_priority = source_priority (le_source lease), wi_mailbox_message_id = msg,
       wi_team_run_id = le_team_run_id lease, wi_created_at_ms = now, wi_state = IQueued\<rparr>) \<and>
    (\<forall>q. queue q slot' = queue q slot @ (if q = source_priority (le_source lease) then [intent_id] else [])) \<and>
    ss_paused slot' = (ss_paused slot \<and> \<not> resumes_paused_slot (le_source lease)) \<and>
    ss_known_unread slot' = ss_known_unread slot \<union> set_option msg \<and>
    ss_active slot' = ss_active slot \<and>
    (\<forall>s. s \<noteq> le_slot_id lease \<longrightarrow> map_of (co_slots c') s = map_of (co_slots c) s)"
  using assms
proof (rule commit_enqueue_success)
  fix rec slot
  assume rec: "map_of (co_enqueue_leases c) (le_lease_id lease) = Some rec" "lr_lease rec = lease"
    "le_session_generation lease = co_session_generation c"
    and msg: "requires_mailbox_message (le_source lease) \<longrightarrow> is_some msg"
    and slot: "map_of (co_slots c) (le_slot_id lease) = Some slot"
    and valid: "validate_enqueue_constraint (le_slot_id lease) slot = None"
  assume c': "c' = put_slot (le_slot_id lease) (enqueued_slot lease intent_id msg slot)
       (c\<lparr>co_enqueue_leases := hm_remove (le_lease_id lease) (co_enqueue_leases c),
          co_intents := hm_insert intent_id (enqueued_intent c lease intent_id now msg) (co_intents c)\<rparr>)"
  have l: "map_of (co_enqueue_leases c') = (map_of (co_enqueue_leases c))(le_lease_id lease := None)"
    unfolding c' by (rule ext) (simp add: map_simps)
  have ints: "map_of (co_intents c') = (map_of (co_intents c))(intent_id \<mapsto> enqueued_intent c lease intent_id now msg)"
    unfolding c' by (rule ext) (simp add: map_simps)
  have slot': "map_of (co_slots c') (le_slot_id lease) = Some (enqueued_slot lease intent_id msg slot)"
    "\<And>s. s \<noteq> le_slot_id lease \<Longrightarrow> map_of (co_slots c') s = map_of (co_slots c) s"
    unfolding c' by simp_all
  show ?thesis
    by (rule exI [of _ rec], rule exI [of _ slot], rule exI [of _ "enqueued_slot lease intent_id msg slot"])
      (intro conjI allI impI rec msg slot slot' valid l ints [unfolded enqueued_intent_def] enqueued_slot_simps)
qed

lemma commit_enqueue_queues_intent_witness:
  "map_of (co_intents demo_queued) ''i1'' = Some (demo_intent IQueued) \<and>
   map_of (co_enqueue_leases demo_queued) ''l1'' = None"
proof -
  obtain u where "commit_enqueue demo_port ''i1'' 5 demo_lease (Some ''m1'') demo_acquired () = (Inr (Some u), demo_queued, ())"
    using demo_queued_is by blast
  from commit_enqueue_queues_intent [OF this] show ?thesis
    by (auto simp: demo_intent_def demo_lease_def demo_acquired_def demo_ready_def)
qed

text \<open>A lease is used once. After an enqueue has been committed or aborted, committing with
  the same lease again is refused and aborting it again reports a stale owner; neither
  changes anything.\<close>

theorem lease_used_once:
  assumes "commit_enqueue port intent_id now lease msg c r = (Inr out, c', r') \<or>
    abort_enqueue port lease c r = (Committed, c', r')"
  shows "commit_enqueue port intent_id2 now2 lease msg2 c' r2 =
      (Inl (InvalidRequest ''enqueue lease is no longer active''), c', r2) \<and>
    abort_enqueue port lease c' r2 = (StaleOwner, c', r2)"
proof -
  have "map_of (co_enqueue_leases c') (le_lease_id lease) = None"
    using assms
  proof
    assume "commit_enqueue port intent_id now lease msg c r = (Inr out, c', r')"
    then show ?thesis
      by (rule commit_enqueue_success) (simp add: map_simps)
  next
    assume "abort_enqueue port lease c r = (Committed, c', r')"
    then show ?thesis
      by (auto simp: abort_enqueue_def Let_def map_simps split: option.splits if_splits)
  qed
  then show ?thesis
    by (simp add: commit_enqueue_def abort_enqueue_def)
qed

lemma lease_used_once_witness:
  "commit_enqueue demo_port ''i2'' 9 demo_lease (Some ''m2'') demo_queued () =
     (Inl (InvalidRequest ''enqueue lease is no longer active''), demo_queued, ())"
proof -
  obtain u where "commit_enqueue demo_port ''i1'' 5 demo_lease (Some ''m1'') demo_acquired () = (Inr (Some u), demo_queued, ())"
    using demo_queued_is by blast
  from lease_used_once [OF disjI1 [OF this]] show ?thesis by blast
qed

definition accepts_work :: "slot_state \<Rightarrow> bool" where
  "accepts_work slot \<longleftrightarrow> \<not> ss_removed slot \<and>
     (case ss_runtime_constraint slot of Ready \<Rightarrow> True | Starting _ \<Rightarrow> True | _ \<Rightarrow> False)"

lemma validate_iff: "validate_enqueue_constraint sid slot = None \<longleftrightarrow> accepts_work slot"
  by (simp add: validate_enqueue_constraint_def accepts_work_def split: runtime_constraint.split)

text \<open>A slot that was removed, is being removed, has failed or belongs to a stopped session takes
  no work: acquiring a lease for it fails without opening a lease, binding a run or adding an
  intent, and a lease opened earlier can no longer be committed. A slot whose runtime is
  still starting does take work.\<close>

theorem closed_slot_takes_no_work:
  assumes "map_of (co_slots c) sid = Some slot" and "rq_slot_id rq = sid" and "le_slot_id lease = sid"
  shows "if accepts_work slot
     then \<exists>lease' c' r'. acquire_enqueue port lid rq c r = (Inr lease', c', r') \<and> le_slot_id lease' = sid
     else (\<exists>e c'. acquire_enqueue port lid rq c r = (Inl e, c', r) \<and> co_intents c' = co_intents c \<and>
             co_enqueue_leases c' = co_enqueue_leases c \<and> (\<forall>s. s \<noteq> sid \<longrightarrow> map_of (co_slots c') s = map_of (co_slots c) s)) \<and>
          (\<exists>e. commit_enqueue port i now lease msg c r = (Inl e, c, r))"
proof -
  let ?slot = "(slot_entry sid (rq_role rq) c)\<lparr>ss_role := rq_role rq\<rparr>"
  have acc: "accepts_work ?slot = accepts_work slot"
    using assms(1) by (simp add: accepts_work_def slot_entry_def)
  show ?thesis
  proof (cases "accepts_work slot")
    case True
    then have "validate_enqueue_constraint sid ?slot = None"
      by (simp add: validate_iff acc)
    with True assms(2) show ?thesis
      by (simp add: acquire_enqueue_def Let_def split: prod.split)
  next
    case False
    then obtain e where "validate_enqueue_constraint sid ?slot = Some e"
      using validate_iff [of sid ?slot] acc by auto
    then have one: "acquire_enqueue port lid rq c r = (Inl e, put_slot sid ?slot c, r)"
      using assms(2) by (simp add: acquire_enqueue_def Let_def)
    have two: "\<exists>e. commit_enqueue port i now lease msg c r = (Inl e, c, r)"
    proof (cases "\<exists>out c' r'. commit_enqueue port i now lease msg c r = (Inr out, c', r')")
      case True
      then obtain out c' r' where "commit_enqueue port i now lease msg c r = (Inr out, c', r')" by blast
      then show ?thesis
        by (rule commit_enqueue_success) (use assms False validate_iff in auto)
    next
      case False
      obtain x c' r' where x: "commit_enqueue port i now lease msg c r = (x, c', r')"
        by (cases "commit_enqueue port i now lease msg c r")
      with False obtain e where e: "x = Inl e" by (cases x) auto
      with x commit_enqueue_error [of port i now lease msg c r e c' r'] show ?thesis by blast
    qed
    from one two False show ?thesis by auto
  qed
qed

lemma closed_slot_takes_no_work_witness:
  "\<exists>e c'. acquire_enqueue demo_port ''l1'' demo_request
      (demo_ready\<lparr>co_slots := [(''s1'', (demo_slot [] None {})\<lparr>ss_removed := True\<rparr>)]\<rparr>) () = (Inl e, c', ())"
  (is "\<exists>e c'. acquire_enqueue demo_port ''l1'' demo_request ?c () = _")
proof -
  let ?sl = "(demo_slot [] None {})\<lparr>ss_removed := True\<rparr>"
  have slot: "map_of (co_slots ?c) ''s1'' = Some ?sl" by simp
  have ids: "rq_slot_id demo_request = ''s1''" "le_slot_id demo_lease = ''s1''"
    by (simp_all add: demo_request_def demo_lease_def)
  have closed: "\<not> accepts_work ?sl" by (simp add: accepts_work_def)
  show ?thesis
    using closed_slot_takes_no_work [OF slot ids, of demo_port "''l1''" "()"] unfolding if_not_P [OF closed] by blast
qed

subsection \<open>Reconciling\<close>

lemma already_owned_iff:
  assumes "hm_wf (co_intents c)"
  shows "already_owned c sid m \<longleftrightarrow> (\<exists>i w. map_of (co_intents c) i = Some w \<and> wi_slot_id w = sid \<and>
     wi_mailbox_message_id w = Some m \<and> \<not> is_terminal (wi_state w))"
  unfolding already_owned_def list_ex_iff hm_values_iff [OF assms] ..

lemma recover_message_owned: "already_owned c sid m \<Longrightarrow> recover_message ids clock sid role m (c, created) = (c, created)"
  by (simp add: recover_message_def)

lemma fold_recover_message_effect:
  assumes "hm_wf (co_intents c)" and "inj ids" and "\<And>n. length created \<le> n \<Longrightarrow> map_of (co_intents c) (ids n) = None"
    and "fold (recover_message ids clock sid role) ms (c, created) = (c', created')"
  shows "hm_wf (co_intents c') \<and>
     (\<forall>i w. map_of (co_intents c) i = Some w \<longrightarrow> map_of (co_intents c') i = Some w) \<and>
     (\<forall>m \<in> set ms. already_owned c' sid m) \<and>
     (\<forall>i w. map_of (co_intents c) i = None \<longrightarrow> map_of (co_intents c') i = Some w \<longrightarrow>
        wi_slot_id w = sid \<and> wi_source w = RecoveryDrain \<and> wi_state w = IQueued \<and>
        (\<exists>m \<in> set ms. wi_mailbox_message_id w = Some m \<and> \<not> already_owned c sid m))"
  using assms
proof (induction ms arbitrary: c created)
  case (Cons m ms)
  show ?case
  proof (cases "already_owned c sid m")
    case True
    then have "fold (recover_message ids clock sid role) ms (c, created) = (c', created')"
      using Cons.prems(4) by (simp add: recover_message_owned)
    note IH = Cons.IH [OF Cons.prems(1-3) this]
    then have "already_owned c' sid m"
      using True already_owned_iff [OF Cons.prems(1)] already_owned_iff [of c'] by blast
    with IH show ?thesis by auto
  next
    case False
    let ?i = "ids (length created)"
    let ?w = "\<lparr>wi_intent_id = ?i, wi_session_generation = co_session_generation c, wi_slot_id = sid,
       wi_role = role, wi_source = RecoveryDrain, wi_priority = Background,
       wi_mailbox_message_id = Some m, wi_team_run_id = None,
       wi_created_at_ms = clock (length created), wi_state = IQueued\<rparr>"
    let ?c1 = "modify_slot sid (push_back Background ?i) (c\<lparr>co_intents := hm_insert ?i ?w (co_intents c)\<rparr>)"
    have fresh: "map_of (co_intents c) ?i = None" using Cons.prems(3) by simp
    have "recover_message ids clock sid role m (c, created) = (?c1, created @ [?i])"
      using False by (simp add: recover_message_def Let_def)
    then have step: "fold (recover_message ids clock sid role) ms (?c1, created @ [?i]) = (c', created')"
      using Cons.prems(4) by simp
    have wf1: "hm_wf (co_intents ?c1)" using Cons.prems(1) by (simp add: wf_intros)
    have tab: "map_of (co_intents ?c1) j = (if j = ?i then Some ?w else map_of (co_intents c) j)" for j
      by (simp add: map_simps)
    have "map_of (co_intents ?c1) (ids n) = None" if "length (created @ [?i]) \<le> n" for n
    proof -
      have "ids n \<noteq> ?i" using that Cons.prems(2) by (auto dest: injD)
      with that Cons.prems(3) [of n] show ?thesis unfolding tab by simp
    qed
    note IH = Cons.IH [OF wf1 Cons.prems(2) this step]
    have own1: "already_owned c sid x \<Longrightarrow> already_owned ?c1 sid x" for x
    proof -
      assume "already_owned c sid x"
      then obtain i w where "map_of (co_intents c) i = Some w" "wi_slot_id w = sid" "wi_mailbox_message_id w = Some x"
        "\<not> is_terminal (wi_state w)"
        unfolding already_owned_iff [OF Cons.prems(1)] by blast
      moreover from this fresh have "map_of (co_intents ?c1) i = Some w" unfolding tab by auto
      ultimately show ?thesis
        unfolding already_owned_iff [OF wf1] by blast
    qed
    have "map_of (co_intents c') ?i = Some ?w" using IH tab by simp
    then have "already_owned c' sid m"
      using IH already_owned_iff [of c'] by fastforce
    moreover have "map_of (co_intents c') i = Some w" if "map_of (co_intents c) i = Some w" for i w
      using IH that fresh tab [of i] by (metis option.distinct(1))
    moreover have "wi_slot_id w = sid \<and> wi_source w = RecoveryDrain \<and> wi_state w = IQueued \<and>
        (\<exists>x \<in> set (m # ms). wi_mailbox_message_id w = Some x \<and> \<not> already_owned c sid x)"
      if n: "map_of (co_intents c) i = None" "map_of (co_intents c') i = Some w" for i w
    proof (cases "i = ?i")
      case True
      with n(2) \<open>map_of (co_intents c') ?i = Some ?w\<close> False show ?thesis by auto
    next
      case False
      then have "map_of (co_intents ?c1) i = None" unfolding tab using n(1) by simp
      with IH n(2) obtain x where "x \<in> set ms" "wi_mailbox_message_id w = Some x" "\<not> already_owned ?c1 sid x"
        "wi_slot_id w = sid" "wi_source w = RecoveryDrain" "wi_state w = IQueued" by blast
      moreover from this own1 have "\<not> already_owned c sid x" by blast
      ultimately show ?thesis by auto
    qed
    ultimately show ?thesis using IH by auto
  qed
qed simp

lemma reconcile_clears:
  assumes inv: "coord_inv c" and res: "reconcile_mailbox ids clock sid unread role c = (proj, c')"
  shows "\<exists>c3 created. fold (recover_message ids clock sid role) unread (c3, []) = (c', created) \<and>
     hm_wf (co_intents c3) \<and> rp_created_recovery_intent_ids proj = created \<and>
     (\<forall>i. map_of (co_intents c3) i = map_option (\<lambda>w. if wi_slot_id w = sid \<and> wi_state w = IQueued \<and>
          (\<exists>m. wi_mailbox_message_id w = Some m \<and> m \<notin> set unread) then w\<lparr>wi_state := ICompleted\<rparr> else w)
        (map_of (co_intents c) i))"
proof -
  let ?slot = "(slot_entry sid role c)\<lparr>ss_role := role, ss_known_unread := set unread\<rparr>"
  let ?c1 = "put_slot sid ?slot c"
  let ?stale = "filter (stale_message ?c1 unread) (queued_ids ?slot)"
  let ?c3 = "modify_slot sid (fold remove_queued ?stale) (fold (\<lambda>i. set_intent_state i ICompleted) ?stale ?c1)"
  have ok: "slot_ok (co_session_generation c) (slot_view (co_intents c) sid) sid (Some ?slot)"
    by (rule slot_ok_cong [OF slot_entry_ok [OF inv]]) simp_all
  have mem: "i \<in> set ?stale \<longleftrightarrow> wi_slot_id w = sid \<and> wi_state w = IQueued \<and>
      (\<exists>m. wi_mailbox_message_id w = Some m \<and> m \<notin> set unread)" if "map_of (co_intents c) i = Some w" for i w
    using slot_ok_queue [OF ok, of i] that
    by (auto simp: set_queued_ids slot_view_iff stale_message_def split: option.splits)
  have "map_of (co_intents ?c3) i = map_option (\<lambda>w. if wi_slot_id w = sid \<and> wi_state w = IQueued \<and>
          (\<exists>m. wi_mailbox_message_id w = Some m \<and> m \<notin> set unread) then w\<lparr>wi_state := ICompleted\<rparr> else w)
        (map_of (co_intents c) i)" for i
  proof (cases "map_of (co_intents c) i")
    case None
    then show ?thesis by (simp only: slot_update_frame map_of_fold_set_intent_state) simp
  next
    case (Some w)
    show ?thesis
      using mem [OF Some] Some by (simp only: slot_update_frame map_of_fold_set_intent_state) simp
  qed
  moreover have "hm_wf (co_intents ?c3)" using coord_inv_hm_wf [OF inv] by simp
  moreover have "fold (recover_message ids clock sid role) unread (?c3, []) = (c', rp_created_recovery_intent_ids proj)"
    using res by (auto simp: reconcile_mailbox_def Let_def fold_reconcile_candidate split: prod.splits)
  ultimately show ?thesis by blast
qed

lemma reconcile_mailbox_effect:
  assumes inv: "coord_inv c" and ids: "inj ids" "\<And>n. map_of (co_intents c) (ids n) = None"
    and res: "reconcile_mailbox ids clock sid unread role c = (proj, c')"
  shows "(\<forall>m \<in> set unread. already_owned c' sid m) \<and>
    (\<forall>i w. map_of (co_intents c') i = Some w \<longrightarrow> wi_slot_id w = sid \<longrightarrow> wi_state w = IQueued \<longrightarrow>
       (\<forall>m. wi_mailbox_message_id w = Some m \<longrightarrow> m \<in> set unread)) \<and>
    (\<forall>i w. map_of (co_intents c) i = Some w \<longrightarrow> map_of (co_intents c') i = Some
       (if wi_slot_id w = sid \<and> wi_state w = IQueued \<and> (\<exists>m. wi_mailbox_message_id w = Some m \<and> m \<notin> set unread)
        then w\<lparr>wi_state := ICompleted\<rparr> else w)) \<and>
    (\<forall>i w. map_of (co_intents c) i = None \<longrightarrow> map_of (co_intents c') i = Some w \<longrightarrow>
       wi_slot_id w = sid \<and> wi_source w = RecoveryDrain \<and> wi_state w = IQueued \<and>
       (\<exists>m \<in> set unread. wi_mailbox_message_id w = Some m))"
proof -
  obtain c3 created where c3: "fold (recover_message ids clock sid role) unread (c3, []) = (c', created)"
    and wf3: "hm_wf (co_intents c3)"
    and t3: "\<And>i. map_of (co_intents c3) i = map_option (\<lambda>w. if wi_slot_id w = sid \<and> wi_state w = IQueued \<and>
          (\<exists>m. wi_mailbox_message_id w = Some m \<and> m \<notin> set unread) then w\<lparr>wi_state := ICompleted\<rparr> else w)
        (map_of (co_intents c) i)"
    using reconcile_clears [OF inv res] by blast
  have "map_of (co_intents c3) (ids n) = None" for n
    using ids(2) t3 by simp
  note eff = fold_recover_message_effect [OF wf3 ids(1) this c3]
  have keep: "map_of (co_intents c') i = Some w" if "map_of (co_intents c3) i = Some w" for i w
    using eff that by blast
  have owned: "\<forall>m \<in> set unread. already_owned c' sid m" using eff by blast
  have added: "wi_slot_id w = sid \<and> wi_source w = RecoveryDrain \<and> wi_state w = IQueued \<and>
       (\<exists>m \<in> set unread. wi_mailbox_message_id w = Some m)"
    if "map_of (co_intents c3) i = None" "map_of (co_intents c') i = Some w" for i w
    using eff that by blast
  have queued_ok: "\<forall>m. wi_mailbox_message_id w = Some m \<longrightarrow> m \<in> set unread"
    if w: "map_of (co_intents c') i = Some w" "wi_slot_id w = sid" "wi_state w = IQueued" for i w
  proof (cases "map_of (co_intents c3) i")
    case None
    from added [OF this w(1)] show ?thesis by auto
  next
    case (Some w3)
    with keep [OF this] w(1) have w3: "map_of (co_intents c3) i = Some w" by simp
    then obtain w0 where "map_of (co_intents c) i = Some w0"
      unfolding t3 by (cases "map_of (co_intents c) i") simp_all
    with w3 have split: "w = (if wi_slot_id w0 = sid \<and> wi_state w0 = IQueued \<and>
        (\<exists>m. wi_mailbox_message_id w0 = Some m \<and> m \<notin> set unread) then w0\<lparr>wi_state := ICompleted\<rparr> else w0)"
      unfolding t3 by simp
    show ?thesis
    proof (cases "wi_slot_id w0 = sid \<and> wi_state w0 = IQueued \<and>
        (\<exists>m. wi_mailbox_message_id w0 = Some m \<and> m \<notin> set unread)")
      case True
      with split w(3) show ?thesis by simp
    next
      case False
      with split have "w = w0" by (simp only: if_False)
      with False w(2,3) show ?thesis by blast
    qed
  qed
  have old: "map_of (co_intents c') i = Some
       (if wi_slot_id w = sid \<and> wi_state w = IQueued \<and> (\<exists>m. wi_mailbox_message_id w = Some m \<and> m \<notin> set unread)
        then w\<lparr>wi_state := ICompleted\<rparr> else w)" if "map_of (co_intents c) i = Some w" for i w
    by (rule keep) (simp add: t3 that)
  have new: "wi_slot_id w = sid \<and> wi_source w = RecoveryDrain \<and> wi_state w = IQueued \<and>
       (\<exists>m \<in> set unread. wi_mailbox_message_id w = Some m)"
    if "map_of (co_intents c) i = None" "map_of (co_intents c') i = Some w" for i w
  proof -
    have "map_of (co_intents c3) i = None" using that(1) t3 by simp
    from added [OF this that(2)] show ?thesis .
  qed
  show ?thesis
    by (intro conjI, rule owned, use queued_ok in blast, intro allI impI, rule old, assumption, use new in blast)
qed

lemma fold_recover_owned:
  "(\<And>m. m \<in> set ms \<Longrightarrow> already_owned c sid m) \<Longrightarrow>
     fold (recover_message ids clock sid role) ms (c, created) = (c, created)"
  by (induction ms) (simp_all add: recover_message_owned)

text \<open>With every unread message owned and no queued intent stale, reconciling finds nothing to do.\<close>

lemma reconcile_settled:
  assumes inv: "coord_inv c" and owned: "\<And>m. m \<in> set unread \<Longrightarrow> already_owned c sid m"
    and fresh_queue: "\<And>i w m. map_of (co_intents c) i = Some w \<Longrightarrow> wi_slot_id w = sid \<Longrightarrow> wi_state w = IQueued \<Longrightarrow>
       wi_mailbox_message_id w = Some m \<Longrightarrow> m \<in> set unread"
  shows "\<exists>proj c'. reconcile_mailbox ids clock sid unread role c = (proj, c') \<and> co_intents c' = co_intents c \<and>
     rp_created_recovery_intent_ids proj = [] \<and> rp_cleared_stale_intent_ids proj = []"
proof -
  let ?slot = "(slot_entry sid role c)\<lparr>ss_role := role, ss_known_unread := set unread\<rparr>"
  let ?c1 = "put_slot sid ?slot c"
  have ok: "slot_ok (co_session_generation c) (slot_view (co_intents c) sid) sid (Some ?slot)"
    by (rule slot_ok_cong [OF slot_entry_ok [OF inv]]) simp_all
  have "\<not> stale_message ?c1 unread i" if "i \<in> set (queued_ids ?slot)" for i
    using that slot_ok_queue [OF ok, of i] fresh_queue
    by (auto simp: set_queued_ids slot_view_iff stale_message_def split: option.splits)
  then have stale: "filter (stale_message ?c1 unread) (queued_ids ?slot) = []"
    by (simp add: filter_empty_conv)
  let ?c3 = "modify_slot sid (fold remove_queued []) ?c1"
  have "already_owned ?c3 sid m" if "m \<in> set unread" for m
    using owned [OF that] by (simp add: already_owned_def)
  then have rec: "fold (recover_message ids clock sid role) unread (?c3, []) = (?c3, [])"
    by (rule fold_recover_owned)
  have "\<exists>proj. reconcile_mailbox ids clock sid unread role c = (proj, ?c3) \<and>
     rp_created_recovery_intent_ids proj = [] \<and> rp_cleared_stale_intent_ids proj = []"
    using rec unfolding reconcile_mailbox_def Let_def fold_reconcile_candidate stale by simp
  moreover have "co_intents ?c3 = co_intents c" by simp
  ultimately show ?thesis by blast
qed

text \<open>C17: Reconciling with the mailbox leaves every unread message of the slot owned by a live intent
  and no queued intent waiting for a message that is not unread. Of the intents there were,
  exactly the queued ones of this slot whose message is no longer unread are completed and no
  other changes; every intent added is queued for this slot and carries an unread message no
  live intent owned. Reconciling again with the same unread messages, whatever ids it
  draws, adds and clears nothing.\<close>

theorem reconcile_owns_unread_messages:
  assumes inv: "coord_inv c" and ids: "inj ids" "\<And>n. map_of (co_intents c) (ids n) = None"
    and res: "reconcile_mailbox ids clock sid unread role c = (proj, c')"
  shows "(\<forall>m \<in> set unread. already_owned c' sid m) \<and>
    (\<forall>i w. map_of (co_intents c') i = Some w \<longrightarrow> wi_slot_id w = sid \<longrightarrow> wi_state w = IQueued \<longrightarrow>
       (\<forall>m. wi_mailbox_message_id w = Some m \<longrightarrow> m \<in> set unread)) \<and>
    (\<forall>i w. map_of (co_intents c) i = Some w \<longrightarrow> map_of (co_intents c') i = Some
       (if wi_slot_id w = sid \<and> wi_state w = IQueued \<and> (\<exists>m. wi_mailbox_message_id w = Some m \<and> m \<notin> set unread)
        then w\<lparr>wi_state := ICompleted\<rparr> else w)) \<and>
    (\<forall>i w. map_of (co_intents c) i = None \<longrightarrow> map_of (co_intents c') i = Some w \<longrightarrow>
       wi_slot_id w = sid \<and> wi_source w = RecoveryDrain \<and> wi_state w = IQueued \<and>
       (\<exists>m \<in> set unread. wi_mailbox_message_id w = Some m)) \<and>
    (\<forall>ids2 clock2. \<exists>proj2 c2. reconcile_mailbox ids2 clock2 sid unread role c' = (proj2, c2) \<and>
       co_intents c2 = co_intents c' \<and> rp_created_recovery_intent_ids proj2 = [] \<and>
       rp_cleared_stale_intent_ids proj2 = [])"
proof -
  note eff = reconcile_mailbox_effect [OF assms]
  have again: "\<forall>ids2 clock2. \<exists>proj2 c2. reconcile_mailbox ids2 clock2 sid unread role c' = (proj2, c2) \<and>
       co_intents c2 = co_intents c' \<and> rp_created_recovery_intent_ids proj2 = [] \<and>
       rp_cleared_stale_intent_ids proj2 = []"
    by (intro allI reconcile_settled [OF reconcile_mailbox_inv [OF assms]]) (use eff in blast)+
  show ?thesis
    using eff again by (elim conjE, intro conjI)
qed

lemma reconcile_owns_unread_messages_witness:
  "\<exists>proj c'. reconcile_mailbox (\<lambda>n. ''r'' @ replicate n (CHR ''x'')) (\<lambda>n. 9) ''s1'' [''m1'', ''m2''] RoleLead demo_queued
     = (proj, c') \<and> already_owned c' ''s1'' ''m2''"
proof -
  let ?ids = "\<lambda>n. ''r'' @ replicate n (CHR ''x'')"
  obtain proj c' where res: "reconcile_mailbox ?ids (\<lambda>n. 9) ''s1'' [''m1'', ''m2''] RoleLead demo_queued = (proj, c')"
    by (meson surj_pair)
  have "inj ?ids" by (rule injI) simp
  moreover have "map_of (co_intents demo_queued) (?ids n) = None" for n
    by (simp add: demo_queued_def)
  ultimately show ?thesis
    using reconcile_owns_unread_messages [OF reachable_coord_inv [OF demo_reachable_queued] _ _ res] res by auto
qed

end
