(* ===== verification/Work_Requeue.thy ===== *)
theory Work_Requeue
  imports Work_Reachable "HOL-Library.Sublist"
begin

text \<open>
  What cancelling a run makes of the queues. The loops of \<open>cancel_run\<close> only take entries out
  of what a slot had, its batch first and then its queues, so the order is kept (\<open>subseq\<close>);
  the bookkeeping invariant says which entries are left, and together they give the queues
  exactly.
\<close>

lemma subseq_is_filter: "subseq ys xs \<Longrightarrow> distinct xs \<Longrightarrow> filter (\<lambda>x. x \<in> set ys) xs = ys"
proof (induction rule: list_emb.induct)
  case (list_emb_Cons2 x y xs ys)
  then have "filter (\<lambda>z. z = y \<or> z \<in> set xs) ys = filter (\<lambda>z. z \<in> set xs) ys"
    by (intro filter_cong) auto
  with list_emb_Cons2 show ?case by simp
next
  case (list_emb_Cons xs ys y)
  then have "set xs \<subseteq> set ys" by (auto dest: list_emb_set)
  with list_emb_Cons have "y \<notin> set xs" by auto
  with list_emb_Cons show ?case by simp
qed simp

lemma cancelled_intents_retained:
  assumes "opt_fold (cancel_active_intent run_id) js (c, msgs, ret) = Some (c1, msgs1, ret1)"
  shows "co_slots c1 = co_slots c \<and> (\<exists>kept. ret1 = ret @ kept \<and> subseq (map snd kept) js)"
  using assms
proof (induction js arbitrary: c msgs ret)
  case Nil
  then show ?case by simp
next
  case (Cons i js)
  from Cons.prems obtain c2 msgs2 ret2 where
    step: "cancel_active_intent run_id i (c, msgs, ret) = Some (c2, msgs2, ret2)"
    and rest: "opt_fold (cancel_active_intent run_id) js (c2, msgs2, ret2) = Some (c1, msgs1, ret1)"
    by (auto split: option.splits)
  from Cons.IH [OF rest] obtain kept where k: "co_slots c1 = co_slots c2" "ret1 = ret2 @ kept" "subseq (map snd kept) js"
    by blast
  from step consider "ret2 = ret" "co_slots c2 = co_slots c" | p where "ret2 = ret @ [(p, i)]" "co_slots c2 = co_slots c"
    by (auto simp: cancel_active_intent_def split: option.splits if_splits)
  then show ?case
  proof cases
    case 1
    with k show ?thesis by auto
  next
    case (2 p)
    with k show ?thesis by (intro conjI exI [of _ "(p, i) # kept"]) simp_all
  qed
qed

text \<open>How a slot comes out of a loop: with the active batch \<open>act\<close>, and queues that are in order
  what was left of \<open>front\<close> and the queues before.\<close>

definition left_of :: "ident list \<Rightarrow> active_batch option \<Rightarrow> slot_state \<Rightarrow> slot_state \<Rightarrow> bool" where
  "left_of front act sl sl' \<longleftrightarrow> ss_active sl' = act \<and> (\<forall>p. subseq (queue p sl') (front @ queue p sl))"

lemma subseq_map_filter: "subseq (map f (filter P xs)) (map f xs)"
  by (intro subseq_map subseq_filter_left)

lemma cancelled_slot_left:
  assumes slot: "map_of (co_slots c) sid = Some sl"
    and step: "cancel_active_slot run_id (sid, a) (c, msgs) = Some (c', msgs')"
  shows "\<exists>sl'. map_of (co_slots c') sid = Some sl' \<and> left_of (wb_intent_ids (ab_batch a)) None sl sl'"
    and "s \<noteq> sid \<Longrightarrow> map_of (co_slots c') s = map_of (co_slots c) s"
proof -
  from step obtain c1 ret where
    loop: "opt_fold (cancel_active_intent run_id) (wb_intent_ids (ab_batch a)) (c, msgs, []) = Some (c1, msgs', ret)"
    and c': "c' = modify_slot sid (\<lambda>sl. fold (\<lambda>(p, i). push_front p i) (rev ret) (sl\<lparr>ss_active := None\<rparr>)) c1"
    by (auto simp: cancel_active_slot_def split: option.splits)
  from cancelled_intents_retained [OF loop] have slots: "co_slots c1 = co_slots c"
    and ret: "subseq (map snd ret) (wb_intent_ids (ab_batch a))" by auto
  have "subseq (map snd (filter (\<lambda>x. fst x = p) ret)) (wb_intent_ids (ab_batch a))" for p
    using subseq_map_filter ret by (rule subseq_order.trans)
  then show "\<exists>sl'. map_of (co_slots c') sid = Some sl' \<and> left_of (wb_intent_ids (ab_batch a)) None sl sl'"
    using slot unfolding c' by (simp add: slots left_of_def list_emb_append_mono)
  show "s \<noteq> sid \<Longrightarrow> map_of (co_slots c') s = map_of (co_slots c) s"
    unfolding c' by (simp add: slots)
qed

lemma cancelled_slots_left:
  assumes "distinct (map fst sas)" and "map_of (co_slots c) sid = Some sl"
    and "\<forall>(s, a) \<in> set sas. map_of (co_slots c) s \<noteq> None"
    and "opt_fold (cancel_active_slot run_id) sas (c, msgs) = Some (c', msgs')"
  shows "\<exists>sl'. map_of (co_slots c') sid = Some sl' \<and>
    (case map_of sas sid of None \<Rightarrow> sl' = sl | Some a \<Rightarrow> left_of (wb_intent_ids (ab_batch a)) None sl sl')"
  using assms
proof (induction sas arbitrary: c msgs sl)
  case Nil
  then show ?case by simp
next
  case (Cons sa sas)
  obtain s a where sa: "sa = (s, a)" by fastforce
  from Cons.prems(4) obtain c1 msgs1 where
    step: "cancel_active_slot run_id (s, a) (c, msgs) = Some (c1, msgs1)"
    and rest: "opt_fold (cancel_active_slot run_id) sas (c1, msgs1) = Some (c', msgs')"
    by (auto simp: sa split: option.splits)
  obtain sl0 where sl0: "map_of (co_slots c) s = Some sl0" using Cons.prems(3) sa by fastforce
  note left = cancelled_slot_left [OF sl0 step]
  have d: "distinct (map fst sas)" "s \<notin> fst ` set sas" using Cons.prems(1) by (simp_all add: sa)
  have "map_of (co_slots c1) s' \<noteq> None" if "(s', a') \<in> set sas" for s' a'
    using Cons.prems(3) left(1) left(2) [of s'] that by (cases "s' = s") auto
  then have there: "\<forall>(s, a) \<in> set sas. map_of (co_slots c1) s \<noteq> None" by blast
  show ?case
  proof (cases "sid = s")
    case True
    with left(1) sl0 Cons.prems(2) obtain sl1 where sl1: "map_of (co_slots c1) sid = Some sl1"
      "left_of (wb_intent_ids (ab_batch a)) None sl sl1" by auto
    moreover have "map_of sas sid = None" using d(2) True by (simp add: map_of_eq_None_iff)
    ultimately show ?thesis using Cons.IH [OF d(1) sl1(1) there rest] True by (simp add: sa)
  next
    case False
    with left(2) Cons.prems(2) have "map_of (co_slots c1) sid = Some sl" by simp
    from Cons.IH [OF d(1) this there rest] False show ?thesis by (simp add: sa)
  qed
qed

lemma cancelled_queued_left:
  assumes "map_of (co_slots c) sid = Some sl" and "opt_fold cancel_queued_intent js (c, msgs) = Some (c', msgs')"
  shows "\<exists>sl'. map_of (co_slots c') sid = Some sl' \<and> left_of [] (ss_active sl) sl sl'"
  using assms
proof (induction js arbitrary: c msgs sl)
  case Nil
  then show ?case by (simp add: left_of_def)
next
  case (Cons j js)
  from Cons.prems(2) obtain c1 msgs1 where step: "cancel_queued_intent j (c, msgs) = Some (c1, msgs1)"
    and rest: "opt_fold cancel_queued_intent js (c1, msgs1) = Some (c', msgs')"
    by (auto split: option.splits)
  obtain w where "map_of (co_intents c) j = Some w"
    using step by (cases "map_of (co_intents c) j") (simp_all add: cancel_queued_intent_def)
  with step have "c1 = modify_slot (wi_slot_id w) (remove_queued j) (set_intent_state j (ICancelled ''run_cancelled'') c)"
    by (simp add: cancel_queued_intent_def)
  with Cons.prems(1) obtain sl1 where sl1: "map_of (co_slots c1) sid = Some sl1" "sl1 = sl \<or> sl1 = remove_queued j sl"
    by (cases "sid = wi_slot_id w") auto
  from Cons.IH [OF sl1(1) rest] obtain sl' where sl': "map_of (co_slots c') sid = Some sl'"
    "left_of [] (ss_active sl1) sl1 sl'" by blast
  have "subseq (queue p sl1) (queue p sl)" for p using sl1(2) by auto
  with sl'(2) sl1(2) have "left_of [] (ss_active sl) sl sl'"
    unfolding left_of_def by (auto intro: subseq_order.trans)
  with sl'(1) show ?case by blast
qed

text \<open>The batch a slot gives up when a run is cancelled: its current one, if the run has a part in it.\<close>

definition shared_batch :: "coordinator \<Rightarrow> ident \<Rightarrow> slot_state \<Rightarrow> active_batch option" where
  "shared_batch c run_id slot =
     (case ss_active slot of None \<Rightarrow> None | Some a \<Rightarrow> if batch_touches_run c run_id a then Some a else None)"

lemma active_slots_of_run_lookup:
  assumes wf: "bt_wf (co_slots c)" and slot: "map_of (co_slots c) sid = Some slot"
  shows "map_of (active_slots_of_run c run_id) sid = shared_batch c run_id slot"
proof (cases "shared_batch c run_id slot")
  case None
  have "(sid, a) \<notin> set (active_slots_of_run c run_id)" for a
    using None slot by (auto simp: active_slots_of_run_iff [OF wf] shared_batch_def)
  then show ?thesis using None by (auto simp: map_of_eq_None_iff)
next
  case (Some a)
  then have "(sid, a) \<in> set (active_slots_of_run c run_id)"
    using slot by (auto simp: active_slots_of_run_iff [OF wf] shared_batch_def split: option.splits if_splits)
  with Some active_slots_of_run_sound(1) [OF wf, of run_id] show ?thesis by (simp add: map_of_eq_Some_iff)
qed

lemma cancel_run_slot_left:
  assumes inv: "coord_inv c" and run: "cancel_run port run_id c r = Some (res, c', r')"
    and slot: "map_of (co_slots c) sid = Some slot"
  shows "\<exists>slot'. map_of (co_slots c') sid = Some slot' \<and>
    left_of (case shared_batch c run_id slot of None \<Rightarrow> [] | Some a \<Rightarrow> wb_intent_ids (ab_batch a))
      (case shared_batch c run_id slot of None \<Rightarrow> ss_active slot | Some a \<Rightarrow> None) slot slot'"
proof -
  obtain c1 msgs1 c2 msgs2 js where
    one: "opt_fold (cancel_active_slot run_id) (active_slots_of_run c run_id) (c, []) = Some (c1, msgs1)"
    and two: "opt_fold cancel_queued_intent js (c1, msgs1) = Some (c2, msgs2)"
    and c': "co_slots c' = co_slots c2"
    using run by (auto simp: cancel_run_def Let_def split: option.splits)
  note wf = coord_invD(3) [OF inv]
  have there: "\<forall>(s, a) \<in> set (active_slots_of_run c run_id). map_of (co_slots c) s \<noteq> None"
    using active_slots_of_run_sound(2) [OF wf, of _ _ run_id] by fastforce
  obtain sl1 where sl1: "map_of (co_slots c1) sid = Some sl1"
    "case shared_batch c run_id slot of None \<Rightarrow> sl1 = slot | Some a \<Rightarrow> left_of (wb_intent_ids (ab_batch a)) None slot sl1"
    using cancelled_slots_left [OF active_slots_of_run_sound(1) [OF wf] slot there one]
    by (auto simp: active_slots_of_run_lookup [OF wf slot])
  obtain slot' where slot': "map_of (co_slots c2) sid = Some slot'" "left_of [] (ss_active sl1) sl1 slot'"
    using cancelled_queued_left [OF sl1(1) two] by blast
  with sl1(2) show ?thesis
    by (cases "shared_batch c run_id slot") (auto simp: c' left_of_def intro: subseq_order.trans)
qed

text \<open>The queues after the cancellation, exactly.\<close>

lemma cancel_run_queues:
  assumes inv: "coord_inv c" and run: "cancel_run port run_id c r = Some (res, c', r')" and inv': "coord_inv c'"
    and states: "\<And>i. map_of (co_intents c') i = map_option (\<lambda>w. w\<lparr>wi_state := g w\<rparr>) (map_of (co_intents c) i)"
    and slot: "map_of (co_slots c) sid = Some slot"
  shows "\<exists>slot'. map_of (co_slots c') sid = Some slot' \<and>
    ss_active slot' = (case shared_batch c run_id slot of None \<Rightarrow> ss_active slot | Some a \<Rightarrow> None) \<and>
    (\<forall>p. queue p slot' = filter (\<lambda>i. \<exists>w. map_of (co_intents c') i = Some w \<and> wi_state w = IQueued \<and> wi_priority w = p)
       ((case shared_batch c run_id slot of None \<Rightarrow> [] | Some a \<Rightarrow> wb_intent_ids (ab_batch a)) @ queue p slot))"
proof -
  let ?front = "case shared_batch c run_id slot of None \<Rightarrow> [] | Some a \<Rightarrow> wb_intent_ids (ab_batch a)"
  have ok: "slot_ok (co_session_generation c) (slot_view (co_intents c) sid) sid (Some slot)"
    using coord_invD(4) [OF inv, of sid] slot by simp
  obtain slot' where slot': "map_of (co_slots c') sid = Some slot'"
    and act: "ss_active slot' = (case shared_batch c run_id slot of None \<Rightarrow> ss_active slot | Some a \<Rightarrow> None)"
    and sub: "\<And>p. subseq (queue p slot') (?front @ queue p slot)"
    using cancel_run_slot_left [OF inv run slot] by (auto simp: left_of_def)
  have ok': "slot_ok (co_session_generation c') (slot_view (co_intents c') sid) sid (Some slot')"
    using coord_invD(4) [OF inv', of sid] slot' by simp
  have batch: "\<exists>a. ss_active slot = Some a \<and> i \<in> set (wb_intent_ids (ab_batch a))" if "i \<in> set ?front" for i
    using that by (auto simp: shared_batch_def split: option.splits if_splits)
  have mine: "\<exists>w. map_of (co_intents c) i = Some w \<and> wi_slot_id w = sid" if "i \<in> set (?front @ queue p slot)" for i p
    using that batch [of i] slot_ok_active [OF ok] slot_ok_queue [OF ok, of i p] by (fastforce simp: slot_view_iff)
  have "distinct ?front"
    using slot_ok_batch_distinct [OF ok] by (auto simp: shared_batch_def split: option.splits)
  moreover have "set ?front \<inter> set (queue p slot) = {}" for p
    using batch batch_not_queued [OF ok] by fastforce
  ultimately have d: "distinct (?front @ queue p slot)" for p
    using slot_ok_distinct [OF ok, of p] by simp
  have "queue p slot' = filter (\<lambda>i. \<exists>w. map_of (co_intents c') i = Some w \<and> wi_state w = IQueued \<and> wi_priority w = p)
       (?front @ queue p slot)" for p
  proof -
    have "queue p slot' = filter (\<lambda>i. i \<in> set (queue p slot')) (?front @ queue p slot)"
      by (rule subseq_is_filter [OF sub d, symmetric])
    also have "\<dots> = filter (\<lambda>i. \<exists>w. map_of (co_intents c') i = Some w \<and> wi_state w = IQueued \<and> wi_priority w = p)
       (?front @ queue p slot)"
    proof (rule filter_cong [OF refl])
      fix i assume "i \<in> set (?front @ queue p slot)"
      from mine [OF this] have "map_of (co_intents c') i = Some w \<Longrightarrow> wi_slot_id w = sid" for w
        by (auto simp: states)
      then show "i \<in> set (queue p slot') \<longleftrightarrow>
          (\<exists>w. map_of (co_intents c') i = Some w \<and> wi_state w = IQueued \<and> wi_priority w = p)"
        unfolding slot_ok_queue [OF ok'] slot_view_iff by blast
    qed
    finally show ?thesis .
  qed
  with slot' act show ?thesis by blast
qed

end
