(* ===== verification/Work_Claims_Control.thy ===== *)
theory Work_Claims_Control
  imports Work_Claims_Queue Work_Requeue
begin

text \<open>
  Properties of the operations that end or hold up work: cancelling a run, stopping the
  session, removing and pausing a slot, runtime constraints, and the start of a turn that
  came too late. The run-level ones also state what the team run manager makes of them.
\<close>

subsection \<open>Runs\<close>

text \<open>C16: When a run ends. A published summary of an active run ends it exactly when an intent
  of the run has failed, whatever else is still going on, or every intent of the run has ended
  and no enqueue lease of the run is open. A failed intent makes it \<open>Failed\<close>; else, when
  all is done, it is \<open>Cancelled\<close> if it was being cancelled and \<open>Completed\<close> if not; else it is
  \<open>Running\<close>, even if it was being cancelled, when an intent of it is in a running turn, and
  stays what it was when none is.\<close>

theorem run_ends_exactly_when_work_is_done:
  assumes run: "tm_state m = Some run" "tr_team_run_id run = run_id" "run_is_active run"
    and m': "m' = apply_work_summary now clock (run_summary_locked c run_id) m"
  shows "(current_active_run_id m' = None \<longleftrightarrow>
      (\<exists>w \<in> set (intents_of_run c run_id). is_failed (wi_state w)) \<or>
      (\<forall>w \<in> set (intents_of_run c run_id). is_terminal (wi_state w)) \<and> leases_of_run c run_id = []) \<and>
    map_option tr_status (tm_state m') = Some
      (if \<exists>w \<in> set (intents_of_run c run_id). is_failed (wi_state w) then RunFailed
       else if (\<forall>w \<in> set (intents_of_run c run_id). is_terminal (wi_state w)) \<and> leases_of_run c run_id = []
       then (if tr_status run = RunCancelling then RunCancelled else RunCompleted)
       else if \<exists>w \<in> set (intents_of_run c run_id). is_some (running_batch_id (wi_state w)) then RunRunning
       else tr_status run)"
proof -
  let ?s = "run_summary_locked c run_id"
  have id: "rs_team_run_id ?s = run_id"
    and failed: "rs_failed_intent_count ?s > 0 \<longleftrightarrow> (\<exists>w \<in> set (intents_of_run c run_id). is_failed (wi_state w))"
    and running: "rs_running_batch_count ?s > 0 \<longleftrightarrow>
      (\<exists>w \<in> set (intents_of_run c run_id). is_some (running_batch_id (wi_state w)))"
    by (auto simp: run_summary_locked_def Let_def filter_empty_conv map_filter_Nil_iff)
  have m'_is: "tm_state m' = Some ((summary_status now ?s (run\<lparr>tr_summary := Some ?s\<rparr>))\<lparr>tr_accepted_emitted := True\<rparr>)"
    using run(1,2) id by (simp add: m' apply_work_summary_state)
  have status: "map_option tr_status (tm_state m') = Some
      (if \<exists>w \<in> set (intents_of_run c run_id). is_failed (wi_state w) then RunFailed
       else if (\<forall>w \<in> set (intents_of_run c run_id). is_terminal (wi_state w)) \<and> leases_of_run c run_id = []
       then (if tr_status run = RunCancelling then RunCancelled else RunCompleted)
       else if \<exists>w \<in> set (intents_of_run c run_id). is_some (running_batch_id (wi_state w)) then RunRunning
       else tr_status run)"
    unfolding m'_is summary_status_def failed running run_summary_idle_iff by simp
  have "current_active_run_id m' = None \<longleftrightarrow>
      (\<exists>w \<in> set (intents_of_run c run_id). is_failed (wi_state w)) \<or>
      (\<forall>w \<in> set (intents_of_run c run_id). is_terminal (wi_state w)) \<and> leases_of_run c run_id = []"
    using status run(3) by (auto simp: m'_is current_active_run_id_def run_is_active_def split: if_splits)
  with status show ?thesis by blast
qed

lemma run_ends_exactly_when_work_is_done_witness:
  "map_option tr_status (tm_state (apply_work_summary 7 (\<lambda>n. 7) (run_summary_locked demo_claimed ''run'')
     (snd (bind_user_enqueue ''run'' ''s1'' RoleLead (team_run_manager_new ''team''))))) = Some RunAccepted"
proof -
  let ?m = "snd (bind_user_enqueue ''run'' ''s1'' RoleLead (team_run_manager_new ''team''))"
  obtain run where run: "tm_state ?m = Some run" "tr_team_run_id run = ''run''" "run_is_active run" "tr_status run = RunAccepted"
    by (simp add: bind_user_enqueue_def team_run_manager_new_def run_is_active_def)
  have intents: "intents_of_run demo_claimed ''run'' = [demo_intent (IStarting ''b1'' 1)]"
    by (simp add: intents_of_run_def demo_claimed_def demo_intent_def)
  show ?thesis
    using run_ends_exactly_when_work_is_done [OF run(1-3) refl, of 7 "\<lambda>n. 7" demo_claimed] run(4)
    by (simp add: intents demo_intent_def)
qed

text \<open>C15: Cancelling a run ends all of its work and nothing else. In a consistent coordinator
  \<open>cancel_run\<close> returns; every live intent of the run is cancelled, no lease of the run stays
  open, intents of other runs that shared a batch with it go back to queued, and no other
  intent changes. A slot whose batch had a part in the run has no batch in flight any more,
  and its queues are, in order, what is left of that batch and then what is left of the queue,
  each intent in the queue of its priority; the other slots keep their batch and lose from
  their queues the intents of the run. With the run manager behind the port the run is then over, and if it was
  being cancelled and none of its intents failed its status is \<open>Cancelled\<close>.\<close>

theorem cancel_run_ends_all_work_of_run:
  assumes inv: "coord_inv c"
  shows "\<exists>res c' n' m'. cancel_run (manager_port gid now clock) run_id c (n, m) = Some (res, c', (n', m')) \<and>
    (\<forall>i. map_of (co_intents c') i = map_option (\<lambda>w. w\<lparr>wi_state :=
       (if is_terminal (wi_state w) then wi_state w
        else if wi_team_run_id w = Some run_id then ICancelled ''run_cancelled''
        else if wi_state w \<noteq> IQueued \<and>
          (case map_of (co_slots c) (wi_slot_id w) of None \<Rightarrow> False
           | Some slot \<Rightarrow> (case ss_active slot of None \<Rightarrow> False | Some a \<Rightarrow> batch_touches_run c run_id a))
        then IQueued else wi_state w)\<rparr>) (map_of (co_intents c) i)) \<and>
    leases_of_run c' run_id = [] \<and>
    (\<forall>s slot. map_of (co_slots c) s = Some slot \<longrightarrow> (\<exists>slot'. map_of (co_slots c') s = Some slot' \<and>
       ss_active slot' = (case shared_batch c run_id slot of None \<Rightarrow> ss_active slot | Some a \<Rightarrow> None) \<and>
       (\<forall>p. queue p slot' =
         filter (\<lambda>i. \<exists>w. map_of (co_intents c') i = Some w \<and> wi_state w = IQueued \<and> wi_priority w = p)
           ((case shared_batch c run_id slot of None \<Rightarrow> [] | Some a \<Rightarrow> wb_intent_ids (ab_batch a)) @ queue p slot)))) \<and>
    current_active_run_id m' \<noteq> Some run_id \<and>
    (\<forall>run. tm_state m = Some run \<longrightarrow> tr_team_run_id run = run_id \<longrightarrow> tr_status run = RunCancelling \<longrightarrow>
       (\<forall>w \<in> set (intents_of_run c' run_id). \<not> is_failed (wi_state w)) \<longrightarrow>
       map_option tr_status (tm_state m') = Some RunCancelled)"
proof -
  obtain res c' r' where eff: "cancel_run (manager_port gid now clock) run_id c (n, m) = Some (res, c', r')"
    "coord_inv c'" "leases_of_run c' run_id = []"
    "r' = apply_summary (manager_port gid now clock) (run_summary_locked c' run_id) (n, m)"
    "\<And>i. map_of (co_intents c') i = map_option (\<lambda>w. w\<lparr>wi_state := cancelled_by_run c run_id w\<rparr>) (map_of (co_intents c) i)"
    using cancel_run_effect [OF inv, of "manager_port gid now clock" run_id "(n, m)"] by blast
  obtain n' m' where r': "r' = (n', m')" by fastforce
  have over: "current_active_run_id m' \<noteq> Some run_id"
    using manager.cancel_run_ends_run [OF inv eff(1)] r' by simp
  have "is_terminal (wi_state w)" if w: "w \<in> set (intents_of_run c' run_id)" for w
  proof -
    obtain i where "map_of (co_intents c') i = Some w" "wi_team_run_id w = Some run_id"
      using w coord_inv_hm_wf [OF eff(2)] by (force simp: intents_of_run_def map_of_eq_Some_iff)
    then show ?thesis
      unfolding eff(5) by (auto simp: cancelled_by_run_def)
  qed
  then have idle: "summary_idle (run_summary_locked c' run_id)"
    using eff(3) by (simp add: run_summary_idle_iff)
  have m': "m' = apply_work_summary (now n) (clock n) (run_summary_locked c' run_id) m"
    using eff(4) r' by (simp add: manager_port_def)
  have "map_option tr_status (tm_state m') = Some RunCancelled"
    if "tm_state m = Some run" "tr_team_run_id run = run_id" "tr_status run = RunCancelling"
      "\<forall>w \<in> set (intents_of_run c' run_id). \<not> is_failed (wi_state w)" for run
  proof -
    have "rs_failed_intent_count (run_summary_locked c' run_id) = 0" "rs_team_run_id (run_summary_locked c' run_id) = run_id"
      using that(4) by (simp_all add: run_summary_locked_def Let_def filter_empty_conv)
    then show ?thesis
      using that(1-3) idle by (simp add: m' apply_work_summary_state summary_status_def)
  qed
  moreover note cancel_run_queues [OF inv eff(1,2,5)]
  ultimately show ?thesis
    using eff(1,3,5) over unfolding r' cancelled_by_run_def by blast
qed

lemma cancel_run_ends_all_work_of_run_witness:
  "\<exists>res c' r'. cancel_run (manager_port (\<lambda>n. ''x'') (\<lambda>n. 7) (\<lambda>n k. 7)) ''run'' demo_claimed
       (0, team_run_manager_new ''team'') = Some (res, c', r') \<and>
     map_of (co_intents c') ''i1'' = Some (demo_intent (ICancelled ''run_cancelled''))"
proof -
  have "map_of (co_intents demo_claimed) ''i1'' = Some (demo_intent (IStarting ''b1'' 1))"
    by (simp add: demo_claimed_def)
  with cancel_run_ends_all_work_of_run [OF reachable_coord_inv [OF demo_reachable_claimed],
      of "\<lambda>n. ''x''" "\<lambda>n. 7" "\<lambda>n k. 7" "''run''" 0 "team_run_manager_new ''team''"]
  show ?thesis by (auto simp: demo_intent_def)
qed

text \<open>A user message always has a run. Enqueueing a user-visible request, when the slot accepts
  it, yields a lease bound to the team's active run: the one there was, or else a new one
  under the generated id; a slot that refuses the request starts no run.\<close>

theorem user_message_joins_or_starts_run:
  assumes "rq_binding rq = UserVisible"
    and "acquire_enqueue (manager_port gid now clock) lid rq c (n, m) = (res, c', (n', m'))"
  shows "case res of
      Inl e \<Rightarrow> m' = m
    | Inr lease \<Rightarrow> le_team_run_id lease = current_active_run_id m' \<and>
        current_active_run_id m' = (case current_active_run_id m of None \<Rightarrow> Some (gid n) | Some run \<Rightarrow> Some run)"
proof (cases res)
  case (Inl e)
  with assms show ?thesis
    by (auto simp: acquire_enqueue_def Let_def split: option.splits prod.splits)
next
  case (Inr lease)
  have bound: "is_some (current_active_run_id m') \<and> le_team_run_id lease = current_active_run_id m' \<and>
      (is_some (current_active_run_id m) \<longrightarrow> current_active_run_id m' = current_active_run_id m)"
    using manager.acquire_user_visible [OF assms(2) [unfolded Inr] assms(1)] by simp
  have "current_active_run_id m' = Some (gid n)" if "current_active_run_id m = None"
    using assms Inr that
    by (auto simp: acquire_enqueue_def Let_def manager_port_def manager_bind_enqueue_def bind_user_enqueue_def
        current_active_run_id_def run_is_active_def split: option.splits if_splits)
  with bound Inr show ?thesis
    by (cases "current_active_run_id m") auto
qed

lemma user_message_joins_or_starts_run_witness:
  "\<exists>lease c' n' m'. acquire_enqueue (manager_port (\<lambda>n. ''run'') (\<lambda>n. 7) (\<lambda>n k. 7)) ''l1'' demo_request demo_ready
     (0, team_run_manager_new ''team'') = (Inr lease, c', (n', m')) \<and> current_active_run_id m' = Some ''run''"
proof -
  let ?port = "manager_port (\<lambda>n. ''run'') (\<lambda>n. 7) (\<lambda>n k. 7)"
  obtain res c' n' m' where res: "acquire_enqueue ?port ''l1'' demo_request demo_ready (0, team_run_manager_new ''team'')
      = (res, c', (n', m'))"
    by (cases "acquire_enqueue ?port ''l1'' demo_request demo_ready (0, team_run_manager_new ''team'')") auto
  have uv: "rq_binding demo_request = UserVisible" by (simp add: demo_request_def)
  have "\<exists>lease. res = Inr lease"
    using res by (auto simp: acquire_enqueue_def Let_def demo_request_def demo_ready_def slot_entry_def demo_slot_def
        validate_enqueue_constraint_def split: prod.splits)
  with user_message_joins_or_starts_run [OF uv res] res show ?thesis
    by (auto simp: current_active_run_id_def team_run_manager_new_def)
qed

subsection \<open>Ending and pausing work\<close>

text \<open>After \<open>stop\<close> the session is over: every intent has ended (the live ones as cancelled,
  the others unchanged), no lease is open, every slot is empty, idle and stopped, so that no
  slot has a batch to claim; and with the run manager behind the port none of the runs that
  had work or leases is active any more.\<close>

theorem stop_ends_session:
  assumes "stop (manager_port gid now clock) c (n, m) = (sums, c', (n', m'))"
  shows "(\<forall>i. map_of (co_intents c') i = map_option (\<lambda>w. if is_terminal (wi_state w) then w
       else w\<lparr>wi_state := ICancelled ''session_stopped''\<rparr>) (map_of (co_intents c) i)) \<and>
    co_enqueue_leases c' = [] \<and>
    (\<forall>s slot. map_of (co_slots c') s = Some slot \<longrightarrow>
       queued_ids slot = [] \<and> ss_active slot = None \<and> ss_runtime_constraint slot = SessionStopped) \<and>
    (\<forall>(port :: 'p run_port) batch_id s r b. fst (next_work port batch_id s c' r) \<noteq> Claim b) \<and>
    (\<forall>run \<in> set (all_run_ids c). current_active_run_id m' \<noteq> Some run)"
proof -
  have c': "co_intents c' = map (\<lambda>(i, w). (i, if is_terminal (wi_state w) then w
      else w\<lparr>wi_state := ICancelled ''session_stopped''\<rparr>)) (co_intents c)" "co_enqueue_leases c' = []"
    "co_slots c' = map (\<lambda>(s, sl). (s, (clear_slot sl)\<lparr>ss_runtime_constraint := SessionStopped\<rparr>)) (co_slots c)"
    using assms by (auto simp: stop_def Let_def)
  have lookup: "map_of (map (\<lambda>(i, w). (i, k w)) xs) j = map_option k (map_of xs j)"
    for k :: "'x \<Rightarrow> 'x" and xs :: "(ident \<times> 'x) list" and j
    by (induction xs) auto
  have slots: "queued_ids slot = [] \<and> ss_active slot = None \<and> ss_runtime_constraint slot = SessionStopped"
    if "map_of (co_slots c') s = Some slot" for s slot
    using that unfolding c'(3) lookup by (auto simp: clear_slot_def queued_ids_def)
  have no_claim: "fst (next_work port batch_id s c' r) \<noteq> Claim b" for port :: "'p run_port" and batch_id s r b
    using slots [of s] by (auto simp: next_work_def split: option.split)
  show ?thesis
    using slots no_claim manager.stop_ends_runs [OF assms] by (simp add: c'(1,2) lookup)
qed

lemma stop_ends_session_witness:
  "\<exists>sums c' n' m'. stop (manager_port (\<lambda>n. ''x'') (\<lambda>n. 7) (\<lambda>n k. 7)) demo_claimed (0, team_run_manager_new ''team'')
      = (sums, c', (n', m')) \<and> map_of (co_intents c') ''i1'' = Some (demo_intent (ICancelled ''session_stopped''))"
proof -
  let ?port = "manager_port (\<lambda>n. ''x'') (\<lambda>n. 7) (\<lambda>n k. 7)"
  obtain sums c' n' m' where s: "stop ?port demo_claimed (0, team_run_manager_new ''team'') = (sums, c', (n', m'))"
    by (cases "stop ?port demo_claimed (0, team_run_manager_new ''team'')") auto
  from stop_ends_session [OF this]
  have "map_of (co_intents c') ''i1'' = map_option (\<lambda>w. if is_terminal (wi_state w) then w
       else w\<lparr>wi_state := ICancelled ''session_stopped''\<rparr>) (map_of (co_intents demo_claimed) ''i1'')" by blast
  with s show ?thesis
    by (simp add: demo_claimed_def demo_intent_def)
qed

text \<open>Removing a slot cancels all of its live work and no one else's, empties the slot and marks
  it removed, so that it takes no further work; and it reports the message of each intent it
  cancelled, those of the batch in flight first and then in queue order.\<close>

theorem remove_slot_cancels_its_work:
  assumes inv: "coord_inv c" and slot: "map_of (co_slots c) sid = Some slot"
  shows "\<exists>res c' r' slot'. remove_slot port sid c r = Some (res, c', r') \<and>
    (\<forall>i. map_of (co_intents c') i = map_option (\<lambda>w. if wi_slot_id w = sid \<and> \<not> is_terminal (wi_state w)
       then w\<lparr>wi_state := ICancelled ''slot_removed''\<rparr> else w) (map_of (co_intents c) i)) \<and>
    map_of (co_slots c') sid = Some slot' \<and> ss_removed slot' \<and> ss_active slot' = None \<and>
    (\<forall>p. queue p slot' = []) \<and> validate_enqueue_constraint sid slot' \<noteq> None \<and>
    (\<forall>s. s \<noteq> sid \<longrightarrow> map_of (co_slots c') s = map_of (co_slots c) s) \<and>
    rr_terminal_message_ids res = batch_message_ids c
      ((case ss_active slot of None \<Rightarrow> [] | Some a \<Rightarrow> wb_intent_ids (ab_batch a)) @ queued_ids slot)"
proof -
  obtain res c' r' where eff: "remove_slot port sid c r = Some (res, c', r')"
    "\<And>i. map_of (co_intents c') i = map_option (\<lambda>w. if wi_slot_id w = sid \<and> \<not> is_terminal (wi_state w)
        then w\<lparr>wi_state := ICancelled ''slot_removed''\<rparr> else w) (map_of (co_intents c) i)"
    "co_slots c' = co_slots (modify_slot sid (\<lambda>sl. (clear_slot sl)\<lparr>ss_removed := True\<rparr>) c)"
    "rr_terminal_message_ids res = batch_message_ids c (removal_order c sid)"
    using remove_slot_effect [OF inv, of port sid r] by blast
  let ?ordered = "(case ss_active slot of None \<Rightarrow> [] | Some a \<Rightarrow> wb_intent_ids (ab_batch a)) @ queued_ids slot"
  note ok = slot_ok_of [OF inv slot]
  have "wi_intent_id w \<in> set ?ordered"
    if w: "w \<in> set (map snd (co_intents c))" "wi_slot_id w = sid" "\<not> is_terminal (wi_state w)" for w
  proof -
    obtain i where "(i, w) \<in> set (co_intents c)" using w(1) by auto
    then have i: "map_of (co_intents c) i = Some w"
      using coord_inv_hm_wf [OF inv] by (simp add: map_of_eq_Some_iff)
    then have "wi_intent_id w = i" using coord_invD(1) [OF inv] by (simp add: intents_wf_def)
    moreover have "i \<in> set ?ordered"
    proof (cases "wi_state w = IQueued")
      case True
      then show ?thesis
        using queued_owner [OF inv i] slot w(2) by (auto simp: set_queued_ids)
    next
      case False
      then show ?thesis
        using in_flight_owner [OF inv i] slot w(2,3) by auto
    qed
    ultimately show ?thesis by simp
  qed
  then have none: "filter (\<lambda>w. wi_slot_id w = sid \<and> \<not> is_terminal (wi_state w) \<and> wi_intent_id w \<notin> set ?ordered)
      (map snd (co_intents c)) = []"
    unfolding filter_empty_conv by blast
  have "removal_order c sid = ?ordered"
    unfolding removal_order_def slot Let_def option.case none by simp
  then have "rr_terminal_message_ids res = batch_message_ids c ?ordered"
    using eff(4) by simp
  moreover have "map_of (co_slots c') sid = Some ((clear_slot slot)\<lparr>ss_removed := True\<rparr>)"
    "\<And>s. s \<noteq> sid \<Longrightarrow> map_of (co_slots c') s = map_of (co_slots c) s"
    using slot by (simp_all add: eff(3))
  ultimately show ?thesis
    using eff(1,2) by (intro exI [of _ res] exI [of _ c'] exI [of _ r'] exI [of _ "(clear_slot slot)\<lparr>ss_removed := True\<rparr>"])
      (simp add: validate_enqueue_constraint_def)
qed

lemma remove_slot_cancels_its_work_witness:
  "\<exists>res c'. remove_slot demo_port ''s1'' demo_claimed () = Some (res, c', ()) \<and> rr_terminal_message_ids res = [''m1'']"
proof -
  obtain slot where slot: "map_of (co_slots demo_claimed) ''s1'' = Some slot"
    "ss_active slot = Some \<lparr>ab_batch = demo_batch, ab_turn_id = None, ab_started_at_ms = None\<rparr>" "queued_ids slot = []"
    by (simp add: demo_claimed_def demo_slot_def queued_ids_def)
  have "batch_message_ids demo_claimed [''i1''] = [''m1'']"
    by (simp add: batch_message_ids_def demo_claimed_def demo_intent_def List.map_filter_simps)
  with remove_slot_cancels_its_work [OF reachable_coord_inv [OF demo_reachable_claimed] slot(1), of demo_port "()"] slot(2,3)
  show ?thesis by (fastforce simp: demo_batch_def)
qed

text \<open>When a slot's runtime fails, the live intents of the slot that belong to a run fail with
  the given classification, its background ones go back to the queue, whatever state they
  were in, and nothing else changes; the slot has no batch in flight and none can be claimed
  from it until the constraint is lifted.\<close>

theorem runtime_failure_fails_run_work:
  assumes inv: "coord_inv c"
  shows "\<exists>res c' r' slot'. set_runtime_constraint port sid (Failed op cl) c r = Some (res, c', r') \<and> coord_inv c' \<and>
    (\<forall>i. map_of (co_intents c') i = map_option (\<lambda>w. if wi_slot_id w = sid \<and> \<not> is_terminal (wi_state w)
       then w\<lparr>wi_state := (if wi_team_run_id w = None then IQueued else IFailed cl)\<rparr> else w) (map_of (co_intents c) i)) \<and>
    map_of (co_slots c') sid = Some slot' \<and> ss_active slot' = None \<and> ss_runtime_constraint slot' = Failed op cl \<and>
    (\<forall>s. s \<noteq> sid \<longrightarrow> map_of (co_slots c') s = map_of (co_slots c) s) \<and>
    (\<forall>batch_id. next_work port batch_id sid c' r' = (BlockedBy (Failed op cl), c', r'))"
proof -
  obtain res c' r' slot' where eff: "set_runtime_constraint port sid (Failed op cl) c r = Some (res, c', r')" "coord_inv c'"
    "\<And>i. map_of (co_intents c') i = map_option (constrained_intent sid (Failed op cl)) (map_of (co_intents c) i)"
    "map_of (co_slots c') sid = Some slot'" "ss_runtime_constraint slot' = Failed op cl" "ss_active slot' = None"
    "\<And>s. s \<noteq> sid \<Longrightarrow> map_of (co_slots c') s = map_of (co_slots c) s"
    using set_runtime_constraint_effect [OF inv, of port sid "Failed op cl" r] by (auto simp: ends_work_def)
  have "constrained_intent sid (Failed op cl) = (\<lambda>w. if wi_slot_id w = sid \<and> \<not> is_terminal (wi_state w)
       then w\<lparr>wi_state := (if wi_team_run_id w = None then IQueued else IFailed cl)\<rparr> else w)"
    by (rule ext) (simp add: constrained_intent_def constrained_state_def ends_work_def)
  moreover have "next_work port batch_id sid c' r' = (BlockedBy (Failed op cl), c', r')" for batch_id
    using eff(4-6) by (simp add: next_work_def)
  ultimately show ?thesis
    using eff by (intro exI [of _ res] exI [of _ c'] exI [of _ r'] exI [of _ slot']) simp
qed

lemma runtime_failure_fails_run_work_witness:
  "\<exists>res c' r'. set_runtime_constraint demo_port ''s1'' (Failed 2 ''crash'') demo_claimed () = Some (res, c', r') \<and>
     map_of (co_intents c') ''i1'' = Some (demo_intent (IFailed ''crash''))"
proof -
  have "map_of (co_intents demo_claimed) ''i1'' = Some (demo_intent (IStarting ''b1'' 1))"
    by (simp add: demo_claimed_def)
  with runtime_failure_fails_run_work [OF reachable_coord_inv [OF demo_reachable_claimed], of demo_port "''s1''" 2 "''crash''" "()"]
  show ?thesis by (auto simp: demo_intent_def)
qed

text \<open>The verdict on a turn that has started. If the batch is the slot's current one, its
  intents become \<open>Running\<close> under that turn and the turn is to be cancelled at once exactly
  when the slot was paused or its runtime became unavailable meanwhile. If it is not, nothing
  changes, and the turn is to be cancelled at once exactly when all of its intents have been
  cancelled; else its owner is stale.\<close>

theorem start_verdict:
  assumes "mark_started port now b turn_id c r = (verdict, c', r')"
  shows "if is_current_batch c b
    then (\<exists>slot. map_of (co_slots c) (wb_slot_id b) = Some slot \<and>
            verdict = (if ss_paused slot \<or> ss_runtime_constraint slot \<noteq> Ready then CancelImmediately else StartAccepted)) \<and>
         (\<forall>i. map_of (co_intents c') i = (if i \<in> set (wb_intent_ids b)
            then map_option (\<lambda>w. w\<lparr>wi_state := IRunning (wb_batch_id b) (wb_operation_id b) turn_id\<rparr>) (map_of (co_intents c) i)
            else map_of (co_intents c) i)) \<and> is_current_batch c' b
    else c' = c \<and> r' = r \<and> verdict \<noteq> StartAccepted \<and>
         (verdict = CancelImmediately \<longleftrightarrow> (\<forall>i \<in> set (wb_intent_ids b). \<exists>w cl. map_of (co_intents c) i = Some w \<and> wi_state w = ICancelled cl))"
proof (cases "is_current_batch c b")
  case True
  then obtain slot a where slot: "map_of (co_slots c) (wb_slot_id b) = Some slot" "ss_active slot = Some a"
    by (auto simp: is_current_batch_def split: option.splits)
  let ?f = "\<lambda>sl. sl\<lparr>ss_active := map_option (\<lambda>a. a\<lparr>ab_turn_id := Some turn_id, ab_started_at_ms := Some now\<rparr>) (ss_active sl)\<rparr>"
  have c': "c' = modify_slot (wb_slot_id b) ?f (fold (\<lambda>i. set_intent_state i
      (IRunning (wb_batch_id b) (wb_operation_id b) turn_id)) (wb_intent_ids b) c)"
    and v: "verdict = (if ss_paused slot \<or> ss_runtime_constraint slot \<noteq> Ready then CancelImmediately else StartAccepted)"
    using assms True slot by (auto simp: mark_started_def Let_def)
  have ints: "map_of (co_intents c') i = (if i \<in> set (wb_intent_ids b)
      then map_option (\<lambda>w. w\<lparr>wi_state := IRunning (wb_batch_id b) (wb_operation_id b) turn_id\<rparr>) (map_of (co_intents c) i)
      else map_of (co_intents c) i)" for i
    unfolding c' slot_update_frame map_of_fold_set_intent_state ..
  have "map_of (co_slots c') (wb_slot_id b) = Some (?f slot)" "co_session_generation c' = co_session_generation c"
    unfolding c' using slot by simp_all
  then have "is_current_batch c' b"
    using True slot by (simp add: is_current_batch_def)
  with True slot v ints show ?thesis by simp
next
  case False
  have cancelled: "(case wi_state w of ICancelled _ \<Rightarrow> True | _ \<Rightarrow> False) \<longleftrightarrow> (\<exists>cl. wi_state w = ICancelled cl)" for w
    by (cases "wi_state w") auto
  have "list_all (\<lambda>i. case map_of (co_intents c) i of None \<Rightarrow> False
      | Some w \<Rightarrow> (case wi_state w of ICancelled _ \<Rightarrow> True | _ \<Rightarrow> False)) (wb_intent_ids b) \<longleftrightarrow>
      (\<forall>i \<in> set (wb_intent_ids b). \<exists>w cl. map_of (co_intents c) i = Some w \<and> wi_state w = ICancelled cl)"
    unfolding list_all_iff cancelled by (intro ball_cong refl) (auto split: option.split)
  with False assms show ?thesis
    by (simp add: mark_started_def split: if_splits)
qed

lemma start_verdict_witness:
  "\<exists>c' r'. mark_started demo_port 8 demo_batch ''t1'' demo_claimed () = (StartAccepted, c', r') \<and> is_current_batch c' demo_batch"
proof -
  obtain v c' r' where s: "mark_started demo_port 8 demo_batch ''t1'' demo_claimed () = (v, c', r')"
    by (cases "mark_started demo_port 8 demo_batch ''t1'' demo_claimed ()") auto
  note res = start_verdict [OF s, unfolded if_P [OF demo_current]]
  then have v: "v = StartAccepted"
    by (simp add: demo_claimed_def demo_batch_def demo_slot_def)
  show ?thesis
    using s [unfolded v] res by (intro exI conjI) blast+
qed

text \<open>A paused slot holds its work. Pausing changes no intent; until it is resumed the slot
  hands out no batch and a turn of its current batch that starts is to be cancelled, while
  work keeps being queued; committing an enqueue leaves the slot paused for every source but
  a user's message or intervention, which resumes it. The batch in flight is the cancel
  target reported.\<close>

theorem paused_slot_holds_work:
  assumes "pause_slot sid c = Some (res, c1)"
  shows "co_intents c1 = co_intents c \<and>
    pr_cancel_target res = (case map_of (co_slots c) sid of None \<Rightarrow> None | Some slot \<Rightarrow> cancel_target_of slot) \<and>
    (\<forall>b. fst (next_work port batch_id sid c1 r) \<noteq> Claim b) \<and>
    (\<forall>b. wb_slot_id b = sid \<longrightarrow> is_current_batch c1 b \<longrightarrow> fst (mark_started port now b turn c1 r) = CancelImmediately) \<and>
    (\<forall>lease i msg out c2 r2. le_slot_id lease = sid \<longrightarrow> commit_enqueue port i now lease msg c1 r = (Inr out, c2, r2) \<longrightarrow>
       (\<exists>slot2. map_of (co_slots c2) sid = Some slot2 \<and> ss_paused slot2 = (le_source lease \<notin> {UserMessage, UserIntervention})))"
proof -
  let ?slot = "(slot_entry sid RoleTeammate c)\<lparr>ss_paused := True\<rparr>"
  have c1: "c1 = put_slot sid ?slot c" and t: "pr_cancel_target res = cancel_target_of ?slot"
    using assms by (auto simp: pause_slot_def Let_def split: option.splits)
  have slot1: "map_of (co_slots c1) sid = Some ?slot" by (simp add: c1)
  have target: "pr_cancel_target res = (case map_of (co_slots c) sid of None \<Rightarrow> None | Some slot \<Rightarrow> cancel_target_of slot)"
    by (simp add: t cancel_target_of_def slot_entry_def slot_state_new_def split: option.split)
  have claim: "fst (next_work port batch_id sid c1 r) \<noteq> Claim b" for b
    using slot1 by (simp add: next_work_def)
  have start: "fst (mark_started port now b turn c1 r) = CancelImmediately"
    if "wb_slot_id b = sid" "is_current_batch c1 b" for b
    using that slot1 by (simp add: mark_started_def Let_def)
  have commit: "\<exists>slot2. map_of (co_slots c2) sid = Some slot2 \<and> ss_paused slot2 = (le_source lease \<notin> {UserMessage, UserIntervention})"
    if l: "le_slot_id lease = sid" and e: "commit_enqueue port i now lease msg c1 r = (Inr out, c2, r2)"
    for lease i msg out c2 r2
    using e
  proof (rule commit_enqueue_success)
    fix rec slot
    assume "map_of (co_slots c1) (le_slot_id lease) = Some slot"
      "c2 = put_slot (le_slot_id lease) (enqueued_slot lease i msg slot)
       (c1\<lparr>co_enqueue_leases := hm_remove (le_lease_id lease) (co_enqueue_leases c1),
          co_intents := hm_insert i (enqueued_intent c1 lease i now msg) (co_intents c1)\<rparr>)"
    then show ?thesis
      using slot1 l by (cases "le_source lease") (auto simp: enqueued_slot_simps resumes_paused_slot_def)
  qed
  have "co_intents c1 = co_intents c" by (simp add: c1)
  with target claim start commit show ?thesis by blast
qed

lemma paused_slot_holds_work_witness:
  "\<exists>res c1. pause_slot ''s1'' demo_claimed = Some (res, c1) \<and>
     pr_cancel_target res = Some \<lparr>bc_batch = demo_batch, bc_turn_id = None\<rparr>"
proof -
  obtain res c1 where p: "pause_slot ''s1'' demo_claimed = Some (res, c1)"
    using pause_slot_inv [OF reachable_coord_inv [OF demo_reachable_claimed], of "''s1''"] by blast
  have "map_of (co_slots demo_claimed) ''s1'' = Some (demo_slot [] (Some \<lparr>ab_batch = demo_batch, ab_turn_id = None, ab_started_at_ms = None\<rparr>) {''m1''})"
    by (simp add: demo_claimed_def)
  with p paused_slot_holds_work [OF p, of demo_port "''b''" "()" 3 "''t''"] show ?thesis
    by (simp add: cancel_target_of_def demo_slot_def)
qed

end
