(* ===== verification/Team_Run_Claims.thy ===== *)
theory Team_Run_Claims
  imports Run_Causality
begin

text \<open>
  Properties of the team run manager on its own: which events a run produces over its life,
  and how a cancellation that was asked for ends.
\<close>

subsection \<open>The manager as a state machine\<close>

text \<open>
  Each public operation is a step. A new run id is one that no event has carried yet, which
  is what \<open>generate_id\<close> guarantees for ids it has not returned before.
\<close>

inductive manager_step :: "team_run_manager \<Rightarrow> team_run_manager \<Rightarrow> bool" where
  bind: "(\<And>ev p. (ev, p) \<in> set (tm_events m) \<Longrightarrow> py_team_run_id p \<noteq> run_id) \<Longrightarrow>
     manager_bind_enqueue run_id rq m = (b, m') \<Longrightarrow> manager_step m m'"
| abort: "manager_abort_binding b m = m' \<Longrightarrow> manager_step m m'"
| summary: "apply_work_summary now clock s m = m' \<Longrightarrow> manager_step m m'"
| begin_cancel: "begin_cancel clock run_id reason m = (res, m') \<Longrightarrow> manager_step m m'"
| publish: "publish_snapshot_update clock sn m = m' \<Longrightarrow> manager_step m m'"

inductive_cases manager_stepE: "manager_step m m'"

definition accepted_count :: "ident \<Rightarrow> team_run_manager \<Rightarrow> nat" where
  "accepted_count run_id m =
     length (filter (\<lambda>(ev, p). ev = EvAccepted \<and> py_team_run_id p = run_id) (tm_events m))"

definition events_ok :: "team_run_manager \<Rightarrow> bool" where
  "events_ok m \<longleftrightarrow> (\<forall>x. accepted_count x m \<le> 1) \<and>
     (\<forall>run. tm_state m = Some run \<longrightarrow>
        accepted_count (tr_team_run_id run) m = (if tr_accepted_emitted run then 1 else 0))"

lemma accepted_count_broadcast [simp]:
  "accepted_count x (broadcast_team_run ev p m) =
     accepted_count x m + (if ev = EvAccepted \<and> py_team_run_id p = x then 1 else 0)"
  by (simp add: accepted_count_def broadcast_team_run_def)

lemma accepted_count_state [simp]: "accepted_count x (m\<lparr>tm_state := st\<rparr>) = accepted_count x m"
  by (simp add: accepted_count_def)

lemma broadcast_state [simp]: "tm_state (broadcast_team_run ev p m) = tm_state m"
  by (simp add: broadcast_team_run_def)

lemma payload_run_id [simp]: "py_team_run_id (payload_locked clock m run s) = tr_team_run_id run"
  by (simp add: payload_locked_def)

lemma summary_status_accepted [simp]:
  "tr_accepted_emitted (summary_status now s run) = tr_accepted_emitted run"
  by (simp add: summary_status_def)

lemma summary_event_not_accepted: "summary_event old new \<noteq> EvAccepted"
  by (simp add: summary_event_def)

lemma accepted_count_fresh:
  "(\<And>ev p. (ev, p) \<in> set (tm_events m) \<Longrightarrow> py_team_run_id p \<noteq> x) \<Longrightarrow> accepted_count x m = 0"
  by (auto simp: accepted_count_def filter_empty_conv)

lemma events_ok_summary:
  assumes "events_ok m"
  shows "events_ok (apply_work_summary now clock s m)"
proof (cases "tm_state m")
  case None
  with assms show ?thesis by (simp add: apply_work_summary_def)
next
  case (Some run)
  show ?thesis
  proof (cases "tr_team_run_id run = rs_team_run_id s")
    case False
    with Some assms show ?thesis by (simp add: apply_work_summary_def)
  next
    case True
    let ?run1 = "summary_status now s (run\<lparr>tr_summary := Some s\<rparr>)"
    let ?ev = "if \<not> tr_accepted_emitted run then EvAccepted else summary_event (tr_status run) (tr_status ?run1)"
    let ?p = "payload_locked clock m (?run1\<lparr>tr_accepted_emitted := True\<rparr>) s"
    have m': "apply_work_summary now clock s m =
        broadcast_team_run ?ev ?p (m\<lparr>tm_state := Some (?run1\<lparr>tr_accepted_emitted := True\<rparr>)\<rparr>)"
      using Some True by (simp add: apply_work_summary_def Let_def)
    have "accepted_count (tr_team_run_id run) m = (if tr_accepted_emitted run then 1 else 0)"
      using assms Some by (simp add: events_ok_def)
    moreover have "accepted_count x m \<le> 1" for x
      using assms by (simp add: events_ok_def)
    ultimately show ?thesis
      unfolding m' events_ok_def by (auto simp: summary_event_not_accepted)
  qed
qed

lemma events_ok_bind_user:
  assumes "events_ok m" and "accepted_count run_id m = 0" and "bind_user_enqueue run_id sid role m = (b, m')"
  shows "events_ok m'"
proof (cases "\<exists>run. tm_state m = Some run \<and> run_is_active run")
  case True
  then obtain run where "tm_state m = Some run" "run_is_active run" by blast
  with assms(3) have "m' = m\<lparr>tm_state := Some (run\<lparr>tr_has_user_intervention := True\<rparr>)\<rparr>"
    by (simp add: bind_user_enqueue_def Let_def)
  with \<open>tm_state m = Some run\<close> assms(1) show ?thesis by (simp add: events_ok_def)
next
  case False
  with assms(3) obtain run where "m' = m\<lparr>tm_state := Some run\<rparr>" "tr_team_run_id run = run_id" "\<not> tr_accepted_emitted run"
    by (auto simp: bind_user_enqueue_def Let_def split: option.splits)
  with assms(1,2) show ?thesis by (simp add: events_ok_def)
qed

lemma manager_step_events_ok:
  assumes "manager_step m m'" and "events_ok m"
  shows "events_ok m'"
  using assms(1)
proof cases
  case (bind run_id rq b)
  show ?thesis
  proof (cases "rq_binding rq")
    case UserVisible
    with bind(2) show ?thesis
      using events_ok_bind_user [OF assms(2) accepted_count_fresh [OF bind(1)]]
      by (simp add: manager_bind_enqueue_def)
  qed (use bind(2) assms(2) in \<open>simp_all add: manager_bind_enqueue_def\<close>)
next
  case (abort b)
  then have "m' = m \<or> m' = m\<lparr>tm_state := None\<rparr>"
    by (auto simp: manager_abort_binding_def split: option.splits if_splits)
  with assms(2) show ?thesis by (auto simp: events_ok_def)
next
  case (summary now clock s)
  with assms(2) show ?thesis using events_ok_summary by blast
next
  case (begin_cancel clock run_id reason res)
  with assms(2) show ?thesis
    by (auto simp: begin_cancel_def Let_def events_ok_def split: option.splits if_splits)
next
  case (publish clock sn)
  with assms(2) show ?thesis
    by (auto simp: publish_snapshot_update_def events_ok_def split: option.splits team_run_status.splits)
qed

text \<open>Every run is announced at most once. Whatever operations the manager goes through, from a
  fresh manager on, no run id has more than one \<open>team.runAccepted\<close> event, and the current
  run has had its event exactly when its record says so.\<close>

theorem run_accepted_announced_once:
  assumes "manager_step\<^sup>*\<^sup>* (team_run_manager_new team_id) m"
  shows "accepted_count run_id m \<le> 1 \<and>
    (\<forall>run. tm_state m = Some run \<longrightarrow> tr_accepted_emitted run = (accepted_count (tr_team_run_id run) m = 1))"
proof -
  have "events_ok m"
    using assms
  proof (induction rule: rtranclp_induct)
    case base
    then show ?case by (simp add: events_ok_def accepted_count_def team_run_manager_new_def)
  qed (rule manager_step_events_ok)
  then show ?thesis by (simp add: events_ok_def)
qed

lemma run_accepted_announced_once_witness:
  "accepted_count ''run'' (apply_work_summary 7 (\<lambda>n. 7) (empty_summary ''run'')
     (snd (bind_user_enqueue ''run'' ''s1'' RoleLead (team_run_manager_new ''team'')))) \<le> 1"
proof -
  let ?m0 = "team_run_manager_new ''team''"
  let ?m1 = "snd (bind_user_enqueue ''run'' ''s1'' RoleLead ?m0)"
  let ?rq = "\<lparr>rq_slot_id = ''s1'', rq_role = RoleLead, rq_source = UserMessage, rq_binding = UserVisible\<rparr>"
  have "manager_bind_enqueue ''run'' ?rq ?m0 = (fst (bind_user_enqueue ''run'' ''s1'' RoleLead ?m0), ?m1)"
    by (simp add: manager_bind_enqueue_def)
  then have "manager_step ?m0 ?m1"
    by (rule manager_step.bind [rotated]) (simp add: team_run_manager_new_def)
  moreover have "manager_step ?m1 (apply_work_summary 7 (\<lambda>n. 7) (empty_summary ''run'') ?m1)"
    by (rule manager_step.summary [OF refl])
  ultimately have "manager_step\<^sup>*\<^sup>* ?m0 (apply_work_summary 7 (\<lambda>n. 7) (empty_summary ''run'') ?m1)"
    by simp
  from run_accepted_announced_once [OF this] show ?thesis by blast
qed

subsection \<open>How a cancellation ends\<close>

lemma apply_summary_live:
  assumes "tm_state m = Some run" and "tr_team_run_id run = rs_team_run_id s"
    and "rs_failed_intent_count s = 0" and "\<not> summary_idle s"
  shows "\<exists>run'. tm_state (apply_work_summary now clock s m) = Some run' \<and> tr_team_run_id run' = tr_team_run_id run \<and>
     tr_status run' = (if rs_running_batch_count s > 0 then RunRunning else tr_status run)"
  using assms by (simp add: apply_work_summary_state summary_status_def)

definition publish_all ::
  "timestamp \<Rightarrow> (nat \<Rightarrow> timestamp) \<Rightarrow> run_work_summary list \<Rightarrow> team_run_manager \<Rightarrow> team_run_manager" where
  "publish_all now clock ss m = fold (apply_work_summary now clock) ss m"

lemma live_summaries_status:
  assumes "tm_state m = Some run" and "tr_team_run_id run = x"
    and "\<And>s. s \<in> set ss \<Longrightarrow> rs_team_run_id s = x \<and> rs_failed_intent_count s = 0 \<and> \<not> summary_idle s"
  shows "\<exists>run'. tm_state (publish_all now clock ss m) = Some run' \<and> tr_team_run_id run' = x \<and>
     tr_status run' = (if \<exists>s \<in> set ss. rs_running_batch_count s > 0 then RunRunning else tr_status run)"
  using assms unfolding publish_all_def
proof (induction ss arbitrary: m run)
  case (Cons s ss)
  obtain run1 where run1: "tm_state (apply_work_summary now clock s m) = Some run1" "tr_team_run_id run1 = x"
    "tr_status run1 = (if rs_running_batch_count s > 0 then RunRunning else tr_status run)"
    using apply_summary_live [OF Cons.prems(1), of s now clock] Cons.prems(2,3) by auto
  from Cons.IH [OF run1(1,2)] Cons.prems(3) run1(3) show ?case by auto
qed simp

text \<open>How a run that is being cancelled ends. Once \<open>begin_cancel\<close> has succeeded, and no intent of
  the run fails, the summary that shows no outstanding work ends the run as \<open>Cancelled\<close> if no
  summary in between showed a running batch. One that did puts the run back to \<open>Running\<close>,
  and it then ends as \<open>Completed\<close>: the request to cancel is forgotten.\<close>

theorem cancelling_run_ends:
  assumes "begin_cancel clock run_id reason m = (Inr (), m1)"
    and "\<And>s. s \<in> set ss \<Longrightarrow> rs_team_run_id s = run_id \<and> rs_failed_intent_count s = 0 \<and> \<not> summary_idle s"
    and "rs_team_run_id last_s = run_id" "rs_failed_intent_count last_s = 0" "summary_idle last_s"
  shows "\<exists>run. tm_state (apply_work_summary now clock last_s (publish_all now clock ss m1)) = Some run \<and>
    tr_team_run_id run = run_id \<and>
    tr_status run = (if \<exists>s \<in> set ss. rs_running_batch_count s > 0 then RunCompleted else RunCancelled)"
proof -
  obtain run where run: "tm_state m1 = Some run" "tr_team_run_id run = run_id" "tr_status run = RunCancelling"
    using assms(1) by (auto simp: begin_cancel_def Let_def split: option.splits if_splits)
  have "\<exists>run'. tm_state (publish_all now clock ss m1) = Some run' \<and> tr_team_run_id run' = run_id \<and>
     tr_status run' = (if \<exists>s \<in> set ss. rs_running_batch_count s > 0 then RunRunning else tr_status run)"
    by (rule live_summaries_status [OF run(1,2) assms(2)])
  then obtain run' where "tm_state (publish_all now clock ss m1) = Some run'" "tr_team_run_id run' = run_id"
     "tr_status run' = (if \<exists>s \<in> set ss. rs_running_batch_count s > 0 then RunRunning else RunCancelling)"
    unfolding run(3) by blast
  then show ?thesis
    using assms(3-5) by (auto simp: apply_work_summary_state summary_status_def)
qed

lemma cancelling_run_ends_witness:
  "\<exists>run. tm_state (apply_work_summary 7 (\<lambda>n. 7) (empty_summary ''run'')
      (publish_all 7 (\<lambda>n. 7) [(empty_summary ''run'')\<lparr>rs_running_batch_count := 1\<rparr>]
        (snd (begin_cancel (\<lambda>n. 7) ''run'' None
          (snd (bind_user_enqueue ''run'' ''s1'' RoleLead (team_run_manager_new ''team'')))))))
     = Some run \<and> tr_status run = RunCompleted"
proof -
  let ?m = "snd (bind_user_enqueue ''run'' ''s1'' RoleLead (team_run_manager_new ''team''))"
  have "begin_cancel (\<lambda>n. 7) ''run'' None ?m = (Inr (), snd (begin_cancel (\<lambda>n. 7) ''run'' None ?m))"
    by (simp add: begin_cancel_def Let_def bind_user_enqueue_def team_run_manager_new_def run_is_active_def)
  from cancelling_run_ends [OF this, of "[(empty_summary ''run'')\<lparr>rs_running_batch_count := 1\<rparr>]" "empty_summary ''run''" 7]
  show ?thesis by (auto simp: empty_summary_def summary_idle_def)
qed

subsection \<open>What a summary makes of a run\<close>

text \<open>Whether a run is active after a summary of it depends on the summary first: a failed
  intent or no outstanding work ends it, a running batch makes it active whatever its status
  was, and any other summary leaves it active or ended as it was. So the status of an ended
  run is not final: the coordinator publishes after it has released its lock, and a summary
  with a running batch that arrives after the last one revives the run.\<close>

theorem active_after_summary:
  assumes "tm_state m = Some run" and "tr_team_run_id run = rs_team_run_id s"
  shows "current_active_run_id (apply_work_summary now clock s m) =
    (if rs_failed_intent_count s = 0 \<and> \<not> summary_idle s \<and> (rs_running_batch_count s > 0 \<or> run_is_active run)
     then Some (tr_team_run_id run) else None)"
  using assms
  by (simp add: current_active_run_id_def apply_work_summary_state summary_status_def run_is_active_def)

lemma active_after_summary_witness:
  "current_active_run_id (apply_work_summary 7 (\<lambda>n. 7) ((empty_summary ''run'')\<lparr>rs_running_batch_count := 1\<rparr>)
     (apply_work_summary 7 (\<lambda>n. 7) (empty_summary ''run'')
       (snd (bind_user_enqueue ''run'' ''s1'' RoleLead (team_run_manager_new ''team''))))) = Some ''run''"
proof -
  let ?m1 = "apply_work_summary 7 (\<lambda>n. 7) (empty_summary ''run'')
     (snd (bind_user_enqueue ''run'' ''s1'' RoleLead (team_run_manager_new ''team'')))"
  let ?s = "(empty_summary ''run'')\<lparr>rs_running_batch_count := 1\<rparr>"
  obtain run where run: "tm_state ?m1 = Some run" "tr_team_run_id run = rs_team_run_id ?s"
    by (simp add: apply_work_summary_state bind_user_enqueue_def Let_def team_run_manager_new_def empty_summary_def)
  then have "tr_team_run_id run = ''run''" by (simp add: empty_summary_def)
  with active_after_summary [OF run] show ?thesis
    by (simp add: empty_summary_def summary_idle_def)
qed

end
