(* ===== verification/Member_Runtime.thy ===== *)
theory Member_Runtime
  imports Team_Prelude
begin

text \<open>
  The member runtime registry (crates/team/src/member_runtime.rs): for each agent of a
  session whether its runtime is attaching, ready, failed or being removed, who owns the
  operation in progress, and the channel on which others wait for its outcome.

  The channels are \<open>tokio::sync::watch\<close>, a library outside the repository: their operations
  are the argument \<open>tk\<close> over a channel store \<open>'w\<close>, and \<open>watch_laws\<close> is what the code relies
  on of their documented behaviour (a new channel is fresh and holds its initial value,
  \<open>send_replace\<close> sets the value of its channel and of no other). A channel is closed when its
  senders are gone; the registry's entries hold the only lasting ones.
\<close>

subsection \<open>Outcomes and channels\<close>

record member_failure =
  mf_classification :: string
  mf_public_reason :: string

datatype attach_outcome = OutReady | OutFailed member_failure | OutRemoved | OutSessionStopped

datatype attach_signal = SigPending | SigTerminal attach_outcome

record ('c, 'w) watch_ops =
  watch_channel :: "attach_signal \<Rightarrow> 'w \<Rightarrow> 'c \<times> 'w"
  watch_send_replace :: "'c \<Rightarrow> attach_signal \<Rightarrow> 'w \<Rightarrow> 'w"
  watch_borrow :: "'c \<Rightarrow> 'w \<Rightarrow> attach_signal"
  watch_open :: "'w \<Rightarrow> 'c set" \<comment> \<open>the channels created so far\<close>

definition watch_laws :: "('c, 'w) watch_ops \<Rightarrow> bool" where
  "watch_laws tk \<longleftrightarrow>
     (\<forall>v w c w'. watch_channel tk v w = (c, w') \<longrightarrow>
        c \<notin> watch_open tk w \<and> watch_open tk w' = insert c (watch_open tk w) \<and> watch_borrow tk c w' = v \<and>
        (\<forall>d \<in> watch_open tk w. watch_borrow tk d w' = watch_borrow tk d w)) \<and>
     (\<forall>c v w. watch_open tk (watch_send_replace tk c v w) = watch_open tk w \<and>
        (c \<in> watch_open tk w \<longrightarrow> watch_borrow tk c (watch_send_replace tk c v w) = v) \<and>
        (\<forall>d. d \<noteq> c \<longrightarrow> watch_borrow tk d (watch_send_replace tk c v w) = watch_borrow tk d w))"

subsection \<open>Leases, entries, the registry\<close>

record 'c attach_waiter =
  aw_operation_id :: nat
  aw_channel :: 'c

record 'c attach_lease =
  al_session_generation :: ident
  al_agent_id :: ident
  al_waiter :: "'c attach_waiter"

record remove_lease =
  rl_session_generation :: ident
  rl_agent_id :: ident
  rl_operation_id :: nat

datatype 'c reserve_attach_reply =
    AttachStart "'c attach_lease"
  | AttachJoin "'c attach_waiter"
  | AttachAlreadyReady
  | AttachRemoving "'c attach_waiter"
  | AttachSessionStopped

datatype 'c begin_remove_reply =
    RemoveStart remove_lease
  | RemoveJoin "'c attach_waiter"
  | RemoveAbsent
  | RemoveSessionStopped

datatype member_snapshot =
    SnapAbsent
  | SnapAttaching nat
  | SnapReady
  | SnapFailed nat member_failure
  | SnapRemoving nat
  | SnapSessionStopped

datatype 'c member_entry =
    EntAttaching nat 'c
  | EntReady
  | EntFailed nat member_failure 'c
  | EntRemoving nat 'c

record ('c, 'w) registry =
  mr_session_generation :: ident
  mr_next_operation_id :: nat
  mr_entries :: "'c member_entry hash_map"
  mr_stopped :: bool
  mr_world :: 'w \<comment> \<open>the store behind the channels\<close>

definition registry_new :: "ident \<Rightarrow> 'w \<Rightarrow> ('c, 'w) registry" where
  "registry_new generation w =
     \<lparr>mr_session_generation = generation, mr_next_operation_id = 1, mr_entries = [],
      mr_stopped = False, mr_world = w\<rparr>"

text \<open>\<open>AttachWaiter::wait\<close>, polled once: an outcome, or \<open>None\<close> while it keeps waiting.\<close>

fun entry_channel :: "'c member_entry \<Rightarrow> 'c option" where
  "entry_channel (EntAttaching _ ch) = Some ch"
| "entry_channel EntReady = None"
| "entry_channel (EntFailed _ _ ch) = Some ch"
| "entry_channel (EntRemoving _ ch) = Some ch"

definition sender_held :: "('c, 'w) registry \<Rightarrow> 'c \<Rightarrow> bool" where
  "sender_held reg ch \<longleftrightarrow> list_ex (\<lambda>e. entry_channel e = Some ch) (map snd (mr_entries reg))"

definition wait_poll :: "('c, 'w) watch_ops \<Rightarrow> ('c, 'w) registry \<Rightarrow> 'c attach_waiter \<Rightarrow> attach_outcome option" where
  "wait_poll tk reg aw =
     (case watch_borrow tk (aw_channel aw) (mr_world reg) of
        SigTerminal outcome \<Rightarrow> Some outcome
      | SigPending \<Rightarrow> if sender_held reg (aw_channel aw) then None else Some OutSessionStopped)"

subsection \<open>Operations\<close>

definition seed_ready :: "ident \<Rightarrow> ('c, 'w) registry \<Rightarrow> bool \<times> ('c, 'w) registry" where
  "seed_ready agent reg =
     (if mr_stopped reg then (False, reg)
      else case hm_get (mr_entries reg) agent of
        None \<Rightarrow> (True, reg\<lparr>mr_entries := hm_insert agent EntReady (mr_entries reg)\<rparr>)
      | Some EntReady \<Rightarrow> (True, reg)
      | Some _ \<Rightarrow> (False, reg))"

text \<open>\<open>next_operation_id\<close>: the old value of the counter, which wraps.\<close>

definition registry_next_operation_id :: "('c, 'w) registry \<Rightarrow> nat \<times> ('c, 'w) registry" where
  "registry_next_operation_id reg =
     (mr_next_operation_id reg,
      reg\<lparr>mr_next_operation_id := u64_wrapping_add (mr_next_operation_id reg) 1\<rparr>)"

text \<open>The three places that start an attach run the same code.\<close>

definition start_attach ::
  "('c, 'w) watch_ops \<Rightarrow> ident \<Rightarrow> ('c, 'w) registry \<Rightarrow> 'c reserve_attach_reply \<times> ('c, 'w) registry" where
  "start_attach tk agent reg =
     (let (operation_id, reg1) = registry_next_operation_id reg;
          (ch, w) = watch_channel tk SigPending (mr_world reg1)
      in (AttachStart \<lparr>al_session_generation = mr_session_generation reg, al_agent_id = agent,
            al_waiter = \<lparr>aw_operation_id = operation_id, aw_channel = ch\<rparr>\<rparr>,
          reg1\<lparr>mr_world := w,
               mr_entries := hm_insert agent (EntAttaching operation_id ch) (mr_entries reg1)\<rparr>))"

definition reserve_attach ::
  "('c, 'w) watch_ops \<Rightarrow> ident \<Rightarrow> bool \<Rightarrow> ('c, 'w) registry \<Rightarrow> 'c reserve_attach_reply \<times> ('c, 'w) registry" where
  "reserve_attach tk agent retry_failed reg =
     (if mr_stopped reg then (AttachSessionStopped, reg)
      else case hm_get (mr_entries reg) agent of
        Some (EntAttaching op ch) \<Rightarrow> (AttachJoin \<lparr>aw_operation_id = op, aw_channel = ch\<rparr>, reg)
      | Some EntReady \<Rightarrow> (AttachAlreadyReady, reg)
      | Some (EntFailed op _ ch) \<Rightarrow>
          if \<not> retry_failed then (AttachJoin \<lparr>aw_operation_id = op, aw_channel = ch\<rparr>, reg)
          else start_attach tk agent reg
      | Some (EntRemoving op ch) \<Rightarrow> (AttachRemoving \<lparr>aw_operation_id = op, aw_channel = ch\<rparr>, reg)
      | None \<Rightarrow> start_attach tk agent reg)"

definition reserve_repair ::
  "('c, 'w) watch_ops \<Rightarrow> ident \<Rightarrow> ('c, 'w) registry \<Rightarrow> 'c reserve_attach_reply \<times> ('c, 'w) registry" where
  "reserve_repair tk agent reg =
     (if mr_stopped reg then (AttachSessionStopped, reg)
      else case hm_get (mr_entries reg) agent of
        Some (EntAttaching op ch) \<Rightarrow> (AttachJoin \<lparr>aw_operation_id = op, aw_channel = ch\<rparr>, reg)
      | Some EntReady \<Rightarrow> start_attach tk agent reg
      | Some (EntFailed op _ ch) \<Rightarrow> (AttachJoin \<lparr>aw_operation_id = op, aw_channel = ch\<rparr>, reg)
      | Some (EntRemoving op ch) \<Rightarrow> (AttachRemoving \<lparr>aw_operation_id = op, aw_channel = ch\<rparr>, reg)
      | None \<Rightarrow> start_attach tk agent reg)"

definition owns_attach :: "'c attach_lease \<Rightarrow> ('c, 'w) registry \<Rightarrow> bool" where
  "owns_attach lease reg \<longleftrightarrow>
     al_session_generation lease = mr_session_generation reg \<and> \<not> mr_stopped reg \<and>
     (case hm_get (mr_entries reg) (al_agent_id lease) of
        Some (EntAttaching op _) \<Rightarrow> op = aw_operation_id (al_waiter lease)
      | _ \<Rightarrow> False)"

definition commit_ready ::
  "('c, 'w) watch_ops \<Rightarrow> 'c attach_lease \<Rightarrow> ('c, 'w) registry \<Rightarrow> bool \<times> ('c, 'w) registry" where
  "commit_ready tk lease reg =
     (if al_session_generation lease \<noteq> mr_session_generation reg then (False, reg)
      else if mr_stopped reg then (False, reg)
      else case hm_get (mr_entries reg) (al_agent_id lease) of
        Some (EntAttaching op ch) \<Rightarrow>
          if op \<noteq> aw_operation_id (al_waiter lease) then (False, reg)
          else (True, reg\<lparr>mr_entries := hm_insert (al_agent_id lease) EntReady (mr_entries reg),
                        mr_world := watch_send_replace tk ch (SigTerminal OutReady) (mr_world reg)\<rparr>)
      | _ \<Rightarrow> (False, reg))"

definition commit_failed ::
  "('c, 'w) watch_ops \<Rightarrow> 'c attach_lease \<Rightarrow> member_failure \<Rightarrow> ('c, 'w) registry \<Rightarrow> bool \<times> ('c, 'w) registry" where
  "commit_failed tk lease failure reg =
     (if al_session_generation lease \<noteq> mr_session_generation reg then (False, reg)
      else if mr_stopped reg then (False, reg)
      else case hm_get (mr_entries reg) (al_agent_id lease) of
        Some (EntAttaching op ch) \<Rightarrow>
          if op \<noteq> aw_operation_id (al_waiter lease) then (False, reg)
          else (True, reg\<lparr>mr_entries := hm_insert (al_agent_id lease)
                          (EntFailed (aw_operation_id (al_waiter lease)) failure ch) (mr_entries reg),
                        mr_world := watch_send_replace tk ch (SigTerminal (OutFailed failure)) (mr_world reg)\<rparr>)
      | _ \<Rightarrow> (False, reg))"

definition begin_remove ::
  "('c, 'w) watch_ops \<Rightarrow> ident \<Rightarrow> ('c, 'w) registry \<Rightarrow> 'c begin_remove_reply \<times> ('c, 'w) registry" where
  "begin_remove tk agent reg =
     (if mr_stopped reg then (RemoveSessionStopped, reg)
      else case hm_get (mr_entries reg) agent of
        Some (EntRemoving op ch) \<Rightarrow> (RemoveJoin \<lparr>aw_operation_id = op, aw_channel = ch\<rparr>, reg)
      | None \<Rightarrow> (RemoveAbsent, reg)
      | Some previous \<Rightarrow>
          let cancelled = (case previous of EntAttaching _ ch \<Rightarrow> Some ch | _ \<Rightarrow> None);
              (operation_id, reg1) =
                registry_next_operation_id (reg\<lparr>mr_entries := hm_remove agent (mr_entries reg)\<rparr>);
              (ch, w) = watch_channel tk SigPending (mr_world reg1);
              w1 = (case cancelled of None \<Rightarrow> w
                    | Some old \<Rightarrow> watch_send_replace tk old (SigTerminal OutRemoved) w)
          in (RemoveStart \<lparr>rl_session_generation = mr_session_generation reg, rl_agent_id = agent,
                rl_operation_id = operation_id\<rparr>,
              reg1\<lparr>mr_world := w1,
                   mr_entries := hm_insert agent (EntRemoving operation_id ch) (mr_entries reg1)\<rparr>))"

definition finish_remove ::
  "('c, 'w) watch_ops \<Rightarrow> remove_lease \<Rightarrow> ('c, 'w) registry \<Rightarrow> bool \<times> ('c, 'w) registry" where
  "finish_remove tk lease reg =
     (if rl_session_generation lease \<noteq> mr_session_generation reg then (False, reg)
      else if mr_stopped reg then (False, reg)
      else case hm_get (mr_entries reg) (rl_agent_id lease) of
        Some (EntRemoving op ch) \<Rightarrow>
          if op \<noteq> rl_operation_id lease then (False, reg)
          else (True, reg\<lparr>mr_entries := hm_remove (rl_agent_id lease) (mr_entries reg),
                        mr_world := watch_send_replace tk ch (SigTerminal OutRemoved) (mr_world reg)\<rparr>)
      | _ \<Rightarrow> (False, reg))"

definition restore_attach_required ::
  "('c, 'w) watch_ops \<Rightarrow> remove_lease \<Rightarrow> member_failure \<Rightarrow> ('c, 'w) registry \<Rightarrow> bool \<times> ('c, 'w) registry" where
  "restore_attach_required tk lease failure reg =
     (if rl_session_generation lease \<noteq> mr_session_generation reg then (False, reg)
      else if mr_stopped reg then (False, reg)
      else case hm_get (mr_entries reg) (rl_agent_id lease) of
        Some (EntRemoving op ch) \<Rightarrow>
          if op \<noteq> rl_operation_id lease then (False, reg)
          else (True, reg\<lparr>mr_entries := hm_insert (rl_agent_id lease)
                          (EntFailed (rl_operation_id lease) failure ch) (mr_entries reg),
                        mr_world := watch_send_replace tk ch (SigTerminal (OutFailed failure)) (mr_world reg)\<rparr>)
      | _ \<Rightarrow> (False, reg))"

definition member_snapshot_of :: "ident \<Rightarrow> ('c, 'w) registry \<Rightarrow> member_snapshot" where
  "member_snapshot_of agent reg =
     (if mr_stopped reg then SnapSessionStopped
      else case hm_get (mr_entries reg) agent of
        None \<Rightarrow> SnapAbsent
      | Some (EntAttaching op _) \<Rightarrow> SnapAttaching op
      | Some EntReady \<Rightarrow> SnapReady
      | Some (EntFailed op failure _) \<Rightarrow> SnapFailed op failure
      | Some (EntRemoving op _) \<Rightarrow> SnapRemoving op)"

fun stop_entry :: "('c, 'w) watch_ops \<Rightarrow> 'c member_entry \<Rightarrow> 'w \<Rightarrow> 'w" where
  "stop_entry tk (EntAttaching _ ch) w = watch_send_replace tk ch (SigTerminal OutSessionStopped) w"
| "stop_entry tk (EntRemoving _ ch) w = watch_send_replace tk ch (SigTerminal OutSessionStopped) w"
| "stop_entry tk EntReady w = w"
| "stop_entry tk (EntFailed _ _ _) w = w"

definition registry_stop :: "('c, 'w) watch_ops \<Rightarrow> ('c, 'w) registry \<Rightarrow> bool \<times> ('c, 'w) registry" where
  "registry_stop tk reg =
     (if mr_stopped reg then (False, reg)
      else (True, reg\<lparr>mr_stopped := True, mr_entries := [],
                    mr_world := fold (stop_entry tk) (map snd (mr_entries reg)) (mr_world reg)\<rparr>))"

end
