(* ===== verification/Member_Runtime_Claims.thy ===== *)
theory Member_Runtime_Claims
  imports Member_Runtime Owned_Commit
begin

text \<open>
  Properties of the member runtime registry: an attach or removal in progress has one owner,
  every waiter is told an outcome, an outcome is final, and a stopped registry stays so.
\<close>

subsection \<open>Reading the channel laws\<close>

lemma watch_channelD:
  assumes "watch_laws tk" and "watch_channel tk v w = (c, w')"
  shows "c \<notin> watch_open tk w" "watch_open tk w' = insert c (watch_open tk w)" "watch_borrow tk c w' = v"
    and "d \<in> watch_open tk w \<Longrightarrow> watch_borrow tk d w' = watch_borrow tk d w"
  using assms unfolding watch_laws_def by blast+

lemma watch_send [simp]:
  assumes "watch_laws tk"
  shows "watch_open tk (watch_send_replace tk c v w) = watch_open tk w"
    and "c \<in> watch_open tk w \<Longrightarrow> watch_borrow tk c (watch_send_replace tk c v w) = v"
    and "d \<noteq> c \<Longrightarrow> watch_borrow tk d (watch_send_replace tk c v w) = watch_borrow tk d w"
  using assms unfolding watch_laws_def by blast+

subsection \<open>The invariant\<close>

fun live_channel :: "'c member_entry \<Rightarrow> 'c option" where
  "live_channel (EntAttaching _ ch) = Some ch"
| "live_channel (EntRemoving _ ch) = Some ch"
| "live_channel EntReady = None"
| "live_channel (EntFailed _ _ _) = None"

lemma live_entry_channel: "live_channel e = Some ch \<Longrightarrow> entry_channel e = Some ch"
  by (cases e) auto

definition chans_ok ::
  "(ident \<rightharpoonup> 'c member_entry) \<Rightarrow> 'c set \<Rightarrow> ('c \<Rightarrow> attach_signal) \<Rightarrow> bool" where
  "chans_ok m chans sig \<longleftrightarrow>
     (\<forall>a e ch. m a = Some e \<longrightarrow> entry_channel e = Some ch \<longrightarrow>
        ch \<in> chans \<and> (sig ch = SigPending \<longleftrightarrow> live_channel e = Some ch)) \<and>
     (\<forall>a b e f ch. a \<noteq> b \<longrightarrow> m a = Some e \<longrightarrow> m b = Some f \<longrightarrow> live_channel e = Some ch \<longrightarrow>
        entry_channel f \<noteq> Some ch) \<and>
     (\<forall>ch \<in> chans. sig ch = SigPending \<longrightarrow> (\<exists>a e. m a = Some e \<and> live_channel e = Some ch))"

definition reg_inv :: "('c, 'w) watch_ops \<Rightarrow> ('c, 'w) registry \<Rightarrow> bool" where
  "reg_inv tk reg \<longleftrightarrow> hm_wf (mr_entries reg) \<and> (mr_stopped reg \<longrightarrow> mr_entries reg = []) \<and>
     chans_ok (map_of (mr_entries reg)) (watch_open tk (mr_world reg))
       (\<lambda>ch. watch_borrow tk ch (mr_world reg))"

text \<open>One entry changes. A live entry's channel is concluded; the new entry is concluded too, or
  live on a fresh channel.\<close>

lemma chans_ok_update:
  assumes ok: "chans_ok m chans sig"
    and keep: "\<And>d. d \<in> chans \<Longrightarrow> Option.bind (m a) live_channel \<noteq> Some d \<Longrightarrow> sig' d = sig d"
    and conclude: "\<And>d. Option.bind (m a) live_channel = Some d \<Longrightarrow> sig' d \<noteq> SigPending"
    and new: "case eo of None \<Rightarrow> chans' = chans
      | Some e \<Rightarrow> (case live_channel e of
          Some ch \<Rightarrow> ch \<notin> chans \<and> chans' = insert ch chans \<and> sig' ch = SigPending
        | None \<Rightarrow> chans' = chans \<and> (\<forall>ch. entry_channel e = Some ch \<longrightarrow>
            Option.bind (m a) live_channel = Some ch))"
  shows "chans_ok (m(a := eo)) chans' sig'"
proof -
  have ent: "\<And>b e ch. m b = Some e \<Longrightarrow> entry_channel e = Some ch \<Longrightarrow>
        ch \<in> chans \<and> (sig ch = SigPending \<longleftrightarrow> live_channel e = Some ch)"
    and dis: "\<And>b c e f ch. b \<noteq> c \<Longrightarrow> m b = Some e \<Longrightarrow> m c = Some f \<Longrightarrow> live_channel e = Some ch \<Longrightarrow>
        entry_channel f \<noteq> Some ch"
    and pend: "\<And>ch. ch \<in> chans \<Longrightarrow> sig ch = SigPending \<Longrightarrow> \<exists>b e. m b = Some e \<and> live_channel e = Some ch"
    using ok unfolding chans_ok_def by blast+
  have other: "ch \<in> chans \<and> Option.bind (m a) live_channel \<noteq> Some ch \<and> sig' ch = sig ch"
    if b: "b \<noteq> a" "m b = Some e" "entry_channel e = Some ch" for b e ch
  proof -
    have c: "ch \<in> chans" using ent b by blast
    moreover have nl: "Option.bind (m a) live_channel \<noteq> Some ch"
    proof
      assume "Option.bind (m a) live_channel = Some ch"
      then obtain f where "m a = Some f" "live_channel f = Some ch" by (cases "m a") auto
      with dis [of a b f e ch] b show False by blast
    qed
    ultimately show ?thesis using keep by blast
  qed
  have sub: "chans \<subseteq> chans'"
    using new by (auto split: option.splits)
  show ?thesis
    unfolding chans_ok_def
  proof (intro conjI allI impI ballI)
    fix b e ch assume be: "(m(a := eo)) b = Some e" "entry_channel e = Some ch"
    have "ch \<in> chans' \<and> (sig' ch = SigPending \<longleftrightarrow> live_channel e = Some ch)"
    proof (cases "b = a")
      case False
      with be have "m b = Some e" by simp
      with other [OF False this be(2)] ent [OF this be(2)] sub show ?thesis by auto
    next
      case True
      with be have eo: "eo = Some e" by simp
      show ?thesis
      proof (cases "live_channel e")
        case None
        with new eo be(2) have o: "Option.bind (m a) live_channel = Some ch" "chans' = chans" by auto
        then obtain f where "m a = Some f" "entry_channel f = Some ch"
          by (cases "m a") (auto dest: live_entry_channel)
        with ent o conclude None show ?thesis by auto
      next
        case (Some ch')
        with live_entry_channel be(2) have "ch' = ch" by fastforce
        with new eo Some show ?thesis by auto
      qed
    qed
    then show "ch \<in> chans'" "sig' ch = SigPending \<longleftrightarrow> live_channel e = Some ch" by blast+
  next
    fix b c e f ch
    assume bc: "b \<noteq> c" "(m(a := eo)) b = Some e" "(m(a := eo)) c = Some f" "live_channel e = Some ch"
    show "entry_channel f \<noteq> Some ch"
    proof
      assume f: "entry_channel f = Some ch"
      show False
      proof (cases "b = a")
        case True
        with bc have "m c = Some f" "c \<noteq> a" "eo = Some e" by auto
        with other [of c f ch] f new bc(4) show False by auto
      next
        case b: False
        show False
        proof (cases "c = a")
          case True
          with bc b have mb: "m b = Some e" "eo = Some f" by auto
          have o: "ch \<in> chans" "Option.bind (m a) live_channel \<noteq> Some ch"
            using other [OF b mb(1) live_entry_channel [OF bc(4)]] by auto
          show False
          proof (cases "live_channel f")
            case None
            with new mb(2) f o show False by auto
          next
            case (Some ch')
            with live_entry_channel f have "ch' = ch" by fastforce
            with new mb(2) Some o show False by auto
          qed
        next
          case False
          with b bc dis [of b c e f ch] f show False by auto
        qed
      qed
    qed
  next
    fix ch assume ch: "ch \<in> chans'" "sig' ch = SigPending"
    show "\<exists>b e. (m(a := eo)) b = Some e \<and> live_channel e = Some ch"
    proof (cases "ch \<in> chans")
      case True
      have nl: "Option.bind (m a) live_channel \<noteq> Some ch"
        using conclude ch(2) by blast
      with keep [OF True] ch(2) pend [OF True] obtain b e where "m b = Some e" "live_channel e = Some ch" by auto
      moreover from this nl have "b \<noteq> a" by auto
      ultimately show ?thesis by (intro exI [of _ b] exI [of _ e]) simp
    next
      case False
      with ch(1) new obtain e where "eo = Some e" "live_channel e = Some ch"
        by (auto split: option.splits)
      then show ?thesis by (intro exI [of _ a] exI [of _ e]) simp
    qed
  qed
qed

text \<open>What every operation owes: the invariant, and outcomes told stay told.\<close>

definition reg_evolves :: "('c, 'w) watch_ops \<Rightarrow> ('c, 'w) registry \<Rightarrow> ('c, 'w) registry \<Rightarrow> bool" where
  "reg_evolves tk reg reg' \<longleftrightarrow> reg_inv tk reg' \<and> mr_session_generation reg' = mr_session_generation reg \<and>
     watch_open tk (mr_world reg) \<subseteq> watch_open tk (mr_world reg') \<and>
     (\<forall>ch \<in> watch_open tk (mr_world reg). \<forall>out. watch_borrow tk ch (mr_world reg) = SigTerminal out \<longrightarrow>
        watch_borrow tk ch (mr_world reg') = SigTerminal out)"

lemma reg_evolves_refl: "reg_inv tk reg \<Longrightarrow> reg_evolves tk reg reg"
  by (simp add: reg_evolves_def)

lemma live_pending:
  assumes "reg_inv tk reg" and "map_of (mr_entries reg) a = Some e" and "live_channel e = Some ch"
  shows "ch \<in> watch_open tk (mr_world reg) \<and> watch_borrow tk ch (mr_world reg) = SigPending"
  using assms live_entry_channel [OF assms(3)] unfolding reg_inv_def chans_ok_def by blast

lemma conclude_evolves:
  assumes inv: "reg_inv tk reg" and laws: "watch_laws tk" and run: "\<not> mr_stopped reg"
    and e: "map_of (mr_entries reg) a = Some e" "live_channel e = Some ch"
    and eo: "case eo of None \<Rightarrow> True | Some e' \<Rightarrow> live_channel e' = None \<and> (\<forall>d. entry_channel e' = Some d \<longrightarrow> d = ch)"
    and m: "hm_wf m" "map_of m = (map_of (mr_entries reg))(a := eo)"
  shows "reg_evolves tk reg (reg\<lparr>mr_entries := m, mr_world := watch_send_replace tk ch (SigTerminal out) (mr_world reg)\<rparr>)"
proof -
  let ?w = "mr_world reg" and ?w' = "watch_send_replace tk ch (SigTerminal out) (mr_world reg)"
  note p = live_pending [OF inv e]
  have ok: "chans_ok (map_of (mr_entries reg)) (watch_open tk ?w) (\<lambda>ch. watch_borrow tk ch ?w)"
    using inv by (simp add: reg_inv_def)
  have old: "Option.bind (map_of (mr_entries reg) a) live_channel = Some ch" using e by simp
  have "chans_ok ((map_of (mr_entries reg))(a := eo)) (watch_open tk ?w') (\<lambda>ch. watch_borrow tk ch ?w')"
  proof (rule chans_ok_update [OF ok])
    fix d assume "d \<in> watch_open tk ?w" "Option.bind (map_of (mr_entries reg) a) live_channel \<noteq> Some d"
    then show "watch_borrow tk d ?w' = watch_borrow tk d ?w" using old laws by simp
  next
    fix d assume "Option.bind (map_of (mr_entries reg) a) live_channel = Some d"
    then show "watch_borrow tk d ?w' \<noteq> SigPending" using old laws p by simp
  next
    show "case eo of None \<Rightarrow> watch_open tk ?w' = watch_open tk ?w
      | Some e \<Rightarrow> (case live_channel e of
          Some ch \<Rightarrow> ch \<notin> watch_open tk ?w \<and> watch_open tk ?w' = insert ch (watch_open tk ?w) \<and> watch_borrow tk ch ?w' = SigPending
        | None \<Rightarrow> watch_open tk ?w' = watch_open tk ?w \<and> (\<forall>ch. entry_channel e = Some ch \<longrightarrow>
            Option.bind (map_of (mr_entries reg) a) live_channel = Some ch))"
      using eo old laws by (auto split: option.splits)
  qed
  moreover have "watch_borrow tk d ?w' = SigTerminal x" if "watch_borrow tk d ?w = SigTerminal x" for d x
    using that p laws by (cases "d = ch") auto
  ultimately show ?thesis
    using m run laws by (simp add: reg_evolves_def reg_inv_def)
qed

lemma start_evolves:
  assumes inv: "reg_inv tk reg" and laws: "watch_laws tk" and run: "\<not> mr_stopped reg"
    and e: "Option.bind (map_of (mr_entries reg) a) live_channel = None"
    and ch: "watch_channel tk SigPending (mr_world reg) = (ch, w')"
    and eo: "live_channel e' = Some ch"
    and m: "hm_wf m" "map_of m = (map_of (mr_entries reg))(a \<mapsto> e')"
  shows "reg_evolves tk reg (reg\<lparr>mr_next_operation_id := n, mr_world := w', mr_entries := m\<rparr>)"
proof -
  let ?w = "mr_world reg"
  note law = watch_channelD [OF laws ch]
  have ok: "chans_ok (map_of (mr_entries reg)) (watch_open tk ?w) (\<lambda>ch. watch_borrow tk ch ?w)"
    using inv by (simp add: reg_inv_def)
  have "chans_ok ((map_of (mr_entries reg))(a := Some e')) (watch_open tk w') (\<lambda>ch. watch_borrow tk ch w')"
    by (rule chans_ok_update [OF ok]) (use law e eo in auto)
  then show ?thesis
    using m run law by (auto simp: reg_evolves_def reg_inv_def)
qed

lemma begin_remove_live_evolves:
  assumes inv: "reg_inv tk reg" and laws: "watch_laws tk" and run: "\<not> mr_stopped reg"
    and e: "map_of (mr_entries reg) a = Some e" "live_channel e = Some old"
    and ch: "watch_channel tk SigPending (mr_world reg) = (ch, w')"
    and m: "hm_wf m" "map_of m = (map_of (mr_entries reg))(a \<mapsto> EntRemoving op ch)"
  shows "reg_evolves tk reg (reg\<lparr>mr_next_operation_id := n,
     mr_world := watch_send_replace tk old (SigTerminal OutRemoved) w', mr_entries := m\<rparr>)"
proof -
  let ?w = "mr_world reg" and ?w'' = "watch_send_replace tk old (SigTerminal OutRemoved) w'"
  note law = watch_channelD [OF laws ch]
  note p = live_pending [OF inv e]
  then have ne: "old \<noteq> ch" "old \<in> watch_open tk w'" using law by auto
  have ok: "chans_ok (map_of (mr_entries reg)) (watch_open tk ?w) (\<lambda>ch. watch_borrow tk ch ?w)"
    using inv by (simp add: reg_inv_def)
  have same: "watch_borrow tk d ?w'' = watch_borrow tk d ?w" if "d \<in> watch_open tk ?w" "d \<noteq> old" for d
    using that law(4) laws by simp
  have "chans_ok ((map_of (mr_entries reg))(a := Some (EntRemoving op ch))) (watch_open tk ?w'') (\<lambda>ch. watch_borrow tk ch ?w'')"
    by (rule chans_ok_update [OF ok]) (use law e ne laws same in auto)
  moreover have "watch_borrow tk d ?w'' = SigTerminal x"
    if "d \<in> watch_open tk ?w" "watch_borrow tk d ?w = SigTerminal x" for d x
    using that same p by (cases "d = old") auto
  ultimately show ?thesis
    using m run law laws by (auto simp: reg_evolves_def reg_inv_def)
qed

subsection \<open>Every operation keeps the invariant\<close>

inductive registry_step :: "('c, 'w) watch_ops \<Rightarrow> ('c, 'w) registry \<Rightarrow> ('c, 'w) registry \<Rightarrow> bool" for tk where
  seed: "seed_ready agent reg = (b, reg') \<Longrightarrow> registry_step tk reg reg'"
| attach: "reserve_attach tk agent retry reg = (res, reg') \<Longrightarrow> registry_step tk reg reg'"
| repair: "reserve_repair tk agent reg = (res, reg') \<Longrightarrow> registry_step tk reg reg'"
| ready: "commit_ready tk lease reg = (b, reg') \<Longrightarrow> registry_step tk reg reg'"
| failed: "commit_failed tk lease failure reg = (b, reg') \<Longrightarrow> registry_step tk reg reg'"
| remove: "begin_remove tk agent reg = (rem, reg') \<Longrightarrow> registry_step tk reg reg'"
| removed: "finish_remove tk rlease reg = (b, reg') \<Longrightarrow> registry_step tk reg reg'"
| restore: "restore_attach_required tk rlease failure reg = (b, reg') \<Longrightarrow> registry_step tk reg reg'"
| stop: "registry_stop tk reg = (b, reg') \<Longrightarrow> registry_step tk reg reg'"

lemma seed_evolves:
  assumes inv: "reg_inv tk reg" and res: "seed_ready a reg = (b, reg')"
  shows "reg_evolves tk reg reg'"
proof (cases "reg' = reg")
  case False
  with res have run: "\<not> mr_stopped reg" and none: "map_of (mr_entries reg) a = None"
    and reg': "reg' = reg\<lparr>mr_entries := hm_insert a EntReady (mr_entries reg)\<rparr>"
    by (auto simp: seed_ready_def split: if_splits option.splits member_entry.splits)
  have ok: "chans_ok (map_of (mr_entries reg)) (watch_open tk (mr_world reg)) (\<lambda>ch. watch_borrow tk ch (mr_world reg))"
    using inv by (simp add: reg_inv_def)
  have "chans_ok ((map_of (mr_entries reg))(a := Some EntReady)) (watch_open tk (mr_world reg)) (\<lambda>ch. watch_borrow tk ch (mr_world reg))"
    by (rule chans_ok_update [OF ok]) (use none in auto)
  moreover have "map_of (hm_insert a EntReady (mr_entries reg)) = (map_of (mr_entries reg))(a := Some EntReady)"
    by (rule ext) (simp add: map_simps)
  ultimately show ?thesis
    using inv run by (simp add: reg' reg_evolves_def reg_inv_def wf_intros)
qed (use inv in \<open>simp add: reg_evolves_refl\<close>)

lemma start_attach_evolves:
  assumes inv: "reg_inv tk reg" and laws: "watch_laws tk" and run: "\<not> mr_stopped reg"
    and e: "Option.bind (map_of (mr_entries reg) a) live_channel = None"
    and res: "start_attach tk a reg = (x, reg')"
  shows "reg_evolves tk reg reg'"
proof -
  obtain ch w' where ch: "watch_channel tk SigPending (mr_world reg) = (ch, w')" by fastforce
  let ?op = "mr_next_operation_id reg"
  let ?m = "hm_insert a (EntAttaching ?op ch) (mr_entries reg)"
  have reg': "reg' = reg\<lparr>mr_next_operation_id := u64_wrapping_add ?op 1, mr_world := w', mr_entries := ?m\<rparr>"
    using res ch by (simp add: start_attach_def registry_next_operation_id_def)
  have "map_of ?m = (map_of (mr_entries reg))(a \<mapsto> EntAttaching ?op ch)"
    by (rule ext) (simp add: map_simps)
  then show ?thesis
    unfolding reg' using inv by (intro start_evolves [OF inv laws run e ch, of "EntAttaching ?op ch"])
      (simp_all add: wf_intros reg_inv_def)
qed

lemma reserve_attach_evolves:
  assumes "reg_inv tk reg" and "watch_laws tk" and "reserve_attach tk a retry reg = (x, reg')"
  shows "reg_evolves tk reg reg'"
  using assms start_attach_evolves [OF assms(1,2), of a] reg_evolves_refl [OF assms(1)]
  by (auto simp: reserve_attach_def split: if_splits option.splits member_entry.splits)

lemma reserve_repair_evolves:
  assumes "reg_inv tk reg" and "watch_laws tk" and "reserve_repair tk a reg = (x, reg')"
  shows "reg_evolves tk reg reg'"
  using assms start_attach_evolves [OF assms(1,2), of a] reg_evolves_refl [OF assms(1)]
  by (auto simp: reserve_repair_def split: if_splits option.splits member_entry.splits)

lemma commit_ready_iff:
  "commit_ready tk lease reg =
     (if owns_attach lease reg then
        (case map_of (mr_entries reg) (al_agent_id lease) of
           Some (EntAttaching op ch) \<Rightarrow>
             (True, reg\<lparr>mr_entries := hm_insert (al_agent_id lease) EntReady (mr_entries reg),
                       mr_world := watch_send_replace tk ch (SigTerminal OutReady) (mr_world reg)\<rparr>)
         | _ \<Rightarrow> (False, reg))
      else (False, reg))"
  by (auto simp: commit_ready_def owns_attach_def split: option.split member_entry.split)

lemma commit_failed_iff:
  "commit_failed tk lease failure reg =
     (if owns_attach lease reg then
        (case map_of (mr_entries reg) (al_agent_id lease) of
           Some (EntAttaching op ch) \<Rightarrow>
             (True, reg\<lparr>mr_entries := hm_insert (al_agent_id lease)
                          (EntFailed (aw_operation_id (al_waiter lease)) failure ch) (mr_entries reg),
                       mr_world := watch_send_replace tk ch (SigTerminal (OutFailed failure)) (mr_world reg)\<rparr>)
         | _ \<Rightarrow> (False, reg))
      else (False, reg))"
  by (auto simp: commit_failed_def owns_attach_def split: option.split member_entry.split)

lemma owns_attachD:
  assumes "owns_attach lease reg"
  obtains op ch where "map_of (mr_entries reg) (al_agent_id lease) = Some (EntAttaching op ch)" "\<not> mr_stopped reg"
    "op = aw_operation_id (al_waiter lease)" "al_session_generation lease = mr_session_generation reg"
  using assms by (auto simp: owns_attach_def split: option.splits member_entry.splits)

definition owns_remove :: "remove_lease \<Rightarrow> ('c, 'w) registry \<Rightarrow> bool" where
  "owns_remove lease reg \<longleftrightarrow>
     rl_session_generation lease = mr_session_generation reg \<and> \<not> mr_stopped reg \<and>
     (case map_of (mr_entries reg) (rl_agent_id lease) of
        Some (EntRemoving op _) \<Rightarrow> op = rl_operation_id lease | _ \<Rightarrow> False)"

lemma owns_removeD:
  assumes "owns_remove lease reg"
  obtains op ch where "map_of (mr_entries reg) (rl_agent_id lease) = Some (EntRemoving op ch)" "\<not> mr_stopped reg"
    "op = rl_operation_id lease" "rl_session_generation lease = mr_session_generation reg"
  using assms by (auto simp: owns_remove_def split: option.splits member_entry.splits)

lemma remove_conclusions_iff:
  "finish_remove tk lease reg =
     (if owns_remove lease reg then
        (case map_of (mr_entries reg) (rl_agent_id lease) of
           Some (EntRemoving op ch) \<Rightarrow>
             (True, reg\<lparr>mr_entries := hm_remove (rl_agent_id lease) (mr_entries reg),
                       mr_world := watch_send_replace tk ch (SigTerminal OutRemoved) (mr_world reg)\<rparr>)
         | _ \<Rightarrow> (False, reg))
      else (False, reg))"
  "restore_attach_required tk lease failure reg =
     (if owns_remove lease reg then
        (case map_of (mr_entries reg) (rl_agent_id lease) of
           Some (EntRemoving op ch) \<Rightarrow>
             (True, reg\<lparr>mr_entries := hm_insert (rl_agent_id lease)
                          (EntFailed (rl_operation_id lease) failure ch) (mr_entries reg),
                       mr_world := watch_send_replace tk ch (SigTerminal (OutFailed failure)) (mr_world reg)\<rparr>)
         | _ \<Rightarrow> (False, reg))
      else (False, reg))"
  by (auto simp: finish_remove_def restore_attach_required_def owns_remove_def split: option.split member_entry.split)

lemma map_of_insert_upd: "map_of (hm_insert a e m) = (map_of m)(a := Some e)"
  by (rule ext) (simp add: map_simps)

lemma map_of_remove_upd: "map_of (hm_remove a m) = (map_of m)(a := None)"
  by (rule ext) (simp add: map_simps)

lemma conclusions_evolve:
  assumes inv: "reg_inv tk reg" and laws: "watch_laws tk"
  shows "reg_evolves tk reg (snd (commit_ready tk lease reg))"
    and "reg_evolves tk reg (snd (commit_failed tk lease failure reg))"
    and "reg_evolves tk reg (snd (finish_remove tk rlease reg))"
    and "reg_evolves tk reg (snd (restore_attach_required tk rlease failure reg))"
proof -
  have wf: "hm_wf (mr_entries reg)" using inv by (simp add: reg_inv_def)
  show "reg_evolves tk reg (snd (commit_ready tk lease reg))"
  proof (cases "owns_attach lease reg")
    case True
    then obtain op ch where e: "map_of (mr_entries reg) (al_agent_id lease) = Some (EntAttaching op ch)"
      and run: "\<not> mr_stopped reg" by (rule owns_attachD)
    show ?thesis
      using True e conclude_evolves [OF inv laws run e, of ch "Some EntReady" "hm_insert (al_agent_id lease) EntReady (mr_entries reg)" OutReady]
      by (simp add: commit_ready_iff wf wf_intros map_of_insert_upd)
  qed (simp add: commit_ready_iff reg_evolves_refl [OF inv])
  show "reg_evolves tk reg (snd (commit_failed tk lease failure reg))"
  proof (cases "owns_attach lease reg")
    case True
    then obtain op ch where e: "map_of (mr_entries reg) (al_agent_id lease) = Some (EntAttaching op ch)"
      and run: "\<not> mr_stopped reg" by (rule owns_attachD)
    let ?e = "EntFailed (aw_operation_id (al_waiter lease)) failure ch"
    show ?thesis
      using True e conclude_evolves [OF inv laws run e, of ch "Some ?e" "hm_insert (al_agent_id lease) ?e (mr_entries reg)" "OutFailed failure"]
      by (simp add: commit_failed_iff wf wf_intros map_of_insert_upd)
  qed (simp add: commit_failed_iff reg_evolves_refl [OF inv])
  show "reg_evolves tk reg (snd (finish_remove tk rlease reg))"
  proof (cases "owns_remove rlease reg")
    case True
    then obtain op ch where e: "map_of (mr_entries reg) (rl_agent_id rlease) = Some (EntRemoving op ch)"
      and run: "\<not> mr_stopped reg" by (rule owns_removeD)
    show ?thesis
      using True e conclude_evolves [OF inv laws run e, of ch None "hm_remove (rl_agent_id rlease) (mr_entries reg)" OutRemoved]
      by (simp add: remove_conclusions_iff wf wf_intros map_of_remove_upd)
  qed (simp add: remove_conclusions_iff reg_evolves_refl [OF inv])
  show "reg_evolves tk reg (snd (restore_attach_required tk rlease failure reg))"
  proof (cases "owns_remove rlease reg")
    case True
    then obtain op ch where e: "map_of (mr_entries reg) (rl_agent_id rlease) = Some (EntRemoving op ch)"
      and run: "\<not> mr_stopped reg" by (rule owns_removeD)
    let ?e = "EntFailed (rl_operation_id rlease) failure ch"
    show ?thesis
      using True e conclude_evolves [OF inv laws run e, of ch "Some ?e" "hm_insert (rl_agent_id rlease) ?e (mr_entries reg)" "OutFailed failure"]
      by (simp add: remove_conclusions_iff wf wf_intros map_of_insert_upd)
  qed (simp add: remove_conclusions_iff reg_evolves_refl [OF inv])
qed

lemma begin_remove_evolves:
  assumes inv: "reg_inv tk reg" and laws: "watch_laws tk" and res: "begin_remove tk a reg = (x, reg')"
  shows "reg_evolves tk reg reg'"
proof (cases "mr_stopped reg \<or> map_of (mr_entries reg) a = None \<or> (\<exists>op ch. map_of (mr_entries reg) a = Some (EntRemoving op ch))")
  case True
  with res have "reg' = reg"
    by (auto simp: begin_remove_def split: if_splits)
  with inv show ?thesis by (simp add: reg_evolves_refl)
next
  case False
  then have run: "\<not> mr_stopped reg" by blast
  from False obtain e where e: "map_of (mr_entries reg) a = Some e" "\<And>op ch. e \<noteq> EntRemoving op ch" by auto
  obtain ch w' where ch: "watch_channel tk SigPending (mr_world reg) = (ch, w')" by fastforce
  let ?op = "mr_next_operation_id reg"
  let ?m = "hm_insert a (EntRemoving ?op ch) (hm_remove a (mr_entries reg))"
  have m: "hm_wf ?m" "map_of ?m = (map_of (mr_entries reg))(a \<mapsto> EntRemoving ?op ch)"
    using inv by (auto simp: reg_inv_def wf_intros map_simps)
  show ?thesis
  proof (cases "live_channel e")
    case None
    then have "reg' = reg\<lparr>mr_next_operation_id := u64_wrapping_add ?op 1, mr_world := w', mr_entries := ?m\<rparr>"
      using res run e ch by (cases e) (auto simp: begin_remove_def Let_def registry_next_operation_id_def)
    moreover have "Option.bind (map_of (mr_entries reg) a) live_channel = None" using e None by simp
    ultimately show ?thesis
      using start_evolves [OF inv laws run _ ch, of a "EntRemoving ?op ch" ?m] m by simp
  next
    case (Some old)
    then have "reg' = reg\<lparr>mr_next_operation_id := u64_wrapping_add ?op 1,
       mr_world := watch_send_replace tk old (SigTerminal OutRemoved) w', mr_entries := ?m\<rparr>"
      using res run e ch by (cases e) (auto simp: begin_remove_def Let_def registry_next_operation_id_def)
    then show ?thesis
      using begin_remove_live_evolves [OF inv laws run e(1) Some ch m] by simp
  qed
qed

lemma fold_stop_entry:
  assumes laws: "watch_laws tk" and opened: "\<And>e ch. e \<in> set es \<Longrightarrow> live_channel e = Some ch \<Longrightarrow> ch \<in> watch_open tk w"
  shows "watch_open tk (fold (stop_entry tk) es w) = watch_open tk w \<and>
    (\<forall>ch. watch_borrow tk ch (fold (stop_entry tk) es w) =
      (if \<exists>e \<in> set es. live_channel e = Some ch then SigTerminal OutSessionStopped else watch_borrow tk ch w))"
  using opened
proof (induction es arbitrary: w)
  case (Cons e es)
  have step: "watch_open tk (stop_entry tk e w) = watch_open tk w \<and>
      (\<forall>ch. watch_borrow tk ch (stop_entry tk e w) =
        (if live_channel e = Some ch then SigTerminal OutSessionStopped else watch_borrow tk ch w))"
    using Cons.prems [of e] laws by (cases e) auto
  have "watch_open tk (fold (stop_entry tk) es (stop_entry tk e w)) = watch_open tk (stop_entry tk e w) \<and>
    (\<forall>ch. watch_borrow tk ch (fold (stop_entry tk) es (stop_entry tk e w)) =
      (if \<exists>e \<in> set es. live_channel e = Some ch then SigTerminal OutSessionStopped
       else watch_borrow tk ch (stop_entry tk e w)))"
    by (rule Cons.IH) (use Cons.prems step in auto)
  with step show ?case by auto
qed simp

lemma registry_stop_evolves:
  assumes inv: "reg_inv tk reg" and laws: "watch_laws tk" and res: "registry_stop tk reg = (b, reg')"
  shows "reg_evolves tk reg reg'"
proof (cases "mr_stopped reg")
  case True
  with res inv show ?thesis by (simp add: registry_stop_def reg_evolves_refl)
next
  case False
  let ?w = "mr_world reg" and ?w' = "fold (stop_entry tk) (map snd (mr_entries reg)) (mr_world reg)"
  have reg': "reg' = reg\<lparr>mr_stopped := True, mr_entries := [], mr_world := ?w'\<rparr>"
    using res False by (simp add: registry_stop_def)
  have wf: "hm_wf (mr_entries reg)" using inv by (simp add: reg_inv_def)
  have live: "(\<exists>e \<in> set (map snd (mr_entries reg)). live_channel e = Some ch) \<longleftrightarrow>
      (\<exists>a e. map_of (mr_entries reg) a = Some e \<and> live_channel e = Some ch)" for ch
    by (rule hm_values_iff [OF wf])
  have st: "watch_open tk ?w' = watch_open tk ?w"
    "\<And>ch. watch_borrow tk ch ?w' = (if \<exists>a e. map_of (mr_entries reg) a = Some e \<and> live_channel e = Some ch
       then SigTerminal OutSessionStopped else watch_borrow tk ch ?w)"
  proof -
    have opened: "ch \<in> watch_open tk ?w" if e: "e \<in> set (map snd (mr_entries reg))" "live_channel e = Some ch" for e ch
    proof -
      obtain a where "(a, e) \<in> set (mr_entries reg)" using e(1) by auto
      then have "map_of (mr_entries reg) a = Some e" using wf by simp
      from live_pending [OF inv this e(2)] show ?thesis by blast
    qed
    have st: "watch_open tk ?w' = watch_open tk ?w \<and> (\<forall>ch. watch_borrow tk ch ?w' =
        (if \<exists>e \<in> set (map snd (mr_entries reg)). live_channel e = Some ch
         then SigTerminal OutSessionStopped else watch_borrow tk ch ?w))"
      by (rule fold_stop_entry [OF laws]) (rule opened)
    show "watch_open tk ?w' = watch_open tk ?w" using st by blast
    show "watch_borrow tk ch ?w' = (if \<exists>a e. map_of (mr_entries reg) a = Some e \<and> live_channel e = Some ch
       then SigTerminal OutSessionStopped else watch_borrow tk ch ?w)" for ch
      using st unfolding live [symmetric] by blast
  qed
  have pend: "\<exists>a e. map_of (mr_entries reg) a = Some e \<and> live_channel e = Some ch"
    if "ch \<in> watch_open tk ?w" "watch_borrow tk ch ?w = SigPending" for ch
    using inv that unfolding reg_inv_def chans_ok_def by blast
  have "chans_ok (map_of []) (watch_open tk ?w') (\<lambda>ch. watch_borrow tk ch ?w')"
    unfolding chans_ok_def st using pend by auto
  moreover have "watch_borrow tk ch ?w' = SigTerminal out" if "watch_borrow tk ch ?w = SigTerminal out" for ch out
    using that st(2) live_pending [OF inv] by auto
  ultimately show ?thesis
    by (simp add: reg' reg_evolves_def reg_inv_def st(1))
qed

lemma registry_step_evolves:
  assumes "registry_step tk reg reg'" and inv: "reg_inv tk reg" and laws: "watch_laws tk"
  shows "reg_evolves tk reg reg'"
  using assms(1)
proof cases
  case (seed agent b)
  then show ?thesis using seed_evolves [OF inv] by blast
next
  case (attach agent retry res)
  then show ?thesis using reserve_attach_evolves [OF inv laws] by blast
next
  case (repair agent res)
  then show ?thesis using reserve_repair_evolves [OF inv laws] by blast
next
  case (ready lease b)
  then show ?thesis using conclusions_evolve(1) [OF inv laws, of lease] by simp
next
  case (failed lease failure b)
  then show ?thesis using conclusions_evolve(2) [OF inv laws, of lease failure] by simp
next
  case (remove agent rem)
  then show ?thesis using begin_remove_evolves [OF inv laws] by blast
next
  case (removed rlease b)
  then show ?thesis using conclusions_evolve(3) [OF inv laws, of rlease] by simp
next
  case (restore rlease failure b)
  then show ?thesis using conclusions_evolve(4) [OF inv laws, of rlease failure] by simp
next
  case (stop b)
  then show ?thesis using registry_stop_evolves [OF inv laws] by blast
qed

subsection \<open>Waiting\<close>

lemma registry_steps_inv:
  assumes "(registry_step tk)\<^sup>*\<^sup>* reg reg'" and "reg_inv tk reg" and "watch_laws tk"
  shows "reg_evolves tk reg reg'"
  using assms(1)
proof (induction rule: rtranclp_induct)
  case base
  then show ?case by (rule reg_evolves_refl [OF assms(2)])
next
  case (step r1 r2)
  then have "reg_evolves tk r1 r2"
    using registry_step_evolves [OF step.hyps(2) _ assms(3)] by (simp add: reg_evolves_def)
  with step.IH show ?case by (auto simp: reg_evolves_def)
qed

lemma reg_inv_new: "watch_open tk w = {} \<Longrightarrow> reg_inv tk (registry_new g w)"
  by (simp add: reg_inv_def registry_new_def chans_ok_def)

lemma wait_poll_terminal:
  "watch_borrow tk (aw_channel aw) (mr_world reg) = SigTerminal out \<Longrightarrow> wait_poll tk reg aw = Some out"
  by (simp add: wait_poll_def)

text \<open>C31: Nobody waits in vain and nobody is told two things. In every reachable registry a waiter
  that gets no answer yet waits for an attach or removal that is in progress and whose owner
  still holds the channel; one that gets an answer gets the outcome that was sent (never the
  fallback for a channel whose senders are gone), and the same one at any later time.\<close>

theorem waiters_get_one_final_outcome:
  assumes laws: "watch_laws tk" and init: "watch_open tk w0 = {}"
    and reach: "(registry_step tk)\<^sup>*\<^sup>* (registry_new generation w0) reg"
    and issued: "aw_channel aw \<in> watch_open tk (mr_world reg)"
  shows "case wait_poll tk reg aw of
      None \<Rightarrow> \<not> mr_stopped reg \<and> (\<exists>a op. map_of (mr_entries reg) a = Some (EntAttaching op (aw_channel aw)) \<or>
         map_of (mr_entries reg) a = Some (EntRemoving op (aw_channel aw)))
    | Some out \<Rightarrow> watch_borrow tk (aw_channel aw) (mr_world reg) = SigTerminal out \<and>
        (\<forall>reg'. (registry_step tk)\<^sup>*\<^sup>* reg reg' \<longrightarrow> wait_poll tk reg' aw = Some out)"
proof -
  have inv: "reg_inv tk reg"
    using registry_steps_inv [OF reach reg_inv_new [OF init] laws] by (simp add: reg_evolves_def)
  show ?thesis
  proof (cases "watch_borrow tk (aw_channel aw) (mr_world reg)")
    case (SigTerminal out)
    have "wait_poll tk reg' aw = Some out" if "(registry_step tk)\<^sup>*\<^sup>* reg reg'" for reg'
      using registry_steps_inv [OF that inv laws] issued SigTerminal
      by (intro wait_poll_terminal) (auto simp: reg_evolves_def)
    then show ?thesis
      using SigTerminal wait_poll_terminal by simp
  next
    case SigPending
    with inv issued obtain a e where e: "map_of (mr_entries reg) a = Some e" "live_channel e = Some (aw_channel aw)"
      unfolding reg_inv_def chans_ok_def by blast
    then have "sender_held reg (aw_channel aw)"
      using map_of_SomeD [OF e(1)] live_entry_channel [OF e(2)] by (force simp: sender_held_def list_ex_iff)
    moreover have "\<not> mr_stopped reg"
      using inv e(1) by (auto simp: reg_inv_def)
    moreover have "\<exists>a op. map_of (mr_entries reg) a = Some (EntAttaching op (aw_channel aw)) \<or>
         map_of (mr_entries reg) a = Some (EntRemoving op (aw_channel aw))"
      using e by (cases e) auto
    ultimately show ?thesis
      using SigPending by (simp add: wait_poll_def)
  qed
qed

text \<open>A concrete channel store: the list of the channels' values.\<close>

definition list_watch :: "(nat, attach_signal list) watch_ops" where
  "list_watch = \<lparr>watch_channel = (\<lambda>v w. (length w, w @ [v])), watch_send_replace = (\<lambda>c v w. w[c := v]),
     watch_borrow = (\<lambda>c w. if c < length w then w ! c else SigPending), watch_open = (\<lambda>w. {..< length w})\<rparr>"

lemma list_watch_laws: "watch_laws list_watch"
  by (auto simp: watch_laws_def list_watch_def nth_append)

lemma waiters_get_one_final_outcome_witness:
  "\<exists>lease reg. reserve_attach list_watch ''a'' False (registry_new ''g'' []) = (AttachStart lease, reg) \<and>
     wait_poll list_watch reg (al_waiter lease) = None \<and>
     (case wait_poll list_watch reg (al_waiter lease) of
        None \<Rightarrow> \<not> mr_stopped reg | Some out \<Rightarrow> False)"
proof -
  let ?r0 = "registry_new ''g'' ([] :: attach_signal list) :: (nat, attach_signal list) registry"
  obtain lease reg where s: "reserve_attach list_watch ''a'' False ?r0 = (AttachStart lease, reg)"
    and ch: "aw_channel (al_waiter lease) = 0" "mr_world reg = [SigPending]"
    and held: "sender_held reg 0"
    by (simp add: reserve_attach_def start_attach_def registry_new_def registry_next_operation_id_def list_watch_def
        sender_held_def)
  have "registry_step list_watch ?r0 reg" by (rule registry_step.attach [OF s])
  then have "(registry_step list_watch)\<^sup>*\<^sup>* ?r0 reg" by simp
  from waiters_get_one_final_outcome [OF list_watch_laws _ this, of "al_waiter lease"] ch
  have "case wait_poll list_watch reg (al_waiter lease) of None \<Rightarrow> \<not> mr_stopped reg | Some out \<Rightarrow>
      watch_borrow list_watch 0 (mr_world reg) = SigTerminal out"
    by (auto simp: list_watch_def split: option.splits)
  moreover have "wait_poll list_watch reg (al_waiter lease) = None"
    using ch held by (simp add: wait_poll_def list_watch_def)
  ultimately show ?thesis using s by auto
qed

subsection \<open>Owners\<close>

datatype attach_conclusion = ConcludeReady | ConcludeFailed member_failure

definition conclude_attach ::
  "('c, 'w) watch_ops \<Rightarrow> attach_conclusion \<Rightarrow> 'c attach_lease \<Rightarrow> ('c, 'w) registry \<Rightarrow> bool \<times> ('c, 'w) registry" where
  "conclude_attach tk k lease reg =
     (case k of ConcludeReady \<Rightarrow> commit_ready tk lease reg
      | ConcludeFailed failure \<Rightarrow> commit_failed tk lease failure reg)"

definition conclude_remove ::
  "('c, 'w) watch_ops \<Rightarrow> member_failure option \<Rightarrow> remove_lease \<Rightarrow> ('c, 'w) registry \<Rightarrow> bool \<times> ('c, 'w) registry" where
  "conclude_remove tk k lease reg =
     (case k of None \<Rightarrow> finish_remove tk lease reg
      | Some failure \<Rightarrow> restore_attach_required tk lease failure reg)"

lemma conclude_attach_owner:
  assumes "owns_attach lease reg"
  shows "mr_entries (snd (conclude_attach tk k lease reg)) = hm_insert (al_agent_id lease)
      (case k of ConcludeReady \<Rightarrow> EntReady
       | ConcludeFailed failure \<Rightarrow> EntFailed (aw_operation_id (al_waiter lease)) failure
           (the (entry_channel (the (map_of (mr_entries reg) (al_agent_id lease)))))) (mr_entries reg) \<and>
    mr_stopped (snd (conclude_attach tk k lease reg)) = False \<and> fst (conclude_attach tk k lease reg)"
proof -
  from assms obtain op ch where "map_of (mr_entries reg) (al_agent_id lease) = Some (EntAttaching op ch)" "\<not> mr_stopped reg"
    by (rule owns_attachD)
  with assms show ?thesis
    by (cases k) (simp_all add: conclude_attach_def commit_ready_iff commit_failed_iff)
qed

lemma conclude_remove_owner:
  assumes "owns_remove lease reg"
  shows "mr_entries (snd (conclude_remove tk k lease reg)) =
      (case k of None \<Rightarrow> hm_remove (rl_agent_id lease) (mr_entries reg)
       | Some failure \<Rightarrow> hm_insert (rl_agent_id lease) (EntFailed (rl_operation_id lease) failure
           (the (entry_channel (the (map_of (mr_entries reg) (rl_agent_id lease)))))) (mr_entries reg)) \<and>
    mr_stopped (snd (conclude_remove tk k lease reg)) = False \<and> fst (conclude_remove tk k lease reg)"
proof -
  from assms obtain op ch where "map_of (mr_entries reg) (rl_agent_id lease) = Some (EntRemoving op ch)" "\<not> mr_stopped reg"
    by (rule owns_removeD)
  with assms show ?thesis
    by (cases k) (simp_all add: conclude_remove_def remove_conclusions_iff)
qed

interpretation attaches: owned_commit owns_attach "conclude_attach tk" "\<lambda>x. x"
  for tk :: "('c, 'w) watch_ops"
proof
  fix lease :: "'c attach_lease" and reg reg' :: "('c, 'w) registry" and k x
  assume "\<not> owns_attach lease reg" "conclude_attach tk k lease reg = (x, reg')"
  then show "\<not> x \<and> reg' = reg"
    by (auto simp: conclude_attach_def commit_ready_iff commit_failed_iff split: attach_conclusion.splits)
next
  fix lease :: "'c attach_lease" and reg reg' :: "('c, 'w) registry" and k x
  assume own: "owns_attach lease reg" and res: "conclude_attach tk k lease reg = (x, reg')"
  show "x \<and> \<not> owns_attach lease reg'"
    using conclude_attach_owner [OF own, of tk k] res
    by (cases k) (simp_all add: owns_attach_def map_simps)
qed

interpretation removals: owned_commit owns_remove "conclude_remove tk" "\<lambda>x. x"
  for tk :: "('c, 'w) watch_ops"
proof
  fix lease and reg reg' :: "('c, 'w) registry" and k x
  assume "\<not> owns_remove lease reg" "conclude_remove tk k lease reg = (x, reg')"
  then show "\<not> x \<and> reg' = reg"
    by (auto simp: conclude_remove_def remove_conclusions_iff split: option.splits)
next
  fix lease and reg reg' :: "('c, 'w) registry" and k x
  assume own: "owns_remove lease reg" and res: "conclude_remove tk k lease reg = (x, reg')"
  show "x \<and> \<not> owns_remove lease reg'"
    using conclude_remove_owner [OF own, of tk k] res
    by (cases k) (simp_all add: owns_remove_def map_simps)
qed

text \<open>An attach is concluded by its owner, once. The first conclusion by the lease that owns the
  attach succeeds and makes the slot ready or failed; every other one, in any order and by
  any stale lease, is refused and leaves the registry as it was. The same holds of removals.\<close>

theorem attach_and_removal_concluded_once:
  shows "(owns_attach lease reg \<longrightarrow>
       (\<exists>reg'. conclude_attach tk k lease reg = (True, reg') \<and>
          member_snapshot_of (al_agent_id lease) reg' = (case k of ConcludeReady \<Rightarrow> SnapReady
             | ConcludeFailed failure \<Rightarrow> SnapFailed (aw_operation_id (al_waiter lease)) failure) \<and>
          (\<forall>k2. conclude_attach tk k2 lease reg' = (False, reg')))) \<and>
    (\<not> owns_attach lease reg \<longrightarrow> conclude_attach tk k lease reg = (False, reg)) \<and>
    (owns_remove rlease reg \<longrightarrow>
       (\<exists>reg'. conclude_remove tk j rlease reg = (True, reg') \<and>
          member_snapshot_of (rl_agent_id rlease) reg' = (case j of None \<Rightarrow> SnapAbsent
             | Some failure \<Rightarrow> SnapFailed (rl_operation_id rlease) failure) \<and>
          (\<forall>j2. conclude_remove tk j2 rlease reg' = (False, reg')))) \<and>
    (\<not> owns_remove rlease reg \<longrightarrow> conclude_remove tk j rlease reg = (False, reg))"
proof (intro conjI impI)
  assume own: "owns_attach lease reg"
  obtain x reg' where res: "conclude_attach tk k lease reg = (x, reg')" by fastforce
  have "\<forall>k2. conclude_attach tk k2 lease reg' = (False, reg')"
    using attaches.commit_again [OF res] by (metis surj_pair)
  moreover have "x" using attaches.ends [OF own res] by blast
  moreover have "member_snapshot_of (al_agent_id lease) reg' = (case k of ConcludeReady \<Rightarrow> SnapReady
             | ConcludeFailed failure \<Rightarrow> SnapFailed (aw_operation_id (al_waiter lease)) failure)"
    using conclude_attach_owner [OF own, of tk k] res
    by (cases k) (simp_all add: member_snapshot_of_def map_simps)
  ultimately show "\<exists>reg'. conclude_attach tk k lease reg = (True, reg') \<and>
          member_snapshot_of (al_agent_id lease) reg' = (case k of ConcludeReady \<Rightarrow> SnapReady
             | ConcludeFailed failure \<Rightarrow> SnapFailed (aw_operation_id (al_waiter lease)) failure) \<and>
          (\<forall>k2. conclude_attach tk k2 lease reg' = (False, reg'))"
    using res by auto
next
  assume own: "owns_remove rlease reg"
  obtain x reg' where res: "conclude_remove tk j rlease reg = (x, reg')" by fastforce
  have "\<forall>j2. conclude_remove tk j2 rlease reg' = (False, reg')"
    using removals.commit_again [OF res] by (metis surj_pair)
  moreover have "x" using removals.ends [OF own res] by blast
  moreover have "member_snapshot_of (rl_agent_id rlease) reg' = (case j of None \<Rightarrow> SnapAbsent
             | Some failure \<Rightarrow> SnapFailed (rl_operation_id rlease) failure)"
    using conclude_remove_owner [OF own, of tk j] res
    by (cases j) (simp_all add: member_snapshot_of_def map_simps)
  ultimately show "\<exists>reg'. conclude_remove tk j rlease reg = (True, reg') \<and>
          member_snapshot_of (rl_agent_id rlease) reg' = (case j of None \<Rightarrow> SnapAbsent
             | Some failure \<Rightarrow> SnapFailed (rl_operation_id rlease) failure) \<and>
          (\<forall>j2. conclude_remove tk j2 rlease reg' = (False, reg'))"
    using res by auto
next
  assume "\<not> owns_attach lease reg"
  then show "conclude_attach tk k lease reg = (False, reg)"
    using attaches.stale by (metis surj_pair)
next
  assume "\<not> owns_remove rlease reg"
  then show "conclude_remove tk j rlease reg = (False, reg)"
    using removals.stale by (metis surj_pair)
qed

lemma attach_and_removal_concluded_once_witness:
  "\<exists>lease reg. reserve_attach list_watch ''a'' False (registry_new ''g'' []) = (AttachStart lease, reg) \<and>
     fst (conclude_attach list_watch ConcludeReady lease reg)"
proof -
  obtain lease reg where s: "reserve_attach list_watch ''a'' False (registry_new ''g'' []) = (AttachStart lease, reg)"
    and own: "owns_attach lease reg"
    by (simp add: reserve_attach_def start_attach_def registry_new_def registry_next_operation_id_def list_watch_def
        owns_attach_def)
  from attach_and_removal_concluded_once [where lease = lease and reg = reg and k = ConcludeReady and tk = list_watch] own
  obtain reg' where "conclude_attach list_watch ConcludeReady lease reg = (True, reg')" by blast
  with s show ?thesis by auto
qed

text \<open>An attach in progress is not started twice. Starting one makes its lease the owner and its
  waiter wait; until it is concluded, any further attach or repair of the agent joins that
  same operation on the same channel and starts nothing, and no seeding marks it ready.\<close>

theorem attach_is_single_flight:
  assumes "watch_laws tk"
    and "reserve_attach tk agent retry reg = (AttachStart lease, reg1)"
  shows "owns_attach lease reg1 \<and> al_agent_id lease = agent \<and> wait_poll tk reg1 (al_waiter lease) = None \<and>
    (\<forall>retry2. reserve_attach tk agent retry2 reg1 = (AttachJoin (al_waiter lease), reg1)) \<and>
    reserve_repair tk agent reg1 = (AttachJoin (al_waiter lease), reg1) \<and>
    seed_ready agent reg1 = (False, reg1)"
proof -
  have run: "\<not> mr_stopped reg" and start: "start_attach tk agent reg = (AttachStart lease, reg1)"
    using assms(2) by (auto simp: reserve_attach_def split: if_splits option.splits member_entry.splits)
  obtain ch w' where ch: "watch_channel tk SigPending (mr_world reg) = (ch, w')" by fastforce
  let ?op = "mr_next_operation_id reg"
  have l: "lease = \<lparr>al_session_generation = mr_session_generation reg, al_agent_id = agent,
      al_waiter = \<lparr>aw_operation_id = ?op, aw_channel = ch\<rparr>\<rparr>"
    and r: "mr_session_generation reg1 = mr_session_generation reg" "mr_stopped reg1 = mr_stopped reg" "mr_world reg1 = w'"
      "map_of (mr_entries reg1) agent = Some (EntAttaching ?op ch)"
    using start ch by (auto simp: start_attach_def registry_next_operation_id_def map_simps)
  have "sender_held reg1 ch"
    using map_of_SomeD [OF r(4)] by (force simp: sender_held_def list_ex_iff)
  then have "wait_poll tk reg1 (al_waiter lease) = None"
    using watch_channelD(3) [OF assms(1) ch] by (simp add: wait_poll_def l r(3))
  with run r show ?thesis
    by (simp add: l owns_attach_def reserve_attach_def reserve_repair_def seed_ready_def)
qed

lemma attach_is_single_flight_witness:
  "\<exists>lease reg. reserve_attach list_watch ''a'' False (registry_new ''g'' []) = (AttachStart lease, reg) \<and>
     reserve_attach list_watch ''a'' True reg = (AttachJoin (al_waiter lease), reg)"
proof -
  obtain lease reg where s: "reserve_attach list_watch ''a'' False (registry_new ''g'' []) = (AttachStart lease, reg)"
    by (simp add: reserve_attach_def start_attach_def registry_new_def registry_next_operation_id_def list_watch_def)
  from attach_is_single_flight [OF list_watch_laws s] s show ?thesis by blast
qed

text \<open>A removal takes over from an attach. Beginning to remove an agent whose attach is in progress
  ends that attach: its lease owns nothing any more and cannot conclude, whoever waits for it
  is told that the agent was removed, and the removal lease owns the slot. If the agent was
  ready or had failed the removal starts just the same, and no one is told anything.\<close>

theorem removal_takes_over:
  assumes inv: "reg_inv tk reg" and laws: "watch_laws tk"
    and rem: "begin_remove tk agent reg = (RemoveStart rlease, reg1)"
  shows "owns_remove rlease reg1 \<and> rl_agent_id rlease = agent \<and>
    member_snapshot_of agent reg1 = SnapRemoving (rl_operation_id rlease) \<and>
    (\<forall>lease k. al_agent_id lease = agent \<longrightarrow> \<not> owns_attach lease reg1 \<and> conclude_attach tk k lease reg1 = (False, reg1)) \<and>
    (\<forall>op ch. map_of (mr_entries reg) agent = Some (EntAttaching op ch) \<longrightarrow>
       wait_poll tk reg1 \<lparr>aw_operation_id = op, aw_channel = ch\<rparr> = Some OutRemoved) \<and>
    ((\<forall>op ch. map_of (mr_entries reg) agent \<noteq> Some (EntAttaching op ch)) \<longrightarrow>
       (\<forall>ch \<in> watch_open tk (mr_world reg). watch_borrow tk ch (mr_world reg1) = watch_borrow tk ch (mr_world reg)))"
proof -
  obtain e where run: "\<not> mr_stopped reg" and e: "map_of (mr_entries reg) agent = Some e" "\<And>op ch. e \<noteq> EntRemoving op ch"
    using rem by (auto simp: begin_remove_def split: if_splits option.splits member_entry.splits)
  obtain ch w' where ch: "watch_channel tk SigPending (mr_world reg) = (ch, w')" by fastforce
  note law = watch_channelD [OF laws ch]
  let ?op = "mr_next_operation_id reg"
  have r: "rlease = \<lparr>rl_session_generation = mr_session_generation reg, rl_agent_id = agent, rl_operation_id = ?op\<rparr>"
    "mr_session_generation reg1 = mr_session_generation reg" "\<not> mr_stopped reg1"
    "map_of (mr_entries reg1) agent = Some (EntRemoving ?op ch)"
    using rem run e ch by (cases e; auto simp: begin_remove_def Let_def registry_next_operation_id_def map_simps)+
  have w1: "mr_world reg1 = (case live_channel e of None \<Rightarrow> w' | Some old \<Rightarrow> watch_send_replace tk old (SigTerminal OutRemoved) w')"
    using rem run e ch by (cases e) (auto simp: begin_remove_def Let_def registry_next_operation_id_def)
  have own: "owns_remove rlease reg1" "member_snapshot_of agent reg1 = SnapRemoving (rl_operation_id rlease)"
    using r by (simp_all add: owns_remove_def member_snapshot_of_def)
  have lost: "\<not> owns_attach lease reg1 \<and> conclude_attach tk k lease reg1 = (False, reg1)" if "al_agent_id lease = agent" for lease k
  proof -
    have "\<not> owns_attach lease reg1" using that r(4) by (simp add: owns_attach_def)
    then show ?thesis using attaches.stale by (metis surj_pair)
  qed
  have told: "wait_poll tk reg1 \<lparr>aw_operation_id = op, aw_channel = old\<rparr> = Some OutRemoved"
    if a: "map_of (mr_entries reg) agent = Some (EntAttaching op old)" for op old
  proof (rule wait_poll_terminal)
    have live: "live_channel e = Some old" using a e by simp
    then have "old \<in> watch_open tk w'"
      using live_pending [OF inv e(1)] law by auto
    with live show "watch_borrow tk (aw_channel \<lparr>aw_operation_id = op, aw_channel = old\<rparr>) (mr_world reg1) = SigTerminal OutRemoved"
      using laws by (simp add: w1)
  qed
  have quiet: "watch_borrow tk d (mr_world reg1) = watch_borrow tk d (mr_world reg)"
    if n: "\<And>op ch. map_of (mr_entries reg) agent \<noteq> Some (EntAttaching op ch)" and d: "d \<in> watch_open tk (mr_world reg)" for d
  proof -
    have "live_channel e = None" using n e by (cases e) auto
    with law(4) [OF d] show ?thesis by (simp add: w1)
  qed
  show ?thesis
    using own lost told quiet r(1) by simp
qed

lemma removal_takes_over_witness:
  "\<exists>rlease reg1. begin_remove list_watch ''a'' ((registry_new ''g'' [])\<lparr>mr_entries := [(''a'', EntReady)]\<rparr>) = (RemoveStart rlease, reg1) \<and>
     owns_remove rlease reg1"
proof -
  let ?reg = "(registry_new ''g'' ([] :: attach_signal list))\<lparr>mr_entries := [(''a'', EntReady)]\<rparr> :: (nat, attach_signal list) registry"
  have "reg_inv list_watch ?reg"
    by (simp add: reg_inv_def chans_ok_def registry_new_def list_watch_def)
  moreover obtain rlease reg1 where s: "begin_remove list_watch ''a'' ?reg = (RemoveStart rlease, reg1)"
    by (simp add: begin_remove_def Let_def registry_next_operation_id_def list_watch_def registry_new_def)
  ultimately show ?thesis
    using removal_takes_over [OF _ list_watch_laws s] s by blast
qed

end
