(* ===== verification/Team_Types.thy ===== *)
theory Team_Types
  imports Team_Errors
begin

text \<open>
  The domain types of a team (crates/team/src/types.rs) and the rows they are stored as
  (crates/store/src/models.rs): roles, statuses and message types with the texts they are
  written as and parsed from, agents, messages and tasks, and the conversions from rows.

  Lists of strings and task metadata are stored as JSON text. The functions of
  \<open>serde_json\<close> the code calls are the argument \<open>js\<close>; \<open>'j\<close> stands for
  \<open>serde_json::Value\<close>. \<open>json_laws\<close> is what the code relies on for lists of strings.
\<close>

subsection \<open>JSON\<close>

record 'j json_ops =
  js_strings_of :: "string \<Rightarrow> string + string list" \<comment> \<open>\<open>from_str::<Vec<String>>\<close>\<close>
  js_strings_to :: "string list \<Rightarrow> string + string" \<comment> \<open>\<open>to_string\<close>\<close>
  js_value_of :: "string \<Rightarrow> string + 'j"
  js_value_to :: "'j \<Rightarrow> string + string"

definition json_laws :: "'j json_ops \<Rightarrow> bool" where
  "json_laws js \<longleftrightarrow>
     (\<forall>xs. \<exists>s. js_strings_to js xs = Inr s \<and> js_strings_of js s = Inr xs) \<and>
     js_strings_of js ''[]'' = Inr []"

lemma json_lawsE:
  assumes "json_laws js"
  obtains s where "js_strings_to js xs = Inr s" "js_strings_of js s = Inr xs"
  using assms by (auto simp: json_laws_def)

lemma json_empty: "json_laws js \<Longrightarrow> js_strings_of js ''[]'' = Inr []"
  by (simp add: json_laws_def)

text \<open>\<open>unwrap_or_default\<close>, \<open>ok\<close>, \<open>unwrap_or\<close> and \<open>map_err\<close>.\<close>

fun result_or :: "'a \<Rightarrow> 'e + 'a \<Rightarrow> 'a" where
  "result_or d (Inl _) = d"
| "result_or d (Inr x) = x"

fun result_ok :: "'e + 'a \<Rightarrow> 'a option" where
  "result_ok (Inl _) = None"
| "result_ok (Inr x) = Some x"

fun map_err :: "('e \<Rightarrow> 'f) \<Rightarrow> 'e + 'a \<Rightarrow> 'f + 'a" where
  "map_err f (Inl e) = Inl (f e)"
| "map_err f (Inr x) = Inr x"

lemma map_err_Inr_iff [simp]: "map_err f r = Inr x \<longleftrightarrow> r = Inr x"
  by (cases r) auto

subsection \<open>Roles, statuses, types of messages\<close>

datatype teammate_role = Lead | Teammate

fun role_display :: "teammate_role \<Rightarrow> string" where
  "role_display Lead = ''lead''"
| "role_display Teammate = ''teammate''"

definition role_parse :: "string \<Rightarrow> teammate_role option" where
  "role_parse s =
     (if s = ''lead'' \<or> s = ''leader'' then Some Lead
      else if s = ''teammate'' then Some Teammate else None)"

datatype teammate_status = StIdle | StWorking | StThinking | StToolUse | StCompleted | StError

fun status_display :: "teammate_status \<Rightarrow> string" where
  "status_display StIdle = ''idle''"
| "status_display StWorking = ''working''"
| "status_display StThinking = ''thinking''"
| "status_display StToolUse = ''tool_use''"
| "status_display StCompleted = ''completed''"
| "status_display StError = ''error''"

definition status_parse :: "string \<Rightarrow> teammate_status option" where
  "status_parse s =
     (if s = ''idle'' \<or> s = ''pending'' then Some StIdle
      else if s = ''working'' \<or> s = ''active'' then Some StWorking
      else if s = ''thinking'' then Some StThinking
      else if s = ''tool_use'' then Some StToolUse
      else if s = ''completed'' then Some StCompleted
      else if s = ''error'' \<or> s = ''failed'' then Some StError
      else None)"

datatype message_type = MtMessage | MtIdleNotification | MtShutdownRequest

fun message_type_display :: "message_type \<Rightarrow> string" where
  "message_type_display MtMessage = ''message''"
| "message_type_display MtIdleNotification = ''idle_notification''"
| "message_type_display MtShutdownRequest = ''shutdown_request''"

definition message_type_parse :: "string \<Rightarrow> message_type option" where
  "message_type_parse s =
     (if s = ''message'' then Some MtMessage
      else if s = ''idle_notification'' then Some MtIdleNotification
      else if s = ''shutdown_request'' then Some MtShutdownRequest
      else None)"

datatype task_status = TkPending | TkInProgress | TkCompleted | TkDeleted

fun task_status_display :: "task_status \<Rightarrow> string" where
  "task_status_display TkPending = ''pending''"
| "task_status_display TkInProgress = ''in_progress''"
| "task_status_display TkCompleted = ''completed''"
| "task_status_display TkDeleted = ''deleted''"

definition task_status_parse :: "string \<Rightarrow> task_status option" where
  "task_status_parse s =
     (if s = ''pending'' then Some TkPending
      else if s = ''in_progress'' then Some TkInProgress
      else if s = ''completed'' then Some TkCompleted
      else if s = ''deleted'' then Some TkDeleted
      else None)"

lemma role_roundtrip [simp]: "role_parse (role_display x) = Some x"
  by (cases x) (simp_all add: role_parse_def)

lemma status_roundtrip [simp]: "status_parse (status_display x) = Some x"
  by (cases x) (simp_all add: status_parse_def)

lemma message_type_roundtrip [simp]: "message_type_parse (message_type_display x) = Some x"
  by (cases x) (simp_all add: message_type_parse_def)

lemma task_status_roundtrip [simp]: "task_status_parse (task_status_display x) = Some x"
  by (cases x) (simp_all add: task_status_parse_def)

subsection \<open>Agents\<close>

record team_agent =
  ta_slot_id :: ident
  ta_name :: string
  ta_role :: teammate_role
  ta_conversation_id :: ident
  ta_backend :: string
  ta_model :: string
  ta_assistant_id :: "ident option"
  ta_status :: "teammate_status option"
  ta_conversation_type :: "string option"
  ta_cli_path :: "string option"
  ta_last_message :: "string option"
  ta_last_message_at :: "timestamp option"

text \<open>
  \<open>content.chars().take(500)\<close> counts Unicode scalar values, not bytes: in UTF-8 every byte
  that is not a continuation byte (\<open>10xxxxxx\<close>) starts one.
\<close>

definition utf8_continuation :: "char \<Rightarrow> bool" where
  "utf8_continuation b \<longleftrightarrow> (of_char b :: nat) div 64 = 2"

fun utf8_take :: "nat \<Rightarrow> string \<Rightarrow> string" where
  "utf8_take n [] = []"
| "utf8_take n (b # bs) =
     (if utf8_continuation b then b # utf8_take n bs
      else if n = 0 then []
      else b # utf8_take (n - 1) bs)"

definition TEAM_AGENT_LAST_MESSAGE_MAX_CHARS :: nat where
  "TEAM_AGENT_LAST_MESSAGE_MAX_CHARS = 500"

definition truncate_last_message :: "string \<Rightarrow> string" where
  "truncate_last_message content = utf8_take TEAM_AGENT_LAST_MESSAGE_MAX_CHARS content"

record team_agent_response =
  tar_slot_id :: ident
  tar_assistant_name :: string
  tar_name :: string
  tar_role :: string
  tar_conversation_id :: ident
  tar_assistant_backend :: string
  tar_backend :: string
  tar_icon :: "string option"
  tar_model :: string
  tar_assistant_id :: "ident option"
  tar_status :: "string option"
  tar_pending_confirmations :: nat
  tar_last_message :: "string option"
  tar_last_message_at :: "timestamp option"

definition agent_to_response_with_icon :: "string option \<Rightarrow> team_agent \<Rightarrow> team_agent_response" where
  "agent_to_response_with_icon icon a =
     \<lparr>tar_slot_id = ta_slot_id a, tar_assistant_name = ta_name a, tar_name = ta_name a,
      tar_role = role_display (ta_role a), tar_conversation_id = ta_conversation_id a,
      tar_assistant_backend = ta_backend a, tar_backend = ta_backend a, tar_icon = icon,
      tar_model = ta_model a, tar_assistant_id = ta_assistant_id a,
      tar_status = map_option status_display (ta_status a), tar_pending_confirmations = 0,
      tar_last_message = ta_last_message a, tar_last_message_at = ta_last_message_at a\<rparr>"

definition agent_to_response :: "team_agent \<Rightarrow> team_agent_response" where
  "agent_to_response a = agent_to_response_with_icon None a"

subsection \<open>Rows and the domain values read from them\<close>

record message_row =
  mm_id :: ident
  mm_team_id :: ident
  mm_to_agent_id :: ident
  mm_from_agent_id :: ident
  mm_msg_type :: string
  mm_content :: string
  mm_summary :: "string option"
  mm_files :: "string option"
  mm_read :: bool
  mm_created_at :: timestamp

record mailbox_message =
  msg_id :: ident
  msg_team_id :: ident
  msg_to_agent_id :: ident
  msg_from_agent_id :: ident
  msg_type :: message_type
  msg_content :: string
  msg_summary :: "string option"
  msg_files :: "string list option"
  msg_read :: bool
  msg_created_at :: timestamp

definition message_from_row :: "'j json_ops \<Rightarrow> message_row \<Rightarrow> mailbox_message option" where
  "message_from_row js row =
     (case message_type_parse (mm_msg_type row) of
        None \<Rightarrow> None
      | Some ty \<Rightarrow>
        let files = (case mm_files row of None \<Rightarrow> None
              | Some s \<Rightarrow> (case result_ok (js_strings_of js s) of None \<Rightarrow> None
                  | Some v \<Rightarrow> if v \<noteq> [] then Some v else None))
        in Some \<lparr>msg_id = mm_id row, msg_team_id = mm_team_id row,
                 msg_to_agent_id = mm_to_agent_id row, msg_from_agent_id = mm_from_agent_id row,
                 msg_type = ty, msg_content = mm_content row, msg_summary = mm_summary row,
                 msg_files = files, msg_read = mm_read row, msg_created_at = mm_created_at row\<rparr>)"

record task_row =
  tk_id :: ident
  tk_team_id :: ident
  tk_subject :: string
  tk_description :: "string option"
  tk_status :: string
  tk_owner :: "ident option"
  tk_blocked_by :: string
  tk_blocks :: string
  tk_metadata :: "string option"
  tk_created_at :: timestamp
  tk_updated_at :: timestamp

record 'j team_task =
  tt_id :: ident
  tt_team_id :: ident
  tt_subject :: string
  tt_description :: "string option"
  tt_status :: task_status
  tt_owner :: "ident option"
  tt_blocked_by :: "ident list"
  tt_blocks :: "ident list"
  tt_metadata :: "'j option"
  tt_created_at :: timestamp
  tt_updated_at :: timestamp

text \<open>\<open>TeamTask::from_row\<close>; its error is a \<open>serde_json::Error\<close>, shown as text.\<close>

definition task_from_row :: "'j json_ops \<Rightarrow> task_row \<Rightarrow> string + 'j team_task" where
  "task_from_row js row =
     (let status = (case task_status_parse (tk_status row) of None \<Rightarrow> TkPending | Some st \<Rightarrow> st)
      in case js_strings_of js (tk_blocked_by row) of
           Inl e \<Rightarrow> Inl e
         | Inr blocked_by \<Rightarrow>
           (case js_strings_of js (tk_blocks row) of
              Inl e \<Rightarrow> Inl e
            | Inr blocks \<Rightarrow>
              (case (case tk_metadata row of None \<Rightarrow> Inr None
                     | Some s \<Rightarrow> (case js_value_of js s of Inl e \<Rightarrow> Inl e | Inr v \<Rightarrow> Inr (Some v))) of
                 Inl e \<Rightarrow> Inl e
               | Inr metadata \<Rightarrow>
                 Inr \<lparr>tt_id = tk_id row, tt_team_id = tk_team_id row, tt_subject = tk_subject row,
                      tt_description = tk_description row, tt_status = status,
                      tt_owner = tk_owner row, tt_blocked_by = blocked_by, tt_blocks = blocks,
                      tt_metadata = metadata, tt_created_at = tk_created_at row,
                      tt_updated_at = tk_updated_at row\<rparr>)))"

end
