(* ===== verification/Team_Repo.thy ===== *)
theory Team_Repo
  imports Team_Types
begin

text \<open>
  The repository of teams, mailbox messages and tasks (crates/store/src/team_repo.rs):
  \<open>ITeamRepository\<close> as the record \<open>team_repo\<close> of its operations over a state \<open>'s\<close>, and
  \<open>MemoryTeamRepo\<close>, the implementation in the repository, as the value \<open>memory_repo\<close>. Every
  operation locks the state for its whole body, so it is one transition. The clock of an
  operation that reads it is its argument \<open>now\<close> (\<open>now1\<close>, \<open>now2\<close> where it is read twice).
\<close>

subsection \<open>Parameters and the state\<close>

record team_row =
  tr_id :: ident
  tr_user_id :: ident
  tr_name :: string
  tr_workspace :: string
  tr_workspace_mode :: string
  tr_agents :: string
  tr_lead_agent_id :: "ident option"
  tr_session_mode :: "string option"
  tr_agents_version :: string
  tr_created_at :: timestamp
  tr_updated_at :: timestamp
  tr_archived_at :: "timestamp option"

record update_team_params =
  ut_name :: "string option"
  ut_workspace :: "string option"
  ut_agents :: "string option"
  ut_lead_agent_id :: "ident option"
  ut_session_mode :: "string option"

text \<open>\<open>UpdateTeamParams::default()\<close>: nothing is changed.\<close>

definition no_update :: update_team_params where
  "no_update = \<lparr>ut_name = None, ut_workspace = None, ut_agents = None, ut_lead_agent_id = None, ut_session_mode = None\<rparr>"

record update_task_params =
  uk_status :: "string option"
  uk_description :: "string option"
  uk_owner :: "ident option"
  uk_blocked_by :: "string option"
  uk_metadata :: "string option"

record memory_state =
  ms_teams :: "team_row list"
  ms_messages :: "message_row list"
  ms_tasks :: "task_row list"

definition memory_new :: memory_state where
  "memory_new = \<lparr>ms_teams = [], ms_messages = [], ms_tasks = []\<rparr>"

text \<open>\<open>iter_mut().find(p)\<close> and an assignment through it: the first element that satisfies \<open>p\<close>.\<close>

fun modify_first :: "('a \<Rightarrow> bool) \<Rightarrow> ('a \<Rightarrow> 'a) \<Rightarrow> 'a list \<Rightarrow> 'a list" where
  "modify_first p f [] = []"
| "modify_first p f (x # xs) = (if p x then f x # xs else x # modify_first p f xs)"

subsection \<open>Teams\<close>

definition mem_create_team :: "team_row \<Rightarrow> memory_state \<Rightarrow> (db_error + unit) \<times> memory_state" where
  "mem_create_team row s =
     (if list_ex (\<lambda>t. tr_id t = tr_id row) (ms_teams s)
      then (Inl (Conflict (''team '' @ tr_id row)), s)
      else (Inr (), s\<lparr>ms_teams := ms_teams s @ [row]\<rparr>))"

definition mem_list_teams :: "memory_state \<Rightarrow> db_error + team_row list" where
  "mem_list_teams s = Inr (filter (\<lambda>t. tr_archived_at t = None) (ms_teams s))"

definition mem_list_teams_by_user :: "ident \<Rightarrow> memory_state \<Rightarrow> db_error + team_row list" where
  "mem_list_teams_by_user user s =
     Inr (filter (\<lambda>t. tr_user_id t = user \<and> tr_archived_at t = None) (ms_teams s))"

definition mem_list_archived_teams_by_user :: "ident \<Rightarrow> memory_state \<Rightarrow> db_error + team_row list" where
  "mem_list_archived_teams_by_user user s =
     Inr (filter (\<lambda>t. tr_user_id t = user \<and> is_some (tr_archived_at t)) (ms_teams s))"

definition mem_get_team :: "ident \<Rightarrow> memory_state \<Rightarrow> db_error + team_row option" where
  "mem_get_team team_id s = Inr (find (\<lambda>t. tr_id t = team_id) (ms_teams s))"

definition apply_team_params :: "timestamp \<Rightarrow> update_team_params \<Rightarrow> team_row \<Rightarrow> team_row" where
  "apply_team_params now params t =
     t\<lparr>tr_name := (case ut_name params of None \<Rightarrow> tr_name t | Some x \<Rightarrow> x),
       tr_workspace := (case ut_workspace params of None \<Rightarrow> tr_workspace t | Some x \<Rightarrow> x),
       tr_agents := (case ut_agents params of None \<Rightarrow> tr_agents t | Some x \<Rightarrow> x),
       tr_lead_agent_id := (case ut_lead_agent_id params of None \<Rightarrow> tr_lead_agent_id t | Some x \<Rightarrow> Some x),
       tr_session_mode := (case ut_session_mode params of None \<Rightarrow> tr_session_mode t | Some x \<Rightarrow> Some x),
       tr_updated_at := now\<rparr>"

definition mem_update_team ::
  "timestamp \<Rightarrow> ident \<Rightarrow> update_team_params \<Rightarrow> memory_state \<Rightarrow> (db_error + unit) \<times> memory_state" where
  "mem_update_team now team_id params s =
     (if find (\<lambda>t. tr_id t = team_id) (ms_teams s) = None
      then (Inl (NotFound (''team '' @ team_id)), s)
      else (Inr (), s\<lparr>ms_teams :=
        modify_first (\<lambda>t. tr_id t = team_id) (apply_team_params now params) (ms_teams s)\<rparr>))"

definition mem_archive_team ::
  "timestamp \<Rightarrow> timestamp \<Rightarrow> ident \<Rightarrow> memory_state \<Rightarrow> (db_error + unit) \<times> memory_state" where
  "mem_archive_team now1 now2 team_id s =
     (if find (\<lambda>t. tr_id t = team_id) (ms_teams s) = None
      then (Inl (NotFound (''team '' @ team_id)), s)
      else (Inr (), s\<lparr>ms_teams :=
        modify_first (\<lambda>t. tr_id t = team_id)
          (\<lambda>t. t\<lparr>tr_archived_at := Some now1, tr_updated_at := now2\<rparr>) (ms_teams s)\<rparr>))"

definition mem_delete_team :: "ident \<Rightarrow> memory_state \<Rightarrow> (db_error + unit) \<times> memory_state" where
  "mem_delete_team team_id s =
     (let teams = filter (\<lambda>t. tr_id t \<noteq> team_id) (ms_teams s)
      in (if length teams = length (ms_teams s) then Inl (NotFound (''team '' @ team_id)) else Inr (),
          s\<lparr>ms_teams := teams\<rparr>))"

subsection \<open>Messages\<close>

definition addressed_to :: "ident \<Rightarrow> ident \<Rightarrow> message_row \<Rightarrow> bool" where
  "addressed_to team_id agent_id m \<longleftrightarrow> mm_team_id m = team_id \<and> mm_to_agent_id m = agent_id"

definition mem_write_message :: "message_row \<Rightarrow> memory_state \<Rightarrow> (db_error + unit) \<times> memory_state" where
  "mem_write_message row s = (Inr (), s\<lparr>ms_messages := ms_messages s @ [row]\<rparr>)"

text \<open>The loop marks each unread message of the agent and collects it as marked.\<close>

fun read_loop :: "ident \<Rightarrow> ident \<Rightarrow> message_row list \<Rightarrow> message_row list \<times> message_row list" where
  "read_loop team_id agent_id [] = ([], [])"
| "read_loop team_id agent_id (m # ms) =
     (case read_loop team_id agent_id ms of (result, ms') \<Rightarrow>
        if addressed_to team_id agent_id m \<and> \<not> mm_read m
        then (m\<lparr>mm_read := True\<rparr> # result, m\<lparr>mm_read := True\<rparr> # ms')
        else (result, m # ms'))"

definition mem_read_unread_and_mark ::
  "ident \<Rightarrow> ident \<Rightarrow> memory_state \<Rightarrow> (db_error + message_row list) \<times> memory_state" where
  "mem_read_unread_and_mark team_id agent_id s =
     (case read_loop team_id agent_id (ms_messages s) of (result, ms') \<Rightarrow>
        (Inr result, s\<lparr>ms_messages := ms'\<rparr>))"

definition mem_peek_unread :: "ident \<Rightarrow> ident \<Rightarrow> memory_state \<Rightarrow> db_error + message_row list" where
  "mem_peek_unread team_id agent_id s =
     Inr (filter (\<lambda>m. addressed_to team_id agent_id m \<and> \<not> mm_read m) (ms_messages s))"

definition mem_mark_read_batch :: "ident list \<Rightarrow> memory_state \<Rightarrow> (db_error + unit) \<times> memory_state" where
  "mem_mark_read_batch ids s =
     (Inr (), s\<lparr>ms_messages :=
        map (\<lambda>m. if mm_id m \<in> set ids then m\<lparr>mm_read := True\<rparr> else m) (ms_messages s)\<rparr>)"

definition mem_update_message_summary ::
  "ident \<Rightarrow> string \<Rightarrow> memory_state \<Rightarrow> (db_error + unit) \<times> memory_state" where
  "mem_update_message_summary message_id summary s =
     (if find (\<lambda>m. mm_id m = message_id) (ms_messages s) = None
      then (Inl (NotFound (''mailbox message '' @ message_id)), s)
      else (Inr (), s\<lparr>ms_messages :=
        modify_first (\<lambda>m. mm_id m = message_id) (\<lambda>m. m\<lparr>mm_summary := Some summary\<rparr>) (ms_messages s)\<rparr>))"

text \<open>\<open>n as usize\<close> of an \<open>i64\<close> on a 64-bit machine: a negative limit becomes a huge one.\<close>

definition usize_of_i64 :: "int \<Rightarrow> nat" where
  "usize_of_i64 n = nat (n mod 2 ^ 64)"

definition mem_get_history ::
  "ident \<Rightarrow> ident \<Rightarrow> int option \<Rightarrow> memory_state \<Rightarrow> db_error + message_row list" where
  "mem_get_history team_id agent_id limit s =
     (let msgs = filter (addressed_to team_id agent_id) (ms_messages s)
      in Inr (case limit of None \<Rightarrow> msgs | Some n \<Rightarrow> take (usize_of_i64 n) msgs))"

definition mem_delete_mailbox_by_team :: "ident \<Rightarrow> memory_state \<Rightarrow> (db_error + unit) \<times> memory_state" where
  "mem_delete_mailbox_by_team team_id s =
     (Inr (), s\<lparr>ms_messages := filter (\<lambda>m. mm_team_id m \<noteq> team_id) (ms_messages s)\<rparr>)"

subsection \<open>Tasks\<close>

definition mem_create_task :: "task_row \<Rightarrow> memory_state \<Rightarrow> (db_error + unit) \<times> memory_state" where
  "mem_create_task row s = (Inr (), s\<lparr>ms_tasks := ms_tasks s @ [row]\<rparr>)"

definition mem_find_task_by_id :: "ident \<Rightarrow> ident \<Rightarrow> memory_state \<Rightarrow> db_error + task_row option" where
  "mem_find_task_by_id team_id task_id s =
     Inr (find (\<lambda>t. tk_team_id t = team_id \<and> tk_id t = task_id) (ms_tasks s))"

definition apply_task_params :: "timestamp \<Rightarrow> update_task_params \<Rightarrow> task_row \<Rightarrow> task_row" where
  "apply_task_params now params t =
     t\<lparr>tk_status := (case uk_status params of None \<Rightarrow> tk_status t | Some x \<Rightarrow> x),
       tk_description := (case uk_description params of None \<Rightarrow> tk_description t | Some x \<Rightarrow> Some x),
       tk_owner := (case uk_owner params of None \<Rightarrow> tk_owner t | Some x \<Rightarrow> Some x),
       tk_blocked_by := (case uk_blocked_by params of None \<Rightarrow> tk_blocked_by t | Some x \<Rightarrow> x),
       tk_metadata := (case uk_metadata params of None \<Rightarrow> tk_metadata t | Some x \<Rightarrow> Some x),
       tk_updated_at := now\<rparr>"

text \<open>\<open>find\<close> a task by its id alone and change it, or \<open>NotFound\<close>.\<close>

definition mem_modify_task ::
  "ident \<Rightarrow> (task_row \<Rightarrow> task_row) \<Rightarrow> memory_state \<Rightarrow> (db_error + unit) \<times> memory_state" where
  "mem_modify_task task_id f s =
     (if find (\<lambda>t. tk_id t = task_id) (ms_tasks s) = None then (Inl (NotFound task_id), s)
      else (Inr (), s\<lparr>ms_tasks := modify_first (\<lambda>t. tk_id t = task_id) f (ms_tasks s)\<rparr>))"

definition mem_update_task ::
  "timestamp \<Rightarrow> ident \<Rightarrow> update_task_params \<Rightarrow> memory_state \<Rightarrow> (db_error + unit) \<times> memory_state" where
  "mem_update_task now task_id params = mem_modify_task task_id (apply_task_params now params)"

definition mem_list_tasks :: "ident \<Rightarrow> memory_state \<Rightarrow> db_error + task_row list" where
  "mem_list_tasks team_id s = Inr (filter (\<lambda>t. tk_team_id t = team_id) (ms_tasks s))"

definition add_block :: "'j json_ops \<Rightarrow> timestamp \<Rightarrow> ident \<Rightarrow> task_row \<Rightarrow> task_row" where
  "add_block js now blocked_task_id t =
     (let blocks = result_or [] (js_strings_of js (tk_blocks t));
          blocks1 = (if blocked_task_id \<in> set blocks then blocks else blocks @ [blocked_task_id])
      in t\<lparr>tk_blocks := result_or ''[]'' (js_strings_to js blocks1), tk_updated_at := now\<rparr>)"

definition mem_append_to_blocks ::
  "'j json_ops \<Rightarrow> timestamp \<Rightarrow> ident \<Rightarrow> ident \<Rightarrow> memory_state \<Rightarrow> (db_error + unit) \<times> memory_state" where
  "mem_append_to_blocks js now task_id blocked_task_id =
     mem_modify_task task_id (add_block js now blocked_task_id)"

definition drop_blocked_by :: "'j json_ops \<Rightarrow> timestamp \<Rightarrow> ident \<Rightarrow> task_row \<Rightarrow> task_row" where
  "drop_blocked_by js now unblocked_task_id t =
     (let blocked_by = result_or [] (js_strings_of js (tk_blocked_by t));
          rest = filter (\<lambda>i. i \<noteq> unblocked_task_id) blocked_by
      in t\<lparr>tk_blocked_by := result_or ''[]'' (js_strings_to js rest), tk_updated_at := now\<rparr>)"

definition mem_remove_from_blocked_by ::
  "'j json_ops \<Rightarrow> timestamp \<Rightarrow> ident \<Rightarrow> ident \<Rightarrow> memory_state \<Rightarrow> (db_error + unit) \<times> memory_state" where
  "mem_remove_from_blocked_by js now task_id unblocked_task_id =
     mem_modify_task task_id (drop_blocked_by js now unblocked_task_id)"

definition mem_delete_tasks_by_team :: "ident \<Rightarrow> memory_state \<Rightarrow> (db_error + unit) \<times> memory_state" where
  "mem_delete_tasks_by_team team_id s =
     (Inr (), s\<lparr>ms_tasks := filter (\<lambda>t. tk_team_id t \<noteq> team_id) (ms_tasks s)\<rparr>)"

subsection \<open>The trait\<close>

text \<open>
  The operations of \<open>ITeamRepository\<close> that the mailbox and the task board call, as a record;
  the read-only ones do not return a state.
\<close>

record 's message_repo =
  mrepo_write :: "message_row \<Rightarrow> 's \<Rightarrow> (db_error + unit) \<times> 's"
  mrepo_read_unread_and_mark :: "ident \<Rightarrow> ident \<Rightarrow> 's \<Rightarrow> (db_error + message_row list) \<times> 's"
  mrepo_peek_unread :: "ident \<Rightarrow> ident \<Rightarrow> 's \<Rightarrow> db_error + message_row list"
  mrepo_mark_read_batch :: "ident list \<Rightarrow> 's \<Rightarrow> (db_error + unit) \<times> 's"
  mrepo_get_history :: "ident \<Rightarrow> ident \<Rightarrow> int option \<Rightarrow> 's \<Rightarrow> db_error + message_row list"
  mrepo_delete_by_team :: "ident \<Rightarrow> 's \<Rightarrow> (db_error + unit) \<times> 's"

definition memory_messages :: "memory_state message_repo" where
  "memory_messages =
     \<lparr>mrepo_write = mem_write_message, mrepo_read_unread_and_mark = mem_read_unread_and_mark,
      mrepo_peek_unread = mem_peek_unread, mrepo_mark_read_batch = mem_mark_read_batch,
      mrepo_get_history = mem_get_history, mrepo_delete_by_team = mem_delete_mailbox_by_team\<rparr>"

record 's task_repo =
  trepo_create :: "task_row \<Rightarrow> 's \<Rightarrow> (db_error + unit) \<times> 's"
  trepo_find :: "ident \<Rightarrow> ident \<Rightarrow> 's \<Rightarrow> db_error + task_row option"
  trepo_update :: "timestamp \<Rightarrow> ident \<Rightarrow> update_task_params \<Rightarrow> 's \<Rightarrow> (db_error + unit) \<times> 's"
  trepo_list :: "ident \<Rightarrow> 's \<Rightarrow> db_error + task_row list"
  trepo_append_to_blocks :: "timestamp \<Rightarrow> ident \<Rightarrow> ident \<Rightarrow> 's \<Rightarrow> (db_error + unit) \<times> 's"
  trepo_remove_from_blocked_by :: "timestamp \<Rightarrow> ident \<Rightarrow> ident \<Rightarrow> 's \<Rightarrow> (db_error + unit) \<times> 's"

definition memory_tasks :: "'j json_ops \<Rightarrow> memory_state task_repo" where
  "memory_tasks js =
     \<lparr>trepo_create = mem_create_task, trepo_find = mem_find_task_by_id, trepo_update = mem_update_task,
      trepo_list = mem_list_tasks, trepo_append_to_blocks = mem_append_to_blocks js,
      trepo_remove_from_blocked_by = mem_remove_from_blocked_by js\<rparr>"

subsection \<open>Teams read from rows (types.rs)\<close>

record team =
  tm_id :: ident
  tm_name :: string
  tm_workspace :: string
  tm_agents :: "team_agent list"
  tm_lead_agent_id :: "ident option"
  tm_created_at :: timestamp
  tm_updated_at :: timestamp
  tm_archived_at :: "timestamp option"

text \<open>\<open>agents_of\<close> is \<open>serde_json::from_str::<Vec<TeamAgent>>\<close>.\<close>

definition team_from_row :: "(string \<Rightarrow> string + team_agent list) \<Rightarrow> team_row \<Rightarrow> string + team" where
  "team_from_row agents_of row =
     (case agents_of (tr_agents row) of
        Inl e \<Rightarrow> Inl e
      | Inr agents \<Rightarrow> Inr \<lparr>tm_id = tr_id row, tm_name = tr_name row, tm_workspace = tr_workspace row,
          tm_agents = agents, tm_lead_agent_id = tr_lead_agent_id row, tm_created_at = tr_created_at row,
          tm_updated_at = tr_updated_at row, tm_archived_at = tr_archived_at row\<rparr>)"

record team_response =
  trs_id :: ident
  trs_name :: string
  trs_workspace :: string
  trs_assistants :: "team_agent_response list"
  trs_leader_assistant_id :: "ident option"
  trs_created_at :: timestamp
  trs_updated_at :: timestamp
  trs_archived_at :: "timestamp option"

definition team_to_response :: "team \<Rightarrow> team_response" where
  "team_to_response t =
     \<lparr>trs_id = tm_id t, trs_name = tm_name t, trs_workspace = tm_workspace t,
      trs_assistants = map agent_to_response (tm_agents t), trs_leader_assistant_id = tm_lead_agent_id t,
      trs_created_at = tm_created_at t, trs_updated_at = tm_updated_at t, trs_archived_at = tm_archived_at t\<rparr>"

end
