(* ===== verification/Task_Board.thy ===== *)
theory Task_Board
  imports Team_Repo
begin

text \<open>
  The task board (crates/team/src/task_board.rs) over the task operations \<open>repo\<close> of a
  repository. Every call of the repository that reads the clock gets its own reading: the
  \<open>n\<close>-th call of a loop the value \<open>clock n\<close>.
\<close>

record 'j task_update =
  tu_status :: "task_status option"
  tu_description :: "string option"
  tu_owner :: "ident option"
  tu_blocked_by :: "ident list option"
  tu_metadata :: "'j option"

text \<open>The first loop of \<open>create_task\<close>: every dependency must be a task of the team.\<close>

fun check_deps :: "'s task_repo \<Rightarrow> ident \<Rightarrow> ident list \<Rightarrow> 's \<Rightarrow> team_error + unit" where
  "check_deps repo team_id [] s = Inr ()"
| "check_deps repo team_id (d # ds) s =
     (case trepo_find repo team_id d s of
        Inl e \<Rightarrow> Inl (Database e)
      | Inr None \<Rightarrow> Inl (BlockedTaskNotFound d)
      | Inr (Some _) \<Rightarrow> check_deps repo team_id ds s)"

text \<open>The loops that call the repository once for each of a list of tasks.\<close>

fun each_task ::
  "(timestamp \<Rightarrow> ident \<Rightarrow> ident \<Rightarrow> 's \<Rightarrow> (db_error + unit) \<times> 's) \<Rightarrow> (nat \<Rightarrow> timestamp) \<Rightarrow> ident
     \<Rightarrow> ident list \<Rightarrow> 's \<Rightarrow> (team_error + unit) \<times> 's" where
  "each_task call clock task_id [] s = (Inr (), s)"
| "each_task call clock task_id (d # ds) s =
     (case call (clock 0) d task_id s of
        (Inl e, s1) \<Rightarrow> (Inl (Database e), s1)
      | (Inr _, s1) \<Rightarrow> each_task call (\<lambda>n. clock (Suc n)) task_id ds s1)"

definition append_all ::
  "'s task_repo \<Rightarrow> (nat \<Rightarrow> timestamp) \<Rightarrow> ident \<Rightarrow> ident list \<Rightarrow> 's \<Rightarrow> (team_error + unit) \<times> 's" where
  "append_all repo = each_task (trepo_append_to_blocks repo)"

definition create_task ::
  "'j json_ops \<Rightarrow> 's task_repo \<Rightarrow> ident \<Rightarrow> timestamp \<Rightarrow> (nat \<Rightarrow> timestamp) \<Rightarrow> ident \<Rightarrow> string \<Rightarrow> string option
     \<Rightarrow> ident option \<Rightarrow> ident list \<Rightarrow> 's \<Rightarrow> (team_error + 'j team_task) \<times> 's" where
  "create_task js repo task_id now clock team_id subject description owner blocked_by s =
     (case check_deps repo team_id blocked_by s of
        Inl e \<Rightarrow> (Inl e, s)
      | Inr _ \<Rightarrow>
        (case js_strings_to js blocked_by of
           Inl e \<Rightarrow> (Inl (Json e), s)
         | Inr blocked_by_json \<Rightarrow>
           let row = \<lparr>tk_id = task_id, tk_team_id = team_id, tk_subject = subject,
                      tk_description = description, tk_status = task_status_display TkPending,
                      tk_owner = owner, tk_blocked_by = blocked_by_json, tk_blocks = ''[]'',
                      tk_metadata = None, tk_created_at = now, tk_updated_at = now\<rparr>
           in case trepo_create repo row s of
                (Inl e, s1) \<Rightarrow> (Inl (Database e), s1)
              | (Inr _, s1) \<Rightarrow>
                (case append_all repo clock task_id blocked_by s1 of
                   (Inl e, s2) \<Rightarrow> (Inl e, s2)
                 | (Inr _, s2) \<Rightarrow> (map_err Json (task_from_row js row), s2))))"

definition unblock_all ::
  "'s task_repo \<Rightarrow> (nat \<Rightarrow> timestamp) \<Rightarrow> ident \<Rightarrow> ident list \<Rightarrow> 's \<Rightarrow> (team_error + unit) \<times> 's" where
  "unblock_all repo = each_task (trepo_remove_from_blocked_by repo)"

definition check_unblocks ::
  "'j json_ops \<Rightarrow> 's task_repo \<Rightarrow> (nat \<Rightarrow> timestamp) \<Rightarrow> ident \<Rightarrow> task_row \<Rightarrow> 's \<Rightarrow> (team_error + unit) \<times> 's" where
  "check_unblocks js repo clock completed_task_id completed_row s =
     (case js_strings_of js (tk_blocks completed_row) of
        Inl e \<Rightarrow> (Inl (Json e), s)
      | Inr blocks \<Rightarrow> unblock_all repo clock completed_task_id blocks s)"

text \<open>\<open>as_ref().map(to_string).transpose()\<close>\<close>

definition encode_opt :: "('a \<Rightarrow> string + string) \<Rightarrow> 'a option \<Rightarrow> string + string option" where
  "encode_opt f x = (case x of None \<Rightarrow> Inr None
     | Some v \<Rightarrow> (case f v of Inl e \<Rightarrow> Inl e | Inr s \<Rightarrow> Inr (Some s)))"

definition update_params :: "'j json_ops \<Rightarrow> 'j task_update \<Rightarrow> string + update_task_params" where
  "update_params js update =
     (case encode_opt (js_strings_to js) (tu_blocked_by update) of
        Inl e \<Rightarrow> Inl e
      | Inr blocked_by \<Rightarrow>
        (case encode_opt (js_value_to js) (tu_metadata update) of
           Inl e \<Rightarrow> Inl e
         | Inr metadata \<Rightarrow>
           Inr \<lparr>uk_status = map_option task_status_display (tu_status update),
                uk_description = tu_description update, uk_owner = tu_owner update,
                uk_blocked_by = blocked_by, uk_metadata = metadata\<rparr>))"

definition update_task ::
  "'j json_ops \<Rightarrow> 's task_repo \<Rightarrow> timestamp \<Rightarrow> (nat \<Rightarrow> timestamp) \<Rightarrow> ident \<Rightarrow> ident \<Rightarrow> 'j task_update
     \<Rightarrow> 's \<Rightarrow> (team_error + 'j team_task) \<times> 's" where
  "update_task js repo now clock team_id task_id update s =
     (case trepo_find repo team_id task_id s of
        Inl e \<Rightarrow> (Inl (Database e), s)
      | Inr None \<Rightarrow> (Inl (TaskNotFound task_id), s)
      | Inr (Some existing) \<Rightarrow>
        (case update_params js update of
           Inl e \<Rightarrow> (Inl (Json e), s)
         | Inr params \<Rightarrow>
           (case trepo_update repo now task_id params s of
              (Inl e, s1) \<Rightarrow> (Inl (Database e), s1)
            | (Inr _, s1) \<Rightarrow>
              (case (if tu_status update = Some TkCompleted
                     then check_unblocks js repo clock task_id existing s1 else (Inr (), s1)) of
                 (Inl e, s2) \<Rightarrow> (Inl e, s2)
               | (Inr _, s2) \<Rightarrow>
                 (case trepo_find repo team_id task_id s2 of
                    Inl e \<Rightarrow> (Inl (Database e), s2)
                  | Inr None \<Rightarrow> (Inl (TaskNotFound task_id), s2)
                  | Inr (Some updated) \<Rightarrow> (map_err Json (task_from_row js updated), s2))))))"

definition list_tasks ::
  "'j json_ops \<Rightarrow> 's task_repo \<Rightarrow> ident \<Rightarrow> 's \<Rightarrow> team_error + 'j team_task list" where
  "list_tasks js repo team_id s =
     (case trepo_list repo team_id s of
        Inl e \<Rightarrow> Inl (Database e)
      | Inr rows \<Rightarrow> Inr (List.map_filter (\<lambda>r. result_ok (task_from_row js r)) rows))"

subsection \<open>The board as a graph of tasks\<close>

text \<open>
  What a board is about, without rows, JSON text and timestamps: for each task id the status,
  the owner, what it waits for and what waits for it. \<open>spec_create\<close> and \<open>spec_update\<close> say
  what the two operations do to the graph.
\<close>

record task_node =
  nd_status :: task_status
  nd_owner :: "ident option"
  nd_blocked_by :: "ident list"
  nd_blocks :: "ident list"

type_synonym task_graph = "ident \<rightharpoonup> task_node"

definition node_add_block :: "ident \<Rightarrow> task_node \<Rightarrow> task_node" where
  "node_add_block i v = v\<lparr>nd_blocks := (if i \<in> set (nd_blocks v) then nd_blocks v else nd_blocks v @ [i])\<rparr>"

definition node_unblock :: "ident \<Rightarrow> task_node \<Rightarrow> task_node" where
  "node_unblock i v = v\<lparr>nd_blocked_by := filter (\<lambda>d. d \<noteq> i) (nd_blocked_by v)\<rparr>"

definition spec_create :: "ident \<Rightarrow> ident option \<Rightarrow> ident list \<Rightarrow> task_graph \<Rightarrow> task_graph" where
  "spec_create i owner deps g = (\<lambda>j.
     if j = i then Some \<lparr>nd_status = TkPending, nd_owner = owner, nd_blocked_by = deps, nd_blocks = []\<rparr>
     else if j \<in> set deps then map_option (node_add_block i) (g j) else g j)"

definition node_update :: "'j task_update \<Rightarrow> task_node \<Rightarrow> task_node" where
  "node_update update v =
     v\<lparr>nd_status := (case tu_status update of None \<Rightarrow> nd_status v | Some st \<Rightarrow> st),
       nd_owner := (case tu_owner update of None \<Rightarrow> nd_owner v | Some a \<Rightarrow> Some a),
       nd_blocked_by := (case tu_blocked_by update of None \<Rightarrow> nd_blocked_by v | Some ds \<Rightarrow> ds)\<rparr>"

definition spec_update :: "ident \<Rightarrow> 'j task_update \<Rightarrow> task_graph \<Rightarrow> task_graph" where
  "spec_update i update g = (\<lambda>j.
     let g1 = g(i := map_option (node_update update) (g i))
     in if tu_status update = Some TkCompleted \<and> (\<exists>v. g i = Some v \<and> j \<in> set (nd_blocks v))
        then map_option (node_unblock i) (g1 j) else g1 j)"

text \<open>The graph of a list of rows.\<close>

definition row_node :: "'j json_ops \<Rightarrow> task_row \<Rightarrow> task_node" where
  "row_node js t =
     \<lparr>nd_status = (case task_status_parse (tk_status t) of None \<Rightarrow> TkPending | Some st \<Rightarrow> st),
      nd_owner = tk_owner t,
      nd_blocked_by = result_or [] (js_strings_of js (tk_blocked_by t)),
      nd_blocks = result_or [] (js_strings_of js (tk_blocks t))\<rparr>"

definition graph_of :: "'j json_ops \<Rightarrow> task_row list \<Rightarrow> task_graph" where
  "graph_of js rows = map_of (map (\<lambda>t. (tk_id t, row_node js t)) rows)"

definition readable :: "'j json_ops \<Rightarrow> task_row \<Rightarrow> bool" where
  "readable js t \<longleftrightarrow> (\<exists>xs. js_strings_of js (tk_blocked_by t) = Inr xs) \<and> (\<exists>ys. js_strings_of js (tk_blocks t) = Inr ys)"

definition rows_wf :: "'j json_ops \<Rightarrow> task_row list \<Rightarrow> bool" where
  "rows_wf js rows \<longleftrightarrow> distinct (map tk_id rows) \<and> (\<forall>t \<in> set rows. readable js t)"

definition rows_in_team :: "ident \<Rightarrow> task_row list \<Rightarrow> ident \<Rightarrow> bool" where
  "rows_in_team team rows i \<longleftrightarrow> (\<exists>t \<in> set rows. tk_team_id t = team \<and> tk_id t = i)"

subsection \<open>Rows and nodes\<close>

lemma readableE:
  assumes "readable js t"
  obtains xs ys where "js_strings_of js (tk_blocked_by t) = Inr xs" "js_strings_of js (tk_blocks t) = Inr ys"
  using assms by (auto simp: readable_def)

lemma graph_of_append: "i \<notin> tk_id ` set rows \<Longrightarrow> tk_id t = i \<Longrightarrow>
    graph_of js (rows @ [t]) = (graph_of js rows)(i \<mapsto> row_node js t)"
  by (induction rows) (auto simp: graph_of_def fun_eq_iff)

lemma graph_of_Some:
  "distinct (map tk_id rows) \<Longrightarrow> graph_of js rows i = Some v \<longleftrightarrow> (\<exists>t \<in> set rows. tk_id t = i \<and> v = row_node js t)"
  unfolding graph_of_def by (subst map_of_eq_Some_iff) (auto simp: comp_def)

lemma graph_of_None: "graph_of js rows i = None \<longleftrightarrow> i \<notin> tk_id ` set rows"
  by (force simp: graph_of_def map_of_eq_None_iff)

definition on_task :: "ident \<Rightarrow> (task_row \<Rightarrow> task_row) \<Rightarrow> task_row \<Rightarrow> task_row" where
  "on_task i f t = (if tk_id t = i then f t else t)"

lemma graph_of_on_task:
  assumes "\<And>t. tk_id (f t) = tk_id t" and "\<And>t. t \<in> set rows \<Longrightarrow> row_node js (f t) = g (row_node js t)"
  shows "graph_of js (map (on_task i f) rows) = (graph_of js rows)(i := map_option g (graph_of js rows i))"
  using assms by (induction rows) (auto simp: graph_of_def on_task_def fun_eq_iff)

lemma ids_on_task: "(\<And>t. tk_id (f t) = tk_id t) \<Longrightarrow> map tk_id (map (on_task i f) rows) = map tk_id rows"
  by (induction rows) (auto simp: on_task_def)

lemma add_block_node:
  assumes "json_laws js" and "readable js t"
  shows "row_node js (add_block js now b t) = node_add_block b (row_node js t)" "readable js (add_block js now b t)"
proof -
  from assms(2) obtain xs ys where xs: "js_strings_of js (tk_blocked_by t) = Inr xs" "js_strings_of js (tk_blocks t) = Inr ys"
    by (rule readableE)
  obtain u where "js_strings_to js (if b \<in> set ys then ys else ys @ [b]) = Inr u"
    "js_strings_of js u = Inr (if b \<in> set ys then ys else ys @ [b])"
    using assms(1) by (rule json_lawsE)
  with xs show "row_node js (add_block js now b t) = node_add_block b (row_node js t)" "readable js (add_block js now b t)"
    by (auto simp: row_node_def add_block_def node_add_block_def readable_def Let_def)
qed

lemma drop_blocked_by_node:
  assumes "json_laws js" and "readable js t"
  shows "row_node js (drop_blocked_by js now b t) = node_unblock b (row_node js t)" "readable js (drop_blocked_by js now b t)"
proof -
  from assms(2) obtain xs ys where xs: "js_strings_of js (tk_blocked_by t) = Inr xs" "js_strings_of js (tk_blocks t) = Inr ys"
    by (rule readableE)
  obtain u where "js_strings_to js (filter (\<lambda>i. i \<noteq> b) xs) = Inr u" "js_strings_of js u = Inr (filter (\<lambda>i. i \<noteq> b) xs)"
    using assms(1) by (rule json_lawsE)
  with xs show "row_node js (drop_blocked_by js now b t) = node_unblock b (row_node js t)" "readable js (drop_blocked_by js now b t)"
    by (auto simp: row_node_def drop_blocked_by_def node_unblock_def readable_def Let_def)
qed

lemma task_params_node:
  assumes laws: "json_laws js" and "readable js t" and params: "update_params js update = Inr params"
  shows "row_node js (apply_task_params now params t) = node_update update (row_node js t)"
    "readable js (apply_task_params now params t)"
proof -
  have "(\<exists>u. tu_blocked_by update = None \<and> uk_blocked_by params = None) \<or>
      (\<exists>ds u. tu_blocked_by update = Some ds \<and> uk_blocked_by params = Some u \<and> js_strings_of js u = Inr ds)"
  proof (cases "tu_blocked_by update")
    case (Some ds)
    obtain u where "js_strings_to js ds = Inr u" "js_strings_of js u = Inr ds" using laws by (rule json_lawsE)
    with params Some show ?thesis by (auto simp: update_params_def encode_opt_def split: sum.splits)
  qed (use params in \<open>auto simp: update_params_def encode_opt_def split: sum.splits\<close>)
  moreover have "uk_status params = map_option task_status_display (tu_status update)" "uk_owner params = tu_owner update"
    using params by (auto simp: update_params_def split: sum.splits)
  ultimately show "row_node js (apply_task_params now params t) = node_update update (row_node js t)"
    "readable js (apply_task_params now params t)"
    using assms(2)
    by (auto simp: row_node_def apply_task_params_def node_update_def readable_def split: option.splits)
qed

lemma row_ids [simp]:
  "tk_id (add_block js now b t) = tk_id t" "tk_id (drop_blocked_by js now b t) = tk_id t"
  "tk_id (apply_task_params now params t) = tk_id t"
  "tk_team_id (add_block js now b t) = tk_team_id t" "tk_team_id (drop_blocked_by js now b t) = tk_team_id t"
  "tk_team_id (apply_task_params now params t) = tk_team_id t"
  by (simp_all add: add_block_def drop_blocked_by_def apply_task_params_def Let_def)

lemma node_add_block_idem [simp]: "node_add_block i (node_add_block i v) = node_add_block i v"
  by (simp add: node_add_block_def)

lemma node_unblock_idem [simp]: "node_unblock i (node_unblock i v) = node_unblock i v"
  by (simp add: node_unblock_def)

subsection \<open>The contract of the repository\<close>

text \<open>
  \<open>tasks s\<close> are the rows of a state. The operations that change a task find it by its id
  alone; the changes the trait documents are \<open>apply_task_params\<close>, \<open>add_block\<close> and
  \<open>drop_blocked_by\<close>.
\<close>

locale task_store =
  fixes js :: "'j json_ops" and repo :: "'s task_repo" and tasks :: "'s \<Rightarrow> task_row list"
  assumes create_law: "\<exists>s'. trepo_create repo row s = (Inr (), s') \<and> tasks s' = tasks s @ [row]"
    and find_law: "trepo_find repo team i s = Inr (find (\<lambda>t. tk_team_id t = team \<and> tk_id t = i) (tasks s))"
    and update_law: "distinct (map tk_id (tasks s)) \<Longrightarrow> i \<in> tk_id ` set (tasks s) \<Longrightarrow>
      \<exists>s'. trepo_update repo now i params s = (Inr (), s') \<and>
        tasks s' = map (on_task i (apply_task_params now params)) (tasks s)"
    and append_law: "distinct (map tk_id (tasks s)) \<Longrightarrow> i \<in> tk_id ` set (tasks s) \<Longrightarrow>
      \<exists>s'. trepo_append_to_blocks repo now i b s = (Inr (), s') \<and>
        tasks s' = map (on_task i (add_block js now b)) (tasks s)"
    and remove_law: "distinct (map tk_id (tasks s)) \<Longrightarrow> i \<in> tk_id ` set (tasks s) \<Longrightarrow>
      \<exists>s'. trepo_remove_from_blocked_by repo now i b s = (Inr (), s') \<and>
        tasks s' = map (on_task i (drop_blocked_by js now b)) (tasks s)"
begin

abbreviation graph :: "'s \<Rightarrow> task_graph" where
  "graph s \<equiv> graph_of js (tasks s)"

abbreviation board_wf :: "'s \<Rightarrow> bool" where
  "board_wf s \<equiv> rows_wf js (tasks s)"

abbreviation task_ids :: "'s \<Rightarrow> ident set" where
  "task_ids s \<equiv> tk_id ` set (tasks s)"

text \<open>One call that changes a task, given what it does to the row's node.\<close>

lemma change_one:
  assumes wf: "board_wf s" and s': "tasks s' = map (on_task i f) (tasks s)"
    and f: "\<And>t. tk_id (f t) = tk_id t" "\<And>t. tk_team_id (f t) = tk_team_id t"
    and node: "\<And>t. readable js t \<Longrightarrow> row_node js (f t) = g (row_node js t) \<and> readable js (f t)"
  shows "board_wf s' \<and> map tk_id (tasks s') = map tk_id (tasks s) \<and>
    map tk_team_id (tasks s') = map tk_team_id (tasks s) \<and> graph s' = (graph s)(i := map_option g (graph s i))"
proof -
  have "map tk_team_id (map (on_task i f) xs) = map tk_team_id xs" for xs using f(2) by (induction xs) (auto simp: on_task_def)
  moreover have "readable js (on_task i f t)" if "readable js t" for t using that node by (simp add: on_task_def)
  moreover have "graph s' = (graph s)(i := map_option g (graph s i))"
    unfolding s' using wf node f(1) by (intro graph_of_on_task) (auto simp: rows_wf_def)
  ultimately show ?thesis
    using wf s' ids_on_task [of f, OF f(1)] unfolding rows_wf_def by (auto simp del: map_map)
qed

text \<open>The loops: the change is made at every task of the list, once or more.\<close>

lemma each_task_effect:
  assumes wf: "board_wf s" and ds: "set ds \<subseteq> task_ids s"
    and call: "\<And>now d s. board_wf s \<Longrightarrow> d \<in> task_ids s \<Longrightarrow>
      \<exists>s'. call now d i s = (Inr (), s') \<and> board_wf s' \<and> map tk_id (tasks s') = map tk_id (tasks s) \<and>
        map tk_team_id (tasks s') = map tk_team_id (tasks s) \<and> graph s' = (graph s)(d := map_option g (graph s d))"
    and idem: "\<And>v. g (g v) = g v"
  shows "\<exists>s'. each_task call clock i ds s = (Inr (), s') \<and> board_wf s' \<and> map tk_id (tasks s') = map tk_id (tasks s) \<and>
    map tk_team_id (tasks s') = map tk_team_id (tasks s) \<and>
    graph s' = (\<lambda>j. if j \<in> set ds then map_option g (graph s j) else graph s j)"
  using wf ds
proof (induction ds arbitrary: clock s)
  case (Cons d ds)
  then obtain s1 where s1: "call (clock 0) d i s = (Inr (), s1)" "board_wf s1" "map tk_id (tasks s1) = map tk_id (tasks s)"
    "map tk_team_id (tasks s1) = map tk_team_id (tasks s)" "graph s1 = (graph s)(d := map_option g (graph s d))"
    using call [of s d "clock 0"] by auto
  have "task_ids s1 = task_ids s" using s1(3) by (metis list.set_map)
  with Cons.IH [of s1 "\<lambda>n. clock (Suc n)"] Cons.prems s1 show ?case
    by (auto simp: fun_eq_iff option.map_comp comp_def idem)
qed simp

lemma append_all_effect:
  assumes json: "json_laws js" and "board_wf s" and "set ds \<subseteq> task_ids s"
  shows "\<exists>s'. append_all repo clock i ds s = (Inr (), s') \<and> board_wf s' \<and> map tk_id (tasks s') = map tk_id (tasks s) \<and>
    map tk_team_id (tasks s') = map tk_team_id (tasks s) \<and>
    graph s' = (\<lambda>j. if j \<in> set ds then map_option (node_add_block i) (graph s j) else graph s j)"
  unfolding append_all_def
proof (rule each_task_effect [OF assms(2,3)])
  fix now d s assume wf: "board_wf s" and d: "d \<in> task_ids s"
  then obtain s' where "trepo_append_to_blocks repo now d i s = (Inr (), s')" "tasks s' = map (on_task d (add_block js now i)) (tasks s)"
    using append_law by (meson rows_wf_def)
  with change_one [OF wf this(2), of "node_add_block i"] add_block_node [OF json]
  show "\<exists>s'. trepo_append_to_blocks repo now d i s = (Inr (), s') \<and> board_wf s' \<and> map tk_id (tasks s') = map tk_id (tasks s) \<and>
      map tk_team_id (tasks s') = map tk_team_id (tasks s) \<and> graph s' = (graph s)(d := map_option (node_add_block i) (graph s d))"
    by auto
qed simp

lemma unblock_all_effect:
  assumes json: "json_laws js" and "board_wf s" and "set ds \<subseteq> task_ids s"
  shows "\<exists>s'. unblock_all repo clock i ds s = (Inr (), s') \<and> board_wf s' \<and> map tk_id (tasks s') = map tk_id (tasks s) \<and>
    map tk_team_id (tasks s') = map tk_team_id (tasks s) \<and>
    graph s' = (\<lambda>j. if j \<in> set ds then map_option (node_unblock i) (graph s j) else graph s j)"
  unfolding unblock_all_def
proof (rule each_task_effect [OF assms(2,3)])
  fix now d s assume wf: "board_wf s" and d: "d \<in> task_ids s"
  then obtain s' where "trepo_remove_from_blocked_by repo now d i s = (Inr (), s')"
    "tasks s' = map (on_task d (drop_blocked_by js now i)) (tasks s)"
    using remove_law by (meson rows_wf_def)
  with change_one [OF wf this(2), of "node_unblock i"] drop_blocked_by_node [OF json]
  show "\<exists>s'. trepo_remove_from_blocked_by repo now d i s = (Inr (), s') \<and> board_wf s' \<and> map tk_id (tasks s') = map tk_id (tasks s) \<and>
      map tk_team_id (tasks s') = map tk_team_id (tasks s) \<and> graph s' = (graph s)(d := map_option (node_unblock i) (graph s d))"
    by auto
qed simp

text \<open>\<open>create_task\<close>: the first dependency that is no task of the team, or the new graph.\<close>

abbreviation in_team :: "ident \<Rightarrow> 's \<Rightarrow> ident \<Rightarrow> bool" where
  "in_team team s i \<equiv> rows_in_team team (tasks s) i"

lemma find_in_team: "(\<exists>row. trepo_find repo team i s = Inr (Some row)) \<longleftrightarrow> in_team team s i"
  using find_None_iff [of "\<lambda>t. tk_team_id t = team \<and> tk_id t = i" "tasks s"] by (auto simp: find_law rows_in_team_def)

lemma find_not_in_team: "\<not> in_team team s i \<Longrightarrow> trepo_find repo team i s = Inr None"
  by (simp add: find_law find_None_iff rows_in_team_def)

lemma check_deps_result:
  "check_deps repo team ds s =
     (case find (\<lambda>d. \<not> in_team team s d) ds of None \<Rightarrow> Inr () | Some d \<Rightarrow> Inl (BlockedTaskNotFound d))"
proof (induction ds)
  case (Cons d ds)
  show ?case
  proof (cases "in_team team s d")
    case True
    then obtain row where "trepo_find repo team d s = Inr (Some row)" using find_in_team by blast
    with True Cons show ?thesis by simp
  qed (simp add: find_not_in_team)
qed simp

lemma create_task_missing:
  assumes "find (\<lambda>d. \<not> in_team team s d) deps = Some d"
  shows "create_task js repo i now clock team subject description owner deps s = (Inl (BlockedTaskNotFound d), s)"
  using assms by (simp add: create_task_def check_deps_result)

lemma create_task_refines:
  assumes json: "json_laws js" and wf: "board_wf s" and deps: "\<forall>d \<in> set deps. in_team team s d" and fresh: "i \<notin> task_ids s"
  shows "\<exists>s'. create_task js repo i now clock team subject description owner deps s =
      (Inr \<lparr>tt_id = i, tt_team_id = team, tt_subject = subject, tt_description = description, tt_status = TkPending,
            tt_owner = owner, tt_blocked_by = deps, tt_blocks = [], tt_metadata = None,
            tt_created_at = now, tt_updated_at = now\<rparr>, s') \<and>
    board_wf s' \<and> graph s' = spec_create i owner deps (graph s)"
proof -
  have "find (\<lambda>d. \<not> in_team team s d) deps = None" using deps by (auto simp: find_None_iff)
  then have check: "check_deps repo team deps s = Inr ()" by (simp add: check_deps_result)
  obtain u where u: "js_strings_to js deps = Inr u" "js_strings_of js u = Inr deps" using json by (rule json_lawsE)
  define row where "row = \<lparr>tk_id = i, tk_team_id = team, tk_subject = subject, tk_description = description,
    tk_status = task_status_display TkPending, tk_owner = owner, tk_blocked_by = u, tk_blocks = ''[]'',
    tk_metadata = None, tk_created_at = now, tk_updated_at = now\<rparr>"
  obtain s1 where s1: "trepo_create repo row s = (Inr (), s1)" "tasks s1 = tasks s @ [row]" using create_law by blast
  have parse: "js_strings_of js ''[]'' = Inr []" "task_status_parse ''pending'' = Some TkPending"
    using json by (simp_all add: json_empty task_status_parse_def)
  have node: "row_node js row = \<lparr>nd_status = TkPending, nd_owner = owner, nd_blocked_by = deps, nd_blocks = []\<rparr>" "readable js row"
    using u parse by (simp_all add: row_node_def row_def readable_def)
  have g1: "graph s1 = (graph s)(i \<mapsto> row_node js row)"
    unfolding s1(2) using fresh by (intro graph_of_append) (simp_all add: row_def)
  have wf1: "board_wf s1" using wf fresh node(2) by (auto simp: rows_wf_def s1(2) row_def)
  have "set deps \<subseteq> task_ids s" using deps by (auto simp: rows_in_team_def)
  then have ds: "set deps \<subseteq> task_ids s1" "i \<notin> set deps" using fresh by (auto simp: s1(2))
  obtain s2 where s2: "append_all repo clock i deps s1 = (Inr (), s2)" "board_wf s2"
    "graph s2 = (\<lambda>j. if j \<in> set deps then map_option (node_add_block i) (graph s1 j) else graph s1 j)"
    using append_all_effect [OF json wf1 ds(1)] by blast
  have "graph s2 = spec_create i owner deps (graph s)"
    using ds(2) by (auto simp: s2(3) g1 spec_create_def node(1) fun_eq_iff)
  moreover have "task_from_row js row = Inr \<lparr>tt_id = i, tt_team_id = team, tt_subject = subject,
      tt_description = description, tt_status = TkPending, tt_owner = owner, tt_blocked_by = deps, tt_blocks = [],
      tt_metadata = None, tt_created_at = now, tt_updated_at = now\<rparr>"
    using u parse by (simp add: task_from_row_def row_def)
  ultimately show ?thesis
    using check u s1(1) s2(1,2) by (simp add: create_task_def row_def)
qed

text \<open>\<open>update_task\<close>, when the tasks its task blocks are on the board.\<close>

lemma update_task_missing:
  assumes "\<not> in_team team s i"
  shows "update_task js repo now clock team i update s = (Inl (TaskNotFound i), s)"
  using assms by (simp add: update_task_def find_not_in_team)

lemma in_team_keeps:
  assumes "map tk_id (tasks s') = map tk_id (tasks s)" "map tk_team_id (tasks s') = map tk_team_id (tasks s)"
  shows "in_team team s' i = in_team team s i"
proof -
  have z: "in_team team x i \<longleftrightarrow> (team, i) \<in> set (zip (map tk_team_id (tasks x)) (map tk_id (tasks x)))" for x
    by (auto simp: rows_in_team_def zip_map_map zip_same_conv_map)
  show ?thesis unfolding z using assms by simp
qed

lemma update_task_refines:
  assumes json: "json_laws js" and wf: "board_wf s" and team: "in_team team s i" and params: "update_params js update = Inr params"
    and closed: "\<forall>v. graph s i = Some v \<longrightarrow> set (nd_blocks v) \<subseteq> task_ids s"
  shows "\<exists>row s'. update_task js repo now clock team i update s = (map_err Json (task_from_row js row), s') \<and>
    row \<in> set (tasks s') \<and> tk_id row = i \<and> board_wf s' \<and> graph s' = spec_update i update (graph s)"
proof -
  obtain existing where ex: "trepo_find repo team i s = Inr (Some existing)" using team find_in_team by blast
  then have row: "existing \<in> set (tasks s)" "tk_id existing = i" by (auto simp: find_law find_Some_iff)
  then have v: "graph s i = Some (row_node js existing)"
    using wf by (auto simp: rows_wf_def graph_of_Some)
  obtain s1 where s1: "trepo_update repo now i params s = (Inr (), s1)"
    "tasks s1 = map (on_task i (apply_task_params now params)) (tasks s)"
    using update_law wf row by (metis rows_wf_def image_eqI)
  have c1: "board_wf s1 \<and> map tk_id (tasks s1) = map tk_id (tasks s) \<and>
      map tk_team_id (tasks s1) = map tk_team_id (tasks s) \<and> graph s1 = (graph s)(i := map_option (node_update update) (graph s i))"
    by (rule change_one [OF wf s1(2)]) (simp_all add: task_params_node [OF json _ params])
  have "readable js existing" using wf row(1) by (simp add: rows_wf_def)
  then obtain xs ys where ys: "js_strings_of js (tk_blocks existing) = Inr ys" by (rule readableE)
  then have blocks: "nd_blocks (row_node js existing) = ys" by (simp add: row_node_def)
  have ids: "task_ids s1 = task_ids s" using c1 by (metis list.set_map)
  have "set ys \<subseteq> task_ids s1" using closed v blocks ids by auto
  then obtain s2 where s2: "unblock_all repo clock i ys s1 = (Inr (), s2)" "board_wf s2" "map tk_id (tasks s2) = map tk_id (tasks s1)"
    "map tk_team_id (tasks s2) = map tk_team_id (tasks s1)"
    "graph s2 = (\<lambda>j. if j \<in> set ys then map_option (node_unblock i) (graph s1 j) else graph s1 j)"
    using unblock_all_effect [OF json] c1 by blast
  define s' where "s' = (if tu_status update = Some TkCompleted then s2 else s1)"
  have steps: "(if tu_status update = Some TkCompleted then check_unblocks js repo clock i existing s1 else (Inr (), s1)) = (Inr (), s')"
    using ys s2(1) by (simp add: check_unblocks_def s'_def)
  have wf': "board_wf s'" "graph s' = spec_update i update (graph s)"
    using c1 s2 v blocks by (auto simp: s'_def spec_update_def fun_eq_iff Let_def)
  have "in_team team s' i" using team c1 s2 in_team_keeps [of s1 s] in_team_keeps [of s2 s1] by (simp add: s'_def)
  then obtain row where r: "trepo_find repo team i s' = Inr (Some row)" using find_in_team by blast
  then have "row \<in> set (tasks s')" "tk_id row = i" by (auto simp: find_law find_Some_iff)
  moreover have "update_task js repo now clock team i update s = (map_err Json (task_from_row js row), s')"
    by (simp add: update_task_def ex params s1(1) steps r del: fun_upd_apply split del: if_split)
  ultimately show ?thesis using wf' by blast
qed

end

end
