(* ===== verification/Json_Value.thy ===== *)
theory Json_Value
  imports Team_Types
begin

text \<open>
  \<open>serde_json::Value\<close> as the code uses it: built by \<open>json!\<close>, read by \<open>get\<close>, \<open>as_str\<close> and
  \<open>as_object\<close>. The library is the argument \<open>vo\<close> over the type \<open>'j\<close> of its values;
  \<open>value_laws\<close> is the documented behaviour the code relies on. An object is built from the
  list of its entries.
\<close>

subsection \<open>Lists of strings, an instance\<close>

text \<open>
  A concrete instance of the JSON operations, for witnesses: it shows that \<open>json_laws\<close> can
  hold. A list of strings is written between brackets, each string as a plus sign and its
  characters, each character after a caret; the empty list is \<open>[]\<close> as in JSON.
\<close>

definition demo_item :: "string \<Rightarrow> string" where
  "demo_item s = CHR ''+'' # concat (map (\<lambda>c. [CHR ''^'', c]) s)"

fun demo_dec :: "string \<Rightarrow> string \<times> string list" where
  "demo_dec [] = ([], [])"
| "demo_dec [c] = ([], [])"
| "demo_dec (c # d # cs) =
     (if c = CHR '']'' then ([], [])
      else if c = CHR ''+'' then (case demo_dec (d # cs) of (cur, items) \<Rightarrow> ([], cur # items))
      else (case demo_dec cs of (cur, items) \<Rightarrow> (d # cur, items)))"

definition demo_json :: "unit json_ops" where
  "demo_json =
     \<lparr>js_strings_of = (\<lambda>s. case s of CHR ''['' # cs \<Rightarrow> Inr (snd (demo_dec cs)) | _ \<Rightarrow> Inl ''expected a list''),
      js_strings_to = (\<lambda>xs. Inr (CHR ''['' # concat (map demo_item xs) @ '']'')),
      js_value_of = (\<lambda>s. if s = ''null'' then Inr () else Inl ''expected null''),
      js_value_to = (\<lambda>_. Inr ''null'')\<rparr>"

lemma demo_dec_chars:
  "rest \<noteq> [] \<Longrightarrow> demo_dec (concat (map (\<lambda>c. [CHR ''^'', c]) s) @ rest) = (s @ fst (demo_dec rest), snd (demo_dec rest))"
proof (induction s)
  case (Cons c s)
  then show ?case
    by (cases "concat (map (\<lambda>c. [CHR ''^'', c]) s) @ rest") (auto split: prod.splits)
qed simp

lemma demo_dec_items: "demo_dec (concat (map demo_item xs) @ '']'') = ([], xs)"
proof (induction xs)
  case (Cons s xs)
  let ?rest = "concat (map demo_item xs) @ '']''" and ?chars = "concat (map (\<lambda>c. [CHR ''^'', c]) s)"
  obtain d cs where d: "?chars @ ?rest = d # cs" by (cases "?chars @ ?rest") auto
  have "demo_dec (d # cs) = (s, xs)"
    using demo_dec_chars [of ?rest s] Cons.IH unfolding d [symmetric] by simp
  then have "demo_dec (CHR ''+'' # ?chars @ ?rest) = ([], s # xs)" unfolding d by simp
  then show ?case by (simp add: demo_item_def [of s])
qed simp

lemma demo_json_laws: "json_laws demo_json"
  by (simp add: json_laws_def demo_json_def demo_dec_items)

record 'j value_ops =
  jv_null :: 'j
  jv_bool :: "bool \<Rightarrow> 'j"
  jv_int :: "int \<Rightarrow> 'j"
  jv_str :: "string \<Rightarrow> 'j"
  jv_arr :: "'j list \<Rightarrow> 'j"
  jv_obj :: "(string \<times> 'j) list \<Rightarrow> 'j"
  jv_get :: "string \<Rightarrow> 'j \<Rightarrow> 'j option" \<comment> \<open>\<open>value.get(key)\<close>\<close>
  jv_as_str :: "'j \<Rightarrow> string option"
  jv_as_object :: "'j \<Rightarrow> (string \<times> 'j) list option"

definition value_laws :: "'j value_ops \<Rightarrow> bool" where
  "value_laws vo \<longleftrightarrow>
     (\<forall>kvs k. distinct (map fst kvs) \<longrightarrow> jv_get vo k (jv_obj vo kvs) = map_of kvs k) \<and>
     (\<forall>s. jv_as_str vo (jv_str vo s) = Some s) \<and>
     (\<forall>s k. jv_get vo k (jv_str vo s) = None)"

lemma value_get: "value_laws vo \<Longrightarrow> distinct (map fst kvs) \<Longrightarrow> jv_get vo k (jv_obj vo kvs) = map_of kvs k"
  by (simp add: value_laws_def)

lemma value_str: "value_laws vo \<Longrightarrow> jv_as_str vo (jv_str vo s) = Some s"
  by (simp add: value_laws_def)

text \<open>\<open>Option<T>\<close> in \<open>json!\<close> is the value or null.\<close>

definition jv_opt_str :: "'j value_ops \<Rightarrow> string option \<Rightarrow> 'j" where
  "jv_opt_str vo x = (case x of None \<Rightarrow> jv_null vo | Some s \<Rightarrow> jv_str vo s)"

definition jv_strs :: "'j value_ops \<Rightarrow> string list \<Rightarrow> 'j" where
  "jv_strs vo xs = jv_arr vo (map (jv_str vo) xs)"

subsection \<open>An instance\<close>

datatype json_tree =
    JNull | JBool bool | JInt int | JStr string | JArr "json_tree list" | JObj "(string \<times> json_tree) list"

fun tree_get :: "string \<Rightarrow> json_tree \<Rightarrow> json_tree option" where
  "tree_get k (JObj kvs) = map_of kvs k"
| "tree_get k _ = None"

fun tree_as_str :: "json_tree \<Rightarrow> string option" where
  "tree_as_str (JStr s) = Some s"
| "tree_as_str _ = None"

fun tree_as_object :: "json_tree \<Rightarrow> (string \<times> json_tree) list option" where
  "tree_as_object (JObj kvs) = Some kvs"
| "tree_as_object _ = None"

definition tree_ops :: "json_tree value_ops" where
  "tree_ops =
     \<lparr>jv_null = JNull, jv_bool = JBool, jv_int = JInt, jv_str = JStr, jv_arr = JArr, jv_obj = JObj,
      jv_get = tree_get, jv_as_str = tree_as_str, jv_as_object = tree_as_object\<rparr>"

lemma tree_laws: "value_laws tree_ops"
  by (simp add: value_laws_def tree_ops_def)

text \<open>The JSON text operations over these values, again an instance for witnesses.\<close>

definition tree_json :: "json_tree json_ops" where
  "tree_json =
     \<lparr>js_strings_of = js_strings_of demo_json, js_strings_to = js_strings_to demo_json,
      js_value_of = (\<lambda>s. if s = ''null'' then Inr JNull else Inl ''expected null''),
      js_value_to = (\<lambda>v. Inr (case v of JStr s \<Rightarrow> s | _ \<Rightarrow> ''value''))\<rparr>"

lemma tree_json_laws: "json_laws tree_json"
  using demo_json_laws by (simp add: json_laws_def tree_json_def)

end
