(* ===== verification/Task_Board_Claims.thy ===== *)
theory Task_Board_Claims
  imports Task_Board Json_Value
begin

text \<open>
  \<open>MemoryTeamRepo\<close> keeps the contract of a task store; the task board over it implements the
  operations of a graph of tasks, and on every board built through it the two directions of
  a dependency agree, so that completing a task unblocks whatever waits for it.
\<close>

subsection \<open>The repository in memory is a task store\<close>

lemma find_id_None: "find (\<lambda>t. tk_id t = i) rows = None \<longleftrightarrow> i \<notin> tk_id ` set rows"
  by (auto simp: find_None_iff)

lemma modify_first_on_task:
  "distinct (map tk_id rows) \<Longrightarrow> modify_first (\<lambda>t. tk_id t = i) f rows = map (on_task i f) rows"
proof (induction rows)
  case (Cons t rows)
  have "map (on_task i f) rows = rows" if "i \<notin> tk_id ` set rows"
    using that by (intro map_idI) (auto simp: on_task_def)
  moreover have "on_task i f t = (if tk_id t = i then f t else t)" by (simp add: on_task_def)
  ultimately show ?case using Cons by auto
qed simp

lemma mem_modify_task_effect:
  assumes "distinct (map tk_id (ms_tasks s))" and "i \<in> tk_id ` set (ms_tasks s)"
  shows "\<exists>s'. mem_modify_task i f s = (Inr (), s') \<and> ms_tasks s' = map (on_task i f) (ms_tasks s)"
  using assms by (simp add: mem_modify_task_def find_id_None modify_first_on_task)

lemmas memory_task_ops = memory_tasks_def mem_create_task_def mem_find_task_by_id_def mem_update_task_def
  mem_append_to_blocks_def mem_remove_from_blocked_by_def

interpretation board: task_store js "memory_tasks js" ms_tasks for js :: "'j json_ops"
  by unfold_locales (simp_all add: memory_task_ops mem_modify_task_effect)

subsection \<open>Dependencies agree in both directions\<close>

definition graph_ok :: "task_graph \<Rightarrow> bool" where
  "graph_ok g \<longleftrightarrow> (\<forall>i v. g i = Some v \<longrightarrow>
     (\<forall>d \<in> set (nd_blocked_by v). \<exists>u. g d = Some u \<and> i \<in> set (nd_blocks u)) \<and>
     (\<forall>b \<in> set (nd_blocks v). g b \<noteq> None))"

lemma graph_okD:
  assumes "graph_ok g" "g i = Some v"
  shows "d \<in> set (nd_blocked_by v) \<Longrightarrow> \<exists>u. g d = Some u \<and> i \<in> set (nd_blocks u)"
    and "b \<in> set (nd_blocks v) \<Longrightarrow> g b \<noteq> None"
  using assms by (auto simp: graph_ok_def)

lemma spec_create_ok:
  assumes ok: "graph_ok g" and fresh: "g i = None" and deps: "\<And>d. d \<in> set deps \<Longrightarrow> g d \<noteq> None"
  shows "graph_ok (spec_create i owner deps g)"
  unfolding graph_ok_def
proof (intro allI impI)
  fix j v assume j: "spec_create i owner deps g j = Some v"
  have old: "\<exists>u'. spec_create i owner deps g d = Some u' \<and> set (nd_blocks u) \<subseteq> set (nd_blocks u') \<and> (d \<in> set deps \<longrightarrow> i \<in> set (nd_blocks u'))"
    if "g d = Some u" for d u
    using that fresh by (auto simp: spec_create_def node_add_block_def)
  show "(\<forall>d \<in> set (nd_blocked_by v). \<exists>u. spec_create i owner deps g d = Some u \<and> j \<in> set (nd_blocks u)) \<and>
      (\<forall>b \<in> set (nd_blocks v). spec_create i owner deps g b \<noteq> None)"
  proof (cases "j = i")
    case True
    with j old deps show ?thesis by (fastforce simp: spec_create_def)
  next
    case False
    then obtain v0 where v0: "g j = Some v0" "nd_blocked_by v = nd_blocked_by v0" "set (nd_blocks v) \<subseteq> insert i (set (nd_blocks v0))"
      using j by (fastforce simp: spec_create_def node_add_block_def split: if_splits)
    have "\<exists>u. spec_create i owner deps g d = Some u \<and> j \<in> set (nd_blocks u)" if "d \<in> set (nd_blocked_by v)" for d
      using graph_okD(1) [OF ok v0(1), of d] that v0(2) old by (metis subsetD)
    moreover have "spec_create i owner deps g b \<noteq> None" if "b \<in> set (nd_blocks v)" for b
    proof (cases "b = i")
      case False
      with that v0(3) have "g b \<noteq> None" using graph_okD(2) [OF ok v0(1)] by auto
      then show ?thesis using old by blast
    qed (simp add: spec_create_def)
    ultimately show ?thesis by blast
  qed
qed

lemma spec_update_node:
  assumes "g j = Some v" and "tu_blocked_by update = None"
  shows "\<exists>v'. spec_update i update g j = Some v' \<and> nd_blocks v' = nd_blocks v \<and> nd_blocked_by v' =
    (if tu_status update = Some TkCompleted \<and> (\<exists>u. g i = Some u \<and> j \<in> set (nd_blocks u))
     then filter (\<lambda>d. d \<noteq> i) (nd_blocked_by v) else nd_blocked_by v)"
  using assms by (auto simp: spec_update_def node_update_def node_unblock_def Let_def)

lemma spec_update_None: "spec_update i update g j = None \<longleftrightarrow> g j = None"
  by (auto simp: spec_update_def Let_def)

lemma spec_update_ok:
  assumes ok: "graph_ok g" and dir: "tu_blocked_by update = None"
  shows "graph_ok (spec_update i update g)"
  unfolding graph_ok_def
proof (intro allI impI)
  fix j v assume j: "spec_update i update g j = Some v"
  then obtain v0 where v0: "g j = Some v0" using spec_update_None [of i update g j] by fastforce
  with spec_update_node [where i = i and g = g, OF v0 dir] j have v: "nd_blocks v = nd_blocks v0" "set (nd_blocked_by v) \<subseteq> set (nd_blocked_by v0)"
    by (auto split: if_splits)
  have "\<exists>u. spec_update i update g d = Some u \<and> j \<in> set (nd_blocks u)" if d: "d \<in> set (nd_blocked_by v)" for d
  proof -
    obtain u where u: "g d = Some u" "j \<in> set (nd_blocks u)" using graph_okD(1) [OF ok v0] d v(2) by blast
    show ?thesis using spec_update_node [where i = i and g = g, OF u(1) dir] u(2) by auto
  qed
  with graph_okD(2) [OF ok v0] v(1)
  show "(\<forall>d \<in> set (nd_blocked_by v). \<exists>u. spec_update i update g d = Some u \<and> j \<in> set (nd_blocks u)) \<and>
      (\<forall>b \<in> set (nd_blocks v). spec_update i update g b \<noteq> None)"
    by (simp add: spec_update_None)
qed

text \<open>Completing: on a graph whose directions agree nothing waits for the task any more.\<close>

lemma spec_complete_unblocks:
  assumes ok: "graph_ok g" and dir: "tu_blocked_by update = None" and fin: "tu_status update = Some TkCompleted"
    and v0: "g j = Some v0"
  shows "\<exists>v. spec_update i update g j = Some v \<and> nd_blocked_by v = filter (\<lambda>d. d \<noteq> i) (nd_blocked_by v0)"
proof (cases "i \<in> set (nd_blocked_by v0)")
  case True
  with graph_okD(1) [OF ok v0] have "\<exists>u. g i = Some u \<and> j \<in> set (nd_blocks u)" by blast
  with spec_update_node [where i = i and g = g, OF v0 dir] fin show ?thesis by auto
next
  case False
  then have "filter (\<lambda>d. d \<noteq> i) (nd_blocked_by v0) = nd_blocked_by v0" by (auto intro: filter_True)
  with spec_update_node [where i = i and g = g, OF v0 dir] show ?thesis by auto
qed

subsection \<open>Boards in use\<close>

text \<open>A step creates a task under a new id or updates one without setting its dependencies.\<close>

inductive board_step :: "'j json_ops \<Rightarrow> memory_state \<Rightarrow> memory_state \<Rightarrow> bool" for js where
  create: "i \<notin> tk_id ` set (ms_tasks s) \<Longrightarrow>
    create_task js (memory_tasks js) i now clock team subject description owner deps s = (res, s') \<Longrightarrow> board_step js s s'"
| update: "tu_blocked_by upd = None \<Longrightarrow>
    update_task js (memory_tasks js) now clock team i upd s = (res, s') \<Longrightarrow> board_step js s s'"

definition board_ok :: "'j json_ops \<Rightarrow> memory_state \<Rightarrow> bool" where
  "board_ok js s \<longleftrightarrow> rows_wf js (ms_tasks s) \<and> graph_ok (graph_of js (ms_tasks s))"

lemma update_failing_params:
  assumes "update_params js upd = Inl e"
  shows "snd (update_task js (memory_tasks js) now clock team i upd s) = s"
  using assms by (simp add: update_task_def split: sum.split option.split)

text \<open>What a step makes of the graph, if it changes anything.\<close>

lemma create_graph:
  assumes laws: "json_laws js" and ok: "board_ok js s" and fresh: "i \<notin> tk_id ` set (ms_tasks s)"
    and run: "create_task js (memory_tasks js) i now clock team subject description owner deps s = (res, s')"
  shows "s' = s \<or> rows_wf js (ms_tasks s') \<and> graph_of js (ms_tasks s') = spec_create i owner deps (graph_of js (ms_tasks s)) \<and>
    (\<forall>d \<in> set deps. graph_of js (ms_tasks s) d \<noteq> None)"
proof (cases "find (\<lambda>d. \<not> rows_in_team team (ms_tasks s) d) deps")
  case None
  then have deps: "\<forall>d \<in> set deps. rows_in_team team (ms_tasks s) d" by (auto simp: find_None_iff)
  obtain s2 where "create_task js (memory_tasks js) i now clock team subject description owner deps s =
        (Inr \<lparr>tt_id = i, tt_team_id = team, tt_subject = subject, tt_description = description, tt_status = TkPending,
          tt_owner = owner, tt_blocked_by = deps, tt_blocks = [], tt_metadata = None,
          tt_created_at = now, tt_updated_at = now\<rparr>, s2)"
    "rows_wf js (ms_tasks s2)" "graph_of js (ms_tasks s2) = spec_create i owner deps (graph_of js (ms_tasks s))"
    using board.create_task_refines [OF laws _ deps fresh] ok unfolding board_ok_def by blast
  moreover have "\<forall>d \<in> set deps. graph_of js (ms_tasks s) d \<noteq> None"
    using deps by (auto simp: graph_of_None rows_in_team_def)
  ultimately show ?thesis using run by simp
next
  case (Some d)
  have "create_task js (memory_tasks js) i now clock team subject description owner deps s = (Inl (BlockedTaskNotFound d), s)"
    by (rule board.create_task_missing [OF Some])
  with run show ?thesis by simp
qed

lemma update_graph:
  assumes laws: "json_laws js" and ok: "board_ok js s"
    and run: "update_task js (memory_tasks js) now clock team i upd s = (res, s')"
  shows "s' = s \<or> rows_wf js (ms_tasks s') \<and> graph_of js (ms_tasks s') = spec_update i upd (graph_of js (ms_tasks s))"
proof (cases "rows_in_team team (ms_tasks s) i")
  case True
  show ?thesis
  proof (cases "update_params js upd")
    case (Inl e)
    with update_failing_params [OF Inl, of now clock team i s] run show ?thesis by simp
  next
    case (Inr params)
    have wf: "rows_wf js (ms_tasks s)" and g: "graph_ok (graph_of js (ms_tasks s))" using ok by (simp_all add: board_ok_def)
    have closed: "\<forall>v. graph_of js (ms_tasks s) i = Some v \<longrightarrow> set (nd_blocks v) \<subseteq> tk_id ` set (ms_tasks s)"
      using graph_okD(2) [OF g] graph_of_None by blast
    obtain row s2 where "update_task js (memory_tasks js) now clock team i upd s = (map_err Json (task_from_row js row), s2)"
      "rows_wf js (ms_tasks s2)" "graph_of js (ms_tasks s2) = spec_update i upd (graph_of js (ms_tasks s))"
      using board.update_task_refines [OF laws wf True Inr closed] by blast
    with run show ?thesis by simp
  qed
next
  case False
  have "update_task js (memory_tasks js) now clock team i upd s = (Inl (TaskNotFound i), s)"
    by (rule board.update_task_missing [OF False])
  with run show ?thesis by simp
qed

lemma board_step_ok:
  assumes laws: "json_laws js" and ok: "board_ok js s" and step: "board_step js s s'"
  shows "board_ok js s'"
  using step
proof cases
  case (create i now clock team subject description owner deps res)
  have "graph_ok (spec_create i owner deps (graph_of js (ms_tasks s)))"
    if "\<forall>d \<in> set deps. graph_of js (ms_tasks s) d \<noteq> None"
    using ok create(1) that by (intro spec_create_ok) (auto simp: board_ok_def graph_of_None)
  with create_graph [OF laws ok create] ok show ?thesis by (auto simp: board_ok_def)
next
  case (update upd now clock team i res)
  have "graph_ok (spec_update i upd (graph_of js (ms_tasks s)))"
    using ok update(1) by (intro spec_update_ok) (simp_all add: board_ok_def)
  with update_graph [OF laws ok update(2)] ok show ?thesis by (auto simp: board_ok_def)
qed

text \<open>The steps that do not complete task \<open>i\<close>: then whatever it blocks goes on waiting for it.\<close>

inductive board_step_sparing :: "'j json_ops \<Rightarrow> ident \<Rightarrow> memory_state \<Rightarrow> memory_state \<Rightarrow> bool" for js i where
  create: "j \<notin> tk_id ` set (ms_tasks s) \<Longrightarrow>
    create_task js (memory_tasks js) j now clock team subject description owner deps s = (res, s') \<Longrightarrow>
    board_step_sparing js i s s'"
| update: "tu_blocked_by upd = None \<Longrightarrow> j = i \<Longrightarrow> tu_status upd \<noteq> Some TkCompleted \<Longrightarrow>
    update_task js (memory_tasks js) now clock team j upd s = (res, s') \<Longrightarrow> board_step_sparing js i s s'"
| update_other: "tu_blocked_by upd = None \<Longrightarrow> j \<noteq> i \<Longrightarrow>
    update_task js (memory_tasks js) now clock team j upd s = (res, s') \<Longrightarrow> board_step_sparing js i s s'"

lemma sparing_step: "board_step_sparing js i s s' \<Longrightarrow> board_step js s s'"
  by (induction rule: board_step_sparing.induct) (blast intro: board_step.intros)+

definition still_blocks :: "ident \<Rightarrow> task_graph \<Rightarrow> bool" where
  "still_blocks i g \<longleftrightarrow> (\<forall>v b. g i = Some v \<longrightarrow> b \<in> set (nd_blocks v) \<longrightarrow> (\<exists>w. g b = Some w \<and> i \<in> set (nd_blocked_by w)))"

lemma spec_create_blocks:
  assumes "still_blocks i g" and "g j = None" and "\<forall>d \<in> set deps. g d \<noteq> None"
  shows "still_blocks i (spec_create j owner deps g)"
  unfolding still_blocks_def
proof (intro allI impI)
  fix v b assume v: "spec_create j owner deps g i = Some v" and b: "b \<in> set (nd_blocks v)"
  have ij: "i \<noteq> j" using v b by (auto simp: spec_create_def)
  with v obtain v0 where v0: "g i = Some v0" and new: "set (nd_blocks v) \<subseteq> insert j (set (nd_blocks v0))"
    and why: "i \<notin> set deps \<longrightarrow> v = v0"
    by (fastforce simp: spec_create_def node_add_block_def split: if_splits)
  show "\<exists>w. spec_create j owner deps g b = Some w \<and> i \<in> set (nd_blocked_by w)"
  proof (cases "b \<in> set (nd_blocks v0)")
    case True
    then obtain w where "g b = Some w" "i \<in> set (nd_blocked_by w)" using assms(1) v0 by (auto simp: still_blocks_def)
    with assms(2) show ?thesis by (auto simp: spec_create_def node_add_block_def)
  next
    case False
    with b new why have "b = j" "i \<in> set deps" by auto
    then show ?thesis by (simp add: spec_create_def)
  qed
qed

lemma spec_update_blocks:
  assumes keep: "still_blocks i g" and dir: "tu_blocked_by upd = None" and open_: "j \<noteq> i \<or> tu_status upd \<noteq> Some TkCompleted"
  shows "still_blocks i (spec_update j upd g)"
  unfolding still_blocks_def
proof (intro allI impI)
  fix v b assume v: "spec_update j upd g i = Some v" and b: "b \<in> set (nd_blocks v)"
  obtain v0 where v0: "g i = Some v0" using v spec_update_None [of j upd g i] by fastforce
  with spec_update_node [where i = j and g = g, OF v0 dir] v b have "b \<in> set (nd_blocks v0)" by auto
  with keep v0 obtain w where w: "g b = Some w" "i \<in> set (nd_blocked_by w)" by (auto simp: still_blocks_def)
  with spec_update_node [where i = j and g = g, OF w(1) dir] open_
  show "\<exists>w. spec_update j upd g b = Some w \<and> i \<in> set (nd_blocked_by w)" by auto
qed

lemma sparing_step_blocks:
  assumes laws: "json_laws js" and ok: "board_ok js s" and step: "board_step_sparing js i s s'"
    and keep: "still_blocks i (graph_of js (ms_tasks s))"
  shows "still_blocks i (graph_of js (ms_tasks s'))"
  using step
proof cases
  case (create j now clock team subject description owner deps res)
  have absent: "graph_of js (ms_tasks s) j = None" using create(1) by (simp add: graph_of_None)
  from create_graph [OF laws ok create] show ?thesis
  proof (elim disjE conjE)
    assume "s' = s"
    with keep show ?thesis by simp
  next
    assume deps: "\<forall>d \<in> set deps. graph_of js (ms_tasks s) d \<noteq> None"
      and "graph_of js (ms_tasks s') = spec_create j owner deps (graph_of js (ms_tasks s))"
    with spec_create_blocks [OF keep absent deps, of owner] show ?thesis by simp
  qed
next
  case (update upd j now clock team res)
  with update_graph [OF laws ok update(4)] keep show ?thesis by (auto intro: spec_update_blocks)
next
  case (update_other upd j now clock team res)
  with update_graph [OF laws ok update_other(3)] keep show ?thesis by (auto intro: spec_update_blocks)
qed

lemma board_reachable_ok:
  assumes "json_laws js" and "(board_step js)\<^sup>*\<^sup>* memory_new s"
  shows "board_ok js s"
  using assms(2)
proof induction
  case base
  show ?case by (simp add: board_ok_def rows_wf_def graph_ok_def graph_of_def memory_new_def)
next
  case (step s s')
  then show ?case using board_step_ok [OF assms(1)] by blast
qed

lemma sparing_reachable:
  assumes laws: "json_laws js" and "(board_step_sparing js i)\<^sup>*\<^sup>* memory_new s"
  shows "(board_step js)\<^sup>*\<^sup>* memory_new s \<and> still_blocks i (graph_of js (ms_tasks s))"
  using assms(2)
proof induction
  case base
  show ?case by (simp add: still_blocks_def graph_of_def memory_new_def)
next
  case (step s s')
  then have "board_ok js s" using board_reachable_ok [OF laws] by blast
  with step sparing_step sparing_step_blocks [OF laws] show ?case by (meson rtranclp.rtrancl_into_rtrancl)
qed

subsection \<open>What the board promises\<close>

text \<open>C33: The task board implements a graph of tasks. On any board built through it, creating a task
  under a new id fails with the first dependency that is no task of the team and changes
  nothing, or else adds the task and records it at each dependency; updating a task of the
  team changes that task as the update says and, when it completes it, takes it off the list
  of every task it blocks: exactly the two operations on the abstract graph.\<close>

theorem board_implements_task_graph:
  assumes laws: "json_laws js" and reach: "(board_step js)\<^sup>*\<^sup>* memory_new s"
  shows "(i \<notin> tk_id ` set (ms_tasks s) \<longrightarrow>
      (case find (\<lambda>d. \<not> rows_in_team team (ms_tasks s) d) deps of
         Some d \<Rightarrow> create_task js (memory_tasks js) i now clock team subject description owner deps s = (Inl (BlockedTaskNotFound d), s)
       | None \<Rightarrow> \<exists>s'. create_task js (memory_tasks js) i now clock team subject description owner deps s =
           (Inr \<lparr>tt_id = i, tt_team_id = team, tt_subject = subject, tt_description = description, tt_status = TkPending,
              tt_owner = owner, tt_blocked_by = deps, tt_blocks = [], tt_metadata = None, tt_created_at = now, tt_updated_at = now\<rparr>, s') \<and>
           graph_of js (ms_tasks s') = spec_create i owner deps (graph_of js (ms_tasks s)))) \<and>
    (rows_in_team team (ms_tasks s) i \<longrightarrow> update_params js upd = Inr params \<longrightarrow>
      (\<exists>row s'. update_task js (memory_tasks js) now clock team i upd s = (map_err Json (task_from_row js row), s') \<and>
         row \<in> set (ms_tasks s') \<and> tk_id row = i \<and>
         graph_of js (ms_tasks s') = spec_update i upd (graph_of js (ms_tasks s)))) \<and>
    (\<not> rows_in_team team (ms_tasks s) i \<longrightarrow>
      update_task js (memory_tasks js) now clock team i upd s = (Inl (TaskNotFound i), s))"
proof (intro conjI impI)
  have ok: "board_ok js s" using laws reach by (rule board_reachable_ok)
  then have wf: "rows_wf js (ms_tasks s)" and g: "graph_ok (graph_of js (ms_tasks s))" by (simp_all add: board_ok_def)
  {
    assume fresh: "i \<notin> tk_id ` set (ms_tasks s)"
    show "case find (\<lambda>d. \<not> rows_in_team team (ms_tasks s) d) deps of
         Some d \<Rightarrow> create_task js (memory_tasks js) i now clock team subject description owner deps s = (Inl (BlockedTaskNotFound d), s)
       | None \<Rightarrow> \<exists>s'. create_task js (memory_tasks js) i now clock team subject description owner deps s =
           (Inr \<lparr>tt_id = i, tt_team_id = team, tt_subject = subject, tt_description = description, tt_status = TkPending,
              tt_owner = owner, tt_blocked_by = deps, tt_blocks = [], tt_metadata = None, tt_created_at = now, tt_updated_at = now\<rparr>, s') \<and>
           graph_of js (ms_tasks s') = spec_create i owner deps (graph_of js (ms_tasks s))"
    proof (cases "find (\<lambda>d. \<not> rows_in_team team (ms_tasks s) d) deps")
      case None
      then have "\<forall>d \<in> set deps. rows_in_team team (ms_tasks s) d" by (auto simp: find_None_iff)
      from board.create_task_refines [OF laws wf this fresh, of now clock subject description owner] None
      show ?thesis by auto
    qed (simp add: board.create_task_missing)
  }
  {
    assume team: "rows_in_team team (ms_tasks s) i" and params: "update_params js upd = Inr params"
    have closed: "\<forall>v. graph_of js (ms_tasks s) i = Some v \<longrightarrow> set (nd_blocks v) \<subseteq> tk_id ` set (ms_tasks s)"
      using graph_okD(2) [OF g] graph_of_None by blast
    show "\<exists>row s'. update_task js (memory_tasks js) now clock team i upd s = (map_err Json (task_from_row js row), s') \<and>
         row \<in> set (ms_tasks s') \<and> tk_id row = i \<and>
         graph_of js (ms_tasks s') = spec_update i upd (graph_of js (ms_tasks s))"
      using board.update_task_refines [OF laws wf team params closed] by blast
  }
  assume "\<not> rows_in_team team (ms_tasks s) i"
  then show "update_task js (memory_tasks js) now clock team i upd s = (Inl (TaskNotFound i), s)"
    by (rule board.update_task_missing)
qed

text \<open>C34: The two directions of a dependency agree on any board built by creating tasks and updating
  anything but dependencies: whatever a task waits for is on the board and lists the task
  among those it blocks, and everything a task blocks is on the board. As long as the task has
  not been completed by an update, everything it blocks also waits for it. (Completing it ends
  the waiting and keeps the list of what it blocks; an update that sets the dependencies
  themselves writes one direction only.)\<close>

theorem dependencies_agree:
  assumes "json_laws js" and "(board_step js)\<^sup>*\<^sup>* memory_new s" and "graph_of js (ms_tasks s) i = Some v"
  shows "(\<forall>d \<in> set (nd_blocked_by v). \<exists>u. graph_of js (ms_tasks s) d = Some u \<and> i \<in> set (nd_blocks u)) \<and>
    (\<forall>b \<in> set (nd_blocks v). \<exists>w. graph_of js (ms_tasks s) b = Some w) \<and>
    ((board_step_sparing js i)\<^sup>*\<^sup>* memory_new s \<longrightarrow>
      (\<forall>b \<in> set (nd_blocks v). \<exists>w. graph_of js (ms_tasks s) b = Some w \<and> i \<in> set (nd_blocked_by w)))"
proof -
  have g: "graph_ok (graph_of js (ms_tasks s))" using board_reachable_ok [OF assms(1,2)] by (simp add: board_ok_def)
  have "\<forall>b \<in> set (nd_blocks v). \<exists>w. graph_of js (ms_tasks s) b = Some w \<and> i \<in> set (nd_blocked_by w)"
    if "(board_step_sparing js i)\<^sup>*\<^sup>* memory_new s"
    using sparing_reachable [OF assms(1) that] assms(3) by (simp add: still_blocks_def)
  then show ?thesis using graph_okD [where g = "graph_of js (ms_tasks s)", OF g assms(3)] by auto
qed

text \<open>Completing a task unblocks everything. On any board built by creating tasks and updating
  anything but dependencies, an update that completes a task takes it off the list of every
  task that waits for it, on the whole board, and takes nothing else off any list.\<close>

theorem completing_task_unblocks:
  assumes laws: "json_laws js" and reach: "(board_step js)\<^sup>*\<^sup>* memory_new s"
    and team: "rows_in_team team (ms_tasks s) i" and params: "update_params js upd = Inr params"
    and upd: "tu_status upd = Some TkCompleted" "tu_blocked_by upd = None"
    and run: "update_task js (memory_tasks js) now clock team i upd s = (res, s')"
    and task: "graph_of js (ms_tasks s) j = Some v"
  shows "\<exists>v'. graph_of js (ms_tasks s') j = Some v' \<and> nd_blocked_by v' = filter (\<lambda>d. d \<noteq> i) (nd_blocked_by v)"
proof -
  have ok: "board_ok js s" using laws reach by (rule board_reachable_ok)
  then have wf: "rows_wf js (ms_tasks s)" and g: "graph_ok (graph_of js (ms_tasks s))" by (simp_all add: board_ok_def)
  have closed: "\<forall>v. graph_of js (ms_tasks s) i = Some v \<longrightarrow> set (nd_blocks v) \<subseteq> tk_id ` set (ms_tasks s)"
    using graph_okD(2) [OF g] graph_of_None by blast
  have "graph_of js (ms_tasks s') = spec_update i upd (graph_of js (ms_tasks s))"
    using board.update_task_refines [where now = now and clock = clock, OF laws wf team params closed] run by auto
  with spec_complete_unblocks [OF g upd(2,1) task] show ?thesis by simp
qed

subsection \<open>Witnesses\<close>

definition demo_clock :: "nat \<Rightarrow> timestamp" where
  "demo_clock n = 10 + int n"

definition demo_board1 :: memory_state where
  "demo_board1 = snd (create_task demo_json (memory_tasks demo_json) ''k1'' 1 demo_clock ''t1'' ''plan'' None None [] memory_new)"

definition demo_board :: memory_state where
  "demo_board = snd (create_task demo_json (memory_tasks demo_json) ''k2'' 2 demo_clock ''t1'' ''build'' None (Some ''a1'') [''k1''] demo_board1)"

lemma demo_rows:
  "map (\<lambda>t. (tk_team_id t, tk_id t)) (ms_tasks demo_board1) = [(''t1'', ''k1'')]"
  "map (\<lambda>t. (tk_team_id t, tk_id t)) (ms_tasks demo_board) = [(''t1'', ''k1''), (''t1'', ''k2'')]"
  by code_simp+

lemma demo_ids: "tk_id ` set (ms_tasks demo_board1) = {''k1''}" "tk_id ` set (ms_tasks demo_board) = {''k1'', ''k2''}"
  using arg_cong [OF demo_rows(1), of "\<lambda>xs. snd ` set xs"] arg_cong [OF demo_rows(2), of "\<lambda>xs. snd ` set xs"]
  by (simp_all add: image_image)

lemma demo_team: "rows_in_team ''t1'' (ms_tasks demo_board) ''k1''"
proof -
  have "(''t1'', ''k1'') \<in> set (map (\<lambda>t. (tk_team_id t, tk_id t)) (ms_tasks demo_board))" unfolding demo_rows(2) by simp
  then show ?thesis by (auto simp: rows_in_team_def)
qed

lemma demo_graph: "graph_of demo_json (ms_tasks demo_board) ''k2'' =
    Some \<lparr>nd_status = TkPending, nd_owner = Some ''a1'', nd_blocked_by = [''k1''], nd_blocks = []\<rparr>"
  by code_simp

lemma board_step_created:
  "i \<notin> tk_id ` set (ms_tasks s) \<Longrightarrow>
     board_step js s (snd (create_task js (memory_tasks js) i now clock team subject description owner deps s))"
  using board_step.create [OF _ prod.collapse [symmetric]] .

lemma demo_board_reachable: "(board_step demo_json)\<^sup>*\<^sup>* memory_new demo_board"
proof -
  have "board_step demo_json memory_new demo_board1"
    unfolding demo_board1_def by (rule board_step_created) (simp add: memory_new_def)
  moreover have "board_step demo_json demo_board1 demo_board"
    unfolding demo_board_def by (rule board_step_created) (simp add: demo_ids)
  ultimately show ?thesis by (meson r_into_rtranclp rtranclp.rtrancl_into_rtrancl)
qed

lemma board_implements_task_graph_witness:
  "create_task demo_json (memory_tasks demo_json) ''k3'' 5 demo_clock ''t1'' ''ship'' None None [''k1'', ''k9''] demo_board =
     (Inl (BlockedTaskNotFound ''k9''), demo_board)"
proof -
  have not_team: "\<not> rows_in_team ''t1'' (ms_tasks demo_board) ''k9''"
  proof
    assume "rows_in_team ''t1'' (ms_tasks demo_board) ''k9''"
    then have "''k9'' \<in> tk_id ` set (ms_tasks demo_board)" unfolding rows_in_team_def by force
    then show False by (simp add: demo_ids)
  qed
  have f: "find (\<lambda>d. \<not> rows_in_team ''t1'' (ms_tasks demo_board) d) [''k1'', ''k9''] = Some ''k9''"
    using demo_team not_team by simp
  have "''k3'' \<notin> tk_id ` set (ms_tasks demo_board)" by (simp add: demo_ids)
  with f board_implements_task_graph [where i = "''k3''" and team = "''t1''" and deps = "[''k1'', ''k9'']" and now = 5
      and clock = demo_clock and subject = "''ship''" and description = None and owner = None, OF demo_json_laws demo_board_reachable]
  show ?thesis by simp
qed

lemma dependencies_agree_witness:
  "\<exists>u. graph_of demo_json (ms_tasks demo_board) ''k1'' = Some u \<and> ''k2'' \<in> set (nd_blocks u)"
  using dependencies_agree [OF demo_json_laws demo_board_reachable demo_graph] by simp

lemma completing_task_unblocks_witness:
  "\<exists>v. graph_of demo_json (ms_tasks (snd (update_task demo_json (memory_tasks demo_json) 9 demo_clock ''t1'' ''k1''
      \<lparr>tu_status = Some TkCompleted, tu_description = None, tu_owner = None, tu_blocked_by = None, tu_metadata = None\<rparr>
      demo_board))) ''k2'' = Some v \<and> nd_blocked_by v = []"
proof -
  let ?upd = "\<lparr>tu_status = Some TkCompleted, tu_description = None, tu_owner = None, tu_blocked_by = None, tu_metadata = None :: unit option\<rparr>"
  obtain params where p: "update_params demo_json ?upd = Inr params"
    by (simp add: update_params_def encode_opt_def)
  obtain res s' where r: "update_task demo_json (memory_tasks demo_json) 9 demo_clock ''t1'' ''k1'' ?upd demo_board = (res, s')"
    by (meson surj_pair)
  have "tu_status ?upd = Some TkCompleted" "tu_blocked_by ?upd = None" by simp_all
  from completing_task_unblocks [OF demo_json_laws demo_board_reachable demo_team p this r demo_graph] r
  show ?thesis by simp
qed

end
