(* ===== verification/Mailbox.thy ===== *)
theory Mailbox
  imports Team_Repo
begin

text \<open>
  The mailbox (crates/team/src/mailbox.rs) over the message operations \<open>repo\<close> of a
  repository. The contract of the repository is the locale \<open>message_store\<close>: the messages of
  a state are a list in the order of writing, every operation that succeeds changes it as the
  trait documents, one that fails does not change it. What the mailbox promises is proved
  from the contract, and the contract is proved of \<open>MemoryTeamRepo\<close>.
\<close>

subsection \<open>Operations\<close>

type_synonym ('a, 's) outcome = "(team_error + 'a) \<times> 's"

definition mailbox_write_with_files ::
  "'j json_ops \<Rightarrow> 's message_repo \<Rightarrow> ident \<Rightarrow> timestamp \<Rightarrow> ident \<Rightarrow> ident \<Rightarrow> ident \<Rightarrow> message_type
     \<Rightarrow> string \<Rightarrow> string option \<Rightarrow> string list option \<Rightarrow> 's \<Rightarrow> (mailbox_message, 's) outcome" where
  "mailbox_write_with_files js repo mid now team_id to_agent_id from_agent_id ty content summary files s =
     (let files_json = (case files of None \<Rightarrow> None
            | Some f \<Rightarrow> if f = [] then None else Some (result_or [] (js_strings_to js f)));
          row = \<lparr>mm_id = mid, mm_team_id = team_id, mm_to_agent_id = to_agent_id,
                 mm_from_agent_id = from_agent_id, mm_msg_type = message_type_display ty,
                 mm_content = content, mm_summary = summary, mm_files = files_json,
                 mm_read = False, mm_created_at = now\<rparr>
      in case mrepo_write repo row s of
           (Inl e, s1) \<Rightarrow> (Inl (Database e), s1)
         | (Inr _, s1) \<Rightarrow>
           (case message_from_row js row of
              None \<Rightarrow> Inl (InvalidRequest (''invalid message type: '' @ message_type_display ty))
            | Some m \<Rightarrow> Inr m, s1))"

definition mailbox_write ::
  "'j json_ops \<Rightarrow> 's message_repo \<Rightarrow> ident \<Rightarrow> timestamp \<Rightarrow> ident \<Rightarrow> ident \<Rightarrow> ident \<Rightarrow> message_type
     \<Rightarrow> string \<Rightarrow> string option \<Rightarrow> 's \<Rightarrow> (mailbox_message, 's) outcome" where
  "mailbox_write js repo mid now team_id to_agent_id from_agent_id ty content summary s =
     mailbox_write_with_files js repo mid now team_id to_agent_id from_agent_id ty content summary None s"

definition mailbox_read_unread ::
  "'j json_ops \<Rightarrow> 's message_repo \<Rightarrow> ident \<Rightarrow> ident \<Rightarrow> 's \<Rightarrow> (mailbox_message list, 's) outcome" where
  "mailbox_read_unread js repo team_id agent_id s =
     (case mrepo_read_unread_and_mark repo team_id agent_id s of
        (Inl e, s1) \<Rightarrow> (Inl (Database e), s1)
      | (Inr rows, s1) \<Rightarrow> (Inr (List.map_filter (message_from_row js) rows), s1))"

definition mailbox_peek_unread ::
  "'j json_ops \<Rightarrow> 's message_repo \<Rightarrow> ident \<Rightarrow> ident \<Rightarrow> 's \<Rightarrow> team_error + mailbox_message list" where
  "mailbox_peek_unread js repo team_id agent_id s =
     (case mrepo_peek_unread repo team_id agent_id s of
        Inl e \<Rightarrow> Inl (Database e)
      | Inr rows \<Rightarrow> Inr (List.map_filter (message_from_row js) rows))"

definition mailbox_mark_read_batch :: "'s message_repo \<Rightarrow> ident list \<Rightarrow> 's \<Rightarrow> (unit, 's) outcome" where
  "mailbox_mark_read_batch repo ids s =
     (case mrepo_mark_read_batch repo ids s of
        (Inl e, s1) \<Rightarrow> (Inl (Database e), s1)
      | (Inr _, s1) \<Rightarrow> (Inr (), s1))"

text \<open>The loop of \<open>mark_all_unread_for_agents_read\<close>: the ids of all agents' unread messages.\<close>

fun unread_ids ::
  "'j json_ops \<Rightarrow> 's message_repo \<Rightarrow> ident \<Rightarrow> ident list \<Rightarrow> 's \<Rightarrow> team_error + ident list" where
  "unread_ids js repo team_id [] s = Inr []"
| "unread_ids js repo team_id (a # as) s =
     (case mailbox_peek_unread js repo team_id a s of
        Inl e \<Rightarrow> Inl e
      | Inr unread \<Rightarrow>
        (case unread_ids js repo team_id as s of
           Inl e \<Rightarrow> Inl e
         | Inr ids \<Rightarrow> Inr (map msg_id unread @ ids)))"

definition mailbox_mark_all_unread ::
  "'j json_ops \<Rightarrow> 's message_repo \<Rightarrow> ident \<Rightarrow> ident list \<Rightarrow> 's \<Rightarrow> (nat, 's) outcome" where
  "mailbox_mark_all_unread js repo team_id agent_ids s =
     (case unread_ids js repo team_id agent_ids s of
        Inl e \<Rightarrow> (Inl e, s)
      | Inr ids \<Rightarrow>
        if ids = [] then (Inr 0, s)
        else (case mailbox_mark_read_batch repo ids s of
                (Inl e, s1) \<Rightarrow> (Inl e, s1)
              | (Inr _, s1) \<Rightarrow> (Inr (length ids), s1)))"

definition mailbox_get_history ::
  "'j json_ops \<Rightarrow> 's message_repo \<Rightarrow> ident \<Rightarrow> ident \<Rightarrow> int option \<Rightarrow> 's \<Rightarrow> team_error + mailbox_message list" where
  "mailbox_get_history js repo team_id agent_id limit s =
     (case mrepo_get_history repo team_id agent_id limit s of
        Inl e \<Rightarrow> Inl (Database e)
      | Inr rows \<Rightarrow> Inr (List.map_filter (message_from_row js) rows))"

definition mailbox_has_unread :: "'s message_repo \<Rightarrow> ident \<Rightarrow> ident \<Rightarrow> 's \<Rightarrow> team_error + bool" where
  "mailbox_has_unread repo team_id agent_id s =
     (case mrepo_get_history repo team_id agent_id None s of
        Inl e \<Rightarrow> Inl (Database e)
      | Inr rows \<Rightarrow> Inr (list_ex (\<lambda>r. \<not> mm_read r) rows))"

definition mailbox_delete_by_team :: "'s message_repo \<Rightarrow> ident \<Rightarrow> 's \<Rightarrow> (unit, 's) outcome" where
  "mailbox_delete_by_team repo team_id s =
     (case mrepo_delete_by_team repo team_id s of
        (Inl e, s1) \<Rightarrow> (Inl (Database e), s1)
      | (Inr _, s1) \<Rightarrow> (Inr (), s1))"

subsection \<open>The contract of the repository\<close>

abbreviation unread_for :: "ident \<Rightarrow> ident \<Rightarrow> message_row \<Rightarrow> bool" where
  "unread_for team_id agent_id m \<equiv> addressed_to team_id agent_id m \<and> \<not> mm_read m"

definition mark_if :: "(message_row \<Rightarrow> bool) \<Rightarrow> message_row \<Rightarrow> message_row" where
  "mark_if p m = (if p m then m\<lparr>mm_read := True\<rparr> else m)"

lemma mark_if_simps [simp]:
  "mm_id (mark_if p m) = mm_id m" "mm_team_id (mark_if p m) = mm_team_id m"
  "mm_to_agent_id (mark_if p m) = mm_to_agent_id m" "mm_msg_type (mark_if p m) = mm_msg_type m"
  "mm_read (mark_if p m) = (mm_read m \<or> p m)" "addressed_to t a (mark_if p m) = addressed_to t a m"
  by (simp_all add: mark_if_def addressed_to_def)

lemma message_from_marked:
  "message_from_row js (m\<lparr>mm_read := True\<rparr>) = map_option (\<lambda>x. x\<lparr>msg_read := True\<rparr>) (message_from_row js m)"
  by (simp add: message_from_row_def Let_def split: option.split)

lemma message_from_row_fields:
  assumes "message_from_row js m = Some x"
  shows "msg_id x = mm_id m" "msg_team_id x = mm_team_id m" "msg_to_agent_id x = mm_to_agent_id m"
    "msg_read x = mm_read m"
  using assms by (auto simp: message_from_row_def Let_def split: option.splits)

locale message_store =
  fixes repo :: "'s message_repo" and msgs :: "'s \<Rightarrow> message_row list"
  assumes write_law: "mrepo_write repo row s = (r, s') \<Longrightarrow>
      msgs s' = (case r of Inl _ \<Rightarrow> msgs s | Inr _ \<Rightarrow> msgs s @ [row])"
    and read_law: "mrepo_read_unread_and_mark repo t a s = (rr, s') \<Longrightarrow> (case rr of
        Inl _ \<Rightarrow> msgs s' = msgs s
      | Inr rows \<Rightarrow> rows = map (mark_if (unread_for t a)) (filter (unread_for t a) (msgs s)) \<and>
          msgs s' = map (mark_if (unread_for t a)) (msgs s))"
    and peek_law: "mrepo_peek_unread repo t a s = Inr rows \<Longrightarrow> rows = filter (unread_for t a) (msgs s)"
    and mark_law: "mrepo_mark_read_batch repo ids s = (r, s') \<Longrightarrow>
      msgs s' = (case r of Inl _ \<Rightarrow> msgs s | Inr _ \<Rightarrow> map (mark_if (\<lambda>m. mm_id m \<in> set ids)) (msgs s))"
    and history_law: "mrepo_get_history repo t a limit s = Inr rows \<Longrightarrow>
      rows = (case limit of None \<Rightarrow> (\<lambda>xs. xs) | Some n \<Rightarrow> take (usize_of_i64 n)) (filter (addressed_to t a) (msgs s))"
    and delete_law: "mrepo_delete_by_team repo t s = (r, s') \<Longrightarrow>
      msgs s' = (case r of Inl _ \<Rightarrow> msgs s | Inr _ \<Rightarrow> filter (\<lambda>m. mm_team_id m \<noteq> t) (msgs s))"
begin

text \<open>What an agent has in its inbox, as the mailbox shows it.\<close>

definition unread_view :: "'j json_ops \<Rightarrow> ident \<Rightarrow> ident \<Rightarrow> 's \<Rightarrow> mailbox_message list" where
  "unread_view js t a s = List.map_filter (message_from_row js) (filter (unread_for t a) (msgs s))"

lemma peek_view: "mailbox_peek_unread js repo t a s = Inr ms \<Longrightarrow> ms = unread_view js t a s"
  by (auto simp: mailbox_peek_unread_def unread_view_def dest: peek_law split: sum.splits)

lemma read_view:
  assumes "mailbox_read_unread js repo t a s = (Inr ms, s')"
  shows "ms = map (\<lambda>m. m\<lparr>msg_read := True\<rparr>) (unread_view js t a s)" "msgs s' = map (mark_if (unread_for t a)) (msgs s)"
proof -
  from assms obtain rows where rows: "mrepo_read_unread_and_mark repo t a s = (Inr rows, s')"
    and ms: "ms = List.map_filter (message_from_row js) rows"
    by (auto simp: mailbox_read_unread_def split: prod.splits sum.splits)
  have "List.map_filter (message_from_row js) (map (mark_if p) (filter p xs)) =
      map (\<lambda>m. m\<lparr>msg_read := True\<rparr>) (List.map_filter (message_from_row js) (filter p xs))" for p xs
    by (induction xs) (auto simp: List.map_filter_simps mark_if_def message_from_marked split: option.splits)
  with read_law [OF rows] ms show "ms = map (\<lambda>m. m\<lparr>msg_read := True\<rparr>) (unread_view js t a s)"
    by (simp add: unread_view_def)
  show "msgs s' = map (mark_if (unread_for t a)) (msgs s)" using read_law [OF rows] by simp
qed

lemma view_after_mark:
  assumes "msgs s' = map (mark_if p) (msgs s)"
  shows "unread_view js t a s' = List.map_filter (message_from_row js) (filter (\<lambda>m. unread_for t a m \<and> \<not> p m) (msgs s))"
proof -
  have "List.map_filter (message_from_row js) (filter (unread_for t a) (map (mark_if p) xs)) =
      List.map_filter (message_from_row js) (filter (\<lambda>m. unread_for t a m \<and> \<not> p m) xs)" for xs
    by (induction xs) (auto simp: List.map_filter_simps mark_if_def addressed_to_def split: option.splits)
  then show ?thesis using assms by (simp add: unread_view_def)
qed

lemma read_empties: "mailbox_read_unread js repo t a s = (Inr ms, s') \<Longrightarrow> unread_view js t a s' = []"
  by (simp add: view_after_mark [OF read_view(2)] map_filter_Nil_iff)

lemma failed_read: "mailbox_read_unread js repo t a s = (Inl e, s') \<Longrightarrow> msgs s' = msgs s"
  by (auto simp: mailbox_read_unread_def dest: read_law split: prod.splits sum.splits)

lemma mark_batch_msgs:
  "mailbox_mark_read_batch repo ids s = (r, s') \<Longrightarrow>
     msgs s' = (case r of Inl _ \<Rightarrow> msgs s | Inr _ \<Rightarrow> map (mark_if (\<lambda>m. mm_id m \<in> set ids)) (msgs s))"
  by (auto simp: mailbox_mark_read_batch_def dest: mark_law split: prod.splits sum.splits)

lemma unread_ids_view:
  "unread_ids js repo t as s = Inr ids \<Longrightarrow> ids = concat (map (\<lambda>a. map msg_id (unread_view js t a s)) as)"
  by (induction as arbitrary: ids) (auto dest: peek_view split: sum.splits)

end

end
