(* ===== verification/Crash_Detection.thy ===== *)
theory Crash_Detection
  imports Team_Types
begin

text \<open>
  Classification of the fatal events of an agent's stream (crates/team/src/crash_detection.rs)
  over the events of crates/acp/src/protocol/events.rs, and the texts of a crash testament
  (scheduler/crash_recovery.rs). The regular expression of the rate-limit test belongs to the
  \<open>regex\<close> crate: whether a text matches it is the argument \<open>matches\<close>.
\<close>

subsection \<open>Text\<close>

fun is_prefix :: "string \<Rightarrow> string \<Rightarrow> bool" where
  "is_prefix [] ys = True"
| "is_prefix (x # xs) [] = False"
| "is_prefix (x # xs) (y # ys) = (x = y \<and> is_prefix xs ys)"

lemma is_prefix_iff: "is_prefix xs ys \<longleftrightarrow> (\<exists>zs. ys = xs @ zs)"
  by (induction xs ys rule: is_prefix.induct) auto

text \<open>\<open>str::find\<close>: the offset of the first occurrence; \<open>str::contains\<close>.\<close>

fun str_find :: "string \<Rightarrow> string \<Rightarrow> nat option" where
  "str_find pat [] = (if pat = [] then Some 0 else None)"
| "str_find pat (c # cs) = (if is_prefix pat (c # cs) then Some 0 else map_option Suc (str_find pat cs))"

definition str_contains :: "string \<Rightarrow> string \<Rightarrow> bool" where
  "str_contains pat s \<longleftrightarrow> is_some (str_find pat s)"

lemma str_find_Some:
  "str_find pat s = Some n \<Longrightarrow> n \<le> length s \<and> is_prefix pat (drop n s) \<and> (\<forall>k < n. \<not> is_prefix pat (drop k s))"
proof (induction s arbitrary: n)
  case (Cons c cs)
  then show ?case
  proof (cases "is_prefix pat (c # cs)")
    case False
    with Cons.prems obtain k where k: "str_find pat cs = Some k" "n = Suc k" by auto
    have "\<not> is_prefix pat (drop j (c # cs))" if "j < n" for j
      using that False Cons.IH [OF k(1)] k(2) by (cases j) auto
    with Cons.IH [OF k(1)] k(2) show ?thesis by auto
  qed simp
qed (simp split: if_splits)

lemma str_find_None: "str_find pat s = None \<Longrightarrow> k \<le> length s \<Longrightarrow> \<not> is_prefix pat (drop k s)"
proof (induction s arbitrary: k)
  case (Cons c cs)
  then show ?case by (cases k) (auto split: if_splits)
next
  case Nil
  then show ?case by (cases pat) (auto split: if_splits)
qed

lemma str_contains_iff: "str_contains pat s \<longleftrightarrow> (\<exists>as bs. s = as @ pat @ bs)"
proof
  assume "str_contains pat s"
  then obtain n where "str_find pat s = Some n" by (auto simp: str_contains_def)
  then obtain bs where "drop n s = pat @ bs" using str_find_Some by (fastforce simp: is_prefix_iff)
  then have "s = take n s @ pat @ bs" by (metis append_take_drop_id)
  then show "\<exists>as bs. s = as @ pat @ bs" by blast
next
  assume "\<exists>as bs. s = as @ pat @ bs"
  then obtain as bs where s: "s = as @ pat @ bs" by blast
  then have "is_prefix pat (drop (length as) s)" by (simp add: is_prefix_iff)
  then have "str_find pat s \<noteq> None" using str_find_None [of pat s "length as"] s by auto
  then show "str_contains pat s" by (simp add: str_contains_def)
qed

subsection \<open>Events of an agent's stream\<close>

datatype stream_event =
    StreamStart "string option"
  | StreamText string "string option"
  | StreamError string "string option"  \<comment> \<open>message, code\<close>
  | StreamFinish "string option"

fun is_rate_limited :: "(string \<Rightarrow> bool) \<Rightarrow> stream_event \<Rightarrow> bool" where
  "is_rate_limited matches (StreamError msg _) = matches msg"
| "is_rate_limited matches _ = False"

datatype crash_reason = ProcessExited | CrashSessionNotFound | CrashUnknown string

fun detect_crash :: "stream_event \<Rightarrow> crash_reason option" where
  "detect_crash (StreamError msg _) =
     (if str_contains ''process exited unexpectedly'' msg \<or> str_contains ''process exited'' msg
      then Some ProcessExited
      else if str_contains ''Session not found'' msg \<or> str_contains ''session not found'' msg
      then Some CrashSessionNotFound
      else Some (CrashUnknown msg))"
| "detect_crash _ = None"

subsection \<open>The testament\<close>

definition em_dash :: string where \<comment> \<open>U+2014 in UTF-8\<close>
  "em_dash = [CHR 0xE2, CHR 0x80, CHR 0x94]"

definition quote :: string where
  "quote = [CHR 0x27]"

definition format_with_unknown :: "string \<Rightarrow> string \<Rightarrow> string option \<Rightarrow> string" where
  "format_with_unknown agent_name reason_msg last_message =
     (case last_message of
        Some msg \<Rightarrow> ''Teammate '' @ quote @ agent_name @ quote @ '' crashed during task (reason: Unknown '' @ em_dash @ '' '' @ reason_msg
          @ ''). Last message: '' @ msg @ ''. Please investigate.''
      | None \<Rightarrow> ''Teammate '' @ quote @ agent_name @ quote @ '' crashed during task (reason: Unknown '' @ em_dash @ '' '' @ reason_msg
          @ ''). Please investigate.'')"

definition format_crash_testament :: "string \<Rightarrow> crash_reason \<Rightarrow> string option \<Rightarrow> string" where
  "format_crash_testament agent_name reason last_message =
     (case reason of
        CrashUnknown msg \<Rightarrow> format_with_unknown agent_name msg last_message
      | _ \<Rightarrow>
        let reason_str = (if reason = ProcessExited then ''ProcessExited'' else ''SessionNotFound'')
        in (case last_message of
              Some msg \<Rightarrow> ''Teammate '' @ quote @ agent_name @ quote @ '' crashed during task (reason: '' @ reason_str
                @ ''). Last message: '' @ msg @ ''. Please investigate.''
            | None \<Rightarrow> ''Teammate '' @ quote @ agent_name @ quote @ '' crashed during task (reason: '' @ reason_str
                @ ''). Please investigate.''))"

end
