(* ===== verification/Scheduler.thy ===== *)
theory Scheduler
  imports Mailbox Task_Board Crash_Detection
begin

text \<open>
  The scheduler of a team, \<open>TeammateManager\<close> (crates/team/src/scheduler/): the agents' slots
  with their status, wakes and their locks, the end of a turn, actions, crash recovery. The
  mailbox and the task board it calls work on the repository in \<open>sm_store\<close>.

  What the code takes from outside is the record \<open>team_env\<close>: JSON, the repository, the ids
  and clock readings it draws (the \<open>n\<close>-th draw gives \<open>te_ids n\<close> and \<open>te_clock n\<close>; \<open>sm_draws\<close>
  counts them) and the Unicode functions of \<open>char\<close> and \<open>str\<close> that agent names go through. An
  asynchronous method is modelled as it runs when nothing else touches the team between its
  awaits; each of its steps is a definition of its own.
\<close>

record unicode_ops =
  uc_trim :: "string \<Rightarrow> string"
  uc_drop_control :: "string \<Rightarrow> string" \<comment> \<open>\<open>chars().filter(|c| !c.is_control())\<close>\<close>
  uc_to_lowercase :: "string \<Rightarrow> string"

record ('j, 's) team_env =
  te_json :: "'j json_ops"
  te_messages :: "'s message_repo"
  te_tasks :: "'s task_repo"
  te_unicode :: unicode_ops
  te_ids :: "nat \<Rightarrow> ident"
  te_clock :: "nat \<Rightarrow> timestamp"

record agent_slot =
  ag_agent :: team_agent
  ag_status :: teammate_status
  ag_needs_role_prompt :: bool

datatype sched_event =
    EvAgentStatus ident string "string option" \<comment> \<open>slot, status as text, last message\<close>
  | EvAgentSpawned team_agent_response
  | EvAgentRemoved ident
  | EvAgentRenamed ident string

record 's team_manager =
  sm_team_id :: ident
  sm_slots :: "agent_slot hash_map"
  sm_active_wakes :: "ident set"
  sm_finalized_turns :: "nat hash_map" \<comment> \<open>conversation id to the instant, in milliseconds\<close>
  sm_wake_timeouts :: "ident set" \<comment> \<open>slots with an armed watchdog\<close>
  sm_events :: "sched_event list"
  sm_draws :: nat
  sm_store :: 's

type_synonym ('a, 's) sched_result = "(team_error + 'a) \<times> 's team_manager"

definition WAKE_TIMEOUT_MS :: nat where
  "WAKE_TIMEOUT_MS = 60000"

definition FINALIZE_DEDUP_WINDOW :: nat where \<comment> \<open>5 seconds\<close>
  "FINALIZE_DEDUP_WINDOW = 5000"

definition normalize_name :: "unicode_ops \<Rightarrow> string \<Rightarrow> string" where
  "normalize_name uc name = uc_to_lowercase uc (uc_drop_control uc (uc_trim uc name))"

definition is_settled :: "teammate_status \<Rightarrow> bool" where
  "is_settled st \<longleftrightarrow> st \<in> {StIdle, StCompleted, StError}"

definition team_manager_new :: "ident \<Rightarrow> team_agent list \<Rightarrow> 's \<Rightarrow> 's team_manager" where
  "team_manager_new team_id agents store =
     \<lparr>sm_team_id = team_id,
      sm_slots = fold (\<lambda>a. let a = a\<lparr>ta_status := Some StIdle\<rparr>
         in hm_insert (ta_slot_id a) \<lparr>ag_agent = a, ag_status = StIdle, ag_needs_role_prompt = True\<rparr>) agents [],
      sm_active_wakes = {}, sm_finalized_turns = [], sm_wake_timeouts = {}, sm_events = [],
      sm_draws = 0, sm_store = store\<rparr>"

subsection \<open>Agents (mod.rs, state.rs)\<close>

definition get_agent :: "ident \<Rightarrow> 's team_manager \<Rightarrow> team_error + team_agent" where
  "get_agent slot_id m =
     (case hm_get (sm_slots m) slot_id of None \<Rightarrow> Inl (AgentNotFound slot_id) | Some ag \<Rightarrow> Inr (ag_agent ag))"

definition list_agents :: "'s team_manager \<Rightarrow> team_agent list" where
  "list_agents m = map (ag_agent \<circ> snd) (sm_slots m)"

definition manager_list_tasks :: "('j, 's) team_env \<Rightarrow> 's team_manager \<Rightarrow> team_error + 'j team_task list" where
  "manager_list_tasks env m = list_tasks (te_json env) (te_tasks env) (sm_team_id m) (sm_store m)"

definition find_lead_slot_id :: "'s team_manager \<Rightarrow> ident option" where
  "find_lead_slot_id m =
     map_option (\<lambda>ag. ta_slot_id (ag_agent ag))
       (find (\<lambda>ag. ta_role (ag_agent ag) = Lead) (map snd (sm_slots m)))"

definition emit :: "sched_event \<Rightarrow> 's team_manager \<Rightarrow> 's team_manager" where
  "emit ev m = m\<lparr>sm_events := sm_events m @ [ev]\<rparr>"

definition broadcast_agent_status ::
  "ident \<Rightarrow> teammate_status \<Rightarrow> string option \<Rightarrow> 's team_manager \<Rightarrow> 's team_manager" where
  "broadcast_agent_status slot_id status last_message =
     emit (EvAgentStatus slot_id (status_display status) last_message)"

definition set_status :: "ident \<Rightarrow> teammate_status \<Rightarrow> 's team_manager \<Rightarrow> (unit, 's) sched_result" where
  "set_status slot_id status m =
     (case hm_get (sm_slots m) slot_id of
        None \<Rightarrow> (Inl (AgentNotFound slot_id), m)
      | Some ag \<Rightarrow>
        let ag1 = ag\<lparr>ag_status := status, ag_agent := (ag_agent ag)\<lparr>ta_status := Some status\<rparr>\<rparr>;
            last_message = (if status = StIdle \<or> status = StCompleted
              then ta_last_message (ag_agent ag1) else None)
        in (Inr (), broadcast_agent_status slot_id status last_message
              (m\<lparr>sm_slots := hm_insert slot_id ag1 (sm_slots m)\<rparr>)))"

definition set_last_message :: "timestamp \<Rightarrow> ident \<Rightarrow> string \<Rightarrow> 's team_manager \<Rightarrow> 's team_manager" where
  "set_last_message now slot_id content m =
     m\<lparr>sm_slots := hm_modify slot_id (\<lambda>ag. ag\<lparr>ag_agent := (ag_agent ag)
          \<lparr>ta_last_message := Some (truncate_last_message content), ta_last_message_at := Some now\<rparr>\<rparr>)
        (sm_slots m)\<rparr>"

definition get_status :: "ident \<Rightarrow> 's team_manager \<Rightarrow> team_error + teammate_status" where
  "get_status slot_id m =
     (case hm_get (sm_slots m) slot_id of None \<Rightarrow> Inl (AgentNotFound slot_id) | Some ag \<Rightarrow> Inr (ag_status ag))"

definition take_needs_role_prompt :: "ident \<Rightarrow> 's team_manager \<Rightarrow> bool \<times> 's team_manager" where
  "take_needs_role_prompt slot_id m =
     (case hm_get (sm_slots m) slot_id of
        None \<Rightarrow> (False, m)
      | Some ag \<Rightarrow> (ag_needs_role_prompt ag,
          m\<lparr>sm_slots := hm_insert slot_id (ag\<lparr>ag_needs_role_prompt := False\<rparr>) (sm_slots m)\<rparr>))"

text \<open>
  The loop of \<open>maybe_wake_leader_when_all_idle\<close> over the slots, in the map's order: the last
  lead seen, whether all teammates seen are settled, whether there was one. It stops at the
  first teammate that is not settled.
\<close>

fun settle_scan :: "agent_slot list \<Rightarrow> ident option \<times> bool \<times> bool \<Rightarrow> ident option \<times> bool \<times> bool" where
  "settle_scan [] acc = acc"
| "settle_scan (ag # ags) (lead, settled, has_teammates) =
     (if ta_role (ag_agent ag) = Lead
      then settle_scan ags (Some (ta_slot_id (ag_agent ag)), settled, has_teammates)
      else if \<not> is_settled (ag_status ag) then (lead, False, True)
      else settle_scan ags (lead, settled, True))"

definition maybe_wake_leader_when_all_idle :: "'s team_manager \<Rightarrow> ident option" where
  "maybe_wake_leader_when_all_idle m =
     (case settle_scan (map snd (sm_slots m)) (None, True, False) of
        (None, _, _) \<Rightarrow> None
      | (Some lead_id, all_settled, has_teammates) \<Rightarrow>
        if \<not> has_teammates then None
        else if \<not> all_settled then None
        else if (case hm_get (sm_slots m) lead_id of None \<Rightarrow> False | Some ag \<Rightarrow> ag_status ag = StIdle)
        then Some lead_id else None)"

subsection \<open>Mail and tasks of the team\<close>

definition team_write ::
  "('j, 's) team_env \<Rightarrow> ident \<Rightarrow> ident \<Rightarrow> message_type \<Rightarrow> string \<Rightarrow> string option \<Rightarrow> string list option
     \<Rightarrow> 's team_manager \<Rightarrow> (mailbox_message, 's) sched_result" where
  "team_write env to_id from_id ty content summary files m =
     (let n = sm_draws m
      in case mailbox_write_with_files (te_json env) (te_messages env) (te_ids env n) (te_clock env n)
                (sm_team_id m) to_id from_id ty content summary files (sm_store m) of
           (res, store) \<Rightarrow> (res, m\<lparr>sm_store := store, sm_draws := Suc n\<rparr>))"

definition manager_create_task ::
  "('j, 's) team_env \<Rightarrow> string \<Rightarrow> string option \<Rightarrow> ident option \<Rightarrow> ident list
     \<Rightarrow> 's team_manager \<Rightarrow> ('j team_task, 's) sched_result" where
  "manager_create_task env subject description owner blocked_by m =
     (let n = sm_draws m
      in case create_task (te_json env) (te_tasks env) (te_ids env n) (te_clock env n) (\<lambda>k. te_clock env (n + 1 + k))
                (sm_team_id m) subject description owner blocked_by (sm_store m) of
           (res, store) \<Rightarrow> (res, m\<lparr>sm_store := store, sm_draws := n + 1 + length blocked_by\<rparr>))"

text \<open>A status that does not parse is dropped: the update then leaves the status alone.\<close>

definition manager_update_task ::
  "('j, 's) team_env \<Rightarrow> ident \<Rightarrow> string option \<Rightarrow> string option \<Rightarrow> ident option \<Rightarrow> ident list option
     \<Rightarrow> 's team_manager \<Rightarrow> ('j team_task, 's) sched_result" where
  "manager_update_task env task_id status description owner blocked_by m =
     (let n = sm_draws m;
          update = \<lparr>tu_status = Option.bind status task_status_parse, tu_description = description,
                    tu_owner = owner, tu_blocked_by = blocked_by, tu_metadata = None\<rparr>
      in case update_task (te_json env) (te_tasks env) (te_clock env n) (\<lambda>k. te_clock env (n + 1 + k))
                (sm_team_id m) task_id update (sm_store m) of
           (res, store) \<Rightarrow> (res, m\<lparr>sm_store := store, sm_draws := Suc n\<rparr>))"

subsection \<open>Wakes (wake.rs, state.rs)\<close>

record 'j wake_payload =
  wp_agent :: team_agent
  wp_tasks :: "'j team_task list"
  wp_unread :: "mailbox_message list"

definition build_wake_payload ::
  "('j, 's) team_env \<Rightarrow> ident \<Rightarrow> 's team_manager \<Rightarrow> ('j wake_payload, 's) sched_result" where
  "build_wake_payload env slot_id m =
     (case get_agent slot_id m of
        Inl e \<Rightarrow> (Inl e, m)
      | Inr agent \<Rightarrow>
        (case manager_list_tasks env m of
           Inl e \<Rightarrow> (Inl e, m)
         | Inr tasks \<Rightarrow>
           (case mailbox_read_unread (te_json env) (te_messages env) (sm_team_id m) slot_id (sm_store m) of
              (Inl e, store) \<Rightarrow> (Inl e, m\<lparr>sm_store := store\<rparr>)
            | (Inr unread, store) \<Rightarrow>
                (Inr \<lparr>wp_agent = agent, wp_tasks = tasks, wp_unread = unread\<rparr>, m\<lparr>sm_store := store\<rparr>))))"

definition try_wake ::
  "('j, 's) team_env \<Rightarrow> ident \<Rightarrow> 's team_manager \<Rightarrow> ('j wake_payload option, 's) sched_result" where
  "try_wake env slot_id m =
     (case get_status slot_id m of
        Inl e \<Rightarrow> (Inl e, m)
      | Inr current \<Rightarrow>
        if current \<noteq> StIdle then (Inr None, m)
        else (case set_status slot_id StWorking m of
                (Inl e, m1) \<Rightarrow> (Inl e, m1)
              | (Inr _, m1) \<Rightarrow>
                (case build_wake_payload env slot_id m1 of
                   (Inl e, m2) \<Rightarrow> (Inl e, m2)
                 | (Inr payload, m2) \<Rightarrow> (Inr (Some payload), m2))))"

definition acquire_wake_lock :: "ident \<Rightarrow> 's team_manager \<Rightarrow> bool \<times> 's team_manager" where
  "acquire_wake_lock slot_id m =
     (slot_id \<notin> sm_active_wakes m, m\<lparr>sm_active_wakes := insert slot_id (sm_active_wakes m)\<rparr>)"

definition release_wake_lock :: "ident \<Rightarrow> 's team_manager \<Rightarrow> 's team_manager" where
  "release_wake_lock slot_id m = m\<lparr>sm_active_wakes := sm_active_wakes m - {slot_id}\<rparr>"

definition is_wake_active :: "ident \<Rightarrow> 's team_manager \<Rightarrow> bool" where
  "is_wake_active slot_id m \<longleftrightarrow> slot_id \<in> sm_active_wakes m"

definition clear_wake_timeout :: "ident \<Rightarrow> 's team_manager \<Rightarrow> 's team_manager" where
  "clear_wake_timeout slot_id m = m\<lparr>sm_wake_timeouts := sm_wake_timeouts m - {slot_id}\<rparr>"

text \<open>
  The watchdog task: what reaches its \<open>select!\<close> is a list of inputs, \<open>WatchElapsed\<close> the end of
  the sleep, which every other event of the stream resets. It ends with whether it timed out,
  or \<open>None\<close> while it still waits.
\<close>

datatype watch_input = WatchEvent stream_event | WatchClosed | WatchLagged | WatchElapsed

fun watchdog :: "watch_input list \<Rightarrow> bool option" where
  "watchdog [] = None"
| "watchdog (WatchEvent (StreamFinish _) # xs) = Some False"
| "watchdog (WatchEvent (StreamError _ _) # xs) = Some False"
| "watchdog (WatchClosed # xs) = Some False"
| "watchdog (WatchElapsed # xs) = Some True"
| "watchdog (_ # xs) = watchdog xs"

definition arm_wake_timeout :: "ident \<Rightarrow> 's team_manager \<Rightarrow> 's team_manager" where
  "arm_wake_timeout slot_id m = m\<lparr>sm_wake_timeouts := insert slot_id (sm_wake_timeouts m)\<rparr>"

subsection \<open>Finalizing once (dedup.rs)\<close>

definition begin_finalize :: "nat \<Rightarrow> ident \<Rightarrow> 's team_manager \<Rightarrow> bool \<times> 's team_manager" where
  "begin_finalize now conversation_id m =
     (let should_proceed = (case hm_get (sm_finalized_turns m) conversation_id of
            None \<Rightarrow> True
          | Some at \<Rightarrow> \<not> (now - at < FINALIZE_DEDUP_WINDOW))
      in (should_proceed,
          if should_proceed
          then m\<lparr>sm_finalized_turns := hm_insert conversation_id now (sm_finalized_turns m)\<rparr> else m))"

text \<open>\<open>clear_finalized_turn\<close>, which is also what the task spawned by \<open>begin_finalize\<close> does at the end of its sleep.\<close>

definition clear_finalized_turn :: "ident \<Rightarrow> 's team_manager \<Rightarrow> 's team_manager" where
  "clear_finalized_turn conversation_id m =
     m\<lparr>sm_finalized_turns := hm_remove conversation_id (sm_finalized_turns m)\<rparr>"

subsection \<open>Agents come and go (agent_lifecycle.rs)\<close>

definition add_agent :: "team_agent \<Rightarrow> 's team_manager \<Rightarrow> 's team_manager" where
  "add_agent agent m =
     emit (EvAgentSpawned (agent_to_response agent))
       (m\<lparr>sm_slots := hm_insert (ta_slot_id agent)
            \<lparr>ag_agent = agent, ag_status = StIdle, ag_needs_role_prompt = True\<rparr> (sm_slots m)\<rparr>)"

definition clear_agent_state :: "ident \<Rightarrow> ident \<Rightarrow> 's team_manager \<Rightarrow> 's team_manager" where
  "clear_agent_state slot_id conversation_id m =
     clear_finalized_turn conversation_id (clear_wake_timeout slot_id (release_wake_lock slot_id m))"

definition remove_agent :: "ident \<Rightarrow> 's team_manager \<Rightarrow> (ident option, 's) sched_result" where
  "remove_agent slot_id m =
     (case hm_get (sm_slots m) slot_id of
        None \<Rightarrow> (Inl (AgentNotFound slot_id), m)
      | Some removed \<Rightarrow>
        let conversation_id = ta_conversation_id (ag_agent removed);
            m1 = m\<lparr>sm_slots := hm_remove slot_id (sm_slots m)\<rparr>
        in (Inr (Some conversation_id),
            emit (EvAgentRemoved slot_id) (clear_agent_state slot_id conversation_id m1)))"

definition rename_agent ::
  "unicode_ops \<Rightarrow> ident \<Rightarrow> string \<Rightarrow> 's team_manager \<Rightarrow> (unit, 's) sched_result" where
  "rename_agent uc slot_id new_name m =
     (let normalized = normalize_name uc new_name
      in if normalized = [] then (Inl (InvalidRequest ''rename_agent.new_name is empty after normalization''), m)
         else case hm_get (sm_slots m) slot_id of
           None \<Rightarrow> (Inl (AgentNotFound slot_id), m)
         | Some target \<Rightarrow>
           if list_ex (\<lambda>(i, ag). i \<noteq> slot_id \<and> normalize_name uc (ta_name (ag_agent ag)) = normalized) (sm_slots m)
           then (Inl (DuplicateAgentName new_name), m)
           else (Inr (), emit (EvAgentRenamed slot_id new_name)
                  (m\<lparr>sm_slots := hm_insert slot_id
                       (target\<lparr>ag_agent := (ag_agent target)\<lparr>ta_name := new_name\<rparr>\<rparr>) (sm_slots m)\<rparr>)))"

end
