(* ===== verification/Scheduler_Actions.thy ===== *)
theory Scheduler_Actions
  imports Scheduler
begin

text \<open>
  What agents ask of the scheduler and how their turns end: \<open>mark_idle\<close> (scheduler/state.rs),
  the actions and \<open>finalize_turn\<close> (scheduler/actions.rs), the recovery from crashes and
  silence (scheduler/crash_recovery.rs).
\<close>

subsection \<open>The end of a turn\<close>

definition mark_idle ::
  "('j, 's) team_env \<Rightarrow> ident \<Rightarrow> string option \<Rightarrow> 's team_manager \<Rightarrow> (ident option, 's) sched_result" where
  "mark_idle env slot_id summary m =
     (case set_status slot_id StIdle m of
        (Inl e, m1) \<Rightarrow> (Inl e, m1)
      | (Inr _, m1) \<Rightarrow>
        (case hm_get (sm_slots m1) slot_id of
           None \<Rightarrow> (Inl (AgentNotFound slot_id), m1)
         | Some slot \<Rightarrow>
           if ta_role (ag_agent slot) = Lead then (Inr None, m1)
           else
             (case (case find_lead_slot_id m1 of
                      None \<Rightarrow> (Inr (), m1)
                    | Some lead \<Rightarrow>
                      if lead = slot_id then (Inr (), m1)
                      else (case team_write env lead slot_id MtIdleNotification
                                  (case summary of None \<Rightarrow> ''idle'' | Some x \<Rightarrow> x) summary None m1 of
                              (Inl e, m2) \<Rightarrow> (Inl e, m2)
                            | (Inr _, m2) \<Rightarrow> (Inr (), m2))) of
                (Inl e, m2) \<Rightarrow> (Inl e, m2)
              | (Inr _, m2) \<Rightarrow> (Inr (maybe_wake_leader_when_all_idle m2), m2))))"

subsection \<open>Actions\<close>

datatype scheduler_action =
    ActSendMessage ident string "string list"                        \<comment> \<open>to, message, files\<close>
  | ActTaskCreate string "string option" "ident option" "ident list"  \<comment> \<open>subject, description, owner, blocked by\<close>
  | ActTaskUpdate ident "string option" "string option" "ident option" "ident list option"
  | ActSpawnAgent string string string
  | ActIdleNotification "string option"
  | ActShutdownAgent ident "string option"
  | ActRenameAgent ident string

text \<open>A message to \<open>*\<close> goes to every other slot, in the map's order.\<close>

fun write_each ::
  "('j, 's) team_env \<Rightarrow> ident \<Rightarrow> string \<Rightarrow> string list \<Rightarrow> ident list \<Rightarrow> 's team_manager \<Rightarrow> (unit, 's) sched_result" where
  "write_each env from_id message files [] m = (Inr (), m)"
| "write_each env from_id message files (target # targets) m =
     (case team_write env target from_id MtMessage message None (Some files) m of
        (Inl e, m1) \<Rightarrow> (Inl e, m1)
      | (Inr _, m1) \<Rightarrow> write_each env from_id message files targets m1)"

definition handle_send_message ::
  "('j, 's) team_env \<Rightarrow> ident \<Rightarrow> ident \<Rightarrow> string \<Rightarrow> string list \<Rightarrow> 's team_manager \<Rightarrow> (unit, 's) sched_result" where
  "handle_send_message env from_id to_id message files m =
     (if to_id = ''*''
      then write_each env from_id message files (filter (\<lambda>i. i \<noteq> from_id) (map fst (sm_slots m))) m
      else (case team_write env to_id from_id MtMessage message None (Some files) m of
              (Inl e, m1) \<Rightarrow> (Inl e, m1)
            | (Inr _, m1) \<Rightarrow> (Inr (), m1)))"

definition request_shutdown_agent ::
  "('j, 's) team_env \<Rightarrow> ident \<Rightarrow> ident \<Rightarrow> string option \<Rightarrow> 's team_manager \<Rightarrow> (mailbox_message, 's) sched_result" where
  "request_shutdown_agent env from_id target_id reason m =
     (case hm_get (sm_slots m) from_id of
        None \<Rightarrow> (Inl (AgentNotFound from_id), m)
      | Some from_slot \<Rightarrow>
        if ta_role (ag_agent from_slot) \<noteq> Lead then (Inl (InvalidRequest ''only lead can shutdown agents''), m)
        else (case hm_get (sm_slots m) target_id of
                None \<Rightarrow> (Inl (AgentNotFound target_id), m)
              | Some target \<Rightarrow>
                if ta_role (ag_agent target) = Lead then (Inl (InvalidRequest ''cannot shutdown the team lead''), m)
                else team_write env target_id from_id MtShutdownRequest
                       (case reason of None \<Rightarrow> ''shutdown requested'' | Some x \<Rightarrow> x) None None m))"

text \<open>\<open>.await?\<close> and then \<open>Ok(None)\<close>.\<close>

fun ok_none :: "('a, 's) sched_result \<Rightarrow> (ident option, 's) sched_result" where
  "ok_none (Inl e, m) = (Inl e, m)"
| "ok_none (Inr _, m) = (Inr None, m)"

fun execute_action ::
  "('j, 's) team_env \<Rightarrow> ident \<Rightarrow> scheduler_action \<Rightarrow> 's team_manager \<Rightarrow> (ident option, 's) sched_result" where
  "execute_action env from_id (ActSendMessage to_id message files) m =
     ok_none (handle_send_message env from_id to_id message files m)"
| "execute_action env from_id (ActTaskCreate subject description owner blocked_by) m =
     ok_none (manager_create_task env subject description owner blocked_by m)"
| "execute_action env from_id (ActTaskUpdate task_id status description owner blocked_by) m =
     ok_none (manager_update_task env task_id status description owner blocked_by m)"
| "execute_action env from_id (ActIdleNotification summary) m = mark_idle env from_id summary m"
| "execute_action env from_id (ActSpawnAgent name role backend) m = (Inr None, m)"
| "execute_action env from_id (ActShutdownAgent slot_id reason) m =
     ok_none (request_shutdown_agent env from_id slot_id reason m)"
| "execute_action env from_id (ActRenameAgent slot_id new_name) m =
     ok_none (rename_agent (te_unicode env) slot_id new_name m)"

text \<open>The loop of \<open>finalize_turn\<close>: idle notifications are collected, the first summary wins.\<close>

fun finalize_loop ::
  "('j, 's) team_env \<Rightarrow> ident \<Rightarrow> scheduler_action list \<Rightarrow> string option \<Rightarrow> 's team_manager
     \<Rightarrow> (string option, 's) sched_result" where
  "finalize_loop env slot_id [] summary m = (Inr summary, m)"
| "finalize_loop env slot_id (ActIdleNotification s # acts) summary m =
     finalize_loop env slot_id acts (if summary = None then s else summary) m"
| "finalize_loop env slot_id (act # acts) summary m =
     (case execute_action env slot_id act m of
        (Inl e, m1) \<Rightarrow> (Inl e, m1)
      | (Inr _, m1) \<Rightarrow> finalize_loop env slot_id acts summary m1)"

definition finalize_turn ::
  "('j, 's) team_env \<Rightarrow> ident \<Rightarrow> scheduler_action list \<Rightarrow> 's team_manager \<Rightarrow> (ident option, 's) sched_result" where
  "finalize_turn env slot_id actions m =
     (case finalize_loop env slot_id actions None m of
        (Inl e, m1) \<Rightarrow> (Inl e, m1)
      | (Inr summary, m1) \<Rightarrow> mark_idle env slot_id summary m1)"

subsection \<open>Crashes and silence\<close>

definition write_crash_testament ::
  "('j, 's) team_env \<Rightarrow> ident \<Rightarrow> string \<Rightarrow> crash_reason \<Rightarrow> string option \<Rightarrow> 's team_manager \<Rightarrow> (unit, 's) sched_result" where
  "write_crash_testament env slot_id agent_name reason last_message m =
     (case find_lead_slot_id m of
        None \<Rightarrow> (Inr (), m)
      | Some lead \<Rightarrow>
        if lead = slot_id then (Inr (), m)
        else (case team_write env lead slot_id MtMessage (format_crash_testament agent_name reason last_message) None None m of
                (Inl e, m1) \<Rightarrow> (Inl e, m1)
              | (Inr _, m1) \<Rightarrow> (Inr (), m1)))"

definition handle_agent_crash ::
  "('j, 's) team_env \<Rightarrow> ident \<Rightarrow> crash_reason \<Rightarrow> string option \<Rightarrow> 's team_manager \<Rightarrow> (ident option, 's) sched_result" where
  "handle_agent_crash env slot_id reason last_message m =
     (case hm_get (sm_slots m) slot_id of
        None \<Rightarrow> (Inl (AgentNotFound slot_id), m)
      | Some slot \<Rightarrow>
        (case write_crash_testament env slot_id (ta_name (ag_agent slot)) reason last_message m of
           (Inl e, m1) \<Rightarrow> (Inl e, m1)
         | (Inr _, m1) \<Rightarrow>
           (case set_status slot_id StError m1 of
              (Inl e, m2) \<Rightarrow> (Inl e, m2)
            | (Inr _, m2) \<Rightarrow>
              let m3 = clear_wake_timeout slot_id (release_wake_lock slot_id m2)
              in (Inr (if ta_role (ag_agent slot) = Lead then None else find_lead_slot_id m3), m3))))"

definition inactivity_message :: "string \<Rightarrow> string" where
  "inactivity_message agent_name =
     ''Teammate '' @ quote @ agent_name @ quote @ '' timed out after 60s of inactivity. Please investigate.''"

definition handle_inactivity_timeout ::
  "('j, 's) team_env \<Rightarrow> ident \<Rightarrow> 's team_manager \<Rightarrow> (ident option, 's) sched_result" where
  "handle_inactivity_timeout env slot_id m =
     (case hm_get (sm_slots m) slot_id of
        None \<Rightarrow> (Inl (AgentNotFound slot_id), m)
      | Some slot \<Rightarrow>
        (case set_status slot_id StError m of
           (Inl e, m1) \<Rightarrow> (Inl e, m1)
         | (Inr _, m1) \<Rightarrow>
           let m2 = clear_wake_timeout slot_id (release_wake_lock slot_id m1)
           in if ta_role (ag_agent slot) = Lead then (Inr None, m2)
              else case find_lead_slot_id m2 of
                None \<Rightarrow> (Inr None, m2)
              | Some lead \<Rightarrow>
                (case team_write env lead slot_id MtMessage (inactivity_message (ta_name (ag_agent slot))) None None m2 of
                   (Inl e, m3) \<Rightarrow> (Inl e, m3)
                 | (Inr _, m3) \<Rightarrow> (Inr (Some lead), m3))))"

definition notify_shutdown_rejected ::
  "('j, 's) team_env \<Rightarrow> ident \<Rightarrow> string \<Rightarrow> 's team_manager \<Rightarrow> (unit, 's) sched_result" where
  "notify_shutdown_rejected env from_id reason m =
     (case find_lead_slot_id m of
        None \<Rightarrow> (Inr (), m)
      | Some lead \<Rightarrow>
        if lead = from_id then (Inr (), m)
        else
          let agent_name = (case get_agent from_id m of Inl _ \<Rightarrow> from_id | Inr a \<Rightarrow> ta_name a);
              content = ''Teammate '' @ quote @ agent_name @ quote @ '' declined shutdown: '' @ reason
          in (case team_write env lead from_id MtMessage content None None m of
                (Inl e, m1) \<Rightarrow> (Inl e, m1)
              | (Inr _, m1) \<Rightarrow> (Inr (), m1)))"

end
