(* ===== verification/Mailbox_Delivery.thy ===== *)
theory Mailbox_Delivery
  imports Mailbox
begin

text \<open>
  Delivery of messages over a history of mailbox operations. \<open>deliver\<close> runs one operation and
  returns the messages it shows its caller as unread mail: those \<open>peek_unread\<close> finds, which
  stay where they are until \<open>mark_read_batch\<close> (so the sessions and the turns consume their
  mail), and those \<open>read_unread\<close> returns, which it takes out of the inbox. A
  \<open>reliable_store\<close> is a message store none of whose operations fails, as \<open>MemoryTeamRepo\<close>.
  \<open>mark_all_unread_for_agents_read\<close>, which awaits between its looks and its marking, is one
  operation here; with others in between it is the history of its parts, \<open>MPeek\<close> for every
  agent and then \<open>MMarkRead\<close>.
\<close>

datatype mailbox_op =
    MWrite ident timestamp ident ident ident message_type string "string option" "string list option"
  | MPeek ident ident
  | MReadUnread ident ident
  | MMarkRead "ident list"
  | MMarkAll ident "ident list"
  | MDeleteTeam ident

fun deliver :: "'j json_ops \<Rightarrow> 's message_repo \<Rightarrow> mailbox_op \<Rightarrow> 's \<Rightarrow> mailbox_message list \<times> 's" where
  "deliver js repo (MWrite i now t a from_agent ty content summary files) s =
     ([], snd (mailbox_write_with_files js repo i now t a from_agent ty content summary files s))"
| "deliver js repo (MPeek t a) s = (result_or [] (mailbox_peek_unread js repo t a s), s)"
| "deliver js repo (MReadUnread t a) s =
     (case mailbox_read_unread js repo t a s of (Inl _, s1) \<Rightarrow> ([], s1) | (Inr ms, s1) \<Rightarrow> (ms, s1))"
| "deliver js repo (MMarkRead ids) s = ([], snd (mailbox_mark_read_batch repo ids s))"
| "deliver js repo (MMarkAll t as) s = ([], snd (mailbox_mark_all_unread js repo t as s))"
| "deliver js repo (MDeleteTeam t) s = ([], snd (mailbox_delete_by_team repo t s))"

primrec deliver_all ::
  "'j json_ops \<Rightarrow> 's message_repo \<Rightarrow> mailbox_op list \<Rightarrow> 's \<Rightarrow> mailbox_message list \<times> 's" where
  "deliver_all js repo [] s = ([], s)"
| "deliver_all js repo (oper # ops) s =
     (case deliver js repo oper s of (out, s1) \<Rightarrow>
        case deliver_all js repo ops s1 of (outs, s2) \<Rightarrow> (out @ outs, s2))"

text \<open>Operations that take message \<open>i\<close> of agent \<open>a\<close> out of the inbox, and the one that would use its id again.\<close>

fun takes :: "ident \<Rightarrow> ident \<Rightarrow> ident \<Rightarrow> mailbox_op \<Rightarrow> bool" where
  "takes i t a (MWrite _ _ _ _ _ _ _ _ _) = False"
| "takes i t a (MPeek _ _) = False"
| "takes i t a (MReadUnread t' a') = (t' = t \<and> a' = a)"
| "takes i t a (MMarkRead ids) = (i \<in> set ids)"
| "takes i t a (MMarkAll t' as) = (t' = t \<and> a \<in> set as)"
| "takes i t a (MDeleteTeam t') = (t' = t)"

fun reuses :: "ident \<Rightarrow> mailbox_op \<Rightarrow> bool" where
  "reuses i (MWrite j _ _ _ _ _ _ _ _) = (j = i)"
| "reuses i _ = False"

abbreviation with_id :: "ident \<Rightarrow> message_row list \<Rightarrow> message_row list" where
  "with_id i rows \<equiv> filter (\<lambda>m. mm_id m = i) rows"

lemma with_id_marked: "with_id i (map (mark_if p) rows) = map (mark_if p) (with_id i rows)"
  by (induction rows) auto

lemma with_id_left:
  assumes "with_id i rows = [row]"
  shows "filter (\<lambda>m. mm_team_id m \<noteq> t \<and> mm_id m = i) rows = filter (\<lambda>m. mm_team_id m \<noteq> t) [row]"
    and "filter (\<lambda>m. mm_id m = i \<and> mm_team_id m \<noteq> t) rows = filter (\<lambda>m. mm_team_id m \<noteq> t) [row]"
  unfolding assms [symmetric] filter_filter by (simp_all add: conj_commute)

lemma with_id_view:
  "filter (\<lambda>x. msg_id x = i) (List.map_filter (message_from_row js) rows) =
     List.map_filter (message_from_row js) (with_id i rows)"
  by (induction rows) (auto simp: List.map_filter_simps message_from_row_fields(1) split: option.splits)

lemma with_id_single:
  assumes "with_id i rows = [row]"
  shows "mm_id row = i" "row \<in> set rows"
proof -
  have "row \<in> set (with_id i rows)" using assms by (metis list.set_intros(1))
  then show "mm_id row = i" "row \<in> set rows" by simp_all
qed

lemma with_id_unique:
  assumes "with_id i rows = [row]" and "m \<in> set rows" and "mm_id m = i"
  shows "m = row"
proof -
  have "m \<in> set (with_id i rows)" using assms(2,3) by simp
  with assms(1) show ?thesis by (metis empty_iff insert_iff list.set)
qed

locale reliable_store = message_store +
  assumes write_ok: "\<exists>s'. mrepo_write repo row s = (Inr (), s')"
    and read_ok: "\<exists>rows s'. mrepo_read_unread_and_mark repo t a s = (Inr rows, s')"
    and peek_ok: "\<exists>rows. mrepo_peek_unread repo t a s = Inr rows"
    and mark_ok: "\<exists>s'. mrepo_mark_read_batch repo ids s = (Inr (), s')"
    and delete_ok: "\<exists>s'. mrepo_delete_by_team repo t s = (Inr (), s')"
begin

lemma peek_is_view: "mailbox_peek_unread js repo t a s = Inr (unread_view js t a s)"
proof -
  obtain rows where "mrepo_peek_unread repo t a s = Inr rows" using peek_ok by blast
  then have "mailbox_peek_unread js repo t a s = Inr (List.map_filter (message_from_row js) rows)"
    by (simp add: mailbox_peek_unread_def)
  with peek_view [OF this] show ?thesis by simp
qed

lemma unread_ids_are: "unread_ids js repo t as s = Inr (concat (map (\<lambda>a. map msg_id (unread_view js t a s)) as))"
  by (induction "as") (simp_all add: peek_is_view)

lemma read_unread_ok: "\<exists>s'. mailbox_read_unread js repo t a s = (Inr (map (\<lambda>m. m\<lparr>msg_read := True\<rparr>) (unread_view js t a s)), s')"
proof -
  obtain rows s' where "mrepo_read_unread_and_mark repo t a s = (Inr rows, s')" using read_ok by blast
  then have r: "mailbox_read_unread js repo t a s = (Inr (List.map_filter (message_from_row js) rows), s')"
    by (simp add: mailbox_read_unread_def)
  with read_view(1) [OF r] show ?thesis by simp
qed

lemma mark_all_msgs:
  assumes "mailbox_mark_all_unread js repo t as s = (r, s')"
  shows "msgs s' = map (mark_if (\<lambda>m. \<exists>a \<in> set as. mm_id m \<in> msg_id ` set (unread_view js t a s))) (msgs s)"
    and "r = Inr (length (concat (map (\<lambda>a. unread_view js t a s) as)))"
proof -
  define ids where "ids = concat (map (\<lambda>a. map msg_id (unread_view js t a s)) as)"
  have set_ids: "(i \<in> set ids) = (\<exists>a \<in> set as. i \<in> msg_id ` set (unread_view js t a s))" for i
    by (auto simp: ids_def)
  have len: "length ids = length (concat (map (\<lambda>a. unread_view js t a s) as))"
    by (simp add: ids_def length_concat comp_def)
  have res: "unread_ids js repo t as s = Inr ids" by (simp add: unread_ids_are ids_def)
  obtain s1 where s1: "mailbox_mark_read_batch repo ids s = (Inr (), s1)"
    using mark_ok [of ids s] by (auto simp: mailbox_mark_read_batch_def)
  have none: "map (mark_if (\<lambda>_. False)) xs = xs" for xs by (induction xs) (simp_all add: mark_if_def)
  show "msgs s' = map (mark_if (\<lambda>m. \<exists>a \<in> set as. mm_id m \<in> msg_id ` set (unread_view js t a s))) (msgs s)"
    using assms mark_batch_msgs [OF s1] res s1 none
    by (auto simp: mailbox_mark_all_unread_def set_ids [symmetric] split: if_splits)
  show "r = Inr (length (concat (map (\<lambda>a. unread_view js t a s) as)))"
    using assms res s1 len by (auto simp: mailbox_mark_all_unread_def split: if_splits)
qed

lemma in_view_with_id:
  assumes one: "with_id i (msgs s) = [row]" and m: "i \<in> msg_id ` set (unread_view js t a s)"
  shows "mm_team_id row = t \<and> mm_to_agent_id row = a"
proof -
  from m obtain r x where "r \<in> set (msgs s)" "unread_for t a r" "message_from_row js r = Some x" "msg_id x = i"
    by (auto simp: unread_view_def set_map_filter)
  moreover from this have "r = row"
    using with_id_unique [OF one] by (metis message_from_row_fields(1))
  ultimately show ?thesis by (simp add: addressed_to_def)
qed

lemma written_msgs:
  assumes "mailbox_write_with_files js repo j now t a from_agent ty content summary files s = (r, s1)"
  shows "\<exists>x. msgs s1 = msgs s @ [x] \<and> mm_id x = j"
proof -
  from assms obtain row q where "mrepo_write repo row s = (q, s1)" "mm_id row = j"
    by (auto simp: mailbox_write_with_files_def Let_def split: prod.splits sum.splits)
  moreover from this have "q = Inr ()" using write_ok [of row s] by auto
  ultimately show ?thesis using write_law [of row s q s1] by auto
qed

text \<open>What an agent's inbox shows of the message, by the one row that holds it.\<close>

lemma view_of_id:
  "filter (\<lambda>x. msg_id x = i) (unread_view js t a s) =
     List.map_filter (message_from_row js) (filter (unread_for t a) (with_id i (msgs s)))"
  unfolding unread_view_def with_id_view by (simp add: conj_commute conj_left_commute)

lemma read_of_id:
  "filter (\<lambda>x. msg_id x = i) (map (\<lambda>m. m\<lparr>msg_read := True\<rparr>) xs) =
     map (\<lambda>m. m\<lparr>msg_read := True\<rparr>) (filter (\<lambda>x. msg_id x = i) xs)"
  by (induction xs) auto

text \<open>The state after an operation, and what the operation shows of one message.\<close>

lemma deliver_msgs:
  assumes step: "deliver js repo oper s = (out, s')"
  shows "case oper of
      MWrite j now t' a' from_agent ty content summary files \<Rightarrow> out = [] \<and> (\<exists>x. msgs s' = msgs s @ [x] \<and> mm_id x = j)
    | MPeek t' a' \<Rightarrow> out = unread_view js t' a' s \<and> s' = s
    | MReadUnread t' a' \<Rightarrow> out = map (\<lambda>m. m\<lparr>msg_read := True\<rparr>) (unread_view js t' a' s) \<and>
        msgs s' = map (mark_if (unread_for t' a')) (msgs s)
    | MMarkRead ids \<Rightarrow> out = [] \<and> msgs s' = map (mark_if (\<lambda>m. mm_id m \<in> set ids)) (msgs s)
    | MMarkAll t' as \<Rightarrow> out = [] \<and>
        msgs s' = map (mark_if (\<lambda>m. \<exists>a' \<in> set as. mm_id m \<in> msg_id ` set (unread_view js t' a' s))) (msgs s)
    | MDeleteTeam t' \<Rightarrow> out = [] \<and> msgs s' = filter (\<lambda>m. mm_team_id m \<noteq> t') (msgs s)"
proof (cases oper)
  case (MWrite j now t' a' from_agent ty content summary files)
  with step written_msgs [OF surjective_pairing, of js j now t' a' from_agent ty content summary files s]
  show ?thesis by simp
next
  case (MPeek t' a')
  with step show ?thesis by (auto simp: peek_is_view)
next
  case (MReadUnread t' a')
  obtain s1 where r: "mailbox_read_unread js repo t' a' s =
      (Inr (map (\<lambda>m. m\<lparr>msg_read := True\<rparr>) (unread_view js t' a' s)), s1)"
    using read_unread_ok by blast
  with step read_view(2) [OF r] show ?thesis by (simp add: MReadUnread)
next
  case (MMarkRead ids)
  obtain s1 where r: "mailbox_mark_read_batch repo ids s = (Inr (), s1)"
    using mark_ok [of ids s] by (auto simp: mailbox_mark_read_batch_def)
  with mark_batch_msgs [OF r] step show ?thesis by (simp add: MMarkRead)
next
  case (MMarkAll t' "as")
  with step mark_all_msgs(1) [OF surjective_pairing, of js t' "as" s] show ?thesis by simp
next
  case (MDeleteTeam t')
  obtain s1 where d: "mrepo_delete_by_team repo t' s = (Inr (), s1)" using delete_ok by blast
  with delete_law [OF d] step show ?thesis by (simp add: MDeleteTeam mailbox_delete_by_team_def)
qed

text \<open>An operation that does not take an unread message leaves it, and shows it if it looks.\<close>

lemma deliver_kept:
  assumes one: "with_id i (msgs s) = [row]" and row: "mm_team_id row = t" "mm_to_agent_id row = a" "\<not> mm_read row"
    "message_from_row js row = Some m"
    and keep: "\<not> reuses i oper" "\<not> takes i t a oper" and step: "deliver js repo oper s = (out, s')"
  shows "with_id i (msgs s') = [row] \<and> filter (\<lambda>x. msg_id x = i) out = (if oper = MPeek t a then [m] else [])"
  using deliver_msgs [OF step] keep
proof (cases oper)
  case (MPeek t' a')
  with deliver_msgs [OF step] one row show ?thesis
    by (auto simp: view_of_id addressed_to_def List.map_filter_simps)
next
  case (MReadUnread t' a')
  with deliver_msgs [OF step] one row keep show ?thesis
    by (auto simp: view_of_id read_of_id with_id_marked mark_if_def addressed_to_def List.map_filter_simps)
next
  case (MMarkAll t' "as")
  moreover have "\<not> (\<exists>a' \<in> set as. mm_id row \<in> msg_id ` set (unread_view js t' a' s))"
    using in_view_with_id [OF one] keep row with_id_single [OF one] by (auto simp: MMarkAll)
  ultimately show ?thesis using deliver_msgs [OF step] one by (simp add: with_id_marked mark_if_def)
next
  case (MDeleteTeam t')
  with deliver_msgs [OF step] one row keep show ?thesis by (simp add: with_id_left)
qed (use one row with_id_single [OF one] in \<open>auto simp: with_id_marked mark_if_def\<close>)

text \<open>The one that takes it hands it out if it is its reader's, and leaves nothing unread.\<close>

lemma deliver_taken:
  assumes one: "with_id i (msgs s) = [row]" and row: "mm_team_id row = t" "mm_to_agent_id row = a" "\<not> mm_read row"
    "message_from_row js row = Some m"
    and takes: "takes i t a oper" and step: "deliver js repo oper s = (out, s')"
  shows "(\<forall>r \<in> set (with_id i (msgs s')). mm_read r) \<and>
    filter (\<lambda>x. msg_id x = i) out = (if oper = MReadUnread t a then [m\<lparr>msg_read := True\<rparr>] else [])"
proof (cases oper)
  case (MReadUnread t' a')
  with deliver_msgs [OF step] one row takes show ?thesis
    by (simp add: view_of_id read_of_id with_id_marked addressed_to_def List.map_filter_simps)
next
  case (MMarkAll t' "as")
  have "filter (\<lambda>x. msg_id x = i) (unread_view js t a s) = [m]"
    using one row by (simp add: view_of_id addressed_to_def List.map_filter_simps)
  then have "m \<in> set (filter (\<lambda>x. msg_id x = i) (unread_view js t a s))" by simp
  then have "i \<in> msg_id ` set (unread_view js t a s)" by auto
  with takes with_id_single(1) [OF one] have "\<exists>a' \<in> set as. mm_id row \<in> msg_id ` set (unread_view js t' a' s)"
    by (auto simp: MMarkAll)
  then show ?thesis using deliver_msgs [OF step] one by (simp add: MMarkAll with_id_marked)
next
  case (MDeleteTeam t')
  with deliver_msgs [OF step] one row takes show ?thesis by (simp add: with_id_left)
qed (use takes deliver_msgs [OF step] one with_id_single [OF one] in \<open>auto simp: with_id_marked\<close>)

text \<open>And what is no longer unread is never shown again.\<close>

lemma deliver_gone:
  assumes gone: "\<forall>r \<in> set (with_id i (msgs s)). mm_read r"
    and fresh: "\<not> reuses i oper" and step: "deliver js repo oper s = (out, s')"
  shows "(\<forall>r \<in> set (with_id i (msgs s')). mm_read r) \<and> filter (\<lambda>x. msg_id x = i) out = []"
proof -
  have "filter (unread_for t a) (with_id i (msgs s)) = []" for t a using gone by (auto simp: filter_empty_conv)
  then have "filter (\<lambda>x. msg_id x = i) (unread_view js t a s) = []" for t a
    unfolding view_of_id by (simp only: List.map_filter_simps)
  then show ?thesis using deliver_msgs [OF step] gone fresh by (cases oper) (auto simp: read_of_id)
qed

lemma history_gone:
  assumes "\<forall>r \<in> set (with_id i (msgs s)). mm_read r"
    and "\<And>oper. oper \<in> set ops \<Longrightarrow> \<not> reuses i oper" and "deliver_all js repo ops s = (out, s')"
  shows "(\<forall>r \<in> set (with_id i (msgs s')). mm_read r) \<and> filter (\<lambda>x. msg_id x = i) out = []"
  using assms
proof (induction ops arbitrary: s out)
  case (Cons oper ops)
  from Cons.prems(3) obtain out1 s1 out2 where st: "deliver js repo oper s = (out1, s1)"
    and rest: "deliver_all js repo ops s1 = (out2, s')" and out: "out = out1 @ out2"
    by (auto split: prod.splits)
  have "(\<forall>r \<in> set (with_id i (msgs s1)). mm_read r) \<and> filter (\<lambda>x. msg_id x = i) out1 = []"
    using deliver_gone [OF Cons.prems(1) _ st] Cons.prems(2) by simp
  with Cons.IH [OF _ _ rest] Cons.prems(2) out show ?case by auto
qed simp

text \<open>A whole history: every look shows the message until the first operation that takes it.\<close>

lemma deliver_history:
  assumes "with_id i (msgs s) = [row]" and row: "mm_team_id row = t" "mm_to_agent_id row = a" "\<not> mm_read row"
    "message_from_row js row = Some m"
    and "\<And>oper. oper \<in> set ops \<Longrightarrow> \<not> reuses i oper" and "deliver_all js repo ops s = (out, s')"
  shows "filter (\<lambda>x. msg_id x = i) out =
      replicate (count_list (takeWhile (\<lambda>oper. \<not> takes i t a oper) ops) (MPeek t a)) m @
      (if find (takes i t a) ops = Some (MReadUnread t a) then [m\<lparr>msg_read := True\<rparr>] else []) \<and>
    (if find (takes i t a) ops = None then with_id i (msgs s') = [row] else \<forall>r \<in> set (with_id i (msgs s')). mm_read r)"
  using assms(1,6,7)
proof (induction ops arbitrary: s out)
  case (Cons oper ops)
  from Cons.prems(3) obtain out1 s1 out2 where st: "deliver js repo oper s = (out1, s1)"
    and rest: "deliver_all js repo ops s1 = (out2, s')" and out: "out = out1 @ out2"
    by (auto split: prod.splits)
  have new: "\<not> reuses i oper" "\<And>oper. oper \<in> set ops \<Longrightarrow> \<not> reuses i oper" using Cons.prems(2) by simp_all
  show ?case
  proof (cases "takes i t a oper")
    case True
    note now = deliver_taken [OF Cons.prems(1) row True st]
    with history_gone [OF conjunct1 [OF now] new(2) rest] out True show ?thesis by simp
  next
    case False
    note now = deliver_kept [OF Cons.prems(1) row new(1) False st]
    with Cons.IH [OF conjunct1 [OF now] new(2) rest] out False show ?thesis by simp
  qed
qed simp

end

end
