(* ===== verification/Mailbox_Claims.thy ===== *)
theory Mailbox_Claims
  imports Mailbox_Delivery Json_Value
begin

text \<open>
  \<open>MemoryTeamRepo\<close> keeps the contract of a reliable message store, and what follows for the
  mailbox over it.
\<close>

subsection \<open>The repository in memory is a reliable message store\<close>

lemma read_loop_is_map:
  "read_loop t a ms = (map (mark_if (unread_for t a)) (filter (unread_for t a) ms), map (mark_if (unread_for t a)) ms)"
  by (induction ms) (auto simp: mark_if_def)

lemmas memory_ops = memory_messages_def mem_write_message_def mem_read_unread_and_mark_def
  mem_peek_unread_def mem_mark_read_batch_def mem_get_history_def mem_delete_mailbox_by_team_def

interpretation inbox: reliable_store memory_messages ms_messages
  by unfold_locales
    (auto simp: memory_ops read_loop_is_map mark_if_def Let_def split: option.splits sum.splits)


lemma write_arrives:
  assumes "json_laws js"
  shows "\<exists>m s1. mailbox_write_with_files js memory_messages i now t a sender ty content summary files s = (Inr m, s1) \<and>
    m = \<lparr>msg_id = i, msg_team_id = t, msg_to_agent_id = a, msg_from_agent_id = sender, msg_type = ty,
         msg_content = content, msg_summary = summary,
         msg_files = (if files = Some [] then None else files), msg_read = False, msg_created_at = now\<rparr> \<and>
    (\<exists>unread. mailbox_peek_unread js memory_messages t a s = Inr unread \<and>
       mailbox_peek_unread js memory_messages t a s1 = Inr (unread @ [m])) \<and>
    (\<forall>t' a'. (t', a') \<noteq> (t, a) \<longrightarrow>
       mailbox_peek_unread js memory_messages t' a' s1 = mailbox_peek_unread js memory_messages t' a' s)"
proof -
  obtain fs where fs: "js_strings_to js (case files of None \<Rightarrow> [] | Some f \<Rightarrow> f) = Inr fs"
    "js_strings_of js fs = Inr (case files of None \<Rightarrow> [] | Some f \<Rightarrow> f)"
    using assms by (rule json_lawsE)
  have app: "List.map_filter f (xs @ ys) = List.map_filter f xs @ List.map_filter f ys" for f :: "message_row \<Rightarrow> mailbox_message option" and xs ys
    by (simp add: List.map_filter_def)
  show ?thesis
    using fs
    by (cases files)
      (auto simp: mailbox_write_with_files_def memory_ops Let_def message_from_row_def mailbox_peek_unread_def
         addressed_to_def app List.map_filter_simps)
qed


text \<open>What is written arrives. Writing succeeds and returns the message with the fields given,
  unread, an empty list of files counting as none; the message is the last of the addressee's
  inbox, and no other inbox changes.\<close>

theorem written_message_arrives:
  assumes "json_laws js"
  shows "\<exists>m s1. mailbox_write_with_files js memory_messages i now t a sender ty content summary files s = (Inr m, s1) \<and>
    m = \<lparr>msg_id = i, msg_team_id = t, msg_to_agent_id = a, msg_from_agent_id = sender, msg_type = ty,
         msg_content = content, msg_summary = summary,
         msg_files = (if files = Some [] then None else files), msg_read = False, msg_created_at = now\<rparr> \<and>
    (\<exists>unread. mailbox_peek_unread js memory_messages t a s = Inr unread \<and>
       mailbox_peek_unread js memory_messages t a s1 = Inr (unread @ [m])) \<and>
    (\<forall>t' a'. (t', a') \<noteq> (t, a) \<longrightarrow>
       mailbox_peek_unread js memory_messages t' a' s1 = mailbox_peek_unread js memory_messages t' a' s)"
  using assms by (rule write_arrives)

text \<open>Cancelling a run's mail. Marking the unread messages of a list of agents reports how many
  there were, agent by agent, leaves those agents' inboxes empty, and takes nothing out of
  any other inbox of this or another team.\<close>

theorem marking_all_empties_inboxes:
  assumes ids: "distinct (map mm_id (ms_messages s))"
    and run: "mailbox_mark_all_unread js memory_messages t agents s = (r, s1)"
  shows "\<exists>unread. (\<forall>a. mailbox_peek_unread js memory_messages t a s = Inr (unread a)) \<and>
    r = Inr (sum_list (map (\<lambda>a. length (unread a)) agents)) \<and>
    (\<forall>a \<in> set agents. mailbox_peek_unread js memory_messages t a s1 = Inr []) \<and>
    (\<forall>t' a'. t' \<noteq> t \<or> a' \<notin> set agents \<longrightarrow>
       mailbox_peek_unread js memory_messages t' a' s1 = mailbox_peek_unread js memory_messages t' a' s)"
proof -
  let ?view = "inbox.unread_view js" and ?p = "\<lambda>m. \<exists>a \<in> set agents. mm_id m \<in> msg_id ` set (inbox.unread_view js t a s)"
  have s1: "ms_messages s1 = map (mark_if ?p) (ms_messages s)" and r: "r = Inr (length (concat (map (\<lambda>a. ?view t a s) agents)))"
    using inbox.mark_all_msgs [OF run] by auto
  have view: "?view t' a' s1 = List.map_filter (message_from_row js) (filter (\<lambda>m. unread_for t' a' m \<and> \<not> ?p m) (ms_messages s))" for t' a'
    by (rule inbox.view_after_mark [where s = s, OF s1])
  have in_view: "mm_id m \<in> msg_id ` set (?view t a s) \<longleftrightarrow> unread_for t a m \<and> message_from_row js m \<noteq> None"
    if m: "m \<in> set (ms_messages s)" for m a
    using m ids by (fastforce simp: inbox.unread_view_def set_map_filter distinct_map inj_on_def
        dest: message_from_row_fields(1) intro: rev_image_eqI)
  have 1: "?view t a s1 = []" if a: "a \<in> set agents" for a
    unfolding view map_filter_Nil_iff using in_view a by fastforce
  have "?view t' a' s1 = ?view t' a' s" if other: "t' \<noteq> t \<or> a' \<notin> set agents" for t' a'
  proof -
    have eq: "filter (\<lambda>m. unread_for t' a' m \<and> \<not> ?p m) (ms_messages s) = filter (unread_for t' a') (ms_messages s)"
      using other in_view by (intro filter_cong) (auto simp: addressed_to_def)
    have "?view t' a' s1 = List.map_filter (message_from_row js) (filter (unread_for t' a') (ms_messages s))"
      unfolding view eq ..
    also have "\<dots> = ?view t' a' s" by (simp only: inbox.unread_view_def)
    finally show ?thesis .
  qed
  with 1 r show ?thesis
    by (intro exI [of _ "\<lambda>a. ?view t a s"]) (simp add: inbox.peek_is_view length_concat comp_def)
qed

subsection \<open>Witnesses\<close>

definition demo_store :: memory_state where
  "demo_store = snd (mailbox_write demo_json memory_messages ''m1'' 1 ''t1'' ''a1'' ''a2'' MtMessage ''hi'' None memory_new)"

lemma demo_store_is:
  "demo_store = memory_new\<lparr>ms_messages :=
     [\<lparr>mm_id = ''m1'', mm_team_id = ''t1'', mm_to_agent_id = ''a1'', mm_from_agent_id = ''a2'', mm_msg_type = ''message'',
       mm_content = ''hi'', mm_summary = None, mm_files = None, mm_read = False, mm_created_at = 1\<rparr>]\<rparr>"
  by (simp add: demo_store_def mailbox_write_def mailbox_write_with_files_def memory_ops memory_new_def Let_def)


lemma written_message_arrives_witness:
  "\<exists>m s1. mailbox_write_with_files demo_json memory_messages ''m2'' 2 ''t1'' ''a1'' ''user'' MtMessage ''go'' None (Some [])
     demo_store = (Inr m, s1) \<and> msg_files m = None \<and> msg_content m = ''go''"
  using written_message_arrives [OF demo_json_laws, of "''m2''" 2 "''t1''" "''a1''" "''user''" MtMessage "''go''" None "Some []" demo_store]
  by force

lemma marking_all_empties_inboxes_witness:
  "fst (mailbox_mark_all_unread demo_json memory_messages ''t1'' [''a1'', ''a2''] demo_store) = Inr 1 \<and>
   mailbox_peek_unread demo_json memory_messages ''t1'' ''a1''
     (snd (mailbox_mark_all_unread demo_json memory_messages ''t1'' [''a1'', ''a2''] demo_store)) = Inr []"
proof -
  have d: "distinct (map mm_id (ms_messages demo_store))" by (simp add: demo_store_is)
  have p: "\<exists>m. mailbox_peek_unread demo_json memory_messages ''t1'' a demo_store = Inr (if a = ''a1'' then [m] else [])" for a
    by (simp add: mailbox_peek_unread_def memory_ops demo_store_is addressed_to_def List.map_filter_simps message_from_row_def message_type_parse_def)
  obtain r s1 where run: "mailbox_mark_all_unread demo_json memory_messages ''t1'' [''a1'', ''a2''] demo_store = (r, s1)"
    by (meson surj_pair)
  obtain unread where u: "\<And>a. mailbox_peek_unread demo_json memory_messages ''t1'' a demo_store = Inr (unread a)"
    "r = Inr (length (unread ''a1'') + length (unread ''a2''))"
    "mailbox_peek_unread demo_json memory_messages ''t1'' ''a1'' s1 = Inr []"
    using marking_all_empties_inboxes [OF d run] by auto
  have "length (unread ''a1'') = 1" "length (unread ''a2'') = 0"
    using p [of "''a1''"] p [of "''a2''"] u(1) by auto
  then show ?thesis using u(2,3) unfolding run by simp
qed

end
