(* ===== verification/Scheduler_Claims.thy ===== *)
theory Scheduler_Claims
  imports Scheduler_Actions Mailbox_Claims Task_Board_Claims
begin

text \<open>
  The scheduler over the repository in memory: what a write, a change of status and a search
  for the lead do, and what follows for the end of a turn, wakes, shutdowns, renames and
  crashes.
\<close>

subsection \<open>Teams in order\<close>

text \<open>
  \<open>slots_wf\<close>: the table of slots has one entry for each key, under the slot id of its agent
  (every operation keeps it); \<open>one_lead\<close>: no two leads.
\<close>

definition slots_wf :: "'s team_manager \<Rightarrow> bool" where
  "slots_wf m \<longleftrightarrow> hm_wf (sm_slots m) \<and>
     (\<forall>i ag. map_of (sm_slots m) i = Some ag \<longrightarrow> ta_slot_id (ag_agent ag) = i)"

definition is_lead :: "'s team_manager \<Rightarrow> ident \<Rightarrow> bool" where
  "is_lead m i \<longleftrightarrow> (\<exists>ag. map_of (sm_slots m) i = Some ag \<and> ta_role (ag_agent ag) = Lead)"

definition one_lead :: "'s team_manager \<Rightarrow> bool" where
  "one_lead m \<longleftrightarrow> (\<forall>i j. is_lead m i \<longrightarrow> is_lead m j \<longrightarrow> i = j)"

definition memory_env :: "('j, memory_state) team_env \<Rightarrow> bool" where
  "memory_env env \<longleftrightarrow> json_laws (te_json env) \<and> te_messages env = memory_messages \<and>
     te_tasks env = memory_tasks (te_json env)"

definition slot_table_wf :: "agent_slot hash_map \<Rightarrow> bool" where
  "slot_table_wf sl \<longleftrightarrow> hm_wf sl \<and> (\<forall>i ag. map_of sl i = Some ag \<longrightarrow> ta_slot_id (ag_agent ag) = i)"

lemma slots_wf_iff: "slots_wf m \<longleftrightarrow> slot_table_wf (sm_slots m)"
  by (simp add: slots_wf_def slot_table_wf_def)

lemma slot_table_insert:
  "slot_table_wf sl \<Longrightarrow> ta_slot_id (ag_agent ag) = i \<Longrightarrow> slot_table_wf (hm_insert i ag sl)"
  by (simp add: slot_table_wf_def map_simps wf_intros)

lemma slots_wf_new: "slots_wf (team_manager_new team agents s)"
proof -
  have "slot_table_wf sl \<Longrightarrow> slot_table_wf (fold (\<lambda>a. let a = a\<lparr>ta_status := Some StIdle\<rparr>
      in hm_insert (ta_slot_id a) \<lparr>ag_agent = a, ag_status = StIdle, ag_needs_role_prompt = True\<rparr>) agents sl)" for sl
  proof (induction agents arbitrary: sl)
    case (Cons a agents)
    let ?a = "a\<lparr>ta_status := Some StIdle\<rparr>"
    have "slot_table_wf (hm_insert (ta_slot_id ?a) \<lparr>ag_agent = ?a, ag_status = StIdle, ag_needs_role_prompt = True\<rparr> sl)"
      by (rule slot_table_insert [OF Cons.prems]) simp
    from Cons.IH [OF this] show ?case by (simp add: Let_def)
  qed simp
  from this [of "[]"] show ?thesis
    by (simp add: slots_wf_iff team_manager_new_def slot_table_wf_def)
qed

lemma slots_wf_values: "slots_wf m \<Longrightarrow> ag \<in> set (map snd (sm_slots m)) \<longleftrightarrow> (\<exists>i. map_of (sm_slots m) i = Some ag)"
  by (force simp: slots_wf_def map_of_eq_Some_iff)

lemma find_lead_Some:
  assumes wf: "slots_wf m" and "find_lead_slot_id m = Some l"
  shows "is_lead m l"
proof -
  from assms(2) obtain ag where ag: "find (\<lambda>ag. ta_role (ag_agent ag) = Lead) (map snd (sm_slots m)) = Some ag"
    "ta_slot_id (ag_agent ag) = l" by (auto simp: find_lead_slot_id_def)
  then have "ag \<in> set (map snd (sm_slots m))" "ta_role (ag_agent ag) = Lead"
    using find_SomeD [OF ag(1)] by simp_all
  then show ?thesis using wf ag(2) slots_wf_values [OF wf] by (fastforce simp: slots_wf_def is_lead_def)
qed

lemma find_lead_unique:
  assumes "slots_wf m" "one_lead m" "is_lead m l"
  shows "find_lead_slot_id m = Some l"
proof (cases "find_lead_slot_id m")
  case None
  then have "\<forall>ag \<in> set (map snd (sm_slots m)). ta_role (ag_agent ag) \<noteq> Lead"
    by (auto simp: find_lead_slot_id_def find_None_iff)
  moreover obtain ag where "map_of (sm_slots m) l = Some ag" "ta_role (ag_agent ag) = Lead"
    using assms(3) by (auto simp: is_lead_def)
  ultimately show ?thesis using slots_wf_values [OF assms(1), of ag] by blast
next
  case (Some l')
  with find_lead_Some [OF assms(1)] assms(2,3) show ?thesis by (auto simp: one_lead_def)
qed

subsection \<open>When the lead is to be woken\<close>

lemma settle_scan_result:
  "settle_scan ags (lead, settled, has) = (lead', settled', has') \<Longrightarrow>
     (settled' \<longleftrightarrow> settled \<and> (\<forall>ag \<in> set ags. ta_role (ag_agent ag) \<noteq> Lead \<longrightarrow> is_settled (ag_status ag))) \<and>
     (settled' \<longrightarrow> (has' \<longleftrightarrow> has \<or> (\<exists>ag \<in> set ags. ta_role (ag_agent ag) \<noteq> Lead)) \<and>
        (lead' = lead \<and> (\<forall>ag \<in> set ags. ta_role (ag_agent ag) \<noteq> Lead) \<or>
         (\<exists>ag \<in> set ags. ta_role (ag_agent ag) = Lead \<and> lead' = Some (ta_slot_id (ag_agent ag)))))"
proof (induction ags "(lead, settled, has)" arbitrary: lead settled has rule: settle_scan.induct)
  case (2 ag ags lead settled has)
  show ?case
  proof (cases "ta_role (ag_agent ag) = Lead")
    case True
    with "2.prems" have "settle_scan ags (Some (ta_slot_id (ag_agent ag)), settled, has) = (lead', settled', has')" by simp
    from "2.hyps"(1) [OF True this] True show ?thesis by auto
  next
    case role: False
    show ?thesis
    proof (cases "is_settled (ag_status ag)")
      case True
      with role "2.prems" have "settle_scan ags (lead, settled, True) = (lead', settled', has')" by simp
      from "2.hyps"(2) [OF role _ this] True role show ?thesis by auto
    next
      case False
      with role "2.prems" show ?thesis by auto
    qed
  qed
qed auto

definition all_settled :: "'s team_manager \<Rightarrow> bool" where
  "all_settled m \<longleftrightarrow> (\<forall>i ag. map_of (sm_slots m) i = Some ag \<longrightarrow> ta_role (ag_agent ag) \<noteq> Lead \<longrightarrow> is_settled (ag_status ag))"

definition status_of :: "'s team_manager \<Rightarrow> ident \<Rightarrow> teammate_status option" where
  "status_of m i = map_option ag_status (map_of (sm_slots m) i)"

lemma wake_iff:
  assumes wf: "slots_wf m" and one: "one_lead m"
  shows "maybe_wake_leader_when_all_idle m = Some l \<longleftrightarrow>
    is_lead m l \<and> status_of m l = Some StIdle \<and> (\<exists>i. i \<in> fst ` set (sm_slots m) \<and> \<not> is_lead m i) \<and> all_settled m"
proof -
  obtain lead settled has where scan: "settle_scan (map snd (sm_slots m)) (None, True, False) = (lead, settled, has)"
    by (cases "settle_scan (map snd (sm_slots m)) (None, True, False)") auto
  note res = settle_scan_result [OF scan]
  have ex: "(\<exists>ag \<in> set (map snd (sm_slots m)). P ag) \<longleftrightarrow> (\<exists>i ag. map_of (sm_slots m) i = Some ag \<and> P ag)" for P
    using slots_wf_values [OF wf] by blast
  have all: "(\<forall>ag \<in> set (map snd (sm_slots m)). P ag) \<longleftrightarrow> (\<forall>i ag. map_of (sm_slots m) i = Some ag \<longrightarrow> P ag)" for P
    using slots_wf_values [OF wf] by blast
  have 1: "settled \<longleftrightarrow> all_settled m" using res unfolding all by (auto simp: all_settled_def)
  have mate: "(\<exists>i. i \<in> fst ` set (sm_slots m) \<and> \<not> is_lead m i) \<longleftrightarrow>
      (\<exists>i ag. map_of (sm_slots m) i = Some ag \<and> ta_role (ag_agent ag) \<noteq> Lead)"
    unfolding is_lead_def by (metis (no_types, lifting) map_of_eq_None_iff not_None_eq option.inject)
  have 2: "settled \<Longrightarrow> has \<longleftrightarrow> (\<exists>i. i \<in> fst ` set (sm_slots m) \<and> \<not> is_lead m i)"
    using res unfolding ex mate by blast
  have 3: "settled \<Longrightarrow> lead = Some x \<longleftrightarrow> is_lead m x" for x
  proof -
    assume settled
    with res consider "lead = None" "\<forall>i ag. map_of (sm_slots m) i = Some ag \<longrightarrow> ta_role (ag_agent ag) \<noteq> Lead"
      | i ag where "map_of (sm_slots m) i = Some ag" "ta_role (ag_agent ag) = Lead" "lead = Some (ta_slot_id (ag_agent ag))"
      unfolding ex all by blast
    then show ?thesis
    proof cases
      case 1
      then show ?thesis by (auto simp: is_lead_def)
    next
      case 2
      then have "is_lead m i" "lead = Some i" using wf by (auto simp: is_lead_def slots_wf_def)
      then show ?thesis using one by (auto simp: one_lead_def)
    qed
  qed
  show ?thesis
    using 1 2 3 [of l] scan
    by (auto simp: maybe_wake_leader_when_all_idle_def status_of_def split: option.splits)
qed

text \<open>The lead is woken exactly when everyone is done. In a team with at most one lead, whatever
  order the slots are visited in, the scheduler asks to wake an agent exactly when it is the
  lead, idle itself, has teammates, and every teammate is idle, completed or in error.\<close>

theorem lead_woken_exactly_when_settled:
  assumes "slots_wf m" and "one_lead m"
  shows "maybe_wake_leader_when_all_idle m = Some l \<longleftrightarrow>
    is_lead m l \<and> status_of m l = Some StIdle \<and> (\<exists>i. i \<in> fst ` set (sm_slots m) \<and> \<not> is_lead m i) \<and>
    (\<forall>i ag. map_of (sm_slots m) i = Some ag \<longrightarrow> ta_role (ag_agent ag) \<noteq> Lead \<longrightarrow>
       ag_status ag \<in> {StIdle, StCompleted, StError})"
  using wake_iff [OF assms] by (simp add: all_settled_def is_settled_def)

subsection \<open>Writing to an agent, changing its status\<close>

text \<open>What an agent finds unread in its mailbox.\<close>

definition mail_of :: "('j, 's) team_env \<Rightarrow> ident \<Rightarrow> 's team_manager \<Rightarrow> mailbox_message list" where
  "mail_of env a m =
     result_or [] (mailbox_peek_unread (te_json env) (te_messages env) (sm_team_id m) a (sm_store m))"

definition sent :: "('j, 's) team_env \<Rightarrow> 's team_manager \<Rightarrow> ident \<Rightarrow> ident \<Rightarrow> message_type \<Rightarrow> string \<Rightarrow> string option
    \<Rightarrow> string list option \<Rightarrow> mailbox_message" where
  "sent env m to_id from_id ty content summary files =
     \<lparr>msg_id = te_ids env (sm_draws m), msg_team_id = sm_team_id m, msg_to_agent_id = to_id,
      msg_from_agent_id = from_id, msg_type = ty, msg_content = content, msg_summary = summary,
      msg_files = (if files = Some [] then None else files), msg_read = False,
      msg_created_at = te_clock env (sm_draws m)\<rparr>"

lemma sent_fields [simp]:
  "msg_to_agent_id (sent env m t f ty c su fi) = t" "msg_from_agent_id (sent env m t f ty c su fi) = f"
  "msg_type (sent env m t f ty c su fi) = ty" "msg_content (sent env m t f ty c su fi) = c"
  "msg_id (sent env m t f ty c su fi) = te_ids env (sm_draws m)" "msg_summary (sent env m t f ty c su fi) = su"
  by (simp_all add: sent_def)

text \<open>Nothing but the mail of \<open>to\<close> changes; \<open>same_team\<close> is the rest of the scheduler.\<close>

definition same_team :: "'s team_manager \<Rightarrow> 's team_manager \<Rightarrow> bool" where
  "same_team m m' \<longleftrightarrow> sm_team_id m' = sm_team_id m \<and> sm_slots m' = sm_slots m \<and> sm_active_wakes m' = sm_active_wakes m \<and>
     sm_finalized_turns m' = sm_finalized_turns m \<and> sm_wake_timeouts m' = sm_wake_timeouts m \<and> sm_events m' = sm_events m"

lemma team_write_effect:
  assumes env: "memory_env env"
  shows "\<exists>m'. team_write env to_id from_id ty content summary files m = (Inr (sent env m to_id from_id ty content summary files), m') \<and>
    same_team m m' \<and> sm_draws m' = Suc (sm_draws m) \<and>
    mail_of env to_id m' = mail_of env to_id m @ [sent env m to_id from_id ty content summary files] \<and>
    (\<forall>a. a \<noteq> to_id \<longrightarrow> mail_of env a m' = mail_of env a m)"
proof -
  have laws: "json_laws (te_json env)" and repo: "te_messages env = memory_messages" using env by (simp_all add: memory_env_def)
  obtain s1 unread where w: "mailbox_write_with_files (te_json env) memory_messages (te_ids env (sm_draws m)) (te_clock env (sm_draws m))
        (sm_team_id m) to_id from_id ty content summary files (sm_store m) = (Inr (sent env m to_id from_id ty content summary files), s1)"
    and to: "mailbox_peek_unread (te_json env) memory_messages (sm_team_id m) to_id (sm_store m) = Inr unread"
      "mailbox_peek_unread (te_json env) memory_messages (sm_team_id m) to_id s1 = Inr (unread @ [sent env m to_id from_id ty content summary files])"
    and others: "\<forall>t' a'. (t', a') \<noteq> (sm_team_id m, to_id) \<longrightarrow>
      mailbox_peek_unread (te_json env) memory_messages t' a' s1 = mailbox_peek_unread (te_json env) memory_messages t' a' (sm_store m)"
    using write_arrives [OF laws, of "te_ids env (sm_draws m)" "te_clock env (sm_draws m)" "sm_team_id m" to_id from_id ty content summary files "sm_store m"]
    by (auto simp: sent_def)
  show ?thesis
    using w to others by (simp add: team_write_def repo Let_def same_team_def mail_of_def)
qed

lemma mail_of_cong: "sm_team_id m' = sm_team_id m \<Longrightarrow> sm_store m' = sm_store m \<Longrightarrow> mail_of env a m' = mail_of env a m"
  by (simp add: mail_of_def)

lemma same_team_is_lead: "same_team m m' \<Longrightarrow> is_lead m' = is_lead m"
  by (rule ext) (simp add: is_lead_def same_team_def)

lemma same_team_wf: "same_team m m' \<Longrightarrow> slots_wf m \<Longrightarrow> slots_wf m'"
  by (simp add: slots_wf_def same_team_def)

lemma same_slots_wake:
  assumes "sm_slots m' = sm_slots m"
  shows "maybe_wake_leader_when_all_idle m' = maybe_wake_leader_when_all_idle m"
  unfolding maybe_wake_leader_when_all_idle_def assms ..

lemma same_slots_lead: "sm_slots m' = sm_slots m \<Longrightarrow> find_lead_slot_id m' = find_lead_slot_id m"
  by (simp add: find_lead_slot_id_def)

text \<open>A change of status: that slot, its event, and nothing else.\<close>

lemma set_status_effect:
  assumes slot: "map_of (sm_slots m) i = Some ag" and wf: "slots_wf m"
  shows "\<exists>m'. set_status i st m = (Inr (), m') \<and> slots_wf m' \<and> is_lead m' = is_lead m \<and>
    map_of (sm_slots m') i = Some (ag\<lparr>ag_status := st, ag_agent := (ag_agent ag)\<lparr>ta_status := Some st\<rparr>\<rparr>) \<and>
    (\<forall>j. j \<noteq> i \<longrightarrow> map_of (sm_slots m') j = map_of (sm_slots m) j) \<and>
    fst ` set (sm_slots m') = fst ` set (sm_slots m) \<and> sm_team_id m' = sm_team_id m \<and> sm_store m' = sm_store m \<and>
    sm_draws m' = sm_draws m \<and> sm_active_wakes m' = sm_active_wakes m \<and> sm_wake_timeouts m' = sm_wake_timeouts m"
proof -
  let ?ag = "ag\<lparr>ag_status := st, ag_agent := (ag_agent ag)\<lparr>ta_status := Some st\<rparr>\<rparr>"
  have keys: "fst ` set (AList.update i ?ag (sm_slots m)) = fst ` set (sm_slots m)"
    using slot unfolding dom_map_of_conv_image_fst [symmetric] by (auto simp: map_simps split: if_splits)
  have "ta_slot_id (ag_agent ag) = i" using wf slot by (simp add: slots_wf_def)
  with wf have "slot_table_wf (AList.update i ?ag (sm_slots m))"
    by (intro slot_table_insert) (simp_all add: slots_wf_iff)
  moreover have "is_lead m' = is_lead m" if "sm_slots m' = AList.update i ?ag (sm_slots m)" for m' :: "'a team_manager"
    using slot that by (auto simp: is_lead_def map_simps fun_eq_iff)
  ultimately show ?thesis
    using slot keys by (auto simp: set_status_def broadcast_agent_status_def emit_def Let_def slots_wf_iff map_simps)
qed

subsection \<open>The end of a turn\<close>

lemma finalize_idle_loop:
  "finalize_loop env sid (map ActIdleNotification ss) summary m =
     (Inr (if summary = None then (case find is_some ss of None \<Rightarrow> None | Some s \<Rightarrow> s) else summary), m)"
  by (induction ss arbitrary: summary) (auto split: option.splits)

lemma teammate_idle:
  assumes env: "memory_env env" and wf: "slots_wf m" and one: "one_lead m" and lead: "is_lead m l"
    and slot: "map_of (sm_slots m) sid = Some ag" and role: "ta_role (ag_agent ag) \<noteq> Lead"
  shows "\<exists>m1 m2. set_status sid StIdle m = (Inr (), m1) \<and> slots_wf m1 \<and> is_lead m1 = is_lead m \<and>
    mark_idle env sid summary m = (Inr (maybe_wake_leader_when_all_idle m1), m2) \<and> same_team m1 m2 \<and>
    mail_of env l m2 = mail_of env l m @
      [sent env m l sid MtIdleNotification (case summary of None \<Rightarrow> ''idle'' | Some x \<Rightarrow> x) summary None] \<and>
    (\<forall>a. a \<noteq> l \<longrightarrow> mail_of env a m2 = mail_of env a m)"
proof -
  obtain m1 where m1: "set_status sid StIdle m = (Inr (), m1)" "slots_wf m1" "is_lead m1 = is_lead m"
    "map_of (sm_slots m1) sid = Some (ag\<lparr>ag_status := StIdle, ag_agent := (ag_agent ag)\<lparr>ta_status := Some StIdle\<rparr>\<rparr>)"
    "sm_team_id m1 = sm_team_id m" "sm_store m1 = sm_store m" "sm_draws m1 = sm_draws m"
    using set_status_effect [OF slot wf] by blast
  have find: "find_lead_slot_id m1 = Some l"
    by (rule find_lead_unique) (use m1 one lead in \<open>simp_all add: one_lead_def\<close>)
  have "\<not> is_lead m sid" using slot role by (simp add: is_lead_def)
  then have ne: "l \<noteq> sid" using lead by auto
  let ?content = "case summary of None \<Rightarrow> ''idle'' | Some x \<Rightarrow> x"
  obtain m2 where m2: "team_write env l sid MtIdleNotification ?content summary None m1 =
      (Inr (sent env m1 l sid MtIdleNotification ?content summary None), m2)" "same_team m1 m2"
    "mail_of env l m2 = mail_of env l m1 @ [sent env m1 l sid MtIdleNotification ?content summary None]"
    "\<forall>a. a \<noteq> l \<longrightarrow> mail_of env a m2 = mail_of env a m1"
    using team_write_effect [OF env] by blast
  have "sent env m1 = sent env m" using m1(5,7) by (intro ext) (simp add: sent_def)
  moreover have "mail_of env a m1 = mail_of env a m" for a using m1(5,6) by (rule mail_of_cong)
  moreover have "maybe_wake_leader_when_all_idle m2 = maybe_wake_leader_when_all_idle m1"
    using m2(2) by (intro same_slots_wake) (simp add: same_team_def)
  ultimately have "mark_idle env sid summary m = (Inr (maybe_wake_leader_when_all_idle m1), m2)"
    using m1(1,4) role find ne m2(1) by (simp add: mark_idle_def)
  with m1 m2 show ?thesis
    using \<open>sent env m1 = sent env m\<close> \<open>\<And>a. mail_of env a m1 = mail_of env a m\<close> by auto
qed

text \<open>C35: The end of a teammate's turn. Finalizing a turn of a teammate that did nothing but report
  itself idle makes it idle and leaves every other agent as it was; the lead, and no one
  else, gets one idle notification, whose text is the first summary reported or \<open>idle\<close>; and
  the lead is to be woken exactly when it is idle and all other teammates are settled.\<close>

theorem turn_end_notifies_lead:
  assumes env: "memory_env env" and wf: "slots_wf m" and one: "one_lead m" and lead: "is_lead m l"
    and slot: "map_of (sm_slots m) sid = Some ag" and role: "ta_role (ag_agent ag) \<noteq> Lead"
  shows "\<exists>m'. finalize_turn env sid (map ActIdleNotification ss) m =
      (Inr (if status_of m l = Some StIdle \<and> (\<forall>i ag'. i \<noteq> sid \<longrightarrow> map_of (sm_slots m) i = Some ag' \<longrightarrow>
              ta_role (ag_agent ag') \<noteq> Lead \<longrightarrow> ag_status ag' \<in> {StIdle, StCompleted, StError})
            then Some l else None), m') \<and>
    status_of m' sid = Some StIdle \<and> (\<forall>i. i \<noteq> sid \<longrightarrow> map_of (sm_slots m') i = map_of (sm_slots m) i) \<and>
    (\<exists>msg. mail_of env l m' = mail_of env l m @ [msg] \<and> msg_type msg = MtIdleNotification \<and> msg_from_agent_id msg = sid \<and>
       msg_content msg = (case find is_some ss of Some (Some text) \<Rightarrow> text | _ \<Rightarrow> ''idle'')) \<and>
    (\<forall>a. a \<noteq> l \<longrightarrow> mail_of env a m' = mail_of env a m)"
proof -
  define summary where "summary = (case find is_some ss of None \<Rightarrow> None | Some s \<Rightarrow> s)"
  obtain m1 m2 where m1: "set_status sid StIdle m = (Inr (), m1)" "slots_wf m1" "is_lead m1 = is_lead m"
    and idle: "mark_idle env sid summary m = (Inr (maybe_wake_leader_when_all_idle m1), m2)" "same_team m1 m2"
    and mail: "mail_of env l m2 = mail_of env l m @
      [sent env m l sid MtIdleNotification (case summary of None \<Rightarrow> ''idle'' | Some x \<Rightarrow> x) summary None]"
      "\<forall>a. a \<noteq> l \<longrightarrow> mail_of env a m2 = mail_of env a m"
    using teammate_idle [where summary = summary, OF assms] by blast
  have st: "map_of (sm_slots m1) sid = Some (ag\<lparr>ag_status := StIdle, ag_agent := (ag_agent ag)\<lparr>ta_status := Some StIdle\<rparr>\<rparr>)"
    "\<forall>j. j \<noteq> sid \<longrightarrow> map_of (sm_slots m1) j = map_of (sm_slots m) j"
    using set_status_effect [where st = StIdle, OF slot wf] m1(1) by auto
  have ne: "l \<noteq> sid" using lead slot role by (auto simp: is_lead_def)
  have fin: "finalize_turn env sid (map ActIdleNotification ss) m = (Inr (maybe_wake_leader_when_all_idle m1), m2)"
    using idle(1) by (simp add: finalize_turn_def finalize_idle_loop summary_def)
  have mate: "\<exists>i. i \<in> fst ` set (sm_slots m1) \<and> \<not> is_lead m1 i"
    using st(1) role m1(3) slot by (intro exI [of _ sid]) (auto simp: is_lead_def dest: map_of_SomeD intro: rev_image_eqI)
  have settled: "all_settled m1 \<longleftrightarrow> (\<forall>i ag'. i \<noteq> sid \<longrightarrow> map_of (sm_slots m) i = Some ag' \<longrightarrow>
      ta_role (ag_agent ag') \<noteq> Lead \<longrightarrow> ag_status ag' \<in> {StIdle, StCompleted, StError})"
    (is "_ \<longleftrightarrow> ?others")
  proof
    assume "all_settled m1"
    with st(2) show ?others unfolding all_settled_def is_settled_def by metis
  next
    assume others: ?others
    show "all_settled m1"
      unfolding all_settled_def is_settled_def
    proof (intro allI impI)
      fix i ag' assume "map_of (sm_slots m1) i = Some ag'" "ta_role (ag_agent ag') \<noteq> Lead"
      with st others show "ag_status ag' \<in> {StIdle, StCompleted, StError}" by (cases "i = sid") auto
    qed
  qed
  have "one_lead m1" using one m1(3) by (simp add: one_lead_def)
  then have wake: "maybe_wake_leader_when_all_idle m1 = Some x \<longleftrightarrow> x = l \<and> status_of m l = Some StIdle \<and> all_settled m1" for x
    using wake_iff [OF m1(2), of x] mate lead m1(3) one st(2) ne by (auto simp: one_lead_def status_of_def)
  have "maybe_wake_leader_when_all_idle m1 = (if status_of m l = Some StIdle \<and> all_settled m1 then Some l else None)"
    using wake by (cases "maybe_wake_leader_when_all_idle m1") auto
  moreover have "(case summary of None \<Rightarrow> ''idle'' | Some x \<Rightarrow> x) = (case find is_some ss of Some (Some text) \<Rightarrow> text | _ \<Rightarrow> ''idle'')"
    by (simp add: summary_def split: option.split)
  ultimately show ?thesis
    using fin settled idle(2) st mail by (auto simp: same_team_def status_of_def)
qed

subsection \<open>A team for the witnesses\<close>

definition demo_env :: "(unit, memory_state) team_env" where
  "demo_env = \<lparr>te_json = demo_json, te_messages = memory_messages, te_tasks = memory_tasks demo_json,
     te_unicode = \<lparr>uc_trim = (\<lambda>s. s), uc_drop_control = (\<lambda>s. s), uc_to_lowercase = (\<lambda>s. s)\<rparr>,
     te_ids = (\<lambda>n. replicate n (CHR ''i'')), te_clock = int\<rparr>"

definition demo_agent :: "ident \<Rightarrow> teammate_role \<Rightarrow> team_agent" where
  "demo_agent i role = \<lparr>ta_slot_id = i, ta_name = i, ta_role = role, ta_conversation_id = i, ta_backend = ''acp'',
     ta_model = ''m'', ta_assistant_id = None, ta_status = None, ta_conversation_type = None, ta_cli_path = None,
     ta_last_message = None, ta_last_message_at = None\<rparr>"

definition demo_slot_of :: "ident \<Rightarrow> teammate_role \<Rightarrow> agent_slot" where
  "demo_slot_of i role = \<lparr>ag_agent = (demo_agent i role)\<lparr>ta_status := Some StIdle\<rparr>, ag_status = StIdle, ag_needs_role_prompt = True\<rparr>"

definition demo_team :: "memory_state team_manager" where
  "demo_team = team_manager_new ''t1'' [demo_agent ''s1'' Lead, demo_agent ''s2'' Teammate, demo_agent ''s3'' Teammate] memory_new"

lemma demo_memory_env: "memory_env demo_env"
  by (simp add: memory_env_def demo_env_def demo_json_laws)

lemma demo_team_slots: "sm_slots demo_team =
    [(''s1'', demo_slot_of ''s1'' Lead), (''s2'', demo_slot_of ''s2'' Teammate), (''s3'', demo_slot_of ''s3'' Teammate)]"
  by (simp add: demo_team_def team_manager_new_def demo_slot_of_def demo_agent_def Let_def)

lemma demo_team_wf: "slots_wf demo_team"
  unfolding demo_team_def by (rule slots_wf_new)

lemma demo_slot_simps [simp]:
  "ta_role (ag_agent (demo_slot_of i role)) = role" "ag_status (demo_slot_of i role) = StIdle"
  by (simp_all add: demo_slot_of_def demo_agent_def)

lemma demo_is_lead: "is_lead demo_team i \<longleftrightarrow> i = ''s1''"
  by (auto simp: is_lead_def demo_team_slots)

lemma demo_one_lead: "one_lead demo_team"
  by (simp add: one_lead_def demo_is_lead)

lemma demo_status: "status_of demo_team i = (if i \<in> {''s1'', ''s2'', ''s3''} then Some StIdle else None)"
  by (auto simp: status_of_def demo_team_slots)

lemma demo_mail: "mail_of demo_env a demo_team = []"
  by (simp add: mail_of_def demo_env_def mailbox_peek_unread_def memory_ops demo_team_def team_manager_new_def memory_new_def List.map_filter_simps)

lemma lead_woken_exactly_when_settled_witness:
  "maybe_wake_leader_when_all_idle demo_team = Some ''s1'' \<and> maybe_wake_leader_when_all_idle demo_team \<noteq> Some ''s2''"
proof
  have "''s2'' \<in> fst ` set (sm_slots demo_team)" by (simp add: demo_team_slots)
  then show "maybe_wake_leader_when_all_idle demo_team = Some ''s1''"
    using lead_woken_exactly_when_settled [OF demo_team_wf demo_one_lead, of "''s1''"]
    by (auto simp: demo_is_lead demo_status demo_team_slots split: if_splits)
  show "maybe_wake_leader_when_all_idle demo_team \<noteq> Some ''s2''"
    using lead_woken_exactly_when_settled [OF demo_team_wf demo_one_lead, of "''s2''"] by (simp add: demo_is_lead)
qed

lemma turn_end_notifies_lead_witness:
  "\<exists>m' msg. finalize_turn demo_env ''s2'' (map ActIdleNotification [None, Some ''done'', Some ''more'']) demo_team =
      (Inr (Some ''s1''), m') \<and> mail_of demo_env ''s1'' m' = [msg] \<and> msg_content msg = ''done''"
proof -
  have "map_of (sm_slots demo_team) ''s2'' = Some (demo_slot_of ''s2'' Teammate)" by (simp add: demo_team_slots)
  from turn_end_notifies_lead [OF demo_memory_env demo_team_wf demo_one_lead _ this, of "''s1''" "[None, Some ''done'', Some ''more'']"]
  obtain m' msg where "finalize_turn demo_env ''s2'' (map ActIdleNotification [None, Some ''done'', Some ''more'']) demo_team =
      (Inr (if status_of demo_team ''s1'' = Some StIdle \<and> (\<forall>i ag'. i \<noteq> ''s2'' \<longrightarrow> map_of (sm_slots demo_team) i = Some ag' \<longrightarrow>
              ta_role (ag_agent ag') \<noteq> Lead \<longrightarrow> ag_status ag' \<in> {StIdle, StCompleted, StError})
            then Some ''s1'' else None), m')" "mail_of demo_env ''s1'' m' = [msg]" "msg_content msg = ''done''"
    by (auto simp: demo_is_lead demo_mail)
  moreover have "\<forall>i ag'. i \<noteq> ''s2'' \<longrightarrow> map_of (sm_slots demo_team) i = Some ag' \<longrightarrow>
      ta_role (ag_agent ag') \<noteq> Lead \<longrightarrow> ag_status ag' \<in> {StIdle, StCompleted, StError}"
    by (auto simp: demo_team_slots split: if_splits)
  ultimately show ?thesis by (auto simp: demo_status)
qed

end
