(* ===== verification/Scheduler_Claims_Agents.thy ===== *)
theory Scheduler_Claims_Agents
  imports Scheduler_Claims
begin

text \<open>
  What single agents can do and suffer: waking with its mail, messages to everyone, shutdown
  requests, renames, crashes. The witnesses use a team of a lead and two teammates.
\<close>

subsection \<open>Waking\<close>

lemma memory_list_tasks:
  assumes "memory_env env"
  shows "\<exists>ts. manager_list_tasks env m = Inr ts"
  using assms by (simp add: manager_list_tasks_def list_tasks_def memory_env_def memory_tasks_def mem_list_tasks_def)

lemma read_all_mail:
  assumes env: "memory_env env"
  shows "\<exists>store. mailbox_read_unread (te_json env) (te_messages env) (sm_team_id m) sid (sm_store m) =
      (Inr (map (\<lambda>x. x\<lparr>msg_read := True\<rparr>) (mail_of env sid m)), store) \<and>
    mail_of env sid (m\<lparr>sm_store := store\<rparr>) = [] \<and>
    (\<forall>a. a \<noteq> sid \<longrightarrow> mail_of env a (m\<lparr>sm_store := store\<rparr>) = mail_of env a m)"
proof -
  let ?js = "te_json env" and ?t = "sm_team_id m"
  have repo: "te_messages env = memory_messages" using env by (simp add: memory_env_def)
  have view: "mail_of env a m' = inbox.unread_view ?js (sm_team_id m') a (sm_store m')" for a and m' :: "memory_state team_manager"
    by (simp add: mail_of_def repo inbox.peek_is_view)
  obtain store where r: "mailbox_read_unread ?js memory_messages ?t sid (sm_store m) =
      (Inr (map (\<lambda>x. x\<lparr>msg_read := True\<rparr>) (inbox.unread_view ?js ?t sid (sm_store m))), store)"
    using inbox.read_unread_ok by blast
  have "inbox.unread_view ?js ?t a store = inbox.unread_view ?js ?t a (sm_store m)" if "a \<noteq> sid" for a
  proof -
    have "filter (\<lambda>x. unread_for ?t a x \<and> \<not> unread_for ?t sid x) (ms_messages (sm_store m)) = filter (unread_for ?t a) (ms_messages (sm_store m))"
      using that by (intro filter_cong) (auto simp: addressed_to_def)
    then show ?thesis
      unfolding inbox.view_after_mark [OF inbox.read_view(2) [OF r]] by (simp only: inbox.unread_view_def)
  qed
  with r inbox.read_empties [OF r] show ?thesis by (auto simp: repo view)
qed

text \<open>A wake hands over the mail, once. Waking an idle agent succeeds, makes it work, and gives it
  its unread messages, all of them and in order, marked as read; its inbox is then empty,
  nobody else's mail or status changes, and waking it again before its turn ends yields
  nothing and changes nothing. Waking an agent that is not idle does nothing at all.\<close>

theorem wake_hands_over_mail_once:
  assumes env: "memory_env env" and wf: "slots_wf m" and slot: "map_of (sm_slots m) sid = Some ag"
  shows "if ag_status ag \<noteq> StIdle then try_wake env sid m = (Inr None, m)
    else \<exists>payload m'. try_wake env sid m = (Inr (Some payload), m') \<and>
      wp_unread payload = map (\<lambda>x. x\<lparr>msg_read := True\<rparr>) (mail_of env sid m) \<and>
      wp_agent payload = (ag_agent ag)\<lparr>ta_status := Some StWorking\<rparr> \<and>
      status_of m' sid = Some StWorking \<and> mail_of env sid m' = [] \<and>
      (\<forall>a. a \<noteq> sid \<longrightarrow> mail_of env a m' = mail_of env a m \<and> map_of (sm_slots m') a = map_of (sm_slots m) a) \<and>
      try_wake env sid m' = (Inr None, m')"
proof (cases "ag_status ag = StIdle")
  case False
  with slot show ?thesis by (simp add: try_wake_def get_status_def)
next
  case True
  obtain m1 where m1: "set_status sid StWorking m = (Inr (), m1)"
    "map_of (sm_slots m1) sid = Some (ag\<lparr>ag_status := StWorking, ag_agent := (ag_agent ag)\<lparr>ta_status := Some StWorking\<rparr>\<rparr>)"
    "\<forall>j. j \<noteq> sid \<longrightarrow> map_of (sm_slots m1) j = map_of (sm_slots m) j" "sm_team_id m1 = sm_team_id m" "sm_store m1 = sm_store m"
    using set_status_effect [OF slot wf] by blast
  obtain ts where ts: "manager_list_tasks env m1 = Inr ts" using memory_list_tasks [OF env] by blast
  obtain store where store: "mailbox_read_unread (te_json env) (te_messages env) (sm_team_id m1) sid (sm_store m1) =
      (Inr (map (\<lambda>x. x\<lparr>msg_read := True\<rparr>) (mail_of env sid m1)), store)"
    "mail_of env sid (m1\<lparr>sm_store := store\<rparr>) = []"
    "\<forall>a. a \<noteq> sid \<longrightarrow> mail_of env a (m1\<lparr>sm_store := store\<rparr>) = mail_of env a m1"
    using read_all_mail [OF env] by blast
  have mail: "mail_of env a m1 = mail_of env a m" for a using m1(4,5) by (rule mail_of_cong)
  let ?p = "\<lparr>wp_agent = (ag_agent ag)\<lparr>ta_status := Some StWorking\<rparr>, wp_tasks = ts,
    wp_unread = map (\<lambda>x. x\<lparr>msg_read := True\<rparr>) (mail_of env sid m)\<rparr>" and ?m = "m1\<lparr>sm_store := store\<rparr>"
  have "try_wake env sid m = (Inr (Some ?p), ?m)"
    using True slot m1(1,2) ts store(1) mail by (simp add: try_wake_def get_status_def build_wake_payload_def get_agent_def)
  moreover have "try_wake env sid ?m = (Inr None, ?m)" using m1(2) by (simp add: try_wake_def get_status_def)
  ultimately show ?thesis
    using True m1 store mail by (auto intro!: exI [of _ ?p] exI [of _ ?m] simp: status_of_def)
qed

subsection \<open>Messages to everyone\<close>

definition copy_of :: "ident \<Rightarrow> string \<Rightarrow> string list \<Rightarrow> mailbox_message \<Rightarrow> bool" where
  "copy_of from_id message files x \<longleftrightarrow> msg_type x = MtMessage \<and> msg_content x = message \<and>
     msg_from_agent_id x = from_id \<and> msg_files x = (if files = [] then None else Some files)"

lemma copy_of_sent: "copy_of from_id message files (sent env m a from_id MtMessage message None (Some files))"
  by (simp add: copy_of_def sent_def)

lemma write_each_effect:
  assumes env: "memory_env env" and "distinct targets"
  shows "\<exists>m'. write_each env from_id message files targets m = (Inr (), m') \<and> same_team m m' \<and>
    (\<forall>a \<in> set targets. \<exists>x. mail_of env a m' = mail_of env a m @ [x] \<and> copy_of from_id message files x) \<and>
    (\<forall>a. a \<notin> set targets \<longrightarrow> mail_of env a m' = mail_of env a m)"
  using assms(2)
proof (induction targets arbitrary: m)
  case Nil
  then show ?case by (simp add: same_team_def)
next
  case (Cons t targets)
  obtain x m1 where m1: "team_write env t from_id MtMessage message None (Some files) m = (Inr x, m1)" "same_team m m1"
    "mail_of env t m1 = mail_of env t m @ [x]" "copy_of from_id message files x"
    and others: "\<And>a. a \<noteq> t \<Longrightarrow> mail_of env a m1 = mail_of env a m"
    using team_write_effect [OF env] copy_of_sent by blast
  obtain m' where m': "write_each env from_id message files targets m1 = (Inr (), m')" "same_team m1 m'"
    "\<forall>a \<in> set targets. \<exists>x. mail_of env a m' = mail_of env a m1 @ [x] \<and> copy_of from_id message files x"
    "\<forall>a. a \<notin> set targets \<longrightarrow> mail_of env a m' = mail_of env a m1"
    using Cons.IH [of m1] Cons.prems by auto
  have "\<exists>x. mail_of env a m' = mail_of env a m @ [x] \<and> copy_of from_id message files x" if "a \<in> set (t # targets)" for a
  proof (cases "a = t")
    case True
    with Cons.prems m'(4) m1(3,4) show ?thesis by auto
  next
    case False
    with that have "a \<in> set targets" by simp
    with m'(3) others [OF False] show ?thesis by metis
  qed
  moreover have "same_team m m'" using m1(2) m'(2) by (simp add: same_team_def)
  ultimately show ?case using m1(1) m'(1,4) others by (intro exI [of _ m']) auto
qed

text \<open>A message to everyone reaches everyone else once. Sending to \<open>*\<close> succeeds and appends exactly
  one message, with that text and from that sender, to the inbox of every other agent of the
  team, and to no other inbox, the sender's own included.\<close>

theorem broadcast_reaches_each_other_agent_once:
  assumes env: "memory_env env" and wf: "slots_wf m"
  shows "\<exists>m'. execute_action env from_id (ActSendMessage ''*'' message files) m = (Inr None, m') \<and>
    sm_slots m' = sm_slots m \<and>
    (\<forall>a. if a \<in> fst ` set (sm_slots m) \<and> a \<noteq> from_id
       then \<exists>x. mail_of env a m' = mail_of env a m @ [x] \<and> msg_type x = MtMessage \<and> msg_content x = message \<and>
         msg_from_agent_id x = from_id \<and> msg_files x = (if files = [] then None else Some files)
       else mail_of env a m' = mail_of env a m)"
proof -
  let ?targets = "filter (\<lambda>i. i \<noteq> from_id) (map fst (sm_slots m))"
  have "distinct ?targets" using wf by (simp add: slots_wf_def)
  from write_each_effect [OF env this, of from_id message files m]
  obtain m' where m': "write_each env from_id message files ?targets m = (Inr (), m')" "same_team m m'"
    and copies: "\<forall>a \<in> set ?targets. \<exists>x. mail_of env a m' = mail_of env a m @ [x] \<and> copy_of from_id message files x"
      "\<forall>a. a \<notin> set ?targets \<longrightarrow> mail_of env a m' = mail_of env a m" by blast
  have "a \<in> set ?targets \<longleftrightarrow> a \<in> fst ` set (sm_slots m) \<and> a \<noteq> from_id" for a by auto
  with copies have "if a \<in> fst ` set (sm_slots m) \<and> a \<noteq> from_id
       then \<exists>x. mail_of env a m' = mail_of env a m @ [x] \<and> copy_of from_id message files x
       else mail_of env a m' = mail_of env a m" for a
    by metis
  moreover have "execute_action env from_id (ActSendMessage ''*'' message files) m = (Inr None, m')"
    using m'(1) by (simp add: handle_send_message_def)
  ultimately show ?thesis using m'(2) unfolding copy_of_def same_team_def by blast
qed

subsection \<open>Shutdown requests\<close>

text \<open>Only the lead can ask an agent to shut down, and never a lead. A request by a lead for a
  teammate succeeds and appends one shutdown request to that teammate's inbox, nobody else's;
  any other request fails with the error that says why, and changes nothing.\<close>

theorem shutdown_only_by_lead:
  assumes env: "memory_env env"
  shows "if is_lead m from_id \<and> target \<in> fst ` set (sm_slots m) \<and> \<not> is_lead m target
    then \<exists>msg m'. request_shutdown_agent env from_id target reason m = (Inr msg, m') \<and> msg_type msg = MtShutdownRequest \<and>
      msg_content msg = (case reason of None \<Rightarrow> ''shutdown requested'' | Some text \<Rightarrow> text) \<and>
      mail_of env target m' = mail_of env target m @ [msg] \<and> (\<forall>a. a \<noteq> target \<longrightarrow> mail_of env a m' = mail_of env a m)
    else request_shutdown_agent env from_id target reason m =
      (Inl (if from_id \<notin> fst ` set (sm_slots m) then AgentNotFound from_id
            else if \<not> is_lead m from_id then InvalidRequest ''only lead can shutdown agents''
            else if target \<notin> fst ` set (sm_slots m) then AgentNotFound target
            else InvalidRequest ''cannot shutdown the team lead''), m)"
proof -
  have known: "i \<in> fst ` set (sm_slots m) \<longleftrightarrow> (\<exists>ag. map_of (sm_slots m) i = Some ag)" for i
    by (metis map_of_eq_None_iff not_None_eq)
  let ?text = "case reason of None \<Rightarrow> ''shutdown requested'' | Some x \<Rightarrow> x"
  show ?thesis
  proof (cases "is_lead m from_id \<and> target \<in> fst ` set (sm_slots m) \<and> \<not> is_lead m target")
    case True
    then have "request_shutdown_agent env from_id target reason m =
        team_write env target from_id MtShutdownRequest ?text None None m"
      unfolding known by (auto simp: request_shutdown_agent_def is_lead_def)
    moreover obtain m' where "team_write env target from_id MtShutdownRequest ?text None None m =
        (Inr (sent env m target from_id MtShutdownRequest ?text None None), m')"
      "mail_of env target m' = mail_of env target m @ [sent env m target from_id MtShutdownRequest ?text None None]"
      "\<forall>a. a \<noteq> target \<longrightarrow> mail_of env a m' = mail_of env a m"
      using team_write_effect [OF env] by blast
    ultimately have "\<exists>msg m'. request_shutdown_agent env from_id target reason m = (Inr msg, m') \<and> msg_type msg = MtShutdownRequest \<and>
      msg_content msg = ?text \<and> mail_of env target m' = mail_of env target m @ [msg] \<and>
      (\<forall>a. a \<noteq> target \<longrightarrow> mail_of env a m' = mail_of env a m)"
      by (intro exI [of _ "sent env m target from_id MtShutdownRequest ?text None None"] exI [of _ m']) simp
    with True show ?thesis by simp
  next
    case False
    then show ?thesis unfolding known by (auto simp: request_shutdown_agent_def is_lead_def split: option.splits)
  qed
qed

subsection \<open>Names\<close>

definition names_distinct :: "unicode_ops \<Rightarrow> 's team_manager \<Rightarrow> bool" where
  "names_distinct uc m \<longleftrightarrow> (\<forall>i j a b. map_of (sm_slots m) i = Some a \<longrightarrow> map_of (sm_slots m) j = Some b \<longrightarrow> i \<noteq> j \<longrightarrow>
     normalize_name uc (ta_name (ag_agent a)) \<noteq> normalize_name uc (ta_name (ag_agent b)))"

text \<open>Renaming keeps names apart. It succeeds exactly when the new name, normalized, is not empty,
  the agent exists, and no other agent's name normalizes to the same; then the agent has
  exactly the name given and no other agent changes, and if no two agents had the same
  normalized name before, none have now. When it fails nothing changes.\<close>

theorem rename_keeps_names_distinct:
  assumes wf: "slots_wf m"
  shows "if normalize_name uc name \<noteq> [] \<and> (\<exists>ag. map_of (sm_slots m) i = Some ag) \<and>
      (\<forall>j b. map_of (sm_slots m) j = Some b \<longrightarrow> j \<noteq> i \<longrightarrow> normalize_name uc (ta_name (ag_agent b)) \<noteq> normalize_name uc name)
    then \<exists>m'. rename_agent uc i name m = (Inr (), m') \<and> slots_wf m' \<and>
      (\<exists>ag. map_of (sm_slots m') i = Some ag \<and> ta_name (ag_agent ag) = name) \<and>
      (\<forall>j. j \<noteq> i \<longrightarrow> map_of (sm_slots m') j = map_of (sm_slots m) j) \<and>
      (names_distinct uc m \<longrightarrow> names_distinct uc m')
    else \<exists>e. rename_agent uc i name m = (Inl e, m)"
proof -
  let ?free = "\<forall>j b. map_of (sm_slots m) j = Some b \<longrightarrow> j \<noteq> i \<longrightarrow> normalize_name uc (ta_name (ag_agent b)) \<noteq> normalize_name uc name"
  have conflict: "list_ex (\<lambda>(j, ag). j \<noteq> i \<and> normalize_name uc (ta_name (ag_agent ag)) = normalize_name uc name) (sm_slots m) \<longleftrightarrow> \<not> ?free"
    using wf by (fastforce simp: list_ex_iff slots_wf_def map_of_eq_Some_iff)
  show ?thesis
  proof (cases "normalize_name uc name \<noteq> [] \<and> (\<exists>ag. map_of (sm_slots m) i = Some ag) \<and> ?free")
    case False
    then show ?thesis using conflict by (auto simp: rename_agent_def Let_def split: option.splits)
  next
    case True
    then obtain ag where ag: "map_of (sm_slots m) i = Some ag" and free: ?free and name: "normalize_name uc name \<noteq> []" by blast
    let ?ag = "ag\<lparr>ag_agent := (ag_agent ag)\<lparr>ta_name := name\<rparr>\<rparr>"
    define m' where "m' = emit (EvAgentRenamed i name) (m\<lparr>sm_slots := AList.update i ?ag (sm_slots m)\<rparr>)"
    have "\<not> list_ex (\<lambda>(j, ag). j \<noteq> i \<and> normalize_name uc (ta_name (ag_agent ag)) = normalize_name uc name) (sm_slots m)"
      using conflict free by blast
    then have "rename_agent uc i name m = (Inr (), m')" using ag name by (simp add: rename_agent_def Let_def m'_def)
    moreover have slots: "map_of (sm_slots m') j = (if j = i then Some ?ag else map_of (sm_slots m) j)" for j
      by (simp add: m'_def emit_def map_simps)
    moreover have "ta_slot_id (ag_agent ag) = i" using wf ag by (simp add: slots_wf_def)
    then have "slots_wf m'" using wf by (auto simp: m'_def emit_def slots_wf_iff intro!: slot_table_insert)
    moreover have "names_distinct uc m'" if dist: "names_distinct uc m"
      unfolding names_distinct_def
    proof (intro allI impI)
      fix j k a b assume jk: "map_of (sm_slots m') j = Some a" "map_of (sm_slots m') k = Some b" "j \<noteq> k"
      show "normalize_name uc (ta_name (ag_agent a)) \<noteq> normalize_name uc (ta_name (ag_agent b))"
      proof (cases "j = i \<or> k = i")
        case True
        with jk free slots show ?thesis by (auto split: if_splits) metis+
      next
        case False
        with jk slots dist show ?thesis unfolding names_distinct_def by (metis (full_types))
      qed
    qed
    ultimately show ?thesis using True by auto
  qed
qed

subsection \<open>Crashes\<close>

text \<open>A crash is recorded and reported. Handling the crash of a known agent succeeds, sets its status
  to error, releases its wake lock and its watchdog and leaves every other agent as it was;
  the lead gets one message with the crash testament, unless it is the lead that crashed, and
  is the one to wake.\<close>

theorem crash_recorded_and_reported:
  assumes env: "memory_env env" and wf: "slots_wf m" and one: "one_lead m" and lead: "is_lead m l"
    and slot: "map_of (sm_slots m) sid = Some ag"
  shows "\<exists>m'. handle_agent_crash env sid reason final m = (Inr (if sid = l then None else Some l), m') \<and>
    status_of m' sid = Some StError \<and> \<not> is_wake_active sid m' \<and> sid \<notin> sm_wake_timeouts m' \<and>
    (\<forall>i. i \<noteq> sid \<longrightarrow> map_of (sm_slots m') i = map_of (sm_slots m) i) \<and>
    mail_of env l m' = mail_of env l m @ (if sid = l then [] else
      [sent env m l sid MtMessage (format_crash_testament (ta_name (ag_agent ag)) reason final) None None]) \<and>
    (\<forall>a. a \<noteq> l \<longrightarrow> mail_of env a m' = mail_of env a m)"
proof -
  let ?text = "format_crash_testament (ta_name (ag_agent ag)) reason final"
  let ?msgs = "if sid = l then [] else [sent env m l sid MtMessage ?text None None]"
  have find: "find_lead_slot_id m = Some l" by (rule find_lead_unique [OF wf one lead])
  have role: "ta_role (ag_agent ag) = Lead \<longleftrightarrow> sid = l"
    using slot lead one by (auto simp: is_lead_def one_lead_def)
  obtain m1 where m1: "write_crash_testament env sid (ta_name (ag_agent ag)) reason final m = (Inr (), m1)" "same_team m m1"
    "mail_of env l m1 = mail_of env l m @ ?msgs" "\<forall>a. a \<noteq> l \<longrightarrow> mail_of env a m1 = mail_of env a m"
  proof (cases "sid = l")
    case True
    have "write_crash_testament env sid (ta_name (ag_agent ag)) reason final m = (Inr (), m)"
      using find True by (simp add: write_crash_testament_def)
    with that [of m] True show ?thesis by (simp add: same_team_def)
  next
    case False
    obtain m1 where "team_write env l sid MtMessage ?text None None m = (Inr (sent env m l sid MtMessage ?text None None), m1)"
      "same_team m m1" "mail_of env l m1 = mail_of env l m @ [sent env m l sid MtMessage ?text None None]"
      "\<forall>a. a \<noteq> l \<longrightarrow> mail_of env a m1 = mail_of env a m"
      using team_write_effect [OF env] by blast
    with that [of m1] False find show ?thesis by (simp add: write_crash_testament_def)
  qed
  have slot1: "map_of (sm_slots m1) sid = Some ag" "slots_wf m1" "is_lead m1 = is_lead m"
    using slot m1(2) same_team_wf [OF m1(2) wf] same_team_is_lead [OF m1(2)] by (simp_all add: same_team_def)
  obtain m2 where m2: "set_status sid StError m1 = (Inr (), m2)" "slots_wf m2" "is_lead m2 = is_lead m1"
    "map_of (sm_slots m2) sid = Some (ag\<lparr>ag_status := StError, ag_agent := (ag_agent ag)\<lparr>ta_status := Some StError\<rparr>\<rparr>)"
    "\<forall>j. j \<noteq> sid \<longrightarrow> map_of (sm_slots m2) j = map_of (sm_slots m1) j" "sm_team_id m2 = sm_team_id m1" "sm_store m2 = sm_store m1"
    using set_status_effect [OF slot1(1,2)] by blast
  let ?m = "clear_wake_timeout sid (release_wake_lock sid m2)"
  have slots: "sm_slots ?m = sm_slots m2" by (simp add: clear_wake_timeout_def release_wake_lock_def)
  have "find_lead_slot_id m2 = Some l"
    by (rule find_lead_unique) (use m2 slot1 one lead in \<open>simp_all add: one_lead_def\<close>)
  then have "find_lead_slot_id ?m = Some l" using same_slots_lead [OF slots] by simp
  then have "handle_agent_crash env sid reason final m = (Inr (if sid = l then None else Some l), ?m)"
    using slot m1(1) m2(1) role by (simp add: handle_agent_crash_def Let_def)
  moreover have "mail_of env a ?m = mail_of env a m1" for a
    by (rule mail_of_cong) (simp_all add: clear_wake_timeout_def release_wake_lock_def m2)
  moreover have "sid \<notin> sm_active_wakes ?m" "sid \<notin> sm_wake_timeouts ?m"
    by (simp_all add: clear_wake_timeout_def release_wake_lock_def)
  ultimately show ?thesis
    using m1 m2 slots by (auto simp: status_of_def is_wake_active_def same_team_def)
qed

subsection \<open>Witnesses\<close>

lemma demo_s2: "map_of (sm_slots demo_team) ''s2'' = Some (demo_slot_of ''s2'' Teammate)"
  by (simp add: demo_team_slots)

lemma wake_hands_over_mail_once_witness:
  "\<exists>payload m'. try_wake demo_env ''s2'' demo_team = (Inr (Some payload), m') \<and> wp_unread payload = [] \<and>
     try_wake demo_env ''s2'' m' = (Inr None, m')"
  using wake_hands_over_mail_once [OF demo_memory_env demo_team_wf demo_s2] by (auto simp: demo_mail)

lemma broadcast_reaches_each_other_agent_once_witness:
  "\<exists>m' x. execute_action demo_env ''s1'' (ActSendMessage ''*'' ''hello'' []) demo_team = (Inr None, m') \<and>
     mail_of demo_env ''s2'' m' = [x] \<and> msg_content x = ''hello'' \<and> mail_of demo_env ''s1'' m' = []"
proof -
  obtain m' where m': "execute_action demo_env ''s1'' (ActSendMessage ''*'' ''hello'' []) demo_team = (Inr None, m')"
    and all: "\<forall>a. if a \<in> fst ` set (sm_slots demo_team) \<and> a \<noteq> ''s1''
       then \<exists>x. mail_of demo_env a m' = mail_of demo_env a demo_team @ [x] \<and> msg_type x = MtMessage \<and> msg_content x = ''hello'' \<and>
         msg_from_agent_id x = ''s1'' \<and> msg_files x = (if ([] :: string list) = [] then None else Some [])
       else mail_of demo_env a m' = mail_of demo_env a demo_team"
    using broadcast_reaches_each_other_agent_once [OF demo_memory_env demo_team_wf] by blast
  have "''s2'' \<in> fst ` set (sm_slots demo_team)" by (simp add: demo_team_slots)
  with all [rule_format, of "''s2''"] all [rule_format, of "''s1''"] m' show ?thesis by (auto simp: demo_mail)
qed

lemma shutdown_only_by_lead_witness:
  "(\<exists>msg m'. request_shutdown_agent demo_env ''s1'' ''s2'' None demo_team = (Inr msg, m') \<and> mail_of demo_env ''s2'' m' = [msg]) \<and>
   request_shutdown_agent demo_env ''s2'' ''s3'' None demo_team = (Inl (InvalidRequest ''only lead can shutdown agents''), demo_team)"
proof -
  have k: "''s2'' \<in> fst ` set (sm_slots demo_team)" "''s3'' \<in> fst ` set (sm_slots demo_team)" by (simp_all add: demo_team_slots)
  show ?thesis
    using shutdown_only_by_lead [OF demo_memory_env, of demo_team "''s1''" "''s2''" None]
      shutdown_only_by_lead [OF demo_memory_env, of demo_team "''s2''" "''s3''" None] k
    by (auto simp: demo_is_lead demo_mail)
qed

lemma rename_keeps_names_distinct_witness:
  "\<exists>m'. rename_agent (te_unicode demo_env) ''s2'' ''builder'' demo_team = (Inr (), m') \<and> slots_wf m'"
proof -
  have "\<forall>j b. map_of (sm_slots demo_team) j = Some b \<longrightarrow> j \<noteq> ''s2'' \<longrightarrow>
      normalize_name (te_unicode demo_env) (ta_name (ag_agent b)) \<noteq> normalize_name (te_unicode demo_env) ''builder''"
    by (auto simp: demo_team_slots demo_slot_of_def demo_agent_def normalize_name_def demo_env_def split: if_splits)
  moreover have "normalize_name (te_unicode demo_env) ''builder'' \<noteq> []" by (simp add: normalize_name_def demo_env_def)
  ultimately show ?thesis
    using rename_keeps_names_distinct [OF demo_team_wf, of "te_unicode demo_env" "''builder''" "''s2''"] demo_s2 by auto
qed

lemma crash_recorded_and_reported_witness:
  "\<exists>m' msg. handle_agent_crash demo_env ''s2'' ProcessExited None demo_team = (Inr (Some ''s1''), m') \<and>
     status_of m' ''s2'' = Some StError \<and> mail_of demo_env ''s1'' m' = [msg]"
  using crash_recorded_and_reported [OF demo_memory_env demo_team_wf demo_one_lead _ demo_s2, of "''s1''" ProcessExited None]
  by (auto simp: demo_is_lead demo_mail)

end
