(* ===== verification/Text_Format.thy ===== *)
theory Text_Format
  imports Crash_Detection
begin

text \<open>
  Text as \<open>format!\<close>, \<open>join\<close> and \<open>replace\<close> of the Rust standard library put it together.
\<close>

fun string_of_nat :: "nat \<Rightarrow> string" where
  "string_of_nat n = (if n < 10 then [char_of (48 + n)] else string_of_nat (n div 10) @ [char_of (48 + n mod 10)])"

declare string_of_nat.simps [simp del]

definition newline :: string where
  "newline = [CHR 0x0A]"

fun join :: "string \<Rightarrow> string list \<Rightarrow> string" where
  "join sep [] = []"
| "join sep [s] = s"
| "join sep (s # ss) = s @ sep @ join sep ss"

text \<open>
  \<open>str::replace\<close>: the occurrences of a pattern, left to right, without overlap. The pattern is
  not empty where the code uses it.
\<close>

function str_replace :: "string \<Rightarrow> string \<Rightarrow> string \<Rightarrow> string" where
  "str_replace pat new [] = []"
| "str_replace pat new (c # cs) =
     (if pat \<noteq> [] \<and> take (length pat) (c # cs) = pat
      then new @ str_replace pat new (drop (length pat) (c # cs))
      else c # str_replace pat new cs)"
  by pat_completeness auto

lemma drop_pattern_shorter: "pat \<noteq> [] \<Longrightarrow> length (drop (length pat) (c # cs)) < Suc (length cs)"
  by (cases pat) auto

termination str_replace
  by (relation "measure (\<lambda>(pat, new, s). length s)") (use drop_pattern_shorter in auto)

lemma str_replace_absent: "c \<notin> set s \<Longrightarrow> str_replace (c # pat) new s = s"
  by (induction "c # pat" new s rule: str_replace.induct) auto

subsection \<open>ASCII\<close>

text \<open>The functions of \<open>str\<close> that look at ASCII only, and those that cut a text.\<close>

definition ascii_lower :: "char \<Rightarrow> char" where
  "ascii_lower c = (if 65 \<le> (of_char c :: nat) \<and> (of_char c :: nat) \<le> 90 then char_of (of_char c + 32 :: nat) else c)"

definition to_ascii_lowercase :: "string \<Rightarrow> string" where
  "to_ascii_lowercase = List.map ascii_lower"

definition eq_ignore_ascii_case :: "string \<Rightarrow> string \<Rightarrow> bool" where
  "eq_ignore_ascii_case a b \<longleftrightarrow> to_ascii_lowercase a = to_ascii_lowercase b"

definition is_ascii_digit :: "char \<Rightarrow> bool" where
  "is_ascii_digit c \<longleftrightarrow> 48 \<le> (of_char c :: nat) \<and> (of_char c :: nat) \<le> 57"

definition strip_prefix :: "string \<Rightarrow> string \<Rightarrow> string option" where
  "strip_prefix p s = (if is_prefix p s then Some (drop (length p) s) else None)"

text \<open>\<open>split(..)\<close>: the pieces between the characters that satisfy \<open>p\<close>, empty ones included.\<close>

fun split_by :: "(char \<Rightarrow> bool) \<Rightarrow> string \<Rightarrow> string list" where
  "split_by p [] = [[]]"
| "split_by p (c # cs) =
     (if p c then [] # split_by p cs
      else (case split_by p cs of [] \<Rightarrow> [[c]] | piece # pieces \<Rightarrow> (c # piece) # pieces))"

definition in_quotes :: "string \<Rightarrow> string" where
  "in_quotes s = CHR 0x22 # s @ [CHR 0x22]"

end
