(* ===== verification/Wake_Summary.thy ===== *)
theory Wake_Summary
  imports Team_Types Text_Format
begin

text \<open>
  The task board summary in a wake prompt (crates/team/src/prompts/wake_summary.rs): which
  tasks of the board an agent is shown when it is woken, in which order, and the table they
  are rendered to. \<open>slice::sort_by\<close> is a stable sort; \<open>sort_by\<close> is stable insertion sort,
  which gives the same list whenever the comparison is a total preorder.
\<close>

subsection \<open>Comparison and stable sorting\<close>

datatype ordering = Less | Equal | Greater

definition cmp :: "'a::linorder \<Rightarrow> 'a \<Rightarrow> ordering" where
  "cmp a b = (if a < b then Less else if a = b then Equal else Greater)"

fun then_with :: "ordering \<Rightarrow> ordering \<Rightarrow> ordering" where
  "then_with Equal o2 = o2"
| "then_with o1 _ = o1"

fun insert_by :: "('a \<Rightarrow> 'a \<Rightarrow> ordering) \<Rightarrow> 'a \<Rightarrow> 'a list \<Rightarrow> 'a list" where
  "insert_by f x [] = [x]"
| "insert_by f x (y # ys) = (if f x y = Greater then y # insert_by f x ys else x # y # ys)"

definition sort_by :: "('a \<Rightarrow> 'a \<Rightarrow> ordering) \<Rightarrow> 'a list \<Rightarrow> 'a list" where
  "sort_by f xs = foldr (insert_by f) xs []"

subsection \<open>Constants and text\<close>

definition MAX_WAKE_TASK_ROWS :: nat where "MAX_WAKE_TASK_ROWS = 40"
definition MAX_RECENT_COMPLETED_ROWS :: nat where "MAX_RECENT_COMPLETED_ROWS = 8"
definition MAX_TEAMMATE_RECENT_COMPLETED_ROWS :: nat where "MAX_TEAMMATE_RECENT_COMPLETED_ROWS = 3"
definition MAX_SUBJECT_CHARS :: nat where "MAX_SUBJECT_CHARS = 120"
definition MAX_BLOCKED_BY_IDS :: nat where "MAX_BLOCKED_BY_IDS = 5"

definition utf8_count :: "string \<Rightarrow> nat" where \<comment> \<open>\<open>chars().count()\<close>\<close>
  "utf8_count s = length (filter (\<lambda>b. \<not> utf8_continuation b) s)"

definition ellipsis :: string where \<comment> \<open>U+2026 in UTF-8\<close>
  "ellipsis = [CHR 0xE2, CHR 0x80, CHR 0xA6]"

definition short_task_id :: "ident \<Rightarrow> string" where
  "short_task_id i = utf8_take 8 i @ ellipsis"

definition truncate_subject :: "string \<Rightarrow> string" where
  "truncate_subject subject =
     (if utf8_count subject \<le> MAX_SUBJECT_CHARS then subject else utf8_take MAX_SUBJECT_CHARS subject @ ''...'')"

definition render_blocked_by :: "ident list \<Rightarrow> string" where
  "render_blocked_by blocked_by =
     (if blocked_by = [] then ''-''
      else join '', '' (map short_task_id (take MAX_BLOCKED_BY_IDS blocked_by) @
        (if length blocked_by > MAX_BLOCKED_BY_IDS
         then [''+'' @ string_of_nat (length blocked_by - MAX_BLOCKED_BY_IDS) @ '' more''] else [])))"

definition render_owner :: "ident set \<Rightarrow> 'j team_task \<Rightarrow> string" where
  "render_owner current_slot_ids t =
     (case tt_owner t of
        Some owner \<Rightarrow> if owner \<in> current_slot_ids then owner else owner @ '' (removed)''
      | None \<Rightarrow> ''-'')"

subsection \<open>Which tasks matter to an agent\<close>

definition is_active :: "task_status \<Rightarrow> bool" where
  "is_active st \<longleftrightarrow> st = TkPending \<or> st = TkInProgress"

definition is_current_or_ownerless :: "ident set \<Rightarrow> 'j team_task \<Rightarrow> bool" where
  "is_current_or_ownerless current_slot_ids t \<longleftrightarrow>
     (case tt_owner t of Some owner \<Rightarrow> owner \<in> current_slot_ids | None \<Rightarrow> True)"

definition is_removed_owner :: "ident set \<Rightarrow> 'j team_task \<Rightarrow> bool" where
  "is_removed_owner current_slot_ids t \<longleftrightarrow>
     (case tt_owner t of Some owner \<Rightarrow> owner \<notin> current_slot_ids | None \<Rightarrow> False)"

fun status_rank :: "task_status \<Rightarrow> nat" where
  "status_rank TkInProgress = 0"
| "status_rank TkPending = 1"
| "status_rank TkCompleted = 2"
| "status_rank TkDeleted = 3"

definition active_rank :: "ident set \<Rightarrow> ident set \<Rightarrow> ident set \<Rightarrow> 'j team_task \<Rightarrow> nat" where
  "active_rank own blockers blocked t =
     (if tt_id t \<in> own then 0
      else if tt_id t \<in> blockers then 1
      else if tt_id t \<in> blocked then 2
      else if tt_status t = TkInProgress then 3 else 4)"

definition compare_same_status_recency :: "'j team_task \<Rightarrow> 'j team_task \<Rightarrow> ordering" where
  "compare_same_status_recency l r =
     (if tt_status l = TkInProgress \<or> tt_status l = TkPending
      then then_with (cmp (tt_updated_at r) (tt_updated_at l)) (cmp (tt_created_at l) (tt_created_at r))
      else Equal)"

definition compare_active_tasks ::
  "ident set \<Rightarrow> ident set \<Rightarrow> ident set \<Rightarrow> 'j team_task \<Rightarrow> 'j team_task \<Rightarrow> ordering" where
  "compare_active_tasks own blockers blocked l r =
     then_with (cmp (active_rank own blockers blocked l) (active_rank own blockers blocked r))
       (then_with (cmp (status_rank (tt_status l)) (status_rank (tt_status r)))
         (then_with (compare_same_status_recency l r) (cmp (tt_id l) (tt_id r))))"

text \<open>The order of the completed tasks, the same closure in both selections.\<close>

definition compare_completed :: "'j team_task \<Rightarrow> 'j team_task \<Rightarrow> ordering" where
  "compare_completed l r =
     then_with (cmp (tt_updated_at r) (tt_updated_at l))
       (then_with (cmp (tt_created_at l) (tt_created_at r)) (cmp (tt_id l) (tt_id r)))"

definition filter_summary_input :: "ident set \<Rightarrow> 'j team_task list \<Rightarrow> 'j team_task list" where
  "filter_summary_input current_slot_ids tasks =
     (let visible_base_ids = set (map tt_id (filter (is_current_or_ownerless current_slot_ids)
            (filter (\<lambda>t. is_active (tt_status t)) tasks)));
          visible_blocker_ids = set (concat (map tt_blocked_by (filter (\<lambda>t. tt_id t \<in> visible_base_ids) tasks)))
      in filter (\<lambda>t. if is_current_or_ownerless current_slot_ids t then True
           else is_active (tt_status t) \<and> is_removed_owner current_slot_ids t \<and> tt_id t \<in> visible_blocker_ids) tasks)"

subsection \<open>The selection\<close>

definition select_leader_summary_tasks ::
  "ident set \<Rightarrow> ident set \<Rightarrow> ident set \<Rightarrow> 'j team_task list \<Rightarrow> 'j team_task list" where
  "select_leader_summary_tasks own blockers blocked tasks =
     (let active = sort_by (compare_active_tasks own blockers blocked) (filter (\<lambda>t. is_active (tt_status t)) tasks);
          selected = take MAX_WAKE_TASK_ROWS active
      in if length selected < MAX_WAKE_TASK_ROWS
         then
           let completed = sort_by compare_completed (filter (\<lambda>t. tt_status t = TkCompleted) tasks);
               remaining = MAX_WAKE_TASK_ROWS - length selected
           in selected @ take (min MAX_RECENT_COMPLETED_ROWS remaining) completed
         else selected)"

definition select_teammate_summary_tasks ::
  "ident set \<Rightarrow> ident set \<Rightarrow> ident set \<Rightarrow> team_agent \<Rightarrow> 'j team_task list \<Rightarrow> 'j team_task list" where
  "select_teammate_summary_tasks own blockers blocked agent tasks =
     (let relevant_active = sort_by (compare_active_tasks own blockers blocked)
            (filter (\<lambda>t. tt_id t \<in> own \<or> tt_id t \<in> blockers \<or> tt_id t \<in> blocked)
              (filter (\<lambda>t. is_active (tt_status t)) tasks));
          selected = take MAX_WAKE_TASK_ROWS relevant_active
      in if length selected < MAX_WAKE_TASK_ROWS
         then
           let completed = sort_by compare_completed
                 (filter (\<lambda>t. tt_owner t = Some (ta_slot_id agent)) (filter (\<lambda>t. tt_status t = TkCompleted) tasks));
               remaining = MAX_WAKE_TASK_ROWS - length selected
           in selected @ take (min MAX_TEAMMATE_RECENT_COMPLETED_ROWS remaining) completed
         else selected)"

text \<open>The three sets of ids \<open>select_summary_tasks\<close> computes.\<close>

definition own_active_ids :: "team_agent \<Rightarrow> 'j team_task list \<Rightarrow> ident set" where
  "own_active_ids agent tasks =
     set (map tt_id (filter (\<lambda>t. tt_owner t = Some (ta_slot_id agent)) (filter (\<lambda>t. is_active (tt_status t)) tasks)))"

definition blocker_ids :: "ident set \<Rightarrow> 'j team_task list \<Rightarrow> ident set" where
  "blocker_ids own tasks = set (concat (map tt_blocked_by (filter (\<lambda>t. tt_id t \<in> own) tasks)))"

definition blocked_by_own_ids :: "ident set \<Rightarrow> 'j team_task list \<Rightarrow> ident set" where
  "blocked_by_own_ids own tasks =
     set (concat (map tt_blocks (filter (\<lambda>t. tt_id t \<in> own) tasks))) \<union>
     set (map tt_id (filter (\<lambda>t. list_ex (\<lambda>i. i \<in> own) (tt_blocked_by t)) (filter (\<lambda>t. is_active (tt_status t)) tasks)))"

definition select_summary_tasks :: "team_agent \<Rightarrow> 'j team_task list \<Rightarrow> 'j team_task list" where
  "select_summary_tasks agent tasks =
     (let own = own_active_ids agent tasks;
          blockers = blocker_ids own tasks;
          blocked = blocked_by_own_ids own tasks
      in if ta_role agent = Teammate then select_teammate_summary_tasks own blockers blocked agent tasks
         else select_leader_summary_tasks own blockers blocked tasks)"

subsection \<open>The table\<close>

record summary_counts =
  sc_shown :: nat
  sc_total :: nat
  sc_hidden_active :: nat
  sc_hidden_completed :: nat
  sc_hidden_deleted :: nat

definition summary_selection :: "team_agent \<Rightarrow> ident set \<Rightarrow> 'j team_task list \<Rightarrow> 'j team_task list" where
  "summary_selection agent current_slot_ids tasks =
     select_summary_tasks agent (filter_summary_input current_slot_ids tasks)"

definition count_summary :: "'j team_task list \<Rightarrow> 'j team_task list \<Rightarrow> summary_counts" where
  "count_summary selected tasks =
     (let displayed_ids = set (map tt_id selected);
          hidden_active = length (filter (\<lambda>t. tt_id t \<notin> displayed_ids) (filter (\<lambda>t. is_active (tt_status t)) tasks));
          displayed_completed = length (filter (\<lambda>t. tt_status t = TkCompleted) selected);
          total_completed = length (filter (\<lambda>t. tt_status t = TkCompleted) tasks);
          total_deleted = length (filter (\<lambda>t. tt_status t = TkDeleted) tasks)
      in \<lparr>sc_shown = length selected, sc_total = length tasks, sc_hidden_active = hidden_active,
          sc_hidden_completed = total_completed - displayed_completed, sc_hidden_deleted = total_deleted\<rparr>)"

definition summary_row :: "ident set \<Rightarrow> 'j team_task \<Rightarrow> string" where
  "summary_row current_slot_ids t =
     ''| '' @ short_task_id (tt_id t) @ '' | '' @ truncate_subject (tt_subject t) @ '' | '' @
     task_status_display (tt_status t) @ '' | '' @ render_owner current_slot_ids t @ '' | '' @
     render_blocked_by (tt_blocked_by t) @ '' |'' @ newline"

definition render_task_board_summary :: "team_agent \<Rightarrow> 'j team_task list \<Rightarrow> ident set \<Rightarrow> string" where
  "render_task_board_summary agent tasks current_slot_ids =
     ''## Current Task Board Summary'' @ newline @ newline @
     (if tasks = [] then ''No tasks on the board.'' @ newline @ newline
      else
        let selected = summary_selection agent current_slot_ids tasks;
            c = count_summary selected tasks
        in ''Showing '' @ string_of_nat (sc_shown c) @ '' of '' @ string_of_nat (sc_total c) @ '' tasks.'' @ newline @
           ''Hidden: active='' @ string_of_nat (sc_hidden_active c) @ '', completed='' @
           string_of_nat (sc_hidden_completed c) @ '', deleted='' @ string_of_nat (sc_hidden_deleted c) @ ''.'' @ newline @
           (if sc_hidden_active c + sc_hidden_completed c + sc_hidden_deleted c > 0
            then ''More tasks are available via `team_task_list`; use filters when needed.'' @ newline else []) @
           newline @
           ''| ID | Subject | Status | Owner | Blocked By |'' @ newline @ ''|---|---|---|---|---|'' @ newline @
           concat (map (summary_row current_slot_ids) selected) @ newline)"

end
