(* ===== verification/Wake_Summary_Claims.thy ===== *)
theory Wake_Summary_Claims
  imports Wake_Summary
begin

text \<open>
  What a woken agent is shown of the task board: the selection is a prefix of the active
  tasks sorted by one key, followed by a bounded number of its most recent completed tasks;
  an agent's own work comes first, and the counts of the header add up to the whole board.
\<close>

subsection \<open>Sorting by comparison is sorting by a key\<close>

lemma cmp_Greater [simp]: "cmp a b = Greater \<longleftrightarrow> b < a"
  and cmp_Equal [simp]: "cmp a b = Equal \<longleftrightarrow> a = b"
  and cmp_Less [simp]: "cmp a b = Less \<longleftrightarrow> a < b"
  by (auto simp: cmp_def)

lemma then_with_Greater: "then_with o1 o2 = Greater \<longleftrightarrow> o1 = Greater \<or> (o1 = Equal \<and> o2 = Greater)"
  by (cases o1) auto

lemma then_with_Equal [simp]: "then_with o1 o2 = Equal \<longleftrightarrow> o1 = Equal \<and> o2 = Equal"
  by (cases o1) auto

lemma insert_by_key:
  "\<forall>y \<in> set ys. f x y = Greater \<longleftrightarrow> k y < k x \<Longrightarrow> insert_by f x ys = insort_key k x ys"
  by (induction ys) auto

lemma sort_by_key:
  "\<forall>x \<in> set xs. \<forall>y \<in> set xs. f x y = Greater \<longleftrightarrow> k y < k x \<Longrightarrow> sort_by f xs = sort_key k xs"
proof (induction xs)
  case Nil
  then show ?case by (simp add: sort_by_def)
next
  case (Cons x xs)
  then have "sort_by f xs = sort_key k xs" by simp
  moreover have "insert_by f x (sort_key k xs) = insort_key k x (sort_key k xs)"
    by (rule insert_by_key) (use Cons.prems in auto)
  ultimately show ?case by (simp add: sort_by_def)
qed

definition task_key :: "ident set \<Rightarrow> ident set \<Rightarrow> ident set \<Rightarrow> 'j team_task \<Rightarrow> nat \<times> nat \<times> int \<times> int \<times> ident" where
  "task_key own blockers blocked t =
     (active_rank own blockers blocked t, status_rank (tt_status t), - tt_updated_at t, tt_created_at t, tt_id t)"

definition completed_key :: "'j team_task \<Rightarrow> int \<times> int \<times> ident" where
  "completed_key t = (- tt_updated_at t, tt_created_at t, tt_id t)"

lemma compare_completed_key: "compare_completed l r = Greater \<longleftrightarrow> completed_key r < completed_key l"
  by (auto simp: compare_completed_def completed_key_def then_with_Greater)

lemma status_rank_inj [simp]: "status_rank a = status_rank b \<longleftrightarrow> a = b"
  by (cases a; cases b) auto

lemma compare_active_key:
  assumes "is_active (tt_status l)" "is_active (tt_status r)"
  shows "compare_active_tasks own blockers blocked l r = Greater \<longleftrightarrow>
    task_key own blockers blocked r < task_key own blockers blocked l"
  using assms
  by (auto simp: compare_active_tasks_def compare_same_status_recency_def task_key_def then_with_Greater is_active_def)

lemma sort_completed: "sort_by compare_completed xs = sort_key completed_key xs"
  by (rule sort_by_key) (simp add: compare_completed_key)

lemma sort_active:
  "\<forall>t \<in> set xs. is_active (tt_status t) \<Longrightarrow>
   sort_by (compare_active_tasks own blockers blocked) xs = sort_key (task_key own blockers blocked) xs"
  by (rule sort_by_key) (simp add: compare_active_key)

subsection \<open>The selection as sorted prefixes\<close>

text \<open>The candidates of the two parts of the selection, and the bound on the second.\<close>

definition relevant :: "team_agent \<Rightarrow> 'j team_task list \<Rightarrow> 'j team_task \<Rightarrow> bool" where
  "relevant agent ts t \<longleftrightarrow> is_active (tt_status t) \<and>
     (ta_role agent = Lead \<or>
      (let own = own_active_ids agent ts
       in tt_id t \<in> own \<or> tt_id t \<in> blocker_ids own ts \<or> tt_id t \<in> blocked_by_own_ids own ts))"

definition recent :: "team_agent \<Rightarrow> 'j team_task \<Rightarrow> bool" where
  "recent agent t \<longleftrightarrow> tt_status t = TkCompleted \<and> (ta_role agent = Lead \<or> tt_owner t = Some (ta_slot_id agent))"

definition recent_bound :: "team_agent \<Rightarrow> nat" where
  "recent_bound agent = (if ta_role agent = Lead then 8 else 3)"

definition agent_key :: "team_agent \<Rightarrow> 'j team_task list \<Rightarrow> 'j team_task \<Rightarrow> nat \<times> nat \<times> int \<times> int \<times> ident" where
  "agent_key agent ts =
     (let own = own_active_ids agent ts in task_key own (blocker_ids own ts) (blocked_by_own_ids own ts))"

lemma not_Teammate: "ta_role a \<noteq> Teammate \<longleftrightarrow> ta_role a = Lead"
  by (cases "ta_role a") auto

lemma select_summary_tasks_sorted:
  "select_summary_tasks agent ts =
     (let active = take 40 (sort_key (agent_key agent ts) (filter (relevant agent ts) ts))
      in active @ take (min (recent_bound agent) (40 - length active)) (sort_key completed_key (filter (recent agent) ts)))"
proof (cases "ta_role agent")
  case Lead
  have "filter (relevant agent ts) ts = filter (\<lambda>t. is_active (tt_status t)) ts"
    by (simp add: relevant_def [abs_def] Lead)
  moreover have "filter (recent agent) ts = filter (\<lambda>t. tt_status t = TkCompleted) ts"
    by (simp add: recent_def [abs_def] Lead)
  ultimately show ?thesis
    by (simp add: Let_def select_summary_tasks_def select_leader_summary_tasks_def agent_key_def
        Lead sort_active sort_completed MAX_WAKE_TASK_ROWS_def MAX_RECENT_COMPLETED_ROWS_def
        recent_bound_def)
next
  case Teammate
  then show ?thesis
    by (simp add: Let_def select_summary_tasks_def select_teammate_summary_tasks_def relevant_def [abs_def]
        recent_def [abs_def] agent_key_def sort_active sort_completed MAX_WAKE_TASK_ROWS_def
        MAX_TEAMMATE_RECENT_COMPLETED_ROWS_def recent_bound_def conj_commute)
qed

lemma set_filter_summary_input: "t \<in> set (filter_summary_input ids tasks) \<Longrightarrow> t \<in> set tasks"
  by (auto simp: filter_summary_input_def Let_def)

lemma distinct_filter_input: "distinct tasks \<Longrightarrow> distinct (filter_summary_input ids tasks)"
  by (simp add: filter_summary_input_def Let_def)

lemma selection_parts:
  obtains active done_part where
    "select_summary_tasks agent ts = active @ done_part"
    "active = take 40 (sort_key (agent_key agent ts) (filter (relevant agent ts) ts))"
    "done_part = take (min (recent_bound agent) (40 - length active)) (sort_key completed_key (filter (recent agent) ts))"
    "\<forall>t \<in> set active. t \<in> set ts \<and> is_active (tt_status t)"
    "\<forall>t \<in> set done_part. t \<in> set ts \<and> recent agent t"
    "length active \<le> 40" "length done_part \<le> min (recent_bound agent) (40 - length active)"
proof -
  define active where "active = take 40 (sort_key (agent_key agent ts) (filter (relevant agent ts) ts))"
  define d where "d = take (min (recent_bound agent) (40 - length active)) (sort_key completed_key (filter (recent agent) ts))"
  have "select_summary_tasks agent ts = active @ d"
    by (simp add: select_summary_tasks_sorted active_def d_def Let_def)
  moreover have "\<forall>t \<in> set active. t \<in> set ts \<and> is_active (tt_status t)"
    by (auto simp: active_def relevant_def dest: in_set_takeD)
  moreover have "\<forall>t \<in> set d. t \<in> set ts \<and> recent agent t"
    by (auto simp: d_def dest: in_set_takeD)
  moreover have "length active \<le> 40" "length d \<le> min (recent_bound agent) (40 - length active)"
    by (simp_all add: active_def d_def min.coboundedI2)
  ultimately show thesis using that active_def d_def by blast
qed

lemma sort_key_split:
  assumes "\<forall>x \<in> set xs. \<forall>y \<in> set xs. P x \<longrightarrow> \<not> P y \<longrightarrow> k x < k y"
  shows "sort_key k xs = sort_key k (filter P xs) @ sort_key k (filter (\<lambda>x. \<not> P x) xs)"
proof -
  have front: "insort_key k x (us @ bs) = insort_key k x us @ bs" if "\<forall>b \<in> set bs. k x < k b" for x us bs
    using that by (induction us) ((cases bs; auto)+)
  have behind: "insort_key k x (us @ bs) = us @ insort_key k x bs" if "\<forall>a \<in> set us. k a < k x" for x us bs
    using that by (induction us) auto
  show ?thesis
    using assms by (induction xs) (simp_all add: front behind)
qed

lemma sort_key_same_order:
  assumes "\<forall>u \<in> set xs. \<forall>v \<in> set xs. k u \<le> k v \<longleftrightarrow> l u \<le> l v"
  shows "sort_key k xs = sort_key l xs"
proof -
  have same: "insort_key k x ys = insort_key l x ys" if "\<forall>v \<in> set ys. k x \<le> k v \<longleftrightarrow> l x \<le> l v" for x ys
    using that by (induction ys) auto
  show ?thesis using assms by (induction xs) (simp_all add: same)
qed

subsection \<open>Bounds of the summary\<close>

lemma filter_by_status:
  "\<forall>t \<in> set xs. tt_status t = TkCompleted \<Longrightarrow> filter (\<lambda>t. is_active (tt_status t)) xs = []"
  "\<forall>t \<in> set xs. tt_status t = TkCompleted \<Longrightarrow> filter (\<lambda>t. tt_status t = TkCompleted) xs = xs"
  "\<forall>t \<in> set xs. is_active (tt_status t) \<Longrightarrow> filter (\<lambda>t. tt_status t = TkCompleted) xs = []"
  "\<forall>t \<in> set xs. is_active (tt_status t) \<Longrightarrow> filter (\<lambda>t. is_active (tt_status t)) xs = xs"
  by (auto simp: filter_empty_conv filter_id_conv is_active_def)

lemma summary_selection_within:
  "set (summary_selection agent ids tasks) \<subseteq> {t \<in> set tasks. is_active (tt_status t) \<or>
     (tt_status t = TkCompleted \<and> (ta_role agent = Lead \<or> tt_owner t = Some (ta_slot_id agent)))}"
proof -
  obtain active d where parts: "summary_selection agent ids tasks = active @ d"
    "\<forall>t \<in> set active. t \<in> set (filter_summary_input ids tasks) \<and> is_active (tt_status t)"
    "\<forall>t \<in> set d. t \<in> set (filter_summary_input ids tasks) \<and> recent agent t"
    unfolding summary_selection_def by (rule selection_parts)
  then show ?thesis by (auto simp: recent_def dest: set_filter_summary_input)
qed

text \<open>C37: However large the board is, a summary shows at most 40 tasks, at most 8 of them completed for a lead and at most 3 for a teammate. Every task shown is on the board, none of them is deleted, and the completed tasks shown to a teammate are its own.\<close>

theorem summary_is_bounded:
  "let shown = summary_selection agent ids tasks
   in length shown \<le> 40 \<and>
    length (filter (\<lambda>t. tt_status t = TkCompleted) shown) \<le> (if ta_role agent = Lead then 8 else 3) \<and>
    set shown \<subseteq> {t \<in> set tasks. is_active (tt_status t) \<or>
      (tt_status t = TkCompleted \<and> (ta_role agent = Lead \<or> tt_owner t = Some (ta_slot_id agent)))}"
proof -
  define shown where "shown = summary_selection agent ids tasks"
  obtain active d where parts: "shown = active @ d"
    "\<forall>t \<in> set active. t \<in> set (filter_summary_input ids tasks) \<and> is_active (tt_status t)"
    "\<forall>t \<in> set d. t \<in> set (filter_summary_input ids tasks) \<and> recent agent t"
    "length active \<le> 40" "length d \<le> min (recent_bound agent) (40 - length active)"
    unfolding shown_def summary_selection_def by (rule selection_parts)
  have "\<forall>t \<in> set d. tt_status t = TkCompleted"
    using parts(3) by (simp add: recent_def)
  then have "filter (\<lambda>t. tt_status t = TkCompleted) shown = d"
    using parts(1,2) by (simp add: filter_by_status)
  moreover have "length shown \<le> 40" "length d \<le> recent_bound agent"
    using parts(1,4,5) by auto
  ultimately show ?thesis
    using summary_selection_within [of agent ids tasks]
    by (simp add: recent_bound_def Let_def flip: shown_def)
qed

subsection \<open>The counts of the header\<close>

abbreviation distinct_ids :: "'j team_task list \<Rightarrow> bool" where
  "distinct_ids tasks \<equiv> distinct (map tt_id tasks)"

lemma distinct_sort_prefix: "distinct xs \<Longrightarrow> distinct (take n (sort_key k xs))"
  by (simp add: distinct_take)

lemma selection_distinct:
  assumes "distinct_ids tasks"
  shows "distinct (summary_selection agent ids tasks)"
proof -
  let ?ts = "filter_summary_input ids tasks"
  have ts: "distinct ?ts"
    using assms by (simp add: distinct_map distinct_filter_input)
  obtain active d where parts: "summary_selection agent ids tasks = active @ d"
    "active = take 40 (sort_key (agent_key agent ?ts) (filter (relevant agent ?ts) ?ts))"
    "d = take (min (recent_bound agent) (40 - length active)) (sort_key completed_key (filter (recent agent) ?ts))"
    "\<forall>t \<in> set active. t \<in> set ?ts \<and> is_active (tt_status t)"
    "\<forall>t \<in> set d. t \<in> set ?ts \<and> recent agent t"
    unfolding summary_selection_def by (rule selection_parts)
  have "distinct active" "distinct d"
    unfolding parts(2,3) using ts by (simp_all add: distinct_sort_prefix)
  moreover have "set active \<inter> set d = {}"
    using parts(4,5) by (force simp: recent_def is_active_def)
  ultimately show ?thesis by (simp add: parts(1))
qed

lemma shown_part:
  assumes "distinct_ids tasks" "distinct shown" "set shown \<subseteq> set tasks"
  shows "length (filter P tasks) =
    length (filter P shown) + length (filter (\<lambda>t. tt_id t \<notin> tt_id ` set shown) (filter P tasks))"
proof -
  let ?in = "\<lambda>t. tt_id t \<in> tt_id ` set shown"
  have "distinct tasks" using assms(1) by (simp add: distinct_map)
  then have "length (filter ?in (filter P tasks)) = card (set (filter ?in (filter P tasks)))"
    by (simp only: distinct_card distinct_filter)
  also have "set (filter ?in (filter P tasks)) = set (filter P shown)"
    using assms(1,3) by (auto simp: distinct_map inj_on_def)
  also have "card (set (filter P shown)) = length (filter P shown)"
    using assms(2) by (simp only: distinct_card distinct_filter)
  finally show ?thesis
    using sum_length_filter_compl [of ?in "filter P tasks"] by linarith
qed

lemma status_partition:
  "length xs = length (filter (\<lambda>t. is_active (tt_status t)) xs) +
    length (filter (\<lambda>t. tt_status t = TkCompleted) xs) + length (filter (\<lambda>t. tt_status t = TkDeleted) xs)"
proof (induction xs)
  case (Cons t xs)
  then show ?case by (cases "tt_status t") (simp_all add: is_active_def)
qed simp

text \<open>The header of the summary accounts for every task of the board: the tasks shown and the hidden active, completed and deleted ones add up to the total, on every board whose task ids are distinct. The number of rows is the number announced as shown.\<close>

theorem summary_counts_add_up:
  assumes "distinct_ids tasks"
  shows "let shown = summary_selection agent ids tasks; c = count_summary shown tasks
    in sc_shown c + sc_hidden_active c + sc_hidden_completed c + sc_hidden_deleted c = sc_total c \<and>
       sc_total c = length tasks \<and> sc_shown c = length shown"
proof -
  define shown where "shown = summary_selection agent ids tasks"
  let ?n = "\<lambda>P xs. length (filter P xs)"
  let ?act = "\<lambda>t. is_active (tt_status t)" and ?com = "\<lambda>t. tt_status t = TkCompleted"
  have sub: "set shown \<subseteq> set tasks" and del: "\<forall>t \<in> set shown. tt_status t \<noteq> TkDeleted"
    using summary_selection_within [of agent ids tasks] by (auto simp: shown_def is_active_def)
  note part = shown_part [OF assms selection_distinct [OF assms] sub [unfolded shown_def], folded shown_def]
  have "?n ?com shown \<le> ?n ?com tasks"
    using part [of ?com] by linarith
  moreover have "length shown = ?n ?act shown + ?n ?com shown"
  proof -
    have "filter (\<lambda>t. tt_status t = TkDeleted) shown = []"
      using del by (simp add: filter_empty_conv)
    then show ?thesis using status_partition [of shown] by (metis add.right_neutral list.size(3))
  qed
  moreover note status_partition [of tasks] part [of ?act]
  ultimately have "length shown + ?n (\<lambda>t. tt_id t \<notin> tt_id ` set shown) (filter ?act tasks) +
      (?n ?com tasks - ?n ?com shown) + ?n (\<lambda>t. tt_status t = TkDeleted) tasks = length tasks"
    by linarith
  then show ?thesis
    unfolding count_summary_def Let_def shown_def by simp
qed

definition demo_task :: "ident \<Rightarrow> task_status \<Rightarrow> ident option \<Rightarrow> ident list \<Rightarrow> timestamp \<Rightarrow> nat team_task" where
  "demo_task i st owner blocked_by now =
     \<lparr>tt_id = i, tt_team_id = ''team'', tt_subject = ''subject'', tt_description = None, tt_status = st,
      tt_owner = owner, tt_blocked_by = blocked_by, tt_blocks = [], tt_metadata = None,
      tt_created_at = 0, tt_updated_at = now\<rparr>"

definition demo_teammate :: team_agent where
  "demo_teammate =
     \<lparr>ta_slot_id = ''bob'', ta_name = ''Bob'', ta_role = Teammate, ta_conversation_id = ''c'', ta_backend = ''acp'',
      ta_model = ''m'', ta_assistant_id = None, ta_status = None, ta_conversation_type = None,
      ta_cli_path = None, ta_last_message = None, ta_last_message_at = None\<rparr>"

definition demo_tasks :: "nat team_task list" where
  "demo_tasks =
     [demo_task ''t1'' TkPending (Some ''eve'') [] 9, demo_task ''t2'' TkInProgress (Some ''bob'') [''t4''] 2,
      demo_task ''t3'' TkDeleted None [] 3, demo_task ''t4'' TkPending (Some ''eve'') [] 4,
      demo_task ''t5'' TkPending (Some ''bob'') [] 7, demo_task ''t6'' TkCompleted None [] 1]"

theorem summary_counts_add_up_witness:
  "let shown = summary_selection demo_teammate {''bob'', ''eve''} demo_tasks; c = count_summary shown demo_tasks
   in sc_shown c + sc_hidden_active c + sc_hidden_completed c + sc_hidden_deleted c = sc_total c \<and>
      sc_total c = length demo_tasks \<and> sc_shown c = length shown"
  by (rule summary_counts_add_up) (simp add: demo_tasks_def demo_task_def)

subsection \<open>Own work first\<close>

definition own_task :: "team_agent \<Rightarrow> 'j team_task \<Rightarrow> bool" where
  "own_task agent t \<longleftrightarrow> is_active (tt_status t) \<and> tt_owner t = Some (ta_slot_id agent)"

definition own_key :: "'j team_task \<Rightarrow> nat \<times> int \<times> int \<times> ident" where
  "own_key t = (status_rank (tt_status t), - tt_updated_at t, tt_created_at t, tt_id t)"

lemma own_filter_input:
  assumes "ta_slot_id agent \<in> ids"
  shows "filter (own_task agent) (filter_summary_input ids tasks) = filter (own_task agent) tasks"
proof -
  have "own_task agent t \<Longrightarrow> is_current_or_ownerless ids t" for t :: "'j team_task"
    using assms by (simp add: own_task_def is_current_or_ownerless_def)
  then show ?thesis
    unfolding filter_summary_input_def Let_def filter_filter by (intro filter_cong) auto
qed

lemma own_active_ids_iff:
  assumes "distinct_ids ts" "t \<in> set ts"
  shows "tt_id t \<in> own_active_ids agent ts \<longleftrightarrow> own_task agent t"
proof
  assume "tt_id t \<in> own_active_ids agent ts"
  then obtain u where "u \<in> set ts" "tt_id u = tt_id t" "own_task agent u"
    by (auto simp: own_active_ids_def own_task_def)
  with assms show "own_task agent t" by (auto simp: distinct_map dest: inj_onD)
qed (use assms in \<open>auto simp: own_active_ids_def own_task_def\<close>)

text \<open>The active part of the selection starts with the own tasks, sorted by status and recency.\<close>

lemma relevant_sorted:
  assumes "distinct_ids ts"
  shows "sort_key (agent_key agent ts) (filter (relevant agent ts) ts) =
    sort_key own_key (filter (own_task agent) ts) @
    sort_key (agent_key agent ts) (filter (\<lambda>t. relevant agent ts t \<and> \<not> own_task agent t) ts)"
proof -
  note own = own_active_ids_iff [OF assms]
  have "sort_key (agent_key agent ts) (filter (relevant agent ts) ts) =
      sort_key (agent_key agent ts) (filter (own_task agent) (filter (relevant agent ts) ts)) @
      sort_key (agent_key agent ts) (filter (\<lambda>t. \<not> own_task agent t) (filter (relevant agent ts) ts))"
    by (rule sort_key_split) (auto simp: agent_key_def task_key_def active_rank_def own Let_def)
  also have "filter (own_task agent) (filter (relevant agent ts) ts) = filter (own_task agent) ts"
    unfolding filter_filter by (intro filter_cong) (auto simp: relevant_def own Let_def own_task_def)
  also have "sort_key (agent_key agent ts) (filter (own_task agent) ts) = sort_key own_key (filter (own_task agent) ts)"
  proof -
    have le: "agent_key agent ts u \<le> agent_key agent ts v \<longleftrightarrow> own_key u \<le> own_key v"
      if "u \<in> set (filter (own_task agent) ts)" "v \<in> set (filter (own_task agent) ts)" for u v
      using that by (auto simp: agent_key_def task_key_def own_key_def active_rank_def own Let_def)
    show ?thesis by (rule sort_key_same_order) (use le in blast)
  qed
  finally show ?thesis by (simp add: conj_commute)
qed

text \<open>An agent of the team always sees its own active tasks first: on a board with distinct task ids the rows start with them, those in progress before the pending ones and the most recently updated first; nothing else is shown before all of them are (up to the 40 rows of the table), and no own active task appears later.\<close>

theorem own_work_is_shown_first:
  assumes "distinct_ids tasks" "ta_slot_id agent \<in> ids"
  shows "\<exists>rest. summary_selection agent ids tasks = take 40 (sort_key own_key (filter (own_task agent) tasks)) @ rest \<and>
    (\<forall>t \<in> set rest. \<not> own_task agent t)"
proof -
  let ?ts = "filter_summary_input ids tasks"
  have ts: "distinct_ids ?ts"
    using assms(1) by (simp add: filter_summary_input_def Let_def distinct_map_filter)
  obtain active d where parts: "summary_selection agent ids tasks = active @ d"
    "active = take 40 (sort_key (agent_key agent ?ts) (filter (relevant agent ?ts) ?ts))"
    "\<forall>t \<in> set d. t \<in> set ?ts \<and> recent agent t"
    unfolding summary_selection_def by (rule selection_parts)
  let ?own = "sort_key own_key (filter (own_task agent) tasks)"
  define others where
    "others = sort_key (agent_key agent ?ts) (filter (\<lambda>t. relevant agent ?ts t \<and> \<not> own_task agent t) ?ts)"
  define rest where "rest = take (40 - length ?own) others @ d"
  have "active = take 40 ?own @ take (40 - length ?own) others"
    using parts(2) unfolding relevant_sorted [OF ts] own_filter_input [OF assms(2)] others_def [symmetric] take_append .
  then have "summary_selection agent ids tasks = take 40 ?own @ rest"
    unfolding parts(1) rest_def by (simp only: append_assoc)
  moreover have "\<not> own_task agent t" if "t \<in> set rest" for t
    using that parts(3) unfolding rest_def others_def
    by (auto simp: recent_def own_task_def is_active_def dest!: in_set_takeD)
  ultimately show ?thesis by blast
qed

theorem own_work_is_shown_first_witness:
  "\<exists>rest. summary_selection demo_teammate {''bob'', ''eve''} demo_tasks =
      take 40 (sort_key own_key (filter (own_task demo_teammate) demo_tasks)) @ rest \<and>
    (\<forall>t \<in> set rest. \<not> own_task demo_teammate t)"
  by (rule own_work_is_shown_first) (simp_all add: demo_tasks_def demo_task_def demo_teammate_def)

end
