(* ===== verification/Conversation_Repo.thy ===== *)
theory Conversation_Repo
  imports Team_Repo
begin

text \<open>
  The store of conversations and their messages (crates/store/src/conversation_repo.rs):
  \<open>MemoryConversationRepo\<close>, operation by operation, each under the lock of its state. The
  trait methods with a constant result (\<open>list_by_cron_job\<close>, \<open>list_associated\<close>,
  \<open>search_messages\<close>) are left out.
\<close>

record conversation_row =
  cv_id :: ident
  cv_user_id :: ident
  cv_name :: string
  cv_type :: string
  cv_extra :: string
  cv_model :: "string option"
  cv_status :: "string option"
  cv_source :: "string option"
  cv_channel_chat_id :: "ident option"
  cv_pinned :: bool
  cv_pinned_at :: "timestamp option"
  cv_created_at :: timestamp
  cv_updated_at :: timestamp

record chat_row = \<comment> \<open>\<open>MessageRow\<close>\<close>
  ch_id :: ident
  ch_conversation_id :: ident
  ch_msg_id :: "ident option"
  ch_type :: string
  ch_content :: string
  ch_position :: "string option"
  ch_status :: "string option"
  ch_hidden :: bool
  ch_created_at :: timestamp

record conversation_update =
  cu_name :: "string option"
  cu_extra :: "string option"
  cu_model :: "string option"
  cu_pinned :: "bool option"
  cu_pinned_at :: "timestamp option option"
  cu_updated_at :: "timestamp option"
  cu_status :: "string option"

record chat_update =
  xu_content :: "string option"
  xu_status :: "string option option"
  xu_hidden :: "bool option"

record conv_state =
  cs_conversations :: "conversation_row list"
  cs_messages :: "chat_row list"

definition conv_new :: conv_state where
  "conv_new = \<lparr>cs_conversations = [], cs_messages = []\<rparr>"

definition conv_get :: "ident \<Rightarrow> conv_state \<Rightarrow> db_error + conversation_row option" where
  "conv_get i s = Inr (find (\<lambda>c. cv_id c = i) (cs_conversations s))"

definition conv_create :: "conversation_row \<Rightarrow> conv_state \<Rightarrow> (db_error + unit) \<times> conv_state" where
  "conv_create row s =
     (if list_ex (\<lambda>c. cv_id c = cv_id row) (cs_conversations s)
      then (Inl (Conflict (''conversation '' @ cv_id row)), s)
      else (Inr (), s\<lparr>cs_conversations := cs_conversations s @ [row]\<rparr>))"

text \<open>\<open>pinned_at\<close> is in the parameters of an update but is not applied.\<close>

definition apply_conv_update :: "conversation_update \<Rightarrow> conversation_row \<Rightarrow> conversation_row" where
  "apply_conv_update u c =
     c\<lparr>cv_extra := (case cu_extra u of None \<Rightarrow> cv_extra c | Some x \<Rightarrow> x),
       cv_name := (case cu_name u of None \<Rightarrow> cv_name c | Some x \<Rightarrow> x),
       cv_model := (case cu_model u of None \<Rightarrow> cv_model c | Some x \<Rightarrow> Some x),
       cv_pinned := (case cu_pinned u of None \<Rightarrow> cv_pinned c | Some x \<Rightarrow> x),
       cv_updated_at := (case cu_updated_at u of None \<Rightarrow> cv_updated_at c | Some x \<Rightarrow> x),
       cv_status := (case cu_status u of None \<Rightarrow> cv_status c | Some x \<Rightarrow> Some x)\<rparr>"

definition conv_update :: "ident \<Rightarrow> conversation_update \<Rightarrow> conv_state \<Rightarrow> (db_error + unit) \<times> conv_state" where
  "conv_update i u s =
     (if find (\<lambda>c. cv_id c = i) (cs_conversations s) = None then (Inl (NotFound i), s)
      else (Inr (), s\<lparr>cs_conversations :=
        modify_first (\<lambda>c. cv_id c = i) (apply_conv_update u) (cs_conversations s)\<rparr>))"

definition conv_delete :: "ident \<Rightarrow> conv_state \<Rightarrow> (db_error + unit) \<times> conv_state" where
  "conv_delete i s =
     (let cs = filter (\<lambda>c. cv_id c \<noteq> i) (cs_conversations s)
      in (if length cs = length (cs_conversations s) then Inl (NotFound i) else Inr (),
          s\<lparr>cs_conversations := cs, cs_messages := filter (\<lambda>m. ch_conversation_id m \<noteq> i) (cs_messages s)\<rparr>))"

definition conv_list_paginated :: "ident \<Rightarrow> conv_state \<Rightarrow> db_error + conversation_row list" where
  "conv_list_paginated user s = Inr (filter (\<lambda>c. cv_user_id c = user) (cs_conversations s))"

definition conv_find_by_source_and_chat ::
  "ident \<Rightarrow> string \<Rightarrow> ident \<Rightarrow> string \<Rightarrow> conv_state \<Rightarrow> db_error + conversation_row option" where
  "conv_find_by_source_and_chat user source chat agent_type s =
     Inr (find (\<lambda>c. cv_user_id c = user \<and> cv_source c = Some source \<and>
            cv_channel_chat_id c = Some chat \<and> cv_type c = agent_type) (cs_conversations s))"

text \<open>The page: sorted by time (a stable sort), the first \<open>limit\<close> of them.\<close>

definition conv_list_messages_page :: "ident \<Rightarrow> int option \<Rightarrow> conv_state \<Rightarrow> db_error + chat_row list" where
  "conv_list_messages_page conv limit s =
     (let items = sort_key ch_created_at (filter (\<lambda>m. ch_conversation_id m = conv) (cs_messages s))
      in Inr (case limit of None \<Rightarrow> items | Some n \<Rightarrow> take (usize_of_i64 n) items))"

definition conv_insert_message :: "chat_row \<Rightarrow> conv_state \<Rightarrow> (db_error + unit) \<times> conv_state" where
  "conv_insert_message row s =
     (if list_ex (\<lambda>m. ch_id m = ch_id row) (cs_messages s)
      then (Inl (Conflict (''message '' @ ch_id row)), s)
      else (Inr (), s\<lparr>cs_messages := cs_messages s @ [row]\<rparr>))"

definition apply_chat_update :: "chat_update \<Rightarrow> chat_row \<Rightarrow> chat_row" where
  "apply_chat_update u m =
     m\<lparr>ch_content := (case xu_content u of None \<Rightarrow> ch_content m | Some x \<Rightarrow> x),
       ch_status := (case xu_status u of None \<Rightarrow> ch_status m | Some x \<Rightarrow> x),
       ch_hidden := (case xu_hidden u of None \<Rightarrow> ch_hidden m | Some x \<Rightarrow> x)\<rparr>"

definition conv_update_message :: "ident \<Rightarrow> chat_update \<Rightarrow> conv_state \<Rightarrow> (db_error + unit) \<times> conv_state" where
  "conv_update_message i u s =
     (if find (\<lambda>m. ch_id m = i) (cs_messages s) = None then (Inl (NotFound i), s)
      else (Inr (), s\<lparr>cs_messages := modify_first (\<lambda>m. ch_id m = i) (apply_chat_update u) (cs_messages s)\<rparr>))"

definition conv_delete_messages :: "ident \<Rightarrow> conv_state \<Rightarrow> (db_error + unit) \<times> conv_state" where
  "conv_delete_messages conv s =
     (Inr (), s\<lparr>cs_messages := filter (\<lambda>m. ch_conversation_id m \<noteq> conv) (cs_messages s)\<rparr>)"

definition conv_message_by_msg_id ::
  "ident \<Rightarrow> ident \<Rightarrow> string \<Rightarrow> conv_state \<Rightarrow> db_error + chat_row option" where
  "conv_message_by_msg_id conv mid mtype s =
     Inr (find (\<lambda>m. ch_conversation_id m = conv \<and> ch_msg_id m = Some mid \<and> ch_type m = mtype) (cs_messages s))"

end
