(* ===== verification/Message_Projection.thy ===== *)
theory Message_Projection
  imports Conversation_Repo Json_Value Crash_Detection
begin

text \<open>
  What the user sees of the team's messages: the visibility policies and the removal of
  system notes (crates/team/src/visibility.rs), and the projection of a message into the
  conversation of an agent (crates/team/src/message_projection.rs) over a store of projected
  messages, whose implementation is \<open>ProjectionStoreAdapter\<close> (crates/app/src/adapters.rs).
\<close>

subsection \<open>Visibility\<close>

record visibility_policy =
  vp_write_mailbox :: bool
  vp_insert_user_visible_bubble :: bool
  vp_insert_teammate_visible_bubble :: bool
  vp_allow_hidden_conversation_message :: bool
  vp_strip_system_notes :: bool

definition user_message_policy :: visibility_policy where
  "user_message_policy =
     \<lparr>vp_write_mailbox = True, vp_insert_user_visible_bubble = True,
      vp_insert_teammate_visible_bubble = False, vp_allow_hidden_conversation_message = False,
      vp_strip_system_notes = True\<rparr>"

definition teammate_message_policy :: visibility_policy where
  "teammate_message_policy =
     \<lparr>vp_write_mailbox = True, vp_insert_user_visible_bubble = False,
      vp_insert_teammate_visible_bubble = True, vp_allow_hidden_conversation_message = False,
      vp_strip_system_notes = False\<rparr>"

definition hidden_runtime_policy :: visibility_policy where
  "hidden_runtime_policy =
     \<lparr>vp_write_mailbox = False, vp_insert_user_visible_bubble = False,
      vp_insert_teammate_visible_bubble = False, vp_allow_hidden_conversation_message = True,
      vp_strip_system_notes = False\<rparr>"

definition note_marker :: string where
  "note_marker = ''[SYSTEM NOTE:''"

definition line_feed :: char where
  "line_feed = CHR 0x0A"

text \<open>
  The loop of \<open>strip_system_notes\<close> over the text kept so far and the rest. Each round drops at
  least the marker, so the rest gets shorter; the final \<open>push_str\<close> is the result.
\<close>

function strip_loop :: "string \<Rightarrow> string \<Rightarrow> string" where
  "strip_loop result rest =
     (case str_find note_marker rest of
        None \<Rightarrow> result @ rest
      | Some start \<Rightarrow>
        let result1 = result @ take start rest
        in case str_find '']'' (drop start rest) of
             None \<Rightarrow> result1 @ drop start rest
           | Some end_at \<Rightarrow>
             let after = drop (start + end_at + 1) rest;
                 next_rest = (if result1 \<noteq> [] \<and> last result1 = line_feed \<and> after \<noteq> [] \<and> hd after = line_feed
                              then tl after else after)
             in strip_loop result1 next_rest)"
  by pat_completeness auto

lemma str_find_marker_nonempty: "str_find note_marker rest = Some n \<Longrightarrow> n < length rest"
  by (drule str_find_Some) (auto simp: is_prefix_iff note_marker_def intro: ccontr)

termination strip_loop
  by (relation "measure (\<lambda>(result, rest). length rest)") (auto dest!: str_find_marker_nonempty)

declare strip_loop.simps [simp del]

definition strip_system_notes :: "(string \<Rightarrow> string) \<Rightarrow> string \<Rightarrow> string" where \<comment> \<open>\<open>trim\<close>: \<open>str::trim\<close>\<close>
  "strip_system_notes trim text = trim (strip_loop [] text)"

subsection \<open>Requests\<close>

datatype projection_source =
    FromUser
  | FromTeamSystem
  | FromTeammate ident string "string option" "ident option"
    \<comment> \<open>slot, name, backend and conversation of the sender\<close>

record projection_request =
  pq_team_id :: ident
  pq_slot_id :: ident
  pq_conversation_id :: ident
  pq_source :: projection_source
  pq_content :: string
  pq_files :: "string list"
  pq_visibility :: visibility_policy
  pq_dedupe_key :: "string option"

definition teammate_dedupe_key :: "ident \<Rightarrow> ident \<Rightarrow> ident \<Rightarrow> string" where
  "teammate_dedupe_key team_id message_id conversation_id =
     ''team:'' @ team_id @ '':mailbox:'' @ message_id @ '':conversation:'' @ conversation_id"

definition user_visible :: "ident \<Rightarrow> ident \<Rightarrow> ident \<Rightarrow> string \<Rightarrow> string list \<Rightarrow> projection_request" where
  "user_visible team_id slot_id conversation_id content files =
     \<lparr>pq_team_id = team_id, pq_slot_id = slot_id, pq_conversation_id = conversation_id,
      pq_source = FromUser, pq_content = content, pq_files = files,
      pq_visibility = user_message_policy, pq_dedupe_key = None\<rparr>"

definition teammate_visible ::
  "ident \<Rightarrow> ident \<Rightarrow> ident \<Rightarrow> ident \<Rightarrow> string \<Rightarrow> string \<Rightarrow> ident \<Rightarrow> projection_request" where
  "teammate_visible team_id slot_id conversation_id from_slot_id from_name content message_id =
     \<lparr>pq_team_id = team_id, pq_slot_id = slot_id, pq_conversation_id = conversation_id,
      pq_source = FromTeammate from_slot_id from_name None None, pq_content = content, pq_files = [],
      pq_visibility = teammate_message_policy,
      pq_dedupe_key = Some (teammate_dedupe_key team_id message_id conversation_id)\<rparr>"

definition team_system_visible ::
  "ident \<Rightarrow> ident \<Rightarrow> ident \<Rightarrow> string \<Rightarrow> ident \<Rightarrow> projection_request" where
  "team_system_visible team_id slot_id conversation_id content message_id =
     \<lparr>pq_team_id = team_id, pq_slot_id = slot_id, pq_conversation_id = conversation_id,
      pq_source = FromTeamSystem, pq_content = content, pq_files = [],
      pq_visibility = teammate_message_policy,
      pq_dedupe_key = Some (teammate_dedupe_key team_id message_id conversation_id)\<rparr>"

definition should_insert_visible_bubble :: "projection_request \<Rightarrow> bool" where
  "should_insert_visible_bubble q =
     (case pq_source q of
        FromUser \<Rightarrow> vp_insert_user_visible_bubble (pq_visibility q)
      | FromTeamSystem \<Rightarrow> vp_insert_teammate_visible_bubble (pq_visibility q)
      | FromTeammate _ _ _ _ \<Rightarrow> vp_insert_teammate_visible_bubble (pq_visibility q))"

datatype projected = Inserted ident | AlreadyProjected ident | ProjectionSkipped

subsection \<open>The row of a projected message\<close>

definition TEXT_MESSAGE_TYPE :: string where "TEXT_MESSAGE_TYPE = ''text''"
definition TEAMMATE_MESSAGE_EVENT :: string where "TEAMMATE_MESSAGE_EVENT = ''team.teammateMessage''"

definition bubble_content ::
  "'j value_ops \<Rightarrow> (string \<Rightarrow> string) \<Rightarrow> projection_request \<Rightarrow> string \<times> 'j" where
  "bubble_content vo trim q =
     (case pq_source q of
        FromUser \<Rightarrow>
          (''right'', jv_obj vo [(''content'', jv_str vo
             (if vp_strip_system_notes (pq_visibility q) then strip_system_notes trim (pq_content q) else pq_content q))])
      | FromTeamSystem \<Rightarrow>
          (''left'', jv_obj vo [(''content'', jv_str vo (pq_content q)), (''teammate_message'', jv_bool vo True),
             (''sender_name'', jv_str vo ''team_system''), (''sender_backend'', jv_null vo),
             (''sender_conversation_id'', jv_null vo)])
      | FromTeammate from_slot_id from_name backend conv \<Rightarrow>
          (''left'', jv_obj vo [(''content'', jv_str vo (pq_content q)), (''teammate_message'', jv_bool vo True),
             (''sender_name'', jv_str vo from_name), (''sender_backend'', jv_opt_str vo backend),
             (''sender_conversation_id'', jv_opt_str vo conv)]))"

definition build_message_row ::
  "'j json_ops \<Rightarrow> 'j value_ops \<Rightarrow> (string \<Rightarrow> string) \<Rightarrow> projection_request \<Rightarrow> ident \<Rightarrow> timestamp
     \<Rightarrow> team_error + chat_row" where
  "build_message_row js vo trim q mid created_at =
     (case bubble_content vo trim q of (position, content) \<Rightarrow>
        case js_value_to js content of
          Inl e \<Rightarrow> Inl (Json e)
        | Inr text \<Rightarrow>
          Inr \<lparr>ch_id = mid, ch_conversation_id = pq_conversation_id q, ch_msg_id = Some mid,
               ch_type = TEXT_MESSAGE_TYPE, ch_content = text, ch_position = Some position,
               ch_status = Some ''finish'',
               ch_hidden = vp_allow_hidden_conversation_message (pq_visibility q),
               ch_created_at = created_at\<rparr>)"

definition teammate_event ::
  "'j value_ops \<Rightarrow> projection_request \<Rightarrow> ident \<Rightarrow> ident \<Rightarrow> string \<Rightarrow> string option \<Rightarrow> ident option \<Rightarrow> 'j" where
  "teammate_event vo q mid from_slot_id from_name backend conv =
     jv_obj vo [(''team_id'', jv_str vo (pq_team_id q)), (''slot_id'', jv_str vo (pq_slot_id q)),
       (''conversation_id'', jv_str vo (pq_conversation_id q)), (''msg_id'', jv_str vo mid),
       (''content'', jv_str vo (pq_content q)), (''from_slot_id'', jv_str vo from_slot_id),
       (''from_name'', jv_str vo from_name), (''teammate_message'', jv_bool vo True),
       (''sender_backend'', jv_opt_str vo backend), (''sender_conversation_id'', jv_opt_str vo conv)]"

definition teammate_event_payload :: "'j value_ops \<Rightarrow> projection_request \<Rightarrow> ident \<Rightarrow> 'j option" where
  "teammate_event_payload vo q mid =
     (case pq_source q of
        FromTeammate from_slot_id from_name backend conv \<Rightarrow>
          Some (teammate_event vo q mid from_slot_id from_name backend conv)
      | FromTeamSystem \<Rightarrow> Some (teammate_event vo q mid ''team_system'' ''team_system'' None None)
      | FromUser \<Rightarrow> None)"

subsection \<open>Projecting\<close>

record 'p projection_store =
  ps_find :: "ident \<Rightarrow> ident \<Rightarrow> string \<Rightarrow> 'p \<Rightarrow> team_error + chat_row option"
  ps_insert :: "chat_row \<Rightarrow> 'p \<Rightarrow> (team_error + unit) \<times> 'p"

record ('j, 'p) projection_state =
  pj_store :: 'p
  pj_events :: "(string \<times> 'j) list" \<comment> \<open>broadcast, oldest first\<close>

definition project ::
  "'j json_ops \<Rightarrow> 'j value_ops \<Rightarrow> (string \<Rightarrow> string) \<Rightarrow> 'p projection_store \<Rightarrow> ident \<Rightarrow> timestamp
     \<Rightarrow> projection_request \<Rightarrow> ('j, 'p) projection_state \<Rightarrow> (team_error + projected) \<times> ('j, 'p) projection_state" where
  "project js vo trim ps minted now q s =
     (if \<not> should_insert_visible_bubble q then (Inr ProjectionSkipped, s)
      else
        let mid = (case pq_dedupe_key q of None \<Rightarrow> minted | Some k \<Rightarrow> k)
        in case (if pq_dedupe_key q \<noteq> None then ps_find ps (pq_conversation_id q) mid TEXT_MESSAGE_TYPE (pj_store s)
                 else Inr None) of
             Inl e \<Rightarrow> (Inl e, s)
           | Inr (Some existing) \<Rightarrow>
               (Inr (AlreadyProjected (case ch_msg_id existing of None \<Rightarrow> ch_id existing | Some x \<Rightarrow> x)), s)
           | Inr None \<Rightarrow>
             (case build_message_row js vo trim q mid now of
                Inl e \<Rightarrow> (Inl e, s)
              | Inr row \<Rightarrow>
                (case ps_insert ps row (pj_store s) of
                   (Inl e, p1) \<Rightarrow> (Inl e, s\<lparr>pj_store := p1\<rparr>)
                 | (Inr _, p1) \<Rightarrow>
                   (Inr (Inserted mid),
                    s\<lparr>pj_store := p1,
                      pj_events := pj_events s @
                        (case teammate_event_payload vo q mid of None \<Rightarrow> []
                         | Some payload \<Rightarrow> [(TEAMMATE_MESSAGE_EVENT, payload)])\<rparr>))))"

subsection \<open>The store of the application\<close>

definition invalid_request :: "db_error + 'a \<Rightarrow> team_error + 'a" where
  "invalid_request = map_err (\<lambda>e. InvalidRequest (db_error_display e))"

definition adapter_find :: "ident \<Rightarrow> ident \<Rightarrow> string \<Rightarrow> conv_state \<Rightarrow> team_error + chat_row option" where
  "adapter_find conv mid mtype s = invalid_request (conv_message_by_msg_id conv mid mtype s)"

definition adapter_insert :: "chat_row \<Rightarrow> conv_state \<Rightarrow> (team_error + unit) \<times> conv_state" where
  "adapter_insert row s = (case conv_insert_message row s of (r, s1) \<Rightarrow> (invalid_request r, s1))"

definition adapter_store :: "conv_state projection_store" where
  "adapter_store = \<lparr>ps_find = adapter_find, ps_insert = adapter_insert\<rparr>"

end
