(* ===== verification/Message_Projection_Claims.thy ===== *)
theory Message_Projection_Claims
  imports Message_Projection
begin

text \<open>
  The contract of the store of projected messages as a locale, that a message with a
  deduplication key reaches a conversation once, and what removing system notes does.
\<close>

subsection \<open>The contract of the store\<close>

lemma find_filter: "find p xs = (case filter p xs of [] \<Rightarrow> None | x # _ \<Rightarrow> Some x)"
  by (induction xs) auto

text \<open>Several projections, one after the other.\<close>

fun project_all ::
  "'j json_ops \<Rightarrow> 'j value_ops \<Rightarrow> (string \<Rightarrow> string) \<Rightarrow> 'p projection_store
     \<Rightarrow> (ident \<times> timestamp \<times> projection_request) list \<Rightarrow> ('j, 'p) projection_state \<Rightarrow> ('j, 'p) projection_state" where
  "project_all js vo trim ps [] s = s"
| "project_all js vo trim ps ((minted, now, q) # qs) s =
     project_all js vo trim ps qs (snd (project js vo trim ps minted now q s))"

definition bubble_for :: "ident \<Rightarrow> ident \<Rightarrow> chat_row \<Rightarrow> bool" where
  "bubble_for conv mid r \<longleftrightarrow> ch_conversation_id r = conv \<and> ch_msg_id r = Some mid \<and> ch_type r = TEXT_MESSAGE_TYPE"

locale projected_rows =
  fixes ps :: "'p projection_store" and rows :: "'p \<Rightarrow> chat_row list"
  assumes find_law: "ps_find ps conv mid ty s =
      Inr (find (\<lambda>r. ch_conversation_id r = conv \<and> ch_msg_id r = Some mid \<and> ch_type r = ty) (rows s))"
    and insert_law: "ps_insert ps row s = (r, s') \<Longrightarrow>
      rows s' = (case r of Inl _ \<Rightarrow> rows s | Inr _ \<Rightarrow> rows s @ [row])"
begin

lemma find_bubble: "ps_find ps conv mid TEXT_MESSAGE_TYPE s =
    Inr (case filter (bubble_for conv mid) (rows s) of [] \<Rightarrow> None | r # _ \<Rightarrow> Some r)"
  by (simp add: find_law find_filter bubble_for_def [abs_def])

text \<open>A projection appends rows; a row with a key is appended only when none is there.\<close>

lemma project_rows:
  assumes "project js vo trim ps minted now q s = (res, s')"
  shows "rows (pj_store s') = rows (pj_store s) \<and> pj_events s' = pj_events s \<and> (\<forall>m. res \<noteq> Inr (Inserted m)) \<or>
    (\<exists>row m. res = Inr (Inserted m) \<and> rows (pj_store s') = rows (pj_store s) @ [row] \<and>
       build_message_row js vo trim q m now = Inr row \<and> bubble_for (pq_conversation_id q) m row \<and>
       (\<forall>k. pq_dedupe_key q = Some k \<longrightarrow> m = k \<and> filter (bubble_for (pq_conversation_id q) k) (rows (pj_store s)) = []))"
proof -
  let ?mid = "case pq_dedupe_key q of None \<Rightarrow> minted | Some k \<Rightarrow> k"
  show ?thesis
  proof (cases "should_insert_visible_bubble q \<and>
      (pq_dedupe_key q = None \<or> filter (bubble_for (pq_conversation_id q) ?mid) (rows (pj_store s)) = [])")
    case False
    then have "s' = s \<and> (\<forall>m. res \<noteq> Inr (Inserted m))"
      using assms by (auto simp: project_def Let_def find_bubble neq_Nil_conv split: if_splits)
    then show ?thesis by blast
  next
    case True
    show ?thesis
    proof (cases "build_message_row js vo trim q ?mid now")
      case (Inl e)
      with True assms have "s' = s \<and> (\<forall>m. res \<noteq> Inr (Inserted m))"
        by (auto simp: project_def Let_def find_bubble split: if_splits)
      then show ?thesis by blast
    next
      case (Inr row)
      obtain r p1 where ins: "ps_insert ps row (pj_store s) = (r, p1)" by fastforce
      have row: "bubble_for (pq_conversation_id q) ?mid row"
        using Inr by (auto simp: build_message_row_def bubble_for_def split: prod.splits sum.splits)
      show ?thesis
      proof (cases r)
        case (Inl e)
        with True Inr ins assms insert_law [OF ins] show ?thesis
          by (auto simp: project_def Let_def find_bubble split: if_splits)
      next
        case (Inr u)
        with True \<open>build_message_row js vo trim q ?mid now = Inr row\<close> ins assms
        have "res = Inr (Inserted ?mid)" "pj_store s' = p1"
          by (auto simp: project_def Let_def find_bubble split: if_splits)
        moreover have "rows p1 = rows (pj_store s) @ [row]"
          using insert_law [OF ins] Inr by simp
        ultimately show ?thesis
          using True row \<open>build_message_row js vo trim q ?mid now = Inr row\<close> by (auto split: option.splits)
      qed
    qed
  qed
qed

lemma project_keeps_rows:
  "project js vo trim ps minted now q s = (res, s') \<Longrightarrow> \<exists>new. rows (pj_store s') = rows (pj_store s) @ new"
  using project_rows [of js vo trim minted now q s res s'] by auto

lemma project_all_keeps_rows:
  "\<exists>new. rows (pj_store (project_all js vo trim ps qs s)) = rows (pj_store s) @ new"
proof (induction qs arbitrary: s)
  case (Cons x qs)
  obtain minted now q where x: "x = (minted, now, q)" by (cases x)
  obtain res s1 where "project js vo trim ps minted now q s = (res, s1)" by fastforce
  with project_keeps_rows [OF this] Cons [of s1] show ?case by (auto simp: x)
qed simp

text \<open>Once a key is in a conversation, projecting it again reports it and changes nothing.\<close>

lemma project_again:
  assumes "bubble_for (pq_conversation_id q) k row" "row \<in> set (rows (pj_store s))"
    and "pq_dedupe_key q = Some k" "should_insert_visible_bubble q"
  shows "project js vo trim ps minted now q s = (Inr (AlreadyProjected k), s)"
proof -
  obtain r rs where r: "filter (bubble_for (pq_conversation_id q) k) (rows (pj_store s)) = r # rs"
    using assms(1,2) by (cases "filter (bubble_for (pq_conversation_id q) k) (rows (pj_store s))")
      (auto simp: filter_empty_conv)
  then have "r \<in> set (filter (bubble_for (pq_conversation_id q) k) (rows (pj_store s)))"
    by simp
  then have "bubble_for (pq_conversation_id q) k r"
    by simp
  with r assms(3,4) show ?thesis
    by (simp add: project_def Let_def find_bubble bubble_for_def)
qed

lemma project_once:
  assumes first: "project js vo trim ps minted now q s = (Inr (Inserted k), s1)" and key: "pq_dedupe_key q = Some k'"
    and again: "pq_dedupe_key q' = Some k'" "pq_conversation_id q' = pq_conversation_id q" "should_insert_visible_bubble q'"
  shows "k = k' \<and> project js vo trim ps minted' now' q' (project_all js vo trim ps qs s1) =
    (Inr (AlreadyProjected k'), project_all js vo trim ps qs s1)"
proof -
  obtain row where row: "rows (pj_store s1) = rows (pj_store s) @ [row]" "bubble_for (pq_conversation_id q) k row" "k = k'"
    using project_rows [OF first] key by auto
  obtain new where "rows (pj_store (project_all js vo trim ps qs s1)) = rows (pj_store s1) @ new"
    using project_all_keeps_rows [of js vo trim qs s1] by blast
  with row have "row \<in> set (rows (pj_store (project_all js vo trim ps qs s1)))" by simp
  then show ?thesis
    using project_again [of q' k' row] row again by simp
qed

end

interpretation bubbles: projected_rows adapter_store cs_messages
proof
  fix conv mid ty s
  show "ps_find adapter_store conv mid ty s =
      Inr (find (\<lambda>r. ch_conversation_id r = conv \<and> ch_msg_id r = Some mid \<and> ch_type r = ty) (cs_messages s))"
    by (simp add: adapter_store_def adapter_find_def invalid_request_def conv_message_by_msg_id_def)
next
  fix row s r s'
  assume "ps_insert adapter_store row s = (r, s')"
  then show "cs_messages s' = (case r of Inl _ \<Rightarrow> cs_messages s | Inr _ \<Rightarrow> cs_messages s @ [row])"
    by (auto simp: adapter_store_def adapter_insert_def conv_insert_message_def invalid_request_def
        split: if_splits sum.splits)
qed

text \<open>C38: A team message is shown in a conversation once: after a projection with a deduplication key has inserted its row, every later projection with that key into that conversation, whatever was projected in between, is answered with that message, stores no row and broadcasts no event.\<close>

theorem message_projected_once:
  assumes "project js vo trim adapter_store minted now q s = (Inr (Inserted k), s1)" and "pq_dedupe_key q = Some key"
    and "pq_dedupe_key q' = Some key" "pq_conversation_id q' = pq_conversation_id q" "should_insert_visible_bubble q'"
  shows "k = key \<and> (let s2 = project_all js vo trim adapter_store qs s1
    in project js vo trim adapter_store minted' now' q' s2 = (Inr (AlreadyProjected key), s2))"
  using bubbles.project_once [OF assms] by (simp add: Let_def)

definition demo_projection :: "(json_tree, conv_state) projection_state" where
  "demo_projection = \<lparr>pj_store = conv_new, pj_events = []\<rparr>"

theorem message_projected_once_witness:
  "\<exists>k s1. k = teammate_dedupe_key ''t'' ''m'' ''c'' \<and>
     (let s2 = project_all tree_json tree_ops (\<lambda>s. s) adapter_store
        [(''x'', 4, user_visible ''t'' ''bob'' ''c'' ''hello'' [])] s1
      in project tree_json tree_ops (\<lambda>s. s) adapter_store ''y'' 9
           (team_system_visible ''t'' ''bob'' ''c'' ''again'' ''m'') s2 = (Inr (AlreadyProjected k), s2))"
proof -
  let ?q = "teammate_visible ''t'' ''bob'' ''c'' ''eve'' ''Eve'' ''hi'' ''m''"
  let ?p = "project tree_json tree_ops (\<lambda>s. s) adapter_store ''w'' 3 ?q demo_projection"
  have "fst ?p = Inr (Inserted (teammate_dedupe_key ''t'' ''m'' ''c''))"
    by (simp add: project_def teammate_visible_def should_insert_visible_bubble_def teammate_message_policy_def
        adapter_store_def adapter_find_def adapter_insert_def conv_message_by_msg_id_def invalid_request_def
        demo_projection_def conv_new_def build_message_row_def bubble_content_def tree_json_def
        conv_insert_message_def Let_def)
  then obtain s1 where s1: "project tree_json tree_ops (\<lambda>s. s) adapter_store ''w'' 3 ?q demo_projection =
      (Inr (Inserted (teammate_dedupe_key ''t'' ''m'' ''c'')), s1)"
    by (metis prod.collapse)
  have "teammate_dedupe_key ''t'' ''m'' ''c'' = teammate_dedupe_key ''t'' ''m'' ''c'' \<and>
     (let s2 = project_all tree_json tree_ops (\<lambda>s. s) adapter_store
        [(''x'', 4, user_visible ''t'' ''bob'' ''c'' ''hello'' [])] s1
      in project tree_json tree_ops (\<lambda>s. s) adapter_store ''y'' 9
           (team_system_visible ''t'' ''bob'' ''c'' ''again'' ''m'') s2 =
         (Inr (AlreadyProjected (teammate_dedupe_key ''t'' ''m'' ''c'')), s2))"
    by (rule message_projected_once [OF s1])
      (simp_all add: teammate_visible_def team_system_visible_def should_insert_visible_bubble_def
        teammate_message_policy_def)
  then show ?thesis by blast
qed

subsection \<open>Removing system notes\<close>

lemma str_find_skip: "c \<notin> set p \<Longrightarrow> str_find (c # pat) (p @ s) = map_option (\<lambda>n. length p + n) (str_find (c # pat) s)"
proof (induction p)
  case (Cons a p)
  then show ?case by (cases "str_find (c # pat) s") auto
qed (cases "str_find (c # pat) s"; simp)

lemma str_find_here [simp]: "str_find (c # pat) ((c # pat) @ s) = Some 0"
  by (simp add: is_prefix_iff)

lemma str_find_absent: "c \<notin> set s \<Longrightarrow> str_find (c # pat) s = None"
  using str_find_skip [of c s pat "[]"] by simp

text \<open>Pieces of text put together: between two pieces one of two line feeds is dropped.\<close>

definition starts_with_feed :: "string \<Rightarrow> bool" where
  "starts_with_feed s \<longleftrightarrow> s \<noteq> [] \<and> hd s = line_feed"

fun splice :: "string \<Rightarrow> string list \<Rightarrow> string" where
  "splice res [] = res"
| "splice res (p # ps) =
     splice (res @ (if res \<noteq> [] \<and> last res = line_feed \<and> starts_with_feed p then tl p else p)) ps"

definition with_notes :: "(string \<times> string) list \<Rightarrow> string \<Rightarrow> string" where
  "with_notes nts rest = concat (map (\<lambda>(p, b). p @ note_marker @ b @ '']'') nts) @ rest"

lemma with_notes_Cons [simp]: "with_notes ((p, b) # nts) rest = p @ note_marker @ b @ '']'' @ with_notes nts rest"
  by (simp add: with_notes_def)

text \<open>The text after a note, with the first piece that follows it.\<close>

definition first_piece :: "(string \<times> string) list \<Rightarrow> string \<Rightarrow> string" where
  "first_piece nts rest = (case nts of [] \<Rightarrow> rest | (p, _) # _ \<Rightarrow> p)"

fun set_first :: "(string \<Rightarrow> string) \<Rightarrow> (string \<times> string) list \<Rightarrow> string \<Rightarrow> (string \<times> string) list \<times> string" where
  "set_first f [] rest = ([], f rest)"
| "set_first f ((p, b) # nts) rest = ((f p, b) # nts, rest)"

lemma starts_with_notes: "starts_with_feed (with_notes nts rest) \<longleftrightarrow> starts_with_feed (first_piece nts rest)"
proof (cases nts)
  case (Cons x xs)
  then show ?thesis
    by (cases x; cases "fst x") (auto simp: first_piece_def starts_with_feed_def note_marker_def line_feed_def)
qed (simp add: first_piece_def with_notes_def)

lemma tl_with_notes:
  "starts_with_feed (first_piece nts rest) \<Longrightarrow>
     tl (with_notes nts rest) = (case set_first tl nts rest of (n, r) \<Rightarrow> with_notes n r)"
  by (cases nts) (auto simp: first_piece_def starts_with_feed_def with_notes_def)

lemma strip_step:
  assumes "CHR ''['' \<notin> set p" "CHR '']'' \<notin> set b"
  shows "strip_loop res (p @ note_marker @ b @ '']'' @ after) =
    strip_loop (res @ p) (if res @ p \<noteq> [] \<and> last (res @ p) = line_feed \<and> starts_with_feed after then tl after else after)"
proof -
  have 1: "str_find note_marker (p @ note_marker @ b @ '']'' @ after) = Some (length p)"
    using str_find_skip [OF assms(1)] unfolding note_marker_def by (simp add: is_prefix_iff)
  have "CHR '']'' \<notin> set (note_marker @ b)" using assms(2) by (simp add: note_marker_def)
  then have 2: "str_find '']'' (note_marker @ b @ '']'' @ after) = Some (length (note_marker @ b))"
    using str_find_skip [of "CHR '']''" "note_marker @ b" "[]" "'']'' @ after"] by simp
  show ?thesis
    by (subst strip_loop.simps) (use 1 2 in \<open>simp add: Let_def starts_with_feed_def\<close>)
qed

lemma strip_loop_notes:
  assumes "\<forall>(p, b) \<in> set nts. CHR ''['' \<notin> set p \<and> CHR '']'' \<notin> set b" "CHR ''['' \<notin> set rest"
  shows "strip_loop res (with_notes nts rest) = splice (res @ first_piece nts rest) (case nts of [] \<Rightarrow> [] | _ # ns \<Rightarrow> map fst ns @ [rest])"
  using assms
proof (induction "length nts" arbitrary: nts rest res)
  case 0
  then show ?case
    by (subst strip_loop.simps) (simp add: with_notes_def first_piece_def str_find_absent note_marker_def)
next
  case (Suc n)
  then obtain p b ns where nts: "nts = (p, b) # ns" by (cases nts) auto
  let ?merge = "res @ p \<noteq> [] \<and> last (res @ p) = line_feed \<and> starts_with_feed (first_piece ns rest)"
  obtain ns' rest' where pieces: "set_first (if ?merge then tl else (\<lambda>s. s)) ns rest = (ns', rest')" by fastforce
  have tl_set: "set (tl q) \<subseteq> set q" for q :: string by (cases q) auto
  have ok: "\<forall>(p, b) \<in> set ns'. CHR ''['' \<notin> set p \<and> CHR '']'' \<notin> set b" "CHR ''['' \<notin> set rest'" "length ns' = n"
    and first: "first_piece ns' rest' = (if ?merge then tl else (\<lambda>s. s)) (first_piece ns rest)"
    and others: "(case ns' of [] \<Rightarrow> [] | _ # ms \<Rightarrow> map fst ms @ [rest']) = (case ns of [] \<Rightarrow> [] | _ # ms \<Rightarrow> map fst ms @ [rest])"
    using Suc.prems Suc.hyps(2) pieces tl_set unfolding nts
    by (cases ns; fastforce simp: first_piece_def split: if_splits)+
  have "with_notes ns' rest' = (if ?merge then tl (with_notes ns rest) else with_notes ns rest)"
  proof (cases ?merge)
    case True
    then show ?thesis using pieces tl_with_notes [of ns rest] by simp
  next
    case False
    have "set_first (\<lambda>s. s) ns rest = (ns, rest)" by (cases ns) auto
    then show ?thesis using False pieces by (auto split: if_splits)
  qed
  note merged = this
  have "strip_loop res (with_notes nts rest) = strip_loop (res @ p) (if ?merge then tl (with_notes ns rest) else with_notes ns rest)"
    using strip_step [of p b res "with_notes ns rest"] Suc.prems unfolding nts with_notes_Cons starts_with_notes by auto
  then have "strip_loop res (with_notes nts rest) = strip_loop (res @ p) (with_notes ns' rest')"
    unfolding merged .
  also have "\<dots> = splice ((res @ p) @ first_piece ns' rest') (case ns' of [] \<Rightarrow> [] | _ # ms \<Rightarrow> map fst ms @ [rest'])"
    by (rule Suc.hyps(1) [OF ok(3) [symmetric] ok(1,2)])
  also have "\<dots> = splice (res @ p) (map fst ns @ [rest])"
  proof -
    have pick: "(if ?merge then tl else (\<lambda>s. s)) (first_piece ns rest) =
        (if ?merge then tl (first_piece ns rest) else first_piece ns rest)" by (simp only: if_distribR)
    have rest: "map fst ns @ [rest] = first_piece ns rest # (case ns of [] \<Rightarrow> [] | _ # ms \<Rightarrow> map fst ms @ [rest])"
      by (cases ns) (simp_all add: first_piece_def split_beta)
    show ?thesis unfolding first others pick rest splice.simps ..
  qed
  finally show ?case by (simp add: nts first_piece_def)
qed

lemma set_splice: "set (splice res ps) \<subseteq> set res \<union> \<Union> (set ` set ps)"
proof (induction ps arbitrary: res)
  case (Cons p ps)
  have "set (tl p) \<subseteq> set p" by (cases p) auto
  then show ?case using Cons [of "res @ tl p"] Cons [of "res @ p"] by auto
qed simp

text \<open>The text shown for a user's message has no system note left: of a text in which the notes stand between pieces of text without an opening bracket, exactly the pieces remain, in order, trimmed, one line feed instead of two where a note stood on a line of its own; what is left has no note marker.\<close>

theorem system_notes_removed:
  assumes "\<forall>(p, b) \<in> set nts. CHR ''['' \<notin> set p \<and> CHR '']'' \<notin> set b" and "CHR ''['' \<notin> set rest"
  shows "strip_system_notes trim (with_notes nts rest) = trim (splice [] (map fst nts @ [rest])) \<and>
    \<not> str_contains note_marker (splice [] (map fst nts @ [rest]))"
proof
  have "strip_loop [] (with_notes nts rest) = splice [] (map fst nts @ [rest])"
    using strip_loop_notes [OF assms, of "[]"] by (cases nts) (auto simp: first_piece_def)
  then show "strip_system_notes trim (with_notes nts rest) = trim (splice [] (map fst nts @ [rest]))"
    by (simp add: strip_system_notes_def)
  have "CHR ''['' \<notin> set (splice [] (map fst nts @ [rest]))"
    using set_splice [of "[]" "map fst nts @ [rest]"] assms by fastforce
  then show "\<not> str_contains note_marker (splice [] (map fst nts @ [rest]))"
    using str_find_absent [of "CHR ''[''"] by (simp add: str_contains_def note_marker_def)
qed

theorem system_notes_removed_witness:
  "strip_system_notes (\<lambda>s. s) (with_notes [(''Visible '', '' internal'')] ''text'') = splice [] [''Visible '', ''text''] \<and>
    \<not> str_contains note_marker (splice [] [''Visible '', ''text''])"
  using system_notes_removed [of "[(''Visible '', '' internal'')]" "''text''" "\<lambda>s. s"] by simp

text \<open>Removing a note can put the two halves of another one together.\<close>

lemma split_note_survives:
  "strip_system_notes (\<lambda>s. s) ''[SYS[SYSTEM NOTE: x]TEM NOTE: secret]'' = ''[SYSTEM NOTE: secret]''"
  by (simp add: strip_system_notes_def strip_loop.simps note_marker_def line_feed_def Let_def)

end
