(* ===== verification/Tool_Specs.thy ===== *)
theory Tool_Specs
  imports Json_Value Text_Format
begin

text \<open>
  The team tools an agent can call (crates/api-types/src/team_tools.rs): names, permissions,
  descriptions, JSON schemas of the arguments, command lines, and the lookups over them.
\<close>

datatype tool_permission = AnyTeamAgent | LeadOnly

datatype tool_role = ToolLead | ToolTeammate

datatype tool_transport = TransportMcp | TransportCliAssumed

datatype tool_name =
    TeamMembers
  | TeamSendMessage
  | TeamTaskCreate
  | TeamTaskUpdate
  | TeamTaskList
  | TeamListAssistants
  | TeamDescribeAssistant
  | TeamSpawnAgent
  | TeamRenameAgent
  | TeamShutdownAgent

fun tool_name_str :: "tool_name \<Rightarrow> string" where
  "tool_name_str TeamMembers = ''team_members''"
| "tool_name_str TeamSendMessage = ''team_send_message''"
| "tool_name_str TeamTaskCreate = ''team_task_create''"
| "tool_name_str TeamTaskUpdate = ''team_task_update''"
| "tool_name_str TeamTaskList = ''team_task_list''"
| "tool_name_str TeamListAssistants = ''team_list_assistants''"
| "tool_name_str TeamDescribeAssistant = ''team_describe_assistant''"
| "tool_name_str TeamSpawnAgent = ''team_spawn_agent''"
| "tool_name_str TeamRenameAgent = ''team_rename_agent''"
| "tool_name_str TeamShutdownAgent = ''team_shutdown_agent''"

definition tool_name_parse :: "string \<Rightarrow> tool_name option" where
  "tool_name_parse value =
     (if value = ''team_members'' then Some TeamMembers
      else if value = ''team_send_message'' then Some TeamSendMessage
      else if value = ''team_task_create'' then Some TeamTaskCreate
      else if value = ''team_task_update'' then Some TeamTaskUpdate
      else if value = ''team_task_list'' then Some TeamTaskList
      else if value = ''team_list_assistants'' then Some TeamListAssistants
      else if value = ''team_describe_assistant'' then Some TeamDescribeAssistant
      else if value = ''team_spawn_agent'' then Some TeamSpawnAgent
      else if value = ''team_rename_agent'' then Some TeamRenameAgent
      else if value = ''team_shutdown_agent'' then Some TeamShutdownAgent
      else None)"

record 'j tool_spec =
  tsp_name :: tool_name
  tsp_permission :: tool_permission
  tsp_description :: string
  tsp_input_schema :: 'j
  tsp_cli_command :: "string list"
  tsp_when :: string
  tsp_input_summary :: string

subsection \<open>The ten tools\<close>

definition TEAM_SPAWN_AGENT_DESCRIPTION :: string where
  \<open>TEAM_SPAWN_AGENT_DESCRIPTION =
     ''Create a new teammate agent to join the team.'' @ newline @ newline @ ''Use this only when one of the following is true:'' @ newline @
     ''- The user explicitly approved the proposed teammate lineup in a previous message'' @ newline @
     ''- The user explicitly instructed you to create a specific teammate immediately'' @ newline @ newline @
     ''Before calling this tool in the normal planning flow:'' @ newline @
     ''- Start with one short sentence explaining why additional teammates would help'' @ newline @ ''- Tell the user which teammate(s) you recommend'' @
     newline @ ''- Present the proposal as a table with: name, responsibility, and recommended assistant'' @ newline @ ''- Include each teammate'' @
     [CHR 0x27] @ ''s responsibility and recommended assistant'' @ newline @
     ''- Ask whether to create them as proposed or change any names, responsibilities, or assistant choices'' @ newline @
     ''- In that approval question, remind the user that they can later ask you to replace or adjust any teammate if the lineup is not working well'' @
     newline @ ''- Do NOT call this tool in that same turn; wait for explicit approval in a later user message'' @ newline @ newline @
     ''When calling this tool, always provide assistant_id from the available assistants catalog.'' @ newline @
     ''Do not provide a model. The new teammate uses the selected assistant'' @ [CHR 0x27] @
     ''s configured/default model; users can adjust models from the UI model selector.'' @ newline @ newline @
     ''The new agent will be created and added to the team. You can then assign tasks and send messages to it.''\<close>

definition TEAM_DESCRIBE_ASSISTANT_DESCRIPTION :: string where
  \<open>TEAM_DESCRIBE_ASSISTANT_DESCRIPTION =
     ''Get detailed information about an assistant before spawning it as a teammate.'' @ newline @ newline @ ''Returns the assistant'' @ [CHR 0x27] @
     ''s full description, enabled skills, and example tasks so you can'' @ newline @ ''judge whether it fits the user'' @ [CHR 0x27] @
     ''s request. Use this when two or more assistants look'' @ newline @ ''relevant from the one-line catalog in your system prompt.'' @ newline @
     newline @ ''Use team_list_assistants to find candidate assistant_id values.'' @ newline @
     ''After confirming a match, call team_spawn_agent with the same assistant_id.''\<close>

definition TEAM_LIST_ASSISTANTS_DESCRIPTION :: string where
  \<open>TEAM_LIST_ASSISTANTS_DESCRIPTION =
     ''List the assistants available for team spawning. Returns the real assistant catalog with real assistant_id values, names, backends, descriptions, and skills.'' @
     newline @ newline @
     ''Use this before team_spawn_agent when you need the exact assistant_id for a teammate. Do NOT guess from backend names like claude/codex/gemini '' @
     [CHR 0xE2, CHR 0x80, CHR 0x94] @ '' only use assistant_id values returned here.''\<close>

definition schema_team_members :: "'j value_ops \<Rightarrow> 'j" where
  \<open>schema_team_members vo =
     jv_obj vo [(''type'', jv_str vo ''object''), (''additionalProperties'', jv_bool vo False), (''properties'', jv_obj vo [])]\<close>

definition schema_team_send_message :: "'j value_ops \<Rightarrow> 'j" where
  \<open>schema_team_send_message vo =
     jv_obj vo [
       (''type'', jv_str vo ''object''),
       (''additionalProperties'', jv_bool vo False),
       (''properties'', jv_obj vo [
         (''to'', jv_obj vo [(''type'', jv_str vo ''string''), (''description'', jv_str vo ''Target agent slot_id or "*" for broadcast'')]),
         (''message'', jv_obj vo [(''type'', jv_str vo ''string''), (''description'', jv_str vo ''Message content'')]),
         (''files'', jv_obj vo [
           (''type'', jv_str vo ''array''),
           (''items'', jv_obj vo [(''type'', jv_str vo ''string'')]),
           (''description'', jv_str vo ''Absolute attachment paths to forward to the target agent'')])]),
       (''required'', jv_strs vo [''to'', ''message''])]\<close>

definition schema_team_task_create :: "'j value_ops \<Rightarrow> 'j" where
  \<open>schema_team_task_create vo =
     jv_obj vo [
       (''type'', jv_str vo ''object''),
       (''additionalProperties'', jv_bool vo False),
       (''properties'', jv_obj vo [
         (''subject'', jv_obj vo [(''type'', jv_str vo ''string''), (''description'', jv_str vo ''Task subject'')]),
         (''description'', jv_obj vo [(''type'', jv_str vo ''string''), (''description'', jv_str vo ''Task description'')]),
         (''owner'', jv_obj vo [(''type'', jv_str vo ''string''), (''description'', jv_str vo ''Owning agent slotId'')]),
         (''blocked_by'', jv_obj vo [
           (''type'', jv_str vo ''array''),
           (''items'', jv_obj vo [(''type'', jv_str vo ''string'')]),
           (''description'', jv_str vo ''Task IDs this task depends on'')])]),
       (''required'', jv_strs vo [''subject''])]\<close>

definition schema_team_task_update :: "'j value_ops \<Rightarrow> 'j" where
  \<open>schema_team_task_update vo =
     jv_obj vo [
       (''type'', jv_str vo ''object''),
       (''additionalProperties'', jv_bool vo False),
       (''properties'', jv_obj vo [
         (''task_id'', jv_obj vo [(''type'', jv_str vo ''string''), (''description'', jv_str vo ''Task ID to update'')]),
         (''status'', jv_obj vo [
           (''type'', jv_str vo ''string''),
           (''enum'', jv_strs vo [''pending'', ''in_progress'', ''completed'', ''deleted'']),
           (''description'', jv_str vo ''New status'')]),
         (''description'', jv_obj vo [(''type'', jv_str vo ''string''), (''description'', jv_str vo ''New description'')]),
         (''owner'', jv_obj vo [(''type'', jv_str vo ''string''), (''description'', jv_str vo ''New owning agent slotId'')]),
         (''blocked_by'', jv_obj vo [
           (''type'', jv_str vo ''array''),
           (''items'', jv_obj vo [(''type'', jv_str vo ''string'')]),
           (''description'', jv_str vo ''New dependency list'')])]),
       (''required'', jv_strs vo [''task_id''])]\<close>

definition schema_team_task_list :: "'j value_ops \<Rightarrow> 'j" where
  \<open>schema_team_task_list vo =
     jv_obj vo [
       (''type'', jv_str vo ''object''),
       (''additionalProperties'', jv_bool vo False),
       (''properties'', jv_obj vo [
         (''owner'', jv_obj vo [(''type'', jv_str vo ''string''), (''description'', jv_str vo ''Return only tasks owned by this exact agent slot_id'')]),
         (''status'', jv_obj vo [
           (''description'', jv_str vo ''Return only tasks with these statuses. Accepts one status string or an array of status strings.''),
           (''anyOf'', jv_arr vo [jv_obj vo [(''type'', jv_str vo ''string''), (''enum'', jv_strs vo [''pending'', ''in_progress'', ''completed'', ''deleted''])],
            jv_obj vo [
               (''type'', jv_str vo ''array''),
               (''minItems'', jv_int vo 1),
               (''items'', jv_obj vo [(''type'', jv_str vo ''string''), (''enum'', jv_strs vo [''pending'', ''in_progress'', ''completed'', ''deleted''])])]])]),
         (''include_deleted'', jv_obj vo [
           (''type'', jv_str vo ''boolean''),
           (''description'', jv_str vo ''When status is omitted, include deleted tasks. Defaults to true so {} returns the full board.'')]),
         (''limit'', jv_obj vo [
           (''type'', jv_str vo ''integer''),
           (''minimum'', jv_int vo 1),
           (''description'', jv_str vo ''Maximum number of returned tasks. Values above 200 are clamped to 200.'')])])]\<close>

definition schema_team_list_assistants :: "'j value_ops \<Rightarrow> 'j" where
  \<open>schema_team_list_assistants vo =
     jv_obj vo [(''type'', jv_str vo ''object''), (''additionalProperties'', jv_bool vo False), (''properties'', jv_obj vo [])]\<close>

definition schema_team_describe_assistant :: "'j value_ops \<Rightarrow> 'j" where
  \<open>schema_team_describe_assistant vo =
     jv_obj vo [
       (''type'', jv_str vo ''object''),
       (''additionalProperties'', jv_bool vo False),
       (''properties'', jv_obj vo [
         (''assistant_id'', jv_obj vo [
           (''type'', jv_str vo ''string''),
           (''description'', jv_str vo ''The assistant ID from the available assistants catalog (e.g., "word-creator").'')]),
         (''locale'', jv_obj vo [
           (''type'', jv_str vo ''string''),
           (''description'', jv_str vo (''Locale like "zh-CN" or "en-US". Defaults to the user'' @ [CHR 0x27] @ ''s current UI language when omitted.''))])]),
       (''required'', jv_strs vo [''assistant_id''])]\<close>

definition schema_team_spawn_agent :: "'j value_ops \<Rightarrow> 'j" where
  \<open>schema_team_spawn_agent vo =
     jv_obj vo [
       (''type'', jv_str vo ''object''),
       (''additionalProperties'', jv_bool vo False),
       (''properties'', jv_obj vo [
         (''name'', jv_obj vo [(''type'', jv_str vo ''string''), (''description'', jv_str vo ''Agent display name'')]),
         (''assistant_id'', jv_obj vo [
           (''type'', jv_str vo ''string''),
           (''description'', jv_str vo ''Assistant ID to spawn. Call team_list_assistants when you need candidates; the runtime backend is derived from this assistant.'')])]),
       (''required'', jv_strs vo [''name'', ''assistant_id''])]\<close>

definition schema_team_rename_agent :: "'j value_ops \<Rightarrow> 'j" where
  \<open>schema_team_rename_agent vo =
     jv_obj vo [
       (''type'', jv_str vo ''object''),
       (''additionalProperties'', jv_bool vo False),
       (''properties'', jv_obj vo [
         (''slot_id'', jv_obj vo [(''type'', jv_str vo ''string''), (''description'', jv_str vo ''Agent slot_id to rename'')]),
         (''new_name'', jv_obj vo [(''type'', jv_str vo ''string''), (''description'', jv_str vo ''New display name'')])]),
       (''required'', jv_strs vo [''slot_id'', ''new_name''])]\<close>

definition schema_team_shutdown_agent :: "'j value_ops \<Rightarrow> 'j" where
  \<open>schema_team_shutdown_agent vo =
     jv_obj vo [
       (''type'', jv_str vo ''object''),
       (''additionalProperties'', jv_bool vo False),
       (''properties'', jv_obj vo [
         (''slot_id'', jv_obj vo [(''type'', jv_str vo ''string''), (''description'', jv_str vo ''Agent slot_id to shut down'')]),
         (''reason'', jv_obj vo [(''type'', jv_str vo ''string''), (''description'', jv_str vo ''Reason for shutdown'')])]),
       (''required'', jv_strs vo [''slot_id''])]\<close>

definition tool_specs :: "'j value_ops \<Rightarrow> 'j tool_spec list" where
  \<open>tool_specs vo =
     [\<lparr>tsp_name = TeamMembers, tsp_permission = AnyTeamAgent,
       tsp_description = ''List all team members with their roles and current status.'',
       tsp_input_schema = schema_team_members vo, tsp_cli_command = [''members''],
       tsp_when = ''Check roster/status'', tsp_input_summary = ''{}''\<rparr>,
      \<lparr>tsp_name = TeamSendMessage, tsp_permission = AnyTeamAgent,
       tsp_description = ''Send a message to a teammate or broadcast to all (to="*"). When delegating work that depends on user attachments, forward their absolute paths in files.'',
       tsp_input_schema = schema_team_send_message vo, tsp_cli_command = [''send-message''],
       tsp_when = ''Send teammate message'', tsp_input_summary = ''to, message''\<rparr>,
      \<lparr>tsp_name = TeamTaskCreate, tsp_permission = AnyTeamAgent,
       tsp_description = ''Create a new task on the team task board.'',
       tsp_input_schema = schema_team_task_create vo, tsp_cli_command = [''task'', ''create''],
       tsp_when = ''Create task'', tsp_input_summary = ''subject, optional owner/deps''\<rparr>,
      \<lparr>tsp_name = TeamTaskUpdate, tsp_permission = AnyTeamAgent,
       tsp_description = ''Update an existing task on the team task board.'',
       tsp_input_schema = schema_team_task_update vo, tsp_cli_command = [''task'', ''update''],
       tsp_when = ''Update task'', tsp_input_summary = ''task_id, optional status/owner/deps''\<rparr>,
      \<lparr>tsp_name = TeamTaskList, tsp_permission = AnyTeamAgent,
       tsp_description = ''List tasks on the team task board. Pass {} for the full board, or use owner/status/include_deleted/limit for filtered views.'',
       tsp_input_schema = schema_team_task_list vo, tsp_cli_command = [''task'', ''list''],
       tsp_when = ''List tasks'', tsp_input_summary = ''owner, status, include_deleted, limit''\<rparr>,
      \<lparr>tsp_name = TeamListAssistants, tsp_permission = AnyTeamAgent,
       tsp_description = TEAM_LIST_ASSISTANTS_DESCRIPTION,
       tsp_input_schema = schema_team_list_assistants vo, tsp_cli_command = [''list-assistants''],
       tsp_when = ''List spawn assistants'', tsp_input_summary = ''{}''\<rparr>,
      \<lparr>tsp_name = TeamDescribeAssistant, tsp_permission = AnyTeamAgent,
       tsp_description = TEAM_DESCRIBE_ASSISTANT_DESCRIPTION,
       tsp_input_schema = schema_team_describe_assistant vo, tsp_cli_command = [''describe-assistant''],
       tsp_when = ''Inspect assistant'', tsp_input_summary = ''assistant_id, optional locale''\<rparr>,
      \<lparr>tsp_name = TeamSpawnAgent, tsp_permission = LeadOnly,
       tsp_description = TEAM_SPAWN_AGENT_DESCRIPTION,
       tsp_input_schema = schema_team_spawn_agent vo, tsp_cli_command = [''spawn-agent''],
       tsp_when = ''Spawn teammate'', tsp_input_summary = ''name, assistant_id''\<rparr>,
      \<lparr>tsp_name = TeamRenameAgent, tsp_permission = LeadOnly,
       tsp_description = ''Rename a team member. Lead only.'',
       tsp_input_schema = schema_team_rename_agent vo, tsp_cli_command = [''rename-agent''],
       tsp_when = ''Rename teammate'', tsp_input_summary = ''slot_id, new_name''\<rparr>,
      \<lparr>tsp_name = TeamShutdownAgent, tsp_permission = LeadOnly,
       tsp_description = ''Initiate shutdown of a teammate. Lead only. Sends a shutdown_request to the target agent.'',
       tsp_input_schema = schema_team_shutdown_agent vo, tsp_cli_command = [''shutdown-agent''],
       tsp_when = ''Shut down teammate'', tsp_input_summary = ''slot_id, optional reason''\<rparr>]\<close>

subsection \<open>Descriptors and lookups\<close>

record 'j tool_descriptor =
  tds_name :: string
  tds_permission :: tool_permission
  tds_description :: string
  tds_input_schema :: 'j
  tds_cli_command :: "string list"
  tds_when :: string
  tds_input_summary :: string

definition team_tool_descriptors :: "'j value_ops \<Rightarrow> 'j tool_descriptor list" where
  "team_tool_descriptors vo =
     map (\<lambda>spec. \<lparr>tds_name = tool_name_str (tsp_name spec), tds_permission = tsp_permission spec,
       tds_description = tsp_description spec, tds_input_schema = tsp_input_schema spec,
       tds_cli_command = tsp_cli_command spec, tds_when = tsp_when spec,
       tds_input_summary = tsp_input_summary spec\<rparr>) (tool_specs vo)"

definition team_tool_descriptors_for_role :: "'j value_ops \<Rightarrow> tool_role \<Rightarrow> 'j tool_descriptor list" where
  "team_tool_descriptors_for_role vo role =
     filter (\<lambda>d. role = ToolLead \<or> tds_permission d \<noteq> LeadOnly) (team_tool_descriptors vo)"

definition team_tool_descriptor :: "'j value_ops \<Rightarrow> string \<Rightarrow> 'j tool_descriptor option" where
  "team_tool_descriptor vo name = find (\<lambda>d. tds_name d = name) (team_tool_descriptors vo)"

definition cli_command_for_tool :: "'j value_ops \<Rightarrow> string \<Rightarrow> string list option" where
  "cli_command_for_tool vo name =
     map_option tsp_cli_command (find (\<lambda>s. tool_name_str (tsp_name s) = name) (tool_specs vo))"

definition tool_name_for_cli_path :: "'j value_ops \<Rightarrow> string list \<Rightarrow> tool_name option" where
  "tool_name_for_cli_path vo path =
     map_option tsp_name (find (\<lambda>s. tsp_cli_command s = path) (tool_specs vo))"

end
