(* ===== verification/Team_Action.thy ===== *)
theory Team_Action
  imports Team_Errors
begin

text \<open>
  Asynchronous methods as state transformers that may fail or panic: an action takes the
  state of the object it runs on and returns its \<open>Result\<close> with the new state, or \<open>None\<close>
  for a panic. \<open>and_then\<close> is \<open>?\<close> followed by the rest of the method, \<open>attempt\<close> hands the
  \<open>Result\<close> itself to the rest, \<open>run_all\<close> is a loop whose body may return early.
\<close>

type_synonym ('a, 'st) act = "'st \<Rightarrow> ((team_error + 'a) \<times> 'st) option"

definition return_ok :: "'a \<Rightarrow> ('a, 'st) act" where
  "return_ok x st = Some (Inr x, st)"

definition throw :: "team_error \<Rightarrow> ('a, 'st) act" where
  "throw e st = Some (Inl e, st)"

definition and_then :: "('a, 'st) act \<Rightarrow> ('a \<Rightarrow> ('b, 'st) act) \<Rightarrow> ('b, 'st) act" where
  "and_then m f st =
     (case m st of
        None \<Rightarrow> None
      | Some (Inl e, st1) \<Rightarrow> Some (Inl e, st1)
      | Some (Inr x, st1) \<Rightarrow> f x st1)"

definition attempt :: "('a, 'st) act \<Rightarrow> (team_error + 'a, 'st) act" where
  "attempt m st = map_option (\<lambda>(r, st1). (Inr r, st1)) (m st)"

definition ignoring :: "('a, 'st) act \<Rightarrow> (unit, 'st) act" where \<comment> \<open>an error is logged and dropped\<close>
  "ignoring m = and_then (attempt m) (\<lambda>_. return_ok ())"

definition ok_or :: "team_error \<Rightarrow> 'a option \<Rightarrow> ('a, 'st) act" where
  "ok_or e x = (case x of None \<Rightarrow> throw e | Some y \<Rightarrow> return_ok y)"

definition from_result :: "team_error + 'a \<Rightarrow> ('a, 'st) act" where
  "from_result r st = Some (r, st)"

definition gets :: "('st \<Rightarrow> 'a) \<Rightarrow> ('a, 'st) act" where
  "gets f st = Some (Inr (f st), st)"

definition modify :: "('st \<Rightarrow> 'st) \<Rightarrow> (unit, 'st) act" where
  "modify f st = Some (Inr (), f st)"

definition when_so :: "bool \<Rightarrow> (unit, 'st) act \<Rightarrow> (unit, 'st) act" where
  "when_so b m = (if b then m else return_ok ())"

fun run_all :: "('a \<Rightarrow> (unit, 'st) act) \<Rightarrow> 'a list \<Rightarrow> (unit, 'st) act" where
  "run_all f [] = return_ok ()"
| "run_all f (x # xs) = and_then (f x) (\<lambda>_. run_all f xs)"

subsection \<open>Case distinctions on a run\<close>

lemma and_then_Some:
  "and_then m f st = Some (r, st') \<longleftrightarrow>
     (\<exists>e. m st = Some (Inl e, st') \<and> r = Inl e) \<or> (\<exists>x st1. m st = Some (Inr x, st1) \<and> f x st1 = Some (r, st'))"
  by (auto simp: and_then_def split: option.splits prod.splits sum.splits)

lemma and_then_simps [simp]:
  "m st = Some (Inr x, st1) \<Longrightarrow> and_then m f st = f x st1"
  "m st = Some (Inl e, st1) \<Longrightarrow> and_then m f st = Some (Inl e, st1)"
  "m st = None \<Longrightarrow> and_then m f st = None"
  by (simp_all add: and_then_def)

lemma act_simps [simp]:
  "return_ok x st = Some (Inr x, st)" "throw e st = Some (Inl e, st)" "gets f st = Some (Inr (f st), st)"
  "modify g st = Some (Inr (), g st)" "from_result r st = Some (r, st)"
  by (simp_all add: return_ok_def throw_def gets_def modify_def from_result_def)

lemma attempt_Some: "attempt m st = Some (r, st') \<longleftrightarrow> (\<exists>r0. m st = Some (r0, st') \<and> r = Inr r0)"
  by (auto simp: attempt_def)

lemma ignoring_Some: "ignoring m st = Some (r, st') \<longleftrightarrow> r = Inr () \<and> (\<exists>r0. m st = Some (r0, st'))"
  by (auto simp: ignoring_def and_then_Some attempt_Some)

lemma ok_or_Some: "ok_or e x st = Some (r, st') \<longleftrightarrow> st' = st \<and> r = (case x of None \<Rightarrow> Inl e | Some y \<Rightarrow> Inr y)"
  by (auto simp: ok_or_def split: option.splits)

lemma when_so_Some: "when_so b m st = Some (r, st') \<longleftrightarrow> (if b then m st = Some (r, st') else r = Inr () \<and> st' = st)"
  by (auto simp: when_so_def)

lemmas act_cases = and_then_Some attempt_Some ignoring_Some ok_or_Some when_so_Some

subsection \<open>Triples\<close>

text \<open>
  \<open>ensures P m Q\<close>: from a state with \<open>P\<close> the action returns, without a panic, and its result
  and the state afterwards satisfy \<open>Q\<close>. \<open>safe I m\<close>: it returns and keeps \<open>I\<close>, on success and on
  error; that goes through the combinators.
\<close>

definition ensures :: "('st \<Rightarrow> bool) \<Rightarrow> ('a, 'st) act \<Rightarrow> (team_error + 'a \<Rightarrow> 'st \<Rightarrow> bool) \<Rightarrow> bool" where
  "ensures P m Q \<longleftrightarrow> (\<forall>st. P st \<longrightarrow> (\<exists>r st'. m st = Some (r, st') \<and> Q r st'))"

abbreviation safe :: "('st \<Rightarrow> bool) \<Rightarrow> ('a, 'st) act \<Rightarrow> bool" where
  "safe I m \<equiv> ensures I m (\<lambda>_. I)"

named_theorems safe_rules \<open>actions that return and keep an invariant\<close>

lemma ensuresI: "(\<And>st. P st \<Longrightarrow> \<exists>r st'. m st = Some (r, st') \<and> Q r st') \<Longrightarrow> ensures P m Q"
  by (simp add: ensures_def)

lemma ensuresD: "ensures P m Q \<Longrightarrow> P st \<Longrightarrow> \<exists>r st'. m st = Some (r, st') \<and> Q r st'"
  by (simp add: ensures_def)

lemma ensures_run: "ensures P m Q \<Longrightarrow> P st \<Longrightarrow> m st = Some (r, st') \<Longrightarrow> Q r st'"
  by (auto simp: ensures_def)

lemma ensures_weaken: "ensures P m Q \<Longrightarrow> (\<And>st. P' st \<Longrightarrow> P st) \<Longrightarrow> (\<And>r st. Q r st \<Longrightarrow> Q' r st) \<Longrightarrow> ensures P' m Q'"
  unfolding ensures_def by blast

lemma ensures_and_then:
  assumes "ensures P m R" and "\<And>e st. R (Inl e) st \<Longrightarrow> Q (Inl e) st" and "\<And>x. ensures (R (Inr x)) (f x) Q"
  shows "ensures P (and_then m f) Q"
proof (rule ensuresI)
  fix st assume "P st"
  then obtain r st1 where m: "m st = Some (r, st1)" and R: "R r st1"
    using ensuresD [OF assms(1)] by blast
  show "\<exists>r st'. and_then m f st = Some (r, st') \<and> Q r st'"
  proof (cases r)
    case (Inl e)
    with m R assms(2) show ?thesis by simp
  next
    case (Inr x)
    with m R ensuresD [OF assms(3)] show ?thesis by simp
  qed
qed

lemma ensures_safe_then:
  "safe I m \<Longrightarrow> (\<And>e st. I st \<Longrightarrow> Q (Inl e) st) \<Longrightarrow> (\<And>x. ensures I (f x) Q) \<Longrightarrow> ensures I (and_then m f) Q"
  by (rule ensures_and_then)

lemma ensures_attempt: "ensures P m (\<lambda>r. Q (Inr r)) \<Longrightarrow> ensures P (attempt m) Q"
  by (fastforce simp: ensures_def attempt_def)

lemma safe_pure [safe_rules]:
  "safe I (return_ok x)" "safe I (throw e)" "safe I (gets f)" "safe I (from_result q)" "safe I (ok_or e y)"
  by (auto simp: ensures_def ok_or_def split: option.splits)

lemma safe_modify [safe_rules]: "(\<And>st. I st \<Longrightarrow> I (f st)) \<Longrightarrow> safe I (modify f)"
  by (auto simp: ensures_def)

lemma safe_and_then [safe_rules]: "safe I m \<Longrightarrow> (\<And>x. safe I (f x)) \<Longrightarrow> safe I (and_then m f)"
  by (rule ensures_and_then) auto

lemma safe_attempt [safe_rules]: "safe I m \<Longrightarrow> safe I (attempt m)"
  by (rule ensures_attempt)

lemma safe_ignoring [safe_rules]: "safe I m \<Longrightarrow> safe I (ignoring m)"
  by (auto simp: ignoring_def intro: safe_rules)

lemma safe_when [safe_rules]: "(b \<Longrightarrow> safe I m) \<Longrightarrow> safe I (when_so b m)"
  by (auto simp: when_so_def intro: safe_rules)

lemma safe_if [safe_rules]: "(b \<Longrightarrow> safe I m) \<Longrightarrow> (\<not> b \<Longrightarrow> safe I m') \<Longrightarrow> safe I (if b then m else m')"
  by simp

lemma safe_option [safe_rules]:
  "safe I m \<Longrightarrow> (\<And>x. safe I (f x)) \<Longrightarrow> safe I (case opt of None \<Rightarrow> m | Some x \<Rightarrow> f x)"
  by (simp split: option.split)

lemma safe_sum [safe_rules]:
  "(\<And>e. safe I (f e)) \<Longrightarrow> (\<And>x. safe I (g x)) \<Longrightarrow> safe I (case r of Inl e \<Rightarrow> f e | Inr x \<Rightarrow> g x)"
  by (simp split: sum.split)

lemma safe_run_all [safe_rules]: "(\<And>x. x \<in> set xs \<Longrightarrow> safe I (f x)) \<Longrightarrow> safe I (run_all f xs)"
  by (induction xs) (simp_all add: safe_rules)

subsection \<open>Actions that do not fail\<close>

definition infallible :: "('a, 'st) act \<Rightarrow> bool" where
  "infallible m \<longleftrightarrow> (\<forall>st e st'. m st \<noteq> Some (Inl e, st'))"

named_theorems infallible_rules \<open>actions that never return an error\<close>

lemma infallible_pure [infallible_rules]:
  "infallible (return_ok x)" "infallible (gets f)" "infallible (modify g)" "infallible (attempt m)"
  by (auto simp: infallible_def attempt_def)

lemma infallible_and_then [infallible_rules]: "infallible m \<Longrightarrow> (\<And>x. infallible (f x)) \<Longrightarrow> infallible (and_then m f)"
  unfolding infallible_def and_then_Some by blast

lemma infallible_ignoring [infallible_rules]: "infallible (ignoring m)"
  by (auto simp: infallible_def ignoring_Some)

lemma infallible_when [infallible_rules]: "infallible m \<Longrightarrow> infallible (when_so b m)"
  by (auto simp: infallible_def when_so_Some)

lemma infallible_cases [infallible_rules]:
  "infallible m \<Longrightarrow> infallible m' \<Longrightarrow> infallible (if b then m else m')"
  "infallible m \<Longrightarrow> (\<And>x. infallible (f x)) \<Longrightarrow> infallible (case opt of None \<Rightarrow> m | Some x \<Rightarrow> f x)"
  "(\<And>e. infallible (g e)) \<Longrightarrow> (\<And>x. infallible (h x)) \<Longrightarrow> infallible (case r of Inl e \<Rightarrow> g e | Inr x \<Rightarrow> h x)"
  by (simp_all split: option.split sum.split)

lemma infallible_run_all [infallible_rules]: "(\<And>x. infallible (f x)) \<Longrightarrow> infallible (run_all f xs)"
  by (induction xs) (simp_all add: infallible_rules)

lemma ensures_after: "safe I m \<Longrightarrow> infallible m \<Longrightarrow> (\<And>x. ensures I (f x) Q) \<Longrightarrow> ensures I (and_then m f) Q"
  unfolding ensures_def and_then_def infallible_def by (fastforce split: option.split sum.split prod.split)

subsection \<open>Partial triples\<close>

text \<open>\<open>leaves P m Q\<close>: if the action returns, the state has \<open>Q\<close>; a panic is allowed.\<close>

definition leaves :: "('st \<Rightarrow> bool) \<Rightarrow> ('a, 'st) act \<Rightarrow> (team_error + 'a \<Rightarrow> 'st \<Rightarrow> bool) \<Rightarrow> bool" where
  "leaves P m Q \<longleftrightarrow> (\<forall>st r st'. P st \<longrightarrow> m st = Some (r, st') \<longrightarrow> Q r st')"

abbreviation keeps :: "('st \<Rightarrow> bool) \<Rightarrow> ('a, 'st) act \<Rightarrow> bool" where
  "keeps I m \<equiv> leaves I m (\<lambda>_. I)"

named_theorems keeps_rules \<open>actions that keep a predicate when they return\<close>

lemma leavesI: "(\<And>st r st'. P st \<Longrightarrow> m st = Some (r, st') \<Longrightarrow> Q r st') \<Longrightarrow> leaves P m Q"
  by (simp add: leaves_def)

lemma leavesD: "leaves P m Q \<Longrightarrow> P st \<Longrightarrow> m st = Some (r, st') \<Longrightarrow> Q r st'"
  by (simp add: leaves_def)

lemma leaves_and_then:
  assumes "leaves P m R" and "\<And>e st. R (Inl e) st \<Longrightarrow> Q (Inl e) st" and "\<And>x. leaves (R (Inr x)) (f x) Q"
  shows "leaves P (and_then m f) Q"
  using assms unfolding leaves_def and_then_Some by blast

lemma leaves_after: "keeps P m \<Longrightarrow> infallible m \<Longrightarrow> (\<And>x. leaves P (f x) Q) \<Longrightarrow> leaves P (and_then m f) Q"
  unfolding leaves_def and_then_Some infallible_def by blast

lemma leaves_if: "(b \<Longrightarrow> leaves P m Q) \<Longrightarrow> (\<not> b \<Longrightarrow> leaves P m' Q) \<Longrightarrow> leaves P (if b then m else m') Q"
  by simp

lemma leaves_attempt: "leaves P m (\<lambda>r. Q (Inr r)) \<Longrightarrow> leaves P (attempt m) Q"
  by (auto simp: leaves_def attempt_Some)

lemma keeps_pure [keeps_rules]:
  "keeps I (return_ok x)" "keeps I (throw e)" "keeps I (gets f)" "keeps I (from_result q)" "keeps I (ok_or e y)"
  by (auto simp: leaves_def ok_or_Some)

lemma keeps_and_then [keeps_rules]: "keeps I m \<Longrightarrow> (\<And>x. keeps I (f x)) \<Longrightarrow> keeps I (and_then m f)"
  by (rule leaves_and_then)

lemma keeps_attempt [keeps_rules]: "keeps I m \<Longrightarrow> keeps I (attempt m)"
  by (rule leaves_attempt)

lemma keeps_ignoring [keeps_rules]: "keeps I m \<Longrightarrow> keeps I (ignoring m)"
  by (auto simp: ignoring_def intro: keeps_rules)

lemma keeps_cases [keeps_rules]:
  "(b \<Longrightarrow> keeps I u) \<Longrightarrow> keeps I (when_so b u)"
  "(b \<Longrightarrow> keeps I m) \<Longrightarrow> (\<not> b \<Longrightarrow> keeps I m') \<Longrightarrow> keeps I (if b then m else m')"
  "keeps I m \<Longrightarrow> (\<And>x. keeps I (f x)) \<Longrightarrow> keeps I (case opt of None \<Rightarrow> m | Some x \<Rightarrow> f x)"
  "(\<And>e. keeps I (g e)) \<Longrightarrow> (\<And>x. keeps I (h x)) \<Longrightarrow> keeps I (case r of Inl e \<Rightarrow> g e | Inr x \<Rightarrow> h x)"
  by (auto simp: when_so_def intro: keeps_pure split: option.split sum.split)

lemma keeps_run_all [keeps_rules]: "(\<And>x. x \<in> set xs \<Longrightarrow> keeps I (f x)) \<Longrightarrow> keeps I (run_all f xs)"
  by (induction xs) (simp_all add: keeps_rules)

end
