(* ===== verification/Team_Session.thy ===== *)
theory Team_Session
  imports Scheduler_Actions Work_Control Team_Run Member_Runtime Message_Projection Team_Prompts Team_Action
begin

text \<open>
  A team session (crates/team/src/session.rs): the object that holds the scheduler with its
  mailbox and task board, the slot work coordinator with the run manager behind it, the
  member runtimes, the event loops and the projection into conversations, and whose methods
  make them work together: a message is leased, written, projected, committed and announced;
  the next batch of an agent is prepared from its unread mail.

  \<open>session_env\<close> is what the session takes from outside. Every call that generates ids or reads
  clocks draws a number of its own (\<open>se_draws\<close>), which selects the id, the stream of ids and
  the readings. The calls of the team service (the transport of an agent's tools, the
  group history) and of the cancellation port are arguments: \<open>en_cancel n\<close> is the result of the
  \<open>n\<close>-th cancellation, \<open>en_record_group n\<close> that of the \<open>n\<close>-th response recorded.
  A method is modelled as it runs when nothing else touches the session between its awaits.
\<close>

subsection \<open>The registry of event loops\<close>

text \<open>
  The registry of the agents' event loops (crates/team/src/event_loop.rs,
  \<open>EventLoopRegistry\<close>): one loop per registered slot, woken by a \<open>tokio::sync::Notify\<close>. A
  notifier holds at most one permit: \<open>notify_one\<close> stores it, the loop takes it when it waits.
  The lifecycle mutex makes every operation one transition.
\<close>

datatype loop_registration_error = LoopDuplicate | LoopStopped

record event_loops =
  el_notifiers :: "bool hash_map" \<comment> \<open>slot to whether a permit is stored\<close>
  el_handles :: "ident set"
  el_stopped :: bool

definition loops_new :: event_loops where
  "loops_new = \<lparr>el_notifiers = [], el_handles = {}, el_stopped = False\<rparr>"

definition loops_has :: "ident \<Rightarrow> event_loops \<Rightarrow> bool" where
  "loops_has slot_id el \<longleftrightarrow> hm_get (el_notifiers el) slot_id \<noteq> None"

definition loops_notify :: "ident \<Rightarrow> event_loops \<Rightarrow> event_loops" where
  "loops_notify slot_id el = el\<lparr>el_notifiers := hm_modify slot_id (\<lambda>_. True) (el_notifiers el)\<rparr>"

definition loops_spawn :: "ident \<Rightarrow> event_loops \<Rightarrow> (loop_registration_error + unit) \<times> event_loops" where
  "loops_spawn slot_id el =
     (if el_stopped el then (Inl LoopStopped, el)
      else case hm_get (el_notifiers el) slot_id of
        Some _ \<Rightarrow> (Inl LoopDuplicate, el)
      | None \<Rightarrow> (Inr (), el\<lparr>el_notifiers := hm_insert slot_id False (el_notifiers el),
                           el_handles := insert slot_id (el_handles el)\<rparr>))"

definition loops_remove :: "ident \<Rightarrow> event_loops \<Rightarrow> event_loops" where
  "loops_remove slot_id el =
     el\<lparr>el_notifiers := hm_remove slot_id (el_notifiers el), el_handles := el_handles el - {slot_id}\<rparr>"

definition loops_shutdown :: "event_loops \<Rightarrow> event_loops" where
  "loops_shutdown el =
     (if el_stopped el then el else el\<lparr>el_stopped := True, el_handles := {}, el_notifiers := []\<rparr>)"

text \<open>What waits on the notifier: \<open>notified()\<close> returns when there is a permit, and takes it.\<close>

definition loops_take_permit :: "ident \<Rightarrow> event_loops \<Rightarrow> event_loops option" where
  "loops_take_permit slot_id el =
     (case hm_get (el_notifiers el) slot_id of
        Some True \<Rightarrow> Some (el\<lparr>el_notifiers := hm_insert slot_id False (el_notifiers el)\<rparr>)
      | _ \<Rightarrow> None)"

lemma loops_has_notify [simp]: "loops_has i (loops_notify j el) = loops_has i el"
  by (auto simp: loops_has_def loops_notify_def map_simps)

datatype turn_error = TurnSkipped string | TurnFailed string

fun turn_error_display :: "turn_error \<Rightarrow> string" where
  "turn_error_display (TurnSkipped reason) = ''agent turn skipped: '' @ reason"
| "turn_error_display (TurnFailed reason) = ''agent turn failed: '' @ reason"

datatype child_turn_event = ChildTurnStarted | ChildTurnCompleted | ChildTurnCancelled

record child_turn_payload =
  ct_team_id :: ident
  ct_team_run_id :: ident
  ct_slot_id :: ident
  ct_role :: run_target_role
  ct_conversation_id :: ident
  ct_turn_id :: ident
  ct_status :: team_run_status

subsection \<open>What the web client is told\<close>

datatype enqueue_status = EnqueueAccepted | EnqueueQueued | EnqueueBlockedRuntimeStarting

record run_ack =
  ak_enqueue_status :: enqueue_status
  ak_message_id :: ident
  ak_run :: team_run_payload

datatype group_message_kind = GroupUser | GroupAgent

record group_delivery =
  gd_slot_id :: ident
  gd_delivered :: bool
  gd_enqueue_status :: "enqueue_status option"
  gd_message_id :: "ident option"
  gd_team_run_id :: "ident option"
  gd_ack :: "run_ack option"
  gd_error :: "string option"

record group_message =
  gm_id :: ident
  gm_team_id :: ident
  gm_kind :: group_message_kind
  gm_sender_slot_id :: "ident option"
  gm_sender_name :: "string option"
  gm_content :: string
  gm_files :: "string list option"
  gm_target_slot_ids :: "ident list"
  gm_deliveries :: "group_delivery list"
  gm_created_at :: timestamp

datatype session_phase = LoadingTeam | StartingBridge | AttachingAgents | Recovering

text \<open>
  The events the team service broadcasts about a session, its agents' runtimes, the group
  history and the list of teams.
\<close>

datatype status_event =
    EvSessionStarting session_phase
  | EvSessionReady nat \<comment> \<open>number of agents\<close>
  | EvSessionFailed session_phase string
  | EvSessionStopped
  | EvAgentRuntimePending ident ident \<comment> \<open>slot, conversation\<close>
  | EvAgentRuntimeReady ident ident
  | EvAgentRuntimeFailed ident ident string
  | EvGroupMessage group_message
  | EvTeamRenamed string
  | EvTeamRemoved
  | EvTeamListChanged string \<comment> \<open>what was done to the team\<close>

record ('j, 's, 'c, 'w, 'p) session =
  se_manager :: "'s team_manager"
  se_coord :: coordinator
  se_runs :: "nat \<times> team_run_manager"
  se_runtimes :: "('c, 'w) registry"
  se_loops :: event_loops
  se_group_runs :: "ident set"
  se_projection :: "('j, 'p) projection_state"
  se_turn_events :: "(child_turn_event \<times> child_turn_payload) list"
  se_cancels :: "(ident \<times> ident \<times> ident) list" \<comment> \<open>user, conversation, turn\<close>
  se_group_responses :: "(ident \<times> string) list" \<comment> \<open>slot and text handed to the group history\<close>
  se_status_events :: "status_event list"
  se_killed :: "ident list" \<comment> \<open>conversations whose agent process was killed\<close>
  se_deleted :: "(ident \<times> ident) list" \<comment> \<open>user and conversation whose deletion was asked for\<close>
  se_removals :: "ident list" \<comment> \<open>slots whose removal was scheduled after their agent approved its shutdown\<close>
  se_recovery_scan_completed :: bool
  se_mcp_stopped :: bool
  se_published :: bool \<comment> \<open>the team service lists it as the session of its team\<close>
  se_draws :: nat

text \<open>
  What a session works with. \<open>en_others\<close> is what other tasks do to the session while one of its
  methods awaits something, or stands between two steps that hold no common lock.
\<close>

record ('j, 's, 'c, 'w, 'p) session_env =
  en_team :: "('j, 's) team_env"
  en_values :: "'j value_ops"
  en_watch :: "('c, 'w) watch_ops"
  en_projection :: "'p projection_store"
  en_user_id :: ident
  en_team_name :: string
  en_ids :: "nat \<Rightarrow> ident"
  en_id_streams :: "nat \<Rightarrow> nat \<Rightarrow> ident"
  en_now :: "nat \<Rightarrow> timestamp"
  en_clocks :: "nat \<Rightarrow> nat \<Rightarrow> timestamp"
  en_run_ids :: "nat \<Rightarrow> ident"
  en_transport :: "team_agent \<Rightarrow> team_error + tool_transport"
  en_cancel :: "nat \<Rightarrow> turn_error option"
  en_record_group :: "nat \<Rightarrow> team_error option"
  en_others :: "nat \<Rightarrow> ('j, 's, 'c, 'w, 'p) session \<Rightarrow> ('j, 's, 'c, 'w, 'p) session"

subsection \<open>Calls into the parts\<close>

definition draw :: "(nat, ('j, 's, 'c, 'w, 'p) session) act" where
  "draw se = Some (Inr (se_draws se), se\<lparr>se_draws := Suc (se_draws se)\<rparr>)"

definition others_run :: "('j, 's, 'c, 'w, 'p) session_env \<Rightarrow> (unit, ('j, 's, 'c, 'w, 'p) session) act" where
  "others_run env = and_then draw (\<lambda>n. modify (en_others env n))"

definition session_port :: "('j, 's, 'c, 'w, 'p) session_env \<Rightarrow> (nat \<times> team_run_manager) run_port" where
  "session_port env = manager_port (en_run_ids env) (en_now env) (en_clocks env)"

definition on_manager ::
  "('s team_manager \<Rightarrow> ('a, 's) sched_result) \<Rightarrow> ('a, ('j, 's, 'c, 'w, 'p) session) act" where
  "on_manager f se = (case f (se_manager se) of (r, m) \<Rightarrow> Some (r, se\<lparr>se_manager := m\<rparr>))"

definition on_coord ::
  "(coordinator \<Rightarrow> nat \<times> team_run_manager \<Rightarrow> 'a \<times> coordinator \<times> nat \<times> team_run_manager)
     \<Rightarrow> ('a, ('j, 's, 'c, 'w, 'p) session) act" where
  "on_coord f se =
     (case f (se_coord se) (se_runs se) of (x, c, r) \<Rightarrow> Some (Inr x, se\<lparr>se_coord := c, se_runs := r\<rparr>))"

definition try_coord ::
  "(coordinator \<Rightarrow> nat \<times> team_run_manager \<Rightarrow> (team_error + 'a) \<times> coordinator \<times> nat \<times> team_run_manager)
     \<Rightarrow> ('a, ('j, 's, 'c, 'w, 'p) session) act" where
  "try_coord f se =
     (case f (se_coord se) (se_runs se) of (res, c, r) \<Rightarrow> Some (res, se\<lparr>se_coord := c, se_runs := r\<rparr>))"

definition expect_coord :: \<comment> \<open>an operation that may panic\<close>
  "(coordinator \<Rightarrow> nat \<times> team_run_manager \<Rightarrow> ('a \<times> coordinator \<times> nat \<times> team_run_manager) option)
     \<Rightarrow> ('a, ('j, 's, 'c, 'w, 'p) session) act" where
  "expect_coord f se =
     (case f (se_coord se) (se_runs se) of
        None \<Rightarrow> None
      | Some (x, c, r) \<Rightarrow> Some (Inr x, se\<lparr>se_coord := c, se_runs := r\<rparr>))"

definition expect_some :: "'a option \<Rightarrow> ('a, 'st) act" where
  "expect_some x st = (case x of None \<Rightarrow> None | Some y \<Rightarrow> Some (Inr y, st))"

definition session_get_agent :: "ident \<Rightarrow> (team_agent, ('j, 's, 'c, 'w, 'p) session) act" where
  "session_get_agent slot_id se = Some (get_agent slot_id (se_manager se), se)"

definition session_agents :: "(team_agent list, ('j, 's, 'c, 'w, 'p) session) act" where
  "session_agents = gets (\<lambda>se. list_agents (se_manager se))"

definition session_lead :: "(ident option, ('j, 's, 'c, 'w, 'p) session) act" where
  "session_lead = gets (\<lambda>se. find_lead_slot_id (se_manager se))"

definition session_write ::
  "('j, 's, 'c, 'w, 'p) session_env \<Rightarrow> ident \<Rightarrow> ident \<Rightarrow> message_type \<Rightarrow> string \<Rightarrow> string option
     \<Rightarrow> string list option \<Rightarrow> (mailbox_message, ('j, 's, 'c, 'w, 'p) session) act" where
  "session_write env to_id from_id ty content summary files =
     on_manager (team_write (en_team env) to_id from_id ty content summary files)"

definition session_mark_read ::
  "('j, 's, 'c, 'w, 'p) session_env \<Rightarrow> ident list \<Rightarrow> (unit, ('j, 's, 'c, 'w, 'p) session) act" where
  "session_mark_read env ids =
     on_manager (\<lambda>m. case mailbox_mark_read_batch (te_messages (en_team env)) ids (sm_store m) of
        (r, store) \<Rightarrow> (r, m\<lparr>sm_store := store\<rparr>))"

definition session_peek_unread ::
  "('j, 's, 'c, 'w, 'p) session_env \<Rightarrow> ident \<Rightarrow> (mailbox_message list, ('j, 's, 'c, 'w, 'p) session) act" where
  "session_peek_unread env slot_id se =
     Some (mailbox_peek_unread (te_json (en_team env)) (te_messages (en_team env))
             (sm_team_id (se_manager se)) slot_id (sm_store (se_manager se)), se)"

definition notify_slot :: "ident \<Rightarrow> (unit, ('j, 's, 'c, 'w, 'p) session) act" where
  "notify_slot slot_id = modify (\<lambda>se. se\<lparr>se_loops := loops_notify slot_id (se_loops se)\<rparr>)"

definition session_project ::
  "('j, 's, 'c, 'w, 'p) session_env \<Rightarrow> projection_request \<Rightarrow> (projected, ('j, 's, 'c, 'w, 'p) session) act" where
  "session_project env q =
     and_then draw (\<lambda>n se.
       case project (te_json (en_team env)) (en_values env) (uc_trim (te_unicode (en_team env))) (en_projection env)
              (en_ids env n) (en_now env n) q (se_projection se) of
         (r, p) \<Rightarrow> Some (r, se\<lparr>se_projection := p\<rparr>))"

definition broadcast_child_turn ::
  "child_turn_event \<Rightarrow> child_turn_payload \<Rightarrow> (unit, ('j, 's, 'c, 'w, 'p) session) act" where
  "broadcast_child_turn ev payload = modify (\<lambda>se. se\<lparr>se_turn_events := se_turn_events se @ [(ev, payload)]\<rparr>)"

definition cancel_agent_turn ::
  "('j, 's, 'c, 'w, 'p) session_env \<Rightarrow> ident \<Rightarrow> ident \<Rightarrow> (turn_error option, ('j, 's, 'c, 'w, 'p) session) act" where
  "cancel_agent_turn env conversation_id turn_id se =
     Some (Inr (en_cancel env (length (se_cancels se))),
           se\<lparr>se_cancels := se_cancels se @ [(en_user_id env, conversation_id, turn_id)]\<rparr>)"

definition mark_group_run :: "ident \<Rightarrow> (unit, ('j, 's, 'c, 'w, 'p) session) act" where
  "mark_group_run run_id = modify (\<lambda>se. se\<lparr>se_group_runs := insert run_id (se_group_runs se)\<rparr>)"

definition is_group_run_batch :: "ident list \<Rightarrow> ('j, 's, 'c, 'w, 'p) session \<Rightarrow> bool" where
  "is_group_run_batch run_ids se \<longleftrightarrow> list_ex (\<lambda>i. i \<in> se_group_runs se) run_ids"

end
