(* ===== verification/Session_Messages.thy ===== *)
theory Session_Messages
  imports Team_Session
begin

text \<open>
  How work reaches an agent (crates/team/src/session.rs): the runtime constraint published
  before anything is enqueued, the protocol of a message (lease, write, project, commit,
  notify, with its compensations), and the preparation of an agent's next batch.
\<close>

fun target_role_for :: "teammate_role \<Rightarrow> run_target_role" where
  "target_role_for Lead = RoleLead"
| "target_role_for Teammate = RoleTeammate"

subsection \<open>The runtime constraint\<close>

fun constraint_of_snapshot :: "bool \<Rightarrow> member_snapshot \<Rightarrow> runtime_constraint" where
  "constraint_of_snapshot has_loop SnapAbsent = (if has_loop then Ready else Starting 0)"
| "constraint_of_snapshot _ (SnapAttaching operation_id) = Starting operation_id"
| "constraint_of_snapshot _ SnapReady = Ready"
| "constraint_of_snapshot _ (SnapFailed operation_id failure) = Failed operation_id (mf_classification failure)"
| "constraint_of_snapshot _ (SnapRemoving operation_id) = Removing operation_id"
| "constraint_of_snapshot _ SnapSessionStopped = SessionStopped"

definition session_constrain ::
  "('j, 's, 'c, 'w, 'p) session_env \<Rightarrow> ident \<Rightarrow> runtime_constraint
     \<Rightarrow> (runtime_constraint_update, ('j, 's, 'c, 'w, 'p) session) act" where
  "session_constrain env slot_id constraint =
     expect_coord (set_runtime_constraint (session_port env) slot_id constraint)"

definition mark_terminal_read ::
  "('j, 's, 'c, 'w, 'p) session_env \<Rightarrow> ident list \<Rightarrow> (unit, ('j, 's, 'c, 'w, 'p) session) act" where
  "mark_terminal_read env ids = when_so (ids \<noteq> []) (session_mark_read env ids)"

definition publish_runtime_constraint ::
  "('j, 's, 'c, 'w, 'p) session_env \<Rightarrow> ident \<Rightarrow> (unit, ('j, 's, 'c, 'w, 'p) session) act" where
  "publish_runtime_constraint env slot_id =
     and_then (gets (\<lambda>se. constraint_of_snapshot (loops_has slot_id (se_loops se))
                            (member_snapshot_of slot_id (se_runtimes se))))
       (\<lambda>constraint. and_then (session_constrain env slot_id constraint)
       (\<lambda>update. mark_terminal_read env (ru_terminal_message_ids update)))"

subsection \<open>Leases and commits\<close>

definition session_acquire ::
  "('j, 's, 'c, 'w, 'p) session_env \<Rightarrow> enqueue_request \<Rightarrow> (enqueue_lease, ('j, 's, 'c, 'w, 'p) session) act" where
  "session_acquire env request =
     and_then draw (\<lambda>n. try_coord (acquire_enqueue (session_port env) (en_ids env n) request))"

definition session_commit ::
  "('j, 's, 'c, 'w, 'p) session_env \<Rightarrow> enqueue_lease \<Rightarrow> ident option
     \<Rightarrow> (enqueue_commit, ('j, 's, 'c, 'w, 'p) session) act" where
  "session_commit env lease message_id =
     and_then draw (\<lambda>n. and_then (try_coord (commit_enqueue (session_port env) (en_ids env n) (en_now env n) lease message_id))
       expect_some)"

definition session_abort ::
  "('j, 's, 'c, 'w, 'p) session_env \<Rightarrow> enqueue_lease \<Rightarrow> (unit, ('j, 's, 'c, 'w, 'p) session) act" where
  "session_abort env lease = and_then (on_coord (abort_enqueue (session_port env) lease)) (\<lambda>_. return_ok ())"

text \<open>\<open>on_error m f\<close>: what a method does when a step fails, before it returns the error.\<close>

definition on_error :: "('a, 'st) act \<Rightarrow> (team_error \<Rightarrow> (unit, 'st) act) \<Rightarrow> ('a, 'st) act" where
  "on_error m f =
     and_then (attempt m) (\<lambda>r. case r of Inr x \<Rightarrow> return_ok x | Inl e \<Rightarrow> and_then (f e) (\<lambda>_. throw e))"

definition commit_persisted_enqueue ::
  "('j, 's, 'c, 'w, 'p) session_env \<Rightarrow> enqueue_lease \<Rightarrow> ident
     \<Rightarrow> (enqueue_commit, ('j, 's, 'c, 'w, 'p) session) act" where
  "commit_persisted_enqueue env lease message_id =
     on_error (session_commit env lease (Some message_id))
       (\<lambda>_. and_then (session_abort env lease) (\<lambda>_. ignoring (session_mark_read env [message_id])))"

definition write_leased ::
  "('j, 's, 'c, 'w, 'p) session_env \<Rightarrow> enqueue_lease \<Rightarrow> ident \<Rightarrow> ident \<Rightarrow> string \<Rightarrow> string list option
     \<Rightarrow> (mailbox_message, ('j, 's, 'c, 'w, 'p) session) act" where
  "write_leased env lease to_id from_id content files =
     on_error (session_write env to_id from_id MtMessage content None files) (\<lambda>_. session_abort env lease)"

subsection \<open>Messages of the user\<close>

fun enqueue_status_of :: "enqueue_disposition \<Rightarrow> enqueue_status" where
  "enqueue_status_of DispAccepted = EnqueueAccepted"
| "enqueue_status_of DispQueued = EnqueueQueued"
| "enqueue_status_of DispBlockedRuntimeStarting = EnqueueBlockedRuntimeStarting"

definition session_current_payload ::
  "('j, 's, 'c, 'w, 'p) session_env \<Rightarrow> (team_run_payload option, ('j, 's, 'c, 'w, 'p) session) act" where
  "session_current_payload env =
     and_then draw (\<lambda>n. gets (\<lambda>se. current_payload (en_clocks env n) (snapshot (se_coord se)) (snd (se_runs se))))"

definition user_source :: "('j, 's, 'c, 'w, 'p) session \<Rightarrow> work_source" where
  "user_source se =
     (if current_active_run_id (snd (se_runs se)) \<noteq> None then UserIntervention else UserMessage)"

definition files_or_none :: "string list option \<Rightarrow> string list" where
  "files_or_none files = (case files of None \<Rightarrow> [] | Some fs \<Rightarrow> fs)"

definition enqueue_user_message ::
  "('j, 's, 'c, 'w, 'p) session_env \<Rightarrow> ident \<Rightarrow> run_target_role \<Rightarrow> string \<Rightarrow> string list option \<Rightarrow> bool
     \<Rightarrow> (run_ack, ('j, 's, 'c, 'w, 'p) session) act" where
  "enqueue_user_message env slot_id role content files group_origin =
     and_then (publish_runtime_constraint env slot_id) (\<lambda>_.
     and_then (session_get_agent slot_id) (\<lambda>agent.
     and_then (gets user_source) (\<lambda>source.
     and_then (session_acquire env \<lparr>rq_slot_id = slot_id, rq_role = role, rq_source = source,
                 rq_binding = UserVisible\<rparr>) (\<lambda>lease.
     and_then (write_leased env lease slot_id ''user'' content files) (\<lambda>message.
     and_then (gets (\<lambda>se. sm_team_id (se_manager se))) (\<lambda>team_id.
     and_then (ignoring (session_project env
                 (user_visible team_id slot_id (ta_conversation_id agent) content (files_or_none files)))) (\<lambda>_.
     and_then (commit_persisted_enqueue env lease (msg_id message)) (\<lambda>commit.
     and_then (case ec_team_run_id commit of
                 Some run_id \<Rightarrow> when_so group_origin (mark_group_run run_id)
               | None \<Rightarrow> return_ok ()) (\<lambda>_.
     and_then (notify_slot slot_id) (\<lambda>_.
     and_then (session_current_payload env) (\<lambda>payload.
     and_then (ok_or (InvalidRequest ''user-visible enqueue lost its team run'') payload) (\<lambda>run.
     return_ok \<lparr>ak_enqueue_status = enqueue_status_of (ec_disposition commit),
                ak_message_id = msg_id message, ak_run = run\<rparr>))))))))))))"

definition send_message ::
  "('j, 's, 'c, 'w, 'p) session_env \<Rightarrow> string \<Rightarrow> string list option
     \<Rightarrow> (run_ack, ('j, 's, 'c, 'w, 'p) session) act" where
  "send_message env content files =
     and_then session_lead (\<lambda>lead.
     and_then (ok_or (AgentNotFound ''no lead agent in team'') lead) (\<lambda>lead_slot_id.
     enqueue_user_message env lead_slot_id RoleLead content files False))"

definition send_message_to_agent ::
  "('j, 's, 'c, 'w, 'p) session_env \<Rightarrow> ident \<Rightarrow> string \<Rightarrow> string list option
     \<Rightarrow> (run_ack, ('j, 's, 'c, 'w, 'p) session) act" where
  "send_message_to_agent env slot_id content files =
     and_then (session_get_agent slot_id) (\<lambda>agent.
     enqueue_user_message env slot_id (target_role_for (ta_role agent)) content files False)"

definition send_group_message_to_agent ::
  "('j, 's, 'c, 'w, 'p) session_env \<Rightarrow> ident \<Rightarrow> string \<Rightarrow> string list option
     \<Rightarrow> (run_ack, ('j, 's, 'c, 'w, 'p) session) act" where
  "send_group_message_to_agent env slot_id content files =
     and_then (session_get_agent slot_id) (\<lambda>agent.
     enqueue_user_message env slot_id (target_role_for (ta_role agent)) content files True)"

subsection \<open>Messages and requests of agents\<close>

record queue_result =
  qr_team_run_id :: "ident option"
  qr_target :: slot_work_payload

definition teammate_request ::
  "ident \<Rightarrow> team_agent \<Rightarrow> team_agent \<Rightarrow> ident \<Rightarrow> ident \<Rightarrow> string \<Rightarrow> string list option \<Rightarrow> ident \<Rightarrow> projection_request" where
  "teammate_request team_id from_agent to_agent from_slot_id to_slot_id content files message_id =
     \<lparr>pq_team_id = team_id, pq_slot_id = to_slot_id, pq_conversation_id = ta_conversation_id to_agent,
      pq_source = FromTeammate from_slot_id (ta_name from_agent) (Some (ta_backend from_agent))
        (Some (ta_conversation_id from_agent)),
      pq_content = content, pq_files = files_or_none files, pq_visibility = teammate_message_policy,
      pq_dedupe_key = Some (teammate_dedupe_key team_id message_id (ta_conversation_id to_agent))\<rparr>"

definition send_agent_message_from_agent ::
  "('j, 's, 'c, 'w, 'p) session_env \<Rightarrow> ident \<Rightarrow> ident \<Rightarrow> string \<Rightarrow> string list option
     \<Rightarrow> (queue_result, ('j, 's, 'c, 'w, 'p) session) act" where
  "send_agent_message_from_agent env from_slot_id to_slot_id content files =
     and_then (session_get_agent to_slot_id) (\<lambda>to_agent.
     and_then (session_get_agent from_slot_id) (\<lambda>from_agent.
     and_then (publish_runtime_constraint env to_slot_id) (\<lambda>_.
     and_then (session_acquire env \<lparr>rq_slot_id = to_slot_id, rq_role = target_role_for (ta_role to_agent),
                 rq_source = McpSendMessage, rq_binding = InheritRunningBatch from_slot_id\<rparr>) (\<lambda>lease.
     and_then (write_leased env lease to_slot_id from_slot_id content files) (\<lambda>message.
     and_then (gets (\<lambda>se. sm_team_id (se_manager se))) (\<lambda>team_id.
     and_then (ignoring (session_project env
                 (teammate_request team_id from_agent to_agent from_slot_id to_slot_id content files (msg_id message)))) (\<lambda>_.
     and_then (commit_persisted_enqueue env lease (msg_id message)) (\<lambda>commit.
     and_then (notify_slot to_slot_id) (\<lambda>_.
     and_then draw (\<lambda>n.
     return_ok \<lparr>qr_team_run_id = ec_team_run_id commit,
                qr_target = slot_payload (en_now env n) (ec_slot commit)\<rparr>))))))))))"

definition session_shutdown_agent ::
  "('j, 's, 'c, 'w, 'p) session_env \<Rightarrow> ident \<Rightarrow> ident \<Rightarrow> string option
     \<Rightarrow> (unit, ('j, 's, 'c, 'w, 'p) session) act" where
  "session_shutdown_agent env caller_slot_id target_slot_id reason =
     and_then (session_get_agent caller_slot_id) (\<lambda>caller.
     if ta_role caller \<noteq> Lead then throw (LeaderOnly ''team_shutdown_agent'') else
     and_then (session_get_agent target_slot_id) (\<lambda>target.
     if ta_role target = Lead then throw (InvalidRequest ''cannot shutdown the team lead'') else
     and_then (publish_runtime_constraint env target_slot_id) (\<lambda>_.
     and_then (session_acquire env \<lparr>rq_slot_id = target_slot_id, rq_role = target_role_for (ta_role target),
                 rq_source = McpShutdownRequest, rq_binding = InheritRunningBatch caller_slot_id\<rparr>) (\<lambda>lease.
     and_then (on_error (on_manager (request_shutdown_agent (en_team env) caller_slot_id target_slot_id reason))
                 (\<lambda>_. session_abort env lease)) (\<lambda>message.
     if msg_to_agent_id message \<noteq> target_slot_id
     then and_then (session_abort env lease) (\<lambda>_.
            throw (InvalidRequest (''shutdown mailbox target mismatch: expected '' @ target_slot_id @
                     '', got '' @ msg_to_agent_id message)))
     else and_then (commit_persisted_enqueue env lease (msg_id message)) (\<lambda>_. notify_slot target_slot_id))))))"

subsection \<open>Work that is already there\<close>

definition enqueue_existing_work ::
  "('j, 's, 'c, 'w, 'p) session_env \<Rightarrow> ident \<Rightarrow> work_source \<Rightarrow> ident option \<Rightarrow> causal_binding
     \<Rightarrow> (ident option, ('j, 's, 'c, 'w, 'p) session) act" where
  "enqueue_existing_work env slot_id source message_id binding =
     and_then (session_get_agent slot_id) (\<lambda>agent.
     and_then (publish_runtime_constraint env slot_id) (\<lambda>_.
     and_then (session_acquire env \<lparr>rq_slot_id = slot_id, rq_role = target_role_for (ta_role agent),
                 rq_source = source, rq_binding = binding\<rparr>) (\<lambda>lease.
     and_then (case message_id of
                 Some i \<Rightarrow> commit_persisted_enqueue env lease i
               | None \<Rightarrow> on_error (session_commit env lease None) (\<lambda>_. session_abort env lease)) (\<lambda>commit.
     and_then (notify_slot slot_id) (\<lambda>_.
     return_ok (ec_team_run_id commit))))))"

definition enqueue_leader_settle_signal ::
  "('j, 's, 'c, 'w, 'p) session_env \<Rightarrow> ident \<Rightarrow> work_source \<Rightarrow> (unit, ('j, 's, 'c, 'w, 'p) session) act" where
  "enqueue_leader_settle_signal env slot_id source =
     and_then (enqueue_existing_work env slot_id source None ActiveRunOrBackground) (\<lambda>_. return_ok ())"

definition from_others :: "ident \<Rightarrow> mailbox_message list \<Rightarrow> mailbox_message list" where
  "from_others slot_id = filter (\<lambda>m. msg_from_agent_id m \<noteq> slot_id)"

text \<open>The loop over the agents; it collects the slots with mail to recover.\<close>

fun recover_agents ::
  "('j, 's, 'c, 'w, 'p) session_env \<Rightarrow> team_agent list \<Rightarrow> (ident list, ('j, 's, 'c, 'w, 'p) session) act" where
  "recover_agents env [] = return_ok []"
| "recover_agents env (agent # agents) =
     and_then (session_peek_unread env (ta_slot_id agent)) (\<lambda>mail.
     let unread = map msg_id (from_others (ta_slot_id agent) mail)
     in if unread = [] then recover_agents env agents
        else and_then (run_all (\<lambda>i. and_then (enqueue_existing_work env (ta_slot_id agent) RecoveryDrain (Some i)
                          BackgroundBinding) (\<lambda>_. return_ok ())) unread) (\<lambda>_.
             and_then (recover_agents env agents) (\<lambda>slots. return_ok (ta_slot_id agent # slots))))"

definition try_start_recovery_drain ::
  "('j, 's, 'c, 'w, 'p) session_env \<Rightarrow> (ident list, ('j, 's, 'c, 'w, 'p) session) act" where
  "try_start_recovery_drain env se =
     (if se_recovery_scan_completed se then Some (Inr [], se)
      else and_then session_agents (recover_agents env) (se\<lparr>se_recovery_scan_completed := True\<rparr>))"

subsection \<open>Preparing the next batch\<close>

record wake_input =
  wk_conversation_id :: ident
  wk_first_message :: string
  wk_unread :: "mailbox_message list"
  wk_agent_role :: teammate_role

datatype prepared =
    ExecuteBatch work_batch wake_input
  | SettleIntents "ident list"
  | PrepareWaiting
  | PrepareBlocked
  | PrepareQuiescent

definition role_prompt ::
  "('j, 's, 'c, 'w, 'p) session_env \<Rightarrow> team_agent \<Rightarrow> team_agent list \<Rightarrow> tool_transport \<Rightarrow> string" where
  "role_prompt env agent members transport =
     (case ta_role agent of
        Lead \<Rightarrow> build_lead_prompt_for_transport (en_values env) agent (en_team_name env) transport
      | Teammate \<Rightarrow> build_teammate_prompt_for_transport (en_values env) agent (en_team_name env) members transport)"

definition first_message ::
  "('j, 's, 'c, 'w, 'p) session_env \<Rightarrow> ident \<Rightarrow> team_agent \<Rightarrow> string
     \<Rightarrow> (string, ('j, 's, 'c, 'w, 'p) session) act" where
  "first_message env slot_id agent wake_body se =
     (case take_needs_role_prompt slot_id (se_manager se) of (needs, m) \<Rightarrow>
        (if needs
         then and_then (from_result (en_transport env agent)) (\<lambda>transport.
              and_then session_agents (\<lambda>members.
              return_ok (role_prompt env agent members transport @ newline @ newline @ wake_body)))
         else return_ok wake_body) (se\<lparr>se_manager := m\<rparr>))"

definition prepare_claimed ::
  "('j, 's, 'c, 'w, 'p) session_env \<Rightarrow> ident \<Rightarrow> team_agent \<Rightarrow> mailbox_message list \<Rightarrow> work_batch
     \<Rightarrow> (prepared, ('j, 's, 'c, 'w, 'p) session) act" where
  "prepare_claimed env slot_id agent unread batch =
     and_then (gets se_manager) (\<lambda>m.
     let claimed = filter (\<lambda>message. msg_id message \<in> set (wb_mailbox_message_ids batch)) unread
     in case manager_list_tasks (en_team env) m of
          Inl e \<Rightarrow> and_then (on_coord (retry_start (session_port env) batch)) (\<lambda>_. throw e)
        | Inr tasks \<Rightarrow>
          and_then (first_message env slot_id agent
                      (render_wake_payload agent tasks claimed (set (map ta_slot_id (list_agents m))))) (\<lambda>text.
          return_ok (ExecuteBatch batch
            \<lparr>wk_conversation_id = ta_conversation_id agent, wk_first_message = text,
             wk_unread = claimed, wk_agent_role = ta_role agent\<rparr>)))"

definition session_reconcile ::
  "('j, 's, 'c, 'w, 'p) session_env \<Rightarrow> ident \<Rightarrow> ident list \<Rightarrow> run_target_role
     \<Rightarrow> (reconcile_projection, ('j, 's, 'c, 'w, 'p) session) act" where
  "session_reconcile env slot_id mail_ids role =
     and_then draw (\<lambda>n. on_coord (\<lambda>c r.
       case reconcile_mailbox (en_id_streams env n) (en_clocks env n) slot_id mail_ids role c of (p, c1) \<Rightarrow> (p, c1, r)))"

definition session_next ::
  "('j, 's, 'c, 'w, 'p) session_env \<Rightarrow> ident \<Rightarrow> (reconcile_decision, ('j, 's, 'c, 'w, 'p) session) act" where
  "session_next env slot_id = and_then draw (\<lambda>n. on_coord (next_work (session_port env) (en_ids env n) slot_id))"

text \<open>
  No lock is held from one step to the next: others may change the session after the mail was
  read and again between the reconciliation and \<open>next\<close>, with a message of theirs for this slot.
\<close>

definition prepare_next_batch ::
  "('j, 's, 'c, 'w, 'p) session_env \<Rightarrow> ident \<Rightarrow> (prepared, ('j, 's, 'c, 'w, 'p) session) act" where
  "prepare_next_batch env slot_id =
     and_then (session_get_agent slot_id) (\<lambda>agent.
     and_then (publish_runtime_constraint env slot_id) (\<lambda>_.
     and_then (session_peek_unread env slot_id) (\<lambda>mail.
     let unread = from_others slot_id mail
     in and_then (others_run env) (\<lambda>_.
        and_then (session_reconcile env slot_id (map msg_id unread) (target_role_for (ta_role agent))) (\<lambda>_.
        and_then (others_run env) (\<lambda>_.
        and_then (session_next env slot_id) (\<lambda>decision.
        case decision of
          Claim batch \<Rightarrow> prepare_claimed env slot_id agent unread batch
        | SettleSignals intent_ids \<Rightarrow> return_ok (SettleIntents intent_ids)
        | WaitingForCompletion \<Rightarrow> return_ok PrepareWaiting
        | BlockedBy _ \<Rightarrow> return_ok PrepareBlocked
        | Quiescent \<Rightarrow> return_ok PrepareQuiescent)))))))"

definition handle_signal_intents ::
  "('j, 's, 'c, 'w, 'p) session_env \<Rightarrow> ident \<Rightarrow> ident list \<Rightarrow> (unit, ('j, 's, 'c, 'w, 'p) session) act" where
  "handle_signal_intents env slot_id intent_ids =
     and_then (on_coord (complete_signals (session_port env) slot_id intent_ids)) (\<lambda>_. return_ok ())"

subsection \<open>Showing what an agent was woken with\<close>

definition mirror_request ::
  "ident \<Rightarrow> team_agent list \<Rightarrow> wake_input \<Rightarrow> mailbox_message \<Rightarrow> projection_request" where
  "mirror_request team_id agents input message =
     (let sender = find (\<lambda>a. ta_slot_id a = msg_from_agent_id message) agents;
          sender_name = (case sender of Some a \<Rightarrow> ta_name a | None \<Rightarrow> msg_from_agent_id message)
      in \<lparr>pq_team_id = team_id, pq_slot_id = msg_to_agent_id message,
          pq_conversation_id = wk_conversation_id input,
          pq_source = FromTeammate (msg_from_agent_id message) sender_name
            (map_option ta_backend sender) (map_option ta_conversation_id sender),
          pq_content = (if length (wk_unread input) > 1
            then ''['' @ sender_name @ ''] '' @ msg_content message else msg_content message),
          pq_files = files_or_none (msg_files message), pq_visibility = teammate_message_policy,
          pq_dedupe_key = Some (teammate_dedupe_key team_id (msg_id message) (wk_conversation_id input))\<rparr>)"

definition is_mirrored :: "mailbox_message \<Rightarrow> bool" where
  "is_mirrored message \<longleftrightarrow> msg_from_agent_id message \<noteq> ''user'' \<and> msg_type message \<noteq> MtIdleNotification"

definition mirror_unread_to_conversation ::
  "('j, 's, 'c, 'w, 'p) session_env \<Rightarrow> wake_input \<Rightarrow> (unit, ('j, 's, 'c, 'w, 'p) session) act" where
  "mirror_unread_to_conversation env input =
     when_so (wk_unread input \<noteq> [])
       (and_then session_agents (\<lambda>agents.
        and_then (gets (\<lambda>se. sm_team_id (se_manager se))) (\<lambda>team_id.
        run_all (\<lambda>message. when_so (is_mirrored message)
          (ignoring (session_project env (mirror_request team_id agents input message)))) (wk_unread input))))"

end
