(* ===== verification/Session_Control.thy ===== *)
theory Session_Control
  imports Session_Messages
begin

text \<open>
  What ends or changes the work of a session (crates/team/src/session.rs): the end of a turn,
  cancelling a run or one agent's turn, pausing, the notices the lead gets about it, agents
  that come and go, the end of the session.
\<close>

definition finish_agent ::
  "('j, 's, 'c, 'w, 'p) session_env \<Rightarrow> ident \<Rightarrow> bool \<Rightarrow> (ident option, ('j, 's, 'c, 'w, 'p) session) act" where
  "finish_agent env conversation_id is_error =
     and_then session_agents (\<lambda>agents.
     and_then (ok_or (AgentNotFound (''no agent with conversation_id='' @ conversation_id))
                 (map_option ta_slot_id (find (\<lambda>a. ta_conversation_id a = conversation_id) agents))) (\<lambda>slot_id.
     and_then (when_so is_error (on_manager (set_status slot_id StError))) (\<lambda>_.
     and_then (on_manager (finalize_turn (en_team env) slot_id [])) (\<lambda>wake_target.
     and_then (modify (\<lambda>se. se\<lparr>se_manager := clear_finalized_turn conversation_id (se_manager se)\<rparr>)) (\<lambda>_.
     and_then (gets (\<lambda>se. mailbox_has_unread (te_messages (en_team env)) (sm_team_id (se_manager se)) slot_id
                 (sm_store (se_manager se)))) (\<lambda>has_unread.
     return_ok (if wake_target \<noteq> Some slot_id \<and> result_or False has_unread then Some slot_id
                else wake_target)))))))"

definition on_agent_finish ::
  "('j, 's, 'c, 'w, 'p) session_env \<Rightarrow> nat \<Rightarrow> ident \<Rightarrow> bool
     \<Rightarrow> (ident option, ('j, 's, 'c, 'w, 'p) session) act" where
  "on_agent_finish env now conversation_id is_error se =
     (case begin_finalize now conversation_id (se_manager se) of (proceed, m) \<Rightarrow>
        if \<not> proceed then Some (Inr None, se\<lparr>se_manager := m\<rparr>)
        else finish_agent env conversation_id is_error (se\<lparr>se_manager := m\<rparr>))"

subsection \<open>Notices to the lead\<close>

definition wake_leader_after_recovery_message ::
  "('j, 's, 'c, 'w, 'p) session_env \<Rightarrow> ident \<Rightarrow> work_source \<Rightarrow> (unit, ('j, 's, 'c, 'w, 'p) session) act" where
  "wake_leader_after_recovery_message env source_slot_id source =
     and_then session_lead (\<lambda>lead.
     and_then (ok_or (AgentNotFound ''lead'') lead) (\<lambda>lead_slot_id.
     and_then (session_peek_unread env lead_slot_id) (\<lambda>mail.
     case find (\<lambda>m. msg_from_agent_id m = source_slot_id) (rev mail) of
       None \<Rightarrow> return_ok ()
     | Some message \<Rightarrow>
       and_then (enqueue_existing_work env lead_slot_id source (Some (msg_id message))
                   (InheritRunningBatch source_slot_id)) (\<lambda>_. return_ok ()))))"

definition notify_leader_child_interrupted ::
  "('j, 's, 'c, 'w, 'p) session_env \<Rightarrow> ident \<Rightarrow> string option \<Rightarrow> (unit, ('j, 's, 'c, 'w, 'p) session) act" where
  "notify_leader_child_interrupted env slot_id reason =
     and_then session_lead (\<lambda>lead.
     case lead of
       None \<Rightarrow> return_ok ()
     | Some lead_slot_id \<Rightarrow>
       and_then (session_write env lead_slot_id slot_id MtIdleNotification
                   (case reason of Some x \<Rightarrow> x
                    | None \<Rightarrow> ''Agent '' @ slot_id @ '' was interrupted by the user.'')
                   (Some ''Interrupted by user'') None) (\<lambda>_.
       wake_leader_after_recovery_message env slot_id InterruptedNotification))"

definition notify_leader_spawn_attach_failed ::
  "('j, 's, 'c, 'w, 'p) session_env \<Rightarrow> ident \<Rightarrow> string \<Rightarrow> (unit, ('j, 's, 'c, 'w, 'p) session) act" where
  "notify_leader_spawn_attach_failed env failed_slot_id error =
     and_then session_lead (\<lambda>lead.
     and_then (ok_or (AgentNotFound ''lead'') lead) (\<lambda>lead_slot_id.
     and_then (session_write env lead_slot_id failed_slot_id MtMessage
                 (''Spawned teammate '' @ failed_slot_id @ '' failed to attach its runtime. Error: '' @ error)
                 None None) (\<lambda>_.
     wake_leader_after_recovery_message env failed_slot_id SpawnAttachFailure)))"

subsection \<open>Cancelling and pausing\<close>

definition cancelled_turn ::
  "ident \<Rightarrow> ident \<Rightarrow> ident \<Rightarrow> run_target_role \<Rightarrow> ident \<Rightarrow> ident \<Rightarrow> child_turn_payload" where
  "cancelled_turn team_id run_id slot_id role conversation_id turn_id =
     \<lparr>ct_team_id = team_id, ct_team_run_id = run_id, ct_slot_id = slot_id, ct_role = role,
      ct_conversation_id = conversation_id, ct_turn_id = turn_id, ct_status = RunCancelled\<rparr>"

definition team_run_not_active :: "ident \<Rightarrow> team_error" where
  "team_run_not_active run_id = InvalidRequest (''team run '' @ run_id @ '' is not active'')"

definition cancel_target_turn ::
  "('j, 's, 'c, 'w, 'p) session_env \<Rightarrow> ident \<Rightarrow> batch_cancel_target \<Rightarrow> (unit, ('j, 's, 'c, 'w, 'p) session) act" where
  "cancel_target_turn env run_id target =
     (case bc_turn_id target of
        None \<Rightarrow> return_ok ()
      | Some turn_id \<Rightarrow>
        let slot_id = wb_slot_id (bc_batch target)
        in and_then (session_get_agent slot_id) (\<lambda>agent.
           and_then (cancel_agent_turn env (ta_conversation_id agent) turn_id) (\<lambda>_.
           and_then (gets (\<lambda>se. sm_team_id (se_manager se))) (\<lambda>team_id.
           broadcast_child_turn ChildTurnCancelled
             (cancelled_turn team_id run_id slot_id (target_role_for (ta_role agent)) (ta_conversation_id agent) turn_id)))))"

definition session_begin_cancel ::
  "('j, 's, 'c, 'w, 'p) session_env \<Rightarrow> ident \<Rightarrow> string option \<Rightarrow> (unit, ('j, 's, 'c, 'w, 'p) session) act" where
  "session_begin_cancel env run_id reason =
     and_then draw (\<lambda>n se.
       case begin_cancel (en_clocks env n) run_id reason (snd (se_runs se)) of
         (res, m) \<Rightarrow> Some (res, se\<lparr>se_runs := (fst (se_runs se), m)\<rparr>))"

definition session_cancel_run ::
  "('j, 's, 'c, 'w, 'p) session_env \<Rightarrow> ident \<Rightarrow> string option \<Rightarrow> (unit, ('j, 's, 'c, 'w, 'p) session) act" where
  "session_cancel_run env run_id reason =
     and_then (gets (\<lambda>se. current_active_run_id (snd (se_runs se)))) (\<lambda>active.
     if active \<noteq> Some run_id then throw (team_run_not_active run_id) else
     and_then (session_begin_cancel env run_id reason) (\<lambda>_.
     and_then (expect_coord (cancel_run (session_port env) run_id)) (\<lambda>result.
     and_then (mark_terminal_read env (cr_terminal_message_ids result)) (\<lambda>_.
     run_all (cancel_target_turn env run_id) (cr_cancel_targets result)))))"

text \<open>Cancelling one turn, in \<open>cancel_child_turn\<close> and \<open>pause_slot_work\<close>: here a failing port is an error.\<close>

definition cancel_turn_or_fail ::
  "('j, 's, 'c, 'w, 'p) session_env \<Rightarrow> ident \<Rightarrow> ident \<Rightarrow> run_target_role \<Rightarrow> ident
     \<Rightarrow> (unit, ('j, 's, 'c, 'w, 'p) session) act" where
  "cancel_turn_or_fail env run_id slot_id role turn_id =
     and_then (session_get_agent slot_id) (\<lambda>agent.
     and_then (cancel_agent_turn env (ta_conversation_id agent) turn_id) (\<lambda>failed.
     case failed of
       Some e \<Rightarrow> throw (InvalidRequest (turn_error_display e))
     | None \<Rightarrow>
       and_then (gets (\<lambda>se. sm_team_id (se_manager se))) (\<lambda>team_id.
       broadcast_child_turn ChildTurnCancelled
         (cancelled_turn team_id run_id slot_id role (ta_conversation_id agent) turn_id))))"

definition interrupt_batch ::
  "('j, 's, 'c, 'w, 'p) session_env \<Rightarrow> ident \<Rightarrow> ident \<Rightarrow> run_target_role \<Rightarrow> string \<Rightarrow> string option
     \<Rightarrow> ident option \<Rightarrow> work_batch \<Rightarrow> (unit, ('j, 's, 'c, 'w, 'p) session) act" where
  "interrupt_batch env run_id slot_id role classification reason turn batch =
     and_then (case turn of
                 None \<Rightarrow> return_ok ()
               | Some turn_id \<Rightarrow> cancel_turn_or_fail env run_id slot_id role turn_id) (\<lambda>_.
     and_then (on_coord (cancel_batch (session_port env) batch classification)) (\<lambda>_.
     when_so (role = RoleTeammate) (notify_leader_child_interrupted env slot_id reason)))"

definition cancel_child_turn ::
  "('j, 's, 'c, 'w, 'p) session_env \<Rightarrow> ident \<Rightarrow> ident \<Rightarrow> string option
     \<Rightarrow> (unit, ('j, 's, 'c, 'w, 'p) session) act" where
  "cancel_child_turn env run_id slot_id reason =
     and_then (gets (\<lambda>se. slot_snapshot_locked (se_coord se) slot_id)) (\<lambda>found.
     and_then (ok_or (AgentNotFound slot_id) found) (\<lambda>snap.
     and_then (ok_or (InvalidRequest (''slot has no active batch: '' @ slot_id)) (sn_active_batch snap)) (\<lambda>batch.
     if run_id \<notin> set (wb_team_run_ids batch)
     then throw (InvalidRequest (''agent '' @ slot_id @ '' is not active in team run '' @ run_id))
     else interrupt_batch env run_id slot_id (sn_role snap) ''child_cancelled'' reason (sn_active_turn_id snap) batch)))"

definition session_pause_slot :: "ident \<Rightarrow> (pause_work_result, ('j, 's, 'c, 'w, 'p) session) act" where
  "session_pause_slot slot_id = expect_coord (\<lambda>c r. map_option (\<lambda>(x, c1). (x, c1, r)) (pause_slot slot_id c))"

definition pause_slot_work ::
  "('j, 's, 'c, 'w, 'p) session_env \<Rightarrow> ident \<Rightarrow> ident \<Rightarrow> string option
     \<Rightarrow> (unit, ('j, 's, 'c, 'w, 'p) session) act" where
  "pause_slot_work env run_id slot_id reason =
     and_then (gets (\<lambda>se. current_active_run_id (snd (se_runs se)))) (\<lambda>active.
     if active \<noteq> Some run_id then throw (team_run_not_active run_id) else
     and_then (session_pause_slot slot_id) (\<lambda>outcome.
     case pr_cancel_target outcome of
       None \<Rightarrow> return_ok ()
     | Some target \<Rightarrow>
       interrupt_batch env run_id slot_id (sn_role (pr_slot outcome)) ''slot_paused'' reason (bc_turn_id target)
         (bc_batch target)))"

subsection \<open>Members come and go\<close>

definition project_team_system_message ::
  "('j, 's, 'c, 'w, 'p) session_env \<Rightarrow> ident \<Rightarrow> ident \<Rightarrow> ident \<Rightarrow> string
     \<Rightarrow> (unit, ('j, 's, 'c, 'w, 'p) session) act" where
  "project_team_system_message env slot_id conversation_id message_id content =
     and_then (gets (\<lambda>se. sm_team_id (se_manager se))) (\<lambda>team_id.
     ignoring (session_project env (team_system_visible team_id slot_id conversation_id content message_id)))"

definition or_empty :: "string option \<Rightarrow> string" where
  "or_empty x = (case x of None \<Rightarrow> [] | Some y \<Rightarrow> y)"

definition member_details :: "team_agent \<Rightarrow> string" where
  "member_details agent =
     ''(slot_id='' @ ta_slot_id agent @ '', assistant_id='' @ or_empty (ta_assistant_id agent) @
     '', model='' @ ta_model agent @ '')''"

definition roster_hint :: string where
  "roster_hint = ''. Call team_members to get the latest roster before delegating work.''"

definition added_notice :: "team_agent \<Rightarrow> string" where
  "added_notice agent =
     ''The user manually added teammate '' @ apostrophe @ ta_name agent @ apostrophe @ '' '' @
     member_details agent @ roster_hint"

definition removed_notice :: "team_agent \<Rightarrow> string" where
  "removed_notice agent =
     ''Teammate '' @ apostrophe @ ta_name agent @ apostrophe @ '' was removed from the team '' @
     member_details agent @ roster_hint"

definition session_add_agent :: "team_agent \<Rightarrow> (unit, ('j, 's, 'c, 'w, 'p) session) act" where
  "session_add_agent agent = modify (\<lambda>se. se\<lparr>se_manager := add_agent agent (se_manager se)\<rparr>)"

definition team_lead_or_fail :: "(ident, ('j, 's, 'c, 'w, 'p) session) act" where
  "team_lead_or_fail = and_then session_lead (ok_or (InvalidRequest ''team lead not found''))"

definition add_manual_agent ::
  "('j, 's, 'c, 'w, 'p) session_env \<Rightarrow> team_agent \<Rightarrow> (unit, ('j, 's, 'c, 'w, 'p) session) act" where
  "add_manual_agent env agent =
     and_then (session_add_agent agent) (\<lambda>_.
     and_then team_lead_or_fail (\<lambda>lead_slot_id.
     and_then (session_write env (ta_slot_id agent) ''team_system'' MtMessage
        ''You were manually added to this team. Read your mailbox and wait for instructions.'' None None) (\<lambda>welcome.
     and_then (session_write env lead_slot_id ''team_system'' MtMessage (added_notice agent) None None) (\<lambda>leader_notice.
     and_then (project_team_system_message env (ta_slot_id agent) (ta_conversation_id agent) (msg_id welcome)
        (msg_content welcome)) (\<lambda>_.
     and_then (session_get_agent lead_slot_id) (\<lambda>lead_agent.
     and_then (project_team_system_message env lead_slot_id (ta_conversation_id lead_agent) (msg_id leader_notice)
        (msg_content leader_notice)) (\<lambda>_.
     and_then (enqueue_existing_work env (ta_slot_id agent) SpawnWelcome (Some (msg_id welcome)) ActiveRunOrBackground) (\<lambda>_.
     and_then (enqueue_existing_work env lead_slot_id TeamMembershipChanged (Some (msg_id leader_notice))
        ActiveRunOrBackground) (\<lambda>_.
     return_ok ())))))))))"

definition notify_leader_membership_removed ::
  "('j, 's, 'c, 'w, 'p) session_env \<Rightarrow> team_agent \<Rightarrow> (unit, ('j, 's, 'c, 'w, 'p) session) act" where
  "notify_leader_membership_removed env removed =
     and_then team_lead_or_fail (\<lambda>lead_slot_id.
     and_then (session_write env lead_slot_id ''team_system'' MtMessage (removed_notice removed) None None) (\<lambda>notice.
     and_then (session_get_agent lead_slot_id) (\<lambda>lead_agent.
     and_then (project_team_system_message env lead_slot_id (ta_conversation_id lead_agent) (msg_id notice)
        (msg_content notice)) (\<lambda>_.
     and_then (enqueue_existing_work env lead_slot_id TeamMembershipChanged (Some (msg_id notice))
        ActiveRunOrBackground) (\<lambda>_.
     return_ok ())))))"

definition kill_and_wait :: "ident \<Rightarrow> (unit, ('j, 's, 'c, 'w, 'p) session) act" where
  "kill_and_wait conversation_id = modify (\<lambda>se. se\<lparr>se_killed := se_killed se @ [conversation_id]\<rparr>)"

definition on_runtimes ::
  "(('c, 'w) registry \<Rightarrow> 'a \<times> ('c, 'w) registry) \<Rightarrow> ('a, ('j, 's, 'c, 'w, 'p) session) act" where
  "on_runtimes f se = (case f (se_runtimes se) of (x, reg) \<Rightarrow> Some (Inr x, se\<lparr>se_runtimes := reg\<rparr>))"

definition remove_member ::
  "('j, 's, 'c, 'w, 'p) session_env \<Rightarrow> ident \<Rightarrow> 'c begin_remove_reply \<Rightarrow> (unit, ('j, 's, 'c, 'w, 'p) session) act" where
  "remove_member env slot_id removal =
     and_then (case removal of
                 RemoveStart lease \<Rightarrow>
                   and_then (session_constrain env slot_id (Removing (rl_operation_id lease))) (\<lambda>_. return_ok ())
               | _ \<Rightarrow> return_ok ()) (\<lambda>_.
     and_then (expect_coord (remove_slot (session_port env) slot_id)) (\<lambda>work.
     and_then (mark_terminal_read env (rr_terminal_message_ids work)) (\<lambda>_.
     and_then (case Option.bind (rr_cancel_target work) bc_turn_id of
                 None \<Rightarrow> return_ok ()
               | Some turn_id \<Rightarrow>
                 and_then (session_get_agent slot_id) (\<lambda>agent.
                 and_then (cancel_agent_turn env (ta_conversation_id agent) turn_id) (\<lambda>_. return_ok ()))) (\<lambda>_.
     and_then (modify (\<lambda>se. se\<lparr>se_loops := loops_remove slot_id (se_loops se)\<rparr>)) (\<lambda>_.
     and_then (on_manager (remove_agent slot_id)) (\<lambda>conversation_id.
     and_then (case conversation_id of None \<Rightarrow> return_ok () | Some i \<Rightarrow> kill_and_wait i) (\<lambda>_.
     case removal of
       RemoveStart lease \<Rightarrow> and_then (on_runtimes (finish_remove (en_watch env) lease)) (\<lambda>_. return_ok ())
     | _ \<Rightarrow> return_ok ())))))))"

text \<open>
  \<open>waiter.wait().await\<close>: others work on the session meanwhile, then the waiter is asked again.
  \<open>None\<close>: it has no answer yet, so the caller still waits.
\<close>

definition await_outcome ::
  "('j, 's, 'c, 'w, 'p) session_env \<Rightarrow> 'c attach_waiter \<Rightarrow> (attach_outcome option, ('j, 's, 'c, 'w, 'p) session) act" where
  "await_outcome env aw = and_then (others_run env) (\<lambda>_. gets (\<lambda>se. wait_poll (en_watch env) (se_runtimes se) aw))"

text \<open>
  Who joins a removal in progress waits until it is over; the removal itself is the other's. The
  result is the waiter whose answer is still awaited, if the method has not returned.
\<close>

definition session_remove_agent ::
  "('j, 's, 'c, 'w, 'p) session_env \<Rightarrow> ident \<Rightarrow> ('c attach_waiter option, ('j, 's, 'c, 'w, 'p) session) act" where
  "session_remove_agent env slot_id =
     and_then (on_runtimes (begin_remove (en_watch env) slot_id)) (\<lambda>removal.
     case removal of
       RemoveJoin aw \<Rightarrow> and_then (await_outcome env aw) (\<lambda>outcome. return_ok (if outcome = None then Some aw else None))
     | _ \<Rightarrow> and_then (remove_member env slot_id removal) (\<lambda>_. return_ok None))"

definition session_rename_agent ::
  "('j, 's, 'c, 'w, 'p) session_env \<Rightarrow> ident \<Rightarrow> string \<Rightarrow> (unit, ('j, 's, 'c, 'w, 'p) session) act" where
  "session_rename_agent env slot_id new_name =
     on_manager (rename_agent (te_unicode (en_team env)) slot_id new_name)"

definition session_stop :: "('j, 's, 'c, 'w, 'p) session_env \<Rightarrow> (unit, ('j, 's, 'c, 'w, 'p) session) act" where
  "session_stop env =
     and_then (on_coord (stop (session_port env))) (\<lambda>_.
     and_then (on_runtimes (registry_stop (en_watch env))) (\<lambda>_.
     modify (\<lambda>se. se\<lparr>se_loops := loops_shutdown (se_loops se), se_mcp_stopped := True\<rparr>)))"

end
