(* ===== verification/Turn_Loop.thy ===== *)
theory Turn_Loop
  imports Session_Control
begin

text \<open>
  The event loop of an agent (crates/team/src/event_loop.rs): it drains the agent's work, one
  batch at a time, by turns of the agent behind the turn port (crates/team/src/ports.rs).

  A turn is what the port does with a request: a list of steps, in order, and a result. A
  step either announces the start of the turn through the callback of the request or stands
  for anything that others do to the session while the turn runs. The port is an argument.
\<close>

subsection \<open>The turn port (ports.rs)\<close>

record turn_request =
  tq_team_run_id :: "ident option"
  tq_team_id :: ident
  tq_slot_id :: ident
  tq_role :: run_target_role
  tq_conversation_id :: ident
  tq_user_id :: ident
  tq_content :: string
  tq_files :: "string list"
  tq_unread_message_ids :: "ident list"
  tq_unread_count :: nat

record turn_started =
  ts_team_run_id :: "ident option"
  ts_slot_id :: ident
  ts_role :: run_target_role
  ts_conversation_id :: ident
  ts_turn_id :: ident

datatype turn_status = TurnCompleted | TurnStatusFailed | TurnStatusSkipped

definition is_success :: "turn_status \<Rightarrow> bool" where
  "is_success st \<longleftrightarrow> st = TurnCompleted"

record turn_outcome =
  to_conversation_id :: ident
  to_turn_id :: ident
  to_status :: turn_status
  to_response_text :: "string option"

datatype 'st turn_step = TurnAnnounced turn_started | Meanwhile "'st \<Rightarrow> 'st"

type_synonym 'st turn_port = "turn_request \<Rightarrow> 'st turn_step list \<times> (turn_error + turn_outcome)"

definition is_announcement :: "'st turn_step \<Rightarrow> bool" where
  "is_announcement step = (case step of TurnAnnounced _ \<Rightarrow> True | Meanwhile _ \<Rightarrow> False)"

subsection \<open>The callback\<close>

definition started_payload :: "ident \<Rightarrow> turn_started \<Rightarrow> ident \<Rightarrow> team_run_status \<Rightarrow> child_turn_payload" where
  "started_payload team_id started run_id status =
     \<lparr>ct_team_id = team_id, ct_team_run_id = run_id, ct_slot_id = ts_slot_id started,
      ct_role = ts_role started, ct_conversation_id = ts_conversation_id started,
      ct_turn_id = ts_turn_id started, ct_status = status\<rparr>"

definition broadcast_started ::
  "child_turn_event \<Rightarrow> team_run_status \<Rightarrow> turn_started \<Rightarrow> (unit, ('j, 's, 'c, 'w, 'p) session) act" where
  "broadcast_started ev status started =
     (case ts_team_run_id started of
        None \<Rightarrow> return_ok ()
      | Some run_id \<Rightarrow>
        and_then (gets (\<lambda>se. sm_team_id (se_manager se))) (\<lambda>team_id.
        broadcast_child_turn ev (started_payload team_id started run_id status)))"

definition session_mark_started ::
  "('j, 's, 'c, 'w, 'p) session_env \<Rightarrow> work_batch \<Rightarrow> ident \<Rightarrow> (start_commit_result, ('j, 's, 'c, 'w, 'p) session) act" where
  "session_mark_started env batch turn_id =
     and_then draw (\<lambda>n. on_coord (mark_started (session_port env) (en_now env n) batch turn_id))"

definition on_started ::
  "('j, 's, 'c, 'w, 'p) session_env \<Rightarrow> work_batch \<Rightarrow> ident \<Rightarrow> turn_started
     \<Rightarrow> (unit, ('j, 's, 'c, 'w, 'p) session) act" where
  "on_started env batch conversation_id started =
     and_then (session_mark_started env batch (ts_turn_id started)) (\<lambda>verdict.
     case verdict of
       StartAccepted \<Rightarrow> broadcast_started ChildTurnStarted RunRunning started
     | CancelImmediately \<Rightarrow>
       and_then (cancel_agent_turn env conversation_id (ts_turn_id started)) (\<lambda>_.
       and_then (on_coord (cancel_batch (session_port env) batch ''late_start_cancelled'')) (\<lambda>_.
       broadcast_started ChildTurnCancelled RunCancelled started))
     | StartStaleOwner \<Rightarrow> return_ok ())"

definition turn_step_act ::
  "('j, 's, 'c, 'w, 'p) session_env \<Rightarrow> work_batch \<Rightarrow> ident \<Rightarrow> ('j, 's, 'c, 'w, 'p) session turn_step
     \<Rightarrow> (unit, ('j, 's, 'c, 'w, 'p) session) act" where
  "turn_step_act env batch conversation_id step =
     (case step of TurnAnnounced started \<Rightarrow> on_started env batch conversation_id started | Meanwhile f \<Rightarrow> modify f)"

subsection \<open>One batch\<close>

datatype execute_result = ContinueDraining | WaitForSignal

definition is_retryable_start_skip :: "turn_error \<Rightarrow> bool" where
  "is_retryable_start_skip e =
     (case e of TurnSkipped reason \<Rightarrow> str_contains ''already running'' reason | TurnFailed _ \<Rightarrow> False)"

definition set_slot_status ::
  "ident \<Rightarrow> teammate_status \<Rightarrow> (unit, ('j, 's, 'c, 'w, 'p) session) act" where
  "set_slot_status slot_id status = ignoring (on_manager (set_status slot_id status))"

definition mark_batch_messages_read ::
  "('j, 's, 'c, 'w, 'p) session_env \<Rightarrow> work_batch \<Rightarrow> (unit, ('j, 's, 'c, 'w, 'p) session) act" where
  "mark_batch_messages_read env batch =
     when_so (wb_mailbox_message_ids batch \<noteq> []) (ignoring (session_mark_read env (wb_mailbox_message_ids batch)))"

definition turn_request_of ::
  "('j, 's, 'c, 'w, 'p) session_env \<Rightarrow> ident \<Rightarrow> ident \<Rightarrow> work_batch \<Rightarrow> wake_input \<Rightarrow> turn_request" where
  "turn_request_of env team_id slot_id batch input =
     \<lparr>tq_team_run_id = (case wb_team_run_ids batch of [] \<Rightarrow> None | r # _ \<Rightarrow> Some r),
      tq_team_id = team_id, tq_slot_id = slot_id, tq_role = target_role_for (wk_agent_role input),
      tq_conversation_id = wk_conversation_id input, tq_user_id = en_user_id env,
      tq_content = wk_first_message input, tq_files = concat (List.map_filter msg_files (wk_unread input)),
      tq_unread_message_ids = map msg_id (wk_unread input), tq_unread_count = length (wk_unread input)\<rparr>"

definition record_group_response ::
  "('j, 's, 'c, 'w, 'p) session_env \<Rightarrow> ident \<Rightarrow> string \<Rightarrow> (unit, ('j, 's, 'c, 'w, 'p) session) act" where
  "record_group_response env slot_id text se =
     Some (case en_record_group env (length (se_group_responses se)) of None \<Rightarrow> Inr () | Some e \<Rightarrow> Inl e,
           se\<lparr>se_group_responses := se_group_responses se @ [(slot_id, text)]\<rparr>)"

definition keep_response ::
  "('j, 's, 'c, 'w, 'p) session_env \<Rightarrow> ident \<Rightarrow> work_batch \<Rightarrow> turn_outcome
     \<Rightarrow> (unit, ('j, 's, 'c, 'w, 'p) session) act" where
  "keep_response env slot_id batch outcome =
     and_then (gets (is_group_run_batch (wb_team_run_ids batch))) (\<lambda>group.
     case (if is_success (to_status outcome) \<and> group then to_response_text outcome else None) of
       None \<Rightarrow> return_ok ()
     | Some text \<Rightarrow>
       and_then draw (\<lambda>n.
       and_then (modify (\<lambda>se. se\<lparr>se_manager := set_last_message (en_now env n) slot_id text (se_manager se)\<rparr>)) (\<lambda>_.
       ignoring (record_group_response env slot_id text))))"

text \<open>Giving the batch back to the coordinator; the status broadcast for its runs, if it was still current.\<close>

definition conclude_batch ::
  "('j, 's, 'c, 'w, 'p) session_env \<Rightarrow> ident \<Rightarrow> work_batch \<Rightarrow> turn_outcome
     \<Rightarrow> (team_run_status option, ('j, 's, 'c, 'w, 'p) session) act" where
  "conclude_batch env slot_id batch outcome =
     (if is_success (to_status outcome)
      then and_then (on_coord (complete_batch (session_port env) batch)) (\<lambda>committed.
           return_ok (if committed = Committed then Some RunCompleted else None))
      else and_then (on_coord (fail_batch (session_port env) batch ''turn_failed'')) (\<lambda>committed.
           and_then (set_slot_status slot_id StError) (\<lambda>_.
           return_ok (if committed = Committed then Some RunFailed else None))))"

definition completed_payload ::
  "ident \<Rightarrow> ident \<Rightarrow> wake_input \<Rightarrow> turn_outcome \<Rightarrow> team_run_status \<Rightarrow> ident \<Rightarrow> child_turn_payload" where
  "completed_payload team_id slot_id input outcome status run_id =
     \<lparr>ct_team_id = team_id, ct_team_run_id = run_id, ct_slot_id = slot_id,
      ct_role = target_role_for (wk_agent_role input), ct_conversation_id = to_conversation_id outcome,
      ct_turn_id = to_turn_id outcome, ct_status = status\<rparr>"

definition broadcast_completed ::
  "ident \<Rightarrow> ident \<Rightarrow> work_batch \<Rightarrow> wake_input \<Rightarrow> turn_outcome \<Rightarrow> team_run_status option
     \<Rightarrow> (unit, ('j, 's, 'c, 'w, 'p) session) act" where
  "broadcast_completed team_id slot_id batch input outcome status =
     (case status of
        None \<Rightarrow> return_ok ()
      | Some st \<Rightarrow> run_all (\<lambda>run_id. broadcast_child_turn ChildTurnCompleted
                        (completed_payload team_id slot_id input outcome st run_id)) (wb_team_run_ids batch))"

definition finalize_agent_turn ::
  "('j, 's, 'c, 'w, 'p) session_env \<Rightarrow> ident \<Rightarrow> (unit, ('j, 's, 'c, 'w, 'p) session) act" where
  "finalize_agent_turn env slot_id =
     and_then (attempt (on_manager (finalize_turn (en_team env) slot_id []))) (\<lambda>res.
     case res of
       Inr (Some wake_target) \<Rightarrow>
         when_so (wake_target \<noteq> slot_id) (ignoring (enqueue_leader_settle_signal env wake_target IdleNotification))
     | _ \<Rightarrow> return_ok ())"

definition finish_turn ::
  "('j, 's, 'c, 'w, 'p) session_env \<Rightarrow> ident \<Rightarrow> ident \<Rightarrow> work_batch \<Rightarrow> wake_input \<Rightarrow> turn_outcome
     \<Rightarrow> (unit, ('j, 's, 'c, 'w, 'p) session) act" where
  "finish_turn env team_id slot_id batch input outcome =
     and_then (mark_batch_messages_read env batch) (\<lambda>_.
     and_then (keep_response env slot_id batch outcome) (\<lambda>_.
     and_then (conclude_batch env slot_id batch outcome) (\<lambda>status.
     and_then (broadcast_completed team_id slot_id batch input outcome status) (\<lambda>_.
     finalize_agent_turn env slot_id))))"

definition settle_turn ::
  "('j, 's, 'c, 'w, 'p) session_env \<Rightarrow> ident \<Rightarrow> ident \<Rightarrow> work_batch \<Rightarrow> wake_input \<Rightarrow> bool
     \<Rightarrow> turn_error + turn_outcome \<Rightarrow> (execute_result, ('j, 's, 'c, 'w, 'p) session) act" where
  "settle_turn env team_id slot_id batch input announced result =
     (case result of
        Inr outcome \<Rightarrow>
          and_then (finish_turn env team_id slot_id batch input outcome) (\<lambda>_. return_ok ContinueDraining)
      | Inl e \<Rightarrow>
          if \<not> announced \<and> is_retryable_start_skip e
          then and_then (on_coord (retry_start (session_port env) batch)) (\<lambda>_.
               and_then (set_slot_status slot_id StIdle) (\<lambda>_. return_ok WaitForSignal))
          else and_then (mark_batch_messages_read env batch) (\<lambda>_.
               and_then (on_coord (fail_batch (session_port env) batch ''turn_start_failed'')) (\<lambda>_.
               and_then (set_slot_status slot_id StError) (\<lambda>_. return_ok ContinueDraining))))"

definition execute_and_finalize ::
  "('j, 's, 'c, 'w, 'p) session_env \<Rightarrow> ('j, 's, 'c, 'w, 'p) session turn_port \<Rightarrow> ident \<Rightarrow> work_batch \<Rightarrow> wake_input
     \<Rightarrow> (execute_result, ('j, 's, 'c, 'w, 'p) session) act" where
  "execute_and_finalize env port slot_id batch input =
     and_then (mirror_unread_to_conversation env input) (\<lambda>_.
     and_then (set_slot_status slot_id StWorking) (\<lambda>_.
     and_then (gets (\<lambda>se. sm_team_id (se_manager se))) (\<lambda>team_id.
     let q = turn_request_of env team_id slot_id batch input
     in and_then (run_all (turn_step_act env batch (wk_conversation_id input)) (fst (port q))) (\<lambda>_.
        settle_turn env team_id slot_id batch input (list_ex is_announcement (fst (port q))) (snd (port q))))))"

subsection \<open>Draining\<close>

text \<open>
  The inner loop, from a wake-up to the next wait. Each round is given the port that answers in
  it; the loop goes on as long as there are rounds left and work to do. \<open>True\<close>: it stopped
  of itself. One round is \<open>drain_round\<close>, whose result says whether the loop goes on.
\<close>

definition drain_prepared ::
  "('j, 's, 'c, 'w, 'p) session_env \<Rightarrow> ('j, 's, 'c, 'w, 'p) session turn_port \<Rightarrow> ident
     \<Rightarrow> team_error + prepared \<Rightarrow> (bool, ('j, 's, 'c, 'w, 'p) session) act" where
  "drain_prepared env port slot_id prepared =
     (case prepared of
        Inr (ExecuteBatch batch input) \<Rightarrow>
          and_then (execute_and_finalize env port slot_id batch input) (\<lambda>res. return_ok (res = ContinueDraining))
      | Inr (SettleIntents ids) \<Rightarrow> and_then (handle_signal_intents env slot_id ids) (\<lambda>_. return_ok True)
      | _ \<Rightarrow> return_ok False)"

definition drain_round ::
  "('j, 's, 'c, 'w, 'p) session_env \<Rightarrow> ('j, 's, 'c, 'w, 'p) session turn_port \<Rightarrow> ident
     \<Rightarrow> (bool, ('j, 's, 'c, 'w, 'p) session) act" where
  "drain_round env port slot_id se =
     (if el_stopped (se_loops se) then Some (Inr False, se)
      else and_then (attempt (prepare_next_batch env slot_id)) (drain_prepared env port slot_id) se)"

fun drain ::
  "('j, 's, 'c, 'w, 'p) session_env \<Rightarrow> ident \<Rightarrow> ('j, 's, 'c, 'w, 'p) session turn_port list
     \<Rightarrow> (bool, ('j, 's, 'c, 'w, 'p) session) act" where
  "drain env slot_id [] = return_ok False"
| "drain env slot_id (port # ports) =
     and_then (drain_round env port slot_id) (\<lambda>go_on. if go_on then drain env slot_id ports else return_ok True)"

end
