(* ===== verification/Session_Safety.thy ===== *)
theory Session_Safety
  imports Turn_Loop Work_Claims_Queue
begin

text \<open>
  The session uses the coordinator only in ways that keep its invariant, and no method
  panics. \<open>session_ok env T S\<close> is the invariant of a session whose callers hold the batches
  \<open>T\<close>, of which those in \<open>S\<close> have been given up: the coordinator's own invariant holds, every
  id in use was drawn before, the batches of \<open>T\<close> are genuine and those of \<open>S\<close> are not current.
\<close>

subsection \<open>Intents an operation may add\<close>

definition intent_ids :: "coordinator \<Rightarrow> ident set" where
  "intent_ids c = dom (map_of (co_intents c))"

lemma intent_ids_update [simp]:
  "intent_ids (set_intent_state i st c) = intent_ids c"
  "intent_ids (modify_slot s f c) = intent_ids c" "intent_ids (put_slot s sl c) = intent_ids c"
  "intent_ids (c\<lparr>co_enqueue_leases := ls\<rparr>) = intent_ids c" "intent_ids (c\<lparr>co_next_operation_id := n\<rparr>) = intent_ids c"
  by (simp_all add: intent_ids_def set_intent_state_def modify_intent_def dom_map_of_conv_image_fst
      flip: set_map)

lemma intent_ids_eq: "co_intents c' = co_intents c \<Longrightarrow> intent_ids c' = intent_ids c"
  by (simp add: intent_ids_def)

lemma intent_ids_fold [simp]: "intent_ids (fold (\<lambda>i. set_intent_state i st) xs c) = intent_ids c"
  by (induction xs arbitrary: c) simp_all

text \<open>What only few operations change: the ids of the intents, the enqueue leases, the generation.\<close>

definition coord_frame :: "coordinator \<Rightarrow> ident set \<times> lease_record hash_map \<times> ident" where
  "coord_frame c = (intent_ids c, co_enqueue_leases c, co_session_generation c)"

lemma coord_frameD:
  assumes "coord_frame c' = coord_frame c"
  shows "intent_ids c' = intent_ids c" "co_enqueue_leases c' = co_enqueue_leases c"
    "co_session_generation c' = co_session_generation c"
  using assms by (simp_all add: coord_frame_def)

lemma coord_frame_update [simp]:
  "coord_frame (set_intent_state i st c) = coord_frame c"
  "coord_frame (modify_slot s f c) = coord_frame c" "coord_frame (put_slot s sl c) = coord_frame c"
  "coord_frame (c\<lparr>co_next_operation_id := n\<rparr>) = coord_frame c"
  by (simp_all add: coord_frame_def)

lemma coord_frame_fold [simp]:
  "coord_frame (fold (\<lambda>i. set_intent_state i st) xs c) = coord_frame c"
  "coord_frame (fold (\<lambda>i c. modify_slot sid (f i) (set_intent_state i st c)) xs c) = coord_frame c"
  by (induction xs arbitrary: c) simp_all

lemma opt_fold_frame:
  assumes "opt_fold f xs s = Some s'" and "\<And>x s s'. f x s = Some s' \<Longrightarrow> coord_frame (C s') = coord_frame (C s)"
  shows "coord_frame (C s') = coord_frame (C s)"
  using opt_fold_slots [OF assms(1), of "\<lambda>s. coord_frame (C s)"] assms(2) by blast

lemma mark_started_frame: "mark_started port now b t c r = (res, c', r') \<Longrightarrow> coord_frame c' = coord_frame c"
  by (auto simp: mark_started_def Let_def split: if_splits)

lemma retry_start_frame: "retry_start port b c r = (res, c', r') \<Longrightarrow> coord_frame c' = coord_frame c"
  by (auto simp: retry_start_def Let_def split: if_splits)

lemma terminalize_frame: "terminalize_batch port b st c r = (res, c', r') \<Longrightarrow> coord_frame c' = coord_frame c"
  by (auto simp: terminalize_batch_def Let_def split: if_splits)

lemma signals_frame: "complete_signals port sid is c r = (res, c', r') \<Longrightarrow> coord_frame c' = coord_frame c"
  by (auto simp: complete_signals_def Let_def split: if_splits)

lemma pause_frame: "pause_slot sid c = Some (res, c') \<Longrightarrow> coord_frame c' = coord_frame c"
  by (auto simp: pause_slot_def Let_def split: option.splits)

lemma next_work_frame: "next_work port bid sid c r = (d, c', r') \<Longrightarrow> coord_frame c' = coord_frame c"
  by (erule next_work_cases) simp_all

lemma constrain_frame: "constrain_intent k i acc = Some acc' \<Longrightarrow>
    coord_frame (ca_coordinator acc') = coord_frame (ca_coordinator acc)"
  by (auto simp: constrain_intent_def Let_def split: option.splits if_splits)

lemma set_runtime_constraint_frame:
  assumes "set_runtime_constraint port sid k c r = Some (res, c', r')"
  shows "coord_frame c' = coord_frame c"
proof -
  let ?c1 = "put_slot sid ((slot_entry sid RoleTeammate c)\<lparr>ss_runtime_constraint := k\<rparr>) c"
  show ?thesis
  proof (cases "ends_work k")
    case False
    with assms have "c' = ?c1"
      by (auto simp: set_runtime_constraint_def Let_def split: option.splits)
    then show ?thesis by simp
  next
    case True
    with assms obtain acc where
      acc: "opt_fold (constrain_intent k) (live_intent_ids ?c1 sid)
         \<lparr>ca_coordinator = ?c1, ca_requeue = [], ca_affected_run_ids = [], ca_terminal_message_ids = []\<rparr> = Some acc"
      and c': "c' = modify_slot sid (\<lambda>sl. fold (\<lambda>(p, i). push_back p i) (ca_requeue acc) (clear_slot sl)) (ca_coordinator acc)"
      by (auto simp: set_runtime_constraint_def Let_def split: option.splits)
    show ?thesis
      using opt_fold_frame [OF acc, of ca_coordinator] constrain_frame by (simp add: c')
  qed
qed

lemma cancel_active_slot_frame:
  assumes "cancel_active_slot run_id sa s = Some s'" shows "coord_frame (fst s') = coord_frame (fst s)"
proof -
  obtain sid a c msgs c' msgs' where s: "sa = (sid, a)" "s = (c, msgs)" "s' = (c', msgs')"
    by (meson surj_pair)
  with assms obtain c1 ret where
    loop: "opt_fold (cancel_active_intent run_id) (wb_intent_ids (ab_batch a)) (c, msgs, []) = Some (c1, msgs', ret)"
    and c': "c' = modify_slot sid (\<lambda>sl. fold (\<lambda>(p, i). push_front p i) (rev ret) (sl\<lparr>ss_active := None\<rparr>)) c1"
    by (auto simp: cancel_active_slot_def split: option.splits)
  have "coord_frame (fst s') = coord_frame (fst s)" if "cancel_active_intent run_id i s = Some s'" for i s s'
    using that by (auto simp: cancel_active_intent_def split: option.splits prod.splits if_splits)
  then show ?thesis
    using opt_fold_frame [OF loop, of fst] by (simp add: s c')
qed

lemma cancel_queued_frame:
  "cancel_queued_intent i s = Some s' \<Longrightarrow> coord_frame (fst s') = coord_frame (fst s)"
  by (auto simp: cancel_queued_intent_def Let_def split: option.splits prod.splits if_splits)

lemma remove_slot_frame:
  assumes "remove_slot port sid c r = Some (res, c', r')" shows "coord_frame c' = coord_frame c"
proof -
  obtain c1 msgs runs where
    loop: "opt_fold remove_intent (removal_order c sid) (c, [], []) = Some (c1, msgs, runs)"
    and c': "c' = modify_slot sid (\<lambda>sl. (clear_slot sl)\<lparr>ss_removed := True\<rparr>) c1"
    using assms by (auto simp: remove_slot_def Let_def split: option.splits)
  have "coord_frame (fst s') = coord_frame (fst s)" if "remove_intent i s = Some s'" for i s s'
    using that by (auto simp: remove_intent_def Let_def split: option.splits prod.splits)
  then show ?thesis
    using opt_fold_frame [OF loop, of fst] by (simp add: c')
qed

lemmas mark_started_intent_ids = coord_frameD(1) [OF mark_started_frame]
lemmas retry_start_intent_ids = coord_frameD(1) [OF retry_start_frame]
lemmas terminalize_intent_ids = coord_frameD(1) [OF terminalize_frame]
lemmas signals_intent_ids = coord_frameD(1) [OF signals_frame]
lemmas pause_intent_ids = coord_frameD(1) [OF pause_frame]
lemmas next_work_intent_ids = coord_frameD(1) [OF next_work_frame]
lemmas set_runtime_constraint_intent_ids = coord_frameD(1) [OF set_runtime_constraint_frame]
lemmas remove_slot_intent_ids = coord_frameD(1) [OF remove_slot_frame]

subsection \<open>Intents and leases where they change\<close>

text \<open>The leases that are open, by their ids, and whether two states have the same generation.\<close>

definition lease_ids :: "coordinator \<Rightarrow> ident set" where
  "lease_ids c = dom (map_of (co_enqueue_leases c))"

definition leases_within :: "coordinator \<Rightarrow> coordinator \<Rightarrow> bool" where
  "leases_within c' c \<longleftrightarrow> lease_ids c' \<subseteq> lease_ids c \<and> co_session_generation c' = co_session_generation c"

lemma frame_leases_within: "coord_frame c' = coord_frame c \<Longrightarrow> leases_within c' c"
  by (simp add: leases_within_def lease_ids_def coord_frame_def)

lemma cancel_run_frame:
  assumes "cancel_run port run_id c r = Some (res, c', r')"
  shows "intent_ids c' = intent_ids c" "leases_within c' c"
proof -
  obtain c1 msgs1 c2 msgs2 js ks where
    one: "opt_fold (cancel_active_slot run_id) (active_slots_of_run c run_id) (c, []) = Some (c1, msgs1)"
    and two: "opt_fold cancel_queued_intent js (c1, msgs1) = Some (c2, msgs2)"
    and c': "c' = c2\<lparr>co_enqueue_leases := fold AList.delete ks (co_enqueue_leases c2)\<rparr>"
    using assms by (auto simp: cancel_run_def Let_def split: option.splits)
  have frame: "coord_frame c2 = coord_frame c"
    using opt_fold_frame [OF one, of fst] opt_fold_frame [OF two, of fst]
      cancel_active_slot_frame cancel_queued_frame by fastforce
  then show "intent_ids c' = intent_ids c" by (simp add: c' coord_frame_def)
  have "dom (map_of (fold AList.delete ks ls)) \<subseteq> dom (map_of ls)" for ls :: "lease_record hash_map"
  proof (induction ks arbitrary: ls)
    case (Cons k ks)
    have "dom (map_of (AList.delete k ls)) \<subseteq> dom (map_of ls)" by (auto simp: map_simps split: if_splits)
    then show ?case using Cons [of "AList.delete k ls"] by simp
  qed simp
  with frame show "leases_within c' c"
    by (auto simp: c' leases_within_def lease_ids_def coord_frame_def)
qed

lemmas cancel_run_intent_ids = cancel_run_frame(1)

lemma stop_intent_ids: "stop port c r = (sums, c', r') \<Longrightarrow> intent_ids c' = intent_ids c"
  by (force simp: stop_def Let_def intent_ids_def dom_map_of_conv_image_fst image_image case_prod_beta)

lemma stop_leases: "stop port c r = (sums, c', r') \<Longrightarrow> leases_within c' c"
  by (auto simp: stop_def Let_def leases_within_def lease_ids_def)

lemma acquire_intent_ids: "acquire_enqueue port lid rq c r = (res, c', r') \<Longrightarrow> intent_ids c' = intent_ids c"
  by (auto simp: acquire_enqueue_def Let_def split: option.splits prod.splits)

lemma abort_intent_ids: "abort_enqueue port lease c r = (res, c', r') \<Longrightarrow> intent_ids c' = intent_ids c"
  by (auto simp: abort_enqueue_def Let_def split: option.splits if_splits)

lemma commit_intent_ids:
  assumes "commit_enqueue port i now lease msg c r = (res, c', r')" shows "intent_ids c' \<subseteq> insert i (intent_ids c)"
proof (cases res)
  case (Inl e)
  with assms commit_enqueue_error [of port i now lease msg c r e c' r'] show ?thesis by auto
next
  case (Inr out)
  with assms show ?thesis
    by (auto elim!: commit_enqueue_success simp: intent_ids_def map_simps split: if_splits)
qed

lemma recover_message_intent_ids:
  "intent_ids (fst (recover_message ids clock sid role m s)) \<subseteq> intent_ids (fst s) \<union> range ids"
  by (auto simp: recover_message_def Let_def intent_ids_def map_simps split: prod.splits if_splits)

lemma reconcile_intent_ids:
  assumes "reconcile_mailbox ids clock sid unread role c = (p, c')" shows "intent_ids c' \<subseteq> intent_ids c \<union> range ids"
proof -
  let ?slot = "(slot_entry sid role c)\<lparr>ss_role := role, ss_known_unread := set unread\<rparr>"
  let ?stale = "filter (stale_message (put_slot sid ?slot c) unread) (queued_ids ?slot)"
  let ?c3 = "modify_slot sid (fold remove_queued ?stale) (fold (\<lambda>i. set_intent_state i ICompleted) ?stale (put_slot sid ?slot c))"
  obtain created where "fold (recover_message ids clock sid role) unread (?c3, []) = (c', created)"
    using assms by (auto simp: reconcile_mailbox_def Let_def fold_reconcile_candidate split: prod.splits)
  moreover have "intent_ids (fst (fold (recover_message ids clock sid role) ms s)) \<subseteq> intent_ids (fst s) \<union> range ids" for ms s
  proof (induction ms arbitrary: s)
    case (Cons m ms)
    show ?case using Cons [of "recover_message ids clock sid role m s"] recover_message_intent_ids [of ids clock sid role m s]
      by auto
  qed simp
  from this [of unread "(?c3, [])"] have "intent_ids (fst (fold (recover_message ids clock sid role) unread (?c3, []))) \<subseteq> intent_ids c \<union> range ids"
    by simp
  ultimately show ?thesis by simp
qed


lemma recover_message_leases:
  "co_enqueue_leases (fst (recover_message ids clock sid role m s)) = co_enqueue_leases (fst s)"
  "co_session_generation (fst (recover_message ids clock sid role m s)) = co_session_generation (fst s)"
  by (auto simp: recover_message_def Let_def split: prod.splits)

lemma reconcile_leases:
  assumes "reconcile_mailbox ids clock sid unread role c = (p, c')"
  shows "leases_within c' c"
proof -
  let ?slot = "(slot_entry sid role c)\<lparr>ss_role := role, ss_known_unread := set unread\<rparr>"
  let ?stale = "filter (stale_message (put_slot sid ?slot c) unread) (queued_ids ?slot)"
  let ?c3 = "modify_slot sid (fold remove_queued ?stale) (fold (\<lambda>i. set_intent_state i ICompleted) ?stale (put_slot sid ?slot c))"
  obtain created where run: "fold (recover_message ids clock sid role) unread (?c3, []) = (c', created)"
    using assms by (auto simp: reconcile_mailbox_def Let_def fold_reconcile_candidate split: prod.splits)
  have "co_enqueue_leases (fst (fold (recover_message ids clock sid role) ms s)) = co_enqueue_leases (fst s) \<and>
      co_session_generation (fst (fold (recover_message ids clock sid role) ms s)) = co_session_generation (fst s)" for ms s
    by (induction ms arbitrary: s) (simp_all add: recover_message_leases)
  from this [of unread "(?c3, [])"] show ?thesis
    unfolding run fst_conv by (simp add: leases_within_def lease_ids_def)
qed

subsection \<open>The invariant of a session\<close>

definition ids_fresh :: "('j, 's, 'c, 'w, 'p) session_env \<Rightarrow> bool" where
  "ids_fresh env \<longleftrightarrow>
     (\<forall>n m. en_ids env n = en_ids env m \<longrightarrow> n = m) \<and>
     (\<forall>n k m j. en_id_streams env n k = en_id_streams env m j \<longrightarrow> n = m \<and> k = j) \<and>
     (\<forall>n m k. en_ids env n \<noteq> en_id_streams env m k)"

definition drawn :: "('j, 's, 'c, 'w, 'p) session_env \<Rightarrow> nat \<Rightarrow> ident set" where
  "drawn env n = en_ids env ` {..<n} \<union> (\<Union>m<n. range (en_id_streams env m))"

lemma drawn_mono: "n \<le> m \<Longrightarrow> drawn env n \<subseteq> drawn env m"
  by (force simp: drawn_def)

lemma drawn_id: "en_ids env n \<in> drawn env (Suc n)" and drawn_stream: "range (en_id_streams env n) \<subseteq> drawn env (Suc n)"
  by (auto simp: drawn_def)

lemma ids_freshD:
  assumes "ids_fresh env"
  shows "en_ids env n = en_ids env m \<Longrightarrow> n = m" "en_id_streams env n k = en_id_streams env m j \<Longrightarrow> n = m \<and> k = j"
    "en_ids env n \<noteq> en_id_streams env m k"
  using assms unfolding ids_fresh_def by blast+

lemma fresh_id: "ids_fresh env \<Longrightarrow> en_ids env n \<notin> drawn env n"
  unfolding drawn_def using ids_freshD(1,3) by fastforce

lemma fresh_stream: "ids_fresh env \<Longrightarrow> en_id_streams env n k \<notin> drawn env n"
  unfolding drawn_def using ids_freshD(2) ids_freshD(3) [symmetric] by fastforce

lemma inj_stream: "ids_fresh env \<Longrightarrow> inj (en_id_streams env n)"
  by (auto simp: ids_fresh_def inj_def)

definition session_ok ::
  "('j, 's, 'c, 'w, 'p) session_env \<Rightarrow> work_batch set \<Rightarrow> work_batch set \<Rightarrow> ('j, 's, 'c, 'w, 'p) session \<Rightarrow> bool" where
  "session_ok env T S se \<longleftrightarrow>
     ids_fresh env \<and> coord_inv (se_coord se) \<and> intent_ids (se_coord se) \<subseteq> drawn env (se_draws se) \<and>
     wb_batch_id ` actives (se_coord se) \<subseteq> drawn env (se_draws se) \<and>
     (\<forall>b \<in> T. genuine (se_coord se) b \<and> wb_batch_id b \<in> drawn env (se_draws se)) \<and>
     S \<subseteq> T \<and> (\<forall>b \<in> S. \<not> is_current_batch (se_coord se) b)"

lemma session_okD:
  assumes "session_ok env T S se"
  shows "ids_fresh env" "coord_inv (se_coord se)" "intent_ids (se_coord se) \<subseteq> drawn env (se_draws se)"
    and "\<And>b. b \<in> T \<Longrightarrow> genuine (se_coord se) b" "\<And>b. b \<in> S \<Longrightarrow> \<not> is_current_batch (se_coord se) b"
  using assms by (auto simp: session_ok_def)

lemma is_current_cong:
  "wb_batch_id b = wb_batch_id b' \<Longrightarrow> wb_operation_id b = wb_operation_id b' \<Longrightarrow>
   wb_session_generation b = wb_session_generation b' \<Longrightarrow> wb_slot_id b = wb_slot_id b' \<Longrightarrow>
   is_current_batch c b = is_current_batch c b'"
  unfolding is_current_batch_def by (simp only:)

lemma active_at:
  assumes "coord_inv c" and "b \<in> actives c"
  obtains slot a where "map_of (co_slots c) (wb_slot_id b) = Some slot" "ss_active slot = Some a" "ab_batch a = b"
proof -
  obtain sid slot a where slot: "map_of (co_slots c) sid = Some slot" "ss_active slot = Some a" "ab_batch a = b"
    using assms(2) by (auto simp: actives_def)
  then have "wb_slot_id b = sid"
    using coord_invD(4) [OF assms(1), of sid] by (auto simp: slot_ok_def active_exact_def)
  with slot that show thesis by blast
qed

lemma actives_genuine: "coord_inv c \<Longrightarrow> b \<in> actives c \<Longrightarrow> genuine c b"
  by (metis active_at genuine_def)

text \<open>One operation of the coordinator: new intents and batches carry the ids \<open>F\<close> drawn for it.\<close>

lemma session_ok_move:
  assumes ok: "session_ok env T S se" and inv: "coord_inv (se_coord se')"
    and ints: "intent_ids (se_coord se') \<subseteq> intent_ids (se_coord se) \<union> F"
    and act: "\<And>b. b \<in> actives (se_coord se') \<Longrightarrow> b \<in> actives (se_coord se) \<or> wb_batch_id b \<in> F"
    and F: "F \<inter> drawn env (se_draws se) = {}" "F \<subseteq> drawn env (se_draws se')" "se_draws se \<le> se_draws se'"
  shows "session_ok env T S se'"
proof -
  let ?c = "se_coord se" and ?c' = "se_coord se'"
  note mono = drawn_mono [OF F(3), of env]
  have inv0: "coord_inv ?c" using ok by (simp add: session_ok_def)
  have old: "b \<in> actives ?c" if "b \<in> actives ?c'" "wb_batch_id b \<in> drawn env (se_draws se)" for b
    using act [OF that(1)] that(2) F(1) by blast
  have gen: "genuine ?c' b" if "b \<in> T" for b
    unfolding genuine_def
  proof
    assume cur: "is_current_batch ?c' b"
    then obtain slot a where slot: "map_of (co_slots ?c') (wb_slot_id b) = Some slot" "ss_active slot = Some a"
      and ids: "wb_batch_id (ab_batch a) = wb_batch_id b" "wb_operation_id (ab_batch a) = wb_operation_id b"
        "wb_session_generation (ab_batch a) = wb_session_generation b"
      by (auto simp: is_current_batch_def split: option.splits)
    have x: "ab_batch a \<in> actives ?c'" by (rule activesI [OF slot])
    then have x0: "ab_batch a \<in> actives ?c"
      using old ids(1) ok that by (simp add: session_ok_def)
    have "wb_slot_id (ab_batch a) = wb_slot_id b"
      using coord_invD(4) [OF inv, of "wb_slot_id b"] slot by (auto simp: slot_ok_def active_exact_def)
    then have "is_current_batch ?c b"
      using actives_current [OF inv0 x0] is_current_cong [OF ids] by blast
    moreover have "genuine ?c b" using ok that by (simp add: session_ok_def)
    ultimately obtain sl a0 where "map_of (co_slots ?c) (wb_slot_id b) = Some sl" "ss_active sl = Some a0" "ab_batch a0 = b"
      by (auto simp: genuine_def)
    moreover obtain sl1 a1 where "map_of (co_slots ?c) (wb_slot_id (ab_batch a)) = Some sl1" "ss_active sl1 = Some a1"
      "ab_batch a1 = ab_batch a"
      by (rule active_at [OF inv0 x0])
    ultimately have "ab_batch a = b"
      using \<open>wb_slot_id (ab_batch a) = wb_slot_id b\<close> by simp
    with slot show "\<exists>slot a. map_of (co_slots ?c') (wb_slot_id b) = Some slot \<and> ss_active slot = Some a \<and> ab_batch a = b"
      by blast
  qed
  have stale: "\<not> is_current_batch ?c' b" if "b \<in> S" for b
  proof
    assume cur: "is_current_batch ?c' b"
    have b: "b \<in> T" "wb_batch_id b \<in> drawn env (se_draws se)" using ok that by (auto simp: session_ok_def)
    have "b \<in> actives ?c'" using gen [OF b(1)] cur activesI by (fastforce simp: genuine_def)
    then have "is_current_batch ?c b" using old b(2) actives_current [OF inv0] by blast
    with ok that show False by (simp add: session_ok_def)
  qed
  have "wb_batch_id ` actives ?c' \<subseteq> drawn env (se_draws se')"
  proof (intro image_subsetI)
    fix b assume "b \<in> actives ?c'"
    with act consider "b \<in> actives ?c" | "wb_batch_id b \<in> F" by blast
    then show "wb_batch_id b \<in> drawn env (se_draws se')"
      using F(2) mono ok by cases (auto simp: session_ok_def)
  qed
  moreover have "intent_ids ?c' \<subseteq> drawn env (se_draws se')"
    using ints F(2) mono ok by (auto simp: session_ok_def)
  ultimately show ?thesis
    using ok inv gen stale mono by (auto simp: session_ok_def)
qed

lemma session_ok_keep:
  assumes "session_ok env T S se" and "se_coord se' = se_coord se" and "se_draws se \<le> se_draws se'"
  shows "session_ok env T S se'"
  by (rule session_ok_move [OF assms(1), where F = "{}"]) (use assms in \<open>auto simp: session_ok_def\<close>)

lemma session_ok_step:
  assumes "session_ok env T S se" and "coord_inv (se_coord se')" and "intent_ids (se_coord se') \<subseteq> intent_ids (se_coord se)"
    and "actives (se_coord se') \<subseteq> actives (se_coord se)" and "se_draws se \<le> se_draws se'"
  shows "session_ok env T S se'"
  by (rule session_ok_move [OF assms(1,2), where F = "{}"]) (use assms in auto)

lemma session_ok_token: "session_ok env T S se \<Longrightarrow> b \<in> actives (se_coord se) \<Longrightarrow> session_ok env (insert b T) S se"
  using actives_genuine [of "se_coord se" b] by (auto simp: session_ok_def)

lemma session_ok_stale: "session_ok env T S se \<Longrightarrow> b \<in> T \<Longrightarrow> \<not> is_current_batch (se_coord se) b \<Longrightarrow> session_ok env T (insert b S) se"
  by (simp add: session_ok_def)

end
