(* ===== verification/Session_Calls.thy ===== *)
theory Session_Calls
  imports Session_Safety
begin

text \<open>
  Every method of the session is safe: from a session that satisfies \<open>session_ok\<close> it returns,
  without a panic, and leaves it satisfied. First the calls into the coordinator, one rule
  each, then the methods, whose rules follow from the shape of their definitions.
\<close>

subsection \<open>Calls that leave the coordinator alone\<close>

lemma safe_keep:
  assumes "\<And>se. \<exists>r se'. m se = Some (r, se') \<and> se_coord se' = se_coord se \<and> se_draws se \<le> se_draws se'"
  shows "safe (session_ok env T S) m"
  by (rule ensuresI) (use assms session_ok_keep in blast)

lemma safe_calls [safe_rules]:
  "safe (session_ok env T S) draw" "safe (session_ok env T S) (on_manager f)"
  "safe (session_ok env T S) (session_get_agent slot_id)" "safe (session_ok env T S) session_agents"
  "safe (session_ok env T S) session_lead" "safe (session_ok env T S) (session_peek_unread env slot_id)"
  "safe (session_ok env T S) (notify_slot slot_id)" "safe (session_ok env T S) (broadcast_child_turn ev payload)"
  "safe (session_ok env T S) (cancel_agent_turn env conv turn)" "safe (session_ok env T S) (mark_group_run run)"
  "safe (session_ok env T S) (kill_and_wait conv)" "safe (session_ok env T S) (on_runtimes g)"
  "safe (session_ok env T S) (session_add_agent agent)" "safe (session_ok env T S) (record_group_response env slot_id text)"
  "safe (session_ok env T S) (session_begin_cancel env run reason)"
  by (rule safe_keep; force simp: draw_def on_manager_def session_get_agent_def session_agents_def session_lead_def
      session_peek_unread_def notify_slot_def broadcast_child_turn_def cancel_agent_turn_def mark_group_run_def
      kill_and_wait_def on_runtimes_def session_add_agent_def record_group_response_def session_begin_cancel_def
      and_then_def split: prod.split)+

text \<open>What others do meanwhile has to keep the invariant, as the session's own methods do.\<close>

definition others_safe :: "('j, 's, 'c, 'w, 'p) session_env \<Rightarrow> bool" where
  "others_safe env \<longleftrightarrow> (\<forall>T S n se. session_ok env T S se \<longrightarrow> session_ok env T S (en_others env n se))"

lemma safe_others:
  assumes "others_safe env"
  shows "safe (session_ok env T S) (others_run env)"
  unfolding others_run_def by (intro safe_rules) (use assms in \<open>simp add: others_safe_def\<close>)

lemma safe_await: "others_safe env \<Longrightarrow> safe (session_ok env T S) (await_outcome env aw)"
  unfolding await_outcome_def by (intro safe_rules safe_others)

lemma safe_store [safe_rules]:
  "safe (session_ok env T S) (session_write e to_id from_id ty content summary files)"
  "safe (session_ok env T S) (session_mark_read e ids)"
  by (simp_all add: session_write_def session_mark_read_def safe_rules)

lemma safe_project [safe_rules]: "safe (session_ok env T S) (session_project e q)"
  by (rule safe_keep) (simp add: session_project_def and_then_def draw_def split: prod.split)

lemma safe_modify_keep [safe_rules]:
  "(\<And>se. se_coord (f se) = se_coord se \<and> se_draws (f se) = se_draws se) \<Longrightarrow> safe (session_ok env T S) (modify f)"
  by (rule safe_keep) simp

subsection \<open>Operations of the coordinator\<close>

text \<open>\<open>moves_within f\<close>: an operation that adds no intent and makes no batch active.\<close>

definition moves_within :: "(coordinator \<Rightarrow> 'r \<Rightarrow> 'a \<times> coordinator \<times> 'r) \<Rightarrow> coordinator \<Rightarrow> bool" where
  "moves_within f c \<longleftrightarrow> (\<forall>r x c' r'. f c r = (x, c', r') \<longrightarrow>
     coord_inv c' \<and> intent_ids c' \<subseteq> intent_ids c \<and> actives c' \<subseteq> actives c)"

lemma moved:
  assumes "moves_within f (se_coord se)" and "f (se_coord se) r = (x, c', r')" and "session_ok env T S se"
    and "se_coord se' = c'" "se_draws se \<le> se_draws se'"
  shows "session_ok env T S se'"
proof (rule session_ok_step [OF assms(3)])
  note within = assms(1) [unfolded moves_within_def, rule_format, OF assms(2), folded assms(4)]
  show "coord_inv (se_coord se')" "intent_ids (se_coord se') \<subseteq> intent_ids (se_coord se)"
    "actives (se_coord se') \<subseteq> actives (se_coord se)"
    using within by auto
qed (rule assms(5))

lemma safe_on_coord:
  assumes "\<And>se. session_ok env T S se \<Longrightarrow> moves_within f (se_coord se)"
  shows "safe (session_ok env T S) (on_coord f)"
proof (rule ensuresI)
  fix se assume ok: "session_ok env T S se"
  obtain x c' r' where f: "f (se_coord se) (se_runs se) = (x, c', r')" by (metis prod_cases3)
  with moved [OF assms [OF ok] f ok] show "\<exists>r st'. on_coord f se = Some (r, st') \<and> session_ok env T S st'"
    by (simp add: on_coord_def)
qed

lemma safe_expect_coord:
  assumes "\<And>c r. coord_inv c \<Longrightarrow> \<exists>x c' r'. f c r = Some (x, c', r') \<and>
      coord_inv c' \<and> intent_ids c' \<subseteq> intent_ids c \<and> actives c' \<subseteq> actives c"
  shows "safe (session_ok env T S) (expect_coord f)"
proof (rule ensuresI)
  fix se assume ok: "session_ok env T S se"
  obtain x c' r' where f: "f (se_coord se) (se_runs se) = Some (x, c', r')" "coord_inv c'"
    "intent_ids c' \<subseteq> intent_ids (se_coord se)" "actives c' \<subseteq> actives (se_coord se)"
    using assms [OF session_okD(2) [OF ok]] by blast
  then have "session_ok env T S (se\<lparr>se_coord := c', se_runs := r'\<rparr>)"
    by (intro session_ok_step [OF ok]) simp_all
  with f show "\<exists>r st'. expect_coord f se = Some (r, st') \<and> session_ok env T S st'"
    by (simp add: expect_coord_def)
qed

lemma safe_constrain [safe_rules]: "safe (session_ok env T S) (session_constrain e slot_id k)"
  unfolding session_constrain_def
proof (rule safe_expect_coord)
  fix c and r :: "nat \<times> team_run_manager" assume "coord_inv c"
  then obtain x c' r' where "set_runtime_constraint (session_port e) slot_id k c r = Some (x, c', r')" "coord_inv c'"
    using set_runtime_constraint_inv [of c "session_port e" slot_id k r] by blast
  then show "\<exists>x c' r'. set_runtime_constraint (session_port e) slot_id k c r = Some (x, c', r') \<and>
      coord_inv c' \<and> intent_ids c' \<subseteq> intent_ids c \<and> actives c' \<subseteq> actives c"
    using set_runtime_constraint_intent_ids set_runtime_constraint_actives by (metis order_refl)
qed

lemma safe_cancel_run [safe_rules]: "safe (session_ok env T S) (expect_coord (cancel_run port run_id))"
proof (rule safe_expect_coord)
  fix c and r :: "nat \<times> team_run_manager" assume "coord_inv c"
  then obtain x c' r' where "cancel_run port run_id c r = Some (x, c', r')" "coord_inv c'"
    using cancel_run_inv [of c port run_id r] by blast
  then show "\<exists>x c' r'. cancel_run port run_id c r = Some (x, c', r') \<and>
      coord_inv c' \<and> intent_ids c' \<subseteq> intent_ids c \<and> actives c' \<subseteq> actives c"
    using cancel_run_intent_ids cancel_run_actives by (metis order_refl)
qed

lemma safe_remove_slot [safe_rules]: "safe (session_ok env T S) (expect_coord (remove_slot port slot_id))"
proof (rule safe_expect_coord)
  fix c and r :: "nat \<times> team_run_manager" assume "coord_inv c"
  then obtain x c' r' where "remove_slot port slot_id c r = Some (x, c', r')" "coord_inv c'"
    using remove_slot_inv [of c port slot_id r] by blast
  then show "\<exists>x c' r'. remove_slot port slot_id c r = Some (x, c', r') \<and>
      coord_inv c' \<and> intent_ids c' \<subseteq> intent_ids c \<and> actives c' \<subseteq> actives c"
    using remove_slot_intent_ids remove_slot_actives by (metis order_refl)
qed

lemma safe_pause [safe_rules]:
  "safe (session_ok env T S) (expect_coord (\<lambda>c r. map_option (\<lambda>(x, c1). (x, c1, r)) (pause_slot slot_id c)))"
proof (rule safe_expect_coord)
  fix c and r :: "nat \<times> team_run_manager" assume "coord_inv c"
  then obtain x c' where "pause_slot slot_id c = Some (x, c')" "coord_inv c'"
    using pause_slot_inv [of c slot_id] by blast
  then show "\<exists>x c' r'. map_option (\<lambda>(x, c1). (x, c1, r)) (pause_slot slot_id c) = Some (x, c', r') \<and>
      coord_inv c' \<and> intent_ids c' \<subseteq> intent_ids c \<and> actives c' \<subseteq> actives c"
    using pause_intent_ids pause_slot_actives by auto
qed

lemma safe_abort [safe_rules]: "safe (session_ok env T S) (on_coord (abort_enqueue port lease))"
  by (rule safe_on_coord) (use abort_enqueue_inv abort_intent_ids abort_enqueue_actives session_okD(2) in
    \<open>fastforce simp: moves_within_def\<close>)

lemma safe_signals [safe_rules]: "safe (session_ok env T S) (on_coord (complete_signals port slot_id is))"
  by (rule safe_on_coord) (use complete_signals_inv signals_intent_ids complete_signals_actives session_okD(2) in
    \<open>fastforce simp: moves_within_def\<close>)

lemma safe_stop [safe_rules]: "safe (session_ok env T S) (on_coord (stop port))"
  by (rule safe_on_coord) (use stop_inv stop_intent_ids stop_actives session_okD(2) in
    \<open>fastforce simp: moves_within_def\<close>)


subsection \<open>Operations on a batch that was handed out\<close>

lemma token_coord:
  assumes "b \<in> T" and "\<And>c r x c' r'. coord_inv c \<Longrightarrow> genuine c b \<Longrightarrow> f c r = (x, c', r') \<Longrightarrow>
      coord_inv c' \<and> intent_ids c' \<subseteq> intent_ids c \<and> actives c' \<subseteq> actives c"
  shows "safe (session_ok env T S) (on_coord f)"
  by (rule safe_on_coord) (use assms session_okD(2,4) in \<open>fastforce simp: moves_within_def\<close>)

lemma safe_terminalize:
  assumes "b \<in> T" and "is_terminal st"
  shows "safe (session_ok env T S) (on_coord (terminalize_batch port b st))"
proof (rule token_coord [OF assms(1)])
  fix c x c' and r r' :: "nat \<times> team_run_manager"
  assume "coord_inv c" "genuine c b" and res: "terminalize_batch port b st c r = (x, c', r')"
  then show "coord_inv c' \<and> intent_ids c' \<subseteq> intent_ids c \<and> actives c' \<subseteq> actives c"
    using terminalize_batch_inv [OF _ _ assms(2) res] terminalize_intent_ids [OF res] terminalize_batch_actives [OF res] by simp
qed

lemma safe_retry: "b \<in> T \<Longrightarrow> safe (session_ok env T S) (on_coord (retry_start port b))"
proof (rule token_coord)
  fix c x c' and r r' :: "nat \<times> team_run_manager"
  assume "coord_inv c" "genuine c b" and res: "retry_start port b c r = (x, c', r')"
  then show "coord_inv c' \<and> intent_ids c' \<subseteq> intent_ids c \<and> actives c' \<subseteq> actives c"
    using retry_start_inv [OF _ _ res] retry_start_intent_ids [OF res] retry_start_actives [OF res] by simp
qed

text \<open>Giving a batch up, in whatever way, leaves it not current.\<close>

lemma ensures_gave_up:
  assumes safe: "safe (session_ok env T S) (on_coord f)" and "b \<in> T"
    and "\<And>c r x c' r'. f c r = (x, c', r') \<Longrightarrow> \<not> is_current_batch c' b"
  shows "ensures (session_ok env T S) (on_coord f) (\<lambda>_. session_ok env T (insert b S))"
proof (rule ensuresI)
  fix se assume ok: "session_ok env T S se"
  obtain x c' r' where f: "f (se_coord se) (se_runs se) = (x, c', r')" by (metis prod_cases3)
  then have run: "on_coord f se = Some (Inr x, se\<lparr>se_coord := c', se_runs := r'\<rparr>)"
    by (simp add: on_coord_def)
  then have "session_ok env T S (se\<lparr>se_coord := c', se_runs := r'\<rparr>)"
    by (rule ensures_run [OF safe ok])
  then have "session_ok env T (insert b S) (se\<lparr>se_coord := c', se_runs := r'\<rparr>)"
    by (rule session_ok_stale [OF _ assms(2)]) (use assms(3) [OF f] in simp)
  with run show "\<exists>r st'. on_coord f se = Some (r, st') \<and> session_ok env T (insert b S) st'" by blast
qed

lemma terminalize_gives_up: "terminalize_batch port b st c r = (x, c', r') \<Longrightarrow> \<not> is_current_batch c' b"
  by (cases "is_current_batch c b") (blast dest: terminalize_ends, simp add: terminalize_batch_def)

lemma retry_gives_up: "retry_start port b c r = (x, c', r') \<Longrightarrow> \<not> is_current_batch c' b"
  by (cases "is_current_batch c b") (blast dest: retry_start_ends, simp add: retry_start_def)

lemma gave_up_rules:
  assumes "b \<in> T"
  shows "ensures (session_ok env T S) (on_coord (complete_batch port b)) (\<lambda>_. session_ok env T (insert b S))"
    "ensures (session_ok env T S) (on_coord (fail_batch port b cl)) (\<lambda>_. session_ok env T (insert b S))"
    "ensures (session_ok env T S) (on_coord (cancel_batch port b cl)) (\<lambda>_. session_ok env T (insert b S))"
    "ensures (session_ok env T S) (on_coord (retry_start port b)) (\<lambda>_. session_ok env T (insert b S))"
  unfolding complete_batch_def fail_batch_def cancel_batch_def
  by (rule ensures_gave_up [OF safe_terminalize [OF assms] assms terminalize_gives_up], simp, assumption)+
    (rule ensures_gave_up [OF safe_retry [OF assms] assms retry_gives_up], assumption)

lemma session_ok_less: "session_ok env T (insert b S) se \<Longrightarrow> session_ok env T S se"
  by (simp add: session_ok_def)

lemma safe_give_up [safe_rules]:
  assumes "b \<in> T"
  shows "safe (session_ok env T S) (on_coord (complete_batch port b))"
    "safe (session_ok env T S) (on_coord (fail_batch port b cl))"
    "safe (session_ok env T S) (on_coord (cancel_batch port b cl))"
    "safe (session_ok env T S) (on_coord (retry_start port b))"
  by (rule ensures_weaken [OF gave_up_rules(1) [OF assms]] ensures_weaken [OF gave_up_rules(2) [OF assms]]
      ensures_weaken [OF gave_up_rules(3) [OF assms]] ensures_weaken [OF gave_up_rules(4) [OF assms]],
      assumption, erule session_ok_less)+

subsection \<open>Operations that draw ids\<close>

lemma drawn_coord:
  assumes ok: "session_ok env T S se" and inv: "coord_inv c'"
    and ints: "intent_ids c' \<subseteq> intent_ids (se_coord se) \<union> F"
    and act: "\<And>b. b \<in> actives c' \<Longrightarrow> b \<in> actives (se_coord se) \<or> wb_batch_id b \<in> F"
    and F: "F \<subseteq> insert (en_ids env (se_draws se)) (range (en_id_streams env (se_draws se)))"
    and se': "se_coord se' = c'" "se_draws se' = Suc (se_draws se)"
  shows "session_ok env T S se'"
proof (rule session_ok_move [OF ok])
  show "F \<inter> drawn env (se_draws se) = {}"
    using F fresh_id [OF session_okD(1) [OF ok]] fresh_stream [OF session_okD(1) [OF ok]] by blast
  show "F \<subseteq> drawn env (se_draws se')"
    using F drawn_id [of env "se_draws se"] drawn_stream [of env "se_draws se"] unfolding se' by blast
qed (use inv ints act se' in auto)

lemma safe_acquire [safe_rules]: "safe (session_ok env T S) (session_acquire env rq)"
proof (rule ensuresI)
  fix se assume ok: "session_ok env T S se"
  obtain x c' r' where f: "acquire_enqueue (session_port env) (en_ids env (se_draws se)) rq (se_coord se) (se_runs se) = (x, c', r')"
    by (metis prod_cases3)
  have "session_ok env T S (se\<lparr>se_draws := Suc (se_draws se), se_coord := c', se_runs := r'\<rparr>)"
    by (rule drawn_coord [OF ok, where F = "{}"])
      (use acquire_enqueue_inv [OF session_okD(2) [OF ok] f] acquire_intent_ids [OF f] acquire_enqueue_actives [OF f] in auto)
  then show "\<exists>r st'. session_acquire env rq se = Some (r, st') \<and> session_ok env T S st'"
    by (simp add: session_acquire_def and_then_def draw_def try_coord_def f)
qed

lemma commit_snapshot:
  assumes "commit_enqueue port i now lease msg c r = (Inr out, c', r')" shows "is_some out"
proof -
  from assms obtain slot where "map_of (co_slots c) (le_slot_id lease) = Some slot"
    "c' = put_slot (le_slot_id lease) (enqueued_slot lease i msg slot)
       (c\<lparr>co_enqueue_leases := hm_remove (le_lease_id lease) (co_enqueue_leases c),
          co_intents := hm_insert i (enqueued_intent c lease i now msg) (co_intents c)\<rparr>)"
    by (rule commit_enqueue_success) blast
  then have "is_some (slot_snapshot_locked c' (le_slot_id lease))"
    by (auto simp: slot_snapshot_locked_def Let_def)
  moreover have "is_some out = is_some (slot_snapshot_locked c' (le_slot_id lease))"
    using assms by (auto simp: commit_enqueue_def Let_def split: option.splits if_splits)
  ultimately show ?thesis by simp
qed

lemma safe_commit [safe_rules]: "safe (session_ok env T S) (session_commit env lease msg)"
proof (rule ensuresI)
  fix se assume ok: "session_ok env T S se"
  let ?i = "en_ids env (se_draws se)" and ?now = "en_now env (se_draws se)"
  obtain x c' r' where f: "commit_enqueue (session_port env) ?i ?now lease msg (se_coord se) (se_runs se) = (x, c', r')"
    by (metis prod_cases3)
  have "?i \<notin> intent_ids (se_coord se)"
    using fresh_id [OF session_okD(1) [OF ok]] session_okD(3) [OF ok] by blast
  then have inv: "coord_inv c'"
    by (intro commit_enqueue_inv [OF session_okD(2) [OF ok] _ f]) (simp add: intent_ids_def domIff)
  have ok': "session_ok env T S (se\<lparr>se_draws := Suc (se_draws se), se_coord := c', se_runs := r'\<rparr>)"
    by (rule drawn_coord [OF ok inv, where F = "{?i}"])
      (use commit_intent_ids [OF f] commit_enqueue_actives [OF f] in auto)
  show "\<exists>r st'. session_commit env lease msg se = Some (r, st') \<and> session_ok env T S st'"
  proof (cases x)
    case (Inl e)
    with f ok' show ?thesis
      by (simp add: session_commit_def and_then_def draw_def try_coord_def)
  next
    case (Inr out)
    then obtain u where "out = Some u"
      using commit_snapshot [OF f [unfolded Inr]] by blast
    with Inr f ok' show ?thesis
      by (simp add: session_commit_def and_then_def draw_def try_coord_def expect_some_def)
  qed
qed

lemma safe_reconcile [safe_rules]: "safe (session_ok env T S) (session_reconcile env slot_id ids role)"
proof (rule ensuresI)
  fix se assume ok: "session_ok env T S se"
  let ?ids = "en_id_streams env (se_draws se)"
  obtain x c' where f: "reconcile_mailbox ?ids (en_clocks env (se_draws se)) slot_id ids role (se_coord se) = (x, c')"
    by (metis surj_pair)
  have "?ids n \<notin> intent_ids (se_coord se)" for n
    using fresh_stream [OF session_okD(1) [OF ok]] session_okD(3) [OF ok] by blast
  then have inv: "coord_inv c'"
    by (intro reconcile_mailbox_inv [OF session_okD(2) [OF ok] inj_stream [OF session_okD(1) [OF ok]] _ f])
      (simp add: intent_ids_def domIff)
  have "session_ok env T S (se\<lparr>se_draws := Suc (se_draws se), se_coord := c'\<rparr>)"
    by (rule drawn_coord [OF ok inv, where F = "range ?ids"])
      (use reconcile_intent_ids [OF f] reconcile_actives [OF f] in auto)
  then show "\<exists>r st'. session_reconcile env slot_id ids role se = Some (r, st') \<and> session_ok env T S st'"
    by (simp add: session_reconcile_def and_then_def draw_def on_coord_def f)
qed

definition with_claim :: "reconcile_decision \<Rightarrow> work_batch set \<Rightarrow> work_batch set" where
  "with_claim d T = (case d of Claim b \<Rightarrow> insert b T | _ \<Rightarrow> T)"

lemma claim_active:
  assumes "next_work port batch_id sid c r = (Claim b, c', r')" shows "b \<in> actives c'"
  using assms
proof (cases rule: next_work_cases)
  case (2 slot p batch)
  then have b: "batch = b" by simp
  have "map_of (co_slots c') sid = Some ((fold remove_queued (wb_intent_ids b) slot)\<lparr>ss_active :=
      Some \<lparr>ab_batch = b, ab_turn_id = None, ab_started_at_ms = None\<rparr>\<rparr>)"
    using 2(1) by (simp add: 2(9) [unfolded b])
  then show ?thesis using activesI by fastforce
qed simp

lemma ensures_next:
  "ensures (session_ok env T S) (session_next env slot_id)
     (\<lambda>r. case r of Inl _ \<Rightarrow> session_ok env T S | Inr d \<Rightarrow> session_ok env (with_claim d T) S)"
proof (rule ensuresI)
  fix se assume ok: "session_ok env T S se"
  let ?i = "en_ids env (se_draws se)"
  obtain d c' r' where f: "next_work (session_port env) ?i slot_id (se_coord se) (se_runs se) = (d, c', r')"
    by (metis prod_cases3)
  let ?se = "se\<lparr>se_draws := Suc (se_draws se), se_coord := c', se_runs := r'\<rparr>"
  have ok': "session_ok env T S ?se"
    by (rule drawn_coord [OF ok next_work_inv [OF session_okD(2) [OF ok] f], where F = "{?i}"])
      (use next_work_intent_ids [OF f] next_work_actives [OF f] in \<open>auto simp: add_claim_def split: reconcile_decision.splits\<close>)
  have "session_ok env (with_claim d T) S ?se"
    using ok' session_ok_token [OF ok'] claim_active [of "session_port env" ?i slot_id "se_coord se" "se_runs se" _ c' r'] f
    by (auto simp: with_claim_def split: reconcile_decision.split)
  then show "\<exists>r st'. session_next env slot_id se = Some (r, st') \<and>
      (case r of Inl _ \<Rightarrow> session_ok env T S | Inr d \<Rightarrow> session_ok env (with_claim d T) S) st'"
    by (simp add: session_next_def and_then_def draw_def on_coord_def f)
qed

lemma safe_mark_started [safe_rules]: "b \<in> T \<Longrightarrow> safe (session_ok env T S) (session_mark_started env b turn)"
  unfolding session_mark_started_def
proof (intro safe_rules token_coord)
  fix n c x c' and r r' :: "nat \<times> team_run_manager"
  assume "coord_inv c" "genuine c b" and res: "mark_started (session_port env) (en_now env n) b turn c r = (x, c', r')"
  then show "coord_inv c' \<and> intent_ids c' \<subseteq> intent_ids c \<and> actives c' \<subseteq> actives c"
    using mark_started_inv [OF _ _ res] mark_started_intent_ids [OF res] mark_started_actives [OF res] by simp
qed


subsection \<open>The methods\<close>

lemma safe_on_error [safe_rules]: "safe I m \<Longrightarrow> (\<And>e. safe I (f e)) \<Longrightarrow> safe I (on_error m f)"
  unfolding on_error_def by (intro safe_rules)

lemma safe_let [safe_rules]: "safe I (f x) \<Longrightarrow> safe I (let y = x in f y)"
  by simp

lemma safe_after_draw [safe_rules]: "(\<And>n. safe I (f n)) \<Longrightarrow> safe I draw \<Longrightarrow> safe I (and_then draw f)"
  by (intro safe_rules)

lemma safe_helpers [safe_rules]:
  "safe (session_ok env T S) (mark_terminal_read env ids)"
  "safe (session_ok env T S) (session_abort env lease)"
  "safe (session_ok env T S) (publish_runtime_constraint env slot_id)"
  "safe (session_ok env T S) (commit_persisted_enqueue env lease message_id)"
  "safe (session_ok env T S) (write_leased env lease to_id from_id content files)"
  "safe (session_ok env T S) (session_current_payload env)"
  unfolding mark_terminal_read_def session_abort_def publish_runtime_constraint_def commit_persisted_enqueue_def
    write_leased_def session_current_payload_def
  by (intro safe_rules)+

lemma safe_enqueue_user_message [safe_rules]:
  "safe (session_ok env T S) (enqueue_user_message env slot_id role content files group_origin)"
  unfolding enqueue_user_message_def by (intro safe_rules)

lemma safe_messages [safe_rules]:
  "safe (session_ok env T S) (send_message env content files)"
  "safe (session_ok env T S) (send_message_to_agent env slot_id content files)"
  "safe (session_ok env T S) (send_group_message_to_agent env slot_id content files)"
  "safe (session_ok env T S) (send_agent_message_from_agent env from_id to_id content files)"
  "safe (session_ok env T S) (session_shutdown_agent env caller target reason)"
  "safe (session_ok env T S) (enqueue_existing_work env slot_id source message_id binding)"
  unfolding send_message_def send_message_to_agent_def send_group_message_to_agent_def
    send_agent_message_from_agent_def session_shutdown_agent_def enqueue_existing_work_def
  by (intro safe_rules)+

lemma safe_recover_agents [safe_rules]: "safe (session_ok env T S) (recover_agents env agents)"
  by (induction agents) (simp_all only: recover_agents.simps, (intro safe_rules | assumption)+)

lemma safe_recovery [safe_rules]: "safe (session_ok env T S) (try_start_recovery_drain env)"
proof (rule ensuresI)
  fix se assume ok: "session_ok env T S se"
  have all: "safe (session_ok env T S) (and_then session_agents (recover_agents env))"
    by (intro safe_rules)
  show "\<exists>r st'. try_start_recovery_drain env se = Some (r, st') \<and> session_ok env T S st'"
  proof (cases "se_recovery_scan_completed se")
    case True
    with ok show ?thesis by (simp add: try_start_recovery_drain_def)
  next
    case False
    have "session_ok env T S (se\<lparr>se_recovery_scan_completed := True\<rparr>)"
      by (rule session_ok_keep [OF ok]) simp_all
    from ensuresD [OF all this] False show ?thesis
      by (simp add: try_start_recovery_drain_def)
  qed
qed

lemma safe_signals_settled [safe_rules]:
  "safe (session_ok env T S) (enqueue_leader_settle_signal env slot_id source)"
  "safe (session_ok env T S) (handle_signal_intents env slot_id is)"
  "safe (session_ok env T S) (mirror_unread_to_conversation env input)"
  unfolding enqueue_leader_settle_signal_def handle_signal_intents_def mirror_unread_to_conversation_def
  by (intro safe_rules)+

lemma safe_first_message [safe_rules]: "safe (session_ok env T S) (first_message env slot_id agent body)"
proof (rule ensuresI)
  fix se assume ok: "session_ok env T S se"
  obtain needs m where m: "take_needs_role_prompt slot_id (se_manager se) = (needs, m)" by fastforce
  have "session_ok env T S (se\<lparr>se_manager := m\<rparr>)"
    by (rule session_ok_keep [OF ok]) simp_all
  moreover have "safe (session_ok env T S) (if needs
      then and_then (from_result (en_transport env agent)) (\<lambda>transport. and_then session_agents (\<lambda>members.
        return_ok (role_prompt env agent members transport @ newline @ newline @ body)))
      else return_ok body)"
    by (intro safe_rules)
  ultimately show "\<exists>r st'. first_message env slot_id agent body se = Some (r, st') \<and> session_ok env T S st'"
    by (simp only: first_message_def m prod.case) (rule ensuresD)
qed

lemma safe_prepare_claimed: "b \<in> T \<Longrightarrow> safe (session_ok env T S) (prepare_claimed env slot_id agent unread b)"
  unfolding prepare_claimed_def by (intro safe_rules) auto

text \<open>A batch that is handed out is one of the batches held from then on.\<close>

definition with_prepared :: "prepared \<Rightarrow> work_batch set \<Rightarrow> work_batch set" where
  "with_prepared p T = (case p of ExecuteBatch b _ \<Rightarrow> insert b T | _ \<Rightarrow> T)"


lemma prepare_claimed_result:
  "prepare_claimed env slot_id agent unread b se = Some (Inr p, se') \<Longrightarrow> \<exists>input. p = ExecuteBatch b input"
  by (auto simp: prepare_claimed_def Let_def and_then_Some split: sum.splits)

lemma session_ok_fewer: "session_ok env (insert b T) S se \<Longrightarrow> S \<subseteq> T \<Longrightarrow> session_ok env T S se"
  by (auto simp: session_ok_def)

lemma ensures_result:
  assumes "safe I m" and "\<And>st r st'. I st \<Longrightarrow> m st = Some (r, st') \<Longrightarrow> I st' \<Longrightarrow> Q r st'"
  shows "ensures I m Q"
  using assms unfolding ensures_def by blast

definition prepared_ok ::
  "('j, 's, 'c, 'w, 'p) session_env \<Rightarrow> work_batch set \<Rightarrow> work_batch set \<Rightarrow> team_error + prepared
     \<Rightarrow> ('j, 's, 'c, 'w, 'p) session \<Rightarrow> bool" where
  "prepared_ok env T S r = (case r of Inl _ \<Rightarrow> session_ok env T S | Inr p \<Rightarrow> session_ok env (with_prepared p T) S)"

lemma ensures_prepare:
  assumes "S \<subseteq> T" and others: "others_safe env"
  shows "ensures (session_ok env T S) (prepare_next_batch env slot_id) (prepared_ok env T S)"
proof -
  have decide: "ensures (session_ok env (with_claim d T) S)
      (case d of Claim b \<Rightarrow> prepare_claimed env slot_id agent unread b
       | SettleSignals is \<Rightarrow> return_ok (SettleIntents is) | WaitingForCompletion \<Rightarrow> return_ok PrepareWaiting
       | BlockedBy _ \<Rightarrow> return_ok PrepareBlocked | Quiescent \<Rightarrow> return_ok PrepareQuiescent)
      (prepared_ok env T S)" for d agent unread
  proof (cases d)
    case (Claim b)
    have "ensures (session_ok env (insert b T) S) (prepare_claimed env slot_id agent unread b) (prepared_ok env T S)"
    proof (rule ensures_result [OF safe_prepare_claimed [OF insertI1]])
      fix st st' and r :: "team_error + prepared"
      assume "prepare_claimed env slot_id agent unread b st = Some (r, st')" and ok: "session_ok env (insert b T) S st'"
      then show "prepared_ok env T S r st'"
        using prepare_claimed_result [of env slot_id agent unread b st _ st'] session_ok_fewer [OF ok assms(1)]
        by (cases r) (auto simp: prepared_ok_def with_prepared_def)
    qed
    with Claim show ?thesis by (simp add: with_claim_def)
  qed (simp_all add: with_claim_def prepared_ok_def with_prepared_def ensures_def)
  have "ensures (session_ok env T S) (and_then (session_next env slot_id) (\<lambda>d.
      case d of Claim b \<Rightarrow> prepare_claimed env slot_id agent unread b
       | SettleSignals is \<Rightarrow> return_ok (SettleIntents is) | WaitingForCompletion \<Rightarrow> return_ok PrepareWaiting
       | BlockedBy _ \<Rightarrow> return_ok PrepareBlocked | Quiescent \<Rightarrow> return_ok PrepareQuiescent))
      (prepared_ok env T S)" for agent unread
    by (rule ensures_and_then [OF ensures_next]) (simp_all add: decide, simp add: prepared_ok_def)
  note next_step = this
  show ?thesis
    unfolding prepare_next_batch_def Let_def
    by (rule ensures_safe_then, (intro safe_rules safe_others [OF others])[1], simp add: prepared_ok_def)+ (rule next_step)
qed

subsection \<open>Ending and changing work\<close>

lemma safe_notices [safe_rules]:
  "safe (session_ok env T S) (wake_leader_after_recovery_message env slot_id source)"
  "safe (session_ok env T S) (notify_leader_child_interrupted env slot_id reason)"
  "safe (session_ok env T S) (notify_leader_spawn_attach_failed env slot_id error)"
  "safe (session_ok env T S) (project_team_system_message env slot_id conv mid content)"
  "safe (session_ok env T S) team_lead_or_fail"
  unfolding wake_leader_after_recovery_message_def notify_leader_child_interrupted_def
    notify_leader_spawn_attach_failed_def project_team_system_message_def team_lead_or_fail_def
  by (intro safe_rules)+

lemma safe_membership [safe_rules]:
  "safe (session_ok env T S) (add_manual_agent env agent)"
  "safe (session_ok env T S) (notify_leader_membership_removed env agent)"
  "safe (session_ok env T S) (session_rename_agent env slot_id name)"
  unfolding add_manual_agent_def notify_leader_membership_removed_def session_rename_agent_def
  by (intro safe_rules)+

lemma safe_cancelled_turns [safe_rules]:
  "safe (session_ok env T S) (cancel_target_turn env run_id target)"
  "safe (session_ok env T S) (cancel_turn_or_fail env run_id slot_id role turn)"
  unfolding cancel_target_turn_def cancel_turn_or_fail_def
  by (intro safe_rules)+

lemma safe_session_cancel_run [safe_rules]: "safe (session_ok env T S) (session_cancel_run env run_id reason)"
  unfolding session_cancel_run_def by (intro safe_rules)

lemma safe_session_stop [safe_rules]: "safe (session_ok env T S) (session_stop env)"
  unfolding session_stop_def by (intro safe_rules) simp

lemma safe_remove_member [safe_rules]: "safe (session_ok env T S) (remove_member env slot_id removal)"
  unfolding remove_member_def by (cases removal; simp only: begin_remove_reply.case; intro safe_rules; simp)

lemma safe_session_remove_agent:
  assumes "others_safe env"
  shows "safe (session_ok env T S) (session_remove_agent env slot_id)"
  unfolding session_remove_agent_def
  by (intro safe_rules, split begin_remove_reply.split)
    (intro conjI allI impI safe_rules safe_await assms)


text \<open>
  Cancelling one turn works on the batch the coordinator reports as active, so that batch is
  one that was handed out.
\<close>

lemma safe_interrupt: "b \<in> T \<Longrightarrow> safe (session_ok env T S) (interrupt_batch env run slot_id role cl reason turn b)"
  unfolding interrupt_batch_def by (intro safe_rules)

lemma interrupt_active:
  assumes "S \<subseteq> T" and ok: "session_ok env T S se" and "b \<in> actives (se_coord se)"
  shows "\<exists>r st'. interrupt_batch env run slot_id role cl reason turn b se = Some (r, st') \<and> session_ok env T S st'"
  using ensuresD [OF safe_interrupt [OF insertI1] session_ok_token [OF ok assms(3)]] session_ok_fewer [OF _ assms(1)] by blast

lemma snapshot_active:
  "slot_snapshot_locked c slot_id = Some snap \<Longrightarrow> sn_active_batch snap = Some b \<Longrightarrow> b \<in> actives c"
  by (auto simp: slot_snapshot_locked_def Let_def split: option.splits intro: activesI)

lemma safe_cancel_child_turn:
  assumes "S \<subseteq> T"
  shows "safe (session_ok env T S) (cancel_child_turn env run_id slot_id reason)"
proof (rule ensuresI)
  fix se assume ok: "session_ok env T S se"
  show "\<exists>r st'. cancel_child_turn env run_id slot_id reason se = Some (r, st') \<and> session_ok env T S st'"
  proof (cases "\<exists>snap b. slot_snapshot_locked (se_coord se) slot_id = Some snap \<and> sn_active_batch snap = Some b \<and>
      run_id \<in> set (wb_team_run_ids b)")
    case True
    then obtain snap b where "slot_snapshot_locked (se_coord se) slot_id = Some snap" "sn_active_batch snap = Some b"
      "run_id \<in> set (wb_team_run_ids b)" by blast
    with interrupt_active [OF assms ok snapshot_active] show ?thesis
      by (simp add: cancel_child_turn_def and_then_def ok_or_def)
  next
    case False
    with ok show ?thesis
      by (auto simp: cancel_child_turn_def and_then_def ok_or_def split: option.split)
  qed
qed

lemma paused_active:
  assumes "pause_slot slot_id c = Some (x, c')" and "pr_cancel_target x = Some target"
  shows "bc_batch target \<in> actives c'"
proof -
  let ?slot = "(slot_entry slot_id RoleTeammate c)\<lparr>ss_paused := True\<rparr>"
  have "c' = put_slot slot_id ?slot c" "cancel_target_of ?slot = Some target"
    using assms by (auto simp: pause_slot_def Let_def split: option.splits)
  then show ?thesis
    by (auto simp: cancel_target_of_def intro!: activesI [of _ slot_id ?slot])
qed

lemma safe_pause_slot_work:
  assumes "S \<subseteq> T"
  shows "safe (session_ok env T S) (pause_slot_work env run_id slot_id reason)"
proof (rule ensuresI)
  fix se assume ok: "session_ok env T S se"
  obtain x c' where pause: "pause_slot slot_id (se_coord se) = Some (x, c')"
    using pause_slot_inv [OF session_okD(2) [OF ok]] by blast
  let ?se = "se\<lparr>se_coord := c'\<rparr>"
  have run: "session_pause_slot slot_id se = Some (Inr x, ?se)"
    by (simp add: session_pause_slot_def expect_coord_def pause)
  have "safe (session_ok env T S) (session_pause_slot slot_id)"
    by (simp add: session_pause_slot_def safe_rules)
  note ok' = ensures_run [OF this ok run]
  show "\<exists>r st'. pause_slot_work env run_id slot_id reason se = Some (r, st') \<and> session_ok env T S st'"
  proof (cases "current_active_run_id (snd (se_runs se)) = Some run_id")
    case False
    with ok show ?thesis by (simp add: pause_slot_work_def)
  next
    case active: True
    show ?thesis
    proof (cases "pr_cancel_target x")
      case None
      with active run ok' show ?thesis by (simp add: pause_slot_work_def)
    next
      case (Some target)
      with active run interrupt_active [OF assms ok'] paused_active [OF pause] show ?thesis
        by (simp add: pause_slot_work_def)
    qed
  qed
qed

subsection \<open>Turns\<close>

text \<open>A port is safe if what others do to the session during a turn is.\<close>

definition port_safe ::
  "('j, 's, 'c, 'w, 'p) session_env \<Rightarrow> ('j, 's, 'c, 'w, 'p) session turn_port \<Rightarrow> bool" where
  "port_safe env port \<longleftrightarrow> (\<forall>q f. Meanwhile f \<in> set (fst (port q)) \<longrightarrow>
     (\<forall>T S se. session_ok env T S se \<longrightarrow> session_ok env T S (f se)))"

lemma safe_turn_helpers [safe_rules]:
  "safe (session_ok env T S) (broadcast_started ev status started)"
  "safe (session_ok env T S) (set_slot_status slot_id st)"
  "safe (session_ok env T S) (mark_batch_messages_read env b)"
  "safe (session_ok env T S) (broadcast_completed team_id slot_id b input outcome verdict)"
  unfolding broadcast_started_def set_slot_status_def mark_batch_messages_read_def broadcast_completed_def
  by (intro safe_rules)+

lemma safe_keep_response [safe_rules]: "safe (session_ok env T S) (keep_response env slot_id b outcome)"
  unfolding keep_response_def by (intro safe_rules) simp

lemma safe_finalize [safe_rules]: "safe (session_ok env T S) (finalize_agent_turn env slot_id)"
  unfolding finalize_agent_turn_def by (intro safe_rules)

lemma safe_on_started: "b \<in> T \<Longrightarrow> safe (session_ok env T S) (on_started env b conv started)"
  unfolding on_started_def
  by (intro safe_rules, assumption, split start_commit_result.split) (simp add: safe_rules)

lemma safe_turn_steps:
  assumes "b \<in> T" and "port_safe env port"
  shows "safe (session_ok env T S) (run_all (turn_step_act env b conv) (fst (port q)))"
proof (rule safe_run_all)
  fix step assume step: "step \<in> set (fst (port q))"
  show "safe (session_ok env T S) (turn_step_act env b conv step)"
  proof (cases step)
    case (TurnAnnounced started)
    with safe_on_started [OF assms(1)] show ?thesis by (simp add: turn_step_act_def)
  next
    case (Meanwhile f)
    with step assms(2) show ?thesis by (auto simp: turn_step_act_def port_safe_def ensures_def)
  qed
qed

lemma ensures_conclude:
  assumes "b \<in> T"
  shows "ensures (session_ok env T S) (conclude_batch env slot_id b outcome) (\<lambda>_. session_ok env T (insert b S))"
proof (cases "is_success (to_status outcome)")
  case True
  then show ?thesis
    unfolding conclude_batch_def
    by (simp only: if_True) (rule ensures_and_then [OF gave_up_rules(1) [OF assms]], assumption, intro safe_rules)
next
  case False
  then show ?thesis
    unfolding conclude_batch_def
    by (simp only: if_False) (rule ensures_and_then [OF gave_up_rules(2) [OF assms]], assumption, intro safe_rules)
qed

lemma infallible_calls [infallible_rules]:
  "infallible draw" "infallible session_agents" "infallible (broadcast_child_turn ev payload)"
  "infallible (cancel_agent_turn env conv turn)" "infallible (on_coord f)"
  by (auto simp: infallible_def draw_def session_agents_def broadcast_child_turn_def cancel_agent_turn_def on_coord_def
      split: prod.splits)

lemma infallible_turn [infallible_rules]:
  "infallible (broadcast_started ev status started)" "infallible (set_slot_status slot_id st)"
  "infallible (mark_batch_messages_read env b)" "infallible (broadcast_completed team_id slot_id b input outcome verdict)"
  "infallible (mirror_unread_to_conversation env input)" "infallible (keep_response env slot_id b outcome)"
  "infallible (finalize_agent_turn env slot_id)" "infallible (session_mark_started env b turn)"
  "infallible (conclude_batch env slot_id b outcome)"
  unfolding broadcast_started_def set_slot_status_def mark_batch_messages_read_def broadcast_completed_def
    mirror_unread_to_conversation_def keep_response_def finalize_agent_turn_def session_mark_started_def
    conclude_batch_def
  by (intro infallible_rules)+

lemma infallible_steps [infallible_rules]: "infallible (turn_step_act env b conv step)"
proof -
  have "infallible (on_started env b conv started)" for started
    unfolding on_started_def
    by (intro infallible_rules, split start_commit_result.split) (simp add: infallible_rules)
  then show ?thesis
    unfolding turn_step_act_def by (split turn_step.split) (simp add: infallible_rules)
qed

lemma ensures_finish_turn:
  assumes "b \<in> T"
  shows "ensures (session_ok env T S) (finish_turn env team_id slot_id b input outcome) (\<lambda>_. session_ok env T (insert b S))"
  unfolding finish_turn_def
  by (rule ensures_after, intro safe_rules, intro infallible_rules)+
    (rule ensures_and_then [OF ensures_conclude [OF assms]], assumption, intro safe_rules)

lemma infallible_settle [infallible_rules]:
  "infallible (settle_turn env team_id slot_id b input announced result)"
  unfolding settle_turn_def finish_turn_def by (intro infallible_rules)

lemma ensures_then_safe:
  "ensures I m (\<lambda>_. J) \<Longrightarrow> (\<And>x. safe J (f x)) \<Longrightarrow> ensures I (and_then m f) (\<lambda>_. J)"
  by (rule ensures_and_then)

lemma ensures_settle:
  assumes "b \<in> T"
  shows "ensures (session_ok env T S) (settle_turn env team_id slot_id b input announced result)
     (\<lambda>_. session_ok env T (insert b S))"
proof (cases result)
  case (Inr outcome)
  show ?thesis
    unfolding settle_turn_def Inr
    by (simp only: sum.case) (rule ensures_then_safe [OF ensures_finish_turn [OF assms]], intro safe_rules)
next
  case (Inl e)
  note mark = safe_turn_helpers(3) infallible_turn(3)
  show ?thesis
  proof (cases "\<not> announced \<and> is_retryable_start_skip e")
    case True
    show ?thesis
      unfolding settle_turn_def Inl sum.case if_P [OF True]
      by (rule ensures_then_safe [OF gave_up_rules(4) [OF assms]]) (intro safe_rules)
  next
    case False
    show ?thesis
      unfolding settle_turn_def Inl sum.case if_not_P [OF False]
      by (rule ensures_after [OF mark], rule ensures_then_safe [OF gave_up_rules(2) [OF assms]]) (intro safe_rules)
  qed
qed

text \<open>
  Whatever the port does and answers, the batch has been given up when the turn is over.
\<close>

lemma ensures_execute:
  assumes "b \<in> T" and "port_safe env port"
  shows "ensures (session_ok env T S) (execute_and_finalize env port slot_id b input) (\<lambda>_. session_ok env T (insert b S))"
  unfolding execute_and_finalize_def Let_def
  by (rule ensures_after, intro safe_rules, intro infallible_rules)+
    (rule ensures_after, rule safe_turn_steps [OF assms], intro infallible_rules, rule ensures_settle [OF assms(1)])

lemma infallible_execute: "infallible (execute_and_finalize env port slot_id b input)"
  unfolding execute_and_finalize_def Let_def by (intro infallible_rules)

lemma ensures_drain_prepared:
  assumes "S \<subseteq> T" and port: "port_safe env port"
  shows "ensures (prepared_ok env T S x) (drain_prepared env port slot_id x) (\<lambda>_. session_ok env T S)"
proof (cases "\<exists>b input. x = Inr (ExecuteBatch b input)")
  case True
  then obtain b input where x: "x = Inr (ExecuteBatch b input)" by blast
  have "safe (session_ok env (insert b T) S) (execute_and_finalize env port slot_id b input)"
    by (rule ensures_weaken [OF ensures_execute [OF insertI1 port]]) (auto dest: session_ok_less)
  then have "safe (session_ok env (insert b T) S) (drain_prepared env port slot_id x)"
    unfolding drain_prepared_def x by (simp only: sum.case prepared.case) (intro safe_rules)
  then show ?thesis
    by (rule ensures_weaken) (auto simp: x prepared_ok_def with_prepared_def dest: session_ok_fewer [OF _ assms(1)])
next
  case False
  then have "prepared_ok env T S x = session_ok env T S"
    by (auto simp: prepared_ok_def with_prepared_def split: sum.split prepared.split)
  moreover have "safe (session_ok env T S) (drain_prepared env port slot_id x)"
    using False unfolding drain_prepared_def
    by (cases x) (auto split: prepared.split intro!: safe_and_then safe_signals_settled safe_pure simp del: act_simps)
  ultimately show ?thesis by simp
qed

lemma safe_drain_round:
  assumes "S \<subseteq> T" and port: "port_safe env port" and others: "others_safe env"
  shows "safe (session_ok env T S) (drain_round env port slot_id)"
proof (rule ensuresI)
  fix se assume ok: "session_ok env T S se"
  let ?R = "\<lambda>r. case r of Inl _ \<Rightarrow> session_ok env T S | Inr x \<Rightarrow> prepared_ok env T S x"
  have body: "safe (session_ok env T S) (and_then (attempt (prepare_next_batch env slot_id)) (drain_prepared env port slot_id))"
  proof (rule ensures_and_then [where R = ?R])
    show "ensures (session_ok env T S) (attempt (prepare_next_batch env slot_id)) ?R"
      by (rule ensures_attempt) (simp add: ensures_prepare [OF assms(1) others])
  qed (simp_all add: ensures_drain_prepared [OF assms(1) port])
  show "\<exists>r st'. drain_round env port slot_id se = Some (r, st') \<and> session_ok env T S st'"
    using ok ensuresD [OF body ok] by (simp add: drain_round_def)
qed

lemma safe_drain:
  assumes "S \<subseteq> T" and "\<forall>port \<in> set ports. port_safe env port" and others: "others_safe env"
  shows "safe (session_ok env T S) (drain env slot_id ports)"
  using assms(2)
proof (induction ports)
  case Nil
  then show ?case by (simp only: drain.simps) (rule safe_rules)
next
  case (Cons port ports)
  then show ?case
    by (simp only: drain.simps) (intro safe_rules safe_drain_round [OF assms(1) _ others]; simp)
qed

end
