(* ===== verification/Session_Members.thy ===== *)
theory Session_Members
  imports Session_Control
begin

text \<open>
  How a new agent joins a running session (crates/team/src/session.rs): \<open>spawn_agent\<close> validates
  the lead's request, has the agent persisted and reserves its runtime; in the background
  \<open>attach_member_runtime\<close> starts its process and concludes the reservation.

  The process start and the team service around the session are in \<open>attach_world\<close>: the result
  of starting the process and what others do to the session meanwhile, whether the session
  is still the published one at the \<open>n\<close>-th check, whether another one has replaced it, and
  the members the team's row lists, if it can be read.
\<close>

record 'st attach_world =
  at_result :: "team_error option"
  at_meanwhile :: "'st \<Rightarrow> 'st"
  at_published :: "nat \<Rightarrow> bool"
  at_replaced :: bool
  at_members :: "team_agent list option"

definition emit_status :: "status_event \<Rightarrow> (unit, ('j, 's, 'c, 'w, 'p) session) act" where
  "emit_status ev = modify (\<lambda>se. se\<lparr>se_status_events := se_status_events se @ [ev]\<rparr>)"

fun sanitize_member_runtime_failure :: "team_error \<Rightarrow> member_failure" where
  "sanitize_member_runtime_failure (Database _) =
     \<lparr>mf_classification = ''runtime_configuration_failed'', mf_public_reason = ''Agent runtime failed to start''\<rparr>"
| "sanitize_member_runtime_failure (SessionNotFound _) =
     \<lparr>mf_classification = ''session_stopped'', mf_public_reason = ''Agent runtime failed to start''\<rparr>"
| "sanitize_member_runtime_failure _ =
     \<lparr>mf_classification = ''runtime_start_failed'', mf_public_reason = ''Agent runtime failed to start''\<rparr>"

subsection \<open>The status of the session (service.rs)\<close>

text \<open>
  The loop of \<open>refresh_member_runtime_status\<close> over the members: the reason of the first failure,
  and whether some runtime is missing. It returns early when the registry has been stopped.
\<close>

fun scan_members ::
  "('c, 'w) registry \<Rightarrow> team_agent list \<Rightarrow> string option \<times> bool \<Rightarrow> (string option \<times> bool) option" where
  "scan_members reg [] acc = Some acc"
| "scan_members reg (agent # agents) (reason, pending) =
     (case member_snapshot_of (ta_slot_id agent) reg of
        SnapReady \<Rightarrow> scan_members reg agents (reason, pending)
      | SnapFailed _ failure \<Rightarrow>
          scan_members reg agents
            (case reason of None \<Rightarrow> Some (mf_public_reason failure) | Some r \<Rightarrow> Some r, pending)
      | SnapSessionStopped \<Rightarrow> None
      | _ \<Rightarrow> scan_members reg agents (reason, True))"

definition refresh_member_runtime_status ::
  "('j, 's, 'c, 'w, 'p) session attach_world \<Rightarrow> nat \<Rightarrow> (unit, ('j, 's, 'c, 'w, 'p) session) act" where
  "refresh_member_runtime_status w check =
     (case at_members w of
        None \<Rightarrow> return_ok ()
      | Some agents \<Rightarrow>
        and_then (gets (\<lambda>se. scan_members (se_runtimes se) agents (None, False))) (\<lambda>scan.
        case scan of
          None \<Rightarrow> return_ok ()
        | Some (reason, pending) \<Rightarrow>
          when_so (at_published w check)
            (emit_status (case reason of Some r \<Rightarrow> EvSessionFailed AttachingAgents r
                          | None \<Rightarrow> if pending then EvSessionStarting AttachingAgents else EvSessionReady (length agents)))))"

text \<open>Ending a process takes time, in which others work on the session.\<close>

definition cleanup_stale_member_runtime_task ::
  "('j, 's, 'c, 'w, 'p) session_env \<Rightarrow> ('j, 's, 'c, 'w, 'p) session attach_world \<Rightarrow> ident
     \<Rightarrow> (unit, ('j, 's, 'c, 'w, 'p) session) act" where
  "cleanup_stale_member_runtime_task env w conversation_id =
     when_so (\<not> at_replaced w) (and_then (kill_and_wait conversation_id) (\<lambda>_. others_run env))"

subsection \<open>Attaching\<close>

definition attach_failed ::
  "('j, 's, 'c, 'w, 'p) session_env \<Rightarrow> ('j, 's, 'c, 'w, 'p) session attach_world \<Rightarrow> team_agent \<Rightarrow> 'c attach_lease
     \<Rightarrow> team_error \<Rightarrow> (attach_outcome option, ('j, 's, 'c, 'w, 'p) session) act" where
  "attach_failed env w agent lease error =
     (let failure = sanitize_member_runtime_failure error;
          slot_id = ta_slot_id agent
      in and_then (cleanup_stale_member_runtime_task env w (ta_conversation_id agent)) (\<lambda>_.
         and_then (on_runtimes (commit_failed (en_watch env) lease failure)) (\<lambda>committed.
         and_then (when_so committed
           (and_then (emit_status (EvAgentRuntimeFailed slot_id (ta_conversation_id agent) (mf_public_reason failure))) (\<lambda>_.
            and_then (ignoring (on_manager (set_status slot_id StError))) (\<lambda>_.
            and_then (session_constrain env slot_id
                        (Failed (aw_operation_id (al_waiter lease)) (mf_classification failure))) (\<lambda>update.
            and_then (ignoring (mark_terminal_read env (ru_terminal_message_ids update))) (\<lambda>_.
            and_then (refresh_member_runtime_status w 1) (\<lambda>_.
            ignoring (notify_leader_spawn_attach_failed env slot_id (mf_public_reason failure))))))))) (\<lambda>_.
         await_outcome env (al_waiter lease)))))"

definition register_event_loop ::
  "ident \<Rightarrow> (loop_registration_error + bool, ('j, 's, 'c, 'w, 'p) session) act" where
  "register_event_loop slot_id se =
     (if loops_has slot_id (se_loops se) then Some (Inr (Inr False), se)
      else case loops_spawn slot_id (se_loops se) of
        (Inr _, el) \<Rightarrow> Some (Inr (Inr True), se\<lparr>se_loops := el\<rparr>)
      | (Inl LoopDuplicate, el) \<Rightarrow> Some (Inr (Inr False), se\<lparr>se_loops := el\<rparr>)
      | (Inl LoopStopped, el) \<Rightarrow> Some (Inr (Inl LoopStopped), se\<lparr>se_loops := el\<rparr>))"

definition registration_failure :: member_failure where
  "registration_failure =
     \<lparr>mf_classification = ''event_loop_registration_failed'',
      mf_public_reason = ''Agent runtime event loop could not be registered''\<rparr>"

definition registration_failed ::
  "('j, 's, 'c, 'w, 'p) session_env \<Rightarrow> ('j, 's, 'c, 'w, 'p) session attach_world \<Rightarrow> team_agent \<Rightarrow> 'c attach_lease
     \<Rightarrow> (attach_outcome option, ('j, 's, 'c, 'w, 'p) session) act" where
  "registration_failed env w agent lease =
     and_then (cleanup_stale_member_runtime_task env w (ta_conversation_id agent)) (\<lambda>_.
     and_then (on_runtimes (commit_failed (en_watch env) lease registration_failure)) (\<lambda>_.
     and_then (session_constrain env (ta_slot_id agent)
                 (Failed (aw_operation_id (al_waiter lease)) (mf_classification registration_failure))) (\<lambda>_.
     and_then (refresh_member_runtime_status w 1) (\<lambda>_.
     await_outcome env (al_waiter lease)))))"

definition withdraw_attach ::
  "('j, 's, 'c, 'w, 'p) session_env \<Rightarrow> ('j, 's, 'c, 'w, 'p) session attach_world \<Rightarrow> team_agent \<Rightarrow> bool \<Rightarrow> (unit, ('j, 's, 'c, 'w, 'p) session) act" where
  "withdraw_attach env w agent registered =
     and_then (when_so registered (modify (\<lambda>se. se\<lparr>se_loops := loops_remove (ta_slot_id agent) (se_loops se)\<rparr>))) (\<lambda>_.
     cleanup_stale_member_runtime_task env w (ta_conversation_id agent))"

definition commit_attach ::
  "('j, 's, 'c, 'w, 'p) session_env \<Rightarrow> ('j, 's, 'c, 'w, 'p) session attach_world \<Rightarrow> team_agent \<Rightarrow> 'c attach_lease
     \<Rightarrow> bool \<Rightarrow> (attach_outcome option, ('j, 's, 'c, 'w, 'p) session) act" where
  "commit_attach env w agent lease registered =
     and_then (on_runtimes (commit_ready (en_watch env) lease)) (\<lambda>committed.
     if \<not> committed
     then and_then (withdraw_attach env w agent registered) (\<lambda>_. await_outcome env (al_waiter lease))
     else
       and_then (session_constrain env (ta_slot_id agent) Ready) (\<lambda>_.
       and_then (notify_slot (ta_slot_id agent)) (\<lambda>_.
       if \<not> at_published w 1
       then and_then (withdraw_attach env w agent registered) (\<lambda>_. return_ok (Some OutSessionStopped))
       else
         and_then (emit_status (EvAgentRuntimeReady (ta_slot_id agent) (ta_conversation_id agent))) (\<lambda>_.
         and_then (refresh_member_runtime_status w 2) (\<lambda>_.
         return_ok (Some OutReady))))))"

definition attach_started ::
  "('j, 's, 'c, 'w, 'p) session_env \<Rightarrow> ('j, 's, 'c, 'w, 'p) session attach_world \<Rightarrow> team_agent \<Rightarrow> 'c attach_lease
     \<Rightarrow> (attach_outcome option, ('j, 's, 'c, 'w, 'p) session) act" where
  "attach_started env w agent lease =
     and_then (gets (\<lambda>se. owns_attach lease (se_runtimes se))) (\<lambda>owner.
     if \<not> owner
     then and_then (withdraw_attach env w agent False) (\<lambda>_. await_outcome env (al_waiter lease))
     else and_then (register_event_loop (ta_slot_id agent)) (\<lambda>registration.
       case registration of
         Inl _ \<Rightarrow> registration_failed env w agent lease
       | Inr registered \<Rightarrow> commit_attach env w agent lease registered))"

definition conclude_attach_attempt ::
  "('j, 's, 'c, 'w, 'p) session_env \<Rightarrow> ('j, 's, 'c, 'w, 'p) session attach_world \<Rightarrow> team_agent \<Rightarrow> 'c attach_lease
     \<Rightarrow> (attach_outcome option, ('j, 's, 'c, 'w, 'p) session) act" where
  "conclude_attach_attempt env w agent lease =
     (case at_result w of
        Some error \<Rightarrow> attach_failed env w agent lease error
      | None \<Rightarrow> attach_started env w agent lease)"

definition attach_member_runtime ::
  "('j, 's, 'c, 'w, 'p) session_env \<Rightarrow> ('j, 's, 'c, 'w, 'p) session attach_world \<Rightarrow> team_agent \<Rightarrow> 'c attach_lease
     \<Rightarrow> (attach_outcome option, ('j, 's, 'c, 'w, 'p) session) act" where
  "attach_member_runtime env w agent lease =
     and_then (session_constrain env (ta_slot_id agent) (Starting (aw_operation_id (al_waiter lease)))) (\<lambda>_.
     and_then (when_so (at_published w 0) (emit_status (EvSessionStarting AttachingAgents))) (\<lambda>_.
     and_then (modify (at_meanwhile w)) (\<lambda>_.
     conclude_attach_attempt env w agent lease)))"

text \<open>
  The background task: only an outcome \<open>Ready\<close> is followed by anything. Its result is the waiter
  whose answer it still awaits, if it has not ended.
\<close>

definition awaited :: "'c reserve_attach_reply \<Rightarrow> 'c attach_waiter option" where
  "awaited reservation =
     (case reservation of
        AttachStart lease \<Rightarrow> Some (al_waiter lease) | AttachJoin aw \<Rightarrow> Some aw | AttachRemoving aw \<Rightarrow> Some aw
      | AttachAlreadyReady \<Rightarrow> None | AttachSessionStopped \<Rightarrow> None)"

definition attach_agent_process_bg ::
  "('j, 's, 'c, 'w, 'p) session_env \<Rightarrow> ('j, 's, 'c, 'w, 'p) session attach_world \<Rightarrow> team_agent
     \<Rightarrow> 'c reserve_attach_reply \<Rightarrow> ('c attach_waiter option, ('j, 's, 'c, 'w, 'p) session) act" where
  "attach_agent_process_bg env w agent reservation =
     and_then (case reservation of
         AttachStart lease \<Rightarrow> attach_member_runtime env w agent lease
       | AttachJoin aw \<Rightarrow> await_outcome env aw
       | AttachRemoving aw \<Rightarrow> await_outcome env aw
       | AttachAlreadyReady \<Rightarrow> return_ok (Some OutReady)
       | AttachSessionStopped \<Rightarrow> return_ok (Some OutSessionStopped)) (\<lambda>outcome.
     and_then (when_so (outcome = Some OutReady \<and> at_published w 3)
       (and_then (session_constrain env (ta_slot_id agent) Ready) (\<lambda>_. notify_slot (ta_slot_id agent)))) (\<lambda>_.
     return_ok (if outcome = None then awaited reservation else None)))"

subsection \<open>Spawning\<close>

record spawn_request =
  sr_name :: string
  sr_assistant_id :: "string option"

text \<open>
  The service's part of a spawn: the backend and model of the assistant (crates/team/src/service/
  spawn_support.rs), the persisted agent, its removal, and whether the session is published.
\<close>

record 'st spawn_world =
  sw_service :: bool \<comment> \<open>the service is alive\<close>
  sw_resolve :: "ident \<Rightarrow> string \<Rightarrow> string \<Rightarrow> team_error + string \<times> string"
  sw_persist :: "ident \<Rightarrow> string \<Rightarrow> string \<times> string \<Rightarrow> ident \<Rightarrow> team_error + team_agent"
  sw_remove :: "ident \<Rightarrow> 'st \<Rightarrow> 'st"
  sw_published :: bool

definition spawn_name ::
  "('j, 's, 'c, 'w, 'p) session_env \<Rightarrow> string \<Rightarrow> (string, ('j, 's, 'c, 'w, 'p) session) act" where
  "spawn_name env name =
     (let uc = te_unicode (en_team env);
          requested = uc_trim uc name;
          normalized = normalize_name uc requested
      in if requested = [] then throw (InvalidRequest ''spawn_agent.name must not be empty'')
         else if normalized = [] then throw (InvalidRequest ''spawn_agent.name is empty after normalization'')
         else and_then session_agents (\<lambda>existing.
           if list_ex (\<lambda>a. normalize_name uc (ta_name a) = normalized) existing
           then throw (DuplicateAgentName requested)
           else return_ok requested))"

definition spawn_assistant :: "('j, 's, 'c, 'w, 'p) session_env \<Rightarrow> string option \<Rightarrow> string option" where
  "spawn_assistant env assistant_id =
     (case map_option (uc_trim (te_unicode (en_team env))) assistant_id of
        None \<Rightarrow> None | Some i \<Rightarrow> if i = [] then None else Some i)"

definition spawn_welcome :: string where
  "spawn_welcome = ''You have been spawned as a teammate. Read your mailbox and wait for instructions.''"

definition spawn_agent ::
  "('j, 's, 'c, 'w, 'p) session_env \<Rightarrow> ('j, 's, 'c, 'w, 'p) session spawn_world \<Rightarrow> ident \<Rightarrow> spawn_request
     \<Rightarrow> (team_agent \<times> 'c reserve_attach_reply, ('j, 's, 'c, 'w, 'p) session) act" where
  "spawn_agent env w caller_slot_id req =
     and_then (session_get_agent caller_slot_id) (\<lambda>caller.
     if ta_role caller \<noteq> Lead then throw (LeaderOnly ''spawn_agent'') else
     and_then (spawn_name env (sr_name req)) (\<lambda>requested_name.
     and_then (ok_or (InvalidRequest ''spawn_agent.assistant_id is required'')
                (spawn_assistant env (sr_assistant_id req))) (\<lambda>assistant_id.
     if \<not> sw_service w then throw (InvalidRequest ''spawn_agent requires a live TeamSessionService'') else
     and_then (from_result (sw_resolve w assistant_id (ta_backend caller) (ta_model caller))) (\<lambda>target.
     and_then draw (\<lambda>n.
     and_then (from_result (sw_persist w (en_ids env n) requested_name target assistant_id)) (\<lambda>new_agent.
     and_then (on_runtimes (reserve_attach (en_watch env) (ta_slot_id new_agent) False)) (\<lambda>reservation.
     and_then (session_add_agent new_agent) (\<lambda>_.
     and_then (on_error (session_write env (ta_slot_id new_agent) caller_slot_id MtMessage spawn_welcome None None)
                (\<lambda>_. modify (sw_remove w (ta_slot_id new_agent)))) (\<lambda>welcome.
     and_then (enqueue_existing_work env (ta_slot_id new_agent) SpawnWelcome (Some (msg_id welcome))
                 (InheritRunningBatch caller_slot_id)) (\<lambda>_.
     and_then (gets (\<lambda>se. sm_team_id (se_manager se))) (\<lambda>team_id.
     if \<not> sw_published w then throw (SessionNotFound team_id)
     else return_ok (new_agent, reservation))))))))))))"

subsection \<open>A new session\<close>

definition session_start ::
  "ident \<Rightarrow> ident \<Rightarrow> team_agent list \<Rightarrow> 's \<Rightarrow> 'w \<Rightarrow> ('j, 'p) projection_state \<Rightarrow> ('j, 's, 'c, 'w, 'p) session" where
  "session_start team_id generation agents store channels projection =
     \<lparr>se_manager = team_manager_new team_id agents store, se_coord = coordinator_new team_id generation,
      se_runs = (0, team_run_manager_new team_id), se_runtimes = registry_new generation channels,
      se_loops = loops_new, se_group_runs = {}, se_projection = projection, se_turn_events = [],
      se_cancels = [], se_group_responses = [], se_status_events = [], se_killed = [], se_deleted = [],
      se_removals = [],
      se_recovery_scan_completed = False, se_mcp_stopped = False, se_published = False, se_draws = 0\<rparr>"

end
