(* ===== verification/Session_Drive.thy ===== *)
theory Session_Drive
  imports Session_Calls Session_Members
begin

text \<open>
  The session as its callers drive it: any method, in any order, again and again. Each
  method returns, without a panic, and keeps the invariant of the session, so that any
  sequence of calls does.
\<close>

subsection \<open>The remaining methods\<close>

lemma safe_emit [safe_rules]: "safe (session_ok env T S) (emit_status ev)"
  unfolding emit_status_def by (rule safe_modify_keep) simp

lemma safe_refresh [safe_rules]: "safe (session_ok env T S) (refresh_member_runtime_status w n)"
  unfolding refresh_member_runtime_status_def case_prod_beta by (intro safe_rules)

lemma safe_cleanup:
  "others_safe env \<Longrightarrow> safe (session_ok env T S) (cleanup_stale_member_runtime_task env w conv)"
  unfolding cleanup_stale_member_runtime_task_def by (intro safe_rules safe_others)

lemma safe_register [safe_rules]: "safe (session_ok env T S) (register_event_loop slot_id)"
proof (rule safe_keep)
  fix se :: "('j, 's, 'c, 'w, 'p) session"
  show "\<exists>r se'. register_event_loop slot_id se = Some (r, se') \<and> se_coord se' = se_coord se \<and> se_draws se \<le> se_draws se'"
  proof (cases "loops_spawn slot_id (se_loops se)")
    case (Pair r el)
    then show ?thesis
      by (cases r) (auto simp: register_event_loop_def split: loop_registration_error.split)
  qed
qed

lemma safe_remove_loop [safe_rules]:
  "safe (session_ok env T S) (modify (\<lambda>se. se\<lparr>se_loops := loops_remove slot_id (se_loops se)\<rparr>))"
  by (rule safe_modify_keep) simp

lemma safe_attach_parts:
  assumes "others_safe env"
  shows "safe (session_ok env T S) (withdraw_attach env w agent registered)"
    "safe (session_ok env T S) (registration_failed env w agent lease)"
    "safe (session_ok env T S) (attach_failed env w agent lease e)"
  unfolding withdraw_attach_def registration_failed_def attach_failed_def Let_def
  by (intro safe_rules safe_cleanup safe_await assms; simp)+

lemma safe_conclude_attach:
  assumes "others_safe env"
  shows "safe (session_ok env T S) (conclude_attach_attempt env w agent lease)"
proof -
  have "safe (session_ok env T S) (commit_attach env w agent lease registered)" for registered
    unfolding commit_attach_def by (intro safe_rules safe_attach_parts safe_await assms)
  then have "safe (session_ok env T S) (attach_started env w agent lease)"
    unfolding attach_started_def by (intro safe_rules safe_attach_parts safe_await assms)
  then show ?thesis
    unfolding conclude_attach_attempt_def by (intro safe_rules safe_attach_parts assms)
qed

definition world_safe ::
  "('j, 's, 'c, 'w, 'p) session_env \<Rightarrow> ('j, 's, 'c, 'w, 'p) session attach_world \<Rightarrow> bool" where
  "world_safe env w \<longleftrightarrow> others_safe env \<and> (\<forall>T S se. session_ok env T S se \<longrightarrow> session_ok env T S (at_meanwhile w se))"

lemma safe_attach [safe_rules]:
  "world_safe env w \<Longrightarrow> safe (session_ok env T S) (attach_member_runtime env w agent lease)"
  unfolding attach_member_runtime_def by (intro safe_rules safe_conclude_attach) (simp_all add: world_safe_def)

lemma safe_attach_bg [safe_rules]:
  assumes "world_safe env w"
  shows "safe (session_ok env T S) (attach_agent_process_bg env w agent reservation)"
proof -
  have "others_safe env" using assms by (simp add: world_safe_def)
  then show ?thesis
    unfolding attach_agent_process_bg_def
    by (cases reservation; simp only: reserve_attach_reply.case; intro safe_rules safe_await assms)
qed

definition spawn_safe ::
  "('j, 's, 'c, 'w, 'p) session_env \<Rightarrow> ('j, 's, 'c, 'w, 'p) session spawn_world \<Rightarrow> bool" where
  "spawn_safe env w \<longleftrightarrow> (\<forall>T S i se. session_ok env T S se \<longrightarrow> session_ok env T S (sw_remove w i se))"

lemma safe_spawn_name [safe_rules]: "safe (session_ok env T S) (spawn_name env name)"
  unfolding spawn_name_def by (intro safe_rules)

lemma safe_spawn [safe_rules]:
  "spawn_safe env w \<Longrightarrow> safe (session_ok env T S) (spawn_agent env w caller req)"
  unfolding spawn_agent_def session_add_agent_def
  by (intro safe_rules) (simp_all add: spawn_safe_def session_ok_keep)

lemma safe_finish_agent [safe_rules]: "safe (session_ok env T S) (finish_agent env conv is_error)"
  unfolding finish_agent_def by (intro safe_rules) (simp add: session_ok_keep)

lemma safe_agent_finish [safe_rules]: "safe (session_ok env T S) (on_agent_finish env now conv is_error)"
proof (rule ensuresI)
  fix se assume ok: "session_ok env T S se"
  obtain proceed m where m: "begin_finalize now conv (se_manager se) = (proceed, m)" by fastforce
  have ok1: "session_ok env T S (se\<lparr>se_manager := m\<rparr>)" by (rule session_ok_keep [OF ok]) simp_all
  show "\<exists>r st'. on_agent_finish env now conv is_error se = Some (r, st') \<and> session_ok env T S st'"
    using ok1 ensuresD [OF safe_finish_agent ok1] by (simp add: on_agent_finish_def m)
qed

subsection \<open>A session from its start\<close>

lemma session_start_ok: "ids_fresh env \<Longrightarrow> session_ok env {} {} (session_start team_id generation agents store w p)"
  by (simp add: session_ok_def session_start_def coord_inv_new)
    (simp add: coordinator_new_def intent_ids_def actives_def)

datatype ('j, 's, 'c, 'w, 'p) session_call =
    CallSend string "string list option"
  | CallSendTo ident string "string list option"
  | CallSendGroup ident string "string list option"
  | CallAgentMessage ident ident string "string list option"
  | CallShutdownAgent ident ident "string option"
  | CallRecoveryDrain
  | CallDrain ident "('j, 's, 'c, 'w, 'p) session turn_port list"
  | CallAgentFinish nat ident bool
  | CallCancelRun ident "string option"
  | CallCancelChildTurn ident ident "string option"
  | CallPauseSlot ident ident "string option"
  | CallAddAgent team_agent
  | CallAddManualAgent team_agent
  | CallRemoveAgent ident
  | CallNotifyRemoved team_agent
  | CallRenameAgent ident string
  | CallSpawnAgent "('j, 's, 'c, 'w, 'p) session spawn_world" ident spawn_request
  | CallAttach "('j, 's, 'c, 'w, 'p) session attach_world" team_agent "'c reserve_attach_reply"
  | CallRegisterLoop ident
  | CallSeedReady ident
  | CallReserveAttach ident bool
  | CallStop

text \<open>
  The result of a call is the waiter whose answer it still awaits, when it has joined an attach
  or a removal of another caller that is not over; otherwise the call has returned. Who still
  waits for the answer to an attach goes on when it comes, as \<open>CallAttach\<close> with that waiter does.
\<close>

definition finished :: "('a, 'st) act \<Rightarrow> ('b option, 'st) act" where
  "finished m = and_then (ignoring m) (\<lambda>_. return_ok None)"

definition waiting :: "('b option, 'st) act \<Rightarrow> ('b option, 'st) act" where
  "waiting m = and_then (attempt m) (\<lambda>r. return_ok (case r of Inl _ \<Rightarrow> None | Inr aw \<Rightarrow> aw))"

lemma safe_finished [safe_rules]: "safe I m \<Longrightarrow> safe I (finished m)"
  unfolding finished_def by (intro safe_rules)

lemma safe_waiting [safe_rules]: "safe I m \<Longrightarrow> safe I (waiting m)"
  unfolding waiting_def by (intro safe_rules)

fun perform ::
  "('j, 's, 'c, 'w, 'p) session_env \<Rightarrow> ('j, 's, 'c, 'w, 'p) session_call
     \<Rightarrow> ('c attach_waiter option, ('j, 's, 'c, 'w, 'p) session) act" where
  "perform env (CallSend content files) = finished (send_message env content files)"
| "perform env (CallSendTo slot_id content files) = finished (send_message_to_agent env slot_id content files)"
| "perform env (CallSendGroup slot_id content files) = finished (send_group_message_to_agent env slot_id content files)"
| "perform env (CallAgentMessage from_id to_id content files) =
     finished (send_agent_message_from_agent env from_id to_id content files)"
| "perform env (CallShutdownAgent caller target reason) = finished (session_shutdown_agent env caller target reason)"
| "perform env CallRecoveryDrain = finished (try_start_recovery_drain env)"
| "perform env (CallDrain slot_id ports) = finished (drain env slot_id ports)"
| "perform env (CallAgentFinish now conversation_id is_error) = finished (on_agent_finish env now conversation_id is_error)"
| "perform env (CallCancelRun run_id reason) = finished (session_cancel_run env run_id reason)"
| "perform env (CallCancelChildTurn run_id slot_id reason) = finished (cancel_child_turn env run_id slot_id reason)"
| "perform env (CallPauseSlot run_id slot_id reason) = finished (pause_slot_work env run_id slot_id reason)"
| "perform env (CallAddAgent agent) = finished (session_add_agent agent)"
| "perform env (CallAddManualAgent agent) = finished (add_manual_agent env agent)"
| "perform env (CallRemoveAgent slot_id) = waiting (session_remove_agent env slot_id)"
| "perform env (CallNotifyRemoved agent) = finished (notify_leader_membership_removed env agent)"
| "perform env (CallRenameAgent slot_id name) = finished (session_rename_agent env slot_id name)"
| "perform env (CallSpawnAgent w caller req) = finished (spawn_agent env w caller req)"
| "perform env (CallAttach w agent reservation) = waiting (attach_agent_process_bg env w agent reservation)"
| "perform env (CallRegisterLoop slot_id) = finished (register_event_loop slot_id)"
| "perform env (CallSeedReady slot_id) = finished (on_runtimes (seed_ready slot_id))"
| "perform env (CallReserveAttach slot_id retry_failed) =
     finished (on_runtimes (reserve_attach (en_watch env) slot_id retry_failed))"
| "perform env CallStop = finished (session_stop env)"

definition serve ::
  "('j, 's, 'c, 'w, 'p) session_env \<Rightarrow> ('j, 's, 'c, 'w, 'p) session_call list \<Rightarrow> (unit, ('j, 's, 'c, 'w, 'p) session) act" where
  "serve env = run_all (\<lambda>call. ignoring (perform env call))"

text \<open>What a call lets others do to the session while it waits keeps the session's invariant.\<close>

fun call_safe :: "('j, 's, 'c, 'w, 'p) session_env \<Rightarrow> ('j, 's, 'c, 'w, 'p) session_call \<Rightarrow> bool" where
  "call_safe env (CallDrain _ ports) = (others_safe env \<and> (\<forall>port \<in> set ports. port_safe env port))"
| "call_safe env (CallRemoveAgent _) = others_safe env"
| "call_safe env (CallSpawnAgent w _ _) = spawn_safe env w"
| "call_safe env (CallAttach w _ _) = world_safe env w"
| "call_safe env _ = True"

lemma safe_perform: "S \<subseteq> T \<Longrightarrow> call_safe env call \<Longrightarrow> safe (session_ok env T S) (perform env call)"
  by (cases call) (simp_all add: safe_rules safe_drain safe_session_remove_agent safe_cancel_child_turn safe_pause_slot_work)

lemma safe_serve:
  "S \<subseteq> T \<Longrightarrow> \<forall>call \<in> set calls. call_safe env call \<Longrightarrow> safe (session_ok env T S) (serve env calls)"
  unfolding serve_def by (intro safe_rules safe_perform) auto

text \<open>So calls of others are something that may happen meanwhile.\<close>

definition meanwhile_served ::
  "('j, 's, 'c, 'w, 'p) session_env \<Rightarrow> ('j, 's, 'c, 'w, 'p) session_call list
     \<Rightarrow> ('j, 's, 'c, 'w, 'p) session \<Rightarrow> ('j, 's, 'c, 'w, 'p) session" where
  "meanwhile_served env calls se = (case serve env calls se of Some (_, se1) \<Rightarrow> se1 | None \<Rightarrow> se)"

lemma meanwhile_served_ok:
  assumes "\<forall>call \<in> set calls. call_safe env call" and "session_ok env T S se"
  shows "session_ok env T S (meanwhile_served env calls se)"
proof -
  have "S \<subseteq> T" using assms(2) by (simp add: session_ok_def)
  from ensuresD [OF safe_serve [OF this assms(1)] assms(2)] show ?thesis
    by (auto simp: meanwhile_served_def)
qed

end
