(* ===== verification/Session_Leases.thy ===== *)
theory Session_Leases
  imports Session_Drive
begin

text \<open>
  No method of the session leaves an enqueue lease open: whatever goes wrong between the
  reservation of a place in a queue and the commit, the lease is committed or withdrawn
  before the method returns. \<open>lease_free L g\<close> says that only leases in \<open>L\<close> are open in the
  session's generation \<open>g\<close>, \<open>lease_held L g lease\<close> that \<open>lease\<close> may be open as well, with the
  record its holder knows.
\<close>

definition at_coord :: "(coordinator \<Rightarrow> bool) \<Rightarrow> ('j, 's, 'c, 'w, 'p) session \<Rightarrow> bool" where
  "at_coord P se = P (se_coord se)"

definition leases_in :: "ident set \<Rightarrow> ident \<Rightarrow> coordinator \<Rightarrow> bool" where
  "leases_in L g c \<longleftrightarrow> lease_ids c \<subseteq> L \<and> co_session_generation c = g"

definition lease_held :: "ident set \<Rightarrow> ident \<Rightarrow> enqueue_lease \<Rightarrow> coordinator \<Rightarrow> bool" where
  "lease_held L g lease c \<longleftrightarrow> leases_in (insert (le_lease_id lease) L) g c \<and> le_session_generation lease = g \<and>
     (\<forall>rec. map_of (co_enqueue_leases c) (le_lease_id lease) = Some rec \<longrightarrow> lr_lease rec = lease)"

abbreviation lease_free :: "ident set \<Rightarrow> ident \<Rightarrow> ('j, 's, 'c, 'w, 'p) session \<Rightarrow> bool" where
  "lease_free L g \<equiv> at_coord (leases_in L g)"

abbreviation holding :: "ident set \<Rightarrow> ident \<Rightarrow> enqueue_lease \<Rightarrow> ('j, 's, 'c, 'w, 'p) session \<Rightarrow> bool" where
  "holding L g lease \<equiv> at_coord (lease_held L g lease)"

lemma leases_in_within: "leases_within c' c \<Longrightarrow> leases_in L g c \<Longrightarrow> leases_in L g c'"
  by (auto simp: leases_within_def leases_in_def)

lemma map_of_removed: "map_of (AList.delete k m) = (map_of m)(k := None)"
  by (auto simp: map_simps)

lemma lease_removed:
  assumes "leases_in (insert k L) g c" and "map_of (co_enqueue_leases c') = (map_of (co_enqueue_leases c))(k := None)"
    and "co_session_generation c' = co_session_generation c"
  shows "leases_in L g c'"
  using assms unfolding leases_in_def lease_ids_def by auto

subsection \<open>Calls that leave the coordinator alone\<close>

lemma keeps_alone:
  assumes "\<And>se r se'. m se = Some (r, se') \<Longrightarrow> se_coord se' = se_coord se"
  shows "keeps (at_coord P) m"
  by (rule leavesI) (use assms in \<open>fastforce simp: at_coord_def\<close>)

lemma keeps_calls [keeps_rules]:
  "keeps (at_coord P) draw" "keeps (at_coord P) (on_manager f)" "keeps (at_coord P) (expect_some z)"
  "keeps (at_coord P) (session_get_agent slot_id)" "keeps (at_coord P) session_agents"
  "keeps (at_coord P) session_lead" "keeps (at_coord P) (session_peek_unread env slot_id)"
  "keeps (at_coord P) (notify_slot slot_id)" "keeps (at_coord P) (broadcast_child_turn ev payload)"
  "keeps (at_coord P) (cancel_agent_turn env conv turn)" "keeps (at_coord P) (mark_group_run run)"
  "keeps (at_coord P) (kill_and_wait conv)" "keeps (at_coord P) (on_runtimes g)"
  "keeps (at_coord P) (session_add_agent agent)" "keeps (at_coord P) (record_group_response env slot_id text)"
  "keeps (at_coord P) (session_begin_cancel env run reason)" "keeps (at_coord P) (session_project env q)"
  by (rule keeps_alone; auto simp: draw_def on_manager_def session_get_agent_def session_agents_def session_lead_def
      session_peek_unread_def notify_slot_def broadcast_child_turn_def cancel_agent_turn_def mark_group_run_def
      kill_and_wait_def on_runtimes_def session_add_agent_def record_group_response_def session_begin_cancel_def
      session_project_def expect_some_def and_then_def split: prod.splits option.splits)+

lemma keeps_store [keeps_rules]:
  "keeps (at_coord P) (session_write e to_id from_id ty content summary files)"
  "keeps (at_coord P) (session_mark_read e ids)" "keeps (at_coord P) (mark_terminal_read e ids)"
  unfolding session_write_def session_mark_read_def mark_terminal_read_def by (intro keeps_rules)+

lemma keeps_modify [keeps_rules]: "(\<And>se. se_coord (f se) = se_coord se) \<Longrightarrow> keeps (at_coord P) (modify f)"
  by (rule keeps_alone) auto

subsection \<open>Calls into the coordinator\<close>

lemma keeps_on_coord:
  assumes "\<And>c r x c' r'. f c r = (x, c', r') \<Longrightarrow> leases_within c' c"
  shows "keeps (lease_free L g) (on_coord f)"
  by (rule leavesI) (use assms leases_in_within in \<open>fastforce simp: on_coord_def at_coord_def split: prod.splits\<close>)

lemma keeps_expect_coord:
  assumes "\<And>c r x c' r'. f c r = Some (x, c', r') \<Longrightarrow> leases_within c' c"
  shows "keeps (lease_free L g) (expect_coord f)"
  by (rule leavesI)
    (use assms leases_in_within in \<open>fastforce simp: expect_coord_def at_coord_def split: option.splits prod.splits\<close>)

lemma keeps_coord [keeps_rules]:
  "keeps (lease_free L g) (session_constrain e slot_id k)"
  "keeps (lease_free L g) (expect_coord (cancel_run port run_id))"
  "keeps (lease_free L g) (expect_coord (remove_slot port slot_id))"
  "keeps (lease_free L g) (session_pause_slot slot_id)"
  "keeps (lease_free L g) (on_coord (complete_signals port slot_id is))"
  "keeps (lease_free L g) (on_coord (stop port))"
  "keeps (lease_free L g) (on_coord (terminalize_batch port b st))"
  "keeps (lease_free L g) (on_coord (retry_start port b))"
  "keeps (lease_free L g) (session_mark_started e b turn)"
  "keeps (lease_free L g) (session_next e slot_id)"
  unfolding session_constrain_def session_pause_slot_def session_mark_started_def session_next_def
  by (intro keeps_rules keeps_on_coord keeps_expect_coord;
      auto dest: cancel_run_frame(2) stop_leases frame_leases_within set_runtime_constraint_frame remove_slot_frame
        pause_frame signals_frame terminalize_frame retry_start_frame mark_started_frame next_work_frame)+

subsection \<open>The protocol of a lease\<close>

text \<open>
  \<open>lease_step L g lease m\<close>: an action of the holder that either fails and has withdrawn the
  lease, or succeeds and still holds it. \<open>lease_end\<close>: one after which it is closed either way.
\<close>

abbreviation lease_step ::
  "ident set \<Rightarrow> ident \<Rightarrow> enqueue_lease \<Rightarrow> ('a, ('j, 's, 'c, 'w, 'p) session) act \<Rightarrow> bool" where
  "lease_step L g lease m \<equiv>
     leaves (holding L g lease) m (\<lambda>r. case r of Inl _ \<Rightarrow> lease_free L g | Inr _ \<Rightarrow> holding L g lease)"

abbreviation lease_end ::
  "ident set \<Rightarrow> ident \<Rightarrow> enqueue_lease \<Rightarrow> ('a, ('j, 's, 'c, 'w, 'p) session) act \<Rightarrow> bool" where
  "lease_end L g lease m \<equiv> leaves (holding L g lease) m (\<lambda>_. lease_free L g)"

lemma lease_step_then: "lease_step L g lease m \<Longrightarrow> (\<And>x. lease_end L g lease (f x)) \<Longrightarrow> lease_end L g lease (and_then m f)"
  by (erule leaves_and_then) simp_all

lemma lease_end_then: "lease_end L g lease m \<Longrightarrow> (\<And>x. keeps (lease_free L g) (f x)) \<Longrightarrow> lease_end L g lease (and_then m f)"
  by (rule leaves_and_then)

lemma abort_ends_lease: "lease_end L g lease (session_abort env lease)"
proof (rule leavesI)
  fix se se' and r :: "team_error + unit"
  assume held: "holding L g lease se" and run: "session_abort env lease se = Some (r, se')"
  obtain x c' r' where ab: "abort_enqueue (session_port env) lease (se_coord se) (se_runs se) = (x, c', r')"
    by (metis prod_cases3)
  with run have c': "se_coord se' = c'"
    by (auto simp: session_abort_def on_coord_def and_then_Some)
  have within: "leases_in (insert (le_lease_id lease) L) g (se_coord se)" and
    gen: "le_session_generation lease = co_session_generation (se_coord se)"
    using held by (simp_all add: at_coord_def lease_held_def leases_in_def)
  have "map_of (co_enqueue_leases c') = (map_of (co_enqueue_leases (se_coord se)))(le_lease_id lease := None) \<and>
      co_session_generation c' = co_session_generation (se_coord se)"
  proof (cases "map_of (co_enqueue_leases (se_coord se)) (le_lease_id lease)")
    case None
    then have "c' = se_coord se" using ab by (simp add: abort_enqueue_def)
    with None show ?thesis by (simp add: fun_upd_idem)
  next
    case (Some rec)
    then have "lr_lease rec = lease" using held by (simp add: at_coord_def lease_held_def)
    with Some gen ab have "c' = (se_coord se)\<lparr>co_enqueue_leases := hm_remove (le_lease_id lease) (co_enqueue_leases (se_coord se))\<rparr>"
      by (simp add: abort_enqueue_def Let_def)
    then show ?thesis by (simp add: map_of_removed)
  qed
  then have "leases_in L g c'" using lease_removed [OF within] by blast
  then show "lease_free L g se'" by (simp add: at_coord_def c')
qed

lemma commit_step: "lease_held L g lease (se_coord se) \<Longrightarrow> session_commit env lease msg se = Some (r, se') \<Longrightarrow>
    (case r of Inl _ \<Rightarrow> lease_held L g lease (se_coord se') | Inr _ \<Rightarrow> leases_in L g (se_coord se'))"
proof -
  assume held: "lease_held L g lease (se_coord se)" and run: "session_commit env lease msg se = Some (r, se')"
  obtain res c' r' where cm: "commit_enqueue (session_port env) (en_ids env (se_draws se)) (en_now env (se_draws se))
      lease msg (se_coord se) (se_runs se) = (res, c', r')" by (metis prod_cases3)
  let ?se = "se\<lparr>se_draws := Suc (se_draws se), se_coord := c', se_runs := r'\<rparr>"
  have result: "session_commit env lease msg se =
      (case res of Inl e \<Rightarrow> Some (Inl e, ?se) | Inr None \<Rightarrow> None | Inr (Some y) \<Rightarrow> Some (Inr y, ?se))"
    using cm by (simp add: session_commit_def draw_def and_then_def try_coord_def expect_some_def split: sum.split option.split)
  show ?thesis
  proof (cases res)
    case (Inl e)
    with run result commit_enqueue_error [OF cm [unfolded Inl]] held show ?thesis by auto
  next
    case (Inr out)
    with run result obtain x where r: "r = Inr x" and c': "se_coord se' = c'"
      by (auto split: option.splits)
    have "map_of (co_enqueue_leases c') = (map_of (co_enqueue_leases (se_coord se)))(le_lease_id lease := None)"
      "co_session_generation c' = co_session_generation (se_coord se)"
      using cm unfolding Inr by (auto elim!: commit_enqueue_success simp: map_of_removed)
    with held lease_removed [of "le_lease_id lease" L g "se_coord se" c'] show ?thesis by (simp add: r c' lease_held_def)
  qed
qed

lemma commit_ends_lease:
  assumes "\<And>e. lease_end L g lease (f e)"
  shows "lease_end L g lease (on_error (session_commit env lease msg) f)"
proof -
  have commit: "leaves (holding L g lease) (session_commit env lease msg)
      (\<lambda>r. case r of Inl _ \<Rightarrow> holding L g lease | Inr _ \<Rightarrow> lease_free L g)"
    by (rule leavesI) (use commit_step in \<open>fastforce simp: at_coord_def split: sum.splits\<close>)
  have rest: "leaves (case x of Inl _ \<Rightarrow> holding L g lease | Inr _ \<Rightarrow> lease_free L g)
      (case x of Inr y \<Rightarrow> return_ok y | Inl e \<Rightarrow> and_then (f e) (\<lambda>_. throw e)) (\<lambda>_. lease_free L g)" for x
    by (cases x) (simp_all add: keeps_rules lease_end_then assms)
  show ?thesis
    unfolding on_error_def
    by (rule leaves_and_then [where R = "\<lambda>r. case r of Inl _ \<Rightarrow> lease_free L g
          | Inr x \<Rightarrow> (case x of Inl _ \<Rightarrow> holding L g lease | Inr _ \<Rightarrow> lease_free L g)"])
      (simp_all add: leaves_attempt commit rest)
qed

lemma abort_on_error:
  assumes "keeps (holding L g lease) m"
  shows "lease_step L g lease (on_error m (\<lambda>_. session_abort env lease))"
proof -
  have "leaves (holding L g lease)
      (case x of Inr y \<Rightarrow> return_ok y | Inl e \<Rightarrow> and_then (session_abort env lease) (\<lambda>_. throw e))
      (\<lambda>r. case r of Inl _ \<Rightarrow> lease_free L g | Inr _ \<Rightarrow> holding L g lease)" for x
  proof (cases x)
    case (Inl e)
    have "leaves (lease_free L g) (throw e) (\<lambda>r. case r of Inl _ \<Rightarrow> lease_free L g | Inr _ \<Rightarrow> holding L g lease)"
      by (simp add: leaves_def)
    note thrown = this
    show ?thesis
      unfolding Inl sum.case by (rule leaves_and_then [OF abort_ends_lease]) (simp only: sum.case, rule thrown)
  qed (simp add: leaves_def)
  then show ?thesis
    unfolding on_error_def
    by (intro leaves_after infallible_rules keeps_rules assms)
qed

lemma lease_ends:
  "lease_end L g lease (commit_persisted_enqueue env lease message_id)"
  "lease_end L g lease (on_error (session_commit env lease None) (\<lambda>_. session_abort env lease))"
  unfolding commit_persisted_enqueue_def
  by (intro commit_ends_lease lease_end_then abort_ends_lease keeps_rules)+

lemma acquire_holds:
  assumes "\<And>lease. lease_end L g lease (f lease)"
  shows "keeps (lease_free L g) (and_then (session_acquire env rq) f)"
proof -
  have "leaves (lease_free L g) (session_acquire env rq)
      (\<lambda>r. case r of Inl _ \<Rightarrow> lease_free L g | Inr lease \<Rightarrow> holding L g lease)"
  proof (rule leavesI)
    fix se se' and r :: "team_error + enqueue_lease"
    assume free: "lease_free L g se" and run: "session_acquire env rq se = Some (r, se')"
    obtain res c' r' where aq: "acquire_enqueue (session_port env) (en_ids env (se_draws se)) rq (se_coord se) (se_runs se) =
        (res, c', r')" by (metis prod_cases3)
    with run have r: "r = res" "se_coord se' = c'"
      by (auto simp: session_acquire_def draw_def try_coord_def and_then_Some)
    have "case res of Inl _ \<Rightarrow> leases_in L g c' | Inr lease \<Rightarrow> lease_held L g lease c'"
      using aq free
      by (fastforce simp: acquire_enqueue_def Let_def at_coord_def lease_held_def leases_in_def lease_ids_def
          map_of_hm_insert split: option.splits prod.splits if_splits)
    then show "(case r of Inl _ \<Rightarrow> lease_free L g | Inr lease \<Rightarrow> holding L g lease) se'"
      by (auto simp: r at_coord_def split: sum.splits)
  qed
  then show ?thesis by (rule leaves_and_then) (simp_all add: assms)
qed

text \<open>So a method that acquires a lease is dealt with step by step.\<close>

lemma keeps_publish [keeps_rules]: "keeps (lease_free L g) (publish_runtime_constraint env slot_id)"
  unfolding publish_runtime_constraint_def by (intro keeps_rules)

lemmas before_acquire =
  keeps_and_then [OF keeps_publish] keeps_and_then [OF keeps_calls(4)] keeps_and_then [OF keeps_pure(3)]

lemma while_held:
  "(\<And>x. lease_end L g lease (f x)) \<Longrightarrow> lease_end L g lease (and_then (write_leased env lease to_id from_id content files) f)"
  "(\<And>x. lease_end L g lease (f x)) \<Longrightarrow>
     lease_end L g lease (and_then (on_error (on_manager h) (\<lambda>_. session_abort env lease)) f)"
  "(\<And>x. lease_end L g lease (f' x)) \<Longrightarrow> lease_end L g lease (and_then (gets p) f')"
  "(\<And>x. lease_end L g lease (f'' x)) \<Longrightarrow> lease_end L g lease (and_then (ignoring (session_project env q)) f'')"
  unfolding write_leased_def
  by (intro lease_step_then abort_on_error leaves_after keeps_rules infallible_rules; assumption)+

lemma at_the_end:
  "(\<And>x. keeps (lease_free L g) (f x)) \<Longrightarrow> lease_end L g lease (and_then (commit_persisted_enqueue env lease message_id) f)"
  "(\<And>x. keeps (lease_free L g) (f' x)) \<Longrightarrow> lease_end L g lease (and_then (session_abort env lease) f')"
  by (intro lease_end_then lease_ends abort_ends_lease; assumption)+

lemma keeps_messages [keeps_rules]:
  "keeps (lease_free L g) (enqueue_user_message env slot_id role content files group_origin)"
  "keeps (lease_free L g) (send_agent_message_from_agent env from_id to_id content files)"
  unfolding enqueue_user_message_def send_agent_message_from_agent_def session_current_payload_def
  by (intro before_acquire acquire_holds while_held at_the_end, (intro keeps_rules)[1])+

lemma keeps_shutdown_agent [keeps_rules]: "keeps (lease_free L g) (session_shutdown_agent env caller target reason)"
  unfolding session_shutdown_agent_def
  by (intro before_acquire acquire_holds while_held at_the_end leaves_if keeps_rules)

lemma keeps_existing_work [keeps_rules]: "keeps (lease_free L g) (enqueue_existing_work env slot_id source message_id binding)"
  unfolding enqueue_existing_work_def
proof (intro before_acquire acquire_holds lease_end_then)
  fix lease
  show "lease_end L g lease (case message_id of Some i \<Rightarrow> commit_persisted_enqueue env lease i
      | None \<Rightarrow> on_error (session_commit env lease None) (\<lambda>_. session_abort env lease))"
    by (simp add: lease_ends split: option.split)
qed (intro keeps_rules)

subsection \<open>All methods\<close>

lemma keeps_more [keeps_rules]:
  "keeps (lease_free L g) (send_message env content files)"
  "keeps (lease_free L g) (send_message_to_agent env slot_id content files)"
  "keeps (lease_free L g) (send_group_message_to_agent env slot_id content files)"
  "keeps (lease_free L g) (enqueue_leader_settle_signal env slot_id source)"
  "keeps (lease_free L g) (handle_signal_intents env slot_id is)"
  "keeps (lease_free L g) (mirror_unread_to_conversation env input)"
  "keeps (lease_free L g) (wake_leader_after_recovery_message env slot_id source)"
  "keeps (lease_free L g) (team_lead_or_fail)"
  "keeps (lease_free L g) (project_team_system_message env slot_id conv mid content)"
  unfolding send_message_def send_message_to_agent_def send_group_message_to_agent_def enqueue_leader_settle_signal_def
    handle_signal_intents_def mirror_unread_to_conversation_def wake_leader_after_recovery_message_def
    team_lead_or_fail_def project_team_system_message_def
  by (intro keeps_rules)+

lemma keeps_let [keeps_rules]: "keeps I (f x) \<Longrightarrow> keeps I (let y = x in f y)"
  by (simp add: Let_def)

lemma keeps_recover_agents [keeps_rules]: "keeps (lease_free L g) (recover_agents env agents)"
proof (induction agents)
  case (Cons a agents)
  show ?case
    unfolding recover_agents.simps by (intro keeps_rules Cons)
qed (simp only: recover_agents.simps keeps_pure)

lemma keeps_after:
  assumes "keeps (at_coord P) m" and "\<And>se r se'. m' se = Some (r, se') \<Longrightarrow>
      se_coord se' = se_coord se \<or> (\<exists>se1 r1. se_coord se1 = se_coord se \<and> m se1 = Some (r1, se'))"
  shows "keeps (at_coord P) m'"
proof (rule leavesI)
  fix se r se' assume P: "at_coord P se" and "m' se = Some (r, se')"
  then consider "se_coord se' = se_coord se" | se1 r1 where "se_coord se1 = se_coord se" "m se1 = Some (r1, se')"
    using assms(2) by blast
  then show "at_coord P se'"
  proof cases
    case 2
    have "at_coord P se1" using P 2(1) by (simp add: at_coord_def)
    then show ?thesis by (rule leavesD [OF assms(1) _ 2(2)])
  qed (use P in \<open>simp add: at_coord_def\<close>)
qed

lemma keeps_recovery [keeps_rules]: "keeps (lease_free L g) (try_start_recovery_drain env)"
proof (rule keeps_after)
  show "keeps (lease_free L g) (and_then session_agents (recover_agents env))"
    by (intro keeps_rules)
next
  fix se r se' assume "try_start_recovery_drain env se = Some (r, se')"
  then have "(r, se') = (Inr [], se) \<or>
      and_then session_agents (recover_agents env) (se\<lparr>se_recovery_scan_completed := True\<rparr>) = Some (r, se')"
    by (auto simp: try_start_recovery_drain_def split: if_splits)
  then show "se_coord se' = se_coord se \<or>
      (\<exists>se1 r1. se_coord se1 = se_coord se \<and> and_then session_agents (recover_agents env) se1 = Some (r1, se'))"
    by fastforce
qed

lemma keeps_reconcile [keeps_rules]: "keeps (lease_free L g) (session_reconcile env slot_id ids role)"
  unfolding session_reconcile_def
  by (intro keeps_rules keeps_on_coord) (auto dest!: reconcile_leases split: prod.splits)

text \<open>What others do meanwhile leaves no lease open either.\<close>

definition others_lease_free :: "('j, 's, 'c, 'w, 'p) session_env \<Rightarrow> bool" where
  "others_lease_free env \<longleftrightarrow> (\<forall>n L g se. lease_free L g se \<longrightarrow> lease_free L g (en_others env n se))"

lemma keeps_others:
  assumes "others_lease_free env"
  shows "keeps (lease_free L g) (others_run env)"
proof -
  have "keeps (lease_free L g) (modify (en_others env n))" for n
    using assms by (simp add: leaves_def others_lease_free_def)
  note change = this
  show ?thesis unfolding others_run_def by (intro keeps_rules change)
qed

lemma keeps_await: "others_lease_free env \<Longrightarrow> keeps (lease_free L g) (await_outcome env aw)"
  unfolding await_outcome_def by (intro keeps_rules keeps_others)

lemma keeps_prepare:
  assumes "others_lease_free env"
  shows "keeps (lease_free L g) (prepare_next_batch env slot_id)"
proof -
  have "keeps (lease_free L g) (first_message env slot_id agent body)" for agent body
    by (rule keeps_alone)
      (auto simp: first_message_def session_agents_def and_then_Some split: prod.splits if_splits)
  note first = this
  have "keeps (lease_free L g) (prepare_claimed env slot_id agent unread b)" for agent unread b
    unfolding prepare_claimed_def by (intro keeps_rules first)
  then have "keeps (lease_free L g) (case d of Claim b \<Rightarrow> prepare_claimed env slot_id agent unread b
       | SettleSignals is \<Rightarrow> return_ok (SettleIntents is) | WaitingForCompletion \<Rightarrow> return_ok PrepareWaiting
       | BlockedBy _ \<Rightarrow> return_ok PrepareBlocked | Quiescent \<Rightarrow> return_ok PrepareQuiescent)" for d agent unread
    by (cases d) (simp_all only: reconcile_decision.case keeps_pure)
  note decided = this
  show ?thesis
    unfolding prepare_next_batch_def by (intro keeps_rules keeps_others assms decided)
qed

lemma keeps_notices [keeps_rules]:
  "keeps (lease_free L g) (notify_leader_child_interrupted env slot_id reason)"
  "keeps (lease_free L g) (notify_leader_spawn_attach_failed env slot_id error)"
  "keeps (lease_free L g) (add_manual_agent env agent)"
  "keeps (lease_free L g) (notify_leader_membership_removed env agent)"
  "keeps (lease_free L g) (session_rename_agent env slot_id name)"
  "keeps (lease_free L g) (cancel_target_turn env run_id target)"
  "keeps (lease_free L g) (cancel_turn_or_fail env run_id slot_id role turn)"
  "keeps (lease_free L g) (session_cancel_run env run_id reason)"
  "keeps (lease_free L g) (session_stop env)"
  unfolding notify_leader_child_interrupted_def notify_leader_spawn_attach_failed_def add_manual_agent_def
    notify_leader_membership_removed_def session_rename_agent_def cancel_target_turn_def cancel_turn_or_fail_def
    session_cancel_run_def session_stop_def
  by (intro keeps_rules; simp)+

lemma keeps_give_up [keeps_rules]:
  "keeps (lease_free L g) (on_coord (complete_batch port b))"
  "keeps (lease_free L g) (on_coord (fail_batch port b cl))"
  "keeps (lease_free L g) (on_coord (cancel_batch port b cl))"
  unfolding complete_batch_def fail_batch_def cancel_batch_def by (intro keeps_rules)+

lemma keeps_interrupt [keeps_rules]:
  "keeps (lease_free L g) (interrupt_batch env run slot_id role cl reason turn b)"
  "keeps (lease_free L g) (cancel_child_turn env run slot_id reason)"
  "keeps (lease_free L g) (pause_slot_work env run slot_id reason)"
proof -
  show interrupt: "keeps (lease_free L g) (interrupt_batch env run slot_id role cl reason turn b)"
    for run slot_id role cl reason turn b unfolding interrupt_batch_def by (intro keeps_rules)
  show "keeps (lease_free L g) (cancel_child_turn env run slot_id reason)"
    "keeps (lease_free L g) (pause_slot_work env run slot_id reason)"
    unfolding cancel_child_turn_def pause_slot_work_def by (intro keeps_rules interrupt)+
qed

lemma keeps_remove:
  assumes "others_lease_free env"
  shows "keeps (lease_free L g) (session_remove_agent env slot_id)"
proof -
  have remove: "keeps (lease_free L g) (remove_member env slot_id removal)" for removal
    unfolding remove_member_def by (cases removal; simp only: begin_remove_reply.case; intro keeps_rules; simp)
  show ?thesis
    unfolding session_remove_agent_def
    by (intro keeps_rules, split begin_remove_reply.split)
      (intro conjI allI impI keeps_rules remove keeps_await assms)
qed

subsection \<open>Turns\<close>

definition port_lease_free :: "('j, 's, 'c, 'w, 'p) session turn_port \<Rightarrow> bool" where
  "port_lease_free port \<longleftrightarrow> (\<forall>q f. Meanwhile f \<in> set (fst (port q)) \<longrightarrow>
     (\<forall>L g se. lease_free L g se \<longrightarrow> lease_free L g (f se)))"

lemma keeps_turn [keeps_rules]:
  "keeps (lease_free L g) (broadcast_started ev status started)"
  "keeps (lease_free L g) (set_slot_status slot_id st)"
  "keeps (lease_free L g) (mark_batch_messages_read env b)"
  "keeps (lease_free L g) (broadcast_completed team_id slot_id b input outcome verdict)"
  "keeps (lease_free L g) (keep_response env slot_id b outcome)"
  "keeps (lease_free L g) (conclude_batch env slot_id b outcome)"
  "keeps (lease_free L g) (finalize_agent_turn env slot_id)"
  unfolding broadcast_started_def set_slot_status_def mark_batch_messages_read_def broadcast_completed_def
    keep_response_def conclude_batch_def finalize_agent_turn_def
  by (intro keeps_rules; simp)+

lemma keeps_settle [keeps_rules]: "keeps (lease_free L g) (settle_turn env team_id slot_id b input announced result)"
  unfolding settle_turn_def finish_turn_def by (intro keeps_rules)

lemma keeps_on_started: "keeps (lease_free L g) (on_started env b conv started)"
  unfolding on_started_def by (intro keeps_rules, split start_commit_result.split) (simp add: keeps_rules)

lemma keeps_execute:
  assumes "port_lease_free port"
  shows "keeps (lease_free L g) (execute_and_finalize env port slot_id b input)"
proof -
  have "keeps (lease_free L g) (turn_step_act env b conv step)" if "step \<in> set (fst (port q))" for conv step q
  proof (cases step)
    case (TurnAnnounced started)
    then show ?thesis by (simp only: turn_step_act_def turn_step.case keeps_on_started)
  next
    case (Meanwhile f)
    with that assms have "\<And>se. lease_free L g se \<Longrightarrow> lease_free L g (f se)"
      unfolding port_lease_free_def by blast
    then show ?thesis
      unfolding Meanwhile turn_step_act_def turn_step.case by (simp add: leaves_def)
  qed
  then have "keeps (lease_free L g) (run_all (turn_step_act env b conv) (fst (port q)))" for conv q
    by (rule keeps_run_all)
  note steps = this
  show ?thesis
    unfolding execute_and_finalize_def by (intro keeps_rules steps)
qed

lemma keeps_drain:
  assumes "\<forall>port \<in> set ports. port_lease_free port" and others: "others_lease_free env"
  shows "keeps (lease_free L g) (drain env slot_id ports)"
  using assms(1)
proof (induction ports)
  case (Cons port ports)
  have execute: "keeps (lease_free L g) (execute_and_finalize env port slot_id b input)" for b input
    by (rule keeps_execute) (use Cons.prems in simp)
  have "keeps (lease_free L g) (drain_prepared env port slot_id x)" for x
    unfolding drain_prepared_def
    by (simp split: sum.split prepared.split) (intro conjI allI impI keeps_rules execute)
  note prepared = this
  have "keeps (lease_free L g) (drain_round env port slot_id)"
  proof (rule keeps_after)
    show "keeps (lease_free L g) (and_then (attempt (prepare_next_batch env slot_id)) (drain_prepared env port slot_id))"
      by (intro keeps_rules keeps_prepare others prepared)
  qed (auto simp: drain_round_def split: if_splits)
  with Cons show ?case
    unfolding drain.simps by (intro keeps_rules) simp_all
qed (simp only: drain.simps keeps_pure)

subsection \<open>Members, and any sequence of calls\<close>

lemma keeps_members [keeps_rules]:
  "keeps (at_coord P) (emit_status ev)" "keeps (at_coord P) (register_event_loop slot_id)"
  "keeps (at_coord P) (spawn_name env name)"
  unfolding emit_status_def spawn_name_def
  by ((intro keeps_rules; simp; fail) |
    (rule keeps_alone, auto simp: register_event_loop_def split: if_splits prod.splits sum.splits loop_registration_error.splits))+

lemma keeps_refresh [keeps_rules]: "keeps (at_coord P) (refresh_member_runtime_status w n)"
  unfolding refresh_member_runtime_status_def case_prod_beta by (intro keeps_rules)

lemma keeps_cleanup:
  "others_lease_free env \<Longrightarrow> keeps (lease_free L g) (cleanup_stale_member_runtime_task env w conv)"
  unfolding cleanup_stale_member_runtime_task_def by (intro keeps_rules keeps_others)

lemma keeps_withdraw:
  "others_lease_free env \<Longrightarrow> keeps (lease_free L g) (withdraw_attach env w agent registered)"
  unfolding withdraw_attach_def by (intro keeps_rules keeps_cleanup) simp

lemma keeps_conclude_attach:
  assumes "others_lease_free env"
  shows "keeps (lease_free L g) (conclude_attach_attempt env w agent lease)"
proof -
  note others = keeps_cleanup [OF assms] keeps_withdraw [OF assms] keeps_await [OF assms]
  have failed: "keeps (lease_free L g) (registration_failed env w agent lease)"
    "keeps (lease_free L g) (attach_failed env w agent lease e)"
    "keeps (lease_free L g) (commit_attach env w agent lease registered)" for e registered
    unfolding registration_failed_def attach_failed_def commit_attach_def Let_def by (intro keeps_rules others)+
  have "keeps (lease_free L g) (attach_started env w agent lease)"
    unfolding attach_started_def by (intro keeps_rules others failed)
  then show ?thesis unfolding conclude_attach_attempt_def by (intro keeps_rules failed)
qed

fun call_lease_free :: "('j, 's, 'c, 'w, 'p) session_env \<Rightarrow> ('j, 's, 'c, 'w, 'p) session_call \<Rightarrow> bool" where
  "call_lease_free env (CallDrain _ ports) = (others_lease_free env \<and> (\<forall>port \<in> set ports. port_lease_free port))"
| "call_lease_free env (CallRemoveAgent _) = others_lease_free env"
| "call_lease_free env (CallSpawnAgent w _ _) = (\<forall>i L g se. lease_free L g se \<longrightarrow> lease_free L g (sw_remove w i se))"
| "call_lease_free env (CallAttach w _ _) =
     (others_lease_free env \<and> (\<forall>L g se. lease_free L g se \<longrightarrow> lease_free L g (at_meanwhile w se)))"
| "call_lease_free env _ = True"

lemma keeps_attach:
  assumes "call_lease_free env (CallAttach w agent reservation)"
  shows "keeps (lease_free L g) (attach_agent_process_bg env w agent reservation)"
proof -
  have "keeps (lease_free L g) (modify (at_meanwhile w))" using assms by (simp add: leaves_def)
  note meanwhile = this
  have "keeps (lease_free L g) (attach_member_runtime env w agent lease)" for lease
    unfolding attach_member_runtime_def
    by (intro keeps_rules meanwhile keeps_conclude_attach) (use assms in simp)
  note attach = this keeps_await
  show ?thesis
    unfolding attach_agent_process_bg_def
    by (cases reservation; simp only: reserve_attach_reply.case; intro keeps_rules attach) (use assms in simp_all)
qed

lemma keeps_spawn:
  assumes "call_lease_free env (CallSpawnAgent w caller req)"
  shows "keeps (lease_free L g) (spawn_agent env w caller req)"
proof -
  have "keeps (lease_free L g) (modify (sw_remove w i))" for i using assms by (simp add: leaves_def)
  note remove = this
  show ?thesis
    unfolding spawn_agent_def on_error_def by (intro keeps_rules remove)
qed

lemma keeps_agent_finish [keeps_rules]: "keeps (lease_free L g) (on_agent_finish env now conv is_error)"
proof (rule keeps_after)
  show "keeps (lease_free L g) (finish_agent env conv is_error)"
    unfolding finish_agent_def by (intro keeps_rules) simp
qed (force simp: on_agent_finish_def split: prod.splits if_splits)

lemma keeps_finished [keeps_rules]: "keeps (at_coord P) m \<Longrightarrow> keeps (at_coord P) (finished m)"
  unfolding finished_def by (intro keeps_rules)

lemma keeps_waiting [keeps_rules]: "keeps (at_coord P) m \<Longrightarrow> keeps (at_coord P) (waiting m)"
  unfolding waiting_def by (intro keeps_rules)

lemma keeps_perform: "call_lease_free env call \<Longrightarrow> keeps (lease_free L g) (perform env call)"
  by (cases call)
    (simp_all only: perform.simps keeps_rules keeps_remove keeps_spawn call_lease_free.simps,
      blast intro: keeps_finished keeps_drain, intro keeps_waiting keeps_attach, simp)

lemma keeps_serve: "\<forall>call \<in> set calls. call_lease_free env call \<Longrightarrow> keeps (lease_free L g) (serve env calls)"
  unfolding serve_def by (intro keeps_rules keeps_perform) blast

lemma meanwhile_served_free:
  assumes "\<forall>call \<in> set calls. call_lease_free env call" and "lease_free L g se"
  shows "lease_free L g (meanwhile_served env calls se)"
  using leavesD [OF keeps_serve [OF assms(1)] assms(2)] assms(2)
  by (auto simp: meanwhile_served_def split: option.split)

end
