(* ===== verification/Session_Claims.thy ===== *)
theory Session_Claims
  imports Session_Leases Mailbox_Claims Scheduler_Claims Message_Projection_Claims Member_Runtime_Claims
begin

text \<open>
  What the session guarantees as a whole: it never panics, it leaves no lease open, it
  concludes every batch it hands to a turn, and a turn gets exactly the messages its batch
  claimed.
\<close>

subsection \<open>A session for the witnesses\<close>

definition demo_team_env :: "(json_tree, memory_state) team_env" where
  "demo_team_env = \<lparr>te_json = tree_json, te_messages = memory_messages, te_tasks = memory_tasks tree_json,
     te_unicode = \<lparr>uc_trim = (\<lambda>s. s), uc_drop_control = (\<lambda>s. s), uc_to_lowercase = (\<lambda>s. s)\<rparr>,
     te_ids = (\<lambda>n. replicate n (CHR ''i'')), te_clock = int\<rparr>"

definition demo_session_env :: "(json_tree, memory_state, nat, attach_signal list, conv_state) session_env" where
  "demo_session_env = \<lparr>en_team = demo_team_env, en_values = tree_ops, en_watch = list_watch,
     en_projection = adapter_store, en_user_id = ''u'', en_team_name = ''team'',
     en_ids = (\<lambda>n. CHR ''a'' # replicate n (CHR ''n'')),
     en_id_streams = (\<lambda>n k. CHR ''b'' # replicate n (CHR ''n'') @ CHR ''k'' # replicate k (CHR ''n'')),
     en_now = (\<lambda>n. int n), en_clocks = (\<lambda>n k. int (n + k)), en_run_ids = (\<lambda>n. CHR ''r'' # replicate n (CHR ''n'')),
     en_transport = (\<lambda>_. Inr TransportMcp), en_cancel = (\<lambda>_. None), en_record_group = (\<lambda>_. None),
     en_others = (\<lambda>_ se. se)\<rparr>"

lemma replicate_key: "replicate n c @ d # xs = replicate m c @ d # ys \<Longrightarrow> c \<noteq> d \<Longrightarrow> n = m \<and> xs = ys"
proof (induction n arbitrary: m)
  case 0
  then show ?case by (cases m) auto
next
  case (Suc n)
  then show ?case by (cases m) auto
qed

lemma demo_ids_fresh: "ids_fresh demo_session_env"
  by (auto simp: ids_fresh_def demo_session_env_def dest: replicate_key)

lemma demo_others: "others_safe demo_session_env" "others_lease_free demo_session_env"
  by (simp_all add: others_safe_def others_lease_free_def demo_session_env_def)

definition demo_start :: "(json_tree, memory_state, nat, attach_signal list, conv_state) session" where
  "demo_start = session_start ''t1'' ''g1'' [demo_agent ''s1'' Lead, demo_agent ''s2'' Teammate] memory_new []
     \<lparr>pj_store = conv_new, pj_events = []\<rparr>"

text \<open>A turn that is announced, during which a teammate is written to, and that succeeds.\<close>

definition demo_busy_port :: "(json_tree, memory_state, nat, attach_signal list, conv_state) session turn_port" where
  "demo_busy_port q =
     ([TurnAnnounced \<lparr>ts_team_run_id = tq_team_run_id q, ts_slot_id = tq_slot_id q, ts_role = tq_role q,
         ts_conversation_id = tq_conversation_id q, ts_turn_id = ''turn''\<rparr>,
       Meanwhile (meanwhile_served demo_session_env [CallAgentMessage ''s1'' ''s2'' ''work'' None])],
      Inr \<lparr>to_conversation_id = tq_conversation_id q, to_turn_id = ''turn'', to_status = TurnCompleted,
        to_response_text = None\<rparr>)"

lemma demo_busy_port_ok: "port_safe demo_session_env demo_busy_port" "port_lease_free demo_busy_port"
  by (auto simp: port_safe_def port_lease_free_def demo_busy_port_def
      intro!: meanwhile_served_ok meanwhile_served_free)

definition demo_calls :: "(json_tree, memory_state, nat, attach_signal list, conv_state) session_call list" where
  "demo_calls = [CallRegisterLoop ''s1'', CallAttach \<lparr>at_result = None, at_meanwhile = (\<lambda>se. se), at_published = (\<lambda>_. True),
       at_replaced = False, at_members = None\<rparr> (demo_agent ''s2'' Teammate) AttachAlreadyReady,
     CallSend ''hello'' None, CallDrain ''s1'' [demo_busy_port, demo_busy_port], CallStop]"

lemma demo_calls_ok:
  "\<forall>call \<in> set demo_calls. call_safe demo_session_env call" "\<forall>call \<in> set demo_calls. call_lease_free demo_session_env call"
  using demo_busy_port_ok demo_others by (auto simp: demo_calls_def world_safe_def)

subsection \<open>Any sequence of calls\<close>

lemma serve_returns:
  assumes "ids_fresh env" and "\<forall>call \<in> set calls. call_safe env call"
  obtains se where
    "serve env calls (session_start team_id generation agents store channels projection) = Some (Inr (), se)"
    "session_ok env {} {} se"
proof -
  obtain r se where run: "serve env calls (session_start team_id generation agents store channels projection) = Some (r, se)"
    and ok: "session_ok env {} {} se"
    using ensuresD [OF safe_serve [OF _ assms(2)] session_start_ok [OF assms(1)]] by blast
  have "infallible (serve env calls)" unfolding serve_def by (intro infallible_rules)
  with run have "r = Inr ()" by (cases r) (auto simp: infallible_def)
  with run ok that show thesis by blast
qed

text \<open>Who still waits has no answer.\<close>

definition answers ::
  "('j, 's, 'c, 'w, 'p) session_env \<Rightarrow> 'c attach_waiter \<Rightarrow> (attach_outcome option, ('j, 's, 'c, 'w, 'p) session) act \<Rightarrow> bool" where
  "answers env aw m \<longleftrightarrow>
     leaves (\<lambda>_. True) m (\<lambda>r se. r = Inr None \<longrightarrow> wait_poll (en_watch env) (se_runtimes se) aw = None)"

lemma answersD: "answers env aw m \<Longrightarrow> m se = Some (Inr None, se') \<Longrightarrow> wait_poll (en_watch env) (se_runtimes se') aw = None"
  by (simp add: answers_def leaves_def)

lemma answers_await: "answers env aw (await_outcome env aw)"
  unfolding answers_def await_outcome_def by (rule leavesI) (auto simp: and_then_Some)

lemma answers_result: "answers env aw (return_ok (Some x))"
  unfolding answers_def by (rule leavesI) simp

lemma answers_then: "(\<And>x. answers env aw (f x)) \<Longrightarrow> answers env aw (and_then m f)"
  unfolding answers_def by (rule leavesI) (fastforce simp: and_then_Some dest: leavesD)

lemma answers_if: "answers env aw m \<Longrightarrow> answers env aw m' \<Longrightarrow> answers env aw (if b then m else m')"
  by simp

lemma answers_conclude: "answers env (al_waiter lease) (conclude_attach_attempt env w agent lease)"
proof -
  note parts = answers_then answers_await answers_result answers_if
  have failed: "answers env (al_waiter lease) (attach_failed env w agent lease e)" for e
    unfolding attach_failed_def Let_def by (intro parts)
  have "answers env (al_waiter lease) (registration_failed env w agent lease)"
    unfolding registration_failed_def by (intro parts)
  moreover have "answers env (al_waiter lease) (commit_attach env w agent lease registered)" for registered
    unfolding commit_attach_def by (intro parts)
  ultimately have "answers env (al_waiter lease) (case registration of
      Inl e \<Rightarrow> registration_failed env w agent lease | Inr registered \<Rightarrow> commit_attach env w agent lease registered)"
    for registration :: "loop_registration_error + bool"
    by (cases registration) simp_all
  then have "answers env (al_waiter lease) (attach_started env w agent lease)"
    unfolding attach_started_def by (intro parts)
  with failed show ?thesis unfolding conclude_attach_attempt_def by (cases "at_result w") simp_all
qed

lemma answers_attach: "answers env (al_waiter lease) (attach_member_runtime env w agent lease)"
  unfolding attach_member_runtime_def by (intro answers_then answers_conclude)

lemma attach_waits:
  assumes "attach_agent_process_bg env w agent reservation se = Some (Inr (Some aw), se')"
  shows "wait_poll (en_watch env) (se_runtimes se') aw = None"
proof -
  from assms obtain se1 where "(case reservation of
         AttachStart lease \<Rightarrow> attach_member_runtime env w agent lease
       | AttachJoin aw \<Rightarrow> await_outcome env aw
       | AttachRemoving aw \<Rightarrow> await_outcome env aw
       | AttachAlreadyReady \<Rightarrow> return_ok (Some OutReady)
       | AttachSessionStopped \<Rightarrow> return_ok (Some OutSessionStopped)) se = Some (Inr None, se1)"
    and "se' = se1" and "awaited reservation = Some aw"
    by (auto simp: attach_agent_process_bg_def and_then_Some when_so_def split: if_splits)
  then show ?thesis
    by (cases reservation) (auto simp: awaited_def dest: answersD [OF answers_attach] answersD [OF answers_await])
qed

lemma removal_waits:
  assumes "session_remove_agent env slot_id se = Some (Inr (Some aw), se')"
  shows "wait_poll (en_watch env) (se_runtimes se') aw = None"
proof -
  from assms obtain removal se1 where "(case removal of
       RemoveJoin aw \<Rightarrow> and_then (await_outcome env aw) (\<lambda>outcome. return_ok (if outcome = None then Some aw else None))
     | _ \<Rightarrow> and_then (remove_member env slot_id removal) (\<lambda>_. return_ok None)) se1 = Some (Inr (Some aw), se')"
    by (auto simp: session_remove_agent_def and_then_Some)
  then show ?thesis
    by (cases removal) (auto simp: and_then_Some split: if_splits dest: answersD [OF answers_await])
qed

lemma waiting_Some:
  assumes "waiting m se = Some (r, se')"
  shows "\<exists>aw. r = Inr aw \<and> (\<forall>x. aw = Some x \<longrightarrow> m se = Some (Inr (Some x), se'))"
proof -
  obtain r0 where "m se = Some (r0, se')" "r = Inr (case r0 of Inl _ \<Rightarrow> None | Inr aw \<Rightarrow> aw)"
    using assms by (auto simp: waiting_def and_then_Some attempt_Some)
  then show ?thesis by (cases r0) auto
qed

lemma perform_waits:
  assumes "perform env call se = Some (r, se')"
  shows "\<exists>aw. r = Inr aw \<and> (\<forall>x. aw = Some x \<longrightarrow> wait_poll (en_watch env) (se_runtimes se') x = None)"
proof -
  show ?thesis
  proof (cases call)
    case (CallRemoveAgent slot_id)
    with assms show ?thesis
      by simp (use waiting_Some removal_waits in fastforce)
  next
    case (CallAttach w agent reservation)
    with assms show ?thesis
      by simp (use waiting_Some attach_waits in fastforce)
  qed (use assms in \<open>auto simp: finished_def and_then_Some ignoring_Some\<close>)
qed

text \<open>C2: A session never panics. Whatever methods are called on it, in whatever order and with
  whatever arguments, with others working on the session while a turn runs, a process starts or
  ends, or a batch is prepared, no call panics and the coordinator's bookkeeping is consistent
  after each. Every further call then returns too, with one exception: a call that has joined
  an attach or a removal in progress may still be waiting for it, and only as long as that one
  has sent no answer. The ids that are generated are assumed to be distinct.\<close>

theorem session_never_panics:
  assumes "ids_fresh env" and "\<forall>call \<in> set calls. call_safe env call"
  shows "\<exists>se. serve env calls (session_start team_id generation agents store channels projection) = Some (Inr (), se) \<and>
    coord_inv (se_coord se) \<and>
    (\<forall>call. call_safe env call \<longrightarrow> (\<exists>waits se'. perform env call se = Some (Inr waits, se') \<and> coord_inv (se_coord se') \<and>
       (\<forall>aw. waits = Some aw \<longrightarrow> wait_poll (en_watch env) (se_runtimes se') aw = None)))"
proof -
  obtain se where se: "serve env calls (session_start team_id generation agents store channels projection) = Some (Inr (), se)"
    "session_ok env {} {} se"
    by (rule serve_returns [OF assms])
  have "\<exists>waits se'. perform env call se = Some (Inr waits, se') \<and> coord_inv (se_coord se') \<and>
      (\<forall>aw. waits = Some aw \<longrightarrow> wait_poll (en_watch env) (se_runtimes se') aw = None)" if call: "call_safe env call" for call
  proof -
    obtain r se' where "perform env call se = Some (r, se')" "session_ok env {} {} se'"
      using ensuresD [OF safe_perform [OF subset_refl call] se(2)] by blast
    with perform_waits show ?thesis using session_okD(2) by blast
  qed
  with se session_okD(2) show ?thesis by blast
qed

theorem session_never_panics_witness:
  "\<exists>se. serve demo_session_env demo_calls demo_start = Some (Inr (), se) \<and> coord_inv (se_coord se)"
  using session_never_panics [OF demo_ids_fresh demo_calls_ok(1)] unfolding demo_start_def by blast

text \<open>C9: No method leaves an enqueue lease open: every sequence of calls returns, and whatever
  failed on the way, the coordinator then holds no lease, so none keeps a run from ending.\<close>

theorem no_lease_left_open:
  assumes "ids_fresh env" and "\<forall>call \<in> set calls. call_safe env call \<and> call_lease_free env call"
  shows "\<exists>se. serve env calls (session_start team_id generation agents store channels projection) = Some (Inr (), se) \<and>
    co_enqueue_leases (se_coord se) = []"
proof -
  obtain se where run:
    "serve env calls (session_start team_id generation agents store channels projection) = Some (Inr (), se)"
    by (rule serve_returns [OF assms(1), of calls team_id generation agents store channels projection])
      (use assms(2) in auto)
  have "lease_free {} generation (session_start team_id generation agents store channels projection)"
    by (simp add: at_coord_def leases_in_def lease_ids_def session_start_def coordinator_new_def)
  from leavesD [OF keeps_serve this run] assms(2)
  have "dom (map_of (co_enqueue_leases (se_coord se))) = {}"
    by (simp add: at_coord_def leases_in_def lease_ids_def)
  then have "co_enqueue_leases (se_coord se) = []" by (cases "co_enqueue_leases (se_coord se)") auto
  with run show ?thesis by blast
qed

theorem no_lease_left_open_witness:
  "\<exists>se. serve demo_session_env demo_calls demo_start = Some (Inr (), se) \<and> co_enqueue_leases (se_coord se) = []"
  unfolding demo_start_def
  by (rule no_lease_left_open [OF demo_ids_fresh]) (use demo_calls_ok in blast)

subsection \<open>Batches and turns\<close>

text \<open>What happened when a batch was prepared.\<close>

lemma coord_same:
  assumes "keeps (at_coord (\<lambda>c. c = se_coord se)) m" and "m se = Some (r, se')"
  shows "se_coord se' = se_coord se"
  using leavesD [OF assms(1) _ assms(2)] by (simp add: at_coord_def)

lemma prepare_claims:
  assumes "prepare_next_batch env slot_id se = Some (Inr (ExecuteBatch b input), se')"
  obtains agent mail se1 se2 se3 se4 se5 p where
    "get_agent slot_id (se_manager se) = Inr agent"
    "publish_runtime_constraint env slot_id se = Some (Inr (), se1)"
    "mailbox_peek_unread (te_json (en_team env)) (te_messages (en_team env)) (sm_team_id (se_manager se1)) slot_id
       (sm_store (se_manager se1)) = Inr mail"
    "others_run env se1 = Some (Inr (), se2)"
    "session_reconcile env slot_id (map msg_id (from_others slot_id mail)) (target_role_for (ta_role agent)) se2 =
       Some (Inr p, se3)"
    "others_run env se3 = Some (Inr (), se4)"
    "session_next env slot_id se4 = Some (Inr (Claim b), se5)"
    "prepare_claimed env slot_id agent (from_others slot_id mail) b se5 = Some (Inr (ExecuteBatch b input), se')"
proof -
  from assms obtain agent se1 mail se2 p se3 se4 d se5 where
    "get_agent slot_id (se_manager se) = Inr agent"
    and "publish_runtime_constraint env slot_id se = Some (Inr (), se1)"
    and "mailbox_peek_unread (te_json (en_team env)) (te_messages (en_team env)) (sm_team_id (se_manager se1)) slot_id
       (sm_store (se_manager se1)) = Inr mail"
    and "others_run env se1 = Some (Inr (), se2)"
    and "session_reconcile env slot_id (map msg_id (from_others slot_id mail)) (target_role_for (ta_role agent)) se2 =
       Some (Inr p, se3)"
    and "others_run env se3 = Some (Inr (), se4)"
    and next_run: "session_next env slot_id se4 = Some (Inr d, se5)"
    and rest: "(case d of Claim batch \<Rightarrow> prepare_claimed env slot_id agent (from_others slot_id mail) batch
       | SettleSignals is \<Rightarrow> return_ok (SettleIntents is) | WaitingForCompletion \<Rightarrow> return_ok PrepareWaiting
       | BlockedBy _ \<Rightarrow> return_ok PrepareBlocked | Quiescent \<Rightarrow> return_ok PrepareQuiescent) se5 =
       Some (Inr (ExecuteBatch b input), se')"
    by (auto simp: prepare_next_batch_def and_then_Some session_get_agent_def session_peek_unread_def Let_def)
  moreover from rest have "d = Claim b"
    by (cases d) (auto dest!: prepare_claimed_result)
  ultimately show thesis using that by simp
qed

lemma claimed_effect:
  assumes "prepare_claimed env slot_id agent unread b se = Some (Inr (ExecuteBatch b' input), se')"
  shows "se_coord se' = se_coord se" "sm_store (se_manager se') = sm_store (se_manager se)"
    "sm_team_id (se_manager se') = sm_team_id (se_manager se)" "b' = b"
    "wk_unread input = filter (\<lambda>m. msg_id m \<in> set (wb_mailbox_message_ids b)) unread"
    "wk_conversation_id input = ta_conversation_id agent" "wk_agent_role input = ta_role agent"
proof -
  obtain prompt where first: "first_message env slot_id agent
      (render_wake_payload agent (result_or [] (manager_list_tasks (en_team env) (se_manager se)))
        (filter (\<lambda>m. msg_id m \<in> set (wb_mailbox_message_ids b)) unread) (set (map ta_slot_id (list_agents (se_manager se))))) se =
        Some (Inr prompt, se')"
    and input: "b' = b" "input = \<lparr>wk_conversation_id = ta_conversation_id agent, wk_first_message = prompt,
             wk_unread = filter (\<lambda>m. msg_id m \<in> set (wb_mailbox_message_ids b)) unread, wk_agent_role = ta_role agent\<rparr>"
    using assms by (auto simp: prepare_claimed_def Let_def and_then_Some split: sum.splits)
  show "se_coord se' = se_coord se" "sm_store (se_manager se') = sm_store (se_manager se)"
    "sm_team_id (se_manager se') = sm_team_id (se_manager se)"
    using first by (auto simp: first_message_def take_needs_role_prompt_def session_agents_def and_then_Some
        split: option.splits if_splits prod.splits)
  show "b' = b" "wk_unread input = filter (\<lambda>m. msg_id m \<in> set (wb_mailbox_message_ids b)) unread"
    "wk_conversation_id input = ta_conversation_id agent" "wk_agent_role input = ta_role agent"
    by (simp_all add: input)
qed

lemma batch_messages:
  assumes inv: "coord_inv c" and claim: "next_work port batch_id sid c r = (Claim b, c', r')"
  shows "wb_slot_id b = sid" "wb_mailbox_message_ids b \<noteq> []"
    and "m \<in> set (wb_mailbox_message_ids b) \<Longrightarrow> \<exists>i w. map_of (co_intents c) i = Some w \<and> wi_slot_id w = sid \<and>
        wi_state w = IQueued \<and> wi_mailbox_message_id w = Some m"
proof -
  from claim obtain slot p where slot: "map_of (co_slots c) sid = Some slot"
    and some: "filter (has_message c) (queue p slot) \<noteq> []"
    and b: "wb_slot_id b = sid" "wb_mailbox_message_ids b = batch_message_ids c (filter (has_message c) (queue p slot))"
    by (cases rule: next_work_cases) auto
  show "wb_slot_id b = sid" by (rule b(1))
  show "wb_mailbox_message_ids b \<noteq> []"
    using some by (auto simp: b(2) batch_message_ids_def map_filter_Nil_iff has_message_def filter_empty_conv
        split: option.splits)
  assume "m \<in> set (wb_mailbox_message_ids b)"
  then obtain i w where i: "i \<in> set (queue p slot)" and w: "map_of (co_intents c) i = Some w" "wi_mailbox_message_id w = Some m"
    by (auto simp: b(2) batch_message_ids_def set_map_filter bind_eq_Some_conv)
  have "slot_view (co_intents c) sid i = Some w \<and> wi_state w = IQueued"
    using slot_ok_queue [OF slot_ok_of [OF inv slot], of i p] i w by (auto simp: slot_view_iff)
  with w show "\<exists>i w. map_of (co_intents c) i = Some w \<and> wi_slot_id w = sid \<and> wi_state w = IQueued \<and>
      wi_mailbox_message_id w = Some m" by (auto simp: slot_view_iff)
qed

lemma reconciled_queue:
  assumes ok: "session_ok env T S se" and run: "session_reconcile env slot_id ids role se = Some (Inr p, se')"
  shows "session_ok env T S se'" "se_manager se' = se_manager se"
    and "map_of (co_intents (se_coord se')) i = Some w \<Longrightarrow> wi_slot_id w = slot_id \<Longrightarrow> wi_state w = IQueued \<Longrightarrow>
      wi_mailbox_message_id w = Some m \<Longrightarrow> m \<in> set ids"
proof -
  show "session_ok env T S se'" by (rule ensures_run [OF safe_reconcile ok run])
  let ?ids = "en_id_streams env (se_draws se)"
  obtain x c' where f: "reconcile_mailbox ?ids (en_clocks env (se_draws se)) slot_id ids role (se_coord se) = (x, c')"
    by (metis surj_pair)
  with run have se': "se_coord se' = c'" "se_manager se' = se_manager se"
    by (auto simp: session_reconcile_def and_then_def draw_def on_coord_def)
  show "se_manager se' = se_manager se" by (rule se'(2))
  have "?ids n \<notin> intent_ids (se_coord se)" for n
    using fresh_stream [OF session_okD(1) [OF ok]] session_okD(3) [OF ok] by blast
  then have "map_of (co_intents (se_coord se)) (?ids n) = None" for n by (simp add: intent_ids_def domIff)
  from reconcile_mailbox_effect [OF session_okD(2) [OF ok] inj_stream [OF session_okD(1) [OF ok]] this f]
  show "map_of (co_intents (se_coord se')) i = Some w \<Longrightarrow> wi_slot_id w = slot_id \<Longrightarrow> wi_state w = IQueued \<Longrightarrow>
      wi_mailbox_message_id w = Some m \<Longrightarrow> m \<in> set ids"
    unfolding se' by blast
qed

text \<open>A message that waits in the queue of a slot.\<close>

definition queued_message :: "ident \<Rightarrow> ident \<Rightarrow> coordinator \<Rightarrow> bool" where
  "queued_message slot_id m c \<longleftrightarrow> (\<exists>i w. map_of (co_intents c) i = Some w \<and> wi_slot_id w = slot_id \<and>
     wi_state w = IQueued \<and> wi_mailbox_message_id w = Some m)"

lemma prepared_batch:
  assumes ok: "session_ok env T S se" and others: "others_safe env"
    and run: "prepare_next_batch env slot_id se = Some (Inr (ExecuteBatch b input), se')"
  shows "is_current_batch (se_coord se') b \<and> wb_slot_id b = slot_id \<and> wb_mailbox_message_ids b \<noteq> [] \<and>
    (\<exists>agent mail p se1 se2 se3 se4. get_agent slot_id (se_manager se) = Inr agent \<and>
       publish_runtime_constraint env slot_id se = Some (Inr (), se1) \<and>
       mailbox_peek_unread (te_json (en_team env)) (te_messages (en_team env)) (sm_team_id (se_manager se1)) slot_id
         (sm_store (se_manager se1)) = Inr mail \<and>
       wk_unread input = filter (\<lambda>m. msg_id m \<in> set (wb_mailbox_message_ids b)) (from_others slot_id mail) \<and>
       wk_conversation_id input = ta_conversation_id agent \<and> wk_agent_role input = ta_role agent \<and>
       others_run env se1 = Some (Inr (), se2) \<and>
       session_reconcile env slot_id (map msg_id (from_others slot_id mail)) (target_role_for (ta_role agent)) se2 =
         Some (Inr p, se3) \<and>
       others_run env se3 = Some (Inr (), se4) \<and>
       (\<forall>m \<in> set (wb_mailbox_message_ids b). m \<in> set (map msg_id (wk_unread input)) \<or>
          queued_message slot_id m (se_coord se4) \<and> \<not> queued_message slot_id m (se_coord se3)))"
proof -
  obtain agent mail se1 se2 se3 se4 se5 p where agent: "get_agent slot_id (se_manager se) = Inr agent"
    and publish: "publish_runtime_constraint env slot_id se = Some (Inr (), se1)"
    and mail: "mailbox_peek_unread (te_json (en_team env)) (te_messages (en_team env)) (sm_team_id (se_manager se1)) slot_id
       (sm_store (se_manager se1)) = Inr mail"
    and others1: "others_run env se1 = Some (Inr (), se2)"
    and rec_run: "session_reconcile env slot_id (map msg_id (from_others slot_id mail)) (target_role_for (ta_role agent)) se2 =
       Some (Inr p, se3)"
    and others2: "others_run env se3 = Some (Inr (), se4)"
    and claim: "session_next env slot_id se4 = Some (Inr (Claim b), se5)"
    and claimed: "prepare_claimed env slot_id agent (from_others slot_id mail) b se5 = Some (Inr (ExecuteBatch b input), se')"
    by (rule prepare_claims [OF run])
  have "safe (session_ok env T S) (publish_runtime_constraint env slot_id)" by (rule safe_helpers(3))
  note ok1 = ensures_run [OF this ok publish]
  note ok2 = ensures_run [OF safe_others [OF others] ok1 others1]
  note rec = reconciled_queue [OF ok2 rec_run]
  note ok4 = ensures_run [OF safe_others [OF others] rec(1) others2]
  obtain c5 r5 where next_run: "next_work (session_port env) (en_ids env (se_draws se4)) slot_id (se_coord se4) (se_runs se4) =
      (Claim b, c5, r5)" and se5: "se_coord se5 = c5"
    using claim by (auto simp: session_next_def and_then_def draw_def on_coord_def split: prod.splits)
  note batch = batch_messages [OF session_okD(2) [OF ok4] next_run]
  note eff = claimed_effect [OF claimed]
  have "m \<in> set (map msg_id (wk_unread input)) \<or>
      queued_message slot_id m (se_coord se4) \<and> \<not> queued_message slot_id m (se_coord se3)"
    if m: "m \<in> set (wb_mailbox_message_ids b)" for m
  proof (cases "queued_message slot_id m (se_coord se3)")
    case True
    then have "m \<in> set (map msg_id (from_others slot_id mail))"
      unfolding queued_message_def using rec(3) by blast
    with m show ?thesis unfolding eff(5) by auto
  next
    case False
    with batch(3) [OF m] show ?thesis by (simp add: queued_message_def)
  qed
  moreover have "is_current_batch (se_coord se') b"
    using actives_current claim_active [OF next_run] next_work_inv [OF session_okD(2) [OF ok4] next_run]
    by (simp add: eff(1) se5)
  ultimately show ?thesis
    using agent publish mail others1 rec_run others2 eff(5-7) batch(1,2) by blast
qed

text \<open>Whether a batch would be handed out, without composing the prompt.\<close>

definition claimable :: "('j, 's, 'c, 'w, 'p) session_env \<Rightarrow> ident \<Rightarrow> (reconcile_decision, ('j, 's, 'c, 'w, 'p) session) act" where
  "claimable env slot_id =
     and_then (session_get_agent slot_id) (\<lambda>agent.
     and_then (publish_runtime_constraint env slot_id) (\<lambda>_.
     and_then (session_peek_unread env slot_id) (\<lambda>mail.
     and_then (others_run env) (\<lambda>_.
     and_then (session_reconcile env slot_id (map msg_id (from_others slot_id mail)) (target_role_for (ta_role agent))) (\<lambda>_.
     and_then (others_run env) (\<lambda>_.
     and_then (session_next env slot_id) (\<lambda>decision.
     and_then (gets se_manager) (\<lambda>m.
     and_then (from_result (manager_list_tasks (en_team env) m)) (\<lambda>_.
     and_then (from_result (en_transport env agent)) (\<lambda>_.
     return_ok decision))))))))))"

lemma claimable_prepares:
  assumes "claimable env slot_id se = Some (Inr (Claim b), se0)"
  shows "\<exists>input se'. prepare_next_batch env slot_id se = Some (Inr (ExecuteBatch b input), se')"
proof -
  obtain agent se1 mail se2 p se3 se4 se5 tasks t where chain: "get_agent slot_id (se_manager se) = Inr agent"
    "publish_runtime_constraint env slot_id se = Some (Inr (), se1)"
    "mailbox_peek_unread (te_json (en_team env)) (te_messages (en_team env)) (sm_team_id (se_manager se1)) slot_id
       (sm_store (se_manager se1)) = Inr mail"
    "others_run env se1 = Some (Inr (), se2)"
    "session_reconcile env slot_id (map msg_id (from_others slot_id mail)) (target_role_for (ta_role agent)) se2 =
       Some (Inr p, se3)"
    "others_run env se3 = Some (Inr (), se4)"
    "session_next env slot_id se4 = Some (Inr (Claim b), se5)"
    and tasks: "manager_list_tasks (en_team env) (se_manager se5) = Inr tasks" "en_transport env agent = Inr t"
    using assms by (auto simp: claimable_def and_then_Some session_get_agent_def session_peek_unread_def)
  have "\<exists>prompt se'. first_message env slot_id agent body se5 = Some (Inr prompt, se')" for body
    using tasks(2) by (simp add: first_message_def and_then_def session_agents_def split: prod.split)
  then have "\<exists>input se'. prepare_claimed env slot_id agent (from_others slot_id mail) b se5 = Some (Inr (ExecuteBatch b input), se')"
    by (force simp: prepare_claimed_def Let_def and_then_Some tasks(1))
  with chain show ?thesis
    by (auto simp: prepare_next_batch_def and_then_def session_get_agent_def session_peek_unread_def Let_def)
qed

definition demo_mail :: memory_state where
  "demo_mail = memory_new\<lparr>ms_messages :=
     [\<lparr>mm_id = ''m1'', mm_team_id = ''t1'', mm_to_agent_id = ''s1'', mm_from_agent_id = ''user'', mm_msg_type = ''message'',
       mm_content = ''hi'', mm_summary = None, mm_files = None, mm_read = False, mm_created_at = 1\<rparr>]\<rparr>"

definition demo_mailed :: "(json_tree, memory_state, nat, attach_signal list, conv_state) session" where
  "demo_mailed = session_start ''t1'' ''g1'' [demo_agent ''s1'' Lead] demo_mail [] \<lparr>pj_store = conv_new, pj_events = []\<rparr>"

definition demo_looped :: "(json_tree, memory_state, nat, attach_signal list, conv_state) session" where
  "demo_looped = demo_mailed\<lparr>se_loops := \<lparr>el_notifiers = [(''s1'', False)], el_handles = {''s1''}, el_stopped = False\<rparr>\<rparr>"

lemma demo_loop: "serve demo_session_env [CallRegisterLoop ''s1''] demo_mailed = Some (Inr (), demo_looped)"
  by (simp add: serve_def ignoring_def attempt_def and_then_def register_event_loop_def loops_has_def loops_spawn_def
      demo_mailed_def demo_looped_def session_start_def loops_new_def finished_def)

definition demo_constrained :: coordinator where
  "demo_constrained = (coordinator_new ''t1'' ''g1'')\<lparr>co_slots :=
     [(''s1'', (slot_state_new RoleTeammate)\<lparr>ss_runtime_constraint := Ready\<rparr>)]\<rparr>"

lemma demo_has_loop: "constraint_of_snapshot (loops_has ''s1'' (se_loops demo_looped)) (member_snapshot_of ''s1'' (se_runtimes demo_looped)) = Ready"
proof -
  have "loops_has ''s1'' (se_loops demo_looped)" by (auto simp: loops_has_def demo_looped_def)
  then show ?thesis by (simp add: member_snapshot_of_def demo_looped_def demo_mailed_def session_start_def registry_new_def)
qed

lemma demo_publish: "publish_runtime_constraint demo_session_env ''s1'' demo_looped =
    Some (Inr (), demo_looped\<lparr>se_coord := demo_constrained\<rparr>)"
  by (simp add: publish_runtime_constraint_def and_then_def demo_has_loop, simp add: session_constrain_def expect_coord_def
      and_then_def demo_looped_def demo_mailed_def session_start_def mark_terminal_read_def when_so_def
      set_runtime_constraint_def Let_def ends_work_def slot_snapshot_locked_def put_slot_def slot_entry_def
      slot_state_new_def coordinator_new_def demo_constrained_def publish_run_summaries_def bt_set_def)

lemma demo_peek: "mailbox_peek_unread tree_json memory_messages ''t1'' ''s1'' demo_mail =
   Inr [\<lparr>msg_id = ''m1'', msg_team_id = ''t1'', msg_to_agent_id = ''s1'', msg_from_agent_id = ''user'', msg_type = MtMessage,
     msg_content = ''hi'', msg_summary = None, msg_files = None, msg_read = False, msg_created_at = 1\<rparr>]"
  by (simp add: mailbox_peek_unread_def memory_ops demo_mail_def memory_new_def List.map_filter_simps message_from_row_def
      message_type_parse_def addressed_to_def)

definition demo_recovered :: coordinator where
  "demo_recovered = (coordinator_new ''t1'' ''g1'')\<lparr>co_slots :=
     [(''s1'', (slot_state_new RoleLead)\<lparr>ss_runtime_constraint := Ready, ss_known_unread := {''m1''}, ss_background := [''bnk'']\<rparr>)],
     co_intents := [(''bnk'', \<lparr>wi_intent_id = ''bnk'', wi_session_generation = ''g1'', wi_slot_id = ''s1'', wi_role = RoleLead,
       wi_source = RecoveryDrain, wi_priority = Background, wi_mailbox_message_id = Some ''m1'', wi_team_run_id = None,
       wi_created_at_ms = 1, wi_state = IQueued\<rparr>)]\<rparr>"

lemma demo_waits: "others_run demo_session_env se = Some (Inr (), se\<lparr>se_draws := Suc (se_draws se)\<rparr>)"
  by (simp add: others_run_def and_then_def draw_def demo_session_env_def)

lemma demo_reconcile: "\<exists>p. session_reconcile demo_session_env ''s1'' [''m1''] RoleLead
      (demo_looped\<lparr>se_coord := demo_constrained, se_draws := Suc 0\<rparr>) =
    Some (Inr p, demo_looped\<lparr>se_coord := demo_recovered, se_draws := Suc (Suc 0)\<rparr>)"
proof -
  have "\<exists>p. reconcile_mailbox (en_id_streams demo_session_env (Suc 0)) (en_clocks demo_session_env (Suc 0)) ''s1'' [''m1'']
      RoleLead demo_constrained = (p, demo_recovered)"
    by (simp add: demo_session_env_def reconcile_mailbox_def demo_constrained_def demo_recovered_def coordinator_new_def
        slot_entry_def slot_state_new_def put_slot_def recover_message_def already_owned_def Let_def modify_slot_def push_back_def queued_ids_def)
  then obtain p where "reconcile_mailbox (en_id_streams demo_session_env (Suc 0)) (en_clocks demo_session_env (Suc 0)) ''s1'' [''m1'']
      RoleLead demo_constrained = (p, demo_recovered)" by blast
  then show ?thesis
    by (simp add: session_reconcile_def and_then_def draw_def on_coord_def demo_looped_def demo_mailed_def session_start_def)
qed

lemma demo_next: "\<exists>b se0. session_next demo_session_env ''s1'' (demo_looped\<lparr>se_coord := demo_recovered, se_draws := n\<rparr>) =
    Some (Inr (Claim b), se0) \<and> se_manager se0 = se_manager demo_looped"
  by (simp add: session_next_def and_then_def draw_def on_coord_def next_work_def Let_def has_message_def
      demo_recovered_def coordinator_new_def slot_state_new_def split: prod.split)

lemma demo_claimable: "\<exists>b se0. claimable demo_session_env ''s1'' demo_looped = Some (Inr (Claim b), se0)"
proof -
  have agent: "get_agent ''s1'' (se_manager demo_looped) = Inr ((demo_agent ''s1'' Lead)\<lparr>ta_status := Some StIdle\<rparr>)"
    by (simp add: demo_looped_def demo_mailed_def session_start_def get_agent_def team_manager_new_def Let_def demo_agent_def)
  have team: "sm_team_id (se_manager demo_looped) = ''t1''" "sm_store (se_manager demo_looped) = demo_mail"
    by (simp_all add: demo_looped_def demo_mailed_def session_start_def team_manager_new_def)
  have env: "te_json (en_team demo_session_env) = tree_json" "te_messages (en_team demo_session_env) = memory_messages"
    by (simp_all add: demo_session_env_def demo_team_env_def)
  have tasks: "\<exists>ts. manager_list_tasks (en_team demo_session_env) (se_manager demo_looped) = Inr ts"
    by (simp add: manager_list_tasks_def demo_session_env_def demo_team_env_def team list_tasks_def memory_tasks_def mem_list_tasks_def demo_mail_def memory_new_def)
  have draws: "se_draws demo_looped = 0" by (simp add: demo_looped_def demo_mailed_def session_start_def)
  obtain p where rec: "session_reconcile demo_session_env ''s1'' [''m1''] RoleLead
      (demo_looped\<lparr>se_coord := demo_constrained, se_draws := Suc 0\<rparr>) =
    Some (Inr p, demo_looped\<lparr>se_coord := demo_recovered, se_draws := Suc (Suc 0)\<rparr>)" using demo_reconcile by blast
  obtain b se0 where claim: "session_next demo_session_env ''s1''
      (demo_looped\<lparr>se_coord := demo_recovered, se_draws := Suc (Suc (Suc 0))\<rparr>) =
    Some (Inr (Claim b), se0)" "se_manager se0 = se_manager demo_looped" using demo_next by blast
  have "en_transport demo_session_env a = Inr TransportMcp" for a by (simp add: demo_session_env_def)
  with tasks show ?thesis
    by (auto simp: claimable_def and_then_def session_get_agent_def session_peek_unread_def agent demo_publish team env
        demo_peek from_others_def demo_agent_def demo_waits draws rec claim)
qed

lemma demo_looped_ok: "\<forall>call \<in> set [CallRegisterLoop ''s1'']. call_safe demo_session_env call" by simp

lemma demo_prepared: "\<exists>b input se. prepare_next_batch demo_session_env ''s1'' demo_looped = Some (Inr (ExecuteBatch b input), se)"
  using demo_claimable claimable_prepares by blast

text \<open>C8: An agent is woken with the messages its batch claimed. When a batch is prepared for a slot
  of a session, whatever happened before and whatever others do in between, the batch claims at
  least one message and is the current one of that slot; the input of the turn names the agent's
  conversation and role; and its messages are those of the mail from others that was unread when
  the preparation looked, in mailbox order, whose ids the batch claimed. A claimed message can be
  missing from the turn in one way only: another task queued it for the slot between the
  reconciliation with the mailbox and the claim. If none did, the turn gets every claimed
  message, and at least one.\<close>

theorem turn_gets_claimed_mail:
  assumes "ids_fresh env" and "\<forall>call \<in> set calls. call_safe env call" and "others_safe env"
    and "serve env calls (session_start team_id generation agents store channels projection) = Some (r, se)"
    and "prepare_next_batch env slot_id se = Some (Inr (ExecuteBatch b input), se')"
  shows "is_current_batch (se_coord se') b \<and> wb_slot_id b = slot_id \<and> wb_mailbox_message_ids b \<noteq> [] \<and>
    (\<exists>agent mail p se1 se2 se3 se4. get_agent slot_id (se_manager se) = Inr agent \<and>
       publish_runtime_constraint env slot_id se = Some (Inr (), se1) \<and>
       mailbox_peek_unread (te_json (en_team env)) (te_messages (en_team env)) (sm_team_id (se_manager se1)) slot_id
         (sm_store (se_manager se1)) = Inr mail \<and>
       wk_unread input = filter (\<lambda>m. msg_id m \<in> set (wb_mailbox_message_ids b)) (from_others slot_id mail) \<and>
       wk_conversation_id input = ta_conversation_id agent \<and> wk_agent_role input = ta_role agent \<and>
       others_run env se1 = Some (Inr (), se2) \<and>
       session_reconcile env slot_id (map msg_id (from_others slot_id mail)) (target_role_for (ta_role agent)) se2 =
         Some (Inr p, se3) \<and>
       others_run env se3 = Some (Inr (), se4) \<and>
       (\<forall>m \<in> set (wb_mailbox_message_ids b). m \<in> set (map msg_id (wk_unread input)) \<or>
          queued_message slot_id m (se_coord se4) \<and> \<not> queued_message slot_id m (se_coord se3)) \<and>
       ((\<forall>m. queued_message slot_id m (se_coord se4) \<longrightarrow> queued_message slot_id m (se_coord se3)) \<longrightarrow>
          wk_unread input \<noteq> [] \<and> set (map msg_id (wk_unread input)) = set (wb_mailbox_message_ids b)))"
proof -
  have "session_ok env {} {} se"
    by (rule ensures_run [OF safe_serve [OF _ assms(2)] session_start_ok [OF assms(1)] assms(4)]) simp
  note prepared = prepared_batch [OF this assms(3,5)]
  then obtain agent mail p se1 se2 se3 se4 where batch: "is_current_batch (se_coord se') b" "wb_slot_id b = slot_id"
      "wb_mailbox_message_ids b \<noteq> []"
    and run: "get_agent slot_id (se_manager se) = Inr agent" "publish_runtime_constraint env slot_id se = Some (Inr (), se1)"
      "mailbox_peek_unread (te_json (en_team env)) (te_messages (en_team env)) (sm_team_id (se_manager se1)) slot_id
         (sm_store (se_manager se1)) = Inr mail"
      "wk_unread input = filter (\<lambda>m. msg_id m \<in> set (wb_mailbox_message_ids b)) (from_others slot_id mail)"
      "wk_conversation_id input = ta_conversation_id agent" "wk_agent_role input = ta_role agent"
      "others_run env se1 = Some (Inr (), se2)"
      "session_reconcile env slot_id (map msg_id (from_others slot_id mail)) (target_role_for (ta_role agent)) se2 =
         Some (Inr p, se3)" "others_run env se3 = Some (Inr (), se4)"
    and all: "\<forall>m \<in> set (wb_mailbox_message_ids b). m \<in> set (map msg_id (wk_unread input)) \<or>
          queued_message slot_id m (se_coord se4) \<and> \<not> queued_message slot_id m (se_coord se3)"
    by blast
  have complete: "wk_unread input \<noteq> [] \<and> set (map msg_id (wk_unread input)) = set (wb_mailbox_message_ids b)"
    if "\<forall>m. queued_message slot_id m (se_coord se4) \<longrightarrow> queued_message slot_id m (se_coord se3)"
  proof -
    have "set (wb_mailbox_message_ids b) \<subseteq> set (map msg_id (wk_unread input))" using all that by blast
    moreover have "set (map msg_id (wk_unread input)) \<subseteq> set (wb_mailbox_message_ids b)" by (auto simp: run(4))
    ultimately show ?thesis using batch(3) by (metis equals0D list.map_disc_iff set_empty subset_antisym)
  qed
  show ?thesis
    by (intro conjI exI [of _ agent] exI [of _ mail] exI [of _ p] exI [of _ se1] exI [of _ se2] exI [of _ se3]
        exI [of _ se4] batch run all impI complete)
qed

lemma demo_undisturbed: "others_run demo_session_env se = Some (Inr (), se') \<Longrightarrow> se_coord se' = se_coord se"
  by (auto simp: demo_waits)

theorem turn_gets_claimed_mail_witness:
  "\<exists>b input se. prepare_next_batch demo_session_env ''s1'' demo_looped = Some (Inr (ExecuteBatch b input), se) \<and>
     is_current_batch (se_coord se) b \<and> wk_unread input \<noteq> [] \<and>
     set (map msg_id (wk_unread input)) = set (wb_mailbox_message_ids b)"
proof -
  obtain b input se where run: "prepare_next_batch demo_session_env ''s1'' demo_looped = Some (Inr (ExecuteBatch b input), se)"
    using demo_prepared by blast
  from turn_gets_claimed_mail [OF demo_ids_fresh demo_looped_ok demo_others(1) demo_loop [unfolded demo_mailed_def] run]
  have "is_current_batch (se_coord se) b \<and> wk_unread input \<noteq> [] \<and>
     set (map msg_id (wk_unread input)) = set (wb_mailbox_message_ids b)"
    using demo_undisturbed by metis
  with run show ?thesis by blast
qed

text \<open>C7: Every turn concludes its batch. Whatever the agent's runtime does with the turn of a batch
  that was prepared (it never starts, starts late, fails, is refused because another turn is
  running, succeeds) and whatever others do to the session while it runs, executing the batch
  returns without an error and the batch is then no longer the current one of its slot, so the
  slot is free for its next batch.\<close>

theorem every_turn_concludes_its_batch:
  assumes "ids_fresh env" and "\<forall>call \<in> set calls. call_safe env call"
    and "serve env calls (session_start team_id generation agents store channels projection) = Some (r, se)"
    and "prepare_next_batch env slot_id se = Some (Inr (ExecuteBatch b input), se1)" and "port_safe env port"
    and "others_safe env"
  shows "is_current_batch (se_coord se1) b \<and>
    (\<exists>res se2. execute_and_finalize env port slot_id b input se1 = Some (Inr res, se2) \<and>
       \<not> is_current_batch (se_coord se2) b)"
proof -
  have ok: "session_ok env {} {} se"
    by (rule ensures_run [OF safe_serve [OF _ assms(2)] session_start_ok [OF assms(1)] assms(3)]) simp
  have "session_ok env {b} {} se1"
    using ensures_run [OF ensures_prepare [OF subset_refl assms(6)] ok assms(4)] by (simp add: prepared_ok_def with_prepared_def)
  then obtain x se2 where run: "execute_and_finalize env port slot_id b input se1 = Some (x, se2)"
    and ok2: "session_ok env {b} {b} se2"
    using ensuresD [OF ensures_execute [OF singletonI assms(5)]] by blast
  obtain res where "x = Inr res"
    using run infallible_execute [of env port slot_id b input] by (cases x) (auto simp: infallible_def)
  with run prepared_batch [OF ok assms(6,4)] session_okD(5) [OF ok2] show ?thesis by blast
qed

theorem every_turn_concludes_its_batch_witness:
  "\<exists>b input se1 res se2. is_current_batch (se_coord se1) b \<and>
     execute_and_finalize demo_session_env demo_busy_port ''s1'' b input se1 = Some (Inr res, se2) \<and>
     \<not> is_current_batch (se_coord se2) b"
proof -
  obtain b input se where run: "prepare_next_batch demo_session_env ''s1'' demo_looped = Some (Inr (ExecuteBatch b input), se)"
    using demo_prepared by blast
  from every_turn_concludes_its_batch [OF demo_ids_fresh demo_looped_ok demo_loop [unfolded demo_mailed_def] run
      demo_busy_port_ok(1) demo_others(1)]
  show ?thesis by blast
qed

end
