(* ===== verification/Session_Attach.thy ===== *)
theory Session_Attach
  imports Session_Claims
begin

text \<open>
  How the start of a member's process ends (session.rs, \<open>attach_member_runtime\<close>): whoever
  holds the lease of an attach concludes it, once, with the result of the start, and is given
  the answer that everybody who waits for the attach is given. Others may change the registry
  by its operations whenever the method awaits something (\<open>others_registry\<close>).
\<close>

definition at_runtimes :: "(('c, 'w) registry \<Rightarrow> bool) \<Rightarrow> ('j, 's, 'c, 'w, 'p) session \<Rightarrow> bool" where
  "at_runtimes P se = P (se_runtimes se)"

lemma keeps_apart:
  assumes "\<And>se r se'. m se = Some (r, se') \<Longrightarrow> se_runtimes se' = se_runtimes se"
  shows "keeps (at_runtimes P) m"
  by (rule leavesI) (use assms in \<open>fastforce simp: at_runtimes_def\<close>)

lemma apart_calls [keeps_rules]:
  "keeps (at_runtimes P) draw" "keeps (at_runtimes P) (on_manager f)" "keeps (at_runtimes P) (expect_some z)"
  "keeps (at_runtimes P) (session_get_agent slot_id)" "keeps (at_runtimes P) session_lead"
  "keeps (at_runtimes P) (session_peek_unread env slot_id)" "keeps (at_runtimes P) (notify_slot slot_id)"
  "keeps (at_runtimes P) (kill_and_wait conv)" "keeps (at_runtimes P) (on_coord g)"
  "keeps (at_runtimes P) (try_coord h)" "keeps (at_runtimes P) (expect_coord k)"
  "keeps (at_runtimes P) (register_event_loop slot_id)"
  by (rule keeps_apart; auto simp: draw_def on_manager_def session_get_agent_def session_lead_def session_peek_unread_def
      notify_slot_def kill_and_wait_def on_coord_def try_coord_def expect_coord_def expect_some_def register_event_loop_def
      split: prod.splits option.splits sum.splits loop_registration_error.splits if_splits)+

lemma apart_modify [keeps_rules]:
  "(\<And>se. se_runtimes (f se) = se_runtimes se) \<Longrightarrow> keeps (at_runtimes P) (modify f)"
  by (rule keeps_apart) auto

lemma apart_parts [keeps_rules]:
  "keeps (at_runtimes P) (session_constrain env slot_id k)" "keeps (at_runtimes P) (session_mark_read env ids)"
  "keeps (at_runtimes P) (session_write env to_id from_id ty content summary files)"
  "keeps (at_runtimes P) (emit_status ev)" "keeps (at_runtimes P) (session_acquire env rq)"
  "keeps (at_runtimes P) (session_commit env lease msg)" "keeps (at_runtimes P) (session_abort env lease)"
  unfolding session_constrain_def session_mark_read_def session_write_def emit_status_def session_acquire_def
    session_commit_def session_abort_def
  by (intro keeps_rules; simp)+

lemma apart_helpers [keeps_rules]:
  "keeps (at_runtimes P) (mark_terminal_read env ids)" "keeps (at_runtimes P) (publish_runtime_constraint env slot_id)"
  "keeps (at_runtimes P) (commit_persisted_enqueue env lease i)"
  unfolding mark_terminal_read_def publish_runtime_constraint_def commit_persisted_enqueue_def on_error_def
  by (intro keeps_rules; simp)+

lemma apart_refresh [keeps_rules]: "keeps (at_runtimes P) (refresh_member_runtime_status w n)"
  unfolding refresh_member_runtime_status_def case_prod_beta by (intro keeps_rules)

lemma apart_notify [keeps_rules]:
  "keeps (at_runtimes P) (enqueue_existing_work env slot_id source mid binding)"
  "keeps (at_runtimes P) (wake_leader_after_recovery_message env slot_id source)"
  "keeps (at_runtimes P) (notify_leader_spawn_attach_failed env slot_id error)"
proof -
  show existing: "keeps (at_runtimes P) (enqueue_existing_work env slot_id source mid binding)" for slot_id source mid binding
    unfolding enqueue_existing_work_def on_error_def by (intro keeps_rules)
  show wake: "keeps (at_runtimes P) (wake_leader_after_recovery_message env slot_id source)" for slot_id source
    unfolding wake_leader_after_recovery_message_def by (intro keeps_rules existing)
  show "keeps (at_runtimes P) (notify_leader_spawn_attach_failed env slot_id error)"
    unfolding notify_leader_spawn_attach_failed_def by (intro keeps_rules wake)
qed

subsection \<open>The conclusion\<close>

lemma commit_ready_cases:
  "commit_ready tk lease reg = (if owns_attach lease reg
     then (True, snd (commit_ready tk lease reg)) else (False, reg))"
  "owns_attach lease reg \<Longrightarrow> member_snapshot_of (al_agent_id lease) (snd (commit_ready tk lease reg)) = SnapReady"
  "\<not> owns_attach lease (snd (commit_ready tk lease reg))"
  by (auto simp: commit_ready_def owns_attach_def member_snapshot_of_def map_simps
      split: option.splits member_entry.splits if_splits)

lemma commit_failed_cases:
  "commit_failed tk lease failure reg = (if owns_attach lease reg
     then (True, snd (commit_failed tk lease failure reg)) else (False, reg))"
  "owns_attach lease reg \<Longrightarrow> member_snapshot_of (al_agent_id lease) (snd (commit_failed tk lease failure reg)) =
     SnapFailed (aw_operation_id (al_waiter lease)) failure"
  "\<not> owns_attach lease (snd (commit_failed tk lease failure reg))"
  by (auto simp: commit_failed_def owns_attach_def member_snapshot_of_def map_simps
      split: option.splits member_entry.splits if_splits)

subsection \<open>The registry while others work\<close>

abbreviation registry_steps :: "('c, 'w) watch_ops \<Rightarrow> ('c, 'w) registry \<Rightarrow> ('c, 'w) registry \<Rightarrow> bool" where
  "registry_steps tk \<equiv> (registry_step tk)\<^sup>*\<^sup>*"

definition others_registry :: "('j, 's, 'c, 'w, 'p) session_env \<Rightarrow> bool" where
  "others_registry env \<longleftrightarrow>
     (\<forall>n se. registry_steps (en_watch env) (se_runtimes se) (se_runtimes (en_others env n se)))"

abbreviation reached_from ::
  "('j, 's, 'c, 'w, 'p) session_env \<Rightarrow> ('c, 'w) registry \<Rightarrow> ('j, 's, 'c, 'w, 'p) session \<Rightarrow> bool" where
  "reached_from env reg \<equiv> at_runtimes (registry_steps (en_watch env) reg)"

lemma reached_others:
  assumes "others_registry env"
  shows "keeps (reached_from env reg) (others_run env)"
proof (rule leavesI)
  fix se se' and r :: "team_error + unit"
  assume reached: "reached_from env reg se" and run: "others_run env se = Some (r, se')"
  have "registry_steps (en_watch env) (se_runtimes se) (se_runtimes se')"
  proof -
    let ?se = "se\<lparr>se_draws := Suc (se_draws se)\<rparr>"
    have "se' = en_others env (se_draws se) ?se" using run by (simp add: others_run_def draw_def and_then_def)
    moreover have "registry_steps (en_watch env) (se_runtimes ?se) (se_runtimes (en_others env (se_draws se) ?se))"
      using assms unfolding others_registry_def by blast
    ultimately show ?thesis by simp
  qed
  with reached show "reached_from env reg se'" unfolding at_runtimes_def by (rule rtranclp_trans)
qed

lemma reached_waits:
  assumes "others_registry env"
  shows "keeps (reached_from env reg) (cleanup_stale_member_runtime_task env w conv)"
    "keeps (reached_from env reg) (await_outcome env aw)"
    "keeps (reached_from env reg) (withdraw_attach env w agent registered)"
  unfolding withdraw_attach_def cleanup_stale_member_runtime_task_def await_outcome_def
  by (intro keeps_rules reached_others [OF assms]; simp)+

lemma infallible_waits [infallible_rules]:
  "infallible (others_run env)" "infallible (await_outcome env aw)"
  "infallible (cleanup_stale_member_runtime_task env w conv)" "infallible (withdraw_attach env w agent registered)"
  unfolding withdraw_attach_def cleanup_stale_member_runtime_task_def await_outcome_def others_run_def kill_and_wait_def
  by (intro infallible_rules)+

lemma reached_then:
  assumes "and_then m f se = Some (r, se')" and "infallible m"
    and "keeps (reached_from env (se_runtimes se)) m"
  obtains x se1 where "m se = Some (Inr x, se1)" "f x se1 = Some (r, se')"
    "registry_steps (en_watch env) (se_runtimes se) (se_runtimes se1)"
proof -
  from assms(1,2) obtain x se1 where run: "m se = Some (Inr x, se1)" "f x se1 = Some (r, se')"
    unfolding and_then_Some infallible_def by blast
  moreover have "reached_from env (se_runtimes se) se" by (simp add: at_runtimes_def)
  from leavesD [OF assms(3) this run(1)] have "registry_steps (en_watch env) (se_runtimes se) (se_runtimes se1)"
    by (simp add: at_runtimes_def)
  ultimately show thesis using that by blast
qed

lemma changed_then:
  assumes "and_then (on_runtimes g) f se = Some (r, se')" and "\<And>x reg. keeps (reached_from env reg) (f x)"
  shows "registry_steps (en_watch env) (snd (g (se_runtimes se))) (se_runtimes se')"
proof -
  let ?reg = "snd (g (se_runtimes se))"
  from assms(1) obtain x se1 where run: "f x se1 = Some (r, se')" and reg: "se_runtimes se1 = ?reg"
    by (auto simp: and_then_Some on_runtimes_def split: prod.splits)
  have "reached_from env ?reg se1" by (simp add: at_runtimes_def reg)
  from leavesD [OF assms(2) this run] show ?thesis by (simp add: at_runtimes_def)
qed

text \<open>When the outcome is committed, and what others make of the registry before and after.\<close>

lemma failed_runtimes:
  assumes "others_registry env" and "attach_failed env w agent lease e se = Some (r, se')"
  obtains se1 where "cleanup_stale_member_runtime_task env w (ta_conversation_id agent) se = Some (Inr (), se1)"
    "registry_steps (en_watch env) (se_runtimes se) (se_runtimes se1)"
    "registry_steps (en_watch env) (snd (commit_failed (en_watch env) lease (sanitize_member_runtime_failure e) (se_runtimes se1)))
       (se_runtimes se')"
proof -
  note waits = reached_waits [OF assms(1)]
  from assms(2) [unfolded attach_failed_def Let_def] infallible_waits(3) waits(1)
  obtain x :: unit and se1 where
    cleaned: "cleanup_stale_member_runtime_task env w (ta_conversation_id agent) se = Some (Inr x, se1)" and
    steps: "registry_steps (en_watch env) (se_runtimes se) (se_runtimes se1)" and
    run: "and_then (on_runtimes (commit_failed (en_watch env) lease (sanitize_member_runtime_failure e))) (\<lambda>committed.
         and_then (when_so committed
           (and_then (emit_status (EvAgentRuntimeFailed (ta_slot_id agent) (ta_conversation_id agent)
               (mf_public_reason (sanitize_member_runtime_failure e)))) (\<lambda>_.
            and_then (ignoring (on_manager (set_status (ta_slot_id agent) StError))) (\<lambda>_.
            and_then (session_constrain env (ta_slot_id agent)
                        (Failed (aw_operation_id (al_waiter lease)) (mf_classification (sanitize_member_runtime_failure e)))) (\<lambda>update.
            and_then (ignoring (mark_terminal_read env (ru_terminal_message_ids update))) (\<lambda>_.
            and_then (refresh_member_runtime_status w 1) (\<lambda>_.
            ignoring (notify_leader_spawn_attach_failed env (ta_slot_id agent)
              (mf_public_reason (sanitize_member_runtime_failure e)))))))))) (\<lambda>_.
         await_outcome env (al_waiter lease))) se1 = Some (r, se')"
    by (rule reached_then)
  from run have "registry_steps (en_watch env) (snd (commit_failed (en_watch env) lease (sanitize_member_runtime_failure e)
      (se_runtimes se1))) (se_runtimes se')"
    by (rule changed_then) (intro keeps_rules waits)
  with cleaned steps that show thesis by simp
qed

lemma unregistered_runtimes:
  assumes "others_registry env" and "registration_failed env w agent lease se = Some (r, se')"
  obtains se1 where "cleanup_stale_member_runtime_task env w (ta_conversation_id agent) se = Some (Inr (), se1)"
    "registry_steps (en_watch env) (se_runtimes se) (se_runtimes se1)"
    "registry_steps (en_watch env) (snd (commit_failed (en_watch env) lease registration_failure (se_runtimes se1))) (se_runtimes se')"
proof -
  note waits = reached_waits [OF assms(1)]
  from assms(2) [unfolded registration_failed_def] infallible_waits(3) waits(1)
  obtain x :: unit and se1 where
    cleaned: "cleanup_stale_member_runtime_task env w (ta_conversation_id agent) se = Some (Inr x, se1)" and
    steps: "registry_steps (en_watch env) (se_runtimes se) (se_runtimes se1)" and
    run: "and_then (on_runtimes (commit_failed (en_watch env) lease registration_failure)) (\<lambda>_.
     and_then (session_constrain env (ta_slot_id agent)
                 (Failed (aw_operation_id (al_waiter lease)) (mf_classification registration_failure))) (\<lambda>_.
     and_then (refresh_member_runtime_status w 1) (\<lambda>_.
     await_outcome env (al_waiter lease)))) se1 = Some (r, se')"
    by (rule reached_then)
  from run have "registry_steps (en_watch env) (snd (commit_failed (en_watch env) lease registration_failure
      (se_runtimes se1))) (se_runtimes se')"
    by (rule changed_then) (intro keeps_rules waits)
  with cleaned steps that show thesis by simp
qed

lemma committed_runtimes:
  assumes "others_registry env" and "commit_attach env w agent lease registered se = Some (r, se')"
  shows "registry_steps (en_watch env) (snd (commit_ready (en_watch env) lease (se_runtimes se))) (se_runtimes se')"
  using assms(2) unfolding commit_attach_def
  by (rule changed_then) (intro keeps_rules reached_waits [OF assms(1)])

subsection \<open>The answer\<close>

text \<open>The last thing an unsuccessful start does is to ask the waiter of its own lease.\<close>

definition polls ::
  "('j, 's, 'c, 'w, 'p) session_env \<Rightarrow> 'c attach_waiter \<Rightarrow> (attach_outcome option, ('j, 's, 'c, 'w, 'p) session) act \<Rightarrow> bool" where
  "polls env aw m \<longleftrightarrow>
     leaves (\<lambda>_. True) m (\<lambda>r se. \<forall>out. r = Inr out \<longrightarrow> out = wait_poll (en_watch env) (se_runtimes se) aw)"

lemma pollsD: "polls env aw m \<Longrightarrow> m se = Some (Inr out, se') \<Longrightarrow> out = wait_poll (en_watch env) (se_runtimes se') aw"
  by (simp add: polls_def leaves_def)

lemma polls_await: "polls env aw (await_outcome env aw)"
  unfolding polls_def await_outcome_def by (rule leavesI) (auto simp: and_then_Some)

lemma polls_then: "(\<And>x. polls env aw (f x)) \<Longrightarrow> polls env aw (and_then m f)"
  unfolding polls_def by (rule leavesI) (fastforce simp: and_then_Some dest: leavesD)

lemma unsuccessful_polls:
  "polls env (al_waiter lease) (attach_failed env w agent lease e)"
  "polls env (al_waiter lease) (registration_failed env w agent lease)"
  unfolding attach_failed_def registration_failed_def Let_def by (intro polls_then polls_await)+

lemma infallible_runtime_calls [infallible_rules]:
  "infallible (on_runtimes f)" "infallible (emit_status ev)" "infallible (session_constrain env slot_id k)"
  "infallible (notify_slot slot_id)" "infallible (register_event_loop slot_id)"
  by (auto simp: infallible_def on_runtimes_def emit_status_def session_constrain_def expect_coord_def notify_slot_def
      register_event_loop_def and_then_Some
      split: prod.splits option.splits if_splits sum.splits loop_registration_error.splits)

lemma infallible_refresh [infallible_rules]: "infallible (refresh_member_runtime_status w n)"
  unfolding refresh_member_runtime_status_def case_prod_beta by (intro infallible_rules)

lemma infallible_conclude: "infallible (conclude_attach_attempt env w agent lease)"
proof -
  have failed: "infallible (attach_failed env w agent lease e)" "infallible (registration_failed env w agent lease)" for e
    unfolding attach_failed_def registration_failed_def Let_def
    by (intro infallible_rules)+
  have "infallible (commit_attach env w agent lease registered)" for registered
    unfolding commit_attach_def by (intro infallible_rules)
  with failed have "infallible (attach_started env w agent lease)"
    unfolding attach_started_def by (intro infallible_rules)
  with failed show ?thesis unfolding conclude_attach_attempt_def by (cases "at_result w") simp_all
qed

text \<open>The lease of the attach in progress, with the channel of its waiters.\<close>

definition lease_live :: "'c attach_lease \<Rightarrow> ('c, 'w) registry \<Rightarrow> bool" where
  "lease_live lease reg \<longleftrightarrow> owns_attach lease reg \<and>
     map_of (mr_entries reg) (al_agent_id lease) =
       Some (EntAttaching (aw_operation_id (al_waiter lease)) (aw_channel (al_waiter lease)))"

lemma failure_is_answered:
  assumes laws: "watch_laws tk" and inv: "reg_inv tk reg" and live: "lease_live lease reg"
    and later: "registry_steps tk (snd (commit_failed tk lease failure reg)) reg'"
  shows "wait_poll tk reg' (al_waiter lease) = Some (OutFailed failure)"
proof -
  let ?reg1 = "snd (commit_failed tk lease failure reg)" and ?ch = "aw_channel (al_waiter lease)"
  have entry: "map_of (mr_entries reg) (al_agent_id lease) = Some (EntAttaching (aw_operation_id (al_waiter lease)) ?ch)"
    and owner: "owns_attach lease reg" using live by (simp_all add: lease_live_def)
  have ch: "?ch \<in> watch_open tk (mr_world reg)" using live_pending [OF inv entry] by simp
  have "registry_step tk reg ?reg1" by (rule registry_step.failed [of tk lease failure reg "fst (commit_failed tk lease failure reg)"]) simp
  then have inv1: "reg_inv tk ?reg1" using registry_step_evolves [OF _ inv laws] by (simp add: reg_evolves_def)
  have world: "mr_world ?reg1 = watch_send_replace tk ?ch (SigTerminal (OutFailed failure)) (mr_world reg)"
    using owner entry by (simp add: commit_failed_def owns_attach_def)
  then have "watch_borrow tk ?ch (mr_world ?reg1) = SigTerminal (OutFailed failure)" "?ch \<in> watch_open tk (mr_world ?reg1)"
    using ch by (simp_all add: watch_send [OF laws])
  then have "watch_borrow tk ?ch (mr_world reg') = SigTerminal (OutFailed failure)"
    using registry_steps_inv [OF later inv1 laws] unfolding reg_evolves_def by blast
  then show ?thesis by (rule wait_poll_terminal)
qed

subsection \<open>The conclusion\<close>

definition attach_verdict ::
  "('j, 's, 'c, 'w, 'p) session attach_world \<Rightarrow> team_agent \<Rightarrow> ('j, 's, 'c, 'w, 'p) session \<Rightarrow> attach_conclusion" where
  "attach_verdict w agent se =
     (case at_result w of
        Some e \<Rightarrow> ConcludeFailed (sanitize_member_runtime_failure e)
      | None \<Rightarrow>
        if \<not> loops_has (ta_slot_id agent) (se_loops se) \<and> el_stopped (se_loops se)
        then ConcludeFailed registration_failure else ConcludeReady)"

definition attach_answer :: "('j, 's, 'c, 'w, 'p) session attach_world \<Rightarrow> attach_conclusion \<Rightarrow> attach_outcome" where
  "attach_answer w verdict =
     (case verdict of ConcludeFailed failure \<Rightarrow> OutFailed failure
      | ConcludeReady \<Rightarrow> if at_published w 1 then OutReady else OutSessionStopped)"

lemma registered:
  assumes "attach_started env w agent lease se = Some (r, se')" and "owns_attach lease (se_runtimes se)"
  shows "if \<not> loops_has (ta_slot_id agent) (se_loops se) \<and> el_stopped (se_loops se)
     then registration_failed env w agent lease se = Some (r, se')
     else \<exists>reg se1. se_runtimes se1 = se_runtimes se \<and> commit_attach env w agent lease reg se1 = Some (r, se')"
proof (cases "loops_has (ta_slot_id agent) (se_loops se)")
  case True
  with assms have "commit_attach env w agent lease False se = Some (r, se')"
    by (simp add: attach_started_def register_event_loop_def)
  with True show ?thesis by auto
next
  case absent: False
  show ?thesis
  proof (cases "el_stopped (se_loops se)")
    case True
    with assms absent show ?thesis
      by (force simp: attach_started_def register_event_loop_def loops_spawn_def loops_has_def)
  next
    case False
    with absent obtain reg se1 where "register_event_loop (ta_slot_id agent) se = Some (Inr (Inr reg), se1)"
      "se_runtimes se1 = se_runtimes se"
      by (force simp: register_event_loop_def loops_spawn_def loops_has_def)
    moreover from this assms have "commit_attach env w agent lease reg se1 = Some (r, se')"
      by (simp add: attach_started_def)
    ultimately show ?thesis using False by auto
  qed
qed

text \<open>
  The state in which the result is committed: after the process was ended, if the start or the
  registration of the event loop failed; at once, if they succeeded; and who finds that the
  lease owns nothing any more after a successful start commits nothing.
\<close>

definition commits_at ::
  "('j, 's, 'c, 'w, 'p) session_env \<Rightarrow> ('j, 's, 'c, 'w, 'p) session attach_world \<Rightarrow> team_agent \<Rightarrow> 'c attach_lease
     \<Rightarrow> ('j, 's, 'c, 'w, 'p) session \<Rightarrow> ('j, 's, 'c, 'w, 'p) session \<Rightarrow> bool" where
  "commits_at env w agent lease se se1 \<longleftrightarrow>
     (if attach_verdict w agent se = ConcludeReady \<or> at_result w = None \<and> \<not> owns_attach lease (se_runtimes se) then se1 = se
      else cleanup_stale_member_runtime_task env w (ta_conversation_id agent) se = Some (Inr (), se1))"

lemma concluded_runtimes:
  assumes "others_registry env" and run: "conclude_attach_attempt env w agent lease se = Some (r, se')"
  obtains se1 where "commits_at env w agent lease se se1"
    "registry_steps (en_watch env) (se_runtimes se) (se_runtimes se1)"
    "registry_steps (en_watch env)
       (snd (conclude_attach (en_watch env) (attach_verdict w agent se) lease (se_runtimes se1))) (se_runtimes se')"
proof (cases "at_result w")
  case (Some e)
  with run have "attach_failed env w agent lease e se = Some (r, se')" by (simp add: conclude_attach_attempt_def)
  from failed_runtimes [OF assms(1) this] Some that show thesis
    by (auto simp: attach_verdict_def conclude_attach_def commits_at_def)
next
  case None
  with run have started: "attach_started env w agent lease se = Some (r, se')" by (simp add: conclude_attach_attempt_def)
  show thesis
  proof (cases "owns_attach lease (se_runtimes se)")
    case False
    with started have "and_then (withdraw_attach env w agent False) (\<lambda>_. await_outcome env (al_waiter lease)) se = Some (r, se')"
      by (simp add: attach_started_def)
    moreover have "keeps (reached_from env (se_runtimes se)) (and_then (withdraw_attach env w agent False)
        (\<lambda>_. await_outcome env (al_waiter lease)))"
      by (intro keeps_rules reached_waits [OF assms(1)])
    ultimately have "registry_steps (en_watch env) (se_runtimes se) (se_runtimes se')"
      by (auto simp: at_runtimes_def dest: leavesD)
    moreover have "snd (conclude_attach (en_watch env) k lease (se_runtimes se)) = se_runtimes se" for k
      using attaches.stale [OF False] by (metis surj_pair snd_conv)
    ultimately show thesis using that [of se] None False by (simp add: commits_at_def)
  next
    case True
    note rest = registered [OF started this]
    show thesis
    proof (cases "\<not> loops_has (ta_slot_id agent) (se_loops se) \<and> el_stopped (se_loops se)")
      case unregistered: True
      with rest have "registration_failed env w agent lease se = Some (r, se')" by simp
      from unregistered_runtimes [OF assms(1) this] None unregistered True that show thesis
        by (auto simp: attach_verdict_def conclude_attach_def commits_at_def)
    next
      case False
      with rest obtain reg se1 where same: "se_runtimes se1 = se_runtimes se" and
        "commit_attach env w agent lease reg se1 = Some (r, se')" by auto
      from committed_runtimes [OF assms(1) this(2)] None False same that [of se] show thesis
        by (auto simp: attach_verdict_def conclude_attach_def commits_at_def)
    qed
  qed
qed

lemma committed_answer:
  assumes "owns_attach lease (se_runtimes se)" and "commit_attach env w agent lease registered se = Some (Inr out, se')"
  shows "out = Some (attach_answer w ConcludeReady)"
  using assms commit_ready_cases(1) [of "en_watch env" lease "se_runtimes se"]
  by (auto simp: commit_attach_def and_then_Some on_runtimes_def attach_answer_def split: prod.splits if_splits)

lemma concluded_answer:
  assumes "conclude_attach_attempt env w agent lease se = Some (Inr out, se')"
  shows "(case attach_verdict w agent se of
      ConcludeReady \<Rightarrow> owns_attach lease (se_runtimes se) \<longrightarrow> out = Some (attach_answer w ConcludeReady)
    | ConcludeFailed failure \<Rightarrow> out = wait_poll (en_watch env) (se_runtimes se') (al_waiter lease))"
proof (cases "at_result w")
  case (Some e)
  with assms show ?thesis
    using pollsD [OF unsuccessful_polls(1)] by (simp add: conclude_attach_attempt_def attach_verdict_def)
next
  case None
  with assms have started: "attach_started env w agent lease se = Some (Inr out, se')" by (simp add: conclude_attach_attempt_def)
  show ?thesis
  proof (cases "owns_attach lease (se_runtimes se)")
    case False
    with started have "and_then (withdraw_attach env w agent False) (\<lambda>_. await_outcome env (al_waiter lease)) se = Some (Inr out, se')"
      by (simp add: attach_started_def)
    from pollsD [OF polls_then [OF polls_await] this] False show ?thesis by (simp split: attach_conclusion.split)
  next
    case True
    note rest = registered [OF started this]
    show ?thesis
    proof (cases "\<not> loops_has (ta_slot_id agent) (se_loops se) \<and> el_stopped (se_loops se)")
      case unregistered: True
      with rest have "registration_failed env w agent lease se = Some (Inr out, se')" by simp
      from pollsD [OF unsuccessful_polls(2) this] unregistered None show ?thesis by (simp add: attach_verdict_def)
    next
      case False
      with rest obtain reg se1 where "se_runtimes se1 = se_runtimes se"
        "commit_attach env w agent lease reg se1 = Some (Inr out, se')" by auto
      with committed_answer [of lease se1] True None False show ?thesis by (auto simp: attach_verdict_def)
    qed
  qed
qed

text \<open>C32: The start of a member's process is always concluded. The method comes to its end without an
  error, whatever failed and whatever others do while it waits for a process to be ended or for
  an answer. It commits its result in one step, at once if the process and the event loop have
  started and after ending the process otherwise: if its lease is the owner at that moment, the
  member is ready, or failed with the reason that is given to the public; if others have taken
  the slot over, the registry is left as they made it; in either case the lease owns nothing any
  more, and others go on from there. If the lease was that of the attach in progress when the
  result was committed, the method returns that very result; and it is still waiting only if its
  waiter has no answer.\<close>

theorem attach_is_concluded:
  assumes "ids_fresh env" and "\<forall>call \<in> set calls. call_safe env call" and "others_safe env"
    and "serve env calls (session_start team_id generation agents store channels projection) = Some (x, se)"
    and "watch_laws (en_watch env)" and "watch_open (en_watch env) channels = {}"
    and "registry_steps (en_watch env) (registry_new generation channels) (se_runtimes se)" and "others_registry env"
    and "al_agent_id lease = ta_slot_id agent"
  shows "\<exists>out se' se1 committed reg. conclude_attach_attempt env w agent lease se = Some (Inr out, se') \<and>
    commits_at env w agent lease se se1 \<and>
    conclude_attach (en_watch env) (attach_verdict w agent se) lease (se_runtimes se1) = (committed, reg) \<and>
    registry_steps (en_watch env) reg (se_runtimes se') \<and>
    \<not> owns_attach lease reg \<and> committed = owns_attach lease (se_runtimes se1) \<and>
    (if committed
     then member_snapshot_of (ta_slot_id agent) reg = (case attach_verdict w agent se of ConcludeReady \<Rightarrow> SnapReady
            | ConcludeFailed failure \<Rightarrow> SnapFailed (aw_operation_id (al_waiter lease)) failure)
     else reg = se_runtimes se1) \<and>
    (lease_live lease (se_runtimes se1) \<longrightarrow> out = Some (attach_answer w (attach_verdict w agent se))) \<and>
    (out = None \<longrightarrow> wait_poll (en_watch env) (se_runtimes se') (al_waiter lease) = None)"
proof -
  let ?tk = "en_watch env" and ?verdict = "attach_verdict w agent se"
  have "session_ok env {} {} se"
    by (rule ensures_run [OF safe_serve [OF _ assms(2)] session_start_ok [OF assms(1)] assms(4)]) simp
  then obtain r se' where run0: "conclude_attach_attempt env w agent lease se = Some (r, se')"
    using ensuresD [OF safe_conclude_attach [OF assms(3)]] by blast
  then obtain out where run: "conclude_attach_attempt env w agent lease se = Some (Inr out, se')"
    using infallible_conclude [of env w agent lease] by (cases r) (auto simp: infallible_def)
  obtain se1 where steps: "commits_at env w agent lease se se1" "registry_steps ?tk (se_runtimes se) (se_runtimes se1)"
    "registry_steps ?tk (snd (conclude_attach ?tk ?verdict lease (se_runtimes se1))) (se_runtimes se')"
    by (rule concluded_runtimes [OF assms(8) run])
  obtain committed reg where made: "conclude_attach ?tk ?verdict lease (se_runtimes se1) = (committed, reg)" by fastforce
  have inv: "reg_inv ?tk (se_runtimes se1)"
    using registry_steps_inv [OF rtranclp_trans [OF assms(7) steps(2)] reg_inv_new [OF assms(6)] assms(5)]
    by (simp add: reg_evolves_def)
  have committed: "\<not> owns_attach lease reg \<and> committed = owns_attach lease (se_runtimes se1) \<and>
       (if committed
        then member_snapshot_of (ta_slot_id agent) reg = (case ?verdict of ConcludeReady \<Rightarrow> SnapReady
               | ConcludeFailed failure \<Rightarrow> SnapFailed (aw_operation_id (al_waiter lease)) failure)
        else reg = se_runtimes se1)"
  proof (cases "owns_attach lease (se_runtimes se1)")
    case True
    then show ?thesis
      using conclude_attach_owner [OF True, of ?tk ?verdict] attaches.ends [OF True made] made assms(9)
      by (cases ?verdict) (simp_all add: member_snapshot_of_def map_simps)
  next
    case False
    with attaches.stale [OF this made] show ?thesis by simp
  qed
  have answer: "out = Some (attach_answer w ?verdict)" if live: "lease_live lease (se_runtimes se1)"
  proof (cases ?verdict)
    case ConcludeReady
    with live steps(1) concluded_answer [OF run] show ?thesis by (simp add: lease_live_def commits_at_def)
  next
    case (ConcludeFailed failure)
    with steps(3) have "wait_poll ?tk (se_runtimes se') (al_waiter lease) = Some (OutFailed failure)"
      using failure_is_answered [OF assms(5) inv live] by (simp add: conclude_attach_def)
    with ConcludeFailed concluded_answer [OF run] show ?thesis by (simp add: attach_answer_def)
  qed
  have "out = None \<longrightarrow> wait_poll ?tk (se_runtimes se') (al_waiter lease) = None"
    using answersD [OF answers_conclude] run by blast
  note waits = this
  have later: "registry_steps ?tk reg (se_runtimes se')" using steps(3) by (simp add: made)
  show ?thesis
    by (intro exI [of _ out] exI [of _ se'] exI [of _ se1] exI [of _ committed] exI [of _ reg] conjI run steps(1) made later
        conjunct1 [OF committed] conjunct1 [OF conjunct2 [OF committed]] conjunct2 [OF conjunct2 [OF committed]] impI answer
        mp [OF waits])
qed

definition demo_attach_world :: "team_error option \<Rightarrow> (json_tree, memory_state, nat, attach_signal list, conv_state) session attach_world" where
  "demo_attach_world e = \<lparr>at_result = e, at_meanwhile = (\<lambda>se. se), at_published = (\<lambda>_. True), at_replaced = False,
     at_members = None\<rparr>"

definition demo_reserved :: "(json_tree, memory_state, nat, attach_signal list, conv_state) session" where
  "demo_reserved = demo_looped\<lparr>se_runtimes := snd (reserve_attach list_watch ''s1'' False (registry_new ''g1'' []))\<rparr>"

definition demo_lease :: "nat attach_lease" where
  "demo_lease = \<lparr>al_session_generation = ''g1'', al_agent_id = ''s1'', al_waiter = \<lparr>aw_operation_id = 1, aw_channel = 0\<rparr>\<rparr>"

lemma demo_reserve: "serve demo_session_env [CallRegisterLoop ''s1'', CallReserveAttach ''s1'' False] demo_mailed =
    Some (Inr (), demo_reserved)"
  by (simp add: serve_def ignoring_def attempt_def and_then_def register_event_loop_def loops_has_def loops_spawn_def
      demo_mailed_def demo_looped_def demo_reserved_def session_start_def loops_new_def on_runtimes_def demo_session_env_def finished_def
      split: prod.split)

lemma demo_owner: "owns_attach demo_lease (se_runtimes demo_reserved)"
  by (simp add: reserve_attach_def start_attach_def registry_new_def registry_next_operation_id_def list_watch_def
      owns_attach_def demo_reserved_def demo_lease_def)

lemma demo_reserve_safe:
  "\<forall>call \<in> set [CallRegisterLoop ''s1'', CallReserveAttach ''s1'' False]. call_safe demo_session_env call" by simp

lemma demo_registry:
  "registry_steps (en_watch demo_session_env) (registry_new ''g1'' []) (se_runtimes demo_reserved)"
  "others_registry demo_session_env"
proof -
  have "registry_step list_watch (registry_new ''g1'' []) (snd (reserve_attach list_watch ''s1'' False (registry_new ''g1'' [])))"
    by (rule registry_step.attach [of list_watch "''s1''" False _ "fst (reserve_attach list_watch ''s1'' False (registry_new ''g1'' []))"]) simp
  then show "registry_steps (en_watch demo_session_env) (registry_new ''g1'' []) (se_runtimes demo_reserved)"
    by (simp add: demo_session_env_def demo_reserved_def)
qed (simp add: others_registry_def demo_session_env_def)

lemma demo_live: "lease_live demo_lease (se_runtimes demo_reserved)"
  using demo_owner
  by (simp add: lease_live_def reserve_attach_def start_attach_def registry_new_def registry_next_operation_id_def list_watch_def
      demo_reserved_def demo_lease_def)

lemma demo_cleanup:
  "cleanup_stale_member_runtime_task demo_session_env (demo_attach_world e) conv se = Some (x, se1) \<Longrightarrow>
     se_runtimes se1 = se_runtimes se"
  by (auto simp: cleanup_stale_member_runtime_task_def when_so_def demo_attach_world_def and_then_Some kill_and_wait_def demo_waits)

text \<open>A process that could not be started, for the lease of the attach in progress.\<close>

theorem attach_is_concluded_witness:
  "\<exists>failure se'. conclude_attach_attempt demo_session_env (demo_attach_world (Some (InvalidRequest ''no binary'')))
      (demo_agent ''s1'' Lead) demo_lease demo_reserved = Some (Inr (Some (OutFailed failure)), se')"
proof -
  have lease: "al_agent_id demo_lease = ta_slot_id (demo_agent ''s1'' Lead)" by (simp add: demo_lease_def demo_agent_def)
  have laws: "watch_laws (en_watch demo_session_env)" "watch_open (en_watch demo_session_env) [] = {}"
    by (simp add: demo_session_env_def list_watch_laws) (simp add: demo_session_env_def list_watch_def)
  let ?w = "demo_attach_world (Some (InvalidRequest ''no binary''))" and ?agent = "demo_agent ''s1'' Lead"
  have verdict: "attach_verdict ?w ?agent demo_reserved = ConcludeFailed (sanitize_member_runtime_failure (InvalidRequest ''no binary''))"
    by (simp add: attach_verdict_def demo_attach_world_def)
  from attach_is_concluded [OF demo_ids_fresh demo_reserve_safe demo_others(1) demo_reserve [unfolded demo_mailed_def] laws
      demo_registry lease, of ?w]
  obtain out se' se1 where run: "conclude_attach_attempt demo_session_env ?w ?agent demo_lease demo_reserved = Some (Inr out, se')"
    and at: "commits_at demo_session_env ?w ?agent demo_lease demo_reserved se1"
    and answer: "lease_live demo_lease (se_runtimes se1) \<longrightarrow> out = Some (attach_answer ?w (attach_verdict ?w ?agent demo_reserved))"
    by blast
  have "se_runtimes se1 = se_runtimes demo_reserved"
  proof -
    have "at_result ?w \<noteq> None" by (simp add: demo_attach_world_def)
    with at have "cleanup_stale_member_runtime_task demo_session_env ?w (ta_conversation_id ?agent) demo_reserved = Some (Inr (), se1)"
      unfolding commits_at_def verdict by simp
    then show ?thesis by (rule demo_cleanup)
  qed
  then have "out = Some (attach_answer ?w (attach_verdict ?w ?agent demo_reserved))" using answer demo_live by simp
  with run verdict show ?thesis by (auto simp: attach_answer_def)
qed

end
