(* ===== verification/Tool_Inputs.thy ===== *)
theory Tool_Inputs
  imports Json_Value Crash_Detection
begin

text \<open>
  The arguments of the team tools (crates/team/src/mcp/tools.rs). The structs derive
  \<open>serde::Deserialize\<close>; \<open>from_value\<close> reads their fields from an object by name, or from an
  array by position. A missing \<open>Option\<close> is \<open>None\<close> in an object; in an array only a field
  with a default may be missing. The text of a library error is \<open>de_error\<close>, given the name of
  the struct and the value.
\<close>

subsection \<open>Values seen by \<open>match\<close>\<close>

datatype 'j json_view =
    VNull | VBool bool | VInt int | VFloat | VStr string | VArr "'j list" | VObj "(string \<times> 'j) list"

record 'j tool_json =
  tj_values :: "'j value_ops"
  tj_view :: "'j \<Rightarrow> 'j json_view"
  tj_to_string :: "'j \<Rightarrow> string"
  tj_pretty :: "'j \<Rightarrow> string + string" \<comment> \<open>\<open>to_string_pretty\<close>\<close>
  tj_from_str :: "string \<Rightarrow> string + 'j"
  tj_de_error :: "string \<Rightarrow> 'j \<Rightarrow> string"

text \<open>What the development relies on: a value that was built as an object or a text is seen as such.\<close>

definition view_laws :: "'j tool_json \<Rightarrow> bool" where
  "view_laws tj \<longleftrightarrow>
     value_laws (tj_values tj) \<and>
     (\<forall>s. tj_view tj (jv_str (tj_values tj) s) = VStr s) \<and>
     (\<forall>xs. tj_view tj (jv_arr (tj_values tj) xs) = VArr xs) \<and>
     (\<forall>kvs. distinct (map fst kvs) \<longrightarrow> (\<exists>kvs'. tj_view tj (jv_obj (tj_values tj) kvs) = VObj kvs' \<and> map_of kvs' = map_of kvs))"

subsection \<open>Fields of a struct\<close>

datatype 'j fields = ByName "(string \<times> 'j) list" | ByPosition "'j list"

definition fields_of :: "'j tool_json \<Rightarrow> 'j \<Rightarrow> 'j fields option" where
  "fields_of tj v = (case tj_view tj v of VObj kvs \<Rightarrow> Some (ByName kvs) | VArr xs \<Rightarrow> Some (ByPosition xs) | _ \<Rightarrow> None)"

datatype 'j field = FieldAbsent | FieldEnd | FieldValue 'j | FieldTwice

text \<open>\<open>field_at fs i names\<close>: the field with position \<open>i\<close>, its name and its aliases.\<close>

fun field_at :: "'j fields \<Rightarrow> nat \<Rightarrow> string list \<Rightarrow> 'j field" where
  "field_at (ByName kvs) i names =
     (case List.map_filter (map_of kvs) names of [] \<Rightarrow> FieldAbsent | [v] \<Rightarrow> FieldValue v | _ \<Rightarrow> FieldTwice)"
| "field_at (ByPosition xs) i names = (if i < length xs then FieldValue (xs ! i) else FieldEnd)"

text \<open>No more elements than fields; for \<open>deny_unknown_fields\<close>, no other names than these.\<close>

fun no_more_than :: "nat \<Rightarrow> 'j fields \<Rightarrow> bool" where
  "no_more_than n (ByName kvs) = True"
| "no_more_than n (ByPosition xs) = (length xs \<le> n)"

fun only_names :: "string list \<Rightarrow> 'j fields \<Rightarrow> bool" where
  "only_names names (ByName kvs) = list_all (\<lambda>kv. fst kv \<in> set names) kvs"
| "only_names names (ByPosition xs) = True"

fun field_required :: "('j \<Rightarrow> 'a option) \<Rightarrow> 'j field \<Rightarrow> 'a option" where
  "field_required rd (FieldValue v) = rd v"
| "field_required rd _ = None"

fun field_default :: "'a \<Rightarrow> ('j \<Rightarrow> 'a option) \<Rightarrow> 'j field \<Rightarrow> 'a option" where
  "field_default d rd (FieldValue v) = rd v"
| "field_default d rd FieldTwice = None"
| "field_default d rd _ = Some d"

fun field_option :: "('j \<Rightarrow> 'a option option) \<Rightarrow> 'j field \<Rightarrow> 'a option option" where
  "field_option rd (FieldValue v) = rd v"
| "field_option rd FieldAbsent = Some None"
| "field_option rd _ = None"

subsection \<open>Readers\<close>

definition read_string :: "'j tool_json \<Rightarrow> 'j \<Rightarrow> string option" where
  "read_string tj v = (case tj_view tj v of VStr s \<Rightarrow> Some s | _ \<Rightarrow> None)"

fun read_each :: "('j \<Rightarrow> 'a option) \<Rightarrow> 'j list \<Rightarrow> 'a list option" where
  "read_each rd [] = Some []"
| "read_each rd (v # vs) = Option.bind (rd v) (\<lambda>x. map_option (\<lambda>xs. x # xs) (read_each rd vs))"

definition read_strings :: "'j tool_json \<Rightarrow> 'j \<Rightarrow> string list option" where
  "read_strings tj v = (case tj_view tj v of VArr xs \<Rightarrow> read_each (read_string tj) xs | _ \<Rightarrow> None)"

definition read_bool :: "'j tool_json \<Rightarrow> 'j \<Rightarrow> bool option" where
  "read_bool tj v = (case tj_view tj v of VBool b \<Rightarrow> Some b | _ \<Rightarrow> None)"

definition read_i64 :: "'j tool_json \<Rightarrow> 'j \<Rightarrow> int option" where
  "read_i64 tj v =
     (case tj_view tj v of VInt i \<Rightarrow> if - (2 ^ 63) \<le> i \<and> i < 2 ^ 63 then Some i else None | _ \<Rightarrow> None)"

text \<open>\<open>Option<T>\<close>: null or a value.\<close>

definition read_option :: "'j tool_json \<Rightarrow> ('j \<Rightarrow> 'a option) \<Rightarrow> 'j \<Rightarrow> 'a option option" where
  "read_option tj rd v = (case tj_view tj v of VNull \<Rightarrow> Some None | _ \<Rightarrow> map_option Some (rd v))"

subsection \<open>The inputs\<close>

record send_message_input =
  si_to :: ident
  si_message :: string
  si_files :: "string list"

definition send_message_input_of :: "'j tool_json \<Rightarrow> 'j \<Rightarrow> send_message_input option" where
  "send_message_input_of tj v =
     Option.bind (fields_of tj v) (\<lambda>fs.
     if \<not> no_more_than 3 fs then None else
     Option.bind (field_required (read_string tj) (field_at fs 0 [''to''])) (\<lambda>to_id.
     Option.bind (field_required (read_string tj) (field_at fs 1 [''message''])) (\<lambda>message.
     Option.bind (field_default [] (read_strings tj) (field_at fs 2 [''files''])) (\<lambda>files.
     Some \<lparr>si_to = to_id, si_message = message, si_files = files\<rparr>))))"

record spawn_agent_input =
  pi_name :: string
  pi_assistant_id :: "ident option"

definition spawn_agent_input_of :: "'j tool_json \<Rightarrow> 'j \<Rightarrow> spawn_agent_input option" where
  "spawn_agent_input_of tj v =
     Option.bind (fields_of tj v) (\<lambda>fs.
     if \<not> no_more_than 2 fs \<or> \<not> only_names [''name'', ''assistant_id'', ''assistantId''] fs then None else
     Option.bind (field_required (read_string tj) (field_at fs 0 [''name''])) (\<lambda>name.
     Option.bind (field_default None (read_option tj (read_string tj)) (field_at fs 1 [''assistant_id'', ''assistantId'']))
       (\<lambda>assistant_id.
     Some \<lparr>pi_name = name, pi_assistant_id = assistant_id\<rparr>)))"

record task_create_input =
  ci_subject :: string
  ci_description :: "string option"
  ci_owner :: "ident option"
  ci_blocked_by :: "ident list option"

definition task_create_input_of :: "'j tool_json \<Rightarrow> 'j \<Rightarrow> task_create_input option" where
  "task_create_input_of tj v =
     Option.bind (fields_of tj v) (\<lambda>fs.
     if \<not> no_more_than 4 fs then None else
     Option.bind (field_required (read_string tj) (field_at fs 0 [''subject''])) (\<lambda>subject.
     Option.bind (field_option (read_option tj (read_string tj)) (field_at fs 1 [''description''])) (\<lambda>description.
     Option.bind (field_option (read_option tj (read_string tj)) (field_at fs 2 [''owner''])) (\<lambda>owner.
     Option.bind (field_option (read_option tj (read_strings tj)) (field_at fs 3 [''blocked_by''])) (\<lambda>blocked_by.
     Some \<lparr>ci_subject = subject, ci_description = description, ci_owner = owner, ci_blocked_by = blocked_by\<rparr>)))))"

record task_update_input =
  ui_task_id :: ident
  ui_status :: "string option"
  ui_description :: "string option"
  ui_owner :: "ident option"
  ui_blocked_by :: "ident list option"

definition task_update_input_of :: "'j tool_json \<Rightarrow> 'j \<Rightarrow> task_update_input option" where
  "task_update_input_of tj v =
     Option.bind (fields_of tj v) (\<lambda>fs.
     if \<not> no_more_than 5 fs then None else
     Option.bind (field_required (read_string tj) (field_at fs 0 [''task_id''])) (\<lambda>task_id.
     Option.bind (field_option (read_option tj (read_string tj)) (field_at fs 1 [''status''])) (\<lambda>status.
     Option.bind (field_option (read_option tj (read_string tj)) (field_at fs 2 [''description''])) (\<lambda>description.
     Option.bind (field_option (read_option tj (read_string tj)) (field_at fs 3 [''owner''])) (\<lambda>owner.
     Option.bind (field_option (read_option tj (read_strings tj)) (field_at fs 4 [''blocked_by''])) (\<lambda>blocked_by.
     Some \<lparr>ui_task_id = task_id, ui_status = status, ui_description = description, ui_owner = owner,
           ui_blocked_by = blocked_by\<rparr>))))))"

text \<open>\<open>#[serde(untagged)]\<close>: the first variant that fits.\<close>

datatype task_list_status_input = SingleStatus string | ManyStatuses "string list"

definition task_list_status_input_of :: "'j tool_json \<Rightarrow> 'j \<Rightarrow> task_list_status_input option" where
  "task_list_status_input_of tj v =
     (case read_string tj v of Some s \<Rightarrow> Some (SingleStatus s) | None \<Rightarrow> map_option ManyStatuses (read_strings tj v))"

record task_list_input =
  li_owner :: "ident option"
  li_status :: "task_list_status_input option"
  li_include_deleted :: "bool option"
  li_limit :: "int option"

definition task_list_input_of :: "'j tool_json \<Rightarrow> 'j \<Rightarrow> task_list_input option" where
  "task_list_input_of tj v =
     Option.bind (fields_of tj v) (\<lambda>fs.
     if \<not> no_more_than 4 fs \<or> \<not> only_names [''owner'', ''status'', ''include_deleted'', ''limit''] fs then None else
     Option.bind (field_default None (read_option tj (read_string tj)) (field_at fs 0 [''owner''])) (\<lambda>owner.
     Option.bind (field_default None (read_option tj (task_list_status_input_of tj)) (field_at fs 1 [''status''])) (\<lambda>status.
     Option.bind (field_default None (read_option tj (read_bool tj)) (field_at fs 2 [''include_deleted''])) (\<lambda>deleted.
     Option.bind (field_default None (read_option tj (read_i64 tj)) (field_at fs 3 [''limit''])) (\<lambda>limit.
     Some \<lparr>li_owner = owner, li_status = status, li_include_deleted = deleted, li_limit = limit\<rparr>)))))"

record rename_agent_input =
  ri_slot_id :: ident
  ri_new_name :: string

definition rename_agent_input_of :: "'j tool_json \<Rightarrow> 'j \<Rightarrow> rename_agent_input option" where
  "rename_agent_input_of tj v =
     Option.bind (fields_of tj v) (\<lambda>fs.
     if \<not> no_more_than 2 fs then None else
     Option.bind (field_required (read_string tj) (field_at fs 0 [''slot_id''])) (\<lambda>slot_id.
     Option.bind (field_required (read_string tj) (field_at fs 1 [''new_name''])) (\<lambda>new_name.
     Some \<lparr>ri_slot_id = slot_id, ri_new_name = new_name\<rparr>)))"

record shutdown_agent_input =
  hi_slot_id :: ident
  hi_reason :: "string option"

definition shutdown_agent_input_of :: "'j tool_json \<Rightarrow> 'j \<Rightarrow> shutdown_agent_input option" where
  "shutdown_agent_input_of tj v =
     Option.bind (fields_of tj v) (\<lambda>fs.
     if \<not> no_more_than 2 fs then None else
     Option.bind (field_required (read_string tj) (field_at fs 0 [''slot_id''])) (\<lambda>slot_id.
     Option.bind (field_option (read_option tj (read_string tj)) (field_at fs 1 [''reason''])) (\<lambda>reason.
     Some \<lparr>hi_slot_id = slot_id, hi_reason = reason\<rparr>)))"

subsection \<open>An instance\<close>

fun tree_view :: "json_tree \<Rightarrow> json_tree json_view" where
  "tree_view JNull = VNull"
| "tree_view (JBool b) = VBool b"
| "tree_view (JInt i) = VInt i"
| "tree_view (JStr s) = VStr s"
| "tree_view (JArr xs) = VArr xs"
| "tree_view (JObj kvs) = VObj kvs"

definition tree_tool_json :: "json_tree tool_json" where
  "tree_tool_json =
     \<lparr>tj_values = tree_ops, tj_view = tree_view, tj_to_string = (\<lambda>v. case v of JStr s \<Rightarrow> s | _ \<Rightarrow> ''value''),
      tj_pretty = (\<lambda>v. Inr (case v of JStr s \<Rightarrow> s | _ \<Rightarrow> ''value'')), tj_from_str = (\<lambda>s. Inr (JStr s)),
      tj_de_error = (\<lambda>name v. name @ '' expected'')\<rparr>"

lemma tree_view_laws: "view_laws tree_tool_json"
  by (simp add: view_laws_def tree_tool_json_def tree_laws) (simp add: tree_ops_def)

end
