(* ===== verification/Tool_Executor.thy ===== *)
theory Tool_Executor
  imports Session_Members Tool_Inputs
begin

text \<open>
  The team tools an agent can call: which it is allowed (crates/team/src/mcp/tools.rs), what
  each does (the \<open>exec_\<close> functions of crates/team/src/mcp/server.rs), how errors become codes
  (crates/team/src/error.rs, tool_executor.rs) and \<open>TeamToolExecutor\<close> around them.

  The executor works on the scheduler of its session, and through the team service if that
  is still there: \<open>team_service\<close> holds the methods it calls, \<open>None\<close> is a failed upgrade of the
  weak reference. The removal that a \<open>shutdown_approved\<close> schedules half a second later is
  recorded in \<open>se_removals\<close>.
\<close>

subsection \<open>Who may call what\<close>

definition tool_role_of :: "teammate_role \<Rightarrow> tool_role" where
  "tool_role_of role = (case role of Lead \<Rightarrow> ToolLead | Teammate \<Rightarrow> ToolTeammate)"

definition all_tool_descriptors_for_role :: "'j value_ops \<Rightarrow> teammate_role \<Rightarrow> 'j tool_descriptor list" where
  "all_tool_descriptors_for_role vo role =
     team_tool_descriptors_for_role vo (if role = Lead then ToolLead else ToolTeammate)"

definition authorize_tool :: "'j value_ops \<Rightarrow> teammate_role \<Rightarrow> string \<Rightarrow> string option" where \<comment> \<open>the error, if any\<close>
  "authorize_tool vo caller_role tool_name =
     (case team_tool_descriptor vo tool_name of
        None \<Rightarrow> Some (''Unknown tool: '' @ tool_name)
      | Some spec \<Rightarrow>
        if tds_permission spec = LeadOnly \<and> caller_role \<noteq> Lead then Some (''Only Lead can use '' @ tool_name) else None)"

subsection \<open>Errors\<close>

record 'j tool_call_error =
  tce_message :: string
  tce_domain_code :: "string option"
  tce_details :: "'j option"

definition no_longer_accepted :: "string \<Rightarrow> string" where
  "no_longer_accepted field = field @ '' is no longer accepted; use assistant_id''"

definition model_no_longer_accepted :: string where
  "model_no_longer_accepted = ''model is no longer accepted; use the assistant configuration or UI model selector''"

definition field_unsupported :: "'j value_ops \<Rightarrow> string \<Rightarrow> string \<times> 'j option" where
  "field_unsupported vo field =
     (''TEAM_ASSISTANT_FIELD_UNSUPPORTED'',
      Some (jv_obj vo [(''field'', jv_str vo field), (''required_field'', jv_str vo ''assistant_id'')]))"

definition classify_public_error :: "'j value_ops \<Rightarrow> string \<Rightarrow> (string \<times> 'j option) option" where
  "classify_public_error vo message =
     (if message \<in> {''Missing required field: assistant_id'', ''spawn_agent.assistant_id is required'',
          ''assistant_id is required when the caller conversation is not assistant-backed''}
      then Some (''TEAM_ASSISTANT_ID_REQUIRED'', Some (jv_obj vo [(''field'', jv_str vo ''assistant_id'')]))
      else if is_prefix ''Preset assistant not found: '' message
      then Some (''TEAM_ASSISTANT_NOT_FOUND'',
             Some (jv_obj vo [(''assistant_id'', jv_str vo (drop (length ''Preset assistant not found: '') message))]))
      else case find (\<lambda>field. message = no_longer_accepted field) [''backend'', ''agent_type'', ''custom_agent_id''] of
        Some field \<Rightarrow> Some (field_unsupported vo field)
      | None \<Rightarrow>
        if message = model_no_longer_accepted then Some (field_unsupported vo ''model'')
        else if message = ''team_list_assistants does not accept arguments''
        then Some (''TEAM_TOOL_ARGUMENTS_NOT_ALLOWED'',
               Some (jv_obj vo [(''tool'', jv_str vo ''team_list_assistants'')]))
        else if message = ''Team service not available'' then Some (''TEAM_SERVICE_UNAVAILABLE'', None)
        else None)"

definition error_from_message :: "'j value_ops \<Rightarrow> string \<Rightarrow> 'j tool_call_error" where
  "error_from_message vo message =
     \<lparr>tce_message = message, tce_domain_code = map_option fst (classify_public_error vo message),
      tce_details = Option.bind (classify_public_error vo message) snd\<rparr>"

datatype tool_error_code =
    UnknownTool
  | SchemaValidationFailed
  | PermissionDenied
  | CodeTeamNotFound
  | ConversationNotFound
  | CodeAgentNotFound
  | NotInTeam
  | TransportUnavailable
  | RuntimeContextMissing
  | RuntimeAuthFailed

fun tool_error_code_str :: "tool_error_code \<Rightarrow> string" where
  "tool_error_code_str UnknownTool = ''unknown_tool''"
| "tool_error_code_str SchemaValidationFailed = ''schema_validation_failed''"
| "tool_error_code_str PermissionDenied = ''permission_denied''"
| "tool_error_code_str CodeTeamNotFound = ''team_not_found''"
| "tool_error_code_str ConversationNotFound = ''conversation_not_found''"
| "tool_error_code_str CodeAgentNotFound = ''agent_not_found''"
| "tool_error_code_str NotInTeam = ''not_in_team''"
| "tool_error_code_str TransportUnavailable = ''transport_unavailable''"
| "tool_error_code_str RuntimeContextMissing = ''runtime_context_missing''"
| "tool_error_code_str RuntimeAuthFailed = ''runtime_auth_failed''"

record 'j tool_error_payload =
  tep_code :: tool_error_code
  tep_message :: string
  tep_details :: "'j option"

definition tool_error_code_of :: "string \<Rightarrow> tool_error_code" where
  "tool_error_code_of message =
     (if is_prefix ''Unknown tool:'' message then UnknownTool
      else if is_prefix ''Only Lead'' message then PermissionDenied
      else if is_prefix ''Invalid params'' message \<or> is_prefix ''Missing required field'' message \<or>
              str_contains ''does not accept arguments'' message \<or> str_contains ''is no longer accepted'' message
      then SchemaValidationFailed
      else if str_contains ''Invalid agent target'' message then CodeAgentNotFound
      else if str_contains ''No active session'' message then CodeTeamNotFound
      else if str_contains ''Team service not available'' message then TransportUnavailable
      else RuntimeContextMissing)"

definition map_tool_error :: "'j tool_call_error \<Rightarrow> 'j tool_error_payload" where
  "map_tool_error e =
     \<lparr>tep_code = tool_error_code_of (tce_message e), tep_message = tce_message e, tep_details = tce_details e\<rparr>"

subsection \<open>Steps of a tool\<close>

text \<open>
  A tool returns its own error type; \<open>tool_ok\<close>, \<open>tool_error\<close> and \<open>tool_try\<close> are \<open>Ok\<close>, \<open>Err\<close> and
  \<open>map_err(|e| from_message(e.to_string()))?\<close> over it.
\<close>

type_synonym ('j, 'a, 'st) tool_act = "('j tool_call_error + 'a, 'st) act"

definition tool_ok :: "'a \<Rightarrow> ('j, 'a, 'st) tool_act" where
  "tool_ok x = return_ok (Inr x)"

definition tool_error :: "'j value_ops \<Rightarrow> string \<Rightarrow> ('j, 'a, 'st) tool_act" where
  "tool_error vo message = return_ok (Inl (error_from_message vo message))"

definition tool_try :: "'j value_ops \<Rightarrow> ('a, 'st) act \<Rightarrow> ('a \<Rightarrow> ('j, 'b, 'st) tool_act) \<Rightarrow> ('j, 'b, 'st) tool_act" where
  "tool_try vo m f =
     and_then (attempt m) (\<lambda>r. case r of Inl e \<Rightarrow> tool_error vo (team_error_display e) | Inr x \<Rightarrow> f x)"

definition tool_input ::
  "'j tool_json \<Rightarrow> string \<Rightarrow> 'j \<Rightarrow> 'a option \<Rightarrow> ('a \<Rightarrow> ('j, 'b, 'st) tool_act) \<Rightarrow> ('j, 'b, 'st) tool_act" where
  "tool_input tj struct args input f =
     (case input of
        None \<Rightarrow> tool_error (tj_values tj) (''Invalid params: '' @ tj_de_error tj struct args)
      | Some x \<Rightarrow> f x)"

definition json_text :: "'j tool_json \<Rightarrow> 'j \<Rightarrow> ('j, string, 'st) tool_act" where
  "json_text tj v =
     (case tj_pretty tj v of
        Inl e \<Rightarrow> tool_error (tj_values tj) (''Serialization error: '' @ e)
      | Inr s \<Rightarrow> tool_ok s)"

subsection \<open>The service the tools call\<close>

record ('j, 'st) team_service =
  ts_user_id :: "'st \<Rightarrow> ident option" \<comment> \<open>\<open>get_session_user_id\<close>\<close>
  ts_send :: "ident \<Rightarrow> ident \<Rightarrow> string \<Rightarrow> string list option \<Rightarrow> (queue_result, 'st) act"
  ts_spawn :: "ident \<Rightarrow> spawn_request \<Rightarrow> (team_agent, 'st) act"
  ts_rename :: "ident \<Rightarrow> ident \<Rightarrow> string \<Rightarrow> (unit, 'st) act"
  ts_shutdown :: "ident \<Rightarrow> ident \<Rightarrow> string option \<Rightarrow> (unit, 'st) act"
  ts_wake_leader :: "ident \<Rightarrow> work_source \<Rightarrow> (unit, 'st) act"
  ts_assistants :: 'j \<comment> \<open>\<open>list_team_selectable_assistants\<close>, serialized\<close>
  ts_describe :: "string \<Rightarrow> string option \<Rightarrow> team_error + string"

text \<open>
  What the executor takes from outside: the environment of the session, the JSON library, the
  service.
\<close>

record ('j, 's, 'c, 'w, 'p) tool_env =
  xe_session :: "('j, 's, 'c, 'w, 'p) session_env"
  xe_json :: "'j tool_json"
  xe_service :: "('j, ('j, 's, 'c, 'w, 'p) session) team_service option"

definition xe_values :: "('j, 's, 'c, 'w, 'p) tool_env \<Rightarrow> 'j value_ops" where
  "xe_values xe = tj_values (xe_json xe)"

definition with_service ::
  "('j, 's, 'c, 'w, 'p) tool_env \<Rightarrow> string
     \<Rightarrow> (('j, ('j, 's, 'c, 'w, 'p) session) team_service \<Rightarrow> ('j, 'a, ('j, 's, 'c, 'w, 'p) session) tool_act)
     \<Rightarrow> ('j, 'a, ('j, 's, 'c, 'w, 'p) session) tool_act" where
  "with_service xe message f =
     (case xe_service xe of None \<Rightarrow> tool_error (xe_values xe) message | Some sv \<Rightarrow> f sv)"

definition xe_trim :: "('j, 's, 'c, 'w, 'p) tool_env \<Rightarrow> string \<Rightarrow> string" where
  "xe_trim xe = uc_trim (te_unicode (en_team (xe_session xe)))"


subsection \<open>Values in the answers\<close>

definition agent_json :: "'j value_ops \<Rightarrow> team_agent \<Rightarrow> 'j" where
  "agent_json vo agent =
     jv_obj vo [
       (''slot_id'', jv_str vo (ta_slot_id agent)), (''name'', jv_str vo (ta_name agent)),
       (''role'', jv_str vo (role_display (ta_role agent))),
       (''status'', jv_str vo (status_display (case ta_status agent of None \<Rightarrow> StIdle | Some st \<Rightarrow> st))),
       (''assistant_id'', jv_opt_str vo (ta_assistant_id agent)), (''model'', jv_str vo (ta_model agent))]"

definition task_json :: "'j value_ops \<Rightarrow> 'j team_task \<Rightarrow> 'j" where
  "task_json vo task =
     jv_obj vo [
       (''task_id'', jv_str vo (tt_id task)), (''subject'', jv_str vo (tt_subject task)),
       (''status'', jv_str vo (task_status_display (tt_status task))),
       (''owner'', jv_opt_str vo (tt_owner task)), (''blocked_by'', jv_strs vo (tt_blocked_by task))]"

definition listed_task_json :: "'j value_ops \<Rightarrow> 'j team_task \<Rightarrow> 'j" where
  "listed_task_json vo t =
     jv_obj vo [
       (''id'', jv_str vo (tt_id t)), (''subject'', jv_str vo (tt_subject t)),
       (''description'', jv_opt_str vo (tt_description t)),
       (''status'', jv_str vo (task_status_display (tt_status t))), (''owner'', jv_opt_str vo (tt_owner t)),
       (''blocked_by'', jv_strs vo (tt_blocked_by t)), (''blocks'', jv_strs vo (tt_blocks t))]"

text \<open>The derived serialization of \<open>TeamSlotWorkPayload\<close>.\<close>

fun target_role_str :: "run_target_role \<Rightarrow> string" where
  "target_role_str RoleLead = ''lead''"
| "target_role_str RoleTeammate = ''teammate''"

fun slot_phase_str :: "slot_phase \<Rightarrow> string" where
  "slot_phase_str PhaseIdle = ''idle''"
| "slot_phase_str PhaseQueued = ''queued''"
| "slot_phase_str PhaseStarting = ''starting''"
| "slot_phase_str PhaseRunning = ''running''"
| "slot_phase_str PhasePaused = ''paused''"
| "slot_phase_str PhaseBlocked = ''blocked''"

fun blocked_reason_str :: "blocked_reason \<Rightarrow> string" where
  "blocked_reason_str BlockedRuntimeStarting = ''runtime_starting''"
| "blocked_reason_str BlockedRuntimeFailed = ''runtime_failed''"
| "blocked_reason_str BlockedRemoving = ''removing''"
| "blocked_reason_str BlockedSessionStopped = ''session_stopped''"

definition jv_option :: "'j value_ops \<Rightarrow> ('a \<Rightarrow> 'j) \<Rightarrow> 'a option \<Rightarrow> 'j" where
  "jv_option vo f x = (case x of None \<Rightarrow> jv_null vo | Some y \<Rightarrow> f y)"

definition slot_work_json :: "'j value_ops \<Rightarrow> slot_work_payload \<Rightarrow> 'j" where
  "slot_work_json vo p =
     jv_obj vo [
       (''slot_id'', jv_str vo (sp_slot_id p)), (''role'', jv_str vo (target_role_str (sp_role p))),
       (''state'', jv_str vo (slot_phase_str (sp_state p))),
       (''queued_foreground_count'', jv_int vo (int (sp_queued_foreground_count p))),
       (''queued_background_count'', jv_int vo (int (sp_queued_background_count p))),
       (''active_turn_id'', jv_opt_str vo (sp_active_turn_id p)),
       (''active_turn_started_at_ms'', jv_option vo (jv_int vo) (sp_active_turn_started_at_ms p)),
       (''active_turn_elapsed_ms'', jv_option vo (\<lambda>n. jv_int vo (int n)) (sp_active_turn_elapsed_ms p)),
       (''active_turn_slow'', jv_option vo (jv_bool vo) (sp_active_turn_slow p)),
       (''active_turn_slow_threshold_ms'', jv_option vo (\<lambda>n. jv_int vo (int n)) (sp_active_turn_slow_threshold_ms p)),
       (''blocked_reason'', jv_option vo (\<lambda>b. jv_str vo (blocked_reason_str b)) (sp_blocked_reason p)),
       (''team_run_id'', jv_opt_str vo (sp_team_run_id p))]"

definition build_send_message_queued_response :: "queue_result list \<Rightarrow> string + queue_result" where
  "build_send_message_queued_response results =
     (case results of [] \<Rightarrow> Inl ''No message targets resolved'' | first # _ \<Rightarrow> Inr first)"

definition queued_response_json :: "'j value_ops \<Rightarrow> queue_result \<Rightarrow> 'j" where
  "queued_response_json vo r =
     jv_obj vo [(''team_run_id'', jv_opt_str vo (qr_team_run_id r)), (''target'', slot_work_json vo (qr_target r))]"

subsection \<open>Messages\<close>

definition resolve_agent_target ::
  "ident \<Rightarrow> bool \<Rightarrow> ('j, 's, 'c, 'w, 'p) session \<Rightarrow> string + ident" where
  \<open>resolve_agent_target target allow_broadcast se =
     (if list_ex (\<lambda>a. ta_slot_id a = target) (list_agents (se_manager se)) then Inr target
      else if allow_broadcast
      then Inl (''Invalid agent target '' @ quote @ target @ quote @
                  '': expected slot_id or "*". Call team_members to get slot_id.'')
      else Inl (''Invalid agent target '' @ quote @ target @ quote @
                  '': expected slot_id. Call team_members to get slot_id.''))\<close>

text \<open>The loop over the targets; it stops at the first that fails.\<close>

fun send_each ::
  "'j value_ops \<Rightarrow> ('j, 'st) team_service \<Rightarrow> ident \<Rightarrow> string \<Rightarrow> string list \<Rightarrow> ident list
     \<Rightarrow> ('j, queue_result list, 'st) tool_act" where
  "send_each vo sv caller message files [] = tool_ok []"
| "send_each vo sv caller message files (target # targets) =
     tool_try vo (ts_send sv caller target message (Some files)) (\<lambda>result.
     and_then (send_each vo sv caller message files targets) (\<lambda>rest.
     return_ok (map_sum id (\<lambda>results. result # results) rest)))"

definition shutdown_approved ::
  "('j, 's, 'c, 'w, 'p) tool_env \<Rightarrow> ident \<Rightarrow> ('j, string, ('j, 's, 'c, 'w, 'p) session) tool_act" where
  "shutdown_approved xe caller =
     and_then (modify (\<lambda>se. se\<lparr>se_removals := se_removals se @ [caller]\<rparr>)) (\<lambda>_.
     tool_ok (tj_to_string (xe_json xe)
       (jv_obj (xe_values xe) [(''status'', jv_str (xe_values xe) ''shutdown_approved_received'')])))"

definition shutdown_rejected ::
  "('j, 's, 'c, 'w, 'p) tool_env \<Rightarrow> ident \<Rightarrow> string \<Rightarrow> ('j, string, ('j, 's, 'c, 'w, 'p) session) tool_act" where
  "shutdown_rejected xe caller reason =
     tool_try (xe_values xe) (on_manager (notify_shutdown_rejected (en_team (xe_session xe)) caller reason)) (\<lambda>_.
     and_then (case xe_service xe of None \<Rightarrow> return_ok ()
               | Some sv \<Rightarrow> ignoring (ts_wake_leader sv caller ShutdownRejected)) (\<lambda>_.
     tool_ok (tj_to_string (xe_json xe) (jv_obj (xe_values xe)
       [(''status'', jv_str (xe_values xe) ''ok''), (''action'', jv_str (xe_values xe) ''shutdown_rejected''),
        (''reason'', jv_str (xe_values xe) reason)]))))"

definition deliver_message ::
  "('j, 's, 'c, 'w, 'p) tool_env \<Rightarrow> ident \<Rightarrow> send_message_input \<Rightarrow> ident
     \<Rightarrow> ('j, string, ('j, 's, 'c, 'w, 'p) session) tool_act" where
  "deliver_message xe caller input resolved_to =
     with_service xe ''Team service not available; cannot wake target'' (\<lambda>sv.
     and_then session_agents (\<lambda>agents.
     let targets = (if resolved_to = ''*'' then map ta_slot_id (filter (\<lambda>a. ta_slot_id a \<noteq> caller) agents)
                    else [resolved_to])
     in and_then (send_each (xe_values xe) sv caller (si_message input) (si_files input) targets) (\<lambda>sent.
        (case sent of
           Inl e \<Rightarrow> return_ok (Inl e)
         | Inr results \<Rightarrow>
           (case build_send_message_queued_response results of
              Inl e \<Rightarrow> tool_error (xe_values xe) e
            | Inr r \<Rightarrow> tool_ok (tj_to_string (xe_json xe) (queued_response_json (xe_values xe) r)))))))"

definition exec_send_message ::
  "('j, 's, 'c, 'w, 'p) tool_env \<Rightarrow> 'j \<Rightarrow> ident \<Rightarrow> ('j, string, ('j, 's, 'c, 'w, 'p) session) tool_act" where
  "exec_send_message xe args caller =
     tool_input (xe_json xe) ''SendMessageInput'' args (send_message_input_of (xe_json xe) args) (\<lambda>input.
     let trimmed = xe_trim xe (si_message input)
     in if trimmed = ''shutdown_approved'' then shutdown_approved xe caller
        else if is_prefix ''shutdown_rejected:'' trimmed
        then shutdown_rejected xe caller (xe_trim xe (drop (length ''shutdown_rejected:'') trimmed))
        else if si_to input = ''*'' then deliver_message xe caller input ''*''
        else and_then (gets (resolve_agent_target (si_to input) True)) (\<lambda>resolved.
          case resolved of
            Inl e \<Rightarrow> tool_error (xe_values xe) e
          | Inr target \<Rightarrow> deliver_message xe caller input target))"


subsection \<open>The task board\<close>

definition exec_task_create ::
  "('j, 's, 'c, 'w, 'p) tool_env \<Rightarrow> 'j \<Rightarrow> ('j, string, ('j, 's, 'c, 'w, 'p) session) tool_act" where
  "exec_task_create xe args =
     tool_input (xe_json xe) ''TaskCreateInput'' args (task_create_input_of (xe_json xe) args) (\<lambda>input.
     tool_try (xe_values xe)
       (on_manager (manager_create_task (en_team (xe_session xe)) (ci_subject input) (ci_description input)
          (ci_owner input) (case ci_blocked_by input of None \<Rightarrow> [] | Some ids \<Rightarrow> ids))) (\<lambda>task.
     json_text (xe_json xe) (jv_obj (xe_values xe)
       [(''status'', jv_str (xe_values xe) ''ok''), (''task'', task_json (xe_values xe) task)])))"

definition exec_task_update ::
  "('j, 's, 'c, 'w, 'p) tool_env \<Rightarrow> 'j \<Rightarrow> ('j, string, ('j, 's, 'c, 'w, 'p) session) tool_act" where
  "exec_task_update xe args =
     tool_input (xe_json xe) ''TaskUpdateInput'' args (task_update_input_of (xe_json xe) args) (\<lambda>input.
     tool_try (xe_values xe)
       (on_manager (manager_update_task (en_team (xe_session xe)) (ui_task_id input) (ui_status input)
          (ui_description input) (ui_owner input) (ui_blocked_by input))) (\<lambda>task.
     json_text (xe_json xe) (jv_obj (xe_values xe)
       [(''status'', jv_str (xe_values xe) ''ok''), (''task'', task_json (xe_values xe) task)])))"

definition MAX_TASK_LIST_LIMIT :: nat where
  "MAX_TASK_LIST_LIMIT = 200"

record task_list_filters =
  tf_owner :: "ident option"
  tf_statuses :: "task_status list option"
  tf_include_deleted :: bool
  tf_limit :: "nat option"

definition parse_task_status_arg :: "string \<Rightarrow> string + task_status" where
  "parse_task_status_arg status =
     (case task_status_parse status of
        None \<Rightarrow> Inl (''Invalid params: unsupported task status '' @ quote @ status @ quote)
      | Some st \<Rightarrow> Inr st)"

fun parse_statuses :: "string list \<Rightarrow> string + task_status list" where
  "parse_statuses [] = Inr []"
| "parse_statuses (s # ss) =
     (case parse_task_status_arg s of
        Inl e \<Rightarrow> Inl e
      | Inr st \<Rightarrow> map_sum id (\<lambda>sts. st # sts) (parse_statuses ss))"

definition parse_status_filter :: "task_list_status_input option \<Rightarrow> string + task_status list option" where
  "parse_status_filter status =
     (case status of
        None \<Rightarrow> Inr None
      | Some (SingleStatus s) \<Rightarrow> map_sum id (\<lambda>st. Some [st]) (parse_task_status_arg s)
      | Some (ManyStatuses ss) \<Rightarrow>
        if ss = [] then Inl ''Invalid params: status must not be empty''
        else map_sum id Some (parse_statuses ss))"

definition parse_task_list_filters :: "'j tool_json \<Rightarrow> 'j \<Rightarrow> string + task_list_filters" where
  "parse_task_list_filters tj args =
     (case task_list_input_of tj args of
        None \<Rightarrow> Inl (''Invalid params: '' @ tj_de_error tj ''TaskListInput'' args)
      | Some input \<Rightarrow>
        (case parse_status_filter (li_status input) of
           Inl e \<Rightarrow> Inl e
         | Inr statuses \<Rightarrow>
           (case li_limit input of
              Some n \<Rightarrow>
                if n \<le> 0 then Inl ''Invalid params: limit must be greater than 0''
                else Inr \<lparr>tf_owner = li_owner input, tf_statuses = statuses,
                          tf_include_deleted = (case li_include_deleted input of None \<Rightarrow> True | Some b \<Rightarrow> b),
                          tf_limit = Some (min (nat n) MAX_TASK_LIST_LIMIT)\<rparr>
            | None \<Rightarrow>
                Inr \<lparr>tf_owner = li_owner input, tf_statuses = statuses,
                     tf_include_deleted = (case li_include_deleted input of None \<Rightarrow> True | Some b \<Rightarrow> b),
                     tf_limit = None\<rparr>)))"

definition listed_by :: "task_list_filters \<Rightarrow> 'j team_task \<Rightarrow> bool" where
  "listed_by f task \<longleftrightarrow>
     (case tf_owner f of Some owner \<Rightarrow> tt_owner task = Some owner | None \<Rightarrow> True) \<and>
     (case tf_statuses f of Some sts \<Rightarrow> tt_status task \<in> set sts
      | None \<Rightarrow> tf_include_deleted f \<or> tt_status task \<noteq> TkDeleted)"

definition select_tasks :: "task_list_filters \<Rightarrow> 'j team_task list \<Rightarrow> 'j team_task list" where
  "select_tasks f tasks =
     (let listed = filter (listed_by f) tasks in case tf_limit f of None \<Rightarrow> listed | Some n \<Rightarrow> take n listed)"

definition exec_task_list ::
  "('j, 's, 'c, 'w, 'p) tool_env \<Rightarrow> 'j \<Rightarrow> ('j, string, ('j, 's, 'c, 'w, 'p) session) tool_act" where
  "exec_task_list xe args =
     (case parse_task_list_filters (xe_json xe) args of
        Inl e \<Rightarrow> tool_error (xe_values xe) e
      | Inr filters \<Rightarrow>
        tool_try (xe_values xe) (\<lambda>se. Some (manager_list_tasks (en_team (xe_session xe)) (se_manager se), se)) (\<lambda>tasks.
        json_text (xe_json xe) (jv_arr (xe_values xe)
          (map (listed_task_json (xe_values xe)) (select_tasks filters tasks)))))"

subsection \<open>The members\<close>

definition exec_members ::
  "('j, 's, 'c, 'w, 'p) tool_env \<Rightarrow> ('j, string, ('j, 's, 'c, 'w, 'p) session) tool_act" where
  "exec_members xe =
     and_then session_agents (\<lambda>agents.
     json_text (xe_json xe) (jv_arr (xe_values xe)
       (map (agent_json (xe_values xe))
          (sort_key (\<lambda>a. if ta_role a = Lead then 0 else (1 :: nat)) agents))))"

definition agent_answer ::
  "('j, 's, 'c, 'w, 'p) tool_env \<Rightarrow> string \<Rightarrow> team_agent \<Rightarrow> 'j" where
  "agent_answer xe action agent =
     jv_obj (xe_values xe)
       [(''status'', jv_str (xe_values xe) ''ok''), (''action'', jv_str (xe_values xe) action),
        (''agent'', agent_json (xe_values xe) agent)]"

definition given :: "'j value_ops \<Rightarrow> string \<Rightarrow> 'j \<Rightarrow> bool" where \<comment> \<open>\<open>args.get(key).is_some()\<close>\<close>
  "given vo key args \<longleftrightarrow> jv_get vo key args \<noteq> None"

definition exec_spawn_agent ::
  "('j, 's, 'c, 'w, 'p) tool_env \<Rightarrow> 'j \<Rightarrow> ident \<Rightarrow> teammate_role
     \<Rightarrow> ('j, string, ('j, 's, 'c, 'w, 'p) session) tool_act" where
  "exec_spawn_agent xe args caller caller_role =
     (let vo = xe_values xe
      in if caller_role \<noteq> Lead then tool_error vo ''Only Lead can spawn agents''
         else if given vo ''backend'' args then tool_error vo (no_longer_accepted ''backend'')
         else if given vo ''agent_type'' args then tool_error vo (no_longer_accepted ''agent_type'')
         else if given vo ''model'' args then tool_error vo model_no_longer_accepted
         else tool_input (xe_json xe) ''SpawnAgentInput'' args (spawn_agent_input_of (xe_json xe) args) (\<lambda>input.
           case map_option (xe_trim xe) (pi_assistant_id input) of
             None \<Rightarrow> tool_error vo ''Missing required field: assistant_id''
           | Some assistant_id \<Rightarrow>
             if assistant_id = [] then tool_error vo ''Missing required field: assistant_id''
             else with_service xe ''Team service not available; cannot spawn agent'' (\<lambda>sv.
               tool_try vo (and_then (ts_spawn sv caller \<lparr>sr_name = pi_name input, sr_assistant_id = Some assistant_id\<rparr>) (\<lambda>agent.
                 from_result (map_err Json (tj_pretty (xe_json xe) (agent_answer xe ''agent_spawned'' agent))))) tool_ok)))"

definition exec_rename_agent ::
  "('j, 's, 'c, 'w, 'p) tool_env \<Rightarrow> 'j \<Rightarrow> ident \<Rightarrow> ('j, string, ('j, 's, 'c, 'w, 'p) session) tool_act" where
  "exec_rename_agent xe args team_id =
     (let vo = xe_values xe
      in tool_input (xe_json xe) ''RenameAgentInput'' args (rename_agent_input_of (xe_json xe) args) (\<lambda>input.
         and_then (gets (resolve_agent_target (ri_slot_id input) False)) (\<lambda>resolved.
         case resolved of
           Inl e \<Rightarrow> tool_error vo e
         | Inr slot_id \<Rightarrow>
           and_then (case xe_service xe of
                       Some sv \<Rightarrow>
                         and_then (gets (ts_user_id sv)) (\<lambda>user_id.
                         case user_id of
                           None \<Rightarrow> tool_error vo (''No active session for team '' @ team_id)
                         | Some user \<Rightarrow> tool_try vo (ts_rename sv user slot_id (ri_new_name input)) tool_ok)
                     | None \<Rightarrow>
                         tool_try vo (on_manager (rename_agent (te_unicode (en_team (xe_session xe))) slot_id
                           (ri_new_name input))) tool_ok) (\<lambda>renamed.
           case renamed of
             Inl e \<Rightarrow> return_ok (Inl e)
           | Inr _ \<Rightarrow>
             tool_try vo (session_get_agent slot_id) (\<lambda>agent.
             json_text (xe_json xe) (agent_answer xe ''agent_renamed'' agent))))))"

definition exec_shutdown_agent ::
  "('j, 's, 'c, 'w, 'p) tool_env \<Rightarrow> 'j \<Rightarrow> ident \<Rightarrow> teammate_role
     \<Rightarrow> ('j, string, ('j, 's, 'c, 'w, 'p) session) tool_act" where
  "exec_shutdown_agent xe args caller caller_role =
     (let vo = xe_values xe
      in if caller_role \<noteq> Lead then tool_error vo ''Only Lead can shut down agents''
         else tool_input (xe_json xe) ''ShutdownAgentInput'' args (shutdown_agent_input_of (xe_json xe) args) (\<lambda>input.
           and_then (gets (resolve_agent_target (hi_slot_id input) False)) (\<lambda>resolved.
           case resolved of
             Inl e \<Rightarrow> tool_error vo e
           | Inr target \<Rightarrow>
             with_service xe ''Team service not available; cannot wake shutdown target'' (\<lambda>sv.
             tool_try vo (ts_shutdown sv caller target (hi_reason input)) (\<lambda>_.
             json_text (xe_json xe) (jv_obj vo
               [(''status'', jv_str vo ''ok''), (''action'', jv_str vo ''shutdown_requested''),
                (''target_slot_id'', jv_str vo target), (''reason'', jv_opt_str vo (hi_reason input))]))))))"

subsection \<open>Assistants\<close>

definition exec_list_assistants ::
  "('j, 's, 'c, 'w, 'p) tool_env \<Rightarrow> 'j \<Rightarrow> ('j, string, ('j, 's, 'c, 'w, 'p) session) tool_act" where
  "exec_list_assistants xe args =
     (if (case jv_as_object (xe_values xe) args of None \<Rightarrow> [] | Some props \<Rightarrow> props) \<noteq> []
      then tool_error (xe_values xe) ''team_list_assistants does not accept arguments''
      else with_service xe ''Team service not available'' (\<lambda>sv.
        json_text (xe_json xe) (jv_obj (xe_values xe) [(''assistants'', ts_assistants sv)])))"

definition exec_describe_assistant ::
  "('j, 's, 'c, 'w, 'p) tool_env \<Rightarrow> 'j \<Rightarrow> ('j, string, ('j, 's, 'c, 'w, 'p) session) tool_act" where
  "exec_describe_assistant xe args =
     (let vo = xe_values xe
      in if given vo ''custom_agent_id'' args then tool_error vo (no_longer_accepted ''custom_agent_id'')
         else case map_option (xe_trim xe) (Option.bind (jv_get vo ''assistant_id'' args) (jv_as_str vo)) of
           None \<Rightarrow> tool_error vo ''Missing required field: assistant_id''
         | Some assistant_id \<Rightarrow>
           if assistant_id = [] then tool_error vo ''Missing required field: assistant_id''
           else with_service xe ''Team service not available'' (\<lambda>sv.
             tool_try vo (from_result (ts_describe sv assistant_id
               (Option.bind (jv_get vo ''locale'' args) (jv_as_str vo)))) tool_ok))"

subsection \<open>Dispatch\<close>

definition run_tool ::
  "('j, 's, 'c, 'w, 'p) tool_env \<Rightarrow> string \<Rightarrow> 'j \<Rightarrow> ident \<Rightarrow> ident \<Rightarrow> teammate_role
     \<Rightarrow> ('j, string, ('j, 's, 'c, 'w, 'p) session) tool_act" where
  "run_tool xe tool_name args team_id caller caller_role =
     (if tool_name = ''team_send_message'' then exec_send_message xe args caller
      else if tool_name = ''team_spawn_agent'' then exec_spawn_agent xe args caller caller_role
      else if tool_name = ''team_task_create'' then exec_task_create xe args
      else if tool_name = ''team_task_update'' then exec_task_update xe args
      else if tool_name = ''team_task_list'' then exec_task_list xe args
      else if tool_name = ''team_members'' then exec_members xe
      else if tool_name = ''team_rename_agent'' then exec_rename_agent xe args team_id
      else if tool_name = ''team_shutdown_agent'' then exec_shutdown_agent xe args caller caller_role
      else if tool_name = ''team_list_assistants'' then exec_list_assistants xe args
      else if tool_name = ''team_describe_assistant'' then exec_describe_assistant xe args
      else tool_error (xe_values xe) (''Unknown tool: '' @ tool_name))"

definition dispatch_tool ::
  "('j, 's, 'c, 'w, 'p) tool_env \<Rightarrow> string \<Rightarrow> 'j \<Rightarrow> ident \<Rightarrow> ident \<Rightarrow> teammate_role
     \<Rightarrow> ('j, string, ('j, 's, 'c, 'w, 'p) session) tool_act" where
  "dispatch_tool xe tool_name args team_id caller caller_role =
     (case authorize_tool (xe_values xe) caller_role tool_name of
        Some e \<Rightarrow> tool_error (xe_values xe) e
      | None \<Rightarrow> run_tool xe tool_name args team_id caller caller_role)"

subsection \<open>The executor (tool_executor.rs)\<close>

record tool_context =
  tx_team_id :: ident
  tx_caller_slot_id :: ident
  tx_caller_role :: teammate_role
  tx_user_id :: "ident option"
  tx_conversation_id :: "ident option"
  tx_transport :: tool_transport

record 'j tool_call =
  tc_tool :: tool_name
  tc_arguments :: 'j

definition team_tool_call_from_name :: "string \<Rightarrow> 'j \<Rightarrow> 'j tool_error_payload + 'j tool_call" where
  "team_tool_call_from_name name args =
     (case tool_name_parse name of
        None \<Rightarrow> Inl \<lparr>tep_code = UnknownTool, tep_message = ''Unknown tool: '' @ name, tep_details = None\<rparr>
      | Some tool \<Rightarrow> Inr \<lparr>tc_tool = tool, tc_arguments = args\<rparr>)"

definition list_tools :: "('j, 's, 'c, 'w, 'p) tool_env \<Rightarrow> tool_context \<Rightarrow> 'j tool_descriptor list" where
  "list_tools xe context = team_tool_descriptors_for_role (xe_values xe) (tool_role_of (tx_caller_role context))"

definition text_value :: "'j tool_json \<Rightarrow> string \<Rightarrow> 'j" where
  "text_value tj text = (case tj_from_str tj text of Inl _ \<Rightarrow> jv_str (tj_values tj) text | Inr v \<Rightarrow> v)"

definition execute_tool ::
  "('j, 's, 'c, 'w, 'p) tool_env \<Rightarrow> tool_context \<Rightarrow> 'j tool_call
     \<Rightarrow> ('j tool_error_payload + 'j, ('j, 's, 'c, 'w, 'p) session) act" where
  "execute_tool xe context call =
     and_then (dispatch_tool xe (tool_name_str (tc_tool call)) (tc_arguments call) (tx_team_id context)
                 (tx_caller_slot_id context) (tx_caller_role context)) (\<lambda>r.
     return_ok (map_sum map_tool_error (text_value (xe_json xe)) r))"

end
