(* ===== verification/Team_Service.thy ===== *)
theory Team_Service
  imports Tool_Executor
begin

text \<open>
  The team session service (crates/team/src/service.rs) as one team sees it: the row of the
  team, its group history, its session, and the methods of the service that work on them.

  The state is that of the session object. \<open>se_published\<close> says whether the service lists it;
  the row and the history are in the repository the session shares with the service
  (\<open>rows\<close> are the operations of \<open>ITeamRepository\<close> the service calls). The worker tasks, the
  start of processes and the JSON text of agents and metadata are in \<open>service_env\<close>. The locks per
  team make each method one sequence of steps.
\<close>

subsection \<open>What the service takes from outside\<close>

record 's team_rows =
  rows_get :: "ident \<Rightarrow> 's \<Rightarrow> db_error + team_row option"
  rows_update :: "timestamp \<Rightarrow> ident \<Rightarrow> update_team_params \<Rightarrow> 's \<Rightarrow> (db_error + unit) \<times> 's"
  rows_archive :: "timestamp \<Rightarrow> timestamp \<Rightarrow> ident \<Rightarrow> 's \<Rightarrow> (db_error + unit) \<times> 's"
  rows_delete :: "ident \<Rightarrow> 's \<Rightarrow> (db_error + unit) \<times> 's"
  rows_delete_tasks :: "ident \<Rightarrow> 's \<Rightarrow> (db_error + unit) \<times> 's"
  rows_update_summary :: "ident \<Rightarrow> string \<Rightarrow> 's \<Rightarrow> (db_error + unit) \<times> 's"

definition memory_rows :: "memory_state team_rows" where
  "memory_rows =
     \<lparr>rows_get = mem_get_team, rows_update = mem_update_team, rows_archive = mem_archive_team,
      rows_delete = mem_delete_team, rows_delete_tasks = mem_delete_tasks_by_team,
      rows_update_summary = mem_update_message_summary\<rparr>"

record group_metadata =
  md_kind :: group_message_kind
  md_sender_name :: "string option"
  md_target_slot_ids :: "ident list"
  md_deliveries :: "group_delivery list"

text \<open>
  \<open>ve_has_task\<close> is \<open>task_manager.get_task(..).is_some()\<close> in the state given; \<open>ve_attach\<close> how the start
  of a process goes when this call starts it, \<open>ve_waited\<close> what a start or removal that another
  call owns ends with; \<open>ve_rebuild\<close> the outcomes of starting all processes of a new session, in the
  order in which they end; \<open>ve_start\<close> the error of \<open>TeamSession::start\<close>, if any.
\<close>

record ('j, 's, 'c, 'w, 'p) service_env =
  ve_session :: "('j, 's, 'c, 'w, 'p) session_env"
  ve_rows :: "'s team_rows"
  ve_agents_of :: "string \<Rightarrow> string + team_agent list"
  ve_agents_to :: "team_agent list \<Rightarrow> string + string"
  ve_metadata_of :: "string \<Rightarrow> string + group_metadata"
  ve_metadata_to :: "group_metadata \<Rightarrow> string + string"
  ve_has_task :: "ident \<Rightarrow> ('j, 's, 'c, 'w, 'p) session \<Rightarrow> bool"
  ve_attach :: "team_agent \<Rightarrow> ('j, 's, 'c, 'w, 'p) session attach_world"
  ve_waited :: "'c attach_waiter \<Rightarrow> ('j, 's, 'c, 'w, 'p) session \<Rightarrow> attach_outcome"
  ve_spawn :: "('j, 's, 'c, 'w, 'p) session spawn_world"
  ve_rebuild :: "team_agent list \<Rightarrow> (team_agent \<times> team_error option) list"
  ve_start :: "team_error option"
  ve_assistants :: 'j
  ve_describe :: "string \<Rightarrow> string option \<Rightarrow> team_error + string"

subsection \<open>The row of the team\<close>

definition on_store ::
  "('s \<Rightarrow> (db_error + 'a) \<times> 's) \<Rightarrow> ('a, ('j, 's, 'c, 'w, 'p) session) act" where
  "on_store f = on_manager (\<lambda>m. case f (sm_store m) of (r, store) \<Rightarrow> (map_err Database r, m\<lparr>sm_store := store\<rparr>))"

definition get_team_row ::
  "('j, 's, 'c, 'w, 'p) service_env \<Rightarrow> ident \<Rightarrow> (team_row option, ('j, 's, 'c, 'w, 'p) session) act" where
  "get_team_row ve team_id se = Some (map_err Database (rows_get (ve_rows ve) team_id (sm_store (se_manager se))), se)"

definition team_of_row ::
  "('j, 's, 'c, 'w, 'p) service_env \<Rightarrow> team_row \<Rightarrow> (team, ('j, 's, 'c, 'w, 'p) session) act" where
  "team_of_row ve row = from_result (map_err Json (team_from_row (ve_agents_of ve) row))"

definition load_owned_team_including_archived ::
  "('j, 's, 'c, 'w, 'p) service_env \<Rightarrow> ident \<Rightarrow> ident \<Rightarrow> (team, ('j, 's, 'c, 'w, 'p) session) act" where
  "load_owned_team_including_archived ve user_id team_id =
     and_then (get_team_row ve team_id) (\<lambda>found.
     and_then (ok_or (TeamNotFound team_id) found) (\<lambda>row.
     if tr_user_id row \<noteq> user_id
     then throw (Forbidden (''team '' @ team_id @ '' is not owned by current user''))
     else team_of_row ve row))"

definition load_owned_team ::
  "('j, 's, 'c, 'w, 'p) service_env \<Rightarrow> ident \<Rightarrow> ident \<Rightarrow> (team, ('j, 's, 'c, 'w, 'p) session) act" where
  "load_owned_team ve user_id team_id =
     and_then (load_owned_team_including_archived ve user_id team_id) (\<lambda>team.
     if tm_archived_at team \<noteq> None then throw (InvalidRequest (''team '' @ team_id @ '' is archived''))
     else return_ok team)"

definition update_team ::
  "('j, 's, 'c, 'w, 'p) service_env \<Rightarrow> ident \<Rightarrow> update_team_params \<Rightarrow> (unit, ('j, 's, 'c, 'w, 'p) session) act" where
  "update_team ve team_id params =
     and_then draw (\<lambda>n. on_store (rows_update (ve_rows ve) (en_now (ve_session ve) n) team_id params))"

definition save_agents ::
  "('j, 's, 'c, 'w, 'p) service_env \<Rightarrow> ident \<Rightarrow> team_agent list \<Rightarrow> (unit, ('j, 's, 'c, 'w, 'p) session) act" where
  "save_agents ve team_id agents =
     and_then (from_result (map_err Json (ve_agents_to ve agents))) (\<lambda>agents_json.
     update_team ve team_id (no_update\<lparr>ut_agents := Some agents_json\<rparr>))"

definition find_slot :: "ident \<Rightarrow> team_agent list \<Rightarrow> team_agent option" where
  "find_slot slot_id agents = find (\<lambda>a. ta_slot_id a = slot_id) agents"

text \<open>\<open>self.sessions.get(team_id)\<close>\<close>

definition has_session :: "ident \<Rightarrow> ('j, 's, 'c, 'w, 'p) session \<Rightarrow> bool" where
  "has_session team_id se \<longleftrightarrow> se_published se \<and> sm_team_id (se_manager se) = team_id"

definition need_session :: "team_error \<Rightarrow> ident \<Rightarrow> (unit, ('j, 's, 'c, 'w, 'p) session) act" where
  "need_session e team_id =
     and_then (gets (has_session team_id)) (\<lambda>found. if found then return_ok () else throw e)"

definition get_session_user_id ::
  "('j, 's, 'c, 'w, 'p) service_env \<Rightarrow> ident \<Rightarrow> ('j, 's, 'c, 'w, 'p) session \<Rightarrow> ident option" where
  "get_session_user_id ve team_id se = (if has_session team_id se then Some (en_user_id (ve_session ve)) else None)"

subsection \<open>Bringing members' runtimes up\<close>

record 'c reconcile_work =
  rw_agent :: team_agent
  rw_waiter :: "'c attach_waiter"
  rw_owner :: "'c attach_lease option"

definition reservation_for ::
  "('j, 's, 'c, 'w, 'p) service_env \<Rightarrow> team_agent \<Rightarrow> ('c reserve_attach_reply, ('j, 's, 'c, 'w, 'p) session) act" where
  "reservation_for ve agent =
     and_then (gets (\<lambda>se. member_snapshot_of (ta_slot_id agent) (se_runtimes se))) (\<lambda>snap.
     and_then (gets (ve_has_task ve (ta_conversation_id agent))) (\<lambda>has_task.
     if snap = SnapReady \<and> \<not> has_task
     then on_runtimes (reserve_repair (en_watch (ve_session ve)) (ta_slot_id agent))
     else if snap = SnapReady then return_ok AttachAlreadyReady
     else on_runtimes (reserve_attach (en_watch (ve_session ve)) (ta_slot_id agent) True)))"

text \<open>The loop over the agents; \<open>scheduler_slots\<close> was read before it.\<close>

fun reserve_each ::
  "('j, 's, 'c, 'w, 'p) service_env \<Rightarrow> ident set \<Rightarrow> team_agent list
     \<Rightarrow> ('c reconcile_work list, ('j, 's, 'c, 'w, 'p) session) act" where
  "reserve_each ve scheduler_slots [] = return_ok []"
| "reserve_each ve scheduler_slots (agent # agents) =
     and_then (when_so (ta_slot_id agent \<notin> scheduler_slots) (session_add_agent agent)) (\<lambda>_.
     and_then (reservation_for ve agent) (\<lambda>reservation.
     let waiting = (\<lambda>aw. and_then (reserve_each ve scheduler_slots agents) (\<lambda>work.
                      return_ok (\<lparr>rw_agent = agent, rw_waiter = aw, rw_owner = None\<rparr> # work)))
     in case reservation of
          AttachStart owner \<Rightarrow>
            and_then (emit_status (EvAgentRuntimePending (ta_slot_id agent) (ta_conversation_id agent))) (\<lambda>_.
            and_then (reserve_each ve scheduler_slots agents) (\<lambda>work.
            return_ok (\<lparr>rw_agent = agent, rw_waiter = al_waiter owner, rw_owner = Some owner\<rparr> # work)))
        | AttachJoin aw \<Rightarrow> waiting aw
        | AttachRemoving aw \<Rightarrow> waiting aw
        | AttachAlreadyReady \<Rightarrow> reserve_each ve scheduler_slots agents
        | AttachSessionStopped \<Rightarrow> throw (InvalidRequest ''team session stopped during reconciliation reservation'')))"

definition reserve_member_runtime_reconciliation ::
  "('j, 's, 'c, 'w, 'p) service_env \<Rightarrow> team_agent list
     \<Rightarrow> ('c reconcile_work list, ('j, 's, 'c, 'w, 'p) session) act" where
  "reserve_member_runtime_reconciliation ve agents =
     and_then session_agents (\<lambda>members. reserve_each ve (set (map ta_slot_id members)) agents)"

text \<open>
  The attaches this call owns run to their end, then every waiter has its outcome: that of
  an attach of its own is in the registry, that of another call's is \<open>ve_waited\<close>.
\<close>

definition attach_owned ::
  "('j, 's, 'c, 'w, 'p) service_env \<Rightarrow> 'c reconcile_work list \<Rightarrow> (unit, ('j, 's, 'c, 'w, 'p) session) act" where
  "attach_owned ve =
     run_all (\<lambda>item. case rw_owner item of
         None \<Rightarrow> return_ok ()
       | Some owner \<Rightarrow>
         and_then (attach_member_runtime (ve_session ve) (ve_attach ve (rw_agent item)) (rw_agent item) owner) (\<lambda>_. return_ok ()))"

definition outcome_of ::
  "('j, 's, 'c, 'w, 'p) service_env \<Rightarrow> ('j, 's, 'c, 'w, 'p) session \<Rightarrow> 'c reconcile_work \<Rightarrow> attach_outcome" where
  "outcome_of ve se item =
     (case wait_poll (en_watch (ve_session ve)) (se_runtimes se) (rw_waiter item) of
        Some outcome \<Rightarrow> outcome
      | None \<Rightarrow> ve_waited ve (rw_waiter item) se)"

fun check_outcomes ::
  "ident \<Rightarrow> ident set \<Rightarrow> (team_agent \<times> attach_outcome) list \<Rightarrow> (unit, ('j, 's, 'c, 'w, 'p) session) act" where
  "check_outcomes team_id current_slots [] = return_ok ()"
| "check_outcomes team_id current_slots ((agent, outcome) # outcomes) =
     (if ta_slot_id agent \<notin> current_slots then check_outcomes team_id current_slots outcomes
      else case outcome of
        OutReady \<Rightarrow> check_outcomes team_id current_slots outcomes
      | OutRemoved \<Rightarrow> check_outcomes team_id current_slots outcomes
      | OutFailed failure \<Rightarrow>
          and_then (emit_status (EvSessionFailed AttachingAgents (mf_public_reason failure))) (\<lambda>_.
          throw (MemberRuntimeFailed team_id (ta_slot_id agent) (ta_conversation_id agent) (mf_public_reason failure)))
      | OutSessionStopped \<Rightarrow> throw (InvalidRequest ''team session stopped during reconciliation''))"

definition complete_member_runtime_reconciliation ::
  "('j, 's, 'c, 'w, 'p) service_env \<Rightarrow> ident \<Rightarrow> 'c reconcile_work list \<Rightarrow> (unit, ('j, 's, 'c, 'w, 'p) session) act" where
  "complete_member_runtime_reconciliation ve team_id work =
     and_then (gets (has_session team_id)) (\<lambda>published.
     and_then (when_so (work \<noteq> [] \<and> published) (emit_status (EvSessionStarting AttachingAgents))) (\<lambda>_.
     and_then (attach_owned ve work) (\<lambda>_.
     and_then (gets (\<lambda>se. map (\<lambda>item. (rw_agent item, outcome_of ve se item)) work)) (\<lambda>outcomes.
     and_then (get_team_row ve team_id) (\<lambda>found.
     and_then (ok_or (TeamNotFound team_id) found) (\<lambda>row.
     and_then (team_of_row ve row) (\<lambda>team.
     and_then (need_session (SessionNotFound team_id) team_id) (\<lambda>_.
     and_then (check_outcomes team_id (set (map ta_slot_id (tm_agents team))) outcomes) (\<lambda>_.
     emit_status (EvSessionReady (length (tm_agents team))))))))))))"

definition ensure_existing_agent_runtime ::
  "('j, 's, 'c, 'w, 'p) service_env \<Rightarrow> ident \<Rightarrow> ident \<Rightarrow> (unit, ('j, 's, 'c, 'w, 'p) session) act" where
  "ensure_existing_agent_runtime ve team_id slot_id =
     and_then (get_team_row ve team_id) (\<lambda>found.
     and_then (ok_or (TeamNotFound team_id) found) (\<lambda>row.
     and_then (team_of_row ve row) (\<lambda>team.
     and_then (ok_or (AgentNotFound slot_id) (find_slot slot_id (tm_agents team))) (\<lambda>agent.
     and_then (need_session (SessionNotFound team_id) team_id) (\<lambda>_.
     and_then (reserve_member_runtime_reconciliation ve [agent]) (\<lambda>work.
     complete_member_runtime_reconciliation ve team_id work))))))"

subsection \<open>Methods on the running session\<close>

text \<open>
  The methods of the team session service (crates/team/src/service.rs): starting and stopping
  the session of a team, the messages of its user and of its agents, the group history, and
  the changes to the team itself.
\<close>

subsection \<open>Starting a session\<close>

text \<open>
  A new session over the same repository and conversations. What was sent to the outside
  (events, cancellations, processes ended) stays recorded, and no id is drawn twice.
\<close>

definition renewed_session ::
  "('j, 's, 'c, 'w, 'p) session_env \<Rightarrow> team \<Rightarrow> ('j, 's, 'c, 'w, 'p) session \<Rightarrow> ('j, 's, 'c, 'w, 'p) session" where
  "renewed_session env team se =
     (let new = session_start (tm_id team) (en_ids env (se_draws se)) (tm_agents team) (sm_store (se_manager se))
                  (mr_world (se_runtimes se)) (se_projection se)
      in new\<lparr>se_manager := (se_manager new)\<lparr>sm_events := sm_events (se_manager se), sm_draws := sm_draws (se_manager se)\<rparr>,
             se_runs := (fst (se_runs se), snd (se_runs new)), se_turn_events := se_turn_events se,
             se_cancels := se_cancels se, se_group_responses := se_group_responses se,
             se_status_events := se_status_events se, se_killed := se_killed se,
             se_deleted := se_deleted se, se_removals := se_removals se,
             se_draws := Suc (se_draws se)\<rparr>)"

definition start_session ::
  "('j, 's, 'c, 'w, 'p) service_env \<Rightarrow> team \<Rightarrow> (unit, ('j, 's, 'c, 'w, 'p) session) act" where
  "start_session ve team =
     (case ve_start ve of Some e \<Rightarrow> throw e | None \<Rightarrow> modify (renewed_session (ve_session ve) team))"

definition identity_text :: "team_agent \<Rightarrow> string" where \<comment> \<open>\<open>format_rebuild_agent_identity\<close>\<close>
  "identity_text agent =
     ta_name agent @ '' (backend='' @ ta_backend agent @ '', model='' @ ta_model agent @ '', role='' @
     role_display (ta_role agent) @ '', slot_id='' @ ta_slot_id agent @ '', conversation_id='' @
     ta_conversation_id agent @ '')''"

definition leads_first :: "team_agent list \<Rightarrow> team_agent list" where
  "leads_first = sort_key (\<lambda>a. if ta_role a = Lead then 0 else (1 :: nat))"

text \<open>
  Every process that was launched has an outcome in the end; if one failed, those that were
  attached are ended again.
\<close>

definition rebuild_agent_processes ::
  "('j, 's, 'c, 'w, 'p) service_env \<Rightarrow> team_agent list \<Rightarrow> (unit, ('j, 's, 'c, 'w, 'p) session) act" where
  "rebuild_agent_processes ve agents =
     (let outcomes = ve_rebuild ve (leads_first agents);
          launched = filter (\<lambda>a. a \<in> set (map fst outcomes)) (leads_first agents);
          failures = List.map_filter (\<lambda>(a, r). map_option (Pair a) r) outcomes;
          attached = map fst (filter (\<lambda>(a, r). r = None) outcomes)
      in and_then (run_all (\<lambda>a. emit_status (EvAgentRuntimePending (ta_slot_id a) (ta_conversation_id a))) launched) (\<lambda>_.
         case failures of
           [] \<Rightarrow> return_ok ()
         | (first, e) # _ \<Rightarrow>
           and_then (run_all (\<lambda>(a, err). emit_status (EvAgentRuntimeFailed (ta_slot_id a) (ta_conversation_id a)
                       (team_error_display err))) failures) (\<lambda>_.
           and_then (run_all (\<lambda>a. kill_and_wait (ta_conversation_id a)) attached) (\<lambda>_.
           throw (InvalidRequest (''failed to attach rebuilt agent: '' @ identity_text first @ '': '' @
                                    team_error_display e))))))"

fun loop_error_debug :: "loop_registration_error \<Rightarrow> string" where
  "loop_error_debug LoopDuplicate = ''Duplicate''"
| "loop_error_debug LoopStopped = ''Stopped''"

definition spawn_loop :: "ident \<Rightarrow> (unit, ('j, 's, 'c, 'w, 'p) session) act" where
  "spawn_loop slot_id se =
     (case loops_spawn slot_id (se_loops se) of (r, el) \<Rightarrow>
        Some (map_err (\<lambda>e. InvalidRequest (''failed to register bootstrap event loop for slot '' @ slot_id @ '': '' @
                loop_error_debug e)) r, se\<lparr>se_loops := el\<rparr>))"

definition spawn_event_loops :: "team_agent list \<Rightarrow> (unit, ('j, 's, 'c, 'w, 'p) session) act" where
  "spawn_event_loops = run_all (\<lambda>agent. spawn_loop (ta_slot_id agent))"

text \<open>\<open>agents.iter().any(|a| !seed_ready(a))\<close>: it stops at the first that cannot be seeded.\<close>

fun seed_all :: "ident list \<Rightarrow> (bool, ('j, 's, 'c, 'w, 'p) session) act" where
  "seed_all [] = return_ok True"
| "seed_all (slot_id # slot_ids) =
     and_then (on_runtimes (seed_ready slot_id)) (\<lambda>seeded. if seeded then seed_all slot_ids else return_ok False)"

definition cleanup_bootstrap_runtime_tasks :: "team_agent list \<Rightarrow> (unit, ('j, 's, 'c, 'w, 'p) session) act" where
  "cleanup_bootstrap_runtime_tasks = run_all (\<lambda>agent. kill_and_wait (ta_conversation_id agent))"

definition abandon_start ::
  "('j, 's, 'c, 'w, 'p) service_env \<Rightarrow> team_agent list \<Rightarrow> (unit, ('j, 's, 'c, 'w, 'p) session) act" where
  "abandon_start ve agents =
     and_then (session_stop (ve_session ve)) (\<lambda>_. cleanup_bootstrap_runtime_tasks agents)"

definition publish_session :: "(unit, ('j, 's, 'c, 'w, 'p) session) act" where
  "publish_session = modify (\<lambda>se. se\<lparr>se_published := True\<rparr>)"

definition bootstrap_session ::
  "('j, 's, 'c, 'w, 'p) service_env \<Rightarrow> team \<Rightarrow> (unit, ('j, 's, 'c, 'w, 'p) session) act" where
  "bootstrap_session ve team =
     (let agents = tm_agents team
      in and_then (emit_status (EvSessionStarting LoadingTeam)) (\<lambda>_.
         and_then (emit_status (EvSessionStarting StartingBridge)) (\<lambda>_.
         and_then (on_error (start_session ve team)
                     (\<lambda>e. emit_status (EvSessionFailed StartingBridge (team_error_display e)))) (\<lambda>_.
         and_then (emit_status (EvSessionStarting AttachingAgents)) (\<lambda>_.
         and_then (on_error (rebuild_agent_processes ve agents)
                     (\<lambda>e. and_then (emit_status (EvSessionFailed AttachingAgents (team_error_display e))) (\<lambda>_.
                          abandon_start ve agents))) (\<lambda>_.
         and_then (on_error (spawn_event_loops agents)
                     (\<lambda>e. and_then (abandon_start ve agents) (\<lambda>_.
                          emit_status (EvSessionFailed AttachingAgents (team_error_display e))))) (\<lambda>_.
         and_then (seed_all (map ta_slot_id agents)) (\<lambda>seeded.
         if \<not> seeded
         then and_then (abandon_start ve agents) (\<lambda>_.
                throw (InvalidRequest ''failed to seed bootstrap member runtime registry''))
         else
         and_then (run_all (\<lambda>a. and_then (session_constrain (ve_session ve) (ta_slot_id a) Ready) (\<lambda>_. return_ok ())) agents) (\<lambda>_.
         and_then publish_session (\<lambda>_.
         and_then (run_all (\<lambda>a. emit_status (EvAgentRuntimeReady (ta_slot_id a) (ta_conversation_id a))) agents) (\<lambda>_.
         and_then (emit_status (EvSessionStarting Recovering)) (\<lambda>_.
         and_then (ignoring (try_start_recovery_drain (ve_session ve))) (\<lambda>_.
         emit_status (EvSessionReady (length agents)))))))))))))))"

definition ensure_session_inner ::
  "('j, 's, 'c, 'w, 'p) service_env \<Rightarrow> ident \<Rightarrow> (unit, ('j, 's, 'c, 'w, 'p) session) act" where
  "ensure_session_inner ve team_id =
     and_then (on_error (get_team_row ve team_id)
                 (\<lambda>e. emit_status (EvSessionFailed LoadingTeam (team_error_display e)))) (\<lambda>found.
     and_then (on_error (ok_or (TeamNotFound team_id) found)
                 (\<lambda>_. emit_status (EvSessionFailed LoadingTeam (''team not found: '' @ team_id)))) (\<lambda>row.
     if tr_archived_at row \<noteq> None then throw (InvalidRequest (''team '' @ team_id @ '' is archived''))
     else
     and_then (team_of_row ve row) (\<lambda>team.
     and_then (gets (has_session team_id)) (\<lambda>running.
     if running
     then and_then (reserve_member_runtime_reconciliation ve (tm_agents team)) (\<lambda>work.
          complete_member_runtime_reconciliation ve team_id work)
     else bootstrap_session ve team))))"

text \<open>A team whose row is not read goes to the inner method, which waits for a lock and reads it again.\<close>

definition ensure_session ::
  "('j, 's, 'c, 'w, 'p) service_env \<Rightarrow> ident \<Rightarrow> ident \<Rightarrow> (unit, ('j, 's, 'c, 'w, 'p) session) act" where
  "ensure_session ve user_id team_id =
     and_then (attempt (get_team_row ve team_id)) (\<lambda>r.
     case r of
       Inr (Some row) \<Rightarrow>
         if tr_user_id row \<noteq> user_id
         then throw (Forbidden (''team '' @ team_id @ '' is not owned by current user''))
         else if tr_archived_at row \<noteq> None then return_ok ()
         else ensure_session_inner ve team_id
     | _ \<Rightarrow> and_then (others_run (ve_session ve)) (\<lambda>_. ensure_session_inner ve team_id))"

definition ensure_agent_session_inner ::
  "('j, 's, 'c, 'w, 'p) service_env \<Rightarrow> ident \<Rightarrow> ident \<Rightarrow> (unit, ('j, 's, 'c, 'w, 'p) session) act" where
  "ensure_agent_session_inner ve team_id slot_id =
     and_then (get_team_row ve team_id) (\<lambda>found.
     and_then (ok_or (TeamNotFound team_id) found) (\<lambda>row.
     and_then (team_of_row ve row) (\<lambda>team.
     and_then (ok_or (AgentNotFound slot_id) (find_slot slot_id (tm_agents team))) (\<lambda>agent.
     and_then (gets (has_session team_id)) (\<lambda>running.
     and_then (when_so (\<not> running)
                 (and_then (emit_status (EvSessionStarting StartingBridge)) (\<lambda>_.
                  and_then (start_session ve team) (\<lambda>_. publish_session)))) (\<lambda>_.
     and_then (reserve_member_runtime_reconciliation ve [agent]) (\<lambda>work.
     complete_member_runtime_reconciliation ve team_id work)))))))"

definition stop_session_unchecked ::
  "('j, 's, 'c, 'w, 'p) service_env \<Rightarrow> ident \<Rightarrow> (unit, ('j, 's, 'c, 'w, 'p) session) act" where
  "stop_session_unchecked ve team_id =
     and_then (gets (has_session team_id)) (\<lambda>running.
     when_so running
       (and_then (modify (\<lambda>se. se\<lparr>se_published := False\<rparr>)) (\<lambda>_. session_stop (ve_session ve))))"

definition stop_session ::
  "('j, 's, 'c, 'w, 'p) service_env \<Rightarrow> ident \<Rightarrow> ident \<Rightarrow> (unit, ('j, 's, 'c, 'w, 'p) session) act" where
  "stop_session ve user_id team_id =
     and_then (load_owned_team_including_archived ve user_id team_id) (\<lambda>_. stop_session_unchecked ve team_id)"

end
