(* ===== verification/Service_Messages.thy ===== *)
theory Service_Messages
  imports Team_Service
begin

text \<open>
  What goes through the team session service to the session of a team (crates/team/src/
  service.rs): messages of the user and of agents, with the history of the group chat, and the
  control of runs. Each method of the user checks first that the team is the caller's and not
  archived, and brings the session or the runtime of the agent up.
\<close>

subsection \<open>Messages to one agent\<close>

definition service_send_message ::
  "('j, 's, 'c, 'w, 'p) service_env \<Rightarrow> ident \<Rightarrow> ident \<Rightarrow> string \<Rightarrow> string list option
     \<Rightarrow> (run_ack, ('j, 's, 'c, 'w, 'p) session) act" where
  "service_send_message ve user_id team_id content files =
     and_then (load_owned_team ve user_id team_id) (\<lambda>_.
     and_then (ensure_session_inner ve team_id) (\<lambda>_.
     and_then (need_session (SessionNotFound team_id) team_id) (\<lambda>_.
     send_message (ve_session ve) content files)))"

definition service_send_message_to_agent ::
  "('j, 's, 'c, 'w, 'p) service_env \<Rightarrow> ident \<Rightarrow> ident \<Rightarrow> ident \<Rightarrow> string \<Rightarrow> string list option
     \<Rightarrow> (run_ack, ('j, 's, 'c, 'w, 'p) session) act" where
  "service_send_message_to_agent ve user_id team_id slot_id content files =
     and_then (load_owned_team ve user_id team_id) (\<lambda>_.
     and_then (ensure_agent_session_inner ve team_id slot_id) (\<lambda>_.
     and_then (need_session (SessionNotFound team_id) team_id) (\<lambda>_.
     send_message_to_agent (ve_session ve) slot_id content files)))"

definition service_send_group_to_agent ::
  "('j, 's, 'c, 'w, 'p) service_env \<Rightarrow> ident \<Rightarrow> ident \<Rightarrow> ident \<Rightarrow> string \<Rightarrow> string list option
     \<Rightarrow> (run_ack, ('j, 's, 'c, 'w, 'p) session) act" where
  "service_send_group_to_agent ve user_id team_id slot_id content files =
     and_then (load_owned_team ve user_id team_id) (\<lambda>_.
     and_then (ensure_agent_session_inner ve team_id slot_id) (\<lambda>_.
     and_then (need_session (SessionNotFound team_id) team_id) (\<lambda>_.
     send_group_message_to_agent (ve_session ve) slot_id content files)))"

subsection \<open>The history of the group chat\<close>

definition TEAM_GROUP_MAILBOX_ID :: ident where
  "TEAM_GROUP_MAILBOX_ID = ''__team_group__''"

definition TEAM_GROUP_USER_SENDER_ID :: ident where
  "TEAM_GROUP_USER_SENDER_ID = ''__user__''"

definition slim_group_delivery :: "group_delivery \<Rightarrow> group_delivery" where
  "slim_group_delivery d = d\<lparr>gd_ack := None\<rparr>"

definition metadata_of_message :: "group_message \<Rightarrow> group_metadata" where
  "metadata_of_message gm =
     \<lparr>md_kind = gm_kind gm, md_sender_name = gm_sender_name gm, md_target_slot_ids = gm_target_slot_ids gm,
      md_deliveries = gm_deliveries gm\<rparr>"

definition group_message_from_row ::
  "('j, 's, 'c, 'w, 'p) service_env \<Rightarrow> message_row \<Rightarrow> group_message option" where
  "group_message_from_row ve row =
     Option.bind (mm_summary row) (\<lambda>summary.
     Option.bind (result_ok (ve_metadata_of ve summary)) (\<lambda>metadata.
     let files = Option.bind (mm_files row) (\<lambda>value.
           result_ok (js_strings_of (te_json (en_team (ve_session ve))) value))
     in Some \<lparr>gm_id = mm_id row, gm_team_id = mm_team_id row, gm_kind = md_kind metadata,
           gm_sender_slot_id = (if mm_from_agent_id row \<noteq> TEAM_GROUP_USER_SENDER_ID then Some (mm_from_agent_id row) else None),
           gm_sender_name = md_sender_name metadata, gm_content = mm_content row,
           gm_files = (if files = Some [] then None else files),
           gm_target_slot_ids = md_target_slot_ids metadata, gm_deliveries = md_deliveries metadata,
           gm_created_at = mm_created_at row\<rparr>))"

text \<open>The files of a row: an empty list is left out.\<close>

definition files_json ::
  "('j, 's, 'c, 'w, 'p) service_env \<Rightarrow> string list option \<Rightarrow> string + string option" where
  "files_json ve files =
     (case files of
        None \<Rightarrow> Inr None
      | Some fs \<Rightarrow> if fs = [] then Inr None else map_sum (\<lambda>e. e) Some (js_strings_to (te_json (en_team (ve_session ve))) fs))"

definition group_row :: "group_message \<Rightarrow> string \<Rightarrow> string option \<Rightarrow> message_row" where
  "group_row gm summary files =
     \<lparr>mm_id = gm_id gm, mm_team_id = gm_team_id gm, mm_to_agent_id = TEAM_GROUP_MAILBOX_ID,
      mm_from_agent_id = (case gm_sender_slot_id gm of None \<Rightarrow> TEAM_GROUP_USER_SENDER_ID | Some s \<Rightarrow> s),
      mm_msg_type = ''message'', mm_content = gm_content gm, mm_summary = Some summary, mm_files = files,
      mm_read = True, mm_created_at = gm_created_at gm\<rparr>"

definition new_group_message ::
  "ident \<Rightarrow> ident \<Rightarrow> timestamp \<Rightarrow> group_message_kind \<Rightarrow> ident option \<Rightarrow> string option \<Rightarrow> string \<Rightarrow> string list option
     \<Rightarrow> ident list \<Rightarrow> group_message" where
  "new_group_message message_id team_id created_at kind sender_slot_id sender_name content files target_slot_ids =
     \<lparr>gm_id = message_id, gm_team_id = team_id, gm_kind = kind, gm_sender_slot_id = sender_slot_id,
      gm_sender_name = sender_name, gm_content = content, gm_files = files,
      gm_target_slot_ids = target_slot_ids, gm_deliveries = [], gm_created_at = created_at\<rparr>"

definition persist_group_message ::
  "('j, 's, 'c, 'w, 'p) service_env \<Rightarrow> ident \<Rightarrow> group_message_kind \<Rightarrow> ident option \<Rightarrow> string option \<Rightarrow> string
     \<Rightarrow> string list option \<Rightarrow> ident list \<Rightarrow> (group_message, ('j, 's, 'c, 'w, 'p) session) act" where
  "persist_group_message ve team_id kind sender_slot_id sender_name content files target_slot_ids =
     and_then draw (\<lambda>n.
     let gm = new_group_message (en_ids (ve_session ve) n) team_id (en_now (ve_session ve) n) kind sender_slot_id
                sender_name content files target_slot_ids
     in and_then (from_result (map_err Json (ve_metadata_to ve (metadata_of_message gm)))) (\<lambda>summary.
        and_then (from_result (map_err Json (files_json ve files))) (\<lambda>files_text.
        and_then (on_store (mrepo_write (te_messages (en_team (ve_session ve))) (group_row gm summary files_text))) (\<lambda>_.
        and_then (emit_status (EvGroupMessage gm)) (\<lambda>_.
        return_ok gm)))))"

definition list_group_messages ::
  "('j, 's, 'c, 'w, 'p) service_env \<Rightarrow> ident \<Rightarrow> ident \<Rightarrow> (group_message list, ('j, 's, 'c, 'w, 'p) session) act" where
  "list_group_messages ve user_id team_id =
     and_then (load_owned_team_including_archived ve user_id team_id) (\<lambda>_.
     and_then (on_store (\<lambda>st. (mrepo_get_history (te_messages (en_team (ve_session ve))) team_id TEAM_GROUP_MAILBOX_ID None st, st)))
       (\<lambda>rows. return_ok (List.map_filter (group_message_from_row ve) rows)))"

subsection \<open>A message to the group\<close>

record group_request =
  gq_content :: string
  gq_files :: "string list option"
  gq_target_slot_ids :: "ident list"
  gq_share_only :: bool

text \<open>\<open>retain(|slot_id| seen.insert(slot_id.clone()))\<close>\<close>

fun retain_new :: "ident set \<Rightarrow> ident list \<Rightarrow> ident list" where
  "retain_new seen [] = []"
| "retain_new seen (x # xs) = (if x \<in> seen then retain_new seen xs else x # retain_new (insert x seen) xs)"

definition requested_targets :: "('j, 's, 'c, 'w, 'p) service_env \<Rightarrow> group_request \<Rightarrow> ident list" where
  "requested_targets ve request =
     retain_new {} (filter (\<lambda>slot_id. uc_trim (te_unicode (en_team (ve_session ve))) slot_id \<noteq> []) (gq_target_slot_ids request))"

definition leader_of_team :: "team \<Rightarrow> ident option" where
  "leader_of_team team =
     (case tm_lead_agent_id team of
        Some i \<Rightarrow> Some i
      | None \<Rightarrow> map_option ta_slot_id (find (\<lambda>a. ta_role a = Lead) (tm_agents team)))"

definition group_targets ::
  "('j, 's, 'c, 'w, 'p) service_env \<Rightarrow> team \<Rightarrow> group_request \<Rightarrow> team_error + ident list" where
  "group_targets ve team request =
     (let targets = requested_targets ve request
      in if targets = [] \<and> \<not> gq_share_only request
         then (case leader_of_team team of
                 None \<Rightarrow> Inl (InvalidRequest ''team leader is not configured'')
               | Some leader \<Rightarrow> Inr [leader])
         else Inr targets)"

definition delivery_of :: "ident \<Rightarrow> team_error + run_ack \<Rightarrow> group_delivery" where
  "delivery_of slot_id r =
     (case r of
        Inr ack \<Rightarrow>
          \<lparr>gd_slot_id = slot_id, gd_delivered = True, gd_enqueue_status = Some (ak_enqueue_status ack),
           gd_message_id = Some (ak_message_id ack), gd_team_run_id = Some (py_team_run_id (ak_run ack)),
           gd_ack = Some ack, gd_error = None\<rparr>
      | Inl _ \<Rightarrow>
          \<lparr>gd_slot_id = slot_id, gd_delivered = False, gd_enqueue_status = None, gd_message_id = None,
           gd_team_run_id = None, gd_ack = None, gd_error = Some ''Unable to deliver message''\<rparr>)"

fun deliver_each ::
  "('j, 's, 'c, 'w, 'p) service_env \<Rightarrow> ident \<Rightarrow> ident \<Rightarrow> group_request \<Rightarrow> ident list
     \<Rightarrow> (group_delivery list, ('j, 's, 'c, 'w, 'p) session) act" where
  "deliver_each ve user_id team_id request [] = return_ok []"
| "deliver_each ve user_id team_id request (slot_id # slot_ids) =
     and_then (attempt (service_send_group_to_agent ve user_id team_id slot_id (gq_content request) (gq_files request))) (\<lambda>r.
     and_then (deliver_each ve user_id team_id request slot_ids) (\<lambda>deliveries.
     return_ok (delivery_of slot_id r # deliveries)))"

text \<open>The message with its deliveries, kept in the history if it can be, and broadcast again.\<close>

definition record_deliveries ::
  "('j, 's, 'c, 'w, 'p) service_env \<Rightarrow> group_message \<Rightarrow> group_delivery list
     \<Rightarrow> (group_message, ('j, 's, 'c, 'w, 'p) session) act" where
  "record_deliveries ve gm deliveries =
     (let gm1 = gm\<lparr>gm_deliveries := map slim_group_delivery deliveries\<rparr>
      in if deliveries = [] then return_ok gm
         else and_then (case ve_metadata_to ve (metadata_of_message gm1) of
                Inr summary \<Rightarrow> ignoring (on_store (rows_update_summary (ve_rows ve) (gm_id gm1) summary))
              | Inl _ \<Rightarrow> return_ok ()) (\<lambda>_.
              and_then (emit_status (EvGroupMessage gm1)) (\<lambda>_. return_ok gm1)))"

definition service_send_group_message ::
  "('j, 's, 'c, 'w, 'p) service_env \<Rightarrow> ident \<Rightarrow> ident \<Rightarrow> group_request
     \<Rightarrow> (group_message \<times> group_delivery list, ('j, 's, 'c, 'w, 'p) session) act" where
  "service_send_group_message ve user_id team_id request =
     and_then (load_owned_team ve user_id team_id) (\<lambda>team.
     and_then (from_result (group_targets ve team request)) (\<lambda>targets.
     and_then (persist_group_message ve team_id GroupUser None None (gq_content request) (gq_files request) targets) (\<lambda>gm.
     if gq_share_only request then return_ok (gm, [])
     else and_then (deliver_each ve user_id team_id request targets) (\<lambda>deliveries.
          and_then (record_deliveries ve gm deliveries) (\<lambda>gm1.
          return_ok (gm1, deliveries))))))"

subsection \<open>What agents say\<close>

definition load_running_team ::
  "('j, 's, 'c, 'w, 'p) service_env \<Rightarrow> ident \<Rightarrow> (team, ('j, 's, 'c, 'w, 'p) session) act" where
  "load_running_team ve team_id =
     and_then (get_team_row ve team_id) (\<lambda>found.
     and_then (ok_or (SessionNotFound team_id) found) (\<lambda>row.
     team_of_row ve row))"

fun update_slot :: "ident \<Rightarrow> (team_agent \<Rightarrow> team_agent) \<Rightarrow> team_agent list \<Rightarrow> team_agent list" where
  "update_slot slot_id f [] = []"
| "update_slot slot_id f (a # as) = (if ta_slot_id a = slot_id then f a # as else a # update_slot slot_id f as)"

definition persist_agent_last_message ::
  "('j, 's, 'c, 'w, 'p) service_env \<Rightarrow> ident \<Rightarrow> ident \<Rightarrow> string \<Rightarrow> (unit, ('j, 's, 'c, 'w, 'p) session) act" where
  "persist_agent_last_message ve team_id slot_id content =
     and_then (load_running_team ve team_id) (\<lambda>team.
     if find_slot slot_id (tm_agents team) = None then return_ok ()
     else and_then draw (\<lambda>n.
       save_agents ve team_id (update_slot slot_id
         (\<lambda>a. a\<lparr>ta_last_message := Some (truncate_last_message content),
                ta_last_message_at := Some (en_now (ve_session ve) n)\<rparr>) (tm_agents team))))"

definition persist_agent_group_response ::
  "('j, 's, 'c, 'w, 'p) service_env \<Rightarrow> ident \<Rightarrow> ident \<Rightarrow> string \<Rightarrow> (unit, ('j, 's, 'c, 'w, 'p) session) act" where
  "persist_agent_group_response ve team_id slot_id content =
     and_then (load_running_team ve team_id) (\<lambda>team.
     and_then (ok_or (AgentNotFound slot_id) (find_slot slot_id (tm_agents team))) (\<lambda>sender.
     and_then (persist_group_message ve team_id GroupAgent (Some slot_id) (Some (ta_name sender)) content None []) (\<lambda>_.
     ignoring (persist_agent_last_message ve team_id slot_id content))))"

definition require_active_team_run :: "ident \<Rightarrow> (unit, ('j, 's, 'c, 'w, 'p) session) act" where
  "require_active_team_run team_id =
     and_then (need_session (SessionNotFound team_id) team_id) (\<lambda>_.
     and_then (gets (\<lambda>se. current_active_run_id (snd (se_runs se)))) (\<lambda>active.
     if active \<noteq> None then return_ok () else throw (InvalidRequest ''no active team run for run-scoped wake'')))"

text \<open>The sender as the row has it, if all of that can be read.\<close>

definition sender_in_row ::
  "('j, 's, 'c, 'w, 'p) service_env \<Rightarrow> ident \<Rightarrow> ident \<Rightarrow> ('j, 's, 'c, 'w, 'p) session \<Rightarrow> team_agent option" where
  "sender_in_row ve team_id slot_id se =
     (case rows_get (ve_rows ve) team_id (sm_store (se_manager se)) of
        Inr (Some row) \<Rightarrow>
          (case team_from_row (ve_agents_of ve) row of Inr team \<Rightarrow> find_slot slot_id (tm_agents team) | Inl _ \<Rightarrow> None)
      | _ \<Rightarrow> None)"

definition record_delegation ::
  "('j, 's, 'c, 'w, 'p) service_env \<Rightarrow> ident \<Rightarrow> ident \<Rightarrow> ident \<Rightarrow> string \<Rightarrow> (unit, ('j, 's, 'c, 'w, 'p) session) act" where
  "record_delegation ve team_id from_slot_id to_slot_id content =
     and_then (gets (sender_in_row ve team_id from_slot_id)) (\<lambda>sender.
     case sender of
       None \<Rightarrow> return_ok ()
     | Some agent \<Rightarrow>
       when_so (ta_role agent = Lead)
         (ignoring (persist_group_message ve team_id GroupAgent (Some from_slot_id) (Some (ta_name agent)) content None [to_slot_id])))"

definition service_agent_message ::
  "('j, 's, 'c, 'w, 'p) service_env \<Rightarrow> ident \<Rightarrow> ident \<Rightarrow> ident \<Rightarrow> string \<Rightarrow> string list option
     \<Rightarrow> (queue_result, ('j, 's, 'c, 'w, 'p) session) act" where
  "service_agent_message ve team_id from_slot_id to_slot_id content files =
     and_then (require_active_team_run team_id) (\<lambda>_.
     and_then (ensure_existing_agent_runtime ve team_id to_slot_id) (\<lambda>_.
     and_then (need_session (SessionNotFound team_id) team_id) (\<lambda>_.
     and_then (send_agent_message_from_agent (ve_session ve) from_slot_id to_slot_id content files) (\<lambda>result.
     and_then (record_delegation ve team_id from_slot_id to_slot_id content) (\<lambda>_.
     return_ok result)))))"

definition service_shutdown_agent ::
  "('j, 's, 'c, 'w, 'p) service_env \<Rightarrow> ident \<Rightarrow> ident \<Rightarrow> ident \<Rightarrow> string option
     \<Rightarrow> (unit, ('j, 's, 'c, 'w, 'p) session) act" where
  "service_shutdown_agent ve team_id caller target reason =
     and_then (need_session (SessionNotFound team_id) team_id) (\<lambda>_.
     session_shutdown_agent (ve_session ve) caller target reason)"

definition service_wake_leader ::
  "('j, 's, 'c, 'w, 'p) service_env \<Rightarrow> ident \<Rightarrow> ident \<Rightarrow> work_source \<Rightarrow> (unit, ('j, 's, 'c, 'w, 'p) session) act" where
  "service_wake_leader ve team_id source_slot_id source =
     and_then (need_session (SessionNotFound team_id) team_id) (\<lambda>_.
     wake_leader_after_recovery_message (ve_session ve) source_slot_id source)"

definition spawn_agent_in_session ::
  "('j, 's, 'c, 'w, 'p) service_env \<Rightarrow> ident \<Rightarrow> ident \<Rightarrow> spawn_request
     \<Rightarrow> (team_agent \<times> 'c reserve_attach_reply, ('j, 's, 'c, 'w, 'p) session) act" where
  "spawn_agent_in_session ve team_id caller req =
     and_then (need_session (SessionNotFound team_id) team_id) (\<lambda>_.
     spawn_agent (ve_session ve) (ve_spawn ve) caller req)"

subsection \<open>Runs\<close>

definition service_cancel_run ::
  "('j, 's, 'c, 'w, 'p) service_env \<Rightarrow> ident \<Rightarrow> ident \<Rightarrow> ident \<Rightarrow> string option
     \<Rightarrow> (unit, ('j, 's, 'c, 'w, 'p) session) act" where
  "service_cancel_run ve user_id team_id run_id reason =
     and_then (load_owned_team ve user_id team_id) (\<lambda>_.
     and_then (need_session (team_run_not_active run_id) team_id) (\<lambda>_.
     session_cancel_run (ve_session ve) run_id reason))"

definition service_cancel_child_turn ::
  "('j, 's, 'c, 'w, 'p) service_env \<Rightarrow> ident \<Rightarrow> ident \<Rightarrow> ident \<Rightarrow> ident \<Rightarrow> string option
     \<Rightarrow> (unit, ('j, 's, 'c, 'w, 'p) session) act" where
  "service_cancel_child_turn ve user_id team_id run_id slot_id reason =
     and_then (load_owned_team ve user_id team_id) (\<lambda>_.
     and_then (need_session (team_run_not_active run_id) team_id) (\<lambda>_.
     cancel_child_turn (ve_session ve) run_id slot_id reason))"

definition service_pause_slot_work ::
  "('j, 's, 'c, 'w, 'p) service_env \<Rightarrow> ident \<Rightarrow> ident \<Rightarrow> ident \<Rightarrow> ident \<Rightarrow> string option
     \<Rightarrow> (unit, ('j, 's, 'c, 'w, 'p) session) act" where
  "service_pause_slot_work ve user_id team_id run_id slot_id reason =
     and_then (load_owned_team ve user_id team_id) (\<lambda>_.
     and_then (need_session (InvalidRequest ''no active team run to pause'') team_id) (\<lambda>_.
     pause_slot_work (ve_session ve) run_id slot_id reason))"

record run_state_response =
  rst_session_generation :: "ident option"
  rst_active_run :: "team_run_payload option"
  rst_slot_work :: "slot_work_payload list"

definition is_active_status :: "team_run_status \<Rightarrow> bool" where
  "is_active_status st \<longleftrightarrow> st \<in> {RunAccepted, RunRunning, RunCancelling}"

definition get_run_state ::
  "('j, 's, 'c, 'w, 'p) service_env \<Rightarrow> ident \<Rightarrow> ident \<Rightarrow> (run_state_response, ('j, 's, 'c, 'w, 'p) session) act" where
  "get_run_state ve user_id team_id =
     and_then (load_owned_team_including_archived ve user_id team_id) (\<lambda>_.
     and_then (gets (has_session team_id)) (\<lambda>running.
     if \<not> running then return_ok \<lparr>rst_session_generation = None, rst_active_run = None, rst_slot_work = []\<rparr>
     else and_then (session_current_payload (ve_session ve)) (\<lambda>payload.
          and_then draw (\<lambda>n.
          gets (\<lambda>se. let sn = snapshot (se_coord se)
            in \<lparr>rst_session_generation = Some (cs_session_generation sn),
                rst_active_run = (case payload of None \<Rightarrow> None | Some run \<Rightarrow> if is_active_status (py_status run) then Some run else None),
                rst_slot_work = map (\<lambda>(k, sl). slot_payload (en_clocks (ve_session ve) n k) sl) (enumerate 0 (cs_slots sn))\<rparr>)))))"

end
