(* ===== verification/Service_Teams.thy ===== *)
theory Service_Teams
  imports Service_Messages
begin

text \<open>
  What the user does to a team itself (crates/team/src/service.rs): rename, archive and
  remove it, rename and remove its agents; and the clean-up of teams that have been idle,
  with the leases that keep a team awake (crates/acp/src/lib.rs).
\<close>

subsection \<open>The team\<close>

definition rename_team ::
  "('j, 's, 'c, 'w, 'p) service_env \<Rightarrow> ident \<Rightarrow> ident \<Rightarrow> string \<Rightarrow> (unit, ('j, 's, 'c, 'w, 'p) session) act" where
  "rename_team ve user_id team_id name =
     and_then (load_owned_team ve user_id team_id) (\<lambda>_.
     and_then (update_team ve team_id (no_update\<lparr>ut_name := Some name\<rparr>)) (\<lambda>_.
     and_then (emit_status (EvTeamRenamed name)) (\<lambda>_.
     emit_status (EvTeamListChanged ''renamed''))))"

definition archive_team ::
  "('j, 's, 'c, 'w, 'p) service_env \<Rightarrow> ident \<Rightarrow> ident \<Rightarrow> (unit, ('j, 's, 'c, 'w, 'p) session) act" where
  "archive_team ve user_id team_id =
     and_then (load_owned_team_including_archived ve user_id team_id) (\<lambda>team.
     if tm_archived_at team \<noteq> None then return_ok ()
     else
     and_then (stop_session_unchecked ve team_id) (\<lambda>_.
     and_then (run_all (\<lambda>a. kill_and_wait (ta_conversation_id a)) (tm_agents team)) (\<lambda>_.
     and_then draw (\<lambda>n.
     and_then (on_store (rows_archive (ve_rows ve) (en_clocks (ve_session ve) n 0) (en_clocks (ve_session ve) n 1) team_id)) (\<lambda>_.
     emit_status (EvTeamListChanged ''archived''))))))"

definition delete_team_conversation ::
  "ident \<Rightarrow> ident \<Rightarrow> (unit, ('j, 's, 'c, 'w, 'p) session) act" where \<comment> \<open>its failure is ignored\<close>
  "delete_team_conversation user_id conversation_id =
     modify (\<lambda>se. se\<lparr>se_deleted := se_deleted se @ [(user_id, conversation_id)]\<rparr>)"

definition remove_team ::
  "('j, 's, 'c, 'w, 'p) service_env \<Rightarrow> ident \<Rightarrow> ident \<Rightarrow> (unit, ('j, 's, 'c, 'w, 'p) session) act" where
  "remove_team ve user_id team_id =
     and_then (load_owned_team_including_archived ve user_id team_id) (\<lambda>team.
     and_then (stop_session_unchecked ve team_id) (\<lambda>_.
     and_then (run_all (\<lambda>a. kill_and_wait (ta_conversation_id a)) (tm_agents team)) (\<lambda>_.
     and_then (run_all (\<lambda>a. delete_team_conversation user_id (ta_conversation_id a)) (tm_agents team)) (\<lambda>_.
     and_then (on_store (mrepo_delete_by_team (te_messages (en_team (ve_session ve))) team_id)) (\<lambda>_.
     and_then (on_store (rows_delete_tasks (ve_rows ve) team_id)) (\<lambda>_.
     and_then (on_store (rows_delete (ve_rows ve) team_id)) (\<lambda>_.
     and_then (emit_status EvTeamRemoved) (\<lambda>_.
     emit_status (EvTeamListChanged ''removed'')))))))))"

subsection \<open>Its agents\<close>

definition service_rename_agent ::
  "('j, 's, 'c, 'w, 'p) service_env \<Rightarrow> ident \<Rightarrow> ident \<Rightarrow> ident \<Rightarrow> string \<Rightarrow> (unit, ('j, 's, 'c, 'w, 'p) session) act" where
  "service_rename_agent ve user_id team_id slot_id name =
     (let uc = te_unicode (en_team (ve_session ve)); normalized = normalize_name uc name
      in and_then (load_owned_team ve user_id team_id) (\<lambda>team.
         if normalized = [] then throw (InvalidRequest ''rename_agent.name is empty after normalization'')
         else if list_ex (\<lambda>a. ta_slot_id a \<noteq> slot_id \<and> normalize_name uc (ta_name a) = normalized) (tm_agents team)
         then throw (DuplicateAgentName name)
         else if find_slot slot_id (tm_agents team) = None then throw (AgentNotFound slot_id)
         else
         and_then (save_agents ve team_id (update_slot slot_id (\<lambda>a. a\<lparr>ta_name := name\<rparr>) (tm_agents team))) (\<lambda>_.
         and_then (gets (has_session team_id)) (\<lambda>running.
         when_so running (ignoring (session_rename_agent (ve_session ve) slot_id name))))))"

text \<open>\<open>refresh_member_runtime_status\<close> as the service calls it: the row is read first.\<close>

definition members_in_row ::
  "('j, 's, 'c, 'w, 'p) service_env \<Rightarrow> ident \<Rightarrow> ('j, 's, 'c, 'w, 'p) session \<Rightarrow> team_agent list option" where
  "members_in_row ve team_id se =
     (case rows_get (ve_rows ve) team_id (sm_store (se_manager se)) of
        Inr (Some row) \<Rightarrow> (case team_from_row (ve_agents_of ve) row of Inr team \<Rightarrow> Some (tm_agents team) | Inl _ \<Rightarrow> None)
      | _ \<Rightarrow> None)"

definition service_refresh_status ::
  "('j, 's, 'c, 'w, 'p) service_env \<Rightarrow> ident \<Rightarrow> (unit, ('j, 's, 'c, 'w, 'p) session) act" where
  "service_refresh_status ve team_id =
     and_then (gets (\<lambda>se. (members_in_row ve team_id se, has_session team_id se))) (\<lambda>(members, published).
     refresh_member_runtime_status
       \<lparr>at_result = None, at_meanwhile = (\<lambda>se. se), at_published = (\<lambda>_. published), at_replaced = False,
        at_members = members\<rparr> 0)"

definition membership_persist_failed :: member_failure where
  "membership_persist_failed =
     \<lparr>mf_classification = ''membership_persist_failed'',
      mf_public_reason = ''Agent runtime needs to restart after membership update failed''\<rparr>"

text \<open>A removal that another call has begun: this one returns what it ends with.\<close>

definition join_removal ::
  "('j, 's, 'c, 'w, 'p) service_env \<Rightarrow> ident \<Rightarrow> team_agent \<Rightarrow> 'c attach_waiter
     \<Rightarrow> (unit, ('j, 's, 'c, 'w, 'p) session) act" where
  "join_removal ve team_id removed aw =
     and_then (gets (\<lambda>se. case wait_poll (en_watch (ve_session ve)) (se_runtimes se) aw of
                  Some outcome \<Rightarrow> outcome | None \<Rightarrow> ve_waited ve aw se)) (\<lambda>outcome.
     case outcome of
       OutRemoved \<Rightarrow> return_ok ()
     | OutFailed failure \<Rightarrow>
         throw (MemberRuntimeFailed team_id (ta_slot_id removed) (ta_conversation_id removed) (mf_public_reason failure))
     | _ \<Rightarrow> throw (SessionNotFound team_id))"

text \<open>The agent is taken out of the row; if that fails, the runtime has to be attached again.\<close>

definition persist_removal ::
  "('j, 's, 'c, 'w, 'p) service_env \<Rightarrow> ident \<Rightarrow> ident \<Rightarrow> ident \<Rightarrow> bool \<Rightarrow> remove_lease option
     \<Rightarrow> (unit, ('j, 's, 'c, 'w, 'p) session) act" where
  "persist_removal ve user_id team_id slot_id running lease =
     and_then (load_owned_team ve user_id team_id) (\<lambda>current.
     and_then (from_result (map_err Json (ve_agents_to ve (filter (\<lambda>a. ta_slot_id a \<noteq> slot_id) (tm_agents current))))) (\<lambda>agents_json.
     on_error (update_team ve team_id (no_update\<lparr>ut_agents := Some agents_json\<rparr>))
       (\<lambda>_. case lease of
          Some l \<Rightarrow>
            when_so running
              (and_then (on_runtimes (restore_attach_required (en_watch (ve_session ve)) l membership_persist_failed)) (\<lambda>_.
               service_refresh_status ve team_id))
        | None \<Rightarrow> return_ok ())))"

text \<open>The scheduler of the published session forgets the agent, and its removal is over.\<close>

definition withdraw_from_session ::
  "('j, 's, 'c, 'w, 'p) service_env \<Rightarrow> team_agent \<Rightarrow> remove_lease option \<Rightarrow> (unit, ('j, 's, 'c, 'w, 'p) session) act" where
  "withdraw_from_session ve removed lease =
     and_then (modify (\<lambda>se. se\<lparr>se_loops := loops_remove (ta_slot_id removed) (se_loops se)\<rparr>)) (\<lambda>_.
     and_then (kill_and_wait (ta_conversation_id removed)) (\<lambda>_.
     and_then (attempt (on_manager (remove_agent (ta_slot_id removed)))) (\<lambda>r.
     and_then (case r of
                 Inl (AgentNotFound _) \<Rightarrow> return_ok ()
               | Inl e \<Rightarrow> throw e
               | Inr _ \<Rightarrow> return_ok ()) (\<lambda>_.
     case lease of
       None \<Rightarrow> return_ok ()
     | Some l \<Rightarrow> and_then (on_runtimes (finish_remove (en_watch (ve_session ve)) l)) (\<lambda>_. return_ok ())))))"

definition announce_removal ::
  "('j, 's, 'c, 'w, 'p) service_env \<Rightarrow> ident \<Rightarrow> team_agent \<Rightarrow> bool \<Rightarrow> (unit, ('j, 's, 'c, 'w, 'p) session) act" where
  "announce_removal ve team_id removed published =
     (if published
      then and_then (notify_leader_membership_removed (ve_session ve) removed) (\<lambda>_. service_refresh_status ve team_id)
      else modify (\<lambda>se. se\<lparr>se_manager := emit (EvAgentRemoved (ta_slot_id removed)) (se_manager se)\<rparr>))"

definition finish_removal ::
  "('j, 's, 'c, 'w, 'p) service_env \<Rightarrow> ident \<Rightarrow> ident \<Rightarrow> team_agent \<Rightarrow> bool \<Rightarrow> remove_lease option
     \<Rightarrow> (unit, ('j, 's, 'c, 'w, 'p) session) act" where
  "finish_removal ve user_id team_id removed running lease =
     and_then (when_so running (modify (\<lambda>se. se\<lparr>se_loops := loops_remove (ta_slot_id removed) (se_loops se)\<rparr>))) (\<lambda>_.
     and_then (kill_and_wait (ta_conversation_id removed)) (\<lambda>_.
     and_then (persist_removal ve user_id team_id (ta_slot_id removed) running lease) (\<lambda>_.
     and_then (gets (has_session team_id)) (\<lambda>published.
     and_then (when_so published (withdraw_from_session ve removed lease)) (\<lambda>_.
     and_then (delete_team_conversation user_id (ta_conversation_id removed)) (\<lambda>_.
     announce_removal ve team_id removed published))))))"

definition service_remove_agent ::
  "('j, 's, 'c, 'w, 'p) service_env \<Rightarrow> ident \<Rightarrow> ident \<Rightarrow> ident \<Rightarrow> (unit, ('j, 's, 'c, 'w, 'p) session) act" where
  "service_remove_agent ve user_id team_id slot_id =
     and_then (load_owned_team ve user_id team_id) (\<lambda>team.
     and_then (ok_or (AgentNotFound slot_id) (find_slot slot_id (tm_agents team))) (\<lambda>removed.
     if ta_role removed = Lead then throw (InvalidRequest ''cannot remove the team lead'')
     else
     and_then (gets (has_session team_id)) (\<lambda>running.
     if \<not> running then finish_removal ve user_id team_id removed False None
     else and_then (on_runtimes (begin_remove (en_watch (ve_session ve)) slot_id)) (\<lambda>removal.
       case removal of
         RemoveJoin aw \<Rightarrow> join_removal ve team_id removed aw
       | RemoveStart lease \<Rightarrow> finish_removal ve user_id team_id removed True (Some lease)
       | _ \<Rightarrow> finish_removal ve user_id team_id removed True None))))"

subsection \<open>Leases that keep a team awake\<close>

record active_leases =
  ls_leases :: "timestamp hash_map" \<comment> \<open>conversation to the time its lease ends\<close>
  ls_ttl_ms :: timestamp

definition leases_new :: active_leases where
  "leases_new = \<lparr>ls_leases = [], ls_ttl_ms = 90000\<rparr>"

definition i64_saturating_add :: "int \<Rightarrow> int \<Rightarrow> int" where
  "i64_saturating_add a b = max i64_min (min i64_max (a + b))"

definition lease_renew_many :: "timestamp \<Rightarrow> ident list \<Rightarrow> active_leases \<Rightarrow> (nat \<times> timestamp) \<times> active_leases" where
  "lease_renew_many now conversation_ids ls =
     (let expires_at = i64_saturating_add now (ls_ttl_ms ls)
      in ((length conversation_ids, expires_at),
          ls\<lparr>ls_leases := fold (\<lambda>i m. hm_insert i expires_at m) conversation_ids (ls_leases ls)\<rparr>))"

definition lease_active_until :: "timestamp \<Rightarrow> ident \<Rightarrow> active_leases \<Rightarrow> timestamp option \<times> active_leases" where
  "lease_active_until now conversation_id ls =
     (case hm_get (ls_leases ls) conversation_id of
        None \<Rightarrow> (None, ls)
      | Some expires_at \<Rightarrow>
        if expires_at > now then (Some expires_at, ls)
        else (None, ls\<lparr>ls_leases := hm_remove conversation_id (ls_leases ls)\<rparr>))"

text \<open>\<open>agents.iter().any(..)\<close> stops at the first lease that is active; expired ones before it are dropped.\<close>

fun any_leased :: "timestamp \<Rightarrow> ident list \<Rightarrow> active_leases \<Rightarrow> bool \<times> active_leases" where
  "any_leased now [] ls = (False, ls)"
| "any_leased now (i # is) ls =
     (case lease_active_until now i ls of
        (Some _, ls1) \<Rightarrow> (True, ls1)
      | (None, ls1) \<Rightarrow> any_leased now is ls1)"

definition renew_active_lease ::
  "('j, 's, 'c, 'w, 'p) service_env \<Rightarrow> ident \<Rightarrow> ident \<Rightarrow> active_leases
     \<Rightarrow> (active_leases, ('j, 's, 'c, 'w, 'p) session) act" where
  "renew_active_lease ve user_id team_id ls =
     and_then (load_owned_team ve user_id team_id) (\<lambda>team.
     and_then draw (\<lambda>n.
     return_ok (snd (lease_renew_many (en_now (ve_session ve) n)
       (filter (\<lambda>i. uc_trim (te_unicode (en_team (ve_session ve))) i \<noteq> []) (map ta_conversation_id (tm_agents team))) ls))))"

subsection \<open>Idle teams\<close>

datatype conversation_status = CvActive | CvPending | CvRunning | CvFinished | CvArchived | CvDeleted | CvError

record idle_task =
  it_status :: "conversation_status option"
  it_last_activity_at :: timestamp

definition is_idle_collectable_team_member :: "timestamp \<Rightarrow> timestamp \<Rightarrow> idle_task \<Rightarrow> bool" where
  "is_idle_collectable_team_member now idle_threshold_ms task \<longleftrightarrow>
     it_status task \<in> {None, Some CvPending, Some CvFinished} \<and>
     i64_saturating_sub now (it_last_activity_at task) > idle_threshold_ms"

text \<open>
  The session of this team as the loop over the sessions finds it: does it go? \<open>tasks\<close> are the
  tasks of the worker task manager, \<open>now\<close> the reading at the start, \<open>now1\<close> that of the leases.
\<close>

definition idle_verdict ::
  "(ident \<Rightarrow> idle_task option) \<Rightarrow> timestamp \<Rightarrow> timestamp \<Rightarrow> timestamp \<Rightarrow> active_leases
     \<Rightarrow> ('j, 's, 'c, 'w, 'p) session \<Rightarrow> bool \<times> active_leases" where
  "idle_verdict tasks now now1 idle_threshold_ms ls se =
     (let conversations = map ta_conversation_id (list_agents (se_manager se))
      in if current_active_run_id (snd (se_runs se)) \<noteq> None then (False, ls)
         else case any_leased now1 conversations ls of
           (leased, ls1) \<Rightarrow>
             (\<not> leased \<and>
              list_all (\<lambda>i. case tasks i of None \<Rightarrow> True
                                 | Some task \<Rightarrow> is_idle_collectable_team_member now idle_threshold_ms task) conversations, ls1))"

text \<open>
  What the loop over the sessions collects of this team: its agents, if it goes; the idle
  conversations that are left for others to handle; the leases.
\<close>

definition collect_idle_team ::
  "('j, 's, 'c, 'w, 'p) service_env \<Rightarrow> ident \<Rightarrow> (ident \<Rightarrow> idle_task option) \<Rightarrow> ident list \<Rightarrow> timestamp \<Rightarrow> active_leases
     \<Rightarrow> (team_agent list option \<times> ident list \<times> active_leases, ('j, 's, 'c, 'w, 'p) session) act" where
  "collect_idle_team ve team_id tasks idle_conversation_ids idle_threshold_ms ls =
     and_then draw (\<lambda>n.
     let now = en_clocks (ve_session ve) n 0; now1 = en_clocks (ve_session ve) n 1
     in and_then (gets (has_session team_id)) (\<lambda>running.
        and_then session_agents (\<lambda>agents.
        if \<not> running \<or> \<not> list_ex (\<lambda>a. ta_conversation_id a \<in> set idle_conversation_ids) agents
        then return_ok (None, idle_conversation_ids, ls)
        else and_then (gets (idle_verdict tasks now now1 idle_threshold_ms ls)) (\<lambda>(idle, ls1).
          return_ok (if idle then Some agents else None,
            filter (\<lambda>i. i \<notin> ta_conversation_id ` set agents) idle_conversation_ids, ls1)))))"

text \<open>Each process takes time to end, in which others work.\<close>

definition stop_idle_team ::
  "('j, 's, 'c, 'w, 'p) service_env \<Rightarrow> ident \<Rightarrow> team_agent list \<Rightarrow> (unit, ('j, 's, 'c, 'w, 'p) session) act" where
  "stop_idle_team ve team_id agents =
     and_then (emit_status EvSessionStopped) (\<lambda>_.
     and_then (stop_session_unchecked ve team_id) (\<lambda>_.
     run_all (\<lambda>a. and_then (kill_and_wait (ta_conversation_id a)) (\<lambda>_. others_run (ve_session ve))) agents))"

text \<open>
  All idle teams are collected before the first of them is stopped, and none is looked at again:
  between the two, the teams before this one are stopped, and others work.
\<close>

definition cleanup_idle_team ::
  "('j, 's, 'c, 'w, 'p) service_env \<Rightarrow> ident \<Rightarrow> (ident \<Rightarrow> idle_task option) \<Rightarrow> ident list \<Rightarrow> timestamp \<Rightarrow> active_leases
     \<Rightarrow> (ident list \<times> active_leases, ('j, 's, 'c, 'w, 'p) session) act" where
  "cleanup_idle_team ve team_id tasks idle_conversation_ids idle_threshold_ms ls =
     (if idle_conversation_ids = [] then return_ok ([], ls)
      else and_then (collect_idle_team ve team_id tasks idle_conversation_ids idle_threshold_ms ls) (\<lambda>(collected, rest, ls1).
        and_then (case collected of
                    None \<Rightarrow> return_ok ()
                  | Some agents \<Rightarrow>
                    and_then (others_run (ve_session ve)) (\<lambda>_. stop_idle_team ve team_id agents)) (\<lambda>_.
        return_ok (rest, ls1))))"

subsection \<open>The caller of a tool on the command line\<close>

record team_binding =
  bd_user_id :: ident
  bd_team_id :: "ident option"
  bd_slot_id :: "ident option"

record tool_context_response =
  tcr_in_team :: bool
  tcr_conversation_id :: ident
  tcr_team_id :: "ident option"
  tcr_team_name :: "string option"
  tcr_slot_id :: "ident option"
  tcr_role :: "tool_role option"
  tcr_agent_name :: "string option"
  tcr_transport :: "tool_transport option"
  tcr_allowed_tools :: "string list"

definition error_payload :: "tool_error_code \<Rightarrow> string \<Rightarrow> 'j tool_error_payload" where
  "error_payload code message = \<lparr>tep_code = code, tep_message = message, tep_details = None\<rparr>"

definition agent_for_conversation ::
  "team_agent list \<Rightarrow> ident \<Rightarrow> ident option \<Rightarrow> 'j tool_error_payload + team_agent" where
  "agent_for_conversation agents conversation_id slot_id =
     (case find (\<lambda>a. ta_conversation_id a = conversation_id) agents of
        None \<Rightarrow> Inl (error_payload CodeAgentNotFound ''caller agent not found in team'')
      | Some agent \<Rightarrow>
        (case slot_id of
           Some s \<Rightarrow>
             if s \<noteq> ta_slot_id agent
             then Inl (error_payload PermissionDenied ''team binding slot_id does not match caller agent'')
             else Inr agent
         | None \<Rightarrow> Inr agent))"

definition in_team_context ::
  "'j value_ops \<Rightarrow> ident \<Rightarrow> ident \<Rightarrow> ident \<Rightarrow> team_row \<Rightarrow> team_agent \<Rightarrow> tool_context_response \<times> tool_context option" where
  "in_team_context vo user_id conversation_id team_id row agent =
     (\<lparr>tcr_in_team = True, tcr_conversation_id = conversation_id, tcr_team_id = Some team_id,
       tcr_team_name = Some (tr_name row), tcr_slot_id = Some (ta_slot_id agent),
       tcr_role = Some (tool_role_of (ta_role agent)), tcr_agent_name = Some (ta_name agent),
       tcr_transport = Some TransportCliAssumed,
       tcr_allowed_tools = map tds_name (team_tool_descriptors_for_role vo (tool_role_of (ta_role agent)))\<rparr>,
      Some \<lparr>tx_team_id = team_id, tx_caller_slot_id = ta_slot_id agent, tx_caller_role = ta_role agent,
            tx_user_id = Some user_id, tx_conversation_id = Some conversation_id, tx_transport = TransportCliAssumed\<rparr>)"

definition not_in_team_context :: "ident \<Rightarrow> tool_context_response \<times> tool_context option" where
  "not_in_team_context conversation_id =
     (\<lparr>tcr_in_team = False, tcr_conversation_id = conversation_id, tcr_team_id = None, tcr_team_name = None,
       tcr_slot_id = None, tcr_role = None, tcr_agent_name = None, tcr_transport = None, tcr_allowed_tools = []\<rparr>, None)"

text \<open>\<open>binding\<close> is what the conversation service finds for the conversation.\<close>

definition resolve_team_tool_context ::
  "('j, 's, 'c, 'w, 'p) service_env \<Rightarrow> 'j value_ops \<Rightarrow> ident \<Rightarrow> ident \<Rightarrow> team_error + team_binding option
     \<Rightarrow> ('j, 's, 'c, 'w, 'p) session
     \<Rightarrow> 'j tool_error_payload + tool_context_response \<times> tool_context option" where
  "resolve_team_tool_context ve vo user_id conversation_id binding se =
     (case binding of
        Inl e \<Rightarrow> Inl (error_payload RuntimeContextMissing (team_error_display e))
      | Inr None \<Rightarrow> Inl (error_payload ConversationNotFound ''conversation not found'')
      | Inr (Some b) \<Rightarrow>
        if bd_user_id b \<noteq> user_id then Inl (error_payload PermissionDenied ''conversation does not belong to user'')
        else (case bd_team_id b of
          None \<Rightarrow> Inr (not_in_team_context conversation_id)
        | Some team_id \<Rightarrow>
          (case rows_get (ve_rows ve) team_id (sm_store (se_manager se)) of
             Inl e \<Rightarrow> Inl (error_payload RuntimeContextMissing (db_error_display e))
           | Inr None \<Rightarrow> Inl (error_payload CodeTeamNotFound ''team not found'')
           | Inr (Some row) \<Rightarrow>
             if tr_user_id row \<noteq> user_id then Inl (error_payload PermissionDenied ''team does not belong to user'')
             else (case ve_agents_of ve (tr_agents row) of
               Inl e \<Rightarrow> Inl (error_payload RuntimeContextMissing e)
             | Inr agents \<Rightarrow>
               map_sum (\<lambda>e. e) (\<lambda>agent. in_team_context vo user_id conversation_id team_id row agent)
                 (agent_for_conversation agents conversation_id (bd_slot_id b))))))"

definition execute_team_tool ::
  "('j, 's, 'c, 'w, 'p) tool_env \<Rightarrow> tool_context \<Rightarrow> 'j tool_call
     \<Rightarrow> ('j tool_error_payload + 'j, ('j, 's, 'c, 'w, 'p) session) act" where
  "execute_team_tool xe context call =
     and_then (gets (has_session (tx_team_id context))) (\<lambda>running.
     if \<not> running then return_ok (Inl (error_payload CodeTeamNotFound ''active team session not found''))
     else execute_tool xe context call)"

end
