(* ===== verification/Mcp_Protocol.thy ===== *)
theory Mcp_Protocol
  imports Json_Value Text_Format "HOL-Library.Word"
begin

unbundle bit_operations_syntax

text \<open>
  What the agents' tool bridge and the team's MCP server say to each other
  (crates/team/src/mcp/protocol.rs): JSON-RPC messages, and the frames they travel in, a
  length of four bytes, most significant first, and that many bytes.
\<close>

subsection \<open>Messages\<close>

record 'j rpc_request =
  jq_jsonrpc :: string
  jq_id :: "64 word option"
  jq_method :: string
  jq_params :: "'j option"

record 'j rpc_error =
  je_code :: int
  je_message :: string
  je_data :: "'j option"

record 'j rpc_response =
  jr_jsonrpc :: string
  jr_id :: "64 word option"
  jr_result :: "'j option"
  jr_error :: "'j rpc_error option"

definition PARSE_ERROR :: int where
  "PARSE_ERROR = -32700"

definition INVALID_REQUEST :: int where
  "INVALID_REQUEST = -32600"

definition METHOD_NOT_FOUND :: int where
  "METHOD_NOT_FOUND = -32601"

definition INVALID_PARAMS :: int where
  "INVALID_PARAMS = -32602"

definition INTERNAL_ERROR :: int where
  "INTERNAL_ERROR = -32603"

definition PROTOCOL_VERSION :: string where
  "PROTOCOL_VERSION = ''2024-11-05''"

definition SERVER_NAME :: string where
  "SERVER_NAME = ''aionui-team-mcp''"

definition SERVER_VERSION :: string where
  "SERVER_VERSION = ''1.0.0''"

definition rpc_success :: "64 word option \<Rightarrow> 'j \<Rightarrow> 'j rpc_response" where
  "rpc_success request_id result = \<lparr>jr_jsonrpc = ''2.0'', jr_id = request_id, jr_result = Some result, jr_error = None\<rparr>"

definition rpc_failure :: "64 word option \<Rightarrow> int \<Rightarrow> string \<Rightarrow> 'j rpc_response" where
  "rpc_failure request_id code message =
     \<lparr>jr_jsonrpc = ''2.0'', jr_id = request_id, jr_result = None,
      jr_error = Some \<lparr>je_code = code, je_message = message, je_data = None\<rparr>\<rparr>"

text \<open>The derived serialization: absent results, errors and data are left out, an absent id is null.\<close>

definition jv_opt_id :: "'j value_ops \<Rightarrow> 64 word option \<Rightarrow> 'j" where
  "jv_opt_id vo x = (case x of None \<Rightarrow> jv_null vo | Some n \<Rightarrow> jv_int vo (uint n))"

definition opt_entry :: "string \<Rightarrow> 'j option \<Rightarrow> (string \<times> 'j) list" where
  "opt_entry key x = (case x of None \<Rightarrow> [] | Some v \<Rightarrow> [(key, v)])"

definition error_value :: "'j value_ops \<Rightarrow> 'j rpc_error \<Rightarrow> 'j" where
  "error_value vo e =
     jv_obj vo ([(''code'', jv_int vo (je_code e)), (''message'', jv_str vo (je_message e))] @ opt_entry ''data'' (je_data e))"

definition response_value :: "'j value_ops \<Rightarrow> 'j rpc_response \<Rightarrow> 'j" where
  "response_value vo r =
     jv_obj vo ([(''jsonrpc'', jv_str vo (jr_jsonrpc r)), (''id'', jv_opt_id vo (jr_id r))] @
       opt_entry ''result'' (jr_result r) @ opt_entry ''error'' (map_option (error_value vo) (jr_error r)))"

subsection \<open>Frames\<close>

type_synonym byte = "8 word"

definition be_bytes :: "32 word \<Rightarrow> byte list" where
  "be_bytes w = [ucast (drop_bit 24 w), ucast (drop_bit 16 w), ucast (drop_bit 8 w), ucast w]"

definition be_word :: "byte \<Rightarrow> byte \<Rightarrow> byte \<Rightarrow> byte \<Rightarrow> 32 word" where
  "be_word a b c d = push_bit 24 (ucast a) OR push_bit 16 (ucast b) OR push_bit 8 (ucast c) OR ucast d"

datatype io_error = UnexpectedEof | InvalidData string | IoOther string

definition MAX_FRAME :: nat where
  "MAX_FRAME = 10 * 1024 * 1024"

text \<open>The reader is the list of the bytes that will arrive before the connection is closed.\<close>

definition read_frame :: "byte list \<Rightarrow> io_error + byte list \<times> byte list" where
  "read_frame bs =
     (case bs of
        a # b # c # d # rest \<Rightarrow>
          let len = unat (be_word a b c d)
          in if len > MAX_FRAME then Inl (InvalidData ''frame too large (>10MB)'')
             else if length rest < len then Inl UnexpectedEof
             else Inr (take len rest, drop len rest)
      | _ \<Rightarrow> Inl UnexpectedEof)"

text \<open>\<open>data.len() as u32\<close> keeps the low 32 bits of the length.\<close>

definition write_frame :: "byte list \<Rightarrow> byte list" where
  "write_frame data = be_bytes (of_nat (length data)) @ data"

text \<open>\<open>read_request\<close> and \<open>write_response\<close>; \<open>from_slice\<close> and \<open>to_vec\<close> are of \<open>serde_json\<close>.\<close>

record 'j wire_ops =
  wi_request_of :: "byte list \<Rightarrow> string + 'j rpc_request"
  wi_bytes_of :: "'j \<Rightarrow> byte list"

definition read_request ::
  "'j wire_ops \<Rightarrow> byte list \<Rightarrow> io_error + 'j rpc_request \<times> byte list" where
  "read_request wi bs =
     (case read_frame bs of
        Inl e \<Rightarrow> Inl e
      | Inr (frame, rest) \<Rightarrow>
        (case wi_request_of wi frame of Inl e \<Rightarrow> Inl (IoOther e) | Inr req \<Rightarrow> Inr (req, rest)))"

definition write_response :: "'j wire_ops \<Rightarrow> 'j value_ops \<Rightarrow> 'j rpc_response \<Rightarrow> byte list" where
  "write_response wi vo r = write_frame (wi_bytes_of wi (response_value vo r))"

subsection \<open>Frames come back\<close>

lemma be_word_bytes: "be_word (ucast (drop_bit 24 w)) (ucast (drop_bit 16 w)) (ucast (drop_bit 8 w)) (ucast w) = w"
proof (rule bit_word_eqI)
  fix n assume "n < LENGTH(32)"
  then consider "n < 8" | "8 \<le> n" "n < 16" | "16 \<le> n" "n < 24" | "24 \<le> n" "n < 32" by fastforce
  then show "bit (be_word (ucast (drop_bit 24 w)) (ucast (drop_bit 16 w)) (ucast (drop_bit 8 w)) (ucast w)) n = bit w n"
    by cases (auto simp: be_word_def bit_simps)
qed

lemma read_written:
  "read_frame (write_frame data @ rest) =
     (let len = length data mod 2 ^ 32
      in if len > MAX_FRAME then Inl (InvalidData ''frame too large (>10MB)'')
         else if length data + length rest < len then Inl UnexpectedEof
         else Inr (take len (data @ rest), drop len (data @ rest)))"
  by (simp add: read_frame_def write_frame_def be_bytes_def be_word_bytes unat_of_nat Let_def)

lemma read_frame_shorter: "read_frame bs = Inr (frame, rest) \<Longrightarrow> length rest < length bs"
  by (auto simp: read_frame_def Let_def split: list.splits if_splits)

lemma read_request_shorter: "read_request wi bs = Inr (req, rest) \<Longrightarrow> length rest < length bs"
  by (auto simp: read_request_def dest: read_frame_shorter split: sum.splits prod.splits)

text \<open>C30: A frame of at most ten megabytes is read back as it was written, and what follows it in
  the stream is left for the next read. A larger one, of less than four gigabytes, is
  refused by the reader although the writer sends it.\<close>

theorem frame_is_read_back:
  "(length data \<le> MAX_FRAME \<longrightarrow> read_frame (write_frame data @ rest) = Inr (data, rest)) \<and>
   (MAX_FRAME < length data \<and> length data < 2 ^ 32 \<longrightarrow>
      read_frame (write_frame data @ rest) = Inl (InvalidData ''frame too large (>10MB)''))"
  by (auto simp: read_written Let_def MAX_FRAME_def)

theorem frame_is_read_back_witness:
  "read_frame (write_frame [1, 2, 3] @ [7]) = Inr ([1, 2, 3], [7]) \<and>
   (\<exists>data. read_frame (write_frame data) = Inl (InvalidData ''frame too large (>10MB)''))"
proof
  have "length [1, 2, 3 :: byte] \<le> MAX_FRAME" by (simp add: MAX_FRAME_def)
  then show "read_frame (write_frame [1, 2, 3] @ [7]) = Inr ([1, 2, 3], [7])"
    using frame_is_read_back [of "[1, 2, 3]" "[7]"] by blast
  have "MAX_FRAME < length (replicate (Suc MAX_FRAME) (0 :: byte)) \<and> length (replicate (Suc MAX_FRAME) (0 :: byte)) < 2 ^ 32"
    by (simp only: length_replicate) (simp add: MAX_FRAME_def)
  then have "read_frame (write_frame (replicate (Suc MAX_FRAME) 0) @ []) = Inl (InvalidData ''frame too large (>10MB)'')"
    using frame_is_read_back by blast
  then show "\<exists>data. read_frame (write_frame data) = Inl (InvalidData ''frame too large (>10MB)'')"
    by (simp only: append_Nil2) blast
qed

end
