(* ===== verification/Mcp_Server.thy ===== *)
theory Mcp_Server
  imports Tool_Executor Mcp_Protocol Text_Format
begin

text \<open>
  The team's MCP server (crates/team/src/mcp/server.rs): a connection of an agent's tool
  bridge, from its handshake to the end of its stream, and the endpoint for agents that speak
  HTTP. Listening, tasks and sockets are I/O: a connection is given the bytes that will
  arrive on it, an HTTP request the text that was read.
\<close>

subsection \<open>Results of the methods\<close>

definition handshake_value :: "'j value_ops \<Rightarrow> 'j" where
  "handshake_value vo =
     jv_obj vo [
       (''protocolVersion'', jv_str vo PROTOCOL_VERSION),
       (''serverInfo'', jv_obj vo [(''name'', jv_str vo SERVER_NAME), (''version'', jv_str vo SERVER_VERSION)]),
       (''capabilities'', jv_obj vo [(''tools'', jv_obj vo [])])]"

text \<open>A descriptor as it is derived, and in the form of the protocol.\<close>

fun permission_str :: "tool_permission \<Rightarrow> string" where
  "permission_str AnyTeamAgent = ''any_team_agent''"
| "permission_str LeadOnly = ''lead_only''"

definition descriptor_value :: "'j value_ops \<Rightarrow> 'j tool_descriptor \<Rightarrow> 'j" where
  "descriptor_value vo d =
     jv_obj vo [
       (''name'', jv_str vo (tds_name d)), (''permission'', jv_str vo (permission_str (tds_permission d))),
       (''description'', jv_str vo (tds_description d)), (''input_schema'', tds_input_schema d),
       (''cli_command'', jv_strs vo (tds_cli_command d)), (''when'', jv_str vo (tds_when d)),
       (''input_summary'', jv_str vo (tds_input_summary d))]"

definition tool_descriptors_to_mcp_json :: "'j value_ops \<Rightarrow> 'j tool_descriptor list \<Rightarrow> 'j list" where
  "tool_descriptors_to_mcp_json vo =
     map (\<lambda>d. jv_obj vo [
       (''name'', jv_str vo (tds_name d)), (''description'', jv_str vo (tds_description d)),
       (''inputSchema'', tds_input_schema d)])"

definition error_payload_value :: "'j value_ops \<Rightarrow> 'j tool_error_payload \<Rightarrow> 'j" where
  "error_payload_value vo e =
     jv_obj vo ([(''code'', jv_str vo (tool_error_code_str (tep_code e))), (''message'', jv_str vo (tep_message e))] @
       opt_entry ''details'' (tep_details e))"

definition text_content :: "'j value_ops \<Rightarrow> string \<Rightarrow> 'j" where
  "text_content vo text = jv_arr vo [jv_obj vo [(''type'', jv_str vo ''text''), (''text'', jv_str vo text)]]"

definition call_result_value :: "'j tool_json \<Rightarrow> 'j tool_error_payload + 'j \<Rightarrow> 'j" where
  "call_result_value tj r =
     (let vo = tj_values tj
      in case r of
           Inr content \<Rightarrow> jv_obj vo [(''content'', text_content vo (tj_to_string tj content))]
         | Inl e \<Rightarrow>
           jv_obj vo [(''content'', text_content vo (tep_message e)), (''isError'', jv_bool vo True),
                      (''structuredContent'', error_payload_value vo e)])"

definition caller_role_for_tools_list :: "ident \<Rightarrow> ('j, 's, 'c, 'w, 'p) session \<Rightarrow> teammate_role" where
  "caller_role_for_tools_list caller se =
     (case get_agent caller (se_manager se) of Inr agent \<Rightarrow> ta_role agent | Inl _ \<Rightarrow> Teammate)"

definition mcp_context :: "ident \<Rightarrow> ident \<Rightarrow> teammate_role \<Rightarrow> tool_context" where
  "mcp_context team_id caller role =
     \<lparr>tx_team_id = team_id, tx_caller_slot_id = caller, tx_caller_role = role, tx_user_id = None,
      tx_conversation_id = None, tx_transport = TransportMcp\<rparr>"

subsection \<open>The methods\<close>

datatype 'j init_result = Authenticated ident "'j rpc_response" | NotAuthenticated "'j rpc_response"

text \<open>A text of the parameters under the first of two names that is there.\<close>

definition param_str :: "'j value_ops \<Rightarrow> 'j option \<Rightarrow> string \<Rightarrow> string \<Rightarrow> string option" where
  "param_str vo params key other =
     Option.bind (case Option.bind params (jv_get vo key) of
                    Some v \<Rightarrow> Some v | None \<Rightarrow> Option.bind params (jv_get vo other)) (jv_as_str vo)"

definition handle_initialize :: "'j value_ops \<Rightarrow> string \<Rightarrow> 'j rpc_request \<Rightarrow> 'j init_result" where
  "handle_initialize vo auth_token req =
     (if jq_method req \<noteq> ''initialize''
      then NotAuthenticated (rpc_failure (jq_id req) INVALID_REQUEST (''Expected '' @ quote @ ''initialize'' @ quote @ '' as first request''))
      else if (case param_str vo (jq_params req) ''auth_token'' ''authToken'' of None \<Rightarrow> [] | Some t \<Rightarrow> t) \<noteq> auth_token
      then NotAuthenticated (rpc_failure (jq_id req) INVALID_REQUEST ''Authentication failed: invalid auth_token'')
      else Authenticated
        (case param_str vo (jq_params req) ''slot_id'' ''slotId'' of None \<Rightarrow> ''unknown'' | Some s \<Rightarrow> s)
        (rpc_success (jq_id req) (handshake_value vo)))"


definition handle_tools_list ::
  "('j, 's, 'c, 'w, 'p) tool_env \<Rightarrow> ident \<Rightarrow> 64 word option \<Rightarrow> ident
     \<Rightarrow> ('j rpc_response, ('j, 's, 'c, 'w, 'p) session) act" where
  "handle_tools_list xe team_id request_id caller =
     and_then (gets (caller_role_for_tools_list caller)) (\<lambda>role.
     return_ok (rpc_success request_id (jv_obj (xe_values xe)
       [(''tools'', jv_arr (xe_values xe) (map (descriptor_value (xe_values xe))
           (list_tools xe (mcp_context team_id caller role))))])))"

definition call_tool ::
  "('j, 's, 'c, 'w, 'p) tool_env \<Rightarrow> ident \<Rightarrow> ident \<Rightarrow> teammate_role \<Rightarrow> string \<Rightarrow> 'j
     \<Rightarrow> ('j tool_error_payload + 'j, ('j, 's, 'c, 'w, 'p) session) act" where
  "call_tool xe team_id caller role name args =
     (case team_tool_call_from_name name args of
        Inl e \<Rightarrow> return_ok (Inl e)
      | Inr call \<Rightarrow> execute_tool xe (mcp_context team_id caller role) call)"

definition empty_object :: "'j value_ops \<Rightarrow> 'j" where
  "empty_object vo = jv_obj vo []"

definition or_empty_object :: "'j value_ops \<Rightarrow> 'j option \<Rightarrow> 'j" where
  "or_empty_object vo v = (case v of None \<Rightarrow> empty_object vo | Some x \<Rightarrow> x)"

definition handle_tools_call ::
  "('j, 's, 'c, 'w, 'p) tool_env \<Rightarrow> ident \<Rightarrow> 'j rpc_request \<Rightarrow> ident
     \<Rightarrow> ('j rpc_response, ('j, 's, 'c, 'w, 'p) session) act" where
  "handle_tools_call xe team_id req caller =
     (let vo = xe_values xe
      in case jq_params req of
           None \<Rightarrow> return_ok (rpc_failure (jq_id req) INVALID_PARAMS ''Missing params for tools/call'')
         | Some params \<Rightarrow>
           (case Option.bind (jv_get vo ''name'' params) (jv_as_str vo) of
              None \<Rightarrow> return_ok (rpc_failure (jq_id req) INVALID_PARAMS
                        (''Missing '' @ quote @ ''name'' @ quote @ '' in tools/call params''))
            | Some name \<Rightarrow>
              and_then (gets (caller_role_for_tools_list caller)) (\<lambda>role.
              and_then (call_tool xe team_id caller role name (or_empty_object vo (jv_get vo ''arguments'' params))) (\<lambda>r.
              return_ok (rpc_success (jq_id req) (call_result_value (xe_json xe) r))))))"

definition handle_method ::
  "('j, 's, 'c, 'w, 'p) tool_env \<Rightarrow> ident \<Rightarrow> 'j rpc_request \<Rightarrow> ident
     \<Rightarrow> ('j rpc_response, ('j, 's, 'c, 'w, 'p) session) act" where
  "handle_method xe team_id req caller =
     (if jq_method req = ''notifications/initialized''
      then return_ok (rpc_success (jq_id req) (empty_object (xe_values xe)))
      else if jq_method req = ''tools/list'' then handle_tools_list xe team_id (jq_id req) caller
      else if jq_method req = ''tools/call'' then handle_tools_call xe team_id req caller
      else return_ok (rpc_failure (jq_id req) METHOD_NOT_FOUND (''Unknown method: '' @ jq_method req)))"

subsection \<open>A connection\<close>

text \<open>
  The loop of \<open>handle_connection\<close>: \<open>auth\<close> is the slot of the caller once it has been
  authenticated, \<open>writes k\<close> whether the \<open>k\<close>-th response can be written. The result is the list
  of the responses that were.
\<close>

definition answer_request ::
  "('j, 's, 'c, 'w, 'p) tool_env \<Rightarrow> ident \<Rightarrow> string \<Rightarrow> ident option \<Rightarrow> 'j rpc_request
     \<Rightarrow> ('j rpc_response \<times> ident option, ('j, 's, 'c, 'w, 'p) session) act" where
  "answer_request xe team_id auth_token auth req =
     (case auth of
        None \<Rightarrow>
          (case handle_initialize (xe_values xe) auth_token req of
             Authenticated slot_id resp \<Rightarrow> return_ok (resp, Some slot_id)
           | NotAuthenticated resp \<Rightarrow> return_ok (resp, None))
      | Some caller \<Rightarrow> and_then (handle_method xe team_id req caller) (\<lambda>resp. return_ok (resp, Some caller)))"

function serve_connection ::
  "('j, 's, 'c, 'w, 'p) tool_env \<Rightarrow> 'j wire_ops \<Rightarrow> ident \<Rightarrow> string \<Rightarrow> (nat \<Rightarrow> bool) \<Rightarrow> nat \<Rightarrow> ident option
     \<Rightarrow> byte list \<Rightarrow> ('j rpc_response list, ('j, 's, 'c, 'w, 'p) session) act" where
  "serve_connection xe wi team_id auth_token writes n auth bs =
     (case read_request wi bs of
        Inl _ \<Rightarrow> return_ok []
      | Inr (req, rest) \<Rightarrow>
        if jq_id req = None then serve_connection xe wi team_id auth_token writes n auth rest
        else and_then (answer_request xe team_id auth_token auth req) (\<lambda>(resp, auth1).
          if \<not> writes n then return_ok []
          else and_then (serve_connection xe wi team_id auth_token writes (Suc n) auth1 rest) (\<lambda>out.
               return_ok (resp # out))))"
  by pat_completeness auto

termination
  by (relation "measure (\<lambda>(xe, wi, team_id, auth_token, writes, n, auth, bs). length bs)")
    (auto dest: read_request_shorter)

declare serve_connection.simps [simp del]

definition handle_connection ::
  "('j, 's, 'c, 'w, 'p) tool_env \<Rightarrow> 'j wire_ops \<Rightarrow> ident \<Rightarrow> string \<Rightarrow> (nat \<Rightarrow> bool) \<Rightarrow> byte list
     \<Rightarrow> ('j rpc_response list, ('j, 's, 'c, 'w, 'p) session) act" where
  "handle_connection xe wi team_id auth_token writes bs = serve_connection xe wi team_id auth_token writes 0 None bs"

subsection \<open>The HTTP endpoint\<close>

text \<open>\<open>str::lines\<close>: the pieces up to each line feed, without it and a carriage return before it.\<close>

definition drop_cr :: "string \<Rightarrow> string" where
  "drop_cr l = (if l \<noteq> [] \<and> last l = CHR 0x0D then butlast l else l)"

fun lines_from :: "string \<Rightarrow> string \<Rightarrow> string list" where
  "lines_from line [] = (if line = [] then [] else [line])"
| "lines_from line (c # cs) = (if c = CHR 0x0A then drop_cr line # lines_from [] cs else lines_from (line @ [c]) cs)"

definition str_lines :: "string \<Rightarrow> string list" where
  "str_lines s = lines_from [] s"

fun split_once_colon :: "string \<Rightarrow> string option" where \<comment> \<open>what follows the first colon\<close>
  "split_once_colon [] = None"
| "split_once_colon (c # cs) = (if c = CHR '':'' then Some cs else split_once_colon cs)"

definition http_bearer_token :: "(string \<Rightarrow> string) \<Rightarrow> string \<Rightarrow> string option" where
  "http_bearer_token trim request =
     Option.bind (find (\<lambda>line. is_prefix ''authorization:'' (to_ascii_lowercase line)) (str_lines request)) (\<lambda>line.
     Option.bind (split_once_colon line) (\<lambda>value.
     Option.bind (strip_prefix ''Bearer '' (trim value)) (\<lambda>token.
     if trim token = [] then None else Some (trim token))))"

definition http_slot_id :: "unicode_ops \<Rightarrow> string \<Rightarrow> ident" where
  "http_slot_id uc request =
     (case Option.bind (find (\<lambda>l. is_prefix ''x-slot-id:'' (uc_to_lowercase uc l)) (str_lines request)) split_once_colon of
        None \<Rightarrow> [] | Some v \<Rightarrow> uc_trim uc v)"

text \<open>\<open>request.split(sep).nth(1)\<close> with the empty line as separator.\<close>

definition crlf2 :: string where
  "crlf2 = [CHR 0x0D, CHR 0x0A, CHR 0x0D, CHR 0x0A]"

fun before_sep :: "string \<Rightarrow> string" where
  "before_sep [] = []"
| "before_sep (c # cs) = (if is_prefix crlf2 (c # cs) then [] else c # before_sep cs)"

fun http_body :: "string \<Rightarrow> string" where
  "http_body [] = []"
| "http_body (c # cs) = (if is_prefix crlf2 (c # cs) then before_sep (drop (length crlf2) (c # cs)) else http_body cs)"

datatype 'j http_reply = HttpBadRequest | HttpNoContent | HttpJson 'j

definition http_error :: "'j value_ops \<Rightarrow> 'j option \<Rightarrow> int \<Rightarrow> string \<Rightarrow> 'j" where
  "http_error vo request_id code message =
     jv_obj vo [(''jsonrpc'', jv_str vo ''2.0''), (''id'', jv_option vo (\<lambda>v. v) request_id),
       (''error'', jv_obj vo [(''code'', jv_int vo code), (''message'', jv_str vo message)])]"

definition http_result :: "'j value_ops \<Rightarrow> 'j option \<Rightarrow> 'j \<Rightarrow> 'j http_reply" where
  "http_result vo request_id result =
     HttpJson (case jv_get vo ''error'' result of
        Some e \<Rightarrow> jv_obj vo [(''jsonrpc'', jv_str vo ''2.0''), (''id'', jv_option vo (\<lambda>v. v) request_id), (''error'', e)]
      | None \<Rightarrow> jv_obj vo [(''jsonrpc'', jv_str vo ''2.0''), (''id'', jv_option vo (\<lambda>v. v) request_id), (''result'', result)])"

definition text_or_empty :: "'j value_ops \<Rightarrow> 'j option \<Rightarrow> string" where
  "text_or_empty vo v = (case Option.bind v (jv_as_str vo) of None \<Rightarrow> [] | Some s \<Rightarrow> s)"

definition http_method ::
  "('j, 's, 'c, 'w, 'p) tool_env \<Rightarrow> ident \<Rightarrow> ident \<Rightarrow> 'j
     \<Rightarrow> ('j http_reply, ('j, 's, 'c, 'w, 'p) session) act" where
  "http_method xe team_id caller v =
     (let vo = xe_values xe;
          method = text_or_empty vo (jv_get vo ''method'' v);
          request_id = jv_get vo ''id'' v
      in and_then (gets (caller_role_for_tools_list caller)) (\<lambda>role.
         if method = ''initialize'' then return_ok (http_result vo request_id (handshake_value vo))
         else if method = ''notifications/initialized'' then return_ok HttpNoContent
         else if method = ''tools/list''
         then return_ok (http_result vo request_id (jv_obj vo [(''tools'', jv_arr vo
                (tool_descriptors_to_mcp_json vo (list_tools xe (mcp_context team_id caller role))))]))
         else if method = ''tools/call''
         then let params = or_empty_object vo (jv_get vo ''params'' v)
              in and_then (call_tool xe team_id caller role (text_or_empty vo (jv_get vo ''name'' params))
                     (or_empty_object vo (jv_get vo ''arguments'' params))) (\<lambda>r.
                 return_ok (http_result vo request_id (call_result_value (xe_json xe) r)))
         else return_ok (http_result vo request_id (jv_obj vo [(''error'', jv_obj vo
                [(''code'', jv_int vo METHOD_NOT_FOUND), (''message'', jv_str vo ''Method not found'')])]))))"

definition http_request ::
  "('j, 's, 'c, 'w, 'p) tool_env \<Rightarrow> ident \<Rightarrow> string \<Rightarrow> string
     \<Rightarrow> ('j http_reply, ('j, 's, 'c, 'w, 'p) session) act" where
  "http_request xe team_id auth_token request =
     (let vo = xe_values xe; uc = te_unicode (en_team (xe_session xe))
      in case tj_from_str (xe_json xe) (http_body request) of
           Inl _ \<Rightarrow> return_ok HttpBadRequest
         | Inr v \<Rightarrow>
           if http_bearer_token (uc_trim uc) request \<noteq> Some auth_token
           then return_ok (HttpJson (http_error vo (jv_get vo ''id'' v) INVALID_REQUEST
                  ''Authentication failed: invalid auth_token''))
           else http_method xe team_id (http_slot_id uc request) v)"

end
