(* ===== verification/Tool_Calls.thy ===== *)
theory Tool_Calls
  imports Mcp_Server Turn_Loop
begin

text \<open>
  What the tools and the server around them guarantee over any service that keeps the
  contract of \<open>tool_service\<close>: each call of a tool returns, with an answer or an error of its
  own, and keeps what the service keeps; so does every connection and every HTTP request.
\<close>

subsection \<open>Tools do not fail as methods: their errors are values\<close>

lemma infallible_tool_steps [infallible_rules]:
  "infallible (tool_ok x)" "infallible (tool_error vo e)" "infallible (json_text tj v)"
  "(\<And>x. infallible (f x)) \<Longrightarrow> infallible (tool_try vo m f)"
  "(\<And>x. infallible (f x)) \<Longrightarrow> infallible (tool_input tj struct args input f)"
  "(\<And>sv. infallible (g sv)) \<Longrightarrow> infallible (with_service xe message g)"
  unfolding tool_ok_def tool_error_def json_text_def tool_try_def tool_input_def with_service_def
  by (intro infallible_rules; simp split: sum.split option.split; intro infallible_rules conjI allI impI; simp)+

lemma infallible_session_agents [infallible_rules]: "infallible session_agents"
  unfolding session_agents_def by (intro infallible_rules)

lemma infallible_send_each: "infallible (send_each vo sv caller message files targets)"
  by (induction targets) (simp_all add: infallible_rules)

lemma infallible_exec [infallible_rules]:
  "infallible (shutdown_approved xe caller)" "infallible (shutdown_rejected xe caller reason)"
  "infallible (deliver_message xe caller input target)"
  "infallible (exec_task_create xe args)" "infallible (exec_task_update xe args)" "infallible (exec_task_list xe args)"
  "infallible (exec_members xe)" "infallible (exec_list_assistants xe args)" "infallible (exec_describe_assistant xe args)"
  unfolding shutdown_approved_def shutdown_rejected_def deliver_message_def exec_task_create_def exec_task_update_def
    exec_task_list_def exec_members_def exec_list_assistants_def exec_describe_assistant_def Let_def
  by (intro infallible_rules infallible_send_each; simp split: sum.split option.split; intro infallible_rules conjI allI impI)+

lemma infallible_lead_tools [infallible_rules]:
  "infallible (exec_spawn_agent xe args caller role)" "infallible (exec_rename_agent xe args team_id)"
  "infallible (exec_shutdown_agent xe args caller role)" "infallible (exec_send_message xe args caller)"
  unfolding exec_spawn_agent_def exec_rename_agent_def exec_shutdown_agent_def exec_send_message_def Let_def
  by (intro infallible_rules; simp split: sum.split option.split; intro infallible_rules conjI allI impI)+

lemma infallible_dispatch [infallible_rules]:
  "infallible (run_tool xe name args team_id caller role)" "infallible (dispatch_tool xe name args team_id caller role)"
  unfolding dispatch_tool_def run_tool_def by (intro infallible_rules)+

lemma infallible_call [infallible_rules]:
  "infallible (execute_tool xe context call)" "infallible (call_tool xe team_id caller role name args)"
  unfolding execute_tool_def call_tool_def by (intro infallible_rules)+

lemma infallible_handle [infallible_rules]:
  "infallible (handle_method xe team_id req caller)" "infallible (http_request xe team_id auth_token text)"
  unfolding handle_method_def handle_tools_list_def handle_tools_call_def http_request_def http_method_def Let_def
  by (intro infallible_rules)+

subsection \<open>The contract of the service\<close>

locale tool_service =
  fixes xe :: "('j, 's, 'c, 'w, 'p) tool_env" and I :: "('j, 's, 'c, 'w, 'p) session \<Rightarrow> bool"
  assumes keeps_manager: "I se \<Longrightarrow> I (se\<lparr>se_manager := m\<rparr>)"
    and keeps_removals: "I se \<Longrightarrow> I (se\<lparr>se_removals := r\<rparr>)"
    and safe_send: "xe_service xe = Some sv \<Longrightarrow> safe I (ts_send sv caller target message files)"
    and safe_spawn: "xe_service xe = Some sv \<Longrightarrow> safe I (ts_spawn sv caller req)"
    and safe_rename: "xe_service xe = Some sv \<Longrightarrow> safe I (ts_rename sv user slot_id name)"
    and safe_shutdown: "xe_service xe = Some sv \<Longrightarrow> safe I (ts_shutdown sv caller target reason)"
    and safe_wake: "xe_service xe = Some sv \<Longrightarrow> safe I (ts_wake_leader sv caller source)"
begin

lemma manager_step: "safe I (on_manager f)"
  by (rule ensuresI) (auto simp: on_manager_def keeps_manager split: prod.split)

lemma tool_steps:
  "safe I (tool_ok x)" "safe I (tool_error vo e)" "safe I (json_text tj v)"
  "safe I m \<Longrightarrow> (\<And>x. safe I (f x)) \<Longrightarrow> safe I (tool_try vo m f)"
  "(\<And>x. safe I (f x)) \<Longrightarrow> safe I (tool_input tj struct args input f)"
  unfolding tool_ok_def tool_error_def json_text_def tool_try_def tool_input_def
  by (intro safe_rules; simp split: sum.split option.split; intro safe_rules conjI allI impI; simp)+

lemma service_case:
  "safe I m \<Longrightarrow> (\<And>sv. xe_service xe = Some sv \<Longrightarrow> safe I (f sv)) \<Longrightarrow>
     safe I (case xe_service xe of None \<Rightarrow> m | Some sv \<Rightarrow> f sv)"
  by (cases "xe_service xe") simp_all

lemma with_service_step:
  "(\<And>sv. xe_service xe = Some sv \<Longrightarrow> safe I (g sv)) \<Longrightarrow> safe I (with_service xe message g)"
  unfolding with_service_def by (intro service_case tool_steps)

lemma send_each_step: "xe_service xe = Some sv \<Longrightarrow> safe I (send_each vo sv caller message files targets)"
  by (induction targets) (auto intro!: tool_steps safe_rules safe_send)

lemmas member_steps = tool_steps manager_step with_service_step service_case safe_pure safe_and_then safe_attempt
  safe_ignoring safe_if safe_option
  safe_sum safe_wake safe_spawn safe_rename safe_shutdown

lemma agents_step: "safe I session_agents" "safe I (session_get_agent slot_id)"
  unfolding session_agents_def session_get_agent_def by (auto simp: ensures_def)

lemma approved_step: "safe I (shutdown_approved xe caller)"
  unfolding shutdown_approved_def by (intro member_steps safe_modify) (rule keeps_removals)

lemma rejected_step: "safe I (shutdown_rejected xe caller reason)"
  unfolding shutdown_rejected_def by (intro member_steps; assumption?)

lemma deliver_step: "safe I (deliver_message xe caller input target)"
  unfolding deliver_message_def Let_def by (intro member_steps agents_step send_each_step; assumption?)

lemma message_step: "safe I (exec_send_message xe args caller)"
  unfolding exec_send_message_def Let_def
  by (intro member_steps approved_step rejected_step deliver_step)

lemma board_steps:
  "safe I (exec_task_create xe args)" "safe I (exec_task_update xe args)" "safe I (exec_members xe)"
  "safe I (exec_list_assistants xe args)" "safe I (exec_describe_assistant xe args)"
  unfolding exec_task_create_def exec_task_update_def exec_members_def exec_list_assistants_def
    exec_describe_assistant_def Let_def
  by (intro member_steps agents_step)+

lemma list_step: "safe I (exec_task_list xe args)"
proof -
  have "safe I (\<lambda>se. Some (manager_list_tasks (en_team (xe_session xe)) (se_manager se), se))" by (simp add: ensures_def)
  then show ?thesis unfolding exec_task_list_def by (intro member_steps)
qed

lemma lead_steps:
  "safe I (exec_spawn_agent xe args caller role)" "safe I (exec_shutdown_agent xe args caller role)"
  "safe I (exec_rename_agent xe args team_id)"
  unfolding exec_spawn_agent_def exec_shutdown_agent_def exec_rename_agent_def Let_def
  by (intro member_steps agents_step; assumption?)+

lemma dispatch_step: "safe I (dispatch_tool xe name args team_id caller role)"
  unfolding dispatch_tool_def run_tool_def
  by (intro member_steps message_step board_steps list_step lead_steps)

lemma call_step: "safe I (call_tool xe team_id caller role name args)"
  unfolding call_tool_def execute_tool_def by (intro member_steps dispatch_step)

lemma method_step: "safe I (handle_method xe team_id req caller)"
  unfolding handle_method_def handle_tools_list_def handle_tools_call_def Let_def
  by (intro member_steps call_step)

lemma http_step: "safe I (http_request xe team_id auth_token text)"
  unfolding http_request_def http_method_def Let_def by (intro member_steps call_step)

lemma answer_step: "safe I (answer_request xe team_id auth_token auth req)"
proof (cases auth)
  case None
  then show ?thesis
    by (cases "handle_initialize (xe_values xe) auth_token req") (simp_all add: answer_request_def safe_pure)
next
  case (Some caller)
  then show ?thesis by (simp add: answer_request_def) (intro member_steps method_step)
qed

lemma connection_step: "safe I (serve_connection xe wi team_id auth_token writes n auth bs)"
proof (induction "length bs" arbitrary: n auth bs rule: less_induct)
  case less
  show ?case
  proof (cases "read_request wi bs")
    case (Inl e)
    then show ?thesis by (simp add: serve_connection.simps [of xe wi team_id auth_token writes n auth bs] safe_pure)
  next
    case (Inr p)
    then obtain req rest where read: "read_request wi bs = Inr (req, rest)" by (cases p) auto
    note IH = less [OF read_request_shorter [OF read]]
    show ?thesis
      by (simp add: serve_connection.simps [of xe wi team_id auth_token writes n auth bs] read)
        (intro conjI impI IH safe_and_then answer_step; simp split: prod.split; intro allI impI conjI safe_and_then safe_pure IH)
  qed
qed

end

end
