(* ===== verification/Service_Safety.thy ===== *)
theory Service_Safety
  imports Session_Drive Service_Teams Tool_Calls
begin

text \<open>
  The team session service keeps the session's invariant and never panics in the methods the
  agents' tools call, so it keeps the contract of \<open>tool_service\<close>; what others do to the session
  while a process starts has to keep it too (\<open>service_safe\<close>).
\<close>

subsection \<open>Steps of the service\<close>

lemma safe_on_store [safe_rules]: "safe (session_ok env T S) (on_store f)"
  unfolding on_store_def by (rule safe_keep) (auto simp: on_manager_def split: prod.split)

lemma safe_row [safe_rules]: "safe (session_ok env T S) (get_team_row ve team_id)"
  by (rule ensuresI) (simp add: get_team_row_def)

lemma safe_rows [safe_rules]:
  "safe (session_ok env T S) (team_of_row ve row)"
  "safe (session_ok env T S) (load_owned_team_including_archived ve user_id team_id)"
  "safe (session_ok env T S) (load_owned_team ve user_id team_id)"
  "safe (session_ok env T S) (load_running_team ve team_id)"
  "safe (session_ok env T S) (need_session e team_id)"
  unfolding team_of_row_def load_owned_team_def load_owned_team_including_archived_def load_running_team_def need_session_def
  by (intro safe_rules)+

lemma safe_updates [safe_rules]:
  "safe (session_ok env T S) (update_team ve team_id params)"
  "safe (session_ok env T S) (save_agents ve team_id agents)"
  "safe (session_ok env T S) (persist_group_message ve team_id kind sender name content files targets)"
  unfolding update_team_def save_agents_def persist_group_message_def Let_def by (intro safe_rules)+

definition service_safe :: "('j, 's, 'c, 'w, 'p) service_env \<Rightarrow> bool" where
  "service_safe ve \<longleftrightarrow> (\<forall>agent. world_safe (ve_session ve) (ve_attach ve agent)) \<and> spawn_safe (ve_session ve) (ve_spawn ve)"

lemma safe_add_agent [safe_rules]: "safe (session_ok env T S) (session_add_agent agent)"
  unfolding session_add_agent_def by (rule safe_modify_keep) simp

lemma safe_reservation [safe_rules]: "safe (session_ok env T S) (reservation_for ve agent)"
  unfolding reservation_for_def by (intro safe_rules)

lemma safe_reserve_each [safe_rules]: "safe (session_ok env T S) (reserve_each ve slots agents)"
proof (induction agents)
  case (Cons agent agents)
  note [safe_rules] = Cons.IH
  have step: "safe (session_ok env T S) (case reservation of
       AttachStart owner \<Rightarrow> f owner | AttachJoin aw \<Rightarrow> g aw | AttachRemoving aw \<Rightarrow> g aw
     | AttachAlreadyReady \<Rightarrow> reserve_each ve slots agents
     | AttachSessionStopped \<Rightarrow> throw e)"
    if "\<And>owner. safe (session_ok env T S) (f owner)" "\<And>aw. safe (session_ok env T S) (g aw)"
    for reservation :: "'c reserve_attach_reply" and f g e
    by (cases reservation) (simp_all add: that Cons.IH safe_rules)
  show ?case unfolding reserve_each.simps Let_def by (intro safe_rules step)
qed (unfold reserve_each.simps, intro safe_rules)

lemma safe_reserve [safe_rules]:
  "safe (session_ok env T S) (reserve_member_runtime_reconciliation ve agents)"
  unfolding reserve_member_runtime_reconciliation_def by (intro safe_rules)

lemma safe_check [safe_rules]: "safe (session_ok env T S) (check_outcomes team_id slots outcomes)"
proof (induction outcomes)
  case (Cons p outcomes)
  obtain agent outcome where p: "p = (agent, outcome)" by fastforce
  show ?case by (cases outcome) (simp_all add: p Cons.IH safe_rules)
qed (unfold check_outcomes.simps, intro safe_rules)

lemma safe_attach_owned:
  assumes "service_safe ve"
  shows "safe (session_ok (ve_session ve) T S) (attach_owned ve work)"
proof -
  have "world_safe (ve_session ve) (ve_attach ve agent)" for agent using assms by (simp add: service_safe_def)
  then show ?thesis
    unfolding attach_owned_def by (intro safe_rules; simp split: option.split; intro conjI allI impI safe_rules; simp)
qed

lemma safe_complete:
  assumes "service_safe ve"
  shows "safe (session_ok (ve_session ve) T S) (complete_member_runtime_reconciliation ve team_id work)"
  unfolding complete_member_runtime_reconciliation_def by (intro safe_rules safe_attach_owned assms)

lemma safe_existing_runtime:
  assumes "service_safe ve"
  shows "safe (session_ok (ve_session ve) T S) (ensure_existing_agent_runtime ve team_id slot_id)"
  unfolding ensure_existing_agent_runtime_def by (intro safe_rules safe_complete assms)

lemma safe_delegation [safe_rules]:
  "safe (session_ok env T S) (record_delegation ve team_id from_id to_id content)"
  unfolding record_delegation_def by (intro safe_rules; simp split: option.split; intro conjI allI impI safe_rules)

subsection \<open>The service that the tools call\<close>

definition session_service ::
  "('j, 's, 'c, 'w, 'p) service_env \<Rightarrow> ident \<Rightarrow> ('j, ('j, 's, 'c, 'w, 'p) session) team_service" where
  "session_service ve team_id =
     \<lparr>ts_user_id = get_session_user_id ve team_id,
      ts_send = service_agent_message ve team_id,
      ts_spawn = (\<lambda>caller req. and_then (spawn_agent_in_session ve team_id caller req) (\<lambda>(agent, _). return_ok agent)),
      ts_rename = (\<lambda>user_id slot_id name. service_rename_agent ve user_id team_id slot_id name),
      ts_shutdown = service_shutdown_agent ve team_id,
      ts_wake_leader = service_wake_leader ve team_id,
      ts_assistants = ve_assistants ve, ts_describe = ve_describe ve\<rparr>"

definition team_tools ::
  "('j, 's, 'c, 'w, 'p) service_env \<Rightarrow> 'j tool_json \<Rightarrow> ident \<Rightarrow> ('j, 's, 'c, 'w, 'p) tool_env" where
  "team_tools ve tj team_id =
     \<lparr>xe_session = ve_session ve, xe_json = tj, xe_service = Some (session_service ve team_id)\<rparr>"

lemma safe_agent_message:
  assumes "service_safe ve"
  shows "safe (session_ok (ve_session ve) T S) (service_agent_message ve team_id from_id to_id content files)"
  unfolding service_agent_message_def require_active_team_run_def
  by (intro safe_rules safe_existing_runtime assms)

lemma safe_service_calls [safe_rules]:
  "safe (session_ok (ve_session ve) T S) (service_shutdown_agent ve team_id caller target reason)"
  "safe (session_ok (ve_session ve) T S) (service_wake_leader ve team_id source_id source)"
  "safe (session_ok (ve_session ve) T S) (service_rename_agent ve user_id team_id slot_id name)"
  unfolding service_shutdown_agent_def service_wake_leader_def service_rename_agent_def Let_def
  by (intro safe_rules)+

lemma safe_spawn_in_session:
  "service_safe ve \<Longrightarrow> safe (session_ok (ve_session ve) T S) (spawn_agent_in_session ve team_id caller req)"
  unfolding spawn_agent_in_session_def by (intro safe_rules) (simp add: service_safe_def)

lemma team_tools_keep:
  assumes "service_safe ve"
  shows "tool_service (team_tools ve tj team_id) (session_ok (ve_session ve) T S)"
proof
  show "session_ok (ve_session ve) T S (se\<lparr>se_manager := m\<rparr>)" "session_ok (ve_session ve) T S (se\<lparr>se_removals := r\<rparr>)"
    if "session_ok (ve_session ve) T S se" for se m r
    by (rule session_ok_keep [OF that]; simp)+
qed (auto simp: team_tools_def session_service_def assms
       intro!: safe_agent_message safe_and_then safe_spawn_in_session safe_service_calls safe_pure)

text \<open>The team's own service, where nobody else works on the session while a process starts.\<close>

definition undisturbed :: "('j, 's, 'c, 'w, 'p) service_env \<Rightarrow> ('j, 's, 'c, 'w, 'p) service_env" where
  "undisturbed ve =
     ve\<lparr>ve_session := (ve_session ve)\<lparr>en_others := (\<lambda>_ se. se)\<rparr>,
        ve_attach := (\<lambda>agent. (ve_attach ve agent)\<lparr>at_meanwhile := (\<lambda>se. se)\<rparr>),
        ve_spawn := (ve_spawn ve)\<lparr>sw_remove := (\<lambda>_ se. se)\<rparr>\<rparr>"

lemma undisturbed_safe: "service_safe (undisturbed ve)"
  by (simp add: service_safe_def undisturbed_def world_safe_def spawn_safe_def others_safe_def)

interpretation own: tool_service "team_tools (undisturbed ve) tj team_id" "session_ok (ve_session (undisturbed ve)) T S"
  for ve :: "('j, 's, 'c, 'w, 'p) service_env" and tj team_id T S
  by (rule team_tools_keep [OF undisturbed_safe])

end
