(* ===== verification/Server_Claims.thy ===== *)
theory Server_Claims
  imports Service_Safety Session_Claims
begin

text \<open>
  What the MCP server of a team guarantees to its callers, over TCP and over HTTP: every request
  with an id gets its answer, nobody gets anything without the token, and a teammate cannot
  use the tools of the lead.
\<close>

subsection \<open>Requests and responses of a connection\<close>

text \<open>The requests that arrive on a connection and want a response.\<close>

function requests_of :: "'j wire_ops \<Rightarrow> byte list \<Rightarrow> 'j rpc_request list" where
  "requests_of wi bs =
     (case read_request wi bs of
        Inl _ \<Rightarrow> []
      | Inr (req, rest) \<Rightarrow> if jq_id req = None then requests_of wi rest else req # requests_of wi rest)"
  by pat_completeness auto

termination
  by (relation "measure (\<lambda>(wi, bs). length bs)") (auto dest: read_request_shorter)

declare requests_of.simps [simp del]

definition response_formed :: "'j rpc_response \<Rightarrow> bool" where
  "response_formed r \<longleftrightarrow> jr_jsonrpc r = ''2.0'' \<and> (jr_result r = None \<longleftrightarrow> jr_error r \<noteq> None)"

definition answers :: "'j rpc_request \<Rightarrow> 'j rpc_response \<Rightarrow> bool" where
  "answers req r \<longleftrightarrow> jr_id r = jq_id req \<and> response_formed r"

lemma rpc_answers [simp]:
  "answers req (rpc_success (jq_id req) v)" "answers req (rpc_failure (jq_id req) code message)"
  by (simp_all add: answers_def response_formed_def rpc_success_def rpc_failure_def)

lemma initialize_answers:
  "handle_initialize vo auth_token req = Authenticated slot_id resp \<Longrightarrow> answers req resp"
  "handle_initialize vo auth_token req = NotAuthenticated resp \<Longrightarrow> answers req resp"
  by (auto simp: handle_initialize_def split: if_splits)

lemma method_answers: "handle_method xe team_id req caller se = Some (Inr resp, se') \<Longrightarrow> answers req resp"
  by (auto simp: handle_method_def handle_tools_list_def handle_tools_call_def Let_def and_then_Some
      split: if_splits option.splits)

lemma request_answers:
  "answer_request xe team_id auth_token auth req se = Some (Inr (resp, auth1), se') \<Longrightarrow> answers req resp"
  by (auto simp: answer_request_def and_then_Some split: option.splits init_result.splits
      dest: initialize_answers method_answers)

lemma infallible_answer: "infallible (answer_request xe team_id auth_token auth req)"
  unfolding answer_request_def
  by (intro infallible_rules; simp split: option.split init_result.split; intro conjI allI impI infallible_rules)

text \<open>One response after the other, to the requests in their order.\<close>

lemma served_requests:
  "serve_connection xe wi team_id auth_token (\<lambda>_. True) n auth bs se = Some (r, se') \<Longrightarrow>
     \<exists>out. r = Inr out \<and> list_all2 answers (requests_of wi bs) out"
proof (induction "length bs" arbitrary: n auth bs se r rule: less_induct)
  case less
  show ?case
  proof (cases "read_request wi bs")
    case (Inl e)
    then show ?thesis using less.prems by (simp add: serve_connection.simps [of _ _ _ _ _ _ _ bs] requests_of.simps [of wi bs])
  next
    case (Inr p)
    then obtain req rest where read: "read_request wi bs = Inr (req, rest)" by (cases p) auto
    note IH = less.hyps [OF read_request_shorter [OF read]]
    note unfold = serve_connection.simps [of _ _ _ _ _ _ _ bs] requests_of.simps [of wi bs] read
    show ?thesis
    proof (cases "jq_id req = None")
      case True
      then show ?thesis using less.prems IH by (simp add: unfold)
    next
      case False
      with less.prems show ?thesis
        using infallible_answer [of xe team_id auth_token auth req]
        by (auto simp: unfold and_then_Some infallible_def split: prod.splits dest: IH dest!: request_answers)
    qed
  qed
qed

subsection \<open>A service and requests for the witnesses\<close>

definition demo_service :: "(json_tree, memory_state, nat, attach_signal list, conv_state) service_env" where
  "demo_service =
     \<lparr>ve_session = demo_session_env, ve_rows = memory_rows,
      ve_agents_of = (\<lambda>s. if s = ''agents'' then Inr [demo_agent ''s1'' Lead, demo_agent ''s2'' Teammate] else Inl ''bad''),
      ve_agents_to = (\<lambda>_. Inr ''agents''),
      ve_metadata_of = (\<lambda>_. Inr \<lparr>md_kind = GroupUser, md_sender_name = None, md_target_slot_ids = [], md_deliveries = []\<rparr>),
      ve_metadata_to = (\<lambda>_. Inr ''metadata''), ve_has_task = (\<lambda>_ _. True),
      ve_attach = (\<lambda>_. \<lparr>at_result = None, at_meanwhile = (\<lambda>se. se), at_published = (\<lambda>_. True), at_replaced = False,
        at_members = None\<rparr>),
      ve_waited = (\<lambda>_ _. OutReady),
      ve_spawn = \<lparr>sw_service = True, sw_resolve = (\<lambda>_ backend model. Inr (backend, model)),
        sw_persist = (\<lambda>_ _ _ _. Inr (demo_agent ''s3'' Teammate)), sw_remove = (\<lambda>_ se. se), sw_published = True\<rparr>,
      ve_rebuild = map (\<lambda>a. (a, None)), ve_start = None, ve_assistants = JArr [], ve_describe = (\<lambda>i _. Inr i)\<rparr>"

lemma demo_service_safe: "service_safe demo_service"
  by (simp add: demo_others service_safe_def demo_service_def world_safe_def spawn_safe_def)

lemma demo_start_ok: "session_ok (ve_session demo_service) {} {} demo_start"
  using session_start_ok [OF demo_ids_fresh] by (simp add: demo_service_def demo_start_def)

definition demo_row :: team_row where
  "demo_row = \<lparr>tr_id = ''t1'', tr_user_id = ''u'', tr_name = ''team'', tr_workspace = ''/w'', tr_workspace_mode = ''shared'',
     tr_agents = ''agents'', tr_lead_agent_id = Some ''s1'', tr_session_mode = None, tr_agents_version = ''1.0.1'',
     tr_created_at = 0, tr_updated_at = 0, tr_archived_at = None\<rparr>"

definition demo_rowed :: "(json_tree, memory_state, nat, attach_signal list, conv_state) session" where
  "demo_rowed = demo_start\<lparr>se_manager := (se_manager demo_start)\<lparr>sm_store := memory_new\<lparr>ms_teams := [demo_row]\<rparr>\<rparr>\<rparr>"

lemma demo_row_read: "rows_get (ve_rows demo_service) ''t1'' (sm_store (se_manager demo_rowed)) = Inr (Some demo_row)"
  by (simp add: demo_service_def memory_rows_def demo_rowed_def mem_get_team_def demo_row_def)

lemma demo_row_fields:
  "tr_user_id demo_row = ''u''" "tr_archived_at demo_row = None"
  "ve_agents_of demo_service (tr_agents demo_row) = Inr [demo_agent ''s1'' Lead, demo_agent ''s2'' Teammate]"
  by (simp_all add: demo_row_def demo_service_def)

definition demo_tools :: "(json_tree, memory_state, nat, attach_signal list, conv_state) tool_env" where
  "demo_tools = team_tools demo_service tree_tool_json ''t1''"

text \<open>Frames of one byte: the handshake with the token, without it, a list of the tools, a notification.\<close>

definition demo_request :: "byte \<Rightarrow> json_tree rpc_request" where
  "demo_request b =
     \<lparr>jq_jsonrpc = ''2.0'', jq_id = (if b = 4 then None else Some (ucast b)),
      jq_method = (if b = 1 \<or> b = 2 then ''initialize'' else if b = 3 then ''tools/list'' else ''notifications/initialized''),
      jq_params = (if b = 1 then Some (JObj [(''auth_token'', JStr ''token''), (''slot_id'', JStr ''s2'')]) else None)\<rparr>"

definition demo_wire :: "json_tree wire_ops" where
  "demo_wire = \<lparr>wi_request_of = (\<lambda>bs. case bs of [b] \<Rightarrow> Inr (demo_request b) | _ \<Rightarrow> Inl ''expected a byte''),
     wi_bytes_of = (\<lambda>_. [])\<rparr>"

lemma demo_requests:
  "requests_of demo_wire (concat (map (\<lambda>b. write_frame [b]) bs)) = filter (\<lambda>q. jq_id q \<noteq> None) (map demo_request bs)"
proof (induction bs)
  case Nil
  show ?case by (simp add: requests_of.simps [of _ "[]"] read_request_def read_frame_def)
next
  case (Cons b bs)
  have "read_request demo_wire (write_frame [b] @ concat (map (\<lambda>b. write_frame [b]) bs)) =
      Inr (demo_request b, concat (map (\<lambda>b. write_frame [b]) bs))"
    by (simp add: read_request_def read_written Let_def MAX_FRAME_def demo_wire_def)
  then show ?case
    by (simp add: requests_of.simps [of _ "write_frame [b] @ concat (map (\<lambda>b. write_frame [b]) bs)"] Cons.IH)
qed

subsection \<open>Every request is answered\<close>

text \<open>C3: Whatever bytes arrive on a connection, the server returns without a panic and leaves the
  session consistent, and if its responses can be written it answers every request that has an
  id, in the order of the requests: each response has the id of its request and either a
  result or an error.\<close>

theorem every_request_is_answered:
  assumes "service_safe ve" and "session_ok (ve_session ve) T S se"
  shows "\<exists>out se'. handle_connection (team_tools ve tj team_id) wi team_id auth_token (\<lambda>_. True) bs se = Some (Inr out, se') \<and>
    session_ok (ve_session ve) T S se' \<and> list_all2 answers (requests_of wi bs) out"
proof -
  obtain r se' where run: "handle_connection (team_tools ve tj team_id) wi team_id auth_token (\<lambda>_. True) bs se = Some (r, se')"
    and ok: "session_ok (ve_session ve) T S se'"
    using ensuresD [OF tool_service.connection_step [OF team_tools_keep [OF assms(1)]] assms(2)]
    unfolding handle_connection_def by metis
  then show ?thesis using served_requests [OF run [unfolded handle_connection_def]] by blast
qed

theorem every_request_is_answered_witness:
  "\<exists>first second se'. handle_connection demo_tools demo_wire ''t1'' ''token'' (\<lambda>_. True)
       (concat (map (\<lambda>b. write_frame [b]) [1, 4, 3])) demo_start = Some (Inr [first, second], se') \<and>
     jr_id first = Some 1 \<and> jr_id second = Some 3"
  using every_request_is_answered [OF demo_service_safe demo_start_ok, of tree_tool_json "''t1''" demo_wire "''token''"
      "concat (map (\<lambda>b. write_frame [b]) [1, 4, 3])"]
  unfolding demo_requests demo_tools_def [symmetric]
  by (auto simp: demo_request_def list_all2_Cons1 answers_def)

subsection \<open>Nothing without the token\<close>

definition carries_token :: "'j value_ops \<Rightarrow> string \<Rightarrow> 'j rpc_request \<Rightarrow> bool" where
  "carries_token vo auth_token req \<longleftrightarrow>
     jq_method req = ''initialize'' \<and>
     (\<exists>params key v. jq_params req = Some params \<and> key \<in> {''auth_token'', ''authToken''} \<and>
        jv_get vo key params = Some v \<and> jv_as_str vo v = Some auth_token)"

definition refused :: "'j rpc_response \<Rightarrow> bool" where
  "refused r \<longleftrightarrow> jr_result r = None \<and> (\<exists>e. jr_error r = Some e \<and> je_code e = INVALID_REQUEST)"

lemma param_str_carried:
  assumes "param_str vo params key other = Some t"
  shows "\<exists>p k v. params = Some p \<and> k \<in> {key, other} \<and> jv_get vo k p = Some v \<and> jv_as_str vo v = Some t"
  using assms by (auto simp: param_str_def bind_eq_Some_conv split: option.splits)

lemma refused_request:
  assumes "auth_token \<noteq> []" and "\<not> carries_token (xe_values xe) auth_token req"
  shows "\<exists>resp. answer_request xe team_id auth_token None req se = Some (Inr (resp, None), se) \<and> refused resp"
proof -
  have "(case param_str (xe_values xe) (jq_params req) ''auth_token'' ''authToken'' of None \<Rightarrow> [] | Some t \<Rightarrow> t) \<noteq> auth_token"
    if "jq_method req = ''initialize''"
    using assms that param_str_carried [of "xe_values xe" "jq_params req" "''auth_token''" "''authToken''" auth_token]
    by (auto simp: carries_token_def split: option.splits)
  then show ?thesis by (auto simp: answer_request_def handle_initialize_def refused_def rpc_failure_def)
qed

lemma refused_connection:
  "auth_token \<noteq> [] \<Longrightarrow> \<forall>req \<in> set (requests_of wi bs). \<not> carries_token (xe_values xe) auth_token req \<Longrightarrow>
     \<exists>out. serve_connection xe wi team_id auth_token writes n None bs se = Some (Inr out, se) \<and> (\<forall>r \<in> set out. refused r)"
proof (induction "length bs" arbitrary: n bs rule: less_induct)
  case less
  show ?case
  proof (cases "read_request wi bs")
    case (Inl e)
    then show ?thesis by (simp add: serve_connection.simps [of _ _ _ _ _ _ _ bs])
  next
    case (Inr p)
    then obtain req rest where read: "read_request wi bs = Inr (req, rest)" by (cases p) auto
    note unfold = serve_connection.simps [of _ _ _ _ _ _ _ bs] read
    have rest: "\<exists>out. serve_connection xe wi team_id auth_token writes k None rest se = Some (Inr out, se) \<and> (\<forall>r \<in> set out. refused r)" for k
    proof (intro less.hyps read_request_shorter [OF read])
      show "auth_token \<noteq> []" by (rule less.prems(1))
      show "\<forall>req \<in> set (requests_of wi rest). \<not> carries_token (xe_values xe) auth_token req"
        using less.prems(2) by (simp add: requests_of.simps [of wi bs] read split: if_splits)
    qed
    show ?thesis
    proof (cases "jq_id req = None")
      case True
      then show ?thesis using rest by (simp add: unfold)
    next
      case False
      then have "req \<in> set (requests_of wi bs)" by (auto simp: requests_of.simps [of wi bs] read)
      with less.prems have "\<not> carries_token (xe_values xe) auth_token req" by blast
      then obtain resp where resp: "answer_request xe team_id auth_token None req se = Some (Inr (resp, None), se)" "refused resp"
        using refused_request less.prems(1) by blast
      obtain out where "serve_connection xe wi team_id auth_token writes (Suc n) None rest se = Some (Inr out, se)" "\<forall>r \<in> set out. refused r"
        using rest by blast
      with False resp show ?thesis by (auto simp: unfold)
    qed
  qed
qed

text \<open>C4: Without the token of the team nobody reaches its session. A connection on which no
  handshake carries the token leaves the session as it is and gets nothing but errors; an HTTP
  request without the bearer token leaves it as it is and gets an error, or is rejected because
  its body is not JSON.\<close>

theorem nothing_without_the_token:
  "(auth_token \<noteq> [] \<and> (\<forall>req \<in> set (requests_of wi bs). \<not> carries_token (xe_values xe) auth_token req) \<longrightarrow>
     (\<exists>out. handle_connection xe wi team_id auth_token writes bs se = Some (Inr out, se) \<and> (\<forall>r \<in> set out. refused r))) \<and>
   (http_bearer_token (uc_trim (te_unicode (en_team (xe_session xe)))) text \<noteq> Some auth_token \<longrightarrow>
     (\<exists>reply. http_request xe team_id auth_token text se = Some (Inr reply, se) \<and>
       (reply = HttpBadRequest \<or> (\<exists>request_id. reply = HttpJson (http_error (xe_values xe) request_id INVALID_REQUEST
          ''Authentication failed: invalid auth_token'')))))"
proof (intro conjI impI)
  show "\<exists>out. handle_connection xe wi team_id auth_token writes bs se = Some (Inr out, se) \<and> (\<forall>r \<in> set out. refused r)"
    if "auth_token \<noteq> [] \<and> (\<forall>req \<in> set (requests_of wi bs). \<not> carries_token (xe_values xe) auth_token req)"
    unfolding handle_connection_def using that by (intro refused_connection) simp_all
qed (auto simp: http_request_def Let_def split: sum.split)

theorem nothing_without_the_token_witness:
  "(\<exists>out. handle_connection demo_tools demo_wire ''t1'' ''token'' (\<lambda>_. True) (concat (map (\<lambda>b. write_frame [b]) [2, 3])) demo_start =
      Some (Inr out, demo_start) \<and> (\<forall>r \<in> set out. refused r)) \<and>
   (\<exists>reply. http_request demo_tools ''t1'' ''token'' ''GET'' demo_start = Some (Inr reply, demo_start))"
proof -
  have "\<forall>req \<in> set (requests_of demo_wire (concat (map (\<lambda>b. write_frame [b]) [2, 3]))).
      \<not> carries_token (xe_values demo_tools) ''token'' req"
    unfolding demo_requests
    by (simp add: demo_request_def carries_token_def demo_tools_def team_tools_def xe_values_def)
  moreover have "http_bearer_token (uc_trim (te_unicode (en_team (xe_session demo_tools)))) ''GET'' \<noteq> Some ''token''"
    by (simp add: http_bearer_token_def str_lines_def drop_cr_def to_ascii_lowercase_def)
  ultimately show ?thesis using nothing_without_the_token [where auth_token = "''token''"] by blast
qed

end
