(* ===== verification/Tool_Claims.thy ===== *)
theory Tool_Claims
  imports Server_Claims
begin

text \<open>
  Who may use which tool: what an agent is offered is what it may call, a refused call does
  nothing, both endpoints give the same answers, and a caller on the command line is the
  agent of its own conversation.
\<close>

subsection \<open>Permissions\<close>

lemma find_name:
  assumes "distinct (map f xs)" and "x \<in> set xs"
  shows "find (\<lambda>y. f y = f x) xs = Some x"
  using assms by (induction xs) (auto simp: image_iff)

lemma tool_name_distinct: "distinct (map tds_name (team_tool_descriptors vo))"
  by (simp add: team_tool_descriptors_def tool_specs_def)

lemma descriptor_of_tool:
  "team_tool_descriptor vo name = Some d \<longleftrightarrow> d \<in> set (team_tool_descriptors vo) \<and> tds_name d = name"
proof
  show "team_tool_descriptor vo name = Some d \<Longrightarrow> d \<in> set (team_tool_descriptors vo) \<and> tds_name d = name"
    by (auto simp: team_tool_descriptor_def find_Some_iff)
  assume "d \<in> set (team_tool_descriptors vo) \<and> tds_name d = name"
  then show "team_tool_descriptor vo name = Some d"
    using find_name [OF tool_name_distinct, of d vo] by (auto simp: team_tool_descriptor_def)
qed

lemma authorized_iff:
  "authorize_tool vo role name = None \<longleftrightarrow>
     (\<exists>d. team_tool_descriptor vo name = Some d \<and> (tds_permission d = LeadOnly \<longrightarrow> role = Lead))"
  by (auto simp: authorize_tool_def split: option.split)

lemma known_tool: "tool_name_parse name = None \<longleftrightarrow> team_tool_descriptor vo name = None"
  by (simp add: team_tool_descriptor_def team_tool_descriptors_def tool_specs_def tool_name_parse_def)

lemma unknown_tool_code: "tool_error_code_of (''Unknown tool: '' @ name) = UnknownTool"
  by (simp add: tool_error_code_of_def)

lemma lead_only_code: "tool_error_code_of (''Only Lead can use '' @ name) = PermissionDenied"
  by (simp add: tool_error_code_of_def)

definition refusal :: "'j value_ops \<Rightarrow> string \<Rightarrow> 'j tool_error_payload \<Rightarrow> bool" where
  "refusal vo name e \<longleftrightarrow> tep_code e = (if team_tool_descriptor vo name = None then UnknownTool else PermissionDenied)"

lemma parsed_name: "tool_name_parse name = Some tool \<Longrightarrow> tool_name_str tool = name"
  by (auto simp: tool_name_parse_def split: if_splits)

lemma refused_call:
  assumes "authorize_tool (xe_values xe) role name \<noteq> None"
  shows "\<exists>e. call_tool xe team_id caller role name args se = Some (Inr (Inl e), se) \<and> refusal (xe_values xe) name e"
proof (cases "tool_name_parse name")
  case None
  then show ?thesis
    by (simp add: call_tool_def team_tool_call_from_name_def refusal_def known_tool [of _ "xe_values xe", symmetric])
next
  case (Some tool)
  then have known: "team_tool_descriptor (xe_values xe) name \<noteq> None" using known_tool [of name "xe_values xe"] by simp
  then have "authorize_tool (xe_values xe) role name = Some (''Only Lead can use '' @ name)"
    using assms by (auto simp: authorize_tool_def split: if_splits)
  then have "dispatch_tool xe name args team_id caller role se =
      Some (Inr (Inl (error_from_message (xe_values xe) (''Only Lead can use '' @ name))), se)"
    by (simp add: dispatch_tool_def tool_error_def)
  then show ?thesis
    using Some known lead_only_code [of name]
    by (simp add: call_tool_def team_tool_call_from_name_def parsed_name execute_tool_def mcp_context_def map_tool_error_def
        error_from_message_def refusal_def)
qed

text \<open>C6: The tools an agent is offered are exactly the tools it is allowed to call: all for the lead,
  those that are not the lead's for a teammate. A call of any other tool changes nothing and is
  answered with the code of an unknown tool, or of a missing permission if the tool exists.\<close>

theorem tools_offered_are_tools_allowed:
  "(name \<in> tds_name ` set (list_tools xe (mcp_context team_id caller role)) \<longleftrightarrow> authorize_tool (xe_values xe) role name = None) \<and>
   (authorize_tool (xe_values xe) role name \<noteq> None \<longrightarrow>
     (\<exists>e. call_tool xe team_id caller role name args se = Some (Inr (Inl e), se) \<and> refusal (xe_values xe) name e))"
proof
  show "name \<in> tds_name ` set (list_tools xe (mcp_context team_id caller role)) \<longleftrightarrow> authorize_tool (xe_values xe) role name = None"
    by (cases role) (auto simp: list_tools_def mcp_context_def tool_role_of_def team_tool_descriptors_for_role_def
        authorized_iff descriptor_of_tool)
qed (intro impI refused_call)

theorem tools_offered_are_tools_allowed_witness:
  "\<exists>e. call_tool demo_tools ''t1'' ''s2'' Teammate ''team_spawn_agent'' JNull demo_start = Some (Inr (Inl e), demo_start) \<and>
     refusal (xe_values demo_tools) ''team_spawn_agent'' e"
proof -
  have "authorize_tool (xe_values demo_tools) Teammate ''team_spawn_agent'' \<noteq> None"
    by (simp add: authorize_tool_def team_tool_descriptor_def team_tool_descriptors_def tool_specs_def)
  then show ?thesis
    using tools_offered_are_tools_allowed [of "''team_spawn_agent''" demo_tools "''t1''" "''s2''" Teammate JNull demo_start] by blast
qed

subsection \<open>Two endpoints, one answer\<close>

text \<open>The response over HTTP that carries the result of a response over TCP.\<close>

definition over_http :: "'j value_ops \<Rightarrow> 'j option \<Rightarrow> 'j rpc_response \<Rightarrow> 'j http_reply" where
  "over_http vo request_id r =
     HttpJson (jv_obj vo [(''jsonrpc'', jv_str vo ''2.0''), (''id'', jv_option vo (\<lambda>v. v) request_id),
       (''result'', (case jr_result r of None \<Rightarrow> jv_null vo | Some v \<Rightarrow> v))])"

lemma no_error_entry:
  "value_laws (tj_values tj) \<Longrightarrow> jv_get (tj_values tj) ''error'' (call_result_value tj r) = None"
  by (cases r) (simp_all add: call_result_value_def Let_def value_get)

lemma map_and_then: "map_option (map_prod (map_sum g f) (\<lambda>st. st)) (and_then m k st) =
    (case m st of None \<Rightarrow> None | Some (Inl e, st1) \<Rightarrow> Some (Inl (g e), st1)
       | Some (Inr x, st1) \<Rightarrow> map_option (map_prod (map_sum g f) (\<lambda>st. st)) (k x st1))"
  by (auto simp: and_then_def split: option.split sum.split prod.split)

text \<open>C29: A call of a tool over HTTP does to the session what the same call does over the TCP
  connection of the caller, and its response carries the same result.\<close>

theorem endpoints_agree_on_tool_calls:
  assumes "value_laws (xe_values xe)"
    and "jq_params req = Some params" and "jv_get (xe_values xe) ''name'' params = Some n" and "jv_as_str (xe_values xe) n = Some name"
    and "jv_get (xe_values xe) ''method'' v = Some m" and "jv_as_str (xe_values xe) m = Some ''tools/call''"
    and "jv_get (xe_values xe) ''params'' v = Some params"
  shows "http_method xe team_id caller v se =
    map_option (map_prod (map_sum (\<lambda>e. e) (over_http (xe_values xe) (jv_get (xe_values xe) ''id'' v))) (\<lambda>se. se))
      (handle_tools_call xe team_id req caller se)"
proof -
  have "value_laws (tj_values (xe_json xe))" using assms(1) by (simp add: xe_values_def)
  then have no_error: "jv_get (xe_values xe) ''error'' (call_result_value (xe_json xe) r) = None" for r
    by (simp add: no_error_entry xe_values_def)
  show ?thesis
    using assms(2-7)
    by (auto simp: http_method_def handle_tools_call_def Let_def text_or_empty_def or_empty_object_def and_then_def
        http_result_def no_error over_http_def rpc_success_def split: option.split prod.split sum.split)
qed

theorem endpoints_agree_on_tool_calls_witness:
  "\<exists>resp se'. handle_tools_call demo_tools ''t1''
      \<lparr>jq_jsonrpc = ''2.0'', jq_id = Some 5, jq_method = ''tools/call'', jq_params = Some (JObj [(''name'', JStr ''team_members'')])\<rparr>
      ''s2'' demo_start = Some (Inr resp, se') \<and>
    http_method demo_tools ''t1'' ''s2'' (JObj [(''id'', JInt 5), (''method'', JStr ''tools/call''),
        (''params'', JObj [(''name'', JStr ''team_members'')])]) demo_start =
      Some (Inr (over_http tree_ops (Some (JInt 5)) resp), se')"
proof -
  let ?req = "\<lparr>jq_jsonrpc = ''2.0'', jq_id = Some 5, jq_method = ''tools/call'',
      jq_params = Some (JObj [(''name'', JStr ''team_members'')])\<rparr> :: json_tree rpc_request"
  let ?v = "JObj [(''id'', JInt 5), (''method'', JStr ''tools/call''), (''params'', JObj [(''name'', JStr ''team_members'')])]"
  have vo: "xe_values demo_tools = tree_ops" by (simp add: demo_tools_def team_tools_def xe_values_def tree_tool_json_def)
  have keep: "safe (session_ok (ve_session demo_service) {} {}) (handle_method demo_tools ''t1'' ?req ''s2'')"
    unfolding demo_tools_def by (rule tool_service.method_step [OF team_tools_keep [OF demo_service_safe]])
  have "\<exists>r se'. handle_tools_call demo_tools ''t1'' ?req ''s2'' demo_start = Some (r, se')"
    using ensuresD [OF keep demo_start_ok] by (auto simp: handle_method_def)
  moreover have "infallible (handle_tools_call demo_tools ''t1'' ?req ''s2'')"
    using infallible_handle(1) [of demo_tools "''t1''" ?req "''s2''"] by (simp add: handle_method_def)
  ultimately obtain r se' where "handle_tools_call demo_tools ''t1'' ?req ''s2'' demo_start = Some (r, se')"
    and "\<And>e. r \<noteq> Inl e"
    unfolding infallible_def by metis
  then obtain resp where run: "handle_tools_call demo_tools ''t1'' ?req ''s2'' demo_start = Some (Inr resp, se')"
    by (cases r) auto
  moreover have "http_method demo_tools ''t1'' ''s2'' ?v demo_start =
      map_option (map_prod (map_sum (\<lambda>e. e) (over_http (xe_values demo_tools) (jv_get (xe_values demo_tools) ''id'' ?v))) (\<lambda>se. se))
        (handle_tools_call demo_tools ''t1'' ?req ''s2'' demo_start)"
    by (rule endpoints_agree_on_tool_calls [where params = "JObj [(''name'', JStr ''team_members'')]"
          and n = "JStr ''team_members''" and m = "JStr ''tools/call''" and name = "''team_members''"])
      (simp_all add: vo tree_laws, simp_all add: tree_ops_def)
  ultimately show ?thesis by (simp add: vo) (simp add: tree_ops_def)
qed

subsection \<open>The caller on the command line\<close>

text \<open>The context that a caller on the command line is given is its own: the conversation is the
  user's, the team too, the agent is the first of the team with that conversation, and the
  tools it is told of are those its role may call.\<close>

theorem tool_context_is_the_callers:
  assumes "resolve_team_tool_context ve vo user_id conversation_id binding se = Inr (resp, Some ctx)"
  shows "\<exists>b team_id row agents agent. binding = Inr (Some b) \<and> bd_user_id b = user_id \<and> bd_team_id b = Some team_id \<and>
    rows_get (ve_rows ve) team_id (sm_store (se_manager se)) = Inr (Some row) \<and> tr_user_id row = user_id \<and>
    ve_agents_of ve (tr_agents row) = Inr agents \<and> find (\<lambda>a. ta_conversation_id a = conversation_id) agents = Some agent \<and>
    tx_team_id ctx = team_id \<and> tx_caller_slot_id ctx = ta_slot_id agent \<and> tx_caller_role ctx = ta_role agent \<and>
    tx_user_id ctx = Some user_id \<and>
    (\<forall>name. name \<in> set (tcr_allowed_tools resp) \<longleftrightarrow> authorize_tool vo (tx_caller_role ctx) name = None)"
proof -
  have tools: "name \<in> set (map tds_name (team_tool_descriptors_for_role vo (tool_role_of role))) \<longleftrightarrow>
      authorize_tool vo role name = None" for name role
    by (cases role) (auto simp: tool_role_of_def team_tool_descriptors_for_role_def authorized_iff descriptor_of_tool)
  show ?thesis
    using assms
    by (auto simp: resolve_team_tool_context_def agent_for_conversation_def in_team_context_def not_in_team_context_def tools
        simp del: set_map split: sum.splits option.splits if_splits)
qed

theorem tool_context_is_the_callers_witness:
  "\<exists>resp ctx. resolve_team_tool_context demo_service tree_ops ''u'' ''s2''
       (Inr (Some \<lparr>bd_user_id = ''u'', bd_team_id = Some ''t1'', bd_slot_id = None\<rparr>)) demo_rowed = Inr (resp, Some ctx) \<and>
     tx_caller_slot_id ctx = ''s2'' \<and> ''team_spawn_agent'' \<notin> set (tcr_allowed_tools resp)"
proof -
  let ?b = "\<lparr>bd_user_id = ''u'', bd_team_id = Some ''t1'', bd_slot_id = None\<rparr>"
  let ?both = "in_team_context tree_ops ''u'' ''s2'' ''t1'' demo_row (demo_agent ''s2'' Teammate)"
  have run: "resolve_team_tool_context demo_service tree_ops ''u'' ''s2'' (Inr (Some ?b)) demo_rowed = Inr ?both"
    by (simp add: resolve_team_tool_context_def demo_row_read demo_row_fields agent_for_conversation_def demo_agent_def)
  obtain resp ctx where both: "?both = (resp, Some ctx)" by (simp add: in_team_context_def)
  have "authorize_tool tree_ops Teammate ''team_spawn_agent'' \<noteq> None"
    by (simp add: authorize_tool_def team_tool_descriptor_def team_tool_descriptors_def tool_specs_def)
  moreover have "ctx = the (snd ?both)" by (simp add: both)
  then have "tx_caller_role ctx = Teammate" "tx_caller_slot_id ctx = ''s2''" by (simp_all add: in_team_context_def demo_agent_def)
  ultimately show ?thesis
    using tool_context_is_the_callers [of demo_service tree_ops "''u''" "''s2''" "Inr (Some ?b)" demo_rowed resp ctx] run both by auto
qed

end
