(* ===== verification/Agent_Metadata.thy ===== *)
theory Agent_Metadata
  imports Scheduler
begin

text \<open>
  What is known of agents and of assistants (crates/store/src/metadata_repo.rs and the rows of
  models.rs): \<open>MemoryMetadataRepo\<close>, operation by operation, each under the lock of its state.
  The times are arguments, in the order in which the clock is read.
\<close>

subsection \<open>Rows\<close>

record agent_metadata_row =
  am_id :: ident
  am_icon :: "string option"
  am_name :: string
  am_name_i18n :: "string option"
  am_description :: "string option"
  am_description_i18n :: "string option"
  am_backend :: "string option"
  am_agent_type :: string
  am_agent_source :: string
  am_agent_source_info :: "string option"
  am_enabled :: bool
  am_command :: "string option"
  am_args :: "string option"
  am_env :: "string option"
  am_native_skills_dirs :: "string option"
  am_behavior_policy :: "string option"
  am_yolo_id :: "string option"
  am_agent_capabilities :: "string option"
  am_auth_methods :: "string option"
  am_config_options :: "string option"
  am_available_modes :: "string option"
  am_available_models :: "string option"
  am_available_commands :: "string option"
  am_sort_order :: int
  am_last_check_status :: "string option"
  am_last_check_kind :: "string option"
  am_last_check_error_code :: "string option"
  am_last_check_error_message :: "string option"
  am_last_check_guidance :: "string option"
  am_last_check_latency_ms :: "int option"
  am_last_check_at :: "timestamp option"
  am_last_success_at :: "timestamp option"
  am_last_failure_at :: "timestamp option"
  am_command_override :: "string option"
  am_env_override :: "string option"
  am_created_at :: timestamp
  am_updated_at :: timestamp

record upsert_metadata =
  um_id :: ident
  um_icon :: "string option"
  um_name :: string
  um_name_i18n :: "string option"
  um_description :: "string option"
  um_description_i18n :: "string option"
  um_backend :: "string option"
  um_agent_type :: string
  um_agent_source :: string
  um_agent_source_info :: "string option"
  um_enabled :: bool
  um_command :: "string option"
  um_args :: "string option"
  um_env :: "string option"
  um_native_skills_dirs :: "string option"
  um_behavior_policy :: "string option"
  um_yolo_id :: "string option"
  um_agent_capabilities :: "string option"
  um_auth_methods :: "string option"
  um_config_options :: "string option"
  um_available_modes :: "string option"
  um_available_models :: "string option"
  um_available_commands :: "string option"
  um_sort_order :: int

text \<open>The outer option says whether the field is written, the inner one what with.\<close>

record handshake_update =
  hu_agent_capabilities :: "string option option"
  hu_auth_methods :: "string option option"
  hu_config_options :: "string option option"
  hu_available_modes :: "string option option"
  hu_available_models :: "string option option"
  hu_available_commands :: "string option option"

record availability_update =
  vu_last_check_status :: "string option"
  vu_last_check_kind :: "string option"
  vu_last_check_error_code :: "string option"
  vu_last_check_error_message :: "string option"
  vu_last_check_guidance :: "string option"
  vu_last_check_latency_ms :: "int option"

record assistant_row =
  as_id :: ident
  as_assistant_id :: ident
  as_source :: string
  as_owner_type :: string
  as_source_ref :: "string option"
  as_name :: string
  as_name_i18n :: string
  as_description :: "string option"
  as_description_i18n :: string
  as_avatar_type :: string
  as_avatar_value :: "string option"
  as_agent_id :: ident
  as_rule_resource_type :: string
  as_rule_resource_ref :: "string option"
  as_recommended_prompts :: string
  as_recommended_prompts_i18n :: string
  as_default_model_mode :: string
  as_default_model_value :: "string option"
  as_default_permission_mode :: string
  as_default_permission_value :: "string option"
  as_default_thought_level_mode :: string
  as_default_thought_level_value :: "string option"
  as_default_skills_mode :: string
  as_default_skill_ids :: string
  as_custom_skill_names :: string
  as_default_disabled_builtin_skill_ids :: string
  as_default_mcps_mode :: string
  as_default_mcp_ids :: string
  as_created_at :: timestamp
  as_updated_at :: timestamp
  as_deleted_at :: "timestamp option"

record upsert_assistant =
  ua_id :: ident
  ua_assistant_id :: ident
  ua_name :: string
  ua_agent_id :: ident

record overlay_row =
  ov_assistant_definition_id :: ident
  ov_enabled :: bool
  ov_sort_order :: int
  ov_agent_id_override :: "ident option"
  ov_last_used_at :: "timestamp option"
  ov_created_at :: timestamp
  ov_updated_at :: timestamp

record upsert_overlay =
  uo_assistant_definition_id :: ident
  uo_enabled :: bool
  uo_agent_id_override :: "ident option"

record meta_state =
  mt_agents :: "agent_metadata_row list"
  mt_assistants :: "assistant_row list"
  mt_overlays :: "overlay_row list"

definition meta_new :: meta_state where
  "meta_new = \<lparr>mt_agents = [], mt_assistants = [], mt_overlays = []\<rparr>"

subsection \<open>Agents\<close>

definition row_from_upsert :: "timestamp \<Rightarrow> upsert_metadata \<Rightarrow> agent_metadata_row" where
  "row_from_upsert now p =
     \<lparr>am_id = um_id p, am_icon = um_icon p, am_name = um_name p, am_name_i18n = um_name_i18n p,
      am_description = um_description p, am_description_i18n = um_description_i18n p,
      am_backend = um_backend p, am_agent_type = um_agent_type p, am_agent_source = um_agent_source p,
      am_agent_source_info = um_agent_source_info p, am_enabled = um_enabled p, am_command = um_command p,
      am_args = um_args p, am_env = um_env p, am_native_skills_dirs = um_native_skills_dirs p,
      am_behavior_policy = um_behavior_policy p, am_yolo_id = um_yolo_id p,
      am_agent_capabilities = um_agent_capabilities p, am_auth_methods = um_auth_methods p,
      am_config_options = um_config_options p, am_available_modes = um_available_modes p,
      am_available_models = um_available_models p, am_available_commands = um_available_commands p,
      am_sort_order = um_sort_order p, am_last_check_status = None, am_last_check_kind = None,
      am_last_check_error_code = None, am_last_check_error_message = None, am_last_check_guidance = None,
      am_last_check_latency_ms = None, am_last_check_at = None, am_last_success_at = None,
      am_last_failure_at = None, am_command_override = None, am_env_override = None,
      am_created_at = now, am_updated_at = now\<rparr>"

definition meta_list_all :: "meta_state \<Rightarrow> db_error + agent_metadata_row list" where
  "meta_list_all s = Inr (mt_agents s)"

definition meta_get :: "ident \<Rightarrow> meta_state \<Rightarrow> db_error + agent_metadata_row option" where
  "meta_get i s = Inr (find (\<lambda>r. am_id r = i) (mt_agents s))"

definition meta_find_by_source_and_name ::
  "string \<Rightarrow> string \<Rightarrow> meta_state \<Rightarrow> db_error + agent_metadata_row option" where
  "meta_find_by_source_and_name source name s =
     Inr (find (\<lambda>r. am_agent_source r = source \<and> am_name r = name) (mt_agents s))"

definition meta_find_builtin_by_backend :: "string \<Rightarrow> meta_state \<Rightarrow> db_error + agent_metadata_row option" where
  "meta_find_builtin_by_backend backend s =
     Inr (find (\<lambda>r. am_agent_source r = ''builtin'' \<and> am_backend r = Some backend) (mt_agents s))"

definition meta_upsert ::
  "timestamp \<Rightarrow> timestamp \<Rightarrow> upsert_metadata \<Rightarrow> meta_state \<Rightarrow> (db_error + agent_metadata_row) \<times> meta_state" where
  "meta_upsert now now1 p s =
     (let new = row_from_upsert now p
      in case find (\<lambda>r. am_id r = um_id p) (mt_agents s) of
           Some existing \<Rightarrow>
             let r = new\<lparr>am_created_at := am_created_at existing, am_updated_at := now1\<rparr>
             in (Inr r, s\<lparr>mt_agents := modify_first (\<lambda>r. am_id r = um_id p) (\<lambda>_. r) (mt_agents s)\<rparr>)
         | None \<Rightarrow> (Inr new, s\<lparr>mt_agents := mt_agents s @ [new]\<rparr>))"

text \<open>An update of the first row with the id, which is returned as it then is.\<close>

definition meta_change ::
  "ident \<Rightarrow> (agent_metadata_row \<Rightarrow> agent_metadata_row) \<Rightarrow> meta_state
     \<Rightarrow> (db_error + agent_metadata_row option) \<times> meta_state" where
  "meta_change i f s =
     (Inr (map_option f (find (\<lambda>r. am_id r = i) (mt_agents s))),
      s\<lparr>mt_agents := modify_first (\<lambda>r. am_id r = i) f (mt_agents s)\<rparr>)"

definition or_else :: "'a option \<Rightarrow> 'a option \<Rightarrow> 'a option" where
  "or_else a b = (case a of None \<Rightarrow> b | Some x \<Rightarrow> Some x)"

definition written :: "'a option \<Rightarrow> 'a \<Rightarrow> 'a" where
  "written new old = (case new of None \<Rightarrow> old | Some x \<Rightarrow> x)"

definition meta_apply_handshake ::
  "timestamp \<Rightarrow> ident \<Rightarrow> handshake_update \<Rightarrow> meta_state \<Rightarrow> (db_error + agent_metadata_row option) \<times> meta_state" where
  "meta_apply_handshake now i u =
     meta_change i (\<lambda>r. r\<lparr>
       am_agent_capabilities := written (hu_agent_capabilities u) (am_agent_capabilities r),
       am_auth_methods := written (hu_auth_methods u) (am_auth_methods r),
       am_config_options := written (hu_config_options u) (am_config_options r),
       am_available_modes := written (hu_available_modes u) (am_available_modes r),
       am_available_models := written (hu_available_models u) (am_available_models r),
       am_available_commands := written (hu_available_commands u) (am_available_commands r),
       am_updated_at := now\<rparr>)"

definition meta_update_availability ::
  "timestamp \<Rightarrow> timestamp \<Rightarrow> ident \<Rightarrow> availability_update \<Rightarrow> meta_state
     \<Rightarrow> (db_error + agent_metadata_row option) \<times> meta_state" where
  "meta_update_availability now now1 i u =
     meta_change i (\<lambda>r. r\<lparr>
       am_last_check_status := or_else (vu_last_check_status u) (am_last_check_status r),
       am_last_check_kind := or_else (vu_last_check_kind u) (am_last_check_kind r),
       am_last_check_error_code := or_else (vu_last_check_error_code u) (am_last_check_error_code r),
       am_last_check_error_message := or_else (vu_last_check_error_message u) (am_last_check_error_message r),
       am_last_check_guidance := or_else (vu_last_check_guidance u) (am_last_check_guidance r),
       am_last_check_latency_ms := or_else (vu_last_check_latency_ms u) (am_last_check_latency_ms r),
       am_last_check_at := Some now, am_updated_at := now1\<rparr>)"

definition meta_update_overrides ::
  "timestamp \<Rightarrow> ident \<Rightarrow> string option \<Rightarrow> string option \<Rightarrow> meta_state \<Rightarrow> (db_error + unit) \<times> meta_state" where
  "meta_update_overrides now i command env s =
     (if find (\<lambda>r. am_id r = i) (mt_agents s) = None then (Inl (NotFound i), s)
      else (Inr (), snd (meta_change i (\<lambda>r. r\<lparr>am_command_override := command, am_env_override := env,
              am_updated_at := now\<rparr>) s)))"

definition meta_set_enabled :: "timestamp \<Rightarrow> ident \<Rightarrow> bool \<Rightarrow> meta_state \<Rightarrow> (db_error + bool) \<times> meta_state" where
  "meta_set_enabled now i enabled s =
     (Inr (find (\<lambda>r. am_id r = i) (mt_agents s) \<noteq> None),
      snd (meta_change i (\<lambda>r. r\<lparr>am_enabled := enabled, am_updated_at := now\<rparr>) s))"

definition meta_delete :: "ident \<Rightarrow> meta_state \<Rightarrow> (db_error + bool) \<times> meta_state" where
  "meta_delete i s =
     (let rest = filter (\<lambda>r. am_id r \<noteq> i) (mt_agents s)
      in (Inr (length rest \<noteq> length (mt_agents s)), s\<lparr>mt_agents := rest\<rparr>))"

subsection \<open>Assistants and their overlays\<close>

definition assistant_list :: "meta_state \<Rightarrow> db_error + assistant_row list" where
  "assistant_list s = Inr (filter (\<lambda>a. as_deleted_at a = None) (mt_assistants s))"

definition assistant_by_assistant_id :: "ident \<Rightarrow> meta_state \<Rightarrow> db_error + assistant_row option" where
  "assistant_by_assistant_id i s =
     Inr (find (\<lambda>a. as_assistant_id a = i \<and> as_deleted_at a = None) (mt_assistants s))"

definition assistant_by_id :: "ident \<Rightarrow> meta_state \<Rightarrow> db_error + assistant_row option" where
  "assistant_by_id i s = Inr (find (\<lambda>a. as_id a = i) (mt_assistants s))"

definition assistant_by_source_ref :: "string \<Rightarrow> string \<Rightarrow> meta_state \<Rightarrow> db_error + assistant_row option" where
  "assistant_by_source_ref source ref s =
     Inr (find (\<lambda>a. as_source a = source \<and> as_source_ref a = Some ref) (mt_assistants s))"

definition new_assistant :: "timestamp \<Rightarrow> upsert_assistant \<Rightarrow> assistant_row" where
  "new_assistant now p =
     \<lparr>as_id = ua_id p, as_assistant_id = ua_assistant_id p, as_source = ''local'', as_owner_type = ''system'',
      as_source_ref = None, as_name = ua_name p, as_name_i18n = ''{}'', as_description = None,
      as_description_i18n = ''{}'', as_avatar_type = ''emoji'', as_avatar_value = None, as_agent_id = ua_agent_id p,
      as_rule_resource_type = ''none'', as_rule_resource_ref = None, as_recommended_prompts = ''[]'',
      as_recommended_prompts_i18n = ''{}'', as_default_model_mode = ''inherit'', as_default_model_value = None,
      as_default_permission_mode = ''inherit'', as_default_permission_value = None,
      as_default_thought_level_mode = ''inherit'', as_default_thought_level_value = None,
      as_default_skills_mode = ''inherit'', as_default_skill_ids = ''[]'', as_custom_skill_names = ''[]'',
      as_default_disabled_builtin_skill_ids = ''[]'', as_default_mcps_mode = ''inherit'', as_default_mcp_ids = ''[]'',
      as_created_at = now, as_updated_at = now, as_deleted_at = None\<rparr>"

definition assistant_upsert ::
  "timestamp \<Rightarrow> upsert_assistant \<Rightarrow> meta_state \<Rightarrow> (db_error + assistant_row) \<times> meta_state" where
  "assistant_upsert now p s =
     (case find (\<lambda>a. as_id a = ua_id p) (mt_assistants s) of
        Some existing \<Rightarrow>
          let a = existing\<lparr>as_assistant_id := ua_assistant_id p, as_name := ua_name p, as_agent_id := ua_agent_id p,
                    as_updated_at := now, as_deleted_at := None\<rparr>
          in (Inr a, s\<lparr>mt_assistants := modify_first (\<lambda>a. as_id a = ua_id p) (\<lambda>_. a) (mt_assistants s)\<rparr>)
      | None \<Rightarrow> (Inr (new_assistant now p), s\<lparr>mt_assistants := mt_assistants s @ [new_assistant now p]\<rparr>))"

definition assistant_soft_delete :: "ident \<Rightarrow> timestamp \<Rightarrow> meta_state \<Rightarrow> (db_error + bool) \<times> meta_state" where
  "assistant_soft_delete i deleted_at s =
     (Inr (find (\<lambda>a. as_id a = i) (mt_assistants s) \<noteq> None),
      s\<lparr>mt_assistants := modify_first (\<lambda>a. as_id a = i) (\<lambda>a. a\<lparr>as_deleted_at := Some deleted_at\<rparr>) (mt_assistants s)\<rparr>)"

definition overlay_get :: "ident \<Rightarrow> meta_state \<Rightarrow> db_error + overlay_row option" where
  "overlay_get i s = Inr (find (\<lambda>w. ov_assistant_definition_id w = i) (mt_overlays s))"

definition overlay_list :: "meta_state \<Rightarrow> db_error + overlay_row list" where
  "overlay_list s = Inr (mt_overlays s)"

definition overlay_upsert ::
  "timestamp \<Rightarrow> upsert_overlay \<Rightarrow> meta_state \<Rightarrow> (db_error + overlay_row) \<times> meta_state" where
  "overlay_upsert now p s =
     (let same = (\<lambda>w. ov_assistant_definition_id w = uo_assistant_definition_id p)
      in case find same (mt_overlays s) of
           Some existing \<Rightarrow>
             let w = existing\<lparr>ov_enabled := uo_enabled p, ov_agent_id_override := uo_agent_id_override p, ov_updated_at := now\<rparr>
             in (Inr w, s\<lparr>mt_overlays := modify_first same (\<lambda>_. w) (mt_overlays s)\<rparr>)
         | None \<Rightarrow>
             let w = \<lparr>ov_assistant_definition_id = uo_assistant_definition_id p, ov_enabled = uo_enabled p,
                      ov_sort_order = 0, ov_agent_id_override = uo_agent_id_override p, ov_last_used_at = None,
                      ov_created_at = now, ov_updated_at = now\<rparr>
             in (Inr w, s\<lparr>mt_overlays := mt_overlays s @ [w]\<rparr>))"

definition overlay_delete :: "ident \<Rightarrow> meta_state \<Rightarrow> (db_error + bool) \<times> meta_state" where
  "overlay_delete i s =
     (let rest = filter (\<lambda>w. ov_assistant_definition_id w \<noteq> i) (mt_overlays s)
      in (Inr (length rest \<noteq> length (mt_overlays s)), s\<lparr>mt_overlays := rest\<rparr>))"

subsection \<open>Which agent an id stands for\<close>

record agent_binding =
  ab_agent_id :: ident
  ab_agent_source :: string
  ab_agent_type :: string
  ab_runtime_backend :: string

definition nonblank :: "unicode_ops \<Rightarrow> string option \<Rightarrow> string option" where
  "nonblank uc s = (case map_option (uc_trim uc) s of Some t \<Rightarrow> if t = [] then None else Some t | None \<Rightarrow> None)"

definition runtime_backend_for_agent :: "unicode_ops \<Rightarrow> agent_metadata_row \<Rightarrow> string" where
  "runtime_backend_for_agent uc row = (case nonblank uc (am_backend row) of None \<Rightarrow> am_agent_type row | Some b \<Rightarrow> b)"

definition binding_resolution_for_agent :: "unicode_ops \<Rightarrow> agent_metadata_row \<Rightarrow> agent_binding" where
  "binding_resolution_for_agent uc row =
     \<lparr>ab_agent_id = am_id row, ab_agent_source = am_agent_source row, ab_agent_type = am_agent_type row,
      ab_runtime_backend = runtime_backend_for_agent uc row\<rparr>"

definition agent_match_rank :: "agent_metadata_row \<Rightarrow> nat" where
  "agent_match_rank row = (if am_agent_source row = ''builtin'' then 0 else 1)"

text \<open>\<open>min_by_key\<close>: the first of those with the least rank.\<close>

definition best_match :: "agent_metadata_row list \<Rightarrow> agent_metadata_row option" where
  "best_match rows =
     (case find (\<lambda>r. agent_match_rank r = 0) rows of
        Some r \<Rightarrow> Some r
      | None \<Rightarrow> (case rows of [] \<Rightarrow> None | r # _ \<Rightarrow> Some r))"

definition resolve_agent_binding_from_rows ::
  "unicode_ops \<Rightarrow> agent_metadata_row list \<Rightarrow> string \<Rightarrow> agent_binding option" where
  "resolve_agent_binding_from_rows uc rows v =
     (let value = uc_trim uc v
      in if value = [] then None
         else map_option (binding_resolution_for_agent uc)
           (or_else (best_match (filter (\<lambda>r. am_id r = value) rows))
             (or_else (best_match (filter (\<lambda>r. am_backend r = Some value) rows))
               (best_match (filter (\<lambda>r. am_agent_type r = value) rows)))))"

end
