(* ===== verification/Provisioning.thy ===== *)
theory Provisioning
  imports Agent_Metadata Tool_Inputs Tool_Specs Team_Action Text_Format "HOL-Library.AList"
begin

text \<open>
  Making the members of a team (crates/team/src/provisioning.rs, workspace.rs, capability.rs and
  the look-ups of service/spawn_support.rs): each agent gets a conversation of its own, whose
  extra data says to which team and slot it belongs, in the workspace of the team.

  The repositories, the conversations, the file system and the agent processes are ports of
  the code; here they are the record \<open>provision_env\<close> of actions on the state they share.
\<close>

subsection \<open>Kinds of agents\<close>

datatype agent_type = Acp | OpenclawGateway | Nanobot | RemoteAgent | Aionrs | Gemini | CodexAgent

fun serde_name :: "agent_type \<Rightarrow> string" where
  "serde_name Acp = ''acp''"
| "serde_name OpenclawGateway = ''openclaw-gateway''"
| "serde_name Nanobot = ''nanobot''"
| "serde_name RemoteAgent = ''remote''"
| "serde_name Aionrs = ''aionrs''"
| "serde_name Gemini = ''gemini''"
| "serde_name CodexAgent = ''codex''"

definition all_agent_types :: "agent_type list" where
  "all_agent_types = [Acp, OpenclawGateway, Nanobot, RemoteAgent, Aionrs, Gemini, CodexAgent]"

definition supports_new_conversation :: "agent_type \<Rightarrow> bool" where
  "supports_new_conversation t \<longleftrightarrow> t = Acp \<or> t = Aionrs"

definition is_deprecated_runtime :: "agent_type \<Rightarrow> bool" where
  "is_deprecated_runtime t \<longleftrightarrow> \<not> supports_new_conversation t"

definition full_auto_mode_id :: "agent_type \<Rightarrow> string \<Rightarrow> string" where
  "full_auto_mode_id t backend =
     (if t \<noteq> Acp then ''yolo''
      else if backend = ''claude'' \<or> backend = ''codebuddy'' then ''bypassPermissions''
      else if backend = ''codex'' then ''agent-full-access''
      else if backend = ''hermes'' then ''default''
      else if backend = ''opencode'' then ''build''
      else if backend = ''cursor'' then ''agent''
      else ''yolo'')"

definition DEPRECATED_AGENT_TYPE_MESSAGE :: string where
  "DEPRECATED_AGENT_TYPE_MESSAGE = ''This agent type is no longer supported for new conversations.''"

definition parse_agent_type :: "'j tool_json \<Rightarrow> string \<Rightarrow> team_error + agent_type" where
  "parse_agent_type tj backend =
     (case (case tj_from_str tj (in_quotes backend) of
              Inl _ \<Rightarrow> None
            | Inr v \<Rightarrow> Option.bind (read_string tj v) (\<lambda>name. find (\<lambda>t. serde_name t = name) all_agent_types)) of
        None \<Rightarrow> Inl (InvalidRequest (''unsupported backend: '' @ backend))
      | Some t \<Rightarrow> if is_deprecated_runtime t then Inl (InvalidRequest DEPRECATED_AGENT_TYPE_MESSAGE) else Inr t)"

definition find_acp_backend_metadata :: "agent_metadata_row list \<Rightarrow> string \<Rightarrow> agent_metadata_row option" where
  "find_acp_backend_metadata rows backend =
     find (\<lambda>r. am_agent_type r = serde_name Acp \<and> am_backend r = Some backend) rows"

definition session_mode_for_backend ::
  "unicode_ops \<Rightarrow> string \<Rightarrow> agent_type \<Rightarrow> agent_metadata_row option \<Rightarrow> string" where
  "session_mode_for_backend uc backend t metadata =
     (case Option.bind metadata (\<lambda>r. nonblank uc (am_yolo_id r)) of
        Some yolo_id \<Rightarrow> yolo_id
      | None \<Rightarrow> full_auto_mode_id t backend)"

subsection \<open>What a backend can do\<close>

definition as_bool :: "'j tool_json \<Rightarrow> 'j \<Rightarrow> bool option" where
  "as_bool tj v = (case tj_view tj v of VBool b \<Rightarrow> Some b | _ \<Rightarrow> None)"

definition bool_field :: "'j tool_json \<Rightarrow> 'j \<Rightarrow> string \<Rightarrow> bool" where
  "bool_field tj v key \<longleftrightarrow> Option.bind (jv_get (tj_values tj) key v) (as_bool tj) = Some True"

fun explicit_false :: "'j tool_json \<Rightarrow> 'j \<Rightarrow> string list \<Rightarrow> bool" where
  "explicit_false tj cursor [] = (as_bool tj cursor = Some False)"
| "explicit_false tj cursor (key # path) =
     (case jv_get (tj_values tj) key cursor of None \<Rightarrow> False | Some v \<Rightarrow> explicit_false tj v path)"

definition mcp_capability_object :: "'j tool_json \<Rightarrow> 'j \<Rightarrow> 'j option" where
  "mcp_capability_object tj caps =
     or_else (jv_get (tj_values tj) ''mcp_capabilities'' caps)
       (or_else (jv_get (tj_values tj) ''mcpCapabilities'' caps) (jv_get (tj_values tj) ''mcp'' caps))"

definition has_enabled_team_mcp_transport :: "'j tool_json \<Rightarrow> 'j option \<Rightarrow> bool" where
  "has_enabled_team_mcp_transport tj capabilities \<longleftrightarrow>
     (case Option.bind capabilities (mcp_capability_object tj) of
        None \<Rightarrow> False | Some caps \<Rightarrow> bool_field tj caps ''stdio'' \<or> bool_field tj caps ''http'')"

definition AIONRS_RUNTIME_BACKEND :: string where
  "AIONRS_RUNTIME_BACKEND = ''aionrs''"

definition supports_team_mcp :: "'j tool_json \<Rightarrow> string \<Rightarrow> 'j option \<Rightarrow> bool" where
  "supports_team_mcp tj backend capabilities \<longleftrightarrow>
     backend = AIONRS_RUNTIME_BACKEND \<or> has_enabled_team_mcp_transport tj capabilities"

definition supports_team_cli_fallback :: "'j tool_json \<Rightarrow> 'j option \<Rightarrow> bool" where
  "supports_team_cli_fallback tj capabilities \<longleftrightarrow>
     (case capabilities of
        None \<Rightarrow> True
      | Some caps \<Rightarrow>
        list_all (\<lambda>path. \<not> explicit_false tj caps path)
          [[''shell''], [''cli''], [''supports_shell''], [''supportsShell''], [''supports_cli''], [''supportsCli''],
           [''execution'', ''shell''], [''execution'', ''cli'']])"

definition is_team_capable :: "unicode_ops \<Rightarrow> 'j tool_json \<Rightarrow> string \<Rightarrow> 'j option \<Rightarrow> bool" where
  "is_team_capable uc tj backend capabilities \<longleftrightarrow>
     uc_trim uc backend \<noteq> [] \<and> (supports_team_mcp tj backend capabilities \<or> supports_team_cli_fallback tj capabilities)"

definition model_family_segment :: "string \<Rightarrow> bool" where
  "model_family_segment segment \<longleftrightarrow>
     (let normalized = to_ascii_lowercase segment
      in list_ex (\<lambda>family. normalized = family \<or>
           (case strip_prefix family normalized of Some (c # _) \<Rightarrow> is_ascii_digit c | _ \<Rightarrow> False))
         [''claude'', ''sonnet'', ''opus'', ''fable''])"

definition should_route_model_to_claude :: "unicode_ops \<Rightarrow> string \<Rightarrow> string \<Rightarrow> bool" where
  "should_route_model_to_claude uc backend model \<longleftrightarrow>
     \<not> eq_ignore_ascii_case (uc_trim uc backend) ''claude'' \<and>
     list_ex model_family_segment
       (filter (\<lambda>s. s \<noteq> []) (split_by (\<lambda>c. c \<in> set ''/:._-'') (uc_trim uc model)))"

subsection \<open>The ports\<close>

record provider_model = \<comment> \<open>\<open>ProviderWithModel\<close>\<close>
  pm_provider_id :: ident
  pm_model :: string
  pm_use_model :: "string option"

text \<open>The extra data of a conversation is an object; here the list of its entries.\<close>

type_synonym 'j entries = "(string \<times> 'j) list"

record 'j conversation_request =
  qc_user_id :: ident
  qc_agent_type :: "agent_type option"
  qc_name :: string
  qc_top_level_model :: "provider_model option"
  qc_assistant_id :: "ident option"
  qc_extra :: "'j entries"

record created_conversation =
  nc_conversation_id :: ident
  nc_workspace :: string

record catalog_entry =
  ce_assistant_id :: ident
  ce_name :: string
  ce_backend :: string
  ce_description :: string
  ce_skills :: "string list"

datatype path_kind = PathDirectory | PathOther | PathMissing | PathError string

record ('j, 'st) provision_env =
  pv_json :: "'j tool_json"
  pv_unicode :: unicode_ops
  pv_new_id :: "(ident, 'st) act"
  pv_get_team :: "ident \<Rightarrow> 'st \<Rightarrow> db_error + team_row option"
  pv_update_team :: "ident \<Rightarrow> update_team_params \<Rightarrow> (unit, 'st) act"
  pv_agents_of :: "string \<Rightarrow> string + team_agent list"
  pv_agents_to :: "team_agent list \<Rightarrow> string + string"
  pv_metadata :: "'st \<Rightarrow> db_error + agent_metadata_row list"
  pv_catalog :: "'st \<Rightarrow> team_error + catalog_entry list"
  pv_create_conversation :: "'j conversation_request \<Rightarrow> (created_conversation, 'st) act"
  pv_conversation_workspace :: "ident \<Rightarrow> (string option, 'st) act"
  pv_temp_workspace :: "ident \<Rightarrow> (string, 'st) act"
  pv_patch :: "ident \<Rightarrow> 'j entries \<Rightarrow> (unit, 'st) act"
  pv_save_mode :: "ident \<Rightarrow> string \<Rightarrow> (unit, 'st) act"
  pv_warmup :: "ident \<Rightarrow> ident \<Rightarrow> (unit, 'st) act"
  pv_kill :: "ident \<Rightarrow> (unit, 'st) act"
  pv_path :: "string \<Rightarrow> path_kind" \<comment> \<open>\<open>fs::metadata\<close>\<close>

abbreviation pv_values :: "('j, 'st) provision_env \<Rightarrow> 'j value_ops" where
  "pv_values pv \<equiv> tj_values (pv_json pv)"

definition acp_backend_metadata ::
  "('j, 'st) provision_env \<Rightarrow> string \<Rightarrow> (agent_metadata_row option, 'st) act" where
  "acp_backend_metadata pv backend =
     and_then (gets (pv_metadata pv)) (\<lambda>r.
     and_then (from_result (map_err Database r)) (\<lambda>rows.
     return_ok (find_acp_backend_metadata rows backend)))"

definition resolve_team_selectable_assistant ::
  "('j, 'st) provision_env \<Rightarrow> ident \<Rightarrow> (catalog_entry option, 'st) act" where
  "resolve_team_selectable_assistant pv assistant_id =
     and_then (gets (pv_catalog pv)) (\<lambda>r.
     and_then (from_result r) (\<lambda>entries.
     return_ok (find (\<lambda>e. ce_assistant_id e = assistant_id) entries)))"

subsection \<open>Workspaces\<close>

datatype path_error = PathEmpty | PathDoesNotExist string | PathNotDirectory string | PathNotAccessible string string

definition validate_workspace_path_availability ::
  "unicode_ops \<Rightarrow> (string \<Rightarrow> path_kind) \<Rightarrow> string \<Rightarrow> path_error + string" where
  "validate_workspace_path_availability uc path workspace =
     (if uc_trim uc workspace = [] then Inl PathEmpty
      else case path workspace of
             PathDirectory \<Rightarrow> Inr workspace
           | PathOther \<Rightarrow> Inl (PathNotDirectory workspace)
           | PathMissing \<Rightarrow> Inl (PathDoesNotExist workspace)
           | PathError reason \<Rightarrow> Inl (PathNotAccessible workspace reason))"

fun create_path_error :: "path_error \<Rightarrow> team_error" where
  "create_path_error PathEmpty = InvalidRequest ''Workspace directory is empty''"
| "create_path_error (PathDoesNotExist path) = WorkspacePathUnavailable path"
| "create_path_error (PathNotDirectory path) = WorkspacePathUnavailable path"
| "create_path_error (PathNotAccessible path _) = WorkspacePathUnavailable path"

definition validate_create_workspace_path ::
  "unicode_ops \<Rightarrow> (string \<Rightarrow> path_kind) \<Rightarrow> string \<Rightarrow> team_error + string" where
  "validate_create_workspace_path uc path workspace =
     map_err create_path_error (validate_workspace_path_availability uc path workspace)"

fun runtime_path_error :: "path_error \<Rightarrow> team_error" where
  "runtime_path_error PathEmpty = InvalidRequest ''Team workspace is empty''"
| "runtime_path_error (PathDoesNotExist path) = WorkspacePathRuntimeUnavailable path"
| "runtime_path_error (PathNotDirectory path) = WorkspacePathRuntimeUnavailable path"
| "runtime_path_error (PathNotAccessible path _) = WorkspacePathRuntimeUnavailable path"

definition validate_runtime_workspace_path ::
  "unicode_ops \<Rightarrow> (string \<Rightarrow> path_kind) \<Rightarrow> string \<Rightarrow> team_error + string" where
  "validate_runtime_workspace_path uc path workspace =
     map_err runtime_path_error (validate_workspace_path_availability uc path workspace)"

definition usable_runtime_workspace :: "('j, 'st) provision_env \<Rightarrow> string \<Rightarrow> string option" where
  "usable_runtime_workspace pv workspace =
     result_ok (validate_runtime_workspace_path (pv_unicode pv) (pv_path pv) workspace)"

definition workspace_leader :: "team \<Rightarrow> team_agent option" where
  "workspace_leader team =
     or_else (find (\<lambda>a. Some (ta_slot_id a) = tm_lead_agent_id team) (tm_agents team))
       (find (\<lambda>a. ta_role a = Lead) (tm_agents team))"

definition resolve_from_leader :: "('j, 'st) provision_env \<Rightarrow> team \<Rightarrow> (string option, 'st) act" where
  "resolve_from_leader pv team =
     (case workspace_leader team of
        None \<Rightarrow> return_ok None
      | Some leader \<Rightarrow>
        and_then (pv_conversation_workspace pv (ta_conversation_id leader)) (\<lambda>workspace.
        return_ok (Option.bind workspace (\<lambda>w. usable_runtime_workspace pv (uc_trim (pv_unicode pv) w)))))"

definition write_team_workspace :: "('j, 'st) provision_env \<Rightarrow> ident \<Rightarrow> string \<Rightarrow> (unit, 'st) act" where
  "write_team_workspace pv team_id workspace = pv_update_team pv team_id (no_update\<lparr>ut_workspace := Some workspace\<rparr>)"

definition patch_leader_workspace_best_effort :: "('j, 'st) provision_env \<Rightarrow> team \<Rightarrow> string \<Rightarrow> (unit, 'st) act" where
  "patch_leader_workspace_best_effort pv team workspace =
     (case workspace_leader team of
        None \<Rightarrow> return_ok ()
      | Some leader \<Rightarrow>
        ignoring (pv_patch pv (ta_conversation_id leader) [(''workspace'', jv_str (pv_values pv) workspace)]))"

definition resolve_for_new_agent :: "('j, 'st) provision_env \<Rightarrow> team_row \<Rightarrow> team \<Rightarrow> (string, 'st) act" where
  "resolve_for_new_agent pv row team =
     (case usable_runtime_workspace pv (uc_trim (pv_unicode pv) (tr_workspace row)) of
        Some workspace \<Rightarrow> return_ok workspace
      | None \<Rightarrow>
        and_then (resolve_from_leader pv team) (\<lambda>leader_workspace.
        case leader_workspace of
          Some workspace \<Rightarrow>
            and_then (write_team_workspace pv (tr_id row) workspace) (\<lambda>_. return_ok workspace)
        | None \<Rightarrow>
            and_then (pv_temp_workspace pv (tr_id row)) (\<lambda>created.
            and_then (from_result (validate_runtime_workspace_path (pv_unicode pv) (pv_path pv) created)) (\<lambda>workspace.
            and_then (write_team_workspace pv (tr_id row) workspace) (\<lambda>_.
            and_then (patch_leader_workspace_best_effort pv team workspace) (\<lambda>_.
            return_ok workspace))))))"

subsection \<open>The conversation of an agent\<close>

definition put :: "string \<Rightarrow> 'j \<Rightarrow> 'j entries \<Rightarrow> 'j entries" where \<comment> \<open>\<open>extra[key] = value\<close>\<close>
  "put key v extra = AList.update key v extra"

definition inherit_team_workspace :: "unicode_ops \<Rightarrow> 'j value_ops \<Rightarrow> string \<Rightarrow> 'j entries \<Rightarrow> 'j entries" where
  "inherit_team_workspace uc vo workspace extra =
     (if uc_trim uc workspace \<noteq> [] then put ''workspace'' (jv_str vo workspace) extra else extra)"

definition build_team_extra ::
  "unicode_ops \<Rightarrow> 'j value_ops \<Rightarrow> ident \<Rightarrow> ident \<Rightarrow> teammate_role \<Rightarrow> string \<Rightarrow> string \<Rightarrow> ident option \<Rightarrow> string option
     \<Rightarrow> agent_type \<Rightarrow> agent_metadata_row option \<Rightarrow> string option \<Rightarrow> 'j entries" where
  "build_team_extra uc vo team_id slot_id role backend model assistant_id workspace t metadata session_mode =
     (let mode = (case nonblank uc session_mode of Some m \<Rightarrow> m | None \<Rightarrow> session_mode_for_backend uc backend t metadata);
          e0 = [(''teamId'', jv_str vo team_id), (''slot_id'', jv_str vo slot_id), (''role'', jv_str vo (role_display role)),
                (''backend'', jv_str vo backend), (''session_mode'', jv_str vo mode)];
          e1 = (if t \<noteq> Aionrs then put ''current_model_id'' (jv_str vo model) e0 else e0);
          e2 = (case assistant_id of Some i \<Rightarrow> put ''assistant_id'' (jv_str vo i) e1 | None \<Rightarrow> e1)
      in case workspace of Some w \<Rightarrow> inherit_team_workspace uc vo w e2 | None \<Rightarrow> e2)"

definition route_to_claude :: "'j value_ops \<Rightarrow> string \<Rightarrow> 'j entries \<Rightarrow> 'j entries" where
  "route_to_claude vo backend extra =
     put ''execution_provider_id'' (jv_null vo)
      (put ''execution_agent_id'' (jv_null vo)
        (put ''execution_backend'' (jv_str vo ''claude'')
          (put ''execution_route_key'' (jv_str vo ''acp:claude'')
            (put ''model_route_source'' (jv_obj vo [(''backend'', jv_str vo backend)]) extra))))"

record new_agent =
  na_user_id :: ident
  na_team_id :: ident
  na_slot_id :: ident
  na_name :: string
  na_role :: teammate_role
  na_backend :: string
  na_model :: string
  na_assistant_id :: "ident option"
  na_workspace :: "string option"
  na_session_mode :: "string option"

definition conversation_extra ::
  "('j, 'st) provision_env \<Rightarrow> new_agent \<Rightarrow> agent_type \<Rightarrow> agent_metadata_row option \<Rightarrow> 'j entries" where
  "conversation_extra pv na t metadata =
     (let vo = pv_values pv;
          e0 = build_team_extra (pv_unicode pv) vo (na_team_id na) (na_slot_id na) (na_role na) (na_backend na)
                 (na_model na) (na_assistant_id na) (na_workspace na) t metadata (na_session_mode na);
          e1 = (if t = Acp \<and> should_route_model_to_claude (pv_unicode pv) (na_backend na) (na_model na)
                then route_to_claude vo (na_backend na) e0 else e0)
      in if t = Aionrs then e1 else put ''current_model_id'' (jv_str vo (na_model na)) e1)"

definition conversation_request_of ::
  "('j, 'st) provision_env \<Rightarrow> new_agent \<Rightarrow> agent_type \<Rightarrow> agent_metadata_row option \<Rightarrow> 'j conversation_request" where
  "conversation_request_of pv na t metadata =
     \<lparr>qc_user_id = na_user_id na, qc_agent_type = (if na_assistant_id na \<noteq> None then None else Some t),
      qc_name = na_name na,
      qc_top_level_model =
        (if t = Aionrs then Some \<lparr>pm_provider_id = na_backend na, pm_model = na_model na, pm_use_model = None\<rparr> else None),
      qc_assistant_id = na_assistant_id na, qc_extra = conversation_extra pv na t metadata\<rparr>"

text \<open>The type an agent of this backend is run as.\<close>

definition runtime_agent_type ::
  "('j, 'st) provision_env \<Rightarrow> string \<Rightarrow> agent_metadata_row option \<Rightarrow> (agent_type, 'st) act" where
  "runtime_agent_type pv backend metadata =
     (if metadata \<noteq> None then return_ok Acp else from_result (parse_agent_type (pv_json pv) backend))"

definition create_team_conversation_for_agent ::
  "('j, 'st) provision_env \<Rightarrow> new_agent \<Rightarrow> (created_conversation, 'st) act" where
  "create_team_conversation_for_agent pv na =
     and_then (acp_backend_metadata pv (na_backend na)) (\<lambda>metadata.
     and_then (runtime_agent_type pv (na_backend na) metadata) (\<lambda>t.
     pv_create_conversation pv (conversation_request_of pv na t metadata)))"

definition provisioned_agent :: "new_agent \<Rightarrow> created_conversation \<Rightarrow> team_agent" where
  "provisioned_agent na created =
     \<lparr>ta_slot_id = na_slot_id na, ta_name = na_name na, ta_role = na_role na,
      ta_conversation_id = nc_conversation_id created, ta_backend = na_backend na, ta_model = na_model na,
      ta_assistant_id = na_assistant_id na, ta_status = None, ta_conversation_type = None, ta_cli_path = None,
      ta_last_message = None, ta_last_message_at = None\<rparr>"

definition provision_new_agent :: "('j, 'st) provision_env \<Rightarrow> new_agent \<Rightarrow> (team_agent, 'st) act" where
  "provision_new_agent pv na =
     and_then (create_team_conversation_for_agent pv na) (\<lambda>created. return_ok (provisioned_agent na created))"

end
