(* ===== verification/Provision_Team.thy ===== *)
theory Provision_Team
  imports Provisioning
begin

text \<open>
  The operations of \<open>TeamAgentProvisioner\<close> (crates/team/src/provisioning.rs): the first members
  of a team, a member added later, and the start of a member's process.
\<close>

subsection \<open>The first members\<close>

record agent_input =
  ai_name :: string
  ai_role :: string
  ai_backend :: "string option"
  ai_model :: string
  ai_assistant_id :: "ident option"
  ai_conversation_id :: "ident option"

record initial_team =
  it_agents :: "team_agent list"
  it_lead_agent_id :: "ident option"
  it_workspace :: string

definition normalized_role :: "unicode_ops \<Rightarrow> string \<Rightarrow> team_error + teammate_role" where
  "normalized_role uc role =
     (case role_parse (uc_trim uc role) of
        None \<Rightarrow> Inl (InvalidRequest (''invalid team agent role: '' @ role))
      | Some r \<Rightarrow> Inr r)"

fun normalized_roles :: "unicode_ops \<Rightarrow> agent_input list \<Rightarrow> team_error + teammate_role list" where
  "normalized_roles uc [] = Inr []"
| "normalized_roles uc (input # inputs) =
     (case normalized_role uc (ai_role input) of
        Inl e \<Rightarrow> Inl e
      | Inr role \<Rightarrow> map_sum (\<lambda>e. e) (\<lambda>roles. role # roles) (normalized_roles uc inputs))"

definition resolve_requested_backend ::
  "('j, 'st) provision_env \<Rightarrow> string option \<Rightarrow> ident option \<Rightarrow> (string, 'st) act" where
  "resolve_requested_backend pv requested assistant_id =
     (case nonblank (pv_unicode pv) assistant_id of
        Some i \<Rightarrow>
          and_then (resolve_team_selectable_assistant pv i) (\<lambda>found.
          and_then (ok_or (InvalidRequest (''Assistant is not available for team mode: '' @ i)) found) (\<lambda>e.
          return_ok (ce_backend e)))
      | None \<Rightarrow> ok_or (InvalidRequest ''backend is required when assistant_id is absent'') (nonblank (pv_unicode pv) requested))"

text \<open>One of the first members, in the workspace given, if any.\<close>

definition provision_input ::
  "('j, 'st) provision_env \<Rightarrow> ident \<Rightarrow> ident \<Rightarrow> string option \<Rightarrow> agent_input \<times> teammate_role
     \<Rightarrow> (team_agent \<times> created_conversation, 'st) act" where
  "provision_input pv user_id team_id workspace = (\<lambda>(input, role).
     and_then (pv_new_id pv) (\<lambda>slot_id.
     let assistant_id = nonblank (pv_unicode pv) (ai_assistant_id input)
     in and_then (resolve_requested_backend pv (ai_backend input) assistant_id) (\<lambda>backend.
        let na = \<lparr>na_user_id = user_id, na_team_id = team_id, na_slot_id = slot_id, na_name = ai_name input,
                  na_role = role, na_backend = backend, na_model = ai_model input, na_assistant_id = assistant_id,
                  na_workspace = workspace, na_session_mode = None\<rparr>
        in and_then (create_team_conversation_for_agent pv na) (\<lambda>created.
           return_ok (provisioned_agent na created, created)))))"

fun provision_teammates ::
  "('j, 'st) provision_env \<Rightarrow> ident \<Rightarrow> ident \<Rightarrow> string \<Rightarrow> (agent_input \<times> teammate_role) list
     \<Rightarrow> (team_agent list, 'st) act" where
  "provision_teammates pv user_id team_id workspace [] = return_ok []"
| "provision_teammates pv user_id team_id workspace (input # inputs) =
     and_then (provision_input pv user_id team_id (Some workspace) input) (\<lambda>(agent, _).
     and_then (provision_teammates pv user_id team_id workspace inputs) (\<lambda>agents.
     return_ok (agent # agents)))"

definition resolve_initial_leader_workspace ::
  "('j, 'st) provision_env \<Rightarrow> ident \<Rightarrow> created_conversation \<Rightarrow> (string, 'st) act" where
  "resolve_initial_leader_workspace pv team_id leader =
     (let uc = pv_unicode pv
      in case nonblank uc (Some (nc_workspace leader)) of
           Some workspace \<Rightarrow> return_ok workspace
         | None \<Rightarrow>
           and_then (pv_conversation_workspace pv (nc_conversation_id leader)) (\<lambda>stored.
           case nonblank uc stored of
             Some workspace \<Rightarrow> return_ok workspace
           | None \<Rightarrow>
             and_then (pv_temp_workspace pv team_id) (\<lambda>workspace.
             and_then (ignoring (pv_patch pv (nc_conversation_id leader)
                         [(''workspace'', jv_str (pv_values pv) workspace)])) (\<lambda>_.
             return_ok workspace))))"

definition provision_initial_agents ::
  "('j, 'st) provision_env \<Rightarrow> ident \<Rightarrow> ident \<Rightarrow> agent_input list \<Rightarrow> string option \<Rightarrow> (initial_team, 'st) act" where
  "provision_initial_agents pv user_id team_id inputs shared_workspace =
     (if inputs = [] then throw (InvalidRequest ''at least one agent is required'')
      else and_then (from_result (normalized_roles (pv_unicode pv) inputs)) (\<lambda>roles.
      case filter (\<lambda>(_, role). role = Lead) (zip inputs roles) of
        [leader_input] \<Rightarrow>
          and_then (provision_input pv user_id team_id shared_workspace leader_input) (\<lambda>(leader, conversation).
          and_then (case shared_workspace of
                      Some workspace \<Rightarrow> return_ok workspace
                    | None \<Rightarrow> resolve_initial_leader_workspace pv team_id conversation) (\<lambda>team_workspace.
          and_then (provision_teammates pv user_id team_id team_workspace
                      (filter (\<lambda>(_, role). role = Teammate) (zip inputs roles))) (\<lambda>teammates.
          return_ok \<lparr>it_agents = leader # teammates, it_lead_agent_id = Some (ta_slot_id leader),
                     it_workspace = team_workspace\<rparr>)))
      | _ \<Rightarrow> throw (InvalidRequest ''exactly one team agent must have role lead'')))"

subsection \<open>Another member\<close>

definition persist_agents :: "('j, 'st) provision_env \<Rightarrow> ident \<Rightarrow> team_agent list \<Rightarrow> (unit, 'st) act" where
  "persist_agents pv team_id agents =
     and_then (from_result (map_err Json (pv_agents_to pv agents))) (\<lambda>agents_json.
     pv_update_team pv team_id (no_update\<lparr>ut_agents := Some agents_json\<rparr>))"

record add_agent_request =
  aq_name :: string
  aq_role :: string
  aq_backend :: "string option"
  aq_model :: string
  aq_assistant_id :: "ident option"

definition provisioner_add_agent ::
  "('j, 'st) provision_env \<Rightarrow> ident \<Rightarrow> team_row \<Rightarrow> team \<Rightarrow> add_agent_request \<Rightarrow> (team_agent, 'st) act" where
  "provisioner_add_agent pv user_id row team req =
     and_then (from_result (normalized_role (pv_unicode pv) (aq_role req))) (\<lambda>role.
     if role \<noteq> Teammate then throw (InvalidRequest ''add_agent only supports teammate role'')
     else
     and_then (resolve_for_new_agent pv row team) (\<lambda>workspace.
     let assistant_id = nonblank (pv_unicode pv) (aq_assistant_id req)
     in and_then (resolve_requested_backend pv (aq_backend req) assistant_id) (\<lambda>backend.
        and_then (pv_new_id pv) (\<lambda>slot_id.
        and_then (provision_new_agent pv
            \<lparr>na_user_id = user_id, na_team_id = tm_id team, na_slot_id = slot_id, na_name = aq_name req,
             na_role = role, na_backend = backend, na_model = aq_model req, na_assistant_id = assistant_id,
             na_workspace = Some workspace, na_session_mode = tr_session_mode row\<rparr>) (\<lambda>agent.
        and_then (persist_agents pv (tm_id team) (tm_agents team @ [agent])) (\<lambda>_.
        return_ok agent))))))"

record spawned_agent_request =
  sq_user_id :: ident
  sq_team_id :: ident
  sq_slot_id :: ident
  sq_name :: string
  sq_backend :: string
  sq_model :: string
  sq_assistant_id :: "ident option"

definition persist_spawned_agent ::
  "('j, 'st) provision_env \<Rightarrow> spawned_agent_request \<Rightarrow> (team_agent, 'st) act" where
  "persist_spawned_agent pv req =
     and_then (gets (pv_get_team pv (sq_team_id req))) (\<lambda>r.
     and_then (from_result (map_err Database r)) (\<lambda>found.
     and_then (ok_or (TeamNotFound (sq_team_id req)) found) (\<lambda>row.
     and_then (from_result (map_err Json (team_from_row (pv_agents_of pv) row))) (\<lambda>team.
     and_then (resolve_for_new_agent pv row team) (\<lambda>workspace.
     and_then (provision_new_agent pv
         \<lparr>na_user_id = sq_user_id req, na_team_id = sq_team_id req, na_slot_id = sq_slot_id req,
          na_name = sq_name req, na_role = Teammate, na_backend = sq_backend req, na_model = sq_model req,
          na_assistant_id = sq_assistant_id req, na_workspace = Some workspace,
          na_session_mode = tr_session_mode row\<rparr>) (\<lambda>agent.
     and_then (persist_agents pv (sq_team_id req) (tm_agents team @ [agent])) (\<lambda>_.
     return_ok agent)))))))"

subsection \<open>The process of a member\<close>

definition agent_capabilities :: "('j, 'st) provision_env \<Rightarrow> string \<Rightarrow> ('j option, 'st) act" where
  "agent_capabilities pv backend =
     and_then (acp_backend_metadata pv backend) (\<lambda>metadata.
     return_ok (Option.bind (Option.bind metadata (\<lambda>r. nonblank (pv_unicode pv) (am_agent_capabilities r)))
       (\<lambda>raw. result_ok (tj_from_str (pv_json pv) raw))))"

definition team_tool_transport :: "('j, 'st) provision_env \<Rightarrow> team_agent \<Rightarrow> (tool_transport, 'st) act" where
  "team_tool_transport pv agent =
     (if should_route_model_to_claude (pv_unicode pv) (ta_backend agent) (ta_model agent) then return_ok TransportMcp
      else and_then (agent_capabilities pv (ta_backend agent)) (\<lambda>capabilities.
        if supports_team_mcp (pv_json pv) (ta_backend agent) capabilities then return_ok TransportMcp
        else if supports_team_cli_fallback (pv_json pv) capabilities then return_ok TransportCliAssumed
        else throw (InvalidRequest (''agent backend is not eligible for Team transport: '' @ ta_backend agent))))"

definition agent_session_mode :: "('j, 'st) provision_env \<Rightarrow> team_agent \<Rightarrow> (string, 'st) act" where
  "agent_session_mode pv agent =
     and_then (acp_backend_metadata pv (ta_backend agent)) (\<lambda>metadata.
     and_then (runtime_agent_type pv (ta_backend agent) metadata) (\<lambda>t.
     return_ok (session_mode_for_backend (pv_unicode pv) (ta_backend agent) t metadata)))"

text \<open>An error of the port, told with what was being done.\<close>

definition explained :: "(team_error \<Rightarrow> team_error) \<Rightarrow> ('a, 'st) act \<Rightarrow> ('a, 'st) act" where
  "explained f m = and_then (attempt m) (\<lambda>r. from_result (map_err f r))"

definition write_team_mcp_runtime_config ::
  "('j, 'st) provision_env \<Rightarrow> team_agent \<Rightarrow> 'j \<Rightarrow> (unit, 'st) act" where
  "write_team_mcp_runtime_config pv agent mcp_stdio_cfg =
     and_then (agent_session_mode pv agent) (\<lambda>mode.
     explained (\<lambda>e. InvalidRequest (''failed to persist team_mcp_stdio_config for '' @ ta_slot_id agent @ '': '' @ team_error_display e))
       (pv_patch pv (ta_conversation_id agent)
         [(''team_mcp_stdio_config'', mcp_stdio_cfg), (''session_mode'', jv_str (pv_values pv) mode)]))"

definition write_team_cli_runtime_config :: "('j, 'st) provision_env \<Rightarrow> team_agent \<Rightarrow> (unit, 'st) act" where
  "write_team_cli_runtime_config pv agent =
     and_then (agent_session_mode pv agent) (\<lambda>mode.
     let patch = [(''team_mcp_stdio_config'', jv_null (pv_values pv)), (''session_mode'', jv_str (pv_values pv) mode)]
     in explained (\<lambda>e. InvalidRequest (''failed to persist Team CLI runtime config for '' @ ta_slot_id agent @ '': '' @ team_error_display e))
       (pv_patch pv (ta_conversation_id agent)
         (if eq_ignore_ascii_case (ta_backend agent) ''grok'' then put ''provider_id'' (jv_null (pv_values pv)) patch else patch)))"

definition attach_agent_process ::
  "('j, 'st) provision_env \<Rightarrow> ident \<Rightarrow> team_agent \<Rightarrow> 'j \<Rightarrow> (unit, 'st) act" where
  "attach_agent_process pv user_id agent mcp_stdio_cfg =
     and_then (team_tool_transport pv agent) (\<lambda>transport.
     and_then (case transport of
                 TransportMcp \<Rightarrow> write_team_mcp_runtime_config pv agent mcp_stdio_cfg
               | TransportCliAssumed \<Rightarrow> write_team_cli_runtime_config pv agent) (\<lambda>_.
     and_then (pv_kill pv (ta_conversation_id agent)) (\<lambda>_.
     explained (\<lambda>e. InvalidRequest (''failed to warm up rebuilt agent '' @ ta_slot_id agent @ '': '' @ team_error_display e))
       (pv_warmup pv user_id (ta_conversation_id agent)))))"

definition update_session_mode_seed ::
  "('j, 'st) provision_env \<Rightarrow> team_agent \<Rightarrow> string \<Rightarrow> (unit, 'st) act" where
  "update_session_mode_seed pv agent mode =
     and_then (explained (\<lambda>e. InvalidRequest (''failed to persist session_mode for '' @ ta_slot_id agent @ '': '' @ team_error_display e))
        (pv_patch pv (ta_conversation_id agent) [(''session_mode'', jv_str (pv_values pv) mode)])) (\<lambda>_.
     explained (\<lambda>e. InvalidRequest (''failed to persist ACP runtime mode for '' @ ta_slot_id agent @ '': '' @ team_error_display e))
       (pv_save_mode pv (ta_conversation_id agent) mode))"

subsection \<open>Requests and bindings\<close>

text \<open>
  What the HTTP interface accepts (crates/api-types/src/team.rs), read from a value in which no
  key occurs twice, and the binding of a conversation to its team, read from the extra data
  of the conversation. A text of a library error is not modelled: reading fails with \<open>None\<close>.
\<close>

subsection \<open>Requests\<close>

definition optional_string :: "'j tool_json \<Rightarrow> 'j fields \<Rightarrow> nat \<Rightarrow> string list \<Rightarrow> string option option" where
  "optional_string tj fs i names = field_default None (read_option tj (read_string tj)) (field_at fs i names)"

definition required_string :: "'j tool_json \<Rightarrow> 'j fields \<Rightarrow> nat \<Rightarrow> string list \<Rightarrow> string option" where
  "required_string tj fs i names = field_required (read_string tj) (field_at fs i names)"

definition normalize_assistant_id :: "unicode_ops \<Rightarrow> ident option \<Rightarrow> ident option" where
  "normalize_assistant_id uc assistant_id = nonblank uc assistant_id"

definition agent_input_of :: "unicode_ops \<Rightarrow> 'j tool_json \<Rightarrow> 'j \<Rightarrow> agent_input option" where
  "agent_input_of uc tj v =
     Option.bind (fields_of tj v) (\<lambda>fs.
     if \<not> no_more_than 5 fs \<or> \<not> only_names [''assistant_id'', ''name'', ''role'', ''model'', ''conversation_id''] fs
     then None else
     Option.bind (optional_string tj fs 0 [''assistant_id'']) (\<lambda>raw_id.
     Option.bind (required_string tj fs 1 [''name'']) (\<lambda>name.
     Option.bind (required_string tj fs 2 [''role'']) (\<lambda>role.
     Option.bind (required_string tj fs 3 [''model'']) (\<lambda>model.
     Option.bind (optional_string tj fs 4 [''conversation_id'']) (\<lambda>conversation_id.
     Option.bind (normalize_assistant_id uc raw_id) (\<lambda>assistant_id.
     Some \<lparr>ai_name = name, ai_role = role, ai_backend = None, ai_model = model, ai_assistant_id = Some assistant_id,
           ai_conversation_id = conversation_id\<rparr>)))))))"

record create_team_request =
  tq_name :: string
  tq_agents :: "agent_input list"
  tq_workspace :: "string option"

definition read_list :: "'j tool_json \<Rightarrow> ('j \<Rightarrow> 'a option) \<Rightarrow> 'j \<Rightarrow> 'a list option" where
  "read_list tj rd v = (case tj_view tj v of VArr xs \<Rightarrow> read_each rd xs | _ \<Rightarrow> None)"

definition create_team_request_of :: "unicode_ops \<Rightarrow> 'j tool_json \<Rightarrow> 'j \<Rightarrow> create_team_request option" where
  "create_team_request_of uc tj v =
     Option.bind (fields_of tj v) (\<lambda>fs.
     if \<not> no_more_than 3 fs then None else
     Option.bind (required_string tj fs 0 [''name'']) (\<lambda>name.
     Option.bind (field_required (read_list tj (agent_input_of uc tj)) (field_at fs 1 [''agents'', ''assistants''])) (\<lambda>agents.
     Option.bind (optional_string tj fs 2 [''workspace'']) (\<lambda>workspace.
     Some \<lparr>tq_name = name, tq_agents = agents, tq_workspace = workspace\<rparr>))))"

definition add_agent_request_of :: "unicode_ops \<Rightarrow> 'j tool_json \<Rightarrow> 'j \<Rightarrow> add_agent_request option" where
  "add_agent_request_of uc tj v =
     Option.bind (fields_of tj v) (\<lambda>fs.
     if \<not> no_more_than 5 fs \<or> \<not> only_names [''assistant'', ''name'', ''role'', ''model'', ''assistant_id''] fs
     then None else
     Option.bind (field_default None (read_option tj (agent_input_of uc tj)) (field_at fs 0 [''assistant''])) (\<lambda>assistant.
     Option.bind (optional_string tj fs 1 [''name'']) (\<lambda>raw_name.
     Option.bind (optional_string tj fs 2 [''role'']) (\<lambda>raw_role.
     Option.bind (optional_string tj fs 3 [''model'']) (\<lambda>raw_model.
     Option.bind (optional_string tj fs 4 [''assistant_id'']) (\<lambda>raw_id.
     case assistant of
       Some a \<Rightarrow>
         Some \<lparr>aq_name = ai_name a, aq_role = ai_role a, aq_backend = None, aq_model = ai_model a,
               aq_assistant_id = ai_assistant_id a\<rparr>
     | None \<Rightarrow>
         Option.bind raw_name (\<lambda>name.
         Option.bind raw_role (\<lambda>role.
         Option.bind raw_model (\<lambda>model.
         Option.bind (normalize_assistant_id uc raw_id) (\<lambda>assistant_id.
         Some \<lparr>aq_name = name, aq_role = role, aq_backend = None, aq_model = model,
               aq_assistant_id = Some assistant_id\<rparr>))))))))))"

subsection \<open>The binding of a conversation\<close>

record runtime_seed =
  rd_backend :: "string option"
  rd_session_mode :: "string option"
  rd_current_model_id :: "string option"

text \<open>\<open>'m\<close> is the typed configuration of the MCP bridge, which \<open>mcp_of\<close> reads.\<close>

record 'm session_binding =
  sb_team_id :: ident
  sb_slot_id :: "ident option"
  sb_role :: "string option"
  sb_runtime_seed :: runtime_seed
  sb_mcp :: "'m option"

definition extra_string_field :: "unicode_ops \<Rightarrow> 'j value_ops \<Rightarrow> 'j \<Rightarrow> string \<Rightarrow> string option" where
  "extra_string_field uc vo extra key =
     (case Option.bind (jv_get vo key extra) (jv_as_str vo) of
        Some s \<Rightarrow> if uc_trim uc s \<noteq> [] then Some s else None
      | None \<Rightarrow> None)"

definition binding_from_extra_value ::
  "unicode_ops \<Rightarrow> 'j tool_json \<Rightarrow> ('j \<Rightarrow> string + 'm) \<Rightarrow> 'j \<Rightarrow> string + 'm session_binding option" where
  "binding_from_extra_value uc tj mcp_of extra =
     (let vo = tj_values tj; str = extra_string_field uc vo extra
      in case str ''teamId'' of
           None \<Rightarrow> Inr None
         | Some team_id \<Rightarrow>
           map_sum (\<lambda>e. e) (\<lambda>mcp. Some
             \<lparr>sb_team_id = team_id, sb_slot_id = str ''slot_id'', sb_role = str ''role'',
              sb_runtime_seed = \<lparr>rd_backend = str ''backend'', rd_session_mode = str ''session_mode'',
                rd_current_model_id = str ''current_model_id''\<rparr>,
              sb_mcp = mcp\<rparr>)
           (case jv_get vo ''team_mcp_stdio_config'' extra of
              None \<Rightarrow> Inr None
            | Some v \<Rightarrow> if tj_view tj v = VNull then Inr None else map_sum (\<lambda>e. e) Some (mcp_of v)))"

definition binding_from_extra_str ::
  "unicode_ops \<Rightarrow> 'j tool_json \<Rightarrow> ('j \<Rightarrow> string + 'm) \<Rightarrow> string \<Rightarrow> string + 'm session_binding option" where
  "binding_from_extra_str uc tj mcp_of text =
     (case tj_from_str tj text of Inl e \<Rightarrow> Inl e | Inr v \<Rightarrow> binding_from_extra_value uc tj mcp_of v)"

definition team_id_marker_from_extra_str :: "unicode_ops \<Rightarrow> 'j tool_json \<Rightarrow> string \<Rightarrow> ident option" where
  "team_id_marker_from_extra_str uc tj text =
     Option.bind (result_ok (tj_from_str tj text)) (\<lambda>v. extra_string_field uc (tj_values tj) v ''teamId'')"

end
