(* ===== verification/Conversation_Ports.thy ===== *)
theory Conversation_Ports
  imports Provision_Team Conversation_Repo
begin

text \<open>
  The application's own ports of provisioning (crates/app/src/adapters.rs):
  \<open>MemoryConversationPorts\<close> over the conversations in memory and the fixed catalogue of
  assistants. The state \<open>world\<close> holds the repositories the application shares; identifiers
  and the clock are read by a counter. Directories are made on the side.
\<close>

subsection \<open>The world\<close>

record world =
  wo_teams :: memory_state
  wo_meta :: meta_state
  wo_conversations :: conv_state
  wo_killed :: "ident list"
  wo_announced :: "(ident \<times> string) list" \<comment> \<open>teams announced as created\<close>
  wo_draws :: nat

record 'j world_env =
  we_json :: "'j tool_json"
  we_unicode :: unicode_ops
  we_ids :: "nat \<Rightarrow> ident"
  we_clock :: "nat \<Rightarrow> timestamp"
  we_workspace_root :: string
  we_path :: "string \<Rightarrow> path_kind"
  we_make_dir :: "string \<Rightarrow> string option" \<comment> \<open>the error of \<open>create_dir_all\<close>, if any\<close>
  we_model_to :: "provider_model \<Rightarrow> string" \<comment> \<open>\<open>to_string(..).unwrap_or_default()\<close>\<close>
  we_agents_of :: "string \<Rightarrow> string + team_agent list"
  we_agents_to :: "team_agent list \<Rightarrow> string + string"
  we_warmup :: "ident \<Rightarrow> string option \<Rightarrow> world \<Rightarrow> string option"

definition draw_id :: "'j world_env \<Rightarrow> (ident, world) act" where
  "draw_id we w = Some (Inr (we_ids we (wo_draws w)), w\<lparr>wo_draws := Suc (wo_draws w)\<rparr>)"

definition now_ms :: "'j world_env \<Rightarrow> (timestamp, world) act" where
  "now_ms we w = Some (Inr (we_clock we (wo_draws w)), w\<lparr>wo_draws := Suc (wo_draws w)\<rparr>)"

definition on_conversations :: "(conv_state \<Rightarrow> (db_error + 'a) \<times> conv_state) \<Rightarrow> ('a, world) act" where
  "on_conversations f w =
     (case f (wo_conversations w) of
        (r, s) \<Rightarrow> Some (map_err (\<lambda>e. InvalidRequest (db_error_display e)) r, w\<lparr>wo_conversations := s\<rparr>))"

subsection \<open>Conversations\<close>

definition path_join :: "string \<Rightarrow> string \<Rightarrow> string" where
  "path_join base part = (if base = [] then part else if last base = CHR ''/'' then base @ part else base @ ''/'' @ part)"

definition string_entry :: "'j value_ops \<Rightarrow> 'j entries \<Rightarrow> string \<Rightarrow> string option" where
  "string_entry vo extra key = Option.bind (map_of extra key) (jv_as_str vo)"

text \<open>The text of an object, \<open>{}\<close> if it cannot be written.\<close>

definition entries_text :: "'j world_env \<Rightarrow> 'j entries \<Rightarrow> string" where
  "entries_text we extra = tj_to_string (we_json we) (jv_obj (tj_values (we_json we)) extra)"

definition chosen_workspace :: "'j world_env \<Rightarrow> ident \<Rightarrow> 'j entries \<Rightarrow> string" where
  "chosen_workspace we conversation_id extra =
     (let temp = path_join (path_join (we_workspace_root we) ''conversations'') (''acp-temp-'' @ conversation_id)
      in case string_entry (tj_values (we_json we)) extra ''workspace'' of
           Some w \<Rightarrow> if uc_trim (we_unicode we) w \<noteq> [] then w else temp
         | None \<Rightarrow> temp)"

definition stored_extra :: "'j world_env \<Rightarrow> string \<Rightarrow> 'j conversation_request \<Rightarrow> 'j entries" where
  "stored_extra we workspace request =
     (let vo = tj_values (we_json we); e1 = put ''workspace'' (jv_str vo workspace) (qc_extra request)
      in case qc_assistant_id request of
           Some i \<Rightarrow> put ''assistant_id'' (jv_str vo i) e1
         | None \<Rightarrow> e1)"

definition conversation_row_of ::
  "'j world_env \<Rightarrow> ident \<Rightarrow> string \<Rightarrow> timestamp \<Rightarrow> timestamp \<Rightarrow> 'j conversation_request \<Rightarrow> conversation_row" where
  "conversation_row_of we conversation_id workspace created_at updated_at request =
     \<lparr>cv_id = conversation_id, cv_user_id = qc_user_id request, cv_name = qc_name request,
      cv_type = serde_name (case qc_agent_type request of None \<Rightarrow> Acp | Some t \<Rightarrow> t),
      cv_extra = entries_text we (stored_extra we workspace request),
      cv_model = map_option (we_model_to we) (qc_top_level_model request),
      cv_status = Some ''pending'', cv_source = None, cv_channel_chat_id = None, cv_pinned = False, cv_pinned_at = None,
      cv_created_at = created_at, cv_updated_at = updated_at\<rparr>"

definition create_team_conversation ::
  "'j world_env \<Rightarrow> 'j conversation_request \<Rightarrow> (created_conversation, world) act" where
  "create_team_conversation we request =
     and_then (draw_id we) (\<lambda>conversation_id.
     let workspace = chosen_workspace we conversation_id (qc_extra request)
     in and_then (now_ms we) (\<lambda>created_at.
        and_then (now_ms we) (\<lambda>updated_at.
        and_then (on_conversations (conv_create (conversation_row_of we conversation_id workspace created_at updated_at request))) (\<lambda>_.
        return_ok \<lparr>nc_conversation_id = conversation_id, nc_workspace = workspace\<rparr>))))"

definition find_conversation :: "ident \<Rightarrow> (conversation_row option, world) act" where
  "find_conversation conversation_id = on_conversations (\<lambda>s. (conv_get conversation_id s, s))"

definition extra_of :: "'j world_env \<Rightarrow> conversation_row \<Rightarrow> 'j option" where
  "extra_of we row = result_ok (tj_from_str (we_json we) (cv_extra row))"

definition value_string :: "'j world_env \<Rightarrow> 'j \<Rightarrow> string \<Rightarrow> string option" where
  "value_string we v key = Option.bind (jv_get (tj_values (we_json we)) key v) (jv_as_str (tj_values (we_json we)))"

definition conversation_workspace :: "'j world_env \<Rightarrow> ident \<Rightarrow> (string option, world) act" where
  "conversation_workspace we conversation_id =
     and_then (find_conversation conversation_id) (\<lambda>row.
     return_ok (Option.bind (Option.bind row (extra_of we)) (\<lambda>extra. value_string we extra ''workspace'')))"

definition conversation_assistant_id :: "'j world_env \<Rightarrow> ident \<Rightarrow> (ident option, world) act" where
  "conversation_assistant_id we conversation_id =
     and_then (find_conversation conversation_id) (\<lambda>row.
     return_ok (Option.bind (Option.bind row (extra_of we)) (\<lambda>extra.
       let vo = tj_values (we_json we)
       in nonblank (we_unicode we) (Option.bind
            (or_else (jv_get vo ''assistant_id'' extra) (jv_get vo ''preset_assistant_id'' extra)) (jv_as_str vo)))))"

definition create_team_temp_workspace :: "'j world_env \<Rightarrow> ident \<Rightarrow> (string, world) act" where
  "create_team_temp_workspace we team_id =
     (let path = path_join (path_join (we_workspace_root we) ''conversations'') (''team-temp-'' @ team_id)
      in case we_make_dir we path of Some e \<Rightarrow> throw (InvalidRequest e) | None \<Rightarrow> return_ok path)"

definition patch_runtime_config :: "'j world_env \<Rightarrow> ident \<Rightarrow> 'j entries \<Rightarrow> (unit, world) act" where
  "patch_runtime_config we conversation_id patch =
     and_then (find_conversation conversation_id) (\<lambda>found.
     and_then (ok_or (InvalidRequest (''conversation not found: '' @ conversation_id)) found) (\<lambda>row.
     let vo = tj_values (we_json we);
         extra = (case extra_of we row of None \<Rightarrow> jv_obj vo [] | Some v \<Rightarrow> v);
         text = (case jv_as_object vo extra of
                   Some target \<Rightarrow> entries_text we (fold (\<lambda>(k, v). put k v) patch target)
                 | None \<Rightarrow> tj_to_string (we_json we) extra)
     in and_then (now_ms we) (\<lambda>now.
        on_conversations (conv_update conversation_id
          \<lparr>cu_name = None, cu_extra = Some text, cu_model = None, cu_pinned = None, cu_pinned_at = None,
           cu_updated_at = Some now, cu_status = None\<rparr>))))"

definition save_acp_runtime_mode :: "'j world_env \<Rightarrow> ident \<Rightarrow> string \<Rightarrow> (unit, world) act" where
  "save_acp_runtime_mode we conversation_id mode =
     patch_runtime_config we conversation_id [(''current_mode_id'', jv_str (tj_values (we_json we)) mode)]"

definition warmup_agent_process :: "'j world_env \<Rightarrow> ident \<Rightarrow> (unit, world) act" where
  "warmup_agent_process we conversation_id =
     and_then (conversation_workspace we conversation_id) (\<lambda>workspace.
     and_then (gets (we_warmup we conversation_id workspace)) (\<lambda>failed.
     case failed of Some e \<Rightarrow> throw (InvalidRequest e) | None \<Rightarrow> return_ok ()))"

definition world_delete_conversation :: "ident \<Rightarrow> (unit, world) act" where
  "world_delete_conversation conversation_id = ignoring (on_conversations (conv_delete conversation_id))"

record binding_lookup =
  bl_conversation_id :: ident
  bl_user_id :: ident
  bl_team_id :: "ident option"
  bl_slot_id :: "ident option"
  bl_role :: "string option"

definition binding_lookup_of :: "'j world_env \<Rightarrow> conversation_row \<Rightarrow> binding_lookup" where
  "binding_lookup_of we row =
     (let extra = (case extra_of we row of None \<Rightarrow> jv_obj (tj_values (we_json we)) [] | Some v \<Rightarrow> v)
      in \<lparr>bl_conversation_id = cv_id row, bl_user_id = cv_user_id row, bl_team_id = value_string we extra ''team_id'',
          bl_slot_id = value_string we extra ''slot_id'', bl_role = value_string we extra ''role''\<rparr>)"

definition lookup_team_binding_by_conversation ::
  "'j world_env \<Rightarrow> ident \<Rightarrow> (binding_lookup option, world) act" where
  "lookup_team_binding_by_conversation we conversation_id =
     and_then (find_conversation conversation_id) (\<lambda>row. return_ok (map_option (binding_lookup_of we) row))"

subsection \<open>The catalogue of assistants\<close>

definition default_catalog :: "catalog_entry list" where
  "default_catalog =
     [\<lparr>ce_assistant_id = ''asst-claude'', ce_name = ''Claude Lead'', ce_backend = ''claude'',
       ce_description = ''Planning lead (requires Claude login)'', ce_skills = []\<rparr>,
      \<lparr>ce_assistant_id = ''asst-grok'', ce_name = ''Grok Worker'', ce_backend = ''grok'',
       ce_description = ''Execution teammate'', ce_skills = []\<rparr>,
      \<lparr>ce_assistant_id = ''asst-codex'', ce_name = ''Codex Reviewer'', ce_backend = ''codex'',
       ce_description = ''Review teammate'', ce_skills = []\<rparr>]"

subsection \<open>The provisioner of the application\<close>

definition world_update_team :: "'j world_env \<Rightarrow> ident \<Rightarrow> update_team_params \<Rightarrow> (unit, world) act" where
  "world_update_team we team_id params =
     and_then (now_ms we) (\<lambda>now w.
       case mem_update_team now team_id params (wo_teams w) of
         (r, s) \<Rightarrow> Some (map_err Database r, w\<lparr>wo_teams := s\<rparr>))"

definition world_provision :: "'j world_env \<Rightarrow> ('j, world) provision_env" where
  "world_provision we =
     \<lparr>pv_json = we_json we, pv_unicode = we_unicode we, pv_new_id = draw_id we,
      pv_get_team = (\<lambda>team_id w. mem_get_team team_id (wo_teams w)), pv_update_team = world_update_team we,
      pv_agents_of = we_agents_of we, pv_agents_to = we_agents_to we,
      pv_metadata = (\<lambda>w. meta_list_all (wo_meta w)), pv_catalog = (\<lambda>_. Inr default_catalog),
      pv_create_conversation = create_team_conversation we,
      pv_conversation_workspace = conversation_workspace we,
      pv_temp_workspace = create_team_temp_workspace we, pv_patch = patch_runtime_config we,
      pv_save_mode = save_acp_runtime_mode we, pv_warmup = (\<lambda>_. warmup_agent_process we),
      pv_kill = (\<lambda>i. modify (\<lambda>w. w\<lparr>wo_killed := wo_killed w @ [i]\<rparr>)), pv_path = we_path we\<rparr>"

end
