(* ===== verification/Team_Creation.thy ===== *)
theory Team_Creation
  imports Conversation_Ports Text_Format
begin

text \<open>
  What the team session service answers about teams and how it creates them (crates/team/src/
  service.rs, service/response_builder.rs, the avatar of api-types/src/extras.rs and the other
  look-ups of service/spawn_support.rs). The ports are again actions and look-ups on the state.
\<close>

record ('j, 'st) creation_env =
  tv_provision :: "('j, 'st) provision_env"
  tv_now :: "(timestamp, 'st) act"
  tv_create_team :: "team_row \<Rightarrow> (unit, 'st) act"
  tv_teams_of :: "ident \<Rightarrow> 'st \<Rightarrow> db_error + team_row list"
  tv_archived_of :: "ident \<Rightarrow> 'st \<Rightarrow> db_error + team_row list"
  tv_announce_created :: "ident \<Rightarrow> string \<Rightarrow> (unit, 'st) act"
  tv_assistant :: "ident \<Rightarrow> 'st \<Rightarrow> db_error + assistant_row option"
  tv_builtin :: "string \<Rightarrow> 'st \<Rightarrow> db_error + agent_metadata_row option"
  tv_confirmations :: "ident \<Rightarrow> 'st \<Rightarrow> nat"

subsection \<open>Pictures\<close>

definition is_local_avatar_value :: "unicode_ops \<Rightarrow> string \<Rightarrow> bool" where
  "is_local_avatar_value uc v =
     (let value = uc_trim uc v
      in if value = [] then False
         else if is_prefix ''file://'' value then True
         else if is_prefix ''/api/'' value \<or> is_prefix ''/assets/'' value then False
         else if is_prefix ''//'' value \<or> str_contains ''://'' value \<or> is_prefix ''data:'' value then False
         else CHR 0x5C \<in> set value \<or> CHR ''/'' \<in> set value)"

definition assistant_avatar_response_value ::
  "unicode_ops \<Rightarrow> string \<Rightarrow> string option \<Rightarrow> ident \<Rightarrow> string option" where
  "assistant_avatar_response_value uc avatar_type avatar_value assistant_id =
     (if avatar_type = ''builtin_asset'' \<or> avatar_type = ''user_asset''
      then Some (''/api/assistants/'' @ assistant_id @ ''/avatar'')
      else Option.bind (nonblank uc avatar_value) (\<lambda>value.
        if is_prefix ''data:'' value \<or> is_local_avatar_value uc value then None else Some value))"

definition from_db :: "('st \<Rightarrow> db_error + 'a) \<Rightarrow> ('a, 'st) act" where
  "from_db f = and_then (gets f) (\<lambda>r. from_result (map_err Database r))"

definition assistant_picture :: "('j, 'st) creation_env \<Rightarrow> ident option \<Rightarrow> (string option, 'st) act" where
  "assistant_picture tv assistant_id =
     (case assistant_id of
        None \<Rightarrow> return_ok None
      | Some i \<Rightarrow>
        and_then (from_db (tv_assistant tv i)) (\<lambda>definition.
        return_ok (Option.bind definition (\<lambda>a.
          assistant_avatar_response_value (pv_unicode (tv_provision tv)) (as_avatar_type a) (as_avatar_value a)
            (as_assistant_id a)))))"

definition resolve_agent_icon :: "('j, 'st) creation_env \<Rightarrow> team_agent \<Rightarrow> (string option, 'st) act" where
  "resolve_agent_icon tv agent =
     and_then (assistant_picture tv (ta_assistant_id agent)) (\<lambda>picture.
     if picture \<noteq> None then return_ok picture
     else and_then (from_db (tv_builtin tv (ta_backend agent))) (\<lambda>row.
       if Option.bind row am_icon \<noteq> None then return_ok (Option.bind row am_icon)
       else if ta_backend agent = ''acp''
       then and_then (from_db (tv_builtin tv (ta_model agent))) (\<lambda>row. return_ok (Option.bind row am_icon))
       else return_ok None))"

subsection \<open>Answers\<close>

definition build_agent_response :: "('j, 'st) creation_env \<Rightarrow> team_agent \<Rightarrow> (team_agent_response, 'st) act" where
  "build_agent_response tv agent =
     and_then (resolve_agent_icon tv agent) (\<lambda>icon.
     and_then (gets (tv_confirmations tv (ta_conversation_id agent))) (\<lambda>n.
     return_ok ((agent_to_response_with_icon icon agent)\<lparr>tar_pending_confirmations := n\<rparr>)))"

fun build_agent_responses :: "('j, 'st) creation_env \<Rightarrow> team_agent list \<Rightarrow> (team_agent_response list, 'st) act" where
  "build_agent_responses tv [] = return_ok []"
| "build_agent_responses tv (agent # agents) =
     and_then (build_agent_response tv agent) (\<lambda>response.
     and_then (build_agent_responses tv agents) (\<lambda>responses.
     return_ok (response # responses)))"

definition build_team_response :: "('j, 'st) creation_env \<Rightarrow> team \<Rightarrow> (team_response, 'st) act" where
  "build_team_response tv team =
     and_then (build_agent_responses tv (tm_agents team)) (\<lambda>agents.
     return_ok \<lparr>trs_id = tm_id team, trs_name = tm_name team, trs_workspace = tm_workspace team, trs_assistants = agents,
                trs_leader_assistant_id = tm_lead_agent_id team, trs_created_at = tm_created_at team,
                trs_updated_at = tm_updated_at team, trs_archived_at = tm_archived_at team\<rparr>)"

text \<open>A team that cannot be read, or for which no answer can be made, is left out.\<close>

fun list_teams_from_rows :: "('j, 'st) creation_env \<Rightarrow> team_row list \<Rightarrow> (team_response list, 'st) act" where
  "list_teams_from_rows tv [] = return_ok []"
| "list_teams_from_rows tv (row # rows) =
     (case team_from_row (pv_agents_of (tv_provision tv)) row of
        Inl _ \<Rightarrow> list_teams_from_rows tv rows
      | Inr team \<Rightarrow>
        and_then (attempt (build_team_response tv team)) (\<lambda>r.
        case r of
          Inl _ \<Rightarrow> list_teams_from_rows tv rows
        | Inr response \<Rightarrow>
          and_then (list_teams_from_rows tv rows) (\<lambda>responses. return_ok (response # responses))))"

definition list_teams :: "('j, 'st) creation_env \<Rightarrow> ident \<Rightarrow> (team_response list, 'st) act" where
  "list_teams tv user_id = and_then (from_db (tv_teams_of tv user_id)) (list_teams_from_rows tv)"

definition list_archived_teams :: "('j, 'st) creation_env \<Rightarrow> ident \<Rightarrow> (team_response list, 'st) act" where
  "list_archived_teams tv user_id = and_then (from_db (tv_archived_of tv user_id)) (list_teams_from_rows tv)"

subsection \<open>Creating a team\<close>

definition reuses_conversation :: "unicode_ops \<Rightarrow> agent_input \<Rightarrow> bool" where
  "reuses_conversation uc input \<longleftrightarrow> nonblank uc (ai_conversation_id input) \<noteq> None"

definition requested_workspace :: "('j, 'st) creation_env \<Rightarrow> string option \<Rightarrow> team_error + string option" where
  "requested_workspace tv workspace =
     (let pv = tv_provision tv
      in case workspace of
           None \<Rightarrow> Inr None
         | Some w \<Rightarrow>
           if w = [] then Inr None
           else map_sum (\<lambda>e. e) Some (validate_create_workspace_path (pv_unicode pv) (pv_path pv) w))"

definition new_team_row ::
  "ident \<Rightarrow> ident \<Rightarrow> timestamp \<Rightarrow> string \<Rightarrow> initial_team \<Rightarrow> string \<Rightarrow> team_row" where
  "new_team_row user_id team_id now name made agents_json =
     \<lparr>tr_id = team_id, tr_user_id = user_id, tr_name = name, tr_workspace = it_workspace made,
      tr_workspace_mode = ''shared'', tr_agents = agents_json, tr_lead_agent_id = it_lead_agent_id made,
      tr_session_mode = None, tr_agents_version = ''1.0.1'', tr_created_at = now, tr_updated_at = now,
      tr_archived_at = None\<rparr>"

definition new_team :: "ident \<Rightarrow> timestamp \<Rightarrow> string \<Rightarrow> initial_team \<Rightarrow> team" where
  "new_team team_id now name made =
     \<lparr>tm_id = team_id, tm_name = name, tm_workspace = it_workspace made, tm_agents = it_agents made,
      tm_lead_agent_id = it_lead_agent_id made, tm_created_at = now, tm_updated_at = now, tm_archived_at = None\<rparr>"

definition create_team ::
  "('j, 'st) creation_env \<Rightarrow> ident \<Rightarrow> create_team_request \<Rightarrow> (team_response, 'st) act" where
  "create_team tv user_id req =
     (let pv = tv_provision tv
      in if tq_agents req = [] then throw (InvalidRequest ''at least one agent is required'')
         else if list_ex (reuses_conversation (pv_unicode pv)) (tq_agents req)
         then throw (InvalidRequest ''creating Team agents from existing conversations are no longer supported; omit agents[].conversation_id'')
         else
         and_then (from_result (requested_workspace tv (tq_workspace req))) (\<lambda>shared_workspace.
         and_then (pv_new_id pv) (\<lambda>team_id.
         and_then (tv_now tv) (\<lambda>now.
         and_then (provision_initial_agents pv user_id team_id (tq_agents req) shared_workspace) (\<lambda>made.
         and_then (from_result (map_err Json (pv_agents_to pv (it_agents made)))) (\<lambda>agents_json.
         and_then (tv_create_team tv (new_team_row user_id team_id now (tq_name req) made agents_json)) (\<lambda>_.
         and_then (tv_announce_created tv team_id (tq_name req)) (\<lambda>_.
         build_team_response tv (new_team team_id now (tq_name req) made)))))))))"

subsection \<open>Backends and models of assistants\<close>

text \<open>\<open>row.available_models\<close> read as JSON: the current model, or the first one that is listed.\<close>

definition listed_model :: "'j tool_json \<Rightarrow> 'j \<Rightarrow> string option" where
  "listed_model tj v =
     (let vo = tj_values tj;
          as_array = (\<lambda>w. case tj_view tj w of VArr xs \<Rightarrow> Some xs | _ \<Rightarrow> None)
      in Option.bind (or_else (Option.bind (jv_get vo ''available_models'' v) as_array) (as_array v)) (\<lambda>models.
         case models of [] \<Rightarrow> None | m # _ \<Rightarrow> Option.bind (jv_get vo ''id'' m) (jv_as_str vo)))"

definition default_model_of :: "'j tool_json \<Rightarrow> agent_metadata_row \<Rightarrow> string option" where
  "default_model_of tj row =
     Option.bind (am_available_models row) (\<lambda>text.
     Option.bind (result_ok (tj_from_str tj text)) (\<lambda>v.
     let vo = tj_values tj
     in case Option.bind (jv_get vo ''current_model_id'' v) (jv_as_str vo) of
          Some i \<Rightarrow> if i \<noteq> [] then Some i else listed_model tj v
        | None \<Rightarrow> listed_model tj v))"

definition default_model_for_backend :: "('j, 'st) creation_env \<Rightarrow> string \<Rightarrow> (string option, 'st) act" where
  "default_model_for_backend tv backend =
     (if backend = ''aionrs'' then return_ok None
      else gets (\<lambda>st. case tv_builtin tv backend st of
             Inr (Some row) \<Rightarrow> default_model_of (pv_json (tv_provision tv)) row
           | _ \<Rightarrow> None))"

definition fixed_model :: "unicode_ops \<Rightarrow> assistant_row \<Rightarrow> string option" where
  "fixed_model uc a = (if as_default_model_mode a = ''fixed'' then nonblank uc (as_default_model_value a) else None)"

definition resolve_spawn_backend_and_model ::
  "('j, 'st) creation_env \<Rightarrow> ident option \<Rightarrow> string option \<Rightarrow> string \<Rightarrow> string \<Rightarrow> (string \<times> string, 'st) act" where
  "resolve_spawn_backend_and_model tv assistant_id requested_model fallback_backend fallback_model =
     (let pv = tv_provision tv; uc = pv_unicode pv;
          pick = (\<lambda>own default. case or_else (nonblank uc requested_model) (or_else own default) of
                      Some m \<Rightarrow> m | None \<Rightarrow> fallback_model)
      in case nonblank uc assistant_id of
           Some i \<Rightarrow>
             and_then (resolve_team_selectable_assistant pv i) (\<lambda>found.
             and_then (ok_or (InvalidRequest (''Assistant is not available for team mode: '' @ i)) found) (\<lambda>selectable.
             and_then (from_db (tv_assistant tv i)) (\<lambda>found.
             and_then (ok_or (InvalidRequest (''Preset assistant not found: '' @ i)) found) (\<lambda>a.
             and_then (default_model_for_backend tv (ce_backend selectable)) (\<lambda>default.
             return_ok (ce_backend selectable, pick (fixed_model uc a) default))))))
         | None \<Rightarrow>
             and_then (default_model_for_backend tv fallback_backend) (\<lambda>default.
             return_ok (fallback_backend, pick None default)))"

definition resolve_runtime_backend ::
  "('j, 'st) provision_env \<Rightarrow> ident \<Rightarrow> (string, 'st) act" where
  "resolve_runtime_backend pv agent_id =
     and_then (from_db (pv_metadata pv)) (\<lambda>rows.
     return_ok (case resolve_agent_binding_from_rows (pv_unicode pv) rows agent_id of
                  None \<Rightarrow> agent_id | Some b \<Rightarrow> ab_runtime_backend b))"

text \<open>An error of the catalogue is an empty list.\<close>

definition list_team_selectable_assistants :: "('j, 'st) provision_env \<Rightarrow> 'st \<Rightarrow> catalog_entry list" where
  "list_team_selectable_assistants pv st = (case pv_catalog pv st of Inl _ \<Rightarrow> [] | Inr entries \<Rightarrow> entries)"

subsection \<open>The application\<close>

definition world_creation :: "'j world_env \<Rightarrow> (ident \<Rightarrow> world \<Rightarrow> nat) \<Rightarrow> ('j, world) creation_env" where
  "world_creation we confirmations =
     \<lparr>tv_provision = world_provision we, tv_now = now_ms we,
      tv_create_team = (\<lambda>row w. case mem_create_team row (wo_teams w) of
         (r, s) \<Rightarrow> Some (map_err Database r, w\<lparr>wo_teams := s\<rparr>)),
      tv_teams_of = (\<lambda>user_id w. mem_list_teams_by_user user_id (wo_teams w)),
      tv_archived_of = (\<lambda>user_id w. mem_list_archived_teams_by_user user_id (wo_teams w)),
      tv_announce_created = (\<lambda>team_id name. modify (\<lambda>w. w\<lparr>wo_announced := wo_announced w @ [(team_id, name)]\<rparr>)),
      tv_assistant = (\<lambda>i w. assistant_by_assistant_id i (wo_meta w)),
      tv_builtin = (\<lambda>backend w. meta_find_builtin_by_backend backend (wo_meta w)),
      tv_confirmations = confirmations\<rparr>"

subsection \<open>The description of an assistant\<close>

text \<open>
  What the lead is told about an assistant it might spawn (crates/team/src/service/
  describe_support.rs): its texts in a locale, English or as they were stored, as JSON with a
  Markdown page. Maps that cannot be read are empty.
\<close>

definition read_map :: "'j tool_json \<Rightarrow> ('j \<Rightarrow> 'a option) \<Rightarrow> string \<Rightarrow> (string \<times> 'a) list" where
  "read_map tj rd raw =
     (case tj_from_str tj raw of
        Inl _ \<Rightarrow> []
      | Inr v \<Rightarrow>
        (case tj_view tj v of
           VObj kvs \<Rightarrow>
             (case read_each (\<lambda>(k, x). map_option (Pair k) (rd x)) kvs of None \<Rightarrow> [] | Some m \<Rightarrow> m)
         | _ \<Rightarrow> []))"

definition decode_str_map :: "'j tool_json \<Rightarrow> string \<Rightarrow> (string \<times> string) list" where
  "decode_str_map tj = read_map tj (read_string tj)"

definition decode_list_map :: "'j tool_json \<Rightarrow> string \<Rightarrow> (string \<times> string list) list" where
  "decode_list_map tj = read_map tj (read_strings tj)"

definition decode_string_list :: "'j tool_json \<Rightarrow> string \<Rightarrow> string list" where
  "decode_string_list tj raw =
     (case Option.bind (result_ok (tj_from_str tj raw)) (read_strings tj) of None \<Rightarrow> [] | Some xs \<Rightarrow> xs)"

definition localized :: "(string \<times> 'a) list \<Rightarrow> string \<Rightarrow> 'a option" where
  "localized m locale = or_else (map_of m locale) (map_of m ''en-US'')"

definition localized_text :: "(string \<times> string) list \<Rightarrow> string \<Rightarrow> string \<Rightarrow> string" where
  "localized_text m fallback locale = (case localized m locale of None \<Rightarrow> fallback | Some s \<Rightarrow> s)"

definition localized_optional_text :: "(string \<times> string) list \<Rightarrow> string option \<Rightarrow> string \<Rightarrow> string option" where
  "localized_optional_text m fallback locale = or_else (localized m locale) fallback"

definition localized_list ::
  "'j tool_json \<Rightarrow> (string \<times> string list) list \<Rightarrow> string \<Rightarrow> string \<Rightarrow> string list option" where
  "localized_list tj m fallback_raw locale =
     or_else (localized m locale)
       (let fallback = decode_string_list tj fallback_raw in if fallback = [] then None else Some fallback)"

subsection \<open>The page\<close>

definition described_name :: "'j tool_json \<Rightarrow> assistant_row \<Rightarrow> string \<Rightarrow> string" where
  "described_name tj a locale = localized_text (decode_str_map tj (as_name_i18n a)) (as_name a) locale"

definition described_text :: "'j tool_json \<Rightarrow> assistant_row \<Rightarrow> string \<Rightarrow> string" where
  "described_text tj a locale =
     (case localized_optional_text (decode_str_map tj (as_description_i18n a)) (as_description a) locale of
        None \<Rightarrow> ''No description available.'' | Some s \<Rightarrow> s)"

definition described_tasks :: "'j tool_json \<Rightarrow> assistant_row \<Rightarrow> string \<Rightarrow> string list" where
  "described_tasks tj a locale =
     (case localized_list tj (decode_list_map tj (as_recommended_prompts_i18n a)) (as_recommended_prompts a) locale of
        None \<Rightarrow> [] | Some xs \<Rightarrow> xs)"

definition described_skills :: "'j tool_json \<Rightarrow> assistant_row \<Rightarrow> string list" where
  "described_skills tj a = decode_string_list tj (as_default_skill_ids a) @ decode_string_list tj (as_custom_skill_names a)"

definition bullets :: "string list \<Rightarrow> string list" where
  "bullets xs = (if xs = [] then [''- None''] else map (\<lambda>x. ''- '' @ x) xs)"

definition backtick :: string where "backtick = [CHR 0x60]"

text \<open>\<open>trim_end\<close> takes off the last line feed; the line before it ends in a full stop.\<close>

definition render_assistant_description :: "'j tool_json \<Rightarrow> assistant_row \<Rightarrow> string \<Rightarrow> string \<Rightarrow> string" where
  "render_assistant_description tj a effective_backend locale =
     join newline
       ([''# '' @ described_name tj a locale @ '' ('' @ backtick @ as_assistant_id a @ backtick @ '')'', [],
         ''Backend: '' @ effective_backend, [], ''## Description'', described_text tj a locale, [], ''## Skills''] @
        bullets (described_skills tj a) @ [[], ''## Example tasks''] @ bullets (described_tasks tj a locale) @
        [[], ''Use '' @ backtick @ ''team_spawn_agent'' @ backtick @ '' with '' @ backtick @ ''assistant_id='' @
           in_quotes (as_assistant_id a) @ backtick @ ''.''])"

definition render_assistant_description_json ::
  "'j tool_json \<Rightarrow> assistant_row \<Rightarrow> string \<Rightarrow> string \<Rightarrow> string + string" where
  "render_assistant_description_json tj a effective_backend locale =
     (let vo = tj_values tj
      in tj_pretty tj (jv_obj vo [
           (''status'', jv_str vo ''ok''), (''assistant_id'', jv_str vo (as_assistant_id a)),
           (''name'', jv_str vo (described_name tj a locale)), (''description'', jv_str vo (described_text tj a locale)),
           (''description_markdown'', jv_str vo (render_assistant_description tj a effective_backend locale)),
           (''skills'', jv_strs vo (described_skills tj a)),
           (''example_tasks'', jv_strs vo (described_tasks tj a locale)),
           (''default_model'', jv_opt_str vo (as_default_model_value a))]))"

definition describe_assistant ::
  "('j, 'st) creation_env \<Rightarrow> (ident \<Rightarrow> 'st \<Rightarrow> db_error + overlay_row option) \<Rightarrow> ident \<Rightarrow> string option \<Rightarrow> (string, 'st) act" where
  "describe_assistant tv overlay_of assistant_id locale =
     (let pv = tv_provision tv
      in and_then (from_db (tv_assistant tv assistant_id)) (\<lambda>found.
         and_then (ok_or (InvalidRequest (''Preset assistant not found: '' @ assistant_id)) found) (\<lambda>a.
         and_then (from_db (overlay_of (as_id a))) (\<lambda>overlay.
         let override = Option.bind overlay ov_agent_id_override;
             agent_id = (if nonblank (pv_unicode pv) override \<noteq> None then the override else as_agent_id a)
         in and_then (resolve_runtime_backend pv agent_id) (\<lambda>backend.
            from_result (map_err Json (render_assistant_description_json (pv_json pv) a backend
              (case locale of None \<Rightarrow> ''en-US'' | Some l \<Rightarrow> l))))))))"

end
