(* ===== verification/Service_Agents.thy ===== *)
theory Service_Agents
  imports Service_Teams Team_Creation
begin

text \<open>
  The methods of the team session service (crates/team/src/service.rs) that go to the
  provisioner: adding an agent by hand, the session mode of all agents, and the answer about
  one team. The ports of provisioning work on the state of the session here.
\<close>

definition service_get_team ::
  "('j, 's, 'c, 'w, 'p) service_env \<Rightarrow> ('j, ('j, 's, 'c, 'w, 'p) session) creation_env \<Rightarrow> ident \<Rightarrow> ident
     \<Rightarrow> (team_response, ('j, 's, 'c, 'w, 'p) session) act" where
  "service_get_team ve tv user_id team_id =
     and_then (load_owned_team_including_archived ve user_id team_id) (build_team_response tv)"

text \<open>The member starts in the background; what it does is appended here.\<close>

definition join_running_session ::
  "('j, 's, 'c, 'w, 'p) service_env \<Rightarrow> team_agent \<Rightarrow> (unit, ('j, 's, 'c, 'w, 'p) session) act" where
  "join_running_session ve agent =
     and_then (on_runtimes (reserve_attach (en_watch (ve_session ve)) (ta_slot_id agent) False)) (\<lambda>reservation.
     and_then (add_manual_agent (ve_session ve) agent) (\<lambda>_.
     and_then (emit_status (EvAgentRuntimePending (ta_slot_id agent) (ta_conversation_id agent))) (\<lambda>_.
     and_then (attach_agent_process_bg (ve_session ve) (ve_attach ve agent) agent reservation) (\<lambda>_. return_ok ()))))"

definition service_add_agent ::
  "('j, 's, 'c, 'w, 'p) service_env \<Rightarrow> ('j, ('j, 's, 'c, 'w, 'p) session) creation_env \<Rightarrow> ident \<Rightarrow> ident
     \<Rightarrow> add_agent_request \<Rightarrow> (team_agent_response, ('j, 's, 'c, 'w, 'p) session) act" where
  "service_add_agent ve tv user_id team_id req =
     and_then (get_team_row ve team_id) (\<lambda>found.
     and_then (ok_or (TeamNotFound team_id) found) (\<lambda>row.
     if tr_user_id row \<noteq> user_id
     then throw (Forbidden (''team '' @ team_id @ '' is not owned by current user''))
     else
     and_then (team_of_row ve row) (\<lambda>team.
     and_then (provisioner_add_agent (tv_provision tv) user_id row team req) (\<lambda>agent.
     and_then (gets (has_session team_id)) (\<lambda>running.
     and_then (if running then join_running_session ve agent
               else modify (\<lambda>se. se\<lparr>se_manager := emit (EvAgentSpawned (agent_to_response agent)) (se_manager se)\<rparr>)) (\<lambda>_.
     build_agent_response tv agent))))))"

text \<open>\<open>options\<close> is the conversation port's \<open>get_config_options\<close>.\<close>

definition get_conversation_config_options ::
  "('j, 's, 'c, 'w, 'p) service_env \<Rightarrow> (ident \<Rightarrow> ('o, ('j, 's, 'c, 'w, 'p) session) act) \<Rightarrow> ident \<Rightarrow> ident \<Rightarrow> ident
     \<Rightarrow> ('o, ('j, 's, 'c, 'w, 'p) session) act" where
  "get_conversation_config_options ve options user_id team_id conversation_id =
     and_then (get_team_row ve team_id) (\<lambda>found.
     and_then (ok_or (TeamNotFound team_id) found) (\<lambda>row.
     if tr_user_id row \<noteq> user_id
     then throw (Forbidden (''team '' @ team_id @ '' is not owned by current user''))
     else
     and_then (team_of_row ve row) (\<lambda>team.
     if \<not> list_ex (\<lambda>a. ta_conversation_id a = conversation_id) (tm_agents team)
     then throw (AgentNotFound conversation_id)
     else options conversation_id)))"

text \<open>\<open>applied\<close>: there is no process for the conversation, or it has taken the mode.\<close>

definition set_session_mode ::
  "('j, 's, 'c, 'w, 'p) service_env \<Rightarrow> ('j, ('j, 's, 'c, 'w, 'p) session) provision_env \<Rightarrow> (ident \<Rightarrow> bool)
     \<Rightarrow> ident \<Rightarrow> ident \<Rightarrow> string \<Rightarrow> (unit, ('j, 's, 'c, 'w, 'p) session) act" where
  "set_session_mode ve pv applied user_id team_id mode =
     and_then (load_owned_team ve user_id team_id) (\<lambda>team.
     and_then (update_team ve team_id (no_update\<lparr>ut_session_mode := Some mode\<rparr>)) (\<lambda>_.
     run_all (\<lambda>agent. when_so (applied (ta_conversation_id agent)) (ignoring (update_session_mode_seed pv agent mode)))
       (tm_agents team)))"

end
