(* ===== verification/Service_Claims.thy ===== *)
theory Service_Claims
  imports Tool_Claims Service_Agents
begin

text \<open>
  What the team session service guarantees to the users of the application: a team is worked on
  by its owner only, an archived team is left asleep, a message to the group is tried once for each
  of its targets, a team is put to sleep only if nobody needed it when it was looked at, and a removal that could
  not be recorded does not leave the agent's runtime in limbo.
\<close>

subsection \<open>The owner and nobody else\<close>

text \<open>The methods of the service that take a user and a team.\<close>

datatype service_call =
    SvcRenameTeam string
  | SvcArchiveTeam
  | SvcRemoveTeam
  | SvcStopSession
  | SvcEnsureSession
  | SvcRenameAgent ident string
  | SvcRemoveAgent ident
  | SvcSend string "string list option"
  | SvcSendTo ident string "string list option"
  | SvcSendGroup group_request
  | SvcListGroup
  | SvcCancelRun ident "string option"
  | SvcCancelChildTurn ident ident "string option"
  | SvcPauseSlot ident ident "string option"
  | SvcRunState
  | SvcRenewLease active_leases
  | SvcGetTeam
  | SvcAddAgent add_agent_request
  | SvcSetSessionMode string
  | SvcConfigOptions ident

text \<open>The ports behind the last four; nothing is assumed about them.\<close>

record ('j, 'o, 'st) user_ports =
  up_creation :: "('j, 'st) creation_env"
  up_mode_applied :: "ident \<Rightarrow> bool"
  up_config_options :: "ident \<Rightarrow> ('o, 'st) act"

definition void :: "('a, 'st) act \<Rightarrow> (unit, 'st) act" where
  "void m = and_then m (\<lambda>_. return_ok ())"

fun service_perform ::
  "('j, 's, 'c, 'w, 'p) service_env \<Rightarrow> ('j, 'o, ('j, 's, 'c, 'w, 'p) session) user_ports \<Rightarrow> ident \<Rightarrow> ident \<Rightarrow> service_call
     \<Rightarrow> (unit, ('j, 's, 'c, 'w, 'p) session) act" where
  "service_perform ve up user_id team_id (SvcRenameTeam name) = rename_team ve user_id team_id name"
| "service_perform ve up user_id team_id SvcArchiveTeam = archive_team ve user_id team_id"
| "service_perform ve up user_id team_id SvcRemoveTeam = remove_team ve user_id team_id"
| "service_perform ve up user_id team_id SvcStopSession = stop_session ve user_id team_id"
| "service_perform ve up user_id team_id SvcEnsureSession = ensure_session ve user_id team_id"
| "service_perform ve up user_id team_id (SvcRenameAgent slot_id name) = service_rename_agent ve user_id team_id slot_id name"
| "service_perform ve up user_id team_id (SvcRemoveAgent slot_id) = service_remove_agent ve user_id team_id slot_id"
| "service_perform ve up user_id team_id (SvcSend content files) = void (service_send_message ve user_id team_id content files)"
| "service_perform ve up user_id team_id (SvcSendTo slot_id content files) =
     void (service_send_message_to_agent ve user_id team_id slot_id content files)"
| "service_perform ve up user_id team_id (SvcSendGroup request) = void (service_send_group_message ve user_id team_id request)"
| "service_perform ve up user_id team_id SvcListGroup = void (list_group_messages ve user_id team_id)"
| "service_perform ve up user_id team_id (SvcCancelRun run_id reason) = service_cancel_run ve user_id team_id run_id reason"
| "service_perform ve up user_id team_id (SvcCancelChildTurn run_id slot_id reason) =
     service_cancel_child_turn ve user_id team_id run_id slot_id reason"
| "service_perform ve up user_id team_id (SvcPauseSlot run_id slot_id reason) =
     service_pause_slot_work ve user_id team_id run_id slot_id reason"
| "service_perform ve up user_id team_id SvcRunState = void (get_run_state ve user_id team_id)"
| "service_perform ve up user_id team_id (SvcRenewLease ls) = void (renew_active_lease ve user_id team_id ls)"
| "service_perform ve up user_id team_id SvcGetTeam = void (service_get_team ve (up_creation up) user_id team_id)"
| "service_perform ve up user_id team_id (SvcAddAgent req) = void (service_add_agent ve (up_creation up) user_id team_id req)"
| "service_perform ve up user_id team_id (SvcSetSessionMode mode) =
     set_session_mode ve (tv_provision (up_creation up)) (up_mode_applied up) user_id team_id mode"
| "service_perform ve up user_id team_id (SvcConfigOptions conversation_id) =
     void (get_conversation_config_options ve (up_config_options up) user_id team_id conversation_id)"

lemma void_Inl: "m st = Some (Inl e, st') \<Longrightarrow> void m st = Some (Inl e, st')"
  by (simp add: void_def)

lemma void_Inr: "m st = Some (Inr x, st') \<Longrightarrow> void m st = Some (Inr (), st')"
  by (simp add: void_def)

lemmas service_methods = rename_team_def archive_team_def remove_team_def stop_session_def service_rename_agent_def
  service_remove_agent_def service_send_message_def service_send_message_to_agent_def service_send_group_message_def
  list_group_messages_def service_cancel_run_def service_cancel_child_turn_def service_pause_slot_work_def
  get_run_state_def renew_active_lease_def service_get_team_def set_session_mode_def

lemma load_refused:
  assumes "rows_get (ve_rows ve) team_id (sm_store (se_manager se)) = r"
    and "case r of Inl e \<Rightarrow> err = Database e | Inr None \<Rightarrow> err = TeamNotFound team_id
       | Inr (Some row) \<Rightarrow> tr_user_id row \<noteq> user_id \<and> err = Forbidden (''team '' @ team_id @ '' is not owned by current user'')"
  shows "load_owned_team_including_archived ve user_id team_id se = Some (Inl err, se)"
    and "load_owned_team ve user_id team_id se = Some (Inl err, se)"
    and "service_add_agent ve tv user_id team_id req se = Some (Inl err, se)"
    and "get_conversation_config_options ve options user_id team_id conv se = Some (Inl err, se)"
  using assms
  by (auto simp: load_owned_team_def load_owned_team_including_archived_def service_add_agent_def
      get_conversation_config_options_def get_team_row_def ok_or_def and_then_def split: sum.splits option.splits)

text \<open>C5: Whoever is not the owner of a team can do nothing with it. If the row of the team is read,
  every method of the service that takes a user and a team, all twenty of them, refuses anybody
  but the owner, and nothing changes. If the row cannot be read or there is none, nineteen of
  them refuse everybody with that error and change nothing. Starting the session is the
  exception: then it asks for no owner at all and goes on to read the row a second time, with
  others working in between, whoever calls it.\<close>

theorem foreign_user_changes_nothing:
  shows "case rows_get (ve_rows ve) team_id (sm_store (se_manager se)) of
      Inr (Some row) \<Rightarrow> tr_user_id row \<noteq> user_id \<longrightarrow> service_perform ve up user_id team_id call se =
        Some (Inl (Forbidden (''team '' @ team_id @ '' is not owned by current user'')), se)
    | Inr None \<Rightarrow> service_perform ve up user_id team_id call se =
        (if call = SvcEnsureSession
         then and_then (others_run (ve_session ve)) (\<lambda>_. ensure_session_inner ve team_id) se
         else Some (Inl (TeamNotFound team_id), se))
    | Inl e \<Rightarrow> service_perform ve up user_id team_id call se =
        (if call = SvcEnsureSession
         then and_then (others_run (ve_session ve)) (\<lambda>_. ensure_session_inner ve team_id) se
         else Some (Inl (Database e), se))"
proof -
  let ?r = "rows_get (ve_rows ve) team_id (sm_store (se_manager se))"
  have refused: "service_perform ve up user_id team_id call se = Some (Inl err, se)"
    if err: "case ?r of Inl e \<Rightarrow> err = Database e | Inr None \<Rightarrow> err = TeamNotFound team_id
       | Inr (Some row) \<Rightarrow> tr_user_id row \<noteq> user_id \<and> err = Forbidden (''team '' @ team_id @ '' is not owned by current user'')"
      and call: "call \<noteq> SvcEnsureSession" for err
    using call by (cases call) (simp_all add: service_methods void_Inl load_refused [OF refl err] Let_def)
  show ?thesis
  proof (cases "call = SvcEnsureSession")
    case True
    then show ?thesis
      by (auto simp: ensure_session_def get_team_row_def attempt_def and_then_def split: sum.split option.split)
  next
    case False
    with refused show ?thesis by (simp split: sum.split option.split)
  qed
qed

abbreviation for_ports ::
  "((json_tree, unit, (json_tree, memory_state, nat, attach_signal list, conv_state) session) user_ports \<Rightarrow> bool) \<Rightarrow> bool" where
  "for_ports P \<equiv> \<forall>up. P up"

theorem foreign_user_changes_nothing_witness:
  "for_ports (\<lambda>up. service_perform demo_service up ''intruder'' ''t1'' SvcRemoveTeam demo_rowed =
     Some (Inl (Forbidden (''team '' @ ''t1'' @ '' is not owned by current user'')), demo_rowed))"
proof
  fix up :: "(json_tree, unit, (json_tree, memory_state, nat, attach_signal list, conv_state) session) user_ports"
  show "service_perform demo_service up ''intruder'' ''t1'' SvcRemoveTeam demo_rowed =
     Some (Inl (Forbidden (''team '' @ ''t1'' @ '' is not owned by current user'')), demo_rowed)"
    using foreign_user_changes_nothing [where ve = demo_service and team_id = "''t1''" and se = demo_rowed
      and user_id = "''intruder''" and up = up and call = SvcRemoveTeam]
    unfolding demo_row_read by (simp add: demo_row_fields)
qed

subsection \<open>An archived team\<close>

text \<open>The calls that are refused when the team is archived, and those that do nothing then.\<close>

definition refused_when_archived :: "service_call \<Rightarrow> bool" where
  "refused_when_archived call \<longleftrightarrow> (case call of
       SvcArchiveTeam \<Rightarrow> False | SvcRemoveTeam \<Rightarrow> False | SvcStopSession \<Rightarrow> False | SvcEnsureSession \<Rightarrow> False
     | SvcListGroup \<Rightarrow> False | SvcRunState \<Rightarrow> False | SvcGetTeam \<Rightarrow> False | SvcAddAgent _ \<Rightarrow> False
     | SvcConfigOptions _ \<Rightarrow> False | _ \<Rightarrow> True)"

lemma load_archived:
  assumes "rows_get (ve_rows ve) team_id (sm_store (se_manager se)) = Inr (Some row)" and "tr_user_id row = user_id"
    and "ve_agents_of ve (tr_agents row) = Inr agents" and "tr_archived_at row \<noteq> None"
  shows "load_owned_team ve user_id team_id se = Some (Inl (InvalidRequest (''team '' @ team_id @ '' is archived'')), se)"
    and "\<exists>team. load_owned_team_including_archived ve user_id team_id se = Some (Inr team, se) \<and> tm_archived_at team \<noteq> None"
  using assms by (simp_all add: load_owned_team_def load_owned_team_including_archived_def get_team_row_def ok_or_def
      team_of_row_def team_from_row_def)

text \<open>C28: An archived team is left asleep. For its owner, renaming it or an agent, removing an agent,
  sending a message (to the leader, to an agent, to the group), cancelling a run or a turn,
  pausing a slot, renewing the leases and setting the mode are refused with an error that says
  the team is archived, and nothing changes; starting its session answers that all is well and
  starts nothing, and archiving it again does nothing. The other methods are not refused:
  reading it, stopping its session, removing it, and adding an agent, which should be.\<close>

theorem archived_team_does_no_work:
  assumes "rows_get (ve_rows ve) team_id (sm_store (se_manager se)) = Inr (Some row)" and "tr_user_id row = user_id"
    and "ve_agents_of ve (tr_agents row) = Inr agents" and "tr_archived_at row \<noteq> None"
  shows "(refused_when_archived call \<longrightarrow> service_perform ve up user_id team_id call se =
      Some (Inl (InvalidRequest (''team '' @ team_id @ '' is archived'')), se)) \<and>
    (call \<in> {SvcEnsureSession, SvcArchiveTeam} \<longrightarrow> service_perform ve up user_id team_id call se = Some (Inr (), se))"
proof -
  obtain team where team: "load_owned_team_including_archived ve user_id team_id se = Some (Inr team, se)"
    "tm_archived_at team \<noteq> None"
    using load_archived(2) [OF assms] by blast
  show ?thesis
  proof (cases call)
    case SvcEnsureSession
    then show ?thesis
      using assms by (simp add: refused_when_archived_def ensure_session_def get_team_row_def attempt_def and_then_def)
  next
    case SvcArchiveTeam
    then show ?thesis using team by (simp add: refused_when_archived_def archive_team_def)
  qed (simp_all add: refused_when_archived_def service_methods void_Inl load_archived(1) [OF assms] Let_def)
qed

definition demo_archived :: "(json_tree, memory_state, nat, attach_signal list, conv_state) session" where
  "demo_archived = demo_start\<lparr>se_manager := (se_manager demo_start)\<lparr>sm_store :=
     memory_new\<lparr>ms_teams := [demo_row\<lparr>tr_archived_at := Some 7\<rparr>]\<rparr>\<rparr>\<rparr>"

theorem archived_team_does_no_work_witness:
  "for_ports (\<lambda>up. service_perform demo_service up ''u'' ''t1'' (SvcSend ''hello'' None) demo_archived =
     Some (Inl (InvalidRequest (''team '' @ ''t1'' @ '' is archived'')), demo_archived) \<and>
   service_perform demo_service up ''u'' ''t1'' SvcEnsureSession demo_archived = Some (Inr (), demo_archived))"
proof
  fix up :: "(json_tree, unit, (json_tree, memory_state, nat, attach_signal list, conv_state) session) user_ports"
  let ?row = "demo_row\<lparr>tr_archived_at := Some 7\<rparr>"
  have row: "rows_get (ve_rows demo_service) ''t1'' (sm_store (se_manager demo_archived)) = Inr (Some ?row)"
    by (simp add: demo_service_def memory_rows_def demo_archived_def mem_get_team_def demo_row_def)
  have agents: "ve_agents_of demo_service (tr_agents ?row) = Inr [demo_agent ''s1'' Lead, demo_agent ''s2'' Teammate]"
    using demo_row_fields(3) by simp
  show "service_perform demo_service up ''u'' ''t1'' (SvcSend ''hello'' None) demo_archived =
     Some (Inl (InvalidRequest (''team '' @ ''t1'' @ '' is archived'')), demo_archived) \<and>
   service_perform demo_service up ''u'' ''t1'' SvcEnsureSession demo_archived = Some (Inr (), demo_archived)"
    using archived_team_does_no_work [OF row _ agents, of "''u''" "SvcSend ''hello'' None" up]
      archived_team_does_no_work [OF row _ agents, of "''u''" SvcEnsureSession up]
    by (simp add: demo_row_fields refused_when_archived_def)
qed

subsection \<open>A message to the group\<close>

lemma retain_new_props: "distinct (retain_new seen xs) \<and> set (retain_new seen xs) = set xs - seen"
  by (induction xs arbitrary: seen) auto

lemma delivery_slot [simp]: "gd_slot_id (delivery_of slot_id r) = slot_id"
  by (simp add: delivery_of_def split: sum.split)

lemma delivery_says: "gd_delivered (delivery_of slot_id r) = (gd_ack (delivery_of slot_id r) \<noteq> None) \<and>
    gd_delivered (delivery_of slot_id r) = (gd_error (delivery_of slot_id r) = None)"
  by (simp add: delivery_of_def split: sum.split)

text \<open>The sends, one after the other, and what each was answered.\<close>

inductive sent_each ::
  "('j, 's, 'c, 'w, 'p) service_env \<Rightarrow> ident \<Rightarrow> ident \<Rightarrow> group_request \<Rightarrow> ident list \<Rightarrow> group_delivery list
     \<Rightarrow> ('j, 's, 'c, 'w, 'p) session \<Rightarrow> ('j, 's, 'c, 'w, 'p) session \<Rightarrow> bool"
  for ve user_id team_id request where
  sent_none: "sent_each ve user_id team_id request [] [] se se"
| sent_next: "service_send_group_to_agent ve user_id team_id slot_id (gq_content request) (gq_files request) se = Some (r, se1) \<Longrightarrow>
    sent_each ve user_id team_id request slot_ids deliveries se1 se2 \<Longrightarrow>
    sent_each ve user_id team_id request (slot_id # slot_ids) (delivery_of slot_id r # deliveries) se se2"

lemma delivered_each:
  "deliver_each ve user_id team_id request slots se = Some (Inr deliveries, se') \<Longrightarrow>
     sent_each ve user_id team_id request slots deliveries se se'"
  by (induction slots arbitrary: deliveries se) (auto simp: and_then_Some attempt_Some intro: sent_none sent_next)

lemma sent_slots: "sent_each ve user_id team_id request slots deliveries se se' \<Longrightarrow>
    map gd_slot_id deliveries = slots \<and> (\<forall>d \<in> set deliveries. \<exists>slot_id r. d = delivery_of slot_id r)"
  by (induction rule: sent_each.induct) auto

text \<open>The row of the message in the history.\<close>

definition group_row_kept ::
  "('j, 's, 'c, 'w, 'p) service_env \<Rightarrow> group_message \<Rightarrow> ('j, 's, 'c, 'w, 'p) session \<Rightarrow> ('j, 's, 'c, 'w, 'p) session \<Rightarrow> bool" where
  "group_row_kept ve gm se se' \<longleftrightarrow> (\<exists>summary files_text row.
     ve_metadata_to ve (metadata_of_message gm) = Inr summary \<and> files_json ve (gm_files gm) = Inr files_text \<and>
     mrepo_write (te_messages (en_team (ve_session ve))) (group_row gm summary files_text) (sm_store (se_manager se)) =
       (Inr row, sm_store (se_manager se')))"

text \<open>Its update with the deliveries, which may fail, and the second announcement.\<close>

definition group_row_updated ::
  "('j, 's, 'c, 'w, 'p) service_env \<Rightarrow> group_message \<Rightarrow> ('j, 's, 'c, 'w, 'p) session \<Rightarrow> ('j, 's, 'c, 'w, 'p) session \<Rightarrow> bool" where
  "group_row_updated ve gm se se' \<longleftrightarrow>
     sm_store (se_manager se') = (case ve_metadata_to ve (metadata_of_message gm) of
         Inr summary \<Rightarrow> snd (rows_update_summary (ve_rows ve) (gm_id gm) summary (sm_store (se_manager se)))
       | Inl _ \<Rightarrow> sm_store (se_manager se)) \<and>
     se_status_events se' = se_status_events se @ [EvGroupMessage gm]"

lemma persisted_message:
  "persist_group_message ve team_id kind sender name content files targets se = Some (Inr gm, se') \<Longrightarrow>
     gm_target_slot_ids gm = targets \<and> gm_content gm = content \<and> gm_kind gm = kind \<and> gm_deliveries gm = [] \<and>
     gm_files gm = files \<and> gm_team_id gm = team_id \<and>
     se_status_events se' = se_status_events se @ [EvGroupMessage gm] \<and> group_row_kept ve gm se se'"
  by (auto simp: persist_group_message_def group_row_kept_def Let_def and_then_Some draw_def emit_status_def on_store_def on_manager_def
      new_group_message_def split: prod.splits sum.splits)

lemma recorded_deliveries:
  "record_deliveries ve gm deliveries se = Some (Inr gm1, se') \<Longrightarrow>
     deliveries \<noteq> [] \<and> gm1 = gm\<lparr>gm_deliveries := map slim_group_delivery deliveries\<rparr> \<and> group_row_updated ve gm1 se se' \<or>
     deliveries = [] \<and> gm1 = gm"
  by (auto simp: record_deliveries_def group_row_updated_def Let_def act_cases emit_status_def on_store_def on_manager_def
      split: if_splits sum.splits prod.splits)

lemma slim_keeps: "gd_slot_id (slim_group_delivery d) = gd_slot_id d" "gd_ack (slim_group_delivery d) = None"
    "gd_delivered (slim_group_delivery d) = gd_delivered d"
  by (simp_all add: slim_group_delivery_def)

lemma load_owned_same: "load_owned_team ve user_id team_id se = Some (Inr team, se') \<Longrightarrow> se' = se"
  by (auto simp: load_owned_team_def load_owned_team_including_archived_def get_team_row_def team_of_row_def and_then_Some
      ok_or_Some split: if_splits)

text \<open>C25: A message to the group is kept in the history and tried once for each of its targets, in
  their order. The targets are the distinct ones that were asked for, blank ones left out; if
  there is none, the leader of the team, and a message that is only shared then has none. Each
  target is sent the message once, one after the other, whatever became of the one before; a
  message that is only shared is sent to nobody. The answer says for each target what its send
  was answered; the row of the message in the history is updated with that, without the full
  acknowledgements, and the message is announced again.\<close>

theorem group_message_tried_once_per_target:
  assumes "service_send_group_message ve user_id team_id request se = Some (Inr (gm, deliveries), se')"
  shows "\<exists>team gm0 se1. load_owned_team ve user_id team_id se = Some (Inr team, se) \<and>
    distinct (gm_target_slot_ids gm) \<and>
    (if requested_targets ve request = [] \<and> \<not> gq_share_only request
     then \<exists>leader. leader_of_team team = Some leader \<and> gm_target_slot_ids gm = [leader]
     else gm_target_slot_ids gm = requested_targets ve request) \<and>
    gm_kind gm = GroupUser \<and> gm_content gm = gq_content request \<and> gm_files gm = gq_files request \<and>
    gm = gm0\<lparr>gm_deliveries := map slim_group_delivery deliveries\<rparr> \<and> gm_deliveries gm0 = [] \<and>
    group_row_kept ve gm0 se se1 \<and> se_status_events se1 = se_status_events se @ [EvGroupMessage gm0] \<and>
    (if gq_share_only request then deliveries = [] \<and> se' = se1
     else \<exists>se2. sent_each ve user_id team_id request (gm_target_slot_ids gm) deliveries se1 se2 \<and>
            group_row_updated ve gm se2 se') \<and>
    (\<forall>d \<in> set deliveries. gd_delivered d = (gd_ack d \<noteq> None) \<and> gd_delivered d = (gd_error d = None))"
proof -
  obtain team targets gm0 se1 where load: "load_owned_team ve user_id team_id se = Some (Inr team, se)" and
    targets: "group_targets ve team request = Inr targets"
    and gm0: "persist_group_message ve team_id GroupUser None None (gq_content request) (gq_files request) targets se = Some (Inr gm0, se1)"
    and rest: "if gq_share_only request then gm = gm0 \<and> deliveries = [] \<and> se' = se1
      else \<exists>se2. deliver_each ve user_id team_id request targets se1 = Some (Inr deliveries, se2) \<and>
           record_deliveries ve gm0 deliveries se2 = Some (Inr gm, se')"
    using assms by (auto simp: service_send_group_message_def and_then_Some dest: load_owned_same split: if_splits)
  have shape: "if requested_targets ve request = [] \<and> \<not> gq_share_only request
     then \<exists>leader. leader_of_team team = Some leader \<and> targets = [leader] else targets = requested_targets ve request"
    using targets by (auto simp: group_targets_def Let_def split: if_splits option.splits)
  then have non_empty: "\<not> gq_share_only request \<Longrightarrow> targets \<noteq> []" by (auto split: if_splits)
  have distinct: "distinct targets"
    using shape retain_new_props by (auto simp: requested_targets_def split: if_splits)
  note gm0 = persisted_message [OF gm0]
  show ?thesis
  proof (cases "gq_share_only request")
    case True
    then have "gm = gm0" "deliveries = []" "se' = se1" using rest by auto
    with True gm0 have same: "gm = gm0\<lparr>gm_deliveries := map slim_group_delivery deliveries\<rparr>" by simp
    show ?thesis
      by (intro exI [of _ team] exI [of _ gm0] exI [of _ se1] conjI load same)
        (use True gm0 shape distinct \<open>gm = gm0\<close> \<open>deliveries = []\<close> \<open>se' = se1\<close> in simp_all)
  next
    case False
    then obtain se2 where each: "sent_each ve user_id team_id request targets deliveries se1 se2"
      and recorded: "record_deliveries ve gm0 deliveries se2 = Some (Inr gm, se')"
      using rest by (auto dest: delivered_each)
    note slots = sent_slots [OF each]
    then have "deliveries \<noteq> []" using non_empty [OF False] by auto
    then have gm: "gm = gm0\<lparr>gm_deliveries := map slim_group_delivery deliveries\<rparr>" and updated: "group_row_updated ve gm se2 se'"
      using recorded_deliveries [OF recorded] by auto
    have says: "\<forall>d \<in> set deliveries. gd_delivered d = (gd_ack d \<noteq> None) \<and> gd_delivered d = (gd_error d = None)"
    proof
      fix d assume "d \<in> set deliveries"
      then obtain slot_id r where "d = delivery_of slot_id r" using slots by blast
      then show "gd_delivered d = (gd_ack d \<noteq> None) \<and> gd_delivered d = (gd_error d = None)"
        using delivery_says [of slot_id r] by metis
    qed
    have "\<exists>se2. sent_each ve user_id team_id request (gm_target_slot_ids gm) deliveries se1 se2 \<and> group_row_updated ve gm se2 se'"
      using each updated gm gm0 by auto
    with False show ?thesis
      by (intro exI [of _ team] exI [of _ gm0] exI [of _ se1] conjI load gm says)
        (use gm gm0 shape distinct in simp_all)
  qed
qed

text \<open>A message to an agent that is not there, named twice.\<close>

definition demo_group_request :: group_request where
  "demo_group_request = \<lparr>gq_content = ''hello'', gq_files = None, gq_target_slot_ids = [''nobody'', ''nobody''], gq_share_only = False\<rparr>"

lemma demo_service_fields:
  "ve_session demo_service = demo_session_env" "ve_rows demo_service = memory_rows" "ve_metadata_to demo_service md = Inr ''metadata''"
  "en_team demo_session_env = demo_team_env" "te_messages demo_team_env = memory_messages"
  "uc_trim (te_unicode demo_team_env) s = s" "tr_id demo_row = ''t1''"
  "tr_lead_agent_id demo_row = Some ''s1''"
  by (simp_all add: demo_service_def demo_session_env_def demo_team_env_def demo_row_def)

definition demo_reads :: "(json_tree, memory_state, nat, attach_signal list, conv_state) session \<Rightarrow> bool" where
  "demo_reads se \<longleftrightarrow> mem_get_team ''t1'' (sm_store (se_manager se)) = Inr (Some demo_row)"

lemma demo_loads:
  assumes "demo_reads se"
  shows "\<exists>team. load_owned_team demo_service ''u'' ''t1'' se = Some (Inr team, se)"
    and "service_send_group_to_agent demo_service ''u'' ''t1'' ''nobody'' content files se = Some (Inl (AgentNotFound ''nobody''), se)"
  using assms
  by (simp_all add: load_owned_team_def load_owned_team_including_archived_def get_team_row_def demo_service_fields
      memory_rows_def demo_reads_def demo_row_fields team_of_row_def team_from_row_def ok_or_def
      service_send_group_to_agent_def ensure_agent_session_inner_def find_slot_def demo_agent_def)

lemma demo_persists:
  assumes "demo_reads se"
  shows "\<exists>gm se'. persist_group_message demo_service team_id kind sender name content None targets se = Some (Inr gm, se') \<and> demo_reads se'"
  using assms
  by (simp add: persist_group_message_def draw_def demo_service_fields files_json_def on_store_def on_manager_def memory_messages_def
      mem_write_message_def emit_status_def Let_def demo_reads_def mem_get_team_def)

lemma demo_records: "\<exists>gm1 se'. record_deliveries demo_service gm deliveries se = Some (Inr gm1, se')"
  by (cases "rows_update_summary memory_rows (gm_id gm) ''metadata'' (sm_store (se_manager se))")
    (auto simp: record_deliveries_def Let_def demo_service_fields ignoring_def attempt_def and_then_def on_store_def on_manager_def
      emit_status_def)

theorem group_message_tried_once_per_target_witness:
  "\<exists>gm d se'. service_send_group_message demo_service ''u'' ''t1'' demo_group_request demo_rowed = Some (Inr (gm, [d]), se') \<and>
     gm_target_slot_ids gm = [''nobody''] \<and> \<not> gd_delivered d"
proof -
  have targets: "group_targets demo_service team demo_group_request = Inr [''nobody'']" for team
    by (simp add: group_targets_def requested_targets_def demo_group_request_def demo_service_fields)
  have reads: "demo_reads demo_rowed" using demo_row_read by (simp add: demo_reads_def demo_service_fields memory_rows_def)
  obtain team where load: "load_owned_team demo_service ''u'' ''t1'' demo_rowed = Some (Inr team, demo_rowed)"
    using demo_loads(1) [OF reads] by blast
  obtain gm se1 where persist: "persist_group_message demo_service ''t1'' GroupUser None None (gq_content demo_group_request)
      (gq_files demo_group_request) [''nobody''] demo_rowed = Some (Inr gm, se1)" and se1: "demo_reads se1"
    using demo_persists [OF reads, of "''t1''" GroupUser None None "gq_content demo_group_request" "[''nobody'']"]
    by (auto simp: demo_group_request_def)
  let ?d = "delivery_of ''nobody'' (Inl (AgentNotFound ''nobody''))"
  have deliver: "deliver_each demo_service ''u'' ''t1'' demo_group_request [''nobody''] se1 = Some (Inr [?d], se1)"
    by (simp add: attempt_def demo_loads(2) [OF se1])
  obtain gm1 se2 where recorded: "record_deliveries demo_service gm [?d] se1 = Some (Inr gm1, se2)" using demo_records by blast
  have run: "service_send_group_message demo_service ''u'' ''t1'' demo_group_request demo_rowed = Some (Inr (gm1, [?d]), se2)"
    using load targets persist deliver recorded
    by (simp add: service_send_group_message_def and_then_def demo_group_request_def)
  have "requested_targets demo_service demo_group_request = [''nobody'']"
    by (simp add: requested_targets_def demo_group_request_def demo_service_fields)
  with group_message_tried_once_per_target [OF run] have "gm_target_slot_ids gm1 = [''nobody'']" by auto
  with run show ?thesis by (auto simp: delivery_of_def)
qed

subsection \<open>Idle teams\<close>

definition leased :: "timestamp \<Rightarrow> active_leases \<Rightarrow> ident \<Rightarrow> bool" where
  "leased now ls i \<longleftrightarrow> (\<exists>expires_at. hm_get (ls_leases ls) i = Some expires_at \<and> expires_at > now)"

lemma leased_drop: "snd (lease_active_until now i ls) = ls' \<Longrightarrow> leased now ls' j \<longleftrightarrow> leased now ls j"
  by (auto simp: lease_active_until_def leased_def map_simps split: option.splits if_splits)

lemma any_leased_iff: "fst (any_leased now is ls) \<longleftrightarrow> (\<exists>i \<in> set is. leased now ls i)"
proof (induction "is" arbitrary: ls)
  case (Cons i "is")
  obtain until ls1 where run: "lease_active_until now i ls = (until, ls1)" by fastforce
  have "fst (lease_active_until now i ls) = None \<longleftrightarrow> \<not> leased now ls i"
    by (auto simp: lease_active_until_def leased_def split: option.split)
  with run have "until = None \<longleftrightarrow> \<not> leased now ls i" by simp
  then show ?case using Cons.IH [of ls1] leased_drop [of now i ls ls1] run by (cases until) auto
qed simp

lemma stopped_session:
  "\<exists>se'. stop_session_unchecked ve team_id se = Some (Inr (), se') \<and> \<not> has_session team_id se' \<and> se_killed se' = se_killed se"
  by (cases "has_session team_id se")
    (simp_all add: stop_session_unchecked_def session_stop_def on_coord_def on_runtimes_def and_then_def when_so_def
      has_session_def split_beta)

lemma steps_run:
  "kill_and_wait i se = Some (Inr (), se\<lparr>se_killed := se_killed se @ [i]\<rparr>)"
  "draw se = Some (Inr (se_draws se), se\<lparr>se_draws := Suc (se_draws se)\<rparr>)"
  "session_agents se = Some (Inr (list_agents (se_manager se)), se)"
  "emit_status ev se = Some (Inr (), se\<lparr>se_status_events := se_status_events se @ [ev]\<rparr>)"
  by (simp_all add: kill_and_wait_def draw_def session_agents_def emit_status_def)

lemma others_run_Some: "others_run env se = Some (Inr (), en_others env (se_draws se) (se\<lparr>se_draws := Suc (se_draws se)\<rparr>))"
  by (simp add: others_run_def steps_run)

text \<open>Ending the processes of \<open>agents\<close>, one after the other, with others working after each.\<close>

inductive ended_each ::
  "('j, 's, 'c, 'w, 'p) session_env \<Rightarrow> team_agent list \<Rightarrow> ('j, 's, 'c, 'w, 'p) session \<Rightarrow> ('j, 's, 'c, 'w, 'p) session \<Rightarrow> bool"
  for env where
  ended_none: "ended_each env [] se se"
| ended_next: "others_run env (se\<lparr>se_killed := se_killed se @ [ta_conversation_id a]\<rparr>) = Some (Inr (), se1) \<Longrightarrow>
    ended_each env agents se1 se2 \<Longrightarrow> ended_each env (a # agents) se se2"

lemma killed_all:
  "\<exists>se'. run_all (\<lambda>a. and_then (kill_and_wait (ta_conversation_id a)) (\<lambda>_. others_run env)) agents se = Some (Inr (), se') \<and>
     ended_each env agents se se'"
proof (induction agents arbitrary: se)
  case Nil
  show ?case by (auto intro: ended_none)
next
  case (Cons a agents)
  let ?se = "se\<lparr>se_killed := se_killed se @ [ta_conversation_id a]\<rparr>"
  obtain se1 where se1: "others_run env ?se = Some (Inr (), se1)" using others_run_Some by blast
  obtain se' where "run_all (\<lambda>a. and_then (kill_and_wait (ta_conversation_id a)) (\<lambda>_. others_run env)) agents se1 = Some (Inr (), se')"
    "ended_each env agents se1 se'" using Cons.IH by blast
  moreover from se1 have "run_all (\<lambda>a. and_then (kill_and_wait (ta_conversation_id a)) (\<lambda>_. others_run env)) (a # agents) se =
      run_all (\<lambda>a. and_then (kill_and_wait (ta_conversation_id a)) (\<lambda>_. others_run env)) agents se1"
    by (simp add: and_then_def steps_run)
  ultimately show ?case using se1 by (metis ended_next)
qed

lemma ended_alone:
  assumes "ended_each env agents se se'" and "\<And>n s. se_killed (en_others env n s) = se_killed s"
    and "\<And>n s. has_session team_id (en_others env n s) \<Longrightarrow> has_session team_id s"
  shows "se_killed se' = se_killed se @ map ta_conversation_id agents \<and> (has_session team_id se' \<longrightarrow> has_session team_id se)"
  using assms(1)
proof (induction rule: ended_each.induct)
  case (ended_next se a se1 agents se2)
  let ?se = "se\<lparr>se_killed := se_killed se @ [ta_conversation_id a]\<rparr>"
  have se1: "se1 = en_others env (se_draws se) (?se\<lparr>se_draws := Suc (se_draws se)\<rparr>)"
    using ended_next.hyps(1) others_run_Some [of env ?se] by simp
  then have "se_killed se1 = se_killed se @ [ta_conversation_id a]" by (simp add: assms(2))
  moreover have "has_session team_id se" if "has_session team_id se1"
    using assms(3) [OF that [unfolded se1]] by (simp add: has_session_def)
  ultimately show ?case using ended_next.IH by auto
qed simp

lemma idle_team_stopped:
  "\<exists>se1 se'. stop_session_unchecked ve team_id (se\<lparr>se_status_events := se_status_events se @ [EvSessionStopped]\<rparr>) = Some (Inr (), se1) \<and>
     \<not> has_session team_id se1 \<and> se_killed se1 = se_killed se \<and> ended_each (ve_session ve) agents se1 se' \<and>
     stop_idle_team ve team_id agents se = Some (Inr (), se')"
proof -
  let ?se = "se\<lparr>se_status_events := se_status_events se @ [EvSessionStopped]\<rparr>"
  obtain se1 where stop: "stop_session_unchecked ve team_id ?se = Some (Inr (), se1)" "\<not> has_session team_id se1"
    "se_killed se1 = se_killed se"
    using stopped_session [of ve team_id ?se] by auto
  obtain se' where "run_all (\<lambda>a. and_then (kill_and_wait (ta_conversation_id a)) (\<lambda>_. others_run (ve_session ve))) agents se1 =
      Some (Inr (), se')" "ended_each (ve_session ve) agents se1 se'"
    using killed_all by blast
  moreover from this stop have "stop_idle_team ve team_id agents se = Some (Inr (), se')"
    unfolding stop_idle_team_def by (simp add: and_then_def steps_run)
  ultimately show ?thesis using stop by blast
qed

definition idle_at ::
  "(ident \<Rightarrow> idle_task option) \<Rightarrow> ident list \<Rightarrow> timestamp \<Rightarrow> timestamp \<Rightarrow> timestamp \<Rightarrow> active_leases
     \<Rightarrow> ('j, 's, 'c, 'w, 'p) session \<Rightarrow> bool" where
  "idle_at tasks idle_ids now now1 threshold ls se \<longleftrightarrow>
     (let agents = list_agents (se_manager se)
      in (\<exists>agent \<in> set agents. ta_conversation_id agent \<in> set idle_ids) \<and> current_active_run_id (snd (se_runs se)) = None \<and>
         (\<forall>agent \<in> set agents. \<not> leased now1 ls (ta_conversation_id agent) \<and>
            (\<forall>task. tasks (ta_conversation_id agent) = Some task \<longrightarrow> is_idle_collectable_team_member now threshold task)))"

lemma verdict_idle:
  assumes "\<exists>agent \<in> set (list_agents (se_manager se)). ta_conversation_id agent \<in> set idle_ids"
  shows "fst (idle_verdict tasks now now1 threshold ls se) \<longleftrightarrow> idle_at tasks idle_ids now now1 threshold ls se"
  using assms any_leased_iff [of now1 "map ta_conversation_id (list_agents (se_manager se))" ls]
  by (auto simp: idle_verdict_def idle_at_def Let_def list_all_iff split: if_splits prod.splits option.splits)

lemma collected_idle:
  assumes "has_session team_id se"
  shows "\<exists>rest ls'. collect_idle_team ve team_id tasks idle_ids threshold ls se =
    Some (Inr (if idle_at tasks idle_ids (en_clocks (ve_session ve) (se_draws se) 0) (en_clocks (ve_session ve) (se_draws se) 1)
        threshold ls se then Some (list_agents (se_manager se)) else None, rest, ls'), se\<lparr>se_draws := Suc (se_draws se)\<rparr>)"
proof -
  let ?n = "se_draws se" and ?clock = "en_clocks (ve_session ve)"
  let ?se = "se\<lparr>se_draws := Suc ?n\<rparr>"
  have running: "has_session team_id ?se" using assms by (simp add: has_session_def)
  show ?thesis
  proof (cases "\<exists>agent \<in> set (list_agents (se_manager se)). ta_conversation_id agent \<in> set idle_ids")
    case False
    then have "\<not> list_ex (\<lambda>a. ta_conversation_id a \<in> set idle_ids) (list_agents (se_manager se))"
      "\<not> idle_at tasks idle_ids (?clock ?n 0) (?clock ?n 1) threshold ls se"
      by (auto simp: list_ex_iff idle_at_def Let_def)
    then show ?thesis by (simp add: collect_idle_team_def steps_run)
  next
    case True
    then have "list_ex (\<lambda>a. ta_conversation_id a \<in> set idle_ids) (list_agents (se_manager se))" by (auto simp: list_ex_iff)
    moreover have "fst (idle_verdict tasks (?clock ?n 0) (?clock ?n 1) threshold ls ?se) \<longleftrightarrow>
        idle_at tasks idle_ids (?clock ?n 0) (?clock ?n 1) threshold ls se"
      using verdict_idle [of ?se] True by (simp add: idle_at_def)
    ultimately show ?thesis using running
      by (cases "idle_verdict tasks (?clock ?n 0) (?clock ?n 1) threshold ls ?se")
        (simp add: collect_idle_team_def steps_run)
  qed
qed

text \<open>C27: The clean-up of idle teams stops the session of a team only if, when it looked at it, one of
  its members' conversations was idle, no run was active, no member had a lease that had not
  expired, and every member's process, if there was one, had been waiting long enough; any
  other team it leaves as it is. It looks once: others work between that and the stop. Then the
  session that is published by that time is stopped, whatever it does by then, and the processes
  of those who were members when it looked are ended, one after the other. If others neither end
  processes nor publish the session again meanwhile, no session of the team is left and exactly
  those processes were ended.\<close>

theorem idle_cleanup_spares_working_teams:
  assumes "cleanup_idle_team ve team_id tasks idle_ids threshold ls se = Some (Inr (rest, ls'), se')"
    and "has_session team_id se"
  shows "if idle_ids \<noteq> [] \<and> idle_at tasks idle_ids (en_clocks (ve_session ve) (se_draws se) 0)
           (en_clocks (ve_session ve) (se_draws se) 1) threshold ls se
    then (\<exists>se1 se2. others_run (ve_session ve) (se\<lparr>se_draws := Suc (se_draws se)\<rparr>) = Some (Inr (), se1) \<and>
       stop_session_unchecked ve team_id (se1\<lparr>se_status_events := se_status_events se1 @ [EvSessionStopped]\<rparr>) = Some (Inr (), se2) \<and>
       \<not> has_session team_id se2 \<and> ended_each (ve_session ve) (list_agents (se_manager se)) se2 se') \<and>
      ((\<forall>n s. se_killed (en_others (ve_session ve) n s) = se_killed s \<and>
            (has_session team_id (en_others (ve_session ve) n s) \<longrightarrow> has_session team_id s)) \<longrightarrow>
         \<not> has_session team_id se' \<and> se_killed se' = se_killed se @ map ta_conversation_id (list_agents (se_manager se)))
    else se' = se\<lparr>se_draws := se_draws se'\<rparr>"
proof -
  let ?idle = "idle_at tasks idle_ids (en_clocks (ve_session ve) (se_draws se) 0)
      (en_clocks (ve_session ve) (se_draws se) 1) threshold ls se" and ?agents = "list_agents (se_manager se)"
  let ?se = "se\<lparr>se_draws := Suc (se_draws se)\<rparr>"
  obtain rest0 ls0 where collect: "collect_idle_team ve team_id tasks idle_ids threshold ls se =
      Some (Inr (if ?idle then Some ?agents else None, rest0, ls0), ?se)"
    using collected_idle [OF assms(2)] by blast
  show ?thesis
  proof (cases "idle_ids \<noteq> [] \<and> ?idle")
    case False
    have "se' = se \<or> se' = ?se"
    proof (cases "idle_ids = []")
      case True
      with assms(1) show ?thesis by (simp add: cleanup_idle_team_def)
    next
      case some: False
      with False collect have "collect_idle_team ve team_id tasks idle_ids threshold ls se = Some (Inr (None, rest0, ls0), ?se)"
        by auto
      with some have "cleanup_idle_team ve team_id tasks idle_ids threshold ls se = Some (Inr (rest0, ls0), ?se)"
        by (simp add: cleanup_idle_team_def)
      with assms(1) show ?thesis by simp
    qed
    then have "se' = se\<lparr>se_draws := se_draws se'\<rparr>" by auto
    with False show ?thesis by (simp only: if_False)
  next
    case True
    obtain se1 where others: "others_run (ve_session ve) ?se = Some (Inr (), se1)" using others_run_Some by blast
    obtain se2 se3 where stop: "stop_session_unchecked ve team_id (se1\<lparr>se_status_events := se_status_events se1 @ [EvSessionStopped]\<rparr>) =
        Some (Inr (), se2)" "\<not> has_session team_id se2" "se_killed se2 = se_killed se1"
      and ended: "ended_each (ve_session ve) ?agents se2 se3" and run: "stop_idle_team ve team_id ?agents se1 = Some (Inr (), se3)"
      using idle_team_stopped by blast
    have same: "se' = se3" using assms(1) True collect others run by (simp add: cleanup_idle_team_def)
    have alone: "\<not> has_session team_id se' \<and> se_killed se' = se_killed se @ map ta_conversation_id ?agents"
      if quiet: "\<forall>n s. se_killed (en_others (ve_session ve) n s) = se_killed s \<and>
            (has_session team_id (en_others (ve_session ve) n s) \<longrightarrow> has_session team_id s)"
    proof -
      have "se1 = en_others (ve_session ve) (Suc (se_draws se)) (?se\<lparr>se_draws := Suc (Suc (se_draws se))\<rparr>)"
        using others others_run_Some [of "ve_session ve" ?se] by simp
      then have "se_killed se1 = se_killed se" by (simp add: quiet)
      then show ?thesis
        using ended_alone [OF ended, of team_id] quiet stop(2,3) same by auto
    qed
    have stopped: "\<exists>se1 se2. others_run (ve_session ve) ?se = Some (Inr (), se1) \<and>
       stop_session_unchecked ve team_id (se1\<lparr>se_status_events := se_status_events se1 @ [EvSessionStopped]\<rparr>) = Some (Inr (), se2) \<and>
       \<not> has_session team_id se2 \<and> ended_each (ve_session ve) ?agents se2 se'"
      using others stop(1,2) ended unfolding same by blast
    show ?thesis
      unfolding if_P [OF True] using stopped alone by blast
  qed
qed

theorem idle_cleanup_spares_working_teams_witness:
  "\<exists>rest ls' se'. cleanup_idle_team demo_service ''t1'' (\<lambda>_. None) [''s1'', ''x''] 1000 leases_new (demo_start\<lparr>se_published := True\<rparr>) =
       Some (Inr (rest, ls'), se') \<and> \<not> has_session ''t1'' se' \<and> se_killed se' = [''s1'', ''s2'']"
proof -
  let ?se = "demo_start\<lparr>se_published := True\<rparr>"
  have agents: "list_agents (se_manager ?se) =
      map (\<lambda>a. a\<lparr>ta_status := Some StIdle\<rparr>) [demo_agent ''s1'' Lead, demo_agent ''s2'' Teammate]"
    by (simp add: demo_start_def session_start_def team_manager_new_def list_agents_def demo_agent_def)
  have session: "has_session ''t1'' ?se"
    by (simp add: has_session_def demo_start_def session_start_def team_manager_new_def)
  have idle: "idle_at (\<lambda>_. None) [''s1'', ''x''] now now1 1000 leases_new ?se" for now now1
    unfolding idle_at_def Let_def agents
    by (simp add: demo_agent_def leased_def leases_new_def demo_start_def session_start_def team_run_manager_new_def
        current_active_run_id_def)
  obtain rest0 ls0 where collect: "collect_idle_team demo_service ''t1'' (\<lambda>_. None) [''s1'', ''x''] 1000 leases_new ?se =
      Some (Inr (Some (list_agents (se_manager ?se)), rest0, ls0), ?se\<lparr>se_draws := Suc (se_draws ?se)\<rparr>)"
    using collected_idle [OF session, of demo_service "\<lambda>_. None" "[''s1'', ''x'']" 1000 leases_new] idle by auto
  obtain se2 where others: "others_run (ve_session demo_service) (?se\<lparr>se_draws := Suc (se_draws ?se)\<rparr>) = Some (Inr (), se2)"
    using others_run_Some by blast
  obtain se3 where stop: "stop_idle_team demo_service ''t1'' (list_agents (se_manager ?se)) se2 = Some (Inr (), se3)"
    using idle_team_stopped by blast
  have "and_then (others_run (ve_session demo_service)) (\<lambda>_. stop_idle_team demo_service ''t1'' (list_agents (se_manager ?se)))
      (?se\<lparr>se_draws := Suc (se_draws ?se)\<rparr>) = Some (Inr (), se3)"
    using others stop by (simp only: and_then_simps(1))
  with collect obtain rest ls' se' where run: "cleanup_idle_team demo_service ''t1'' (\<lambda>_. None) [''s1'', ''x''] 1000 leases_new ?se =
      Some (Inr (rest, ls'), se')"
    by (simp add: cleanup_idle_team_def)
  have "\<forall>n s. se_killed (en_others (ve_session demo_service) n s) = se_killed s \<and>
      (has_session ''t1'' (en_others (ve_session demo_service) n s) \<longrightarrow> has_session ''t1'' s)"
    by (simp add: demo_service_fields demo_session_env_def)
  with idle_cleanup_spares_working_teams [OF run session] idle
  have "\<not> has_session ''t1'' se'" "se_killed se' = se_killed ?se @ map ta_conversation_id (list_agents (se_manager ?se))"
    by simp_all
  moreover have "se_killed ?se = []" by (simp add: demo_start_def session_start_def)
  ultimately have "\<not> has_session ''t1'' se' \<and> se_killed se' = [''s1'', ''s2'']"
    unfolding agents by (simp add: demo_agent_def)
  with run show ?thesis by blast
qed

subsection \<open>A removal that cannot be recorded\<close>

lemma refresh_keeps:
  "\<exists>se'. service_refresh_status ve team_id se = Some (Inr (), se') \<and> se_runtimes se' = se_runtimes se \<and> se_manager se' = se_manager se"
  by (simp add: service_refresh_status_def refresh_member_runtime_status_def and_then_def emit_status_def when_so_def
      split: option.split prod.split)

lemma removal_begun:
  assumes "begin_remove tk slot_id reg = (RemoveStart lease, reg1)"
  shows "restore_attach_required tk lease failure reg1 = (True, snd (restore_attach_required tk lease failure reg1)) \<and>
    member_snapshot_of slot_id (snd (restore_attach_required tk lease failure reg1)) = SnapFailed (rl_operation_id lease) failure"
  using assms
  by (auto simp: begin_remove_def restore_attach_required_def member_snapshot_of_def Let_def map_simps registry_next_operation_id_def
      split: if_splits option.splits prod.splits member_entry.splits)

text \<open>C26: When the row of the team cannot be written, removing an agent fails with the error of the
  database, the agent stays in the team and in its session, and its runtime is left as failed,
  to be attached again, and not as being removed.\<close>

theorem failed_removal_can_be_repaired:
  assumes "rows_get (ve_rows ve) team_id (sm_store (se_manager se)) = Inr (Some row)" and "tr_user_id row = user_id"
    and "tr_archived_at row = None" and "ve_agents_of ve (tr_agents row) = Inr agents"
    and "find_slot slot_id agents = Some removed" and "ta_role removed = Teammate"
    and "has_session team_id se" and "begin_remove (en_watch (ve_session ve)) slot_id (se_runtimes se) = (RemoveStart lease, reg)"
    and "\<And>as. \<exists>text. ve_agents_to ve as = Inr text"
    and "\<And>now params st. rows_update (ve_rows ve) now team_id params st = (Inl e, st)"
  shows "\<exists>se'. service_remove_agent ve user_id team_id slot_id se = Some (Inl (Database e), se') \<and>
    se_manager se' = se_manager se \<and>
    member_snapshot_of slot_id (se_runtimes se') = SnapFailed (rl_operation_id lease) membership_persist_failed"
proof -
  have slot: "ta_slot_id removed = slot_id" using assms(5) by (auto simp: find_slot_def find_Some_iff)
  have load: "\<exists>team. load_owned_team ve user_id team_id s = Some (Inr team, s) \<and> tm_agents team = agents"
    if "se_manager s = se_manager se" for s
    using assms(1-4) that by (simp add: load_owned_team_def load_owned_team_including_archived_def get_team_row_def ok_or_def
        team_of_row_def team_from_row_def)
  let ?tk = "en_watch (ve_session ve)"
  let ?se1 = "se\<lparr>se_runtimes := reg, se_loops := loops_remove slot_id (se_loops se),
      se_killed := se_killed se @ [ta_conversation_id removed]\<rparr>"
  let ?se2 = "?se1\<lparr>se_draws := Suc (se_draws se)\<rparr>"
  let ?se3 = "?se2\<lparr>se_runtimes := snd (restore_attach_required ?tk lease membership_persist_failed reg)\<rparr>"
  note begun = removal_begun [OF assms(8), of membership_persist_failed]
  obtain se4 where refreshed: "service_refresh_status ve team_id ?se3 = Some (Inr (), se4)"
    "se_runtimes se4 = se_runtimes ?se3" "se_manager se4 = se_manager ?se3"
    using refresh_keeps by blast
  obtain json where json: "ve_agents_to ve (filter (\<lambda>a. ta_slot_id a \<noteq> slot_id) agents) = Inr json" using assms(9) by blast
  obtain current where current: "load_owned_team ve user_id team_id ?se1 = Some (Inr current, ?se1)" "tm_agents current = agents"
    using load [of ?se1] by auto
  have updated: "update_team ve team_id params ?se1 = Some (Inl (Database e), ?se2)" for params
    using assms(10) by (simp add: update_team_def steps_run on_store_def on_manager_def)
  have restore: "on_runtimes (restore_attach_required ?tk lease membership_persist_failed) ?se2 = Some (Inr True, ?se3)"
    using begun by (cases "restore_attach_required ?tk lease membership_persist_failed reg") (auto simp: on_runtimes_def)
  have persist: "persist_removal ve user_id team_id slot_id True (Some lease) ?se1 = Some (Inl (Database e), se4)"
    using current json updated restore refreshed(1)
    by (simp add: persist_removal_def on_error_def attempt_def and_then_def when_so_def)
  obtain team where team: "load_owned_team ve user_id team_id se = Some (Inr team, se)" "tm_agents team = agents"
    using load [of se] by auto
  have begun1: "on_runtimes (begin_remove ?tk slot_id) se = Some (Inr (RemoveStart lease), se\<lparr>se_runtimes := reg\<rparr>)"
    using assms(8) by (simp add: on_runtimes_def)
  have "service_remove_agent ve user_id team_id slot_id se = Some (Inl (Database e), se4)"
    using team assms(5-7) begun1 persist slot
    by (simp add: service_remove_agent_def ok_or_def finish_removal_def when_so_def steps_run)
  then show ?thesis using refreshed(2,3) begun by simp
qed

definition demo_broken :: "(json_tree, memory_state, nat, attach_signal list, conv_state) service_env" where
  "demo_broken = demo_service\<lparr>ve_rows := memory_rows\<lparr>rows_update := (\<lambda>_ _ _ st. (Inl (Query ''disk''), st))\<rparr>\<rparr>"

definition demo_served :: "(json_tree, memory_state, nat, attach_signal list, conv_state) session" where
  "demo_served = demo_rowed\<lparr>se_published := True, se_runtimes := snd (seed_ready ''s2'' (se_runtimes demo_rowed))\<rparr>"

theorem failed_removal_can_be_repaired_witness:
  "\<exists>op se'. service_remove_agent demo_broken ''u'' ''t1'' ''s2'' demo_served = Some (Inl (Database (Query ''disk'')), se') \<and>
     member_snapshot_of ''s2'' (se_runtimes se') = SnapFailed op membership_persist_failed"
proof -
  have row: "rows_get (ve_rows demo_broken) ''t1'' (sm_store (se_manager demo_served)) = Inr (Some demo_row)"
    using demo_row_read by (simp add: demo_broken_def demo_served_def demo_service_fields memory_rows_def)
  have agents: "ve_agents_of demo_broken (tr_agents demo_row) = Inr [demo_agent ''s1'' Lead, demo_agent ''s2'' Teammate]"
    using demo_row_fields(3) by (simp add: demo_broken_def)
  have slot: "find_slot ''s2'' [demo_agent ''s1'' Lead, demo_agent ''s2'' Teammate] = Some (demo_agent ''s2'' Teammate)"
    by (simp add: find_slot_def demo_agent_def)
  have session: "has_session ''t1'' demo_served"
    by (simp add: has_session_def demo_served_def demo_rowed_def demo_start_def session_start_def team_manager_new_def)
  have "\<exists>lease reg. begin_remove (en_watch (ve_session demo_broken)) ''s2'' (se_runtimes demo_served) = (RemoveStart lease, reg)"
    by (simp add: begin_remove_def demo_served_def demo_rowed_def demo_start_def session_start_def registry_new_def seed_ready_def
        Let_def map_simps split_beta)
  then obtain lease reg where
    "begin_remove (en_watch (ve_session demo_broken)) ''s2'' (se_runtimes demo_served) = (RemoveStart lease, reg)" by blast
  from failed_removal_can_be_repaired [OF row _ _ agents slot _ session this, of "''u''" "Query ''disk''"]
  show ?thesis by (auto simp: demo_row_fields demo_agent_def demo_broken_def demo_service_def)
qed

end
