(* ===== verification/Provision_Claims.thy ===== *)
theory Provision_Claims
  imports Team_Creation
begin

text \<open>
  What the provisioner achieves in the application (crates/team/src/provisioning.rs with
  crates/app/src/adapters.rs): who is in a new team, that each member has a conversation of its
  own which says whose it is, and where new members work.
\<close>

subsection \<open>Hypotheses on the libraries\<close>

text \<open>\<open>serde_json\<close> reads back what it has written, and an object has the entries it was made of, in
  some order; trimming does not take a letter away.\<close>

definition speaks_json :: "'j tool_json \<Rightarrow> bool" where
  "speaks_json tj \<longleftrightarrow>
     value_laws (tj_values tj) \<and> (\<forall>v. tj_from_str tj (tj_to_string tj v) = Inr v) \<and>
     (\<forall>kvs. distinct (map fst kvs) \<longrightarrow>
        (\<exists>read. jv_as_object (tj_values tj) (jv_obj (tj_values tj) kvs) = Some read \<and> distinct (map fst read) \<and>
           map_of read = map_of kvs))"

definition keeps_letters :: "unicode_ops \<Rightarrow> bool" where
  "keeps_letters uc \<longleftrightarrow> (\<forall>a b c. 97 \<le> (of_char c :: nat) \<and> (of_char c :: nat) \<le> 122 \<longrightarrow> uc_trim uc (a @ c # b) \<noteq> [])"

lemma letter_kept: "keeps_letters uc \<Longrightarrow> 97 \<le> (of_char c :: nat) \<Longrightarrow> (of_char c :: nat) \<le> 122 \<Longrightarrow> uc_trim uc (a @ c # b) \<noteq> []"
  by (simp add: keeps_letters_def)

text \<open>An instance: values that are their own texts, objects as lists of names and values.\<close>

fun pairs_of :: "string list \<Rightarrow> (string \<times> string) list" where
  "pairs_of (k # v # xs) = (k, v) # pairs_of xs"
| "pairs_of _ = []"

definition flat :: "(string \<times> string) list \<Rightarrow> string list" where
  "flat kvs = concat (map (\<lambda>(k, v). [k, v]) kvs)"

lemma pairs_of_flat: "pairs_of (flat kvs) = kvs"
  by (induction kvs) (auto simp: flat_def)

definition texts :: "string list \<Rightarrow> string" where
  "texts xs = (case js_strings_to demo_json xs of Inr s \<Rightarrow> s | Inl _ \<Rightarrow> [])"

definition texts_of :: "string \<Rightarrow> string list" where
  "texts_of s = (case js_strings_of demo_json s of Inr xs \<Rightarrow> xs | Inl _ \<Rightarrow> [])"

lemma texts_of_texts: "texts_of (texts xs) = xs"
  by (simp add: texts_of_def texts_def demo_json_def demo_dec_items)

fun text_view :: "string \<Rightarrow> string json_view" where
  "text_view [] = VNull"
| "text_view (c # s) =
     (if c = CHR ''s'' then VStr s else if c = CHR ''o'' then VObj (pairs_of (texts_of s))
      else if c = CHR ''a'' then VArr (texts_of s) else if c = CHR ''t'' then VBool True
      else if c = CHR ''f'' then VBool False else VNull)"

definition text_json :: "string tool_json" where
  "text_json =
     \<lparr>tj_values =
        \<lparr>jv_null = ''n'', jv_bool = (\<lambda>b. if b then ''t'' else ''f''), jv_int = (\<lambda>_. ''i''), jv_str = (\<lambda>s. CHR ''s'' # s),
         jv_arr = (\<lambda>xs. CHR ''a'' # texts xs), jv_obj = (\<lambda>kvs. CHR ''o'' # texts (flat kvs)),
         jv_get = (\<lambda>k v. case text_view v of VObj kvs \<Rightarrow> map_of kvs k | _ \<Rightarrow> None),
         jv_as_str = (\<lambda>v. case text_view v of VStr s \<Rightarrow> Some s | _ \<Rightarrow> None),
         jv_as_object = (\<lambda>v. case text_view v of VObj kvs \<Rightarrow> Some kvs | _ \<Rightarrow> None)\<rparr>,
      tj_view = text_view, tj_to_string = (\<lambda>v. v), tj_pretty = Inr, tj_from_str = Inr,
      tj_de_error = (\<lambda>name v. name @ '' expected'')\<rparr>"

lemma text_json_speaks: "speaks_json text_json"
  by (simp add: speaks_json_def value_laws_def text_json_def texts_of_texts pairs_of_flat)

subsection \<open>The extra data of a conversation\<close>

lemma map_of_put [simp]: "map_of (put k v kvs) = (map_of kvs)(k \<mapsto> v)"
  by (simp add: put_def update_conv')

lemma distinct_put [simp]: "distinct (map fst kvs) \<Longrightarrow> distinct (map fst (put k v kvs))"
  by (simp add: put_def distinct_update)

text \<open>The names an agent is found under, and no other name of a team.\<close>

definition says :: "'j value_ops \<Rightarrow> new_agent \<Rightarrow> 'j entries \<Rightarrow> bool" where
  "says vo na extra \<longleftrightarrow>
     distinct (map fst extra) \<and> map_of extra ''teamId'' = Some (jv_str vo (na_team_id na)) \<and>
     map_of extra ''slot_id'' = Some (jv_str vo (na_slot_id na)) \<and>
     map_of extra ''role'' = Some (jv_str vo (role_display (na_role na))) \<and>
     map_of extra ''team_mcp_stdio_config'' = None \<and> map_of extra ''team_id'' = None"

lemma says_put [simp]:
  "says vo na extra \<Longrightarrow> k \<notin> {''teamId'', ''slot_id'', ''role'', ''team_mcp_stdio_config'', ''team_id''} \<Longrightarrow> says vo na (put k v extra)"
  by (auto simp: says_def)

lemma build_team_extra_says:
  "says vo na (build_team_extra uc vo (na_team_id na) (na_slot_id na) (na_role na) backend model assistant_id workspace
     t metadata session_mode)"
proof -
  have "says vo na
     [(''teamId'', jv_str vo (na_team_id na)), (''slot_id'', jv_str vo (na_slot_id na)),
      (''role'', jv_str vo (role_display (na_role na))), (''backend'', b), (''session_mode'', m)]" for b m
    by (simp add: says_def)
  then show ?thesis by (simp add: build_team_extra_def inherit_team_workspace_def Let_def split: option.split)
qed

lemma conversation_extra_says: "says (pv_values pv) na (conversation_extra pv na t metadata)"
  by (simp add: conversation_extra_def route_to_claude_def Let_def build_team_extra_says)

lemma stored_extra_says:
  "says (tj_values (we_json we)) na (qc_extra request) \<Longrightarrow> says (tj_values (we_json we)) na (stored_extra we workspace request)"
  by (simp add: stored_extra_def Let_def split: option.split)

text \<open>The conversation \<open>row\<close> is the user's and says that it is agent \<open>a\<close>'s, of this team.\<close>

definition binds ::
  "'j world_env \<Rightarrow> ('j \<Rightarrow> string + 'm) \<Rightarrow> ident \<Rightarrow> ident \<Rightarrow> conversation_row \<Rightarrow> team_agent \<Rightarrow> bool" where
  "binds we mcp_of user_id team_id row a \<longleftrightarrow>
     cv_id row = ta_conversation_id a \<and> cv_user_id row = user_id \<and>
     (\<exists>b. binding_from_extra_str (we_unicode we) (we_json we) mcp_of (cv_extra row) = Inr (Some b) \<and>
        sb_team_id b = team_id \<and> sb_slot_id b = Some (ta_slot_id a) \<and> sb_role b = Some (role_display (ta_role a)) \<and>
        sb_mcp b = None)"

text \<open>What the look-up by conversation finds: the slot, but no team.\<close>

definition looked_up :: "'j world_env \<Rightarrow> ident \<Rightarrow> conversation_row \<Rightarrow> team_agent \<Rightarrow> bool" where
  "looked_up we user_id row a \<longleftrightarrow>
     binding_lookup_of we row =
       \<lparr>bl_conversation_id = ta_conversation_id a, bl_user_id = user_id, bl_team_id = None,
        bl_slot_id = Some (ta_slot_id a), bl_role = Some (role_display (ta_role a))\<rparr>"

definition belongs ::
  "'j world_env \<Rightarrow> ('j \<Rightarrow> string + 'm) \<Rightarrow> ident \<Rightarrow> ident \<Rightarrow> conversation_row \<Rightarrow> team_agent \<Rightarrow> bool" where
  "belongs we mcp_of user_id team_id row a \<longleftrightarrow> binds we mcp_of user_id team_id row a \<and> looked_up we user_id row a"

lemma role_nonblank: "keeps_letters uc \<Longrightarrow> uc_trim uc (role_display role) \<noteq> []"
  using letter_kept [of uc "CHR ''l''" "[]" "''ead''"] letter_kept [of uc "CHR ''t''" "[]" "''eammate''"] by (cases role) simp_all

lemma row_binds:
  assumes json: "speaks_json (we_json we)" and letters: "keeps_letters (we_unicode we)"
    and ids: "uc_trim (we_unicode we) (na_team_id na) \<noteq> []" "uc_trim (we_unicode we) (na_slot_id na) \<noteq> []"
    and says: "says (tj_values (we_json we)) na (qc_extra request)" and "qc_user_id request = na_user_id na"
  shows "belongs we mcp_of (na_user_id na) (na_team_id na) (conversation_row_of we i workspace t1 t2 request)
    (provisioned_agent na \<lparr>nc_conversation_id = i, nc_workspace = w\<rparr>)"
proof -
  let ?vo = "tj_values (we_json we)" and ?extra = "stored_extra we workspace request"
  have laws: "value_laws ?vo" and reads: "\<And>v. tj_from_str (we_json we) (tj_to_string (we_json we) v) = Inr v"
    using json by (simp_all add: speaks_json_def)
  have extra: "says ?vo na ?extra" using says by (rule stored_extra_says)
  then have get: "jv_get ?vo k (jv_obj ?vo ?extra) = map_of ?extra k" for k by (simp add: value_get [OF laws] says_def)
  note facts = extra [unfolded says_def] get value_str [OF laws]
  show ?thesis
    using assms(6) ids role_nonblank [OF letters]
    by (simp add: belongs_def binds_def looked_up_def conversation_row_of_def provisioned_agent_def binding_from_extra_str_def entries_text_def reads
        binding_from_extra_value_def extra_string_field_def binding_lookup_of_def extra_of_def value_string_def
        facts Let_def)
qed


subsection \<open>One conversation\<close>

abbreviation conversations :: "world \<Rightarrow> conversation_row list" where
  "conversations w \<equiv> cs_conversations (wo_conversations w)"

lemma world_fields [simp]:
  "pv_json (world_provision we) = we_json we" "pv_unicode (world_provision we) = we_unicode we"
  "pv_new_id (world_provision we) = draw_id we"
  "pv_create_conversation (world_provision we) = create_team_conversation we"
  by (simp_all add: world_provision_def)

lemma metadata_read: "acp_backend_metadata pv backend st = Some (r, st') \<Longrightarrow> st' = st"
  by (auto simp: acp_backend_metadata_def act_cases)

lemma type_read: "runtime_agent_type pv backend metadata st = Some (r, st') \<Longrightarrow> st' = st"
  by (auto simp: runtime_agent_type_def split: if_splits)

lemma backend_read: "resolve_requested_backend pv requested assistant_id st = Some (r, st') \<Longrightarrow> st' = st"
  by (auto simp: resolve_requested_backend_def resolve_team_selectable_assistant_def act_cases split: option.splits)

lemma conversation_created:
  assumes "create_team_conversation we request w = Some (Inr created, w')"
  shows "\<exists>t1 t2. nc_workspace created = chosen_workspace we (nc_conversation_id created) (qc_extra request) \<and>
    nc_conversation_id created = we_ids we (wo_draws w) \<and>
    nc_conversation_id created \<notin> cv_id ` set (conversations w) \<and>
    conversations w' = conversations w @ [conversation_row_of we (nc_conversation_id created) (nc_workspace created) t1 t2 request]"
  using assms
  by (auto simp: create_team_conversation_def act_cases draw_id_def now_ms_def on_conversations_def conv_create_def
      conversation_row_of_def list_ex_iff Let_def split: if_splits)

lemma agent_conversation:
  assumes "create_team_conversation_for_agent (world_provision we) na w = Some (Inr created, w')"
  shows "\<exists>request t1 t2. nc_workspace created = chosen_workspace we (nc_conversation_id created) (qc_extra request) \<and>
    says (tj_values (we_json we)) na (qc_extra request) \<and> qc_user_id request = na_user_id na \<and>
    nc_conversation_id created = we_ids we (wo_draws w) \<and>
    nc_conversation_id created \<notin> cv_id ` set (conversations w) \<and>
    conversations w' = conversations w @ [conversation_row_of we (nc_conversation_id created) (nc_workspace created) t1 t2 request]"
proof -
  obtain metadata t where made: "create_team_conversation we (conversation_request_of (world_provision we) na t metadata) w =
      Some (Inr created, w')"
    using assms by (auto simp: create_team_conversation_for_agent_def act_cases dest!: metadata_read type_read)
  let ?request = "conversation_request_of (world_provision we) na t metadata"
  have "says (tj_values (we_json we)) na (qc_extra ?request)" and "qc_user_id ?request = na_user_id na"
    using conversation_extra_says [of "world_provision we" na t metadata] by (simp_all add: conversation_request_of_def)
  with conversation_created [OF made] show ?thesis by blast
qed


subsection \<open>The members of a new team\<close>

definition world_ok :: "'j world_env \<Rightarrow> ident \<Rightarrow> bool" where
  "world_ok we team_id \<longleftrightarrow>
     speaks_json (we_json we) \<and> keeps_letters (we_unicode we) \<and> uc_trim (we_unicode we) team_id \<noteq> [] \<and>
     (\<forall>n. uc_trim (we_unicode we) (we_ids we n) \<noteq> [])"

lemma joined_end: "\<exists>pre. path_join base part = pre @ part"
  by (auto simp: path_join_def)

lemma workspace_nonblank:
  assumes "keeps_letters (we_unicode we)"
  shows "uc_trim (we_unicode we) (chosen_workspace we i extra) \<noteq> []"
proof -
  obtain pre where "path_join (path_join (we_workspace_root we) ''conversations'') (''acp-temp-'' @ i) = pre @ ''acp-temp-'' @ i"
    using joined_end by blast
  then have "uc_trim (we_unicode we) (path_join (path_join (we_workspace_root we) ''conversations'') (''acp-temp-'' @ i)) \<noteq> []"
    using letter_kept [OF assms, of "CHR ''a''" pre "''cp-temp-'' @ i"] by simp
  then show ?thesis by (auto simp: chosen_workspace_def Let_def split: option.split)
qed

lemma input_provisioned:
  assumes ok: "world_ok we team_id"
    and run: "provision_input (world_provision we) user_id team_id workspace (input, role) w = Some (Inr (a, created), w')"
  shows "\<exists>row. conversations w' = conversations w @ [row] \<and> cv_id row \<notin> cv_id ` set (conversations w) \<and>
    belongs we mcp_of user_id team_id row a \<and> ta_role a = role \<and> ta_name a = ai_name input \<and>
    uc_trim (we_unicode we) (nc_workspace created) \<noteq> []"
proof -
  let ?na = "\<lambda>backend. \<lparr>na_user_id = user_id, na_team_id = team_id, na_slot_id = we_ids we (wo_draws w),
      na_name = ai_name input, na_role = role, na_backend = backend, na_model = ai_model input,
      na_assistant_id = nonblank (we_unicode we) (ai_assistant_id input), na_workspace = workspace, na_session_mode = None\<rparr>"
  obtain backend where
      "create_team_conversation_for_agent (world_provision we) (?na backend) (w\<lparr>wo_draws := Suc (wo_draws w)\<rparr>) = Some (Inr created, w')"
    and "a = provisioned_agent (?na backend) created"
    using run by (auto simp: provision_input_def act_cases draw_id_def Let_def dest!: backend_read)
  then obtain na w1 where na: "na_user_id na = user_id" "na_team_id na = team_id" "na_role na = role" "na_name na = ai_name input"
      "na_slot_id na = we_ids we (wo_draws w)"
    and made: "create_team_conversation_for_agent (world_provision we) na w1 = Some (Inr created, w')"
    and a: "a = provisioned_agent na created" and w1: "conversations w1 = conversations w"
    by (intro that [of "?na backend" "w\<lparr>wo_draws := Suc (wo_draws w)\<rparr>"]) simp_all
  obtain request t1 t2 where
      c: "nc_workspace created = chosen_workspace we (nc_conversation_id created) (qc_extra request)"
        "says (tj_values (we_json we)) na (qc_extra request)" "qc_user_id request = na_user_id na"
        "nc_conversation_id created \<notin> cv_id ` set (conversations w1)"
        "conversations w' = conversations w1 @ [conversation_row_of we (nc_conversation_id created) (nc_workspace created) t1 t2 request]"
    using agent_conversation [OF made] by blast
  let ?row = "conversation_row_of we (nc_conversation_id created) (nc_workspace created) t1 t2 request"
  have "belongs we mcp_of (na_user_id na) (na_team_id na) ?row
      (provisioned_agent na \<lparr>nc_conversation_id = nc_conversation_id created, nc_workspace = nc_workspace created\<rparr>)"
    using ok na c(2,3) by (intro row_binds) (simp_all add: world_ok_def)
  moreover have "cv_id ?row = nc_conversation_id created" by (simp add: conversation_row_of_def)
  ultimately show ?thesis
    using c(4,5) w1 na a workspace_nonblank [of we] ok c(1) by (auto simp: world_ok_def provisioned_agent_def)
qed

text \<open>The conversations \<open>rows\<close> that were added are distinct, new, and those of the agents.\<close>

definition added ::
  "'j world_env \<Rightarrow> ('j \<Rightarrow> string + 'm) \<Rightarrow> ident \<Rightarrow> ident \<Rightarrow> world \<Rightarrow> world \<Rightarrow> team_agent list \<Rightarrow> bool" where
  "added we mcp_of user_id team_id w w' agents \<longleftrightarrow>
     (\<exists>rows. conversations w' = conversations w @ rows \<and> distinct (map cv_id rows) \<and>
        set (map cv_id rows) \<inter> cv_id ` set (conversations w) = {} \<and> list_all2 (belongs we mcp_of user_id team_id) rows agents)"

lemma added_Cons:
  assumes "conversations w1 = conversations w @ [row]" and "cv_id row \<notin> cv_id ` set (conversations w)"
    and "belongs we mcp_of user_id team_id row a" and "added we mcp_of user_id team_id w1 w2 agents"
  shows "added we mcp_of user_id team_id w w2 (a # agents)"
proof -
  obtain rows where "conversations w2 = conversations w1 @ rows" "distinct (map cv_id rows)"
    "set (map cv_id rows) \<inter> cv_id ` set (conversations w1) = {}" "list_all2 (belongs we mcp_of user_id team_id) rows agents"
    using assms(4) by (auto simp: added_def)
  then show ?thesis using assms(1-3) unfolding added_def by (intro exI [of _ "row # rows"]) auto
qed

lemma teammates_provisioned:
  assumes ok: "world_ok we team_id"
  shows "provision_teammates (world_provision we) user_id team_id workspace inputs w = Some (Inr agents, w') \<Longrightarrow>
    added we mcp_of user_id team_id w w' agents \<and>
    map (\<lambda>a. (ta_name a, ta_role a)) agents = map (\<lambda>(input, role). (ai_name input, role)) inputs"
proof (induction inputs arbitrary: w agents)
  case Nil
  then show ?case by (simp add: added_def)
next
  case (Cons input inputs)
  obtain a created w1 as where a: "provision_input (world_provision we) user_id team_id (Some workspace) (fst input, snd input) w =
        Some (Inr (a, created), w1)"
      and as: "provision_teammates (world_provision we) user_id team_id workspace inputs w1 = Some (Inr as, w')"
      and agents: "agents = a # as"
    using Cons.prems by (auto simp: act_cases split: prod.splits)
  from input_provisioned [OF ok a, where mcp_of = mcp_of] Cons.IH [OF as] agents show ?case
    by (auto intro: added_Cons split: prod.split)
qed


lemma input_agent:
  "provision_input pv user_id team_id workspace input st = Some (Inr (a, c), st') \<Longrightarrow>
     ta_name a = ai_name (fst input) \<and> ta_role a = snd input"
  by (cases input) (auto simp: provision_input_def act_cases provisioned_agent_def Let_def)

lemma teammate_agents:
  "provision_teammates pv user_id team_id workspace inputs st = Some (Inr agents, st') \<Longrightarrow>
     map (\<lambda>a. (ta_name a, ta_role a)) agents = map (\<lambda>(input, role). (ai_name input, role)) inputs"
  by (induction inputs arbitrary: st agents) (fastforce simp: act_cases dest: input_agent split: prod.splits)+

lemma roles_length: "normalized_roles uc inputs = Inr roles \<Longrightarrow> length roles = length inputs"
proof (induction inputs arbitrary: roles)
  case (Cons input inputs)
  then show ?case by (cases "normalized_roles uc inputs") (auto split: sum.splits)
qed simp

text \<open>How a run with the right roles goes on.\<close>

lemma initial_agents_run:
  assumes "inputs \<noteq> []" and "normalized_roles (pv_unicode pv) inputs = Inr roles"
    and "filter (\<lambda>(_, role). role = Lead) (zip inputs roles) = [lead]"
    and "provision_initial_agents pv user_id team_id inputs shared st = Some (Inr made, st')"
  shows "\<exists>leader c st1 st2 teammates.
    provision_input pv user_id team_id shared lead st = Some (Inr (leader, c), st1) \<and>
    (case shared of Some w \<Rightarrow> return_ok w | None \<Rightarrow> resolve_initial_leader_workspace pv team_id c) st1 =
      Some (Inr (it_workspace made), st2) \<and>
    provision_teammates pv user_id team_id (it_workspace made) (filter (\<lambda>(_, role). role = Teammate) (zip inputs roles)) st2 =
      Some (Inr teammates, st') \<and>
    it_agents made = leader # teammates \<and> it_lead_agent_id made = Some (ta_slot_id leader)"
  using assms by (auto simp: provision_initial_agents_def act_cases)

definition one_lead :: "unicode_ops \<Rightarrow> agent_input list \<Rightarrow> bool" where
  "one_lead uc inputs \<longleftrightarrow>
     (case normalized_roles uc inputs of Inl _ \<Rightarrow> False | Inr roles \<Rightarrow> length (filter (\<lambda>r. r = Lead) roles) = 1)"

lemma lead_entry:
  assumes "length roles = length inputs"
  shows "length (filter (\<lambda>(_, role). role = Lead) (zip inputs roles)) = length (filter (\<lambda>r. r = Lead) roles)"
  using assms by (induction roles inputs rule: list_induct2) auto


definition wanted :: "agent_input list \<Rightarrow> teammate_role list \<Rightarrow> teammate_role \<Rightarrow> (string \<times> teammate_role) list" where
  "wanted inputs roles x = map (\<lambda>(input, role). (ai_name input, role)) (filter (\<lambda>(_, role). role = x) (zip inputs roles))"

subsection \<open>An example\<close>

definition demo_backend :: "string \<Rightarrow> agent_metadata_row" where
  "demo_backend name = row_from_upsert 1
     \<lparr>um_id = name, um_icon = Some (name @ ''.svg''), um_name = name, um_name_i18n = None, um_description = None,
      um_description_i18n = None, um_backend = Some name, um_agent_type = ''acp'', um_agent_source = ''builtin'',
      um_agent_source_info = None, um_enabled = True, um_command = None, um_args = None, um_env = None,
      um_native_skills_dirs = None, um_behavior_policy = None, um_yolo_id = None, um_agent_capabilities = None,
      um_auth_methods = None, um_config_options = None, um_available_modes = None, um_available_models = None,
      um_available_commands = None, um_sort_order = 0\<rparr>"

definition demo_input :: "string \<Rightarrow> string \<Rightarrow> ident \<Rightarrow> agent_input" where
  "demo_input name role assistant_id =
     \<lparr>ai_name = name, ai_role = role, ai_backend = None, ai_model = ''default'', ai_assistant_id = Some assistant_id,
      ai_conversation_id = None\<rparr>"

definition demo_inputs :: "agent_input list" where
  "demo_inputs = [demo_input ''Gil'' ''teammate'' ''asst-grok'', demo_input ''Ann'' ''lead'' ''asst-claude'']"

definition demo_member :: "nat \<Rightarrow> nat \<Rightarrow> string \<Rightarrow> teammate_role \<Rightarrow> string \<Rightarrow> ident \<Rightarrow> team_agent" where
  "demo_member i j name role backend assistant_id =
     \<lparr>ta_slot_id = CHR ''i'' # replicate i CHR ''x'', ta_name = name, ta_role = role,
      ta_conversation_id = CHR ''i'' # replicate j CHR ''x'', ta_backend = backend, ta_model = ''default'',
      ta_assistant_id = Some assistant_id, ta_status = None, ta_conversation_type = None, ta_cli_path = None,
      ta_last_message = None, ta_last_message_at = None\<rparr>"

definition demo_members :: "team_agent list" where
  "demo_members = [demo_member 2 3 ''Ann'' Lead ''claude'' ''asst-claude'', demo_member 6 7 ''Gil'' Teammate ''grok'' ''asst-grok'']"

definition demo_worldly :: "string world_env" where
  "demo_worldly =
     \<lparr>we_json = text_json, we_unicode = \<lparr>uc_trim = (\<lambda>s. s), uc_drop_control = (\<lambda>s. s), uc_to_lowercase = (\<lambda>s. s)\<rparr>,
      we_ids = (\<lambda>n. CHR ''i'' # replicate n CHR ''x''), we_clock = (\<lambda>n. 7), we_workspace_root = ''/w'',
      we_path = (\<lambda>_. PathDirectory), we_make_dir = (\<lambda>_. None), we_model_to = pm_model,
      we_agents_of = (\<lambda>s. if s = ''Ann and Gil'' then Inr demo_members else Inl ''expected two''),
      we_agents_to = (\<lambda>agents. if agents = demo_members then Inr ''Ann and Gil'' else Inl ''not two''),
      we_warmup = (\<lambda>_ _ _. None)\<rparr>"

definition demo_world :: world where
  "demo_world =
     \<lparr>wo_teams = memory_new, wo_meta = meta_new\<lparr>mt_agents := [demo_backend ''claude'', demo_backend ''grok'']\<rparr>,
      wo_conversations = conv_new, wo_killed = [], wo_announced = [], wo_draws = 0\<rparr>"

lemma demo_world_ok: "world_ok demo_worldly (CHR ''t'' # i)"
  by (simp add: world_ok_def demo_worldly_def text_json_speaks keeps_letters_def)

definition demo_provisioned where
  "demo_provisioned = provision_initial_agents (world_provision demo_worldly) ''u1'' ''t1'' demo_inputs None demo_world"

lemma demo_provisioned_Some: "(case demo_provisioned of Some (Inr made, _) \<Rightarrow> length (it_agents made) = 2 | _ \<Rightarrow> False) \<and>
    one_lead (pv_unicode (world_provision demo_worldly)) demo_inputs"
  by code_simp

lemma demo_provisioned_made:
  "\<exists>made w'. provision_initial_agents (world_provision demo_worldly) ''u1'' ''t1'' demo_inputs None demo_world = Some (Inr made, w') \<and>
     length (it_agents made) = 2"
  using demo_provisioned_Some by (auto simp: demo_provisioned_def split: option.splits prod.splits sum.splits)

text \<open>C19: A team is made exactly of the agents that were asked for: if one of them and only one is
  the lead, the team has the lead first and then the teammates in their order, and the lead of
  the team is that agent; otherwise the request is refused and nothing is made.\<close>

theorem team_is_made_of_request:
  assumes "provision_initial_agents pv user_id team_id inputs shared st = Some (r, st')"
  shows "if one_lead (pv_unicode pv) inputs
     then \<forall>made. r = Inr made \<longrightarrow>
       (\<exists>leader teammates. it_agents made = leader # teammates \<and> it_lead_agent_id made = Some (ta_slot_id leader) \<and>
          (\<exists>roles. normalized_roles (pv_unicode pv) inputs = Inr roles \<and>
             [(ta_name leader, ta_role leader)] = wanted inputs roles Lead \<and>
             map (\<lambda>a. (ta_name a, ta_role a)) teammates =
               wanted inputs roles Teammate))
     else st' = st \<and> (\<exists>m. r = Inl (InvalidRequest m))"
proof (cases "normalized_roles (pv_unicode pv) inputs")
  case (Inl e)
  moreover have "\<exists>m. e = InvalidRequest m" if "normalized_roles uc is = Inl e" for uc "is"
    using that by (induction "is") (auto simp: normalized_role_def map_sum_def split: sum.splits option.splits)
  ultimately show ?thesis using assms by (auto simp: provision_initial_agents_def act_cases one_lead_def split: if_splits)
next
  case (Inr roles)
  note len = lead_entry [OF roles_length [OF Inr]]
  show ?thesis
  proof (cases "length (filter (\<lambda>r. r = Lead) roles) = 1")
    case False
    then show ?thesis
      using assms Inr len by (auto simp: provision_initial_agents_def act_cases one_lead_def split: if_splits list.splits)
  next
    case True
    with len obtain lead where lead: "filter (\<lambda>(_, role). role = Lead) (zip inputs roles) = [lead]"
      by (metis (no_types, lifting) One_nat_def length_0_conv length_Suc_conv)
    then have snd: "snd lead = Lead" and inputs: "inputs \<noteq> []" by (auto dest: filter_eq_ConsD)
    have "\<exists>leader teammates. it_agents made = leader # teammates \<and> it_lead_agent_id made = Some (ta_slot_id leader) \<and>
        [(ta_name leader, ta_role leader)] = wanted inputs roles Lead \<and>
        map (\<lambda>a. (ta_name a, ta_role a)) teammates = wanted inputs roles Teammate" if r: "r = Inr made" for made
    proof -
      obtain leader c st1 st2 teammates where
          "provision_input pv user_id team_id shared lead st = Some (Inr (leader, c), st1)"
          "provision_teammates pv user_id team_id (it_workspace made)
             (filter (\<lambda>(_, role). role = Teammate) (zip inputs roles)) st2 = Some (Inr teammates, st')"
          "it_agents made = leader # teammates" "it_lead_agent_id made = Some (ta_slot_id leader)"
        using initial_agents_run [OF inputs Inr lead, of user_id team_id shared st made st'] assms r by blast
      then show ?thesis
        using input_agent teammate_agents lead snd by (fastforce simp: wanted_def split: prod.splits)
    qed
    with Inr True show ?thesis by (auto simp: one_lead_def)
  qed
qed

theorem team_is_made_of_request_witness:
  "\<exists>(made :: initial_team) leader teammate. it_agents made = [leader, teammate] \<and> ta_name leader = ''Ann'' \<and> ta_role leader = Lead \<and>
     it_lead_agent_id made = Some (ta_slot_id leader) \<and> ta_name teammate = ''Gil''"
proof -
  obtain made w' where run:
      "provision_initial_agents (world_provision demo_worldly) ''u1'' ''t1'' demo_inputs None demo_world = Some (Inr made, w')"
    using demo_provisioned_made by blast
  have roles: "normalized_roles (pv_unicode (world_provision demo_worldly)) demo_inputs = Inr [Teammate, Lead]"
    by code_simp
  then have "one_lead (pv_unicode (world_provision demo_worldly)) demo_inputs" by (simp add: one_lead_def)
  with team_is_made_of_request [OF run] roles obtain leader teammates where
      "it_agents made = leader # teammates" "it_lead_agent_id made = Some (ta_slot_id leader)"
      "[(ta_name leader, ta_role leader)] = wanted demo_inputs [Teammate, Lead] Lead"
      "map (\<lambda>a. (ta_name a, ta_role a)) teammates = wanted demo_inputs [Teammate, Lead] Teammate"
    by (auto simp del: world_fields)
  then show ?thesis
    by (intro exI [of _ made] exI [of _ leader] exI [of _ "hd teammates"])
      (auto simp: wanted_def demo_inputs_def demo_input_def map_eq_Cons_conv)
qed

lemma initial_agents_succeed:
  assumes "provision_initial_agents pv user_id team_id inputs shared st = Some (Inr made, st')"
  obtains roles input role where "inputs \<noteq> []" and "normalized_roles (pv_unicode pv) inputs = Inr roles"
    and "filter (\<lambda>(_, role). role = Lead) (zip inputs roles) = [(input, role)]"
proof -
  have ne: "inputs \<noteq> []" using assms by (auto simp: provision_initial_agents_def)
  obtain roles where roles: "normalized_roles (pv_unicode pv) inputs = Inr roles"
    using assms ne by (cases "normalized_roles (pv_unicode pv) inputs") (auto simp: provision_initial_agents_def)
  let ?leads = "filter (\<lambda>(_, role). role = Lead) (zip inputs roles)"
  consider "?leads = []" | lead where "?leads = [lead]" | x y rest where "?leads = x # y # rest"
    by (metis list.exhaust)
  then obtain lead where "?leads = [lead]"
    using assms ne roles by cases (auto simp: provision_initial_agents_def)
  with ne roles that show thesis by (cases lead) blast
qed

lemma leader_workspace_keeps:
  assumes "uc_trim (pv_unicode pv) (nc_workspace c) \<noteq> []"
  shows "(case shared of Some w \<Rightarrow> return_ok w | None \<Rightarrow> resolve_initial_leader_workspace pv team_id c) st = Some (r, st') \<Longrightarrow> st' = st"
  using assms by (auto simp: resolve_initial_leader_workspace_def nonblank_def split: option.splits)

lemma members_added:
  assumes ok: "world_ok we team_id"
    and made: "provision_initial_agents (world_provision we) user_id team_id inputs shared w = Some (Inr made, w')"
  shows "added we mcp_of user_id team_id w w' (it_agents made)"
proof -
  obtain roles input role where head: "inputs \<noteq> []" "normalized_roles (pv_unicode (world_provision we)) inputs = Inr roles"
      "filter (\<lambda>(_, role). role = Lead) (zip inputs roles) = [(input, role)]"
    by (rule initial_agents_succeed [OF made])
  obtain leader c w1 w2 teammates where
      l: "provision_input (world_provision we) user_id team_id shared (input, role) w = Some (Inr (leader, c), w1)"
    and ws: "(case shared of Some w \<Rightarrow> return_ok w
               | None \<Rightarrow> resolve_initial_leader_workspace (world_provision we) team_id c) w1 = Some (Inr (it_workspace made), w2)"
    and t: "provision_teammates (world_provision we) user_id team_id (it_workspace made)
        (filter (\<lambda>(_, role). role = Teammate) (zip inputs roles)) w2 = Some (Inr teammates, w')"
    and agents: "it_agents made = leader # teammates"
    using initial_agents_run [OF head made] by blast
  obtain row where row: "conversations w1 = conversations w @ [row]" "cv_id row \<notin> cv_id ` set (conversations w)"
      "belongs we mcp_of user_id team_id row leader" "uc_trim (we_unicode we) (nc_workspace c) \<noteq> []"
    using input_provisioned [OF ok l] by blast
  then have "w2 = w1" using leader_workspace_keeps [of "world_provision we", OF _ ws] by simp
  with teammates_provisioned [OF ok t] show ?thesis
    unfolding agents by (intro added_Cons [OF row(1-3)]) auto
qed

lemma added_member:
  assumes "added we mcp_of user_id team_id w w' agents" and "a \<in> set agents"
  shows "\<exists>row. find (\<lambda>c. cv_id c = ta_conversation_id a) (conversations w') = Some row \<and> row \<notin> set (conversations w) \<and>
    belongs we mcp_of user_id team_id row a"
proof -
  obtain rows where rows: "conversations w' = conversations w @ rows" "distinct (map cv_id rows)"
      "set (map cv_id rows) \<inter> cv_id ` set (conversations w) = {}" "list_all2 (belongs we mcp_of user_id team_id) rows agents"
    using assms(1) by (auto simp: added_def)
  then obtain row where row: "row \<in> set rows" "belongs we mcp_of user_id team_id row a"
    using assms(2) by (fastforce simp: in_set_conv_nth list_all2_conv_all_nth)
  then have same: "cv_id row = ta_conversation_id a" by (simp add: belongs_def binds_def)
  have "ta_conversation_id a \<in> set (map cv_id rows)" using row(1) same by (metis image_eqI set_map)
  then have "ta_conversation_id a \<notin> cv_id ` set (conversations w)" using rows(3) by blast
  then have "find (\<lambda>c. cv_id c = ta_conversation_id a) (conversations w) = None"
    unfolding find_None_iff by (metis imageI)
  moreover have "find (\<lambda>c. cv_id c = ta_conversation_id a) rows = Some row"
    using rows(2) row(1) same by (induction rows) (auto simp: image_iff)
  ultimately have "find (\<lambda>c. cv_id c = ta_conversation_id a) (conversations w') = Some row"
    using rows(1) by (simp add: find_append)
  with rows(3) row show ?thesis by auto
qed

text \<open>C20: Every member of a new team has a conversation of its own: the conversations are new and
  distinct, they are the user's, and the extra data of each, read back, binds it to this team,
  to the slot of the member and to its role.\<close>

theorem every_member_has_its_conversation:
  assumes "world_ok we team_id"
    and "provision_initial_agents (world_provision we) user_id team_id inputs shared w = Some (Inr made, w')"
  shows "distinct (map ta_conversation_id (it_agents made)) \<and>
    (\<forall>a \<in> set (it_agents made). \<exists>row. find (\<lambda>c. cv_id c = ta_conversation_id a) (conversations w') = Some row \<and>
       row \<notin> set (conversations w) \<and> binds we mcp_of user_id team_id row a)"
proof -
  have added: "added we mcp_of user_id team_id w w' (it_agents made)" by (rule members_added [OF assms])
  then obtain rows where "distinct (map cv_id rows)" "list_all2 (belongs we mcp_of user_id team_id) rows (it_agents made)"
    by (auto simp: added_def)
  moreover from this(2) have "map cv_id rows = map ta_conversation_id (it_agents made)"
    by (induction rule: list_all2_induct) (simp_all add: belongs_def binds_def)
  ultimately show ?thesis using added_member [OF added] by (auto simp: belongs_def)
qed

theorem every_member_has_its_conversation_witness:
  "\<exists>(made :: initial_team) (w' :: world). length (it_agents made) = 2 \<and> distinct (map ta_conversation_id (it_agents made)) \<and>
     (\<forall>a \<in> set (it_agents made). \<exists>row. find (\<lambda>c. cv_id c = ta_conversation_id a) (conversations w') = Some row \<and>
        binds demo_worldly (\<lambda>_. Inl ''no server'' :: string + unit) ''u1'' ''t1'' row a)"
proof -
  obtain made w' where
      "provision_initial_agents (world_provision demo_worldly) ''u1'' ''t1'' demo_inputs None demo_world = Some (Inr made, w')"
    and "length (it_agents made) = 2"
    using demo_provisioned_made by blast
  with every_member_has_its_conversation [OF demo_world_ok, of "''u1''" "''1''" demo_inputs None demo_world made w'
      "\<lambda>_. Inl ''no server'' :: string + unit"]
  show ?thesis by (intro exI [of _ made] exI [of _ w']) auto
qed

end
