(* ===== verification/Creation_Claims.thy ===== *)
theory Creation_Claims
  imports Provision_Claims Service_Agents
begin

text \<open>
  What creating a team and adding to it leads to (crates/team/src/service.rs, provisioning.rs,
  workspace.rs): the team that is stored is the team that is answered, new members work where
  the team works, and what an agent is told that asks on the command line.
\<close>

subsection \<open>The command line\<close>

text \<open>C40: The binding of a conversation to its team is written under one name and looked up under
  another: an agent of a new team that asks for its context on the command line is always
  told that it is in no team, and is offered no tools.\<close>

theorem new_member_is_told_it_has_no_team:
  assumes "world_ok we team_id"
    and "provision_initial_agents (world_provision we) user_id team_id inputs shared w = Some (Inr made, w')"
    and "a \<in> set (it_agents made)"
  shows "\<exists>bl. lookup_team_binding_by_conversation we (ta_conversation_id a) w' = Some (Inr (Some bl), w') \<and>
    bl_user_id bl = user_id \<and>
    resolve_team_tool_context ve vo user_id (ta_conversation_id a)
      (Inr (Some \<lparr>bd_user_id = bl_user_id bl, bd_team_id = bl_team_id bl, bd_slot_id = bl_slot_id bl\<rparr>)) se =
      Inr (not_in_team_context (ta_conversation_id a))"
proof -
  obtain row where "find (\<lambda>c. cv_id c = ta_conversation_id a) (conversations w') = Some row"
      and "looked_up we user_id row a"
    using added_member [OF members_added [OF assms(1,2)] assms(3)] by (auto simp: belongs_def)
  then show ?thesis
    by (simp add: lookup_team_binding_by_conversation_def find_conversation_def on_conversations_def conv_get_def and_then_def
        looked_up_def resolve_team_tool_context_def)
qed

theorem new_member_is_told_it_has_no_team_witness:
  "\<exists>(made :: initial_team) (w' :: world). length (it_agents made) = 2 \<and>
     (\<forall>a \<in> set (it_agents made). \<exists>bl. lookup_team_binding_by_conversation demo_worldly (ta_conversation_id a) w' =
        Some (Inr (Some bl), w') \<and> bl_user_id bl = ''u1'')"
proof -
  obtain made w' where
      "provision_initial_agents (world_provision demo_worldly) ''u1'' ''t1'' demo_inputs None demo_world = Some (Inr made, w')"
    and "length (it_agents made) = 2"
    using demo_provisioned_made by blast
  with new_member_is_told_it_has_no_team [OF demo_world_ok, of "''u1''" "''1''" demo_inputs None demo_world made w']
  show ?thesis by blast
qed

subsection \<open>The stored team\<close>

lemma creation_fields [simp]:
  "tv_provision (world_creation we confirmations) = world_provision we" "tv_now (world_creation we confirmations) = now_ms we"
  "pv_agents_to (world_provision we) = we_agents_to we"
  "tv_announce_created (world_creation we confirmations) = (\<lambda>team_id name. modify (\<lambda>w. w\<lparr>wo_announced := wo_announced w @ [(team_id, name)]\<rparr>))"
  "tv_create_team (world_creation we confirmations) = (\<lambda>row w. case mem_create_team row (wo_teams w) of
     (r, s) \<Rightarrow> Some (map_err Database r, w\<lparr>wo_teams := s\<rparr>))"
  by (simp_all add: world_creation_def world_provision_def)

lemma team_stored:
  "tv_create_team (world_creation we confirmations) row w = Some (Inr (), w') \<Longrightarrow>
     mem_create_team row (wo_teams w) = (Inr (), wo_teams w')"
  by (auto split: prod.split_asm)

lemma announced_teams:
  "tv_announce_created (world_creation we confirmations) team_id name w = Some (r, w') \<Longrightarrow> wo_teams w' = wo_teams w"
  by auto

lemma agent_answer_read:
  "build_agent_response tv agent st = Some (r, st') \<Longrightarrow>
     st' = st \<and> (\<forall>x. r = Inr x \<longrightarrow> tar_slot_id x = ta_slot_id agent \<and> tar_name x = ta_name agent)"
  by (auto simp: build_agent_response_def resolve_agent_icon_def assistant_picture_def from_db_def act_cases
      agent_to_response_with_icon_def split: if_splits option.splits)

lemma agent_answers_read:
  "build_agent_responses tv agents st = Some (r, st') \<Longrightarrow>
     st' = st \<and> (\<forall>xs. r = Inr xs \<longrightarrow> map tar_slot_id xs = map ta_slot_id agents)"
  by (induction agents arbitrary: r st) (fastforce simp: act_cases dest: agent_answer_read)+

lemma wanted_roles: "snd ` set (wanted inputs roles x) \<subseteq> {x}"
  by (auto simp: wanted_def)

lemma made_shape:
  assumes "provision_initial_agents pv user_id team_id inputs shared st = Some (Inr made, st')"
  shows "\<exists>leader teammates. it_agents made = leader # teammates \<and> ta_role leader = Lead \<and>
    it_lead_agent_id made = Some (ta_slot_id leader) \<and> (\<forall>a \<in> set teammates. ta_role a = Teammate)"
proof -
  obtain roles input role where head: "inputs \<noteq> []" "normalized_roles (pv_unicode pv) inputs = Inr roles"
      "filter (\<lambda>(_, role). role = Lead) (zip inputs roles) = [(input, role)]"
    by (rule initial_agents_succeed [OF assms])
  then have role: "role = Lead" by (auto dest: filter_eq_ConsD)
  obtain leader c st1 st2 teammates where
      l: "provision_input pv user_id team_id shared (input, role) st = Some (Inr (leader, c), st1)"
    and t: "provision_teammates pv user_id team_id (it_workspace made)
        (filter (\<lambda>(_, role). role = Teammate) (zip inputs roles)) st2 = Some (Inr teammates, st')"
    and made: "it_agents made = leader # teammates" "it_lead_agent_id made = Some (ta_slot_id leader)"
    using initial_agents_run [OF head assms] by blast
  have "map (\<lambda>a. (ta_name a, ta_role a)) teammates = wanted inputs roles Teammate"
    using teammate_agents [OF t] by (simp add: wanted_def)
  then have "snd ` set (map (\<lambda>a. (ta_name a, ta_role a)) teammates) \<subseteq> {Teammate}" using wanted_roles by metis
  then have "\<forall>a \<in> set teammates. ta_role a = Teammate" by (simp add: image_image image_subset_iff)
  with input_agent [OF l] role made show ?thesis by auto
qed

lemma create_team_run:
  assumes "create_team tv user_id req st = Some (Inr resp, st')"
  shows "\<exists>shared team_id now made agents_json st1 st2 st3 st4.
    provision_initial_agents (tv_provision tv) user_id team_id (tq_agents req) shared st1 = Some (Inr made, st2) \<and>
    pv_agents_to (tv_provision tv) (it_agents made) = Inr agents_json \<and>
    tv_create_team tv (new_team_row user_id team_id now (tq_name req) made agents_json) st2 = Some (Inr (), st3) \<and>
    tv_announce_created tv team_id (tq_name req) st3 = Some (Inr (), st4) \<and>
    build_team_response tv (new_team team_id now (tq_name req) made) st4 = Some (Inr resp, st')"
  using assms by (simp add: create_team_def Let_def act_cases split: if_splits) blast

text \<open>C21: The team that is created is stored as it is answered: under the id and for the user, not
  archived, and reading its row gives the agents that were made, one of them the lead of the
  team, whose slots are those in the answer.\<close>

theorem created_team_is_read_back:
  assumes "create_team (world_creation we confirmations) user_id req w = Some (Inr resp, w')"
    and "\<And>agents text. we_agents_to we agents = Inr text \<Longrightarrow> we_agents_of we text = Inr agents"
  shows "\<exists>row team leader. mem_get_team (trs_id resp) (wo_teams w') = Inr (Some row) \<and> tr_user_id row = user_id \<and>
    team_from_row (we_agents_of we) row = Inr team \<and> tm_name team = tq_name req \<and> tm_archived_at team = None \<and>
    map tar_slot_id (trs_assistants resp) = map ta_slot_id (tm_agents team) \<and>
    filter (\<lambda>a. ta_role a = Lead) (tm_agents team) = [leader] \<and> tm_lead_agent_id team = Some (ta_slot_id leader) \<and>
    trs_leader_assistant_id resp = Some (ta_slot_id leader) \<and> trs_workspace resp = tm_workspace team"
proof -
  let ?pv = "world_provision we"
  obtain shared team_id w1 w2 made now agents_json w3 w4 where
      made: "provision_initial_agents ?pv user_id team_id (tq_agents req) shared w1 = Some (Inr made, w2)"
    and json: "we_agents_to we (it_agents made) = Inr agents_json"
    and stored: "mem_create_team (new_team_row user_id team_id now (tq_name req) made agents_json) (wo_teams w2) =
        (Inr (), w3)"
    and w4: "wo_teams w4 = w3"
    and answer: "build_team_response (world_creation we confirmations) (new_team team_id now (tq_name req) made) w4 =
        Some (Inr resp, w')"
    using create_team_run [OF assms(1)] team_stored announced_teams unfolding creation_fields(1,3) by metis
  obtain leader teammates where agents: "it_agents made = leader # teammates" "ta_role leader = Lead"
      "it_lead_agent_id made = Some (ta_slot_id leader)" "\<forall>a \<in> set teammates. ta_role a = Teammate"
    using made_shape [OF made] by blast
  then have lead: "filter (\<lambda>a. ta_role a = Lead) (it_agents made) = [leader]" by (simp add: filter_empty_conv)
  have resp: "trs_id resp = team_id" "trs_leader_assistant_id resp = Some (ta_slot_id leader)" "w' = w4"
      "trs_workspace resp = it_workspace made" "map tar_slot_id (trs_assistants resp) = map ta_slot_id (it_agents made)"
    using answer agents(3) by (auto simp: build_team_response_def new_team_def act_cases dest!: agent_answers_read)
  let ?row = "new_team_row user_id team_id now (tq_name req) made agents_json"
  have "mem_get_team team_id w3 = Inr (Some ?row)"
    using stored by (auto simp: mem_create_team_def mem_get_team_def find_append new_team_row_def list_ex_iff
        find_None_iff split: if_splits option.split dest!: find_SomeD)
  moreover have "team_from_row (we_agents_of we) ?row = Inr (new_team team_id now (tq_name req) made)"
    using assms(2) [OF json] by (simp add: team_from_row_def new_team_row_def new_team_def)
  ultimately show ?thesis
    using resp w4 lead agents(3)
    by (intro exI [of _ ?row] exI [of _ "new_team team_id now (tq_name req) made"] exI [of _ leader])
      (simp add: new_team_def new_team_row_def)
qed

definition demo_wish :: create_team_request where
  "demo_wish = \<lparr>tq_name = ''Team'', tq_agents = demo_inputs, tq_workspace = None\<rparr>"

lemma demo_team_created:
  "case create_team (world_creation demo_worldly (\<lambda>_ _. 0)) ''u1'' demo_wish demo_world of
     Some (Inr resp, w') \<Rightarrow> length (trs_assistants resp) = 2 | _ \<Rightarrow> False"
  by code_simp

theorem created_team_is_read_back_witness:
  "\<exists>resp w' row team. create_team (world_creation demo_worldly (\<lambda>_ _. 0)) ''u1'' demo_wish demo_world = Some (Inr resp, w') \<and>
     length (trs_assistants resp) = 2 \<and> mem_get_team (trs_id resp) (wo_teams w') = Inr (Some row) \<and>
     team_from_row (we_agents_of demo_worldly) row = Inr team \<and> tm_name team = ''Team''"
proof -
  obtain resp w' where run: "create_team (world_creation demo_worldly (\<lambda>_ _. 0)) ''u1'' demo_wish demo_world = Some (Inr resp, w')"
      and "length (trs_assistants resp) = 2"
    using demo_team_created by (auto split: option.splits prod.splits sum.splits)
  moreover have "we_agents_to demo_worldly agents = Inr s \<Longrightarrow> we_agents_of demo_worldly s = Inr agents" for agents s
    by (auto simp: demo_worldly_def split: if_splits)
  ultimately show ?thesis
    using created_team_is_read_back [OF run] by (fastforce simp: demo_wish_def)
qed

end
