(* ===== verification/Runtime_Claims.thy ===== *)
theory Runtime_Claims
  imports Creation_Claims
begin

text \<open>
  Where a new member works and what the start of its process writes into its conversation
  (crates/team/src/workspace.rs and provisioning.rs over the ports of the application).
\<close>

subsection \<open>The data of a conversation\<close>

definition holds :: "'j world_env \<Rightarrow> conversation_row \<Rightarrow> (string \<Rightarrow> 'j option) \<Rightarrow> bool" where
  "holds we row m \<longleftrightarrow>
     (\<exists>v kvs. extra_of we row = Some v \<and> jv_as_object (tj_values (we_json we)) v = Some kvs \<and>
        distinct (map fst kvs) \<and> map_of kvs = m)"

abbreviation conversation_of :: "ident \<Rightarrow> world \<Rightarrow> conversation_row option" where
  "conversation_of i w \<equiv> find (\<lambda>c. cv_id c = i) (conversations w)"

lemma puts_map:
  "distinct (map fst patch) \<Longrightarrow> map_of (fold (\<lambda>(k, v). put k v) patch kvs) = map_of kvs ++ map_of patch"
proof (induction patch arbitrary: kvs)
  case (Cons e patch)
  then have "map_of patch (fst e) = None" by (simp add: map_of_eq_None_iff)
  then show ?case using Cons by (cases e) (auto simp: map_add_def split: option.split)
qed simp

lemma puts_distinct: "distinct (map fst kvs) \<Longrightarrow> distinct (map fst (fold (\<lambda>(k, v). put k v) patch kvs))"
  by (induction patch arbitrary: kvs) auto

lemma find_modified:
  "(\<And>c. cv_id (f c) = cv_id c) \<Longrightarrow>
     find (\<lambda>c. cv_id c = i) (modify_first (\<lambda>c. cv_id c = i) f cs) = map_option f (find (\<lambda>c. cv_id c = i) cs)"
  by (induction cs) auto

lemma patched:
  assumes json: "speaks_json (we_json we)" and patch: "distinct (map fst patch)"
    and run: "patch_runtime_config we i patch w = Some (Inr (), w')"
    and row: "conversation_of i w = Some row" and holds: "holds we row m"
  shows "\<exists>row'. conversation_of i w' = Some row' \<and> cv_user_id row' = cv_user_id row \<and>
    holds we row' (m ++ map_of patch) \<and> wo_killed w' = wo_killed w \<and> wo_teams w' = wo_teams w"
proof -
  let ?vo = "tj_values (we_json we)"
  obtain v kvs where kvs: "extra_of we row = Some v" "jv_as_object ?vo v = Some kvs" "distinct (map fst kvs)" "map_of kvs = m"
    using holds by (auto simp: holds_def)
  let ?new = "fold (\<lambda>(k, v). put k v) patch kvs"
  obtain read where read: "jv_as_object ?vo (jv_obj ?vo ?new) = Some read" "distinct (map fst read)" "map_of read = map_of ?new"
    using json puts_distinct [OF kvs(3)] unfolding speaks_json_def by blast
  let ?up = "\<lambda>now. apply_conv_update \<lparr>cu_name = None, cu_extra = Some (entries_text we ?new), cu_model = None, cu_pinned = None,
      cu_pinned_at = None, cu_updated_at = Some now, cu_status = None\<rparr>"
  obtain now where w': "w' = w\<lparr>wo_draws := Suc (wo_draws w), wo_conversations := (wo_conversations w)
      \<lparr>cs_conversations := modify_first (\<lambda>c. cv_id c = i) (?up now) (conversations w)\<rparr>\<rparr>"
    using run row kvs(1,2)
    by (auto simp: patch_runtime_config_def act_cases find_conversation_def on_conversations_def conv_get_def conv_update_def
        now_ms_def Let_def split: if_splits)
  have "conversation_of i w' = Some (?up now row)"
    using row by (simp add: w' find_modified apply_conv_update_def)
  moreover have "extra_of we (?up now row) = Some (jv_obj ?vo ?new)"
    using json by (simp add: extra_of_def apply_conv_update_def entries_text_def speaks_json_def)
  then have "holds we (?up now row) (m ++ map_of patch)"
    using read puts_map [OF patch, of kvs] kvs(4) by (auto simp: holds_def)
  ultimately show ?thesis by (simp add: w' apply_conv_update_def)
qed

subsection \<open>The process of a member\<close>

lemma transport_read: "team_tool_transport pv agent st = Some (r, st') \<Longrightarrow> st' = st"
  by (auto simp: team_tool_transport_def agent_capabilities_def act_cases dest!: metadata_read split: if_splits)

lemma mode_read: "agent_session_mode pv agent st = Some (r, st') \<Longrightarrow> st' = st"
  by (auto simp: agent_session_mode_def act_cases dest!: metadata_read type_read)

lemma explained_ok [simp]: "explained f m st = Some (Inr x, st') \<longleftrightarrow> m st = Some (Inr x, st')"
  by (auto simp: explained_def act_cases)

lemma warmed: "warmup_agent_process we i w = Some (r, w') \<Longrightarrow> w' = w"
  by (auto simp: warmup_agent_process_def conversation_workspace_def find_conversation_def on_conversations_def conv_get_def
      act_cases split: option.splits)

text \<open>What the configuration of a transport adds.\<close>

definition tools_entries :: "'j value_ops \<Rightarrow> tool_transport \<Rightarrow> team_agent \<Rightarrow> 'j \<Rightarrow> string \<Rightarrow> 'j entries" where
  "tools_entries vo transport agent cfg mode =
     [(''team_mcp_stdio_config'', case transport of TransportMcp \<Rightarrow> cfg | TransportCliAssumed \<Rightarrow> jv_null vo),
      (''session_mode'', jv_str vo mode)] @
     (if transport = TransportCliAssumed \<and> eq_ignore_ascii_case (ta_backend agent) ''grok''
      then [(''provider_id'', jv_null vo)] else [])"

lemma tools_entries_distinct: "distinct (map fst (tools_entries vo transport agent cfg mode))"
  by (auto simp: tools_entries_def)

lemma provision_ports [simp]:
  "pv_patch (world_provision we) = patch_runtime_config we"
  "pv_kill (world_provision we) i = modify (\<lambda>w. w\<lparr>wo_killed := wo_killed w @ [i]\<rparr>)"
  "pv_warmup (world_provision we) user_id = warmup_agent_process we"
  "pv_path (world_provision we) = we_path we"
  by (simp_all add: world_provision_def)

lemma config_written:
  assumes "(case transport of TransportMcp \<Rightarrow> write_team_mcp_runtime_config pv agent cfg
      | TransportCliAssumed \<Rightarrow> write_team_cli_runtime_config pv agent) st = Some (Inr (), st')"
  shows "\<exists>mode. agent_session_mode pv agent st = Some (Inr mode, st) \<and>
    pv_patch pv (ta_conversation_id agent) (tools_entries (pv_values pv) transport agent cfg mode) st = Some (Inr (), st')"
proof -
  obtain mode st0 where mode: "agent_session_mode pv agent st = Some (Inr mode, st0)"
    and "pv_patch pv (ta_conversation_id agent) (tools_entries (pv_values pv) transport agent cfg mode) st0 = Some (Inr (), st')"
    using assms
    by (cases transport; cases "eq_ignore_ascii_case (ta_backend agent) ''grok''")
      (auto simp: write_team_mcp_runtime_config_def write_team_cli_runtime_config_def tools_entries_def put_def act_cases Let_def)
  with mode_read [OF mode] show ?thesis by auto
qed

text \<open>C23: The start of a member's process writes the way to its tools into its conversation and
  leaves everything else in it: the configuration of the MCP server, or none for an agent that
  uses the command line, and for grok on the command line no provider either. The session mode
  becomes the one of the backend, whatever it was before, and the process that was there is
  ended.\<close>

theorem attached_member_is_configured:
  assumes "speaks_json (we_json we)"
    and "Provision_Team.attach_agent_process (world_provision we) user_id agent cfg w = Some (Inr (), w')"
    and "conversation_of (ta_conversation_id agent) w = Some row" and "holds we row m"
  shows "\<exists>transport mode row'. team_tool_transport (world_provision we) agent w = Some (Inr transport, w) \<and>
    agent_session_mode (world_provision we) agent w = Some (Inr mode, w) \<and>
    conversation_of (ta_conversation_id agent) w' = Some row' \<and> cv_user_id row' = cv_user_id row \<and>
    holds we row' (m ++ map_of (tools_entries (tj_values (we_json we)) transport agent cfg mode)) \<and>
    wo_killed w' = wo_killed w @ [ta_conversation_id agent]"
proof -
  let ?pv = "world_provision we" and ?vo = "tj_values (we_json we)" and ?i = "ta_conversation_id agent"
  obtain transport w1 where transport: "team_tool_transport ?pv agent w = Some (Inr transport, w)"
    and config: "(case transport of TransportMcp \<Rightarrow> write_team_mcp_runtime_config ?pv agent cfg
                  | TransportCliAssumed \<Rightarrow> write_team_cli_runtime_config ?pv agent) w = Some (Inr (), w1)"
    and w': "w' = w1\<lparr>wo_killed := wo_killed w1 @ [?i]\<rparr>"
    using assms(2) by (auto simp: Provision_Team.attach_agent_process_def act_cases dest!: warmed dest: transport_read)
  obtain mode where mode: "agent_session_mode ?pv agent w = Some (Inr mode, w)"
    and patch: "patch_runtime_config we ?i (tools_entries ?vo transport agent cfg mode) w = Some (Inr (), w1)"
    using config_written [OF config] by auto
  obtain row' where "conversation_of ?i w1 = Some row'" "cv_user_id row' = cv_user_id row"
      "holds we row' (m ++ map_of (tools_entries ?vo transport agent cfg mode))" "wo_killed w1 = wo_killed w"
    using patched [OF assms(1) tools_entries_distinct patch assms(3,4)] by blast
  with transport mode w' show ?thesis by auto
qed

text \<open>An example: Gil works with grok, on the command line.\<close>

definition demo_talk :: "(string \<times> string) list" where
  "demo_talk = [(''teamId'', ''st1''), (''session_mode'', ''splan'')]"

definition demo_talk_row :: conversation_row where
  "demo_talk_row =
     \<lparr>cv_id = ''ixxx'', cv_user_id = ''u1'', cv_name = ''Gil'', cv_type = ''acp'', cv_extra = CHR ''o'' # texts (flat demo_talk),
      cv_model = None, cv_status = None, cv_source = None, cv_channel_chat_id = None, cv_pinned = False,
      cv_pinned_at = None, cv_created_at = 1, cv_updated_at = 1\<rparr>"

definition demo_talking :: world where
  "demo_talking = demo_world\<lparr>wo_conversations := \<lparr>cs_conversations = [demo_talk_row], cs_messages = []\<rparr>\<rparr>"

abbreviation demo_gil :: team_agent where
  "demo_gil \<equiv> demo_member 2 3 ''Gil'' Teammate ''grok'' ''asst-grok''"

lemma demo_holds: "holds demo_worldly demo_talk_row (map_of demo_talk)"
  by (simp add: holds_def extra_of_def demo_worldly_def text_json_def demo_talk_row_def texts_of_texts pairs_of_flat)
    (simp add: demo_talk_def)

lemma demo_attached:
  "case Provision_Team.attach_agent_process (world_provision demo_worldly) ''u1'' demo_gil ''ocfg'' demo_talking of
     Some (Inr (), _) \<Rightarrow> True | _ \<Rightarrow> False"
  "case team_tool_transport (world_provision demo_worldly) demo_gil demo_talking of
     Some (Inr t, _) \<Rightarrow> t = TransportCliAssumed | _ \<Rightarrow> False"
  "case agent_session_mode (world_provision demo_worldly) demo_gil demo_talking of
     Some (Inr mode, _) \<Rightarrow> mode = ''yolo'' | _ \<Rightarrow> False"
  by code_simp+

theorem attached_member_is_configured_witness:
  "\<exists>row' w'. conversation_of ''ixxx'' w' = Some row' \<and>
     holds demo_worldly row' [''teamId'' \<mapsto> ''st1'', ''session_mode'' \<mapsto> ''syolo'', ''team_mcp_stdio_config'' \<mapsto> ''n'',
       ''provider_id'' \<mapsto> ''n''] \<and> wo_killed w' = [''ixxx'']"
proof -
  obtain w' where run: "Provision_Team.attach_agent_process (world_provision demo_worldly) ''u1'' demo_gil ''ocfg'' demo_talking =
      Some (Inr (), w')"
    using demo_attached(1) by (auto split: option.splits prod.splits sum.splits)
  have "speaks_json (we_json demo_worldly)" by (simp add: demo_worldly_def text_json_speaks)
  moreover have id: "ta_conversation_id demo_gil = ''ixxx''" by (simp add: demo_member_def eval_nat_numeral)
  then have "conversation_of (ta_conversation_id demo_gil) demo_talking = Some demo_talk_row"
    by (simp add: demo_talking_def demo_talk_row_def)
  ultimately obtain transport mode row' where
      "team_tool_transport (world_provision demo_worldly) demo_gil demo_talking = Some (Inr transport, demo_talking)"
      "agent_session_mode (world_provision demo_worldly) demo_gil demo_talking = Some (Inr mode, demo_talking)"
      "conversation_of ''ixxx'' w' = Some row'" "wo_killed w' = wo_killed demo_talking @ [''ixxx'']"
      and holds: "holds demo_worldly row' (map_of demo_talk ++
        map_of (tools_entries (tj_values (we_json demo_worldly)) transport demo_gil ''ocfg'' mode))"
    using attached_member_is_configured [OF _ run _ demo_holds] unfolding id by blast
  moreover from this have "transport = TransportCliAssumed" "mode = ''yolo''" using demo_attached(2,3) by auto
  moreover have "map_of demo_talk ++
      map_of (tools_entries (tj_values (we_json demo_worldly)) TransportCliAssumed demo_gil ''ocfg'' ''yolo'') =
      [''teamId'' \<mapsto> ''st1'', ''session_mode'' \<mapsto> ''syolo'', ''team_mcp_stdio_config'' \<mapsto> ''n'', ''provider_id'' \<mapsto> ''n'']"
    by (auto simp: demo_talk_def tools_entries_def demo_worldly_def text_json_def demo_member_def eq_ignore_ascii_case_def)
  ultimately show ?thesis by (auto simp: demo_talking_def demo_world_def)
qed

subsection \<open>Where a new member works\<close>

lemma usable_directory: "usable_runtime_workspace pv x = Some ws \<Longrightarrow> ws = x \<and> pv_path pv ws = PathDirectory"
  by (auto simp: usable_runtime_workspace_def validate_runtime_workspace_path_def validate_workspace_path_availability_def
      split: if_splits path_kind.splits)

lemma leader_read: "resolve_from_leader (world_provision we) team w = Some (r, w') \<Longrightarrow> w' = w \<and>
    (\<forall>ws. r = Inr (Some ws) \<longrightarrow> we_path we ws = PathDirectory)"
  by (auto simp: resolve_from_leader_def world_provision_def conversation_workspace_def find_conversation_def
      on_conversations_def conv_get_def act_cases bind_eq_Some_conv dest!: usable_directory split: option.splits)

lemma find_team_modified:
  "(\<And>t. tr_id (f t) = tr_id t) \<Longrightarrow>
     find (\<lambda>t. tr_id t = i) (modify_first (\<lambda>t. tr_id t = i) f ts) = map_option f (find (\<lambda>t. tr_id t = i) ts)"
  by (induction ts) auto

lemma workspace_written:
  assumes "write_team_workspace (world_provision we) i ws w = Some (Inr (), w')" and "mem_get_team i (wo_teams w) = Inr (Some row)"
  shows "\<exists>row'. mem_get_team i (wo_teams w') = Inr (Some row') \<and> tr_workspace row' = ws \<and> tr_agents row' = tr_agents row"
  using assms
  by (auto simp: write_team_workspace_def world_provision_def world_update_team_def mem_update_team_def mem_get_team_def
      no_update_def now_ms_def find_team_modified apply_team_params_def act_cases split: if_splits)

lemma conversations_teams: "on_conversations f w = Some (r, w') \<Longrightarrow> wo_teams w' = wo_teams w"
  by (cases "f (wo_conversations w)") (auto simp: on_conversations_def)

lemma and_then_kept:
  assumes "and_then m f w = Some (r, w')"
    and "\<And>r w1. m w = Some (r, w1) \<Longrightarrow> g w1 = g w" and "\<And>x w1. f x w1 = Some (r, w') \<Longrightarrow> g w' = g w1"
  shows "g w' = g w"
  using assms by (auto simp: and_then_Some)

lemma patched_teams:
  assumes "patch_runtime_config we i patch w = Some (r, w')"
  shows "wo_teams w' = wo_teams w"
  using assms unfolding patch_runtime_config_def find_conversation_def Let_def
  by (auto simp: now_ms_def ok_or_Some elim!: and_then_kept dest!: conversations_teams)

lemma temp_read: "pv_temp_workspace (world_provision we) i w = Some (r, w') \<Longrightarrow> w' = w"
  by (auto simp: world_provision_def create_team_temp_workspace_def Let_def split: option.splits)

lemma leader_patched:
  "patch_leader_workspace_best_effort (world_provision we) team ws w = Some (r, w') \<Longrightarrow> wo_teams w' = wo_teams w"
  by (auto simp: patch_leader_workspace_best_effort_def act_cases dest: patched_teams split: option.splits)

text \<open>C39: A new member works in a directory that exists. If that of its team is one it is the
  team's and nothing is changed; otherwise it is another one, which becomes the workspace of
  the stored team, whose agents stay as they are.\<close>

theorem new_member_works_where_its_team_does:
  assumes "resolve_for_new_agent (world_provision we) row team w = Some (Inr ws, w')"
    and "mem_get_team (tr_id row) (wo_teams w) = Inr (Some stored)"
  shows "we_path we ws = PathDirectory \<and>
    (if usable_runtime_workspace (world_provision we) (uc_trim (we_unicode we) (tr_workspace row)) \<noteq> None
     then ws = uc_trim (we_unicode we) (tr_workspace row) \<and> w' = w
     else \<exists>row'. mem_get_team (tr_id row) (wo_teams w') = Inr (Some row') \<and> tr_workspace row' = ws \<and>
       tr_agents row' = tr_agents stored)"
proof (cases "usable_runtime_workspace (world_provision we) (uc_trim (we_unicode we) (tr_workspace row))")
  case (Some x)
  with assms(1) usable_directory [OF Some] show ?thesis by (auto simp: resolve_for_new_agent_def)
next
  case None
  obtain found where leader: "resolve_from_leader (world_provision we) team w = Some (Inr found, w)"
    using assms(1) None by (auto simp: resolve_for_new_agent_def act_cases dest: leader_read)
  show ?thesis
  proof (cases found)
    case (Some x)
    with assms(1) None leader have "ws = x" "write_team_workspace (world_provision we) (tr_id row) ws w = Some (Inr (), w')"
      by (auto simp: resolve_for_new_agent_def act_cases)
    with leader_read [OF leader] Some None workspace_written [OF _ assms(2)] show ?thesis by auto
  next
    case new: None
    obtain w1 where valid: "validate_runtime_workspace_path (we_unicode we) (we_path we) ws = Inr ws"
      and "write_team_workspace (world_provision we) (tr_id row) ws w = Some (Inr (), w1)"
      and "patch_leader_workspace_best_effort (world_provision we) team ws w1 = Some (Inr (), w')"
      using assms(1) None leader new
      by (auto simp: resolve_for_new_agent_def act_cases validate_runtime_workspace_path_def
          validate_workspace_path_availability_def dest!: temp_read split: if_splits path_kind.splits)
    moreover have "we_path we ws = PathDirectory"
      using valid by (auto simp: validate_runtime_workspace_path_def validate_workspace_path_availability_def
          split: if_splits path_kind.splits)
    ultimately show ?thesis using None workspace_written [OF _ assms(2)] leader_patched by fastforce
  qed
qed

definition demo_moved :: "string world_env" where
  "demo_moved = demo_worldly\<lparr>we_path := (\<lambda>p. if p = ''/old'' then PathMissing else PathDirectory)\<rparr>"

definition demo_row :: team_row where
  "demo_row = new_team_row ''u1'' ''t1'' 3 ''Team'' \<lparr>it_agents = demo_members, it_lead_agent_id = None, it_workspace = ''/old''\<rparr> ''Ann and Gil''"

definition demo_stored :: world where
  "demo_stored = demo_world\<lparr>wo_teams := memory_new\<lparr>ms_teams := [demo_row]\<rparr>\<rparr>"

definition demo_team :: team where
  "demo_team = new_team ''t1'' 3 ''Team'' \<lparr>it_agents = demo_members, it_lead_agent_id = None, it_workspace = ''/old''\<rparr>"

lemma demo_resolved:
  "(case resolve_for_new_agent (world_provision demo_moved) demo_row demo_team demo_stored of
      Some (Inr ws, _) \<Rightarrow> ws = ''/w/conversations/team-temp-t1'' | _ \<Rightarrow> False) \<and>
    usable_runtime_workspace (world_provision demo_moved) (uc_trim (we_unicode demo_moved) (tr_workspace demo_row)) = None"
  by code_simp

theorem new_member_works_where_its_team_does_witness:
  "\<exists>w' row'. resolve_for_new_agent (world_provision demo_moved) demo_row demo_team demo_stored =
       Some (Inr ''/w/conversations/team-temp-t1'', w') \<and>
     mem_get_team ''t1'' (wo_teams w') = Inr (Some row') \<and> tr_workspace row' = ''/w/conversations/team-temp-t1''"
proof -
  obtain w' where run: "resolve_for_new_agent (world_provision demo_moved) demo_row demo_team demo_stored =
      Some (Inr ''/w/conversations/team-temp-t1'', w')"
    using demo_resolved by (auto split: option.splits prod.splits sum.splits)
  have id: "tr_id demo_row = ''t1''" by (simp add: demo_row_def new_team_row_def)
  then have "mem_get_team (tr_id demo_row) (wo_teams demo_stored) = Inr (Some demo_row)"
    by (simp add: demo_stored_def mem_get_team_def)
  from new_member_works_where_its_team_does [OF run this] demo_resolved run show ?thesis
    unfolding id by auto
qed

end
