(* ===== verification/Turn_Adapter.thy ===== *)
theory Turn_Adapter
  imports Turn_Loop Conversation_Ports
begin

text \<open>
  The turn port of the application (crates/team/src/acp_turn_adapter.rs with crates/acp/src/
  launch.rs): which command a backend is, which backend and directory a conversation has, and
  a turn from its announcement to the message it leaves. The turn of the agent process itself
  (\<open>run_acp_turn\<close>) is an argument, as is what the callback of the request does.
\<close>

subsection \<open>Commands\<close>

record launch_config =
  lc_backend :: string
  lc_executable :: string
  lc_args :: "string list"

text \<open>\<open>which\<close> looks a file up in the directories of \<open>PATH\<close>.\<close>

definition backslash :: string where "backslash = [CHR 0x5C]"

definition npx_cmd :: "(string \<Rightarrow> string option) \<Rightarrow> string" where
  "npx_cmd which =
     (case or_else (which ''npx.cmd'') (which ''npx'') of
        Some path \<Rightarrow> path
      | None \<Rightarrow> ''C:'' @ backslash @ ''Program Files'' @ backslash @ ''nodejs'' @ backslash @ ''npx.cmd'')"

definition grok_bin :: "(string \<Rightarrow> string option) \<Rightarrow> string" where
  "grok_bin which =
     (case or_else (which ''grok.exe'') (which ''grok'') of
        Some path \<Rightarrow> path
      | None \<Rightarrow> ''C:'' @ backslash @ ''Users'' @ backslash @ ''Administrator'' @ backslash @ ''.grok'' @ backslash @ ''bin'' @
          backslash @ ''grok.exe'')"

definition for_backend :: "unicode_ops \<Rightarrow> (string \<Rightarrow> string option) \<Rightarrow> string \<Rightarrow> launch_config option" where
  "for_backend uc which b =
     (let backend = to_ascii_lowercase (uc_trim uc b)
      in if backend = ''codex''
         then Some \<lparr>lc_backend = ''codex'', lc_executable = npx_cmd which, lc_args = [''-y'', ''@zed-industries/codex-acp@0.14.0'']\<rparr>
         else if backend = ''grok''
         then Some \<lparr>lc_backend = ''grok'', lc_executable = grok_bin which, lc_args = [''agent'', ''stdio'']\<rparr>
         else if backend = ''claude''
         then Some \<lparr>lc_backend = ''claude'', lc_executable = npx_cmd which,
                    lc_args = [''-y'', ''@agentclientprotocol/claude-agent-acp@0.39.0'']\<rparr>
         else None)"

subsection \<open>The port\<close>

record turn_world =
  td_active :: "((ident \<times> ident) \<times> bool) list" \<comment> \<open>the cancel flag of each turn that runs\<close>
  td_conversations :: conv_state
  td_broadcast :: "(ident \<times> ident \<times> string) list" \<comment> \<open>conversation, turn, text\<close>
  td_draws :: nat

datatype agent_error =
    AgentBadRequest string | AgentNotFound string | AgentInternal string | AgentTimeout string | AgentSend string

fun agent_error_display :: "agent_error \<Rightarrow> string" where
  "agent_error_display (AgentBadRequest s) = ''Bad request: '' @ s"
| "agent_error_display (AgentNotFound s) = ''Not found: '' @ s"
| "agent_error_display (AgentInternal s) = ''Internal error: '' @ s"
| "agent_error_display (AgentTimeout s) = ''Timeout: '' @ s"
| "agent_error_display (AgentSend s) = ''Send error: '' @ s"

record acp_turn_input =
  an_backend :: string
  an_workspace :: string
  an_prompt :: string

record acp_turn_result =
  ar_session_id :: "ident option"
  ar_response_text :: string
  ar_updates :: nat
  ar_stop_reason :: "string option"
  ar_cancelled :: bool

record runtime_summary =
  ru_conversation_id :: ident
  ru_status :: "string option"
  ru_mode :: "string option"
  ru_model :: "string option"

record adapter_outcome = turn_outcome +
  to_runtime :: "runtime_summary option"

record 'j adapter =
  ad_json :: "'j tool_json"
  ad_unicode :: unicode_ops
  ad_which :: "string \<Rightarrow> string option"
  ad_is_dir :: "string \<Rightarrow> bool"
  ad_make_dir :: "string \<Rightarrow> string option"
  ad_ids :: "nat \<Rightarrow> ident"
  ad_clock :: "nat \<Rightarrow> timestamp"
  ad_default_backend :: string
  ad_default_workspace :: string
  ad_run :: "acp_turn_input \<Rightarrow> ident \<times> ident \<Rightarrow> turn_world \<Rightarrow> (agent_error + acp_turn_result) \<times> turn_world"

text \<open>The extra data of the conversation, if it is there and can be read.\<close>

definition extra_value :: "'j adapter \<Rightarrow> ident \<Rightarrow> turn_world \<Rightarrow> 'j option" where
  "extra_value ad conversation_id w =
     (case conv_get conversation_id (td_conversations w) of
        Inl _ \<Rightarrow> None
      | Inr row \<Rightarrow> Option.bind row (\<lambda>r. result_ok (tj_from_str (ad_json ad) (cv_extra r))))"

definition trimmed_field :: "'j adapter \<Rightarrow> 'j \<Rightarrow> string \<Rightarrow> string option" where
  "trimmed_field ad v key =
     nonblank (ad_unicode ad) (Option.bind (jv_get (tj_values (ad_json ad)) key v) (jv_as_str (tj_values (ad_json ad))))"

definition resolve_backend :: "'j adapter \<Rightarrow> ident \<Rightarrow> turn_world \<Rightarrow> string" where
  "resolve_backend ad conversation_id w =
     (case Option.bind (extra_value ad conversation_id w) (\<lambda>extra.
        find (\<lambda>b. for_backend (ad_unicode ad) (ad_which ad) b \<noteq> None)
          (List.map_filter (trimmed_field ad extra) [''execution_backend'', ''backend'', ''assistant_backend''])) of
        Some b \<Rightarrow> to_ascii_lowercase b
      | None \<Rightarrow> ad_default_backend ad)"

definition resolve_workspace :: "'j adapter \<Rightarrow> ident \<Rightarrow> turn_world \<Rightarrow> string" where
  "resolve_workspace ad conversation_id w =
     (case Option.bind (extra_value ad conversation_id w) (\<lambda>extra. trimmed_field ad extra ''workspace'') of
        Some path \<Rightarrow> if ad_is_dir ad path \<or> ad_make_dir ad path = None then path else ad_default_workspace ad
      | None \<Rightarrow> ad_default_workspace ad)"

definition flag_on :: "ident \<times> ident \<Rightarrow> turn_world \<Rightarrow> bool" where
  "flag_on key w \<longleftrightarrow> map_of (td_active w) key = Some True"

definition forget_turn :: "ident \<times> ident \<Rightarrow> turn_world \<Rightarrow> turn_world" where
  "forget_turn key w = w\<lparr>td_active := filter (\<lambda>(k, _). k \<noteq> key) (td_active w)\<rparr>"

definition signal_cancel :: "ident \<Rightarrow> ident \<Rightarrow> turn_world \<Rightarrow> turn_world" where
  "signal_cancel conversation_id turn_id w =
     w\<lparr>td_active := map (\<lambda>(k, b). (k, b \<or> k = (conversation_id, turn_id))) (td_active w)\<rparr>"

text \<open>The message the turn leaves in its conversation; an error of the store is ignored.\<close>

definition answer_row :: "'j adapter \<Rightarrow> ident \<Rightarrow> string \<Rightarrow> nat \<Rightarrow> chat_row" where
  "answer_row ad conversation_id text n =
     \<lparr>ch_id = ad_ids ad (Suc n), ch_conversation_id = conversation_id, ch_msg_id = Some (ad_ids ad n), ch_type = ''text'',
      ch_content = tj_to_string (ad_json ad) (jv_obj (tj_values (ad_json ad)) [(''text'', jv_str (tj_values (ad_json ad)) text)]),
      ch_position = Some ''left'', ch_status = Some ''finish'', ch_hidden = False, ch_created_at = ad_clock ad n\<rparr>"

definition persist_assistant_text :: "'j adapter \<Rightarrow> ident \<Rightarrow> string \<Rightarrow> turn_world \<Rightarrow> turn_world" where
  "persist_assistant_text ad conversation_id text w =
     w\<lparr>td_conversations := snd (conv_insert_message (answer_row ad conversation_id text (td_draws w)) (td_conversations w)),
       td_draws := td_draws w + 2\<rparr>"

definition show_answer :: "'j adapter \<Rightarrow> ident \<times> ident \<Rightarrow> string \<Rightarrow> turn_world \<Rightarrow> turn_world" where
  "show_answer ad key text w =
     (if text = [] then w
      else let w1 = persist_assistant_text ad (fst key) text w
           in w1\<lparr>td_broadcast := td_broadcast w1 @ [(fst key, snd key, text)]\<rparr>)"

definition turn_outcome_of ::
  "ident \<times> ident \<Rightarrow> turn_status \<Rightarrow> string option \<Rightarrow> runtime_summary option \<Rightarrow> adapter_outcome" where
  "turn_outcome_of key status text runtime =
     \<lparr>to_conversation_id = fst key, to_turn_id = snd key, to_status = status, to_response_text = text, to_runtime = runtime\<rparr>"

definition some_text :: "string \<Rightarrow> string option" where
  "some_text text = (if text = [] then None else Some text)"

definition conclude_turn ::
  "'j adapter \<Rightarrow> ident \<times> ident \<Rightarrow> string \<Rightarrow> agent_error + acp_turn_result \<Rightarrow> turn_world
     \<Rightarrow> (turn_error + adapter_outcome) \<times> turn_world" where
  "conclude_turn ad key backend r w =
     (case r of
        Inr result \<Rightarrow>
          if ar_cancelled result
          then (Inr (turn_outcome_of key TurnStatusFailed (some_text (ar_response_text result))
                  (Some \<lparr>ru_conversation_id = fst key, ru_status = Some ''cancelled'', ru_mode = None, ru_model = None\<rparr>)), w)
          else (Inr (turn_outcome_of key TurnCompleted (some_text (ar_response_text result))
                  (Some \<lparr>ru_conversation_id = fst key, ru_status = Some ''finished'', ru_mode = None, ru_model = Some backend\<rparr>)),
                show_answer ad key (ar_response_text result) w)
      | Inl (AgentTimeout msg) \<Rightarrow> (Inl (TurnFailed msg), w)
      | Inl e \<Rightarrow> (Inl (TurnFailed (agent_error_display e)), w))"

definition run_agent_turn ::
  "'j adapter \<Rightarrow> turn_request \<Rightarrow> (turn_started \<Rightarrow> turn_world \<Rightarrow> turn_world) \<Rightarrow> turn_world
     \<Rightarrow> (turn_error + adapter_outcome) \<times> turn_world" where
  "run_agent_turn ad req announce w =
     (let conversation_id = tq_conversation_id req;
          turn_id = ad_ids ad (td_draws w);
          key = (conversation_id, turn_id);
          w1 = announce
            \<lparr>ts_team_run_id = tq_team_run_id req, ts_slot_id = tq_slot_id req, ts_role = tq_role req,
             ts_conversation_id = conversation_id, ts_turn_id = turn_id\<rparr>
            (w\<lparr>td_draws := Suc (td_draws w), td_active := AList.update key False (td_active w)\<rparr>)
      in if flag_on key w1 then (Inr (turn_outcome_of key TurnStatusFailed None None), forget_turn key w1)
         else let backend = resolve_backend ad conversation_id w1
              in if for_backend (ad_unicode ad) (ad_which ad) backend = None
                 then (Inl (TurnFailed (''unsupported ACP backend: '' @ backend)), forget_turn key w1)
                 else case ad_run ad \<lparr>an_backend = backend, an_workspace = resolve_workspace ad conversation_id w1,
                                      an_prompt = tq_content req\<rparr> key w1 of
                        (r, w2) \<Rightarrow> conclude_turn ad key backend r (forget_turn key w2))"

definition cancel_running_turn :: "ident \<Rightarrow> ident \<Rightarrow> turn_world \<Rightarrow> (turn_error + unit) \<times> turn_world" where
  "cancel_running_turn conversation_id turn_id w = (Inr (), signal_cancel conversation_id turn_id w)"

end
