(* ===== verification/Team_Seed.thy ===== *)
theory Team_Seed
  imports Creation_Claims
begin

text \<open>
  The data the application starts with (crates/app/src/seed.rs): the three agent runtimes and an
  assistant for each. With them a team can be made of any assistants of the catalogue.
\<close>

subsection \<open>The seed\<close>

definition seed_agent ::
  "ident \<Rightarrow> string \<Rightarrow> string \<Rightarrow> string \<Rightarrow> string \<Rightarrow> string option \<Rightarrow> int \<Rightarrow> upsert_metadata" where
  "seed_agent i name description command args yolo_id sort_order =
     \<lparr>um_id = i, um_icon = None, um_name = name, um_name_i18n = None, um_description = Some description,
      um_description_i18n = None, um_backend = Some i, um_agent_type = ''acp'', um_agent_source = ''builtin'',
      um_agent_source_info = None, um_enabled = True, um_command = Some command, um_args = Some args, um_env = None,
      um_native_skills_dirs = None, um_behavior_policy = None, um_yolo_id = yolo_id, um_agent_capabilities = None,
      um_auth_methods = None, um_config_options = None, um_available_modes = None, um_available_models = None,
      um_available_commands = None, um_sort_order = sort_order\<rparr>"

definition windows_path :: "string list \<Rightarrow> string" where
  "windows_path parts = join [CHR 0x5C] parts"

definition string_array :: "string list \<Rightarrow> string" where
  "string_array xs = ''['' @ join '','' (map in_quotes xs) @ '']''"

definition seed_agents :: "upsert_metadata list" where
  "seed_agents =
     [seed_agent ''claude'' ''Claude'' ''Claude Code via ACP bridge''
        (windows_path [''C:'', ''Program Files'', ''nodejs'', ''npx.cmd''])
        (string_array [''-y'', ''@agentclientprotocol/claude-agent-acp@0.39.0'']) (Some ''bypassPermissions'') 10,
      seed_agent ''codex'' ''Codex'' ''OpenAI Codex via ACP bridge''
        (windows_path [''C:'', ''Program Files'', ''nodejs'', ''npx.cmd''])
        (string_array [''-y'', ''@zed-industries/codex-acp@0.14.0'']) (Some ''agent-full-access'') 20,
      seed_agent ''grok'' ''Grok'' ''Grok CLI agent stdio ACP''
        (windows_path [''C:'', ''Users'', ''Administrator'', ''.grok'', ''bin'', ''grok.exe''])
        (string_array [''agent'', ''stdio'']) None 30]"

definition seed_definitions :: "upsert_assistant list" where
  "seed_definitions =
     [\<lparr>ua_id = ''def-claude'', ua_assistant_id = ''asst-claude'', ua_name = ''Claude Lead'', ua_agent_id = ''claude''\<rparr>,
      \<lparr>ua_id = ''def-grok'', ua_assistant_id = ''asst-grok'', ua_name = ''Grok Worker'', ua_agent_id = ''grok''\<rparr>,
      \<lparr>ua_id = ''def-codex'', ua_assistant_id = ''asst-codex'', ua_name = ''Codex Reviewer'', ua_agent_id = ''codex''\<rparr>]"

text \<open>Upserts in memory do not fail; each reads the clock, twice for an agent.\<close>

definition seed_runtime_agents :: "(nat \<Rightarrow> timestamp) \<Rightarrow> meta_state \<Rightarrow> meta_state" where
  "seed_runtime_agents clock s =
     fold (\<lambda>(n, p) s. snd (assistant_upsert (clock n) p s)) (enumerate 6 seed_definitions)
       (fold (\<lambda>(n, p) s. snd (meta_upsert (clock (2 * n)) (clock (2 * n + 1)) p s)) (enumerate 0 seed_agents) s)"

subsection \<open>What is there afterwards\<close>

lemma modified_has:
  "find (\<lambda>r. am_id r = i) rs \<noteq> None \<Longrightarrow> row \<in> set (modify_first (\<lambda>r. am_id r = i) (\<lambda>_. row) rs)"
  by (induction rs) (auto split: if_splits)

lemma modified_keeps:
  "r \<in> set rs \<Longrightarrow> am_id r \<noteq> i \<Longrightarrow> r \<in> set (modify_first (\<lambda>r. am_id r = i) f rs)"
  by (induction rs) auto

definition usable :: "string \<Rightarrow> meta_state \<Rightarrow> bool" where
  "usable backend s \<longleftrightarrow> (\<exists>r \<in> set (mt_agents s). am_id r = backend \<and> am_agent_type r = ''acp'' \<and> am_backend r = Some backend)"

lemma upsert_row [simp]:
  "am_id (row_from_upsert now p) = um_id p" "am_agent_type (row_from_upsert now p) = um_agent_type p"
  "am_backend (row_from_upsert now p) = um_backend p"
  by (simp_all add: row_from_upsert_def)

lemma upsert_usable:
  assumes "um_agent_type p = ''acp''" and "um_backend p = Some (um_id p)"
  shows "usable (um_id p) (snd (meta_upsert now now1 p s))"
proof -
  let ?rs = "mt_agents (snd (meta_upsert now now1 p s))"
  obtain row where "row \<in> set ?rs" "am_id row = um_id p" "am_agent_type row = um_agent_type p" "am_backend row = um_backend p"
  proof (cases "find (\<lambda>r. am_id r = um_id p) (mt_agents s)")
    case None
    with that [of "row_from_upsert now p"] show thesis by (simp add: meta_upsert_def Let_def)
  next
    case (Some old)
    let ?row = "(row_from_upsert now p)\<lparr>am_created_at := am_created_at old, am_updated_at := now1\<rparr>"
    have "?row \<in> set (modify_first (\<lambda>r. am_id r = um_id p) (\<lambda>_. ?row) (mt_agents s))"
      using Some by (intro modified_has) simp
    with that [of ?row] Some show thesis by (simp add: meta_upsert_def Let_def)
  qed
  with assms show ?thesis by (auto simp: usable_def)
qed

lemma upsert_keeps: "usable b s \<Longrightarrow> um_id p \<noteq> b \<Longrightarrow> usable b (snd (meta_upsert now now1 p s))"
  using modified_keeps [where i = "um_id p"]
  by (fastforce simp: usable_def meta_upsert_def Let_def split: option.split)

lemma definitions_keep: "mt_agents (fold (\<lambda>(n, p) s. snd (assistant_upsert (clock n) p s)) ps s) = mt_agents s"
  by (induction ps arbitrary: s) (auto simp: assistant_upsert_def Let_def split: option.split)

lemma agents_seeded:
  "usable ''claude'' (fold (\<lambda>(n, p) s. snd (meta_upsert (clock (2 * n)) (clock (2 * n + 1)) p s)) (enumerate 0 seed_agents) s)"
  "usable ''codex'' (fold (\<lambda>(n, p) s. snd (meta_upsert (clock (2 * n)) (clock (2 * n + 1)) p s)) (enumerate 0 seed_agents) s)"
  "usable ''grok'' (fold (\<lambda>(n, p) s. snd (meta_upsert (clock (2 * n)) (clock (2 * n + 1)) p s)) (enumerate 0 seed_agents) s)"
proof -
  define claude where "claude = seed_agents ! 0"
  define codex where "codex = seed_agents ! 1"
  define grok where "grok = seed_agents ! 2"
  have list: "seed_agents = [claude, codex, grok]" by (simp add: claude_def codex_def grok_def seed_agents_def)
  have ids: "um_id claude = ''claude''" "um_id codex = ''codex''" "um_id grok = ''grok''"
    and types: "um_agent_type claude = ''acp''" "um_agent_type codex = ''acp''" "um_agent_type grok = ''acp''"
    and backends: "um_backend claude = Some ''claude''" "um_backend codex = Some ''codex''" "um_backend grok = Some ''grok''"
    by (simp_all add: claude_def codex_def grok_def seed_agents_def seed_agent_def)
  note has = upsert_usable [of claude] upsert_usable [of codex] upsert_usable [of grok]
  note facts = has [unfolded ids types backends, OF refl refl]
  show "usable ''claude'' (fold (\<lambda>(n, p) s. snd (meta_upsert (clock (2 * n)) (clock (2 * n + 1)) p s)) (enumerate 0 seed_agents) s)"
    and "usable ''codex'' (fold (\<lambda>(n, p) s. snd (meta_upsert (clock (2 * n)) (clock (2 * n + 1)) p s)) (enumerate 0 seed_agents) s)"
    and "usable ''grok'' (fold (\<lambda>(n, p) s. snd (meta_upsert (clock (2 * n)) (clock (2 * n + 1)) p s)) (enumerate 0 seed_agents) s)"
    by (simp_all add: list upsert_keeps facts ids)
qed

lemma seeded_usable:
  assumes "b \<in> {''claude'', ''codex'', ''grok''}"
  shows "find_acp_backend_metadata (mt_agents (seed_runtime_agents clock s)) b \<noteq> None"
  using assms agents_seeded [of clock s]
  by (auto simp: usable_def seed_runtime_agents_def definitions_keep find_acp_backend_metadata_def find_None_iff)

subsection \<open>Making a team of the catalogue\<close>

definition plain_kept :: "unicode_ops \<Rightarrow> bool" where
  "plain_kept uc \<longleftrightarrow>
     (\<forall>s. list_all (\<lambda>c. c = CHR ''-'' \<or> 97 \<le> (of_char c :: nat) \<and> (of_char c :: nat) \<le> 122) s \<longrightarrow> uc_trim uc s = s)"

text \<open>Identifiers that were not drawn yet are those of no conversation and no team.\<close>

definition ready :: "'j world_env \<Rightarrow> world \<Rightarrow> bool" where
  "ready we w \<longleftrightarrow>
     (\<forall>b \<in> {''claude'', ''codex'', ''grok''}. find_acp_backend_metadata (mt_agents (wo_meta w)) b \<noteq> None) \<and>
     (\<forall>n \<ge> wo_draws w. we_ids we n \<notin> cv_id ` set (conversations w) \<and> we_ids we n \<notin> tr_id ` set (ms_teams (wo_teams w)))"

definition in_catalog :: "ident option \<Rightarrow> bool" where
  "in_catalog assistant_id \<longleftrightarrow> assistant_id \<in> Some ` ce_assistant_id ` set default_catalog"

lemma catalog_backend:
  assumes "plain_kept (we_unicode we)" and "in_catalog assistant_id"
  shows "nonblank (we_unicode we) assistant_id = assistant_id \<and>
    (\<exists>b \<in> {''claude'', ''codex'', ''grok''}.
       resolve_requested_backend (world_provision we) requested assistant_id w = Some (Inr b, w))"
proof -
  have kept: "uc_trim (we_unicode we) ''asst-claude'' = ''asst-claude''" "uc_trim (we_unicode we) ''asst-grok'' = ''asst-grok''"
      "uc_trim (we_unicode we) ''asst-codex'' = ''asst-codex''"
    using assms(1) by (simp_all add: plain_kept_def)
  have "assistant_id \<in> {Some ''asst-claude'', Some ''asst-grok'', Some ''asst-codex''}"
    using assms(2) by (auto simp: in_catalog_def default_catalog_def)
  with kept show ?thesis
    by (elim insertE)
      (simp_all add: nonblank_def resolve_requested_backend_def resolve_team_selectable_assistant_def and_then_def
         world_provision_def default_catalog_def ok_or_def)
qed

lemma conversation_stored:
  assumes "we_ids we (wo_draws w) \<notin> cv_id ` set (conversations w)"
  shows "\<exists>row. cv_id row = we_ids we (wo_draws w) \<and>
    create_team_conversation we request w =
      Some (Inr \<lparr>nc_conversation_id = we_ids we (wo_draws w),
                 nc_workspace = chosen_workspace we (we_ids we (wo_draws w)) (qc_extra request)\<rparr>,
            w\<lparr>wo_draws := wo_draws w + 3,
              wo_conversations := (wo_conversations w)\<lparr>cs_conversations := conversations w @ [row]\<rparr>\<rparr>)"
  using assms
  by (intro exI [of _ "conversation_row_of we (we_ids we (wo_draws w))
        (chosen_workspace we (we_ids we (wo_draws w)) (qc_extra request)) (we_clock we (Suc (wo_draws w)))
        (we_clock we (Suc (Suc (wo_draws w)))) request"])
    (auto simp: create_team_conversation_def and_then_def draw_id_def now_ms_def on_conversations_def conv_create_def
      conversation_row_of_def list_ex_iff image_iff Let_def eval_nat_numeral)

lemma conversation_made:
  assumes ready: "ready we w" and inj: "inj (we_ids we)" and backend: "na_backend na \<in> {''claude'', ''codex'', ''grok''}"
    and letters: "keeps_letters (we_unicode we)"
  shows "\<exists>c w'. create_team_conversation_for_agent (world_provision we) na w = Some (Inr c, w') \<and> ready we w' \<and>
    wo_teams w' = wo_teams w \<and> wo_draws w \<le> wo_draws w' \<and> uc_trim (we_unicode we) (nc_workspace c) \<noteq> []"
proof -
  obtain meta where meta: "find_acp_backend_metadata (mt_agents (wo_meta w)) (na_backend na) = Some meta"
    using ready backend by (force simp: ready_def)
  have run: "create_team_conversation_for_agent (world_provision we) na w =
      create_team_conversation we (conversation_request_of (world_provision we) na Acp (Some meta)) w"
    using meta
    by (simp add: create_team_conversation_for_agent_def acp_backend_metadata_def runtime_agent_type_def and_then_def
        meta_list_all_def world_provision_def)
  have new: "we_ids we (wo_draws w) \<notin> cv_id ` set (conversations w)" using ready by (simp add: ready_def)
  obtain row where "cv_id row = we_ids we (wo_draws w)"
    and stored: "create_team_conversation we (conversation_request_of (world_provision we) na Acp (Some meta)) w =
      Some (Inr \<lparr>nc_conversation_id = we_ids we (wo_draws w),
                 nc_workspace = chosen_workspace we (we_ids we (wo_draws w))
                   (qc_extra (conversation_request_of (world_provision we) na Acp (Some meta)))\<rparr>,
            w\<lparr>wo_draws := wo_draws w + 3,
              wo_conversations := (wo_conversations w)\<lparr>cs_conversations := conversations w @ [row]\<rparr>\<rparr>)"
    using conversation_stored [OF new] by blast
  moreover from this(1) have "ready we (w\<lparr>wo_draws := wo_draws w + 3,
      wo_conversations := (wo_conversations w)\<lparr>cs_conversations := conversations w @ [row]\<rparr>\<rparr>)"
    using ready inj by (auto simp: ready_def dest: injD)
  ultimately show ?thesis using run workspace_nonblank [OF letters] by simp
qed

lemma input_made:
  assumes ready: "ready we w" and env: "inj (we_ids we)" "keeps_letters (we_unicode we)" "plain_kept (we_unicode we)"
    and catalog: "in_catalog (ai_assistant_id input)"
  shows "\<exists>a c w'. provision_input (world_provision we) user_id team_id ws (input, role) w = Some (Inr (a, c), w') \<and>
    ready we w' \<and> wo_teams w' = wo_teams w \<and> wo_draws w \<le> wo_draws w' \<and> uc_trim (we_unicode we) (nc_workspace c) \<noteq> []"
proof -
  let ?w = "w\<lparr>wo_draws := Suc (wo_draws w)\<rparr>"
  obtain b where b: "b \<in> {''claude'', ''codex'', ''grok''}"
    and backend: "resolve_requested_backend (world_provision we) (ai_backend input) (ai_assistant_id input) ?w = Some (Inr b, ?w)"
    using catalog_backend [OF env(3) catalog] by blast
  have same: "nonblank (we_unicode we) (ai_assistant_id input) = ai_assistant_id input"
    using catalog_backend [OF env(3) catalog] by blast
  have ready': "ready we ?w" using ready by (auto simp: ready_def)
  let ?na = "\<lparr>na_user_id = user_id, na_team_id = team_id, na_slot_id = we_ids we (wo_draws w), na_name = ai_name input,
      na_role = role, na_backend = b, na_model = ai_model input, na_assistant_id = ai_assistant_id input,
      na_workspace = ws, na_session_mode = None\<rparr>"
  obtain c w' where "create_team_conversation_for_agent (world_provision we) ?na ?w = Some (Inr c, w')" "ready we w'"
      "wo_teams w' = wo_teams ?w" "wo_draws ?w \<le> wo_draws w'" "uc_trim (we_unicode we) (nc_workspace c) \<noteq> []"
    using conversation_made [OF ready' env(1) _ env(2), of ?na] b by auto
  then show ?thesis
    using backend same by (simp add: provision_input_def and_then_def draw_id_def Let_def)
qed

lemma teammates_made:
  assumes env: "inj (we_ids we)" "keeps_letters (we_unicode we)" "plain_kept (we_unicode we)"
  shows "ready we w \<Longrightarrow> \<forall>x \<in> set inputs. in_catalog (ai_assistant_id (fst x)) \<Longrightarrow>
    \<exists>agents w'. provision_teammates (world_provision we) user_id team_id ws inputs w = Some (Inr agents, w') \<and>
      wo_teams w' = wo_teams w"
proof (induction inputs arbitrary: w)
  case (Cons x inputs)
  obtain a c w1 where x: "provision_input (world_provision we) user_id team_id (Some ws) x w = Some (Inr (a, c), w1)"
      "ready we w1" "wo_teams w1 = wo_teams w"
    using input_made [OF Cons.prems(1) env, of "fst x" user_id team_id "Some ws" "snd x"] Cons.prems(2) by auto
  with Cons.IH [of w1] Cons.prems(2) show ?case by (auto simp: and_then_def)
qed simp

lemma initial_agents_made:
  assumes ready: "ready we w" and env: "inj (we_ids we)" "keeps_letters (we_unicode we)" "plain_kept (we_unicode we)"
    and lead: "one_lead (we_unicode we) inputs" and catalog: "\<forall>x \<in> set inputs. in_catalog (ai_assistant_id x)"
  shows "\<exists>made w'. provision_initial_agents (world_provision we) user_id team_id inputs None w = Some (Inr made, w') \<and>
    wo_teams w' = wo_teams w"
proof -
  obtain roles where roles: "normalized_roles (we_unicode we) inputs = Inr roles" "length (filter (\<lambda>r. r = Lead) roles) = 1"
    using lead by (auto simp: one_lead_def split: sum.splits)
  then obtain x where x: "filter (\<lambda>(_, role). role = Lead) (zip inputs roles) = [x]"
    using lead_entry [OF roles_length] by (metis (no_types, lifting) One_nat_def length_0_conv length_Suc_conv)
  have "x \<in> set (filter (\<lambda>(_, role). role = Lead) (zip inputs roles))" using x by simp
  then have "(fst x, snd x) \<in> set (zip inputs roles)" by simp
  then have "fst x \<in> set inputs" by (rule set_zip_leftD)
  then have in_x: "in_catalog (ai_assistant_id (fst x))" using catalog by (metis (full_types))
  obtain leader c w1 where leader: "provision_input (world_provision we) user_id team_id None x w = Some (Inr (leader, c), w1)"
      "ready we w1" "wo_teams w1 = wo_teams w" "uc_trim (we_unicode we) (nc_workspace c) \<noteq> []"
    using input_made [OF ready env in_x, of user_id team_id None "snd x"] by auto
  let ?ws = "uc_trim (we_unicode we) (nc_workspace c)"
  have ws: "resolve_initial_leader_workspace (world_provision we) team_id c w1 = Some (Inr ?ws, w1)"
    using leader(4) by (simp add: resolve_initial_leader_workspace_def nonblank_def)
  have rest: "\<forall>x \<in> set (filter (\<lambda>(_, role). role = Teammate) (zip inputs roles)). in_catalog (ai_assistant_id (fst x))"
    using catalog by (auto dest: set_zip_leftD)
  obtain teammates w2 where "provision_teammates (world_provision we) user_id team_id ?ws
      (filter (\<lambda>(_, role). role = Teammate) (zip inputs roles)) w1 = Some (Inr teammates, w2)" "wo_teams w2 = wo_teams w1"
    using teammates_made [OF env leader(2) rest] by blast
  moreover have "inputs \<noteq> []" using x by auto
  ultimately show ?thesis using roles(1) x leader(1,3) ws by (simp add: provision_initial_agents_def and_then_def)
qed

lemma agent_answered: "\<exists>r. build_agent_response (world_creation we confirmations) agent w = Some (Inr r, w)"
  by (auto simp: build_agent_response_def resolve_agent_icon_def assistant_picture_def from_db_def and_then_def
      world_creation_def assistant_by_assistant_id_def meta_find_builtin_by_backend_def split: option.split)

lemma agents_answered: "\<exists>rs. build_agent_responses (world_creation we confirmations) agents w = Some (Inr rs, w)"
proof (induction agents)
  case (Cons a agents)
  with agent_answered [of we confirmations a w] show ?case by (auto simp: and_then_def)
qed simp

text \<open>C18: Every team asked for with assistants of the catalogue is made: on the data the application
  starts with, a request with one lead, whose assistants are all in the catalogue and that names
  no workspace and no conversations, ends with the new team.\<close>

theorem team_of_the_catalog_is_made:
  assumes "mt_agents (wo_meta w) = mt_agents (seed_runtime_agents clock meta)"
    and "\<forall>n \<ge> wo_draws w. we_ids we n \<notin> cv_id ` set (conversations w) \<and> we_ids we n \<notin> tr_id ` set (ms_teams (wo_teams w))"
    and "inj (we_ids we)" and "keeps_letters (we_unicode we)" and "plain_kept (we_unicode we)"
    and "\<And>agents. \<exists>text. we_agents_to we agents = Inr text"
    and "one_lead (we_unicode we) (tq_agents req)" and "tq_workspace req = None"
    and "\<forall>x \<in> set (tq_agents req). in_catalog (ai_assistant_id x) \<and> ai_conversation_id x = None"
  shows "\<exists>resp w'. create_team (world_creation we confirmations) user_id req w = Some (Inr resp, w') \<and>
    trs_id resp = we_ids we (wo_draws w)"
proof -
  have agents: "tq_agents req \<noteq> []" "\<not> list_ex (reuses_conversation (we_unicode we)) (tq_agents req)"
    using assms(7,9) by (auto simp: one_lead_def list_ex_iff reuses_conversation_def nonblank_def)
  let ?id = "we_ids we (wo_draws w)" and ?now = "we_clock we (Suc (wo_draws w))"
  let ?w = "w\<lparr>wo_draws := Suc (Suc (wo_draws w))\<rparr>"
  have "ready we ?w"
    using assms(1,2) seeded_usable [of _ clock meta] unfolding ready_def by simp
  then obtain made w2 where made: "provision_initial_agents (world_provision we) user_id ?id (tq_agents req) None ?w = Some (Inr made, w2)"
      "wo_teams w2 = wo_teams w"
    using initial_agents_made [OF _ assms(3-5,7), of ?w user_id ?id] assms(9) by auto
  obtain agents_json where json: "we_agents_to we (it_agents made) = Inr agents_json" using assms(6) by blast
  let ?row = "new_team_row user_id ?id ?now (tq_name req) made agents_json"
  have "?id \<notin> tr_id ` set (ms_teams (wo_teams w2))" using assms(2) made(2) by auto
  then have "\<not> list_ex (\<lambda>t. tr_id t = tr_id ?row) (ms_teams (wo_teams w2))"
    by (auto simp: list_ex_iff new_team_row_def image_iff)
  then obtain w3 where stored: "tv_create_team (world_creation we confirmations) ?row w2 = Some (Inr (), w3)"
    by (simp add: mem_create_team_def)
  obtain w4 where told: "tv_announce_created (world_creation we confirmations) ?id (tq_name req) w3 = Some (Inr (), w4)" by simp
  obtain rs where "build_agent_responses (world_creation we confirmations) (it_agents made) w4 = Some (Inr rs, w4)"
    using agents_answered by blast
  then obtain resp where answer: "build_team_response (world_creation we confirmations) (new_team ?id ?now (tq_name req) made) w4 = Some (Inr resp, w4)"
      "trs_id resp = ?id"
    by (auto simp: build_team_response_def new_team_def and_then_def)
  have "create_team (world_creation we confirmations) user_id req w = Some (Inr resp, w4)"
    using agents assms(8) made(1) json stored told answer(1)
    by (simp add: create_team_def requested_workspace_def and_then_def draw_id_def now_ms_def Let_def)
  with answer(2) show ?thesis by blast
qed

text \<open>An example: the world the application starts with.\<close>

definition demo_start :: world where
  "demo_start = demo_world\<lparr>wo_meta := seed_runtime_agents (\<lambda>n. 7) meta_new\<rparr>"

definition demo_app :: "string world_env" where
  "demo_app = demo_worldly\<lparr>we_agents_to := (\<lambda>_. Inr ''agents'')\<rparr>"

theorem team_of_the_catalog_is_made_witness:
  "\<exists>resp w'. create_team (world_creation demo_app (\<lambda>_ _. 0)) ''u1'' demo_wish demo_start = Some (Inr resp, w') \<and> trs_id resp = ''i''"
proof -
  have start: "mt_agents (wo_meta demo_start) = mt_agents (seed_runtime_agents (\<lambda>n. 7) meta_new)"
      "conversations demo_start = []" "ms_teams (wo_teams demo_start) = []" "wo_draws demo_start = 0"
    by (simp_all add: demo_start_def demo_world_def conv_new_def memory_new_def)
  have ids: "we_ids demo_app = (\<lambda>n. CHR ''i'' # replicate n CHR ''x'')" by (simp add: demo_app_def demo_worldly_def)
  have "inj (we_ids demo_app)" by (auto simp: ids inj_def dest: arg_cong [where f = length])
  moreover have "keeps_letters (we_unicode demo_app)" "plain_kept (we_unicode demo_app)"
    by (simp_all add: demo_app_def demo_worldly_def keeps_letters_def plain_kept_def)
  moreover have "\<exists>text. we_agents_to demo_app agents = Inr text" for agents by (simp add: demo_app_def)
  moreover have "one_lead (we_unicode demo_app) (tq_agents demo_wish)" by code_simp
  moreover have "tq_workspace demo_wish = None" by (simp add: demo_wish_def)
  moreover have "\<forall>x \<in> set (tq_agents demo_wish). in_catalog (ai_assistant_id x) \<and> ai_conversation_id x = None"
    by (auto simp: demo_wish_def demo_inputs_def demo_input_def in_catalog_def default_catalog_def)
  ultimately show ?thesis
    using team_of_the_catalog_is_made [OF start(1), where we = demo_app] start ids by simp
qed

end
