(* ===== verification/Adapter_Claims.thy ===== *)
theory Adapter_Claims
  imports Turn_Adapter Team_Seed
begin

text \<open>
  The turn port of the application (crates/team/src/acp_turn_adapter.rs): a turn is over when it
  returns, and an agent runs on the backend and in the directory that provisioning chose for it.
\<close>

subsection \<open>Turns\<close>

abbreviation turn_key :: "'j adapter \<Rightarrow> turn_request \<Rightarrow> turn_world \<Rightarrow> ident \<times> ident" where
  "turn_key ad req w \<equiv> (tq_conversation_id req, ad_ids ad (td_draws w))"

definition announced_world ::
  "'j adapter \<Rightarrow> turn_request \<Rightarrow> (turn_started \<Rightarrow> turn_world \<Rightarrow> turn_world) \<Rightarrow> turn_world \<Rightarrow> turn_world" where
  "announced_world ad req announce w =
     announce
       \<lparr>ts_team_run_id = tq_team_run_id req, ts_slot_id = tq_slot_id req, ts_role = tq_role req,
        ts_conversation_id = tq_conversation_id req, ts_turn_id = ad_ids ad (td_draws w)\<rparr>
       (w\<lparr>td_draws := Suc (td_draws w), td_active := AList.update (turn_key ad req w) False (td_active w)\<rparr>)"

lemma forgotten: "key \<notin> fst ` set (td_active (forget_turn key w))"
  by (auto simp: forget_turn_def)

lemma shown_active [simp]: "td_active (show_answer ad key text w) = td_active w"
  by (simp add: show_answer_def persist_assistant_text_def Let_def)

lemma forget_keeps [simp]:
  "td_conversations (forget_turn key w) = td_conversations w" "td_broadcast (forget_turn key w) = td_broadcast w"
  by (simp_all add: forget_turn_def)

lemma concluded:
  assumes "conclude_turn ad key backend r w = (r', w')" and "key \<notin> fst ` set (td_active w)"
  shows "key \<notin> fst ` set (td_active w') \<and>
    (\<forall>outcome. r' = Inr outcome \<longrightarrow> (to_conversation_id outcome, to_turn_id outcome) = key \<and>
       (\<forall>text. to_status outcome = TurnCompleted \<and> to_response_text outcome = Some text \<longrightarrow>
          td_broadcast w' = td_broadcast w @ [(fst key, snd key, text)]))"
  using assms
  by (auto simp: conclude_turn_def turn_outcome_of_def some_text_def show_answer_def persist_assistant_text_def Let_def
      split: sum.splits agent_error.splits if_splits)

text \<open>C24: A turn of an agent is over when the port returns, whatever happened: its cancel flag is gone.
  Cancelled while it was announced, it starts nothing and ends as failed; an outcome names the
  conversation and the turn, and a text is shown exactly when the turn completed with one.\<close>

theorem turn_is_over_when_it_returns:
  assumes "run_agent_turn ad req announce w = (r, w')"
  shows "turn_key ad req w \<notin> fst ` set (td_active w') \<and>
    (flag_on (turn_key ad req w) (announced_world ad req announce w) \<longrightarrow>
       r = Inr (turn_outcome_of (turn_key ad req w) TurnStatusFailed None None) \<and>
       w' = forget_turn (turn_key ad req w) (announced_world ad req announce w)) \<and>
    (\<forall>outcome. r = Inr outcome \<longrightarrow> (to_conversation_id outcome, to_turn_id outcome) = turn_key ad req w \<and>
       (\<forall>text. to_status outcome = TurnCompleted \<and> to_response_text outcome = Some text \<longrightarrow>
          last (td_broadcast w') = (to_conversation_id outcome, to_turn_id outcome, text)))"
proof -
  let ?key = "turn_key ad req w" and ?w1 = "announced_world ad req announce w"
  let ?backend = "resolve_backend ad (tq_conversation_id req) ?w1"
  let ?input = "\<lparr>an_backend = ?backend, an_workspace = resolve_workspace ad (tq_conversation_id req) ?w1, an_prompt = tq_content req\<rparr>"
  consider (cancelled) "flag_on ?key ?w1" "r = Inr (turn_outcome_of ?key TurnStatusFailed None None)" "w' = forget_turn ?key ?w1"
    | (unsupported) "\<not> flag_on ?key ?w1" "r = Inl (TurnFailed (''unsupported ACP backend: '' @ ?backend))" "w' = forget_turn ?key ?w1"
    | (ran) r0 w2 where "\<not> flag_on ?key ?w1" "ad_run ad ?input ?key ?w1 = (r0, w2)"
        "conclude_turn ad ?key ?backend r0 (forget_turn ?key w2) = (r, w')"
    using assms unfolding run_agent_turn_def announced_world_def Let_def
    by (auto split: if_splits prod.splits)
  then show ?thesis
  proof cases
    case cancelled
    then show ?thesis using forgotten [of ?key ?w1] by (simp add: turn_outcome_of_def)
  next
    case unsupported
    then show ?thesis using forgotten [of ?key ?w1] by simp
  next
    case ran
    show ?thesis using concluded [OF ran(3) forgotten] ran(1) by auto
  qed
qed

definition demo_adapter :: "string adapter" where
  "demo_adapter =
     \<lparr>ad_json = text_json, ad_unicode = we_unicode demo_worldly, ad_which = (\<lambda>_. None), ad_is_dir = (\<lambda>_. True),
      ad_make_dir = (\<lambda>_. None), ad_ids = (\<lambda>n. CHR ''m'' # replicate n CHR ''x''), ad_clock = (\<lambda>n. 7),
      ad_default_backend = ''grok'', ad_default_workspace = ''/w'',
      ad_run = (\<lambda>input key w. (Inr \<lparr>ar_session_id = None, ar_response_text = ''done'', ar_updates = 1, ar_stop_reason = None,
        ar_cancelled = False\<rparr>, w))\<rparr>"

definition demo_turn :: turn_request where
  "demo_turn =
     \<lparr>tq_team_run_id = None, tq_team_id = ''t1'', tq_slot_id = ''s1'', tq_role = RoleTeammate, tq_conversation_id = ''ixxx'',
      tq_user_id = ''u1'', tq_content = ''go'', tq_files = [], tq_unread_message_ids = [], tq_unread_count = 0\<rparr>"

definition demo_idle :: turn_world where
  "demo_idle = \<lparr>td_active = [], td_conversations = conv_new, td_broadcast = [], td_draws = 0\<rparr>"

lemma demo_ran:
  "(case run_agent_turn demo_adapter demo_turn (\<lambda>_ w. w) demo_idle of
      (Inr outcome, _) \<Rightarrow> to_status outcome = TurnCompleted \<and> to_response_text outcome = Some ''done'' | _ \<Rightarrow> False)"
  by code_simp

theorem turn_is_over_when_it_returns_witness:
  "\<exists>outcome w'. run_agent_turn demo_adapter demo_turn (\<lambda>_ w. w) demo_idle = (Inr outcome, w') \<and>
     (''ixxx'', ''m'') \<notin> fst ` set (td_active w') \<and> last (td_broadcast w') = (''ixxx'', ''m'', ''done'')"
proof -
  obtain outcome w' where run: "run_agent_turn demo_adapter demo_turn (\<lambda>_ w. w) demo_idle = (Inr outcome, w')"
      "to_status outcome = TurnCompleted" "to_response_text outcome = Some ''done''"
    using demo_ran by (auto split: prod.splits sum.splits)
  have "turn_key demo_adapter demo_turn demo_idle = (''ixxx'', ''m'')"
    by (simp add: demo_adapter_def demo_turn_def demo_idle_def)
  with turn_is_over_when_it_returns [OF run(1)] run show ?thesis by auto
qed

subsection \<open>Backend and directory\<close>

lemma team_extra_backend:
  "map_of (build_team_extra uc vo team_id slot_id role backend model assistant_id ws t metadata mode) ''backend'' =
     Some (jv_str vo backend)"
  "map_of (build_team_extra uc vo team_id slot_id role backend model assistant_id ws t metadata mode) ''execution_backend'' = None"
  "map_of (build_team_extra uc vo team_id slot_id role backend model assistant_id ws t metadata mode) ''assistant_backend'' = None"
  by (simp_all add: build_team_extra_def inherit_team_workspace_def Let_def del: map_of_eq_Some_iff split: option.split)

definition routed :: "('j, 'st) provision_env \<Rightarrow> new_agent \<Rightarrow> agent_type \<Rightarrow> bool" where
  "routed pv na t \<longleftrightarrow> t = Acp \<and> should_route_model_to_claude (pv_unicode pv) (na_backend na) (na_model na)"

lemma extra_backend:
  "map_of (conversation_extra pv na t metadata) ''backend'' = Some (jv_str (pv_values pv) (na_backend na))"
  "map_of (conversation_extra pv na t metadata) ''execution_backend'' =
     (if routed pv na t then Some (jv_str (pv_values pv) ''claude'') else None)"
  "map_of (conversation_extra pv na t metadata) ''assistant_backend'' = None"
  by (simp_all add: conversation_extra_def route_to_claude_def routed_def team_extra_backend Let_def del: map_of_eq_Some_iff)

lemma stored_map:
  "k \<notin> {''workspace'', ''assistant_id''} \<Longrightarrow> map_of (stored_extra we ws request) k = map_of (qc_extra request) k"
  "map_of (stored_extra we ws request) ''workspace'' = Some (jv_str (tj_values (we_json we)) ws)"
  by (auto simp: stored_extra_def Let_def simp del: map_of_eq_Some_iff split: option.split)

text \<open>C22: An agent runs where and as it was provisioned: a turn in its conversation uses claude if its
  model belongs there, otherwise the agent's own backend if there is a command for it, and
  otherwise the backend that is configured as the default; and its process works in the
  workspace of the conversation, if that directory exists.\<close>

theorem member_runs_as_provisioned:
  assumes "world_ok we (na_team_id na)" and "plain_kept (we_unicode we)"
    and "\<And>s. uc_trim (we_unicode we) (uc_trim (we_unicode we) s) = uc_trim (we_unicode we) s"
    and "create_team_conversation_for_agent (world_provision we) na w = Some (Inr created, w')"
    and "ad_json ad = we_json we" and "ad_unicode ad = we_unicode we" and "td_conversations tw = wo_conversations w'"
  shows "\<exists>metadata t. acp_backend_metadata (world_provision we) (na_backend na) w = Some (Inr metadata, w) \<and>
    runtime_agent_type (world_provision we) (na_backend na) metadata w = Some (Inr t, w) \<and>
    resolve_backend ad (nc_conversation_id created) tw =
      (if routed (world_provision we) na t then ''claude''
       else if for_backend (we_unicode we) (ad_which ad) (na_backend na) \<noteq> None
       then to_ascii_lowercase (uc_trim (we_unicode we) (na_backend na)) else ad_default_backend ad) \<and>
    (ad_is_dir ad (uc_trim (we_unicode we) (nc_workspace created)) \<longrightarrow>
       resolve_workspace ad (nc_conversation_id created) tw = uc_trim (we_unicode we) (nc_workspace created))"
proof -
  let ?pv = "world_provision we" and ?vo = "tj_values (we_json we)" and ?uc = "we_unicode we" and ?i = "nc_conversation_id created"
  have laws: "value_laws ?vo" and reads: "\<And>v. tj_from_str (we_json we) (tj_to_string (we_json we) v) = Inr v"
    and letters: "keeps_letters ?uc"
    using assms(1) by (simp_all add: world_ok_def speaks_json_def)
  obtain metadata w1 t w2 where meta: "acp_backend_metadata ?pv (na_backend na) w = Some (Inr metadata, w1)"
    and type: "runtime_agent_type ?pv (na_backend na) metadata w1 = Some (Inr t, w2)"
    and run: "create_team_conversation we (conversation_request_of ?pv na t metadata) w2 = Some (Inr created, w')"
    using assms(4) by (auto simp: create_team_conversation_for_agent_def act_cases)
  have w: "w1 = w" "w2 = w" using metadata_read [OF meta] type_read [OF type] by simp_all
  let ?request = "conversation_request_of ?pv na t metadata"
  let ?extra = "stored_extra we (nc_workspace created) ?request"
  obtain t1 t2 where ws: "nc_workspace created = chosen_workspace we ?i (qc_extra ?request)"
    and new: "?i \<notin> cv_id ` set (conversations w)"
    and stored: "conversations w' = conversations w @ [conversation_row_of we ?i (nc_workspace created) t1 t2 ?request]"
    using conversation_created [OF run] unfolding w by blast
  have "find (\<lambda>c. cv_id c = ?i) (conversations w) = None" using new by (auto simp: find_None_iff image_iff)
  then have "conv_get ?i (td_conversations tw) = Inr (Some (conversation_row_of we ?i (nc_workspace created) t1 t2 ?request))"
    using stored assms(7) by (simp add: conv_get_def find_append conversation_row_of_def)
  then have read: "extra_value ad ?i tw = Some (jv_obj ?vo ?extra)"
    by (simp add: extra_value_def conversation_row_of_def entries_text_def assms(5) reads)
  have extra: "qc_extra ?request = conversation_extra ?pv na t metadata" by (simp add: conversation_request_of_def)
  have says: "says ?vo na ?extra"
    using conversation_extra_says [of ?pv na t metadata] extra by (intro stored_extra_says) simp
  then have get: "jv_get ?vo k (jv_obj ?vo ?extra) = map_of ?extra k" for k by (simp add: value_get [OF laws] says_def)
  have field: "trimmed_field ad (jv_obj ?vo ?extra) k = nonblank ?uc (Option.bind (map_of ?extra k) (jv_as_str ?vo))" for k
    by (simp add: trimmed_field_def assms(5,6) get)
  have blank: "uc_trim ?uc (nc_workspace created) \<noteq> []" unfolding ws by (rule workspace_nonblank [OF letters])
  have claude: "uc_trim ?uc ''claude'' = ''claude''" using assms(2) by (simp add: plain_kept_def)
  have for_trimmed: "for_backend ?uc which (uc_trim ?uc b) = for_backend ?uc which b" for which b
    by (simp add: for_backend_def assms(3))
  have "for_backend ?uc which b = None" if "uc_trim ?uc b = []" for which b
    using that by (simp add: for_backend_def to_ascii_lowercase_def)
  moreover have "for_backend ?uc which ''claude'' \<noteq> None" for which
    by (simp add: for_backend_def claude to_ascii_lowercase_def ascii_lower_def)
  moreover have "to_ascii_lowercase ''claude'' = ''claude''" by (simp add: to_ascii_lowercase_def ascii_lower_def)
  ultimately have "resolve_backend ad ?i tw =
      (if routed ?pv na t then ''claude''
       else if for_backend ?uc (ad_which ad) (na_backend na) \<noteq> None
       then to_ascii_lowercase (uc_trim ?uc (na_backend na)) else ad_default_backend ad)"
    using claude
    by (auto simp: resolve_backend_def read field stored_map extra extra_backend value_str [OF laws] nonblank_def
        List.map_filter_simps assms(6) for_trimmed)
  moreover have "resolve_workspace ad ?i tw = uc_trim ?uc (nc_workspace created)"
    if "ad_is_dir ad (uc_trim ?uc (nc_workspace created))"
    using that blank by (simp add: resolve_workspace_def read field stored_map value_str [OF laws] nonblank_def)
  ultimately show ?thesis using meta type w by blast
qed

text \<open>An example: a worker of grok whose model is one of claude.\<close>

definition demo_routed :: new_agent where
  "demo_routed =
     \<lparr>na_user_id = ''u1'', na_team_id = ''t1'', na_slot_id = ''s1'', na_name = ''Gil'', na_role = Teammate, na_backend = ''grok'',
      na_model = ''sonnet'', na_assistant_id = None, na_workspace = Some ''/d'', na_session_mode = None\<rparr>"

lemma demo_routed_made:
  "(case create_team_conversation_for_agent (world_provision demo_worldly) demo_routed demo_world of
      Some (Inr created, _) \<Rightarrow> nc_workspace created = ''/d'' | _ \<Rightarrow> False)"
  "(case acp_backend_metadata (world_provision demo_worldly) (na_backend demo_routed) demo_world of
      Some (Inr metadata, _) \<Rightarrow> metadata \<noteq> None | _ \<Rightarrow> False)"
  "should_route_model_to_claude (pv_unicode (world_provision demo_worldly)) (na_backend demo_routed) (na_model demo_routed)"
  by code_simp+

theorem member_runs_as_provisioned_witness:
  "\<exists>created w'. create_team_conversation_for_agent (world_provision demo_worldly) demo_routed demo_world = Some (Inr created, w') \<and>
     resolve_backend demo_adapter (nc_conversation_id created) (demo_idle\<lparr>td_conversations := wo_conversations w'\<rparr>) = ''claude'' \<and>
     resolve_workspace demo_adapter (nc_conversation_id created) (demo_idle\<lparr>td_conversations := wo_conversations w'\<rparr>) = ''/d''"
proof -
  obtain created w' where run: "create_team_conversation_for_agent (world_provision demo_worldly) demo_routed demo_world = Some (Inr created, w')"
      and ws: "nc_workspace created = ''/d''"
    using demo_routed_made(1) by (auto split: option.splits prod.splits sum.splits)
  have ok: "world_ok demo_worldly (na_team_id demo_routed)" by (simp add: demo_routed_def demo_world_ok)
  have plain: "plain_kept (we_unicode demo_worldly)" and trim: "uc_trim (we_unicode demo_worldly) s = s" for s
    by (simp_all add: demo_worldly_def plain_kept_def)
  let ?tw = "demo_idle\<lparr>td_conversations := wo_conversations w'\<rparr>"
  obtain metadata t where meta: "acp_backend_metadata (world_provision demo_worldly) (na_backend demo_routed) demo_world = Some (Inr metadata, demo_world)"
    and type: "runtime_agent_type (world_provision demo_worldly) (na_backend demo_routed) metadata demo_world = Some (Inr t, demo_world)"
    and backend: "resolve_backend demo_adapter (nc_conversation_id created) ?tw =
      (if routed (world_provision demo_worldly) demo_routed t then ''claude''
       else if for_backend (we_unicode demo_worldly) (ad_which demo_adapter) (na_backend demo_routed) \<noteq> None
       then to_ascii_lowercase (uc_trim (we_unicode demo_worldly) (na_backend demo_routed)) else ad_default_backend demo_adapter)"
    and dir: "ad_is_dir demo_adapter (uc_trim (we_unicode demo_worldly) (nc_workspace created)) \<longrightarrow>
      resolve_workspace demo_adapter (nc_conversation_id created) ?tw = uc_trim (we_unicode demo_worldly) (nc_workspace created)"
    using member_runs_as_provisioned [OF ok plain _ run, of demo_adapter ?tw] trim
    by (auto simp: demo_adapter_def demo_worldly_def)
  have "metadata \<noteq> None" using demo_routed_made(2) meta by simp
  then have "t = Acp" using type by (simp add: runtime_agent_type_def)
  then have "routed (world_provision demo_worldly) demo_routed t" using demo_routed_made(3) by (simp add: routed_def)
  with run ws backend dir trim show ?thesis by (auto simp: demo_adapter_def)
qed

end
