(* ===== verification/Spec2Isabelle.thy ===== *)
theory Spec2Isabelle
  imports Work_Claims Work_Claims_Queue Work_Claims_Control Team_Run_Claims Member_Runtime_Claims
    Task_Board_Claims Scheduler_Claims_Agents Wake_Summary_Claims
    Message_Projection_Claims Team_Prompts Session_Attach Service_Claims Runtime_Claims Adapter_Claims
begin

text \<open>
  This development models the core of Team-Lite, a server in which a team of coding agents
  (one lead, several teammates) works on a user's request: the crate src/crates/team with
  what it needs of src/crates/store, src/crates/api-types, src/crates/team-prompts,
  src/crates/acp and src/crates/app. File names below without a directory are in
  src/crates/team/src/.

  \<^bold>\<open>The program.\<close> A team session (session.rs) holds the members' shared objects. Messages
  between the user and the agents go through a mailbox (mailbox.rs); agents plan on a task board
  (task_board.rs); both are stored by a repository (store/src/team_repo.rs). The scheduler
  (scheduler/) keeps the agents and their statuses. The slot work coordinator
  (work_coordinator/) decides which agent works on what: every piece of work is an intent in
  a queue of the slot of its agent, claimed in batches, and bound to a run of the team when
  it comes from the user. The run manager (team_run/manager.rs) is told by the coordinator
  what work a run has left and announces its progress. The member runtime registry
  (member_runtime.rs) knows which agent processes are there. An event loop per agent
  (event_loop.rs) claims the next batch, gives it to the agent as a turn through the turn
  port (ports.rs), and concludes it. Agents act on the team by tools, which they call on the
  MCP server of the session (mcp/) or on the command line; the user and the tools reach the
  session through the team session service (service.rs), which checks who owns a team, starts
  and stops its session and keeps the history of the group chat.

  \<^bold>\<open>Modelling.\<close> A struct is a record, an enum a datatype, with the constructors of the source;
  an operation is one function, from the state of its object to its result and the new state,
  with every early return and error as a branch. \<open>Result\<close> is a sum with the error on the left,
  a panic (\<open>expect\<close>, \<open>unwrap\<close>) is \<open>None\<close> (Team_Action). An operation that holds one lock for
  its whole body is atomic. A method of the session that awaits several operations runs them
  one after the other; other tasks come in between at the two places where it waits for long:
  during a turn of an agent (the steps \<open>Meanwhile\<close> of Turn_Loop) and while a process of an
  agent starts (\<open>at_meanwhile\<close> of Session_Members). The coordinator, the run manager and the
  member runtime registry are in addition proved for every interleaving of their operations, as
  step relations (Work_Reachable, Team_Run_Claims, Member_Runtime_Claims). Hash maps are
  association lists with distinct keys, whose order the theorems do not use; times, counters and
  \<open>u64\<close> values wrap or saturate where the code does. The service is modelled on one team: its
  locks per team make each of its methods one sequence of steps, on the state of the session
  object with the repository in it.

  \<^bold>\<open>Theories and sources.\<close>

  \<^item> Team_Prelude, Text_Format, Team_Errors, Team_Action: containers, loops, texts, the errors
    (error.rs, store/src/error.rs), actions that may fail or panic, and the rules by which the
    proofs go through them (\<open>ensures\<close> total, \<open>leaves\<close> partial).
  \<^item> Team_Types, Json_Value, Team_Repo, Conversation_Repo: domain types and rows (types.rs,
    store/src/models.rs), JSON values, the repositories in memory (store/src/team_repo.rs,
    store/src/conversation_repo.rs).
  \<^item> Work_Model, Work_State, Work_Coordinator, Work_Control: work_coordinator/ and
    work_source.rs. \<open>coordinator\<close> is \<open>CoordinatorState\<close>; its operations are named as the methods.
    Work_Invariant, Work_Preservation and Work_Preservation_Control hold the invariant \<open>coord_inv\<close>
    and one preservation lemma per operation, Work_Reachable the step relation, Work_Commit
    what holders of a batch may do, Work_Claims a worked example.
  \<^item> Team_Run: team_run/manager.rs and the run events of events.rs; Run_Causality the contract
    between it and the coordinator as a locale, interpreted for the run manager.
  \<^item> Member_Runtime: member_runtime.rs; Owned_Commit the contract of leases that are committed
    once, interpreted for the coordinator's batches and for the registry's leases.
  \<^item> Mailbox, Mailbox_Delivery, Task_Board: mailbox.rs and task_board.rs over any repository;
    locales state what they need of it, interpreted for the repository in memory.
  \<^item> Crash_Detection, Scheduler, Scheduler_Actions: crash_detection.rs, scheduler/.
  \<^item> Message_Projection: visibility.rs, message_projection.rs and the adapter to the
    conversations in app/src/adapters.rs.
  \<^item> Tool_Specs, Wake_Summary, Team_Prompts: api-types/src/team_tools.rs,
    team-prompts/src/, prompts/.
  \<^item> Mcp_Protocol, Tool_Inputs, Tool_Executor, Mcp_Server: mcp/protocol.rs (frames as bytes,
    requests and responses), mcp/tools.rs (the inputs of the tools as \<open>serde\<close> reads them),
    tool_executor.rs with every tool of mcp/server.rs, and the two endpoints of mcp/server.rs.
    Tool_Calls holds the locale \<open>tool_service\<close>: what the tools need of the service they call
    so that they keep an invariant.
  \<^item> Team_Service, Service_Messages, Service_Teams: service.rs on one team, with
    runtime_tools.rs, the part of service/spawn_support.rs that reaches the session and the leases
    of acp/src/lib.rs. Service_Safety proves that every method keeps \<open>session_ok\<close>, and interprets
    \<open>tool_service\<close> for the service the tools run against (\<open>session_service\<close>).
  \<^item> Agent_Metadata, Provisioning, Provision_Team: store/src/metadata_repo.rs with the rows of
    agents and assistants, provisioning.rs, workspace.rs, the capabilities of backends
    (team-common/src/constants.rs), the requests and the binding of a conversation
    (api-types/src/team.rs). Conversation_Ports: the ports of provisioning in the application
    (app/src/adapters.rs). Team_Creation, Service_Agents: creating, listing and answering teams,
    adding agents by hand and session modes (service.rs, service/). Team_Seed: app/src/seed.rs.
  \<^item> Turn_Adapter: the turn port of the application (acp_turn_adapter.rs, acp/src/launch.rs).
  \<^item> Team_Session, Session_Messages, Session_Control, Session_Members: session.rs, with the parts
    of service.rs a member's start needs, and the registry of event_loop.rs; Turn_Loop:
    event_loop.rs and ports.rs.
    Session_Safety and Session_Calls hold the session's invariant \<open>session_ok\<close> and one rule per
    method; Session_Drive any sequence of calls; Session_Leases the same for enqueue leases.

  \<^bold>\<open>What is shown.\<close>

  \<^item> Coordinator (Work_Claims, Work_Claims_Queue, Work_Claims_Control): in every reachable state
    the intents, queues and active batches agree and nothing panics; what a claim takes, what
    each operation does to the work of a slot or a run, and that a batch is concluded at most once.
  \<^item> Runs (Work_Claims, Run_Causality, Team_Run_Claims): a run ends exactly when its work is done,
    is accepted once, and how a cancellation ends.
  \<^item> Member runtimes (Member_Runtime_Claims): whoever waits for an attach is answered once and
    finally, attaches and removals are concluded once, by their owner.
  \<^item> Mailbox and board (Mailbox_Claims, Task_Board_Claims): exactly-once delivery, round trip of
    a message through its row, refinement of an abstract graph of tasks, agreeing dependencies.
  \<^item> Scheduler (Scheduler_Claims, Scheduler_Claims_Agents): ends of turns, wakes, names, crashes.
  \<^item> Texts (Wake_Summary_Claims, Message_Projection_Claims): bounds and order of the summary, one
    projection per key, no system note shown.
  \<^item> Session (Session_Claims, Session_Attach): no sequence of calls panics or leaves a lease open; a
    turn gets the mail its batch claimed; every turn concludes its batch; every start of a
    process concludes its attach.
  \<^item> Tools (Mcp_Protocol, Server_Claims, Tool_Claims): every request is answered, nothing is
    reached without the token, what is offered is what is allowed, both endpoints agree.
  \<^item> Service (Service_Claims): ownership, archived teams, the group chat, idle clean-up, and a
    removal that fails.
  \<^item> Teams (Provision_Claims, Creation_Claims, Runtime_Claims, Team_Seed, Adapter_Claims): who is in
    a new team, what is stored of it, where its members work and what their conversations say;
    that every request for the catalogue's assistants is granted; how a turn of an agent ends
    and on which backend it runs.

  \<^bold>\<open>Parameters and hypotheses.\<close> Code that is not in the repository is an argument.
  \<open>json_laws\<close> and \<open>value_laws\<close>: what \<open>serde_json\<close> prints it reads back, and how objects are
  read; Json_Value has an instance. \<open>watch_laws\<close>: the channels of tokio keep the last value
  sent; \<open>list_watch\<close> is an instance. \<open>unicode_ops\<close>: trimming and case of characters outside
  ASCII. \<open>ids_fresh\<close>: generated identifiers differ. \<open>speaks_json\<close>,
  \<open>keeps_letters\<close>, \<open>plain_kept\<close>: what provisioning needs of \<open>serde_json\<close> and of trimming;
  \<open>text_json\<close> is an instance (Provision_Claims). The regular expression of crash detection,
  the clock, the process of an agent (\<open>attach_world\<close>, \<open>spawn_world\<close>), cancelling a turn, and
  the turn port are arguments without any law, and so are the processes the service starts and
  the JSON text of agents and of group messages (\<open>service_env\<close>); what others do meanwhile is only assumed to
  keep the invariants, as every sequence of calls of the session does (\<open>meanwhile_served_ok\<close>).

  \<^bold>\<open>Bounds and fuel.\<close> Loops over collections are folds or structural recursion. The loop of an
  agent (\<open>drain\<close>) runs for as long as there is work; it gets the list of the answers of the
  port, one per round, and says whether it stopped of itself before the list ended.

  \<^bold>\<open>Not modelled.\<close> Child processes and their protocol (acp, except the stream events of crash
  detection, the leases and the commands of the backends), the bridge process of the tools and
  its ready notification, the HTTP routes and the wiring of the server (app), prompt dumps,
  restoring all sessions at start and the configuration options of an agent process (service.rs),
  broadcast events to the web client beyond those named above, authentication and the web client:
  they are I/O around the parts above or plain data. Log output is left out everywhere.
\<close>

end
